(* ===== verification/Prelude.thy ===== *)
theory Prelude
  imports Main "HOL-Library.Word" "HOL-Library.While_Combinator"
begin

text \<open>
  The prelude of the development: the machine types of the C sources as type synonyms, the
  constants of \<^verbatim>\<open>stdint.h\<close> the code uses, and generic lemmas on lists, masks and cyclic
  indices that several components share.
\<close>

unbundle bit_operations_syntax

type_synonym u8 = "8 word"
type_synonym u16 = "16 word"
type_synonym u32 = "32 word"
type_synonym u64 = "64 word"

text \<open>A pointer argument that the code compares with NULL: \<^const>\<open>None\<close> is NULL.\<close>

type_synonym 'a ptr = "'a option"

text \<open>
  A \<open>size_t\<close> that only indexes an array is a \<^typ>\<open>nat\<close>; where its overflow matters the
  component uses \<^typ>\<open>u64\<close> instead.
\<close>

type_synonym size_t = nat

definition SIZE_MAX :: size_t where
  "SIZE_MAX = 18446744073709551615"

definition UINT64_MAX :: u64 where
  "UINT64_MAX = - 1"

definition UINT32_MAX :: u32 where
  "UINT32_MAX = - 1"

definition INT32_MAX :: int where
  "INT32_MAX = 2147483647"

named_theorems const_defs \<open>definitions of numeric constants of the sources\<close>

declare SIZE_MAX_def [const_defs] UINT64_MAX_def [const_defs]
  UINT32_MAX_def [const_defs] INT32_MAX_def [const_defs]

section \<open>Masks and cyclic indices\<close>

lemma and_pow2_mask_nat: "(x::nat) AND (2 ^ k - 1) = x mod 2 ^ k"
proof -
  have "x AND (2 ^ k - 1) = x AND mask k" by (simp add: mask_eq_exp_minus_1)
  then show ?thesis by (simp add: take_bit_eq_mod flip: take_bit_eq_mask)
qed

lemma mod_add_one_left: "((x::nat) mod n + 1) mod n = (x + 1) mod n"
  by (simp add: mod_simps)

lemma cyclic_hits:
  assumes "(0::nat) < n" "s < n"
  shows "\<exists>p<n. (h + p) mod n = s"
proof -
  define p where "p = (s + (n - h mod n)) mod n"
  have hm: "h mod n < n" using assms(1) by simp
  have "(h + p) mod n = (h mod n + (s + (n - h mod n))) mod n"
    by (simp add: p_def mod_simps)
  also have "h mod n + (s + (n - h mod n)) = s + n" using hm by simp
  finally have "(h + p) mod n = s" using assms(2) by simp
  moreover have "p < n" using assms(1) by (simp add: p_def)
  ultimately show ?thesis by blast
qed

section \<open>Lists updated by index\<close>

lemma length_filter_list_update:
  assumes "i < length xs"
  shows "length (filter P (xs[i := y])) + (if P (xs ! i) then 1 else 0)
       = length (filter P xs) + (if P y then 1 else 0)"
  using assms
proof (induction xs arbitrary: i)
  case Nil
  then show ?case by simp
next
  case (Cons x xs)
  show ?case
  proof (cases i)
    case 0
    then show ?thesis by simp
  next
    case (Suc j)
    with Cons.prems Cons.IH [of j] show ?thesis by (auto split: if_splits)
  qed
qed

lemma length_filter_update_on:
  "i < length xs \<Longrightarrow> \<not> P (xs ! i) \<Longrightarrow> P y \<Longrightarrow>
    length (filter P (xs[i := y])) = Suc (length (filter P xs))"
  using length_filter_list_update [of i xs P y] by simp

lemma length_filter_update_off:
  "i < length xs \<Longrightarrow> P (xs ! i) \<Longrightarrow> \<not> P y \<Longrightarrow>
    length (filter P (xs[i := y])) = length (filter P xs) - 1"
  using length_filter_list_update [of i xs P y] by simp

lemma length_filter_update_same:
  "i < length xs \<Longrightarrow> P (xs ! i) = P y \<Longrightarrow>
    length (filter P (xs[i := y])) = length (filter P xs)"
  using length_filter_list_update [of i xs P y] by (simp split: if_splits)

lemma filter_length_pos_iff: "0 < length (filter P xs) \<longleftrightarrow> (\<exists>i<length xs. P (xs ! i))"
  by (auto simp: filter_empty_conv) (metis in_set_conv_nth nth_mem)+

lemma length_filter_lt_iff:
  "length (filter P xs) < length xs \<longleftrightarrow> (\<exists>i<length xs. \<not> P (xs ! i))"
proof -
  have "length (filter P xs) + length (filter (\<lambda>x. \<not> P x) xs) = length xs"
    by (rule sum_length_filter_compl)
  then have "length (filter P xs) < length xs \<longleftrightarrow> 0 < length (filter (\<lambda>x. \<not> P x) xs)"
    by linarith
  then show ?thesis by (simp only: filter_length_pos_iff)
qed

end
