(* ===== verification/Handle_Types.thy ===== *)
theory Handle_Types
  imports Prelude
begin

text \<open>
  The data of the Vortek handle registry
  (\<^verbatim>\<open>vortekrenderer/include/handle_registry.h\<close>, \<^verbatim>\<open>vortekrenderer/src/handle_registry.c\<close>):
  the enums as datatypes with the source's constructors, the structs as records. Record
  fields carry a short prefix per struct because field names are global in the theory.
  Array members are lists; an entry pointer is the index of the entry.
\<close>

type_synonym VortekHandleToken = u64

text \<open>\<open>ROLE_ZERO\<close> is the all-zero value \<^verbatim>\<open>calloc\<close> leaves in an entry that was never
  registered; the header gives the other constants the values 1 to 5.\<close>

datatype VortekHandleRole =
    ROLE_ZERO
  | VORTEK_HANDLE_ROLE_VULKAN
  | VORTEK_HANDLE_ROLE_RESOURCE_MEMORY
  | VORTEK_HANDLE_ROLE_SHADER_MODULE
  | VORTEK_HANDLE_ROLE_XWINDOW_SWAPCHAIN
  | VORTEK_HANDLE_ROLE_WINDOW_ID

datatype VortekHandleStatus =
    VORTEK_HANDLE_OK
  | VORTEK_HANDLE_NULL
  | VORTEK_HANDLE_UNKNOWN
  | VORTEK_HANDLE_STALE
  | VORTEK_HANDLE_WRONG_GENERATION
  | VORTEK_HANDLE_WRONG_ROLE
  | VORTEK_HANDLE_WRONG_TYPE
  | VORTEK_HANDLE_WRONG_OWNER
  | VORTEK_HANDLE_STALE_OWNER
  | VORTEK_HANDLE_INVALID_ARGUMENT
  | VORTEK_HANDLE_CAPACITY
  | VORTEK_HANDLE_EXHAUSTED
  | VORTEK_HANDLE_CLOSED
  | VORTEK_HANDLE_RETIRING
  | VORTEK_HANDLE_WINDOW_REJECTED

text \<open>The object types the registry distinguishes; every other \<^verbatim>\<open>VkObjectType\<close> value is
  \<open>VK_OBJECT_TYPE_OTHER\<close> with its number.\<close>

datatype VkObjectType =
    VK_OBJECT_TYPE_UNKNOWN
  | VK_OBJECT_TYPE_INSTANCE
  | VK_OBJECT_TYPE_PHYSICAL_DEVICE
  | VK_OBJECT_TYPE_DEVICE
  | VK_OBJECT_TYPE_QUEUE
  | VK_OBJECT_TYPE_SEMAPHORE
  | VK_OBJECT_TYPE_COMMAND_BUFFER
  | VK_OBJECT_TYPE_FENCE
  | VK_OBJECT_TYPE_DEVICE_MEMORY
  | VK_OBJECT_TYPE_BUFFER
  | VK_OBJECT_TYPE_IMAGE
  | VK_OBJECT_TYPE_EVENT
  | VK_OBJECT_TYPE_QUERY_POOL
  | VK_OBJECT_TYPE_BUFFER_VIEW
  | VK_OBJECT_TYPE_IMAGE_VIEW
  | VK_OBJECT_TYPE_SHADER_MODULE
  | VK_OBJECT_TYPE_PIPELINE_CACHE
  | VK_OBJECT_TYPE_PIPELINE_LAYOUT
  | VK_OBJECT_TYPE_RENDER_PASS
  | VK_OBJECT_TYPE_PIPELINE
  | VK_OBJECT_TYPE_DESCRIPTOR_SET_LAYOUT
  | VK_OBJECT_TYPE_SAMPLER
  | VK_OBJECT_TYPE_DESCRIPTOR_POOL
  | VK_OBJECT_TYPE_DESCRIPTOR_SET
  | VK_OBJECT_TYPE_FRAMEBUFFER
  | VK_OBJECT_TYPE_COMMAND_POOL
  | VK_OBJECT_TYPE_SAMPLER_YCBCR_CONVERSION
  | VK_OBJECT_TYPE_OTHER int

record VortekHandleOwner =
  own_instance :: VortekHandleToken
  own_device :: VortekHandleToken
  own_parent :: VortekHandleToken

record VortekHandleExpectation =
  exp_contextGeneration :: u64
  exp_role :: VortekHandleRole
  exp_vulkanType :: VkObjectType
  exp_owner :: VortekHandleOwner
  exp_requireInstanceOwner :: bool
  exp_requireDeviceOwner :: bool
  exp_requireParentOwner :: bool
  exp_allowNull :: bool

record VortekHandleValue =
  val_token :: VortekHandleToken
  val_contextGeneration :: u64
  val_role :: VortekHandleRole
  val_vulkanType :: VkObjectType
  val_owner :: VortekHandleOwner
  val_hostValue :: u64
  val_nullDescriptorEnabled :: bool

record VortekHandleEntry =
  ent_token :: VortekHandleToken
  ent_contextGeneration :: u64
  ent_role :: VortekHandleRole
  ent_vulkanType :: VkObjectType
  ent_owner :: VortekHandleOwner
  ent_hostValue :: u64
  ent_nullDescriptorEnabled :: bool
  ent_activeCalls :: u32
  ent_retiring :: bool
  ent_idleWaitClaimed :: bool
  ent_live :: bool
  ent_nextFree :: size_t

record VortekWindowBinding =
  win_instanceOwner :: VortekHandleToken
  win_lifetime :: u64
  win_windowId :: u32

text \<open>
  The registry. The mutex is not a field: every operation of the model is one critical
  section. \<open>windowValidator\<close> and its userdata are the raw pointer values (0 is NULL); what the
  callback answers is an argument of the operation that calls it.
\<close>

record VortekHandleRegistry =
  generation :: u64
  capacity :: size_t
  indexCapacity :: size_t
  freeHead :: size_t
  liveCount :: size_t
  closed :: bool
  entries :: "VortekHandleEntry list"
  tokenIndex :: "size_t list"
  windowBindings :: "VortekWindowBinding list"
  windowBindingCount :: size_t
  windowBindingCapacity :: size_t
  windowValidator :: u64
  windowValidatorUserdata :: u64

text \<open>A lease names its registry by an identity, as the C struct does by a pointer (0 is NULL).\<close>

record VortekDeviceLease =
  lease_registry :: u64
  lease_device :: VortekHandleToken
  lease_contextGeneration :: u64
  lease_hostDeviceBits :: u64
  lease_active :: bool

datatype VortekHandleDrainScope =
    VORTEK_HANDLE_DRAIN_ALL
  | VORTEK_HANDLE_DRAIN_DEVICE
  | VORTEK_HANDLE_DRAIN_INSTANCE

record VortekHandleDrainValue =
  drain_value :: VortekHandleValue
  drain_hostDeviceValue :: u64
  drain_waitDevice :: bool

text \<open>The values \<^verbatim>\<open>memset(p, 0, sizeof *p)\<close> and \<^verbatim>\<open>calloc\<close> produce.\<close>

definition zero_owner :: VortekHandleOwner where
  "zero_owner = \<lparr>own_instance = 0, own_device = 0, own_parent = 0\<rparr>"

definition zero_value :: VortekHandleValue where
  "zero_value = \<lparr>val_token = 0, val_contextGeneration = 0, val_role = ROLE_ZERO,
     val_vulkanType = VK_OBJECT_TYPE_UNKNOWN, val_owner = zero_owner, val_hostValue = 0,
     val_nullDescriptorEnabled = False\<rparr>"

definition zero_entry :: VortekHandleEntry where
  "zero_entry = \<lparr>ent_token = 0, ent_contextGeneration = 0, ent_role = ROLE_ZERO,
     ent_vulkanType = VK_OBJECT_TYPE_UNKNOWN, ent_owner = zero_owner, ent_hostValue = 0,
     ent_nullDescriptorEnabled = False, ent_activeCalls = 0, ent_retiring = False,
     ent_idleWaitClaimed = False, ent_live = False, ent_nextFree = 0\<rparr>"

definition zero_binding :: VortekWindowBinding where
  "zero_binding = \<lparr>win_instanceOwner = 0, win_lifetime = 0, win_windowId = 0\<rparr>"

definition zero_lease :: VortekDeviceLease where
  "zero_lease = \<lparr>lease_registry = 0, lease_device = 0, lease_contextGeneration = 0,
     lease_hostDeviceBits = 0, lease_active = False\<rparr>"

definition zero_drain_value :: VortekHandleDrainValue where
  "zero_drain_value = \<lparr>drain_value = zero_value, drain_hostDeviceValue = 0,
     drain_waitDevice = False\<rparr>"

text \<open>The struct literal three operations fill a value with from an entry.\<close>

definition value_of_entry :: "u64 \<Rightarrow> VortekHandleEntry \<Rightarrow> VortekHandleValue" where
  "value_of_entry gen e = \<lparr>val_token = ent_token e, val_contextGeneration = gen,
     val_role = ent_role e, val_vulkanType = ent_vulkanType e, val_owner = ent_owner e,
     val_hostValue = ent_hostValue e, val_nullDescriptorEnabled = ent_nullDescriptorEnabled e\<rparr>"

fun VortekHandleStatus_name :: "VortekHandleStatus \<Rightarrow> string" where
  "VortekHandleStatus_name VORTEK_HANDLE_OK = ''ok''"
| "VortekHandleStatus_name VORTEK_HANDLE_NULL = ''null''"
| "VortekHandleStatus_name VORTEK_HANDLE_UNKNOWN = ''unknown''"
| "VortekHandleStatus_name VORTEK_HANDLE_STALE = ''stale''"
| "VortekHandleStatus_name VORTEK_HANDLE_WRONG_GENERATION = ''wrong-generation''"
| "VortekHandleStatus_name VORTEK_HANDLE_WRONG_ROLE = ''wrong-role''"
| "VortekHandleStatus_name VORTEK_HANDLE_WRONG_TYPE = ''wrong-type''"
| "VortekHandleStatus_name VORTEK_HANDLE_WRONG_OWNER = ''wrong-owner''"
| "VortekHandleStatus_name VORTEK_HANDLE_STALE_OWNER = ''stale-owner''"
| "VortekHandleStatus_name VORTEK_HANDLE_INVALID_ARGUMENT = ''invalid-argument''"
| "VortekHandleStatus_name VORTEK_HANDLE_CAPACITY = ''capacity''"
| "VortekHandleStatus_name VORTEK_HANDLE_EXHAUSTED = ''exhausted''"
| "VortekHandleStatus_name VORTEK_HANDLE_CLOSED = ''closed''"
| "VortekHandleStatus_name VORTEK_HANDLE_RETIRING = ''retiring''"
| "VortekHandleStatus_name VORTEK_HANDLE_WINDOW_REJECTED = ''window-rejected''"

end
