(* ===== verification/Token_Index.thy ===== *)
theory Token_Index
  imports Handle_Types
begin

text \<open>
  The token index of the handle registry: an open-addressing hash table with linear probing
  and tombstones, from tokens to entry numbers. A slot of \<open>tokenIndex\<close> holds 0 (empty),
  \<^const>\<open>SIZE_MAX\<close> (tombstone) or an entry number plus one, as the C array does.
  The lemmas show that on a well-formed index the probe loops implement the map from live
  tokens to entries, and that insertion always finds a slot.
\<close>

section \<open>Hashing and sizing\<close>

definition hashToken :: "VortekHandleToken \<Rightarrow> u64" where
  "hashToken token =
     (let token = token XOR drop_bit 30 token;
          token = token * 0xbf58476d1ce4e5b9;
          token = token XOR drop_bit 27 token;
          token = token * 0x94d049bb133111eb
      in token XOR drop_bit 31 token)"

text \<open>
  Capacities are at most \<open>2 ^ 20\<close> (checked by \<open>VortekHandleRegistry_create\<close>), so neither the
  product nor the shifts leave the range of \<^verbatim>\<open>size_t\<close>.
\<close>

definition indexCapacityFor :: "size_t \<Rightarrow> size_t" where
  "indexCapacityFor cap =
     (let required = cap * 2 in while (\<lambda>result. result < required) (\<lambda>result. push_bit 1 result) 2)"

section \<open>The probe loops\<close>

text \<open>
  \<open>find_slot_loop\<close> is the loop of \<open>findIndexSlotLocked\<close>; its last argument counts the probes
  left (\<^verbatim>\<open>indexCapacity - probe\<close>).
\<close>

fun find_slot_loop ::
  "VortekHandleEntry list \<Rightarrow> size_t list \<Rightarrow> size_t \<Rightarrow> VortekHandleToken \<Rightarrow> size_t \<Rightarrow> nat \<Rightarrow> size_t"
where
  "find_slot_loop es idx msk token slot 0 = SIZE_MAX"
| "find_slot_loop es idx msk token slot (Suc probes) =
     (let encoded = idx ! slot in
      if encoded = 0 then SIZE_MAX
      else if encoded \<noteq> SIZE_MAX \<and> ent_live (es ! (encoded - 1)) \<and>
              ent_token (es ! (encoded - 1)) = token then slot
      else find_slot_loop es idx msk token ((slot + 1) AND msk) probes)"

definition findIndexSlotLocked :: "VortekHandleRegistry \<Rightarrow> VortekHandleToken \<Rightarrow> size_t" where
  "findIndexSlotLocked r token =
     (let msk = indexCapacity r - 1
      in find_slot_loop (entries r) (tokenIndex r) msk token
           (unat (hashToken token) AND msk) (indexCapacity r))"

text \<open>
  \<open>insert_slot_loop\<close> returns the slot the loop of \<open>insertIndexLocked\<close> writes to, \<open>SIZE_MAX\<close> for
  the final \<^verbatim>\<open>return false\<close>.
\<close>

fun insert_slot_loop :: "size_t list \<Rightarrow> size_t \<Rightarrow> size_t \<Rightarrow> size_t \<Rightarrow> nat \<Rightarrow> size_t" where
  "insert_slot_loop idx msk slot firstTombstone 0 = firstTombstone"
| "insert_slot_loop idx msk slot firstTombstone (Suc probes) =
     (let encoded = idx ! slot in
      if encoded = SIZE_MAX \<and> firstTombstone = SIZE_MAX
      then insert_slot_loop idx msk ((slot + 1) AND msk) slot probes
      else if encoded = 0
      then (if firstTombstone \<noteq> SIZE_MAX then firstTombstone else slot)
      else insert_slot_loop idx msk ((slot + 1) AND msk) firstTombstone probes)"

definition insertIndexLocked ::
  "VortekHandleRegistry \<Rightarrow> VortekHandleToken \<Rightarrow> size_t \<Rightarrow> bool \<times> VortekHandleRegistry" where
  "insertIndexLocked r token entryIndex =
     (let msk = indexCapacity r - 1;
          slot = insert_slot_loop (tokenIndex r) msk (unat (hashToken token) AND msk)
                   SIZE_MAX (indexCapacity r)
      in if slot = SIZE_MAX then (False, r)
         else (True, r\<lparr>tokenIndex := (tokenIndex r)[slot := entryIndex + 1]\<rparr>))"

text \<open>The entry pointer of \<open>findLiveLocked\<close> is the entry's number; NULL is \<^const>\<open>None\<close>.\<close>

definition findLiveLocked :: "VortekHandleRegistry \<Rightarrow> VortekHandleToken \<Rightarrow> size_t option" where
  "findLiveLocked r token =
     (let slot = findIndexSlotLocked r token
      in if slot = SIZE_MAX then None else Some (tokenIndex r ! slot - 1))"

section \<open>Sizing is a power of two at least twice the capacity\<close>

lemma indexCapacityFor_props:
  "(\<exists>k. indexCapacityFor cap = 2 ^ k) \<and> 2 * cap \<le> indexCapacityFor cap \<and> 2 \<le> indexCapacityFor cap"
  unfolding indexCapacityFor_def Let_def
proof (rule while_rule [where P = "\<lambda>r. (\<exists>k. r = 2 ^ k) \<and> 2 \<le> r"
      and r = "measure (\<lambda>r. cap * 2 - r)"])
  fix s :: nat
  assume "(\<exists>k. s = 2 ^ k) \<and> 2 \<le> s" "s < cap * 2"
  then show "(\<exists>k. push_bit 1 s = 2 ^ k) \<and> 2 \<le> push_bit 1 s"
    by (auto simp: push_bit_eq_mult) (metis power_Suc2)
qed (auto simp: push_bit_eq_mult intro: exI [of _ 1])

section \<open>Well-formed indices\<close>

definition probe_at :: "nat \<Rightarrow> VortekHandleToken \<Rightarrow> nat \<Rightarrow> nat" where
  "probe_at n token i = (unat (hashToken token) + i) mod n"

definition occupied :: "size_t \<Rightarrow> bool" where
  "occupied v \<longleftrightarrow> v \<noteq> 0 \<and> v \<noteq> SIZE_MAX"

definition slot_holds ::
  "VortekHandleEntry list \<Rightarrow> size_t list \<Rightarrow> VortekHandleToken \<Rightarrow> size_t \<Rightarrow> bool" where
  "slot_holds es idx token s \<longleftrightarrow>
     occupied (idx ! s) \<and> ent_live (es ! (idx ! s - 1)) \<and> ent_token (es ! (idx ! s - 1)) = token"

text \<open>
  The invariant of the index: occupied slots point, one to one, at live entries, and every
  live entry is reached from its token's home slot without crossing an empty slot.
\<close>

definition index_ok :: "VortekHandleEntry list \<Rightarrow> size_t list \<Rightarrow> bool" where
  "index_ok es idx \<longleftrightarrow>
     (\<exists>k. length idx = 2 ^ k) \<and>
     length es < SIZE_MAX \<and> length idx < SIZE_MAX \<and> length es < length idx \<and>
     (\<forall>s<length idx. occupied (idx ! s) \<longrightarrow>
        idx ! s - 1 < length es \<and> ent_live (es ! (idx ! s - 1))) \<and>
     (\<forall>s<length idx. \<forall>s'<length idx. occupied (idx ! s) \<longrightarrow> idx ! s = idx ! s' \<longrightarrow> s = s') \<and>
     (\<forall>j<length es. ent_live (es ! j) \<longrightarrow>
        (\<exists>p<length idx. idx ! probe_at (length idx) (ent_token (es ! j)) p = j + 1 \<and>
           (\<forall>q<p. idx ! probe_at (length idx) (ent_token (es ! j)) q \<noteq> 0))) \<and>
     (\<forall>i<length es. \<forall>j<length es. ent_live (es ! i) \<longrightarrow> ent_live (es ! j) \<longrightarrow>
        ent_token (es ! i) = ent_token (es ! j) \<longrightarrow> i = j)"

lemma probe_at_less [simp]: "0 < n \<Longrightarrow> probe_at n token i < n"
  by (simp add: probe_at_def)

lemma probe_at_start: "n = 2 ^ k \<Longrightarrow> unat (hashToken token) AND (n - 1) = probe_at n token 0"
  by (simp add: and_pow2_mask_nat [unfolded One_nat_def] probe_at_def)

lemma probe_at_step: "n = 2 ^ k \<Longrightarrow> (probe_at n token i + 1) AND (n - 1) = probe_at n token (Suc i)"
  by (simp add: and_pow2_mask_nat [unfolded One_nat_def] probe_at_def mod_Suc_eq)

section \<open>The find loop\<close>

lemma find_slot_loop_hit:
  assumes n: "n = 2 ^ k"
    and hit: "slot_holds es idx token (probe_at n token (i + d))"
    and before: "\<forall>q<d. idx ! probe_at n token (i + q) \<noteq> 0 \<and>
                       \<not> slot_holds es idx token (probe_at n token (i + q))"
    and "d < probes"
  shows "find_slot_loop es idx (n - 1) token (probe_at n token i) probes = probe_at n token (i + d)"
  using hit before \<open>d < probes\<close>
proof (induction d arbitrary: i probes)
  case 0
  then show ?case by (cases probes) (auto simp: slot_holds_def occupied_def Let_def)
next
  case (Suc d)
  from Suc.prems(3) obtain m where m: "probes = Suc m" by (cases probes) auto
  have here: "idx ! probe_at n token i \<noteq> 0" "\<not> slot_holds es idx token (probe_at n token i)"
    using Suc.prems(2) by (auto dest: spec [of _ 0])
  have "find_slot_loop es idx (n - 1) token (probe_at n token (Suc i)) m
      = probe_at n token (Suc i + d)"
    using Suc.prems m by (intro Suc.IH) (auto dest: spec [of _ "Suc _"])
  moreover have "find_slot_loop es idx (n - 1) token (probe_at n token i) probes
      = find_slot_loop es idx (n - 1) token (probe_at n token (Suc i)) m"
    using here by (auto simp: m Let_def slot_holds_def occupied_def
        simp flip: probe_at_step [OF n, unfolded One_nat_def])
  ultimately show ?case by simp
qed

lemma find_slot_loop_miss:
  assumes n: "n = 2 ^ k" and none: "\<forall>s<n. \<not> slot_holds es idx token s"
  shows "find_slot_loop es idx (n - 1) token (probe_at n token i) probes = SIZE_MAX"
proof (induction probes arbitrary: i)
  case 0
  then show ?case by simp
next
  case (Suc m)
  have "\<not> slot_holds es idx token (probe_at n token i)" using none n by simp
  then have "find_slot_loop es idx (n - 1) token (probe_at n token i) (Suc m)
      = (if idx ! probe_at n token i = 0 then SIZE_MAX
         else find_slot_loop es idx (n - 1) token (probe_at n token (Suc i)) m)"
    by (auto simp: Let_def slot_holds_def occupied_def
        simp flip: probe_at_step [OF n, unfolded One_nat_def])
  then show ?case using Suc.IH [of "Suc i"] by simp
qed

section \<open>The index implements the map from live tokens to entries\<close>

definition live_entry :: "VortekHandleEntry list \<Rightarrow> VortekHandleToken \<Rightarrow> size_t \<Rightarrow> bool" where
  "live_entry es token j \<longleftrightarrow> j < length es \<and> ent_live (es ! j) \<and> ent_token (es ! j) = token"

lemma index_ok_pow2: "index_ok es idx \<Longrightarrow> \<exists>k. length idx = 2 ^ k"
  by (simp add: index_ok_def)

lemma index_ok_len:
  "index_ok es idx \<Longrightarrow> length es < SIZE_MAX \<and> length idx < SIZE_MAX \<and> length es < length idx"
  by (simp add: index_ok_def)

lemma index_ok_occupied:
  "index_ok es idx \<Longrightarrow> s < length idx \<Longrightarrow> occupied (idx ! s) \<Longrightarrow>
     idx ! s - 1 < length es \<and> ent_live (es ! (idx ! s - 1))"
  by (simp add: index_ok_def)

lemma index_ok_inj:
  "index_ok es idx \<Longrightarrow> s < length idx \<Longrightarrow> s' < length idx \<Longrightarrow> occupied (idx ! s) \<Longrightarrow>
     idx ! s = idx ! s' \<Longrightarrow> s = s'"
  by (simp add: index_ok_def)

lemma index_ok_reach:
  assumes "index_ok es idx" "live_entry es token j"
  obtains p where "p < length idx" "idx ! probe_at (length idx) token p = j + 1"
    "\<forall>q<p. idx ! probe_at (length idx) token q \<noteq> 0"
  using assms unfolding index_ok_def live_entry_def by blast

lemma index_ok_unique:
  "index_ok es idx \<Longrightarrow> live_entry es token i \<Longrightarrow> live_entry es token j \<Longrightarrow> i = j"
  unfolding index_ok_def live_entry_def by metis

lemma entry_code_occupied: "j < length es \<Longrightarrow> length es < SIZE_MAX \<Longrightarrow> occupied (j + 1)"
  by (simp add: occupied_def)

lemma slot_holds_live:
  assumes "index_ok es idx" "s < length idx"
  shows "slot_holds es idx token s \<longleftrightarrow> (\<exists>j. live_entry es token j \<and> idx ! s = j + 1)"
proof
  assume h: "slot_holds es idx token s"
  then have "occupied (idx ! s)" by (simp add: slot_holds_def)
  with index_ok_occupied [OF assms this] h
  show "\<exists>j. live_entry es token j \<and> idx ! s = j + 1"
    by (intro exI [of _ "idx ! s - 1"]) (auto simp: slot_holds_def live_entry_def occupied_def)
next
  assume "\<exists>j. live_entry es token j \<and> idx ! s = j + 1"
  then show "slot_holds es idx token s"
    using index_ok_len [OF assms(1)] by (auto simp: slot_holds_def live_entry_def occupied_def)
qed

lemma find_slot_loop_live:
  fixes token :: VortekHandleToken
  assumes ok: "index_ok es idx" and live: "live_entry es token j"
  defines "n \<equiv> length idx"
  defines "s \<equiv> find_slot_loop es idx (n - 1) token (unat (hashToken token) AND (n - 1)) n"
  shows "s < n \<and> idx ! s = j + 1"
proof -
  obtain k where k: "n = 2 ^ k" using index_ok_pow2 [OF ok] by (auto simp: n_def)
  obtain p where p: "p < n" "idx ! probe_at n token p = j + 1"
      "\<forall>q<p. idx ! probe_at n token q \<noteq> 0"
    using index_ok_reach [OF ok live] unfolding n_def by metis
  have npos: "0 < n" using k by simp
  define d where "d = (LEAST d. slot_holds es idx token (probe_at n token d))"
  have hp: "slot_holds es idx token (probe_at n token p)"
    using slot_holds_live [OF ok] live p(2) npos unfolding n_def by fastforce
  then have hd: "slot_holds es idx token (probe_at n token d)" and dp: "d \<le> p"
    unfolding d_def by (rule LeastI, rule Least_le)
  have below: "\<forall>q<d. \<not> slot_holds es idx token (probe_at n token q)"
    unfolding d_def using not_less_Least by blast
  have "s = probe_at n token (0 + d)"
    unfolding s_def probe_at_start [OF k]
    using hd below dp p by (intro find_slot_loop_hit [OF k]) auto
  moreover have "idx ! probe_at n token d = j + 1"
    using slot_holds_live [OF ok, of "probe_at n token d" token] hd npos
      index_ok_unique [OF ok live] unfolding n_def by auto
  ultimately show ?thesis using npos by simp
qed

lemma find_slot_loop_none:
  fixes token :: VortekHandleToken
  assumes ok: "index_ok es idx" and none: "\<And>j. \<not> live_entry es token j"
  defines "n \<equiv> length idx"
  shows "find_slot_loop es idx (n - 1) token (unat (hashToken token) AND (n - 1)) n = SIZE_MAX"
proof -
  obtain k where k: "n = 2 ^ k" using index_ok_pow2 [OF ok] by (auto simp: n_def)
  have "\<forall>s<n. \<not> slot_holds es idx token s"
    using slot_holds_live [OF ok] none by (simp add: n_def)
  then show ?thesis unfolding probe_at_start [OF k] by (rule find_slot_loop_miss [OF k])
qed

section \<open>The insert loop\<close>

lemma insert_slot_loop_keep:
  "firstTombstone \<noteq> SIZE_MAX \<Longrightarrow> insert_slot_loop idx m s firstTombstone probes = firstTombstone"
  by (induction probes arbitrary: s) (auto simp: Let_def)

lemma insert_slot_loop_first:
  assumes n: "n = 2 ^ k" "n < SIZE_MAX"
    and free: "\<not> occupied (idx ! probe_at n token (i + d))"
    and before: "\<forall>q<d. occupied (idx ! probe_at n token (i + q))"
    and "d < probes"
  shows "insert_slot_loop idx (n - 1) (probe_at n token i) SIZE_MAX probes = probe_at n token (i + d)"
  using free before \<open>d < probes\<close>
proof (induction d arbitrary: i probes)
  case 0
  have "probe_at n token i \<noteq> SIZE_MAX" using n probe_at_less [of n token i] by (metis less_irrefl
    less_trans zero_less_numeral zero_less_power)
  with 0 show ?case
    by (cases probes) (auto simp: Let_def occupied_def insert_slot_loop_keep SIZE_MAX_def)
next
  case (Suc d)
  from Suc.prems(3) obtain m where m: "probes = Suc m" by (cases probes) auto
  have "occupied (idx ! probe_at n token i)" using Suc.prems(2) by (auto dest: spec [of _ 0])
  then have "insert_slot_loop idx (n - 1) (probe_at n token i) SIZE_MAX probes
      = insert_slot_loop idx (n - 1) (probe_at n token (Suc i)) SIZE_MAX m"
    by (auto simp: m Let_def occupied_def simp flip: probe_at_step [OF n(1), unfolded One_nat_def])
  also have "\<dots> = probe_at n token (Suc i + d)"
    using Suc.prems m by (intro Suc.IH) (auto dest: spec [of _ "Suc _"])
  finally show ?case by simp
qed

lemma index_ok_free_slot:
  assumes "index_ok es idx"
  shows "\<exists>s<length idx. \<not> occupied (idx ! s)"
proof (rule ccontr)
  assume "\<not> ?thesis"
  then have occ: "\<forall>s<length idx. occupied (idx ! s)" by blast
  have "inj_on (\<lambda>s. idx ! s - 1) {..<length idx}"
  proof (rule inj_onI)
    fix s s' assume "s \<in> {..<length idx}" "s' \<in> {..<length idx}" "idx ! s - 1 = idx ! s' - 1"
    with occ show "s = s'"
      using index_ok_inj [OF assms, of s s'] unfolding occupied_def
      by (metis Suc_pred' lessThan_iff neq0_conv One_nat_def)
  qed
  moreover have "(\<lambda>s. idx ! s - 1) ` {..<length idx} \<subseteq> {..<length es}"
    using occ index_ok_occupied [OF assms] by auto
  ultimately have "length idx \<le> length es"
    using card_inj_on_le [of _ "{..<length idx}" "{..<length es}"] by simp
  with index_ok_len [OF assms] show False by simp
qed

lemma insert_slot_loop_ok:
  fixes token :: VortekHandleToken
  assumes ok: "index_ok es idx"
  defines "n \<equiv> length idx"
  defines "s \<equiv> insert_slot_loop idx (n - 1) (unat (hashToken token) AND (n - 1)) SIZE_MAX n"
  shows "\<exists>d<n. s = probe_at n token d \<and> \<not> occupied (idx ! s) \<and>
           (\<forall>q<d. occupied (idx ! probe_at n token q))"
proof -
  obtain k where k: "n = 2 ^ k" using index_ok_pow2 [OF ok] by (auto simp: n_def)
  have nmax: "n < SIZE_MAX" using index_ok_len [OF ok] by (simp add: n_def)
  obtain s0 where "s0 < n" "\<not> occupied (idx ! s0)"
    using index_ok_free_slot [OF ok] by (auto simp: n_def)
  then obtain p where p: "p < n" "\<not> occupied (idx ! probe_at n token p)"
    using cyclic_hits [of n s0 "unat (hashToken token)"] by (auto simp: probe_at_def)
  define d where "d = (LEAST d. \<not> occupied (idx ! probe_at n token d))"
  have hd: "\<not> occupied (idx ! probe_at n token d)" and dp: "d \<le> p"
    unfolding d_def using p(2) by (rule LeastI, rule Least_le)
  have below: "\<forall>q<d. occupied (idx ! probe_at n token q)"
    unfolding d_def using not_less_Least by blast
  have "s = probe_at n token (0 + d)"
    unfolding s_def probe_at_start [OF k]
    using hd below dp p by (intro insert_slot_loop_first [OF k nmax]) auto
  with hd below dp p(1) show ?thesis by (intro exI [of _ d]) auto
qed

section \<open>Well-formedness is kept by insertion, deletion and updates in place\<close>

lemma index_ok_insert:
  assumes ok: "index_ok es idx" and j: "j < length es" "\<not> ent_live (es ! j)"
    and e: "ent_live e" and fresh: "\<And>i. \<not> live_entry es (ent_token e) i"
    and s: "s = probe_at (length idx) (ent_token e) d" "d < length idx" "\<not> occupied (idx ! s)"
      "\<forall>q<d. occupied (idx ! probe_at (length idx) (ent_token e) q)"
  shows "index_ok (es[j := e]) (idx[s := j + 1])"
proof -
  let ?n = "length idx" and ?es = "es[j := e]" and ?idx = "idx[s := j + 1]"
  have len: "length es < SIZE_MAX" "?n < SIZE_MAX" "length es < ?n"
    using index_ok_len [OF ok] by auto
  then have npos: "0 < ?n" by linarith
  have sn: "s < ?n" using s(1) npos by simp
  have occj: "occupied (j + 1)" using entry_code_occupied [OF j(1) len(1)] .
  have other: "idx ! t \<noteq> j + 1" if "t < ?n" for t
    using index_ok_occupied [OF ok that] j(2) occj by auto
  have nz: "?idx ! t \<noteq> 0" if "t < ?n" "idx ! t \<noteq> 0" for t
    using that sn by (simp add: nth_list_update)
  have "\<forall>t<?n. occupied (?idx ! t) \<longrightarrow> ?idx ! t - 1 < length es \<and> ent_live (?es ! (?idx ! t - 1))"
    using index_ok_occupied [OF ok] j e sn by (auto simp: nth_list_update)
  moreover have "\<forall>t<?n. \<forall>t'<?n. occupied (?idx ! t) \<longrightarrow> ?idx ! t = ?idx ! t' \<longrightarrow> t = t'"
    using index_ok_inj [OF ok] other sn by (auto simp: nth_list_update) metis+
  moreover have "\<exists>p<?n. ?idx ! probe_at ?n (ent_token (?es ! i)) p = i + 1 \<and>
      (\<forall>q<p. ?idx ! probe_at ?n (ent_token (?es ! i)) q \<noteq> 0)"
    if i: "i < length es" "ent_live (?es ! i)" for i
  proof (cases "i = j")
    case True
    have "\<forall>q<d. ?idx ! probe_at ?n (ent_token e) q \<noteq> 0"
      using s(4) nz npos by (auto simp: occupied_def)
    with True s sn j(1) show ?thesis by (intro exI [of _ d]) auto
  next
    case False
    with i have live: "live_entry es (ent_token (es ! i)) i" by (simp add: live_entry_def)
    obtain p where p: "p < ?n" "idx ! probe_at ?n (ent_token (es ! i)) p = i + 1"
        "\<forall>q<p. idx ! probe_at ?n (ent_token (es ! i)) q \<noteq> 0"
      using index_ok_reach [OF ok live] by metis
    have "probe_at ?n (ent_token (es ! i)) p \<noteq> s"
      using p(2) s(3) entry_code_occupied [OF i(1) len(1)] by auto
    with p False nz npos show ?thesis by (intro exI [of _ p]) auto
  qed
  moreover have "\<forall>i<length es. \<forall>i'<length es. ent_live (?es ! i) \<longrightarrow> ent_live (?es ! i') \<longrightarrow>
      ent_token (?es ! i) = ent_token (?es ! i') \<longrightarrow> i = i'"
    using index_ok_unique [OF ok] fresh j unfolding live_entry_def
    by (auto simp: nth_list_update split: if_splits) blast+
  ultimately show ?thesis using index_ok_pow2 [OF ok] len by (simp add: index_ok_def)
qed

lemma index_ok_delete:
  assumes ok: "index_ok es idx" and j: "j < length es" and s: "s < length idx" "idx ! s = j + 1"
    and dead: "\<not> ent_live e"
  shows "index_ok (es[j := e]) (idx[s := SIZE_MAX])"
proof -
  let ?n = "length idx" and ?es = "es[j := e]" and ?idx = "idx[s := SIZE_MAX]"
  have len: "length es < SIZE_MAX" "?n < SIZE_MAX" "length es < ?n"
    using index_ok_len [OF ok] by auto
  have npos: "0 < ?n" using s(1) by linarith
  have occs: "occupied (idx ! s)" using entry_code_occupied [OF j len(1)] s(2) by simp
  have onlys: "t = s" if "t < ?n" "occupied (idx ! t)" "idx ! t - 1 = j" for t
    using index_ok_inj [OF ok that(1) s(1) that(2)] that s(2) by (auto simp: occupied_def)
  have nz: "?idx ! t \<noteq> 0" if "t < ?n" "idx ! t \<noteq> 0" for t
    using that s by (auto simp: nth_list_update SIZE_MAX_def)
  have occ_imp: "occupied (?idx ! t) \<Longrightarrow> t < ?n \<Longrightarrow> t \<noteq> s \<and> occupied (idx ! t) \<and> ?idx ! t = idx ! t" for t
    using s(1) by (auto simp: nth_list_update occupied_def split: if_splits)
  have "\<forall>t<?n. occupied (?idx ! t) \<longrightarrow> ?idx ! t - 1 < length es \<and> ent_live (?es ! (?idx ! t - 1))"
    using index_ok_occupied [OF ok] onlys occ_imp by (metis nth_list_update_neq)
  moreover have "\<forall>t<?n. \<forall>t'<?n. occupied (?idx ! t) \<longrightarrow> ?idx ! t = ?idx ! t' \<longrightarrow> t = t'"
    using index_ok_inj [OF ok] occ_imp by metis
  moreover have "\<exists>p<?n. ?idx ! probe_at ?n (ent_token (?es ! i)) p = i + 1 \<and>
      (\<forall>q<p. ?idx ! probe_at ?n (ent_token (?es ! i)) q \<noteq> 0)"
    if i: "i < length es" "ent_live (?es ! i)" for i
  proof -
    have ij: "i \<noteq> j" using i dead j by auto
    with i have live: "live_entry es (ent_token (es ! i)) i" by (simp add: live_entry_def)
    obtain p where p: "p < ?n" "idx ! probe_at ?n (ent_token (es ! i)) p = i + 1"
        "\<forall>q<p. idx ! probe_at ?n (ent_token (es ! i)) q \<noteq> 0"
      using index_ok_reach [OF ok live] by metis
    have "probe_at ?n (ent_token (es ! i)) p \<noteq> s" using p(2) s(2) ij by auto
    with p ij nz npos show ?thesis by (intro exI [of _ p]) auto
  qed
  moreover have "\<forall>i<length es. \<forall>i'<length es. ent_live (?es ! i) \<longrightarrow> ent_live (?es ! i') \<longrightarrow>
      ent_token (?es ! i) = ent_token (?es ! i') \<longrightarrow> i = i'"
    using index_ok_unique [OF ok] dead j unfolding live_entry_def
    by (auto simp: nth_list_update split: if_splits)
  ultimately show ?thesis using index_ok_pow2 [OF ok] len by (simp add: index_ok_def)
qed

lemma index_ok_update:
  assumes ok: "index_ok es idx" and "j < length es" and "ent_live e = ent_live (es ! j)"
    and "ent_token e = ent_token (es ! j)"
  shows "index_ok (es[j := e]) idx"
proof -
  have eqs: "ent_live (es[j := e] ! i) = ent_live (es ! i)"
    "ent_token (es[j := e] ! i) = ent_token (es ! i)" for i
    using assms by (cases "i = j"; simp)+
  show ?thesis using ok unfolding index_ok_def length_list_update eqs .
qed

lemma index_ok_init:
  assumes "length es < SIZE_MAX" "2 ^ k < SIZE_MAX" "length es < 2 ^ k" "\<forall>e\<in>set es. \<not> ent_live e"
  shows "index_ok es (replicate (2 ^ k) 0)"
  using assms by (auto simp: index_ok_def occupied_def)

end
