(* ===== verification/Handle_Registry.thy ===== *)
theory Handle_Registry
  imports Token_Index
begin

text \<open>
  The critical sections of the handle registry that every API call is made of
  (\<^verbatim>\<open>vortekrenderer/src/handle_registry.c\<close>): token allocation, owner and expectation checks,
  publication of a new entry, retirement of an entry. The process-wide token counter
  \<^verbatim>\<open>nextProcessToken\<close> is passed explicitly. The lemmas prove the registry invariant
  \<open>reg_wf\<close> and describe every operation by its effect on \<open>reg_map\<close>, the abstract map from live
  tokens to entries.
\<close>

section \<open>Process-wide tokens\<close>

text \<open>Status, \<^verbatim>\<open>*tokenOut\<close> and the counter afterwards, at the successful exchange.\<close>

definition allocateProcessToken ::
  "u64 \<Rightarrow> VortekHandleStatus \<times> VortekHandleToken \<times> u64" where
  "allocateProcessToken next =
     (if next = 0 \<or> next = UINT64_MAX then (VORTEK_HANDLE_EXHAUSTED, 0, next)
      else (VORTEK_HANDLE_OK, next, next + 1))"

text \<open>
  The compare-exchange loop itself, against an adversarial schedule: every attempt sees some
  value of the counter and may fail spuriously (the weak exchange). \<^const>\<open>None\<close>: the loop is
  still running when the schedule ends. \<open>current\<close> is the loop's local variable.
\<close>

fun allocate_cas_loop ::
  "(u64 \<times> bool) list \<Rightarrow> u64 \<Rightarrow> (VortekHandleStatus \<times> VortekHandleToken \<times> u64) option" where
  "allocate_cas_loop attempts current =
     (if current = 0 \<or> current = UINT64_MAX then Some (VORTEK_HANDLE_EXHAUSTED, 0, current)
      else case attempts of
        [] \<Rightarrow> None
      | (counter, spurious) # rest \<Rightarrow>
          if counter = current \<and> \<not> spurious then Some (VORTEK_HANDLE_OK, current, current + 1)
          else allocate_cas_loop rest counter)"

declare allocate_cas_loop.simps [simp del]

definition missingStatusLocked :: "u64 \<Rightarrow> VortekHandleToken \<Rightarrow> VortekHandleStatus" where
  "missingStatusLocked next token =
     (if token = 0 then VORTEK_HANDLE_NULL
      else if token < next then VORTEK_HANDLE_STALE else VORTEK_HANDLE_UNKNOWN)"

section \<open>Owners and expectations\<close>

definition isLiveVulkanTypeLocked ::
  "VortekHandleRegistry \<Rightarrow> VortekHandleToken \<Rightarrow> VkObjectType \<Rightarrow> size_t option" where
  "isLiveVulkanTypeLocked r token type =
     (case findLiveLocked r token of
        None \<Rightarrow> None
      | Some i \<Rightarrow>
          if ent_role (entries r ! i) \<noteq> VORTEK_HANDLE_ROLE_VULKAN \<or>
             ent_vulkanType (entries r ! i) \<noteq> type then None else Some i)"

definition validateOwnersLocked ::
  "VortekHandleRegistry \<Rightarrow> VortekHandleOwner \<Rightarrow> VortekHandleStatus" where
  "validateOwnersLocked r owner =
     (let device = (if own_device owner \<noteq> 0
                    then isLiveVulkanTypeLocked r (own_device owner) VK_OBJECT_TYPE_DEVICE
                    else None)
      in if own_instance owner \<noteq> 0 \<and>
            isLiveVulkanTypeLocked r (own_instance owner) VK_OBJECT_TYPE_INSTANCE = None
         then VORTEK_HANDLE_STALE_OWNER
         else if own_device owner \<noteq> 0 \<and> device = None then VORTEK_HANDLE_STALE_OWNER
         else if device \<noteq> None \<and> own_instance owner \<noteq> 0 \<and>
                 own_instance (ent_owner (entries r ! the device)) \<noteq> own_instance owner
         then VORTEK_HANDLE_WRONG_OWNER
         else if own_parent owner \<noteq> 0
         then (case findLiveLocked r (own_parent owner) of
                 None \<Rightarrow> VORTEK_HANDLE_STALE_OWNER
               | Some p \<Rightarrow>
                   let po = ent_owner (entries r ! p)
                   in if (own_instance po \<noteq> 0 \<and> own_instance po \<noteq> own_instance owner) \<or>
                         (own_device po \<noteq> 0 \<and> own_device po \<noteq> own_device owner)
                      then VORTEK_HANDLE_WRONG_OWNER else VORTEK_HANDLE_OK)
         else VORTEK_HANDLE_OK)"

text \<open>The status and \<^verbatim>\<open>*entryOut\<close>; a NULL expectation is \<^const>\<open>None\<close>.\<close>

definition validateExpectationLockedEx ::
  "VortekHandleRegistry \<Rightarrow> u64 \<Rightarrow> VortekHandleToken \<Rightarrow> VortekHandleExpectation option \<Rightarrow> bool
     \<Rightarrow> VortekHandleStatus \<times> size_t option" where
  "validateExpectationLockedEx r next token expectation allowClosed =
     (case expectation of
        None \<Rightarrow> (VORTEK_HANDLE_INVALID_ARGUMENT, None)
      | Some x \<Rightarrow>
          if closed r \<and> \<not> allowClosed then (VORTEK_HANDLE_CLOSED, None)
          else if exp_contextGeneration x \<noteq> generation r then (VORTEK_HANDLE_WRONG_GENERATION, None)
          else if token = 0
          then (if exp_allowNull x then VORTEK_HANDLE_OK else VORTEK_HANDLE_NULL, None)
          else (case findLiveLocked r token of
                  None \<Rightarrow> (missingStatusLocked next token, None)
                | Some i \<Rightarrow>
                    let e = entries r ! i
                    in if ent_contextGeneration e \<noteq> exp_contextGeneration x
                       then (VORTEK_HANDLE_WRONG_GENERATION, None)
                       else if ent_role e \<noteq> exp_role x then (VORTEK_HANDLE_WRONG_ROLE, None)
                       else if ent_role e = VORTEK_HANDLE_ROLE_VULKAN \<and>
                               ent_vulkanType e \<noteq> exp_vulkanType x
                       then (VORTEK_HANDLE_WRONG_TYPE, None)
                       else if exp_requireInstanceOwner x \<and>
                               own_instance (ent_owner e) \<noteq> own_instance (exp_owner x)
                       then (VORTEK_HANDLE_WRONG_OWNER, None)
                       else if exp_requireDeviceOwner x \<and>
                               own_device (ent_owner e) \<noteq> own_device (exp_owner x)
                       then (VORTEK_HANDLE_WRONG_OWNER, None)
                       else if exp_requireParentOwner x \<and>
                               own_parent (ent_owner e) \<noteq> own_parent (exp_owner x)
                       then (VORTEK_HANDLE_WRONG_OWNER, None)
                       else let ownerStatus = validateOwnersLocked r (ent_owner e)
                            in if ownerStatus \<noteq> VORTEK_HANDLE_OK then (ownerStatus, None)
                               else (VORTEK_HANDLE_OK, Some i)))"

definition validateExpectationLocked ::
  "VortekHandleRegistry \<Rightarrow> u64 \<Rightarrow> VortekHandleToken \<Rightarrow> VortekHandleExpectation option
     \<Rightarrow> VortekHandleStatus \<times> size_t option" where
  "validateExpectationLocked r next token expectation =
     validateExpectationLockedEx r next token expectation False"

section \<open>Publication\<close>

definition reuseIdentity :: "VortekHandleRole \<Rightarrow> VkObjectType \<Rightarrow> VortekHandleOwner \<Rightarrow> bool" where
  "reuseIdentity role type owner \<longleftrightarrow> role = VORTEK_HANDLE_ROLE_VULKAN \<and>
     (type = VK_OBJECT_TYPE_PHYSICAL_DEVICE \<or> type = VK_OBJECT_TYPE_QUEUE \<or>
      (type = VK_OBJECT_TYPE_IMAGE \<and> own_parent owner \<noteq> 0))"

definition same_identity ::
  "VortekHandleRole \<Rightarrow> VkObjectType \<Rightarrow> u64 \<Rightarrow> VortekHandleOwner \<Rightarrow> VortekHandleEntry \<Rightarrow> bool" where
  "same_identity role type hostValue owner e \<longleftrightarrow>
     ent_live e \<and> ent_role e = role \<and> ent_vulkanType e = type \<and> ent_hostValue e = hostValue \<and>
     own_instance (ent_owner e) = own_instance owner \<and>
     own_device (ent_owner e) = own_device owner \<and>
     own_parent (ent_owner e) = own_parent owner"

definition new_entry ::
  "VortekHandleRegistry \<Rightarrow> VortekHandleToken \<Rightarrow> VortekHandleRole \<Rightarrow> VkObjectType \<Rightarrow> u64
     \<Rightarrow> VortekHandleOwner \<Rightarrow> VortekHandleEntry" where
  "new_entry r token role type hostValue owner =
     zero_entry\<lparr>ent_token := token, ent_contextGeneration := generation r, ent_role := role,
       ent_vulkanType := type, ent_owner := owner, ent_hostValue := hostValue, ent_live := True\<rparr>"

text \<open>The two statements \<^verbatim>\<open>slot->nextFree = registry->freeHead; registry->freeHead = entryIndex\<close>.\<close>

definition push_free :: "VortekHandleRegistry \<Rightarrow> size_t \<Rightarrow> VortekHandleRegistry" where
  "push_free r i =
     r\<lparr>entries := (entries r)[i := (entries r ! i)\<lparr>ent_nextFree := freeHead r\<rparr>], freeHead := i\<rparr>"

text \<open>
  Status, what was written to \<^verbatim>\<open>*tokenOut\<close> (\<^const>\<open>None\<close>: nothing), registry, token counter.
  \<open>haveOut\<close> says that \<^verbatim>\<open>tokenOut\<close> is not NULL.
\<close>

definition registerValueLocked ::
  "VortekHandleRegistry \<Rightarrow> u64 \<Rightarrow> VortekHandleRole \<Rightarrow> VkObjectType \<Rightarrow> u64 \<Rightarrow> VortekHandleOwner \<Rightarrow> bool
     \<Rightarrow> VortekHandleStatus \<times> VortekHandleToken option \<times> VortekHandleRegistry \<times> u64" where
  "registerValueLocked r next role type hostValue owner haveOut =
     (if closed r then (VORTEK_HANDLE_CLOSED, None, r, next)
      else if \<not> haveOut \<or> hostValue = 0 then (VORTEK_HANDLE_INVALID_ARGUMENT, None, r, next)
      else let ownerStatus = validateOwnersLocked r owner
      in if ownerStatus \<noteq> VORTEK_HANDLE_OK then (ownerStatus, Some 0, r, next)
      else case (if reuseIdentity role type owner
                 then find (\<lambda>i. same_identity role type hostValue owner (entries r ! i))
                        [0..<capacity r]
                 else None) of
        Some i \<Rightarrow> (VORTEK_HANDLE_OK, Some (ent_token (entries r ! i)), r, next)
      | None \<Rightarrow>
          if capacity r \<le> liveCount r then (VORTEK_HANDLE_CAPACITY, Some 0, r, next)
          else if freeHead r = SIZE_MAX then (VORTEK_HANDLE_CAPACITY, Some 0, r, next)
          else let entryIndex = freeHead r;
                   r1 = r\<lparr>freeHead := ent_nextFree (entries r ! entryIndex)\<rparr>;
                   (tokenStatus, token, next') = allocateProcessToken next
               in if tokenStatus \<noteq> VORTEK_HANDLE_OK
                  then (tokenStatus, Some 0, push_free r1 entryIndex, next')
                  else let (inserted, r2) = insertIndexLocked r1 token entryIndex
                  in if \<not> inserted
                     then (VORTEK_HANDLE_CAPACITY, Some 0, push_free r1 entryIndex, next')
                     else (VORTEK_HANDLE_OK, Some token,
                           r2\<lparr>entries := (entries r2)[entryIndex :=
                                  new_entry r token role type hostValue owner],
                              liveCount := liveCount r2 + 1\<rparr>, next'))"

section \<open>Retirement\<close>

text \<open>
  Only called on a live entry, so the decrement of \<open>liveCount\<close> does not wrap
  (\<open>reg_wf_unregister\<close>).
\<close>

definition unregisterEntryLocked :: "VortekHandleRegistry \<Rightarrow> size_t \<Rightarrow> VortekHandleRegistry" where
  "unregisterEntryLocked r i =
     (let e = entries r ! i;
          indexSlot = findIndexSlotLocked r (ent_token e)
      in r\<lparr>tokenIndex := (if indexSlot \<noteq> SIZE_MAX then (tokenIndex r)[indexSlot := SIZE_MAX]
                          else tokenIndex r),
           entries := (entries r)[i := e\<lparr>ent_live := False, ent_hostValue := 0,
             ent_nullDescriptorEnabled := False, ent_activeCalls := 0, ent_retiring := False,
             ent_nextFree := freeHead r\<rparr>],
           freeHead := i, liveCount := liveCount r - 1\<rparr>)"

text \<open>The statement \<^verbatim>\<open>entry = findLiveLocked(...); if (entry) unregisterEntryLocked(entry)\<close> of the
  batch loops.\<close>

definition retire_token :: "VortekHandleToken \<Rightarrow> VortekHandleRegistry \<Rightarrow> VortekHandleRegistry" where
  "retire_token token r =
     (case findLiveLocked r token of None \<Rightarrow> r | Some i \<Rightarrow> unregisterEntryLocked r i)"

definition entryDeviceHasActiveCallsLocked :: "VortekHandleRegistry \<Rightarrow> size_t \<Rightarrow> bool" where
  "entryDeviceHasActiveCallsLocked r i =
     (let e = entries r ! i;
          device = (if ent_role e = VORTEK_HANDLE_ROLE_VULKAN \<and>
                       ent_vulkanType e = VK_OBJECT_TYPE_DEVICE then ent_token e
                    else own_device (ent_owner e))
      in if device = 0 then False
         else (case findLiveLocked r device of
                 None \<Rightarrow> False
               | Some d \<Rightarrow> ent_role (entries r ! d) = VORTEK_HANDLE_ROLE_VULKAN \<and>
                           ent_vulkanType (entries r ! d) = VK_OBJECT_TYPE_DEVICE \<and>
                           ent_activeCalls (entries r ! d) \<noteq> 0))"

definition entryHasLiveDependentsLocked :: "VortekHandleRegistry \<Rightarrow> size_t \<Rightarrow> bool" where
  "entryHasLiveDependentsLocked r i =
     (let e = entries r ! i;
          isDevice = (ent_vulkanType e = VK_OBJECT_TYPE_DEVICE);
          isInstance = (ent_vulkanType e = VK_OBJECT_TYPE_INSTANCE)
      in if ent_role e \<noteq> VORTEK_HANDLE_ROLE_VULKAN then False
         else if \<not> isDevice \<and> \<not> isInstance then False
         else list_ex (\<lambda>c. ent_live (entries r ! c) \<and> c \<noteq> i \<and>
                ((isDevice \<and> own_device (ent_owner (entries r ! c)) = ent_token e) \<or>
                 (isInstance \<and> own_instance (ent_owner (entries r ! c)) = ent_token e)))
              [0..<capacity r])"

definition is_live_device :: "VortekHandleEntry \<Rightarrow> bool" where
  "is_live_device e \<longleftrightarrow> ent_live e \<and> ent_role e = VORTEK_HANDLE_ROLE_VULKAN \<and>
     ent_vulkanType e = VK_OBJECT_TYPE_DEVICE"

definition hasActiveDeviceCallsLocked :: "VortekHandleRegistry \<Rightarrow> bool" where
  "hasActiveDeviceCallsLocked r =
     list_ex (\<lambda>i. is_live_device (entries r ! i) \<and> ent_activeCalls (entries r ! i) \<noteq> 0)
       [0..<capacity r]"

section \<open>Creation\<close>

definition VORTEK_HANDLE_REGISTRY_MAX_CAPACITY :: size_t where
  "VORTEK_HANDLE_REGISTRY_MAX_CAPACITY = 1048576"

text \<open>
  \<open>allocated\<close>: every allocation and the two \<^verbatim>\<open>pthread\<close> initialisations succeeded; each failure
  frees what was made and returns NULL.
\<close>

definition VortekHandleRegistry_create ::
  "bool \<Rightarrow> u64 \<Rightarrow> size_t \<Rightarrow> VortekHandleRegistry option" where
  "VortekHandleRegistry_create allocated contextGeneration cap =
     (if contextGeneration = 0 \<or> cap = 0 \<or> VORTEK_HANDLE_REGISTRY_MAX_CAPACITY < cap then None
      else if \<not> allocated then None
      else Some \<lparr>generation = contextGeneration, capacity = cap,
        indexCapacity = indexCapacityFor cap, freeHead = 0, liveCount = 0, closed = False,
        entries = map (\<lambda>index. zero_entry\<lparr>ent_nextFree :=
                     (if index + 1 < cap then index + 1 else SIZE_MAX)\<rparr>) [0..<cap],
        tokenIndex = replicate (indexCapacityFor cap) 0,
        windowBindings = replicate cap zero_binding, windowBindingCount = 0,
        windowBindingCapacity = cap, windowValidator = 0, windowValidatorUserdata = 0\<rparr>)"

end
