(* ===== verification/Registry_Invariant.thy ===== *)
theory Registry_Invariant
  imports Handle_Registry
begin

text \<open>
  The invariant of the handle registry and the effect of publication and retirement on the
  abstract map of live tokens. The interface \<open>token_store\<close> states what the batch operations
  rely on; it is interpreted on the registry's own operations.
\<close>

section \<open>The free list\<close>

fun free_chain :: "VortekHandleEntry list \<Rightarrow> size_t \<Rightarrow> size_t list \<Rightarrow> bool" where
  "free_chain es h [] = (h = SIZE_MAX)"
| "free_chain es h (i # is) = (h = i \<and> i < length es \<and> free_chain es (ent_nextFree (es ! i)) is)"

definition free_ok :: "VortekHandleEntry list \<Rightarrow> size_t \<Rightarrow> bool" where
  "free_ok es h \<longleftrightarrow> (\<exists>is. free_chain es h is \<and> distinct is \<and>
     set is = {i. i < length es \<and> \<not> ent_live (es ! i)})"

lemma free_chain_update: "j \<notin> set is \<Longrightarrow> free_chain (es[j := e]) h is = free_chain es h is"
  by (induction "is" arbitrary: h) auto

lemma free_ok_head:
  assumes "free_ok es h" "h \<noteq> SIZE_MAX"
  shows "h < length es \<and> \<not> ent_live (es ! h)"
proof -
  obtain "is" where c: "free_chain es h is" "set is = {i. i < length es \<and> \<not> ent_live (es ! i)}"
    using assms(1) by (auto simp: free_ok_def)
  with assms(2) obtain is' where "is = h # is'" by (cases "is") auto
  with c(2) have "h \<in> {i. i < length es \<and> \<not> ent_live (es ! i)}" by (metis list.set_intros(1))
  then show ?thesis by simp
qed

lemma free_ok_end:
  assumes "free_ok es SIZE_MAX" "length es < SIZE_MAX"
  shows "\<forall>i<length es. ent_live (es ! i)"
proof -
  obtain "is" where c: "free_chain es SIZE_MAX is"
      "set is = {i. i < length es \<and> \<not> ent_live (es ! i)}"
    using assms(1) by (auto simp: free_ok_def)
  with assms(2) have "is = []" by (cases "is") auto
  with c(2) show ?thesis by auto
qed

lemma free_ok_pop:
  assumes "free_ok es h" "h \<noteq> SIZE_MAX" "ent_live e"
  shows "free_ok (es[h := e]) (ent_nextFree (es ! h))"
proof -
  obtain "is" where c: "free_chain es h is" "distinct is"
      "set is = {i. i < length es \<and> \<not> ent_live (es ! i)}"
    using assms(1) by (auto simp: free_ok_def)
  with assms(2) obtain is' where is': "is = h # is'" by (cases "is") auto
  have hl: "h < length es" using free_ok_head [OF assms(1,2)] by simp
  have "free_chain (es[h := e]) (ent_nextFree (es ! h)) is'"
    using c is' by (simp add: free_chain_update)
  moreover have "set is' = {i. i < length (es[h := e]) \<and> \<not> ent_live (es[h := e] ! i)}"
  proof -
    have "set is' = set is - {h}" using c(2) is' by auto
    with c(3) assms(3) hl show ?thesis by (auto simp: nth_list_update)
  qed
  ultimately show ?thesis using c(2) is' unfolding free_ok_def by (metis distinct.simps(2))
qed

lemma free_ok_push:
  assumes "free_ok es h" "i < length es" "ent_live (es ! i)" "\<not> ent_live e" "ent_nextFree e = h"
  shows "free_ok (es[i := e]) i"
proof -
  obtain "is" where c: "free_chain es h is" "distinct is"
      "set is = {i. i < length es \<and> \<not> ent_live (es ! i)}"
    using assms(1) by (auto simp: free_ok_def)
  have "i \<notin> set is" using c(3) assms(3) by simp
  then have "free_chain (es[i := e]) i (i # is)" and "distinct (i # is)"
    using c assms by (simp_all add: free_chain_update)
  moreover have "set (i # is) = {k. k < length (es[i := e]) \<and> \<not> ent_live (es[i := e] ! k)}"
    using c(3) assms by (auto simp: nth_list_update)
  ultimately show ?thesis unfolding free_ok_def by blast
qed

lemma free_ok_update:
  assumes "free_ok es h" "i < length es" "ent_live (es ! i)" "ent_live e"
  shows "free_ok (es[i := e]) h"
proof -
  obtain "is" where c: "free_chain es h is" "distinct is"
      "set is = {i. i < length es \<and> \<not> ent_live (es ! i)}"
    using assms(1) by (auto simp: free_ok_def)
  moreover have "i \<notin> set is" using c(3) assms(3) by simp
  then have "free_chain (es[i := e]) h is" using c by (simp add: free_chain_update)
  moreover have "set is = {k. k < length (es[i := e]) \<and> \<not> ent_live (es[i := e] ! k)}"
    using c(3) assms by (auto simp: nth_list_update)
  ultimately show ?thesis unfolding free_ok_def by blast
qed

lemma free_chain_init:
  assumes "\<forall>i<length es. ent_nextFree (es ! i) = (if i + 1 < length es then i + 1 else SIZE_MAX)"
    and "k < length es"
  shows "free_chain es k [k..<length es]"
  using assms(2)
proof (induction "length es - k" arbitrary: k)
  case 0
  then show ?case by simp
next
  case (Suc d)
  have "[k..<length es] = k # [Suc k..<length es]" using Suc.prems by (simp add: upt_conv_Cons)
  moreover have "free_chain es (ent_nextFree (es ! k)) [Suc k..<length es]"
    using assms(1) Suc by (cases "Suc k < length es") auto
  ultimately show ?case using Suc.prems by simp
qed

section \<open>The invariant\<close>

definition reg_wf :: "VortekHandleRegistry \<Rightarrow> bool" where
  "reg_wf r \<longleftrightarrow>
     length (entries r) = capacity r \<and> 0 < capacity r \<and>
     length (tokenIndex r) = indexCapacity r \<and>
     index_ok (entries r) (tokenIndex r) \<and> free_ok (entries r) (freeHead r) \<and>
     liveCount r = length (filter ent_live (entries r)) \<and>
     (\<forall>i<capacity r. ent_live (entries r ! i) \<longrightarrow>
        ent_token (entries r ! i) \<noteq> 0 \<and> ent_contextGeneration (entries r ! i) = generation r)"

text \<open>Every live token was issued: it is below the process counter.\<close>

definition tokens_below :: "VortekHandleRegistry \<Rightarrow> u64 \<Rightarrow> bool" where
  "tokens_below r next \<longleftrightarrow> (\<forall>i<capacity r. ent_live (entries r ! i) \<longrightarrow> ent_token (entries r ! i) < next)"

text \<open>The abstract state: the live entry of each token.\<close>

definition reg_map :: "VortekHandleRegistry \<Rightarrow> VortekHandleToken \<Rightarrow> VortekHandleEntry option" where
  "reg_map r token = map_option (\<lambda>i. entries r ! i) (findLiveLocked r token)"

lemma findLiveLocked_iff:
  assumes "reg_wf r"
  shows "findLiveLocked r token = Some i \<longleftrightarrow> live_entry (entries r) token i"
proof -
  have ok: "index_ok (entries r) (tokenIndex r)" and n: "indexCapacity r = length (tokenIndex r)"
    using assms by (auto simp: reg_wf_def)
  have lt: "length (tokenIndex r) < SIZE_MAX" using index_ok_len [OF ok] by simp
  show ?thesis
  proof (cases "\<exists>j. live_entry (entries r) token j")
    case True
    then obtain j where j: "live_entry (entries r) token j" by blast
    have "findLiveLocked r token = Some j"
      using find_slot_loop_live [OF ok j] lt
      by (auto simp: findLiveLocked_def findIndexSlotLocked_def n Let_def)
    with j index_ok_unique [OF ok] show ?thesis by auto
  next
    case False
    then have "findLiveLocked r token = None"
      using find_slot_loop_none [OF ok, of token]
      by (auto simp: findLiveLocked_def findIndexSlotLocked_def n Let_def)
    with False show ?thesis by auto
  qed
qed

lemma findLiveLocked_None:
  assumes "reg_wf r"
  shows "findLiveLocked r token = None \<longleftrightarrow> (\<forall>i. \<not> live_entry (entries r) token i)"
  using findLiveLocked_iff [OF assms, of token] by (cases "findLiveLocked r token") auto

lemma findLiveLocked_entry:
  assumes "reg_wf r" "findLiveLocked r token = Some i"
  shows "i < capacity r \<and> ent_live (entries r ! i) \<and> ent_token (entries r ! i) = token \<and>
    token \<noteq> 0 \<and> ent_contextGeneration (entries r ! i) = generation r"
  using assms findLiveLocked_iff [OF assms(1), of token i]
  by (auto simp: reg_wf_def live_entry_def)

lemma findLiveLocked_live:
  assumes "reg_wf r" "i < capacity r" "ent_live (entries r ! i)"
  shows "findLiveLocked r (ent_token (entries r ! i)) = Some i"
  using assms findLiveLocked_iff [OF assms(1)] by (simp add: live_entry_def reg_wf_def)

lemma reg_map_Some:
  assumes "reg_wf r"
  shows "reg_map r token = Some e \<longleftrightarrow>
    (\<exists>i<capacity r. entries r ! i = e \<and> ent_live e \<and> ent_token e = token)"
  unfolding reg_map_def using findLiveLocked_iff [OF assms] assms
  by (auto simp: live_entry_def reg_wf_def)

lemma reg_map_None:
  assumes "reg_wf r"
  shows "reg_map r token = None \<longleftrightarrow>
    (\<forall>i<capacity r. ent_live (entries r ! i) \<longrightarrow> ent_token (entries r ! i) \<noteq> token)"
proof (cases "reg_map r token")
  case None
  with reg_map_Some [OF assms, of token] show ?thesis by auto
next
  case (Some e)
  with reg_map_Some [OF assms, of token e] show ?thesis by auto
qed

lemma reg_map_zero: "reg_wf r \<Longrightarrow> reg_map r 0 = None"
  using findLiveLocked_entry [of r 0] by (cases "findLiveLocked r 0") (auto simp: reg_map_def)

lemma tokens_below_map:
  assumes "reg_wf r"
  shows "tokens_below r next \<longleftrightarrow> (\<forall>token e. reg_map r token = Some e \<longrightarrow> token < next)"
  unfolding tokens_below_def reg_map_Some [OF assms] by blast

lemma tokens_below_fresh: "reg_wf r \<Longrightarrow> tokens_below r next \<Longrightarrow> reg_map r next = None"
  using tokens_below_map [of r "next"] by (cases "reg_map r next") auto

lemma find_live_None_map: "findLiveLocked r token = None \<longleftrightarrow> reg_map r token = None"
  by (simp add: reg_map_def)

lemma wf_room:
  assumes "reg_wf r"
  shows "freeHead r = SIZE_MAX \<longleftrightarrow> capacity r \<le> liveCount r"
    and "liveCount r \<le> capacity r"
proof -
  have w: "length (entries r) = capacity r" "free_ok (entries r) (freeHead r)"
    "liveCount r = length (filter ent_live (entries r))"
    using assms by (auto simp: reg_wf_def)
  have "index_ok (entries r) (tokenIndex r)" using assms by (simp add: reg_wf_def)
  then have small: "capacity r < SIZE_MAX" using index_ok_len w(1) by fastforce
  show le: "liveCount r \<le> capacity r" using w by (metis length_filter_le)
  show "freeHead r = SIZE_MAX \<longleftrightarrow> capacity r \<le> liveCount r"
  proof
    assume "freeHead r = SIZE_MAX"
    then have "\<forall>i<length (entries r). ent_live (entries r ! i)"
      using free_ok_end w small by simp
    then show "capacity r \<le> liveCount r"
      using length_filter_lt_iff [of ent_live "entries r"] w by (metis le not_less)
  next
    assume full: "capacity r \<le> liveCount r"
    show "freeHead r = SIZE_MAX"
    proof (rule ccontr)
      assume "freeHead r \<noteq> SIZE_MAX"
      then have "\<exists>i<length (entries r). \<not> ent_live (entries r ! i)"
        using free_ok_head [OF w(2)] by blast
      then show False using length_filter_lt_iff [of ent_live "entries r"] w full by simp
    qed
  qed
qed

section \<open>Publication as one abstract step\<close>

text \<open>The registry after a successful publication of \<open>e\<close> at the head of the free list.\<close>

definition publish :: "VortekHandleEntry \<Rightarrow> VortekHandleRegistry \<Rightarrow> VortekHandleRegistry" where
  "publish e r =
     (let i = freeHead r;
          slot = insert_slot_loop (tokenIndex r) (indexCapacity r - 1)
                   (unat (hashToken (ent_token e)) AND (indexCapacity r - 1)) SIZE_MAX (indexCapacity r)
      in r\<lparr>freeHead := ent_nextFree (entries r ! i),
           tokenIndex := (tokenIndex r)[slot := i + 1],
           entries := (entries r)[i := e], liveCount := liveCount r + 1\<rparr>)"

lemma publish_fields [simp]:
  "generation (publish e r) = generation r" "capacity (publish e r) = capacity r"
  "closed (publish e r) = closed r" "indexCapacity (publish e r) = indexCapacity r"
  "liveCount (publish e r) = liveCount r + 1"
  "entries (publish e r) = (entries r)[freeHead r := e]"
  "windowBindings (publish e r) = windowBindings r"
  "windowBindingCount (publish e r) = windowBindingCount r"
  "windowBindingCapacity (publish e r) = windowBindingCapacity r"
  "windowValidator (publish e r) = windowValidator r"
  "windowValidatorUserdata (publish e r) = windowValidatorUserdata r"
  by (simp_all add: publish_def Let_def)

lemma reg_wf_publish:
  assumes wf: "reg_wf r" and room: "liveCount r < capacity r"
    and e: "ent_live e" "ent_token e \<noteq> 0" "ent_contextGeneration e = generation r"
    and fresh: "reg_map r (ent_token e) = None"
  shows "reg_wf (publish e r)"
proof -
  let ?i = "freeHead r" and ?n = "length (tokenIndex r)"
  let ?s = "insert_slot_loop (tokenIndex r) (?n - 1)
                   (unat (hashToken (ent_token e)) AND (?n - 1)) SIZE_MAX ?n"
  have w: "length (entries r) = capacity r" "indexCapacity r = ?n"
    "index_ok (entries r) (tokenIndex r)" "free_ok (entries r) ?i"
    "liveCount r = length (filter ent_live (entries r))"
    using wf by (auto simp: reg_wf_def)
  have hd: "?i \<noteq> SIZE_MAX" using wf_room [OF wf] room by simp
  then have i: "?i < length (entries r)" "\<not> ent_live (entries r ! ?i)"
    using free_ok_head [OF w(4)] by auto
  have none: "\<And>j. \<not> live_entry (entries r) (ent_token e) j"
    using fresh findLiveLocked_None [OF wf] by (simp add: find_live_None_map)
  obtain d where d: "d < ?n" "?s = probe_at ?n (ent_token e) d" "\<not> occupied (tokenIndex r ! ?s)"
      "\<forall>q<d. occupied (tokenIndex r ! probe_at ?n (ent_token e) q)"
    using insert_slot_loop_ok [OF w(3), of "ent_token e"] by metis
  have "index_ok ((entries r)[?i := e]) ((tokenIndex r)[?s := ?i + 1])"
    using index_ok_insert [OF w(3) i e(1) none d(2) d(1) d(3) d(4)] .
  moreover have "free_ok ((entries r)[?i := e]) (ent_nextFree (entries r ! ?i))"
    using free_ok_pop [OF w(4) hd e(1)] .
  moreover have "liveCount r + 1 = length (filter ent_live ((entries r)[?i := e]))"
    using length_filter_update_on [OF i e(1)] w(5) by simp
  ultimately show ?thesis using wf e w i
    by (auto simp: reg_wf_def publish_def Let_def nth_list_update)
qed

lemma reg_map_publish:
  assumes wf: "reg_wf r" and room: "liveCount r < capacity r"
    and e: "ent_live e" "ent_token e \<noteq> 0" "ent_contextGeneration e = generation r"
    and fresh: "reg_map r (ent_token e) = None"
  shows "reg_map (publish e r) = (reg_map r)(ent_token e \<mapsto> e)"
proof -
  have wf': "reg_wf (publish e r)" using reg_wf_publish [OF assms] .
  have "freeHead r \<noteq> SIZE_MAX" using wf_room [OF wf] room by simp
  then have i: "freeHead r < capacity r" "\<not> ent_live (entries r ! freeHead r)"
    using free_ok_head [of "entries r" "freeHead r"] wf by (auto simp: reg_wf_def)
  have len: "length (entries r) = capacity r" using wf by (simp add: reg_wf_def)
  have "reg_map (publish e r) t = Some x \<longleftrightarrow> ((reg_map r)(ent_token e \<mapsto> e)) t = Some x" for t x
  proof (cases "t = ent_token e")
    case True
    then show ?thesis
      using reg_map_Some [OF wf', of t x] i e len fresh reg_map_None [OF wf, of "ent_token e"]
      by (auto simp: nth_list_update split: if_splits)
  next
    case False
    have "reg_map (publish e r) t = Some x \<longleftrightarrow>
        (\<exists>k<capacity r. (entries r)[freeHead r := e] ! k = x \<and> ent_live x \<and> ent_token x = t)"
      using reg_map_Some [OF wf', of t x] by simp
    also have "\<dots> \<longleftrightarrow> (\<exists>k<capacity r. entries r ! k = x \<and> ent_live x \<and> ent_token x = t)"
      using False i len by (metis nth_list_update)
    also have "\<dots> \<longleftrightarrow> reg_map r t = Some x" using reg_map_Some [OF wf] by simp
    finally show ?thesis using False by simp
  qed
  then show ?thesis by (intro ext) (metis option.exhaust)
qed

text \<open>
  The publication path in closed form: the probe for an index slot never fails, and the two
  roll-back branches restore the registry exactly.
\<close>

lemma push_free_undo:
  "push_free (r\<lparr>freeHead := ent_nextFree (entries r ! freeHead r)\<rparr>) (freeHead r) = r"
proof -
  have "(entries r)[freeHead r := (entries r ! freeHead r)
      \<lparr>ent_nextFree := ent_nextFree (entries r ! freeHead r)\<rparr>] = entries r"
    by (cases "freeHead r < length (entries r)") simp_all
  then show ?thesis by (simp add: push_free_def)
qed

lemma insertIndexLocked_publish:
  assumes wf: "reg_wf r"
  shows "insertIndexLocked (r\<lparr>freeHead := h\<rparr>) token i =
    (True, r\<lparr>freeHead := h, tokenIndex := (tokenIndex r)[insert_slot_loop (tokenIndex r)
       (indexCapacity r - 1) (unat (hashToken token) AND (indexCapacity r - 1)) SIZE_MAX
       (indexCapacity r) := i + 1]\<rparr>)"
proof -
  have w: "length (tokenIndex r) = indexCapacity r" "index_ok (entries r) (tokenIndex r)"
    using wf by (auto simp: reg_wf_def)
  then have "insert_slot_loop (tokenIndex r) (indexCapacity r - 1)
      (unat (hashToken token) AND (indexCapacity r - 1)) SIZE_MAX (indexCapacity r) \<noteq> SIZE_MAX"
    using insert_slot_loop_ok [OF w(2), of token] index_ok_len [OF w(2)] probe_at_less
    by (metis less_irrefl less_trans not_less_zero neq0_conv)
  then show ?thesis by (simp add: insertIndexLocked_def Let_def)
qed

definition find_identity ::
  "VortekHandleRegistry \<Rightarrow> VortekHandleRole \<Rightarrow> VkObjectType \<Rightarrow> u64 \<Rightarrow> VortekHandleOwner \<Rightarrow> size_t option"
where
  "find_identity r role type hostValue owner =
     (if reuseIdentity role type owner
      then find (\<lambda>i. same_identity role type hostValue owner (entries r ! i)) [0..<capacity r]
      else None)"

lemma registerValueLocked_eq:
  assumes wf: "reg_wf r"
  shows "registerValueLocked r next role type hostValue owner True =
    (if closed r then (VORTEK_HANDLE_CLOSED, None, r, next)
     else if hostValue = 0 then (VORTEK_HANDLE_INVALID_ARGUMENT, None, r, next)
     else if validateOwnersLocked r owner \<noteq> VORTEK_HANDLE_OK
     then (validateOwnersLocked r owner, Some 0, r, next)
     else case find_identity r role type hostValue owner of
       Some i \<Rightarrow> (VORTEK_HANDLE_OK, Some (ent_token (entries r ! i)), r, next)
     | None \<Rightarrow>
         if capacity r \<le> liveCount r then (VORTEK_HANDLE_CAPACITY, Some 0, r, next)
         else if next = 0 \<or> next = UINT64_MAX then (VORTEK_HANDLE_EXHAUSTED, Some 0, r, next)
         else (VORTEK_HANDLE_OK, Some next,
               publish (new_entry r next role type hostValue owner) r, next + 1))"
proof (cases "find_identity r role type hostValue owner")
  case (Some i)
  then show ?thesis
    unfolding registerValueLocked_def find_identity_def [symmetric] by (simp add: Let_def)
next
  case None
  have room: "freeHead r = SIZE_MAX \<Longrightarrow> capacity r \<le> liveCount r" using wf_room [OF wf] by simp
  show ?thesis
    unfolding registerValueLocked_def find_identity_def [symmetric] None
    using room
    by (simp add: Let_def allocateProcessToken_def push_free_undo insertIndexLocked_publish [OF wf]
        publish_def new_entry_def)
qed

section \<open>Retirement as one abstract step\<close>

lemma unregister_fields [simp]:
  "generation (unregisterEntryLocked r i) = generation r"
  "capacity (unregisterEntryLocked r i) = capacity r"
  "closed (unregisterEntryLocked r i) = closed r"
  "indexCapacity (unregisterEntryLocked r i) = indexCapacity r"
  "liveCount (unregisterEntryLocked r i) = liveCount r - 1"
  "windowBindings (unregisterEntryLocked r i) = windowBindings r"
  "windowBindingCount (unregisterEntryLocked r i) = windowBindingCount r"
  "windowBindingCapacity (unregisterEntryLocked r i) = windowBindingCapacity r"
  "windowValidator (unregisterEntryLocked r i) = windowValidator r"
  "windowValidatorUserdata (unregisterEntryLocked r i) = windowValidatorUserdata r"
  by (simp_all add: unregisterEntryLocked_def Let_def)

lemma reg_wf_unregister:
  assumes wf: "reg_wf r" and i: "i < capacity r" "ent_live (entries r ! i)"
  shows "reg_wf (unregisterEntryLocked r i) \<and> 0 < liveCount r"
proof -
  have w: "length (entries r) = capacity r" "length (tokenIndex r) = indexCapacity r"
    "index_ok (entries r) (tokenIndex r)" "free_ok (entries r) (freeHead r)"
    "liveCount r = length (filter ent_live (entries r))"
    using wf by (auto simp: reg_wf_def)
  define s where "s = findIndexSlotLocked r (ent_token (entries r ! i))"
  have s: "s < length (tokenIndex r)" "tokenIndex r ! s = i + 1"
    using find_slot_loop_live [OF w(3), of "ent_token (entries r ! i)" i] i w
    by (auto simp: live_entry_def s_def findIndexSlotLocked_def Let_def)
  have sm: "s \<noteq> SIZE_MAX" using s(1) index_ok_len [OF w(3)] by simp
  define e where "e = (entries r ! i)\<lparr>ent_live := False, ent_hostValue := 0,
    ent_nullDescriptorEnabled := False, ent_activeCalls := 0, ent_retiring := False,
    ent_nextFree := freeHead r\<rparr>"
  have e: "\<not> ent_live e" "ent_nextFree e = freeHead r" by (simp_all add: e_def)
  have il: "i < length (entries r)" using i w by simp
  have "index_ok ((entries r)[i := e]) ((tokenIndex r)[s := SIZE_MAX])"
    using index_ok_delete [OF w(3) il s e(1)] .
  moreover have "free_ok ((entries r)[i := e]) i"
    using free_ok_push [OF w(4) il i(2) e] .
  moreover have "liveCount r - 1 = length (filter ent_live ((entries r)[i := e]))"
    using length_filter_update_off [of i "entries r" ent_live e] il i(2) e(1) w(5) by simp
  moreover have "unregisterEntryLocked r i = r\<lparr>tokenIndex := (tokenIndex r)[s := SIZE_MAX],
      entries := (entries r)[i := e], freeHead := i, liveCount := liveCount r - 1\<rparr>"
    using sm by (simp add: unregisterEntryLocked_def Let_def s_def e_def)
  moreover have "\<forall>k<capacity r. ent_live ((entries r)[i := e] ! k) \<longrightarrow>
      ent_token ((entries r)[i := e] ! k) \<noteq> 0 \<and>
      ent_contextGeneration ((entries r)[i := e] ! k) = generation r"
    using wf e(1) il by (auto simp: reg_wf_def nth_list_update)
  ultimately have "reg_wf (unregisterEntryLocked r i)"
    using wf w by (simp add: reg_wf_def)
  moreover have "0 < liveCount r"
    using w(5) il i(2) filter_length_pos_iff [of ent_live "entries r"] by auto
  ultimately show ?thesis by simp
qed

lemma unregister_entries:
  "length (entries (unregisterEntryLocked r i)) = length (entries r)"
  "k \<noteq> i \<Longrightarrow> entries (unregisterEntryLocked r i) ! k = entries r ! k"
  "i < length (entries r) \<Longrightarrow> \<not> ent_live (entries (unregisterEntryLocked r i) ! i)"
  by (simp_all add: unregisterEntryLocked_def Let_def)

lemma reg_map_unregister:
  assumes wf: "reg_wf r" and i: "i < capacity r" "ent_live (entries r ! i)"
  shows "reg_map (unregisterEntryLocked r i) = (reg_map r)(ent_token (entries r ! i) := None)"
proof -
  have wf': "reg_wf (unregisterEntryLocked r i)" using reg_wf_unregister [OF assms] by simp
  have len: "length (entries r) = capacity r" using wf by (simp add: reg_wf_def)
  let ?t = "ent_token (entries r ! i)"
  have uniq: "k = i" if "k < capacity r" "ent_live (entries r ! k)" "ent_token (entries r ! k) = ?t" for k
    using findLiveLocked_live [OF wf that(1,2)] findLiveLocked_live [OF wf i] that(3)
    by (metis option.inject)
  have other: "(entries (unregisterEntryLocked r i) ! k = x \<and> ent_live x) \<longleftrightarrow>
      (k \<noteq> i \<and> entries r ! k = x \<and> ent_live x)" for k x
    using unregister_entries(3) [of i r] unregister_entries(2) [of k i r] i len
    by (cases "k = i") auto
  have "reg_map (unregisterEntryLocked r i) t = Some x \<longleftrightarrow> ((reg_map r)(?t := None)) t = Some x" for t x
  proof -
    have "reg_map (unregisterEntryLocked r i) t = Some x \<longleftrightarrow>
        (\<exists>k<capacity r. entries (unregisterEntryLocked r i) ! k = x \<and> ent_live x \<and> ent_token x = t)"
      using reg_map_Some [OF wf', of t x] by simp
    also have "\<dots> \<longleftrightarrow> (\<exists>k<capacity r. k \<noteq> i \<and> entries r ! k = x \<and> ent_live x \<and> ent_token x = t)"
      using other by blast
    also have "\<dots> \<longleftrightarrow> t \<noteq> ?t \<and> reg_map r t = Some x"
      using reg_map_Some [OF wf, of t x] uniq i by metis
    finally show ?thesis by simp
  qed
  then show ?thesis by (intro ext) (metis option.exhaust)
qed

lemma retire_token_facts:
  assumes wf: "reg_wf r"
  shows "reg_wf (retire_token t r)" and "reg_map (retire_token t r) = (reg_map r)(t := None)"
    and "liveCount (retire_token t r) = (if reg_map r t = None then liveCount r else liveCount r - 1)"
    and "generation (retire_token t r) = generation r" "capacity (retire_token t r) = capacity r"
      "closed (retire_token t r) = closed r"
proof -
  have "reg_wf (retire_token t r) \<and> reg_map (retire_token t r) = (reg_map r)(t := None) \<and>
    liveCount (retire_token t r) = (if reg_map r t = None then liveCount r else liveCount r - 1) \<and>
    generation (retire_token t r) = generation r \<and> capacity (retire_token t r) = capacity r \<and>
    closed (retire_token t r) = closed r"
  proof (cases "findLiveLocked r t")
    case None
    then have "reg_map r t = None" by (simp add: reg_map_def)
    with None wf show ?thesis by (auto simp: retire_token_def fun_upd_idem)
  next
    case (Some i)
    then have i: "i < capacity r" "ent_live (entries r ! i)" "ent_token (entries r ! i) = t"
      using findLiveLocked_entry [OF wf] by auto
    from Some obtain x where "reg_map r t = Some x" by (simp add: reg_map_def)
    with Some i reg_wf_unregister [OF wf i(1,2)] reg_map_unregister [OF wf i(1,2)]
    show ?thesis by (simp add: retire_token_def)
  qed
  then show "reg_wf (retire_token t r)" "reg_map (retire_token t r) = (reg_map r)(t := None)"
    "liveCount (retire_token t r) = (if reg_map r t = None then liveCount r else liveCount r - 1)"
    "generation (retire_token t r) = generation r" "capacity (retire_token t r) = capacity r"
    "closed (retire_token t r) = closed r" by simp_all
qed

end
