(* ===== verification/Registry_Api.thy ===== *)
theory Registry_Api
  imports Registry_Invariant
begin

text \<open>
  The public operations of the handle registry (\<^verbatim>\<open>vortekrenderer/src/handle_registry.c\<close>,
  from \<open>VortekHandleRegistry_beginClose\<close> on). Each is one critical section; the operations that
  wait on \<^verbatim>\<open>leaseCond\<close> are split at the wait, where the mutex is released: a \<open>_mark\<close> part
  and a \<open>_finish\<close> part whose result \<^const>\<open>None\<close> means that the caller still waits.
  Out parameters are results; \<open>haveOut\<close> flags say that an out pointer is not NULL.
\<close>

section \<open>Closing\<close>

definition mark_devices_retiring ::
  "(VortekHandleEntry \<Rightarrow> bool) \<Rightarrow> VortekHandleEntry list \<Rightarrow> VortekHandleEntry list" where
  "mark_devices_retiring P es =
     map (\<lambda>e. if is_live_device e \<and> P e then e\<lparr>ent_retiring := True\<rparr> else e) es"

definition VortekHandleRegistry_beginClose ::
  "VortekHandleRegistry ptr \<Rightarrow> VortekHandleRegistry ptr" where
  "VortekHandleRegistry_beginClose registry =
     map_option (\<lambda>r. r\<lparr>closed := True,
        entries := mark_devices_retiring (\<lambda>_. True) (entries r)\<rparr>) registry"

text \<open>\<open>VortekHandleRegistry_close\<close> first runs \<open>VortekHandleRegistry_beginClose\<close>; this is the rest.\<close>

definition VortekHandleRegistry_close_finish ::
  "VortekHandleRegistry \<Rightarrow> VortekHandleRegistry option" where
  "VortekHandleRegistry_close_finish r =
     (if hasActiveDeviceCallsLocked r then None
      else Some (r\<lparr>windowValidator := 0, windowValidatorUserdata := 0,
             windowBindings := replicate (windowBindingCapacity r) zero_binding,
             windowBindingCount := 0\<rparr>))"

text \<open>The part of \<open>VortekHandleRegistry_destroy\<close> after the close: the result and, if the memory
  was freed, no registry.\<close>

definition VortekHandleRegistry_destroy_finish ::
  "VortekHandleRegistry ptr \<Rightarrow> bool \<times> VortekHandleRegistry ptr" where
  "VortekHandleRegistry_destroy_finish registry =
     (case registry of None \<Rightarrow> (True, None)
      | Some r \<Rightarrow> if liveCount r \<noteq> 0 then (False, Some r) else (True, None))"

definition VortekHandleRegistry_generation :: "VortekHandleRegistry ptr \<Rightarrow> u64" where
  "VortekHandleRegistry_generation registry = (case registry of None \<Rightarrow> 0 | Some r \<Rightarrow> generation r)"

definition VortekHandleRegistry_liveCount :: "VortekHandleRegistry ptr \<Rightarrow> size_t" where
  "VortekHandleRegistry_liveCount registry = (case registry of None \<Rightarrow> 0 | Some r \<Rightarrow> liveCount r)"

section \<open>Registration\<close>

definition VortekHandleRegistry_registerVulkan ::
  "VortekHandleRegistry ptr \<Rightarrow> u64 \<Rightarrow> VkObjectType \<Rightarrow> u64 \<Rightarrow> VortekHandleOwner \<Rightarrow> bool
     \<Rightarrow> VortekHandleStatus \<times> VortekHandleToken option \<times> VortekHandleRegistry ptr \<times> u64" where
  "VortekHandleRegistry_registerVulkan registry next type hostHandleBits owner haveOut =
     (case registry of
        None \<Rightarrow> (VORTEK_HANDLE_INVALID_ARGUMENT, None, None, next)
      | Some r \<Rightarrow>
          if type = VK_OBJECT_TYPE_UNKNOWN
          then (VORTEK_HANDLE_INVALID_ARGUMENT, None, Some r, next)
          else (case registerValueLocked r next VORTEK_HANDLE_ROLE_VULKAN type hostHandleBits
                       owner haveOut of
                  (status, token, r', next') \<Rightarrow> (status, token, Some r', next')))"

definition VortekHandleRegistry_registerWrapper ::
  "VortekHandleRegistry ptr \<Rightarrow> u64 \<Rightarrow> VortekHandleRole \<Rightarrow> u64 \<Rightarrow> VortekHandleOwner \<Rightarrow> bool
     \<Rightarrow> VortekHandleStatus \<times> VortekHandleToken option \<times> VortekHandleRegistry ptr \<times> u64" where
  "VortekHandleRegistry_registerWrapper registry next role wrapper owner haveOut =
     (case registry of
        None \<Rightarrow> (VORTEK_HANDLE_INVALID_ARGUMENT, None, None, next)
      | Some r \<Rightarrow>
          if wrapper = 0 \<or> role = VORTEK_HANDLE_ROLE_VULKAN \<or> role = VORTEK_HANDLE_ROLE_WINDOW_ID
          then (VORTEK_HANDLE_INVALID_ARGUMENT, None, Some r, next)
          else (case registerValueLocked r next role VK_OBJECT_TYPE_UNKNOWN wrapper owner haveOut of
                  (status, token, r', next') \<Rightarrow> (status, token, Some r', next')))"

text \<open>
  The loop of the batch registration: status, the tokens written so far, the entries of
  \<^verbatim>\<open>newlyCreated\<close> (0 for a reused identity), registry and counter.
\<close>

fun register_batch_loop ::
  "VortekHandleRegistry \<Rightarrow> u64 \<Rightarrow> VkObjectType \<Rightarrow> u64 list \<Rightarrow> VortekHandleOwner
     \<Rightarrow> VortekHandleStatus \<times> VortekHandleToken list \<times> VortekHandleToken list
        \<times> VortekHandleRegistry \<times> u64" where
  "register_batch_loop r next type [] owner = (VORTEK_HANDLE_OK, [], [], r, next)"
| "register_batch_loop r next type (h # hs) owner =
     (let next0 = next;
          (status, out, r1, next1) =
             registerValueLocked r next VORTEK_HANDLE_ROLE_VULKAN type h owner True
      in if status \<noteq> VORTEK_HANDLE_OK then (status, [], [], r1, next1)
         else let token = (case out of Some t \<Rightarrow> t | None \<Rightarrow> 0);
                  created = (if next0 \<le> token then token else 0);
                  (status', tokens, news, r2, next2) = register_batch_loop r1 next1 type hs owner
              in (status', token # tokens, created # news, r2, next2))"

definition VortekHandleRegistry_registerVulkanBatch ::
  "bool \<Rightarrow> VortekHandleRegistry ptr \<Rightarrow> u64 \<Rightarrow> VkObjectType \<Rightarrow> u64 list ptr \<Rightarrow> size_t \<Rightarrow> VortekHandleOwner
     \<Rightarrow> bool \<Rightarrow> VortekHandleStatus \<times> VortekHandleToken list \<times> VortekHandleRegistry ptr \<times> u64" where
  "VortekHandleRegistry_registerVulkanBatch calloc_ok registry next type hostHandleBits count owner
       haveOut =
     (case registry of
        None \<Rightarrow> (VORTEK_HANDLE_INVALID_ARGUMENT, [], None, next)
      | Some r \<Rightarrow>
          if type = VK_OBJECT_TYPE_UNKNOWN \<or> SIZE_MAX div 8 < count \<or>
             (count \<noteq> 0 \<and> (hostHandleBits = None \<or> \<not> haveOut))
          then (VORTEK_HANDLE_INVALID_ARGUMENT, [], Some r, next)
          else if count = 0 then (VORTEK_HANDLE_OK, [], Some r, next)
          else if \<not> calloc_ok then (VORTEK_HANDLE_CAPACITY, replicate count 0, Some r, next)
          else let (status, tokens, news, r1, next1) =
                     register_batch_loop r next type (take count (the hostHandleBits)) owner
               in if status \<noteq> VORTEK_HANDLE_OK
                  then (status, replicate count 0,
                        Some (fold retire_token (filter (\<lambda>t. t \<noteq> 0) news) r1), next1)
                  else (status, tokens, Some r1, next1))"

section \<open>Lookup and retirement of single handles\<close>

text \<open>Status and \<^verbatim>\<open>*valueOut\<close>, which is written on success only.\<close>

definition VortekHandleRegistry_lookup ::
  "VortekHandleRegistry ptr \<Rightarrow> u64 \<Rightarrow> VortekHandleToken \<Rightarrow> VortekHandleExpectation ptr \<Rightarrow> bool
     \<Rightarrow> VortekHandleStatus \<times> VortekHandleValue option" where
  "VortekHandleRegistry_lookup registry next token expectation haveOut =
     (case registry of
        None \<Rightarrow> (VORTEK_HANDLE_INVALID_ARGUMENT, None)
      | Some r \<Rightarrow>
          (case expectation of
             None \<Rightarrow> (VORTEK_HANDLE_INVALID_ARGUMENT, None)
           | Some x \<Rightarrow>
               if \<not> haveOut then (VORTEK_HANDLE_INVALID_ARGUMENT, None)
               else let (status, entry) = validateExpectationLocked r next token (Some x)
                    in if status \<noteq> VORTEK_HANDLE_OK then (status, None)
                       else if token = 0
                       then (status, Some (zero_value\<lparr>val_contextGeneration := generation r,
                               val_role := exp_role x, val_vulkanType := exp_vulkanType x\<rparr>))
                       else (status, map_option
                               (\<lambda>i. value_of_entry (generation r) (entries r ! i)) entry)))"

definition VortekHandleRegistry_unregister ::
  "VortekHandleRegistry ptr \<Rightarrow> u64 \<Rightarrow> VortekHandleToken \<Rightarrow> VortekHandleExpectation ptr \<Rightarrow> bool
     \<Rightarrow> VortekHandleStatus \<times> VortekHandleValue option \<times> VortekHandleRegistry ptr" where
  "VortekHandleRegistry_unregister registry next token expectation haveOut =
     (case registry of
        None \<Rightarrow> (VORTEK_HANDLE_INVALID_ARGUMENT, None, None)
      | Some r \<Rightarrow>
          if expectation = None \<or> token = 0 then (VORTEK_HANDLE_INVALID_ARGUMENT, None, Some r)
          else case validateExpectationLocked r next token expectation of
            (VORTEK_HANDLE_OK, Some i) \<Rightarrow>
              if entryDeviceHasActiveCallsLocked r i \<or> entryHasLiveDependentsLocked r i
              then (VORTEK_HANDLE_RETIRING, None, Some r)
              else (VORTEK_HANDLE_OK,
                    (if haveOut then Some (value_of_entry (generation r) (entries r ! i)) else None),
                    Some (unregisterEntryLocked r i))
          | (status, _) \<Rightarrow> (status, None, Some r))"

section \<open>Batches\<close>

text \<open>The checks on the sorted copy: a null token, or two equal neighbours.\<close>

fun null_or_duplicate :: "VortekHandleToken list \<Rightarrow> bool" where
  "null_or_duplicate [] = False"
| "null_or_duplicate [t] = (t = 0)"
| "null_or_duplicate (t # u # ts) = (t = 0 \<or> u = t \<or> null_or_duplicate (u # ts))"

fun validate_all ::
  "VortekHandleRegistry \<Rightarrow> u64 \<Rightarrow> VortekHandleExpectation ptr \<Rightarrow> bool \<Rightarrow> VortekHandleToken list
     \<Rightarrow> VortekHandleStatus" where
  "validate_all r next x allowClosed [] = VORTEK_HANDLE_OK"
| "validate_all r next x allowClosed (t # ts) =
     (let status = fst (validateExpectationLockedEx r next t x allowClosed)
      in if status \<noteq> VORTEK_HANDLE_OK then status else validate_all r next x allowClosed ts)"

definition any_active_calls :: "VortekHandleRegistry \<Rightarrow> VortekHandleToken list \<Rightarrow> bool" where
  "any_active_calls r ts =
     list_ex (\<lambda>t. case findLiveLocked r t of None \<Rightarrow> False
                  | Some i \<Rightarrow> entryDeviceHasActiveCallsLocked r i) ts"

definition VortekHandleRegistry_unregisterBatch ::
  "bool \<Rightarrow> VortekHandleRegistry ptr \<Rightarrow> u64 \<Rightarrow> VortekHandleToken list ptr \<Rightarrow> size_t
     \<Rightarrow> VortekHandleExpectation ptr \<Rightarrow> VortekHandleStatus \<times> VortekHandleRegistry ptr" where
  "VortekHandleRegistry_unregisterBatch malloc_ok registry next tokens count expectation =
     (case registry of
        None \<Rightarrow> (VORTEK_HANDLE_INVALID_ARGUMENT, None)
      | Some r \<Rightarrow>
          if expectation = None \<or> (count \<noteq> 0 \<and> tokens = None) \<or> SIZE_MAX div 8 < count
          then (VORTEK_HANDLE_INVALID_ARGUMENT, Some r)
          else if count = 0 then (VORTEK_HANDLE_OK, Some r)
          else if \<not> malloc_ok then (VORTEK_HANDLE_CAPACITY, Some r)
          else let sorted_tokens = sort (take count (the tokens))
               in if null_or_duplicate sorted_tokens
                  then (VORTEK_HANDLE_INVALID_ARGUMENT, Some r)
                  else let status = validate_all r next expectation False sorted_tokens
                  in if status \<noteq> VORTEK_HANDLE_OK then (status, Some r)
                     else if any_active_calls r sorted_tokens then (VORTEK_HANDLE_RETIRING, Some r)
                     else (VORTEK_HANDLE_OK, Some (fold retire_token sorted_tokens r)))"

definition VortekHandleRegistry_validateBatch ::
  "bool \<Rightarrow> VortekHandleRegistry ptr \<Rightarrow> u64 \<Rightarrow> VortekHandleToken list ptr \<Rightarrow> size_t
     \<Rightarrow> VortekHandleExpectation ptr \<Rightarrow> VortekHandleStatus" where
  "VortekHandleRegistry_validateBatch malloc_ok registry next tokens count expectation =
     (case registry of
        None \<Rightarrow> VORTEK_HANDLE_INVALID_ARGUMENT
      | Some r \<Rightarrow>
          if expectation = None \<or> (count \<noteq> 0 \<and> tokens = None) \<or> SIZE_MAX div 8 < count
          then VORTEK_HANDLE_INVALID_ARGUMENT
          else if count = 0 then VORTEK_HANDLE_OK
          else if \<not> malloc_ok then VORTEK_HANDLE_CAPACITY
          else let sorted_tokens = sort (take count (the tokens))
               in if null_or_duplicate sorted_tokens then VORTEK_HANDLE_INVALID_ARGUMENT
                  else validate_all r next expectation False sorted_tokens)"

text \<open>\<open>self\<close> is the address of the registry, which the lease also names.\<close>

definition VortekHandleRegistry_rollbackBatchWithLease ::
  "bool \<Rightarrow> u64 \<Rightarrow> VortekHandleRegistry ptr \<Rightarrow> u64 \<Rightarrow> VortekHandleToken list ptr \<Rightarrow> size_t
     \<Rightarrow> VortekHandleExpectation ptr \<Rightarrow> VortekDeviceLease ptr
     \<Rightarrow> VortekHandleStatus \<times> VortekHandleRegistry ptr" where
  "VortekHandleRegistry_rollbackBatchWithLease malloc_ok self registry next tokens count
       expectation lease =
     (case (registry, expectation, lease) of
        (Some r, Some x, Some l) \<Rightarrow>
          if \<not> lease_active l \<or> lease_registry l \<noteq> self \<or> lease_device l = 0 \<or>
             lease_contextGeneration l = 0 \<or>
             exp_contextGeneration x \<noteq> lease_contextGeneration l \<or>
             own_device (exp_owner x) \<noteq> lease_device l \<or> \<not> exp_requireDeviceOwner x \<or>
             (count \<noteq> 0 \<and> tokens = None) \<or> SIZE_MAX div 8 < count
          then (VORTEK_HANDLE_INVALID_ARGUMENT, registry)
          else if count = 0 then (VORTEK_HANDLE_OK, registry)
          else if \<not> malloc_ok then (VORTEK_HANDLE_CAPACITY, registry)
          else let sorted_tokens = sort (take count (the tokens))
               in if null_or_duplicate sorted_tokens
                  then (VORTEK_HANDLE_INVALID_ARGUMENT, registry)
                  else let deviceStale =
                         (case findLiveLocked r (lease_device l) of
                            None \<Rightarrow> True
                          | Some d \<Rightarrow>
                              ent_contextGeneration (entries r ! d) \<noteq> lease_contextGeneration l \<or>
                              ent_role (entries r ! d) \<noteq> VORTEK_HANDLE_ROLE_VULKAN \<or>
                              ent_vulkanType (entries r ! d) \<noteq> VK_OBJECT_TYPE_DEVICE \<or>
                              ent_activeCalls (entries r ! d) = 0);
                       status = (if deviceStale then VORTEK_HANDLE_STALE
                                 else validate_all r next expectation True sorted_tokens)
                  in if status \<noteq> VORTEK_HANDLE_OK then (status, registry)
                     else (VORTEK_HANDLE_OK, Some (fold retire_token sorted_tokens r))
      | _ \<Rightarrow> (VORTEK_HANDLE_INVALID_ARGUMENT, registry))"

text \<open>\<open>unregisterMatchingLocked\<close> with its only predicate, \<open>hasParent\<close>: the pre-flight loop, then
  the removal loop over the entries in order.\<close>

definition hasParent :: "VortekHandleEntry \<Rightarrow> VortekHandleToken \<Rightarrow> bool" where
  "hasParent e token \<longleftrightarrow> own_parent (ent_owner e) = token"

definition unregisterMatchingLocked ::
  "VortekHandleRegistry \<Rightarrow> VortekHandleToken \<Rightarrow> (VortekHandleEntry \<Rightarrow> VortekHandleToken \<Rightarrow> bool)
     \<Rightarrow> VortekHandleStatus \<times> VortekHandleRegistry" where
  "unregisterMatchingLocked r token predicate =
     (if closed r then (VORTEK_HANDLE_CLOSED, r)
      else if token = 0 then (VORTEK_HANDLE_INVALID_ARGUMENT, r)
      else if list_ex (\<lambda>i. ent_live (entries r ! i) \<and> predicate (entries r ! i) token \<and>
                entryDeviceHasActiveCallsLocked r i) [0..<capacity r]
      then (VORTEK_HANDLE_RETIRING, r)
      else (VORTEK_HANDLE_OK,
            fold (\<lambda>i r. if ent_live (entries r ! i) \<and> predicate (entries r ! i) token
                         then unregisterEntryLocked r i else r) [0..<capacity r] r))"

definition VortekHandleRegistry_unregisterChildren ::
  "VortekHandleRegistry ptr \<Rightarrow> VortekHandleToken \<Rightarrow> VortekHandleStatus \<times> VortekHandleRegistry ptr" where
  "VortekHandleRegistry_unregisterChildren registry parent =
     (case registry of
        None \<Rightarrow> (VORTEK_HANDLE_INVALID_ARGUMENT, None)
      | Some r \<Rightarrow>
          if parent = 0 then (VORTEK_HANDLE_OK, Some r)
          else (case unregisterMatchingLocked r parent hasParent of
                  (status, r') \<Rightarrow> (status, Some r')))"

end
