(* ===== verification/Registry_Lease.thy ===== *)
theory Registry_Lease
  imports Registry_Api
begin

text \<open>
  Device leases, retirement, scoped drain and window bindings of the handle registry
  (\<^verbatim>\<open>vortekrenderer/src/handle_registry.c\<close>).
\<close>

section \<open>Device flags and leases\<close>

definition update_entry ::
  "size_t \<Rightarrow> (VortekHandleEntry \<Rightarrow> VortekHandleEntry) \<Rightarrow> VortekHandleRegistry \<Rightarrow> VortekHandleRegistry"
where
  "update_entry i f r = r\<lparr>entries := (entries r)[i := f (entries r ! i)]\<rparr>"

text \<open>The status of a token that is not a live device (or instance): the shared nested conditional.\<close>

definition wrong_kind_status :: "VortekHandleRegistry \<Rightarrow> u64 \<Rightarrow> VortekHandleToken \<Rightarrow> VortekHandleStatus" where
  "wrong_kind_status r next token =
     (case findLiveLocked r token of
        None \<Rightarrow> missingStatusLocked next token
      | Some i \<Rightarrow> if ent_role (entries r ! i) \<noteq> VORTEK_HANDLE_ROLE_VULKAN
                  then VORTEK_HANDLE_WRONG_ROLE else VORTEK_HANDLE_WRONG_TYPE)"

definition VortekHandleRegistry_setDeviceNullDescriptor ::
  "VortekHandleRegistry ptr \<Rightarrow> u64 \<Rightarrow> VortekHandleToken \<Rightarrow> bool
     \<Rightarrow> VortekHandleStatus \<times> VortekHandleRegistry ptr" where
  "VortekHandleRegistry_setDeviceNullDescriptor registry next device enabled =
     (case registry of
        None \<Rightarrow> (VORTEK_HANDLE_INVALID_ARGUMENT, None)
      | Some r \<Rightarrow>
          if device = 0 then (VORTEK_HANDLE_INVALID_ARGUMENT, Some r)
          else if closed r then (VORTEK_HANDLE_CLOSED, Some r)
          else (case findLiveLocked r device of
                  None \<Rightarrow> (missingStatusLocked next device, Some r)
                | Some i \<Rightarrow>
                    if ent_role (entries r ! i) \<noteq> VORTEK_HANDLE_ROLE_VULKAN
                    then (VORTEK_HANDLE_WRONG_ROLE, Some r)
                    else if ent_vulkanType (entries r ! i) \<noteq> VK_OBJECT_TYPE_DEVICE
                    then (VORTEK_HANDLE_WRONG_TYPE, Some r)
                    else (VORTEK_HANDLE_OK,
                          Some (update_entry i (\<lambda>e. e\<lparr>ent_nullDescriptorEnabled := enabled\<rparr>) r))))"

text \<open>\<open>self\<close> is the registry's address; the lease out parameter is a result.\<close>

definition VortekHandleRegistry_acquireDeviceLease ::
  "u64 \<Rightarrow> VortekHandleRegistry ptr \<Rightarrow> u64 \<Rightarrow> VortekHandleToken \<Rightarrow> u64 \<Rightarrow> bool
     \<Rightarrow> VortekHandleStatus \<times> VortekDeviceLease option \<times> VortekHandleRegistry ptr" where
  "VortekHandleRegistry_acquireDeviceLease self registry next device contextGeneration haveOut =
     (case registry of
        None \<Rightarrow> (VORTEK_HANDLE_INVALID_ARGUMENT, None, None)
      | Some r \<Rightarrow>
          if \<not> haveOut \<or> device = 0 \<or> contextGeneration = 0
          then (VORTEK_HANDLE_INVALID_ARGUMENT, None, Some r)
          else if closed r then (VORTEK_HANDLE_CLOSED, Some zero_lease, Some r)
          else if contextGeneration \<noteq> generation r
          then (VORTEK_HANDLE_WRONG_GENERATION, Some zero_lease, Some r)
          else (case isLiveVulkanTypeLocked r device VK_OBJECT_TYPE_DEVICE of
                  None \<Rightarrow> (wrong_kind_status r next device, Some zero_lease, Some r)
                | Some i \<Rightarrow>
                    if ent_retiring (entries r ! i)
                    then (VORTEK_HANDLE_RETIRING, Some zero_lease, Some r)
                    else if ent_activeCalls (entries r ! i) = UINT32_MAX
                    then (VORTEK_HANDLE_EXHAUSTED, Some zero_lease, Some r)
                    else (VORTEK_HANDLE_OK,
                          Some \<lparr>lease_registry = self, lease_device = device,
                            lease_contextGeneration = contextGeneration,
                            lease_hostDeviceBits = ent_hostValue (entries r ! i),
                            lease_active = True\<rparr>,
                          Some (update_entry i
                            (\<lambda>e. e\<lparr>ent_activeCalls := ent_activeCalls e + 1\<rparr>) r))))"

text \<open>\<open>r\<close> is the registry the lease points to. The lease is cleared on success.\<close>

definition lease_entry_stale :: "VortekHandleEntry \<Rightarrow> VortekDeviceLease \<Rightarrow> bool" where
  "lease_entry_stale e l \<longleftrightarrow> ent_contextGeneration e \<noteq> lease_contextGeneration l \<or>
     ent_role e \<noteq> VORTEK_HANDLE_ROLE_VULKAN \<or> ent_vulkanType e \<noteq> VK_OBJECT_TYPE_DEVICE"

definition VortekHandleRegistry_releaseDeviceLease ::
  "VortekDeviceLease ptr \<Rightarrow> VortekHandleRegistry
     \<Rightarrow> VortekHandleStatus \<times> VortekDeviceLease ptr \<times> VortekHandleRegistry" where
  "VortekHandleRegistry_releaseDeviceLease lease r =
     (case lease of
        None \<Rightarrow> (VORTEK_HANDLE_INVALID_ARGUMENT, None, r)
      | Some l \<Rightarrow>
          if \<not> lease_active l \<or> lease_registry l = 0 \<or> lease_device l = 0
          then (VORTEK_HANDLE_INVALID_ARGUMENT, lease, r)
          else (case findLiveLocked r (lease_device l) of
                  None \<Rightarrow> (VORTEK_HANDLE_STALE, lease, r)
                | Some i \<Rightarrow>
                    if lease_entry_stale (entries r ! i) l \<or> ent_activeCalls (entries r ! i) = 0
                    then (VORTEK_HANDLE_STALE, lease, r)
                    else (VORTEK_HANDLE_OK, Some zero_lease,
                          update_entry i (\<lambda>e. e\<lparr>ent_activeCalls := ent_activeCalls e - 1\<rparr>) r)))"

definition VortekHandleRegistry_deviceLeaseShouldCancel ::
  "VortekDeviceLease ptr \<Rightarrow> VortekHandleRegistry \<Rightarrow> bool" where
  "VortekHandleRegistry_deviceLeaseShouldCancel lease r =
     (case lease of
        None \<Rightarrow> True
      | Some l \<Rightarrow>
          if \<not> lease_active l \<or> lease_registry l = 0 \<or> lease_device l = 0 then True
          else closed r \<or>
               (case findLiveLocked r (lease_device l) of
                  None \<Rightarrow> True
                | Some i \<Rightarrow> lease_entry_stale (entries r ! i) l \<or> ent_retiring (entries r ! i)))"

section \<open>Retirement\<close>

text \<open>Up to the wait: status, the entry the caller waits on, registry.\<close>

definition VortekHandleRegistry_beginDeviceRetirement_mark ::
  "VortekHandleRegistry ptr \<Rightarrow> u64 \<Rightarrow> VortekHandleToken \<Rightarrow> u64
     \<Rightarrow> VortekHandleStatus \<times> size_t option \<times> VortekHandleRegistry ptr" where
  "VortekHandleRegistry_beginDeviceRetirement_mark registry next device contextGeneration =
     (case registry of
        None \<Rightarrow> (VORTEK_HANDLE_INVALID_ARGUMENT, None, None)
      | Some r \<Rightarrow>
          if device = 0 \<or> contextGeneration = 0 then (VORTEK_HANDLE_INVALID_ARGUMENT, None, Some r)
          else if closed r then (VORTEK_HANDLE_CLOSED, None, Some r)
          else if contextGeneration \<noteq> generation r
          then (VORTEK_HANDLE_WRONG_GENERATION, None, Some r)
          else (case isLiveVulkanTypeLocked r device VK_OBJECT_TYPE_DEVICE of
                  None \<Rightarrow> (wrong_kind_status r next device, None, Some r)
                | Some i \<Rightarrow> (VORTEK_HANDLE_OK, Some i,
                             Some (update_entry i (\<lambda>e. e\<lparr>ent_retiring := True\<rparr>) r))))"

text \<open>The wait loop looks at the entry it found; it returns when no call is active there.\<close>

definition VortekHandleRegistry_beginDeviceRetirement_finish ::
  "VortekHandleRegistry \<Rightarrow> size_t \<Rightarrow> VortekHandleStatus option" where
  "VortekHandleRegistry_beginDeviceRetirement_finish r i =
     (if ent_activeCalls (entries r ! i) \<noteq> 0 then None else Some VORTEK_HANDLE_OK)"

definition VortekHandleRegistry_beginInstanceRetirement_mark ::
  "VortekHandleRegistry ptr \<Rightarrow> u64 \<Rightarrow> VortekHandleToken \<Rightarrow> u64
     \<Rightarrow> VortekHandleStatus \<times> VortekHandleRegistry ptr" where
  "VortekHandleRegistry_beginInstanceRetirement_mark registry next inst contextGeneration =
     (case registry of
        None \<Rightarrow> (VORTEK_HANDLE_INVALID_ARGUMENT, None)
      | Some r \<Rightarrow>
          if inst = 0 \<or> contextGeneration = 0 then (VORTEK_HANDLE_INVALID_ARGUMENT, Some r)
          else if closed r then (VORTEK_HANDLE_CLOSED, Some r)
          else if contextGeneration \<noteq> generation r then (VORTEK_HANDLE_WRONG_GENERATION, Some r)
          else if isLiveVulkanTypeLocked r inst VK_OBJECT_TYPE_INSTANCE = None
          then (wrong_kind_status r next inst, Some r)
          else (VORTEK_HANDLE_OK,
                Some (r\<lparr>entries := mark_devices_retiring
                        (\<lambda>e. own_instance (ent_owner e) = inst) (entries r)\<rparr>)))"

definition VortekHandleRegistry_beginInstanceRetirement_finish ::
  "VortekHandleRegistry \<Rightarrow> VortekHandleToken \<Rightarrow> VortekHandleStatus option" where
  "VortekHandleRegistry_beginInstanceRetirement_finish r inst =
     (if list_ex (\<lambda>i. is_live_device (entries r ! i) \<and>
             own_instance (ent_owner (entries r ! i)) = inst \<and> ent_activeCalls (entries r ! i) \<noteq> 0)
           [0..<capacity r]
      then None else Some VORTEK_HANDLE_OK)"

section \<open>Window bindings\<close>

function purge_windows_loop ::
  "VortekWindowBinding list \<Rightarrow> size_t \<Rightarrow> VortekHandleToken \<Rightarrow> size_t
     \<Rightarrow> VortekWindowBinding list \<times> size_t" where
  "purge_windows_loop bs count inst index =
     (if index < count
      then if win_instanceOwner (bs ! index) \<noteq> inst
           then purge_windows_loop bs count inst (index + 1)
           else let last = count - 1;
                    bs1 = (if index \<noteq> last then bs[index := bs ! last] else bs)
                in purge_windows_loop (bs1[last := zero_binding]) last inst index
      else (bs, count))"
  by pat_completeness auto
termination
  by (relation "measure (\<lambda>(bs, count, inst, index). count - index)") auto

declare purge_windows_loop.simps [simp del]

definition purgeWindowBindingsLocked ::
  "VortekHandleRegistry \<Rightarrow> VortekHandleToken \<Rightarrow> VortekHandleRegistry" where
  "purgeWindowBindingsLocked r inst =
     (if inst = 0 then r
      else (case purge_windows_loop (windowBindings r) (windowBindingCount r) inst 0 of
              (bs, count) \<Rightarrow> r\<lparr>windowBindings := bs, windowBindingCount := count\<rparr>))"

definition bindWindowLifetimeLocked ::
  "VortekHandleRegistry \<Rightarrow> VortekHandleToken \<Rightarrow> u32 \<Rightarrow> u64 \<Rightarrow> VortekHandleStatus \<times> VortekHandleRegistry"
where
  "bindWindowLifetimeLocked r inst windowId lifetime =
     (if inst = 0 \<or> windowId = 0 \<or> lifetime = 0 then (VORTEK_HANDLE_INVALID_ARGUMENT, r)
      else case find (\<lambda>i. win_instanceOwner (windowBindings r ! i) = inst \<and>
                          win_windowId (windowBindings r ! i) = windowId) [0..<windowBindingCount r] of
        Some i \<Rightarrow> (if win_lifetime (windowBindings r ! i) = lifetime
                   then VORTEK_HANDLE_OK else VORTEK_HANDLE_WINDOW_REJECTED, r)
      | None \<Rightarrow>
          if windowBindingCapacity r \<le> windowBindingCount r then (VORTEK_HANDLE_CAPACITY, r)
          else (VORTEK_HANDLE_OK,
                r\<lparr>windowBindings := (windowBindings r)[windowBindingCount r :=
                     \<lparr>win_instanceOwner = inst, win_lifetime = lifetime, win_windowId = windowId\<rparr>],
                  windowBindingCount := windowBindingCount r + 1\<rparr>))"

definition VortekHandleRegistry_setWindowValidator ::
  "VortekHandleRegistry ptr \<Rightarrow> u64 \<Rightarrow> u64 \<Rightarrow> VortekHandleRegistry ptr" where
  "VortekHandleRegistry_setWindowValidator registry validator userdata =
     map_option (\<lambda>r. if closed r then r
        else r\<lparr>windowValidator := validator, windowValidatorUserdata := userdata\<rparr>) registry"

text \<open>
  \<open>callback validator userdata generation instance window\<close> is what the callback at address
  \<open>validator\<close> answers at this call: the window's lifetime identity, 0 when it has none.
\<close>

definition VortekHandleRegistry_validateWindowId ::
  "(u64 \<Rightarrow> u64 \<Rightarrow> u64 \<Rightarrow> VortekHandleToken \<Rightarrow> u32 \<Rightarrow> u64) \<Rightarrow> VortekHandleRegistry ptr \<Rightarrow> u64 \<Rightarrow> u64
     \<Rightarrow> VortekHandleToken \<Rightarrow> bool \<Rightarrow> bool \<Rightarrow> VortekHandleStatus \<times> u32 option \<times> VortekHandleRegistry ptr"
where
  "VortekHandleRegistry_validateWindowId callback registry wireValue expectedGeneration
       instanceOwner allowNull haveOut =
     (case registry of
        None \<Rightarrow> (VORTEK_HANDLE_INVALID_ARGUMENT, None, None)
      | Some r \<Rightarrow>
          if \<not> haveOut then (VORTEK_HANDLE_INVALID_ARGUMENT, None, Some r)
          else let (status, r') =
            (if closed r then (VORTEK_HANDLE_CLOSED, r)
             else if expectedGeneration \<noteq> generation r then (VORTEK_HANDLE_WRONG_GENERATION, r)
             else if wireValue = 0
             then (if allowNull then VORTEK_HANDLE_OK else VORTEK_HANDLE_NULL, r)
             else if INT32_MAX < uint wireValue \<or> instanceOwner = 0 \<or>
                     isLiveVulkanTypeLocked r instanceOwner VK_OBJECT_TYPE_INSTANCE = None
             then (VORTEK_HANDLE_WINDOW_REJECTED, r)
             else if windowValidator r = 0 then (VORTEK_HANDLE_WINDOW_REJECTED, r)
             else let lifetime = callback (windowValidator r) (windowValidatorUserdata r)
                                   (generation r) instanceOwner (ucast wireValue)
                  in if lifetime = 0 then (VORTEK_HANDLE_WINDOW_REJECTED, r)
                     else bindWindowLifetimeLocked r instanceOwner (ucast wireValue) lifetime)
               in (status, (if status = VORTEK_HANDLE_OK then Some (ucast wireValue) else None),
                   Some r'))"

section \<open>Scoped drain\<close>

definition drainScopeMatches ::
  "VortekHandleEntry \<Rightarrow> VortekHandleDrainScope \<Rightarrow> VortekHandleToken \<Rightarrow> bool" where
  "drainScopeMatches e scope token =
     (if \<not> ent_live e then False
      else case scope of
        VORTEK_HANDLE_DRAIN_ALL \<Rightarrow> True
      | VORTEK_HANDLE_DRAIN_DEVICE \<Rightarrow> own_device (ent_owner e) = token \<or>
          (ent_token e = token \<and> ent_role e = VORTEK_HANDLE_ROLE_VULKAN \<and>
           ent_vulkanType e = VK_OBJECT_TYPE_DEVICE)
      | VORTEK_HANDLE_DRAIN_INSTANCE \<Rightarrow> own_instance (ent_owner e) = token \<or>
          (ent_token e = token \<and> ent_role e = VORTEK_HANDLE_ROLE_VULKAN \<and>
           ent_vulkanType e = VK_OBJECT_TYPE_INSTANCE))"

definition drainPriority :: "VortekHandleEntry \<Rightarrow> nat" where
  "drainPriority e =
     (if ent_role e = VORTEK_HANDLE_ROLE_VULKAN
      then if ent_vulkanType e = VK_OBJECT_TYPE_COMMAND_BUFFER \<or>
              ent_vulkanType e = VK_OBJECT_TYPE_DESCRIPTOR_SET \<or>
              (ent_vulkanType e = VK_OBJECT_TYPE_IMAGE \<and> own_parent (ent_owner e) \<noteq> 0) then 0
           else (case ent_vulkanType e of
             VK_OBJECT_TYPE_PIPELINE \<Rightarrow> 10
           | VK_OBJECT_TYPE_FRAMEBUFFER \<Rightarrow> 11
           | VK_OBJECT_TYPE_DESCRIPTOR_POOL \<Rightarrow> 12
           | VK_OBJECT_TYPE_COMMAND_POOL \<Rightarrow> 13
           | VK_OBJECT_TYPE_IMAGE_VIEW \<Rightarrow> 14
           | VK_OBJECT_TYPE_BUFFER_VIEW \<Rightarrow> 14
           | VK_OBJECT_TYPE_SHADER_MODULE \<Rightarrow> 15
           | VK_OBJECT_TYPE_PIPELINE_LAYOUT \<Rightarrow> 16
           | VK_OBJECT_TYPE_DESCRIPTOR_SET_LAYOUT \<Rightarrow> 17
           | VK_OBJECT_TYPE_RENDER_PASS \<Rightarrow> 18
           | VK_OBJECT_TYPE_SAMPLER \<Rightarrow> 19
           | VK_OBJECT_TYPE_SAMPLER_YCBCR_CONVERSION \<Rightarrow> 20
           | VK_OBJECT_TYPE_QUERY_POOL \<Rightarrow> 20
           | VK_OBJECT_TYPE_EVENT \<Rightarrow> 20
           | VK_OBJECT_TYPE_FENCE \<Rightarrow> 20
           | VK_OBJECT_TYPE_SEMAPHORE \<Rightarrow> 20
           | VK_OBJECT_TYPE_BUFFER \<Rightarrow> 30
           | VK_OBJECT_TYPE_IMAGE \<Rightarrow> 30
           | VK_OBJECT_TYPE_QUEUE \<Rightarrow> 50
           | VK_OBJECT_TYPE_PHYSICAL_DEVICE \<Rightarrow> 50
           | VK_OBJECT_TYPE_DEVICE \<Rightarrow> 60
           | VK_OBJECT_TYPE_INSTANCE \<Rightarrow> 70
           | _ \<Rightarrow> 40)
      else if ent_role e = VORTEK_HANDLE_ROLE_XWINDOW_SWAPCHAIN then 35
      else if ent_role e = VORTEK_HANDLE_ROLE_SHADER_MODULE then 15
      else if ent_role e = VORTEK_HANDLE_ROLE_RESOURCE_MEMORY then 40
      else 45)"

text \<open>The comparison of the selection loop.\<close>

definition drains_before :: "VortekHandleEntry \<Rightarrow> VortekHandleEntry \<Rightarrow> bool" where
  "drains_before e s \<longleftrightarrow> drainPriority e < drainPriority s \<or>
     (drainPriority e = drainPriority s \<and> ent_token e < ent_token s)"

text \<open>\<open>Inl ()\<close> is the early return with \<open>VORTEK_HANDLE_RETIRING\<close>.\<close>

fun drain_select ::
  "VortekHandleRegistry \<Rightarrow> VortekHandleDrainScope \<Rightarrow> VortekHandleToken \<Rightarrow> size_t list \<Rightarrow> size_t option
     \<Rightarrow> unit + size_t option" where
  "drain_select r scope token [] selected = Inr selected"
| "drain_select r scope token (i # is) selected =
     (if \<not> drainScopeMatches (entries r ! i) scope token
      then drain_select r scope token is selected
      else if entryDeviceHasActiveCallsLocked r i then Inl ()
      else drain_select r scope token is
             (case selected of
                None \<Rightarrow> Some i
              | Some s \<Rightarrow> if drains_before (entries r ! i) (entries r ! s) then Some i else selected))"

text \<open>The device of the selected entry: itself, or its live owner.\<close>

definition entry_is :: "VortekHandleEntry \<Rightarrow> VkObjectType \<Rightarrow> bool" where
  "entry_is e type \<longleftrightarrow> ent_role e = VORTEK_HANDLE_ROLE_VULKAN \<and> ent_vulkanType e = type"

definition drain_device :: "VortekHandleRegistry \<Rightarrow> size_t \<Rightarrow> size_t option" where
  "drain_device r s =
     (if entry_is (entries r ! s) VK_OBJECT_TYPE_DEVICE then Some s
      else if own_device (ent_owner (entries r ! s)) \<noteq> 0
      then isLiveVulkanTypeLocked r (own_device (ent_owner (entries r ! s))) VK_OBJECT_TYPE_DEVICE
      else None)"

text \<open>The value handed out, and the registry after the claim of the idle wait, the purge of an
  instance's window bindings and the retirement.\<close>

definition drain_out :: "VortekHandleRegistry \<Rightarrow> size_t \<Rightarrow> VortekHandleDrainValue" where
  "drain_out r s =
     (let value = value_of_entry (ent_contextGeneration (entries r ! s)) (entries r ! s)
      in case drain_device r s of
           None \<Rightarrow> zero_drain_value\<lparr>drain_value := value\<rparr>
         | Some d \<Rightarrow> \<lparr>drain_value = value, drain_hostDeviceValue = ent_hostValue (entries r ! d),
              drain_waitDevice = (\<not> ent_idleWaitClaimed (entries r ! d))\<rparr>)"

definition drain_claim :: "VortekHandleRegistry \<Rightarrow> size_t \<Rightarrow> VortekHandleRegistry" where
  "drain_claim r s =
     (case drain_device r s of None \<Rightarrow> r
      | Some d \<Rightarrow> update_entry d (\<lambda>x. x\<lparr>ent_idleWaitClaimed := True\<rparr>) r)"

definition drain_take :: "VortekHandleRegistry \<Rightarrow> size_t \<Rightarrow> VortekHandleRegistry" where
  "drain_take r s =
     (let r1 = drain_claim r s;
          r2 = (if entry_is (entries r ! s) VK_OBJECT_TYPE_INSTANCE
                then purgeWindowBindingsLocked r1 (ent_token (entries r ! s)) else r1)
      in unregisterEntryLocked r2 s)"

definition VortekHandleRegistry_drainNext ::
  "VortekHandleRegistry ptr \<Rightarrow> VortekHandleDrainScope \<Rightarrow> VortekHandleToken \<Rightarrow> bool
     \<Rightarrow> VortekHandleStatus \<times> VortekHandleDrainValue option \<times> VortekHandleRegistry ptr" where
  "VortekHandleRegistry_drainNext registry scope scopeToken haveOut =
     (case registry of
        None \<Rightarrow> (VORTEK_HANDLE_INVALID_ARGUMENT, None, None)
      | Some r \<Rightarrow>
          if \<not> haveOut \<or> (scope \<noteq> VORTEK_HANDLE_DRAIN_ALL \<and> scopeToken = 0)
          then (VORTEK_HANDLE_INVALID_ARGUMENT, None, Some r)
          else case drain_select r scope scopeToken [0..<capacity r] None of
            Inl _ \<Rightarrow> (VORTEK_HANDLE_RETIRING, Some zero_drain_value, Some r)
          | Inr None \<Rightarrow>
              (VORTEK_HANDLE_OK, Some zero_drain_value,
               Some (if scope = VORTEK_HANDLE_DRAIN_INSTANCE
                     then purgeWindowBindingsLocked r scopeToken else r))
          | Inr (Some s) \<Rightarrow>
              if own_device (ent_owner (entries r ! s)) \<noteq> 0 \<and> drain_device r s = None
              then (VORTEK_HANDLE_STALE_OWNER, Some zero_drain_value, Some r)
              else (VORTEK_HANDLE_OK, Some (drain_out r s), Some (drain_take r s)))"

end
