(* ===== verification/Registry_Effects.thy ===== *)
theory Registry_Effects
  imports Registry_Lease
begin

text \<open>
  What every registry operation does to the abstract map. \<open>evolves\<close> is the relation all of them
  satisfy: well-formedness is kept, the generation never changes, the token counter never goes
  back, no token that was not live becomes live again, and the identity of a live token
  (type, role, owner, host value) never changes.
\<close>

section \<open>The store interface of the batch operations\<close>

locale token_store =
  fixes lookup :: "'s \<Rightarrow> 't \<Rightarrow> 'e option"
    and retire :: "'t \<Rightarrow> 's \<Rightarrow> 's"
    and inv :: "'s \<Rightarrow> bool"
  assumes inv_retire: "inv s \<Longrightarrow> inv (retire t s)"
    and lookup_retire: "inv s \<Longrightarrow> lookup (retire t s) = (lookup s)(t := None)"
begin

lemma inv_retire_all: "inv s \<Longrightarrow> inv (fold retire ts s)"
  by (induction ts arbitrary: s) (auto intro: inv_retire)

lemma lookup_retire_all:
  "inv s \<Longrightarrow> lookup (fold retire ts s) t = (if t \<in> set ts then None else lookup s t)"
  by (induction ts arbitrary: s) (auto simp: inv_retire lookup_retire)

text \<open>Rolling back what was added to an older state restores its lookups.\<close>

lemma retire_all_restores:
  assumes "inv s1" and "\<And>t. t \<notin> set ts \<Longrightarrow> lookup s1 t = lookup s0 t"
    and "\<And>t. t \<in> set ts \<Longrightarrow> lookup s0 t = None"
  shows "lookup (fold retire ts s1) = lookup s0"
  using assms by (auto simp: lookup_retire_all)

end

locale token_authority = token_store +
  fixes add :: "'e \<Rightarrow> 's \<Rightarrow> 's"
    and key :: "'e \<Rightarrow> 't"
    and admits :: "'s \<Rightarrow> 'e \<Rightarrow> bool"
  assumes inv_add: "inv s \<Longrightarrow> admits s e \<Longrightarrow> inv (add e s)"
    and lookup_add: "inv s \<Longrightarrow> admits s e \<Longrightarrow> lookup (add e s) = (lookup s)(key e \<mapsto> e)"
    and admits_fresh: "admits s e \<Longrightarrow> lookup s (key e) = None"
begin

lemma add_then_retire: "inv s \<Longrightarrow> admits s e \<Longrightarrow> lookup (retire (key e) (add e s)) = lookup s"
  using lookup_retire [OF inv_add] lookup_add admits_fresh by (fastforce simp: fun_eq_iff)

lemma lookup_added: "inv s \<Longrightarrow> admits s e \<Longrightarrow> lookup (add e s) (key e) = Some e"
  by (simp add: lookup_add)

lemma add_keeps: "inv s \<Longrightarrow> admits s e \<Longrightarrow> lookup s t = Some x \<Longrightarrow> lookup (add e s) t = Some x"
  using admits_fresh [of s e] by (auto simp: lookup_add)

end

text \<open>The entries the registry can publish: live, of its generation, under a fresh token.\<close>

definition can_publish :: "VortekHandleRegistry \<Rightarrow> VortekHandleEntry \<Rightarrow> bool" where
  "can_publish r e \<longleftrightarrow> liveCount r < capacity r \<and> ent_live e \<and> ent_token e \<noteq> 0 \<and>
     ent_contextGeneration e = generation r \<and> reg_map r (ent_token e) = None"

interpretation reg_store: token_store reg_map retire_token reg_wf
  by unfold_locales (simp_all add: retire_token_facts)

interpretation reg_authority:
  token_authority reg_map retire_token reg_wf publish ent_token can_publish
  by unfold_locales (auto simp: can_publish_def reg_wf_publish reg_map_publish)

section \<open>Changes that keep the shape of the entry table\<close>

definition same_shape :: "VortekHandleRegistry \<Rightarrow> VortekHandleRegistry \<Rightarrow> bool" where
  "same_shape r r' \<longleftrightarrow> generation r' = generation r \<and> capacity r' = capacity r \<and>
     indexCapacity r' = indexCapacity r \<and> tokenIndex r' = tokenIndex r \<and>
     freeHead r' = freeHead r \<and> liveCount r' = liveCount r \<and>
     length (entries r') = length (entries r) \<and>
     (\<forall>i<length (entries r). ent_live (entries r' ! i) = ent_live (entries r ! i) \<and>
        ent_token (entries r' ! i) = ent_token (entries r ! i) \<and>
        ent_contextGeneration (entries r' ! i) = ent_contextGeneration (entries r ! i) \<and>
        ent_nextFree (entries r' ! i) = ent_nextFree (entries r ! i))"

lemma free_chain_cong:
  "length es' = length es \<Longrightarrow> (\<forall>i<length es. ent_nextFree (es' ! i) = ent_nextFree (es ! i)) \<Longrightarrow>
     free_chain es' h is = free_chain es h is"
  by (induction "is" arbitrary: h) auto

lemma index_ok_cong:
  assumes "index_ok es idx" "length es' = length es"
    and "\<forall>i<length es. ent_live (es' ! i) = ent_live (es ! i) \<and> ent_token (es' ! i) = ent_token (es ! i)"
  shows "index_ok es' idx"
proof -
  have lv: "i < length es \<Longrightarrow> ent_live (es' ! i) = ent_live (es ! i)"
    and tk: "i < length es \<Longrightarrow> ent_token (es' ! i) = ent_token (es ! i)" for i
    using assms(3) by auto
  have "\<forall>s<length idx. occupied (idx ! s) \<longrightarrow> idx ! s - 1 < length es \<and> ent_live (es' ! (idx ! s - 1))"
    using index_ok_occupied [OF assms(1)] lv by blast
  moreover have "\<forall>j<length es. ent_live (es' ! j) \<longrightarrow>
        (\<exists>p<length idx. idx ! probe_at (length idx) (ent_token (es' ! j)) p = j + 1 \<and>
           (\<forall>q<p. idx ! probe_at (length idx) (ent_token (es' ! j)) q \<noteq> 0))"
    using assms(1) unfolding index_ok_def by (auto simp: lv tk)
  moreover have "\<forall>i<length es. \<forall>j<length es. ent_live (es' ! i) \<longrightarrow> ent_live (es' ! j) \<longrightarrow>
        ent_token (es' ! i) = ent_token (es' ! j) \<longrightarrow> i = j"
    using assms(1) unfolding index_ok_def by (simp add: lv tk)
  ultimately show ?thesis using assms(1) unfolding index_ok_def assms(2) by blast
qed

lemma same_shape_wf:
  assumes "reg_wf r" "same_shape r r'"
  shows "reg_wf r'"
proof -
  have "index_ok (entries r') (tokenIndex r')"
    using assms index_ok_cong [of "entries r" "tokenIndex r" "entries r'"]
    by (simp add: reg_wf_def same_shape_def)
  moreover have "free_ok (entries r') (freeHead r')"
  proof -
    have "free_chain (entries r') h is = free_chain (entries r) h is" for h "is"
      using assms by (intro free_chain_cong) (auto simp: same_shape_def)
    moreover have "{i. i < length (entries r') \<and> \<not> ent_live (entries r' ! i)}
        = {i. i < length (entries r) \<and> \<not> ent_live (entries r ! i)}"
      using assms by (auto simp: same_shape_def)
    moreover have "free_ok (entries r) (freeHead r')" using assms by (simp add: reg_wf_def same_shape_def)
    ultimately show ?thesis unfolding free_ok_def by (simp only:)
  qed
  moreover have "length (filter ent_live (entries r')) = length (filter ent_live (entries r))"
    using assms by (simp add: length_filter_conv_card same_shape_def cong: conj_cong)
  ultimately show ?thesis using assms by (simp add: reg_wf_def same_shape_def)
qed

lemma same_shape_find:
  assumes "reg_wf r" "same_shape r r'"
  shows "findLiveLocked r' t = findLiveLocked r t"
proof -
  have "live_entry (entries r') t i \<longleftrightarrow> live_entry (entries r) t i" for i
    using assms(2) by (auto simp: live_entry_def same_shape_def)
  then show ?thesis
    using findLiveLocked_iff [OF assms(1)] findLiveLocked_iff [OF same_shape_wf [OF assms]]
    by (metis not_None_eq)
qed

lemma same_shape_refl: "same_shape r r"
  by (simp add: same_shape_def)

lemma same_shape_update_entry:
  assumes "\<And>e. ent_live (f e) = ent_live e" "\<And>e. ent_token (f e) = ent_token e"
    "\<And>e. ent_contextGeneration (f e) = ent_contextGeneration e"
    "\<And>e. ent_nextFree (f e) = ent_nextFree e"
  shows "same_shape r (update_entry i f r)"
  unfolding same_shape_def update_entry_def
  by (cases "i < length (entries r)") (auto simp: assms nth_list_update)

lemma same_shape_mark:
  "same_shape r (r\<lparr>closed := c, entries := mark_devices_retiring P (entries r)\<rparr>)"
  by (auto simp: same_shape_def mark_devices_retiring_def)

lemma same_shape_mark':
  "same_shape r (r\<lparr>entries := mark_devices_retiring P (entries r)\<rparr>)"
  by (auto simp: same_shape_def mark_devices_retiring_def)

section \<open>Evolution\<close>

definition identity_of ::
  "VortekHandleEntry \<Rightarrow> VortekHandleRole \<times> VkObjectType \<times> VortekHandleOwner \<times> u64" where
  "identity_of e = (ent_role e, ent_vulkanType e, ent_owner e, ent_hostValue e)"

definition evolves :: "VortekHandleRegistry \<Rightarrow> u64 \<Rightarrow> VortekHandleRegistry \<Rightarrow> u64 \<Rightarrow> bool" where
  "evolves r next r' next' \<longleftrightarrow>
     reg_wf r' \<and> generation r' = generation r \<and> capacity r' = capacity r \<and> next \<le> next' \<and>
     (closed r \<longrightarrow> closed r') \<and>
     (\<forall>t e'. reg_map r' t = Some e' \<longrightarrow>
        (\<exists>e. reg_map r t = Some e \<and> identity_of e' = identity_of e) \<or>
        (next \<le> t \<and> t < next' \<and> \<not> closed r))"

lemma evolves_refl: "reg_wf r \<Longrightarrow> evolves r next r next"
  by (auto simp: evolves_def)

lemma evolves_trans:
  assumes "evolves r n r1 n1" "evolves r1 n1 r2 n2"
  shows "evolves r n r2 n2"
proof -
  have "(\<exists>e. reg_map r t = Some e \<and> identity_of e2 = identity_of e) \<or> (n \<le> t \<and> t < n2 \<and> \<not> closed r)"
    if "reg_map r2 t = Some e2" for t e2
  proof -
    consider e1 where "reg_map r1 t = Some e1" "identity_of e2 = identity_of e1"
      | "n1 \<le> t" "t < n2" "\<not> closed r1"
      using assms(2) \<open>reg_map r2 t = Some e2\<close> unfolding evolves_def by blast
    then show ?thesis
    proof cases
      case 1
      then consider e where "reg_map r t = Some e" "identity_of e1 = identity_of e"
        | "n \<le> t" "t < n1" "\<not> closed r"
        using assms(1) unfolding evolves_def by blast
      then show ?thesis
      proof cases
        case 2
        moreover have "n1 \<le> n2" using assms(2) by (simp add: evolves_def)
        ultimately show ?thesis by (metis less_le_trans)
      qed (use 1 in simp)
    next
      case 2
      moreover have "n \<le> n1" "closed r \<longrightarrow> closed r1" using assms(1) by (simp_all add: evolves_def)
      ultimately show ?thesis by (metis order_trans)
    qed
  qed
  moreover have "reg_wf r2" "generation r2 = generation r" "capacity r2 = capacity r"
    "closed r \<longrightarrow> closed r2" "n \<le> n2"
    using assms by (auto simp: evolves_def)
  ultimately show ?thesis unfolding evolves_def by blast
qed

lemma evolves_tokens_below:
  assumes "evolves r n r' n'" "reg_wf r" "tokens_below r n"
  shows "tokens_below r' n'"
proof -
  have wf': "reg_wf r'" using assms(1) by (simp add: evolves_def)
  have "t < n'" if "reg_map r' t = Some e" for t e
    using assms tokens_below_map [OF assms(2)] that unfolding evolves_def
    by (metis less_le_trans)
  then show ?thesis using tokens_below_map [OF wf'] by blast
qed

lemma evolves_same_shape:
  assumes wf: "reg_wf r" and s: "same_shape r r'" and c: "closed r \<longrightarrow> closed r'"
    and ident: "\<forall>i<capacity r. ent_live (entries r ! i) \<longrightarrow>
      identity_of (entries r' ! i) = identity_of (entries r ! i)"
  shows "evolves r n r' n"
proof -
  have "\<exists>e. reg_map r t = Some e \<and> identity_of e' = identity_of e" if m: "reg_map r' t = Some e'" for t e'
  proof -
    obtain i where i: "findLiveLocked r t = Some i" "e' = entries r' ! i"
      using m same_shape_find [OF wf s] by (auto simp: reg_map_def)
    with findLiveLocked_entry [OF wf i(1)] ident show ?thesis by (auto simp: reg_map_def)
  qed
  then show ?thesis using same_shape_wf [OF wf s] s c by (auto simp: evolves_def same_shape_def)
qed

lemma evolves_update_entry:
  assumes "reg_wf r" and "\<And>e. ent_live (f e) = ent_live e" "\<And>e. ent_token (f e) = ent_token e"
    "\<And>e. ent_contextGeneration (f e) = ent_contextGeneration e"
    "\<And>e. ent_nextFree (f e) = ent_nextFree e" "\<And>e. identity_of (f e) = identity_of e"
  shows "evolves r n (update_entry i f r) n"
proof (rule evolves_same_shape [OF assms(1) same_shape_update_entry])
  have len: "length (entries r) = capacity r" using assms(1) by (simp add: reg_wf_def)
  show "\<forall>k<capacity r. ent_live (entries r ! k) \<longrightarrow>
      identity_of (entries (update_entry i f r) ! k) = identity_of (entries r ! k)"
  proof (intro allI impI)
    fix k assume "k < capacity r"
    then show "identity_of (entries (update_entry i f r) ! k) = identity_of (entries r ! k)"
      using len assms(6) by (cases "k = i") (simp_all add: update_entry_def)
  qed
qed (use assms in \<open>auto simp: update_entry_def\<close>)

lemma evolves_retire:
  assumes "reg_wf r"
  shows "evolves r n (retire_token t r) n"
  using retire_token_facts [OF assms] by (auto simp: evolves_def)

lemma evolves_unregister:
  assumes "reg_wf r" "i < capacity r" "ent_live (entries r ! i)"
  shows "evolves r n (unregisterEntryLocked r i) n"
  using reg_wf_unregister [OF assms] reg_map_unregister [OF assms] by (auto simp: evolves_def)

lemma evolves_retire_all: "reg_wf r \<Longrightarrow> evolves r n (fold retire_token ts r) n"
proof (induction ts arbitrary: r)
  case Nil
  then show ?case by (simp add: evolves_refl)
next
  case (Cons t ts)
  show ?case
    using evolves_trans [OF evolves_retire [OF Cons.prems]
        Cons.IH [OF retire_token_facts(1) [OF Cons.prems]]] by simp
qed

end
