(* ===== verification/Registry_Machine.thy ===== *)
theory Registry_Machine
  imports Registry_Effects
begin

text \<open>
  The registry as a state machine: one transition per API call (interleaved in any order, as
  the mutex serialises them) and one for token allocations of other contexts of the process.
  The first part shows, operation by operation, that each keeps the invariant \<open>sane\<close>, evolves
  the abstract map and leaves the number of active device calls of every token alone
  (\<open>quiet\<close>); the lease operations change that number by one. The second part defines the
  machine and lifts the facts to all reachable states.
\<close>

section \<open>Active calls\<close>

definition calls :: "VortekHandleRegistry \<Rightarrow> VortekHandleToken \<Rightarrow> u32" where
  "calls r t = (case reg_map r t of None \<Rightarrow> 0 | Some e \<Rightarrow> ent_activeCalls e)"

definition calls_on_devices :: "VortekHandleRegistry \<Rightarrow> bool" where
  "calls_on_devices r \<longleftrightarrow> (\<forall>t e. reg_map r t = Some e \<longrightarrow> ent_activeCalls e \<noteq> 0 \<longrightarrow>
     ent_role e = VORTEK_HANDLE_ROLE_VULKAN \<and> ent_vulkanType e = VK_OBJECT_TYPE_DEVICE)"

definition sane :: "VortekHandleRegistry \<Rightarrow> u64 \<Rightarrow> bool" where
  "sane r next \<longleftrightarrow> reg_wf r \<and> tokens_below r next \<and> next \<noteq> 0 \<and> calls_on_devices r"

definition quiet :: "VortekHandleRegistry \<Rightarrow> u64 \<Rightarrow> VortekHandleRegistry \<Rightarrow> u64 \<Rightarrow> bool" where
  "quiet r next r' next' \<longleftrightarrow> evolves r next r' next' \<and> calls r' = calls r \<and> next' \<noteq> 0"

lemma calls_Some: "reg_map r t = Some e \<Longrightarrow> calls r t = ent_activeCalls e"
  by (simp add: calls_def)

lemma sane_wf: "sane r next \<Longrightarrow> reg_wf r"
  by (simp add: sane_def)

lemma quiet_refl: "sane r next \<Longrightarrow> quiet r next r next"
  by (simp add: quiet_def sane_def evolves_refl)

lemma quiet_trans: "quiet r n r1 n1 \<Longrightarrow> quiet r1 n1 r2 n2 \<Longrightarrow> quiet r n r2 n2"
  unfolding quiet_def by (auto intro: evolves_trans)

lemma evolves_device:
  assumes "sane r n" "evolves r n r' n'" "reg_map r' t = Some e'" "calls r t \<noteq> 0"
  shows "ent_role e' = VORTEK_HANDLE_ROLE_VULKAN \<and> ent_vulkanType e' = VK_OBJECT_TYPE_DEVICE"
proof -
  from assms(4) obtain e where e: "reg_map r t = Some e" "ent_activeCalls e \<noteq> 0"
    by (auto simp: calls_def split: option.splits)
  with assms(1) have dev: "ent_role e = VORTEK_HANDLE_ROLE_VULKAN" "ent_vulkanType e = VK_OBJECT_TYPE_DEVICE"
    by (auto simp: sane_def calls_on_devices_def)
  have "t < n" using assms(1) e(1) tokens_below_map [of r n] by (auto simp: sane_def)
  then have "identity_of e' = identity_of e"
    using assms(2,3) e(1) unfolding evolves_def by fastforce
  with dev show ?thesis by (simp add: identity_of_def)
qed

lemma sane_evolves:
  assumes "sane r n" "evolves r n r' n'" "n' \<noteq> 0"
    and "\<And>t. calls r' t \<noteq> 0 \<Longrightarrow> calls r t \<noteq> 0"
  shows "sane r' n'"
proof -
  have "calls_on_devices r'"
    unfolding calls_on_devices_def
  proof (intro allI impI)
    fix t e assume e: "reg_map r' t = Some e" "ent_activeCalls e \<noteq> 0"
    then have "calls r t \<noteq> 0" using assms(4) [of t] by (simp add: calls_Some)
    with evolves_device [OF assms(1,2) e(1)]
    show "ent_role e = VORTEK_HANDLE_ROLE_VULKAN \<and> ent_vulkanType e = VK_OBJECT_TYPE_DEVICE" .
  qed
  moreover have "reg_wf r'" using assms(2) by (simp add: evolves_def)
  moreover have "tokens_below r' n'"
    using evolves_tokens_below [OF assms(2)] assms(1) by (simp add: sane_def)
  ultimately show ?thesis using assms(3) by (simp add: sane_def)
qed

lemma sane_quiet: "sane r n \<Longrightarrow> quiet r n r' n' \<Longrightarrow> sane r' n'"
  by (erule sane_evolves) (simp_all add: quiet_def)

section \<open>Publication\<close>

lemma word_less_Suc: "(n::u64) \<noteq> UINT64_MAX \<Longrightarrow> n < n + 1"
  unfolding UINT64_MAX_def by (meson inc_less_eq_triv_imp linorder_not_less)

lemma new_entry_fields [simp]:
  "ent_token (new_entry r t role type h owner) = t"
  "ent_contextGeneration (new_entry r t role type h owner) = generation r"
  "ent_role (new_entry r t role type h owner) = role"
  "ent_vulkanType (new_entry r t role type h owner) = type"
  "ent_owner (new_entry r t role type h owner) = owner"
  "ent_hostValue (new_entry r t role type h owner) = h"
  "ent_live (new_entry r t role type h owner)"
  "ent_activeCalls (new_entry r t role type h owner) = 0"
  "ent_retiring (new_entry r t role type h owner) = False"
  by (simp_all add: new_entry_def zero_entry_def)

lemma can_publish_new:
  "sane r n \<Longrightarrow> liveCount r < capacity r \<Longrightarrow> can_publish r (new_entry r n role type h owner)"
  using tokens_below_fresh [of r n] by (simp add: can_publish_def sane_def)

lemma quiet_publish:
  assumes s: "sane r n" and room: "liveCount r < capacity r" and "n \<noteq> UINT64_MAX" and "\<not> closed r"
  shows "quiet r n (publish (new_entry r n role type h owner) r) (n + 1)"
proof -
  let ?e = "new_entry r n role type h owner"
  note pub = can_publish_new [OF s room, of role type h owner]
  have map: "reg_map (publish ?e r) = (reg_map r)(n \<mapsto> ?e)"
    using reg_authority.lookup_add [OF sane_wf [OF s] pub] by simp
  have lt: "n < n + 1" using word_less_Suc [OF assms(3)] .
  have "evolves r n (publish ?e r) (n + 1)"
    using map reg_authority.inv_add [OF sane_wf [OF s] pub] lt assms(4) by (auto simp: evolves_def)
  moreover have "calls (publish ?e r) = calls r"
    using map reg_authority.admits_fresh [OF pub] by (auto simp: calls_def fun_eq_iff)
  ultimately show ?thesis using lt by (auto simp: quiet_def)
qed

lemma quiet_registerValue:
  assumes s: "sane r n"
    and eq: "registerValueLocked r n role type h owner out = (st, tok, r', n')"
  shows "quiet r n r' n'"
proof (cases out)
  case False
  then show ?thesis using eq quiet_refl [OF s] by (auto simp: registerValueLocked_def split: if_splits)
next
  case True
  have "registerValueLocked r n role type h owner True = (st, tok, r', n')" using eq True by simp
  then show ?thesis
    using quiet_refl [OF s] quiet_publish [OF s] unfolding registerValueLocked_eq [OF sane_wf [OF s]]
    by (auto split: if_splits option.splits simp: not_le)
qed

lemma quiet_register_batch_loop:
  "sane r n \<Longrightarrow> register_batch_loop r n type hs owner = (st, toks, news, r', n') \<Longrightarrow> quiet r n r' n'"
proof (induction hs arbitrary: r n st toks news r' n')
  case Nil
  then show ?case by (simp add: quiet_refl)
next
  case (Cons h hs)
  obtain st1 out r1 n1 where
    1: "registerValueLocked r n VORTEK_HANDLE_ROLE_VULKAN type h owner True = (st1, out, r1, n1)"
    by (metis prod_cases4)
  note q = quiet_registerValue [OF Cons.prems(1) 1]
  show ?case
  proof (cases "st1 = VORTEK_HANDLE_OK")
    case False
    with Cons.prems(2) 1 q show ?thesis by (simp add: Let_def)
  next
    case True
    obtain st2 toks2 news2 r2 n2 where
      2: "register_batch_loop r1 n1 type hs owner = (st2, toks2, news2, r2, n2)"
      by (metis prod_cases5)
    have "quiet r1 n1 r2 n2" using Cons.IH [OF sane_quiet [OF Cons.prems(1) q] 2] .
    with Cons.prems(2) 1 2 True quiet_trans [OF q] show ?thesis by (simp add: Let_def)
  qed
qed

text \<open>What the batch loop adds: exactly the tokens it reports as newly created, and nothing else
  changes.\<close>

lemma register_batch_loop_map:
  "sane r n \<Longrightarrow> register_batch_loop r n type hs owner = (st, toks, news, r', n') \<Longrightarrow>
     (\<forall>t. t \<notin> set news - {0} \<longrightarrow> reg_map r' t = reg_map r t) \<and>
     (\<forall>t \<in> set news - {0}. n \<le> t \<and> reg_map r t = None)"
proof (induction hs arbitrary: r n st toks news r' n')
  case Nil
  then show ?case by simp
next
  case (Cons h hs)
  let ?reg = "registerValueLocked r n VORTEK_HANDLE_ROLE_VULKAN type h owner True"
  obtain st1 out r1 n1 where 1: "?reg = (st1, out, r1, n1)" by (metis prod_cases4)
  note q = quiet_registerValue [OF Cons.prems(1) 1]
  note s1 = sane_quiet [OF Cons.prems(1) q]
  have wf: "reg_wf r" and nz: "n \<noteq> 0" and below: "tokens_below r n"
    using Cons.prems(1) by (simp_all add: sane_def)
  show ?case
  proof (cases "st1 = VORTEK_HANDLE_OK")
    case False
    then have "r1 = r" using 1 unfolding registerValueLocked_eq [OF wf]
      by (auto split: if_splits option.splits)
    with False Cons.prems(2) 1 show ?thesis by (simp add: Let_def)
  next
    case True
    obtain st2 toks2 news2 r2 n2 where
      2: "register_batch_loop r1 n1 type hs owner = (st2, toks2, news2, r2, n2)"
      by (metis prod_cases5)
    define token where "token = (case out of Some t \<Rightarrow> t | None \<Rightarrow> 0)"
    have res: "r' = r2" "news = (if n \<le> token then token else 0) # news2"
      using Cons.prems(2) 1 2 True by (auto simp: Let_def token_def)
    have head: "(n \<le> token \<and> token = n \<and> reg_map r n = None \<and>
                 (\<forall>t. t \<noteq> n \<longrightarrow> reg_map r1 t = reg_map r t)) \<or>
                (\<not> n \<le> token \<and> r1 = r)"
    proof (cases "find_identity r VORTEK_HANDLE_ROLE_VULKAN type h owner")
      case (Some i)
      then have r1: "r1 = r" "out = Some (ent_token (entries r ! i))"
        using 1 True unfolding registerValueLocked_eq [OF wf] by (auto split: if_splits)
      have "i < capacity r \<and> ent_live (entries r ! i)"
        using Some unfolding find_identity_def
        by (auto simp: find_Some_iff same_identity_def split: if_splits)
      with below have "ent_token (entries r ! i) < n" by (simp add: tokens_below_def)
      with r1 show ?thesis by (simp add: token_def not_le)
    next
      case None
      with 1 True have room: "liveCount r < capacity r"
        and r1: "r1 = publish (new_entry r n VORTEK_HANDLE_ROLE_VULKAN type h owner) r" "out = Some n"
        unfolding registerValueLocked_eq [OF wf] by (auto split: if_splits)
      note pub = can_publish_new [OF Cons.prems(1) room]
      show ?thesis
        using r1 reg_authority.lookup_add [OF wf pub] reg_authority.admits_fresh [OF pub]
        by (simp add: token_def)
    qed
    have IH: "(\<forall>t. t \<notin> set news2 - {0} \<longrightarrow> reg_map r2 t = reg_map r1 t) \<and>
        (\<forall>t\<in>set news2 - {0}. n1 \<le> t \<and> reg_map r1 t = None)"
      using Cons.IH [OF s1 2] .
    have n1: "n \<le> n1" using q by (simp add: quiet_def evolves_def)
    from head show ?thesis
    proof
      assume h: "n \<le> token \<and> token = n \<and> reg_map r n = None \<and>
                 (\<forall>t. t \<noteq> n \<longrightarrow> reg_map r1 t = reg_map r t)"
      then have "set news - {0} = insert n (set news2 - {0})" using res nz by auto
      moreover have "\<forall>t\<in>set news2 - {0}. n \<le> t \<and> reg_map r t = None"
        using IH h n1 by (metis order_trans)
      ultimately show ?thesis using IH h res by simp
    next
      assume h: "\<not> n \<le> token \<and> r1 = r"
      then have "set news - {0} = set news2 - {0}" using res by auto
      with IH h res n1 show ?thesis by (metis order_trans)
    qed
  qed
qed

lemma rollback_batch_restores:
  assumes s: "sane r n" and eq: "register_batch_loop r n type hs owner = (st, toks, news, r1, n1)"
  shows "reg_map (fold retire_token (filter (\<lambda>t. t \<noteq> 0) news) r1) = reg_map r"
    and "quiet r n (fold retire_token (filter (\<lambda>t. t \<noteq> 0) news) r1) n1"
proof -
  note q = quiet_register_batch_loop [OF s eq]
  have wf1: "reg_wf r1" using sane_quiet [OF s q] by (simp add: sane_def)
  have set: "set (filter (\<lambda>t. t \<noteq> 0) news) = set news - {0}" by auto
  show m: "reg_map (fold retire_token (filter (\<lambda>t. t \<noteq> 0) news) r1) = reg_map r"
  proof (rule reg_store.retire_all_restores [OF wf1])
    fix t
    show "t \<notin> set (filter (\<lambda>t. t \<noteq> 0) news) \<Longrightarrow> reg_map r1 t = reg_map r t"
      and "t \<in> set (filter (\<lambda>t. t \<noteq> 0) news) \<Longrightarrow> reg_map r t = None"
      using register_batch_loop_map [OF s eq] unfolding set by blast+
  qed
  have "evolves r n (fold retire_token (filter (\<lambda>t. t \<noteq> 0) news) r1) n1"
    using evolves_trans [OF _ evolves_retire_all [OF wf1]] q by (simp add: quiet_def)
  with m q show "quiet r n (fold retire_token (filter (\<lambda>t. t \<noteq> 0) news) r1) n1"
    by (simp add: quiet_def calls_def fun_eq_iff)
qed

section \<open>Retirement\<close>

lemma quiet_unregister:
  assumes s: "sane r n" and i: "i < capacity r" "ent_live (entries r ! i)" "ent_activeCalls (entries r ! i) = 0"
  shows "quiet r n (unregisterEntryLocked r i) n"
proof -
  note wf = sane_wf [OF s]
  have "calls r (ent_token (entries r ! i)) = 0"
    using findLiveLocked_live [OF wf i(1,2)] i(3) by (simp add: calls_def reg_map_def)
  then have "calls (unregisterEntryLocked r i) = calls r"
    using reg_map_unregister [OF wf i(1,2)] by (auto simp: calls_def fun_eq_iff)
  then show ?thesis using evolves_unregister [OF wf i(1,2)] s by (simp add: quiet_def sane_def)
qed

text \<open>An entry that passes the active-call guard has no active calls itself.\<close>

lemma guard_no_calls:
  assumes s: "sane r n" and i: "i < capacity r" "ent_live (entries r ! i)"
    and g: "\<not> entryDeviceHasActiveCallsLocked r i"
  shows "ent_activeCalls (entries r ! i) = 0"
proof (rule ccontr)
  assume a: "ent_activeCalls (entries r ! i) \<noteq> 0"
  note wf = sane_wf [OF s]
  have f: "findLiveLocked r (ent_token (entries r ! i)) = Some i"
    using findLiveLocked_live [OF wf i] .
  then have "ent_role (entries r ! i) = VORTEK_HANDLE_ROLE_VULKAN"
    "ent_vulkanType (entries r ! i) = VK_OBJECT_TYPE_DEVICE"
    using s a by (auto simp: sane_def calls_on_devices_def reg_map_def)
  moreover have "ent_token (entries r ! i) \<noteq> 0" using findLiveLocked_entry [OF wf f] by simp
  ultimately show False using g f a by (simp add: entryDeviceHasActiveCallsLocked_def Let_def)
qed

lemma quiet_retire_token:
  assumes "sane r n" "calls r t = 0"
  shows "quiet r n (retire_token t r) n"
proof (cases "findLiveLocked r t")
  case None
  then show ?thesis using quiet_refl [OF assms(1)] by (simp add: retire_token_def)
next
  case (Some i)
  with findLiveLocked_entry [OF sane_wf [OF assms(1)] Some] assms
  show ?thesis by (auto simp: retire_token_def calls_def reg_map_def intro!: quiet_unregister)
qed

lemma quiet_retire_all:
  "sane r n \<Longrightarrow> \<forall>t\<in>set ts. calls r t = 0 \<Longrightarrow> quiet r n (fold retire_token ts r) n"
proof (induction ts arbitrary: r)
  case Nil
  then show ?case by (simp add: quiet_refl)
next
  case (Cons t ts)
  then have q: "quiet r n (retire_token t r) n" by (simp add: quiet_retire_token)
  have "quiet (retire_token t r) n (fold retire_token ts (retire_token t r)) n"
    using Cons.IH [OF sane_quiet [OF Cons.prems(1) q]] Cons.prems(2) q by (simp add: quiet_def)
  with quiet_trans [OF q] show ?case by simp
qed

lemma validated_entry:
  assumes "reg_wf r" "validateExpectationLockedEx r n t x c = (VORTEK_HANDLE_OK, Some i)"
  shows "findLiveLocked r t = Some i" "i < capacity r" "ent_live (entries r ! i)"
    "ent_token (entries r ! i) = t"
proof -
  show f: "findLiveLocked r t = Some i"
    using assms(2) unfolding validateExpectationLockedEx_def
    by (auto simp: Let_def missingStatusLocked_def split: option.splits if_splits)
  then show "i < capacity r" "ent_live (entries r ! i)" "ent_token (entries r ! i) = t"
    using findLiveLocked_entry [OF assms(1)] by auto
qed

lemma no_active_calls:
  assumes s: "sane r n" and a: "\<not> any_active_calls r ts"
  shows "\<forall>t\<in>set ts. calls r t = 0"
proof
  fix t assume "t \<in> set ts"
  show "calls r t = 0"
  proof (cases "findLiveLocked r t")
    case None
    then show ?thesis by (simp add: calls_def reg_map_def)
  next
    case (Some i)
    with a \<open>t \<in> set ts\<close> have "\<not> entryDeviceHasActiveCallsLocked r i"
      by (auto simp: any_active_calls_def list_ex_iff)
    with guard_no_calls [OF s] findLiveLocked_entry [OF sane_wf [OF s] Some] Some
    show ?thesis by (simp add: calls_def reg_map_def)
  qed
qed


section \<open>Updates in place\<close>

lemma calls_same_shape:
  assumes wf: "reg_wf r" and s: "same_shape r r'"
    and "\<forall>i<capacity r. ent_live (entries r ! i) \<longrightarrow>
      ent_activeCalls (entries r' ! i) = ent_activeCalls (entries r ! i)"
  shows "calls r' = calls r"
proof
  fix t
  show "calls r' t = calls r t"
    using findLiveLocked_entry [OF wf, of t] assms(3)
    by (cases "findLiveLocked r t") (auto simp: calls_def reg_map_def same_shape_find [OF wf s])
qed

lemma quiet_same_shape:
  assumes s: "sane r n" and sh: "same_shape r r'" and c: "closed r \<longrightarrow> closed r'"
    and id: "\<forall>i<capacity r. ent_live (entries r ! i) \<longrightarrow>
      identity_of (entries r' ! i) = identity_of (entries r ! i) \<and>
      ent_activeCalls (entries r' ! i) = ent_activeCalls (entries r ! i)"
  shows "quiet r n r' n"
  using evolves_same_shape [OF sane_wf [OF s] sh c] calls_same_shape [OF sane_wf [OF s] sh] id s
  by (simp add: quiet_def sane_def)

lemma quiet_update_entry:
  assumes s: "sane r n" and "\<And>e. ent_live (f e) = ent_live e" "\<And>e. ent_token (f e) = ent_token e"
    "\<And>e. ent_contextGeneration (f e) = ent_contextGeneration e"
    "\<And>e. ent_nextFree (f e) = ent_nextFree e" "\<And>e. identity_of (f e) = identity_of e"
    "\<And>e. ent_activeCalls (f e) = ent_activeCalls e"
  shows "quiet r n (update_entry i f r) n"
proof (rule quiet_same_shape [OF s same_shape_update_entry])
  have len: "length (entries r) = capacity r" using sane_wf [OF s] by (simp add: reg_wf_def)
  show "\<forall>k<capacity r. ent_live (entries r ! k) \<longrightarrow>
      identity_of (entries (update_entry i f r) ! k) = identity_of (entries r ! k) \<and>
      ent_activeCalls (entries (update_entry i f r) ! k) = ent_activeCalls (entries r ! k)"
  proof (intro allI impI)
    fix k assume "k < capacity r"
    then show "identity_of (entries (update_entry i f r) ! k) = identity_of (entries r ! k) \<and>
      ent_activeCalls (entries (update_entry i f r) ! k) = ent_activeCalls (entries r ! k)"
      using len assms(6,7) by (cases "k = i") (simp_all add: update_entry_def)
  qed
qed (use assms in \<open>auto simp: update_entry_def\<close>)

lemma quiet_mark:
  assumes s: "sane r n" and c: "closed r \<longrightarrow> c"
  shows "quiet r n (r\<lparr>closed := c, entries := mark_devices_retiring P (entries r)\<rparr>) n"
  by (rule quiet_same_shape [OF s same_shape_mark])
    (use c sane_wf [OF s] in \<open>auto simp: mark_devices_retiring_def identity_of_def reg_wf_def\<close>)

lemma quiet_mark':
  assumes s: "sane r n"
  shows "quiet r n (r\<lparr>entries := mark_devices_retiring P (entries r)\<rparr>) n"
  by (rule quiet_same_shape [OF s same_shape_mark'])
    (use sane_wf [OF s] in \<open>auto simp: mark_devices_retiring_def identity_of_def reg_wf_def\<close>)

lemma quiet_windows:
  assumes s: "sane r n"
  shows "quiet r n (r\<lparr>windowBindings := bs, windowBindingCount := k\<rparr>) n"
    and "quiet r n (r\<lparr>windowValidator := v, windowValidatorUserdata := u\<rparr>) n"
    and "quiet r n (r\<lparr>windowValidator := v, windowValidatorUserdata := u,
            windowBindings := bs, windowBindingCount := k\<rparr>) n"
  by (rule quiet_same_shape [OF s]; simp add: same_shape_def)+

lemma quiet_purge: "sane r n \<Longrightarrow> quiet r n (purgeWindowBindingsLocked r inst) n"
  by (auto simp: purgeWindowBindingsLocked_def quiet_refl quiet_windows split: prod.split)

section \<open>The operations that leave the active calls alone\<close>

lemma quiet_allocate:
  assumes s: "sane r n" and eq: "allocateProcessToken n = (st, tok, n')"
  shows "quiet r n r n'"
proof -
  have "n' = n \<or> n' = n + 1 \<and> n \<noteq> UINT64_MAX"
    using eq by (auto simp: allocateProcessToken_def split: if_splits)
  then have "n \<le> n' \<and> n' \<noteq> 0" using s word_less_Suc [of n] by (auto simp: sane_def)
  then show ?thesis using sane_wf [OF s] by (auto simp: quiet_def evolves_def)
qed

lemma quiet_registerVulkan:
  assumes "sane r n"
    "VortekHandleRegistry_registerVulkan (Some r) n type h owner out = (st, tok, Some r', n')"
  shows "quiet r n r' n'"
  using assms(2) quiet_refl [OF assms(1)] quiet_registerValue [OF assms(1)]
  by (fastforce simp: VortekHandleRegistry_registerVulkan_def split: if_splits prod.splits)

lemma quiet_registerWrapper:
  assumes "sane r n"
    "VortekHandleRegistry_registerWrapper (Some r) n role h owner out = (st, tok, Some r', n')"
  shows "quiet r n r' n'"
  using assms(2) quiet_refl [OF assms(1)] quiet_registerValue [OF assms(1)]
  by (fastforce simp: VortekHandleRegistry_registerWrapper_def split: if_splits prod.splits)

lemma quiet_registerVulkanBatch:
  assumes s: "sane r n"
    and eq: "VortekHandleRegistry_registerVulkanBatch ok (Some r) n type hs count owner out
      = (st, toks, Some r', n')"
  shows "quiet r n r' n'"
proof (cases "type = VK_OBJECT_TYPE_UNKNOWN \<or> SIZE_MAX div 8 < count \<or>
             (count \<noteq> 0 \<and> (hs = None \<or> \<not> out)) \<or> count = 0 \<or> \<not> ok")
  case True
  then show ?thesis using eq quiet_refl [OF s]
    by (auto simp: VortekHandleRegistry_registerVulkanBatch_def split: if_splits)
next
  case False
  obtain st1 toks1 news r1 n1 where
    loop: "register_batch_loop r n type (take count (the hs)) owner = (st1, toks1, news, r1, n1)"
    by (metis prod_cases5)
  show ?thesis
    using eq False loop quiet_register_batch_loop [OF s loop] rollback_batch_restores(2) [OF s loop]
    by (auto simp: VortekHandleRegistry_registerVulkanBatch_def split: if_splits)
qed

lemma validated_Locked:
  "validateExpectationLocked r n t x = validateExpectationLockedEx r n t x False"
  by (simp add: validateExpectationLocked_def)

lemma quiet_unregister_op:
  assumes s: "sane r n"
    and eq: "VortekHandleRegistry_unregister (Some r) n t x out = (st, v, Some r')"
  shows "quiet r n r' n"
proof (cases "x = None \<or> t = 0")
  case True
  then show ?thesis using eq quiet_refl [OF s] by (auto simp: VortekHandleRegistry_unregister_def)
next
  case False
  obtain st1 ent where v: "validateExpectationLockedEx r n t x False = (st1, ent)" by fastforce
  show ?thesis
  proof (cases "\<exists>i. st1 = VORTEK_HANDLE_OK \<and> ent = Some i")
    case True
    then obtain i where i: "validateExpectationLockedEx r n t x False = (VORTEK_HANDLE_OK, Some i)"
      using v by auto
    note e = validated_entry [OF sane_wf [OF s] i]
    show ?thesis
      using eq False i quiet_refl [OF s] quiet_unregister [OF s e(2,3)] guard_no_calls [OF s e(2,3)]
      by (auto simp: VortekHandleRegistry_unregister_def validated_Locked split: if_splits)
  next
    case False
    then show ?thesis using eq \<open>\<not> (x = None \<or> t = 0)\<close> v quiet_refl [OF s]
      by (auto simp: VortekHandleRegistry_unregister_def validated_Locked
          split: VortekHandleStatus.splits option.splits if_splits)
  qed
qed

lemma quiet_unregisterBatch:
  assumes s: "sane r n"
    and eq: "VortekHandleRegistry_unregisterBatch ok (Some r) n toks count x = (st, Some r')"
  shows "quiet r n r' n"
proof -
  let ?s = "sort (take count (the toks))"
  have "r' = r \<or> \<not> any_active_calls r ?s \<and> r' = fold retire_token ?s r"
    using eq by (auto simp: VortekHandleRegistry_unregisterBatch_def Let_def split: if_splits)
  then show ?thesis
    using quiet_refl [OF s] quiet_retire_all [OF s] no_active_calls [OF s] by blast
qed

text \<open>A token validated against a type other than a device names no entry with active calls.\<close>

lemma validated_no_calls:
  assumes s: "sane r n" and x: "exp_vulkanType x \<noteq> VK_OBJECT_TYPE_DEVICE"
    "exp_role x = VORTEK_HANDLE_ROLE_VULKAN"
    and v: "validateExpectationLockedEx r n t (Some x) c = (VORTEK_HANDLE_OK, ent)"
  shows "calls r t = 0"
proof (cases ent)
  case None
  with v have "findLiveLocked r t = None \<or> t = 0"
    unfolding validateExpectationLockedEx_def
    by (auto simp: Let_def missingStatusLocked_def split: option.splits if_splits)
  then show ?thesis
    using findLiveLocked_entry [OF sane_wf [OF s], of t] by (cases "findLiveLocked r t") (auto simp: calls_def reg_map_def)
next
  case (Some i)
  note e = validated_entry [OF sane_wf [OF s] v [unfolded Some]]
  have "ent_vulkanType (entries r ! i) = exp_vulkanType x"
    using v Some x(2) unfolding validateExpectationLockedEx_def
    by (auto simp: Let_def missingStatusLocked_def split: option.splits if_splits)
  moreover have m: "reg_map r t = Some (entries r ! i)" using e(1) by (simp add: reg_map_def)
  ultimately show ?thesis
    using s x(1) unfolding sane_def calls_on_devices_def calls_Some [OF m] by metis
qed

lemma validate_all_OK:
  "validate_all r n x c ts = VORTEK_HANDLE_OK \<longleftrightarrow>
     (\<forall>t\<in>set ts. fst (validateExpectationLockedEx r n t x c) = VORTEK_HANDLE_OK)"
  by (induction ts) (auto simp: Let_def)

lemma quiet_rollbackBatch:
  assumes s: "sane r n" and x: "exp_vulkanType x \<noteq> VK_OBJECT_TYPE_DEVICE"
    "exp_role x = VORTEK_HANDLE_ROLE_VULKAN"
    and eq: "VortekHandleRegistry_rollbackBatchWithLease ok self (Some r) n toks count (Some x) lease
      = (st, Some r')"
  shows "quiet r n r' n"
proof -
  let ?s = "sort (take count (the toks))"
  have "r' = r \<or> validate_all r n (Some x) True ?s = VORTEK_HANDLE_OK \<and> r' = fold retire_token ?s r"
    using eq by (auto simp: VortekHandleRegistry_rollbackBatchWithLease_def Let_def
        split: option.splits if_splits)
  then show ?thesis
  proof
    assume "validate_all r n (Some x) True ?s = VORTEK_HANDLE_OK \<and> r' = fold retire_token ?s r"
    moreover have "\<forall>t\<in>set ?s. calls r t = 0" if "validate_all r n (Some x) True ?s = VORTEK_HANDLE_OK"
    proof
      fix t assume "t \<in> set ?s"
      with that have "fst (validateExpectationLockedEx r n t (Some x) True) = VORTEK_HANDLE_OK"
        unfolding validate_all_OK by blast
      then obtain ent where "validateExpectationLockedEx r n t (Some x) True = (VORTEK_HANDLE_OK, ent)"
        by (metis prod.collapse)
      then show "calls r t = 0" using validated_no_calls [OF s x] by blast
    qed
    ultimately show ?thesis using quiet_retire_all [OF s] by blast
  qed (simp add: quiet_refl [OF s])
qed

text \<open>The removal loop visits each index once; entries it has not visited yet are untouched.\<close>

lemma quiet_unregister_fold:
  assumes "sane r n" and "distinct is" and "\<forall>i\<in>set is. i < capacity r \<and>
      (ent_live (entries r ! i) \<longrightarrow> P (entries r ! i) \<longrightarrow> ent_activeCalls (entries r ! i) = 0)"
  shows "quiet r n (fold (\<lambda>i r. if ent_live (entries r ! i) \<and> P (entries r ! i)
                          then unregisterEntryLocked r i else r) is r) n"
  using assms
proof (induction "is" arbitrary: r)
  case Nil
  then show ?case by (simp add: quiet_refl)
next
  case (Cons i js)
  let ?r = "if ent_live (entries r ! i) \<and> P (entries r ! i) then unregisterEntryLocked r i else r"
  have q: "quiet r n ?r n"
    using Cons.prems quiet_refl quiet_unregister by auto
  have "entries ?r ! j = entries r ! j" if "j \<in> set js" for j
  proof -
    have "j \<noteq> i" using that Cons.prems(2) by auto
    then show ?thesis by (simp add: unregisterEntryLocked_def Let_def)
  qed
  moreover have "capacity ?r = capacity r" using q by (simp add: quiet_def evolves_def)
  ultimately have rest: "\<forall>j\<in>set js. j < capacity ?r \<and> (ent_live (entries ?r ! j) \<longrightarrow>
      P (entries ?r ! j) \<longrightarrow> ent_activeCalls (entries ?r ! j) = 0)"
    using Cons.prems(3) by (simp del: if_split)
  have "distinct js" using Cons.prems(2) by simp
  from quiet_trans [OF q Cons.IH [OF sane_quiet [OF Cons.prems(1) q] this rest]]
  show ?case by simp
qed

lemma quiet_unregisterChildren:
  assumes s: "sane r n" and eq: "VortekHandleRegistry_unregisterChildren (Some r) p = (st, Some r')"
  shows "quiet r n r' n"
proof -
  let ?f = "fold (\<lambda>i r. if ent_live (entries r ! i) \<and> hasParent (entries r ! i) p
                         then unregisterEntryLocked r i else r) [0..<capacity r] r"
  let ?busy = "\<exists>i<capacity r. ent_live (entries r ! i) \<and> hasParent (entries r ! i) p \<and>
                entryDeviceHasActiveCallsLocked r i"
  have "r' = r \<or> \<not> ?busy \<and> r' = ?f"
    using eq by (auto simp: VortekHandleRegistry_unregisterChildren_def unregisterMatchingLocked_def
        list_ex_iff split: if_splits)
  moreover have "quiet r n ?f n" if "\<not> ?busy"
    using quiet_unregister_fold [OF s, of "[0..<capacity r]" "\<lambda>e. hasParent e p"]
      guard_no_calls [OF s] that by auto
  ultimately show ?thesis using quiet_refl [OF s] by blast
qed

lemma quiet_setDeviceNullDescriptor:
  assumes s: "sane r n"
    and eq: "VortekHandleRegistry_setDeviceNullDescriptor (Some r) n d b = (st, Some r')"
  shows "quiet r n r' n"
proof -
  have "quiet r n (update_entry i (\<lambda>e. e\<lparr>ent_nullDescriptorEnabled := b\<rparr>) r) n" for i
    by (rule quiet_update_entry [OF s]) (simp_all add: identity_of_def)
  then show ?thesis using eq quiet_refl [OF s]
    by (auto simp: VortekHandleRegistry_setDeviceNullDescriptor_def split: option.splits if_splits)
qed

lemma quiet_beginDeviceRetirement_mark:
  assumes s: "sane r n"
    and eq: "VortekHandleRegistry_beginDeviceRetirement_mark (Some r) n d g = (st, w, Some r')"
  shows "quiet r n r' n"
proof -
  have "quiet r n (update_entry i (\<lambda>e. e\<lparr>ent_retiring := True\<rparr>) r) n" for i
    by (rule quiet_update_entry [OF s]) (simp_all add: identity_of_def)
  then show ?thesis using eq quiet_refl [OF s]
    by (auto simp: VortekHandleRegistry_beginDeviceRetirement_mark_def split: option.splits if_splits)
qed

lemma quiet_beginInstanceRetirement_mark:
  assumes s: "sane r n"
    and eq: "VortekHandleRegistry_beginInstanceRetirement_mark (Some r) n d g = (st, Some r')"
  shows "quiet r n r' n"
  using eq quiet_refl [OF s] quiet_mark' [OF s]
  by (auto simp: VortekHandleRegistry_beginInstanceRetirement_mark_def split: if_splits)

lemma quiet_beginClose:
  assumes s: "sane r n" and eq: "VortekHandleRegistry_beginClose (Some r) = Some r'"
  shows "quiet r n r' n"
  using eq quiet_mark [OF s, of True] by (auto simp: VortekHandleRegistry_beginClose_def)

lemma quiet_close_finish:
  assumes s: "sane r n" and eq: "VortekHandleRegistry_close_finish r = Some r'"
  shows "quiet r n r' n"
  using eq quiet_windows(3) [OF s]
  by (auto simp: VortekHandleRegistry_close_finish_def split: if_splits)

lemma quiet_setWindowValidator:
  assumes s: "sane r n" and eq: "VortekHandleRegistry_setWindowValidator (Some r) v u = Some r'"
  shows "quiet r n r' n"
  using eq quiet_windows(2) [OF s] quiet_refl [OF s]
  by (auto simp: VortekHandleRegistry_setWindowValidator_def split: if_splits)

lemma quiet_validateWindowId:
  assumes s: "sane r n"
    and eq: "VortekHandleRegistry_validateWindowId cb (Some r) w g inst nl out = (st, v, Some r')"
  shows "quiet r n r' n"
proof -
  have bind: "quiet r n r' n" if "bindWindowLifetimeLocked r inst wid lt = (st', r')" for wid lt st'
    using that quiet_refl [OF s] quiet_windows(1) [OF s]
    by (auto simp: bindWindowLifetimeLocked_def split: option.splits if_splits)
  show ?thesis
    using eq quiet_refl [OF s] bind
    by (auto simp: VortekHandleRegistry_validateWindowId_def Let_def
        split: if_splits prod.splits)
qed

text \<open>What the selection loop of the drain returns.\<close>

definition drain_pick ::
  "VortekHandleRegistry \<Rightarrow> size_t \<Rightarrow> size_t option \<Rightarrow> size_t option" where
  "drain_pick r i selected = (case selected of None \<Rightarrow> Some i
     | Some s \<Rightarrow> if drains_before (entries r ! i) (entries r ! s) then Some i else selected)"

lemma drain_select_Cons:
  "drain_select r scope token (i # is) selected =
     (if \<not> drainScopeMatches (entries r ! i) scope token
      then drain_select r scope token is selected
      else if entryDeviceHasActiveCallsLocked r i then Inl ()
      else drain_select r scope token is (drain_pick r i selected))"
  by (simp add: drain_pick_def)

lemma drain_select_idle:
  "drain_select r sc t is sel = Inr res \<Longrightarrow> i \<in> set is \<Longrightarrow>
     drainScopeMatches (entries r ! i) sc t \<Longrightarrow> \<not> entryDeviceHasActiveCallsLocked r i"
  by (induction "is" arbitrary: sel) (auto simp: drain_select_Cons simp del: drain_select.simps(2) split: if_splits)

lemma drain_select_mem:
  "drain_select r sc t is sel = Inr (Some s) \<Longrightarrow>
     sel = Some s \<or> (s \<in> set is \<and> drainScopeMatches (entries r ! s) sc t)"
proof (induction "is" arbitrary: sel)
  case (Cons i js)
  have "drain_pick r i sel = Some s \<Longrightarrow> s = i \<or> sel = Some s"
    by (auto simp: drain_pick_def split: option.splits if_splits)
  with Cons show ?case by (auto simp: drain_select_Cons simp del: drain_select.simps(2) split: if_splits)
qed simp

lemma drain_select_None:
  "drain_select r sc t is sel = Inr None \<longleftrightarrow>
     sel = None \<and> (\<forall>i\<in>set is. \<not> drainScopeMatches (entries r ! i) sc t)"
proof (induction "is" arbitrary: sel)
  case (Cons i js)
  have "drain_pick r i sel \<noteq> None" by (auto simp: drain_pick_def split: option.splits)
  with Cons show ?case by (simp add: drain_select_Cons del: drain_select.simps(2))
qed simp

lemma drains_before_not: "\<not> drains_before a b \<longleftrightarrow> drainPriority b < drainPriority a \<or>
     (drainPriority b = drainPriority a \<and> ent_token b \<le> ent_token a)"
  by (auto simp: drains_before_def)

lemma drains_before_order:
  "\<not> drains_before a b \<Longrightarrow> \<not> drains_before b c \<Longrightarrow> \<not> drains_before a c"
  "drains_before a b \<Longrightarrow> \<not> drains_before b a"
  unfolding drains_before_not by (auto simp: drains_before_def)

lemma drain_select_min_sel:
  "drain_select r sc t is (Some k) = Inr (Some s) \<Longrightarrow> \<not> drains_before (entries r ! k) (entries r ! s)"
proof (induction "is" arbitrary: k)
  case Nil
  then show ?case by (simp add: drains_before_def)
next
  case (Cons i js)
  have step: "drain_select r sc t js (Some k) = Inr (Some s) \<or>
      (drains_before (entries r ! i) (entries r ! k) \<and> drain_select r sc t js (Some i) = Inr (Some s))"
    using Cons.prems by (simp add: drain_select_Cons drain_pick_def del: drain_select.simps(2) split: if_splits)
  then show ?case
  proof
    assume "drains_before (entries r ! i) (entries r ! k) \<and> drain_select r sc t js (Some i) = Inr (Some s)"
    with Cons.IH [of i] drains_before_order show ?thesis by blast
  qed (rule Cons.IH)
qed

lemma drain_select_min:
  "drain_select r sc t is sel = Inr (Some s) \<Longrightarrow> i \<in> set is \<Longrightarrow>
     drainScopeMatches (entries r ! i) sc t \<Longrightarrow> \<not> drains_before (entries r ! i) (entries r ! s)"
proof (induction "is" arbitrary: sel)
  case (Cons j js)
  have "drain_select r sc t js (drain_pick r j sel) = Inr (Some s) \<Longrightarrow>
      \<not> drains_before (entries r ! j) (entries r ! s)"
  proof (cases "drain_pick r j sel = Some j")
    case False
    then obtain k where k: "drain_pick r j sel = Some k" "\<not> drains_before (entries r ! j) (entries r ! k)"
      by (auto simp: drain_pick_def split: option.splits if_splits)
    assume "drain_select r sc t js (drain_pick r j sel) = Inr (Some s)"
    from drains_before_order(1) [OF k(2) drain_select_min_sel [OF this [unfolded k]]] show ?thesis .
  qed (auto dest: drain_select_min_sel)
  with Cons show ?case by (auto simp: drain_select_Cons simp del: drain_select.simps(2) split: if_splits)
qed simp

lemma purge_entries [simp]:
  "entries (purgeWindowBindingsLocked q i) = entries q"
  "capacity (purgeWindowBindingsLocked q i) = capacity q"
  "purgeWindowBindingsLocked q 0 = q"
  by (simp_all add: purgeWindowBindingsLocked_def split: prod.split)

lemma quiet_drain_claim: "sane r n \<Longrightarrow> quiet r n (drain_claim r k) n"
  unfolding drain_claim_def
  by (auto simp: quiet_refl identity_of_def intro!: quiet_update_entry split: option.split)

lemma nth_update_field:
  "(\<And>e. g (f e) = g e) \<Longrightarrow> g (xs[d := f (xs ! d)] ! i) = g (xs ! i)"
  by (cases "d < length xs \<and> i = d") (auto simp: nth_list_update list_update_beyond not_less)

lemma drain_claim_entry:
  "ent_live (entries (drain_claim r k) ! i) = ent_live (entries r ! i)"
  "ent_activeCalls (entries (drain_claim r k) ! i) = ent_activeCalls (entries r ! i)"
  "ent_token (entries (drain_claim r k) ! i) = ent_token (entries r ! i)"
  by (simp_all add: drain_claim_def update_entry_def nth_update_field split: option.split)

lemma quiet_drain_take:
  assumes s: "sane r n" and k: "k < capacity r" "ent_live (entries r ! k)" "ent_activeCalls (entries r ! k) = 0"
  shows "quiet r n (drain_take r k) n"
proof -
  let ?t = "if entry_is (entries r ! k) VK_OBJECT_TYPE_INSTANCE then ent_token (entries r ! k) else 0"
  let ?q = "purgeWindowBindingsLocked (drain_claim r k) ?t"
  note c = quiet_drain_claim [OF s, of k]
  have q: "quiet r n ?q n" using quiet_trans [OF c quiet_purge [OF sane_quiet [OF s c]]] .
  have "k < capacity ?q" using k(1) c by (simp add: quiet_def evolves_def)
  then have "quiet ?q n (unregisterEntryLocked ?q k) n"
    by (rule quiet_unregister [OF sane_quiet [OF s q]]) (simp_all add: drain_claim_entry k)
  moreover have "drain_take r k = unregisterEntryLocked ?q k" by (simp add: drain_take_def Let_def)
  ultimately show ?thesis using quiet_trans [OF q] by simp
qed

lemma drain_selected:
  assumes s: "sane r n" and k: "drain_select r sc t [0..<capacity r] None = Inr (Some k)"
  shows "k < capacity r" "ent_live (entries r ! k)" "ent_activeCalls (entries r ! k) = 0"
    "drainScopeMatches (entries r ! k) sc t"
proof -
  show *: "k < capacity r" "drainScopeMatches (entries r ! k) sc t" using drain_select_mem [OF k] by auto
  then show live: "ent_live (entries r ! k)" by (simp add: drainScopeMatches_def split: if_splits)
  show "ent_activeCalls (entries r ! k) = 0"
    using guard_no_calls [OF s *(1) live] drain_select_idle [OF k _ *(2)] *(1) by simp
qed

lemma quiet_drainNext:
  assumes s: "sane r n"
    and eq: "VortekHandleRegistry_drainNext (Some r) scope t out = (st, v, Some r')"
  shows "quiet r n r' n"
proof -
  have "r' = r \<or> r' = purgeWindowBindingsLocked r t \<or>
      (\<exists>k. drain_select r scope t [0..<capacity r] None = Inr (Some k) \<and> r' = drain_take r k)"
    using eq by (auto simp: VortekHandleRegistry_drainNext_def split: if_splits sum.splits option.splits)
  then show ?thesis
    using quiet_refl [OF s] quiet_purge [OF s] quiet_drain_take [OF s] drain_selected [OF s] by blast
qed

section \<open>The lease operations\<close>

lemma reg_map_update_entry:
  assumes wf: "reg_wf r" and f: "findLiveLocked r t = Some i"
    and "\<And>e. ent_live (f e) = ent_live e" "\<And>e. ent_token (f e) = ent_token e"
    "\<And>e. ent_contextGeneration (f e) = ent_contextGeneration e"
    "\<And>e. ent_nextFree (f e) = ent_nextFree e"
  shows "reg_map (update_entry i f r) = (reg_map r)(t \<mapsto> f (entries r ! i))"
proof
  fix u
  have same: "findLiveLocked (update_entry i f r) u = findLiveLocked r u"
    using same_shape_find [OF wf same_shape_update_entry] assms(3-6) by blast
  have e: "i < length (entries r)" "ent_token (entries r ! i) = t"
    using findLiveLocked_entry [OF wf f] wf by (auto simp: reg_wf_def)
  have other: "findLiveLocked r u = Some j \<Longrightarrow> u \<noteq> t \<Longrightarrow> j \<noteq> i" for j
    using findLiveLocked_entry [OF wf, of u j] e(2) by auto
  show "reg_map (update_entry i f r) u = ((reg_map r)(t \<mapsto> f (entries r ! i))) u"
  proof (cases "u = t")
    case True
    then show ?thesis using f e(1) same by (simp add: reg_map_def update_entry_def)
  next
    case False
    then show ?thesis using same other
      by (cases "findLiveLocked r u") (auto simp: reg_map_def update_entry_def)
  qed
qed

lemma isLive_find:
  "isLiveVulkanTypeLocked r t ty = Some i \<Longrightarrow> findLiveLocked r t = Some i \<and>
     ent_role (entries r ! i) = VORTEK_HANDLE_ROLE_VULKAN \<and> ent_vulkanType (entries r ! i) = ty"
  by (auto simp: isLiveVulkanTypeLocked_def split: option.splits if_splits)

text \<open>Changing the number of calls of one live device by any function.\<close>

lemma device_calls_update:
  assumes s: "sane r n" and f: "findLiveLocked r t = Some i"
    and dev: "ent_role (entries r ! i) = VORTEK_HANDLE_ROLE_VULKAN"
      "ent_vulkanType (entries r ! i) = VK_OBJECT_TYPE_DEVICE"
  shows "evolves r n (update_entry i (\<lambda>e. e\<lparr>ent_activeCalls := h (ent_activeCalls e)\<rparr>) r) n"
    and "calls (update_entry i (\<lambda>e. e\<lparr>ent_activeCalls := h (ent_activeCalls e)\<rparr>) r) =
           (calls r)(t := h (calls r t))"
    and "sane (update_entry i (\<lambda>e. e\<lparr>ent_activeCalls := h (ent_activeCalls e)\<rparr>) r) n"
proof -
  let ?g = "\<lambda>e. e\<lparr>ent_activeCalls := h (ent_activeCalls e)\<rparr>"
  note wf = sane_wf [OF s]
  show ev: "evolves r n (update_entry i ?g r) n"
    by (rule evolves_update_entry [OF wf]) (simp_all add: identity_of_def)
  have map: "reg_map (update_entry i ?g r) = (reg_map r)(t \<mapsto> ?g (entries r ! i))"
    by (rule reg_map_update_entry [OF wf f]) simp_all
  have t: "reg_map r t = Some (entries r ! i)" using f by (simp add: reg_map_def)
  show "calls (update_entry i ?g r) = (calls r)(t := h (calls r t))"
    using map t by (auto simp: calls_def fun_eq_iff)
  have "calls_on_devices (update_entry i ?g r)"
    using s dev map by (auto simp: sane_def calls_on_devices_def)
  then show "sane (update_entry i ?g r) n"
    using s ev evolves_tokens_below [OF ev wf] by (simp add: sane_def evolves_def)
qed

lemma wrong_kind_not_OK: "wrong_kind_status r n t \<noteq> VORTEK_HANDLE_OK"
  by (simp add: wrong_kind_status_def missingStatusLocked_def split: option.split)

lemma acquire_effect:
  assumes s: "sane r n"
    and eq: "VortekHandleRegistry_acquireDeviceLease self (Some r) n d g out = (st, l, Some r')"
  shows "evolves r n r' n" "sane r' n"
    and "st \<noteq> VORTEK_HANDLE_OK \<Longrightarrow> r' = r"
    and "st = VORTEK_HANDLE_OK \<Longrightarrow> calls r d \<noteq> UINT32_MAX \<and> calls r' = (calls r)(d := calls r d + 1) \<and>
      reg_map r d \<noteq> None \<and>
      l = Some \<lparr>lease_registry = self, lease_device = d, lease_contextGeneration = generation r,
            lease_hostDeviceBits = ent_hostValue (the (reg_map r d)), lease_active = True\<rparr>"
proof -
  consider (no) "r' = r" "st \<noteq> VORTEK_HANDLE_OK"
    | (yes) i where "isLiveVulkanTypeLocked r d VK_OBJECT_TYPE_DEVICE = Some i"
      "ent_activeCalls (entries r ! i) \<noteq> UINT32_MAX" "st = VORTEK_HANDLE_OK"
      "l = Some \<lparr>lease_registry = self, lease_device = d, lease_contextGeneration = generation r,
            lease_hostDeviceBits = ent_hostValue (entries r ! i), lease_active = True\<rparr>"
      "r' = update_entry i (\<lambda>e. e\<lparr>ent_activeCalls := ent_activeCalls e + 1\<rparr>) r"
  proof (cases "isLiveVulkanTypeLocked r d VK_OBJECT_TYPE_DEVICE")
    case None
    have "r' = r \<and> st \<noteq> VORTEK_HANDLE_OK"
      using eq None wrong_kind_not_OK [of r n d]
      by (simp add: VortekHandleRegistry_acquireDeviceLease_def split: if_splits) auto
    with no show ?thesis by blast
  next
    case (Some i)
    have "r' = r \<and> st \<noteq> VORTEK_HANDLE_OK \<or>
        ent_activeCalls (entries r ! i) \<noteq> UINT32_MAX \<and> st = VORTEK_HANDLE_OK \<and>
        l = Some \<lparr>lease_registry = self, lease_device = d, lease_contextGeneration = generation r,
            lease_hostDeviceBits = ent_hostValue (entries r ! i), lease_active = True\<rparr> \<and>
        r' = update_entry i (\<lambda>e. e\<lparr>ent_activeCalls := ent_activeCalls e + 1\<rparr>) r"
      using eq Some by (simp add: VortekHandleRegistry_acquireDeviceLease_def split: if_splits)
    with no yes [OF Some] show ?thesis by blast
  qed
  note effect = this
  have "evolves r n r' n \<and> sane r' n" using effect
  proof cases
    case yes
    note f = isLive_find [OF yes(1)]
    show ?thesis unfolding yes(5)
      using f device_calls_update(1,3) [OF s, of d i "\<lambda>c. c + 1"] by simp
  qed (simp add: evolves_refl sane_wf [OF s] s)
  then show "evolves r n r' n" "sane r' n" by simp_all
  show "st \<noteq> VORTEK_HANDLE_OK \<Longrightarrow> r' = r" using effect by cases auto
  show "st = VORTEK_HANDLE_OK \<Longrightarrow> calls r d \<noteq> UINT32_MAX \<and> calls r' = (calls r)(d := calls r d + 1) \<and>
      reg_map r d \<noteq> None \<and>
      l = Some \<lparr>lease_registry = self, lease_device = d, lease_contextGeneration = generation r,
            lease_hostDeviceBits = ent_hostValue (the (reg_map r d)), lease_active = True\<rparr>"
    using effect
  proof cases
    case yes
    note f = isLive_find [OF yes(1)]
    have m: "reg_map r d = Some (entries r ! i)" using f by (simp add: reg_map_def)
    have "calls r' = (calls r)(d := calls r d + 1)" unfolding yes(5)
      using f device_calls_update(2) [OF s, of d i "\<lambda>c. c + 1"] by simp
    moreover have "calls r d \<noteq> UINT32_MAX" unfolding calls_Some [OF m] by (rule yes(2))
    ultimately show ?thesis unfolding yes(4) m by simp
  qed simp
qed

text \<open>A lease that is held (its device has an active call) is released.\<close>

lemma release_effect:
  assumes s: "sane r n" and l: "lease_active l" "lease_registry l \<noteq> 0" "lease_device l \<noteq> 0"
    "lease_contextGeneration l = generation r" and held: "calls r (lease_device l) \<noteq> 0"
  obtains r' where "VortekHandleRegistry_releaseDeviceLease (Some l) r = (VORTEK_HANDLE_OK, Some zero_lease, r')"
    "evolves r n r' n" "sane r' n" "calls r' = (calls r)(lease_device l := calls r (lease_device l) - 1)"
proof -
  obtain i where f: "findLiveLocked r (lease_device l) = Some i"
    using held by (auto simp: calls_def reg_map_def split: option.splits)
  note e = findLiveLocked_entry [OF sane_wf [OF s] f]
  have m: "reg_map r (lease_device l) = Some (entries r ! i)" using f by (simp add: reg_map_def)
  have nz: "ent_activeCalls (entries r ! i) \<noteq> 0" using held by (simp add: calls_Some [OF m])
  have dev: "ent_role (entries r ! i) = VORTEK_HANDLE_ROLE_VULKAN"
    "ent_vulkanType (entries r ! i) = VK_OBJECT_TYPE_DEVICE"
    using s m nz unfolding sane_def calls_on_devices_def by blast+
  let ?r = "update_entry i (\<lambda>e. e\<lparr>ent_activeCalls := ent_activeCalls e - 1\<rparr>) r"
  have "VortekHandleRegistry_releaseDeviceLease (Some l) r = (VORTEK_HANDLE_OK, Some zero_lease, ?r)"
    using l f nz dev e by (simp add: VortekHandleRegistry_releaseDeviceLease_def lease_entry_stale_def)
  then show ?thesis
    using that device_calls_update [OF s f dev, of "\<lambda>c. c - 1"] by blast
qed

section \<open>The machine\<close>

text \<open>
  \<open>sys_next\<close> is the process-wide counter \<^verbatim>\<open>nextProcessToken\<close>; \<open>sys_leases\<close> is a ghost: the number of
  leases of each device that were acquired and not yet released.
\<close>

record sys =
  sys_reg :: VortekHandleRegistry
  sys_next :: u64
  sys_leases :: "VortekHandleToken \<Rightarrow> nat"

inductive sys_step :: "u64 \<Rightarrow> sys \<Rightarrow> sys \<Rightarrow> bool" for self where
  other_context: "allocateProcessToken (sys_next s) = (st, tok, n') \<Longrightarrow>
     sys_step self s (s\<lparr>sys_next := n'\<rparr>)"
| registerVulkan: "VortekHandleRegistry_registerVulkan (Some (sys_reg s)) (sys_next s) type h owner out
       = (st, tok, Some r', n') \<Longrightarrow> sys_step self s (s\<lparr>sys_reg := r', sys_next := n'\<rparr>)"
| registerWrapper: "VortekHandleRegistry_registerWrapper (Some (sys_reg s)) (sys_next s) role h owner out
       = (st, tok, Some r', n') \<Longrightarrow> sys_step self s (s\<lparr>sys_reg := r', sys_next := n'\<rparr>)"
| registerVulkanBatch: "VortekHandleRegistry_registerVulkanBatch ok (Some (sys_reg s)) (sys_next s)
       type hs count owner out = (st, toks, Some r', n') \<Longrightarrow>
     sys_step self s (s\<lparr>sys_reg := r', sys_next := n'\<rparr>)"
| unregister: "VortekHandleRegistry_unregister (Some (sys_reg s)) (sys_next s) t x out
       = (st, v, Some r') \<Longrightarrow> sys_step self s (s\<lparr>sys_reg := r'\<rparr>)"
| unregisterBatch: "VortekHandleRegistry_unregisterBatch ok (Some (sys_reg s)) (sys_next s) toks count x
       = (st, Some r') \<Longrightarrow> sys_step self s (s\<lparr>sys_reg := r'\<rparr>)"
| rollbackBatch: "exp_role e = VORTEK_HANDLE_ROLE_VULKAN \<Longrightarrow> exp_vulkanType e \<noteq> VK_OBJECT_TYPE_DEVICE \<Longrightarrow>
     VortekHandleRegistry_rollbackBatchWithLease ok self (Some (sys_reg s)) (sys_next s) toks count
       (Some e) lease = (st, Some r') \<Longrightarrow> sys_step self s (s\<lparr>sys_reg := r'\<rparr>)"
| unregisterChildren: "VortekHandleRegistry_unregisterChildren (Some (sys_reg s)) p = (st, Some r') \<Longrightarrow>
     sys_step self s (s\<lparr>sys_reg := r'\<rparr>)"
| setDeviceNullDescriptor: "VortekHandleRegistry_setDeviceNullDescriptor (Some (sys_reg s)) (sys_next s)
       d b = (st, Some r') \<Longrightarrow> sys_step self s (s\<lparr>sys_reg := r'\<rparr>)"
| beginDeviceRetirement: "VortekHandleRegistry_beginDeviceRetirement_mark (Some (sys_reg s)) (sys_next s)
       d g = (st, w, Some r') \<Longrightarrow> sys_step self s (s\<lparr>sys_reg := r'\<rparr>)"
| beginInstanceRetirement: "VortekHandleRegistry_beginInstanceRetirement_mark (Some (sys_reg s))
       (sys_next s) d g = (st, Some r') \<Longrightarrow> sys_step self s (s\<lparr>sys_reg := r'\<rparr>)"
| beginClose: "VortekHandleRegistry_beginClose (Some (sys_reg s)) = Some r' \<Longrightarrow>
     sys_step self s (s\<lparr>sys_reg := r'\<rparr>)"
| close_finish: "VortekHandleRegistry_close_finish (sys_reg s) = Some r' \<Longrightarrow>
     sys_step self s (s\<lparr>sys_reg := r'\<rparr>)"
| setWindowValidator: "VortekHandleRegistry_setWindowValidator (Some (sys_reg s)) v u = Some r' \<Longrightarrow>
     sys_step self s (s\<lparr>sys_reg := r'\<rparr>)"
| validateWindowId: "VortekHandleRegistry_validateWindowId cb (Some (sys_reg s)) w g inst nl out
       = (st, wv, Some r') \<Longrightarrow> sys_step self s (s\<lparr>sys_reg := r'\<rparr>)"
| drainNext: "VortekHandleRegistry_drainNext (Some (sys_reg s)) scope t out = (st, dv, Some r') \<Longrightarrow>
     sys_step self s (s\<lparr>sys_reg := r'\<rparr>)"
| acquire: "VortekHandleRegistry_acquireDeviceLease self (Some (sys_reg s)) (sys_next s) d g out
       = (st, l, Some r') \<Longrightarrow>
     sys_step self s (s\<lparr>sys_reg := r', sys_leases := (if st = VORTEK_HANDLE_OK
        then (sys_leases s)(d := sys_leases s d + 1) else sys_leases s)\<rparr>)"
| release: "lease_active l \<Longrightarrow> lease_registry l = self \<Longrightarrow> lease_registry l \<noteq> 0 \<Longrightarrow> lease_device l \<noteq> 0 \<Longrightarrow>
     lease_contextGeneration l = generation (sys_reg s) \<Longrightarrow> 0 < sys_leases s (lease_device l) \<Longrightarrow>
     VortekHandleRegistry_releaseDeviceLease (Some l) (sys_reg s) = (st, l', r') \<Longrightarrow>
     sys_step self s (s\<lparr>sys_reg := r', sys_leases := (if st = VORTEK_HANDLE_OK
        then (sys_leases s)(lease_device l := sys_leases s (lease_device l) - 1) else sys_leases s)\<rparr>)"

text \<open>The states reached from a fresh registry.\<close>

definition sys_init :: "u64 \<Rightarrow> size_t \<Rightarrow> u64 \<Rightarrow> sys option" where
  "sys_init gen cap next = map_option (\<lambda>r. \<lparr>sys_reg = r, sys_next = next, sys_leases = (\<lambda>_. 0)\<rparr>)
     (VortekHandleRegistry_create True gen cap)"

inductive sys_reach :: "u64 \<Rightarrow> sys \<Rightarrow> bool" for self where
  init: "sys_init gen cap next = Some s \<Longrightarrow> next \<noteq> 0 \<Longrightarrow> sys_reach self s"
| step: "sys_reach self s \<Longrightarrow> sys_step self s s' \<Longrightarrow> sys_reach self s'"

definition sys_ok :: "sys \<Rightarrow> bool" where
  "sys_ok s \<longleftrightarrow> sane (sys_reg s) (sys_next s) \<and>
     (\<forall>t. unat (calls (sys_reg s) t) = sys_leases s t)"

abbreviation sys_evolves :: "sys \<Rightarrow> sys \<Rightarrow> bool" where
  "sys_evolves s s' \<equiv> evolves (sys_reg s) (sys_next s) (sys_reg s') (sys_next s')"

text \<open>A quiet step keeps the accounting.\<close>

lemma sys_quiet:
  assumes "sys_ok s" "quiet (sys_reg s) (sys_next s) r' n'"
  shows "sys_ok (s\<lparr>sys_reg := r', sys_next := n'\<rparr>)"
    and "sys_evolves s (s\<lparr>sys_reg := r', sys_next := n'\<rparr>)"
  using assms sane_quiet [of "sys_reg s" "sys_next s" r' n'] by (simp_all add: sys_ok_def quiet_def)

lemma sys_quiet_reg:
  assumes "sys_ok s" "quiet (sys_reg s) (sys_next s) r' (sys_next s)"
  shows "sys_ok (s\<lparr>sys_reg := r'\<rparr>) \<and> sys_evolves s (s\<lparr>sys_reg := r'\<rparr>)"
  using assms sane_quiet [of "sys_reg s" "sys_next s" r' "sys_next s"] by (simp add: sys_ok_def quiet_def)

lemma sys_acquire:
  assumes ok: "sys_ok s"
    and eq: "VortekHandleRegistry_acquireDeviceLease self (Some (sys_reg s)) (sys_next s) d g out
       = (st, l, Some r')"
  defines "s' \<equiv> s\<lparr>sys_reg := r', sys_leases := (if st = VORTEK_HANDLE_OK
        then (sys_leases s)(d := sys_leases s d + 1) else sys_leases s)\<rparr>"
  shows "sys_ok s'" "sys_evolves s s'"
proof -
  have s: "sane (sys_reg s) (sys_next s)" and acc: "\<And>t. unat (calls (sys_reg s) t) = sys_leases s t"
    using ok by (simp_all add: sys_ok_def)
  note e = acquire_effect [OF s eq]
  show "sys_evolves s s'" using e(1) by (simp add: s'_def)
  have "unat (calls r' t) = sys_leases s' t" for t
  proof (cases "st = VORTEK_HANDLE_OK")
    case True
    have "calls (sys_reg s) d \<noteq> - 1" using e(4) True by (simp add: UINT32_MAX_def)
    then have "unat (calls (sys_reg s) d + 1) = unat (calls (sys_reg s) d) + 1"
      using unatSuc [of "calls (sys_reg s) d"] by (metis add.commute add_eq_0_iff2 minus_equation_iff Suc_eq_plus1)
    with e(4) True acc show ?thesis by (simp add: s'_def)
  qed (use e(3) acc in \<open>simp add: s'_def\<close>)
  with e(2) show "sys_ok s'" by (simp add: sys_ok_def s'_def)
qed

lemma sys_release:
  assumes ok: "sys_ok s" and l: "lease_active l" "lease_registry l \<noteq> 0" "lease_device l \<noteq> 0"
    "lease_contextGeneration l = generation (sys_reg s)" "0 < sys_leases s (lease_device l)"
    and eq: "VortekHandleRegistry_releaseDeviceLease (Some l) (sys_reg s) = (st, l', r')"
  defines "s' \<equiv> s\<lparr>sys_reg := r', sys_leases := (if st = VORTEK_HANDLE_OK
        then (sys_leases s)(lease_device l := sys_leases s (lease_device l) - 1) else sys_leases s)\<rparr>"
  shows "st = VORTEK_HANDLE_OK" "l' = Some zero_lease" "sys_ok s'" "sys_evolves s s'"
proof -
  let ?d = "lease_device l"
  have s: "sane (sys_reg s) (sys_next s)" and acc: "\<And>t. unat (calls (sys_reg s) t) = sys_leases s t"
    using ok by (simp_all add: sys_ok_def)
  have nz: "calls (sys_reg s) ?d \<noteq> 0" using acc [of ?d] l(5) by auto
  have *: "st = VORTEK_HANDLE_OK \<and> l' = Some zero_lease \<and>
      evolves (sys_reg s) (sys_next s) r' (sys_next s) \<and> sane r' (sys_next s) \<and>
      calls r' = (calls (sys_reg s))(?d := calls (sys_reg s) ?d - 1)"
    by (rule release_effect [OF s l(1-4) nz]) (use eq in simp)
  then show "st = VORTEK_HANDLE_OK" "l' = Some zero_lease" "sys_evolves s s'" by (simp_all add: s'_def)
  have "unat (calls (sys_reg s) ?d - 1) = unat (calls (sys_reg s) ?d) - 1"
    using nz by (rule unat_minus_one)
  then have "unat (calls r' t) = sys_leases s' t" for t using * acc by (simp add: s'_def)
  with * show "sys_ok s'" by (simp add: sys_ok_def s'_def)
qed

lemma sys_step_ok:
  assumes "sys_step self s s'" "sys_ok s"
  shows "sys_ok s' \<and> sys_evolves s s'"
proof -
  have s: "sane (sys_reg s) (sys_next s)" using assms(2) by (simp add: sys_ok_def)
  note q = sys_quiet_reg [OF assms(2)] and qn = sys_quiet [OF assms(2)]
  show ?thesis
    using assms(1)
  proof cases
    case (other_context st tok n')
    from qn [OF quiet_allocate [OF s other_context(2)]] other_context(1) show ?thesis by simp
  next
    case (registerVulkan type h owner out st tok r' n')
    with qn [OF quiet_registerVulkan [OF s]] show ?thesis by simp
  next
    case (registerWrapper role h owner out st tok r' n')
    with qn [OF quiet_registerWrapper [OF s]] show ?thesis by simp
  next
    case (registerVulkanBatch ok type hs count owner out st toks r' n')
    with qn [OF quiet_registerVulkanBatch [OF s]] show ?thesis by simp
  next
    case (unregister t x out st v r')
    with q [OF quiet_unregister_op [OF s]] show ?thesis by simp
  next
    case (unregisterBatch ok toks count x st r')
    with q [OF quiet_unregisterBatch [OF s]] show ?thesis by simp
  next
    case (rollbackBatch e ok toks count lease st r')
    with q [OF quiet_rollbackBatch [OF s]] show ?thesis by simp
  next
    case (unregisterChildren p st r')
    with q [OF quiet_unregisterChildren [OF s]] show ?thesis by simp
  next
    case (setDeviceNullDescriptor d b st r')
    with q [OF quiet_setDeviceNullDescriptor [OF s]] show ?thesis by simp
  next
    case (beginDeviceRetirement d g st w r')
    with q [OF quiet_beginDeviceRetirement_mark [OF s]] show ?thesis by simp
  next
    case (beginInstanceRetirement d g st r')
    with q [OF quiet_beginInstanceRetirement_mark [OF s]] show ?thesis by simp
  next
    case (beginClose r')
    with q [OF quiet_beginClose [OF s]] show ?thesis by simp
  next
    case (close_finish r')
    with q [OF quiet_close_finish [OF s]] show ?thesis by simp
  next
    case (setWindowValidator v u r')
    with q [OF quiet_setWindowValidator [OF s]] show ?thesis by simp
  next
    case (validateWindowId cb w g inst nl out st wv r')
    with q [OF quiet_validateWindowId [OF s]] show ?thesis by simp
  next
    case (drainNext scope t out st dv r')
    with q [OF quiet_drainNext [OF s]] show ?thesis by simp
  next
    case (acquire d g out st l r')
    with sys_acquire [OF assms(2)] show ?thesis by blast
  next
    case (release l st l' r')
    with sys_release(3,4) [OF assms(2)] show ?thesis by blast
  qed
qed

lemma indexCapacityFor_bound: "0 < cap \<Longrightarrow> indexCapacityFor cap \<le> 4 * cap"
  unfolding indexCapacityFor_def Let_def
  by (rule while_rule [where P = "\<lambda>r. 2 \<le> r \<and> r \<le> 4 * cap" and r = "measure (\<lambda>r. cap * 2 - r)"])
    (auto simp: push_bit_eq_mult)

lemma reg_wf_create:
  assumes "VortekHandleRegistry_create ok gen cap = Some r"
  shows "reg_wf r"
proof -
  have c: "0 < cap" "cap \<le> 1048576"
    using assms by (auto simp: VortekHandleRegistry_create_def VORTEK_HANDLE_REGISTRY_MAX_CAPACITY_def split: if_splits)
  let ?es = "map (\<lambda>index. zero_entry\<lparr>ent_nextFree := (if index + 1 < cap then index + 1 else SIZE_MAX)\<rparr>) [0..<cap]"
  have r: "entries r = ?es" "tokenIndex r = replicate (indexCapacityFor cap) 0" "freeHead r = 0"
    "capacity r = cap" "indexCapacity r = indexCapacityFor cap" "liveCount r = 0"
    using assms by (auto simp: VortekHandleRegistry_create_def split: if_splits)
  have dead: "i < cap \<Longrightarrow> \<not> ent_live (?es ! i)" for i by (simp add: zero_entry_def)
  have big: "cap < SIZE_MAX" "indexCapacityFor cap < SIZE_MAX"
    using c indexCapacityFor_bound [of cap] by (simp_all add: SIZE_MAX_def)
  have "index_ok ?es (replicate (indexCapacityFor cap) 0)"
    using big c indexCapacityFor_props [of cap] dead by (simp add: index_ok_def occupied_def)
  moreover have "free_ok ?es 0"
  proof -
    have nf: "ent_nextFree (?es ! k) = (if Suc k < cap then Suc k else SIZE_MAX)" if "k < cap" for k
      using that by (simp add: zero_entry_def)
    have len: "length ?es = cap" by simp
    have "free_chain ?es k (upt k cap)" if "k < cap" for k
      using that
    proof (induction "cap - k" arbitrary: k)
      case (Suc m)
      have IH: "Suc k < cap \<Longrightarrow> free_chain ?es (Suc k) (upt (Suc k) cap)"
        using Suc(1) [of "Suc k"] Suc(2) by linarith
      have "free_chain ?es (if Suc k < cap then Suc k else SIZE_MAX) (upt (Suc k) cap)"
        using IH by (cases "Suc k < cap") (simp_all del: upt_Suc)
      then show ?case
        unfolding upt_conv_Cons [OF Suc.prems] free_chain.simps nf [OF Suc.prems] len
        using Suc.prems by blast
    qed simp
    with c dead show ?thesis unfolding free_ok_def by (intro exI [of _ "[0..<cap]"]) auto
  qed
  moreover have "filter ent_live ?es = []" by (auto simp: filter_empty_conv zero_entry_def)
  ultimately show ?thesis using c dead unfolding reg_wf_def r by simp
qed

lemma create_empty:
  assumes "VortekHandleRegistry_create ok gen cap = Some r"
  shows "reg_wf r" "reg_map r = (\<lambda>_. None)" "generation r = gen" "\<not> closed r"
proof -
  show wf: "reg_wf r" using reg_wf_create [OF assms] .
  have dead: "\<forall>i<capacity r. \<not> ent_live (entries r ! i)"
    using assms by (auto simp: VortekHandleRegistry_create_def zero_entry_def split: if_splits)
  have "findLiveLocked r t = None" for t
    using findLiveLocked_entry [OF wf, of t] dead by (cases "findLiveLocked r t") auto
  then show "reg_map r = (\<lambda>_. None)" by (simp add: reg_map_def fun_eq_iff)
  show "generation r = gen" "\<not> closed r"
    using assms by (auto simp: VortekHandleRegistry_create_def split: if_splits)
qed

lemma sys_init_ok:
  assumes "sys_init gen cap next = Some s" "next \<noteq> 0"
  shows "sys_ok s"
proof -
  obtain r where r: "VortekHandleRegistry_create True gen cap = Some r"
    "s = \<lparr>sys_reg = r, sys_next = next, sys_leases = (\<lambda>_. 0)\<rparr>"
    using assms(1) by (auto simp: sys_init_def)
  note e = create_empty [OF r(1)]
  have "tokens_below r next" using e tokens_below_map by fastforce
  then show ?thesis using e assms(2)
    by (simp add: sys_ok_def sane_def calls_on_devices_def calls_def r(2))
qed

lemma sys_reach_ok: "sys_reach self s \<Longrightarrow> sys_ok s"
  by (induction rule: sys_reach.induct) (auto simp: sys_init_ok dest: sys_step_ok)

lemma sys_steps_ok:
  "(sys_step self)\<^sup>*\<^sup>* s s' \<Longrightarrow> sys_ok s \<Longrightarrow> sys_ok s' \<and> sys_evolves s s'"
proof (induction rule: rtranclp_induct)
  case base
  then show ?case by (simp add: sys_ok_def sane_def evolves_refl)
next
  case (step s1 s2)
  then show ?case using sys_step_ok evolves_trans by blast
qed

lemma sys_steps_reach: "(sys_step self)\<^sup>*\<^sup>* s s' \<Longrightarrow> sys_reach self s \<Longrightarrow> sys_reach self s'"
  by (induction rule: rtranclp_induct) (auto intro: sys_reach.step)

end
