(* ===== verification/Registry_View.thy ===== *)
theory Registry_View
  imports Registry_Machine
begin

text \<open>
  The registry seen through its abstract map: what validation, lookup, registration and
  retirement do, in terms of \<open>reg_map\<close> alone. Neither the hash index nor the free list nor the
  slot numbers appear any more.
\<close>

section \<open>Owners and expectations over the map\<close>

definition live_as :: "VortekHandleRegistry \<Rightarrow> VortekHandleToken \<Rightarrow> VkObjectType \<Rightarrow> bool" where
  "live_as r t type = (case reg_map r t of None \<Rightarrow> False | Some e \<Rightarrow> entry_is e type)"

text \<open>The owners exist with the right types and the instance of device and parent agree.\<close>

definition owners_alive :: "VortekHandleRegistry \<Rightarrow> VortekHandleOwner \<Rightarrow> bool" where
  "owners_alive r ow \<longleftrightarrow>
     (own_instance ow = 0 \<or> live_as r (own_instance ow) VK_OBJECT_TYPE_INSTANCE) \<and>
     (own_device ow = 0 \<or> live_as r (own_device ow) VK_OBJECT_TYPE_DEVICE \<and>
        (own_instance ow = 0 \<or>
         own_instance (ent_owner (the (reg_map r (own_device ow)))) = own_instance ow)) \<and>
     (own_parent ow = 0 \<or>
        (case reg_map r (own_parent ow) of
           None \<Rightarrow> False
         | Some p \<Rightarrow> own_instance (ent_owner p) \<in> {0, own_instance ow} \<and>
                     own_device (ent_owner p) \<in> {0, own_device ow}))"

definition entry_satisfies :: "VortekHandleEntry \<Rightarrow> VortekHandleExpectation \<Rightarrow> bool" where
  "entry_satisfies e x \<longleftrightarrow> ent_role e = exp_role x \<and>
     (ent_role e = VORTEK_HANDLE_ROLE_VULKAN \<longrightarrow> ent_vulkanType e = exp_vulkanType x) \<and>
     (exp_requireInstanceOwner x \<longrightarrow> own_instance (ent_owner e) = own_instance (exp_owner x)) \<and>
     (exp_requireDeviceOwner x \<longrightarrow> own_device (ent_owner e) = own_device (exp_owner x)) \<and>
     (exp_requireParentOwner x \<longrightarrow> own_parent (ent_owner e) = own_parent (exp_owner x))"

lemma isLive_None_map: "isLiveVulkanTypeLocked r t type = None \<longleftrightarrow> \<not> live_as r t type"
  by (auto simp: isLiveVulkanTypeLocked_def live_as_def reg_map_def entry_is_def split: option.splits)

lemma isLive_Some_map:
  "isLiveVulkanTypeLocked r t type = Some i \<Longrightarrow> live_as r t type \<and> reg_map r t = Some (entries r ! i)"
  by (auto simp: isLiveVulkanTypeLocked_def live_as_def reg_map_def entry_is_def
      split: option.splits if_splits)

lemma validateOwners_map:
  "validateOwnersLocked r ow = VORTEK_HANDLE_OK \<longleftrightarrow> owners_alive r ow"
proof -
  let ?i = "own_instance ow" and ?d = "own_device ow" and ?p = "own_parent ow"
  let ?dev = "isLiveVulkanTypeLocked r ?d VK_OBJECT_TYPE_DEVICE"
  have i: "isLiveVulkanTypeLocked r ?i VK_OBJECT_TYPE_INSTANCE = None \<longleftrightarrow>
      \<not> live_as r ?i VK_OBJECT_TYPE_INSTANCE" by (rule isLive_None_map)
  have p: "(case findLiveLocked r ?p of None \<Rightarrow> VORTEK_HANDLE_STALE_OWNER
        | Some p \<Rightarrow> let po = ent_owner (entries r ! p)
            in if (own_instance po \<noteq> 0 \<and> own_instance po \<noteq> ?i) \<or> (own_device po \<noteq> 0 \<and> own_device po \<noteq> ?d)
               then VORTEK_HANDLE_WRONG_OWNER else VORTEK_HANDLE_OK) = VORTEK_HANDLE_OK \<longleftrightarrow>
      (case reg_map r ?p of None \<Rightarrow> False
         | Some p \<Rightarrow> own_instance (ent_owner p) \<in> {0, ?i} \<and> own_device (ent_owner p) \<in> {0, ?d})"
    by (cases "findLiveLocked r ?p") (auto simp: reg_map_def Let_def)
  consider (none) "?d = 0" | (dead) "?d \<noteq> 0" "?dev = None" | (live) k where "?d \<noteq> 0" "?dev = Some k"
    by auto
  then show ?thesis
  proof cases
    case none
    then show ?thesis unfolding validateOwnersLocked_def owners_alive_def Let_def p [unfolded Let_def, symmetric]
      by (simp add: i)
  next
    case dead
    then show ?thesis unfolding validateOwnersLocked_def owners_alive_def Let_def i
      by (simp add: isLive_None_map)
  next
    case live
    note m = isLive_Some_map [OF live(2)]
    show ?thesis unfolding validateOwnersLocked_def owners_alive_def Let_def p [unfolded Let_def, symmetric]
      using live m by (simp add: i)
  qed
qed

lemma validateExpectation_map:
  assumes wf: "reg_wf r" and t: "t \<noteq> 0"
  shows "validateExpectationLockedEx r n t (Some x) c = (VORTEK_HANDLE_OK, Some i) \<longleftrightarrow>
     (closed r \<longrightarrow> c) \<and> exp_contextGeneration x = generation r \<and> findLiveLocked r t = Some i \<and>
     entry_satisfies (entries r ! i) x \<and> owners_alive r (ent_owner (entries r ! i))"
proof (cases "findLiveLocked r t")
  case None
  then show ?thesis using t by (simp add: validateExpectationLockedEx_def missingStatusLocked_def)
next
  case (Some j)
  have "ent_contextGeneration (entries r ! j) = generation r"
    using findLiveLocked_entry [OF wf Some] by simp
  then show ?thesis
    using Some t
    by (auto simp: validateExpectationLockedEx_def entry_satisfies_def Let_def
        validateOwners_map [symmetric])
qed

lemma validateExpectation_OK_Some:
  assumes "t \<noteq> 0" "fst (validateExpectationLockedEx r n t x c) = VORTEK_HANDLE_OK"
  obtains i where "validateExpectationLockedEx r n t x c = (VORTEK_HANDLE_OK, Some i)"
  using assms
  by (auto simp: validateExpectationLockedEx_def Let_def missingStatusLocked_def
      split: option.splits if_splits)

section \<open>Registration of a new object\<close>

lemma registerVulkan_new:
  assumes s: "sane r n" and "\<not> closed r" "type \<noteq> VK_OBJECT_TYPE_UNKNOWN" "h \<noteq> 0"
    "owners_alive r ow" "\<not> reuseIdentity VORTEK_HANDLE_ROLE_VULKAN type ow"
    "liveCount r < capacity r" "n \<noteq> UINT64_MAX"
  shows "VortekHandleRegistry_registerVulkan (Some r) n type h ow True =
    (VORTEK_HANDLE_OK, Some n, Some (publish (new_entry r n VORTEK_HANDLE_ROLE_VULKAN type h ow) r), n + 1)"
  using assms validateOwners_map [of r ow]
  by (simp add: VortekHandleRegistry_registerVulkan_def registerValueLocked_eq [OF sane_wf [OF s]]
      find_identity_def sane_def)

lemma owners_alive_zero: "owners_alive r \<lparr>own_instance = 0, own_device = 0, own_parent = 0\<rparr>"
  by (simp add: owners_alive_def)

lemma reg_map_new:
  assumes "sane r n" "liveCount r < capacity r"
  shows "reg_map (publish (new_entry r n role type h ow) r) =
     (reg_map r)(n \<mapsto> new_entry r n role type h ow)"
  using reg_authority.lookup_add [OF sane_wf [OF assms(1)] can_publish_new [OF assms]] by simp

section \<open>Leases over the map\<close>

definition leasable :: "VortekHandleRegistry \<Rightarrow> VortekHandleToken \<Rightarrow> bool" where
  "leasable r d \<longleftrightarrow> \<not> closed r \<and> (case reg_map r d of None \<Rightarrow> False | Some e \<Rightarrow>
     entry_is e VK_OBJECT_TYPE_DEVICE \<and> \<not> ent_retiring e \<and> ent_activeCalls e \<noteq> UINT32_MAX)"

lemma acquire_OK_iff:
  assumes "d \<noteq> 0" "g \<noteq> 0"
  shows "fst (VortekHandleRegistry_acquireDeviceLease self (Some r) n d g True) = VORTEK_HANDLE_OK \<longleftrightarrow>
     g = generation r \<and> leasable r d"
proof (cases "isLiveVulkanTypeLocked r d VK_OBJECT_TYPE_DEVICE")
  case None
  have "\<not> leasable r d" using None isLive_None_map [of r d]
    by (auto simp: leasable_def live_as_def split: option.splits)
  then show ?thesis using assms None wrong_kind_not_OK [of r n d]
    by (simp add: VortekHandleRegistry_acquireDeviceLease_def)
next
  case (Some i)
  note m = isLive_Some_map [OF Some]
  have "leasable r d \<longleftrightarrow> \<not> closed r \<and> \<not> ent_retiring (entries r ! i) \<and>
      ent_activeCalls (entries r ! i) \<noteq> UINT32_MAX"
    using m by (auto simp: leasable_def live_as_def)
  with Some assms show ?thesis by (simp add: VortekHandleRegistry_acquireDeviceLease_def)
qed

lemma acquire_pair:
  "\<exists>st l r'. VortekHandleRegistry_acquireDeviceLease self (Some r) n d g out = (st, l, Some r')"
  by (auto simp: VortekHandleRegistry_acquireDeviceLease_def split: option.splits)

section \<open>Retirement over the map\<close>

definition device_of :: "VortekHandleEntry \<Rightarrow> VortekHandleToken" where
  "device_of e = (if entry_is e VK_OBJECT_TYPE_DEVICE then ent_token e else own_device (ent_owner e))"

text \<open>A call is running on the device of \<open>e\<close>.\<close>

definition pinned :: "VortekHandleRegistry \<Rightarrow> VortekHandleEntry \<Rightarrow> bool" where
  "pinned r e \<longleftrightarrow> device_of e \<noteq> 0 \<and> calls r (device_of e) \<noteq> 0"

definition depends_on :: "VortekHandleEntry \<Rightarrow> VortekHandleEntry \<Rightarrow> bool" where
  "depends_on c e \<longleftrightarrow> ent_token c \<noteq> ent_token e \<and>
     (entry_is e VK_OBJECT_TYPE_DEVICE \<and> own_device (ent_owner c) = ent_token e \<or>
      entry_is e VK_OBJECT_TYPE_INSTANCE \<and> own_instance (ent_owner c) = ent_token e)"

definition has_dependents :: "VortekHandleRegistry \<Rightarrow> VortekHandleEntry \<Rightarrow> bool" where
  "has_dependents r e \<longleftrightarrow> (\<exists>c\<in>ran (reg_map r). depends_on c e)"

lemma active_calls_map:
  assumes s: "sane r n"
  shows "entryDeviceHasActiveCallsLocked r i \<longleftrightarrow> pinned r (entries r ! i)"
proof -
  let ?d = "device_of (entries r ! i)"
  have eq: "entryDeviceHasActiveCallsLocked r i \<longleftrightarrow> ?d \<noteq> 0 \<and>
      (case findLiveLocked r ?d of None \<Rightarrow> False
       | Some d \<Rightarrow> entry_is (entries r ! d) VK_OBJECT_TYPE_DEVICE \<and> ent_activeCalls (entries r ! d) \<noteq> 0)"
    unfolding entryDeviceHasActiveCallsLocked_def device_of_def entry_is_def Let_def
    by (auto split: option.split)
  show ?thesis
  proof (cases "findLiveLocked r ?d")
    case None
    then have "calls r ?d = 0" by (simp add: calls_def reg_map_def)
    with eq None show ?thesis by (simp add: pinned_def)
  next
    case (Some d)
    then have m: "reg_map r ?d = Some (entries r ! d)" by (simp add: reg_map_def)
    then have "ent_activeCalls (entries r ! d) \<noteq> 0 \<Longrightarrow> entry_is (entries r ! d) VK_OBJECT_TYPE_DEVICE"
      using s unfolding sane_def calls_on_devices_def entry_is_def by blast
    with eq Some show ?thesis by (auto simp: pinned_def calls_Some [OF m])
  qed
qed

lemma dependents_map:
  assumes wf: "reg_wf r" and i: "i < capacity r" "ent_live (entries r ! i)"
  shows "entryHasLiveDependentsLocked r i \<longleftrightarrow> has_dependents r (entries r ! i)"
proof -
  have tok: "c \<noteq> i \<longleftrightarrow> ent_token (entries r ! c) \<noteq> ent_token (entries r ! i)"
    if "c < capacity r" "ent_live (entries r ! c)" for c
    using findLiveLocked_live [OF wf i] findLiveLocked_live [OF wf that] by auto
  have "has_dependents r (entries r ! i) \<longleftrightarrow>
      (\<exists>c<capacity r. ent_live (entries r ! c) \<and> depends_on (entries r ! c) (entries r ! i))"
    unfolding has_dependents_def ran_def reg_map_Some [OF wf] by blast
  moreover have "entryHasLiveDependentsLocked r i \<longleftrightarrow>
      (\<exists>c<capacity r. ent_live (entries r ! c) \<and> c \<noteq> i \<and>
         (entry_is (entries r ! i) VK_OBJECT_TYPE_DEVICE \<and>
            own_device (ent_owner (entries r ! c)) = ent_token (entries r ! i) \<or>
          entry_is (entries r ! i) VK_OBJECT_TYPE_INSTANCE \<and>
            own_instance (ent_owner (entries r ! c)) = ent_token (entries r ! i)))"
    unfolding entryHasLiveDependentsLocked_def Let_def list_ex_iff entry_is_def by auto
  ultimately show ?thesis using tok unfolding depends_on_def by blast
qed

text \<open>The three outcomes of the two guards of \<open>VortekHandleRegistry_unregister\<close>.\<close>

lemma unregister_pair:
  "\<exists>st v r'. VortekHandleRegistry_unregister (Some r) n t x out = (st, v, Some r')"
  by (auto simp: VortekHandleRegistry_unregister_def
      split: prod.splits VortekHandleStatus.splits option.splits)

lemma unregister_effect:
  assumes s: "sane r n" and t: "t \<noteq> 0"
    and eq: "VortekHandleRegistry_unregister (Some r) n t (Some x) out = (st, v, Some r')"
  shows "(st = VORTEK_HANDLE_OK \<and> reg_map r' = (reg_map r)(t := None) \<and>
        (\<exists>e. reg_map r t = Some e \<and> \<not> pinned r e \<and> \<not> has_dependents r e \<and>
           fst (validateExpectationLockedEx r n t (Some x) False) = VORTEK_HANDLE_OK \<and>
           v = (if out then Some (value_of_entry (generation r) e) else None))) \<or>
     (st = VORTEK_HANDLE_RETIRING \<and> r' = r \<and> v = None \<and>
        (\<exists>e. reg_map r t = Some e \<and> (pinned r e \<or> has_dependents r e))) \<or>
     (st \<noteq> VORTEK_HANDLE_OK \<and> r' = r \<and> v = None \<and>
        fst (validateExpectationLockedEx r n t (Some x) False) = st)"
proof (cases "fst (validateExpectationLockedEx r n t (Some x) False) = VORTEK_HANDLE_OK")
  case True
  then obtain i where i: "validateExpectationLockedEx r n t (Some x) False = (VORTEK_HANDLE_OK, Some i)"
    using validateExpectation_OK_Some [OF t] by blast
  note e = validated_entry [OF sane_wf [OF s] i]
  have m: "reg_map r t = Some (entries r ! i)" using e(1) by (simp add: reg_map_def)
  note g = active_calls_map [OF s, of i] dependents_map [OF sane_wf [OF s] e(2,3)]
  have rm: "reg_map (unregisterEntryLocked r i) = (reg_map r)(t := None)"
    using reg_map_unregister [OF sane_wf [OF s] e(2,3)] e(4) by simp
  show ?thesis
    using eq i t m g rm by (simp add: VortekHandleRegistry_unregister_def validated_Locked split: if_splits)
next
  case False
  then show ?thesis using eq t
    by (auto simp: VortekHandleRegistry_unregister_def validated_Locked
        split: prod.splits VortekHandleStatus.splits option.splits)
qed

section \<open>Batches over the map\<close>

lemma retire_all_map:
  "reg_wf r \<Longrightarrow> reg_map (fold retire_token ts r) = (reg_map r) |` (- set ts)"
  using reg_store.lookup_retire_all [of r ts] by (auto simp: restrict_map_def fun_eq_iff)

lemma null_or_duplicate_sorted:
  fixes ts :: "VortekHandleToken list"
  shows "sorted ts \<Longrightarrow> null_or_duplicate ts \<longleftrightarrow> 0 \<in> set ts \<or> \<not> distinct ts"
proof (induction ts rule: null_or_duplicate.induct)
  case (3 t u ts)
  have "t \<in> set (u # ts) \<longleftrightarrow> u = t" using "3.prems" by (auto dest: antisym)
  with 3 show ?case by auto
qed auto

text \<open>A successful registration publishes the requested identity under the returned token.\<close>

definition identity_matches ::
  "VkObjectType \<Rightarrow> u64 \<Rightarrow> VortekHandleOwner \<Rightarrow> VortekHandleEntry \<Rightarrow> bool" where
  "identity_matches type h ow e \<longleftrightarrow> entry_is e type \<and> ent_hostValue e = h \<and>
     own_instance (ent_owner e) = own_instance ow \<and> own_device (ent_owner e) = own_device ow \<and>
     own_parent (ent_owner e) = own_parent ow"

lemma registerValue_OK:
  assumes s: "sane r n"
    and eq: "registerValueLocked r n VORTEK_HANDLE_ROLE_VULKAN type h ow True = (VORTEK_HANDLE_OK, tok, r', n')"
  obtains t e where "tok = Some t" "reg_map r' t = Some e" "identity_matches type h ow e"
    "owners_alive r ow" "t < n \<longrightarrow> r' = r \<and> n' = n" "\<not> t < n \<longrightarrow> t = n \<and> n' = n + 1"
    "\<forall>u. u \<noteq> t \<longrightarrow> reg_map r' u = reg_map r u" "\<not> closed r"
proof -
  note wf = sane_wf [OF s]
  have ow: "owners_alive r ow" and op: "\<not> closed r"
    using eq unfolding registerValueLocked_eq [OF wf] by (auto simp: validateOwners_map split: if_splits)
  show ?thesis
  proof (cases "find_identity r VORTEK_HANDLE_ROLE_VULKAN type h ow")
    case (Some i)
    then have r: "tok = Some (ent_token (entries r ! i))" "r' = r" "n' = n"
      using eq unfolding registerValueLocked_eq [OF wf] by (auto split: if_splits)
    have i: "i < capacity r" "same_identity VORTEK_HANDLE_ROLE_VULKAN type h ow (entries r ! i)"
      using Some unfolding find_identity_def by (auto simp: find_Some_iff split: if_splits)
    then have live: "ent_live (entries r ! i)" by (simp add: same_identity_def)
    have "ent_token (entries r ! i) < n" using s i(1) live by (simp add: sane_def tokens_below_def)
    then show ?thesis
      using that [of "ent_token (entries r ! i)" "entries r ! i"] r i(2) ow op
        findLiveLocked_live [OF wf i(1) live]
      by (simp add: reg_map_def same_identity_def identity_matches_def entry_is_def)
  next
    case None
    with eq have room: "liveCount r < capacity r"
      and r: "tok = Some n" "r' = publish (new_entry r n VORTEK_HANDLE_ROLE_VULKAN type h ow) r" "n' = n + 1"
      unfolding registerValueLocked_eq [OF wf] by (auto split: if_splits)
    show ?thesis
      using that [of n "new_entry r n VORTEK_HANDLE_ROLE_VULKAN type h ow"] r ow op reg_map_new [OF s room]
      by (simp add: identity_matches_def entry_is_def)
  qed
qed

lemma register_batch_OK:
  "sane r n \<Longrightarrow> register_batch_loop r n type hs ow = (VORTEK_HANDLE_OK, toks, news, r', n') \<Longrightarrow>
     length toks = length hs \<and>
     (\<forall>k<length hs. \<exists>e. reg_map r' (toks ! k) = Some e \<and> identity_matches type (hs ! k) ow e) \<and>
     (\<forall>t e. reg_map r t = Some e \<longrightarrow> reg_map r' t = Some e)"
proof (induction hs arbitrary: r n toks news r' n')
  case Nil
  then show ?case by simp
next
  case (Cons h hs)
  obtain st1 out r1 n1 where
    1: "registerValueLocked r n VORTEK_HANDLE_ROLE_VULKAN type h ow True = (st1, out, r1, n1)"
    by (metis prod_cases4)
  have ok: "st1 = VORTEK_HANDLE_OK" using Cons.prems(2) 1 by (auto simp: Let_def split: if_splits)
  note s1 = sane_quiet [OF Cons.prems(1) quiet_registerValue [OF Cons.prems(1) 1]]
  obtain st2 toks2 news2 r2 n2 where
    2: "register_batch_loop r1 n1 type hs ow = (st2, toks2, news2, r2, n2)"
    by (metis prod_cases5)
  obtain t e where te: "out = Some t" "reg_map r1 t = Some e" "identity_matches type h ow e"
    "\<forall>u. u \<noteq> t \<longrightarrow> reg_map r1 u = reg_map r u" "t < n \<longrightarrow> r1 = r" "\<not> t < n \<longrightarrow> t = n"
    using registerValue_OK [OF Cons.prems(1) 1 [unfolded ok]] by metis
  have res: "toks = t # toks2" "st2 = VORTEK_HANDLE_OK" "r' = r2"
    using Cons.prems(2) 1 2 ok te(1) by (auto simp: Let_def)
  note IH = Cons.IH [OF s1 2 [unfolded res(2)]]
  have keep: "reg_map r u = Some x \<Longrightarrow> reg_map r1 u = Some x" for u x
    using te(4-6) tokens_below_fresh [of r n] Cons.prems(1) by (cases "u = t") (auto simp: sane_def)
  have "\<exists>e. reg_map r' ((t # toks2) ! k) = Some e \<and> identity_matches type ((h # hs) ! k) ow e"
    if "k < length (h # hs)" for k
    using that IH te(2,3) unfolding res(3) by (cases k) auto
  with IH keep show ?case unfolding res by auto
qed

lemma unregisterBatch_effect:
  assumes s: "sane r n"
    and eq: "VortekHandleRegistry_unregisterBatch ok (Some r) n toks count x = (st, Some r')"
  shows "(st \<noteq> VORTEK_HANDLE_OK \<and> r' = r) \<or> (st = VORTEK_HANDLE_OK \<and> count = 0 \<and> r' = r) \<or>
     (st = VORTEK_HANDLE_OK \<and> reg_map r' = (reg_map r) |` (- set (take count (the toks))) \<and>
      distinct (take count (the toks)) \<and>
      (\<forall>t\<in>set (take count (the toks)). t \<noteq> 0 \<and> calls r t = 0 \<and>
         (\<exists>e. reg_map r t = Some e \<and> \<not> pinned r e) \<and>
         fst (validateExpectationLockedEx r n t x False) = VORTEK_HANDLE_OK))"
proof -
  let ?u = "take count (the toks)"
  let ?s = "sort ?u"
  have "(st \<noteq> VORTEK_HANDLE_OK \<and> r' = r) \<or> (st = VORTEK_HANDLE_OK \<and> count = 0 \<and> r' = r) \<or>
      (st = VORTEK_HANDLE_OK \<and> \<not> null_or_duplicate ?s \<and> validate_all r n x False ?s = VORTEK_HANDLE_OK \<and>
       \<not> any_active_calls r ?s \<and> r' = fold retire_token ?s r)"
    using eq by (simp add: VortekHandleRegistry_unregisterBatch_def Let_def split: if_splits) blast
  then consider "st \<noteq> VORTEK_HANDLE_OK" "r' = r" | "st = VORTEK_HANDLE_OK" "count = 0" "r' = r"
    | (go) "st = VORTEK_HANDLE_OK" "\<not> null_or_duplicate ?s"
      "validate_all r n x False ?s = VORTEK_HANDLE_OK" "\<not> any_active_calls r ?s"
      "r' = fold retire_token ?s r" by blast
  then show ?thesis
  proof cases
    case go
    have nd: "0 \<notin> set ?u" "distinct ?u"
      using go(2) null_or_duplicate_sorted [of ?s] by simp_all
    have v: "\<forall>t\<in>set ?u. fst (validateExpectationLockedEx r n t x False) = VORTEK_HANDLE_OK"
      using go(3) unfolding validate_all_OK by simp
    have c: "\<forall>t\<in>set ?u. calls r t = 0" using no_active_calls [OF s go(4)] by simp
    have "\<exists>e. reg_map r t = Some e \<and> \<not> pinned r e" if m: "t \<in> set ?u" for t
    proof -
      have "t \<noteq> 0" using m nd by metis
      then obtain i where i: "validateExpectationLockedEx r n t x False = (VORTEK_HANDLE_OK, Some i)"
        using validateExpectation_OK_Some [of t] v m by metis
      note e = validated_entry [OF sane_wf [OF s] i]
      have "\<not> entryDeviceHasActiveCallsLocked r i"
        using go(4) m e(1) by (auto simp: any_active_calls_def list_ex_iff)
      with e(1) show ?thesis using active_calls_map [OF s] by (auto simp: reg_map_def)
    qed
    moreover have "reg_map r' = (reg_map r) |` (- set ?u)"
      using retire_all_map [OF sane_wf [OF s], of ?s] go(5) by simp
    ultimately show ?thesis using go(1) nd v c by auto
  qed simp_all
qed

end
