(* ===== verification/Registry_Properties.thy ===== *)
theory Registry_Properties
  imports Registry_View
begin

text \<open>
  What the handle registry promises its callers, stated over the states the machine of
  \<^verbatim>\<open>Registry_Machine\<close> reaches. Each property is followed by an instance on a small concrete
  system: a registry of capacity 4 holding an instance (token 1) and a device (token 2).
\<close>

section \<open>A small system\<close>

definition small_init :: sys where
  "small_init = the (sys_init 7 4 1)"

definition with_vulkan :: "VkObjectType \<Rightarrow> u64 \<Rightarrow> VortekHandleOwner \<Rightarrow> sys \<Rightarrow> sys" where
  "with_vulkan type h ow s =
     (case VortekHandleRegistry_registerVulkan (Some (sys_reg s)) (sys_next s) type h ow True of
        (_, _, Some r', n') \<Rightarrow> s\<lparr>sys_reg := r', sys_next := n'\<rparr> | _ \<Rightarrow> s)"

definition with_lease :: "VortekHandleToken \<Rightarrow> sys \<Rightarrow> sys" where
  "with_lease d s =
     (case VortekHandleRegistry_acquireDeviceLease 4096 (Some (sys_reg s)) (sys_next s) d 7 True of
        (st, _, Some r') \<Rightarrow> s\<lparr>sys_reg := r', sys_leases := (if st = VORTEK_HANDLE_OK
            then (sys_leases s)(d := sys_leases s d + 1) else sys_leases s)\<rparr>
      | _ \<Rightarrow> s)"

definition owner_of :: "VortekHandleToken \<Rightarrow> VortekHandleToken \<Rightarrow> VortekHandleToken \<Rightarrow> VortekHandleOwner" where
  "owner_of i d p = \<lparr>own_instance = i, own_device = d, own_parent = p\<rparr>"

definition expect :: "VkObjectType \<Rightarrow> VortekHandleExpectation" where
  "expect type = \<lparr>exp_contextGeneration = 7, exp_role = VORTEK_HANDLE_ROLE_VULKAN,
     exp_vulkanType = type, exp_owner = owner_of 0 0 0, exp_requireInstanceOwner = False,
     exp_requireDeviceOwner = False, exp_requireParentOwner = False, exp_allowNull = False\<rparr>"

definition vk_entry :: "VortekHandleToken \<Rightarrow> VkObjectType \<Rightarrow> u64 \<Rightarrow> VortekHandleOwner \<Rightarrow> VortekHandleEntry" where
  "vk_entry t type h ow = zero_entry\<lparr>ent_token := t, ent_contextGeneration := 7,
     ent_role := VORTEK_HANDLE_ROLE_VULKAN, ent_vulkanType := type, ent_owner := ow,
     ent_hostValue := h, ent_live := True\<rparr>"

definition small1 :: sys where
  "small1 = with_vulkan VK_OBJECT_TYPE_INSTANCE 16 (owner_of 0 0 0) small_init"

definition small :: sys where
  "small = with_vulkan VK_OBJECT_TYPE_DEVICE 32 (owner_of 1 0 0) small1"

lemma small_init_eq: "sys_init 7 4 1 = Some small_init"
  by (simp add: small_init_def sys_init_def VortekHandleRegistry_create_def
      VORTEK_HANDLE_REGISTRY_MAX_CAPACITY_def)

lemma small_init_reach: "sys_reach 4096 small_init"
  by (rule sys_reach.init [OF small_init_eq]) simp

lemma with_vulkan_reach: "sys_reach self s \<Longrightarrow> sys_reach self (with_vulkan type h ow s)"
  unfolding with_vulkan_def
  by (auto intro: sys_reach.step sys_step.registerVulkan split: prod.split option.split)

lemma with_lease_step: "sys_step 4096 s (with_lease d s)"
proof -
  obtain st l r' where eq: "VortekHandleRegistry_acquireDeviceLease 4096 (Some (sys_reg s))
      (sys_next s) d 7 True = (st, l, Some r')" using acquire_pair by blast
  show ?thesis using sys_step.acquire [OF eq] eq by (simp add: with_lease_def)
qed

lemma with_lease_reach: "sys_reach 4096 s \<Longrightarrow> sys_reach 4096 (with_lease d s)"
  using with_lease_step sys_reach.step by blast

lemma small_reach: "sys_reach 4096 small"
  by (simp add: small_def small1_def with_vulkan_reach small_init_reach)

lemma reach_sane: "sys_reach self s \<Longrightarrow> sane (sys_reg s) (sys_next s)"
  using sys_reach_ok by (auto simp: sys_ok_def)

lemma reach_wf: "sys_reach self s \<Longrightarrow> reg_wf (sys_reg s)"
  by (rule sane_wf [OF reach_sane])

lemma with_vulkan_new:
  assumes "sane (sys_reg s) (sys_next s)" "\<not> closed (sys_reg s)" "generation (sys_reg s) = 7"
    "type \<noteq> VK_OBJECT_TYPE_UNKNOWN" "h \<noteq> 0"
    "owners_alive (sys_reg s) ow" "\<not> reuseIdentity VORTEK_HANDLE_ROLE_VULKAN type ow"
    "liveCount (sys_reg s) < capacity (sys_reg s)" "sys_next s \<noteq> UINT64_MAX"
  defines "s' \<equiv> with_vulkan type h ow s"
  shows "\<not> closed (sys_reg s')" "generation (sys_reg s') = 7" "sys_next s' = sys_next s + 1"
    "liveCount (sys_reg s') = liveCount (sys_reg s) + 1" "capacity (sys_reg s') = capacity (sys_reg s)"
    "reg_map (sys_reg s') = (reg_map (sys_reg s))(sys_next s \<mapsto> vk_entry (sys_next s) type h ow)"
    "sys_leases s' = sys_leases s"
  using registerVulkan_new [OF assms(1,2,4,5,6,7,8,9)] assms(2,3) reg_map_new [OF assms(1,8)]
  by (simp_all add: s'_def with_vulkan_def vk_entry_def new_entry_def)

lemma small_init_facts:
  "\<not> closed (sys_reg small_init)" "generation (sys_reg small_init) = 7" "sys_next small_init = 1"
  "liveCount (sys_reg small_init) = 0" "capacity (sys_reg small_init) = 4"
  "reg_map (sys_reg small_init) = (\<lambda>_. None)" "sys_leases small_init = (\<lambda>_. 0)"
proof -
  obtain r where r: "VortekHandleRegistry_create True 7 4 = Some r"
    "small_init = \<lparr>sys_reg = r, sys_next = 1, sys_leases = (\<lambda>_. 0)\<rparr>"
    using small_init_eq by (auto simp: sys_init_def)
  have "liveCount r = 0" "capacity r = 4"
    using r(1) by (auto simp: VortekHandleRegistry_create_def VORTEK_HANDLE_REGISTRY_MAX_CAPACITY_def)
  then show "\<not> closed (sys_reg small_init)" "generation (sys_reg small_init) = 7"
    "sys_next small_init = 1" "liveCount (sys_reg small_init) = 0" "capacity (sys_reg small_init) = 4"
    "reg_map (sys_reg small_init) = (\<lambda>_. None)" "sys_leases small_init = (\<lambda>_. 0)"
    unfolding r(2) using create_empty [OF r(1)] by simp_all
qed

lemmas small1_facts = with_vulkan_new [of small_init VK_OBJECT_TYPE_INSTANCE 16 "owner_of 0 0 0",
  folded small1_def, OF reach_sane [OF small_init_reach],
  simplified small_init_facts owner_of_def owners_alive_def reuseIdentity_def UINT64_MAX_def, simplified]

lemma small1_reach: "sys_reach 4096 small1"
  by (simp add: small1_def with_vulkan_reach small_init_reach)

lemma small1_owner: "owners_alive (sys_reg small1) (owner_of 1 0 0)"
  by (simp add: owners_alive_def owner_of_def live_as_def small1_facts vk_entry_def entry_is_def)

lemmas small_facts = with_vulkan_new [of small1 VK_OBJECT_TYPE_DEVICE 32 "owner_of 1 0 0",
  folded small_def, OF reach_sane [OF small1_reach] _ _ _ _ small1_owner,
  simplified small1_facts owner_of_def reuseIdentity_def UINT64_MAX_def, simplified]

lemma small_validate: "fst (validateExpectationLockedEx (sys_reg small) (sys_next small) 2
    (Some (expect VK_OBJECT_TYPE_DEVICE)) False) = VORTEK_HANDLE_OK"
proof -
  have "validateExpectationLockedEx (sys_reg small) (sys_next small) 2
      (Some (expect VK_OBJECT_TYPE_DEVICE)) False = (VORTEK_HANDLE_OK, Some i)"
    if "findLiveLocked (sys_reg small) 2 = Some i" for i
  proof -
    have "entries (sys_reg small) ! i = vk_entry 2 VK_OBJECT_TYPE_DEVICE 32 (owner_of 1 0 0)"
      using that small_facts(6) by (auto simp: reg_map_def fun_eq_iff owner_of_def dest!: spec [of _ 2])
    then show ?thesis
      unfolding validateExpectation_map [OF reach_wf [OF small_reach], of 2, simplified]
      using that by (simp add: small_facts expect_def entry_satisfies_def owners_alive_def live_as_def
          vk_entry_def owner_of_def entry_is_def)
  qed
  moreover obtain i where "findLiveLocked (sys_reg small) 2 = Some i"
    using small_facts(6) find_live_None_map [of "sys_reg small" 2] by fastforce
  ultimately show ?thesis by simp
qed

lemma small_leasable: "leasable (sys_reg small) 2"
  by (simp add: leasable_def small_facts vk_entry_def zero_entry_def entry_is_def UINT32_MAX_def)

lemma with_lease_leases:
  assumes "d \<noteq> 0" "generation (sys_reg s) = 7" "leasable (sys_reg s) d"
  shows "sys_leases (with_lease d s) = (sys_leases s)(d := sys_leases s d + 1)"
proof -
  obtain st l r' where eq: "VortekHandleRegistry_acquireDeviceLease 4096 (Some (sys_reg s))
      (sys_next s) d 7 True = (st, l, Some r')" using acquire_pair by blast
  then have "st = VORTEK_HANDLE_OK" using acquire_OK_iff [of d 7 4096 "sys_reg s" "sys_next s"] assms by simp
  with eq show ?thesis by (simp add: with_lease_def)
qed

definition busy :: sys where
  "busy = with_lease 2 small"

lemma busy_reach: "sys_reach 4096 busy"
  by (simp add: busy_def with_lease_reach small_reach)

lemma busy_steps: "(sys_step 4096)\<^sup>*\<^sup>* small busy"
  unfolding busy_def using with_lease_step by blast

lemma busy_leases: "sys_leases busy 2 = 1"
  unfolding busy_def by (subst with_lease_leases) (simp_all add: small_leasable small_facts)

section \<open>The invariant\<close>

text \<open>C1: In every state reached by any interleaving of registry calls (and of token allocations
  of other contexts), the entry table, the hash index and the free list are consistent, every live
  token was issued by the process counter, the counter has not wrapped, and the number of active
  calls stored in each device entry is exactly the number of outstanding leases on it.\<close>

theorem registry_invariant:
  assumes "sys_reach self s"
  shows "reg_wf (sys_reg s) \<and> tokens_below (sys_reg s) (sys_next s) \<and> sys_next s \<noteq> 0 \<and>
     (\<forall>t. unat (calls (sys_reg s) t) = sys_leases s t)"
  using sys_reach_ok [OF assms] by (auto simp: sys_ok_def sane_def)

theorem registry_invariant_witness:
  "unat (calls (sys_reg busy) 2) = 1"
  using registry_invariant [OF busy_reach] busy_leases by simp

section \<open>Tokens are never reused\<close>

text \<open>C8: A token names the same object for ever: if it is live now and live in any later state, its
  entry has the same role, Vulkan type, owner and host handle. A slot of the entry table may be
  recycled in between; the token is not.\<close>

theorem token_names_one_object:
  assumes "sys_reach self s" and "reg_map (sys_reg s) t = Some e"
    and "(sys_step self)\<^sup>*\<^sup>* s s'" and "reg_map (sys_reg s') t = Some e'"
  shows "identity_of e' = identity_of e"
proof -
  have ok: "sys_ok s" using sys_reach_ok [OF assms(1)] .
  then have "t < sys_next s"
    using assms(2) tokens_below_map [of "sys_reg s"] by (auto simp: sys_ok_def sane_def)
  then show ?thesis
    using sys_steps_ok [OF assms(3) ok] assms(2,4) unfolding evolves_def by fastforce
qed

theorem token_names_one_object_witness:
  "\<exists>e'. reg_map (sys_reg busy) 2 = Some e' \<and>
     identity_of e' = identity_of (vk_entry 2 VK_OBJECT_TYPE_DEVICE 32 (owner_of 1 0 0))"
proof -
  have "calls (sys_reg busy) 2 \<noteq> 0"
    using sys_reach_ok [OF busy_reach] busy_leases unfolding sys_ok_def by (metis unat_0 zero_neq_one)
  then obtain e' where e': "reg_map (sys_reg busy) 2 = Some e'" by (auto simp: calls_def split: option.splits)
  from token_names_one_object [OF small_reach _ busy_steps e'] e' show ?thesis
    by (simp add: small_facts owner_of_def)
qed

text \<open>C9: A token that was issued and is not live never comes back: in every later state a lookup
  of it fails, with \<open>STALE\<close> unless the registry is closed or the expectation is of another
  generation.\<close>

theorem retired_token_stays_stale:
  assumes "sys_reach self s" and "t < sys_next s" and "t \<noteq> 0" and "reg_map (sys_reg s) t = None"
    and "(sys_step self)\<^sup>*\<^sup>* s s'"
  shows "VortekHandleRegistry_lookup (Some (sys_reg s')) (sys_next s') t (Some x) True =
     (if closed (sys_reg s') then VORTEK_HANDLE_CLOSED
      else if exp_contextGeneration x \<noteq> generation (sys_reg s') then VORTEK_HANDLE_WRONG_GENERATION
      else VORTEK_HANDLE_STALE, None)"
proof -
  have ev: "sys_evolves s s'" using sys_steps_ok [OF assms(5) sys_reach_ok [OF assms(1)]] by simp
  then have "reg_map (sys_reg s') t = None"
    using assms(2,4) unfolding evolves_def by (cases "reg_map (sys_reg s') t") fastforce+
  moreover have "t < sys_next s'" using ev assms(2) unfolding evolves_def by (meson order_less_le_trans)
  ultimately show ?thesis
    using assms(3) find_live_None_map [of "sys_reg s'" t]
    by (simp add: VortekHandleRegistry_lookup_def validateExpectationLocked_def
        validateExpectationLockedEx_def missingStatusLocked_def)
qed

definition unregistered :: "VortekHandleToken \<Rightarrow> VkObjectType \<Rightarrow> sys \<Rightarrow> sys" where
  "unregistered t type s =
     (case VortekHandleRegistry_unregister (Some (sys_reg s)) (sys_next s) t (Some (expect type)) True of
        (_, _, Some r') \<Rightarrow> s\<lparr>sys_reg := r'\<rparr> | _ \<Rightarrow> s)"

lemma unregistered_reach: "sys_reach self s \<Longrightarrow> sys_reach self (unregistered t type s)"
  unfolding unregistered_def
  by (auto intro: sys_reach.step sys_step.unregister split: prod.split option.split)

theorem retired_token_stays_stale_witness:
  "\<exists>s x. sys_reach 4096 s \<and> sys_next s = 3 \<and>
     fst (VortekHandleRegistry_lookup (Some (sys_reg s)) (sys_next s) 2 (Some x) True) = VORTEK_HANDLE_STALE"
proof -
  let ?s = "unregistered 2 VK_OBJECT_TYPE_DEVICE small"
  note ok = small_validate
  obtain st v r' where eq: "VortekHandleRegistry_unregister (Some (sys_reg small)) (sys_next small) 2
      (Some (expect VK_OBJECT_TYPE_DEVICE)) True = (st, v, Some r')"
    using unregister_pair by blast
  have "\<not> pinned (sys_reg small) e \<and> \<not> has_dependents (sys_reg small) e"
    if "reg_map (sys_reg small) 2 = Some e" for e
    using that by (auto simp: small_facts pinned_def has_dependents_def depends_on_def vk_entry_def
        device_of_def calls_def zero_entry_def entry_is_def ran_def split: if_splits)
  then have r': "reg_map r' = (reg_map (sys_reg small))(2 := None)"
    using unregister_effect [OF reach_sane [OF small_reach] _ eq] ok by auto
  have s: "?s = small\<lparr>sys_reg := r'\<rparr>" using eq by (simp add: unregistered_def)
  have n3: "sys_next ?s = 3" using s small_facts by simp
  have lt: "2 < sys_next ?s" and none: "reg_map (sys_reg ?s) 2 = None"
    using n3 r' by (simp_all add: s)
  have gen: "closed (sys_reg ?s) = False" "generation (sys_reg ?s) = 7"
    using eq small_facts by (auto simp: s VortekHandleRegistry_unregister_def unregisterEntryLocked_def
        Let_def split: prod.splits VortekHandleStatus.splits option.splits if_splits)
  have "fst (VortekHandleRegistry_lookup (Some (sys_reg ?s)) (sys_next ?s) 2
      (Some (expect VK_OBJECT_TYPE_DEVICE)) True) = VORTEK_HANDLE_STALE"
    using retired_token_stays_stale [OF unregistered_reach [OF small_reach] lt _ none rtranclp.rtrancl_refl]
      gen by (simp add: expect_def)
  then show ?thesis using unregistered_reach [OF small_reach] n3 by blast
qed

section \<open>Lookup and registration\<close>

text \<open>C10: A lookup of a non-null token succeeds exactly when the registry is open, the expectation is
  of its generation, the token is live, its entry has the expected role, type and owners, and its
  owners are themselves live and consistent; it then returns that entry's value. In every other case
  no value is produced.\<close>

theorem lookup_sound_complete:
  assumes "sys_reach self s" and "t \<noteq> 0"
  shows "(VortekHandleRegistry_lookup (Some (sys_reg s)) (sys_next s) t (Some x) True
       = (VORTEK_HANDLE_OK, Some v) \<longleftrightarrow>
     \<not> closed (sys_reg s) \<and> exp_contextGeneration x = generation (sys_reg s) \<and>
     (\<exists>e. reg_map (sys_reg s) t = Some e \<and> entry_satisfies e x \<and>
        owners_alive (sys_reg s) (ent_owner e) \<and> v = value_of_entry (generation (sys_reg s)) e)) \<and>
     (fst (VortekHandleRegistry_lookup (Some (sys_reg s)) (sys_next s) t (Some x) True) \<noteq> VORTEK_HANDLE_OK
        \<longrightarrow> snd (VortekHandleRegistry_lookup (Some (sys_reg s)) (sys_next s) t (Some x) True) = None)"
proof -
  let ?r = "sys_reg s" and ?n = "sys_next s"
  let ?v = "validateExpectationLockedEx ?r ?n t (Some x) False"
  note wf = reach_wf [OF assms(1)]
  show ?thesis
  proof (cases "fst ?v = VORTEK_HANDLE_OK")
    case True
    then obtain i where i: "?v = (VORTEK_HANDLE_OK, Some i)"
      using validateExpectation_OK_Some [OF assms(2)] by metis
    note v = i [unfolded validateExpectation_map [OF wf assms(2)]]
    have "reg_map ?r t = Some (entries ?r ! i)" using v by (simp add: reg_map_def)
    then show ?thesis using v i assms(2)
      by (auto simp: VortekHandleRegistry_lookup_def validated_Locked)
  next
    case False
    have "\<not> (\<not> closed ?r \<and> exp_contextGeneration x = generation ?r \<and>
        (\<exists>e. reg_map ?r t = Some e \<and> entry_satisfies e x \<and> owners_alive ?r (ent_owner e)))"
    proof
      assume a: "\<not> closed ?r \<and> exp_contextGeneration x = generation ?r \<and>
        (\<exists>e. reg_map ?r t = Some e \<and> entry_satisfies e x \<and> owners_alive ?r (ent_owner e))"
      then obtain i where "findLiveLocked ?r t = Some i" "entry_satisfies (entries ?r ! i) x"
        "owners_alive ?r (ent_owner (entries ?r ! i))" by (auto simp: reg_map_def)
      then have "?v = (VORTEK_HANDLE_OK, Some i)"
        unfolding validateExpectation_map [OF wf assms(2)] using a by simp
      with False show False by simp
    qed
    with False show ?thesis
      by (auto simp: VortekHandleRegistry_lookup_def validated_Locked split: prod.splits)
  qed
qed

theorem lookup_sound_complete_witness:
  "VortekHandleRegistry_lookup (Some (sys_reg small)) 3 2 (Some (expect VK_OBJECT_TYPE_DEVICE)) True =
     (VORTEK_HANDLE_OK, Some (value_of_entry 7 (vk_entry 2 VK_OBJECT_TYPE_DEVICE 32 (owner_of 1 0 0))))"
proof -
  have "owners_alive (sys_reg small) (owner_of 1 0 0)"
    by (simp add: owners_alive_def live_as_def small_facts vk_entry_def owner_of_def entry_is_def)
  then show ?thesis
    using lookup_sound_complete [OF small_reach, of 2 "expect VK_OBJECT_TYPE_DEVICE"]
    by (simp add: small_facts expect_def entry_satisfies_def vk_entry_def owner_of_def)
qed

text \<open>What was registered can be looked up: after a successful registration the returned token,
  looked up with the registered type and owners, gives the registered host handle; every other live
  token keeps its entry.\<close>

theorem register_then_lookup:
  assumes "sys_reach self s"
    and "VortekHandleRegistry_registerVulkan (Some (sys_reg s)) (sys_next s) type h ow True =
      (VORTEK_HANDLE_OK, Some t, Some r', n')"
  shows "(\<exists>v. VortekHandleRegistry_lookup (Some r') n' t (Some \<lparr>exp_contextGeneration = generation r',
        exp_role = VORTEK_HANDLE_ROLE_VULKAN, exp_vulkanType = type, exp_owner = ow,
        exp_requireInstanceOwner = True, exp_requireDeviceOwner = True, exp_requireParentOwner = True,
        exp_allowNull = False\<rparr>) True = (VORTEK_HANDLE_OK, Some v) \<and>
      val_hostValue v = h \<and> val_token v = t) \<and>
    (\<forall>u. u \<noteq> t \<longrightarrow> reg_map r' u = reg_map (sys_reg s) u)"
proof -
  let ?r = "sys_reg s"
  note s = reach_sane [OF assms(1)]
  have reg: "registerValueLocked ?r (sys_next s) VORTEK_HANDLE_ROLE_VULKAN type h ow True =
      (VORTEK_HANDLE_OK, Some t, r', n')"
    using assms(2) by (auto simp: VortekHandleRegistry_registerVulkan_def split: if_splits prod.splits)
  obtain e where e: "reg_map r' t = Some e" "identity_matches type h ow e" "owners_alive ?r ow"
    "\<forall>u. u \<noteq> t \<longrightarrow> reg_map r' u = reg_map ?r u" "t < sys_next s \<longrightarrow> r' = ?r"
    "\<not> t < sys_next s \<longrightarrow> t = sys_next s" "\<not> closed ?r"
    using registerValue_OK [OF s reg] by (metis option.inject)
  note reach' = sys_reach.step [OF assms(1) sys_step.registerVulkan [OF assms(2)]]
  have wf': "reg_wf r'" using reach_wf [OF reach'] by simp
  have t0: "t \<noteq> 0" using e(1) reg_map_zero [OF wf'] by auto
  have ow: "ent_owner e = ow" using e(2) by (simp add: identity_matches_def)
  have keep: "u \<noteq> t" if "r' \<noteq> ?r" "reg_map ?r u \<noteq> None" for u
    using that e(5,6) tokens_below_fresh [OF sane_wf [OF s], of "sys_next s"] s
    by (auto simp: sane_def)
  have alive: "owners_alive r' ow"
  proof (cases "r' = ?r")
    case False
    have same: "reg_map ?r u = Some x \<Longrightarrow> reg_map r' u = Some x" for u x
      using keep [OF False, of u] e(4) by simp
    have la: "live_as ?r u ty \<Longrightarrow> live_as r' u ty \<and> reg_map r' u = reg_map ?r u" for u ty
      using same by (auto simp: live_as_def split: option.splits)
    show ?thesis using e(3) la same unfolding owners_alive_def by (auto split: option.splits)
  qed (use e in simp)
  have open': "\<not> closed r'"
    using e(7) reg unfolding registerValueLocked_eq [OF sane_wf [OF s]]
    by (auto split: if_splits option.splits)
  show ?thesis
    using lookup_sound_complete [OF reach' t0] e(1,2,4) ow alive open' reg_map_Some [OF wf', of t e]
    by (auto simp: entry_satisfies_def identity_matches_def entry_is_def value_of_entry_def)
qed

theorem register_then_lookup_witness:
  "\<exists>r'. VortekHandleRegistry_registerVulkan (Some (sys_reg small)) 3 VK_OBJECT_TYPE_BUFFER 48
      (owner_of 1 2 0) True = (VORTEK_HANDLE_OK, Some 3, Some r', 4) \<and>
    reg_map r' 2 = reg_map (sys_reg small) 2"
proof -
  have ow: "owners_alive (sys_reg small) (owner_of 1 2 0)"
    by (simp add: owners_alive_def live_as_def small_facts vk_entry_def owner_of_def entry_is_def)
  obtain r' where r: "VortekHandleRegistry_registerVulkan (Some (sys_reg small)) (sys_next small)
      VK_OBJECT_TYPE_BUFFER 48 (owner_of 1 2 0) True = (VORTEK_HANDLE_OK, Some (sys_next small), Some r', sys_next small + 1)"
    using registerVulkan_new [OF reach_sane [OF small_reach] _ _ _ ow, of VK_OBJECT_TYPE_BUFFER 48]
    by (simp add: small_facts reuseIdentity_def UINT64_MAX_def)
  from register_then_lookup [OF small_reach r] r show ?thesis by (simp add: small_facts)
qed

text \<open>C11: A registration of a known Vulkan type succeeds exactly when the registry is open, the handle
  is not null, the owners are alive and either the identity is a reusable one that is already
  registered or there is room and a token left. The hash index never refuses an entry the free list
  has room for. A refused registration changes neither the registry nor the token counter.\<close>

theorem registration_outcome:
  assumes "sys_reach self s" and "type \<noteq> VK_OBJECT_TYPE_UNKNOWN"
  shows "case VortekHandleRegistry_registerVulkan (Some (sys_reg s)) (sys_next s) type h ow True of
     (st, tok, reg', n') \<Rightarrow>
       (st = VORTEK_HANDLE_OK \<longleftrightarrow> \<not> closed (sys_reg s) \<and> h \<noteq> 0 \<and> owners_alive (sys_reg s) ow \<and>
          ((reuseIdentity VORTEK_HANDLE_ROLE_VULKAN type ow \<and>
              (\<exists>e\<in>ran (reg_map (sys_reg s)). identity_matches type h ow e)) \<or>
           (liveCount (sys_reg s) < capacity (sys_reg s) \<and> sys_next s \<noteq> UINT64_MAX))) \<and>
       (st \<noteq> VORTEK_HANDLE_OK \<longrightarrow> reg' = Some (sys_reg s) \<and> n' = sys_next s)"
proof -
  let ?r = "sys_reg s"
  note wf = reach_wf [OF assms(1)]
  have n0: "sys_next s \<noteq> 0" using reach_sane [OF assms(1)] by (simp add: sane_def)
  have find: "(\<exists>i. find_identity ?r VORTEK_HANDLE_ROLE_VULKAN type h ow = Some i) \<longleftrightarrow>
      reuseIdentity VORTEK_HANDLE_ROLE_VULKAN type ow \<and> (\<exists>e\<in>ran (reg_map ?r). identity_matches type h ow e)"
  proof -
    have "(\<exists>e\<in>ran (reg_map ?r). identity_matches type h ow e) \<longleftrightarrow>
        (\<exists>i<capacity ?r. same_identity VORTEK_HANDLE_ROLE_VULKAN type h ow (entries ?r ! i))"
      unfolding ran_def mem_Collect_eq bex_simps(6) reg_map_Some [OF wf] identity_matches_def
        same_identity_def entry_is_def by auto
    also have "\<dots> \<longleftrightarrow> find (\<lambda>i. same_identity VORTEK_HANDLE_ROLE_VULKAN type h ow (entries ?r ! i))
        [0..<capacity ?r] \<noteq> None"
      by (simp add: find_None_iff)
    finally show ?thesis unfolding find_identity_def by auto
  qed
  show ?thesis
    using assms(2) n0 find validateOwners_map [of ?r ow]
    by (auto simp: VortekHandleRegistry_registerVulkan_def registerValueLocked_eq [OF wf]
        split: option.splits)
qed

theorem registration_outcome_witness:
  "fst (VortekHandleRegistry_registerVulkan (Some (sys_reg small)) 3 VK_OBJECT_TYPE_BUFFER 48
      (owner_of 1 2 9) True) \<noteq> VORTEK_HANDLE_OK"
proof -
  have "\<not> owners_alive (sys_reg small) (owner_of 1 2 9)"
    by (simp add: owners_alive_def small_facts owner_of_def)
  then show ?thesis
    using registration_outcome [OF small_reach, of VK_OBJECT_TYPE_BUFFER 48 "owner_of 1 2 9"]
    by (auto simp: small_facts split: prod.splits)
qed

text \<open>C12: Batch registration is atomic: it either returns one token per handle, each naming a live
  entry with its handle, type and owners, or it leaves the map of live tokens exactly as it was and
  reports only null tokens. No call that is running on a device is affected.\<close>

theorem batch_registration_atomic:
  assumes "sys_reach self s" and "count \<le> length hs"
    and "VortekHandleRegistry_registerVulkanBatch ok (Some (sys_reg s)) (sys_next s) type (Some hs)
      count ow True = (st, toks, Some r', n')"
  shows "(st = VORTEK_HANDLE_OK \<longrightarrow> length toks = count \<and>
      (\<forall>k<count. \<exists>e. reg_map r' (toks ! k) = Some e \<and> identity_matches type (hs ! k) ow e) \<and>
      (\<forall>t e. reg_map (sys_reg s) t = Some e \<longrightarrow> reg_map r' t = Some e)) \<and>
    (st \<noteq> VORTEK_HANDLE_OK \<longrightarrow> reg_map r' = reg_map (sys_reg s) \<and> set toks \<subseteq> {0}) \<and>
    calls r' = calls (sys_reg s)"
proof -
  let ?r = "sys_reg s"
  note s = reach_sane [OF assms(1)]
  have calls: "calls r' = calls ?r"
    using quiet_registerVulkanBatch [OF s assms(3)] by (simp add: quiet_def)
  show ?thesis
  proof (cases "type = VK_OBJECT_TYPE_UNKNOWN \<or> SIZE_MAX div 8 < count \<or> count = 0 \<or> \<not> ok")
    case True
    then show ?thesis
      using assms(3) calls by (auto simp: VortekHandleRegistry_registerVulkanBatch_def split: if_splits)
  next
    case False
    obtain st1 toks1 news r1 n1 where
      loop: "register_batch_loop ?r (sys_next s) type (take count hs) ow = (st1, toks1, news, r1, n1)"
      by (metis prod_cases5)
    have res: "st = st1" "st1 = VORTEK_HANDLE_OK \<longrightarrow> toks = toks1 \<and> r' = r1"
      "st1 \<noteq> VORTEK_HANDLE_OK \<longrightarrow> toks = replicate count 0 \<and>
         r' = fold retire_token (filter (\<lambda>t. t \<noteq> 0) news) r1"
      using assms(3) False loop
      by (auto simp: VortekHandleRegistry_registerVulkanBatch_def split: if_splits)
    show ?thesis
    proof (cases "st1 = VORTEK_HANDLE_OK")
      case True
      have "length (take count hs) = count" "\<And>k. k < count \<Longrightarrow> take count hs ! k = hs ! k"
        using assms(2) by simp_all
      then show ?thesis
        using register_batch_OK [OF s loop [unfolded True]] res True calls by simp
    next
      case f: False
      then show ?thesis using rollback_batch_restores(1) [OF s loop] res calls by auto
    qed
  qed
qed

theorem batch_registration_atomic_witness:
  "\<exists>st toks r' n'. VortekHandleRegistry_registerVulkanBatch True (Some (sys_reg small)) (sys_next small)
     VK_OBJECT_TYPE_BUFFER (Some [48, 0]) 2 (owner_of 1 2 0) True = (st, toks, Some r', n') \<and>
     st = VORTEK_HANDLE_INVALID_ARGUMENT \<and> reg_map r' = reg_map (sys_reg small)"
proof -
  note s = reach_sane [OF small_reach]
  have ow: "owners_alive (sys_reg small) (owner_of 1 2 0)"
    by (simp add: owners_alive_def live_as_def small_facts vk_entry_def owner_of_def entry_is_def)
  let ?r1 = "publish (new_entry (sys_reg small) 3 VORTEK_HANDLE_ROLE_VULKAN VK_OBJECT_TYPE_BUFFER 48
      (owner_of 1 2 0)) (sys_reg small)"
  have 1: "registerValueLocked (sys_reg small) (sys_next small) VORTEK_HANDLE_ROLE_VULKAN
      VK_OBJECT_TYPE_BUFFER 48 (owner_of 1 2 0) True = (VORTEK_HANDLE_OK, Some 3, ?r1, 4)"
    using ow validateOwners_map [of "sys_reg small" "owner_of 1 2 0"]
    by (simp add: registerValueLocked_eq [OF sane_wf [OF s]] small_facts find_identity_def
        reuseIdentity_def UINT64_MAX_def)
  have 2: "registerValueLocked ?r1 4 VORTEK_HANDLE_ROLE_VULKAN VK_OBJECT_TYPE_BUFFER 0 (owner_of 1 2 0) True
      = (VORTEK_HANDLE_INVALID_ARGUMENT, None, ?r1, 4)"
    by (simp add: registerValueLocked_def small_facts)
  have n3: "sys_next small = 3" by (simp add: small_facts)
  have loop: "\<exists>toks news. register_batch_loop (sys_reg small) (sys_next small) VK_OBJECT_TYPE_BUFFER
      [48, 0] (owner_of 1 2 0) = (VORTEK_HANDLE_INVALID_ARGUMENT, toks, news, ?r1, 4)"
    using 1 2 by (simp add: n3)
  then obtain r' where eq: "VortekHandleRegistry_registerVulkanBatch True (Some (sys_reg small))
     (sys_next small) VK_OBJECT_TYPE_BUFFER (Some [48, 0]) 2 (owner_of 1 2 0) True =
       (VORTEK_HANDLE_INVALID_ARGUMENT, [0, 0], Some r', 4)"
    by (auto simp: VortekHandleRegistry_registerVulkanBatch_def SIZE_MAX_def numeral_2_eq_2)
  then show ?thesis using batch_registration_atomic [OF small_reach _ eq] by simp
qed

end
