(* ===== verification/Authority_Reclaim.thy ===== *)
theory Authority_Reclaim
  imports Registry_Properties
begin

text \<open>
  Reclaiming what a context registered: the loop \<open>VkContext_reclaimAuthority\<close> of
  \<^verbatim>\<open>vortekrenderer/src/vk_context.c\<close> over \<open>VortekHandleRegistry_drainNext\<close>. The Vulkan and helper
  calls made for each drained value are the model's output, a list of \<open>host_action\<close>s.
\<close>

section \<open>The reclaim loop\<close>

datatype host_action =
    DeviceWaitIdle u64
  | ResourceMemoryFree u64 u64
  | DestroyVkObject VkObjectType u64 u64
  | XWindowSwapchainDestroy u64 u64
  | RemoveBoundBuffer u64
  | TextureDestroyImage u64 u64

text \<open>
  What the context has: the loaded \<^verbatim>\<open>vkDeviceWaitIdle\<close>, the texture decoder (\<^const>\<open>None\<close>: NULL),
  given by the images it contains.
\<close>

record VkContext_env =
  has_vkDeviceWaitIdle :: bool
  textureDecoder_images :: "(u64 \<Rightarrow> bool) option"

definition drained_wait :: "VkContext_env \<Rightarrow> VortekHandleDrainValue \<Rightarrow> host_action list" where
  "drained_wait ctx drained =
     (if drain_waitDevice drained \<and> drain_hostDeviceValue drained \<noteq> 0 \<and> has_vkDeviceWaitIdle ctx
      then [DeviceWaitIdle (drain_hostDeviceValue drained)] else [])"

definition drained_vulkan :: "VkContext_env \<Rightarrow> u64 \<Rightarrow> VortekHandleValue \<Rightarrow> host_action list" where
  "drained_vulkan ctx device value =
     (if val_vulkanType value = VK_OBJECT_TYPE_COMMAND_BUFFER \<or>
         val_vulkanType value = VK_OBJECT_TYPE_DESCRIPTOR_SET \<or>
         (val_vulkanType value = VK_OBJECT_TYPE_IMAGE \<and> own_parent (val_owner value) \<noteq> 0) \<or>
         val_vulkanType value = VK_OBJECT_TYPE_QUEUE \<or>
         val_vulkanType value = VK_OBJECT_TYPE_PHYSICAL_DEVICE then []
      else (if val_vulkanType value = VK_OBJECT_TYPE_BUFFER \<and> textureDecoder_images ctx \<noteq> None
            then [RemoveBoundBuffer (val_hostValue value)] else []) @
           (if val_vulkanType value = VK_OBJECT_TYPE_IMAGE \<and> textureDecoder_images ctx \<noteq> None \<and>
               the (textureDecoder_images ctx) (val_hostValue value)
            then [TextureDestroyImage device (val_hostValue value)]
            else [DestroyVkObject (val_vulkanType value) device (val_hostValue value)]))"

definition reclaimDrainedAuthorityValue ::
  "VkContext_env \<Rightarrow> VortekHandleDrainValue \<Rightarrow> host_action list" where
  "reclaimDrainedAuthorityValue ctx drained =
     (let value = drain_value drained; device = drain_hostDeviceValue drained
      in if val_token value = 0 then []
         else drained_wait ctx drained @
           (case val_role value of
              VORTEK_HANDLE_ROLE_RESOURCE_MEMORY \<Rightarrow> [ResourceMemoryFree device (val_hostValue value)]
            | VORTEK_HANDLE_ROLE_SHADER_MODULE \<Rightarrow>
                [DestroyVkObject VK_OBJECT_TYPE_SHADER_MODULE device (val_hostValue value)]
            | VORTEK_HANDLE_ROLE_XWINDOW_SWAPCHAIN \<Rightarrow> [XWindowSwapchainDestroy device (val_hostValue value)]
            | VORTEK_HANDLE_ROLE_WINDOW_ID \<Rightarrow> []
            | _ \<Rightarrow> drained_vulkan ctx device value))"

text \<open>The \<^verbatim>\<open>for (;;)\<close> loop: result, host actions, registry; no value if it does not end.\<close>

partial_function (option) reclaim_loop ::
  "VkContext_env \<Rightarrow> VortekHandleDrainScope \<Rightarrow> VortekHandleToken \<Rightarrow> VortekHandleRegistry
     \<Rightarrow> (bool \<times> host_action list \<times> VortekHandleRegistry) option" where
  "reclaim_loop ctx scope scopeToken r =
     (case VortekHandleRegistry_drainNext (Some r) scope scopeToken True of
        (VORTEK_HANDLE_OK, Some drained, Some r') \<Rightarrow>
          if val_token (drain_value drained) = 0 then Some (True, [], r')
          else Option.bind (reclaim_loop ctx scope scopeToken r')
                 (\<lambda>(result, log, r''). Some (result, reclaimDrainedAuthorityValue ctx drained @ log, r''))
      | _ \<Rightarrow> Some (False, [], r))"

declare reclaim_loop.simps [code]

definition VkContext_reclaimAuthority ::
  "VkContext_env ptr \<Rightarrow> VortekHandleRegistry ptr \<Rightarrow> VortekHandleDrainScope \<Rightarrow> VortekHandleToken
     \<Rightarrow> (bool \<times> host_action list \<times> VortekHandleRegistry ptr) option" where
  "VkContext_reclaimAuthority context authority scope scopeToken =
     (case (context, authority) of
        (Some ctx, Some r) \<Rightarrow>
          if scope \<noteq> VORTEK_HANDLE_DRAIN_ALL \<and> scopeToken = 0 then Some (False, [], authority)
          else map_option (\<lambda>(result, log, r'). (result, log, Some r'))
                 (reclaim_loop ctx scope scopeToken r)
      | _ \<Rightarrow> Some (False, [], authority))"

section \<open>One drain step over the abstract map\<close>

lemma drain_claim_dom:
  assumes s: "sane r n"
  shows "dom (reg_map (drain_claim r k)) = dom (reg_map r)"
proof -
  have "same_shape r (drain_claim r k)"
    unfolding drain_claim_def by (auto intro!: same_shape_update_entry same_shape_refl split: option.split)
  from same_shape_find [OF sane_wf [OF s] this] show ?thesis by (auto simp: reg_map_def dom_def)
qed

lemma drain_take_facts:
  assumes s: "sane r n" and k: "k < capacity r" "ent_live (entries r ! k)" "ent_activeCalls (entries r ! k) = 0"
  shows "dom (reg_map (drain_take r k)) = dom (reg_map r) - {ent_token (entries r ! k)}"
    and "liveCount (drain_take r k) + 1 = liveCount r"
proof -
  let ?t = "if entry_is (entries r ! k) VK_OBJECT_TYPE_INSTANCE then ent_token (entries r ! k) else 0"
  let ?q = "purgeWindowBindingsLocked (drain_claim r k) ?t"
  have eq: "drain_take r k = unregisterEntryLocked ?q k" by (simp add: drain_take_def Let_def)
  note c = quiet_drain_claim [OF s, of k]
  note sc = sane_quiet [OF s c]
  have q: "sane ?q n" using sane_quiet [OF sc quiet_purge [OF sc]] .
  have rm: "reg_map ?q = reg_map (drain_claim r k)"
  proof -
    have "findLiveLocked ?q t = findLiveLocked (drain_claim r k) t" for t
      by (rule same_shape_find [OF sane_wf [OF sc]])
        (simp add: same_shape_def purgeWindowBindingsLocked_def split: prod.split)
    then show ?thesis by (simp add: reg_map_def fun_eq_iff)
  qed
  have k': "k < capacity ?q" "ent_live (entries ?q ! k)"
    using k c by (simp_all add: drain_claim_entry quiet_def evolves_def)
  have tok: "ent_token (entries ?q ! k) = ent_token (entries r ! k)" by (simp add: drain_claim_entry)
  show "dom (reg_map (drain_take r k)) = dom (reg_map r) - {ent_token (entries r ! k)}"
    unfolding eq reg_map_unregister [OF sane_wf [OF q] k'] tok rm
    using drain_claim_dom [OF s, of k] by auto
  have "liveCount ?q = liveCount r"
    by (simp add: purgeWindowBindingsLocked_def drain_claim_def update_entry_def split: prod.split option.split)
  moreover have "0 < liveCount r"
    using sane_wf [OF s] k by (auto simp: reg_wf_def filter_empty_conv intro!: bexI [of _ "entries r ! k"])
  ultimately show "liveCount (drain_take r k) + 1 = liveCount r" unfolding eq by simp
qed

lemma zero_drain_token [simp]: "val_token (drain_value zero_drain_value) = 0"
  by (simp add: zero_drain_value_def zero_value_def)

lemma drain_out_value [simp]:
  "drain_value (drain_out r k) = value_of_entry (ent_contextGeneration (entries r ! k)) (entries r ! k)"
  by (simp add: drain_out_def Let_def split: option.split)

section \<open>Choice and effect of a drain step\<close>

text \<open>The live entries of a scope, over the map.\<close>

definition in_scope :: "VortekHandleRegistry \<Rightarrow> VortekHandleDrainScope \<Rightarrow> VortekHandleToken \<Rightarrow> VortekHandleEntry set" where
  "in_scope r scope t = {e \<in> ran (reg_map r). drainScopeMatches e scope t}"

lemma in_scope_iff:
  assumes "reg_wf r"
  shows "e \<in> in_scope r scope t \<longleftrightarrow> (\<exists>i<capacity r. entries r ! i = e \<and> drainScopeMatches e scope t)"
proof -
  have "drainScopeMatches e scope t \<Longrightarrow> ent_live e" by (simp add: drainScopeMatches_def split: if_splits)
  then show ?thesis
    unfolding in_scope_def ran_def mem_Collect_eq reg_map_Some [OF assms] by blast
qed

text \<open>The outcomes of \<open>VortekHandleRegistry_drainNext\<close>.\<close>

lemma drainNext_cases:
  assumes s: "sane r n" and ok: "scope = VORTEK_HANDLE_DRAIN_ALL \<or> t \<noteq> 0"
  obtains (busy) e where "VortekHandleRegistry_drainNext (Some r) scope t True =
        (VORTEK_HANDLE_RETIRING, Some zero_drain_value, Some r)" "e \<in> in_scope r scope t" "pinned r e"
    | (empty) r' where "VortekHandleRegistry_drainNext (Some r) scope t True =
        (VORTEK_HANDLE_OK, Some zero_drain_value, Some r')" "in_scope r scope t = {}"
        "reg_map r' = reg_map r"
    | (stale) e where "VortekHandleRegistry_drainNext (Some r) scope t True =
        (VORTEK_HANDLE_STALE_OWNER, Some zero_drain_value, Some r)" "e \<in> in_scope r scope t"
        "own_device (ent_owner e) \<noteq> 0" "\<not> live_as r (own_device (ent_owner e)) VK_OBJECT_TYPE_DEVICE"
        "\<not> entry_is e VK_OBJECT_TYPE_DEVICE"
    | (take) k where "VortekHandleRegistry_drainNext (Some r) scope t True =
        (VORTEK_HANDLE_OK, Some (drain_out r k), Some (drain_take r k))"
        "entries r ! k \<in> in_scope r scope t" "k < capacity r" "ent_live (entries r ! k)"
        "ent_activeCalls (entries r ! k) = 0"
        "\<forall>e\<in>in_scope r scope t. \<not> pinned r e \<and> \<not> drains_before e (entries r ! k)"
proof -
  note wf = sane_wf [OF s]
  have arg: "\<not> (scope \<noteq> VORTEK_HANDLE_DRAIN_ALL \<and> t = 0)" using ok by auto
  show thesis
  proof (cases "drain_select r scope t [0..<capacity r] None")
    case (Inl u)
    have "\<exists>i<capacity r. drainScopeMatches (entries r ! i) scope t \<and> entryDeviceHasActiveCallsLocked r i"
    proof (rule ccontr)
      assume no: "\<not> ?thesis"
      have "\<exists>res. drain_select r scope t is sel = Inr res" if "set is \<subseteq> {0..<capacity r}" for "is" sel
        using that no by (induction "is" arbitrary: sel) (auto simp: drain_select_Cons simp del: drain_select.simps(2))
      from this [of "[0..<capacity r]" None] Inl show False by auto
    qed
    then obtain i where i: "i < capacity r" "drainScopeMatches (entries r ! i) scope t"
      "entryDeviceHasActiveCallsLocked r i" by blast
    show thesis
      by (rule busy [of "entries r ! i"])
        (use Inl arg i active_calls_map [OF s, of i] in
          \<open>auto simp: VortekHandleRegistry_drainNext_def in_scope_iff [OF wf]\<close>)
  next
    case (Inr res)
    show thesis
    proof (cases res)
      case None
      have "in_scope r scope t = {}"
        using Inr None drain_select_None [of r scope t "[0..<capacity r]" None]
        by (auto simp: in_scope_iff [OF wf] set_eq_iff)
      moreover have "reg_map (purgeWindowBindingsLocked r t) = reg_map r"
      proof -
        have "findLiveLocked (purgeWindowBindingsLocked r t) u = findLiveLocked r u" for u
          by (rule same_shape_find [OF wf])
            (simp add: same_shape_def purgeWindowBindingsLocked_def split: prod.split)
        then show ?thesis by (simp add: reg_map_def fun_eq_iff)
      qed
      ultimately show thesis
        by (intro empty [of "if scope = VORTEK_HANDLE_DRAIN_INSTANCE then purgeWindowBindingsLocked r t else r"]) (use Inr None arg in \<open>auto simp: VortekHandleRegistry_drainNext_def\<close>)
    next
      case (Some k)
      note sel = drain_selected [OF s Inr [unfolded Some]]
      have mem: "entries r ! k \<in> in_scope r scope t" using sel by (auto simp: in_scope_iff [OF wf])
      have min: "\<forall>e\<in>in_scope r scope t. \<not> pinned r e \<and> \<not> drains_before e (entries r ! k)"
        using drain_select_idle [OF Inr] drain_select_min [OF Inr [unfolded Some]] active_calls_map [OF s]
        by (fastforce simp: in_scope_iff [OF wf])
      show thesis
      proof (cases "own_device (ent_owner (entries r ! k)) \<noteq> 0 \<and> drain_device r k = None")
        case True
        then show thesis
          by (intro stale [of "entries r ! k"])
            (use Inr Some arg mem isLive_None_map in
              \<open>auto simp: VortekHandleRegistry_drainNext_def drain_device_def split: if_splits\<close>)
      next
        case False
        then show thesis
          by (intro take [of k]) (use Inr Some arg mem sel min in \<open>auto simp: VortekHandleRegistry_drainNext_def\<close>)
      qed
    qed
  qed
qed

text \<open>A drain step that hands out a token hands out a live entry of the scope that nothing in
  the scope precedes: no entry of smaller destruction priority, none of equal priority and older
  token. It runs only when no device of the scope has a running call, and removes exactly the
  token it hands out.\<close>

theorem drain_step_order:
  assumes "sys_reach self s" and "scope = VORTEK_HANDLE_DRAIN_ALL \<or> t \<noteq> 0"
    and "VortekHandleRegistry_drainNext (Some (sys_reg s)) scope t True = (VORTEK_HANDLE_OK, Some dv, Some r')"
    and "val_token (drain_value dv) \<noteq> 0"
  shows "\<exists>e. reg_map (sys_reg s) (val_token (drain_value dv)) = Some e \<and>
    e \<in> in_scope (sys_reg s) scope t \<and> val_hostValue (drain_value dv) = ent_hostValue e \<and>
    (\<forall>c\<in>in_scope (sys_reg s) scope t. \<not> pinned (sys_reg s) c \<and> \<not> drains_before c e) \<and>
    dom (reg_map r') = dom (reg_map (sys_reg s)) - {val_token (drain_value dv)}"
  using reach_sane [OF assms(1)] assms(2)
proof (cases rule: drainNext_cases)
  case (take k)
  have dv: "dv = drain_out (sys_reg s) k" "r' = drain_take (sys_reg s) k" using take(1) assms(3) by auto
  have "reg_map (sys_reg s) (ent_token (entries (sys_reg s) ! k)) = Some (entries (sys_reg s) ! k)"
    using take(3,4) reg_map_Some [OF reach_wf [OF assms(1)]] by blast
  then show ?thesis
    using take dv drain_take_facts(1) [OF reach_sane [OF assms(1)] take(3-5)]
    by (auto simp: value_of_entry_def)
qed (use assms in auto)

theorem drain_step_order_witness:
  "\<exists>dv r'. VortekHandleRegistry_drainNext (Some (sys_reg small)) VORTEK_HANDLE_DRAIN_ALL 0 True =
     (VORTEK_HANDLE_OK, Some dv, Some r') \<and> val_token (drain_value dv) = 2 \<and> dom (reg_map r') = {1}"
proof -
  have scope: "in_scope (sys_reg small) VORTEK_HANDLE_DRAIN_ALL 0 =
      {vk_entry 1 VK_OBJECT_TYPE_INSTANCE 16 (owner_of 0 0 0), vk_entry 2 VK_OBJECT_TYPE_DEVICE 32 (owner_of 1 0 0)}"
  proof -
    have "ran (reg_map (sys_reg small)) =
        {vk_entry 2 VK_OBJECT_TYPE_DEVICE 32 (owner_of 1 0 0), vk_entry 1 VK_OBJECT_TYPE_INSTANCE 16 (owner_of 0 0 0)}"
      by (simp add: small_facts owner_of_def)
    moreover have "drainScopeMatches (vk_entry u ty h ow) VORTEK_HANDLE_DRAIN_ALL 0" for u ty h ow
      by (simp add: drainScopeMatches_def vk_entry_def)
    ultimately show ?thesis unfolding in_scope_def by auto
  qed
  have before: "drains_before (vk_entry 2 VK_OBJECT_TYPE_DEVICE 32 (owner_of 1 0 0))
      (vk_entry 1 VK_OBJECT_TYPE_INSTANCE 16 (owner_of 0 0 0))"
    by (simp add: drains_before_def vk_entry_def drainPriority_def)
  show ?thesis
    using reach_sane [OF small_reach] disjI1 [OF refl, of VORTEK_HANDLE_DRAIN_ALL]
  proof (cases rule: drainNext_cases [of _ _ _ 0])
    case (take k)
    have "entries (sys_reg small) ! k = vk_entry 2 VK_OBJECT_TYPE_DEVICE 32 (owner_of 1 0 0)"
      using take(2,6) before unfolding scope by auto
    then have "val_token (drain_value (drain_out (sys_reg small) k)) = 2"
      by (simp add: value_of_entry_def vk_entry_def)
    with drain_step_order [OF small_reach _ take(1)] take(1) show ?thesis
      by (auto simp: small_facts)
  next
    case (busy e)
    then show ?thesis unfolding scope
      by (auto simp: pinned_def calls_def small_facts vk_entry_def zero_entry_def device_of_def split: if_splits option.splits)
  next
    case (empty r')
    then show ?thesis unfolding scope by auto
  next
    case (stale e)
    then show ?thesis unfolding scope by (auto simp: vk_entry_def owner_of_def)
  qed
qed

section \<open>The loop ends, and a full drain of an idle registry empties it\<close>

text \<open>Every owner device that is named is live, and what it owns is destroyed before devices.\<close>

definition well_owned :: "VortekHandleRegistry \<Rightarrow> bool" where
  "well_owned r \<longleftrightarrow> (\<forall>e\<in>ran (reg_map r). own_device (ent_owner e) \<noteq> 0 \<longrightarrow>
     live_as r (own_device (ent_owner e)) VK_OBJECT_TYPE_DEVICE \<and> drainPriority e < 60)"

lemma drainPriority_identity: "identity_of e = identity_of e' \<Longrightarrow> drainPriority e = drainPriority e'"
  by (simp add: drainPriority_def identity_of_def)

lemma drainPriority_device: "entry_is e VK_OBJECT_TYPE_DEVICE \<Longrightarrow> drainPriority e = 60"
  by (simp add: drainPriority_def entry_is_def)

lemma live_as_drained:
  assumes s: "sane r n" and k: "k < capacity r" "ent_live (entries r ! k)" "ent_activeCalls (entries r ! k) = 0"
    and d: "live_as r d type" "d \<noteq> ent_token (entries r ! k)"
  shows "live_as (drain_take r k) d type"
proof -
  obtain e where e: "reg_map r d = Some e" "entry_is e type" using d(1) by (auto simp: live_as_def split: option.splits)
  have "d \<in> dom (reg_map (drain_take r k))" using drain_take_facts(1) [OF s k] e(1) d(2) by auto
  then obtain e' where e': "reg_map (drain_take r k) d = Some e'" by auto
  have "d < n" using s e(1) tokens_below_map [of r n] by (auto simp: sane_def)
  then have "identity_of e' = identity_of e"
    using quiet_drain_take [OF s k] e(1) e' unfolding quiet_def evolves_def by fastforce
  with e(2) e' show ?thesis by (simp add: live_as_def entry_is_def identity_of_def)
qed

lemma drain_take_identity:
  assumes s: "sane r n" and k: "k < capacity r" "ent_live (entries r ! k)" "ent_activeCalls (entries r ! k) = 0"
    and e: "reg_map (drain_take r k) t = Some e'"
  obtains e where "reg_map r t = Some e" "identity_of e' = identity_of e" "t \<noteq> ent_token (entries r ! k)"
proof -
  have t: "t \<in> dom (reg_map r)" "t \<noteq> ent_token (entries r ! k)"
    using drain_take_facts(1) [OF s k] e by auto
  then obtain e where re: "reg_map r t = Some e" by auto
  have "t < n" using s re tokens_below_map [of r n] by (auto simp: sane_def)
  then have "identity_of e' = identity_of e"
    using quiet_drain_take [OF s k] re e unfolding quiet_def evolves_def by fastforce
  with that re t(2) show thesis by blast
qed

lemma well_owned_drained:
  assumes s: "sane r n" and w: "well_owned r"
    and k: "k < capacity r" "ent_live (entries r ! k)" "ent_activeCalls (entries r ! k) = 0"
    and min: "\<forall>e\<in>ran (reg_map r). \<not> drains_before e (entries r ! k)"
  shows "well_owned (drain_take r k)"
  unfolding well_owned_def
proof (intro ballI impI)
  fix e' assume "e' \<in> ran (reg_map (drain_take r k))" and o: "own_device (ent_owner e') \<noteq> 0"
  then obtain t where "reg_map (drain_take r k) t = Some e'" by (auto simp: ran_def)
  then obtain e where e: "reg_map r t = Some e" "identity_of e' = identity_of e"
    using drain_take_identity [OF s k] by blast
  have er: "e \<in> ran (reg_map r)" using e(1) by (auto simp: ran_def)
  have own: "own_device (ent_owner e') = own_device (ent_owner e)" using e(2) by (simp add: identity_of_def)
  have we: "live_as r (own_device (ent_owner e)) VK_OBJECT_TYPE_DEVICE" "drainPriority e < 60"
    using w er o own by (auto simp: well_owned_def)
  have "own_device (ent_owner e) \<noteq> ent_token (entries r ! k)"
  proof
    assume eq: "own_device (ent_owner e) = ent_token (entries r ! k)"
    have "reg_map r (ent_token (entries r ! k)) = Some (entries r ! k)"
      using k(1,2) reg_map_Some [OF sane_wf [OF s]] by blast
    with we(1) eq have "entry_is (entries r ! k) VK_OBJECT_TYPE_DEVICE" by (simp add: live_as_def)
    with drainPriority_device we(2) have "drains_before e (entries r ! k)" by (simp add: drains_before_def)
    with min er show False by blast
  qed
  with we live_as_drained [OF s k we(1)] own drainPriority_identity [OF e(2)]
  show "live_as (drain_take r k) (own_device (ent_owner e')) VK_OBJECT_TYPE_DEVICE \<and> drainPriority e' < 60"
    by simp
qed

lemma reclaim_loop_ends:
  assumes "sane r n" and "scope = VORTEK_HANDLE_DRAIN_ALL \<or> t \<noteq> 0"
  shows "\<exists>result log r'. reclaim_loop ctx scope t r = Some (result, log, r') \<and> quiet r n r' n \<and>
     (result \<longrightarrow> in_scope r' scope t = {})"
  using assms
proof (induction "liveCount r" arbitrary: r rule: less_induct)
  case less
  note simps = reclaim_loop.simps [of ctx scope t r]
  from less.prems show ?case
  proof (cases rule: drainNext_cases)
    case (busy e)
    then have "reclaim_loop ctx scope t r = Some (False, [], r)" using simps by simp
    then show ?thesis using quiet_refl [OF less.prems(1)] by blast
  next
    case (empty r')
    have "in_scope r' scope t = {}" using empty(2,3) by (simp add: in_scope_def)
    moreover have "reclaim_loop ctx scope t r = Some (True, [], r')" using simps empty by simp
    ultimately show ?thesis using quiet_drainNext [OF less.prems(1) empty(1)] by blast
  next
    case (stale e)
    then have "reclaim_loop ctx scope t r = Some (False, [], r)" using simps by simp
    then show ?thesis using quiet_refl [OF less.prems(1)] by blast
  next
    case (take k)
    note q = quiet_drainNext [OF less.prems(1) take(1)]
    have "liveCount (drain_take r k) < liveCount r"
      using drain_take_facts(2) [OF less.prems(1) take(3-5)] by simp
    from less.hyps [OF this sane_quiet [OF less.prems(1) q] less.prems(2)]
    obtain result log r' where IH: "reclaim_loop ctx scope t (drain_take r k) = Some (result, log, r')"
      "quiet (drain_take r k) n r' n" "result \<longrightarrow> in_scope r' scope t = {}" by blast
    have "val_token (drain_value (drain_out r k)) \<noteq> 0"
      using take(3,4) sane_wf [OF less.prems(1)] by (simp add: value_of_entry_def reg_wf_def)
    with IH simps take(1) quiet_trans [OF q IH(2)] show ?thesis by simp
  qed
qed

lemma reclaim_loop_empties:
  assumes "sane r n" and "well_owned r" and "\<forall>t. calls r t = 0"
  shows "\<exists>log r'. reclaim_loop ctx VORTEK_HANDLE_DRAIN_ALL t r = Some (True, log, r') \<and>
     reg_map r' = (\<lambda>_. None) \<and> liveCount r' = 0"
  using assms
proof (induction "liveCount r" arbitrary: r rule: less_induct)
  case less
  note simps = reclaim_loop.simps [of ctx VORTEK_HANDLE_DRAIN_ALL t r]
  have all: "in_scope r VORTEK_HANDLE_DRAIN_ALL t = ran (reg_map r)"
    using reg_map_Some [OF sane_wf [OF less.prems(1)]]
    by (auto simp: in_scope_def drainScopeMatches_def ran_def)
  show ?case
    using less.prems(1) disjI1 [OF refl, of VORTEK_HANDLE_DRAIN_ALL]
  proof (cases rule: drainNext_cases [of _ _ _ t])
    case (busy e)
    then show ?thesis using less.prems(3) by (simp add: pinned_def)
  next
    case (empty r')
    have "ran (reg_map r) = {}" using empty(2) all by simp
    then have none: "reg_map r u = None" for u by (cases "reg_map r u") (auto simp: ran_def)
    then have m: "reg_map r' = (\<lambda>_. None)" by (simp add: empty(3) fun_eq_iff)
    have wf': "reg_wf r'" using quiet_drainNext [OF less.prems(1) empty(1)] by (simp add: quiet_def evolves_def)
    have "\<not> ent_live (entries r' ! i)" if "i < capacity r'" for i
      using findLiveLocked_live [OF wf' that] fun_cong [OF m] by (auto simp: reg_map_def)
    then have "filter ent_live (entries r') = []"
      using wf' by (auto simp: reg_wf_def filter_empty_conv in_set_conv_nth)
    then have "liveCount r' = 0" using wf' by (simp add: reg_wf_def)
    with m simps empty show ?thesis by simp
  next
    case (stale e)
    then show ?thesis using less.prems(2) all by (auto simp: well_owned_def)
  next
    case (take k)
    note q = quiet_drainNext [OF less.prems(1) take(1)]
    have less': "liveCount (drain_take r k) < liveCount r"
      using drain_take_facts(2) [OF less.prems(1) take(3-5)] by simp
    have w: "well_owned (drain_take r k)"
      by (rule well_owned_drained [OF less.prems(1,2) take(3-5)]) (use take(6) all in blast)
    have c: "\<forall>t. calls (drain_take r k) t = 0" using q less.prems(3) by (simp add: quiet_def)
    obtain log r' where IH: "reclaim_loop ctx VORTEK_HANDLE_DRAIN_ALL t (drain_take r k) = Some (True, log, r')"
      "reg_map r' = (\<lambda>_. None)" "liveCount r' = 0"
      using less.hyps [OF less' sane_quiet [OF less.prems(1) q] w c] by blast
    have "val_token (drain_value (drain_out r k)) \<noteq> 0"
      using take(3,4) sane_wf [OF less.prems(1)] by (simp add: value_of_entry_def reg_wf_def)
    with IH simps take(1) show ?thesis by simp
  qed
qed

text \<open>C15: \<open>VkContext_reclaimAuthority\<close> always returns: its loop cannot run for ever on a reachable
  registry, whatever the scope and however the objects are owned. When it returns true nothing of
  the scope is left.\<close>

theorem reclaim_terminates:
  assumes "sys_reach self s"
  shows "\<exists>result log r'. VkContext_reclaimAuthority (Some ctx) (Some (sys_reg s)) scope t = Some (result, log, Some r') \<and>
     (result \<longrightarrow> in_scope r' scope t = {}) \<and> calls r' = calls (sys_reg s)"
proof (cases "scope \<noteq> VORTEK_HANDLE_DRAIN_ALL \<and> t = 0")
  case True
  then show ?thesis by (auto simp: VkContext_reclaimAuthority_def)
next
  case False
  then have "scope = VORTEK_HANDLE_DRAIN_ALL \<or> t \<noteq> 0" by blast
  from reclaim_loop_ends [OF reach_sane [OF assms] this, of ctx] False show ?thesis
    by (auto simp: VkContext_reclaimAuthority_def quiet_def)
qed

theorem reclaim_terminates_witness:
  "\<exists>result log r'. VkContext_reclaimAuthority (Some \<lparr>has_vkDeviceWaitIdle = True, textureDecoder_images = None\<rparr>)
     (Some (sys_reg busy)) VORTEK_HANDLE_DRAIN_DEVICE 2 = Some (result, log, Some r') \<and>
     (result \<longrightarrow> in_scope r' VORTEK_HANDLE_DRAIN_DEVICE 2 = {})"
  using reclaim_terminates [OF busy_reach] by blast

text \<open>A full drain of an idle registry whose device-owned objects have live owners empties it: the
  reclaim returns true, no token is left and the registry can be destroyed
  (\<open>VortekHandleRegistry_destroy\<close> frees it). The drain order never orphans an object.\<close>

theorem full_reclaim_empties:
  assumes "sys_reach self s" and "well_owned (sys_reg s)" and "\<forall>t. sys_leases s t = 0"
  shows "\<exists>log r'. VkContext_reclaimAuthority (Some ctx) (Some (sys_reg s)) VORTEK_HANDLE_DRAIN_ALL 0
      = Some (True, log, Some r') \<and> reg_map r' = (\<lambda>_. None) \<and>
    VortekHandleRegistry_destroy_finish (Some r') = (True, None)"
proof -
  have "calls (sys_reg s) t = 0" for t
    using sys_reach_ok [OF assms(1)] assms(3) unfolding sys_ok_def by (metis unat_eq_0)
  then have "\<forall>t. calls (sys_reg s) t = 0" by simp
  from reclaim_loop_empties [OF reach_sane [OF assms(1)] assms(2) this, of ctx 0] show ?thesis
    by (auto simp: VkContext_reclaimAuthority_def VortekHandleRegistry_destroy_finish_def)
qed

theorem full_reclaim_empties_witness:
  "\<exists>log r'. VkContext_reclaimAuthority (Some \<lparr>has_vkDeviceWaitIdle = True, textureDecoder_images = None\<rparr>)
     (Some (sys_reg small)) VORTEK_HANDLE_DRAIN_ALL 0 = Some (True, log, Some r') \<and> reg_map r' = (\<lambda>_. None)"
proof -
  have "well_owned (sys_reg small)"
    unfolding well_owned_def by (simp add: small_facts vk_entry_def)
  then show ?thesis using full_reclaim_empties [OF small_reach] by (simp add: small_facts) blast
qed

end
