(* ===== verification/Registry_Guarantees.thy ===== *)
theory Registry_Guarantees
  imports Registry_Properties
begin

text \<open>
  Further guarantees of the handle registry: retirement, device leases, drain order, window
  bindings, closing, and the lock-free token counter.
\<close>

section \<open>Retirement of handles\<close>

text \<open>Unregistering a token removes exactly that token when it succeeds; it succeeds only for a
  token that validates, whose device runs no call and which, being a device or an instance, has no
  live dependents. Otherwise nothing changes and no value is handed out.\<close>

theorem unregister_exact:
  assumes "sys_reach self s" and "t \<noteq> 0"
    and "VortekHandleRegistry_unregister (Some (sys_reg s)) (sys_next s) t (Some x) True = (st, v, Some r')"
  shows "(st = VORTEK_HANDLE_OK \<longrightarrow> reg_map r' = (reg_map (sys_reg s))(t := None) \<and>
      (\<exists>e. reg_map (sys_reg s) t = Some e \<and> v = Some (value_of_entry (generation (sys_reg s)) e))) \<and>
    (st \<noteq> VORTEK_HANDLE_OK \<longrightarrow> r' = sys_reg s \<and> v = None) \<and>
    (st = VORTEK_HANDLE_OK \<longleftrightarrow> \<not> closed (sys_reg s) \<and> exp_contextGeneration x = generation (sys_reg s) \<and>
      (\<exists>e. reg_map (sys_reg s) t = Some e \<and> entry_satisfies e x \<and>
         owners_alive (sys_reg s) (ent_owner e) \<and>
         \<not> pinned (sys_reg s) e \<and> \<not> has_dependents (sys_reg s) e))"
proof -
  let ?r = "sys_reg s"
  let ?val = "fst (validateExpectationLockedEx ?r (sys_next s) t (Some x) False)"
  note s = reach_sane [OF assms(1)]
  have val: "?val = VORTEK_HANDLE_OK \<longleftrightarrow> \<not> closed ?r \<and> exp_contextGeneration x = generation ?r \<and>
      (\<exists>e. reg_map ?r t = Some e \<and> entry_satisfies e x \<and> owners_alive ?r (ent_owner e))"
    (is "_ \<longleftrightarrow> ?rhs")
  proof
    assume "?val = VORTEK_HANDLE_OK"
    then obtain i where i: "validateExpectationLockedEx ?r (sys_next s) t (Some x) False = (VORTEK_HANDLE_OK, Some i)"
      using validateExpectation_OK_Some [OF assms(2)] by metis
    then show ?rhs
      unfolding validateExpectation_map [OF sane_wf [OF s] assms(2)] by (auto simp: reg_map_def)
  next
    assume r: ?rhs
    then obtain i where "findLiveLocked ?r t = Some i" "entry_satisfies (entries ?r ! i) x"
      "owners_alive ?r (ent_owner (entries ?r ! i))" by (auto simp: reg_map_def)
    with r have "validateExpectationLockedEx ?r (sys_next s) t (Some x) False = (VORTEK_HANDLE_OK, Some i)"
      unfolding validateExpectation_map [OF sane_wf [OF s] assms(2)] by simp
    then show "?val = VORTEK_HANDLE_OK" by simp
  qed
  show ?thesis
  proof (cases "?val = VORTEK_HANDLE_OK")
    case True
    then show ?thesis using unregister_effect [OF s assms(2,3)] val by auto
  next
    case False
    then show ?thesis using unregister_effect [OF s assms(2,3)] val by blast
  qed
qed

theorem unregister_exact_witness:
  "\<exists>st v r'. VortekHandleRegistry_unregister (Some (sys_reg small)) (sys_next small) 1
     (Some (expect VK_OBJECT_TYPE_INSTANCE)) True = (st, v, Some r') \<and> st \<noteq> VORTEK_HANDLE_OK \<and>
     r' = sys_reg small"
proof -
  obtain st v r' where eq: "VortekHandleRegistry_unregister (Some (sys_reg small)) (sys_next small) 1
     (Some (expect VK_OBJECT_TYPE_INSTANCE)) True = (st, v, Some r')" using unregister_pair by blast
  have "has_dependents (sys_reg small) (vk_entry 1 VK_OBJECT_TYPE_INSTANCE 16 (owner_of 0 0 0))"
    by (simp add: has_dependents_def small_facts ran_def depends_on_def vk_entry_def owner_of_def
        entry_is_def) (rule exI, rule conjI, rule exI [of _ 2], auto)
  then show ?thesis
    using unregister_exact [OF small_reach _ eq] eq by (auto simp: small_facts owner_of_def)
qed

text \<open>C13: Batch retirement is all or nothing: unless it succeeds the registry is unchanged; when it
  does, exactly the listed tokens, all distinct, live and without a running call on their device,
  are gone.\<close>

theorem batch_unregister_atomic:
  assumes "sys_reach self s" and "0 < count"
    and "VortekHandleRegistry_unregisterBatch ok (Some (sys_reg s)) (sys_next s) (Some ts) count (Some x)
      = (st, Some r')"
  shows "(st \<noteq> VORTEK_HANDLE_OK \<longrightarrow> r' = sys_reg s) \<and>
    (st = VORTEK_HANDLE_OK \<longrightarrow> distinct (take count ts) \<and>
      reg_map r' = (reg_map (sys_reg s)) |` (- set (take count ts)) \<and>
      (\<forall>t\<in>set (take count ts). \<exists>e. reg_map (sys_reg s) t = Some e \<and> \<not> pinned (sys_reg s) e))"
  using unregisterBatch_effect [OF reach_sane [OF assms(1)] assms(3)] assms(2) by auto

theorem batch_unregister_atomic_witness:
  "snd (VortekHandleRegistry_unregisterBatch True (Some (sys_reg small)) (sys_next small) (Some [2, 2]) 2
      (Some (expect VK_OBJECT_TYPE_DEVICE))) = Some (sys_reg small)"
proof -
  obtain st r' where eq: "VortekHandleRegistry_unregisterBatch True (Some (sys_reg small))
     (sys_next small) (Some [2, 2]) 2 (Some (expect VK_OBJECT_TYPE_DEVICE)) = (st, Some r')"
    by (auto simp: VortekHandleRegistry_unregisterBatch_def Let_def)
  then show ?thesis using batch_unregister_atomic [OF small_reach _ eq] by auto
qed

section \<open>Leases\<close>



text \<open>A lease that is held can always be given back, whatever happened in between (the registry
  may be closed, the device retiring): the release succeeds, clears the lease and returns the system
  to a state that satisfies the accounting.\<close>

theorem held_lease_released:
  assumes "sys_reach self s" and "self \<noteq> 0" and "0 < sys_leases s (lease_device l)"
    and "lease_active l" "lease_registry l = self"
    and "lease_contextGeneration l = generation (sys_reg s)"
  shows "\<exists>r'. VortekHandleRegistry_releaseDeviceLease (Some l) (sys_reg s)
      = (VORTEK_HANDLE_OK, Some zero_lease, r') \<and>
    unat (calls r' (lease_device l)) + 1 = unat (calls (sys_reg s) (lease_device l)) \<and>
    (\<forall>t. t \<noteq> lease_device l \<longrightarrow> calls r' t = calls (sys_reg s) t)"
proof -
  let ?r = "sys_reg s" and ?d = "lease_device l"
  note ok = sys_reach_ok [OF assms(1)] and s = reach_sane [OF assms(1)]
  have c: "calls ?r ?d \<noteq> 0" using ok assms(3) unfolding sys_ok_def by (metis unat_0 less_irrefl)
  have "?d \<noteq> 0"
    using c reg_map_zero [OF sane_wf [OF s]] by (auto simp: calls_def)
  then obtain r' where r': "VortekHandleRegistry_releaseDeviceLease (Some l) ?r
      = (VORTEK_HANDLE_OK, Some zero_lease, r')" "calls r' = (calls ?r)(?d := calls ?r ?d - 1)"
    using release_effect [OF s assms(4) _ _ assms(6) c] assms(2,5) by auto
  have "unat (calls ?r ?d - 1) + 1 = unat (calls ?r ?d)"
    using c unat_minus_one [OF c] by (simp add: unat_gt_0)
  with r' show ?thesis by auto
qed

definition busy_lease :: VortekDeviceLease where
  "busy_lease = \<lparr>lease_registry = 4096, lease_device = 2, lease_contextGeneration = 7,
     lease_hostDeviceBits = 32, lease_active = True\<rparr>"

theorem held_lease_released_witness:
  "\<exists>r'. VortekHandleRegistry_releaseDeviceLease (Some busy_lease) (sys_reg busy)
      = (VORTEK_HANDLE_OK, Some zero_lease, r') \<and> calls r' 2 = 0"
proof -
  have g: "generation (sys_reg busy) = 7"
    using sys_steps_ok [OF busy_steps sys_reach_ok [OF small_reach]] by (simp add: evolves_def small_facts)
  have "unat (calls (sys_reg busy) 2) = 1" using sys_reach_ok [OF busy_reach] busy_leases by (simp add: sys_ok_def)
  then show ?thesis
    using held_lease_released [OF busy_reach, of busy_lease] busy_leases g
    by (auto simp: busy_lease_def unat_eq_0)
qed

text \<open>A lease is granted exactly for a live device of the caller's generation in an open registry
  that is not being retired and whose call counter can be incremented; it carries the device's host
  handle. Once \<open>VortekHandleRegistry_beginDeviceRetirement\<close> or a close has marked the device, no new
  lease on it is granted and a holder is told to cancel.\<close>

theorem lease_granted_iff:
  assumes "sys_reach self s" and "d \<noteq> 0" and "g \<noteq> 0"
    and "VortekHandleRegistry_acquireDeviceLease self (Some (sys_reg s)) (sys_next s) d g True = (st, l, Some r')"
    and "VortekHandleRegistry_beginDeviceRetirement_mark (Some (sys_reg s)) (sys_next s) d (generation (sys_reg s))
      = (VORTEK_HANDLE_OK, w, Some r'')"
  shows "(st = VORTEK_HANDLE_OK \<longleftrightarrow> g = generation (sys_reg s) \<and> leasable (sys_reg s) d) \<and>
    (st = VORTEK_HANDLE_OK \<longrightarrow> l = Some \<lparr>lease_registry = self, lease_device = d,
       lease_contextGeneration = g, lease_hostDeviceBits = ent_hostValue (the (reg_map (sys_reg s) d)),
       lease_active = True\<rparr>) \<and>
    (st \<noteq> VORTEK_HANDLE_OK \<longrightarrow> r' = sys_reg s) \<and>
    fst (VortekHandleRegistry_acquireDeviceLease self (Some r'') (sys_next s) d g True) \<noteq> VORTEK_HANDLE_OK \<and>
    (\<forall>lease. lease_device lease = d \<longrightarrow> VortekHandleRegistry_deviceLeaseShouldCancel (Some lease) r'')"
proof -
  let ?r = "sys_reg s"
  note s = reach_sane [OF assms(1)]
  obtain i where i: "isLiveVulkanTypeLocked ?r d VK_OBJECT_TYPE_DEVICE = Some i"
    and r'': "r'' = update_entry i (\<lambda>e. e\<lparr>ent_retiring := True\<rparr>) ?r"
    using assms(5) unfolding VortekHandleRegistry_beginDeviceRetirement_mark_def
    using wrong_kind_not_OK by (auto split: option.splits if_splits)
  have f: "findLiveLocked ?r d = Some i" using isLive_find [OF i] by simp
  have map: "reg_map r'' = (reg_map ?r)(d \<mapsto> (entries ?r ! i)\<lparr>ent_retiring := True\<rparr>)"
    unfolding r'' by (rule reg_map_update_entry [OF sane_wf [OF s] f]) simp_all
  then have "\<not> leasable r'' d" by (simp add: leasable_def)
  then have no: "fst (VortekHandleRegistry_acquireDeviceLease self (Some r'') (sys_next s) d g True) \<noteq> VORTEK_HANDLE_OK"
    using acquire_OK_iff [OF assms(2,3)] by simp
  have "\<exists>k. findLiveLocked r'' d = Some k \<and> ent_retiring (entries r'' ! k)"
  proof -
    obtain k where "findLiveLocked r'' d = Some k" "entries r'' ! k = (entries ?r ! i)\<lparr>ent_retiring := True\<rparr>"
      using map by (auto simp: reg_map_def fun_eq_iff dest!: spec [of _ d])
    then show ?thesis by simp
  qed
  then have cancel: "VortekHandleRegistry_deviceLeaseShouldCancel (Some lease) r''" if "lease_device lease = d" for lease
    using that by (auto simp: VortekHandleRegistry_deviceLeaseShouldCancel_def)
  show ?thesis
    using acquire_OK_iff [OF assms(2,3), of self ?r "sys_next s"] assms(4)
      acquire_effect(3,4) [OF s assms(4)] no cancel by auto
qed

theorem lease_granted_iff_witness:
  "\<exists>l r'. VortekHandleRegistry_acquireDeviceLease 4096 (Some (sys_reg small)) (sys_next small) 2 7 True
     = (VORTEK_HANDLE_OK, l, Some r')"
proof -
  obtain st l r' where a: "VortekHandleRegistry_acquireDeviceLease 4096 (Some (sys_reg small)) (sys_next small) 2 7 True
     = (st, l, Some r')" using acquire_pair by blast
  have "isLiveVulkanTypeLocked (sys_reg small) 2 VK_OBJECT_TYPE_DEVICE \<noteq> None"
    using isLive_None_map [of "sys_reg small" 2] by (simp add: live_as_def small_facts vk_entry_def entry_is_def)
  then obtain w r'' where b: "VortekHandleRegistry_beginDeviceRetirement_mark (Some (sys_reg small)) (sys_next small) 2
      (generation (sys_reg small)) = (VORTEK_HANDLE_OK, w, Some r'')"
    by (auto simp: VortekHandleRegistry_beginDeviceRetirement_mark_def small_facts)
  from lease_granted_iff [OF small_reach _ _ a b] small_leasable a show ?thesis by (simp add: small_facts)
qed

section \<open>Closing\<close>

lemma closed_step_leases:
  assumes "sys_step self s s'" "closed (sys_reg s)"
  shows "sys_leases s' t \<le> sys_leases s t"
  using assms(1)
proof cases
  case (acquire d g out st l r')
  with assms(2) have "st \<noteq> VORTEK_HANDLE_OK"
    by (auto simp: VortekHandleRegistry_acquireDeviceLease_def split: if_splits)
  with acquire show ?thesis by simp
qed auto

text \<open>Closing is final: in every state reached after the registry was closed it is still closed, no
  token is live that was not live at the close (and the survivors are the same objects), and the
  number of outstanding leases of a device never grows again.\<close>

theorem closed_registry_only_shrinks:
  assumes "sys_reach self s" and "closed (sys_reg s)" and "(sys_step self)\<^sup>*\<^sup>* s s'"
  shows "closed (sys_reg s') \<and> sys_leases s' t \<le> sys_leases s t \<and>
    (\<forall>e'. reg_map (sys_reg s') t = Some e' \<longrightarrow>
       (\<exists>e. reg_map (sys_reg s) t = Some e \<and> identity_of e' = identity_of e))"
proof -
  have ev: "sys_evolves s s'" using sys_steps_ok [OF assms(3) sys_reach_ok [OF assms(1)]] by simp
  have "closed (sys_reg s') \<and> sys_leases s' t \<le> sys_leases s t"
    using assms(3)
  proof (induction rule: rtranclp_induct)
    case base
    then show ?case using assms(2) by simp
  next
    case (step s1 s2)
    have "sys_ok s1" using sys_steps_ok [OF step(1) sys_reach_ok [OF assms(1)]] by simp
    then have "sys_evolves s1 s2" using sys_step_ok [OF step(2)] by simp
    then have "closed (sys_reg s2)" using step(3) unfolding evolves_def by blast
    moreover have "sys_leases s2 t \<le> sys_leases s1 t" using closed_step_leases [OF step(2)] step(3) by blast
    ultimately show ?case using step(3) by simp
  qed
  then show ?thesis using ev assms(2) unfolding evolves_def by blast
qed

theorem closed_registry_only_shrinks_witness:
  "\<exists>s. sys_reach 4096 s \<and> closed (sys_reg s) \<and> sys_leases s 2 \<le> 1"
proof -
  obtain r' where c: "VortekHandleRegistry_beginClose (Some (sys_reg busy)) = Some r'"
    by (simp add: VortekHandleRegistry_beginClose_def)
  let ?s = "busy\<lparr>sys_reg := r'\<rparr>"
  note reach = sys_reach.step [OF busy_reach sys_step.beginClose [OF c]]
  have cl: "closed (sys_reg ?s)" using c by (auto simp: VortekHandleRegistry_beginClose_def)
  from closed_registry_only_shrinks [OF reach cl rtranclp.rtrancl_refl, of 2] reach busy_leases
  show ?thesis by (intro exI [of _ ?s]) simp
qed

section \<open>The lock-free token counter\<close>

text \<open>Against any schedule of interfering threads and spurious failures, an allocation that returns
  has the effect of one atomic \<open>allocateProcessToken\<close> on a value the counter held at some attempt (or
  at the initial load); and it returns as soon as one attempt meets the counter unchanged.\<close>

theorem allocate_cas_linearizable:
  shows "(allocate_cas_loop attempts current = Some res \<longrightarrow>
      (\<exists>c \<in> insert current (fst ` set attempts). res = allocateProcessToken c)) \<and>
    (\<forall>k<length attempts. fst (attempts ! k) = (if k = 0 then current else fst (attempts ! (k - 1))) \<longrightarrow>
       \<not> snd (attempts ! k) \<longrightarrow> allocate_cas_loop attempts current \<noteq> None)"
proof (induction attempts arbitrary: current)
  case Nil
  then show ?case by (simp add: allocate_cas_loop.simps allocateProcessToken_def)
next
  case (Cons a rest)
  obtain c sp where a: "a = (c, sp)" by fastforce
  note step = allocate_cas_loop.simps [of "a # rest" current]
  have ret: "allocate_cas_loop (a # rest) current = Some res \<Longrightarrow>
      \<exists>c' \<in> insert current (fst ` set (a # rest)). res = allocateProcessToken c'"
    using Cons.IH [of c] a step by (auto simp: allocateProcessToken_def split: if_splits)
  have "allocate_cas_loop (a # rest) current \<noteq> None"
    if k: "k < length (a # rest)" "\<not> snd ((a # rest) ! k)"
      "fst ((a # rest) ! k) = (if k = 0 then current else fst ((a # rest) ! (k - 1)))" for k
  proof (cases k)
    case 0
    then show ?thesis using k a step by simp
  next
    case (Suc j)
    have "fst (rest ! j) = (if j = 0 then c else fst (rest ! (j - 1)))"
      using k(3) Suc a by (cases j) simp_all
    then have "allocate_cas_loop rest c \<noteq> None" using Cons.IH [of c] k(1,2) Suc by auto
    then show ?thesis using a step by simp
  qed
  with ret show ?case by blast
qed

theorem allocate_cas_linearizable_witness:
  "allocate_cas_loop [(5, False), (5, True), (5, False)] 4 \<noteq> None"
  using allocate_cas_linearizable [THEN conjunct2, rule_format,
      of 2 "[(5, False), (5, True), (5, False)]" 4] by simp

end
