(* ===== verification/Window_Bindings.thy ===== *)
theory Window_Bindings
  imports Registry_Properties "HOL-Library.Multiset"
begin

text \<open>
  Window lifetimes: the table \<^verbatim>\<open>windowBindings\<close> of the handle registry as a finite map from
  (instance, window) to the lifetime the window had when the instance first used it.
\<close>

definition win_key :: "VortekWindowBinding \<Rightarrow> VortekHandleToken \<times> u32" where
  "win_key b = (win_instanceOwner b, win_windowId b)"

definition win_list :: "VortekHandleRegistry \<Rightarrow> VortekWindowBinding list" where
  "win_list r = take (windowBindingCount r) (windowBindings r)"

definition win_ok :: "VortekHandleRegistry \<Rightarrow> bool" where
  "win_ok r \<longleftrightarrow> windowBindingCount r \<le> windowBindingCapacity r \<and>
     length (windowBindings r) = windowBindingCapacity r \<and> distinct (map win_key (win_list r))"

definition bound_lifetime :: "VortekHandleRegistry \<Rightarrow> VortekHandleToken \<times> u32 \<Rightarrow> u64 option" where
  "bound_lifetime r = map_of (map (\<lambda>b. (win_key b, win_lifetime b)) (win_list r))"

lemma find_binding:
  assumes "win_ok r"
  shows "find (\<lambda>i. win_instanceOwner (windowBindings r ! i) = inst \<and>
       win_windowId (windowBindings r ! i) = w) [0..<windowBindingCount r] = res \<Longrightarrow>
     bound_lifetime r (inst, w) = map_option (\<lambda>i. win_lifetime (windowBindings r ! i)) res"
proof -
  let ?P = "\<lambda>i. win_instanceOwner (windowBindings r ! i) = inst \<and> win_windowId (windowBindings r ! i) = w"
  assume res: "find ?P [0..<windowBindingCount r] = res"
  have len: "length (win_list r) = windowBindingCount r" "\<And>i. i < windowBindingCount r \<Longrightarrow> win_list r ! i = windowBindings r ! i"
    using assms by (simp_all add: win_ok_def win_list_def)
  show "bound_lifetime r (inst, w) = map_option (\<lambda>i. win_lifetime (windowBindings r ! i)) res"
  proof (cases res)
    case None
    then have "\<forall>i<windowBindingCount r. \<not> ?P i" using res by (auto simp: find_None_iff)
    then have "(inst, w) \<notin> fst ` set (map (\<lambda>b. (win_key b, win_lifetime b)) (win_list r))"
      using len by (auto simp: in_set_conv_nth win_key_def) blast
    then show ?thesis unfolding bound_lifetime_def using None by (simp add: map_of_eq_None_iff)
  next
    case (Some i)
    then have i: "i < windowBindingCount r" "?P i" using res by (auto simp: find_Some_iff)
    have "map_of (map (\<lambda>b. (win_key b, win_lifetime b)) (win_list r)) (win_key (win_list r ! i)) =
        Some (win_lifetime (win_list r ! i))"
      using assms i(1) len(1) nth_mem [of i "win_list r"]
      by (intro map_of_is_SomeI) (auto simp: win_ok_def comp_def)
    then show ?thesis unfolding bound_lifetime_def using Some i len by (simp add: win_key_def)
  qed
qed

lemma take_Suc_update: "n < length xs \<Longrightarrow> take (Suc n) (xs[n := x]) = take n xs @ [x]"
  by (simp add: take_Suc_conv_app_nth)

lemma bind_effect:
  assumes ok: "win_ok r" and nz: "inst \<noteq> 0" "w \<noteq> 0" "lt \<noteq> 0"
    and eq: "bindWindowLifetimeLocked r inst w lt = (st, r')"
  shows "win_ok r' \<and>
    (case bound_lifetime r (inst, w) of
       Some l \<Rightarrow> r' = r \<and> st = (if l = lt then VORTEK_HANDLE_OK else VORTEK_HANDLE_WINDOW_REJECTED)
     | None \<Rightarrow> if windowBindingCount r = windowBindingCapacity r then r' = r \<and> st = VORTEK_HANDLE_CAPACITY
               else st = VORTEK_HANDLE_OK \<and> bound_lifetime r' = (bound_lifetime r)((inst, w) \<mapsto> lt))"
proof -
  let ?P = "\<lambda>i. win_instanceOwner (windowBindings r ! i) = inst \<and> win_windowId (windowBindings r ! i) = w"
  show ?thesis
  proof (cases "find ?P [0..<windowBindingCount r]")
    case (Some i)
    have b: "bound_lifetime r (inst, w) = Some (win_lifetime (windowBindings r ! i))"
      using find_binding [OF ok Some] by simp
    have "r' = r" "st = (if win_lifetime (windowBindings r ! i) = lt then VORTEK_HANDLE_OK
        else VORTEK_HANDLE_WINDOW_REJECTED)"
      using eq Some nz unfolding bindWindowLifetimeLocked_def
      by (simp_all split: if_splits)
    with ok b show ?thesis by simp
  next
    case None
    have b: "bound_lifetime r (inst, w) = None" using find_binding [OF ok None] by simp
    show ?thesis
    proof (cases "windowBindingCount r = windowBindingCapacity r")
      case True
      then show ?thesis using eq None nz ok b unfolding bindWindowLifetimeLocked_def by simp
    next
      case False
      let ?b = "\<lparr>win_instanceOwner = inst, win_lifetime = lt, win_windowId = w\<rparr>"
      have lt: "windowBindingCount r < windowBindingCapacity r" using ok False by (simp add: win_ok_def)
      then have r': "st = VORTEK_HANDLE_OK" "r' = r\<lparr>windowBindings := (windowBindings r)[windowBindingCount r := ?b],
          windowBindingCount := windowBindingCount r + 1\<rparr>"
        using eq None nz unfolding bindWindowLifetimeLocked_def by simp_all
      have wl: "win_list r' = win_list r @ [?b]"
        using ok lt by (simp add: r'(2) win_list_def win_ok_def take_Suc_update)
      have new: "(inst, w) \<notin> set (map win_key (win_list r))"
        using b unfolding bound_lifetime_def map_of_eq_None_iff by force
      have "win_ok r'" using ok lt new by (simp add: win_ok_def wl) (simp add: r'(2) win_key_def)
      moreover have "bound_lifetime r' = (bound_lifetime r)((inst, w) \<mapsto> lt)"
      proof -
        have key: "win_key ?b = (inst, w)" by (simp add: win_key_def)
        have "map_of (xs @ [(k, v)]) = (map_of xs)(k \<mapsto> v)" if "k \<notin> fst ` set xs"
          for xs :: "((VortekHandleToken \<times> u32) \<times> u64) list" and k v
        proof -
          have "map_of xs k = None" using that by (simp add: map_of_eq_None_iff)
          then show ?thesis by (auto simp: map_add_def fun_eq_iff split: option.split)
        qed
        moreover have "(inst, w) \<notin> fst ` set (map (\<lambda>b. (win_key b, win_lifetime b)) (win_list r))"
          using new by force
        ultimately show ?thesis unfolding bound_lifetime_def wl by (simp add: key)
      qed
      ultimately show ?thesis using b r'(1) False by simp
    qed
  qed
qed

section \<open>Purging an instance\<close>

lemma purge_loop_mset:
  "purge_windows_loop bs cnt inst index = (bs', cnt2) \<Longrightarrow> cnt \<le> length bs \<Longrightarrow> index \<le> cnt \<Longrightarrow>
     (\<forall>i<index. win_instanceOwner (bs ! i) \<noteq> inst) \<Longrightarrow>
     length bs' = length bs \<and> cnt2 \<le> cnt \<and>
     mset (take cnt2 bs') = filter_mset (\<lambda>b. win_instanceOwner b \<noteq> inst) (mset (take cnt bs))"
proof (induction bs cnt inst index arbitrary: bs' cnt2 rule: purge_windows_loop.induct)
  case (1 bs cnt inst index)
  show ?case
  proof (cases "index < cnt")
    case False
    then have "cnt = index" using 1(5) by simp
    moreover have "bs' = bs" "cnt2 = cnt" using 1(3) False by (simp_all add: purge_windows_loop.simps)
    moreover have "filter (\<lambda>b. win_instanceOwner b \<noteq> inst) (take index bs) = take index bs"
      using 1(4-6) by (auto simp: filter_id_conv in_set_conv_nth) blast
    ultimately show ?thesis using 1(4) by (simp flip: mset_filter)
  next
    case lt: True
    show ?thesis
    proof (cases "win_instanceOwner (bs ! index) \<noteq> inst")
      case True
      have "purge_windows_loop bs cnt inst (index + 1) = (bs', cnt2)"
        using 1(3) lt True by (subst (asm) purge_windows_loop.simps) simp
      then show ?thesis using 1(1) [OF lt True] 1(4,6) lt True less_Suc_eq by auto
    next
      case False
      let ?last = "cnt - 1"
      let ?bs1 = "(if index \<noteq> ?last then bs[index := bs ! ?last] else bs)[?last := zero_binding]"
      have c: "cnt = Suc ?last" "?last < length bs" using lt 1(4) by simp_all
      have rec: "purge_windows_loop ?bs1 ?last inst index = (bs', cnt2)"
        using 1(3) unfolding purge_windows_loop.simps [of bs cnt inst index] Let_def
        using lt False by (simp only: if_True if_False not_not simp_thms)
      have pre: "\<forall>i<index. win_instanceOwner (?bs1 ! i) \<noteq> inst"
        using 1(6) lt by (auto simp: nth_list_update)
      have IH: "length bs' = length ?bs1 \<and> cnt2 \<le> ?last \<and>
          mset (take cnt2 bs') = filter_mset (\<lambda>b. win_instanceOwner b \<noteq> inst) (mset (take ?last ?bs1))"
        using 1(2) [OF lt _ refl refl rec] False 1(4) lt pre by (auto simp: Let_def)
      have t1: "take ?last ?bs1 = (take ?last bs)[index := bs ! ?last]"
        using lt by (auto simp: take_update_swap list_update_beyond)
      have "mset (take cnt bs) = add_mset (bs ! ?last) (mset (take ?last bs))"
        using take_Suc_conv_app_nth [OF c(2)] c(1) by simp
      moreover have "filter_mset (\<lambda>b. win_instanceOwner b \<noteq> inst) (mset ((take ?last bs)[index := bs ! ?last])) =
          filter_mset (\<lambda>b. win_instanceOwner b \<noteq> inst) (add_mset (bs ! ?last) (mset (take ?last bs)))"
      proof (cases "index < ?last")
        case True
        then have "mset ((take ?last bs)[index := bs ! ?last]) =
            add_mset (bs ! ?last) (mset (take ?last bs) - {#bs ! index#})"
          using c(2) by (simp add: mset_update)
        moreover have "bs ! index \<in># mset (take ?last bs)"
          using True c(2) by (auto simp: in_set_conv_nth intro!: exI [of _ index])
        then obtain M where "mset (take ?last bs) = add_mset (bs ! index) M" by (blast dest: multi_member_split)
        ultimately show ?thesis using False by simp
      next
        case nl: False
        then have "index = ?last" using lt by simp
        then show ?thesis using False by (simp add: list_update_beyond)
      qed
      ultimately show ?thesis using IH unfolding t1 by auto
    qed
  qed
qed


lemma purge_effect:
  assumes ok: "win_ok r" and "inst \<noteq> 0"
  shows "win_ok (purgeWindowBindingsLocked r inst)"
    and "bound_lifetime (purgeWindowBindingsLocked r inst) (i, w) =
      (if i = inst then None else bound_lifetime r (i, w))"
proof -
  let ?r = "purgeWindowBindingsLocked r inst"
  obtain bs n where loop: "purge_windows_loop (windowBindings r) (windowBindingCount r) inst 0 = (bs, n)"
    by fastforce
  have r': "?r = r\<lparr>windowBindings := bs, windowBindingCount := n\<rparr>"
    using assms(2) loop by (simp add: purgeWindowBindingsLocked_def)
  have m: "length bs = length (windowBindings r) \<and> n \<le> windowBindingCount r \<and>
      mset (win_list ?r) = filter_mset (\<lambda>b. win_instanceOwner b \<noteq> inst) (mset (win_list r))"
    using purge_loop_mset [OF loop] ok by (simp add: r' win_list_def win_ok_def)
  then have mf: "mset (win_list ?r) = mset (filter (\<lambda>b. win_instanceOwner b \<noteq> inst) (win_list r))"
    by (simp add: mset_filter)
  have "distinct (map win_key (filter (\<lambda>b. win_instanceOwner b \<noteq> inst) (win_list r)))"
    using ok by (simp add: win_ok_def distinct_map_filter)
  then have dist: "distinct (map win_key (win_list ?r))"
    using mf by (metis mset_eq_imp_distinct_iff mset_map)
  then show "win_ok ?r" using ok m by (simp add: win_ok_def r')
  have dist0: "distinct (map win_key (win_list r))" using ok by (simp add: win_ok_def)
  have key: "map_of (map (\<lambda>b. (win_key b, win_lifetime b)) xs) (i, w) = Some l \<longleftrightarrow>
      (\<exists>b\<in>set xs. win_key b = (i, w) \<and> win_lifetime b = l)"
    if "distinct (map win_key xs)" for xs l
  proof -
    have "distinct (map fst (map (\<lambda>b. (win_key b, win_lifetime b)) xs))" using that by (simp add: comp_def)
    from map_of_eq_Some_iff [OF this] show ?thesis by (force simp: image_iff)
  qed
  have "set (win_list ?r) = {b \<in> set (win_list r). win_instanceOwner b \<noteq> inst}"
    using mf by (metis mset_eq_setD set_filter)
  then have "bound_lifetime ?r (i, w) = Some l \<longleftrightarrow> i \<noteq> inst \<and> bound_lifetime r (i, w) = Some l" for l
    unfolding bound_lifetime_def key [OF dist] key [OF dist0] by (auto simp: win_key_def)
  note iff = this
  show "bound_lifetime ?r (i, w) = (if i = inst then None else bound_lifetime r (i, w))"
  proof (cases "bound_lifetime ?r (i, w)")
    case None
    then show ?thesis using iff by (cases "bound_lifetime r (i, w)") auto
  next
    case (Some l)
    then show ?thesis using iff [of l] by auto
  qed
qed

section \<open>The guarantees\<close>

text \<open>Once an instance has used a window, a validation of the same window by the same instance
  succeeds only while the window still has the lifetime it had then: a window id that the window
  system recycled for another window is rejected. A first use binds the lifetime the callback
  reports and no other binding changes.\<close>

theorem window_lifetime_pinned:
  assumes "win_ok r" and "w \<noteq> 0"
    and "VortekHandleRegistry_validateWindowId callback (Some r) w (generation r) inst allowNull True =
      (st, out, Some r')"
  defines "now \<equiv> callback (windowValidator r) (windowValidatorUserdata r) (generation r) inst (ucast w)"
  shows "win_ok r' \<and>
    (st = VORTEK_HANDLE_OK \<longrightarrow> out = Some (ucast w) \<and> now \<noteq> 0 \<and> uint w \<le> INT32_MAX \<and>
       live_as r inst VK_OBJECT_TYPE_INSTANCE \<and>
       bound_lifetime r (inst, ucast w) \<in> {None, Some now} \<and>
       bound_lifetime r' = (bound_lifetime r)((inst, ucast w) \<mapsto> now)) \<and>
    (st \<noteq> VORTEK_HANDLE_OK \<longrightarrow> out = None \<and> r' = r)"
proof -
  let ?ok = "\<not> closed r \<and> \<not> INT32_MAX < uint w \<and> inst \<noteq> 0 \<and>
      isLiveVulkanTypeLocked r inst VK_OBJECT_TYPE_INSTANCE \<noteq> None \<and> windowValidator r \<noteq> 0 \<and> now \<noteq> 0"
  show ?thesis
  proof (cases ?ok)
    case False
    then have "st \<noteq> VORTEK_HANDLE_OK \<and> out = None \<and> r' = r"
      using assms(2,3) unfolding now_def VortekHandleRegistry_validateWindowId_def
      by (auto simp: Let_def split: if_splits)
    then show ?thesis using assms(1) by simp
  next
    case True
    obtain st2 r2 where b: "bindWindowLifetimeLocked r inst (ucast w) now = (st2, r2)" by fastforce
    have res: "st = st2" "r' = r2" "out = (if st2 = VORTEK_HANDLE_OK then Some (ucast w) else None)"
      using assms(2,3) True b unfolding now_def VortekHandleRegistry_validateWindowId_def
      by (auto simp: Let_def)
    have uw: "(ucast w :: u32) \<noteq> 0"
    proof -
      have "0 < uint w" "uint w < 2 ^ 32"
        using assms(2) True by (simp_all add: INT32_MAX_def word_neq_0_conv word_less_def)
      then have "uint (ucast w :: u32) \<noteq> 0" by (simp add: unsigned_ucast_eq take_bit_int_eq_self)
      then show ?thesis by auto
    qed
    have "bound_lifetime r (inst, ucast w) = Some now \<Longrightarrow>
        (bound_lifetime r)((inst, ucast w) \<mapsto> now) = bound_lifetime r" by auto
    then show ?thesis
      using bind_effect [OF assms(1) _ uw _ b] True res
      by (auto simp: isLive_None_map split: option.splits if_splits)
  qed
qed

lemma create_win_ok: "VortekHandleRegistry_create ok gen cap = Some r \<Longrightarrow> win_ok r"
  by (auto simp: VortekHandleRegistry_create_def win_ok_def win_list_def split: if_splits)

lemma validateWindowId_pair:
  "\<exists>st out r'. VortekHandleRegistry_validateWindowId cb (Some r) w g inst nl ho = (st, out, Some r')"
  by (auto simp: VortekHandleRegistry_validateWindowId_def Let_def split: prod.split)

definition windowed :: VortekHandleRegistry where
  "windowed = (sys_reg small)\<lparr>windowValidator := 8, windowBindings := replicate 4 zero_binding,
     windowBindingCount := 0, windowBindingCapacity := 4\<rparr>"

theorem window_lifetime_pinned_witness:
  "\<exists>st out r'. VortekHandleRegistry_validateWindowId (\<lambda>_ _ _ _ _. 77) (Some windowed) 5 7 1 False True
      = (st, out, Some r') \<and> win_ok r' \<and> (st = VORTEK_HANDLE_OK \<longrightarrow> bound_lifetime r' (1, 5) = Some 77)"
proof -
  have w: "win_ok windowed" by (simp add: win_ok_def windowed_def win_list_def)
  have g: "generation windowed = 7" by (simp add: windowed_def small_facts)
  obtain st out r' where eq: "VortekHandleRegistry_validateWindowId (\<lambda>_ _ _ _ _. 77) (Some windowed) 5
      (generation windowed) 1 False True = (st, out, Some r')"
    using validateWindowId_pair by blast
  from window_lifetime_pinned [OF w _ eq] eq show ?thesis by (auto simp: g)
qed

text \<open>Retiring an instance forgets exactly its windows: the in-place removal loop (which moves the
  last binding into each gap) drops every binding of that instance, keeps every other binding with
  its lifetime, and leaves the table well formed.\<close>

theorem purge_forgets_exactly:
  assumes "win_ok r" and "inst \<noteq> 0"
  shows "win_ok (purgeWindowBindingsLocked r inst) \<and>
    bound_lifetime (purgeWindowBindingsLocked r inst) = (\<lambda>(i, w). if i = inst then None else bound_lifetime r (i, w))"
  using purge_effect [OF assms] by auto

theorem purge_forgets_exactly_witness:
  "bound_lifetime (purgeWindowBindingsLocked (windowed\<lparr>windowBindings := [\<lparr>win_instanceOwner = 1,
      win_lifetime = 77, win_windowId = 5\<rparr>, \<lparr>win_instanceOwner = 2, win_lifetime = 78, win_windowId = 6\<rparr>,
      \<lparr>win_instanceOwner = 1, win_lifetime = 79, win_windowId = 7\<rparr>, zero_binding], windowBindingCount := 3\<rparr>) 1) (2, 6)
    = Some 78"
  by (subst purge_forgets_exactly [THEN conjunct2])
    (simp_all add: win_ok_def win_list_def bound_lifetime_def win_key_def windowed_def numeral_3_eq_3)

end
