(* ===== verification/Decode.thy ===== *)
theory Decode
  imports Prelude
begin

text \<open>
  The bounds-checked decoder of wire requests, \<^verbatim>\<open>vortekrenderer/src/vortek_decode.c\<close>.

  Pointers into the request are 64-bit offsets from \<^verbatim>\<open>request_base\<close>; sizes are 64-bit words that
  wrap as \<^verbatim>\<open>size_t\<close> does, so that the overflow checks matter. A cursor and its shared state are
  passed explicitly and never NULL (the callers pass the addresses of locals); other pointer
  arguments that the code tests carry a flag or an option. A function that returns \<^verbatim>\<open>bool\<close> and writes
  through out pointers returns the tuple of result, outputs, cursor and state.
\<close>

unbundle bit_operations_syntax

section \<open>Limits, errors, data\<close>

definition VT_DECODE_MAX_REQUEST_BYTES :: u64 where
  "VT_DECODE_MAX_REQUEST_BYTES = 64 * 1024 * 1024"

definition VT_DECODE_MAX_ALLOCATION_BYTES :: u64 where
  "VT_DECODE_MAX_ALLOCATION_BYTES = 128 * 1024 * 1024"

definition VT_DECODE_MAX_ELEMENTS :: u64 where
  "VT_DECODE_MAX_ELEMENTS = 65536"

definition VT_DECODE_MAX_NODES :: u32 where
  "VT_DECODE_MAX_NODES = 262144"

definition VT_DECODE_MAX_DEPTH :: u32 where
  "VT_DECODE_MAX_DEPTH = 32"

definition VT_DECODE_MAX_PNEXT_NODES :: u32 where
  "VT_DECODE_MAX_PNEXT_NODES = 32"

definition VT_DECODE_INLINE_POOL_BYTES :: u64 where
  "VT_DECODE_INLINE_POOL_BYTES = 65536"

lemmas vt_limits =
  VT_DECODE_MAX_REQUEST_BYTES_def VT_DECODE_MAX_ALLOCATION_BYTES_def VT_DECODE_MAX_ELEMENTS_def
  VT_DECODE_MAX_NODES_def VT_DECODE_MAX_DEPTH_def VT_DECODE_MAX_PNEXT_NODES_def
  VT_DECODE_INLINE_POOL_BYTES_def

datatype VtDecodeError =
    VT_DECODE_ERROR_NONE
  | VT_DECODE_ERROR_ARGUMENT
  | VT_DECODE_ERROR_TRUNCATED
  | VT_DECODE_ERROR_TRAILING_BYTES
  | VT_DECODE_ERROR_INTEGER_OVERFLOW
  | VT_DECODE_ERROR_LIMIT
  | VT_DECODE_ERROR_NEGATIVE_LENGTH
  | VT_DECODE_ERROR_OUT_OF_MEMORY
  | VT_DECODE_ERROR_INVALID_BOOLEAN
  | VT_DECODE_ERROR_INVALID_STRING
  | VT_DECODE_ERROR_DEPTH
  | VT_DECODE_ERROR_PNEXT_DUPLICATE
  | VT_DECODE_ERROR_PNEXT_UNKNOWN
  | VT_DECODE_ERROR_PNEXT_TYPE
  | VT_DECODE_ERROR_PNEXT_TERMINATOR
  | VT_DECODE_ERROR_HANDLE_RESOLVER
  | VT_DECODE_ERROR_HANDLE_SCOPE
  | VT_DECODE_ERROR_HANDLE_REJECTED

datatype VtDecodeHandleRole =
    VT_DECODE_HANDLE_ROLE_VULKAN
  | VT_DECODE_HANDLE_ROLE_RESOURCE_MEMORY_DEVICE_MEMORY
  | VT_DECODE_HANDLE_ROLE_WINDOW_ID
  | VT_DECODE_HANDLE_ROLE_SHADER_MODULE_WRAPPER
  | VT_DECODE_HANDLE_ROLE_XWINDOW_SWAPCHAIN_WRAPPER

text \<open>The last constructor is any other value the C enum can hold.\<close>

datatype VtDecodeNullability =
    VT_DECODE_NULL_NEVER
  | VT_DECODE_NULL_VULKAN
  | VT_DECODE_NULL_DESCRIPTOR_FEATURE
  | VT_DECODE_NULL_OTHER int

definition VT_DECODE_OWNER_INSTANCE :: u32 where "VT_DECODE_OWNER_INSTANCE = 1"

definition VT_DECODE_OWNER_DEVICE :: u32 where "VT_DECODE_OWNER_DEVICE = 2"

record VtDecodeHandleRequest =
  req_wire_token :: u64
  req_context_generation :: u64
  req_instance_owner :: u64
  req_device_owner :: u64
  req_object_type :: u32
  req_owner_requirements :: u32
  req_role :: VtDecodeHandleRole
  req_nullability :: VtDecodeNullability

text \<open>
  \<open>dec_request\<close> are the bytes from \<^verbatim>\<open>request_base\<close> to \<^verbatim>\<open>request_end\<close>; \<open>dec_has_resolver\<close> says that the
  resolver pointer is not NULL (the resolver itself is an argument of the operation that calls it);
  \<open>dec_captured\<close> is the token array, \<^const>\<open>None\<close> for NULL.
\<close>

record VtDecodeState =
  dec_request :: "u8 list"
  dec_allocation_bytes :: u64
  dec_allocation_attempts :: u64
  dec_fail_allocation_after :: u64
  dec_nodes :: u32
  dec_error :: VtDecodeError
  dec_has_resolver :: bool
  dec_context_generation :: u64
  dec_instance_owner :: u64
  dec_device_owner :: u64
  dec_null_descriptor_enabled :: bool
  dec_capture_object_type :: u32
  dec_captured_tokens :: "u64 list option"
  dec_captured_capacity :: u64
  dec_captured_count :: u64

record VtDecodeCursor =
  cur_base :: u64
  cur_ptr :: u64
  cur_end :: u64
  cur_request_end :: u64
  cur_depth :: u32
  cur_pnext_count :: u32
  cur_pnext_types :: "u32 list"
  cur_expected_pnext_type :: u32

text \<open>\<^verbatim>\<open>int32_t\<close> values are 32-bit words read with \<^const>\<open>sint\<close>.\<close>

definition neg32 :: "u32 \<Rightarrow> bool" where
  "neg32 v \<longleftrightarrow> sint v < 0"

definition le32 :: "u8 list \<Rightarrow> u32" where
  "le32 bs = (case bs of
     [b0, b1, b2, b3] \<Rightarrow> ucast b0 OR push_bit 8 (ucast b1) OR push_bit 16 (ucast b2) OR push_bit 24 (ucast b3)
   | _ \<Rightarrow> 0)"

section \<open>Errors and ranges\<close>

text \<open>The first error stays. The C function always returns false.\<close>

definition vt_decode_fail :: "VtDecodeState \<Rightarrow> VtDecodeError \<Rightarrow> VtDecodeState" where
  "vt_decode_fail s e = (if dec_error s = VT_DECODE_ERROR_NONE then s\<lparr>dec_error := e\<rparr> else s)"

definition vt_decode_ok :: "VtDecodeState \<Rightarrow> bool" where
  "vt_decode_ok s \<longleftrightarrow> dec_error s = VT_DECODE_ERROR_NONE"

definition vt_decode_remaining :: "VtDecodeCursor \<Rightarrow> u64" where
  "vt_decode_remaining c = (if cur_end c < cur_ptr c then 0 else cur_end c - cur_ptr c)"

text \<open>On success the result pointer is \<open>cur_base c + offset\<close>.\<close>

definition range_at :: "VtDecodeCursor \<Rightarrow> VtDecodeState \<Rightarrow> u64 \<Rightarrow> u64 \<Rightarrow> bool \<times> VtDecodeState" where
  "range_at c s offset sz =
     (if dec_error s \<noteq> VT_DECODE_ERROR_NONE then (False, s)
      else let available = cur_end c - cur_base c
           in if available < offset \<or> available - offset < sz
              then (False, vt_decode_fail s VT_DECODE_ERROR_TRUNCATED)
              else (True, s))"

definition request_slice :: "VtDecodeState \<Rightarrow> u64 \<Rightarrow> u64 \<Rightarrow> u8 list" where
  "request_slice s start sz = take (unat sz) (drop (unat start) (dec_request s))"

section \<open>Set-up\<close>

definition zero_state :: VtDecodeState where
  "zero_state = \<lparr>dec_request = [], dec_allocation_bytes = 0, dec_allocation_attempts = 0,
     dec_fail_allocation_after = 0, dec_nodes = 0, dec_error = VT_DECODE_ERROR_NONE,
     dec_has_resolver = False, dec_context_generation = 0, dec_instance_owner = 0,
     dec_device_owner = 0, dec_null_descriptor_enabled = False, dec_capture_object_type = 0,
     dec_captured_tokens = None, dec_captured_capacity = 0, dec_captured_count = 0\<rparr>"

definition zero_cursor :: VtDecodeCursor where
  "zero_cursor = \<lparr>cur_base = 0, cur_ptr = 0, cur_end = 0, cur_request_end = 0, cur_depth = 0,
     cur_pnext_count = 0, cur_pnext_types = replicate 32 0, cur_expected_pnext_type = 0\<rparr>"

text \<open>\<open>data\<close> is the memory at the data pointer (\<^const>\<open>None\<close>: NULL), at least \<open>sz\<close> bytes. The result
  of the early return leaves both structs unwritten.\<close>

definition vt_decode_cursor_init ::
  "u8 list ptr \<Rightarrow> u64 \<Rightarrow> (bool \<times> VtDecodeCursor \<times> VtDecodeState) option" where
  "vt_decode_cursor_init data sz =
     (if data = None \<and> sz \<noteq> 0 then None
      else if VT_DECODE_MAX_REQUEST_BYTES < sz
      then Some (False, zero_cursor, zero_state\<lparr>dec_error := VT_DECODE_ERROR_LIMIT\<rparr>)
      else Some (True,
        zero_cursor\<lparr>cur_end := sz, cur_request_end := sz, cur_expected_pnext_type := - 1\<rparr>,
        zero_state\<lparr>dec_request := (case data of None \<Rightarrow> [] | Some bs \<Rightarrow> take (unat sz) bs),
          dec_fail_allocation_after := - 1\<rparr>))"

definition vt_decode_fail_allocation_after :: "VtDecodeState \<Rightarrow> u64 \<Rightarrow> VtDecodeState" where
  "vt_decode_fail_allocation_after s n = s\<lparr>dec_fail_allocation_after := n\<rparr>"

definition vt_decode_set_handle_resolver :: "VtDecodeState \<Rightarrow> bool \<Rightarrow> u64 \<Rightarrow> VtDecodeState" where
  "vt_decode_set_handle_resolver s resolver gen =
     s\<lparr>dec_has_resolver := resolver, dec_context_generation := gen\<rparr>"

definition vt_decode_set_handle_scope :: "VtDecodeState \<Rightarrow> u64 \<Rightarrow> u64 \<Rightarrow> VtDecodeState" where
  "vt_decode_set_handle_scope s inst dev = s\<lparr>dec_instance_owner := inst, dec_device_owner := dev\<rparr>"

definition vt_decode_set_null_descriptor_enabled :: "VtDecodeState \<Rightarrow> bool \<Rightarrow> VtDecodeState" where
  "vt_decode_set_null_descriptor_enabled s enabled = s\<lparr>dec_null_descriptor_enabled := enabled\<rparr>"

definition vt_decode_capture_handle_tokens ::
  "VtDecodeState \<Rightarrow> u32 \<Rightarrow> u64 list option \<Rightarrow> u64 \<Rightarrow> VtDecodeState" where
  "vt_decode_capture_handle_tokens s type tokens cap =
     s\<lparr>dec_capture_object_type := type, dec_captured_tokens := tokens,
       dec_captured_capacity := cap, dec_captured_count := 0\<rparr>"

definition vt_decode_captured_handle_count :: "VtDecodeState \<Rightarrow> u64" where
  "vt_decode_captured_handle_count s = dec_captured_count s"

section \<open>Reading\<close>

text \<open>The bytes copied to a non-NULL output (\<open>haveOut\<close>).\<close>

definition vt_decode_read_at ::
  "VtDecodeCursor \<Rightarrow> VtDecodeState \<Rightarrow> u64 \<Rightarrow> bool \<Rightarrow> u64 \<Rightarrow> bool \<times> u8 list \<times> VtDecodeState" where
  "vt_decode_read_at c s offset haveOut sz =
     (if \<not> haveOut \<and> sz \<noteq> 0 then (False, [], vt_decode_fail s VT_DECODE_ERROR_ARGUMENT)
      else case range_at c s offset sz of
        (False, s') \<Rightarrow> (False, [], s')
      | (True, s') \<Rightarrow> (True, request_slice s (cur_base c + offset) sz, s'))"

definition vt_decode_copy_at ::
  "VtDecodeCursor \<Rightarrow> VtDecodeState \<Rightarrow> u64 \<Rightarrow> bool \<Rightarrow> u64 \<Rightarrow> bool \<times> u8 list \<times> VtDecodeState" where
  "vt_decode_copy_at c s offset haveOut sz = vt_decode_read_at c s offset haveOut sz"

definition vt_decode_i32_at ::
  "VtDecodeCursor \<Rightarrow> VtDecodeState \<Rightarrow> u64 \<Rightarrow> bool \<times> u32 option \<times> VtDecodeState" where
  "vt_decode_i32_at c s offset =
     (case vt_decode_read_at c s offset True 4 of
        (ok, bytes, s') \<Rightarrow> (ok, if ok then Some (le32 bytes) else None, s'))"

definition vt_decode_add_size :: "u64 \<Rightarrow> u64 \<Rightarrow> u64 option" where
  "vt_decode_add_size left right = (if - 1 - left < right then None else Some (left + right))"

definition vt_decode_multiply_size :: "u64 \<Rightarrow> u64 \<Rightarrow> u64 option" where
  "vt_decode_multiply_size count element_size =
     (if element_size \<noteq> 0 \<and> (- 1) div element_size < count then None
      else Some (count * element_size))"

text \<open>The offset is passed by reference.\<close>

definition vt_decode_advance ::
  "VtDecodeCursor \<Rightarrow> VtDecodeState \<Rightarrow> u64 \<Rightarrow> u64 \<Rightarrow> bool \<times> u64 \<times> VtDecodeCursor \<times> VtDecodeState" where
  "vt_decode_advance c s offset amount =
     (case vt_decode_add_size offset amount of
        None \<Rightarrow> (False, offset, c, vt_decode_fail s VT_DECODE_ERROR_INTEGER_OVERFLOW)
      | Some nxt \<Rightarrow>
          (case range_at c s offset amount of
             (False, s') \<Rightarrow> (False, offset, c, s')
           | (True, s') \<Rightarrow> (True, nxt, c\<lparr>cur_ptr := cur_base c + nxt\<rparr>, s')))"

definition vt_decode_advance_array ::
  "VtDecodeCursor \<Rightarrow> VtDecodeState \<Rightarrow> u64 \<Rightarrow> u64 \<Rightarrow> u64 \<Rightarrow> bool \<times> u64 \<times> VtDecodeCursor \<times> VtDecodeState" where
  "vt_decode_advance_array c s offset count element_size =
     (case vt_decode_multiply_size count element_size of
        None \<Rightarrow> (False, offset, c, vt_decode_fail s VT_DECODE_ERROR_INTEGER_OVERFLOW)
      | Some amount \<Rightarrow> vt_decode_advance c s offset amount)"

definition vt_decode_presence_at ::
  "VtDecodeCursor \<Rightarrow> VtDecodeState \<Rightarrow> u64 \<Rightarrow> bool \<times> bool option \<times> u64 \<times> VtDecodeCursor \<times> VtDecodeState" where
  "vt_decode_presence_at c s offset =
     (case vt_decode_read_at c s offset True 1 of
        (False, _, s') \<Rightarrow> (False, None, offset, c, s')
      | (True, bytes, s') \<Rightarrow>
          (case vt_decode_advance c s' offset 1 of
             (False, offset', c', s'') \<Rightarrow> (False, None, offset', c', s'')
           | (True, offset', c', s'') \<Rightarrow>
               if 1 < hd bytes
               then (False, None, offset', c', vt_decode_fail s'' VT_DECODE_ERROR_INVALID_BOOLEAN)
               else (True, Some (hd bytes \<noteq> 0), offset', c', s'')))"

text \<open>The common last test: the four bytes of the count and \<open>bytes\<close> more lie in the cursor's range.\<close>

definition payload_fits :: "VtDecodeCursor \<Rightarrow> u64 \<Rightarrow> u64 \<Rightarrow> bool" where
  "payload_fits c offset bytes =
     (let available = cur_end c - cur_base c
      in \<not> (available < offset \<or> available - offset < 4 \<or> available - offset - 4 < bytes))"

definition vt_decode_data_size_at ::
  "VtDecodeCursor \<Rightarrow> VtDecodeState \<Rightarrow> u64 \<Rightarrow> bool \<times> u32 option \<times> VtDecodeState" where
  "vt_decode_data_size_at c s offset =
     (case vt_decode_i32_at c s offset of
        (True, Some v, s') \<Rightarrow>
          if neg32 v then (False, Some v, vt_decode_fail s' VT_DECODE_ERROR_NEGATIVE_LENGTH)
          else if \<not> payload_fits c offset (scast v)
          then (False, Some v, vt_decode_fail s' VT_DECODE_ERROR_TRUNCATED)
          else (True, Some v, s')
      | (_, v, s') \<Rightarrow> (False, v, s'))"

definition vt_decode_length_i32_at ::
  "VtDecodeCursor \<Rightarrow> VtDecodeState \<Rightarrow> u64 \<Rightarrow> u64 \<Rightarrow> bool \<times> u32 option \<times> VtDecodeState" where
  "vt_decode_length_i32_at c s offset minimum_element_size =
     (case vt_decode_i32_at c s offset of
        (True, Some v, s') \<Rightarrow>
          if neg32 v then (False, Some v, vt_decode_fail s' VT_DECODE_ERROR_NEGATIVE_LENGTH)
          else if VT_DECODE_MAX_ELEMENTS < ucast v
          then (False, Some v, vt_decode_fail s' VT_DECODE_ERROR_LIMIT)
          else if minimum_element_size = 0 then (True, Some v, s')
          else (case vt_decode_multiply_size (scast v) minimum_element_size of
                  None \<Rightarrow> (False, Some v, vt_decode_fail s' VT_DECODE_ERROR_INTEGER_OVERFLOW)
                | Some bytes \<Rightarrow>
                    if \<not> payload_fits c offset bytes
                    then (False, Some v, vt_decode_fail s' VT_DECODE_ERROR_TRUNCATED)
                    else (True, Some v, s'))
      | (_, v, s') \<Rightarrow> (False, v, s'))"

definition vt_decode_string_at ::
  "VtDecodeCursor \<Rightarrow> VtDecodeState \<Rightarrow> u64 \<Rightarrow> u64 \<Rightarrow> bool \<Rightarrow> bool \<times> u8 list \<times> VtDecodeState" where
  "vt_decode_string_at c s offset sz haveOut =
     (if sz = 0 then (False, [], vt_decode_fail s VT_DECODE_ERROR_INVALID_STRING)
      else case vt_decode_copy_at c s offset haveOut sz of
        (False, out, s') \<Rightarrow> (False, out, vt_decode_fail s' VT_DECODE_ERROR_INVALID_STRING)
      | (True, out, s') \<Rightarrow>
          if out ! (unat sz - 1) \<noteq> 0 \<or> 0 \<in> set (take (unat sz - 1) out)
          then (False, out, vt_decode_fail s' VT_DECODE_ERROR_INVALID_STRING)
          else (True, out, s'))"

definition vt_decode_validate_count :: "VtDecodeState \<Rightarrow> u64 \<Rightarrow> bool \<times> VtDecodeState" where
  "vt_decode_validate_count s count =
     (if VT_DECODE_MAX_ELEMENTS < count then (False, vt_decode_fail s VT_DECODE_ERROR_LIMIT)
      else (True, s))"

definition vt_decode_note_elements :: "VtDecodeState \<Rightarrow> u64 \<Rightarrow> bool \<times> VtDecodeState" where
  "vt_decode_note_elements s count =
     (case vt_decode_validate_count s count of
        (False, s') \<Rightarrow> (False, vt_decode_fail s' VT_DECODE_ERROR_LIMIT)
      | (True, s') \<Rightarrow>
          if ucast (VT_DECODE_MAX_NODES - dec_nodes s') < count
          then (False, vt_decode_fail s' VT_DECODE_ERROR_LIMIT)
          else (True, s'\<lparr>dec_nodes := dec_nodes s' + ucast count\<rparr>))"

section \<open>Children and the end of an object\<close>

text \<open>Result, parent, child (\<^const>\<open>None\<close>: not initialised), state.\<close>

definition vt_decode_child_at ::
  "VtDecodeCursor \<Rightarrow> VtDecodeState \<Rightarrow> u64 \<Rightarrow> u64
     \<Rightarrow> bool \<times> VtDecodeCursor \<times> VtDecodeCursor option \<times> VtDecodeState" where
  "vt_decode_child_at parent s offset sz =
     (case range_at parent s offset sz of
        (False, s') \<Rightarrow> (False, parent, None, s')
      | (True, s') \<Rightarrow>
          if VT_DECODE_MAX_DEPTH \<le> cur_depth parent
          then (False, parent, None, vt_decode_fail s' VT_DECODE_ERROR_DEPTH)
          else if VT_DECODE_MAX_NODES \<le> dec_nodes s'
          then (False, parent, None, vt_decode_fail s' VT_DECODE_ERROR_LIMIT)
          else let start = cur_base parent + offset;
                   s1 = s'\<lparr>dec_nodes := dec_nodes s' + 1\<rparr>;
                   child = zero_cursor\<lparr>cur_base := start, cur_ptr := start, cur_end := start + sz,
                     cur_request_end := cur_request_end parent, cur_depth := cur_depth parent + 1,
                     cur_expected_pnext_type := - 1\<rparr>
               in if neg32 (cur_expected_pnext_type parent) then (True, parent, Some child, s1)
                  else let parent' = parent\<lparr>cur_expected_pnext_type := - 1\<rparr>
                  in (case vt_decode_i32_at child s1 0 of
                        (True, Some t, s2) \<Rightarrow>
                          if neg32 t \<or> t \<noteq> cur_pnext_types parent ! unat (cur_pnext_count parent - 1)
                          then (False, parent', Some child, vt_decode_fail s2 VT_DECODE_ERROR_PNEXT_TYPE)
                          else (True, parent', Some child, s2)
                      | (_, _, s2) \<Rightarrow> (False, parent', Some child, s2)))"

definition vt_decode_finished :: "VtDecodeCursor \<Rightarrow> VtDecodeState \<Rightarrow> bool \<times> VtDecodeState" where
  "vt_decode_finished c s =
     (if \<not> vt_decode_ok s then (False, s)
      else if cur_ptr c \<noteq> cur_end c then (False, vt_decode_fail s VT_DECODE_ERROR_TRAILING_BYTES)
      else if \<not> neg32 (cur_expected_pnext_type c) then (False, vt_decode_fail s VT_DECODE_ERROR_PNEXT_TYPE)
      else (True, s))"

text \<open>The macro around every nested decode: a child cursor, the decoder \<open>call\<close> of the nested object, and
  the check that it consumed the child exactly.\<close>

definition VT_DECODE_CHILD_CALL ::
  "VtDecodeCursor \<Rightarrow> VtDecodeState \<Rightarrow> u64 \<Rightarrow> u64
     \<Rightarrow> (VtDecodeCursor \<Rightarrow> VtDecodeState \<Rightarrow> bool \<times> VtDecodeCursor \<times> VtDecodeState)
     \<Rightarrow> bool \<times> VtDecodeCursor \<times> VtDecodeState" where
  "VT_DECODE_CHILD_CALL parent s offset sz call =
     (case vt_decode_child_at parent s offset sz of
        (True, parent', Some child, s') \<Rightarrow>
          (case call child s' of
             (False, child', s'') \<Rightarrow> (False, parent', s'')
           | (True, child', s'') \<Rightarrow>
               (case vt_decode_finished child' s'' of (ok, s3) \<Rightarrow> (ok, parent', s3)))
      | (_, parent', _, s') \<Rightarrow> (False, parent', s'))"

section \<open>Extension chains\<close>

definition record_pnext ::
  "VtDecodeCursor \<Rightarrow> VtDecodeState \<Rightarrow> u32 \<Rightarrow> bool \<times> VtDecodeCursor \<times> VtDecodeState" where
  "record_pnext c s structure_type =
     (if neg32 structure_type then (False, c, vt_decode_fail s VT_DECODE_ERROR_PNEXT_TYPE)
      else if structure_type \<in> set (take (unat (cur_pnext_count c)) (cur_pnext_types c))
      then (False, c, vt_decode_fail s VT_DECODE_ERROR_PNEXT_DUPLICATE)
      else if VT_DECODE_MAX_PNEXT_NODES \<le> cur_pnext_count c
      then (False, c, vt_decode_fail s VT_DECODE_ERROR_LIMIT)
      else (True, c\<lparr>cur_pnext_types := (cur_pnext_types c)[unat (cur_pnext_count c) := structure_type],
                    cur_pnext_count := cur_pnext_count c + 1\<rparr>, s))"

definition vt_decode_pnext_known ::
  "VtDecodeCursor \<Rightarrow> VtDecodeState \<Rightarrow> u32 \<Rightarrow> u32 \<Rightarrow> bool \<times> VtDecodeCursor \<times> VtDecodeState" where
  "vt_decode_pnext_known c s structure_type item_size =
     (if sint item_size \<le> 0 then (False, c, vt_decode_fail s VT_DECODE_ERROR_PNEXT_TYPE)
      else case record_pnext c s structure_type of
        (False, c', s') \<Rightarrow> (False, c', s')
      | (True, c', s') \<Rightarrow> (True, c'\<lparr>cur_expected_pnext_type := structure_type\<rparr>, s'))"

definition vt_decode_pnext_unknown ::
  "VtDecodeCursor \<Rightarrow> VtDecodeState \<Rightarrow> u32 \<Rightarrow> u32 \<Rightarrow> bool \<times> VtDecodeCursor \<times> VtDecodeState" where
  "vt_decode_pnext_unknown c s structure_type item_size =
     (if neg32 item_size then (False, c, vt_decode_fail s VT_DECODE_ERROR_NEGATIVE_LENGTH)
      else case record_pnext c s structure_type of
        (False, c', s') \<Rightarrow> (False, c', s')
      | (True, c', s') \<Rightarrow>
          if item_size \<noteq> 0 then (False, c', vt_decode_fail s' VT_DECODE_ERROR_PNEXT_UNKNOWN)
          else (True, c', s'))"

definition vt_decode_pnext_terminated :: "VtDecodeState \<Rightarrow> u32 \<Rightarrow> bool \<times> VtDecodeState" where
  "vt_decode_pnext_terminated s structure_type =
     (if structure_type \<noteq> - 1 then (False, vt_decode_fail s VT_DECODE_ERROR_PNEXT_TERMINATOR)
      else (True, s))"

section \<open>Handles\<close>

text \<open>
  What the resolver callback leaves: its answer (\<^const>\<open>None\<close> for false, else the host bits), and the scope and the flag, which it
  sets in the state it shares with the decoder.
\<close>

record resolver_answer =
  ans_host :: "u64 option"
  ans_instance_owner :: u64
  ans_device_owner :: u64
  ans_null_descriptor_enabled :: bool

definition after_resolver :: "resolver_answer \<Rightarrow> VtDecodeState \<Rightarrow> VtDecodeState" where
  "after_resolver a s =
     vt_decode_set_null_descriptor_enabled
       (vt_decode_set_handle_scope s (ans_instance_owner a) (ans_device_owner a)) (ans_null_descriptor_enabled a)"

text \<open>The result carries the host value written to \<^verbatim>\<open>*host_value\<close>.\<close>

definition vt_decode_resolve_handle ::
  "(VtDecodeHandleRequest \<Rightarrow> VtDecodeState \<Rightarrow> resolver_answer) \<Rightarrow> VtDecodeState \<Rightarrow> u64 \<Rightarrow> u32 \<Rightarrow> VtDecodeHandleRole \<Rightarrow> u32
     \<Rightarrow> VtDecodeNullability \<Rightarrow> bool \<times> u64 \<times> VtDecodeState" where
  "vt_decode_resolve_handle resolver s wire_token object_type role owner_requirements nullability =
     (if \<not> dec_has_resolver s then (False, 0, vt_decode_fail s VT_DECODE_ERROR_HANDLE_RESOLVER)
      else if owner_requirements AND NOT (VT_DECODE_OWNER_INSTANCE OR VT_DECODE_OWNER_DEVICE) \<noteq> 0
      then (False, 0, vt_decode_fail s VT_DECODE_ERROR_ARGUMENT)
      else if nullability \<noteq> VT_DECODE_NULL_NEVER \<and> nullability \<noteq> VT_DECODE_NULL_VULKAN \<and>
              nullability \<noteq> VT_DECODE_NULL_DESCRIPTOR_FEATURE
      then (False, 0, vt_decode_fail s VT_DECODE_ERROR_ARGUMENT)
      else if wire_token = 0 \<and> (nullability = VT_DECODE_NULL_NEVER \<or>
                (nullability = VT_DECODE_NULL_DESCRIPTOR_FEATURE \<and> \<not> dec_null_descriptor_enabled s))
      then (False, 0, vt_decode_fail s VT_DECODE_ERROR_HANDLE_REJECTED)
      else let request = \<lparr>req_wire_token = wire_token,
                 req_context_generation = dec_context_generation s,
                 req_instance_owner = dec_instance_owner s, req_device_owner = dec_device_owner s,
                 req_object_type = object_type, req_owner_requirements = owner_requirements,
                 req_role = role, req_nullability = nullability\<rparr>;
               answer = resolver request s;
               s = after_resolver answer s
           in (case ans_host answer of
                 None \<Rightarrow> (False, 0, vt_decode_fail s VT_DECODE_ERROR_HANDLE_REJECTED)
               | Some resolved \<Rightarrow>
                   if (wire_token = 0) \<noteq> (resolved = 0)
                   then (False, 0, vt_decode_fail s VT_DECODE_ERROR_HANDLE_REJECTED)
                   else (case dec_captured_tokens s of
                     None \<Rightarrow> (True, resolved, s)
                   | Some tokens \<Rightarrow>
                       if dec_capture_object_type s \<noteq> object_type then (True, resolved, s)
                       else if dec_captured_capacity s \<le> dec_captured_count s
                       then (False, 0, vt_decode_fail s VT_DECODE_ERROR_LIMIT)
                       else (True, resolved,
                         s\<lparr>dec_captured_tokens := Some (tokens[unat (dec_captured_count s) := wire_token]),
                           dec_captured_count := dec_captured_count s + 1\<rparr>))))"

section \<open>Allocation\<close>

text \<open>
  The memory pool: whether its data pointer is set, the bytes in use (an \<^verbatim>\<open>int\<close>), and the list of
  separate allocations (their sizes in bytes stand for the pointers). An allocation is a place in
  the inline pool or a block of its own.
\<close>

record VtDecodeMemoryPool =
  pool_has_data :: bool
  pool_size :: u32
  list_size :: u32
  list_capacity :: u32
  list_elements :: "u64 list"

datatype VtDecodePlace = Inline u64 | Heap u64

definition VT_DECODE_MAX_ALIGN :: u64 where
  "VT_DECODE_MAX_ALIGN = 16"

definition INT_MAX :: u64 where
  "INT_MAX = 2147483647"

text \<open>\<open>realloc_ok\<close>: the reallocation, when it is made, succeeds.\<close>

definition pool_track_allocation ::
  "bool \<Rightarrow> VtDecodeMemoryPool \<Rightarrow> u64 \<Rightarrow> bool \<times> VtDecodeMemoryPool" where
  "pool_track_allocation realloc_ok p allocation =
     (if neg32 (list_size p) \<or> neg32 (list_capacity p) \<or> sint (list_capacity p) < sint (list_size p)
      then (False, p)
      else if list_size p \<noteq> list_capacity p
      then (True, p\<lparr>list_elements := (list_elements p)[unat (list_size p) := allocation],
                    list_size := list_size p + 1\<rparr>)
      else let old_capacity = (ucast (list_capacity p) :: u64);
               new_capacity = (if old_capacity < 4 then 4 else old_capacity + old_capacity div 2)
           in if new_capacity \<le> old_capacity \<or> INT_MAX < new_capacity \<or> (- 1) div 8 < new_capacity
              then (False, p)
              else if \<not> realloc_ok then (False, p)
              else let elements = list_elements p @ replicate (unat (new_capacity - old_capacity)) 0
              in (True, p\<lparr>list_elements := elements[unat (list_size p) := allocation],
                    list_capacity := ucast new_capacity, list_size := list_size p + 1\<rparr>))"

definition alloc_fail ::
  "VtDecodeState \<Rightarrow> VtDecodeMemoryPool \<Rightarrow> VtDecodeError
     \<Rightarrow> VtDecodePlace option \<times> VtDecodeMemoryPool \<times> VtDecodeState" where
  "alloc_fail s p e = (None, p, vt_decode_fail s e)"

text \<open>The tail both allocators share: the inline pool if the block fits, else \<^verbatim>\<open>calloc\<close> and a list entry.\<close>

definition pool_place ::
  "bool \<Rightarrow> bool \<Rightarrow> VtDecodeState \<Rightarrow> VtDecodeMemoryPool \<Rightarrow> u64
     \<Rightarrow> VtDecodePlace option \<times> VtDecodeMemoryPool \<times> VtDecodeState" where
  "pool_place calloc_ok realloc_ok s p bytes =
     (let raw_offset = (ucast (pool_size p) :: u64);
          padding = (VT_DECODE_MAX_ALIGN - raw_offset mod VT_DECODE_MAX_ALIGN) mod VT_DECODE_MAX_ALIGN;
          heap = (if \<not> calloc_ok then alloc_fail s p VT_DECODE_ERROR_OUT_OF_MEMORY
                  else case pool_track_allocation realloc_ok p bytes of
                    (False, p') \<Rightarrow> alloc_fail s p' VT_DECODE_ERROR_OUT_OF_MEMORY
                  | (True, p') \<Rightarrow> (Some (Heap bytes), p',
                      s\<lparr>dec_allocation_bytes := dec_allocation_bytes s + bytes\<rparr>))
      in if neg32 (pool_size p) then heap
         else (case vt_decode_add_size raw_offset padding of
                 None \<Rightarrow> heap
               | Some aligned_offset \<Rightarrow>
                   if aligned_offset \<le> VT_DECODE_INLINE_POOL_BYTES \<and>
                      bytes \<le> VT_DECODE_INLINE_POOL_BYTES - aligned_offset \<and> pool_has_data p
                   then (Some (Inline aligned_offset), p\<lparr>pool_size := ucast (aligned_offset + bytes)\<rparr>,
                         s\<lparr>dec_allocation_bytes := dec_allocation_bytes s + bytes\<rparr>)
                   else heap))"

text \<open>The memory pool argument is NULL when it is \<^const>\<open>None\<close>.\<close>

definition vt_decode_alloc ::
  "bool \<Rightarrow> bool \<Rightarrow> VtDecodeCursor \<Rightarrow> VtDecodeState \<Rightarrow> VtDecodeMemoryPool ptr \<Rightarrow> u64 \<Rightarrow> u64
     \<Rightarrow> VtDecodePlace option \<times> VtDecodeMemoryPool ptr \<times> VtDecodeState" where
  "vt_decode_alloc calloc_ok realloc_ok c s pool count element_size =
     (case pool of
        None \<Rightarrow> (None, None, vt_decode_fail s VT_DECODE_ERROR_LIMIT)
      | Some p \<Rightarrow>
          (case vt_decode_validate_count s count of
             (False, s') \<Rightarrow> (None, pool, vt_decode_fail s' VT_DECODE_ERROR_LIMIT)
           | (True, s') \<Rightarrow>
               (case vt_decode_multiply_size count element_size of
                  None \<Rightarrow> (None, pool, vt_decode_fail s' VT_DECODE_ERROR_INTEGER_OVERFLOW)
                | Some bytes \<Rightarrow>
                    if vt_decode_remaining c < count
                    then (None, pool, vt_decode_fail s' VT_DECODE_ERROR_TRUNCATED)
                    else let s1 = s'\<lparr>dec_allocation_attempts := dec_allocation_attempts s' + 1\<rparr>
                    in if dec_fail_allocation_after s' \<le> dec_allocation_attempts s'
                       then (None, pool, vt_decode_fail s1 VT_DECODE_ERROR_OUT_OF_MEMORY)
                       else if bytes = 0 \<or> VT_DECODE_MAX_ALLOCATION_BYTES < dec_allocation_bytes s1 \<or>
                               VT_DECODE_MAX_ALLOCATION_BYTES - dec_allocation_bytes s1 < bytes
                       then (None, pool, vt_decode_fail s1 VT_DECODE_ERROR_LIMIT)
                       else (case pool_place calloc_ok realloc_ok s1 p bytes of
                               (place, p', s2) \<Rightarrow> (place, Some p', s2)))))"

definition vt_decode_alloc_bytes ::
  "bool \<Rightarrow> bool \<Rightarrow> VtDecodeCursor \<Rightarrow> VtDecodeState \<Rightarrow> VtDecodeMemoryPool ptr \<Rightarrow> u64
     \<Rightarrow> VtDecodePlace option \<times> VtDecodeMemoryPool ptr \<times> VtDecodeState" where
  "vt_decode_alloc_bytes calloc_ok realloc_ok c s pool bytes =
     (case pool of
        None \<Rightarrow> (None, None, vt_decode_fail s VT_DECODE_ERROR_LIMIT)
      | Some p \<Rightarrow>
          if bytes = 0 \<or> VT_DECODE_MAX_ALLOCATION_BYTES < dec_allocation_bytes s \<or>
             VT_DECODE_MAX_ALLOCATION_BYTES - dec_allocation_bytes s < bytes
          then (None, pool, vt_decode_fail s VT_DECODE_ERROR_LIMIT)
          else if vt_decode_remaining c < bytes
          then (None, pool, vt_decode_fail s VT_DECODE_ERROR_TRUNCATED)
          else let s1 = s\<lparr>dec_allocation_attempts := dec_allocation_attempts s + 1\<rparr>
          in if dec_fail_allocation_after s \<le> dec_allocation_attempts s
             then (None, pool, vt_decode_fail s1 VT_DECODE_ERROR_OUT_OF_MEMORY)
             else (case pool_place calloc_ok realloc_ok s1 p bytes of
                     (place, p', s2) \<Rightarrow> (place, Some p', s2)))"

end
