(* ===== verification/Decode_Machine.thy ===== *)
theory Decode_Machine
  imports Decode
begin

text \<open>
  The decoder as a machine: a stack of cursors over one request (a child is pushed by
  \<open>vt_decode_child_at\<close> and popped by \<open>vt_decode_finished\<close>, as the macro \<^verbatim>\<open>VT_DECODE_CHILD_CALL\<close>
  does), the shared state and the memory pool. Every operation keeps all cursors inside the request
  and inside their parents, keeps the budgets, and never clears the first error.
\<close>

section \<open>Range checks on wrapping words\<close>

lemma range_word:
  fixes a :: "'a::len word"
  shows "\<not> (a < off \<or> a - off < sz) \<longleftrightarrow> unat off + unat sz \<le> unat a"
proof (cases "off \<le> a")
  case True
  then have "unat (a - off) = unat a - unat off" "unat off \<le> unat a"
    by (simp_all add: unat_sub word_le_nat_alt)
  then show ?thesis using True by (auto simp: word_less_nat_alt)
next
  case False
  then show ?thesis by (auto simp: word_less_nat_alt word_le_nat_alt)
qed

lemma unat_max_u64: "unat (- 1 :: u64) = 2 ^ 64 - 1"
  by (simp add: unsigned_minus_1_eq_mask mask_eq_exp_minus_1)

lemma unat_ucast_32_64: "unat (ucast w :: u64) = unat w" for w :: u32
proof -
  have "unat w < 2 ^ 64" using unsigned_less [of w, where ?'a = nat] by simp
  then show ?thesis unfolding unsigned_ucast_eq by (simp add: take_bit_nat_eq_self)
qed

lemma add_size_Some:
  "vt_decode_add_size a b = Some r \<longleftrightarrow> unat a + unat b < 2 ^ 64 \<and> r = a + b"
proof -
  have "a \<le> - 1" by simp
  from unat_sub [OF this] have "unat (- 1 - a) = 2 ^ 64 - 1 - unat a"
    unfolding unat_max_u64 .
  moreover have "unat a < 2 ^ 64" using unsigned_less [of a] by simp
  ultimately show ?thesis by (auto simp: vt_decode_add_size_def word_less_nat_alt)
qed

lemma add_size_unat: "vt_decode_add_size a b = Some r \<Longrightarrow> unat r = unat a + unat b"
  by (simp add: add_size_Some unat_word_ariths(1))

lemma multiply_size_unat:
  assumes "vt_decode_multiply_size a b = Some r"
  shows "unat r = unat a * unat b"
proof (cases "b = 0")
  case True
  then show ?thesis using assms by (simp add: vt_decode_multiply_size_def)
next
  case False
  then have "a \<le> (- 1) div b" "r = a * b" using assms by (auto simp: vt_decode_multiply_size_def split: if_splits)
  then have "unat a \<le> (2 ^ 64 - 1) div unat b"
    by (simp add: word_le_nat_alt unat_div_distrib unat_max_u64)
  moreover have "0 < unat b" using False by (simp add: unat_gt_0)
  ultimately have "unat a * unat b \<le> 2 ^ 64 - 1"
    by (metis le_trans mult_le_mono1 div_times_less_eq_dividend)
  then show ?thesis using \<open>r = a * b\<close> by (simp add: unat_word_ariths(2))
qed

lemma multiply_size_None:
  "vt_decode_multiply_size a b = None \<longleftrightarrow> 2 ^ 64 \<le> unat a * unat b"
proof
  assume n: "vt_decode_multiply_size a b = None"
  then have b: "b \<noteq> 0" "(- 1) div b < a" by (auto simp: vt_decode_multiply_size_def split: if_splits)
  then have "(2 ^ 64 - 1) div unat b < unat a"
    by (simp add: word_less_nat_alt unat_div_distrib unat_max_u64)
  moreover have "0 < unat b" using b(1) by (simp add: unat_gt_0)
  ultimately have "2 ^ 64 - 1 < unat a * unat b" by (simp add: div_less_iff_less_mult)
  then show "2 ^ 64 \<le> unat a * unat b" by simp
next
  assume "2 ^ 64 \<le> unat a * unat b"
  moreover have "unat r < 2 ^ 64" for r :: u64 using unsigned_less [of r] by simp
  ultimately have "vt_decode_multiply_size a b \<noteq> Some r" for r
    using multiply_size_unat [of a b r] by (metis not_le)
  then show "vt_decode_multiply_size a b = None" by (cases "vt_decode_multiply_size a b") auto
qed

section \<open>What every operation does to the shared state\<close>

definition dec_budget :: "VtDecodeState \<Rightarrow> bool" where
  "dec_budget s \<longleftrightarrow> dec_nodes s \<le> VT_DECODE_MAX_NODES \<and>
     dec_allocation_bytes s \<le> VT_DECODE_MAX_ALLOCATION_BYTES \<and>
     length (dec_request s) \<le> unat VT_DECODE_MAX_REQUEST_BYTES"

definition dec_le :: "VtDecodeState \<Rightarrow> VtDecodeState \<Rightarrow> bool" where
  "dec_le s s' \<longleftrightarrow> dec_request s' = dec_request s \<and>
     (dec_error s \<noteq> VT_DECODE_ERROR_NONE \<longrightarrow> dec_error s' = dec_error s) \<and>
     (dec_budget s \<longrightarrow> dec_budget s')"

named_theorems dec_defs \<open>definitions of the decoder operations\<close>

lemma dec_le_refl [simp, intro]: "dec_le s s"
  by (simp add: dec_le_def)

lemma dec_le_trans: "dec_le s s1 \<Longrightarrow> dec_le s1 s2 \<Longrightarrow> dec_le s s2"
  by (auto simp: dec_le_def)

lemma fail_fields [simp]:
  "dec_request (vt_decode_fail s e) = dec_request s" "dec_nodes (vt_decode_fail s e) = dec_nodes s"
  "dec_allocation_bytes (vt_decode_fail s e) = dec_allocation_bytes s"
  "dec_allocation_attempts (vt_decode_fail s e) = dec_allocation_attempts s"
  by (simp_all add: vt_decode_fail_def)

lemma dec_le_fail [simp, intro]: "dec_le s (vt_decode_fail s e)"
  by (auto simp: dec_le_def dec_budget_def vt_decode_fail_def)

lemma fail_failed [simp]: "e \<noteq> VT_DECODE_ERROR_NONE \<Longrightarrow> dec_error (vt_decode_fail s e) \<noteq> VT_DECODE_ERROR_NONE"
  by (simp add: vt_decode_fail_def)

lemma dec_le_failI: "dec_le s s' \<Longrightarrow> dec_le s (vt_decode_fail s' e)"
  using dec_le_trans dec_le_fail by blast

lemma range_at_cases:
  obtains (ok) "range_at c s off sz = (True, s)" "dec_error s = VT_DECODE_ERROR_NONE"
      "unat off + unat sz \<le> unat (cur_end c - cur_base c)"
    | (bad) s' where "range_at c s off sz = (False, s')" "dec_le s s'" "dec_error s' \<noteq> VT_DECODE_ERROR_NONE"
proof (cases "dec_error s = VT_DECODE_ERROR_NONE")
  case False
  then show thesis by (intro bad [of s]) (simp_all add: range_at_def)
next
  case True
  let ?a = "cur_end c - cur_base c"
  show thesis
  proof (cases "?a < off \<or> ?a - off < sz")
    case out: True
    show thesis
      by (rule bad [of "vt_decode_fail s VT_DECODE_ERROR_TRUNCATED"]) (use True out in \<open>auto simp: range_at_def Let_def\<close>)
  next
    case False
    show thesis
      by (rule ok) (use True False range_word [of ?a off sz] in \<open>auto simp: range_at_def Let_def\<close>)
  qed
qed

lemma read_at_cases:
  obtains (ok) "vt_decode_read_at c s off h sz = (True, request_slice s (cur_base c + off) sz, s)"
      "dec_error s = VT_DECODE_ERROR_NONE" "unat off + unat sz \<le> unat (cur_end c - cur_base c)"
    | (bad) s' where "vt_decode_read_at c s off h sz = (False, [], s')" "dec_le s s'"
      "dec_error s' \<noteq> VT_DECODE_ERROR_NONE"
proof (cases "\<not> h \<and> sz \<noteq> 0")
  case True
  then show thesis by (intro bad) (auto simp: vt_decode_read_at_def)
next
  case False
  show thesis
  proof (cases rule: range_at_cases [of c s off sz])
    case ok
    then show thesis using False by (intro that(1)) (auto simp: vt_decode_read_at_def)
  next
    case (bad s')
    then show thesis using False by (intro that(2) [of s']) (auto simp: vt_decode_read_at_def)
  qed
qed

lemma i32_at_cases:
  obtains (ok) v where "vt_decode_i32_at c s off = (True, Some v, s)"
      "v = le32 (request_slice s (cur_base c + off) 4)"
      "dec_error s = VT_DECODE_ERROR_NONE" "unat off + 4 \<le> unat (cur_end c - cur_base c)"
    | (bad) s' where "vt_decode_i32_at c s off = (False, None, s')" "dec_le s s'"
      "dec_error s' \<noteq> VT_DECODE_ERROR_NONE"
  by (cases rule: read_at_cases [of c s off True 4]) (auto simp: vt_decode_i32_at_def)

section \<open>Cursors\<close>

definition cur_wf :: "nat \<Rightarrow> VtDecodeCursor \<Rightarrow> bool" where
  "cur_wf n c \<longleftrightarrow> cur_base c \<le> cur_ptr c \<and> cur_ptr c \<le> cur_end c \<and> unat (cur_end c) \<le> n \<and>
     unat (cur_request_end c) = n \<and> cur_depth c \<le> VT_DECODE_MAX_DEPTH \<and>
     cur_pnext_count c \<le> VT_DECODE_MAX_PNEXT_NODES \<and> length (cur_pnext_types c) = 32 \<and>
     distinct (take (unat (cur_pnext_count c)) (cur_pnext_types c)) \<and>
     (\<not> neg32 (cur_expected_pnext_type c) \<longrightarrow> cur_pnext_count c \<noteq> 0)"

text \<open>Same extent and depth; the position only moves inside it.\<close>

definition same_extent :: "VtDecodeCursor \<Rightarrow> VtDecodeCursor \<Rightarrow> bool" where
  "same_extent c c' \<longleftrightarrow> cur_base c' = cur_base c \<and> cur_end c' = cur_end c \<and> cur_depth c' = cur_depth c"

lemma same_extent_refl [simp, intro]: "same_extent c c"
  by (simp add: same_extent_def)

lemma in_range:
  assumes "cur_base c \<le> cur_end c" and r: "unat off + unat sz \<le> unat (cur_end c - cur_base c)"
  shows "unat (cur_base c + off) = unat (cur_base c) + unat off"
    and "unat (cur_base c + off + sz) = unat (cur_base c) + unat off + unat sz"
    and "unat (cur_base c) + unat off + unat sz \<le> unat (cur_end c)"
proof -
  have "unat (cur_end c - cur_base c) = unat (cur_end c) - unat (cur_base c)"
    "unat (cur_base c) \<le> unat (cur_end c)"
    using assms(1) by (simp_all add: unat_sub word_le_nat_alt)
  with r show le: "unat (cur_base c) + unat off + unat sz \<le> unat (cur_end c)" by linarith
  have "unat (cur_end c) < 2 ^ 64" using unsigned_less [of "cur_end c"] by simp
  with le show "unat (cur_base c + off) = unat (cur_base c) + unat off"
    "unat (cur_base c + off + sz) = unat (cur_base c) + unat off + unat sz"
    by (simp_all add: unat_word_ariths(1))
qed

lemma cur_wf_order: "cur_wf n c \<Longrightarrow> cur_base c \<le> cur_end c"
  by (auto simp: cur_wf_def)

lemma advance_cases:
  assumes wf: "cur_wf n c"
  obtains (ok) c' where "vt_decode_advance c s off amt = (True, off + amt, c', s)" "cur_wf n c'"
      "same_extent c c'" "unat (off + amt) = unat off + unat amt" "cur_ptr c' = cur_base c + (off + amt)"
      "unat (cur_ptr c') = unat (cur_base c) + unat off + unat amt"
      "dec_error s = VT_DECODE_ERROR_NONE" "unat off + unat amt \<le> unat (cur_end c - cur_base c)"
    | (bad) s' where "vt_decode_advance c s off amt = (False, off, c, s')" "dec_le s s'"
      "dec_error s' \<noteq> VT_DECODE_ERROR_NONE"
proof (cases "vt_decode_add_size off amt")
  case None
  then show thesis by (intro bad) (auto simp: vt_decode_advance_def)
next
  case (Some nx)
  then have nx: "nx = off + amt" "unat nx = unat off + unat amt"
    using add_size_unat [OF Some] by (auto simp: add_size_Some)
  show thesis
  proof (cases rule: range_at_cases [of c s off amt])
    case ok
    note r = in_range [OF cur_wf_order [OF wf] ok(3)]
    let ?c = "c\<lparr>cur_ptr := cur_base c + nx\<rparr>"
    have u: "unat (cur_base c + nx) = unat (cur_base c) + unat off + unat amt"
      using r(2) nx by (simp add: add.assoc)
    have "cur_wf n ?c" using wf u r(3) by (auto simp: cur_wf_def word_le_nat_alt)
    then show thesis
      using Some ok nx u by (intro that(1) [of ?c]) (auto simp: vt_decode_advance_def same_extent_def)
  next
    case (bad s')
    then show thesis using Some by (intro that(2) [of s']) (auto simp: vt_decode_advance_def)
  qed
qed

lemma advance_array_cases:
  assumes wf: "cur_wf n c"
  obtains (ok) c' off' where "vt_decode_advance_array c s off cnt el = (True, off', c', s)" "cur_wf n c'"
      "same_extent c c'" "unat off' = unat off + unat cnt * unat el"
      "dec_error s = VT_DECODE_ERROR_NONE"
      "unat off + unat cnt * unat el \<le> unat (cur_end c - cur_base c)"
    | (bad) s' where "vt_decode_advance_array c s off cnt el = (False, off, c, s')" "dec_le s s'"
      "dec_error s' \<noteq> VT_DECODE_ERROR_NONE"
proof (cases "vt_decode_multiply_size cnt el")
  case None
  then show thesis by (intro bad) (auto simp: vt_decode_advance_array_def)
next
  case (Some amt)
  note m = multiply_size_unat [OF Some]
  show thesis
    using wf
  proof (cases rule: advance_cases [where s = s and off = off and amt = amt])
    case (ok c')
    then show thesis using Some m by (intro that(1) [of "off + amt" c']) (auto simp: vt_decode_advance_array_def)
  next
    case (bad s')
    then show thesis using Some by (intro that(2) [of s']) (auto simp: vt_decode_advance_array_def)
  qed
qed

lemma presence_le:
  assumes wf: "cur_wf n c" and eq: "vt_decode_presence_at c s off = (ok, v, off', c', s')"
  shows "dec_le s s' \<and> cur_wf n c' \<and> same_extent c c' \<and> (\<not> ok \<longrightarrow> dec_error s' \<noteq> VT_DECODE_ERROR_NONE)"
proof (cases rule: read_at_cases [of c s off True 1])
  case rd: ok
  show ?thesis
    using wf
  proof (cases rule: advance_cases [where s = s and off = off and amt = 1])
    case ok
    then show ?thesis using eq rd by (auto simp: vt_decode_presence_at_def split: if_splits)
  next
    case bad
    then show ?thesis using eq rd wf by (auto simp: vt_decode_presence_at_def)
  qed
next
  case (bad s')
  then show ?thesis using eq wf by (auto simp: vt_decode_presence_at_def)
qed

lemma data_size_le:
  "vt_decode_data_size_at c s off = (ok, v, s') \<Longrightarrow>
     dec_le s s' \<and> (\<not> ok \<longrightarrow> dec_error s' \<noteq> VT_DECODE_ERROR_NONE)"
  by (cases rule: i32_at_cases [of c s off]) (auto simp: vt_decode_data_size_at_def split: if_splits)

lemma length_i32_le:
  "vt_decode_length_i32_at c s off m = (ok, v, s') \<Longrightarrow>
     dec_le s s' \<and> (\<not> ok \<longrightarrow> dec_error s' \<noteq> VT_DECODE_ERROR_NONE)"
  by (cases rule: i32_at_cases [of c s off])
    (auto simp: vt_decode_length_i32_at_def split: if_splits option.splits)

lemma string_le:
  "vt_decode_string_at c s off sz h = (ok, out, s') \<Longrightarrow>
     dec_le s s' \<and> (\<not> ok \<longrightarrow> dec_error s' \<noteq> VT_DECODE_ERROR_NONE)"
  by (cases rule: read_at_cases [of c s off h sz])
    (auto simp: vt_decode_string_at_def vt_decode_copy_at_def dec_le_failI split: if_splits)

lemma note_elements_le:
  assumes "vt_decode_note_elements s cnt = (ok, s')"
  shows "dec_le s s' \<and> (\<not> ok \<longrightarrow> dec_error s' \<noteq> VT_DECODE_ERROR_NONE)"
proof (cases "VT_DECODE_MAX_ELEMENTS < cnt \<or> ucast (VT_DECODE_MAX_NODES - dec_nodes s) < cnt")
  case True
  then show ?thesis
    using assms by (auto simp: vt_decode_note_elements_def vt_decode_validate_count_def dec_le_failI split: if_splits)
next
  case False
  then have s': "ok" "s' = s\<lparr>dec_nodes := dec_nodes s + ucast cnt\<rparr>"
    using assms by (auto simp: vt_decode_note_elements_def vt_decode_validate_count_def)
  have "dec_nodes s + ucast cnt \<le> VT_DECODE_MAX_NODES" if "dec_nodes s \<le> VT_DECODE_MAX_NODES"
  proof -
    have c: "unat cnt \<le> 65536" using False by (simp add: word_less_nat_alt vt_limits)
    have u: "unat (ucast cnt :: u32) = unat cnt"
      using c by (simp add: unsigned_ucast_eq take_bit_nat_eq_self)
    have "unat (VT_DECODE_MAX_NODES - dec_nodes s) = unat VT_DECODE_MAX_NODES - unat (dec_nodes s)"
      using that by (simp add: unat_sub)
    moreover have "unat cnt \<le> unat (VT_DECODE_MAX_NODES - dec_nodes s)"
      using False by (simp add: word_less_nat_alt unat_ucast_32_64)
    moreover have "unat (dec_nodes s) \<le> unat VT_DECODE_MAX_NODES" using that by (simp add: word_le_nat_alt)
    ultimately have le: "unat (dec_nodes s) + unat cnt \<le> unat VT_DECODE_MAX_NODES" by linarith
    then have "unat (dec_nodes s + ucast cnt) = unat (dec_nodes s) + unat cnt"
      using u by (simp add: unat_word_ariths(1) vt_limits)
    with le show ?thesis by (simp add: word_le_nat_alt)
  qed
  then show ?thesis using s' by (auto simp: dec_le_def dec_budget_def)
qed

section \<open>Children\<close>

text \<open>\<open>within c p\<close>: the child's range lies in the parent's and it is one level deeper.\<close>

definition within :: "VtDecodeCursor \<Rightarrow> VtDecodeCursor \<Rightarrow> bool" where
  "within c p \<longleftrightarrow> cur_base p \<le> cur_base c \<and> cur_end c \<le> cur_end p \<and> cur_depth c = cur_depth p + 1"

lemma neg32_m1 [simp]: "neg32 (- 1)"
  by (simp add: neg32_def)

lemma child_le:
  assumes wf: "cur_wf n p"
    and eq: "vt_decode_child_at p s off sz = (ok, p', child, s')"
  shows "dec_le s s' \<and> cur_wf n p' \<and> same_extent p p' \<and> (\<not> ok \<longrightarrow> dec_error s' \<noteq> VT_DECODE_ERROR_NONE) \<and>
    (ok \<longrightarrow> (\<exists>c. child = Some c \<and> cur_wf n c \<and> within c p' \<and> cur_base c = cur_base p + off \<and>
       cur_ptr c = cur_base c \<and> unat (cur_end c) = unat (cur_base c) + unat sz \<and>
       dec_error s = VT_DECODE_ERROR_NONE))"
proof (cases rule: range_at_cases [of p s off sz])
  case (bad s1)
  then show ?thesis using eq wf by (auto simp: vt_decode_child_at_def)
next
  case rng: ok
  note r = in_range [OF cur_wf_order [OF wf] rng(3)]
  show ?thesis
  proof (cases "VT_DECODE_MAX_DEPTH \<le> cur_depth p \<or> VT_DECODE_MAX_NODES \<le> dec_nodes s")
    case True
    then show ?thesis using eq rng wf by (auto simp: vt_decode_child_at_def split: if_splits)
  next
    case False
    then have lim: "cur_depth p < VT_DECODE_MAX_DEPTH" "dec_nodes s < VT_DECODE_MAX_NODES" by auto
    let ?s1 = "s\<lparr>dec_nodes := dec_nodes s + 1\<rparr>"
    let ?c = "zero_cursor\<lparr>cur_base := cur_base p + off, cur_ptr := cur_base p + off,
       cur_end := cur_base p + off + sz, cur_request_end := cur_request_end p,
       cur_depth := cur_depth p + 1, cur_expected_pnext_type := - 1\<rparr>"
    have le1: "dec_le s ?s1"
      using lim(2) by (auto simp: dec_le_def dec_budget_def vt_limits inc_le)
    have d1: "cur_depth p + 1 \<le> VT_DECODE_MAX_DEPTH" using lim(1) by (simp add: inc_le)
    have "cur_base p + off \<le> cur_base p + off + sz"
      using r(1,2) by (simp add: word_le_nat_alt)
    moreover have "cur_base p + off + sz \<le> cur_end p" using r(2,3) by (simp add: word_le_nat_alt)
    moreover have "cur_base p \<le> cur_base p + off" using r(1) by (simp add: word_le_nat_alt)
    moreover have "unat (cur_base p + off + sz) \<le> n" using r wf by (simp add: cur_wf_def)
    ultimately have c: "cur_wf n ?c" "within ?c p"
      using wf d1 by (simp_all add: cur_wf_def within_def zero_cursor_def)
    have facts: "cur_base ?c = cur_base p + off" "cur_ptr ?c = cur_base ?c"
      "unat (cur_end ?c) = unat (cur_base ?c) + unat sz"
      using r(1,2) by simp_all
    have step: "vt_decode_child_at p s off sz =
       (if neg32 (cur_expected_pnext_type p) then (True, p, Some ?c, ?s1)
        else let parent' = p\<lparr>cur_expected_pnext_type := - 1\<rparr>
        in (case vt_decode_i32_at ?c ?s1 0 of
              (True, Some t, s2) \<Rightarrow>
                if neg32 t \<or> t \<noteq> cur_pnext_types p ! unat (cur_pnext_count p - 1)
                then (False, parent', Some ?c, vt_decode_fail s2 VT_DECODE_ERROR_PNEXT_TYPE)
                else (True, parent', Some ?c, s2)
            | (_, _, s2) \<Rightarrow> (False, parent', Some ?c, s2)))"
      using rng(1) False by (simp add: vt_decode_child_at_def Let_def)
    show ?thesis
    proof (cases "neg32 (cur_expected_pnext_type p)")
      case True
      then have "ok \<and> p' = p \<and> child = Some ?c \<and> s' = ?s1"
        using eq unfolding step by auto
      then show ?thesis using le1 wf c facts rng(2) by auto
    next
      case nt: False
      let ?p = "p\<lparr>cur_expected_pnext_type := - 1\<rparr>"
      have p: "cur_wf n ?p" "same_extent p ?p" "within ?c ?p"
        using wf c(2) by (simp_all add: cur_wf_def same_extent_def within_def)
      show ?thesis
      proof (cases rule: i32_at_cases [of ?c ?s1 0])
        case (ok v)
        show ?thesis
          using eq step nt ok(1) le1 p c facts rng(2) dec_le_failI [OF le1]
          by (auto simp: Let_def split: if_splits)
      next
        case (bad s2)
        show ?thesis using eq step nt bad p dec_le_trans [OF le1 bad(2)] by (auto simp: Let_def)
      qed
    qed
  qed
qed

lemma finished_le:
  "vt_decode_finished c s = (ok, s') \<Longrightarrow> dec_le s s' \<and> (ok \<longleftrightarrow> dec_error s' = VT_DECODE_ERROR_NONE) \<and>
     (ok \<longrightarrow> s' = s \<and> cur_ptr c = cur_end c \<and> neg32 (cur_expected_pnext_type c))"
  by (auto simp: vt_decode_finished_def vt_decode_ok_def split: if_splits)

section \<open>Extension chains, handles, allocation\<close>

lemma record_pnext_le:
  assumes wf: "cur_wf n c" and eq: "record_pnext c s t = (ok, c', s')"
  shows "dec_le s s' \<and> cur_wf n c' \<and> same_extent c c' \<and> (\<not> ok \<longrightarrow> dec_error s' \<noteq> VT_DECODE_ERROR_NONE \<and> c' = c) \<and>
    (ok \<longrightarrow> s' = s \<and> cur_pnext_count c' \<noteq> 0 \<and>
       t \<notin> set (take (unat (cur_pnext_count c)) (cur_pnext_types c)) \<and>
       take (unat (cur_pnext_count c')) (cur_pnext_types c') =
         take (unat (cur_pnext_count c)) (cur_pnext_types c) @ [t])"
proof (cases ok)
  case False
  then show ?thesis using eq wf by (auto simp: record_pnext_def split: if_splits)
next
  case True
  let ?k = "unat (cur_pnext_count c)"
  have r: "t \<notin> set (take ?k (cur_pnext_types c))" "cur_pnext_count c < VT_DECODE_MAX_PNEXT_NODES" "s' = s"
    "c' = c\<lparr>cur_pnext_types := (cur_pnext_types c)[?k := t], cur_pnext_count := cur_pnext_count c + 1\<rparr>"
    using eq True by (auto simp: record_pnext_def split: if_splits)
  have k: "?k < 32" using r(2) by (simp add: word_less_nat_alt vt_limits)
  have u: "unat (cur_pnext_count c + 1) = Suc ?k"
    using k by (simp add: unat_word_ariths(1))
  have len: "length (cur_pnext_types c) = 32" using wf by (simp add: cur_wf_def)
  have tk: "take (Suc ?k) ((cur_pnext_types c)[?k := t]) = take ?k (cur_pnext_types c) @ [t]"
    using k len by (simp add: take_Suc_conv_app_nth)
  have nz: "cur_pnext_count c + 1 \<noteq> 0" using u by (metis unat_0 nat.distinct(1))
  have "cur_pnext_count c + 1 \<le> VT_DECODE_MAX_PNEXT_NODES"
    using k u by (simp add: word_le_nat_alt vt_limits)
  then have "cur_wf n c'" using wf r(1) u tk nz by (simp add: cur_wf_def r(4))
  then show ?thesis using True r u tk nz by (simp add: same_extent_def)
qed

lemma pnext_known_le:
  assumes wf: "cur_wf n c" and eq: "vt_decode_pnext_known c s t sz = (ok, c', s')"
  shows "dec_le s s' \<and> cur_wf n c' \<and> same_extent c c' \<and> (\<not> ok \<longrightarrow> dec_error s' \<noteq> VT_DECODE_ERROR_NONE)"
proof (cases "sint sz \<le> 0")
  case True
  then show ?thesis using eq wf by (auto simp: vt_decode_pnext_known_def)
next
  case False
  obtain ok1 c1 s1 where r: "record_pnext c s t = (ok1, c1, s1)" by (metis prod_cases3)
  show ?thesis using record_pnext_le [OF wf r] eq False r
    by (auto simp: vt_decode_pnext_known_def cur_wf_def same_extent_def split: bool.splits)
qed

lemma pnext_unknown_le:
  assumes wf: "cur_wf n c" and eq: "vt_decode_pnext_unknown c s t sz = (ok, c', s')"
  shows "dec_le s s' \<and> cur_wf n c' \<and> same_extent c c' \<and> (\<not> ok \<longrightarrow> dec_error s' \<noteq> VT_DECODE_ERROR_NONE)"
proof (cases "neg32 sz")
  case True
  then show ?thesis using eq wf by (auto simp: vt_decode_pnext_unknown_def)
next
  case False
  obtain ok1 c1 s1 where r: "record_pnext c s t = (ok1, c1, s1)" by (metis prod_cases3)
  show ?thesis using record_pnext_le [OF wf r] eq False r
    by (auto simp: vt_decode_pnext_unknown_def split: bool.splits if_splits)
qed

text \<open>The outcome predicate of \<open>vt_decode_resolve_handle\<close>, closed under its branches.\<close>

definition resolve_good :: "VtDecodeState \<Rightarrow> bool \<times> u64 \<times> VtDecodeState \<Rightarrow> bool" where
  "resolve_good s res = (case res of (ok, host, s') \<Rightarrow>
     dec_le s s' \<and> (\<not> ok \<longrightarrow> dec_error s' \<noteq> VT_DECODE_ERROR_NONE \<and> host = 0))"

lemma resolve_good_intros:
  "resolve_good s a \<Longrightarrow> resolve_good s b \<Longrightarrow> resolve_good s (if P then a else b)"
  "resolve_good s a \<Longrightarrow> (\<And>x. resolve_good s (f x)) \<Longrightarrow> resolve_good s (case v of None \<Rightarrow> a | Some x \<Rightarrow> f x)"
  "e \<noteq> VT_DECODE_ERROR_NONE \<Longrightarrow> resolve_good s (False, 0, vt_decode_fail s e)"
  "resolve_good s (True, h, s)"
  "resolve_good s (True, h, s\<lparr>dec_captured_tokens := ts, dec_captured_count := k\<rparr>)"
  "resolve_good (after_resolver answer s) res \<Longrightarrow> resolve_good s res"
  by (auto simp: resolve_good_def dec_le_def dec_budget_def vt_decode_fail_def after_resolver_def
    vt_decode_set_handle_scope_def vt_decode_set_null_descriptor_enabled_def split: option.split)

lemma resolve_le:
  assumes "vt_decode_resolve_handle res s tok ty role req nl = (ok, host, s')"
  shows "dec_le s s' \<and> (\<not> ok \<longrightarrow> dec_error s' \<noteq> VT_DECODE_ERROR_NONE \<and> host = 0)"
proof -
  have "resolve_good s (vt_decode_resolve_handle res s tok ty role req nl)"
    unfolding vt_decode_resolve_handle_def Let_def
    by (intro resolve_good_intros(1,3) VtDecodeError.distinct,
        rule resolve_good_intros(6) [of "res \<lparr>req_wire_token = tok, req_context_generation = dec_context_generation s,
          req_instance_owner = dec_instance_owner s, req_device_owner = dec_device_owner s, req_object_type = ty,
          req_owner_requirements = req, req_role = role, req_nullability = nl\<rparr> s"])
      (intro resolve_good_intros(1-5) VtDecodeError.distinct)
  then show ?thesis using assms by (simp add: resolve_good_def)
qed

lemma alloc_charge:
  assumes "\<not> VT_DECODE_MAX_ALLOCATION_BYTES < a" "\<not> VT_DECODE_MAX_ALLOCATION_BYTES - a < b"
  shows "a + b \<le> VT_DECODE_MAX_ALLOCATION_BYTES" "unat (a + b) = unat a + unat b"
proof -
  have r: "unat a + unat b \<le> unat VT_DECODE_MAX_ALLOCATION_BYTES"
    using range_word [of VT_DECODE_MAX_ALLOCATION_BYTES a b] assms by blast
  then show u: "unat (a + b) = unat a + unat b" by (simp add: unat_word_ariths(1) vt_limits)
  with r show "a + b \<le> VT_DECODE_MAX_ALLOCATION_BYTES" by (simp add: word_le_nat_alt)
qed

text \<open>What the pool gives: an aligned fresh range of the inline area, or a tracked block.\<close>

definition place_ok :: "VtDecodeMemoryPool \<Rightarrow> VtDecodeMemoryPool \<Rightarrow> u64 \<Rightarrow> VtDecodePlace \<Rightarrow> bool" where
  "place_ok p p' bytes place = (case place of
     Inline off \<Rightarrow> 16 dvd unat off \<and> unat (pool_size p) \<le> unat off \<and> \<not> neg32 (pool_size p) \<and>
        unat off + unat bytes \<le> unat VT_DECODE_INLINE_POOL_BYTES \<and> pool_has_data p \<and>
        unat (pool_size p') = unat off + unat bytes \<and> list_elements p' = list_elements p
   | Heap b \<Rightarrow> b = bytes \<and> pool_size p' = pool_size p \<and> list_size p' = list_size p + 1)"

lemma padding:
  fixes raw :: u64
  assumes "unat raw < 2 ^ 32"
  shows "16 dvd unat (raw + (16 - raw mod 16) mod 16)" and "unat raw \<le> unat (raw + (16 - raw mod 16) mod 16)"
proof -
  have m: "unat (raw mod 16) = unat raw mod 16" by (simp add: unat_mod_distrib)
  have "raw mod 16 \<le> 16" by (simp add: word_le_nat_alt m)
  then have "unat (16 - raw mod 16) = 16 - unat raw mod 16" by (simp add: unat_sub m)
  then have p: "unat ((16 - raw mod 16) mod 16) = (16 - unat raw mod 16) mod 16" by (simp add: unat_mod_distrib)
  have "(16 - unat raw mod 16) mod 16 < 16" by simp
  then have u: "unat (raw + (16 - raw mod 16) mod 16) = unat raw + (16 - unat raw mod 16) mod 16"
    using assms p by (simp add: unat_word_ariths(1))
  then show "unat raw \<le> unat (raw + (16 - raw mod 16) mod 16)" by simp
  show "16 dvd unat (raw + (16 - raw mod 16) mod 16)"
  proof -
    have "unat raw mod 16 + (16 - unat raw mod 16) = 16" by simp
    then have "(unat raw + (16 - unat raw mod 16) mod 16) mod 16 = 0"
      by (metis mod_add_eq mod_mod_trivial mod_self)
    then show ?thesis unfolding u by (rule mod_0_imp_dvd)
  qed
qed

lemma pool_place_effect:
  assumes eq: "pool_place co ro s p bytes = (place, p', s')"
  shows "(place = None \<and> dec_error s' \<noteq> VT_DECODE_ERROR_NONE \<and> dec_le s s') \<or>
    (\<exists>pl. place = Some pl \<and> place_ok p p' bytes pl \<and>
       s' = s\<lparr>dec_allocation_bytes := dec_allocation_bytes s + bytes\<rparr>)"
proof -
  let ?raw = "ucast (pool_size p) :: u64"
  let ?al = "?raw + (16 - ?raw mod 16) mod 16"
  have heap: "?thesis" if "(if \<not> co then alloc_fail s p VT_DECODE_ERROR_OUT_OF_MEMORY
                  else case pool_track_allocation ro p bytes of
                    (False, p') \<Rightarrow> alloc_fail s p' VT_DECODE_ERROR_OUT_OF_MEMORY
                  | (True, p') \<Rightarrow> (Some (Heap bytes), p',
                      s\<lparr>dec_allocation_bytes := dec_allocation_bytes s + bytes\<rparr>)) = (place, p', s')"
    using that by (auto simp: alloc_fail_def pool_track_allocation_def Let_def place_ok_def split: if_splits)
  show ?thesis
  proof (cases "neg32 (pool_size p)")
    case True
    then show ?thesis using eq heap by (simp add: pool_place_def Let_def)
  next
    case nn: False
    have raw: "unat ?raw = unat (pool_size p)" by (rule unat_ucast_32_64)
    have "unat ?raw < 2 ^ 32" unfolding raw using unsigned_less [of "pool_size p", where ?'a = nat] by simp
    note pad = padding [OF this]
    show ?thesis
    proof (cases "vt_decode_add_size ?raw ((16 - ?raw mod 16) mod 16)")
      case None
      then show ?thesis using eq heap nn by (simp add: pool_place_def Let_def VT_DECODE_MAX_ALIGN_def)
    next
      case (Some al)
      then have al: "al = ?al" by (auto simp: add_size_Some)
      show ?thesis
      proof (cases "al \<le> VT_DECODE_INLINE_POOL_BYTES \<and> bytes \<le> VT_DECODE_INLINE_POOL_BYTES - al \<and> pool_has_data p")
        case False
        show ?thesis
          by (rule heap) (use eq nn Some in \<open>simp add: pool_place_def Let_def VT_DECODE_MAX_ALIGN_def if_not_P [OF False]\<close>)
      next
        case True
        have fit: "unat al + unat bytes \<le> unat VT_DECODE_INLINE_POOL_BYTES"
          using True range_word [of VT_DECODE_INLINE_POOL_BYTES al bytes] by (simp add: not_less)
        have res: "place = Some (Inline al)" "p' = p\<lparr>pool_size := ucast (al + bytes)\<rparr>"
          "s' = s\<lparr>dec_allocation_bytes := dec_allocation_bytes s + bytes\<rparr>"
          using eq nn Some True by (simp_all add: pool_place_def Let_def VT_DECODE_MAX_ALIGN_def)
        have "unat (al + bytes) = unat al + unat bytes" using fit by (simp add: unat_word_ariths(1) vt_limits)
        then have "unat (ucast (al + bytes) :: u32) = unat al + unat bytes"
          using fit by (simp add: unsigned_ucast_eq take_bit_nat_eq_self vt_limits)
        then show ?thesis using res fit pad raw al nn True by (auto simp: place_ok_def)
      qed
    qed
  qed
qed

lemma alloc_le:
  assumes eq: "vt_decode_alloc co ro c s pool cnt el = (place, pool', s')"
  shows "dec_le s s' \<and> (place = None \<longrightarrow> dec_error s' \<noteq> VT_DECODE_ERROR_NONE) \<and>
    (\<forall>pl. place = Some pl \<longrightarrow> (\<exists>p p'. pool = Some p \<and> pool' = Some p' \<and> place_ok p p' (cnt * el) pl \<and>
       unat (cnt * el) = unat cnt * unat el \<and> cnt * el \<noteq> 0 \<and> cnt \<le> VT_DECODE_MAX_ELEMENTS \<and>
       cnt \<le> vt_decode_remaining c))"
proof -
  let ?s1 = "s\<lparr>dec_allocation_attempts := dec_allocation_attempts s + 1\<rparr>"
  have l1: "dec_le s ?s1" by (simp add: dec_le_def dec_budget_def)
  note lf = dec_le_failI [OF l1]
  show ?thesis
  proof (cases "pool = None \<or> VT_DECODE_MAX_ELEMENTS < cnt \<or> vt_decode_multiply_size cnt el = None \<or>
      vt_decode_remaining c < cnt \<or> dec_fail_allocation_after s \<le> dec_allocation_attempts s \<or>
      cnt * el = 0 \<or> VT_DECODE_MAX_ALLOCATION_BYTES < dec_allocation_bytes s \<or>
      VT_DECODE_MAX_ALLOCATION_BYTES - dec_allocation_bytes s < cnt * el")
    case True
    then show ?thesis
      using eq lf by (auto simp: vt_decode_alloc_def vt_decode_validate_count_def Let_def dec_le_failI
          vt_decode_multiply_size_def split: option.splits if_splits)
  next
    case False
    then obtain p where p: "pool = Some p" by auto
    have m: "vt_decode_multiply_size cnt el = Some (cnt * el)"
      using False by (auto simp: vt_decode_multiply_size_def split: if_splits)
    obtain place2 p' s2 where pp: "pool_place co ro ?s1 p (cnt * el) = (place2, p', s2)" by (metis prod_cases3)
    have res: "place = place2 \<and> pool' = Some p' \<and> s' = s2"
      using eq False m p pp by (simp add: vt_decode_alloc_def vt_decode_validate_count_def Let_def)
    note ch = alloc_charge [of "dec_allocation_bytes s" "cnt * el"]
    have b: "dec_le s (?s1\<lparr>dec_allocation_bytes := dec_allocation_bytes s + cnt * el\<rparr>)"
      using ch(1) False by (simp add: dec_le_def dec_budget_def)
    show ?thesis
      using pool_place_effect [OF pp] res False p multiply_size_unat [OF m] b dec_le_trans [OF l1] by auto
  qed
qed

lemma alloc_bytes_le:
  assumes eq: "vt_decode_alloc_bytes co ro c s pool bytes = (place, pool', s')"
  shows "dec_le s s' \<and> (place = None \<longrightarrow> dec_error s' \<noteq> VT_DECODE_ERROR_NONE) \<and>
    (\<forall>pl. place = Some pl \<longrightarrow> (\<exists>p p'. pool = Some p \<and> pool' = Some p' \<and> place_ok p p' bytes pl \<and>
       bytes \<noteq> 0 \<and> bytes \<le> vt_decode_remaining c))"
proof -
  let ?s1 = "s\<lparr>dec_allocation_attempts := dec_allocation_attempts s + 1\<rparr>"
  have l1: "dec_le s ?s1" by (simp add: dec_le_def dec_budget_def)
  show ?thesis
  proof (cases "pool = None \<or> bytes = 0 \<or> VT_DECODE_MAX_ALLOCATION_BYTES < dec_allocation_bytes s \<or>
      VT_DECODE_MAX_ALLOCATION_BYTES - dec_allocation_bytes s < bytes \<or>
      vt_decode_remaining c < bytes \<or> dec_fail_allocation_after s \<le> dec_allocation_attempts s")
    case True
    then show ?thesis
      using eq dec_le_failI [OF l1]
      by (auto simp: vt_decode_alloc_bytes_def Let_def split: option.splits if_splits)
  next
    case False
    then obtain p where p: "pool = Some p" by auto
    obtain place2 p' s2 where pp: "pool_place co ro ?s1 p bytes = (place2, p', s2)" by (metis prod_cases3)
    have res: "place = place2 \<and> pool' = Some p' \<and> s' = s2"
      using eq False p pp by (simp add: vt_decode_alloc_bytes_def Let_def)
    have b: "dec_le s (?s1\<lparr>dec_allocation_bytes := dec_allocation_bytes s + bytes\<rparr>)"
      using alloc_charge(1) [of "dec_allocation_bytes s" bytes] False by (simp add: dec_le_def dec_budget_def)
    show ?thesis using pool_place_effect [OF pp] res False p b dec_le_trans [OF l1] by auto
  qed
qed

end
