(* ===== verification/Decode_Properties.thy ===== *)
theory Decode_Properties
  imports Decode_Machine
begin

text \<open>
  The decoder as a step relation, and what it guarantees for any request and any order of decoder
  calls: no cursor leaves the request or its parent, the budgets hold, the first error stays, and
  each reading operation accepts exactly the inputs it should.
\<close>

section \<open>The machine\<close>

record decoder =
  dec_stack :: "VtDecodeCursor list"
  dec_state :: VtDecodeState
  dec_pool :: "VtDecodeMemoryPool ptr"

inductive dec_step :: "decoder \<Rightarrow> decoder \<Rightarrow> bool" where
  read: "dec_stack d = c # cs \<Longrightarrow> vt_decode_read_at c (dec_state d) off h sz = (ok, bs, s') \<Longrightarrow>
     dec_step d (d\<lparr>dec_state := s'\<rparr>)"
| i32: "dec_stack d = c # cs \<Longrightarrow> vt_decode_i32_at c (dec_state d) off = (ok, v, s') \<Longrightarrow>
     dec_step d (d\<lparr>dec_state := s'\<rparr>)"
| data_size: "dec_stack d = c # cs \<Longrightarrow> vt_decode_data_size_at c (dec_state d) off = (ok, v, s') \<Longrightarrow>
     dec_step d (d\<lparr>dec_state := s'\<rparr>)"
| length_i32: "dec_stack d = c # cs \<Longrightarrow> vt_decode_length_i32_at c (dec_state d) off m = (ok, v, s') \<Longrightarrow>
     dec_step d (d\<lparr>dec_state := s'\<rparr>)"
| string: "dec_stack d = c # cs \<Longrightarrow> vt_decode_string_at c (dec_state d) off sz h = (ok, bs, s') \<Longrightarrow>
     dec_step d (d\<lparr>dec_state := s'\<rparr>)"
| note_elements: "vt_decode_note_elements (dec_state d) cnt = (ok, s') \<Longrightarrow> dec_step d (d\<lparr>dec_state := s'\<rparr>)"
| resolve: "vt_decode_resolve_handle resolver (dec_state d) tok ty role req nl = (ok, host, s') \<Longrightarrow>
     dec_step d (d\<lparr>dec_state := s'\<rparr>)"
| advance: "dec_stack d = c # cs \<Longrightarrow> vt_decode_advance c (dec_state d) off amt = (ok, off', c', s') \<Longrightarrow>
     dec_step d (d\<lparr>dec_stack := c' # cs, dec_state := s'\<rparr>)"
| advance_array: "dec_stack d = c # cs \<Longrightarrow>
     vt_decode_advance_array c (dec_state d) off cnt el = (ok, off', c', s') \<Longrightarrow>
     dec_step d (d\<lparr>dec_stack := c' # cs, dec_state := s'\<rparr>)"
| presence: "dec_stack d = c # cs \<Longrightarrow> vt_decode_presence_at c (dec_state d) off = (ok, v, off', c', s') \<Longrightarrow>
     dec_step d (d\<lparr>dec_stack := c' # cs, dec_state := s'\<rparr>)"
| pnext_known: "dec_stack d = c # cs \<Longrightarrow> vt_decode_pnext_known c (dec_state d) t sz = (ok, c', s') \<Longrightarrow>
     dec_step d (d\<lparr>dec_stack := c' # cs, dec_state := s'\<rparr>)"
| pnext_unknown: "dec_stack d = c # cs \<Longrightarrow> vt_decode_pnext_unknown c (dec_state d) t sz = (ok, c', s') \<Longrightarrow>
     dec_step d (d\<lparr>dec_stack := c' # cs, dec_state := s'\<rparr>)"
| pnext_terminated: "vt_decode_pnext_terminated (dec_state d) t = (ok, s') \<Longrightarrow> dec_step d (d\<lparr>dec_state := s'\<rparr>)"
| alloc: "dec_stack d = c # cs \<Longrightarrow>
     vt_decode_alloc co ro c (dec_state d) (dec_pool d) cnt el = (place, pool', s') \<Longrightarrow>
     dec_step d (d\<lparr>dec_state := s', dec_pool := pool'\<rparr>)"
| alloc_bytes: "dec_stack d = c # cs \<Longrightarrow>
     vt_decode_alloc_bytes co ro c (dec_state d) (dec_pool d) b = (place, pool', s') \<Longrightarrow>
     dec_step d (d\<lparr>dec_state := s', dec_pool := pool'\<rparr>)"
| enter: "dec_stack d = c # cs \<Longrightarrow>
     vt_decode_child_at c (dec_state d) off sz = (True, c', Some child, s') \<Longrightarrow>
     dec_step d (d\<lparr>dec_stack := child # c' # cs, dec_state := s'\<rparr>)"
| enter_fails: "dec_stack d = c # cs \<Longrightarrow>
     vt_decode_child_at c (dec_state d) off sz = (False, c', child, s') \<Longrightarrow>
     dec_step d (d\<lparr>dec_stack := c' # cs, dec_state := s'\<rparr>)"
| leave: "dec_stack d = c # cs \<Longrightarrow> vt_decode_finished c (dec_state d) = (True, s') \<Longrightarrow>
     dec_step d (d\<lparr>dec_stack := cs, dec_state := s'\<rparr>)"
| leave_fails: "dec_stack d = c # cs \<Longrightarrow> vt_decode_finished c (dec_state d) = (False, s') \<Longrightarrow>
     dec_step d (d\<lparr>dec_state := s'\<rparr>)"

fun nested :: "VtDecodeCursor list \<Rightarrow> bool" where
  "nested [] = True"
| "nested [c] = (cur_depth c = 0)"
| "nested (c # p # cs) = (within c p \<and> nested (p # cs))"

definition dec_inv :: "decoder \<Rightarrow> bool" where
  "dec_inv d \<longleftrightarrow> dec_budget (dec_state d) \<and> nested (dec_stack d) \<and>
     (\<forall>c\<in>set (dec_stack d). cur_wf (length (dec_request (dec_state d))) c)"

lemma nested_same: "nested (c # cs) \<Longrightarrow> same_extent c c' \<Longrightarrow> nested (c' # cs)"
  by (cases cs) (auto simp: same_extent_def within_def)

lemma nested_tl: "nested (c # cs) \<Longrightarrow> nested cs"
  by (cases cs) auto

lemma nested_depth: "nested (c # cs) \<Longrightarrow> cur_depth c \<le> VT_DECODE_MAX_DEPTH \<Longrightarrow>
     \<forall>x\<in>set cs. cur_depth x \<le> VT_DECODE_MAX_DEPTH \<Longrightarrow> length cs = unat (cur_depth c)"
proof (induction cs arbitrary: c)
  case Nil
  then show ?case by simp
next
  case (Cons p cs)
  then have IH: "length cs = unat (cur_depth p)" by simp
  have "unat (cur_depth p) \<le> 32" using Cons.prems(3) by (simp add: word_le_nat_alt vt_limits)
  then have "unat (cur_depth p + 1) = Suc (unat (cur_depth p))" by (simp add: unat_word_ariths(1))
  then show ?case using IH Cons.prems(1) by (simp add: within_def)
qed

lemma inv_state:
  "dec_inv d \<Longrightarrow> dec_le (dec_state d) s' \<Longrightarrow> dec_inv (d\<lparr>dec_state := s'\<rparr>)"
  by (simp add: dec_inv_def dec_le_def)

lemma inv_top:
  "dec_inv d \<Longrightarrow> dec_stack d = c # cs \<Longrightarrow> dec_le (dec_state d) s' \<Longrightarrow>
     cur_wf (length (dec_request (dec_state d))) c' \<Longrightarrow> same_extent c c' \<Longrightarrow>
     dec_inv (d\<lparr>dec_stack := c' # cs, dec_state := s'\<rparr>)"
  using nested_same [of c cs c'] by (auto simp: dec_inv_def dec_le_def)

lemma dec_step_inv:
  assumes "dec_step d d'" "dec_inv d"
  shows "dec_inv d' \<and> dec_le (dec_state d) (dec_state d')"
proof -
  have wf: "dec_stack d = c # cs \<Longrightarrow> cur_wf (length (dec_request (dec_state d))) c" for c cs
    using assms(2) by (simp add: dec_inv_def)
  have st: "dec_le (dec_state d) s' \<Longrightarrow> dec_inv (d\<lparr>dec_state := s'\<rparr>) \<and> dec_le (dec_state d) s'" for s'
    using inv_state [OF assms(2)] by blast
  have top: "dec_inv (d\<lparr>dec_stack := c' # cs, dec_state := s'\<rparr>) \<and> dec_le (dec_state d) s'"
    if "dec_stack d = c # cs" "dec_le (dec_state d) s'"
      "cur_wf (length (dec_request (dec_state d))) c'" "same_extent c c'" for c cs c' s'
    using inv_top [OF assms(2) that] that(2) by blast
  show ?thesis
    using assms(1)
  proof cases
    case (read c cs off h sz ok bs s')
    then have "dec_le (dec_state d) s'" by (cases rule: read_at_cases [of c "dec_state d" off h sz]) auto
    with st read show ?thesis by simp
  next
    case (i32 c cs off ok v s')
    then have "dec_le (dec_state d) s'" by (cases rule: i32_at_cases [of c "dec_state d" off]) auto
    with st i32 show ?thesis by simp
  next
    case (data_size c cs off ok v s')
    with st data_size_le show ?thesis by fastforce
  next
    case (length_i32 c cs off m ok v s')
    with st length_i32_le show ?thesis by fastforce
  next
    case (string c cs off sz h ok bs s')
    with st string_le show ?thesis by fastforce
  next
    case (note_elements cnt ok s')
    with st note_elements_le show ?thesis by fastforce
  next
    case (resolve resolver tok ty role req nl ok host s')
    with st resolve_le show ?thesis by fastforce
  next
    case (advance c cs off amt ok off' c' s')
    have "cur_wf (length (dec_request (dec_state d))) c' \<and> same_extent c c' \<and> dec_le (dec_state d) s'"
      using wf [OF advance(2)]
      by (cases rule: advance_cases [where s = "dec_state d" and off = off and amt = amt])
        (use advance(3) wf [OF advance(2)] in auto)
    with top [OF advance(2)] advance(1) show ?thesis by simp
  next
    case (advance_array c cs off cnt el ok off' c' s')
    have "cur_wf (length (dec_request (dec_state d))) c' \<and> same_extent c c' \<and> dec_le (dec_state d) s'"
      using wf [OF advance_array(2)]
      by (cases rule: advance_array_cases [where s = "dec_state d" and off = off and cnt = cnt and el = el])
        (use advance_array(3) wf [OF advance_array(2)] in auto)
    with top [OF advance_array(2)] advance_array(1) show ?thesis by simp
  next
    case (presence c cs off ok v off' c' s')
    with top [OF presence(2)] presence_le [OF wf [OF presence(2)] presence(3)] show ?thesis by simp
  next
    case (pnext_known c cs t sz ok c' s')
    with top [OF pnext_known(2)] pnext_known_le [OF wf [OF pnext_known(2)] pnext_known(3)] show ?thesis by simp
  next
    case (pnext_unknown c cs t sz ok c' s')
    with top [OF pnext_unknown(2)] pnext_unknown_le [OF wf [OF pnext_unknown(2)] pnext_unknown(3)] show ?thesis by simp
  next
    case (pnext_terminated t ok s')
    then have "dec_le (dec_state d) s'" by (auto simp: vt_decode_pnext_terminated_def split: if_splits)
    with st pnext_terminated show ?thesis by simp
  next
    case (alloc c cs co ro cnt el place pool' s')
    with inv_state [OF assms(2)] alloc_le [OF alloc(3)] show ?thesis by (auto simp: dec_inv_def)
  next
    case (alloc_bytes c cs co ro b place pool' s')
    with inv_state [OF assms(2)] alloc_bytes_le [OF alloc_bytes(3)] show ?thesis by (auto simp: dec_inv_def)
  next
    case (enter c cs off sz c' child s')
    note ch = child_le [OF wf [OF enter(2)] enter(3)]
    from ch have p: "dec_inv (d\<lparr>dec_stack := c' # cs, dec_state := s'\<rparr>)" "dec_le (dec_state d) s'"
      using top [OF enter(2)] by blast+
    then have "dec_inv d'" using ch enter(1) by (auto simp: dec_inv_def dec_le_def)
    with p(2) enter(1) show ?thesis by simp
  next
    case (enter_fails c cs off sz c' child s')
    with top [OF enter_fails(2)] child_le [OF wf [OF enter_fails(2)] enter_fails(3)] show ?thesis by simp
  next
    case (leave c cs s')
    note f = finished_le [OF leave(3)]
    then have "dec_inv (d\<lparr>dec_state := s'\<rparr>)" using st by blast
    then show ?thesis using leave(1,2) f nested_tl [of c cs] by (auto simp: dec_inv_def)
  next
    case (leave_fails c cs s')
    with st finished_le [OF leave_fails(3)] show ?thesis by simp
  qed
qed

lemma dec_steps_inv:
  "dec_step\<^sup>*\<^sup>* d d' \<Longrightarrow> dec_inv d \<Longrightarrow> dec_inv d' \<and> dec_le (dec_state d) (dec_state d')"
proof (induction rule: rtranclp_induct)
  case (step d1 d2)
  then show ?case using dec_step_inv dec_le_trans by blast
qed simp

lemma cursor_init_inv:
  assumes "vt_decode_cursor_init (Some bytes) sz = Some (True, c, s)" "unat sz \<le> length bytes"
  shows "dec_inv \<lparr>dec_stack = [c], dec_state = s, dec_pool = pool\<rparr>" "dec_request s = take (unat sz) bytes"
    "dec_error s = VT_DECODE_ERROR_NONE"
  using assms
  by (auto simp: vt_decode_cursor_init_def dec_inv_def dec_budget_def cur_wf_def zero_cursor_def
      zero_state_def vt_limits word_le_nat_alt word_less_nat_alt split: if_splits)

section \<open>Guarantees\<close>

text \<open>A four-byte request, used by the instances below.\<close>

definition tiny_request :: "u8 list" where
  "tiny_request = [1, 0, 0, 0]"

definition tiny_state :: VtDecodeState where
  "tiny_state = zero_state\<lparr>dec_request := tiny_request, dec_fail_allocation_after := - 1\<rparr>"

definition tiny_cursor :: VtDecodeCursor where
  "tiny_cursor = zero_cursor\<lparr>cur_end := 4, cur_request_end := 4, cur_expected_pnext_type := - 1\<rparr>"

lemma tiny_init: "vt_decode_cursor_init (Some tiny_request) 4 = Some (True, tiny_cursor, tiny_state)"
  by (simp add: vt_decode_cursor_init_def vt_limits tiny_request_def tiny_state_def tiny_cursor_def
      zero_state_def zero_cursor_def)

lemma tiny_wf: "cur_wf (length (dec_request tiny_state)) tiny_cursor"
  by (simp add: tiny_state_def tiny_request_def cur_wf_def tiny_cursor_def zero_cursor_def vt_limits)

text \<open>C16: For any request bytes and any sequence of decoder calls: every cursor, however deeply nested,
  stays inside the request and never moves before its start or past its end; nesting is at most 32
  levels below the root, at most 262144 nodes and 128 MiB of allocations are charged, and no
  cursor records more than 32 extension structures or one of them twice. The request is not changed.\<close>

theorem decoder_stays_in_bounds:
  assumes "vt_decode_cursor_init (Some bytes) sz = Some (True, c0, s0)" and "unat sz \<le> length bytes"
    and "dec_step\<^sup>*\<^sup>* \<lparr>dec_stack = [c0], dec_state = s0, dec_pool = pool\<rparr> d"
  shows "dec_request (dec_state d) = take (unat sz) bytes \<and> length (dec_stack d) \<le> 33 \<and>
    unat (dec_nodes (dec_state d)) \<le> 262144 \<and>
    unat (dec_allocation_bytes (dec_state d)) \<le> 128 * 1024 * 1024 \<and>
    (\<forall>c\<in>set (dec_stack d). cur_base c \<le> cur_ptr c \<and> cur_ptr c \<le> cur_end c \<and>
       unat (cur_end c) \<le> unat sz \<and> unat (cur_pnext_count c) \<le> 32 \<and>
       distinct (take (unat (cur_pnext_count c)) (cur_pnext_types c)))"
proof -
  note i = cursor_init_inv(1) [OF assms(1,2), of pool] cursor_init_inv(2) [OF assms(1,2)]
  have inv: "dec_inv d" and le: "dec_request (dec_state d) = dec_request s0"
    using dec_steps_inv [OF assms(3) i(1)] by (simp_all add: dec_le_def)
  have "length (dec_stack d) \<le> 33"
  proof (cases "dec_stack d")
    case (Cons c cs)
    have dep: "\<forall>x\<in>set (dec_stack d). cur_depth x \<le> VT_DECODE_MAX_DEPTH"
      using inv by (auto simp: dec_inv_def cur_wf_def)
    then have "length cs = unat (cur_depth c)"
      using nested_depth [of c cs] inv Cons by (simp add: dec_inv_def)
    moreover have "unat (cur_depth c) \<le> 32" using dep Cons by (simp add: word_le_nat_alt vt_limits)
    ultimately show ?thesis using Cons by simp
  qed simp
  moreover have "length (dec_request (dec_state d)) = unat sz" using le i(2) assms(2) by simp
  ultimately show ?thesis
    using inv le i(2) by (auto simp: dec_inv_def dec_budget_def cur_wf_def vt_limits word_le_nat_alt)
qed

theorem decoder_stays_in_bounds_witness:
  "\<exists>s' c'. dec_step\<^sup>*\<^sup>* \<lparr>dec_stack = [tiny_cursor], dec_state = tiny_state, dec_pool = None\<rparr>
     \<lparr>dec_stack = [c'], dec_state = s', dec_pool = None\<rparr> \<and> cur_ptr c' = 4 \<and> unat (cur_end c') \<le> 4"
proof -
  let ?c = "tiny_cursor\<lparr>cur_ptr := 4\<rparr>"
  have a: "vt_decode_advance tiny_cursor tiny_state 0 4 = (True, 4, ?c, tiny_state)"
    by (simp add: vt_decode_advance_def vt_decode_add_size_def range_at_def tiny_cursor_def zero_cursor_def
        tiny_state_def zero_state_def)
  have st: "dec_step\<^sup>*\<^sup>* \<lparr>dec_stack = [tiny_cursor], dec_state = tiny_state, dec_pool = None\<rparr>
     \<lparr>dec_stack = [?c], dec_state = tiny_state, dec_pool = None\<rparr>"
    using dec_step.advance [of "\<lparr>dec_stack = [tiny_cursor], dec_state = tiny_state, dec_pool = None\<rparr>"
        tiny_cursor "[]" 0 4 True 4 ?c tiny_state] a by (simp add: r_into_rtranclp)
  have "unat (cur_end ?c) \<le> unat (4 :: u64)"
    using decoder_stays_in_bounds [OF tiny_init _ st] by (simp add: tiny_request_def)
  with st show ?thesis by (intro exI [of _ tiny_state] exI [of _ ?c]) simp
qed

text \<open>The first error is final: once the shared state has an error, no decoder call, on any cursor,
  replaces or clears it, and no nested object can be finished successfully any more.\<close>

theorem first_error_sticks:
  assumes "dec_inv d" and "dec_error (dec_state d) \<noteq> VT_DECODE_ERROR_NONE" and "dec_step\<^sup>*\<^sup>* d d'"
  shows "dec_error (dec_state d') = dec_error (dec_state d) \<and>
    fst (vt_decode_finished c (dec_state d')) = False"
  using dec_steps_inv [OF assms(3,1)] assms(2)
  by (simp add: dec_le_def vt_decode_finished_def vt_decode_ok_def)

theorem first_error_sticks_witness:
  "\<exists>d :: decoder. dec_error (dec_state d) = VT_DECODE_ERROR_TRUNCATED \<and> fst (vt_decode_finished tiny_cursor (dec_state d)) = False"
proof -
  let ?d = "\<lparr>dec_stack = [tiny_cursor], dec_state = vt_decode_fail tiny_state VT_DECODE_ERROR_TRUNCATED, dec_pool = None\<rparr>"
  have e: "dec_error (dec_state ?d) = VT_DECODE_ERROR_TRUNCATED"
    by (simp add: vt_decode_fail_def tiny_state_def zero_state_def)
  have "dec_inv \<lparr>dec_stack = [tiny_cursor], dec_state = tiny_state, dec_pool = None\<rparr>"
    by (rule cursor_init_inv(1) [OF tiny_init]) (simp add: tiny_request_def)
  then have "dec_inv ?d" using inv_state [of _ "vt_decode_fail tiny_state VT_DECODE_ERROR_TRUNCATED"] by force
  from first_error_sticks [OF this _ rtranclp.rtrancl_refl, of tiny_cursor] e
  have "dec_error (dec_state ?d) = VT_DECODE_ERROR_TRUNCATED \<and> fst (vt_decode_finished tiny_cursor (dec_state ?d)) = False"
    by simp
  then show ?thesis by blast
qed

text \<open>A read succeeds exactly when no error is pending, the output is there (or nothing is to be
  read) and the range lies inside the cursor, without any wrap-around of \<open>offset + size\<close>; it then
  delivers exactly those bytes of the request, and otherwise records an error.\<close>

theorem read_exact:
  assumes "cur_wf (length (dec_request s)) c"
  shows "case vt_decode_read_at c s off haveOut sz of (ok, bytes, s') \<Rightarrow>
    (ok \<longleftrightarrow> dec_error s = VT_DECODE_ERROR_NONE \<and> (haveOut \<or> sz = 0) \<and>
       unat (cur_base c) + unat off + unat sz \<le> unat (cur_end c)) \<and>
    (ok \<longrightarrow> s' = s \<and> length bytes = unat sz \<and>
       (\<forall>i<unat sz. bytes ! i = dec_request s ! (unat (cur_base c) + unat off + i))) \<and>
    (\<not> ok \<longrightarrow> bytes = [] \<and> dec_error s' \<noteq> VT_DECODE_ERROR_NONE)"
proof -
  note ord = cur_wf_order [OF assms]
  have av: "unat (cur_end c - cur_base c) = unat (cur_end c) - unat (cur_base c)"
    "unat (cur_base c) \<le> unat (cur_end c)"
    using ord by (simp_all add: unat_sub word_le_nat_alt)
  show ?thesis
  proof (cases rule: read_at_cases [of c s off haveOut sz])
    case ok
    have out: "haveOut \<or> sz = 0" using ok(1) by (auto simp: vt_decode_read_at_def split: if_splits)
    note r = in_range [OF ord ok(3)]
    have "unat (cur_end c) \<le> length (dec_request s)" using assms by (simp add: cur_wf_def)
    then have "length (request_slice s (cur_base c + off) sz) = unat sz \<and>
       (\<forall>i<unat sz. request_slice s (cur_base c + off) sz ! i =
          dec_request s ! (unat (cur_base c) + unat off + i))"
      using r by (simp add: request_slice_def)
    with ok out r(3) show ?thesis by simp
  next
    case (bad s')
    have "\<not> (dec_error s = VT_DECODE_ERROR_NONE \<and> (haveOut \<or> sz = 0) \<and>
        unat off + unat sz \<le> unat (cur_end c - cur_base c))"
    proof
      assume a: "dec_error s = VT_DECODE_ERROR_NONE \<and> (haveOut \<or> sz = 0) \<and>
        unat off + unat sz \<le> unat (cur_end c - cur_base c)"
      then have "\<not> (cur_end c - cur_base c < off \<or> cur_end c - cur_base c - off < sz)"
        using range_word by blast
      with a bad(1) show False by (auto simp: vt_decode_read_at_def range_at_def Let_def)
    qed
    with bad av show ?thesis by auto
  qed
qed

theorem read_exact_witness:
  "vt_decode_read_at tiny_cursor tiny_state 3 True 2 \<noteq> (True, [], tiny_state) \<and>
   fst (vt_decode_read_at tiny_cursor tiny_state 3 True 2) = False"
  using read_exact [OF tiny_wf, where off = 3 and haveOut = True and sz = 2] by (auto simp: tiny_cursor_def split: prod.splits)

text \<open>The signed value of a count that is accepted is its unsigned value.\<close>

lemma nonneg_count:
  assumes "\<not> neg32 v"
  shows "unat (scast v :: u64) = unat v" and "sint v = int (unat v)"
proof -
  have b: "0 \<le> sint v" "sint v < 2 ^ 31" using assms sint_lt [of v] by (simp_all add: neg32_def)
  have "uint v = take_bit 32 (sint v)" using uint_sint [of v] by simp
  also have "\<dots> = sint v" using b by (simp add: take_bit_int_eq_self)
  finally have u: "uint v = sint v" .
  then show "sint v = int (unat v)" by simp
  have "uint (scast v :: u64) = take_bit 64 (sint v)" unfolding scast_eq uint_word_of_int_eq by simp
  also have "\<dots> = sint v" using b by (simp add: take_bit_int_eq_self)
  finally show "unat (scast v :: u64) = unat v" using u by (simp flip: nat_uint_eq)
qed

lemma payload_fits_iff:
  "payload_fits c off bytes \<longleftrightarrow> unat off + 4 + unat bytes \<le> unat (cur_end c - cur_base c)"
proof -
  let ?a = "cur_end c - cur_base c"
  show ?thesis
  proof (cases "unat off + 4 \<le> unat ?a")
    case True
    then have o: "off \<le> ?a" by (simp add: word_le_nat_alt)
    then have u: "unat (?a - off) = unat ?a - unat off" by (simp add: unat_sub)
    with True have "4 \<le> ?a - off" by (simp add: word_le_nat_alt)
    then have "unat (?a - off - 4) = unat ?a - unat off - 4" using u by (simp add: unat_sub)
    then show ?thesis using True o \<open>4 \<le> ?a - off\<close>
      by (auto simp: payload_fits_def Let_def word_less_nat_alt not_less u)
  next
    case False
    then have "?a < off \<or> ?a - off < 4" using range_word [of ?a off 4] by auto
    then show ?thesis using False by (auto simp: payload_fits_def Let_def)
  qed
qed

lemma extent_unat:
  "cur_wf n c \<Longrightarrow> unat (cur_end c - cur_base c) = unat (cur_end c) - unat (cur_base c) \<and>
     unat (cur_base c) \<le> unat (cur_end c)"
  using cur_wf_order [of n c] by (simp add: unat_sub word_le_nat_alt)

definition wire_count :: "VtDecodeCursor \<Rightarrow> VtDecodeState \<Rightarrow> u64 \<Rightarrow> u32" where
  "wire_count c s off = le32 (request_slice s (cur_base c + off) 4)"

lemma i32_at_iff:
  "vt_decode_i32_at c s off =
     (if dec_error s = VT_DECODE_ERROR_NONE \<and> unat off + 4 \<le> unat (cur_end c - cur_base c)
      then (True, Some (wire_count c s off), s)
      else (False, None, vt_decode_fail s VT_DECODE_ERROR_TRUNCATED))"
  using range_word [of "cur_end c - cur_base c" off 4]
  by (auto simp: vt_decode_i32_at_def vt_decode_read_at_def range_at_def Let_def wire_count_def vt_decode_fail_def)

text \<open>An element count read from the wire is accepted exactly when it is between 0 and 65536 and the
  elements that follow, \<open>count * minimum size\<close> bytes computed without wrap-around, still fit in the
  cursor; the accepted count is the wire's, and a refused one records an error.\<close>

theorem element_count_exact:
  assumes "cur_wf n c" and "vt_decode_length_i32_at c s off m = (ok, v, s')"
  shows "(ok \<longleftrightarrow> dec_error s = VT_DECODE_ERROR_NONE \<and> 0 \<le> sint (wire_count c s off) \<and>
      sint (wire_count c s off) \<le> 65536 \<and>
      unat (cur_base c) + unat off + 4 + unat (wire_count c s off) * unat m \<le> unat (cur_end c)) \<and>
    (ok \<longrightarrow> v = Some (wire_count c s off) \<and> s' = s) \<and>
    (\<not> ok \<longrightarrow> dec_error s' \<noteq> VT_DECODE_ERROR_NONE)"
proof -
  let ?w = "wire_count c s off"
  note ex = extent_unat [OF assms(1)]
  have "(ok \<longleftrightarrow> dec_error s = VT_DECODE_ERROR_NONE \<and> 0 \<le> sint ?w \<and> sint ?w \<le> 65536 \<and>
      unat (cur_base c) + unat off + 4 + unat ?w * unat m \<le> unat (cur_end c)) \<and>
      (ok \<longrightarrow> v = Some ?w \<and> s' = s)"
  proof (cases "dec_error s = VT_DECODE_ERROR_NONE \<and> unat off + 4 \<le> unat (cur_end c - cur_base c)")
    case False
    then show ?thesis using assms(2) ex by (auto simp: vt_decode_length_i32_at_def i32_at_iff)
  next
    case rd: True
    show ?thesis
    proof (cases "neg32 ?w")
      case True
      then show ?thesis using assms(2) rd by (auto simp: vt_decode_length_i32_at_def i32_at_iff neg32_def)
    next
      case nn: False
      note c = nonneg_count [OF nn]
      have "sint ?w \<le> 65536 \<longleftrightarrow> unat ?w \<le> 65536" unfolding c(2) by presburger
      then have lim: "VT_DECODE_MAX_ELEMENTS < ucast ?w \<longleftrightarrow> \<not> sint ?w \<le> 65536"
        by (simp add: word_less_nat_alt unat_ucast_32_64 vt_limits not_le)
      have nz: "0 \<le> sint ?w" using nn by (simp add: neg32_def)
      show ?thesis
      proof (cases "sint ?w \<le> 65536 \<and> m \<noteq> 0")
        case False
        then show ?thesis using assms(2) rd nn nz lim ex
          by (auto simp: vt_decode_length_i32_at_def i32_at_iff split: if_splits)
      next
        case True
        have "unat (cur_end c) < 2 ^ 64" using unsigned_less [of "cur_end c", where ?'a = nat] by simp
        then have small: "2 ^ 64 \<le> unat ?w * unat m \<Longrightarrow>
          \<not> unat (cur_base c) + unat off + 4 + unat ?w * unat m \<le> unat (cur_end c)" by simp
        show ?thesis
        proof (cases "vt_decode_multiply_size (scast ?w) m")
          case None
          then have "2 ^ 64 \<le> unat ?w * unat m" unfolding multiply_size_None c(1) .
          then show ?thesis using assms(2) rd nn True lim None small
            by (auto simp: vt_decode_length_i32_at_def i32_at_iff)
        next
          case (Some b)
          have b: "unat b = unat ?w * unat m" using multiply_size_unat [OF Some] c(1) by simp
          then show ?thesis using assms(2) rd nn nz True lim Some ex payload_fits_iff [of c off b]
            by (auto simp: vt_decode_length_i32_at_def i32_at_iff split: if_splits)
        qed
      qed
    qed
  qed
  then show ?thesis using length_i32_le [OF assms(2)] by blast
qed

theorem element_count_exact_witness:
  "fst (vt_decode_length_i32_at tiny_cursor tiny_state 0 0) \<and>
   \<not> fst (vt_decode_length_i32_at tiny_cursor tiny_state 0 1)"
proof -
  have w: "wire_count tiny_cursor tiny_state 0 = 1"
    by (simp add: wire_count_def request_slice_def tiny_cursor_def zero_cursor_def tiny_state_def
        tiny_request_def le32_def)
  have "fst (vt_decode_length_i32_at tiny_cursor tiny_state 0 m) \<longleftrightarrow> 4 + unat m \<le> 4" for m
  proof -
    obtain ok v s' where r: "vt_decode_length_i32_at tiny_cursor tiny_state 0 m = (ok, v, s')"
      by (metis prod_cases3)
    show ?thesis using element_count_exact [OF tiny_wf r] r w
      by (simp add: tiny_cursor_def zero_cursor_def tiny_state_def zero_state_def)
  qed
  then show ?thesis by simp
qed

text \<open>A string field of a given size is accepted exactly when the size is not zero, the bytes lie in
  the cursor, the last byte is the terminating NUL and no other byte is; the output is the
  field's bytes.\<close>

theorem string_field_exact:
  assumes "cur_wf (length (dec_request s)) c" and "vt_decode_string_at c s off sz True = (ok, out, s')"
  shows "(ok \<longleftrightarrow> dec_error s = VT_DECODE_ERROR_NONE \<and> sz \<noteq> 0 \<and>
      unat (cur_base c) + unat off + unat sz \<le> unat (cur_end c) \<and>
      last (request_slice s (cur_base c + off) sz) = 0 \<and>
      0 \<notin> set (butlast (request_slice s (cur_base c + off) sz))) \<and>
    (ok \<longrightarrow> out = request_slice s (cur_base c + off) sz \<and> length out = unat sz \<and> s' = s) \<and>
    (\<not> ok \<longrightarrow> dec_error s' \<noteq> VT_DECODE_ERROR_NONE)"
proof -
  let ?b = "request_slice s (cur_base c + off) sz"
  note rd = read_exact [OF assms(1), where off = off and haveOut = True and sz = sz]
  have main: "(ok \<longleftrightarrow> dec_error s = VT_DECODE_ERROR_NONE \<and> sz \<noteq> 0 \<and>
      unat (cur_base c) + unat off + unat sz \<le> unat (cur_end c) \<and> last ?b = 0 \<and> 0 \<notin> set (butlast ?b)) \<and>
    (ok \<longrightarrow> out = ?b \<and> length out = unat sz \<and> s' = s)"
  proof (cases "sz = 0")
    case True
    then show ?thesis using assms(2) by (simp add: vt_decode_string_at_def)
  next
    case nz: False
    show ?thesis
    proof (cases rule: read_at_cases [of c s off True sz])
      case ok
      then have l: "length ?b = unat sz" using rd by simp
      have p: "0 < unat sz" using nz by (simp add: unat_gt_0)
      with l have ne: "?b \<noteq> []" by auto
      then have lb: "last ?b = ?b ! (unat sz - 1)" "butlast ?b = take (unat sz - 1) ?b"
        using l by (simp_all add: last_conv_nth butlast_conv_take)
      show ?thesis using assms(2) nz ok rd l lb
        by (auto simp: vt_decode_string_at_def vt_decode_copy_at_def split: if_splits)
    next
      case (bad s1)
      then show ?thesis using assms(2) nz rd
        by (auto simp: vt_decode_string_at_def vt_decode_copy_at_def)
    qed
  qed
  then show ?thesis using string_le [OF assms(2)] by blast
qed

theorem string_field_exact_witness:
  "fst (vt_decode_string_at tiny_cursor tiny_state 0 2 True) \<and>
   \<not> fst (vt_decode_string_at tiny_cursor tiny_state 0 3 True) \<and>
   \<not> fst (vt_decode_string_at tiny_cursor tiny_state 0 1 True)"
proof -
  have e: "fst (vt_decode_string_at tiny_cursor tiny_state 0 sz True) \<longleftrightarrow>
      sz \<noteq> 0 \<and> unat sz \<le> 4 \<and> last (take (unat sz) tiny_request) = 0 \<and>
      0 \<notin> set (butlast (take (unat sz) tiny_request))" for sz
  proof -
    obtain ok v s' where r: "vt_decode_string_at tiny_cursor tiny_state 0 sz True = (ok, v, s')"
      by (metis prod_cases3)
    show ?thesis using string_field_exact [OF tiny_wf r] r
      by (simp add: tiny_cursor_def zero_cursor_def tiny_state_def zero_state_def request_slice_def)
  qed
  show ?thesis unfolding e by (simp add: tiny_request_def take_Cons')
qed

text \<open>An array allocation that succeeds is for a number of bytes that is the true product of
  count and element size (no wrap-around), not zero, for at most 65536 elements and not more elements
  than bytes left in the cursor; an inline place is 16-byte aligned, starts at or after everything
  handed out before and ends inside the 64 KiB pool, whose use it extends to its own end.\<close>

theorem array_allocation_sound:
  assumes "vt_decode_alloc co ro c s (Some p) cnt el = (Some pl, pool', s')"
  shows "unat (cnt * el) = unat cnt * unat el \<and> cnt * el \<noteq> 0 \<and> unat cnt \<le> 65536 \<and>
    unat cnt \<le> unat (vt_decode_remaining c) \<and>
    (\<exists>p'. pool' = Some p' \<and>
       (case pl of
          Inline off \<Rightarrow> 16 dvd unat off \<and> unat (pool_size p) \<le> unat off \<and>
            unat off + unat cnt * unat el \<le> 65536 \<and> unat (pool_size p') = unat off + unat cnt * unat el
        | Heap b \<Rightarrow> unat b = unat cnt * unat el \<and> pool_size p' = pool_size p \<and>
            list_size p' = list_size p + 1))"
proof -
  obtain p' where r: "pool' = Some p'" "place_ok p p' (cnt * el) pl"
    "unat (cnt * el) = unat cnt * unat el" "cnt * el \<noteq> 0" "cnt \<le> VT_DECODE_MAX_ELEMENTS"
    "cnt \<le> vt_decode_remaining c"
    using alloc_le [OF assms] by auto
  then show ?thesis by (cases pl) (simp_all add: place_ok_def vt_limits word_le_nat_alt)
qed

definition tiny_pool :: VtDecodeMemoryPool where
  "tiny_pool = \<lparr>pool_has_data = True, pool_size = 5, list_size = 0, list_capacity = 0, list_elements = []\<rparr>"

theorem array_allocation_sound_witness:
  "\<exists>pool' s'. vt_decode_alloc True True tiny_cursor tiny_state (Some tiny_pool) 2 8 =
     (Some (Inline 16), pool', s') \<and> (\<exists>p'. pool' = Some p' \<and> unat (pool_size p') = 32)"
proof -
  have "\<exists>p' s'. vt_decode_alloc True True tiny_cursor tiny_state (Some tiny_pool) 2 8 = (Some (Inline 16), p', s')"
    by (simp add: vt_decode_alloc_def vt_decode_validate_count_def vt_limits vt_decode_multiply_size_def
        tiny_state_def tiny_cursor_def zero_state_def zero_cursor_def vt_decode_remaining_def pool_place_def
        tiny_pool_def neg32_def vt_decode_add_size_def VT_DECODE_MAX_ALIGN_def Let_def)
  then obtain p' s' where r: "vt_decode_alloc True True tiny_cursor tiny_state (Some tiny_pool) 2 8 =
     (Some (Inline 16), p', s')" by blast
  from array_allocation_sound [OF r] r show ?thesis by auto
qed

text \<open>A wire handle is resolved exactly when the resolver is set, the request is well-formed, a zero
  token is allowed where it stands, the resolver accepts the request, zero and non-zero handles agree on
  both sides, and the capture array still has room; the host value is then the resolver's answer, and
  after a refusal it is zero.\<close>

theorem resolve_handle_exact:
  assumes "vt_decode_resolve_handle resolver s tok ty role owners nl = (ok, host, s')"
  shows "(ok \<longleftrightarrow> dec_has_resolver s \<and> owners AND NOT 3 = 0 \<and> (\<forall>k. nl \<noteq> VT_DECODE_NULL_OTHER k) \<and>
      (tok = 0 \<longrightarrow> nl = VT_DECODE_NULL_VULKAN \<or>
         nl = VT_DECODE_NULL_DESCRIPTOR_FEATURE \<and> dec_null_descriptor_enabled s) \<and>
      (\<exists>h. ans_host (resolver \<lparr>req_wire_token = tok, req_context_generation = dec_context_generation s,
              req_instance_owner = dec_instance_owner s, req_device_owner = dec_device_owner s,
              req_object_type = ty, req_owner_requirements = owners, req_role = role,
              req_nullability = nl\<rparr> s) = Some h \<and> (h = 0 \<longleftrightarrow> tok = 0) \<and> (ok \<longrightarrow> host = h)) \<and>
      (dec_captured_tokens s = None \<or> dec_capture_object_type s \<noteq> ty \<or>
         dec_captured_count s < dec_captured_capacity s)) \<and>
    (\<not> ok \<longrightarrow> host = 0 \<and> dec_error s' \<noteq> VT_DECODE_ERROR_NONE)"
proof -
  have own: "(VT_DECODE_OWNER_INSTANCE OR VT_DECODE_OWNER_DEVICE) = 3"
    by (simp add: VT_DECODE_OWNER_INSTANCE_def VT_DECODE_OWNER_DEVICE_def)
  let ?rq = "\<lparr>req_wire_token = tok, req_context_generation = dec_context_generation s,
              req_instance_owner = dec_instance_owner s, req_device_owner = dec_device_owner s,
              req_object_type = ty, req_owner_requirements = owners, req_role = role,
              req_nullability = nl\<rparr>"
  note d = vt_decode_resolve_handle_def own Let_def after_resolver_def vt_decode_set_handle_scope_def
    vt_decode_set_null_descriptor_enabled_def
  have "ok \<longleftrightarrow> dec_has_resolver s \<and> owners AND NOT 3 = 0 \<and> (\<forall>k. nl \<noteq> VT_DECODE_NULL_OTHER k) \<and>
      (tok = 0 \<longrightarrow> nl = VT_DECODE_NULL_VULKAN \<or>
         nl = VT_DECODE_NULL_DESCRIPTOR_FEATURE \<and> dec_null_descriptor_enabled s) \<and>
      (\<exists>h. ans_host (resolver ?rq s) = Some h \<and> (h = 0 \<longleftrightarrow> tok = 0) \<and> (ok \<longrightarrow> host = h)) \<and>
      (dec_captured_tokens s = None \<or> dec_capture_object_type s \<noteq> ty \<or>
         dec_captured_count s < dec_captured_capacity s)" (is "_ \<longleftrightarrow> ?R")
  proof (cases "dec_has_resolver s \<and> owners AND NOT 3 = 0 \<and> (\<forall>k. nl \<noteq> VT_DECODE_NULL_OTHER k) \<and>
      (tok = 0 \<longrightarrow> nl = VT_DECODE_NULL_VULKAN \<or>
         nl = VT_DECODE_NULL_DESCRIPTOR_FEATURE \<and> dec_null_descriptor_enabled s)")
    case False
    then have "\<not> ok" using assms by (cases nl) (auto simp: d split: if_splits)
    with False show ?thesis by blast
  next
    case g: True
    show ?thesis
    proof (cases "\<exists>h. ans_host (resolver ?rq s) = Some h \<and> (h = 0 \<longleftrightarrow> tok = 0)")
      case False
      then have "\<not> ok" using assms g by (cases nl; cases "ans_host (resolver ?rq s)") (auto simp: d split: if_splits)
      with False show ?thesis by blast
    next
      case True
      then obtain h where h: "ans_host (resolver ?rq s) = Some h" "h = 0 \<longleftrightarrow> tok = 0" by blast
      have "(ok \<longleftrightarrow> dec_captured_tokens s = None \<or> dec_capture_object_type s \<noteq> ty \<or>
         dec_captured_count s < dec_captured_capacity s) \<and> (ok \<longrightarrow> host = h)"
        using assms g h by (cases nl; cases "dec_captured_tokens s") (auto simp: d split: if_splits)
      with g h show ?thesis by blast
    qed
  qed
  then show ?thesis using resolve_le [OF assms] by blast
qed

theorem resolve_handle_exact_witness:
  "\<exists>s'. vt_decode_resolve_handle (\<lambda>r s. \<lparr>ans_host = Some (req_wire_token r + 1), ans_instance_owner = 0,
       ans_device_owner = 0, ans_null_descriptor_enabled = False\<rparr>) (tiny_state\<lparr>dec_has_resolver := True\<rparr>) 7 3
     VT_DECODE_HANDLE_ROLE_VULKAN 2 VT_DECODE_NULL_NEVER = (True, 8, s')"
proof -
  let ?s = "tiny_state\<lparr>dec_has_resolver := True\<rparr>"
  let ?f = "\<lambda>(r :: VtDecodeHandleRequest) (s :: VtDecodeState). \<lparr>ans_host = Some (req_wire_token r + 1), ans_instance_owner = 0,
       ans_device_owner = 0, ans_null_descriptor_enabled = False\<rparr>"
  obtain ok host s' where r: "vt_decode_resolve_handle ?f ?s 7 3 VT_DECODE_HANDLE_ROLE_VULKAN 2
      VT_DECODE_NULL_NEVER = (ok, host, s')"
    by (metis prod_cases3)
  have "ok \<and> host = 8"
    using resolve_handle_exact [OF r] by (auto simp: tiny_state_def zero_state_def)
  then show ?thesis using r by simp
qed

text \<open>C17: A nested object is decoded inside a cursor of its own and accepted only when it is consumed
  exactly: if a decoder run that keeps the child's extent succeeds through \<open>VT_DECODE_CHILD_CALL\<close>,
  no error is pending and the child's position is the end of the announced range, which lies in
  the parent's.\<close>

theorem child_call_consumes_exactly:
  assumes "cur_wf n p" and "VT_DECODE_CHILD_CALL p s off sz call = (True, p', s')"
    and "\<And>c s1. same_extent c (fst (snd (call c s1)))"
  shows "same_extent p p' \<and> vt_decode_ok s' \<and>
    unat (cur_base p) + unat off + unat sz \<le> unat (cur_end p) \<and>
    (\<exists>c s1 c'. call c s1 = (True, c', s') \<and> cur_wf n c \<and> within c p' \<and>
       unat (cur_base c) = unat (cur_base p) + unat off \<and>
       unat (cur_ptr c') = unat (cur_base p) + unat off + unat sz)"
proof -
  obtain okc pc ch s1 where ch: "vt_decode_child_at p s off sz = (okc, pc, ch, s1)" by (metis prod_cases4)
  note le = child_le [OF assms(1) ch]
  obtain c where c: "okc" "ch = Some c" using assms(2) ch
    by (cases okc; cases ch) (auto simp: VT_DECODE_CHILD_CALL_def)
  obtain c' s2 where cc: "call c s1 = (True, c', s2)" using assms(2) ch c
    by (auto simp: VT_DECODE_CHILD_CALL_def split: prod.splits bool.splits)
  obtain ok3 s3 where f: "vt_decode_finished c' s2 = (ok3, s3)" by (metis surj_pair)
  have r: "ok3" "p' = pc" "s' = s3" using assms(2) ch c cc f by (auto simp: VT_DECODE_CHILD_CALL_def)
  note fin = finished_le [OF f]
  have ext: "same_extent c c'" using assms(3) [of c s1] cc by simp
  have rg: "unat off + unat sz \<le> unat (cur_end p - cur_base p)"
    using ch c by (cases rule: range_at_cases [of p s off sz]) (auto simp: vt_decode_child_at_def)
  note ir = in_range [OF cur_wf_order [OF assms(1)] rg]
  have "unat (cur_ptr c') = unat (cur_base p) + unat off + unat sz"
    using le c fin r ext ir by (auto simp: same_extent_def)
  then have "\<exists>c s1 c'. call c s1 = (True, c', s') \<and> cur_wf n c \<and> within c p' \<and>
       unat (cur_base c) = unat (cur_base p) + unat off \<and>
       unat (cur_ptr c') = unat (cur_base p) + unat off + unat sz"
    using le c fin r cc ir by (intro exI [of _ c] exI [of _ s1] exI [of _ c']) auto
  then show ?thesis using le c fin r ir by (auto simp: vt_decode_ok_def)
qed

theorem child_call_consumes_exactly_witness:
  "\<exists>p' s'. VT_DECODE_CHILD_CALL tiny_cursor tiny_state 1 3 (\<lambda>c s. (True, c\<lparr>cur_ptr := cur_end c\<rparr>, s)) = (True, p', s') \<and>
     vt_decode_ok s'"
proof -
  let ?call = "\<lambda>c s. (True, c\<lparr>cur_ptr := cur_end c\<rparr>, s) :: bool \<times> VtDecodeCursor \<times> VtDecodeState"
  obtain ok p' s' where r: "VT_DECODE_CHILD_CALL tiny_cursor tiny_state 1 3 ?call = (ok, p', s')"
    by (rule prod_cases3)
  let ?c = "zero_cursor\<lparr>cur_base := 1, cur_ptr := 1, cur_end := 4, cur_request_end := 4, cur_depth := 1,
      cur_expected_pnext_type := - 1\<rparr>"
  let ?s = "tiny_state\<lparr>dec_nodes := 1\<rparr>"
  have ch: "vt_decode_child_at tiny_cursor tiny_state 1 3 = (True, tiny_cursor, Some ?c, ?s)"
    by (simp add: vt_decode_child_at_def range_at_def vt_limits tiny_cursor_def zero_cursor_def
        tiny_state_def zero_state_def)
  have fi: "vt_decode_finished (?c\<lparr>cur_ptr := cur_end ?c\<rparr>) ?s = (True, ?s)"
    by (simp add: vt_decode_finished_def vt_decode_ok_def tiny_state_def zero_state_def)
  have ok: "ok = True" using r fi by (simp add: VT_DECODE_CHILD_CALL_def ch)
  have "vt_decode_ok s'"
    using child_call_consumes_exactly [OF tiny_wf r [unfolded ok]] by (simp add: same_extent_def)
  then show ?thesis using r ok by blast
qed

end
