(* ===== verification/Ring_Buffer.thy ===== *)
theory Ring_Buffer
  imports Prelude
begin

text \<open>
  The shared-memory ring between the guest and the renderer, \<^verbatim>\<open>cpp/src/ring_buffer.c\<close> and its header.

  \<open>head\<close>, \<open>tail\<close> and \<open>status\<close> are the three 32-bit atomics at the start of the mapping; \<open>ring_buffer\<close>
  are the bytes behind them. A blocking operation observes the shared memory again in every
  iteration of its wait, so it takes the sequence \<open>env\<close> of what those observations see, and the
  sequence of answers of \<^verbatim>\<open>poll\<close>; it works on the last observation. Copies are \<^verbatim>\<open>memcpy\<close> of list segments.
\<close>

unbundle bit_operations_syntax

record RingBuffer =
  ring_head :: u32
  ring_tail :: u32
  ring_status :: u32
  ring_buffer :: "u8 list"
  ring_bufferSize :: u32
  ring_peerFd :: int

definition RING_STATUS_IDLE :: u32 where "RING_STATUS_IDLE = 1"
definition RING_STATUS_EXIT :: u32 where "RING_STATUS_EXIT = 2"
definition RING_STATUS_WAIT :: u32 where "RING_STATUS_WAIT = 4"

definition RING_WAIT_YIELD_ITERATIONS :: u32 where "RING_WAIT_YIELD_ITERATIONS = 64"
definition RING_WAIT_INITIAL_SLEEP_US :: u32 where "RING_WAIT_INITIAL_SLEEP_US = 100"
definition RING_WAIT_MAX_SLEEP_US :: u32 where "RING_WAIT_MAX_SLEEP_US = 100"

section \<open>Waiting\<close>

text \<open>The answer of \<^verbatim>\<open>poll\<close> that ends the retry loop around \<^verbatim>\<open>EINTR\<close>: an error, a timeout, or
  the returned events. The event bits are those of Linux.\<close>

datatype poll_answer = PollError | PollTimeout | PollEvents u16

definition POLL_TERMINAL :: u16 where
  "POLL_TERMINAL = 0x10 OR 0x8 OR 0x20 OR 0x2000"

definition busyWait :: "u32 \<Rightarrow> u32" where
  "busyWait it = it + 1"

text \<open>The poll timeout in milliseconds of an iteration past the yield path.\<close>

definition ring_sleep_ms :: "u32 \<Rightarrow> u32" where
  "ring_sleep_ms it =
     (let shift0 = it - RING_WAIT_YIELD_ITERATIONS - 1;
          shift = (if 4 < shift0 then 4 else shift0);
          us = push_bit (unat shift) RING_WAIT_INITIAL_SLEEP_US;
          sleepUs = (if RING_WAIT_MAX_SLEEP_US < us then RING_WAIT_MAX_SLEEP_US else us)
      in (sleepUs + 999) div 1000)"

definition RingBuffer_backoff :: "int \<Rightarrow> poll_answer \<Rightarrow> u32 \<Rightarrow> bool \<times> u32" where
  "RingBuffer_backoff peerFd answer it =
     (if peerFd < 0 then (True, busyWait it)
      else let it' = (if it < UINT32_MAX then it + 1 else it)
           in if it' \<le> RING_WAIT_YIELD_ITERATIONS then (True, it')
              else (case answer of
                      PollError \<Rightarrow> (False, it')
                    | PollTimeout \<Rightarrow> (True, it')
                    | PollEvents revents \<Rightarrow> (revents AND POLL_TERMINAL = 0, it')))"

section \<open>The atomics\<close>

definition RingBuffer_setHead :: "RingBuffer \<Rightarrow> u32 \<Rightarrow> RingBuffer" where
  "RingBuffer_setHead r h = r\<lparr>ring_head := h\<rparr>"

definition RingBuffer_getHead :: "RingBuffer \<Rightarrow> u32" where
  "RingBuffer_getHead r = ring_head r"

definition RingBuffer_setTail :: "RingBuffer \<Rightarrow> u32 \<Rightarrow> RingBuffer" where
  "RingBuffer_setTail r t = r\<lparr>ring_tail := t\<rparr>"

definition RingBuffer_getTail :: "RingBuffer \<Rightarrow> u32" where
  "RingBuffer_getTail r = ring_tail r"

definition RingBuffer_setStatus :: "RingBuffer \<Rightarrow> u32 \<Rightarrow> RingBuffer" where
  "RingBuffer_setStatus r st = r\<lparr>ring_status := ring_status r OR st\<rparr>"

definition RingBuffer_unsetStatus :: "RingBuffer \<Rightarrow> u32 \<Rightarrow> RingBuffer" where
  "RingBuffer_unsetStatus r st = r\<lparr>ring_status := ring_status r AND NOT st\<rparr>"

definition RingBuffer_hasStatus :: "RingBuffer \<Rightarrow> u32 \<Rightarrow> bool" where
  "RingBuffer_hasStatus r st \<longleftrightarrow> ring_status r AND st \<noteq> 0"

text \<open>\<open>16\<close> is the offset of the buffer behind three \<^verbatim>\<open>uint32_t\<close> and the alignment of a pointer.\<close>

definition RingBuffer_getSHMemSize :: "u32 \<Rightarrow> u32" where
  "RingBuffer_getSHMemSize bufferSize = bufferSize + 16"

definition RingBuffer_create :: "bool \<Rightarrow> bool \<Rightarrow> int \<Rightarrow> u32 \<Rightarrow> RingBuffer ptr" where
  "RingBuffer_create calloc_ok mmap_ok shmFd bufferSize =
     (if shmFd < 0 \<or> bufferSize = 0 \<or> bufferSize AND (bufferSize - 1) \<noteq> 0 \<or> UINT32_MAX - 16 < bufferSize
      then None
      else if \<not> calloc_ok then None
      else if \<not> mmap_ok then None
      else Some (RingBuffer_setStatus
        \<lparr>ring_head = 0, ring_tail = 0, ring_status = 0, ring_buffer = replicate (unat bufferSize) 0,
         ring_bufferSize = bufferSize, ring_peerFd = - 1\<rparr> RING_STATUS_IDLE))"

definition RingBuffer_setPeerFd :: "RingBuffer ptr \<Rightarrow> int \<Rightarrow> RingBuffer ptr" where
  "RingBuffer_setPeerFd ring fd = map_option (\<lambda>r. r\<lparr>ring_peerFd := fd\<rparr>) ring"

definition RingBuffer_size :: "RingBuffer \<Rightarrow> u32" where
  "RingBuffer_size r = RingBuffer_getTail r - RingBuffer_getHead r"

definition RingBuffer_freeSpace :: "RingBuffer \<Rightarrow> u32" where
  "RingBuffer_freeSpace r =
     (let used = RingBuffer_size r in if used \<le> ring_bufferSize r then ring_bufferSize r - used else 0)"

text \<open>What the peer sees in the mapping once the ring is freed; the mapping itself is gone.\<close>

definition RingBuffer_free :: "RingBuffer ptr \<Rightarrow> RingBuffer ptr" where
  "RingBuffer_free ring = map_option (\<lambda>r. RingBuffer_setStatus r RING_STATUS_EXIT) ring"

section \<open>The wait loops\<close>

text \<open>The loop of both waits: the result and the last observation. It need not end.\<close>

partial_function (option) ring_wait_loop ::
  "(RingBuffer \<Rightarrow> bool) \<Rightarrow> (nat \<Rightarrow> RingBuffer) \<Rightarrow> (nat \<Rightarrow> poll_answer) \<Rightarrow> nat \<Rightarrow> u32
     \<Rightarrow> (bool \<times> RingBuffer) option" where
  "ring_wait_loop ready env polls i it =
     (if ready (env i) then Some (True, env i)
      else if RingBuffer_hasStatus (env i) RING_STATUS_EXIT then Some (False, env i)
      else let (go, it') = RingBuffer_backoff (ring_peerFd (env i)) (polls i) it
           in if go then ring_wait_loop ready env polls (i + 1) it' else Some (False, env i))"

declare ring_wait_loop.simps [code]

definition RingBuffer_waitForRead ::
  "(nat \<Rightarrow> RingBuffer) \<Rightarrow> (nat \<Rightarrow> poll_answer) \<Rightarrow> u32 \<Rightarrow> (bool \<times> RingBuffer) option" where
  "RingBuffer_waitForRead env polls sz =
     (if ring_bufferSize (env 0) < sz then Some (False, env 0)
      else ring_wait_loop (\<lambda>r. sz \<le> RingBuffer_size r) env polls 0 0)"

definition RingBuffer_waitForWrite ::
  "(nat \<Rightarrow> RingBuffer) \<Rightarrow> (nat \<Rightarrow> poll_answer) \<Rightarrow> u32 \<Rightarrow> (bool \<times> RingBuffer) option" where
  "RingBuffer_waitForWrite env polls sz =
     (if ring_bufferSize (env 0) < sz then Some (False, env 0)
      else ring_wait_loop (\<lambda>r. sz \<le> RingBuffer_freeSpace r) env polls 0 0)"

section \<open>Copies\<close>

definition memcpy_at :: "'a list \<Rightarrow> nat \<Rightarrow> 'a list \<Rightarrow> 'a list" where
  "memcpy_at dst off src = take off dst @ src @ drop (off + length src) dst"

definition ring_copy_out :: "RingBuffer \<Rightarrow> u32 \<Rightarrow> u32 \<Rightarrow> u8 list" where
  "ring_copy_out r position sz =
     (let offset = position AND (ring_bufferSize r - 1)
      in if offset + sz \<le> ring_bufferSize r
         then take (unat sz) (drop (unat offset) (ring_buffer r))
         else let start = ring_bufferSize r - offset
              in take (unat start) (drop (unat offset) (ring_buffer r)) @
                 take (unat (sz - start)) (ring_buffer r))"

definition ring_copy_in :: "RingBuffer \<Rightarrow> u32 \<Rightarrow> u8 list \<Rightarrow> u32 \<Rightarrow> RingBuffer" where
  "ring_copy_in r position bytes sz =
     (let offset = position AND (ring_bufferSize r - 1)
      in if offset + sz \<le> ring_bufferSize r
         then r\<lparr>ring_buffer := memcpy_at (ring_buffer r) (unat offset) (take (unat sz) bytes)\<rparr>
         else let start = ring_bufferSize r - offset;
                  once = memcpy_at (ring_buffer r) (unat offset) (take (unat start) bytes)
              in r\<lparr>ring_buffer := memcpy_at once 0 (take (unat (sz - start)) (drop (unat start) bytes))\<rparr>)"

definition RingBuffer_copyAt :: "RingBuffer \<Rightarrow> u32 \<Rightarrow> u8 list \<Rightarrow> u32 \<Rightarrow> RingBuffer" where
  "RingBuffer_copyAt r position bytes sz = (if sz = 0 then r else ring_copy_in r position bytes sz)"

section \<open>Reading and writing\<close>

text \<open>\<open>haveData\<close>: the caller's buffer pointer is not NULL. The ring pointer is NULL when \<open>ring\<close> is
  \<^const>\<open>None\<close>. A result of \<^const>\<open>None\<close> means that the call never returns.\<close>

definition RingBuffer_read ::
  "(nat \<Rightarrow> RingBuffer) ptr \<Rightarrow> (nat \<Rightarrow> poll_answer) \<Rightarrow> bool \<Rightarrow> u32
     \<Rightarrow> (bool \<times> u8 list \<times> RingBuffer ptr) option" where
  "RingBuffer_read ring polls haveData sz =
     (case ring of
        None \<Rightarrow> Some (False, [], None)
      | Some env \<Rightarrow>
          if (sz \<noteq> 0 \<and> \<not> haveData) \<or> ring_bufferSize (env 0) < sz
          then Some (False, [], Some (env 0))
          else (case RingBuffer_waitForRead env polls sz of
                  None \<Rightarrow> None
                | Some (False, r) \<Rightarrow> Some (False, [], Some r)
                | Some (True, r) \<Rightarrow>
                    let head = RingBuffer_getHead r
                    in Some (True, ring_copy_out r head sz, Some (RingBuffer_setHead r (head + sz)))))"

definition RingBuffer_write ::
  "(nat \<Rightarrow> RingBuffer) ptr \<Rightarrow> (nat \<Rightarrow> poll_answer) \<Rightarrow> u8 list ptr \<Rightarrow> u32
     \<Rightarrow> (bool \<times> RingBuffer ptr) option" where
  "RingBuffer_write ring polls data sz =
     (case ring of
        None \<Rightarrow> Some (False, None)
      | Some env \<Rightarrow>
          if (sz \<noteq> 0 \<and> data = None) \<or> ring_bufferSize (env 0) < sz
          then Some (False, Some (env 0))
          else (case RingBuffer_waitForWrite env polls sz of
                  None \<Rightarrow> None
                | Some (False, r) \<Rightarrow> Some (False, Some r)
                | Some (True, r) \<Rightarrow>
                    let tail = RingBuffer_getTail r;
                        r' = ring_copy_in r tail (case data of None \<Rightarrow> [] | Some bs \<Rightarrow> bs) sz
                    in Some (True, Some (RingBuffer_setTail r' (tail + sz)))))"

definition RingBuffer_writeFrame ::
  "(nat \<Rightarrow> RingBuffer) ptr \<Rightarrow> (nat \<Rightarrow> poll_answer) \<Rightarrow> u8 list ptr \<Rightarrow> u32 \<Rightarrow> u8 list ptr \<Rightarrow> u32
     \<Rightarrow> (bool \<times> RingBuffer ptr) option" where
  "RingBuffer_writeFrame ring polls header headerSize data dataSize =
     (case ring of
        None \<Rightarrow> Some (False, None)
      | Some env \<Rightarrow>
          (case header of
             None \<Rightarrow> Some (False, Some (env 0))
           | Some hdr \<Rightarrow>
               if headerSize = 0 \<or> (dataSize \<noteq> 0 \<and> data = None) \<or> ring_bufferSize (env 0) < headerSize \<or>
                  ring_bufferSize (env 0) - headerSize < dataSize
               then Some (False, Some (env 0))
               else let total = headerSize + dataSize
               in (case RingBuffer_waitForWrite env polls total of
                     None \<Rightarrow> None
                   | Some (False, r) \<Rightarrow> Some (False, Some r)
                   | Some (True, r) \<Rightarrow>
                       let tail = RingBuffer_getTail r;
                           r1 = RingBuffer_copyAt r tail hdr headerSize;
                           r2 = RingBuffer_copyAt r1 (tail + headerSize)
                                  (case data of None \<Rightarrow> [] | Some bs \<Rightarrow> bs) dataSize
                       in Some (True, Some (RingBuffer_setTail r2 (tail + total))))))"

section \<open>The zero-copy macros\<close>

text \<open>
  \<open>RING_READ_BEGIN\<close> gives the bytes at \<^verbatim>\<open>data\<close> (\<^const>\<open>None\<close>: not ready) and the head to publish; the bytes
  are the ring's own when they do not wrap and a private copy otherwise, which \<open>malloc_ok\<close> may refuse.
\<close>

definition RING_READ_BEGIN ::
  "(nat \<Rightarrow> RingBuffer) \<Rightarrow> (nat \<Rightarrow> poll_answer) \<Rightarrow> bool \<Rightarrow> u32
     \<Rightarrow> (u8 list option \<times> u32 \<times> RingBuffer) option" where
  "RING_READ_BEGIN env polls malloc_ok sz =
     (if sz = 0 then Some (None, 0, env 0)
      else case RingBuffer_waitForRead env polls sz of
        None \<Rightarrow> None
      | Some (False, r) \<Rightarrow> Some (None, 0, r)
      | Some (True, r) \<Rightarrow>
          let ringHead = RingBuffer_getHead r;
              ringOffset = ringHead AND (ring_bufferSize r - 1)
          in if ringOffset + sz \<le> ring_bufferSize r \<or> malloc_ok
             then Some (Some (ring_copy_out r ringHead sz), ringHead + sz, r)
             else Some (None, ringHead, RingBuffer_setStatus r RING_STATUS_EXIT))"

definition RING_READ_END :: "RingBuffer \<Rightarrow> u8 list option \<Rightarrow> u32 \<Rightarrow> RingBuffer" where
  "RING_READ_END r data ringHead = (if data \<noteq> None then RingBuffer_setHead r ringHead else r)"

text \<open>\<open>RING_WRITE_BEGIN\<close> gives the tail at which the caller's bytes go, when it is ready. The caller
  fills the place it got, the ring itself or a private block, with \<open>bytes\<close>; \<open>RING_WRITE_END\<close> brings
  them into the ring and publishes them.\<close>

definition RING_WRITE_BEGIN ::
  "(nat \<Rightarrow> RingBuffer) \<Rightarrow> (nat \<Rightarrow> poll_answer) \<Rightarrow> bool \<Rightarrow> u32 \<Rightarrow> (u32 option \<times> RingBuffer) option" where
  "RING_WRITE_BEGIN env polls malloc_ok sz =
     (if sz = 0 then Some (None, env 0)
      else case RingBuffer_waitForWrite env polls sz of
        None \<Rightarrow> None
      | Some (False, r) \<Rightarrow> Some (None, r)
      | Some (True, r) \<Rightarrow>
          let ringTail = RingBuffer_getTail r;
              ringOffset = ringTail AND (ring_bufferSize r - 1)
          in if ringOffset + sz \<le> ring_bufferSize r \<or> malloc_ok then Some (Some ringTail, r)
             else Some (None, RingBuffer_setStatus r RING_STATUS_EXIT))"

definition RING_WRITE_END :: "RingBuffer \<Rightarrow> u32 option \<Rightarrow> u8 list \<Rightarrow> u32 \<Rightarrow> RingBuffer" where
  "RING_WRITE_END r ready bytes sz =
     (case ready of
        None \<Rightarrow> r
      | Some ringTail \<Rightarrow> RingBuffer_setTail (ring_copy_in r ringTail bytes sz) (ringTail + sz))"

end
