(* ===== verification/Ring_Machine.thy ===== *)
theory Ring_Machine
  imports Ring_Buffer
begin

text \<open>
  One producer and one consumer on the ring, interleaved at the granularity of the shared-memory
  accesses: the check of the wait, each copy of a chunk, and the store that publishes. The ghost fields
  are the bytes published and the bytes taken so far. The ring is a bounded first-in-first-out
  queue of bytes whatever the order of steps and however often the 32-bit positions wrap.
\<close>

section \<open>Masked positions\<close>

definition ring_ok :: "nat \<Rightarrow> RingBuffer \<Rightarrow> bool" where
  "ring_ok k r \<longleftrightarrow> k \<le> 31 \<and> ring_bufferSize r = 2 ^ k \<and> length (ring_buffer r) = 2 ^ k"

lemma pow_le_31: "k \<le> 31 \<Longrightarrow> (2 :: nat) ^ k \<le> 2147483648"
  using power_increasing [of k 31 "2 :: nat"] by simp

lemma pow_unat: "k \<le> 31 \<Longrightarrow> unat (2 ^ k :: u32) = 2 ^ k"
proof -
  assume "k \<le> 31"
  then have "take_bit 32 ((2 :: nat) ^ k) = 2 ^ k" using pow_le_31 [of k] by (simp add: take_bit_nat_eq_self)
  then show ?thesis using unsigned_of_nat [of "2 ^ k", where ?'a = nat and ?'b = 32] by simp
qed

lemma ring_ok_unat: "ring_ok k r \<Longrightarrow> unat (ring_bufferSize r) = 2 ^ k"
  by (simp add: ring_ok_def pow_unat)

lemma ring_ok_le: "ring_ok k r \<Longrightarrow> (2 :: nat) ^ k \<le> 2147483648"
  using pow_le_31 [of k] by (simp add: ring_ok_def)

lemma masked_position:
  assumes "ring_ok k r"
  shows "unat (of_nat p AND (ring_bufferSize r - 1)) = p mod 2 ^ k"
proof -
  have k: "k \<le> 31" and bs: "ring_bufferSize r = 2 ^ k" using assms by (simp_all add: ring_ok_def)
  have "ring_bufferSize r - 1 = mask k" by (simp add: bs mask_eq_exp_minus_1)
  then have "of_nat p AND (ring_bufferSize r - 1) = take_bit k (of_nat p :: u32)"
    by (simp add: take_bit_eq_mask)
  then have "unat (of_nat p AND (ring_bufferSize r - 1)) = take_bit k (take_bit 32 p)"
    by (simp add: unsigned_take_bit_eq unsigned_of_nat)
  also have "\<dots> = p mod 2 ^ k" using k by (simp add: min_def flip: take_bit_eq_mod)
  finally show ?thesis .
qed

lemma fits_iff:
  assumes "ring_ok k r" "unat sz \<le> 2 ^ k"
  shows "(of_nat p AND (ring_bufferSize r - 1)) + sz \<le> ring_bufferSize r \<longleftrightarrow> p mod 2 ^ k + unat sz \<le> 2 ^ k"
proof -
  have "p mod 2 ^ k + unat sz < 2 ^ 32"
  proof -
    have "p mod 2 ^ k < 2 ^ k" by simp
    then have "p mod 2 ^ k + unat sz < 2147483648 + 2147483648"
      using assms(2) ring_ok_le [OF assms(1)] by linarith
    then show ?thesis by simp
  qed
  then have "unat ((of_nat p AND (ring_bufferSize r - 1)) + sz) = p mod 2 ^ k + unat sz"
    by (simp add: unat_word_ariths(1) masked_position [OF assms(1)])
  then show ?thesis by (simp add: word_le_nat_alt ring_ok_unat [OF assms(1)])
qed

lemma rest_unat:
  assumes "ring_ok k r"
  shows "unat (ring_bufferSize r - (of_nat p AND (ring_bufferSize r - 1))) = 2 ^ k - p mod 2 ^ k"
proof -
  have "(of_nat p AND (ring_bufferSize r - 1)) \<le> ring_bufferSize r"
    using mod_less_divisor [of "2 ^ k" p]
    by (simp add: word_le_nat_alt masked_position [OF assms] ring_ok_unat [OF assms])
  then show ?thesis by (simp add: unat_sub masked_position [OF assms] ring_ok_unat [OF assms])
qed

lemma wrap_mod:
  fixes p i n :: nat
  shows "p mod n + i < n \<Longrightarrow> (p + i) mod n = p mod n + i"
    and "n \<le> p mod n + i \<Longrightarrow> i < n \<Longrightarrow> (p + i) mod n = p mod n + i - n"
proof -
  assume "p mod n + i < n"
  then show "(p + i) mod n = p mod n + i" by (metis mod_add_left_eq mod_less)
next
  assume a: "n \<le> p mod n + i" "i < n"
  then have "p mod n < n" by simp
  with a have "p mod n + i - n < n" by linarith
  with a have "(p mod n + i) mod n = p mod n + i - n" by (simp add: le_mod_geq)
  then show "(p + i) mod n = p mod n + i - n" by (simp add: mod_simps)
qed

section \<open>What the copies do\<close>

text \<open>The byte at ring position \<open>p\<close>.\<close>

definition ring_at :: "RingBuffer \<Rightarrow> nat \<Rightarrow> u8" where
  "ring_at r p = ring_buffer r ! (p mod unat (ring_bufferSize r))"

lemma copy_out_eq:
  assumes "ring_ok k r" "unat sz \<le> 2 ^ k"
  shows "ring_copy_out r (of_nat p) sz = map (\<lambda>i. ring_at r (p + i)) [0..<unat sz]"
proof -
  let ?N = "2 ^ k :: nat" and ?o = "p mod 2 ^ k"
  have o: "?o < ?N" by simp
  have len: "length (ring_buffer r) = ?N" using assms(1) by (simp add: ring_ok_def)
  note m = masked_position [OF assms(1), of p] rest_unat [OF assms(1), of p] fits_iff [OF assms, of p]
  show ?thesis
  proof (cases "?o + unat sz \<le> ?N")
    case True
    then show ?thesis
      by (intro nth_equalityI)
        (auto simp: ring_copy_out_def Let_def m len ring_at_def ring_ok_unat [OF assms(1)] wrap_mod(1))
  next
    case False
    have "ring_bufferSize r - (of_nat p AND (ring_bufferSize r - 1)) \<le> sz"
      using False by (simp add: word_le_nat_alt m)
    then have s: "unat (sz - (ring_bufferSize r - (of_nat p AND (ring_bufferSize r - 1)))) = unat sz - (?N - ?o)"
      by (simp add: unat_sub m)
    have l: "unat sz - (?N - ?o) \<le> ?N" using assms(2) o by linarith
    show ?thesis
    proof (rule nth_equalityI)
      show le: "length (ring_copy_out r (of_nat p) sz) = length (map (\<lambda>i. ring_at r (p + i)) [0..<unat sz])"
        using False l o by (simp add: ring_copy_out_def Let_def m s len)
      fix i assume "i < length (ring_copy_out r (of_nat p) sz)"
      then have i: "i < unat sz" using le by simp
      show "ring_copy_out r (of_nat p) sz ! i = map (\<lambda>i. ring_at r (p + i)) [0..<unat sz] ! i"
      proof (cases "i < ?N - ?o")
        case True
        then show ?thesis using i False o
          by (simp add: ring_copy_out_def Let_def m s len nth_append ring_at_def ring_ok_unat [OF assms(1)] wrap_mod(1))
      next
        case ge: False
        have "(p + i) mod ?N = ?o + i - ?N" using wrap_mod(2) [of ?N p i] ge i assms(2) o by simp
        moreover have "i - (?N - ?o) = ?o + i - ?N" using ge o by linarith
        ultimately show ?thesis using i ge False o l
          by (simp add: ring_copy_out_def Let_def m s len nth_append ring_at_def ring_ok_unat [OF assms(1)])
      qed
    qed
  qed
qed

lemma memcpy_at_nth:
  "off + length src \<le> length dst \<Longrightarrow> i < length dst \<Longrightarrow>
     memcpy_at dst off src ! i = (if off \<le> i \<and> i < off + length src then src ! (i - off) else dst ! i)"
  by (auto simp: memcpy_at_def nth_append min_def)

lemma memcpy_at_length [simp]: "off + length src \<le> length dst \<Longrightarrow> length (memcpy_at dst off src) = length dst"
  by (simp add: memcpy_at_def)

lemma memcpy_twice:
  assumes "off + length a \<le> length d" "length b \<le> length d" "j < length d"
  shows "memcpy_at (memcpy_at d off a) 0 b ! j =
     (if j < length b then b ! j else if off \<le> j \<and> j < off + length a then a ! (j - off) else d ! j)"
  using assms by (simp add: memcpy_at_nth)

lemma copy_in_at:
  assumes "ring_ok k r" "unat sz = length bytes" "length bytes \<le> 2 ^ k"
  shows "ring_ok k (ring_copy_in r (of_nat p) bytes sz)"
    and "i < 2 ^ k \<Longrightarrow> ring_at (ring_copy_in r (of_nat p) bytes sz) (p + i) =
           (if i < length bytes then bytes ! i else ring_at r (p + i))"
proof -
  let ?N = "2 ^ k :: nat" and ?o = "p mod 2 ^ k" and ?r = "ring_copy_in r (of_nat p) bytes sz"
  have o: "?o < ?N" by simp
  have len: "length (ring_buffer r) = ?N" using assms(1) by (simp add: ring_ok_def)
  have sz: "unat sz \<le> 2 ^ k" using assms(2,3) by simp
  note m = masked_position [OF assms(1), of p] rest_unat [OF assms(1), of p] fits_iff [OF assms(1) sz, of p]
  have bs: "ring_bufferSize ?r = ring_bufferSize r" by (simp add: ring_copy_in_def Let_def)
  have *: "length (ring_buffer ?r) = ?N \<and>
     (i < ?N \<longrightarrow> ring_buffer ?r ! ((p + i) mod ?N) = (if i < length bytes then bytes ! i else ring_buffer r ! ((p + i) mod ?N)))"
  proof (cases "?o + unat sz \<le> ?N")
    case True
    then have eq: "ring_buffer ?r = memcpy_at (ring_buffer r) ?o bytes"
      by (simp add: ring_copy_in_def Let_def m assms(2))
    have fit: "?o + length bytes \<le> length (ring_buffer r)" using True assms(2) len by simp
    show ?thesis
    proof (cases "?o + i < ?N")
      case True
      then show ?thesis using fit len unfolding eq
        by (auto simp: memcpy_at_nth wrap_mod(1))
    next
      case False
      then show ?thesis using fit len wrap_mod(2) [of ?N p i] unfolding eq
        by (auto simp: memcpy_at_nth)
    qed
  next
    case False
    have "ring_bufferSize r - (of_nat p AND (ring_bufferSize r - 1)) \<le> sz"
      using False by (simp add: word_le_nat_alt m)
    then have s: "unat (sz - (ring_bufferSize r - (of_nat p AND (ring_bufferSize r - 1)))) = length bytes - (?N - ?o)"
      by (simp add: unat_sub m assms(2))
    have eq: "ring_buffer ?r = memcpy_at (memcpy_at (ring_buffer r) ?o (take (?N - ?o) bytes)) 0 (drop (?N - ?o) bytes)"
      using False by (simp add: ring_copy_in_def Let_def m s)
    define a b where "a = take (?N - ?o) bytes" and "b = drop (?N - ?o) bytes"
    have nb: "?N - ?o < length bytes" using False assms(2) o by linarith
    have la: "length a = ?N - ?o" "length b = length bytes - (?N - ?o)" "length b \<le> ?o"
      using nb assms(3) o by (simp_all add: a_def b_def)
    have fa: "?o + length a \<le> length (ring_buffer r)" "length b \<le> length (ring_buffer r)"
      using la o len by linarith+
    note eq = eq [folded a_def b_def]
    have l: "length (ring_buffer ?r) = ?N" using fa len unfolding eq by simp
    note mt = memcpy_twice [OF fa, unfolded len]
    show ?thesis
    proof (cases "?o + i < ?N")
      case True
      then have "\<not> ?o + i < length b" "?o + i < ?o + length a" using la by linarith+
      then have "ring_buffer ?r ! (?o + i) = bytes ! i" using mt [OF True] unfolding eq by (simp add: a_def)
      moreover have "i < length bytes" using True nb by linarith
      ultimately show ?thesis using l wrap_mod(1) [OF True] by simp
    next
      case ge: False
      show ?thesis
      proof (cases "i < ?N")
        case True
        then have w: "(p + i) mod ?N = ?o + i - ?N" using wrap_mod(2) [of ?N p i] ge by linarith
        have idx: "?N - ?o + (?o + i - ?N) = i" "?o + i - ?N < ?o" "?o + i - ?N < ?N"
          using True ge o by linarith+
        have j: "?o + i - ?N < length b \<longleftrightarrow> i < length bytes" using la(2) idx(1) nb by linarith
        show ?thesis
        proof (cases "i < length bytes")
          case True
          then have "ring_buffer ?r ! (?o + i - ?N) = b ! (?o + i - ?N)" using mt [OF idx(3)] j unfolding eq by simp
          then show ?thesis using l w True idx(1) nb by (simp add: b_def)
        next
          case False
          then have "ring_buffer ?r ! (?o + i - ?N) = ring_buffer r ! (?o + i - ?N)"
            using mt [OF idx(3)] j idx(2) unfolding eq by simp
          then show ?thesis using l w False by simp
        qed
      next
        case False
        then show ?thesis using l by simp
      qed
    qed
  qed
  show "ring_ok k ?r" using * bs assms(1) by (simp add: ring_ok_def)
  show "i < 2 ^ k \<Longrightarrow> ring_at ?r (p + i) = (if i < length bytes then bytes ! i else ring_at r (p + i))"
    using * by (simp add: ring_at_def bs ring_ok_unat [OF assms(1)])
qed

section \<open>Producer and consumer\<close>

text \<open>
  \<open>Writing bs n\<close>: the wait for \<open>bs\<close> (a whole write, or header and payload of a frame) succeeded and \<open>n\<close>
  of its bytes are copied. \<open>Reading sz got\<close>: the wait for \<open>sz\<close> bytes succeeded and \<open>got\<close> is copied out.
\<close>

datatype producer = WIdle | Writing "u8 list" nat
datatype consumer = RIdle | Reading u32 "u8 list"

record ring_sys =
  rs_ring :: RingBuffer
  rs_producer :: producer
  rs_consumer :: consumer
  rs_written :: "u8 list"
  rs_taken :: "u8 list"

inductive ring_step :: "ring_sys \<Rightarrow> ring_sys \<Rightarrow> bool" where
  write_begin: "rs_producer s = WIdle \<Longrightarrow> unat sz = length bs \<Longrightarrow> sz \<le> RingBuffer_freeSpace (rs_ring s) \<Longrightarrow>
     ring_step s (s\<lparr>rs_producer := Writing bs 0\<rparr>)"
| write_copy: "rs_producer s = Writing bs n \<Longrightarrow> unat sz = m \<Longrightarrow> n + m \<le> length bs \<Longrightarrow>
     ring_step s (s\<lparr>rs_ring := RingBuffer_copyAt (rs_ring s) (RingBuffer_getTail (rs_ring s) + of_nat n)
                                 (take m (drop n bs)) sz,
                    rs_producer := Writing bs (n + m)\<rparr>)"
| write_publish: "rs_producer s = Writing bs n \<Longrightarrow> n = length bs \<Longrightarrow>
     ring_step s (s\<lparr>rs_ring := RingBuffer_setTail (rs_ring s) (RingBuffer_getTail (rs_ring s) + of_nat n),
                    rs_producer := WIdle, rs_written := rs_written s @ bs\<rparr>)"
| read_begin: "rs_consumer s = RIdle \<Longrightarrow> sz \<le> RingBuffer_size (rs_ring s) \<Longrightarrow>
     ring_step s (s\<lparr>rs_consumer := Reading sz []\<rparr>)"
| read_copy: "rs_consumer s = Reading sz got \<Longrightarrow> length got + unat m \<le> unat sz \<Longrightarrow>
     ring_step s (s\<lparr>rs_consumer := Reading sz (got @
        ring_copy_out (rs_ring s) (RingBuffer_getHead (rs_ring s) + of_nat (length got)) m)\<rparr>)"
| read_publish: "rs_consumer s = Reading sz got \<Longrightarrow> length got = unat sz \<Longrightarrow>
     ring_step s (s\<lparr>rs_ring := RingBuffer_setHead (rs_ring s) (RingBuffer_getHead (rs_ring s) + sz),
                    rs_consumer := RIdle, rs_taken := rs_taken s @ got\<rparr>)"
| set_status: "ring_step s (s\<lparr>rs_ring := RingBuffer_setStatus (rs_ring s) st\<rparr>)"
| unset_status: "ring_step s (s\<lparr>rs_ring := RingBuffer_unsetStatus (rs_ring s) st\<rparr>)"

definition ring_init :: "RingBuffer \<Rightarrow> ring_sys" where
  "ring_init r = \<lparr>rs_ring = r, rs_producer = WIdle, rs_consumer = RIdle, rs_written = [], rs_taken = []\<rparr>"

text \<open>The invariant: positions count bytes modulo \<open>2 ^ 32\<close>; the bytes between head and tail are those
  published and not taken; what the producer has copied lies behind the tail, inside the free space.\<close>

fun producer_ok :: "nat \<Rightarrow> RingBuffer \<Rightarrow> nat \<Rightarrow> nat \<Rightarrow> producer \<Rightarrow> bool" where
  "producer_ok k r W C WIdle = True"
| "producer_ok k r W C (Writing bs n) =
     (W + length bs \<le> C + 2 ^ k \<and> n \<le> length bs \<and> (\<forall>i<n. ring_at r (W + i) = bs ! i))"

fun consumer_ok :: "u8 list \<Rightarrow> nat \<Rightarrow> consumer \<Rightarrow> bool" where
  "consumer_ok written C RIdle = True"
| "consumer_ok written C (Reading sz got) =
     (C + unat sz \<le> length written \<and> length got \<le> unat sz \<and> got = take (length got) (drop C written))"

definition queue_ok :: "nat \<Rightarrow> RingBuffer \<Rightarrow> u8 list \<Rightarrow> u8 list \<Rightarrow> bool" where
  "queue_ok k r written taken \<longleftrightarrow> ring_ok k r \<and> ring_head r = of_nat (length taken) \<and>
     ring_tail r = of_nat (length written) \<and> length taken \<le> length written \<and>
     length written \<le> length taken + 2 ^ k \<and> taken = take (length taken) written \<and>
     (\<forall>i. length taken \<le> i \<and> i < length written \<longrightarrow> ring_at r i = written ! i)"

definition ring_inv :: "nat \<Rightarrow> ring_sys \<Rightarrow> bool" where
  "ring_inv k s \<longleftrightarrow> queue_ok k (rs_ring s) (rs_written s) (rs_taken s) \<and>
     producer_ok k (rs_ring s) (length (rs_written s)) (length (rs_taken s)) (rs_producer s) \<and>
     consumer_ok (rs_written s) (length (rs_taken s)) (rs_consumer s)"

lemma ring_sizes:
  assumes "ring_ok k r" "ring_head r = of_nat C" "ring_tail r = of_nat W" "C \<le> W" "W \<le> C + 2 ^ k"
  shows "unat (RingBuffer_size r) = W - C" and "unat (RingBuffer_freeSpace r) = C + 2 ^ k - W"
proof -
  have "W - C < 2 ^ 32" using assms(5) ring_ok_le [OF assms(1)] by simp
  then have "unat (of_nat (W - C) :: u32) = W - C" by (simp add: unsigned_of_nat take_bit_nat_eq_self)
  then show sz: "unat (RingBuffer_size r) = W - C"
    using assms(2-4) by (simp add: RingBuffer_size_def RingBuffer_getTail_def RingBuffer_getHead_def of_nat_diff)
  then have "RingBuffer_size r \<le> ring_bufferSize r"
    using assms(5) by (simp add: word_le_nat_alt ring_ok_unat [OF assms(1)])
  then show "unat (RingBuffer_freeSpace r) = C + 2 ^ k - W"
    using assms(4,5) by (simp add: RingBuffer_freeSpace_def Let_def unat_sub sz ring_ok_unat [OF assms(1)])
qed

lemma copyAt_at:
  assumes "ring_ok k r" "unat sz = length bytes" "length bytes \<le> 2 ^ k"
  shows "ring_ok k (RingBuffer_copyAt r (of_nat p) bytes sz)"
    and "i < 2 ^ k \<Longrightarrow> ring_at (RingBuffer_copyAt r (of_nat p) bytes sz) (p + i) =
           (if i < length bytes then bytes ! i else ring_at r (p + i))"
  using copy_in_at [OF assms] assms(1,2) by (cases "sz = 0"; simp add: RingBuffer_copyAt_def)+

lemma copyAt_fields [simp]:
  "ring_head (RingBuffer_copyAt r p bs sz) = ring_head r" "ring_tail (RingBuffer_copyAt r p bs sz) = ring_tail r"
  by (simp_all add: RingBuffer_copyAt_def ring_copy_in_def Let_def)

lemma ring_at_update [simp]:
  "ring_at (RingBuffer_setTail r t) = ring_at r" "ring_at (RingBuffer_setHead r h) = ring_at r"
  "ring_at (RingBuffer_setStatus r st) = ring_at r" "ring_at (RingBuffer_unsetStatus r st) = ring_at r"
  by (simp_all add: fun_eq_iff ring_at_def RingBuffer_setTail_def RingBuffer_setHead_def
      RingBuffer_setStatus_def RingBuffer_unsetStatus_def)

lemma ring_ok_update [simp]:
  "ring_ok k (RingBuffer_setTail r t) = ring_ok k r" "ring_ok k (RingBuffer_setHead r h) = ring_ok k r"
  "ring_ok k (RingBuffer_setStatus r st) = ring_ok k r" "ring_ok k (RingBuffer_unsetStatus r st) = ring_ok k r"
  by (simp_all add: ring_ok_def RingBuffer_setTail_def RingBuffer_setHead_def
      RingBuffer_setStatus_def RingBuffer_unsetStatus_def)

lemma ring_pos_update [simp]:
  "ring_head (RingBuffer_setTail r t) = ring_head r" "ring_tail (RingBuffer_setTail r t) = t"
  "ring_head (RingBuffer_setHead r h) = h" "ring_tail (RingBuffer_setHead r h) = ring_tail r"
  "ring_head (RingBuffer_setStatus r st) = ring_head r" "ring_tail (RingBuffer_setStatus r st) = ring_tail r"
  "ring_head (RingBuffer_unsetStatus r st) = ring_head r" "ring_tail (RingBuffer_unsetStatus r st) = ring_tail r"
  by (simp_all add: RingBuffer_setTail_def RingBuffer_setHead_def RingBuffer_setStatus_def RingBuffer_unsetStatus_def)

lemma ring_at_period: "ring_ok k r \<Longrightarrow> ring_at r (p + 2 ^ k) = ring_at r p"
  by (simp add: ring_at_def ring_ok_unat)

text \<open>A copied chunk is found at its positions; every other position of the window stays.\<close>

lemma copyAt_chunk:
  assumes "ring_ok k r" "unat sz = length bytes" "length bytes \<le> 2 ^ k"
  shows "i < length bytes \<Longrightarrow> ring_at (RingBuffer_copyAt r (of_nat p) bytes sz) (p + i) = bytes ! i"
    and "q < p \<Longrightarrow> p + length bytes \<le> q + 2 ^ k \<Longrightarrow>
           ring_at (RingBuffer_copyAt r (of_nat p) bytes sz) q = ring_at r q"
proof -
  show "i < length bytes \<Longrightarrow> ring_at (RingBuffer_copyAt r (of_nat p) bytes sz) (p + i) = bytes ! i"
    using copyAt_at(2) [OF assms, of i p] assms(3) by simp
  assume q: "q < p" "p + length bytes \<le> q + 2 ^ k"
  then have j: "q + 2 ^ k - p < 2 ^ k" "p + (q + 2 ^ k - p) = q + 2 ^ k" "\<not> q + 2 ^ k - p < length bytes"
    by linarith+
  show "ring_at (RingBuffer_copyAt r (of_nat p) bytes sz) q = ring_at r q"
    using copyAt_at(2) [OF assms j(1), of p] j ring_at_period [OF copyAt_at(1) [OF assms, of p], of q]
      ring_at_period [OF assms(1), of q] by simp
qed

lemma write_chunk:
  assumes q: "queue_ok k r written taken" and p: "producer_ok k r (length written) (length taken) (Writing bs n)"
    and m: "unat sz = m" "n + m \<le> length bs"
  shows "queue_ok k (RingBuffer_copyAt r (ring_tail r + of_nat n) (take m (drop n bs)) sz) written taken \<and>
     producer_ok k (RingBuffer_copyAt r (ring_tail r + of_nat n) (take m (drop n bs)) sz)
       (length written) (length taken) (Writing bs (n + m))"
proof -
  define W C where "W = length written" and "C = length taken"
  have i: "ring_ok k r" "ring_tail r = of_nat W" "C \<le> W" "W \<le> C + 2 ^ k"
    "W + length bs \<le> C + 2 ^ k" "\<And>i. i < n \<Longrightarrow> ring_at r (W + i) = bs ! i"
    using q p by (simp_all add: queue_ok_def W_def C_def)
  let ?ch = "take m (drop n bs)" and ?r = "RingBuffer_copyAt r (of_nat (W + n)) (take m (drop n bs)) sz"
  have lm: "length ?ch = m" using m(2) by simp
  have le: "m \<le> 2 ^ k" using i(3,5) m(2) by linarith
  have ch: "unat sz = length ?ch" "length ?ch \<le> 2 ^ k" unfolding lm by (rule m(1), rule le)
  note cc = copyAt_chunk [OF i(1) ch, where p = "W + n"]
  have ok: "ring_ok k ?r" by (rule copyAt_at(1) [OF i(1) ch])
  have old: "ring_at ?r x = ring_at r x" if "C \<le> x" "x < W + n" for x
  proof (rule cc(2) [OF that(2)])
    show "W + n + length ?ch \<le> x + 2 ^ k" using lm m(2) i(5) that(1) by linarith
  qed
  have new: "ring_at ?r (W + j) = bs ! j" if "j < n + m" for j
  proof (cases "j < n")
    case True
    then show ?thesis using old [of "W + j"] i(3,6) by simp
  next
    case False
    then have "j - n < length ?ch" "j - n < m" "W + n + (j - n) = W + j" "n + (j - n) = j"
      using that lm by linarith+
    then show ?thesis using cc(1) [of "j - n"] m(2) by simp
  qed
  have "queue_ok k ?r written taken" using q ok old by (simp add: queue_ok_def W_def C_def)
  moreover have "producer_ok k ?r W C (Writing bs (n + m))" using new i(5) m(2) by simp
  moreover have "ring_tail r + of_nat n = of_nat (W + n)" by (simp add: i(2))
  ultimately show ?thesis by (simp only: W_def C_def)
qed

lemma read_chunk:
  assumes q: "queue_ok k r written taken" and c: "consumer_ok written (length taken) (Reading sz got)"
    and m: "length got + unat m \<le> unat sz"
  shows "got @ ring_copy_out r (ring_head r + of_nat (length got)) m
       = take (length got + unat m) (drop (length taken) written)"
proof -
  define C g where "C = length taken" and "g = length got"
  have i: "ring_ok k r" "ring_head r = of_nat C" "length written \<le> C + 2 ^ k" "C + unat sz \<le> length written"
    "got = take g (drop C written)"
    using q c by (simp_all add: queue_ok_def C_def g_def)
  have at: "ring_at r j = written ! j" if "C \<le> j" "j < length written" for j
    using q that by (simp add: queue_ok_def C_def)
  have le: "unat m \<le> 2 ^ k" using m i(3,4) by linarith
  have "ring_copy_out r (of_nat (C + g)) m = map (\<lambda>j. ring_at r (C + g + j)) [0..<unat m]"
    by (rule copy_out_eq [OF i(1) le])
  also have "\<dots> = take (unat m) (drop (C + g) written)"
  proof (rule nth_equalityI)
    show l: "length (map (\<lambda>j. ring_at r (C + g + j)) [0..<unat m]) = length (take (unat m) (drop (C + g) written))"
      using i(4) m by (simp add: g_def)
    fix j assume "j < length (map (\<lambda>j. ring_at r (C + g + j)) [0..<unat m])"
    then have "j < unat m" "C + g + j < length written" using i(4) m by (simp_all add: g_def)
    then show "map (\<lambda>j. ring_at r (C + g + j)) [0..<unat m] ! j = take (unat m) (drop (C + g) written) ! j"
      using at [of "C + g + j"] by simp
  qed
  finally have out: "ring_copy_out r (of_nat (C + g)) m = take (unat m) (drop g (drop C written))"
    by (simp add: add.commute)
  have hd: "ring_head r + of_nat g = of_nat (C + g)" by (simp add: i(2))
  have tg: "take g (drop C written) = got" by (rule sym [OF i(5)])
  show ?thesis unfolding C_def [symmetric] g_def [symmetric] hd out take_add tg ..
qed

lemma publish_write:
  assumes "queue_ok k r written taken" "producer_ok k r (length written) (length taken) (Writing bs (length bs))"
  shows "queue_ok k (RingBuffer_setTail r (ring_tail r + of_nat (length bs))) (written @ bs) taken"
proof -
  have "ring_at r i = bs ! (i - length written)" if "length written \<le> i" "i < length written + length bs" for i
  proof -
    have "i - length written < length bs" using that by linarith
    then have "ring_at r (length written + (i - length written)) = bs ! (i - length written)"
      using assms(2) by simp
    then show ?thesis using that(1) by simp
  qed
  then show ?thesis using assms by (simp add: queue_ok_def nth_append)
qed

lemma publish_read:
  assumes "queue_ok k r written taken" "consumer_ok written (length taken) (Reading sz got)" "length got = unat sz"
  shows "queue_ok k (RingBuffer_setHead r (ring_head r + sz)) written (taken @ got)"
proof -
  have "sz = of_nat (length got)" by (simp add: assms(3))
  moreover have "taken @ got = take (length taken + length got) written"
    using assms(1,2) by (metis consumer_ok.simps(2) queue_ok_def take_add)
  ultimately show ?thesis using assms by (simp add: queue_ok_def)
qed

lemma queue_ok_sizes:
  assumes "queue_ok k r written taken"
  shows "unat (RingBuffer_size r) = length written - length taken"
    and "unat (RingBuffer_freeSpace r) = length taken + 2 ^ k - length written"
  using assms ring_sizes [of k r "length taken" "length written"] by (simp_all add: queue_ok_def)

lemma consumer_ok_append: "consumer_ok written C c \<Longrightarrow> consumer_ok (written @ bs) C c"
  by (cases c) auto

lemma producer_ok_read: "producer_ok k r W C p \<Longrightarrow> C \<le> C' \<Longrightarrow> producer_ok k (RingBuffer_setHead r h) W C' p"
  by (cases p) auto

lemma status_ok:
  "queue_ok k (RingBuffer_setStatus r st) w t = queue_ok k r w t"
  "queue_ok k (RingBuffer_unsetStatus r st) w t = queue_ok k r w t"
  "producer_ok k (RingBuffer_setStatus r st) W C p = producer_ok k r W C p"
  "producer_ok k (RingBuffer_unsetStatus r st) W C p = producer_ok k r W C p"
  by (cases p; simp add: queue_ok_def)+

lemma ring_step_inv: "ring_step s s' \<Longrightarrow> ring_inv k s \<Longrightarrow> ring_inv k s'"
proof (induction rule: ring_step.induct)
  case (write_begin s sz bs)
  then have "length bs \<le> length (rs_taken s) + 2 ^ k - length (rs_written s)"
    "length (rs_written s) \<le> length (rs_taken s) + 2 ^ k"
    using queue_ok_sizes(2) [of k "rs_ring s" "rs_written s" "rs_taken s"]
    by (simp_all add: ring_inv_def word_le_nat_alt queue_ok_def)
  then have "producer_ok k (rs_ring s) (length (rs_written s)) (length (rs_taken s)) (Writing bs 0)" by simp
  with write_begin show ?case by (simp add: ring_inv_def)
next
  case (write_copy s bs n sz m)
  then show ?case
    using write_chunk [OF _ _ write_copy(2,3), of k "rs_ring s" "rs_written s" "rs_taken s"]
    by (simp add: ring_inv_def RingBuffer_getTail_def)
next
  case (write_publish s bs n)
  then show ?case using publish_write [of k "rs_ring s" "rs_written s" "rs_taken s" bs]
    by (simp add: ring_inv_def RingBuffer_getTail_def consumer_ok_append)
next
  case (read_begin s sz)
  then have "unat sz \<le> length (rs_written s) - length (rs_taken s)" "length (rs_taken s) \<le> length (rs_written s)"
    using queue_ok_sizes(1) [of k "rs_ring s" "rs_written s" "rs_taken s"]
    by (simp_all add: ring_inv_def word_le_nat_alt queue_ok_def)
  then have "length (rs_taken s) + unat sz \<le> length (rs_written s)" by linarith
  with read_begin show ?case by (simp add: ring_inv_def)
next
  case (read_copy s sz got m)
  have co: "got @ ring_copy_out (rs_ring s) (ring_head (rs_ring s) + of_nat (length got)) m
      = take (length got + unat m) (drop (length (rs_taken s)) (rs_written s))"
    using read_copy by (intro read_chunk [where sz = sz and k = k]) (simp_all add: ring_inv_def)
  have "length (rs_taken s) + unat sz \<le> length (rs_written s)"
    using read_copy by (simp add: ring_inv_def)
  then have "length got + unat m \<le> length (drop (length (rs_taken s)) (rs_written s))"
    using read_copy(2) unfolding length_drop by linarith
  then have "length (got @ ring_copy_out (rs_ring s) (ring_head (rs_ring s) + of_nat (length got)) m)
      = length got + unat m"
    unfolding co length_take by linarith
  with co read_copy show ?case by (simp add: ring_inv_def RingBuffer_getHead_def del: length_append)
next
  case (read_publish s sz got)
  then have "queue_ok k (RingBuffer_setHead (rs_ring s) (ring_head (rs_ring s) + sz)) (rs_written s) (rs_taken s @ got)"
    by (intro publish_read) (simp_all add: ring_inv_def)
  moreover have "producer_ok k (RingBuffer_setHead (rs_ring s) (ring_head (rs_ring s) + sz))
      (length (rs_written s)) (length (rs_taken s @ got)) (rs_producer s)"
    using read_publish(3) by (intro producer_ok_read [where C = "length (rs_taken s)"]) (simp_all add: ring_inv_def)
  ultimately show ?case by (simp add: ring_inv_def RingBuffer_getHead_def)
next
  case (set_status s st)
  then show ?case by (simp add: ring_inv_def status_ok)
next
  case (unset_status s st)
  then show ?case by (simp add: ring_inv_def status_ok)
qed

lemma ring_steps_inv: "ring_step\<^sup>*\<^sup>* s s' \<Longrightarrow> ring_inv k s \<Longrightarrow> ring_inv k s'"
  by (induction rule: rtranclp_induct) (auto intro: ring_step_inv)

section \<open>A new ring\<close>

text \<open>The test of \<open>RingBuffer_create\<close> accepts exactly the powers of two that leave room for the header.\<close>

lemma and_minus_one_zero: "0 < (n :: nat) \<Longrightarrow> n AND (n - 1) = 0 \<Longrightarrow> \<exists>k. n = 2 ^ k"
proof (induction n rule: less_induct)
  case (less n)
  show ?case
  proof (cases "even n")
    case True
    then obtain m where m: "n = 2 * m" by (rule evenE)
    then have pos: "0 < m" "m < n" using less.prems by simp_all
    have "n - 1 = Suc (2 * (m - 1))" using m pos by simp
    then have "n AND (n - 1) = 2 * (m AND (m - 1))"
      using m by (simp add: and_nat_rec [of "2 * m"])
    then have "m AND (m - 1) = 0" using less.prems(2) by simp
    with less.IH [OF pos(2) pos(1)] obtain k where "m = 2 ^ k" by blast
    then show ?thesis using m by (intro exI [of _ "Suc k"]) simp
  next
    case False
    show ?thesis
    proof (cases "n = 1")
      case True
      then show ?thesis by (intro exI [of _ 0]) simp
    next
      case no: False
      obtain m where m: "n = Suc (2 * m)" using False by (auto elim: oddE)
      then have "m \<noteq> 0" using no by simp
      have "n AND (n - 1) = 2 * (m AND m)" using m by (simp add: and_nat_rec [of "Suc (2 * m)"])
      with less.prems(2) \<open>m \<noteq> 0\<close> show ?thesis by simp
    qed
  qed
qed

lemma create_inv:
  assumes "RingBuffer_create calloc_ok mmap_ok fd n = Some r"
  obtains k where "ring_inv k (ring_init r)" "n = 2 ^ k"
proof -
  have g: "n \<noteq> 0" "n AND (n - 1) = 0" "\<not> UINT32_MAX - 16 < n"
    "r = RingBuffer_setStatus \<lparr>ring_head = 0, ring_tail = 0, ring_status = 0,
        ring_buffer = replicate (unat n) 0, ring_bufferSize = n, ring_peerFd = - 1\<rparr> RING_STATUS_IDLE"
    using assms by (auto simp: RingBuffer_create_def split: if_splits)
  have n0: "0 < unat n" using g(1) by (simp add: unat_gt_0)
  have "unat (n AND (n - 1)) = unat n AND unat (n - 1)" by (rule unsigned_and_eq)
  moreover have "unat (n - 1) = unat n - 1" using g(1) by (simp add: unat_minus_one)
  ultimately have "unat n AND (unat n - 1) = 0" using g(2) by simp
  with and_minus_one_zero [OF n0] obtain k where k: "unat n = 2 ^ k" by blast
  have "unat n < 2 ^ 32" using unsigned_less [of n, where ?'a = nat] by simp
  then have "(2 :: nat) ^ k < 2 ^ 32" unfolding k .
  then have "k < 32" by (rule power_less_imp_less_exp [rotated]) simp
  then have k31: "k \<le> 31" by simp
  then have nk: "n = 2 ^ k" using k pow_unat [OF k31] by (simp add: word_unat_eq_iff)
  have "ring_inv k (ring_init r)"
    using k k31 nk by (simp add: g(4) ring_inv_def ring_init_def queue_ok_def ring_ok_def RingBuffer_setStatus_def)
  then show thesis using that nk by blast
qed

text \<open>The poll timeout is one millisecond in every iteration: the bound of 100 microseconds is rounded up.\<close>

lemma ring_sleep_ms_one: "ring_sleep_ms it = 1"
proof -
  have "100 \<le> push_bit n (100 :: u32)" if "n \<le> 4" for n
  proof -
    have "n \<in> {0, 1, 2, 3, 4}" using that by auto
    then show ?thesis by (elim insertE) (simp_all add: push_bit_eq_mult)
  qed
  then have us: "100 \<le> push_bit (unat (if 4 < s then 4 else s :: u32)) (100 :: u32)" for s
    by (simp add: word_less_nat_alt)
  have cap: "(if 100 < u then 100 else u) = 100" if "100 \<le> u" for u :: u32
    using that by (cases "100 < u") simp_all
  show ?thesis
    unfolding ring_sleep_ms_def Let_def RING_WAIT_INITIAL_SLEEP_US_def RING_WAIT_MAX_SLEEP_US_def
      cap [OF us] by simp
qed

end
