(* ===== verification/Ring_Properties.thy ===== *)
theory Ring_Properties
  imports Ring_Machine
begin

text \<open>
  What the ring guarantees: the wait loops return as soon as they can and only for a reason, the ring
  is a bounded queue of bytes for every interleaving of a producer and a consumer, and a frame that is
  written is read back whole.
\<close>

section \<open>The wait loops\<close>

definition peer_gone :: "RingBuffer \<Rightarrow> poll_answer \<Rightarrow> bool" where
  "peer_gone r answer \<longleftrightarrow> 0 \<le> ring_peerFd r \<and>
     (answer = PollError \<or> (\<exists>revents. answer = PollEvents revents \<and> revents AND POLL_TERMINAL \<noteq> 0))"

lemma backoff_stops: "RingBuffer_backoff (ring_peerFd r) answer it = (False, it') \<Longrightarrow> peer_gone r answer"
  by (auto simp: RingBuffer_backoff_def peer_gone_def Let_def split: if_splits poll_answer.splits)

lemma wait_loop_returns:
  "i \<le> n \<Longrightarrow> ready (env n) \<or> RingBuffer_hasStatus (env n) RING_STATUS_EXIT \<Longrightarrow>
     \<exists>ok j. i \<le> j \<and> j \<le> n \<and> ring_wait_loop ready env polls i it = Some (ok, env j) \<and> (ok \<longleftrightarrow> ready (env j)) \<and>
       (\<forall>x\<in>{i..<j}. \<not> ready (env x) \<and> \<not> RingBuffer_hasStatus (env x) RING_STATUS_EXIT) \<and>
       (ok \<or> RingBuffer_hasStatus (env j) RING_STATUS_EXIT \<or> peer_gone (env j) (polls j))"
proof (induction "n - i" arbitrary: i it rule: less_induct)
  case less
  show ?case
  proof (cases "ready (env i) \<or> RingBuffer_hasStatus (env i) RING_STATUS_EXIT")
    case True
    then have "ring_wait_loop ready env polls i it = Some (ready (env i), env i)"
      by (subst ring_wait_loop.simps) auto
    then show ?thesis using less.prems(1) True by (intro exI [of _ "ready (env i)"] exI [of _ i]) auto
  next
    case False
    then have lt: "i < n" using less.prems by (cases "i = n") auto
    obtain go it' where b: "RingBuffer_backoff (ring_peerFd (env i)) (polls i) it = (go, it')" by fastforce
    show ?thesis
    proof (cases go)
      case True
      have "\<exists>ok j. i + 1 \<le> j \<and> j \<le> n \<and> ring_wait_loop ready env polls (i + 1) it' = Some (ok, env j) \<and>
          (ok \<longleftrightarrow> ready (env j)) \<and>
          (\<forall>x\<in>{i + 1..<j}. \<not> ready (env x) \<and> \<not> RingBuffer_hasStatus (env x) RING_STATUS_EXIT) \<and>
          (ok \<or> RingBuffer_hasStatus (env j) RING_STATUS_EXIT \<or> peer_gone (env j) (polls j))"
        by (rule less.hyps) (use lt less.prems in auto)
      then obtain ok j where j: "i + 1 \<le> j" "j \<le> n" "ring_wait_loop ready env polls (i + 1) it' = Some (ok, env j)"
          "ok \<longleftrightarrow> ready (env j)"
          "\<forall>x\<in>{i + 1..<j}. \<not> ready (env x) \<and> \<not> RingBuffer_hasStatus (env x) RING_STATUS_EXIT"
          "ok \<or> RingBuffer_hasStatus (env j) RING_STATUS_EXIT \<or> peer_gone (env j) (polls j)"
        by blast
      have "ring_wait_loop ready env polls i it = Some (ok, env j)"
        using j(3) b True False by (subst ring_wait_loop.simps) simp
      moreover have "\<forall>x\<in>{i..<j}. \<not> ready (env x) \<and> \<not> RingBuffer_hasStatus (env x) RING_STATUS_EXIT"
        using j(5) False by (metis Suc_eq_plus1 atLeastLessThan_iff le_antisym not_less_eq_eq)
      ultimately show ?thesis using j by (intro exI [of _ ok] exI [of _ j]) simp
    next
      case stop: False
      have "ring_wait_loop ready env polls i it = Some (False, env i)"
        using b stop False by (subst ring_wait_loop.simps) simp
      then show ?thesis using b stop False lt backoff_stops by (intro exI [of _ False] exI [of _ i]) auto
    qed
  qed
qed

text \<open>C18: A blocking wait for data returns no later than the observation at which enough data is there or the
  exit flag is set; it reports success exactly when the observation it ends with has the data, it
  ended no earlier than needed, and it fails only for the exit flag or a dead peer.\<close>

theorem read_wait_returns:
  assumes "sz \<le> ring_bufferSize (env 0)"
    and "sz \<le> RingBuffer_size (env n) \<or> RingBuffer_hasStatus (env n) RING_STATUS_EXIT"
  shows "\<exists>ok j. j \<le> n \<and> RingBuffer_waitForRead env polls sz = Some (ok, env j) \<and>
    (ok \<longleftrightarrow> sz \<le> RingBuffer_size (env j)) \<and>
    (\<forall>x<j. RingBuffer_size (env x) < sz \<and> \<not> RingBuffer_hasStatus (env x) RING_STATUS_EXIT) \<and>
    (ok \<or> RingBuffer_hasStatus (env j) RING_STATUS_EXIT \<or> peer_gone (env j) (polls j))"
  using wait_loop_returns [of 0 n "\<lambda>r. sz \<le> RingBuffer_size r" env polls 0] assms
  by (auto simp: RingBuffer_waitForRead_def not_less not_le)

definition ring4 :: RingBuffer where
  "ring4 = \<lparr>ring_head = 0, ring_tail = 0, ring_status = 1, ring_buffer = [0, 0, 0, 0],
     ring_bufferSize = 4, ring_peerFd = - 1\<rparr>"

theorem read_wait_returns_witness:
  "\<exists>j :: nat. RingBuffer_waitForRead (\<lambda>i. if i < 5 then ring4 else ring4\<lparr>ring_tail := 3\<rparr>) (\<lambda>_. PollTimeout) 2
     = Some (True, if j < 5 then ring4 else ring4\<lparr>ring_tail := 3\<rparr>)"
proof -
  let ?env = "\<lambda>i :: nat. if i < 5 then ring4 else ring4\<lparr>ring_tail := 3\<rparr>"
  have n: "\<not> RingBuffer_hasStatus ring4 RING_STATUS_EXIT" "\<not> peer_gone ring4 a"
    "\<not> RingBuffer_hasStatus (ring4\<lparr>ring_tail := 3\<rparr>) RING_STATUS_EXIT" "\<not> peer_gone (ring4\<lparr>ring_tail := 3\<rparr>) a" for a
    by (simp_all add: RingBuffer_hasStatus_def ring4_def RING_STATUS_EXIT_def peer_gone_def)
  have "(2 :: u32) \<le> ring_bufferSize (?env 0)" by (simp add: ring4_def)
  moreover have "2 \<le> RingBuffer_size (?env 5) \<or> RingBuffer_hasStatus (?env 5) RING_STATUS_EXIT"
    by (simp add: RingBuffer_size_def RingBuffer_getTail_def RingBuffer_getHead_def ring4_def)
  ultimately obtain ok j where j: "RingBuffer_waitForRead ?env (\<lambda>_. PollTimeout) 2 = Some (ok, ?env j)"
      "ok \<or> RingBuffer_hasStatus (?env j) RING_STATUS_EXIT \<or> peer_gone (?env j) PollTimeout"
    using read_wait_returns [of 2 ?env 5 "\<lambda>_. PollTimeout"] by blast
  then have "ok" using n by (cases "j < 5") auto
  with j(1) show ?thesis by (intro exI [of _ j]) simp
qed

section \<open>The queue\<close>

text \<open>C19: For a new ring and any interleaving of one producer, one consumer and status changes: the bytes
  taken are a prefix of the bytes published, the difference is the ring's size and at most its
  capacity, and the bytes in between are the ring's content; 32-bit positions may wrap any number of times.\<close>

theorem ring_is_bounded_fifo:
  assumes "RingBuffer_create calloc_ok mmap_ok fd n = Some r" and "ring_step\<^sup>*\<^sup>* (ring_init r) s"
  shows "rs_taken s = take (length (rs_taken s)) (rs_written s) \<and>
    unat (RingBuffer_size (rs_ring s)) = length (rs_written s) - length (rs_taken s) \<and>
    unat (RingBuffer_size (rs_ring s)) + unat (RingBuffer_freeSpace (rs_ring s)) = unat n \<and>
    ring_copy_out (rs_ring s) (RingBuffer_getHead (rs_ring s)) (RingBuffer_size (rs_ring s))
      = drop (length (rs_taken s)) (rs_written s)"
proof -
  obtain k where k: "ring_inv k (ring_init r)" "n = 2 ^ k" using create_inv [OF assms(1)] .
  have q: "queue_ok k (rs_ring s) (rs_written s) (rs_taken s)"
    using ring_steps_inv [OF assms(2) k(1)] by (simp add: ring_inv_def)
  note sz = queue_ok_sizes [OF q]
  have l: "length (rs_taken s) \<le> length (rs_written s)" "length (rs_written s) \<le> length (rs_taken s) + 2 ^ k"
    "ring_ok k (rs_ring s)" using q by (simp_all add: queue_ok_def)
  have c: "consumer_ok (rs_written s) (length (rs_taken s)) (Reading (RingBuffer_size (rs_ring s)) [])"
    using l sz(1) by simp
  have "ring_copy_out (rs_ring s) (ring_head (rs_ring s)) (RingBuffer_size (rs_ring s))
      = drop (length (rs_taken s)) (rs_written s)"
    using read_chunk [OF q c, of "RingBuffer_size (rs_ring s)"] sz(1) by simp
  moreover have "unat n = 2 ^ k" using k(2) l(3) pow_unat [of k] by (simp add: ring_ok_def)
  ultimately show ?thesis using q sz l by (simp add: queue_ok_def RingBuffer_getHead_def)
qed

theorem ring_is_bounded_fifo_witness:
  "\<exists>s. ring_step\<^sup>*\<^sup>* (ring_init ring4) s \<and> rs_written s = [7, 8] \<and> RingBuffer_size (rs_ring s) = 2 \<and>
     unat (RingBuffer_freeSpace (rs_ring s)) = 2"
proof -
  have cr: "RingBuffer_create True True 0 4 = Some ring4"
  proof -
    have "replicate 4 (0 :: u8) = [0, 0, 0, 0]" by (simp add: eval_nat_numeral)
    then show ?thesis
      by (simp add: RingBuffer_create_def RingBuffer_setStatus_def RING_STATUS_IDLE_def ring4_def UINT32_MAX_def)
  qed
  let ?s0 = "ring_init ring4"
  let ?s1 = "?s0\<lparr>rs_producer := Writing [7, 8] 0\<rparr>"
  let ?s2 = "?s1\<lparr>rs_ring := ring4\<lparr>ring_buffer := [7, 8, 0, 0]\<rparr>, rs_producer := Writing [7, 8] (Suc (Suc 0))\<rparr>"
  let ?s3 = "?s2\<lparr>rs_ring := ring4\<lparr>ring_buffer := [7, 8, 0, 0], ring_tail := 2\<rparr>, rs_producer := WIdle, rs_written := [7, 8]\<rparr>"
  have "ring_step ?s0 ?s1"
    by (rule ring_step.write_begin [where sz = 2])
      (simp_all add: ring_init_def ring4_def RingBuffer_freeSpace_def RingBuffer_size_def
        RingBuffer_getTail_def RingBuffer_getHead_def)
  moreover have "ring_step ?s1 ?s2"
    using ring_step.write_copy [of ?s1 "[7, 8]" 0 2 2]
    by (simp add: ring_init_def ring4_def RingBuffer_copyAt_def ring_copy_in_def RingBuffer_getTail_def memcpy_at_def)
  moreover have "ring_step ?s2 ?s3"
  proof -
    have "?s3 = ?s2\<lparr>rs_ring := RingBuffer_setTail (rs_ring ?s2) (RingBuffer_getTail (rs_ring ?s2) + of_nat (Suc (Suc 0))),
        rs_producer := WIdle, rs_written := rs_written ?s2 @ [7, 8]\<rparr>"
      by (simp add: ring_init_def ring4_def RingBuffer_setTail_def RingBuffer_getTail_def)
    then show ?thesis by (simp only:) (rule ring_step.write_publish, simp_all)
  qed
  ultimately have st: "ring_step\<^sup>*\<^sup>* ?s0 ?s3" by (meson converse_rtranclp_into_rtranclp r_into_rtranclp)
  have "unat (RingBuffer_size (rs_ring ?s3)) = 2 \<and> unat (RingBuffer_freeSpace (rs_ring ?s3)) = 2"
    using ring_is_bounded_fifo [OF cr st] by (simp add: ring_init_def)
  moreover have "RingBuffer_size (rs_ring ?s3) = 2"
    by (simp add: ring4_def RingBuffer_size_def RingBuffer_getTail_def RingBuffer_getHead_def)
  ultimately show ?thesis using st by (intro exI [of _ ?s3]) simp
qed

section \<open>Frames\<close>

lemma write_two_chunks:
  assumes q: "queue_ok k r written taken" and space: "length h + length d \<le> length taken + 2 ^ k - length written"
    and sz: "unat hsz = length h" "unat dsz = length d"
  shows "queue_ok k (RingBuffer_setTail (RingBuffer_copyAt (RingBuffer_copyAt r (ring_tail r) h hsz)
            (ring_tail r + hsz) d dsz) (ring_tail r + (hsz + dsz))) (written @ h @ d) taken"
proof -
  let ?r1 = "RingBuffer_copyAt r (ring_tail r) h hsz"
  let ?r2 = "RingBuffer_copyAt ?r1 (ring_tail r + hsz) d dsz"
  have len: "length written \<le> length taken + 2 ^ k" using q by (simp add: queue_ok_def)
  have hs: "of_nat (length h) = hsz" "of_nat (length d) = dsz" by (simp_all flip: sz)
  have p0: "producer_ok k r (length written) (length taken) (Writing (h @ d) 0)"
    using space len by simp
  have one: "queue_ok k ?r1 written taken \<and>
      producer_ok k ?r1 (length written) (length taken) (Writing (h @ d) (length h))"
    using write_chunk [OF q p0 sz(1)] by simp
  have two: "queue_ok k ?r2 written taken \<and>
      producer_ok k ?r2 (length written) (length taken) (Writing (h @ d) (length (h @ d)))"
    using write_chunk [OF conjunct1 [OF one] conjunct2 [OF one] sz(2)] hs by simp
  show ?thesis
    using publish_write [OF conjunct1 [OF two] conjunct2 [OF two]] by (simp add: hs)
qed

text \<open>Writing a frame of header and payload that fits the free space succeeds at once and appends
  exactly header and payload to the ring's content in one publication; reading that many bytes
  from a ring that held nothing else gives header and payload back and leaves it empty.\<close>

theorem frame_round_trip:
  assumes "queue_ok k r written taken" and "unat hsz = length h" and "h \<noteq> []" and "unat dsz = length d"
    and "length h + length d \<le> unat (RingBuffer_freeSpace r)"
  shows "\<exists>r'. RingBuffer_writeFrame (Some (\<lambda>_. r)) polls (Some h) hsz (Some d) dsz = Some (True, Some r') \<and>
     queue_ok k r' (written @ h @ d) taken \<and>
     (written = taken \<longrightarrow> (\<exists>r''. RingBuffer_read (Some (\<lambda>_. r')) polls True (hsz + dsz)
          = Some (True, h @ d, Some r'') \<and> RingBuffer_size r'' = 0))"
proof -
  have ok: "ring_ok k r" using assms(1) by (simp add: queue_ok_def)
  have free: "length h + length d \<le> length taken + 2 ^ k - length written"
    using assms(5) queue_ok_sizes(2) [OF assms(1)] by simp
  have le: "length taken \<le> length written" "length written \<le> length taken + 2 ^ k"
    using assms(1) by (simp_all add: queue_ok_def)
  have cap: "length h + length d \<le> 2 ^ k" using free le by linarith
  have small: "length h + length d < 2 ^ 32" using cap ring_ok_le [OF ok] by simp
  have tot: "unat (hsz + dsz) = length h + length d" using small assms(2,4) by (simp add: unat_word_ariths(1))
  note bs = ring_ok_unat [OF ok]
  have hb: "hsz \<le> ring_bufferSize r" using cap assms(2) bs by (simp add: word_le_nat_alt)
  then have "unat (ring_bufferSize r - hsz) = 2 ^ k - length h" using assms(2) bs by (simp add: unat_sub)
  then have db: "dsz \<le> ring_bufferSize r - hsz" using cap assms(4) by (simp add: word_le_nat_alt)
  have tb: "hsz + dsz \<le> ring_bufferSize r" "hsz + dsz \<le> RingBuffer_freeSpace r"
    using tot cap bs assms(5) by (simp_all add: word_le_nat_alt)
  have h0: "hsz \<noteq> 0" using assms(2,3) by auto
  let ?r = "RingBuffer_setTail (RingBuffer_copyAt (RingBuffer_copyAt r (ring_tail r) h hsz)
            (ring_tail r + hsz) d dsz) (ring_tail r + (hsz + dsz))"
  have w: "RingBuffer_writeFrame (Some (\<lambda>_. r)) polls (Some h) hsz (Some d) dsz = Some (True, Some ?r)"
    using h0 hb db tb
    by (simp add: RingBuffer_writeFrame_def RingBuffer_waitForWrite_def ring_wait_loop.simps Let_def
        RingBuffer_getTail_def not_less)
  have q: "queue_ok k ?r (written @ h @ d) taken"
    using write_two_chunks [OF assms(1) free assms(2,4)] .
  have "\<exists>r''. RingBuffer_read (Some (\<lambda>_. ?r)) polls True (hsz + dsz) = Some (True, h @ d, Some r'') \<and>
      RingBuffer_size r'' = 0" if e: "written = taken"
  proof -
    have c: "consumer_ok (written @ h @ d) (length taken) (Reading (hsz + dsz) [])"
      using e tot by simp
    have out: "ring_copy_out ?r (ring_head ?r) (hsz + dsz) = h @ d"
      using read_chunk [OF q c, of "hsz + dsz"] tot e by simp
    have "unat (RingBuffer_size ?r) = length h + length d" using queue_ok_sizes(1) [OF q] e by simp
    then have s: "RingBuffer_size ?r = hsz + dsz" using tot by (simp add: word_unat_eq_iff)
    have okr: "ring_bufferSize ?r = ring_bufferSize r"
      using q ok unfolding queue_ok_def ring_ok_def by presburger
    have "RingBuffer_read (Some (\<lambda>_. ?r)) polls True (hsz + dsz)
        = Some (True, h @ d, Some (RingBuffer_setHead ?r (ring_head ?r + (hsz + dsz))))"
      using tb(1) s out okr
      by (simp add: RingBuffer_read_def RingBuffer_waitForRead_def ring_wait_loop.simps Let_def
          RingBuffer_getHead_def not_less)
    moreover have "RingBuffer_size (RingBuffer_setHead ?r (ring_head ?r + (hsz + dsz))) = 0"
      using s by (simp add: RingBuffer_size_def RingBuffer_getTail_def RingBuffer_getHead_def algebra_simps)
    ultimately show ?thesis by blast
  qed
  with w q show ?thesis by blast
qed

theorem frame_round_trip_witness:
  "\<exists>r' r''. RingBuffer_writeFrame (Some (\<lambda>_. ring4)) (\<lambda>_. PollTimeout) (Some [1, 2]) 2 (Some [3]) 1 = Some (True, Some r') \<and>
     RingBuffer_read (Some (\<lambda>_. r')) (\<lambda>_. PollTimeout) True 3 = Some (True, [1, 2, 3], Some r'')"
proof -
  have q: "queue_ok 2 ring4 [] []" by (simp add: queue_ok_def ring_ok_def ring4_def)
  have f: "unat (RingBuffer_freeSpace ring4) = 4"
    by (simp add: RingBuffer_freeSpace_def RingBuffer_size_def RingBuffer_getTail_def RingBuffer_getHead_def ring4_def)
  show ?thesis using frame_round_trip [OF q, of 2 "[1, 2]" 1 "[3]" "\<lambda>_. PollTimeout"] f by auto
qed

end
