(* ===== verification/Thread_Pool.thy ===== *)
theory Thread_Pool
  imports Prelude
begin

text \<open>
  The worker pool, \<^verbatim>\<open>cpp/include/thread_pool.h\<close>.

  The task queue is the code's singly linked list: a store from addresses to task nodes with their
  \<^verbatim>\<open>next\<close> pointers, and the pool's first and last pointers. \<^verbatim>\<open>calloc\<close> is an argument: the address it
  returns, \<^const>\<open>None\<close> when it fails. Function pointers and parameters are numbers; the calls the code
  makes through them are returned as a list of events. Every critical section of the mutex is one
  definition; a wait on a condition variable is its guard.
\<close>

record ThreadPool_Task =
  task_func :: nat
  task_cleanup :: "nat ptr"
  task_param :: nat
  task_next :: "nat ptr"

type_synonym store = "nat \<Rightarrow> ThreadPool_Task option"

record ThreadPool =
  tp_store :: store
  tp_numThreads :: int
  tp_threadCount :: size_t
  tp_activeCount :: size_t
  tp_queuedCount :: size_t
  tp_accepting :: bool
  tp_cancellationRequested :: bool
  tp_firstTask :: "nat ptr"
  tp_lastTask :: "nat ptr"

definition THREAD_POOL_MAX_THREADS :: int where "THREAD_POOL_MAX_THREADS = 64"
definition THREAD_POOL_MAX_QUEUED_TASKS :: size_t where "THREAD_POOL_MAX_QUEUED_TASKS = 256"

text \<open>A call \<^verbatim>\<open>f(param)\<close>.\<close>

datatype pool_event = Call nat nat

section \<open>The queue\<close>

definition ThreadPool_takeTaskLocked :: "ThreadPool \<Rightarrow> nat ptr \<times> ThreadPool" where
  "ThreadPool_takeTaskLocked p =
     (case tp_firstTask p of
        None \<Rightarrow> (None, p)
      | Some a \<Rightarrow>
          let task = the (tp_store p a);
              p1 = p\<lparr>tp_firstTask := task_next task\<rparr>;
              p2 = (if tp_firstTask p1 = None then p1\<lparr>tp_lastTask := None\<rparr> else p1)
          in (Some a, p2\<lparr>tp_store := (tp_store p2)(a \<mapsto> task\<lparr>task_next := None\<rparr>),
                        tp_queuedCount := tp_queuedCount p2 - 1\<rparr>))"

text \<open>Both submitting functions append with the same statements.\<close>

definition pool_append :: "ThreadPool \<Rightarrow> nat \<Rightarrow> ThreadPool_Task \<Rightarrow> ThreadPool" where
  "pool_append p a task =
     (let st = (tp_store p)(a \<mapsto> task);
          p1 = (case tp_lastTask p of
                  Some l \<Rightarrow> p\<lparr>tp_store := st(l \<mapsto> (the (st l))\<lparr>task_next := Some a\<rparr>)\<rparr>
                | None \<Rightarrow> p\<lparr>tp_store := st, tp_firstTask := Some a\<rparr>)
      in p1\<lparr>tp_lastTask := Some a, tp_queuedCount := tp_queuedCount p1 + 1\<rparr>)"

text \<open>The cleanup of a detached list: the calls made and the store with the nodes freed.\<close>

partial_function (option) ThreadPool_cleanupTaskList ::
  "store \<Rightarrow> nat ptr \<Rightarrow> (pool_event list \<times> store) option" where
  "ThreadPool_cleanupTaskList st task =
     (case task of
        None \<Rightarrow> Some ([], st)
      | Some a \<Rightarrow>
          let t = the (st a);
              calls = (case task_cleanup t of None \<Rightarrow> [] | Some f \<Rightarrow> [Call f (task_param t)])
          in Option.bind (ThreadPool_cleanupTaskList (st(a := None)) (task_next t))
               (\<lambda>(rest, st'). Some (calls @ rest, st')))"

declare ThreadPool_cleanupTaskList.simps [code]

section \<open>Workers\<close>

text \<open>The guard of the worker's wait, the critical section that takes a task (\<^const>\<open>None\<close>: the worker
  ends), the call and the release of the node, and the critical section after it with the broadcast.\<close>

definition worker_may_take :: "ThreadPool \<Rightarrow> bool" where
  "worker_may_take p \<longleftrightarrow> \<not> (tp_firstTask p = None \<and> tp_accepting p)"

definition worker_take :: "ThreadPool \<Rightarrow> nat ptr \<times> ThreadPool" where
  "worker_take p =
     (case ThreadPool_takeTaskLocked p of
        (None, p') \<Rightarrow> (None, p')
      | (Some a, p') \<Rightarrow> (Some a, p'\<lparr>tp_activeCount := tp_activeCount p' + 1\<rparr>))"

definition worker_run :: "ThreadPool \<Rightarrow> nat \<Rightarrow> pool_event list \<times> ThreadPool" where
  "worker_run p a =
     (let t = the (tp_store p a)
      in ([Call (task_func t) (task_param t)], p\<lparr>tp_store := (tp_store p)(a := None)\<rparr>))"

definition worker_finish :: "ThreadPool \<Rightarrow> bool \<times> ThreadPool" where
  "worker_finish p =
     (let p' = p\<lparr>tp_activeCount := tp_activeCount p - 1\<rparr>
      in (tp_queuedCount p' = 0 \<and> tp_activeCount p' = 0, p'))"

section \<open>Creation\<close>

definition ThreadPool_createWorker :: "int \<Rightarrow> (nat \<Rightarrow> int) \<Rightarrow> nat \<Rightarrow> int" where
  "ThreadPool_createWorker testFailAfter pthread_create successfulCreates =
     (if 0 \<le> testFailAfter \<and> nat testFailAfter \<le> successfulCreates then - 1
      else pthread_create successfulCreates)"

text \<open>The creation loop over the remaining indices: the number of threads and whether all were created.\<close>

fun create_workers :: "int \<Rightarrow> (nat \<Rightarrow> int) \<Rightarrow> nat \<Rightarrow> nat \<Rightarrow> nat \<times> bool" where
  "create_workers failAfter pthread_create 0 created = (created, True)"
| "create_workers failAfter pthread_create (Suc n) created =
     (if ThreadPool_createWorker failAfter pthread_create created \<noteq> 0 then (created, False)
      else create_workers failAfter pthread_create n (created + 1))"

text \<open>The four initialisations (\<open>alloc_ok\<close>: pool, mutex, both conditions, thread array) and the number of
  workers that were joined again after a failure.\<close>

definition ThreadPool_init :: "bool \<Rightarrow> int \<Rightarrow> (nat \<Rightarrow> int) \<Rightarrow> int \<Rightarrow> ThreadPool ptr \<times> nat" where
  "ThreadPool_init alloc_ok failAfter pthread_create requestedThreads =
     (if requestedThreads \<le> 0 \<or> THREAD_POOL_MAX_THREADS < requestedThreads then (None, 0)
      else if \<not> alloc_ok then (None, 0)
      else case create_workers failAfter pthread_create (nat requestedThreads) 0 of
        (created, False) \<Rightarrow> (None, created)
      | (created, True) \<Rightarrow>
          (Some \<lparr>tp_store = Map.empty, tp_numThreads = requestedThreads, tp_threadCount = created,
             tp_activeCount = 0, tp_queuedCount = 0, tp_accepting = True,
             tp_cancellationRequested = False, tp_firstTask = None, tp_lastTask = None\<rparr>, 0))"

section \<open>Submission\<close>

definition cleanup_call :: "nat ptr \<Rightarrow> nat \<Rightarrow> pool_event list" where
  "cleanup_call cleanup param = (case cleanup of None \<Rightarrow> [] | Some f \<Rightarrow> [Call f param])"

definition ThreadPool_runWithCleanup ::
  "ThreadPool ptr \<Rightarrow> nat ptr \<Rightarrow> nat \<Rightarrow> nat ptr \<Rightarrow> nat ptr \<Rightarrow> bool \<times> pool_event list \<times> ThreadPool ptr" where
  "ThreadPool_runWithCleanup pool func param cleanup callocd =
     (case (pool, func) of
        (Some p, Some f) \<Rightarrow>
          (case callocd of
             None \<Rightarrow> (False, cleanup_call cleanup param, pool)
           | Some a \<Rightarrow>
               if \<not> tp_accepting p \<or> THREAD_POOL_MAX_QUEUED_TASKS \<le> tp_queuedCount p
               then (False, cleanup_call cleanup param, pool)
               else (True, [], Some (pool_append p a
                      \<lparr>task_func = f, task_cleanup = cleanup, task_param = param, task_next = None\<rparr>)))
      | _ \<Rightarrow> (False, cleanup_call cleanup param, pool))"

definition ThreadPool_run ::
  "ThreadPool ptr \<Rightarrow> nat ptr \<Rightarrow> nat \<Rightarrow> nat ptr \<Rightarrow> bool \<times> pool_event list \<times> ThreadPool ptr" where
  "ThreadPool_run pool func param callocd =
     (case (pool, func) of
        (Some p, Some f) \<Rightarrow>
          (case callocd of
             None \<Rightarrow> (True, [Call f param], pool)
           | Some a \<Rightarrow>
               if \<not> tp_accepting p then (False, [], pool)
               else if THREAD_POOL_MAX_QUEUED_TASKS \<le> tp_queuedCount p then (True, [Call f param], pool)
               else (True, [], Some (pool_append p a
                      \<lparr>task_func = f, task_cleanup = None, task_param = param, task_next = None\<rparr>)))
      | _ \<Rightarrow> (False, [], pool))"

section \<open>Cancellation, waiting, destruction\<close>

definition ThreadPool_isCancellationRequested :: "ThreadPool ptr \<Rightarrow> bool" where
  "ThreadPool_isCancellationRequested pool =
     (case pool of None \<Rightarrow> True | Some p \<Rightarrow> tp_cancellationRequested p)"

text \<open>\<open>ThreadPool_wait\<close> returns once this holds under the mutex.\<close>

definition ThreadPool_wait_done :: "ThreadPool \<Rightarrow> bool" where
  "ThreadPool_wait_done p \<longleftrightarrow> \<not> (0 < tp_queuedCount p \<or> 0 < tp_activeCount p)"

text \<open>The critical section of \<open>ThreadPool_destroy\<close>: the detached list and the pool; the list is cleaned and
  the threads are joined afterwards.\<close>

definition ThreadPool_destroy_begin :: "ThreadPool \<Rightarrow> nat ptr \<times> ThreadPool" where
  "ThreadPool_destroy_begin p =
     (tp_firstTask p,
      p\<lparr>tp_accepting := False, tp_cancellationRequested := True, tp_firstTask := None,
        tp_lastTask := None, tp_queuedCount := 0\<rparr>)"

definition ThreadPool_destroy_cleanup :: "ThreadPool \<Rightarrow> (pool_event list \<times> ThreadPool) option" where
  "ThreadPool_destroy_cleanup p =
     (case ThreadPool_destroy_begin p of (cancelled, p') \<Rightarrow>
        map_option (\<lambda>(calls, st). (calls, p'\<lparr>tp_store := st\<rparr>))
          (ThreadPool_cleanupTaskList (tp_store p') cancelled))"

end
