(* ===== verification/Pool_Machine.thy ===== *)
theory Pool_Machine
  imports Thread_Pool "HOL-Library.Multiset"
begin

text \<open>
  The pool with its workers as a machine. Workers take, run and finish tasks; any thread submits;
  one thread destroys. Ghost lists record the tasks accepted, started and cancelled, in order.
\<close>

section \<open>The linked list\<close>

fun chain :: "store \<Rightarrow> nat ptr \<Rightarrow> nat list \<Rightarrow> bool" where
  "chain st p [] = (p = None)"
| "chain st p (a # as) = (p = Some a \<and> (\<exists>t. st a = Some t \<and> chain st (task_next t) as))"

lemma chain_dom: "chain st p as \<Longrightarrow> set as \<subseteq> dom st"
  by (induction as arbitrary: p) auto

lemma chain_other: "chain st p as \<Longrightarrow> a \<notin> set as \<Longrightarrow> chain (st(a := x)) p as"
  by (induction as arbitrary: p) auto

lemma chain_append:
  assumes "chain st p as" "as \<noteq> []" "distinct as" "a \<notin> set as" "st (last as) = Some l" "task_next t = None"
  shows "chain (st(a \<mapsto> t, last as \<mapsto> l\<lparr>task_next := Some a\<rparr>)) p (as @ [a])"
  using assms
proof (induction as arbitrary: p)
  case (Cons b bs)
  show ?case
  proof (cases "bs = []")
    case True
    then show ?thesis using Cons.prems by auto
  next
    case False
    then have nl: "b \<noteq> last bs" using Cons.prems(3) by auto
    obtain tb where tb: "st b = Some tb" "chain st (task_next tb) bs" using Cons.prems(1) by auto
    let ?st = "st(a \<mapsto> t, last bs \<mapsto> l\<lparr>task_next := Some a\<rparr>)"
    have "chain ?st (task_next tb) (bs @ [a])"
      by (rule Cons.IH [OF tb(2) False]) (use Cons.prems False in auto)
    moreover have "?st b = Some tb" using nl Cons.prems(4) tb(1) by auto
    ultimately have "chain ?st p ((b # bs) @ [a])" using Cons.prems(1) by (simp del: fun_upd_apply)
    then show ?thesis using False by (simp only: append_Cons last_ConsR [OF False])
  qed
qed simp

text \<open>A task without its link.\<close>

definition task_core :: "ThreadPool_Task \<Rightarrow> ThreadPool_Task" where
  "task_core t = t\<lparr>task_next := None\<rparr>"

definition tasks_at :: "store \<Rightarrow> nat list \<Rightarrow> ThreadPool_Task list" where
  "tasks_at st as = map (\<lambda>a. task_core (the (st a))) as"

lemma tasks_at_cong: "(\<And>a. a \<in> set as \<Longrightarrow> st' a = st a) \<Longrightarrow> tasks_at st' as = tasks_at st as"
  by (simp add: tasks_at_def)

lemma tasks_at_Nil [simp]: "tasks_at st [] = []"
  by (simp add: tasks_at_def)

lemma task_core_next [simp]: "task_core (t\<lparr>task_next := n\<rparr>) = task_core t"
  by (simp add: task_core_def)

definition queue_wf :: "ThreadPool \<Rightarrow> nat list \<Rightarrow> bool" where
  "queue_wf p as \<longleftrightarrow> chain (tp_store p) (tp_firstTask p) as \<and> distinct as \<and>
     tp_lastTask p = (if as = [] then None else Some (last as)) \<and> tp_queuedCount p = length as"

lemma append_effect:
  assumes wf: "queue_wf p as" and fresh: "tp_store p a = None" and t: "task_next t = None"
  shows "queue_wf (pool_append p a t) (as @ [a]) \<and>
    tasks_at (tp_store (pool_append p a t)) (as @ [a]) = tasks_at (tp_store p) as @ [task_core t] \<and>
    (\<forall>b. b \<notin> set as \<and> b \<noteq> a \<longrightarrow> tp_store (pool_append p a t) b = tp_store p b) \<and>
    tp_store (pool_append p a t) a = Some t \<and>
    tp_activeCount (pool_append p a t) = tp_activeCount p \<and> tp_accepting (pool_append p a t) = tp_accepting p \<and>
    tp_threadCount (pool_append p a t) = tp_threadCount p"
proof -
  have na: "a \<notin> set as" using wf fresh chain_dom by (fastforce simp: queue_wf_def)
  show ?thesis
  proof (cases "as = []")
    case True
    then show ?thesis using wf t
      by (auto simp: queue_wf_def pool_append_def Let_def tasks_at_def)
  next
    case False
    then have la: "tp_lastTask p = Some (last as)" using wf by (simp add: queue_wf_def)
    have "last as \<in> dom (tp_store p)"
      using wf chain_dom [of "tp_store p" "tp_firstTask p" as] last_in_set [OF False]
      unfolding queue_wf_def by blast
    then obtain l where l: "tp_store p (last as) = Some l" by auto
    have ne: "last as \<noteq> a" using na False last_in_set by metis
    have st: "tp_store (pool_append p a t) = (tp_store p)(a \<mapsto> t, last as \<mapsto> l\<lparr>task_next := Some a\<rparr>)"
      using la l ne by (simp add: pool_append_def Let_def)
    have "chain (tp_store (pool_append p a t)) (tp_firstTask p) (as @ [a])"
      unfolding st by (rule chain_append) (use wf False na l t in \<open>auto simp: queue_wf_def\<close>)
    then have q: "queue_wf (pool_append p a t) (as @ [a])"
      using wf na la by (auto simp: queue_wf_def pool_append_def Let_def)
    have "tasks_at (tp_store (pool_append p a t)) (as @ [a]) = tasks_at (tp_store p) as @ [task_core t]"
      unfolding st using na ne l by (auto simp: tasks_at_def)
    then show ?thesis using q la False l ne unfolding st
      by (auto simp: pool_append_def Let_def)
  qed
qed

lemma take_effect:
  assumes wf: "queue_wf p (a # as)"
  shows "\<exists>p'. ThreadPool_takeTaskLocked p = (Some a, p') \<and> queue_wf p' as \<and>
    tasks_at (tp_store p) (a # as) = task_core (the (tp_store p' a)) # tasks_at (tp_store p') as \<and>
    (\<forall>b. b \<noteq> a \<longrightarrow> tp_store p' b = tp_store p b) \<and> tp_store p' a \<noteq> None \<and>
    tp_activeCount p' = tp_activeCount p \<and> tp_accepting p' = tp_accepting p \<and> tp_threadCount p' = tp_threadCount p"
proof -
  obtain t where t: "tp_firstTask p = Some a" "tp_store p a = Some t" "chain (tp_store p) (task_next t) as"
    using wf by (auto simp: queue_wf_def)
  have na: "a \<notin> set as" "distinct as" using wf by (auto simp: queue_wf_def)
  have nx: "task_next t = None \<longleftrightarrow> as = []" using t(3) by (cases as) auto
  have ch: "chain ((tp_store p)(a \<mapsto> t\<lparr>task_next := None\<rparr>)) (task_next t) as"
    by (rule chain_other [OF t(3) na(1)])
  have ta: "tasks_at ((tp_store p)(a \<mapsto> t\<lparr>task_next := None\<rparr>)) as = tasks_at (tp_store p) as"
    using na(1) by (auto simp: tasks_at_def)
  show ?thesis
    using wf t nx ch na ta
    by (auto simp: ThreadPool_takeTaskLocked_def queue_wf_def Let_def tasks_at_def)
qed

lemma take_empty: "queue_wf p [] \<Longrightarrow> ThreadPool_takeTaskLocked p = (None, p)"
  by (simp add: queue_wf_def ThreadPool_takeTaskLocked_def)

lemma cleanup_effect:
  "chain st p as \<Longrightarrow> distinct as \<Longrightarrow>
     ThreadPool_cleanupTaskList st p =
       Some (concat (map (\<lambda>t. cleanup_call (task_cleanup t) (task_param t)) (tasks_at st as)),
             \<lambda>b. if b \<in> set as then None else st b)"
proof (induction as arbitrary: st p)
  case Nil
  then show ?case by (simp add: ThreadPool_cleanupTaskList.simps tasks_at_def)
next
  case (Cons a as)
  then obtain t where t: "p = Some a" "st a = Some t" "chain st (task_next t) as" by auto
  have ch: "chain (st(a := None)) (task_next t) as" using t(3) Cons.prems(2) by (simp add: chain_other)
  have ta: "tasks_at (st(a := None)) as = tasks_at st as" using Cons.prems(2) by (auto simp: tasks_at_def)
  have fr: "(\<lambda>b. if b \<in> set as then None else (st(a := None)) b) = (\<lambda>b. if b \<in> set (a # as) then None else st b)"
    by auto
  have rest: "ThreadPool_cleanupTaskList (st(a := None)) (task_next t) =
      Some (concat (map (\<lambda>t. cleanup_call (task_cleanup t) (task_param t)) (tasks_at st as)),
        \<lambda>b. if b \<in> set (a # as) then None else st b)"
    using Cons.IH [OF ch] Cons.prems(2) unfolding ta fr by (simp del: fun_upd_apply)
  have hd: "tasks_at st (a # as) = task_core t # tasks_at st as" using t(2) by (simp add: tasks_at_def)
  show ?case
    by (subst ThreadPool_cleanupTaskList.simps)
      (simp add: t(1,2) Let_def rest hd cleanup_call_def task_core_def del: fun_upd_apply split: option.split)
qed

section \<open>The machine\<close>

text \<open>A worker waits, holds a task it took, has called it, or has ended.\<close>

datatype worker = Waiting | Holding nat | Called | Ended

record pool_sys =
  ps_pool :: ThreadPool
  ps_workers :: "worker list"
  ps_accepted :: "ThreadPool_Task list"
  ps_started :: "ThreadPool_Task list"
  ps_cancelled :: "ThreadPool_Task list"
  ps_ran :: "pool_event list"
  ps_cleaned :: "pool_event list"

inductive worker_step :: "pool_sys \<Rightarrow> pool_sys \<Rightarrow> bool" where
  take: "i < length (ps_workers s) \<Longrightarrow> ps_workers s ! i = Waiting \<Longrightarrow> worker_may_take (ps_pool s) \<Longrightarrow>
     worker_take (ps_pool s) = (Some a, p) \<Longrightarrow>
     worker_step s (s\<lparr>ps_pool := p, ps_workers := (ps_workers s)[i := Holding a],
                      ps_started := ps_started s @ [task_core (the (tp_store p a))]\<rparr>)"
| ends: "i < length (ps_workers s) \<Longrightarrow> ps_workers s ! i = Waiting \<Longrightarrow> worker_may_take (ps_pool s) \<Longrightarrow>
     worker_take (ps_pool s) = (None, p) \<Longrightarrow>
     worker_step s (s\<lparr>ps_pool := p, ps_workers := (ps_workers s)[i := Ended]\<rparr>)"
| run: "i < length (ps_workers s) \<Longrightarrow> ps_workers s ! i = Holding a \<Longrightarrow>
     worker_run (ps_pool s) a = (calls, p) \<Longrightarrow>
     worker_step s (s\<lparr>ps_pool := p, ps_workers := (ps_workers s)[i := Called], ps_ran := ps_ran s @ calls\<rparr>)"
| finish: "i < length (ps_workers s) \<Longrightarrow> ps_workers s ! i = Called \<Longrightarrow>
     worker_finish (ps_pool s) = (wake, p) \<Longrightarrow>
     worker_step s (s\<lparr>ps_pool := p, ps_workers := (ps_workers s)[i := Waiting]\<rparr>)"

text \<open>A submission is accepted when it returns true without a call; \<open>callocd\<close> is a free address.\<close>

definition fresh :: "pool_sys \<Rightarrow> nat ptr \<Rightarrow> bool" where
  "fresh s callocd \<longleftrightarrow> (case callocd of None \<Rightarrow> True | Some a \<Rightarrow> tp_store (ps_pool s) a = None)"

inductive pool_step :: "pool_sys \<Rightarrow> pool_sys \<Rightarrow> bool" where
  worker: "worker_step s s' \<Longrightarrow> pool_step s s'"
| submit: "fresh s callocd \<Longrightarrow>
     ThreadPool_runWithCleanup (Some (ps_pool s)) (Some f) param cleanup callocd = (ok, calls, Some p) \<Longrightarrow>
     pool_step s (s\<lparr>ps_pool := p, ps_accepted := ps_accepted s @
       (if ok then [\<lparr>task_func = f, task_cleanup = cleanup, task_param = param, task_next = None\<rparr>] else [])\<rparr>)"
| submit_plain: "fresh s callocd \<Longrightarrow>
     ThreadPool_run (Some (ps_pool s)) (Some f) param callocd = (ok, calls, Some p) \<Longrightarrow>
     pool_step s (s\<lparr>ps_pool := p, ps_accepted := ps_accepted s @
       (if ok \<and> calls = [] then [\<lparr>task_func = f, task_cleanup = None, task_param = param, task_next = None\<rparr>] else [])\<rparr>)"
| destroy: "tp_accepting (ps_pool s) \<Longrightarrow> queue_wf (ps_pool s) as \<Longrightarrow>
     ThreadPool_destroy_cleanup (ps_pool s) = Some (calls, p) \<Longrightarrow>
     pool_step s (s\<lparr>ps_pool := p, ps_cancelled := tasks_at (tp_store (ps_pool s)) as,
                    ps_cleaned := ps_cleaned s @ calls\<rparr>)"

definition pool_init :: "ThreadPool \<Rightarrow> pool_sys" where
  "pool_init p = \<lparr>ps_pool = p, ps_workers = replicate (tp_threadCount p) Waiting, ps_accepted = [],
     ps_started = [], ps_cancelled = [], ps_ran = [], ps_cleaned = []\<rparr>"

section \<open>The invariant\<close>

fun held :: "worker list \<Rightarrow> nat list" where
  "held [] = []"
| "held (Holding a # ws) = a # held ws"
| "held (w # ws) = held ws"

definition busy :: "worker \<Rightarrow> bool" where
  "busy w \<longleftrightarrow> (w = Called \<or> (\<exists>a. w = Holding a))"

definition run_event :: "ThreadPool_Task \<Rightarrow> pool_event" where
  "run_event t = Call (task_func t) (task_param t)"

definition clean_events :: "ThreadPool_Task list \<Rightarrow> pool_event list" where
  "clean_events ts = concat (map (\<lambda>t. cleanup_call (task_cleanup t) (task_param t)) ts)"

definition pool_inv :: "pool_sys \<Rightarrow> nat list \<Rightarrow> bool" where
  "pool_inv s as \<longleftrightarrow>
     queue_wf (ps_pool s) as \<and> distinct (as @ held (ps_workers s)) \<and>
     set (held (ps_workers s)) \<subseteq> dom (tp_store (ps_pool s)) \<and>
     tp_activeCount (ps_pool s) = length (filter busy (ps_workers s)) \<and>
     tp_threadCount (ps_pool s) = length (ps_workers s) \<and>
     ps_accepted s = ps_started s @ tasks_at (tp_store (ps_pool s)) as @ ps_cancelled s \<and>
     (tp_accepting (ps_pool s) \<and> ps_cancelled s = [] \<and> Ended \<notin> set (ps_workers s) \<or>
        \<not> tp_accepting (ps_pool s) \<and> as = []) \<and>
     length as \<le> THREAD_POOL_MAX_QUEUED_TASKS \<and>
     mset (map run_event (ps_started s)) =
       mset (ps_ran s) + mset (map run_event (tasks_at (tp_store (ps_pool s)) (held (ps_workers s)))) \<and>
     ps_cleaned s = clean_events (ps_cancelled s)"

lemma held_append: "held (ws @ vs) = held ws @ held vs"
  by (induction ws rule: held.induct) auto

lemma held_update:
  assumes "i < length ws"
  shows "held (ws[i := w]) = held (take i ws) @ held [w] @ held (drop (Suc i) ws)"
    and "held ws = held (take i ws) @ held [ws ! i] @ held (drop (Suc i) ws)"
proof -
  show "held (ws[i := w]) = held (take i ws) @ held [w] @ held (drop (Suc i) ws)"
    using assms by (simp add: upd_conv_take_nth_drop flip: held_append)
  have "ws = take i ws @ [ws ! i] @ drop (Suc i) ws" using id_take_nth_drop [OF assms] by simp
  then show "held ws = held (take i ws) @ held [ws ! i] @ held (drop (Suc i) ws)"
    by (metis held_append)
qed

lemma run_event_core [simp]: "run_event (task_core t) = run_event t"
  by (simp add: run_event_def task_core_def)

lemma worker_set_update:
  assumes "i < length ws" "Ended \<notin> set ws" "w \<noteq> Ended"
  shows "Ended \<notin> set (ws[i := w])"
  using assms set_update_subset_insert [of ws i w] by auto

lemma take_inv:
  assumes inv: "pool_inv s as" and i: "i < length (ps_workers s)" "ps_workers s ! i = Waiting"
    and tk: "worker_take (ps_pool s) = (Some a, p)"
  shows "pool_inv (s\<lparr>ps_pool := p, ps_workers := (ps_workers s)[i := Holding a],
            ps_started := ps_started s @ [task_core (the (tp_store p a))]\<rparr>) (tl as)"
proof -
  let ?ws = "ps_workers s" and ?st = "tp_store (ps_pool s)"
  have wf: "queue_wf (ps_pool s) as" using inv by (simp add: pool_inv_def)
  then obtain as' where as: "as = a # as'"
    using tk take_empty take_effect by (cases as) (fastforce simp: worker_take_def)+
  obtain q where q: "ThreadPool_takeTaskLocked (ps_pool s) = (Some a, q)" "queue_wf q as'"
    "tasks_at ?st as = task_core (the (tp_store q a)) # tasks_at (tp_store q) as'"
    "\<And>b. b \<noteq> a \<Longrightarrow> tp_store q b = ?st b" "tp_store q a \<noteq> None" "tp_activeCount q = tp_activeCount (ps_pool s)"
    "tp_accepting q = tp_accepting (ps_pool s)" "tp_threadCount q = tp_threadCount (ps_pool s)"
    using take_effect [OF wf [unfolded as]] unfolding as by blast
  have p: "p = q\<lparr>tp_activeCount := tp_activeCount q + 1\<rparr>" using tk q(1) by (simp add: worker_take_def)
  define H1 H2 where "H1 = held (take i ?ws)" and "H2 = held (drop (Suc i) ?ws)"
  have h: "held ?ws = H1 @ H2" "held (?ws[i := Holding a]) = H1 @ a # H2"
    using held_update [OF i(1)] i(2) by (simp_all add: H1_def H2_def)
  have na: "a \<notin> set (H1 @ H2)" using inv as h(1) by (auto simp: pool_inv_def)
  have th: "tasks_at (tp_store q) (H1 @ H2) = tasks_at ?st (H1 @ H2)"
    by (rule tasks_at_cong) (use na q(4) in metis)
  have acc: "tp_accepting (ps_pool s)" "ps_cancelled s = []" "Ended \<notin> set ?ws"
    using inv as by (auto simp: pool_inv_def)
  have act: "length (filter busy (?ws[i := Holding a])) = Suc (length (filter busy ?ws))"
    using i by (intro length_filter_update_on) (simp_all add: busy_def)
  have dom: "set (H1 @ a # H2) \<subseteq> dom (tp_store q)"
  proof
    fix b assume "b \<in> set (H1 @ a # H2)"
    then show "b \<in> dom (tp_store q)"
      using inv h(1) q(4) [of b] q(5) by (cases "b = a") (auto simp: pool_inv_def)
  qed
  have ev: "mset (map run_event (tasks_at (tp_store q) (H1 @ a # H2)))
      = mset (map run_event (tasks_at (tp_store q) (H1 @ H2))) + {#run_event (the (tp_store q a))#}"
    by (simp add: tasks_at_def)
  have ms: "mset (map run_event (ps_started s @ [task_core (the (tp_store q a))]))
      = mset (ps_ran s) + mset (map run_event (tasks_at (tp_store q) (H1 @ a # H2)))"
    using inv h(1) unfolding ev th by (simp add: pool_inv_def)
  have dis: "distinct (as' @ H1 @ a # H2)" using inv as h(1) by (auto simp: pool_inv_def)
  have acpt: "ps_accepted s = ps_started s @ task_core (the (tp_store q a)) # tasks_at (tp_store q) as' @ ps_cancelled s"
    using inv q(3) by (simp add: pool_inv_def)
  show ?thesis
    unfolding pool_inv_def
    using inv acc p q(2,6,7,8) act dom ms dis acpt worker_set_update [OF i(1) acc(3), of "Holding a"]
    by (auto simp: pool_inv_def as h(2) queue_wf_def)
qed

lemma ends_inv:
  assumes inv: "pool_inv s as" and i: "i < length (ps_workers s)" "ps_workers s ! i = Waiting"
    and g: "worker_may_take (ps_pool s)" and tk: "worker_take (ps_pool s) = (None, p)"
  shows "pool_inv (s\<lparr>ps_pool := p, ps_workers := (ps_workers s)[i := Ended]\<rparr>) as"
proof -
  have wf: "queue_wf (ps_pool s) as" using inv by (simp add: pool_inv_def)
  have as: "as = []"
    using take_effect [of "ps_pool s" "hd as" "tl as"] wf tk by (cases as) (auto simp: worker_take_def)
  then have p: "p = ps_pool s" and na: "\<not> tp_accepting (ps_pool s)"
    using take_empty wf tk g by (auto simp: worker_take_def worker_may_take_def queue_wf_def)
  have h: "held ((ps_workers s)[i := Ended]) = held (ps_workers s)"
    using held_update [OF i(1)] i(2) by simp
  have "length (filter busy ((ps_workers s)[i := Ended])) = length (filter busy (ps_workers s))"
    using i by (intro length_filter_update_same) (simp_all add: busy_def)
  then show ?thesis using inv p na as h by (simp add: pool_inv_def)
qed

lemma run_inv:
  assumes inv: "pool_inv s as" and i: "i < length (ps_workers s)" "ps_workers s ! i = Holding a"
    and r: "worker_run (ps_pool s) a = (calls, p)"
  shows "pool_inv (s\<lparr>ps_pool := p, ps_workers := (ps_workers s)[i := Called], ps_ran := ps_ran s @ calls\<rparr>) as"
proof -
  let ?ws = "ps_workers s" and ?st = "tp_store (ps_pool s)"
  define H1 H2 where "H1 = held (take i ?ws)" and "H2 = held (drop (Suc i) ?ws)"
  have h: "held ?ws = H1 @ a # H2" "held (?ws[i := Called]) = H1 @ H2"
    using held_update [OF i(1)] i(2) by (simp_all add: H1_def H2_def)
  have na: "a \<notin> set as" "a \<notin> set (H1 @ H2)" using inv h(1) by (auto simp: pool_inv_def)
  have p: "p = (ps_pool s)\<lparr>tp_store := ?st(a := None)\<rparr>" "calls = [run_event (the (?st a))]"
    using r by (simp_all add: worker_run_def run_event_def Let_def)
  have wf: "queue_wf p as" using inv chain_other [OF _ na(1)] by (simp add: p(1) pool_inv_def queue_wf_def)
  have ta: "tasks_at (tp_store p) as = tasks_at ?st as" "tasks_at (tp_store p) (H1 @ H2) = tasks_at ?st (H1 @ H2)"
    using na by (auto simp: p(1) intro!: tasks_at_cong)
  have act: "length (filter busy (?ws[i := Called])) = length (filter busy ?ws)"
    using i by (intro length_filter_update_same) (simp_all add: busy_def)
  have ended: "Ended \<notin> set ?ws \<Longrightarrow> Ended \<notin> set (?ws[i := Called])"
    using worker_set_update [OF i(1)] by simp
  have ms: "mset (map run_event (ps_started s)) = mset (ps_ran s @ calls) + mset (map run_event (tasks_at ?st (H1 @ H2)))"
    using inv h(1) by (simp add: pool_inv_def tasks_at_def p(2))
  have dom: "set (H1 @ H2) \<subseteq> dom (tp_store p)" using inv h(1) na by (auto simp: pool_inv_def p(1))
  have dis: "distinct (as @ H1 @ H2)" using inv h(1) by (auto simp: pool_inv_def)
  have oth: "tp_activeCount p = tp_activeCount (ps_pool s)" "tp_accepting p = tp_accepting (ps_pool s)"
    "tp_threadCount p = tp_threadCount (ps_pool s)" by (simp_all add: p(1))
  show ?thesis using inv wf ta act ended ms dom dis oth h(2) by (simp add: pool_inv_def) blast
qed

lemma finish_inv:
  assumes inv: "pool_inv s as" and i: "i < length (ps_workers s)" "ps_workers s ! i = Called"
    and f: "worker_finish (ps_pool s) = (wake, p)"
  shows "pool_inv (s\<lparr>ps_pool := p, ps_workers := (ps_workers s)[i := Waiting]\<rparr>) as"
proof -
  have p: "p = (ps_pool s)\<lparr>tp_activeCount := tp_activeCount (ps_pool s) - 1\<rparr>"
    using f by (simp add: worker_finish_def Let_def)
  have h: "held ((ps_workers s)[i := Waiting]) = held (ps_workers s)"
    using held_update [OF i(1)] i(2) by simp
  have act: "length (filter busy ((ps_workers s)[i := Waiting])) = length (filter busy (ps_workers s)) - 1"
    using i by (intro length_filter_update_off) (simp_all add: busy_def)
  have ended: "Ended \<notin> set (ps_workers s) \<Longrightarrow> Ended \<notin> set ((ps_workers s)[i := Waiting])"
    using worker_set_update [OF i(1)] by simp
  show ?thesis using inv p h act ended by (simp add: pool_inv_def queue_wf_def) blast
qed

lemma append_inv:
  assumes inv: "pool_inv s as" and a: "tp_store (ps_pool s) a = None" and t: "task_next t = None"
    and acc: "tp_accepting (ps_pool s)" and sp: "tp_queuedCount (ps_pool s) < THREAD_POOL_MAX_QUEUED_TASKS"
  shows "pool_inv (s\<lparr>ps_pool := pool_append (ps_pool s) a t, ps_accepted := ps_accepted s @ [t]\<rparr>) (as @ [a])"
proof -
  have wf: "queue_wf (ps_pool s) as" using inv by (simp add: pool_inv_def)
  have ah: "a \<notin> set (held (ps_workers s))" "a \<notin> set as"
    using inv a chain_dom by (auto simp: pool_inv_def queue_wf_def)
  note e = append_effect [OF wf a t]
  have dis: "set as \<inter> set (held (ps_workers s)) = {}" using inv by (auto simp: pool_inv_def)
  have th: "tasks_at (tp_store (pool_append (ps_pool s) a t)) (held (ps_workers s))
      = tasks_at (tp_store (ps_pool s)) (held (ps_workers s))"
    by (rule tasks_at_cong) (use e ah dis in blast)
  have dom: "set (held (ps_workers s)) \<subseteq> dom (tp_store (pool_append (ps_pool s) a t))"
  proof
    fix b assume b: "b \<in> set (held (ps_workers s))"
    then have "tp_store (pool_append (ps_pool s) a t) b = tp_store (ps_pool s) b" using e ah dis by blast
    then show "b \<in> dom (tp_store (pool_append (ps_pool s) a t))" using inv b by (auto simp: pool_inv_def)
  qed
  have len: "length as < THREAD_POOL_MAX_QUEUED_TASKS" using sp wf by (simp add: queue_wf_def)
  have tc: "task_core t = t" using t by (simp add: task_core_def)
  show ?thesis using inv e ah th dom len acc tc by (auto simp: pool_inv_def)
qed

lemma destroy_inv:
  assumes inv: "pool_inv s as" and acc: "tp_accepting (ps_pool s)"
    and d: "ThreadPool_destroy_cleanup (ps_pool s) = Some (calls, p)"
  shows "pool_inv (s\<lparr>ps_pool := p, ps_cancelled := tasks_at (tp_store (ps_pool s)) as,
            ps_cleaned := ps_cleaned s @ calls\<rparr>) []"
proof -
  let ?st = "tp_store (ps_pool s)"
  have ch: "chain ?st (tp_firstTask (ps_pool s)) as" "distinct as"
    using inv by (simp_all add: pool_inv_def queue_wf_def)
  have r: "calls = clean_events (tasks_at ?st as)"
    "p = (snd (ThreadPool_destroy_begin (ps_pool s)))\<lparr>tp_store := \<lambda>b. if b \<in> set as then None else ?st b\<rparr>"
    using d cleanup_effect [OF ch]
    by (auto simp: ThreadPool_destroy_cleanup_def ThreadPool_destroy_begin_def clean_events_def)
  have dis: "set as \<inter> set (held (ps_workers s)) = {}" using inv by (auto simp: pool_inv_def)
  have th: "tasks_at (tp_store p) (held (ps_workers s)) = tasks_at ?st (held (ps_workers s))"
    by (rule tasks_at_cong) (use dis r(2) in auto)
  have dom: "set (held (ps_workers s)) \<subseteq> dom (tp_store p)"
    using inv dis by (auto simp: pool_inv_def r(2))
  have can: "ps_cancelled s = []" "ps_cleaned s = []" using inv acc by (auto simp: pool_inv_def clean_events_def)
  have fld: "tp_firstTask p = None" "tp_lastTask p = None" "tp_queuedCount p = 0" "\<not> tp_accepting p"
    "tp_activeCount p = tp_activeCount (ps_pool s)" "tp_threadCount p = tp_threadCount (ps_pool s)"
    by (simp_all add: r(2) ThreadPool_destroy_begin_def)
  show ?thesis using inv th dom can fld r(1)
    by (auto simp: pool_inv_def queue_wf_def)
qed

lemma worker_step_inv: "worker_step s s' \<Longrightarrow> pool_inv s as \<Longrightarrow> \<exists>as'. pool_inv s' as'"
proof (induction rule: worker_step.induct)
  case (take i s a p)
  then show ?case using take_inv by blast
next
  case (ends i s p)
  then show ?case using ends_inv by blast
next
  case (run i s a calls p)
  then show ?case using run_inv by blast
next
  case (finish i s wake p)
  then show ?case using finish_inv by blast
qed

lemma pool_inv_same: "pool_inv s as \<Longrightarrow> pool_inv (s\<lparr>ps_pool := ps_pool s, ps_accepted := ps_accepted s @ []\<rparr>) as"
  by simp

lemma pool_step_inv:
  assumes "pool_step s s'" "pool_inv s as"
  shows "\<exists>as'. pool_inv s' as'"
  using assms(1)
proof cases
  case worker
  then show ?thesis using worker_step_inv assms(2) by blast
next
  case (submit callocd f param cleanup ok calls p)
  show ?thesis
  proof (cases "callocd \<noteq> None \<and> tp_accepting (ps_pool s) \<and> tp_queuedCount (ps_pool s) < THREAD_POOL_MAX_QUEUED_TASKS")
    case True
    then obtain a where a: "callocd = Some a" by blast
    let ?t = "\<lparr>task_func = f, task_cleanup = cleanup, task_param = param, task_next = None\<rparr>"
    have "ok" "p = pool_append (ps_pool s) a ?t"
      using submit(3) True a by (simp_all add: ThreadPool_runWithCleanup_def)
    moreover have "tp_store (ps_pool s) a = None" using submit(2) a by (simp add: fresh_def)
    ultimately show ?thesis using append_inv [OF assms(2), of a ?t] True submit(1) by auto
  next
    case False
    then have "\<not> ok" "p = ps_pool s"
      using submit(3) by (auto simp: ThreadPool_runWithCleanup_def not_less split: option.splits if_splits)
    then show ?thesis using assms(2) submit(1) pool_inv_same by auto
  qed
next
  case (submit_plain callocd f param ok calls p)
  show ?thesis
  proof (cases "callocd \<noteq> None \<and> tp_accepting (ps_pool s) \<and> tp_queuedCount (ps_pool s) < THREAD_POOL_MAX_QUEUED_TASKS")
    case True
    then obtain a where a: "callocd = Some a" by blast
    let ?t = "\<lparr>task_func = f, task_cleanup = None, task_param = param, task_next = None\<rparr>"
    have "ok" "calls = []" "p = pool_append (ps_pool s) a ?t"
      using submit_plain(3) True a by (simp_all add: ThreadPool_run_def)
    moreover have "tp_store (ps_pool s) a = None" using submit_plain(2) a by (simp add: fresh_def)
    ultimately show ?thesis using append_inv [OF assms(2), of a ?t] True submit_plain(1) by auto
  next
    case False
    then have "\<not> (ok \<and> calls = [])" "p = ps_pool s"
      using submit_plain(3) by (auto simp: ThreadPool_run_def not_less split: option.splits if_splits)
    then show ?thesis using assms(2) submit_plain(1) pool_inv_same by auto
  qed
next
  case (destroy as2 calls p)
  have "as2 = as"
  proof -
    have "chain st q xs \<Longrightarrow> chain st q ys \<Longrightarrow> xs = ys" for st q xs ys
    proof (induction xs arbitrary: q ys)
      case Nil
      then show ?case by (cases ys) auto
    next
      case (Cons x xs)
      then show ?case by (cases ys) auto
    qed
    then show ?thesis using destroy(3) assms(2) by (auto simp: pool_inv_def queue_wf_def)
  qed
  then show ?thesis using destroy destroy_inv [OF assms(2)] by blast
qed

lemma pool_steps_inv: "pool_step\<^sup>*\<^sup>* s s' \<Longrightarrow> pool_inv s as \<Longrightarrow> \<exists>as'. pool_inv s' as'"
proof (induction rule: rtranclp_induct)
  case (step y z)
  then show ?case using pool_step_inv by blast
qed blast

lemma init_inv:
  assumes "ThreadPool_init alloc_ok failAfter pc n = (Some p, j)"
  shows "pool_inv (pool_init p) []" and "tp_threadCount p = nat n" and "0 < n"
proof -
  have all: "create_workers failAfter pc m c = (c', True) \<Longrightarrow> c' = c + m" for m c c'
    by (induction m arbitrary: c) (fastforce split: if_splits)+
  have r: "0 < n" "\<exists>c. create_workers failAfter pc (nat n) 0 = (c, True) \<and> tp_threadCount p = c \<and>
      tp_store p = Map.empty \<and> tp_activeCount p = 0 \<and> tp_queuedCount p = 0 \<and> tp_accepting p \<and>
      tp_firstTask p = None \<and> tp_lastTask p = None"
    using assms by (auto simp: ThreadPool_init_def split: if_splits prod.splits bool.splits)
  have h: "held (replicate m Waiting) = []" "filter busy (replicate m Waiting) = []" for m
    by (induction m) (simp_all add: busy_def)
  show "tp_threadCount p = nat n" "0 < n" using r all by fastforce+
  show "pool_inv (pool_init p) []"
    using r(2) by (auto simp: pool_inv_def pool_init_def queue_wf_def h clean_events_def)
qed

section \<open>Guarantees\<close>

text \<open>C20: In every reachable state of a pool: the accepted tasks are, in the order of submission, those
  started, those queued and those cancelled; at most 256 are queued; the active count is the number of
  busy workers; every started task has been called exactly once unless a worker still holds it;
  and exactly the cancelled tasks have been cleaned up, each once, by their own cleanup function.\<close>

theorem pool_accounts_for_every_task:
  assumes "ThreadPool_init alloc_ok failAfter pc n = (Some p, j)" and "pool_step\<^sup>*\<^sup>* (pool_init p) s"
  shows "\<exists>as. chain (tp_store (ps_pool s)) (tp_firstTask (ps_pool s)) as \<and> length as = tp_queuedCount (ps_pool s) \<and>
    length as \<le> 256 \<and>
    ps_accepted s = ps_started s @ tasks_at (tp_store (ps_pool s)) as @ ps_cancelled s \<and>
    tp_activeCount (ps_pool s) = length (filter busy (ps_workers s)) \<and>
    mset (map run_event (ps_started s)) = mset (ps_ran s) +
      mset (map run_event (tasks_at (tp_store (ps_pool s)) (held (ps_workers s)))) \<and>
    ps_cleaned s = clean_events (ps_cancelled s) \<and> (as = [] \<or> ps_cancelled s = [])"
proof -
  obtain as where "pool_inv s as" using pool_steps_inv [OF assms(2) init_inv(1) [OF assms(1)]] by blast
  then show ?thesis
    by (intro exI [of _ as]) (auto simp: pool_inv_def queue_wf_def THREAD_POOL_MAX_QUEUED_TASKS_def)
qed

definition one_worker :: ThreadPool where
  "one_worker = \<lparr>tp_store = Map.empty, tp_numThreads = 1, tp_threadCount = 1, tp_activeCount = 0,
     tp_queuedCount = 0, tp_accepting = True, tp_cancellationRequested = False, tp_firstTask = None,
     tp_lastTask = None\<rparr>"

lemma one_worker_init: "ThreadPool_init True (- 1) (\<lambda>_. 0) 1 = (Some one_worker, 0)"
  by (simp add: ThreadPool_init_def THREAD_POOL_MAX_THREADS_def ThreadPool_createWorker_def one_worker_def)

text \<open>One worker, one task submitted with parameter 5 and cleanup 9 at address 1.\<close>

definition one_queued :: pool_sys where
  "one_queued = (pool_init one_worker)
     \<lparr>ps_pool := pool_append one_worker 1
        \<lparr>task_func = 3, task_cleanup = Some 9, task_param = 5, task_next = None\<rparr>,
      ps_accepted := [\<lparr>task_func = 3, task_cleanup = Some 9, task_param = 5, task_next = None\<rparr>]\<rparr>"

lemma one_queued_reached: "pool_step\<^sup>*\<^sup>* (pool_init one_worker) one_queued"
proof -
  have "ThreadPool_runWithCleanup (Some one_worker) (Some 3) 5 (Some 9) (Some 1) =
      (True, [], Some (ps_pool one_queued))"
    by (simp add: ThreadPool_runWithCleanup_def one_worker_def one_queued_def THREAD_POOL_MAX_QUEUED_TASKS_def)
  then have "pool_step (pool_init one_worker) one_queued"
    using pool_step.submit [of "pool_init one_worker" "Some 1" 3 5 "Some 9" True "[]" "ps_pool one_queued"]
    by (simp add: fresh_def pool_init_def one_queued_def) (simp add: one_worker_def)
  then show ?thesis by blast
qed

theorem pool_accounts_for_every_task_witness:
  "\<exists>as. chain (tp_store (ps_pool one_queued)) (tp_firstTask (ps_pool one_queued)) as \<and> length as = 1"
proof -
  have "tp_queuedCount (ps_pool one_queued) = 1"
    by (simp add: one_queued_def pool_append_def one_worker_def Let_def)
  then show ?thesis
    using pool_accounts_for_every_task [OF one_worker_init one_queued_reached] by fastforce
qed

text \<open>Progress after the start of the destruction.\<close>

fun rank :: "worker \<Rightarrow> nat" where
  "rank Ended = 0"
| "rank Waiting = 1"
| "rank Called = 2"
| "rank (Holding a) = 3"

lemma worker_step_rank:
  assumes "worker_step s s'" "pool_inv s as" "\<not> tp_accepting (ps_pool s)"
  shows "sum_list (map rank (ps_workers s')) < sum_list (map rank (ps_workers s)) \<and> \<not> tp_accepting (ps_pool s')"
proof -
  have upd: "sum_list (map rank (ws[i := w])) < sum_list (map rank ws)"
    if "i < length ws" "rank w < rank (ws ! i)" for i ws w
    using that
  proof (induction ws arbitrary: i)
    case (Cons x ws)
    then show ?case by (cases i) auto
  qed simp
  have as: "as = []" using assms(2,3) by (auto simp: pool_inv_def)
  have q: "queue_wf (ps_pool s) []" using assms(2) as by (simp add: pool_inv_def)
  show ?thesis
    using assms(1)
  proof cases
    case (take i a p)
    then show ?thesis using take_empty [OF q] by (simp add: worker_take_def)
  next
    case (ends i p)
    then show ?thesis using take_empty [OF q] assms(3) upd by (simp add: worker_take_def)
  next
    case (run i a calls p)
    then show ?thesis using assms(3) upd by (auto simp: worker_run_def Let_def)
  next
    case (finish i wake p)
    then show ?thesis using assms(3) upd by (auto simp: worker_finish_def Let_def)
  qed
qed

lemma worker_can_step:
  assumes "pool_inv s as" "\<not> tp_accepting (ps_pool s)" "\<exists>w\<in>set (ps_workers s). w \<noteq> Ended"
  shows "\<exists>s'. worker_step s s'"
proof -
  obtain i where i: "i < length (ps_workers s)" "ps_workers s ! i \<noteq> Ended"
    using assms(3) by (auto simp: in_set_conv_nth)
  show ?thesis
  proof (cases "ps_workers s ! i")
    case Waiting
    have "worker_may_take (ps_pool s)" using assms(2) by (simp add: worker_may_take_def)
    then show ?thesis using i Waiting worker_step.take worker_step.ends
      by (cases "worker_take (ps_pool s)"; cases "fst (worker_take (ps_pool s))") (fastforce simp del: split_paired_Ex)+
  next
    case (Holding a)
    then show ?thesis using i worker_step.run by (metis surj_pair)
  next
    case Called
    then show ?thesis using i worker_step.finish by (metis surj_pair)
  next
    case Ended
    then show ?thesis using i by simp
  qed
qed

text \<open>C21: Once the pool is being destroyed, its workers end: every run of worker steps has at most three
  steps per worker and can be completed to a state in which all workers have ended (so the joins
  return), and there every started task has been called exactly once and every other accepted
  task was cancelled and cleaned up.\<close>

theorem destroyed_pool_terminates:
  assumes "ThreadPool_init alloc_ok failAfter pc n = (Some p, j)" and "pool_step\<^sup>*\<^sup>* (pool_init p) s"
    and "\<not> tp_accepting (ps_pool s)"
  shows "((worker_step ^^ m) s s1 \<longrightarrow> m \<le> 3 * length (ps_workers s)) \<and>
    (\<exists>s'. worker_step\<^sup>*\<^sup>* s s' \<and> set (ps_workers s') \<subseteq> {Ended} \<and>
       mset (map run_event (ps_started s')) = mset (ps_ran s') \<and>
       ps_accepted s' = ps_started s' @ ps_cancelled s' \<and> ps_cleaned s' = clean_events (ps_cancelled s'))"
proof -
  obtain as where inv: "pool_inv s as" using pool_steps_inv [OF assms(2) init_inv(1) [OF assms(1)]] by blast
  have bound: "(worker_step ^^ m) s s1 \<longrightarrow> sum_list (map rank (ps_workers s1)) + m \<le> sum_list (map rank (ps_workers s)) \<and>
      \<not> tp_accepting (ps_pool s1) \<and> (\<exists>as'. pool_inv s1 as')" for m s1
  proof (induction m arbitrary: s1)
    case 0
    then show ?case using inv assms(3) by auto
  next
    case (Suc m)
    show ?case
    proof
      assume "(worker_step ^^ Suc m) s s1"
      then obtain s2 where s2: "(worker_step ^^ m) s s2" "worker_step s2 s1" by auto
      with Suc.IH obtain as' where i2: "pool_inv s2 as'" "\<not> tp_accepting (ps_pool s2)"
        "sum_list (map rank (ps_workers s2)) + m \<le> sum_list (map rank (ps_workers s))" by blast
      show "sum_list (map rank (ps_workers s1)) + Suc m \<le> sum_list (map rank (ps_workers s)) \<and>
          \<not> tp_accepting (ps_pool s1) \<and> (\<exists>as'. pool_inv s1 as')"
        using worker_step_rank [OF s2(2) i2(1,2)] worker_step_inv [OF s2(2) i2(1)] i2(3) by auto
    qed
  qed
  have r3: "sum_list (map rank ws) \<le> 3 * length ws" for ws
  proof (induction ws)
    case (Cons w ws)
    then show ?case by (cases w) auto
  qed simp
  have ex: "\<exists>s'. worker_step\<^sup>*\<^sup>* t s' \<and> set (ps_workers s') \<subseteq> {Ended} \<and> \<not> tp_accepting (ps_pool s') \<and> (\<exists>bs'. pool_inv s' bs')"
    if "pool_inv t bs" "\<not> tp_accepting (ps_pool t)" for t bs
    using that
  proof (induction "sum_list (map rank (ps_workers t))" arbitrary: t bs rule: less_induct)
    case less
    show ?case
    proof (cases "\<exists>w\<in>set (ps_workers t). w \<noteq> Ended")
      case True
      then obtain t' where t': "worker_step t t'" using worker_can_step less.prems by blast
      note rk = worker_step_rank [OF t' less.prems]
      obtain bs' where "pool_inv t' bs'" using worker_step_inv [OF t' less.prems(1)] by blast
      from less.hyps [OF _ this] rk t' show ?thesis by (meson converse_rtranclp_into_rtranclp)
    next
      case False
      then show ?thesis using less.prems by (intro exI [of _ t]) auto
    qed
  qed
  obtain s' as' where s': "worker_step\<^sup>*\<^sup>* s s'" "set (ps_workers s') \<subseteq> {Ended}" "\<not> tp_accepting (ps_pool s')"
    "pool_inv s' as'" using ex [OF inv assms(3)] by blast
  have "held ws = []" if "set ws \<subseteq> {Ended}" for ws
    using that by (induction ws) auto
  then have h: "held (ps_workers s') = []" using s'(2) by blast
  have "as' = []" using s'(3,4) by (auto simp: pool_inv_def)
  then have "mset (map run_event (ps_started s')) = mset (ps_ran s') \<and>
       ps_accepted s' = ps_started s' @ ps_cancelled s' \<and> ps_cleaned s' = clean_events (ps_cancelled s')"
    using s'(4) h by (simp add: pool_inv_def)
  moreover have "(worker_step ^^ m) s s1 \<longrightarrow> m \<le> 3 * length (ps_workers s)"
    using bound [of m s1] r3 [of "ps_workers s"] by linarith
  ultimately show ?thesis using s' by blast
qed

theorem destroyed_pool_terminates_witness:
  "\<exists>s s'. pool_step\<^sup>*\<^sup>* (pool_init one_worker) s \<and> worker_step\<^sup>*\<^sup>* s s' \<and> set (ps_workers s') \<subseteq> {Ended} \<and>
     ps_cleaned s = [Call 9 5]"
proof -
  let ?t = "\<lparr>task_func = 3, task_cleanup = Some 9, task_param = 5, task_next = None\<rparr>"
  have q: "ps_pool one_queued = one_worker\<lparr>tp_store := [1 \<mapsto> ?t], tp_firstTask := Some 1, tp_lastTask := Some 1, tp_queuedCount := 1\<rparr>"
    by (simp add: one_queued_def pool_append_def one_worker_def Let_def)
  have ch: "chain (tp_store (ps_pool one_queued)) (tp_firstTask (ps_pool one_queued)) [1]" by (simp add: q)
  have wf: "queue_wf (ps_pool one_queued) [1]" using ch by (simp add: queue_wf_def q)
  obtain calls p where d: "ThreadPool_destroy_cleanup (ps_pool one_queued) = Some (calls, p)"
    and pd: "calls = [Call 9 5]" "\<not> tp_accepting p"
    using cleanup_effect [OF ch]
    by (auto simp: ThreadPool_destroy_cleanup_def ThreadPool_destroy_begin_def q tasks_at_def task_core_def cleanup_call_def)
  have acc: "tp_accepting (ps_pool one_queued)" by (simp add: q one_worker_def)
  let ?s = "one_queued\<lparr>ps_pool := p, ps_cancelled := tasks_at (tp_store (ps_pool one_queued)) [1],
      ps_cleaned := ps_cleaned one_queued @ calls\<rparr>"
  have st: "pool_step\<^sup>*\<^sup>* (pool_init one_worker) ?s"
    using one_queued_reached pool_step.destroy [OF acc wf d] by (rule rtranclp.rtrancl_into_rtrancl)
  have "\<not> tp_accepting (ps_pool ?s)" "ps_cleaned ?s = [Call 9 5]"
    using pd by (simp_all add: one_queued_def pool_init_def)
  with destroyed_pool_terminates [OF one_worker_init st] st show ?thesis by blast
qed

end
