(* ===== verification/Arrays.thy ===== *)
theory Arrays
  imports Prelude "HOL-Library.Monad_Syntax"
begin

text \<open>
  The growable containers of \<^verbatim>\<open>cpp/src/arrays.c\<close> and \<^verbatim>\<open>cpp/include/arrays.h\<close>.

  A heap block is the list of its cells, \<^const>\<open>Nil\<close> for NULL. Every access goes through the checked
  operations below: a load, store or copy outside the block, and a size that leaves the range of \<^verbatim>\<open>int\<close>, is
  \<^const>\<open>None\<close>, undefined behaviour of the C program. Cells that \<^verbatim>\<open>realloc\<close> leaves indeterminate hold the
  zero value. \<^verbatim>\<open>malloc\<close>, \<^verbatim>\<open>calloc\<close> and \<^verbatim>\<open>realloc\<close> succeed: the code does not test them.
\<close>

section \<open>Blocks\<close>

definition INT_LIMIT :: nat where
  "INT_LIMIT = 2147483647"

definition load :: "'a list \<Rightarrow> nat \<Rightarrow> 'a option" where
  "load b i = (if i < length b then Some (b ! i) else None)"

definition store :: "'a list \<Rightarrow> nat \<Rightarrow> 'a \<Rightarrow> 'a list option" where
  "store b i v = (if i < length b then Some (b[i := v]) else None)"

definition blit :: "'a list \<Rightarrow> nat \<Rightarrow> 'a list \<Rightarrow> 'a list option" where
  "blit b off src = (if off + length src \<le> length b
     then Some (take off b @ src @ drop (off + length src) b) else None)"

definition slice :: "'a list \<Rightarrow> nat \<Rightarrow> nat \<Rightarrow> 'a list option" where
  "slice b off n = (if off + n \<le> length b then Some (take n (drop off b)) else None)"

definition memmove :: "'a list \<Rightarrow> nat \<Rightarrow> nat \<Rightarrow> nat \<Rightarrow> 'a list option" where
  "memmove b dst src n = do { cells \<leftarrow> slice b src n; blit b dst cells }"

definition realloc :: "'a \<Rightarrow> 'a list \<Rightarrow> nat \<Rightarrow> 'a list" where
  "realloc zero b n = take n b @ replicate (n - length b) zero"

definition DEFAULT_ARRAY_CAPACITY :: nat where
  "DEFAULT_ARRAY_CAPACITY = 4"

text \<open>\<open>ENSURE_ARRAY_CAPACITY\<close> on cells of \<open>cell\<close> capacity units each (one, except for \<open>IntArray\<close>, which
  counts bytes and passes element size 1); \<open>wide\<close> is \<^verbatim>\<open>elementSize > 1\<close>. The result is the new capacity
  and block; the \<^verbatim>\<open>memset\<close> clears the cells from the old capacity on.\<close>

definition ENSURE_ARRAY_CAPACITY ::
  "nat \<Rightarrow> bool \<Rightarrow> 'a \<Rightarrow> nat \<Rightarrow> nat \<Rightarrow> 'a list \<Rightarrow> (nat \<times> 'a list) option" where
  "ENSURE_ARRAY_CAPACITY cell wide zero target capacity b =
     (if INT_LIMIT < target then None
      else if capacity < target then
        let c0 = (if wide then (if capacity < DEFAULT_ARRAY_CAPACITY then DEFAULT_ARRAY_CAPACITY
                                else capacity + capacity div 2) else 0);
            c = (if c0 < target then target else c0);
            b' = realloc zero b (c div cell)
        in if INT_LIMIT < c then None
           else Some (c, take (capacity div cell) b' @ replicate (length b' - capacity div cell) zero)
      else Some (capacity, b))"

section \<open>ArrayBuffer\<close>

record ArrayBuffer =
  ab_size :: nat
  ab_position :: nat
  ab_capacity :: nat
  ab_buffer :: "u8 list"

text \<open>The bytes of a value of \<open>n\<close> bytes in memory order (little-endian), and back.\<close>

definition le_bytes :: "nat \<Rightarrow> 'a::len word \<Rightarrow> u8 list" where
  "le_bytes n w = map (\<lambda>i. ucast (drop_bit (8 * i) w)) [0..<n]"

fun of_le_bytes :: "u8 list \<Rightarrow> nat" where
  "of_le_bytes [] = 0"
| "of_le_bytes (b # bs) = unat b + 256 * of_le_bytes bs"

definition ArrayBuffer_append :: "ArrayBuffer \<Rightarrow> u8 list \<Rightarrow> ArrayBuffer option" where
  "ArrayBuffer_append a bytes = do {
     (c, b) \<leftarrow> ENSURE_ARRAY_CAPACITY 1 False 0 (ab_size a + length bytes) (ab_capacity a) (ab_buffer a);
     b' \<leftarrow> blit b (ab_size a) bytes;
     Some (a\<lparr>ab_capacity := c, ab_buffer := b', ab_size := ab_size a + length bytes\<rparr>) }"

definition ArrayBuffer_put :: "ArrayBuffer \<Rightarrow> u8 \<Rightarrow> ArrayBuffer option" where
  "ArrayBuffer_put a v = do {
     (c, b) \<leftarrow> ENSURE_ARRAY_CAPACITY 1 False 0 (ab_size a + 1) (ab_capacity a) (ab_buffer a);
     b' \<leftarrow> store b (ab_size a) v;
     Some (a\<lparr>ab_capacity := c, ab_buffer := b', ab_size := ab_size a + 1\<rparr>) }"

definition ArrayBuffer_putShort :: "ArrayBuffer \<Rightarrow> u16 \<Rightarrow> ArrayBuffer option" where
  "ArrayBuffer_putShort a v = ArrayBuffer_append a (le_bytes 2 v)"

definition ArrayBuffer_putInt :: "ArrayBuffer \<Rightarrow> u32 \<Rightarrow> ArrayBuffer option" where
  "ArrayBuffer_putInt a v = ArrayBuffer_append a (le_bytes 4 v)"

definition ArrayBuffer_putLong :: "ArrayBuffer \<Rightarrow> u64 \<Rightarrow> ArrayBuffer option" where
  "ArrayBuffer_putLong a v = ArrayBuffer_append a (le_bytes 8 v)"

text \<open>Floating-point values are their bit patterns.\<close>

definition ArrayBuffer_putFloat :: "ArrayBuffer \<Rightarrow> u32 \<Rightarrow> ArrayBuffer option" where
  "ArrayBuffer_putFloat a v = ArrayBuffer_append a (le_bytes 4 v)"

definition ArrayBuffer_putFloat2 :: "ArrayBuffer \<Rightarrow> u32 \<Rightarrow> u32 \<Rightarrow> ArrayBuffer option" where
  "ArrayBuffer_putFloat2 a x y = ArrayBuffer_append a (le_bytes 4 x @ le_bytes 4 y)"

definition ArrayBuffer_putFloat3 :: "ArrayBuffer \<Rightarrow> u32 \<Rightarrow> u32 \<Rightarrow> u32 \<Rightarrow> ArrayBuffer option" where
  "ArrayBuffer_putFloat3 a x y z = ArrayBuffer_append a (le_bytes 4 x @ le_bytes 4 y @ le_bytes 4 z)"

definition ArrayBuffer_putFloat4 :: "ArrayBuffer \<Rightarrow> u32 \<Rightarrow> u32 \<Rightarrow> u32 \<Rightarrow> u32 \<Rightarrow> ArrayBuffer option" where
  "ArrayBuffer_putFloat4 a x y z w =
     ArrayBuffer_append a (le_bytes 4 x @ le_bytes 4 y @ le_bytes 4 z @ le_bytes 4 w)"

definition ArrayBuffer_putDouble :: "ArrayBuffer \<Rightarrow> u64 \<Rightarrow> ArrayBuffer option" where
  "ArrayBuffer_putDouble a v = ArrayBuffer_append a (le_bytes 8 v)"

text \<open>A NULL source writes zeros.\<close>

definition ArrayBuffer_putBytes :: "ArrayBuffer \<Rightarrow> u8 list ptr \<Rightarrow> nat \<Rightarrow> ArrayBuffer option" where
  "ArrayBuffer_putBytes a bytes n =
     (case bytes of
        None \<Rightarrow> ArrayBuffer_append a (replicate n 0)
      | Some bs \<Rightarrow> do { src \<leftarrow> slice bs 0 n; ArrayBuffer_append a src })"

text \<open>The read macro: the bytes at the position, which moves on.\<close>

definition ArrayBuffer_take :: "ArrayBuffer \<Rightarrow> nat \<Rightarrow> (u8 list \<times> ArrayBuffer) option" where
  "ArrayBuffer_take a n = do {
     bytes \<leftarrow> slice (ab_buffer a) (ab_position a) n;
     Some (bytes, a\<lparr>ab_position := ab_position a + n\<rparr>) }"

definition ArrayBuffer_get :: "ArrayBuffer \<Rightarrow> (u8 \<times> ArrayBuffer) option" where
  "ArrayBuffer_get a = do {
     v \<leftarrow> load (ab_buffer a) (ab_position a);
     Some (v, a\<lparr>ab_position := ab_position a + 1\<rparr>) }"

definition ArrayBuffer_getShort :: "ArrayBuffer \<Rightarrow> (u16 \<times> ArrayBuffer) option" where
  "ArrayBuffer_getShort a = do { (bs, a') \<leftarrow> ArrayBuffer_take a 2; Some (of_nat (of_le_bytes bs), a') }"

definition ArrayBuffer_getInt :: "ArrayBuffer \<Rightarrow> (u32 \<times> ArrayBuffer) option" where
  "ArrayBuffer_getInt a = do { (bs, a') \<leftarrow> ArrayBuffer_take a 4; Some (of_nat (of_le_bytes bs), a') }"

definition ArrayBuffer_getLong :: "ArrayBuffer \<Rightarrow> (u64 \<times> ArrayBuffer) option" where
  "ArrayBuffer_getLong a = do { (bs, a') \<leftarrow> ArrayBuffer_take a 8; Some (of_nat (of_le_bytes bs), a') }"

definition ArrayBuffer_getFloat :: "ArrayBuffer \<Rightarrow> (u32 \<times> ArrayBuffer) option" where
  "ArrayBuffer_getFloat a = do { (bs, a') \<leftarrow> ArrayBuffer_take a 4; Some (of_nat (of_le_bytes bs), a') }"

definition ArrayBuffer_getDouble :: "ArrayBuffer \<Rightarrow> (u64 \<times> ArrayBuffer) option" where
  "ArrayBuffer_getDouble a = do { (bs, a') \<leftarrow> ArrayBuffer_take a 8; Some (of_nat (of_le_bytes bs), a') }"

text \<open>The pointer result of \<open>getBytes\<close> is an offset into the buffer.\<close>

definition ArrayBuffer_getBytes :: "ArrayBuffer \<Rightarrow> nat \<Rightarrow> nat \<times> ArrayBuffer" where
  "ArrayBuffer_getBytes a n = (ab_position a, a\<lparr>ab_position := ab_position a + n\<rparr>)"

definition ArrayBuffer_skip :: "ArrayBuffer \<Rightarrow> nat \<Rightarrow> ArrayBuffer" where
  "ArrayBuffer_skip a n = a\<lparr>ab_position := ab_position a + n\<rparr>"

definition ArrayBuffer_available :: "ArrayBuffer \<Rightarrow> int" where
  "ArrayBuffer_available a = int (ab_size a) - int (ab_position a)"

definition ArrayBuffer_rewind :: "ArrayBuffer \<Rightarrow> ArrayBuffer" where
  "ArrayBuffer_rewind a = a\<lparr>ab_position := 0, ab_size := 0\<rparr>"

definition ArrayBuffer_free :: "ArrayBuffer \<Rightarrow> ArrayBuffer" where
  "ArrayBuffer_free a = a\<lparr>ab_buffer := [], ab_capacity := 0, ab_position := 0, ab_size := 0\<rparr>"

definition ArrayBuffer_copy :: "ArrayBuffer \<Rightarrow> ArrayBuffer \<Rightarrow> ArrayBuffer option" where
  "ArrayBuffer_copy src dst = do {
     bs \<leftarrow> slice (ab_buffer src) 0 (ab_size src);
     Some ((ArrayBuffer_free dst)\<lparr>ab_buffer := bs, ab_capacity := ab_size src, ab_size := ab_size src\<rparr>) }"

section \<open>IntArray\<close>

text \<open>The capacity counts bytes; the block counts cells of four bytes.\<close>

record IntArray =
  ia_size :: nat
  ia_capacity :: nat
  ia_values :: "u32 list"

definition IntArray_ensure :: "IntArray \<Rightarrow> nat \<Rightarrow> IntArray option" where
  "IntArray_ensure a n = do {
     (c, b) \<leftarrow> ENSURE_ARRAY_CAPACITY 4 False 0 (n * 4) (ia_capacity a) (ia_values a);
     Some (a\<lparr>ia_capacity := c, ia_values := b\<rparr>) }"

definition IntArray_add :: "IntArray \<Rightarrow> u32 \<Rightarrow> IntArray option" where
  "IntArray_add a v = do {
     a' \<leftarrow> IntArray_ensure a (ia_size a + 1);
     b \<leftarrow> store (ia_values a') (ia_size a') v;
     Some (a'\<lparr>ia_values := b, ia_size := ia_size a' + 1\<rparr>) }"

definition IntArray_addAt :: "IntArray \<Rightarrow> int \<Rightarrow> u32 \<Rightarrow> IntArray option" where
  "IntArray_addAt a index v =
     (if index < 0 \<or> int (ia_size a) \<le> index then IntArray_add a v
      else do {
        a' \<leftarrow> IntArray_ensure a (ia_size a + 1);
        b \<leftarrow> memmove (ia_values a') (nat index + 1) (nat index) (ia_size a' - nat index);
        b' \<leftarrow> store b (nat index) v;
        Some (a'\<lparr>ia_values := b', ia_size := ia_size a' + 1\<rparr>) })"

fun store_all :: "u32 list \<Rightarrow> nat \<Rightarrow> u32 list \<Rightarrow> (nat \<times> u32 list) option" where
  "store_all b n [] = Some (n, b)"
| "store_all b n (v # vs) = do { b' \<leftarrow> store b n v; store_all b' (n + 1) vs }"

definition IntArray_addAll :: "IntArray \<Rightarrow> u32 list \<Rightarrow> IntArray option" where
  "IntArray_addAll a vs = do {
     a' \<leftarrow> IntArray_ensure a (ia_size a + length vs);
     (n, b) \<leftarrow> store_all (ia_values a') (ia_size a') vs;
     Some (a'\<lparr>ia_values := b, ia_size := n\<rparr>) }"

definition IntArray_clear :: "IntArray \<Rightarrow> IntArray" where
  "IntArray_clear a = (if ia_values a \<noteq> [] then a\<lparr>ia_values := [], ia_size := 0, ia_capacity := 0\<rparr> else a)"

text \<open>\<open>memdel\<close> of \<^verbatim>\<open>string_utils.h\<close> on cells: the shortened copy, unless nothing follows the deleted range;
  then the inner \<^const>\<open>None\<close>, NULL.\<close>

definition memdel :: "'a list \<Rightarrow> nat \<Rightarrow> nat \<Rightarrow> nat \<Rightarrow> 'a list option option" where
  "memdel src n offset delSize =
     (if int n - int offset - int delSize \<le> 0 then Some None
      else do {
        front \<leftarrow> slice src 0 offset;
        after \<leftarrow> slice src (offset + delSize) (n - offset - delSize);
        Some (Some (front @ after)) })"

definition IntArray_remove :: "IntArray \<Rightarrow> nat \<Rightarrow> nat \<Rightarrow> IntArray option" where
  "IntArray_remove a offset cnt = do {
     r \<leftarrow> memdel (ia_values a) (ia_size a) offset cnt;
     (case r of
        Some newValues \<Rightarrow> Some (a\<lparr>ia_size := ia_size a - cnt, ia_values := newValues\<rparr>)
      | None \<Rightarrow> Some (if ia_size a \<le> 1 then IntArray_clear a else a)) }"

definition IntArray_removeAt :: "IntArray \<Rightarrow> int \<Rightarrow> (u32 \<times> IntArray) option" where
  "IntArray_removeAt a index =
     (if index < 0 \<or> int (ia_size a) \<le> index then Some (- 1, a)
      else do {
        old \<leftarrow> load (ia_values a) (nat index);
        a' \<leftarrow> IntArray_remove a (nat index) 1;
        Some (old, a') })"

definition intCompare :: "u32 \<Rightarrow> u32 \<Rightarrow> u32" where
  "intCompare a b = a - b"

text \<open>The comparison \<^verbatim>\<open>*a - *b\<close> is an \<^verbatim>\<open>int\<close> subtraction: when it can overflow, or the block is too short, the
  call of \<^verbatim>\<open>qsort\<close> is undefined.\<close>

definition IntArray_sort :: "IntArray \<Rightarrow> IntArray option" where
  "IntArray_sort a = do {
     cells \<leftarrow> slice (ia_values a) 0 (ia_size a);
     (if list_all (\<lambda>x. list_all (\<lambda>y. sint (intCompare x y) = sint x - sint y) cells) cells
      then Some (a\<lparr>ia_values := sort_key sint cells @ drop (ia_size a) (ia_values a)\<rparr>) else None) }"

definition find_first :: "('a \<Rightarrow> bool) \<Rightarrow> 'a list \<Rightarrow> int" where
  "find_first P xs = (case List.find (\<lambda>i. P (xs ! i)) [0..<length xs] of None \<Rightarrow> - 1 | Some i \<Rightarrow> int i)"

definition IntArray_indexOf :: "IntArray \<Rightarrow> u32 \<Rightarrow> int option" where
  "IntArray_indexOf a v = do { cells \<leftarrow> slice (ia_values a) 0 (ia_size a); Some (find_first (\<lambda>x. x = v) cells) }"

end
