(* ===== verification/Containers.thy ===== *)
theory Containers
  imports Arrays
begin

text \<open>
  The pointer list, the sorted maps and the deque of \<^verbatim>\<open>cpp/src/arrays.c\<close>. Element and value pointers are
  numbers, 0 is NULL. Indices and keys are \<^verbatim>\<open>int\<close>.
\<close>

section \<open>ArrayList\<close>

record ArrayList =
  al_size :: nat
  al_capacity :: nat
  al_elements :: "nat list"

definition ArrayList_ensure :: "ArrayList \<Rightarrow> nat \<Rightarrow> ArrayList option" where
  "ArrayList_ensure a n = do {
     (c, b) \<leftarrow> ENSURE_ARRAY_CAPACITY 1 True 0 n (al_capacity a) (al_elements a);
     Some (a\<lparr>al_capacity := c, al_elements := b\<rparr>) }"

definition ArrayList_indexOf :: "ArrayList \<Rightarrow> nat \<Rightarrow> int option" where
  "ArrayList_indexOf a e = do { cells \<leftarrow> slice (al_elements a) 0 (al_size a); Some (find_first (\<lambda>x. x = e) cells) }"

definition ArrayList_add :: "ArrayList \<Rightarrow> nat \<Rightarrow> ArrayList option" where
  "ArrayList_add a e =
     (if e = 0 then Some a
      else do {
        a' \<leftarrow> ArrayList_ensure a (al_size a + 1);
        b \<leftarrow> store (al_elements a') (al_size a') e;
        Some (a'\<lparr>al_elements := b, al_size := al_size a' + 1\<rparr>) })"

definition ArrayList_addAt :: "ArrayList \<Rightarrow> int \<Rightarrow> nat \<Rightarrow> ArrayList option" where
  "ArrayList_addAt a index e =
     (if e = 0 then Some a
      else if index < 0 \<or> int (al_size a) \<le> index then ArrayList_add a e
      else do {
        a' \<leftarrow> ArrayList_ensure a (al_size a + 1);
        b \<leftarrow> memmove (al_elements a') (nat index + 1) (nat index) (al_size a' - nat index);
        b' \<leftarrow> store b (nat index) e;
        Some (a'\<lparr>al_elements := b', al_size := al_size a' + 1\<rparr>) })"

fun fill_loop :: "nat \<Rightarrow> nat list \<Rightarrow> nat \<Rightarrow> nat \<Rightarrow> (nat \<times> nat list) option" where
  "fill_loop 0 b n e = Some (n, b)"
| "fill_loop (Suc k) b n e = do { b' \<leftarrow> store b n e; fill_loop k b' (n + 1) e }"

definition ArrayList_fill :: "ArrayList \<Rightarrow> nat \<Rightarrow> nat \<Rightarrow> ArrayList option" where
  "ArrayList_fill a k e =
     (if e = 0 then Some a
      else do {
        a' \<leftarrow> ArrayList_ensure a (al_size a + k);
        (n, b) \<leftarrow> fill_loop k (al_elements a') (al_size a') e;
        Some (a'\<lparr>al_elements := b, al_size := n\<rparr>) })"

definition ArrayList_removeAt :: "ArrayList \<Rightarrow> int \<Rightarrow> (nat \<times> ArrayList) option" where
  "ArrayList_removeAt a index =
     (if index < 0 \<or> int (al_size a) \<le> index then Some (0, a)
      else do {
        e \<leftarrow> load (al_elements a) (nat index);
        b \<leftarrow> (let moved = al_size a - nat index - 1
              in if 0 < moved then memmove (al_elements a) (nat index) (nat index + 1) moved
                 else Some (al_elements a));
        b' \<leftarrow> store b (al_size a - 1) 0;
        Some (e, a\<lparr>al_elements := b', al_size := al_size a - 1\<rparr>) })"

definition ArrayList_remove :: "ArrayList \<Rightarrow> nat \<Rightarrow> ArrayList option" where
  "ArrayList_remove a e = do {
     i \<leftarrow> ArrayList_indexOf a e;
     (if i \<noteq> - 1 then map_option snd (ArrayList_removeAt a i) else Some a) }"

text \<open>The values that are freed, and the emptied list.\<close>

definition ArrayList_free :: "ArrayList \<Rightarrow> bool \<Rightarrow> (nat list \<times> ArrayList) option" where
  "ArrayList_free a freeValues = do {
     vs \<leftarrow> (if al_elements a \<noteq> [] \<and> freeValues then slice (al_elements a) 0 (al_size a) else Some []);
     Some (filter (\<lambda>v. v \<noteq> 0) vs, a\<lparr>al_elements := [], al_size := 0, al_capacity := 0\<rparr>) }"

text \<open>The copies \<^verbatim>\<open>strdup\<close> makes are given.\<close>

fun add_each :: "ArrayList \<Rightarrow> nat list \<Rightarrow> ArrayList option" where
  "add_each a [] = Some a"
| "add_each a (e # es) = do { a' \<leftarrow> ArrayList_add a e; add_each a' es }"

definition ArrayList_fromStrings :: "nat list \<Rightarrow> ArrayList option" where
  "ArrayList_fromStrings copies = add_each \<lparr>al_size = 0, al_capacity = 0, al_elements = []\<rparr> copies"

section \<open>The binary search\<close>

text \<open>The search of \<open>ArrayMap_binarySearch\<close> and of the macro \<open>SPARSEARRAY_BINARY_SEARCH\<close> over the keys (the
  hashes) of the cells; \<open>- lo - 1\<close> is \<^verbatim>\<open>~lo\<close>.\<close>

function binary_search :: "int list \<Rightarrow> int \<Rightarrow> int \<Rightarrow> int \<Rightarrow> int option" where
  "binary_search ks key lo hi =
     (if lo \<le> hi then
        let mid = (lo + hi) div 2
        in do {
          v \<leftarrow> load ks (nat mid);
          (if v < key then binary_search ks key (mid + 1) hi
           else if key < v then binary_search ks key lo (mid - 1)
           else Some mid) }
      else Some (- lo - 1))"
  by pat_completeness auto
termination
  by (relation "measure (\<lambda>(ks, key, lo, hi). nat (hi + 1 - lo))") auto

declare binary_search.simps [simp del]

section \<open>SparseArray and SparseIntArray\<close>

text \<open>The two types differ in the type of the values, whose zero is the value of a missing key.\<close>

record 'v SparseArray =
  sa_size :: nat
  sa_capacity :: nat
  sa_entries :: "(int \<times> 'v) list"

definition SparseArray_indexOfKey :: "'v SparseArray \<Rightarrow> int \<Rightarrow> int option" where
  "SparseArray_indexOfKey a key =
     (if sa_entries a = [] then Some (- 1)
      else binary_search (map fst (sa_entries a)) key 0 (int (sa_size a) - 1))"

text \<open>The macro \<open>SPARSEARRAY_PUT\<close>.\<close>

definition SPARSEARRAY_PUT :: "'v \<Rightarrow> 'v SparseArray \<Rightarrow> int \<Rightarrow> 'v \<Rightarrow> 'v SparseArray option" where
  "SPARSEARRAY_PUT zero a key v = do {
     i \<leftarrow> SparseArray_indexOfKey a key;
     (if 0 \<le> i then do {
        (k, _) \<leftarrow> load (sa_entries a) (nat i);
        b \<leftarrow> store (sa_entries a) (nat i) (k, v);
        Some (a\<lparr>sa_entries := b\<rparr>) }
      else let index = nat (- i - 1) in do {
        (c, b) \<leftarrow> ENSURE_ARRAY_CAPACITY 1 True (0, zero) (sa_size a + 1) (sa_capacity a) (sa_entries a);
        b1 \<leftarrow> (if index < sa_size a then memmove b (index + 1) index (sa_size a - index) else Some b);
        b2 \<leftarrow> store b1 index (key, v);
        Some (a\<lparr>sa_capacity := c, sa_entries := b2, sa_size := sa_size a + 1\<rparr>) }) }"

definition SPARSEARRAY_GET :: "'v \<Rightarrow> 'v SparseArray \<Rightarrow> int \<Rightarrow> 'v option" where
  "SPARSEARRAY_GET zero a key = do {
     i \<leftarrow> SparseArray_indexOfKey a key;
     (if 0 \<le> i then map_option snd (load (sa_entries a) (nat i)) else Some zero) }"

definition SPARSEARRAY_REMOVE_AT :: "'v \<Rightarrow> 'v SparseArray \<Rightarrow> nat \<Rightarrow> ('v \<times> 'v SparseArray) option" where
  "SPARSEARRAY_REMOVE_AT zero a index =
     (if sa_size a \<le> index then Some (zero, a)
      else do {
        (_, old) \<leftarrow> load (sa_entries a) index;
        b \<leftarrow> memmove (sa_entries a) index (index + 1) (sa_size a - (index + 1));
        b' \<leftarrow> store b (sa_size a - 1) (0, zero);
        Some (old, a\<lparr>sa_size := sa_size a - 1, sa_entries := b'\<rparr>) })"

definition SPARSEARRAY_REMOVE :: "'v \<Rightarrow> 'v SparseArray \<Rightarrow> int \<Rightarrow> ('v \<times> 'v SparseArray) option" where
  "SPARSEARRAY_REMOVE zero a key = do {
     i \<leftarrow> SparseArray_indexOfKey a key;
     (if 0 \<le> i then SPARSEARRAY_REMOVE_AT zero a (nat i) else Some (zero, a)) }"

definition SparseArray_put :: "nat SparseArray \<Rightarrow> int \<Rightarrow> nat \<Rightarrow> nat SparseArray option" where
  "SparseArray_put = SPARSEARRAY_PUT 0"

definition SparseArray_get :: "nat SparseArray \<Rightarrow> int \<Rightarrow> nat option" where
  "SparseArray_get = SPARSEARRAY_GET 0"

definition SparseArray_removeAt :: "nat SparseArray \<Rightarrow> nat \<Rightarrow> (nat \<times> nat SparseArray) option" where
  "SparseArray_removeAt = SPARSEARRAY_REMOVE_AT 0"

definition SparseArray_remove :: "nat SparseArray \<Rightarrow> int \<Rightarrow> (nat \<times> nat SparseArray) option" where
  "SparseArray_remove = SPARSEARRAY_REMOVE 0"

definition SparseArray_free :: "nat SparseArray \<Rightarrow> bool \<Rightarrow> (nat list \<times> nat SparseArray) option" where
  "SparseArray_free a freeValues = do {
     cells \<leftarrow> (if sa_entries a \<noteq> [] \<and> freeValues then slice (sa_entries a) 0 (sa_capacity a) else Some []);
     Some (filter (\<lambda>v. v \<noteq> 0) (map snd cells), a\<lparr>sa_entries := [], sa_size := 0, sa_capacity := 0\<rparr>) }"

type_synonym SparseIntArray = "int SparseArray"

definition SparseIntArray_put :: "SparseIntArray \<Rightarrow> int \<Rightarrow> int \<Rightarrow> SparseIntArray option" where
  "SparseIntArray_put = SPARSEARRAY_PUT 0"

definition SparseIntArray_get :: "SparseIntArray \<Rightarrow> int \<Rightarrow> int option" where
  "SparseIntArray_get = SPARSEARRAY_GET 0"

definition SparseIntArray_removeAt :: "SparseIntArray \<Rightarrow> nat \<Rightarrow> SparseIntArray option" where
  "SparseIntArray_removeAt a i = map_option snd (SPARSEARRAY_REMOVE_AT 0 a i)"

definition SparseIntArray_remove :: "SparseIntArray \<Rightarrow> int \<Rightarrow> SparseIntArray option" where
  "SparseIntArray_remove a key = map_option snd (SPARSEARRAY_REMOVE 0 a key)"

definition SparseIntArray_free :: "SparseIntArray \<Rightarrow> SparseIntArray" where
  "SparseIntArray_free a = a\<lparr>sa_entries := [], sa_size := 0, sa_capacity := 0\<rparr>"

section \<open>ArrayMap\<close>

text \<open>A key is a C string (its bytes before the NUL), \<^const>\<open>None\<close> the NULL pointer. \<open>cv\<close> is the conversion
  of a \<^verbatim>\<open>char\<close> to \<^verbatim>\<open>int\<close>, whose sign the platform chooses.\<close>

record ArrayMap =
  am_size :: nat
  am_capacity :: nat
  am_entries :: "(u8 list option \<times> nat) list"

definition hashCode :: "(u8 \<Rightarrow> u32) \<Rightarrow> u8 list \<Rightarrow> int" where
  "hashCode cv key = sint (foldl (\<lambda>hash c. 31 * hash + cv c) 0 key)"

definition entry_hash :: "(u8 \<Rightarrow> u32) \<Rightarrow> u8 list option \<times> nat \<Rightarrow> int" where
  "entry_hash cv e = (case fst e of None \<Rightarrow> 0 | Some key \<Rightarrow> hashCode cv key)"

definition ArrayMap_binarySearch :: "(u8 \<Rightarrow> u32) \<Rightarrow> ArrayMap \<Rightarrow> u8 list \<Rightarrow> int option" where
  "ArrayMap_binarySearch cv a key =
     binary_search (map (entry_hash cv) (am_entries a)) (hashCode cv key) 0 (int (am_size a) - 1)"

text \<open>The key of a cell; following NULL is undefined.\<close>

definition key_at :: "ArrayMap \<Rightarrow> nat \<Rightarrow> u8 list option" where
  "key_at a i = Option.bind (load (am_entries a) i) fst"

text \<open>The scan to the right over equal hashes: found at an index, or the end of the run.\<close>

function scan_right :: "(u8 \<Rightarrow> u32) \<Rightarrow> ArrayMap \<Rightarrow> u8 list \<Rightarrow> nat \<Rightarrow> (bool \<times> nat) option" where
  "scan_right cv a key i =
     (if am_size a \<le> i then Some (False, i)
      else do {
        k \<leftarrow> key_at a i;
        (if hashCode cv k \<noteq> hashCode cv key then Some (False, i)
         else if key = k then Some (True, i)
         else scan_right cv a key (i + 1)) })"
  by pat_completeness auto
termination
  by (relation "measure (\<lambda>(cv, a, key, i). am_size a - i)") auto

text \<open>The scan to the left; \<open>n\<close> cells are left of the current one.\<close>

fun scan_left :: "(u8 \<Rightarrow> u32) \<Rightarrow> ArrayMap \<Rightarrow> u8 list \<Rightarrow> nat \<Rightarrow> nat option option" where
  "scan_left cv a key 0 = Some None"
| "scan_left cv a key (Suc i) = do {
     k \<leftarrow> key_at a i;
     (if hashCode cv k \<noteq> hashCode cv key then Some None
      else if key = k then Some (Some i)
      else scan_left cv a key i) }"

declare scan_right.simps [simp del]

definition ArrayMap_indexOfKey :: "(u8 \<Rightarrow> u32) \<Rightarrow> ArrayMap \<Rightarrow> u8 list \<Rightarrow> int option" where
  "ArrayMap_indexOfKey cv a key =
     (if am_size a = 0 then Some (- 1)
      else do {
        index \<leftarrow> ArrayMap_binarySearch cv a key;
        (if index < 0 then Some index
         else do {
           k \<leftarrow> key_at a (nat index);
           (if key = k then Some index
            else do {
              (found, end) \<leftarrow> scan_right cv a key (nat index + 1);
              (if found then Some (int end)
               else do {
                 l \<leftarrow> scan_left cv a key (nat index);
                 (case l of Some i \<Rightarrow> Some (int i) | None \<Rightarrow> Some (- int end - 1)) }) }) }) })"

definition ArrayMap_put :: "(u8 \<Rightarrow> u32) \<Rightarrow> ArrayMap \<Rightarrow> u8 list \<Rightarrow> nat \<Rightarrow> ArrayMap option" where
  "ArrayMap_put cv a key v = do {
     i \<leftarrow> ArrayMap_indexOfKey cv a key;
     (if 0 \<le> i then do {
        (k, _) \<leftarrow> load (am_entries a) (nat i);
        b \<leftarrow> store (am_entries a) (nat i) (k, v);
        Some (a\<lparr>am_entries := b\<rparr>) }
      else let index = nat (- i - 1) in do {
        (c, b) \<leftarrow> ENSURE_ARRAY_CAPACITY 1 True (None, 0) (am_size a + 1) (am_capacity a) (am_entries a);
        b1 \<leftarrow> (if index < am_size a then memmove b (index + 1) index (am_size a - index) else Some b);
        b2 \<leftarrow> store b1 index (Some key, v);
        Some (a\<lparr>am_capacity := c, am_entries := b2, am_size := am_size a + 1\<rparr>) }) }"

definition ArrayMap_get :: "(u8 \<Rightarrow> u32) \<Rightarrow> ArrayMap \<Rightarrow> u8 list \<Rightarrow> nat option" where
  "ArrayMap_get cv a key = do {
     i \<leftarrow> ArrayMap_indexOfKey cv a key;
     (if 0 \<le> i then map_option snd (load (am_entries a) (nat i)) else Some 0) }"

definition ArrayMap_removeAt :: "ArrayMap \<Rightarrow> nat \<Rightarrow> (nat \<times> ArrayMap) option" where
  "ArrayMap_removeAt a index =
     (if am_size a \<le> index then Some (0, a)
      else do {
        (_, old) \<leftarrow> load (am_entries a) index;
        b \<leftarrow> memmove (am_entries a) index (index + 1) (am_size a - (index + 1));
        b' \<leftarrow> store b (am_size a - 1) (None, 0);
        Some (old, a\<lparr>am_size := am_size a - 1, am_entries := b'\<rparr>) })"

definition ArrayMap_remove :: "(u8 \<Rightarrow> u32) \<Rightarrow> ArrayMap \<Rightarrow> u8 list \<Rightarrow> (nat \<times> ArrayMap) option" where
  "ArrayMap_remove cv a key = do {
     i \<leftarrow> ArrayMap_indexOfKey cv a key;
     (if 0 \<le> i then ArrayMap_removeAt a (nat i) else Some (0, a)) }"

text \<open>The keys and values that are freed.\<close>

definition ArrayMap_free :: "ArrayMap \<Rightarrow> bool \<Rightarrow> bool \<Rightarrow> (u8 list list \<times> nat list \<times> ArrayMap) option" where
  "ArrayMap_free a freeKeys freeValues = do {
     cells \<leftarrow> (if am_entries a \<noteq> [] then slice (am_entries a) 0 (am_capacity a) else Some []);
     Some (if freeKeys then List.map_filter fst cells else [],
           if freeValues then filter (\<lambda>v. v \<noteq> 0) (map snd cells) else [],
           a\<lparr>am_entries := [], am_size := 0, am_capacity := 0\<rparr>) }"

section \<open>ArrayDeque\<close>

unbundle bit_operations_syntax

record ArrayDeque =
  ad_head :: int
  ad_tail :: int
  ad_size :: int
  ad_elements :: "nat list"

definition ArrayDeque_doubleCapacity :: "ArrayDeque \<Rightarrow> ArrayDeque option" where
  "ArrayDeque_doubleCapacity d =
     (let diff = ad_size d - ad_head d;
          newCapacity = sint (push_bit 1 (word_of_int (ad_size d) :: u32))
      in if newCapacity < 0 then Some d
         else do {
           upper \<leftarrow> slice (ad_elements d) (nat (ad_head d)) (nat diff);
           lower \<leftarrow> slice (ad_elements d) 0 (nat (ad_head d));
           b \<leftarrow> blit (replicate (nat newCapacity) 0) 0 upper;
           b' \<leftarrow> blit b (nat diff) lower;
           Some \<lparr>ad_head = 0, ad_tail = ad_size d, ad_size = newCapacity, ad_elements = b'\<rparr> })"

definition ArrayDeque_ensureCapacity :: "ArrayDeque \<Rightarrow> ArrayDeque" where
  "ArrayDeque_ensureCapacity d =
     (if ad_elements d = [] then \<lparr>ad_head = 0, ad_tail = 0, ad_size = 8, ad_elements = replicate 8 0\<rparr> else d)"

definition ArrayDeque_isEmpty :: "ArrayDeque ptr \<Rightarrow> bool" where
  "ArrayDeque_isEmpty d = (case d of None \<Rightarrow> False | Some d \<Rightarrow> ad_head d = ad_tail d)"

definition ArrayDeque_addFirst :: "ArrayDeque \<Rightarrow> nat \<Rightarrow> ArrayDeque option" where
  "ArrayDeque_addFirst d0 e =
     (let d = ArrayDeque_ensureCapacity d0;
          head = (ad_head d - 1) AND (ad_size d - 1)
      in do {
        b \<leftarrow> store (ad_elements d) (nat head) e;
        (let d' = d\<lparr>ad_head := head, ad_elements := b\<rparr>
         in if head = ad_tail d then ArrayDeque_doubleCapacity d' else Some d') })"

definition ArrayDeque_addLast :: "ArrayDeque \<Rightarrow> nat \<Rightarrow> ArrayDeque option" where
  "ArrayDeque_addLast d0 e =
     (let d = ArrayDeque_ensureCapacity d0;
          tail = (ad_tail d + 1) AND (ad_size d - 1)
      in do {
        b \<leftarrow> store (ad_elements d) (nat (ad_tail d)) e;
        (let d' = d\<lparr>ad_tail := tail, ad_elements := b\<rparr>
         in if tail = ad_head d then ArrayDeque_doubleCapacity d' else Some d') })"

definition ArrayDeque_removeFirst :: "ArrayDeque \<Rightarrow> (nat \<times> ArrayDeque) option" where
  "ArrayDeque_removeFirst d0 =
     (let d = ArrayDeque_ensureCapacity d0
      in do {
        result \<leftarrow> load (ad_elements d) (nat (ad_head d));
        (if result \<noteq> 0 then do {
           b \<leftarrow> store (ad_elements d) (nat (ad_head d)) 0;
           Some (result, d\<lparr>ad_elements := b, ad_head := (ad_head d + 1) AND (ad_size d - 1)\<rparr>) }
         else Some (result, d)) })"

definition ArrayDeque_removeLast :: "ArrayDeque \<Rightarrow> (nat \<times> ArrayDeque) option" where
  "ArrayDeque_removeLast d0 =
     (let d = ArrayDeque_ensureCapacity d0;
          tail = (ad_tail d - 1) AND (ad_size d - 1)
      in do {
        result \<leftarrow> load (ad_elements d) (nat tail);
        (if result \<noteq> 0 then do {
           b \<leftarrow> store (ad_elements d) (nat tail) 0;
           Some (result, d\<lparr>ad_elements := b, ad_tail := tail\<rparr>) }
         else Some (result, d)) })"

definition ArrayDeque_getFirst :: "ArrayDeque \<Rightarrow> (nat \<times> ArrayDeque) option" where
  "ArrayDeque_getFirst d0 =
     (let d = ArrayDeque_ensureCapacity d0
      in do { e \<leftarrow> load (ad_elements d) (nat (ad_head d)); Some (e, d) })"

definition ArrayDeque_getLast :: "ArrayDeque \<Rightarrow> (nat \<times> ArrayDeque) option" where
  "ArrayDeque_getLast d0 =
     (let d = ArrayDeque_ensureCapacity d0;
          tail = (ad_tail d - 1) AND (ad_size d - 1)
      in do { e \<leftarrow> load (ad_elements d) (nat tail); Some (e, d) })"

definition ArrayDeque_free :: "ArrayDeque \<Rightarrow> bool \<Rightarrow> (nat list \<times> ArrayDeque) option" where
  "ArrayDeque_free d freeValues = do {
     vs \<leftarrow> (if ad_elements d \<noteq> [] \<and> freeValues then slice (ad_elements d) 0 (nat (ad_size d)) else Some []);
     Some (filter (\<lambda>v. v \<noteq> 0) vs, \<lparr>ad_head = 0, ad_tail = 0, ad_size = 0, ad_elements = []\<rparr>) }"

end
