(* ===== verification/Array_Lemmas.thy ===== *)
theory Array_Lemmas
  imports Containers
begin

text \<open>
  What the checked block operations do, in terms of the live prefix of a block: growing keeps the
  prefix, the insertion idiom (grow, move up, store) inserts and the removal idiom (move down, clear the
  last cell) deletes.
\<close>

section \<open>Blocks\<close>

lemma load_Some [simp]: "i < length b \<Longrightarrow> load b i = Some (b ! i)"
  by (simp add: load_def)

lemma store_Some [simp]: "i < length b \<Longrightarrow> store b i v = Some (b[i := v])"
  by (simp add: store_def)

lemma slice_Some [simp]: "off + n \<le> length b \<Longrightarrow> slice b off n = Some (take n (drop off b))"
  by (simp add: slice_def)

lemma slice_zero [simp]: "n \<le> length b \<Longrightarrow> slice b 0 n = Some (take n b)"
  by (simp add: slice_def)

lemma blit_Some [simp]:
  "off + length src \<le> length b \<Longrightarrow> blit b off src = Some (take off b @ src @ drop (off + length src) b)"
  by (simp add: blit_def)

lemma ensure_enough [simp]: "target \<le> c \<Longrightarrow> target \<le> INT_LIMIT \<Longrightarrow> ENSURE_ARRAY_CAPACITY cell w z target c b = Some (c, b)"
  by (simp add: ENSURE_ARRAY_CAPACITY_def)

lemma ensure_wide:
  assumes "length b = capacity" "target \<le> 2 ^ 30"
  obtains c b' where "ENSURE_ARRAY_CAPACITY 1 True z target capacity b = Some (c, b')"
    "target \<le> c" "capacity \<le> c" "length b' = c" "take capacity b' = b"
proof (cases "capacity < target")
  case False
  then show thesis
    using that [of capacity b] assms by (simp add: ENSURE_ARRAY_CAPACITY_def INT_LIMIT_def)
next
  case True
  let ?c0 = "if capacity < DEFAULT_ARRAY_CAPACITY then DEFAULT_ARRAY_CAPACITY else capacity + capacity div 2"
  let ?c = "if ?c0 < target then target else ?c0"
  have lim: "?c \<le> INT_LIMIT" "target \<le> INT_LIMIT"
    using True assms(2) by (auto simp: INT_LIMIT_def DEFAULT_ARRAY_CAPACITY_def)
  have ge: "target \<le> ?c" "capacity \<le> ?c" using True by auto
  let ?b = "take capacity (realloc z b ?c) @ replicate (length (realloc z b ?c) - capacity) z"
  have len: "length (realloc z b ?c) = ?c" using ge(2) assms(1) by (simp add: realloc_def)
  have tk: "take capacity (realloc z b ?c) = b" using ge(2) assms(1) by (simp add: realloc_def)
  have "ENSURE_ARRAY_CAPACITY 1 True z target capacity b = Some (?c, ?b)"
    using True lim by (simp add: ENSURE_ARRAY_CAPACITY_def Let_def not_less)
  moreover have "length ?b = ?c" using ge(2) assms(1) unfolding tk len by simp
  moreover have "take capacity ?b = b" using assms(1) unfolding tk by simp
  ultimately show thesis using that ge by blast
qed

lemma insert_cells:
  assumes "p \<le> n" "n < length b"
  shows "\<exists>b'. Option.bind (if p < n then memmove b (p + 1) p (n - p) else Some b) (\<lambda>b1. store b1 p x) = Some b' \<and>
    length b' = length b \<and> take (n + 1) b' = take p (take n b) @ x # drop p (take n b)"
proof (cases "p < n")
  case True
  let ?m = "take (p + 1) b @ take (n - p) (drop p b) @ drop (p + 1 + (n - p)) b"
  have m: "memmove b (p + 1) p (n - p) = Some ?m" using assms True by (simp add: memmove_def)
  have len: "length ?m = length b" using assms True by simp
  have tk: "take (p + 1) b = take p b @ [b ! p]" using assms True by (simp add: take_Suc_conv_app_nth)
  have up: "?m[p := x] = take p b @ x # take (n - p) (drop p b) @ drop (n + 1) b"
    using assms True unfolding tk by (simp add: list_update_append)
  have "take (n + 1) (?m[p := x]) = take p (take n b) @ x # drop p (take n b)"
    using assms True unfolding up by (simp add: drop_take Suc_diff_le)
  moreover have "store ?m p x = Some (?m[p := x])" using len assms True by (simp only: store_Some)
  ultimately show ?thesis using True m len by auto
next
  case False
  then have "p = n" using assms(1) by simp
  then show ?thesis using assms(2) by (simp add: take_Suc_conv_app_nth)
qed

lemma delete_cells:
  assumes "p < n" "n \<le> length b"
  shows "\<exists>b'. Option.bind (memmove b p (p + 1) (n - (p + 1))) (\<lambda>b1. store b1 (n - 1) z) = Some b' \<and>
    length b' = length b \<and> take (n - 1) b' = take p (take n b) @ drop (p + 1) (take n b)"
proof -
  let ?m = "take p b @ take (n - (p + 1)) (drop (p + 1) b) @ drop (p + (n - (p + 1))) b"
  have m: "memmove b p (p + 1) (n - (p + 1)) = Some ?m" using assms by (simp add: memmove_def)
  have len: "length ?m = length b" using assms by simp
  have "store ?m (n - 1) z = Some (?m[n - 1 := z])" using len assms by (simp only: store_Some)
  moreover have "take (n - 1) (?m[n - 1 := z]) = take p (take n b) @ drop (p + 1) (take n b)"
    using assms by (simp add: drop_take)
  ultimately show ?thesis using m len by auto
qed

text \<open>With the moved count tested first, as \<open>ArrayList_removeAt\<close> does.\<close>

lemma delete_cells_tested:
  assumes "p < n" "n \<le> length b"
  shows "\<exists>b'. Option.bind (let moved = n - p - 1 in if 0 < moved then memmove b p (p + 1) moved else Some b)
      (\<lambda>b1. store b1 (n - 1) z) = Some b' \<and>
    length b' = length b \<and> take (n - 1) b' = take p (take n b) @ drop (p + 1) (take n b)"
proof (cases "n - p - 1 = 0")
  case True
  then have "p = n - 1" using assms(1) by simp
  then show ?thesis using assms True by (simp add: Let_def)
next
  case False
  then show ?thesis using delete_cells [OF assms, of z] by (simp add: Let_def diff_diff_left)
qed

section \<open>ArrayList\<close>

definition list_inv :: "ArrayList \<Rightarrow> bool" where
  "list_inv a \<longleftrightarrow> al_size a \<le> al_capacity a \<and> length (al_elements a) = al_capacity a"

definition list_of :: "ArrayList \<Rightarrow> nat list" where
  "list_of a = take (al_size a) (al_elements a)"

lemma list_ensure:
  assumes "list_inv a" "n \<le> 2 ^ 30"
  obtains a' where "ArrayList_ensure a n = Some a'" "list_inv a'" "list_of a' = list_of a" "al_size a' = al_size a"
    "n \<le> al_capacity a'"
proof -
  have l: "length (al_elements a) = al_capacity a" using assms(1) by (simp add: list_inv_def)
  show thesis
  proof (rule ensure_wide [OF l assms(2)])
    fix c b' assume e: "ENSURE_ARRAY_CAPACITY 1 True 0 n (al_capacity a) (al_elements a) = Some (c, b')"
      "n \<le> c" "al_capacity a \<le> c" "length b' = c" "take (al_capacity a) b' = al_elements a"
    have "take (al_size a) b' = take (al_size a) (al_elements a)"
      using e(5) assms(1) by (metis list_inv_def min.absorb1 take_take)
    then show thesis
      using that [of "a\<lparr>al_capacity := c, al_elements := b'\<rparr>"] e assms(1)
      by (simp add: ArrayList_ensure_def list_inv_def list_of_def)
  qed
qed

lemma list_addAt_effect:
  assumes "list_inv a" "al_size a + 1 \<le> 2 ^ 30" "e \<noteq> 0"
  shows "\<exists>a'. ArrayList_addAt a i e = Some a' \<and> list_inv a' \<and>
    list_of a' = (let p = (if i < 0 \<or> int (al_size a) \<le> i then al_size a else nat i)
                  in take p (list_of a) @ e # drop p (list_of a))"
proof -
  obtain a' where a': "ArrayList_ensure a (al_size a + 1) = Some a'" "list_inv a'" "list_of a' = list_of a"
    "al_size a' = al_size a" "al_size a + 1 \<le> al_capacity a'"
    using list_ensure [OF assms(1,2)] .
  let ?p = "if i < 0 \<or> int (al_size a) \<le> i then al_size a else nat i"
  have p: "?p \<le> al_size a'" "al_size a' < length (al_elements a')" using a' by (auto simp: list_inv_def)
  obtain b where b: "Option.bind (if ?p < al_size a' then memmove (al_elements a') (?p + 1) ?p (al_size a' - ?p)
        else Some (al_elements a')) (\<lambda>b1. store b1 ?p e) = Some b" "length b = length (al_elements a')"
    "take (al_size a' + 1) b = take ?p (take (al_size a') (al_elements a')) @ e # drop ?p (take (al_size a') (al_elements a'))"
    using insert_cells [OF p, of e] by blast
  let ?r = "a'\<lparr>al_elements := b, al_size := al_size a' + 1\<rparr>"
  have "ArrayList_addAt a i e = Some ?r"
  proof (cases "i < 0 \<or> int (al_size a) \<le> i")
    case True
    then show ?thesis using assms(3) a' b(1) by (simp add: ArrayList_addAt_def ArrayList_add_def)
  next
    case False
    then have "nat i < al_size a'" using a'(4) by auto
    then show ?thesis using False assms(3) a'(1) b(1) by (auto simp: ArrayList_addAt_def bind_eq_Some_conv)
  qed
  moreover have "list_inv ?r" using a'(2,4,5) b(2) by (simp add: list_inv_def)
  moreover have "list_of ?r = take ?p (list_of a') @ e # drop ?p (list_of a')"
    using b(3) by (simp add: list_of_def)
  ultimately show ?thesis using a'(3) by (auto simp: Let_def)
qed

lemma list_add_effect:
  assumes "list_inv a" "al_size a + 1 \<le> 2 ^ 30" "e \<noteq> 0"
  shows "\<exists>a'. ArrayList_add a e = Some a' \<and> list_inv a' \<and> list_of a' = list_of a @ [e]"
  using list_addAt_effect [OF assms, of "- 1"] assms(1,3)
  by (auto simp: ArrayList_addAt_def list_of_def list_inv_def)

lemma list_removeAt_effect:
  assumes "list_inv a" "0 \<le> i" "i < int (al_size a)"
  shows "\<exists>a'. ArrayList_removeAt a i = Some (list_of a ! nat i, a') \<and> list_inv a' \<and>
    list_of a' = take (nat i) (list_of a) @ drop (nat i + 1) (list_of a)"
proof -
  have p: "nat i < al_size a" "al_size a \<le> length (al_elements a)" using assms by (auto simp: list_inv_def)
  obtain b where b: "Option.bind (let moved = al_size a - nat i - 1 in if 0 < moved
        then memmove (al_elements a) (nat i) (nat i + 1) moved else Some (al_elements a))
      (\<lambda>b1. store b1 (al_size a - 1) 0) = Some b" "length b = length (al_elements a)"
    "take (al_size a - 1) b = take (nat i) (list_of a) @ drop (nat i + 1) (list_of a)"
    using delete_cells_tested [OF p, of 0] by (auto simp: list_of_def)
  have "ArrayList_removeAt a i = Some (list_of a ! nat i, a\<lparr>al_elements := b, al_size := al_size a - 1\<rparr>)"
    using p assms(2,3) b(1) by (auto simp: ArrayList_removeAt_def list_of_def bind_eq_Some_conv)
  then show ?thesis using b assms(1) by (auto simp: list_inv_def list_of_def)
qed

end
