(* ===== verification/Map_Refinement.thy ===== *)
theory Map_Refinement
  imports Array_Lemmas
begin

text \<open>
  The sorted containers implement finite maps. The binary search finds a key or its place; the interface
  \<open>keyed_store\<close> says what the three operations promise, and every sequence of operations on a store
  that keeps the promise behaves like the map. \<open>SparseArray\<close> and \<open>ArrayMap\<close> are its two instances; in the
  second one several keys may share a hash.
\<close>

section \<open>The binary search\<close>

definition ascending :: "int list \<Rightarrow> nat \<Rightarrow> bool" where
  "ascending ks n \<longleftrightarrow> n \<le> length ks \<and> (\<forall>i j. i < j \<and> j < n \<longrightarrow> ks ! i \<le> ks ! j)"

definition found_at :: "int list \<Rightarrow> nat \<Rightarrow> int \<Rightarrow> int \<Rightarrow> bool" where
  "found_at ks n key r \<longleftrightarrow>
     (if 0 \<le> r then nat r < n \<and> ks ! nat r = key
      else nat (- r - 1) \<le> n \<and> (\<forall>i<nat (- r - 1). ks ! i < key) \<and>
           (\<forall>i. nat (- r - 1) \<le> i \<and> i < n \<longrightarrow> key < ks ! i))"

lemma binary_search_finds:
  assumes "ascending ks n" "0 \<le> lo" "lo \<le> hi + 1" "hi < int n"
    "\<forall>i. int i < lo \<longrightarrow> ks ! i < key" "\<forall>i. hi < int i \<and> i < n \<longrightarrow> key < ks ! i"
  shows "\<exists>r. binary_search ks key lo hi = Some r \<and> found_at ks n key r"
  using assms
proof (induction ks key lo hi rule: binary_search.induct)
  case (1 ks key lo hi)
  show ?case
  proof (cases "lo \<le> hi")
    case False
    then have "lo = hi + 1" using "1.prems" by simp
    then have "found_at ks n key (- lo - 1)" using 1(4,6-8) by (auto simp: found_at_def)
    then show ?thesis using False by (simp add: binary_search.simps)
  next
    case True
    define mid where "mid = (lo + hi) div 2"
    have mid: "lo \<le> mid" "mid \<le> hi" "0 \<le> mid" using True 1(4) by (simp_all add: mid_def)
    then have in_n: "nat mid < n" "nat mid < length ks" using 1(3,6) mid by (auto simp: ascending_def)
    have le: "ks ! i \<le> ks ! nat mid" if "int i < mid" for i
      using 1(3) in_n that by (auto simp: ascending_def)
    have ge: "ks ! nat mid \<le> ks ! i" if "mid < int i" "i < n" for i
      using 1(3) that mid(3) by (auto simp: ascending_def)
    have step: "binary_search ks key lo hi =
        (if ks ! nat mid < key then binary_search ks key (mid + 1) hi
         else if key < ks ! nat mid then binary_search ks key lo (mid - 1) else Some mid)"
      using True in_n by (subst binary_search.simps) (simp add: mid_def [symmetric] Let_def)
    have ld: "load ks (nat mid) = Some (ks ! nat mid)" using in_n by simp
    note IH = "1.IH"(1) [OF True mid_def ld] "1.IH"(2) [OF True mid_def ld]
    consider "ks ! nat mid < key" | "key < ks ! nat mid" | "ks ! nat mid = key" by linarith
    then show ?thesis
    proof cases
      case less: 1
      have "\<forall>i. int i < mid + 1 \<longrightarrow> ks ! i < key"
      proof (intro allI impI)
        fix i assume "int i < mid + 1"
        then consider "int i < mid" | "i = nat mid" by linarith
        then show "ks ! i < key" using le less by cases fastforce+
      qed
      then have "\<exists>r. binary_search ks key (mid + 1) hi = Some r \<and> found_at ks n key r"
        using less mid "1.prems" in_n by (intro IH(1)) auto
      then show ?thesis using step less by simp
    next
      case greater: 2
      have "\<forall>i. mid - 1 < int i \<and> i < n \<longrightarrow> key < ks ! i"
      proof (intro allI impI)
        fix i assume i: "mid - 1 < int i \<and> i < n"
        then consider "mid < int i" | "i = nat mid" by linarith
        then show "key < ks ! i" using ge greater i by cases fastforce+
      qed
      then have "\<exists>r. binary_search ks key lo (mid - 1) = Some r \<and> found_at ks n key r"
        using mid "1.prems" in_n by (intro IH(2) [OF not_less_iff_gr_or_eq [THEN iffD2, OF disjI1, OF greater] greater]) auto
      then show ?thesis using step greater by simp
    next
      case 3
      then show ?thesis using step mid in_n by (simp add: found_at_def)
    qed
  qed
qed

lemma binary_search_whole:
  assumes "ascending ks n"
  shows "\<exists>r. binary_search ks key 0 (int n - 1) = Some r \<and> found_at ks n key r"
  by (rule binary_search_finds) (use assms in auto)

section \<open>The interface\<close>

datatype ('k, 'v) map_op = Put 'k 'v | Remove 'k | Get 'k

text \<open>A sequence of operations on a store and on the map it stands for: the values returned and the end.\<close>

fun run_store ::
  "('s \<Rightarrow> 'k \<Rightarrow> 'v \<Rightarrow> 's option) \<Rightarrow> ('s \<Rightarrow> 'k \<Rightarrow> 'v option) \<Rightarrow> ('s \<Rightarrow> 'k \<Rightarrow> ('v \<times> 's) option)
     \<Rightarrow> 's \<Rightarrow> ('k, 'v) map_op list \<Rightarrow> ('v list \<times> 's) option" where
  "run_store put get remove s [] = Some ([], s)"
| "run_store put get remove s (Put k v # ops) = do { s' \<leftarrow> put s k v; run_store put get remove s' ops }"
| "run_store put get remove s (Get k # ops) =
     do { v \<leftarrow> get s k; (vs, s') \<leftarrow> run_store put get remove s ops; Some (v # vs, s') }"
| "run_store put get remove s (Remove k # ops) =
     do { (v, s') \<leftarrow> remove s k; (vs, s'') \<leftarrow> run_store put get remove s' ops; Some (v # vs, s'') }"

definition lookup :: "'v \<Rightarrow> ('k \<Rightarrow> 'v option) \<Rightarrow> 'k \<Rightarrow> 'v" where
  "lookup absent m k = (case m k of None \<Rightarrow> absent | Some v \<Rightarrow> v)"

fun run_map :: "'v \<Rightarrow> ('k \<Rightarrow> 'v option) \<Rightarrow> ('k, 'v) map_op list \<Rightarrow> 'v list \<times> ('k \<Rightarrow> 'v option)" where
  "run_map absent m [] = ([], m)"
| "run_map absent m (Put k v # ops) = run_map absent (m(k \<mapsto> v)) ops"
| "run_map absent m (Get k # ops) = (case run_map absent m ops of (vs, m') \<Rightarrow> (lookup absent m k # vs, m'))"
| "run_map absent m (Remove k # ops) =
     (case run_map absent (m(k := None)) ops of (vs, m') \<Rightarrow> (lookup absent m k # vs, m'))"

locale keyed_store =
  fixes put :: "'s \<Rightarrow> 'k \<Rightarrow> 'v \<Rightarrow> 's option"
    and get :: "'s \<Rightarrow> 'k \<Rightarrow> 'v option"
    and remove :: "'s \<Rightarrow> 'k \<Rightarrow> ('v \<times> 's) option"
    and absent :: 'v
    and wf :: "'s \<Rightarrow> bool"
    and content :: "'s \<Rightarrow> 'k \<Rightarrow> 'v option"
    and entries :: "'s \<Rightarrow> nat"
  assumes get_law: "wf s \<Longrightarrow> get s k = Some (lookup absent (content s) k)"
    and put_law: "wf s \<Longrightarrow> entries s < 2 ^ 30 \<Longrightarrow>
       \<exists>s'. put s k v = Some s' \<and> wf s' \<and> content s' = (content s)(k \<mapsto> v) \<and> entries s' \<le> entries s + 1"
    and remove_law: "wf s \<Longrightarrow>
       \<exists>s'. remove s k = Some (lookup absent (content s) k, s') \<and> wf s' \<and>
         content s' = (content s)(k := None) \<and> entries s' \<le> entries s"
begin

lemma run_refines:
  "wf s \<Longrightarrow> entries s + length ops \<le> 2 ^ 30 \<Longrightarrow>
     \<exists>s'. run_store put get remove s ops = Some (fst (run_map absent (content s) ops), s') \<and> wf s' \<and>
       content s' = snd (run_map absent (content s) ops)"
proof (induction ops arbitrary: s)
  case Nil
  then show ?case by simp
next
  case (Cons op ops)
  show ?case
  proof (cases op)
    case (Put k v)
    obtain s1 where s1: "put s k v = Some s1" "wf s1" "content s1 = (content s)(k \<mapsto> v)" "entries s1 \<le> entries s + 1"
      using put_law [OF Cons.prems(1), of k v] Cons.prems(2) by auto
    then show ?thesis using Cons.IH [OF s1(2)] Cons.prems(2) Put by fastforce
  next
    case (Get k)
    then show ?thesis using Cons.IH [OF Cons.prems(1)] Cons.prems get_law [OF Cons.prems(1), of k]
      by (fastforce split: prod.split)
  next
    case (Remove k)
    obtain s1 where s1: "remove s k = Some (lookup absent (content s) k, s1)" "wf s1"
      "content s1 = (content s)(k := None)" "entries s1 \<le> entries s"
      using remove_law [OF Cons.prems(1), of k] by auto
    then show ?thesis using Cons.IH [OF s1(2)] Cons.prems(2) Remove by (fastforce split: prod.split)
  qed
qed

end

section \<open>Lists of entries\<close>

lemma map_of_insert_at:
  assumes "k \<notin> fst ` set xs"
  shows "map_of (take p xs @ (k, v) # drop p xs) = (map_of xs)(k \<mapsto> v)"
proof -
  have "map_of xs = map_of (drop p xs) ++ map_of (take p xs)"
    by (simp flip: map_of_append)
  moreover have "map_of (take p xs) k = None"
    using assms set_take_subset [of p xs] by (auto simp: map_of_eq_None_iff)
  ultimately show ?thesis
    by (auto simp: fun_eq_iff map_add_def split: option.splits)
qed

lemma split_at: "p < length xs \<Longrightarrow> xs = take p xs @ xs ! p # drop (p + 1) xs"
  by (simp add: id_take_nth_drop)

lemma map_of_delete_at:
  assumes "distinct (map fst xs)" "p < length xs" "fst (xs ! p) = k"
  shows "map_of (take p xs @ drop (p + 1) xs) = (map_of xs)(k := None)"
proof -
  let ?a = "take p xs" and ?b = "drop (p + 1) xs"
  obtain v where v: "xs ! p = (k, v)" using assms(3) by (cases "xs ! p") simp
  have xs: "xs = ?a @ (k, v) # ?b" using split_at [OF assms(2)] v by simp
  have "distinct (map fst (?a @ (k, v) # ?b))" using assms(1) xs by simp
  then have n: "map_of ?a k = None" "map_of ?b k = None" by (auto simp: map_of_eq_None_iff)
  have m: "map_of xs = map_of (?a @ (k, v) # ?b)" by (rule arg_cong [OF xs])
  show ?thesis unfolding m using n by (auto simp: fun_eq_iff map_add_def split: option.splits)
qed

lemma map_of_update_at:
  assumes "distinct (map fst xs)" "p < length xs" "fst (xs ! p) = k"
  shows "map_of (xs[p := (k, v)]) = (map_of xs)(k \<mapsto> v)"
proof -
  let ?a = "take p xs" and ?b = "drop (p + 1) xs"
  obtain w where w: "xs ! p = (k, w)" using assms(3) by (cases "xs ! p") simp
  have xs: "xs = ?a @ (k, w) # ?b" using split_at [OF assms(2)] w by simp
  have u: "xs[p := (k, v)] = ?a @ (k, v) # ?b" using assms(2) by (simp add: upd_conv_take_nth_drop)
  have "distinct (map fst (?a @ (k, w) # ?b))" using assms(1) xs by simp
  then have n: "map_of ?a k = None" by (auto simp: map_of_eq_None_iff)
  have m: "map_of xs = map_of (?a @ (k, w) # ?b)" by (rule arg_cong [OF xs])
  show ?thesis unfolding m u using n by (auto simp: fun_eq_iff map_add_def split: option.splits)
qed

lemma map_of_at: "distinct (map fst xs) \<Longrightarrow> p < length xs \<Longrightarrow> map_of xs (fst (xs ! p)) = Some (snd (xs ! p))"
  by (simp add: map_of_is_SomeI)

lemma sorted_wrt_insert_at:
  "sorted_wrt R xs \<Longrightarrow> \<forall>y\<in>set (take p xs). R y x \<Longrightarrow> \<forall>y\<in>set (drop p xs). R x y \<Longrightarrow> transp R \<Longrightarrow>
     sorted_wrt R (take p xs @ x # drop p xs)"
proof -
  assume a: "sorted_wrt R xs" "\<forall>y\<in>set (take p xs). R y x" "\<forall>y\<in>set (drop p xs). R x y" "transp R"
  have "sorted_wrt R (take p xs @ drop p xs)" using a(1) by simp
  then show ?thesis using a(2-4) by (auto simp: sorted_wrt_append dest: transpD)
qed

lemma sorted_wrt_delete_at: "sorted_wrt R xs \<Longrightarrow> sorted_wrt R (take p xs @ drop (p + 1) xs)"
proof -
  assume s: "sorted_wrt R xs"
  then have "\<forall>x\<in>set (take p xs). \<forall>y\<in>set (drop p xs). R x y"
    using sorted_wrt_append [of R "take p xs" "drop p xs"] by simp
  moreover have "set (drop (p + 1) xs) \<subseteq> set (drop p xs)" by (rule set_drop_subset_set_drop) simp
  ultimately show ?thesis using s by (auto simp: sorted_wrt_append sorted_wrt_take sorted_wrt_drop)
qed

section \<open>SparseArray\<close>

definition sa_live :: "'v SparseArray \<Rightarrow> (int \<times> 'v) list" where
  "sa_live a = take (sa_size a) (sa_entries a)"

definition sa_wf :: "'v SparseArray \<Rightarrow> bool" where
  "sa_wf a \<longleftrightarrow> sa_size a \<le> sa_capacity a \<and> length (sa_entries a) = sa_capacity a \<and>
     sorted_wrt (\<lambda>x y. fst x < fst y) (sa_live a)"

definition sa_map :: "'v SparseArray \<Rightarrow> int \<Rightarrow> 'v option" where
  "sa_map a = map_of (sa_live a)"

lemma sa_live_nth: "sa_wf a \<Longrightarrow> i < sa_size a \<Longrightarrow> sa_live a ! i = sa_entries a ! i"
  by (simp add: sa_live_def)

lemma sa_live_length: "sa_wf a \<Longrightarrow> length (sa_live a) = sa_size a"
  by (simp add: sa_live_def sa_wf_def)

lemma strict_distinct: "sorted_wrt (\<lambda>x y. fst x < (fst y :: int)) xs \<Longrightarrow> distinct (map fst xs)"
  by (induction xs) auto

lemma sa_distinct: "sa_wf a \<Longrightarrow> distinct (map fst (sa_live a))"
  unfolding sa_wf_def by (blast intro: strict_distinct)

lemma sa_index:
  assumes "sa_wf a"
  obtains (found) p where "SparseArray_indexOfKey a key = Some (int p)" "p < sa_size a" "fst (sa_live a ! p) = key"
    | (missing) p where "SparseArray_indexOfKey a key = Some (- int p - 1)" "p \<le> sa_size a"
      "\<forall>y\<in>set (take p (sa_live a)). fst y < key" "\<forall>y\<in>set (drop p (sa_live a)). key < fst y"
proof -
  let ?ks = "map fst (sa_entries a)"
  have wf: "sa_size a \<le> length (sa_entries a)" "sorted_wrt (\<lambda>x y. fst x < fst y) (sa_live a)"
    using assms by (simp_all add: sa_wf_def)
  have asc: "ascending ?ks (sa_size a)"
    unfolding ascending_def
  proof (intro conjI allI impI)
    fix i j assume ij: "i < j \<and> j < sa_size a"
    then have "fst (sa_live a ! i) < fst (sa_live a ! j)"
      using sorted_wrt_nth_less [OF wf(2), of i j] sa_live_length [OF assms] by simp
    then show "?ks ! i \<le> ?ks ! j" using ij wf(1) by (simp add: sa_live_nth [OF assms])
  qed (use wf(1) in simp)
  have "\<exists>r. SparseArray_indexOfKey a key = Some r \<and> found_at ?ks (sa_size a) key r"
  proof (cases "sa_entries a = []")
    case True
    then have "sa_size a = 0" using wf(1) by simp
    then show ?thesis using True by (simp add: SparseArray_indexOfKey_def found_at_def)
  next
    case False
    then show ?thesis using binary_search_whole [OF asc, of key] by (simp add: SparseArray_indexOfKey_def)
  qed
  then obtain r where r: "SparseArray_indexOfKey a key = Some r" "found_at ?ks (sa_size a) key r" by blast
  show thesis
  proof (cases "0 \<le> r")
    case True
    then have "nat r < sa_size a" "fst (sa_entries a ! nat r) = key"
      using r(2) wf(1) by (auto simp: found_at_def)
    then show thesis using r(1) True found [of "nat r"] by (simp add: sa_live_nth [OF assms])
  next
    case False
    let ?p = "nat (- r - 1)"
    have p: "?p \<le> sa_size a" "\<forall>i<?p. ?ks ! i < key" "\<forall>i. ?p \<le> i \<and> i < sa_size a \<longrightarrow> key < ?ks ! i"
      using r(2) False by (simp_all add: found_at_def)
    have "fst y < key" if m: "y \<in> set (take ?p (sa_live a))" for y
    proof -
      obtain i where i: "i < ?p" "i < sa_size a" "y = sa_entries a ! i"
        using m by (auto simp: in_set_conv_nth sa_live_def)
      then have "fst y = ?ks ! i" using wf(1) by simp
      then show ?thesis using p(2) i(1) by simp
    qed
    moreover have "key < fst y" if m: "y \<in> set (drop ?p (sa_live a))" for y
    proof -
      obtain j where "j < sa_size a - ?p" "y = sa_entries a ! (?p + j)"
        using m wf(1) by (auto simp: in_set_conv_nth sa_live_def)
      moreover define i where "i = ?p + j"
      ultimately have i: "?p \<le> i" "i < sa_size a" "y = sa_entries a ! i" by simp_all
      then have "fst y = ?ks ! i" using wf(1) by simp
      then show ?thesis using p(3) i(1,2) by simp
    qed
    ultimately show thesis using r(1) p(1) False missing [of ?p] by simp
  qed
qed

lemma sa_missing:
  "\<forall>y\<in>set (take p xs). fst y < (key :: int) \<Longrightarrow> \<forall>y\<in>set (drop p xs). key < fst y \<Longrightarrow> key \<notin> fst ` set xs"
proof
  assume a: "\<forall>y\<in>set (take p xs). fst y < key" "\<forall>y\<in>set (drop p xs). key < fst y" "key \<in> fst ` set xs"
  then obtain y where y: "y \<in> set (take p xs @ drop p xs)" "fst y = key" by (metis append_take_drop_id imageE)
  then show False using a(1,2) by (auto simp del: append_take_drop_id)
qed

lemma sa_get_law: "sa_wf a \<Longrightarrow> SPARSEARRAY_GET zero a key = Some (lookup zero (sa_map a) key)"
proof -
  assume wf: "sa_wf a"
  show ?thesis
    using wf
  proof (cases rule: sa_index [where key = key])
    case (found p)
    have "map_of (sa_live a) key = Some (snd (sa_live a ! p))"
      using map_of_at [OF sa_distinct [OF wf], of p] found wf by (simp add: sa_live_length)
    moreover have "p < length (sa_entries a)" using found(2) wf by (simp add: sa_wf_def)
    ultimately show ?thesis using found wf by (simp add: SPARSEARRAY_GET_def lookup_def sa_map_def sa_live_nth)
  next
    case (missing p)
    then have "map_of (sa_live a) key = None" using sa_missing by (simp add: map_of_eq_None_iff)
    then show ?thesis using missing(1) by (simp add: SPARSEARRAY_GET_def lookup_def sa_map_def)
  qed
qed

lemma sa_put_law:
  assumes wf: "sa_wf a" and sz: "sa_size a < 2 ^ 30"
  shows "\<exists>a'. SPARSEARRAY_PUT zero a key v = Some a' \<and> sa_wf a' \<and> sa_map a' = (sa_map a)(key \<mapsto> v) \<and>
     sa_size a' \<le> sa_size a + 1"
  using wf
proof (cases rule: sa_index [where key = key])
  case (found p)
  have p: "p < length (sa_entries a)" "p < length (sa_live a)" using found(2) wf by (simp_all add: sa_wf_def sa_live_length)
  let ?a = "a\<lparr>sa_entries := (sa_entries a)[p := (key, v)]\<rparr>"
  have "sa_entries a ! p = (key, snd (sa_entries a ! p))"
    using found(2,3) wf by (simp add: sa_live_nth prod_eq_iff)
  then have put: "SPARSEARRAY_PUT zero a key v = Some ?a"
    using found(1) p(1) by (simp add: SPARSEARRAY_PUT_def) (metis case_prod_conv)
  have live: "sa_live ?a = (sa_live a)[p := (key, v)]" by (simp add: sa_live_def take_update_swap)
  have "map fst ((sa_live a)[p := (key, v)]) = map fst (sa_live a)"
    using p(2) found(3) by (metis fst_conv list_update_id map_update)
  then have "sorted_wrt (<) (map fst ((sa_live a)[p := (key, v)]))" using wf by (simp add: sa_wf_def sorted_wrt_map)
  then have "sa_wf ?a" using wf live by (simp add: sa_wf_def sorted_wrt_map)
  moreover have "sa_map ?a = (sa_map a)(key \<mapsto> v)"
    using map_of_update_at [OF sa_distinct [OF wf] p(2) found(3)] live by (simp add: sa_map_def)
  ultimately show ?thesis using put by simp
next
  case (missing p)
  have len: "length (sa_entries a) = sa_capacity a" using wf by (simp add: sa_wf_def)
  show ?thesis
  proof (rule ensure_wide [OF len, where target = "sa_size a + 1" and z = "(0, zero)"])
    show "sa_size a + 1 \<le> 2 ^ 30" using sz by simp
    fix c b assume e: "ENSURE_ARRAY_CAPACITY 1 True (0, zero) (sa_size a + 1) (sa_capacity a) (sa_entries a) = Some (c, b)"
      "sa_size a + 1 \<le> c" "sa_capacity a \<le> c" "length b = c" "take (sa_capacity a) b = sa_entries a"
    have tk: "take (sa_size a) b = sa_live a"
      using e(5) wf by (metis min.absorb1 sa_live_def sa_wf_def take_take)
    have "sa_size a < length b" using e(2,4) by simp
    from insert_cells [OF missing(2) this, of "(key, v)"] obtain b2 where b2:
      "Option.bind (if p < sa_size a then memmove b (p + 1) p (sa_size a - p) else Some b) (\<lambda>b1. store b1 p (key, v)) = Some b2"
      "length b2 = length b" "take (sa_size a + 1) b2 = take p (sa_live a) @ (key, v) # drop p (sa_live a)"
      unfolding tk by blast
    let ?a = "a\<lparr>sa_capacity := c, sa_entries := b2, sa_size := sa_size a + 1\<rparr>"
    have "SPARSEARRAY_PUT zero a key v = Some ?a"
      using missing(1) e(1) b2(1) by (auto simp: SPARSEARRAY_PUT_def bind_eq_Some_conv)
    moreover have live: "sa_live ?a = take p (sa_live a) @ (key, v) # drop p (sa_live a)"
      using b2(3) by (simp add: sa_live_def)
    moreover have "sorted_wrt (\<lambda>x y. fst x < fst y) (take p (sa_live a) @ (key, v) # drop p (sa_live a))"
    proof (rule sorted_wrt_insert_at)
      show "transp (\<lambda>x y :: int \<times> 'v. fst x < fst y)" by (auto intro: transpI)
    qed (use wf missing(3,4) in \<open>simp_all add: sa_wf_def\<close>)
    moreover from this have "sa_wf ?a" using live e(2,4) b2(2) by (simp add: sa_wf_def)
    moreover note map_of_insert_at [OF sa_missing [OF missing(3,4)], of p v]
    ultimately show ?thesis by (auto simp: sa_map_def)
  qed
qed

lemma sa_remove_law:
  assumes wf: "sa_wf a"
  shows "\<exists>a'. SPARSEARRAY_REMOVE zero a key = Some (lookup zero (sa_map a) key, a') \<and> sa_wf a' \<and>
     sa_map a' = (sa_map a)(key := None) \<and> sa_size a' \<le> sa_size a"
  using wf
proof (cases rule: sa_index [where key = key])
  case (found p)
  have p: "sa_size a \<le> length (sa_entries a)" "p < length (sa_live a)" "p < length (sa_entries a)"
    using found(2) wf by (simp_all add: sa_wf_def sa_live_length)
  obtain b where b: "Option.bind (memmove (sa_entries a) p (p + 1) (sa_size a - (p + 1)))
      (\<lambda>b1. store b1 (sa_size a - 1) (0, zero)) = Some b" "length b = length (sa_entries a)"
    "take (sa_size a - 1) b = take p (sa_live a) @ drop (p + 1) (sa_live a)"
    using delete_cells [OF found(2) p(1), of "(0, zero)"] by (auto simp: sa_live_def)
  let ?a = "a\<lparr>sa_size := sa_size a - 1, sa_entries := b\<rparr>"
  have d: "distinct (map fst (sa_live a))" by (rule sa_distinct [OF wf])
  have val: "lookup zero (sa_map a) key = snd (sa_entries a ! p)"
    using map_of_at [OF d p(2)] found(2,3) wf by (simp add: lookup_def sa_map_def sa_live_nth)
  have "SPARSEARRAY_REMOVE zero a key = Some (snd (sa_entries a ! p), ?a)"
    using found(1,2) p(3) b(1)
    by (auto simp: SPARSEARRAY_REMOVE_def SPARSEARRAY_REMOVE_AT_def bind_eq_Some_conv split: prod.splits)
  moreover have live: "sa_live ?a = take p (sa_live a) @ drop (p + 1) (sa_live a)"
    using b(3) by (simp add: sa_live_def)
  moreover have "sa_wf ?a"
    using live b(2) wf found(2) sorted_wrt_delete_at [of _ "sa_live a" p] by (auto simp: sa_wf_def)
  ultimately show ?thesis
    using val map_of_delete_at [OF d p(2) found(3)] by (simp add: sa_map_def)
next
  case (missing p)
  then have "map_of (sa_live a) key = None" using sa_missing by (simp add: map_of_eq_None_iff)
  then have "sa_map a key = None" "(sa_map a)(key := None) = sa_map a" by (auto simp: sa_map_def)
  then show ?thesis using missing(1) wf by (simp add: SPARSEARRAY_REMOVE_def lookup_def)
qed

interpretation sa: keyed_store SparseArray_put SparseArray_get SparseArray_remove 0 sa_wf sa_map sa_size
  by unfold_locales
    (unfold SparseArray_put_def SparseArray_get_def SparseArray_remove_def,
      (rule sa_get_law sa_put_law sa_remove_law, assumption+)+)

interpretation si: keyed_store "SPARSEARRAY_PUT (0 :: int)" "SPARSEARRAY_GET 0" "SPARSEARRAY_REMOVE 0" 0 sa_wf sa_map sa_size
  by unfold_locales (rule sa_get_law sa_put_law sa_remove_law, assumption+)+

end
