(* ===== verification/ArrayMap_Refinement.thy ===== *)
theory ArrayMap_Refinement
  imports Map_Refinement
begin

text \<open>
  \<open>ArrayMap\<close> as an instance of \<open>keyed_store\<close>: the cells are ordered by the hash of their keys, and the two
  scans around the place the binary search finds decide among the keys of one hash. The
  properties of both maps are stated at the end.
\<close>

section \<open>The scans\<close>

definition am_live :: "ArrayMap \<Rightarrow> (u8 list \<times> nat) list" where
  "am_live a = map (\<lambda>(k, v). (the k, v)) (take (am_size a) (am_entries a))"

definition am_wf :: "(u8 \<Rightarrow> u32) \<Rightarrow> ArrayMap \<Rightarrow> bool" where
  "am_wf cv a \<longleftrightarrow> am_size a \<le> am_capacity a \<and> length (am_entries a) = am_capacity a \<and>
     (\<forall>i<am_size a. fst (am_entries a ! i) \<noteq> None) \<and> distinct (map fst (am_live a)) \<and>
     sorted_wrt (\<lambda>x y. hashCode cv (fst x) \<le> hashCode cv (fst y)) (am_live a)"

definition am_map :: "ArrayMap \<Rightarrow> u8 list \<Rightarrow> nat option" where
  "am_map a = map_of (am_live a)"

lemma am_live_length: "am_wf cv a \<Longrightarrow> length (am_live a) = am_size a"
  by (simp add: am_live_def am_wf_def)

lemma am_cell:
  assumes "am_wf cv a" "i < am_size a"
  shows "am_entries a ! i = (Some (fst (am_live a ! i)), snd (am_live a ! i))" "i < length (am_entries a)"
proof -
  show l: "i < length (am_entries a)" using assms by (simp add: am_wf_def)
  obtain k v where c: "am_entries a ! i = (k, v)" by fastforce
  have "k \<noteq> None" using assms c unfolding am_wf_def by (metis fst_conv)
  then show "am_entries a ! i = (Some (fst (am_live a ! i)), snd (am_live a ! i))"
    using l assms(2) c by (auto simp: am_live_def)
qed

lemma key_at_live: "am_wf cv a \<Longrightarrow> i < am_size a \<Longrightarrow> key_at a i = Some (fst (am_live a ! i))"
  by (simp add: key_at_def am_cell)

lemma scan_right_spec:
  assumes wf: "am_wf cv a" and "i \<le> am_size a"
  shows "\<exists>found e. scan_right cv a key i = Some (found, e) \<and> i \<le> e \<and> e \<le> am_size a \<and>
    (found \<longrightarrow> e < am_size a \<and> fst (am_live a ! e) = key) \<and>
    (\<not> found \<longrightarrow> (\<forall>j. i \<le> j \<and> j < e \<longrightarrow> hashCode cv (fst (am_live a ! j)) = hashCode cv key \<and> fst (am_live a ! j) \<noteq> key) \<and>
       (e < am_size a \<longrightarrow> hashCode cv (fst (am_live a ! e)) \<noteq> hashCode cv key))"
  using assms(2)
proof (induction "am_size a - i" arbitrary: i rule: less_induct)
  case less
  show ?case
  proof (cases "i < am_size a")
    case False
    then have "scan_right cv a key i = Some (False, i)" by (subst scan_right.simps) simp
    then show ?thesis using False less.prems by fastforce
  next
    case True
    note k = key_at_live [OF wf True]
    show ?thesis
    proof (cases "hashCode cv (fst (am_live a ! i)) = hashCode cv key \<and> fst (am_live a ! i) \<noteq> key")
      case False
      have "scan_right cv a key i = Some (hashCode cv (fst (am_live a ! i)) = hashCode cv key, i)"
        using True k False by (subst scan_right.simps) auto
      moreover have "hashCode cv (fst (am_live a ! i)) = hashCode cv key \<longrightarrow> fst (am_live a ! i) = key"
        using False by blast
      ultimately show ?thesis using True by fastforce
    next
      case same: True
      have "\<exists>found e. scan_right cv a key (i + 1) = Some (found, e) \<and> i + 1 \<le> e \<and> e \<le> am_size a \<and>
        (found \<longrightarrow> e < am_size a \<and> fst (am_live a ! e) = key) \<and>
        (\<not> found \<longrightarrow> (\<forall>j. i + 1 \<le> j \<and> j < e \<longrightarrow> hashCode cv (fst (am_live a ! j)) = hashCode cv key \<and> fst (am_live a ! j) \<noteq> key) \<and>
           (e < am_size a \<longrightarrow> hashCode cv (fst (am_live a ! e)) \<noteq> hashCode cv key))"
        by (rule less.hyps) (use True in auto)
      then obtain found e where r: "scan_right cv a key (i + 1) = Some (found, e)" "i + 1 \<le> e" "e \<le> am_size a"
        "found \<longrightarrow> e < am_size a \<and> fst (am_live a ! e) = key"
        "\<not> found \<longrightarrow> (\<forall>j. i + 1 \<le> j \<and> j < e \<longrightarrow> hashCode cv (fst (am_live a ! j)) = hashCode cv key \<and> fst (am_live a ! j) \<noteq> key) \<and>
           (e < am_size a \<longrightarrow> hashCode cv (fst (am_live a ! e)) \<noteq> hashCode cv key)"
        by blast
      have "scan_right cv a key i = Some (found, e)"
        using True k same r(1) by (subst scan_right.simps) auto
      moreover have "hashCode cv (fst (am_live a ! j)) = hashCode cv key \<and> fst (am_live a ! j) \<noteq> key"
        if n: "\<not> found" and j: "i \<le> j" "j < e" for j
      proof (cases "j = i")
        case True
        then show ?thesis using same by simp
      next
        case False
        then have "i + 1 \<le> j" using j(1) by simp
        then show ?thesis using r(5) n j(2) by blast
      qed
      moreover have "i \<le> e" using r(2) by simp
      ultimately show ?thesis using r(3-5) by blast
    qed
  qed
qed

lemma scan_left_spec:
  assumes wf: "am_wf cv a"
  shows "n \<le> am_size a \<Longrightarrow> \<exists>l. scan_left cv a key n = Some l \<and>
    (case l of Some i \<Rightarrow> i < n \<and> fst (am_live a ! i) = key
     | None \<Rightarrow> \<exists>m\<le>n. (\<forall>j. m \<le> j \<and> j < n \<longrightarrow> fst (am_live a ! j) \<noteq> key) \<and>
         (0 < m \<longrightarrow> hashCode cv (fst (am_live a ! (m - 1))) \<noteq> hashCode cv key))"
proof (induction n)
  case 0
  then show ?case by simp
next
  case (Suc i)
  have k: "key_at a i = Some (fst (am_live a ! i))" using key_at_live [OF wf] Suc.prems by simp
  show ?case
  proof (cases "hashCode cv (fst (am_live a ! i)) = hashCode cv key \<and> fst (am_live a ! i) \<noteq> key")
    case False
    then show ?thesis using k by (auto intro!: exI [of _ "Suc i"])
  next
    case True
    obtain l where l: "scan_left cv a key i = Some l"
      "case l of Some i' \<Rightarrow> i' < i \<and> fst (am_live a ! i') = key
       | None \<Rightarrow> \<exists>m\<le>i. (\<forall>j. m \<le> j \<and> j < i \<longrightarrow> fst (am_live a ! j) \<noteq> key) \<and>
         (0 < m \<longrightarrow> hashCode cv (fst (am_live a ! (m - 1))) \<noteq> hashCode cv key)"
      using Suc by auto
    have e: "scan_left cv a key (Suc i) = Some l" using k True l(1) by auto
    show ?thesis
    proof (cases l)
      case (Some i')
      then show ?thesis using e l(2) by simp
    next
      case None
      then obtain m where m: "m \<le> i" "\<forall>j. m \<le> j \<and> j < i \<longrightarrow> fst (am_live a ! j) \<noteq> key"
        "0 < m \<longrightarrow> hashCode cv (fst (am_live a ! (m - 1))) \<noteq> hashCode cv key" using l(2) by auto
      have "\<forall>j. m \<le> j \<and> j < Suc i \<longrightarrow> fst (am_live a ! j) \<noteq> key" using m(2) True less_Suc_eq by auto
      then show ?thesis using e None m by (auto intro!: exI [of _ m])
    qed
  qed
qed

section \<open>The index of a key\<close>

lemma am_hash_le:
  assumes "am_wf cv a" "i \<le> j" "j < am_size a"
  shows "hashCode cv (fst (am_live a ! i)) \<le> hashCode cv (fst (am_live a ! j))"
proof (cases "i = j")
  case False
  then show ?thesis
    using assms sorted_wrt_nth_less [of _ "am_live a" i j] am_live_length [OF assms(1)]
    unfolding am_wf_def by fastforce
qed simp

lemma key_not_in:
  assumes "\<And>i. i < length xs \<Longrightarrow> fst (xs ! i) \<noteq> key"
  shows "key \<notin> fst ` set xs"
proof
  assume "key \<in> fst ` set xs"
  then obtain y where "y \<in> set xs" "fst y = key" by auto
  then obtain i where "i < length xs" "fst (xs ! i) = key" unfolding in_set_conv_nth by blast
  then show False using assms by blast
qed

lemma set_take_nth: "(\<And>i. i < p \<Longrightarrow> i < length xs \<Longrightarrow> P (xs ! i)) \<Longrightarrow> \<forall>y\<in>set (take p xs). P y"
  by (auto simp: in_set_conv_nth)

lemma set_drop_nth:
  assumes "\<And>i. p \<le> i \<Longrightarrow> i < length xs \<Longrightarrow> P (xs ! i)"
  shows "\<forall>y\<in>set (drop p xs). P y"
proof
  fix y assume "y \<in> set (drop p xs)"
  then obtain j where "j < length (drop p xs)" "y = drop p xs ! j" by (auto simp: in_set_conv_nth)
  then show "P y" using assms [of "p + j"] by simp
qed

lemma am_index:
  assumes wf: "am_wf cv a"
  obtains (found) p where "ArrayMap_indexOfKey cv a key = Some (int p)" "p < am_size a" "fst (am_live a ! p) = key"
    | (missing) p where "ArrayMap_indexOfKey cv a key = Some (- int p - 1)" "p \<le> am_size a"
      "key \<notin> fst ` set (am_live a)"
      "\<forall>y\<in>set (take p (am_live a)). hashCode cv (fst y) \<le> hashCode cv key"
      "\<forall>y\<in>set (drop p (am_live a)). hashCode cv key \<le> hashCode cv (fst y)"
proof (cases "am_size a = 0")
  case True
  then show thesis using missing [of 0] by (simp add: ArrayMap_indexOfKey_def am_live_def)
next
  case ne: False
  let ?H = "hashCode cv key" and ?h = "\<lambda>i. hashCode cv (fst (am_live a ! i))"
  let ?ks = "map (entry_hash cv) (am_entries a)"
  have len: "length (am_live a) = am_size a" by (rule am_live_length [OF wf])
  have ks: "?ks ! i = ?h i" if "i < am_size a" for i
    using am_cell [OF wf that] by (simp add: entry_hash_def)
  have asc: "ascending ?ks (am_size a)"
    unfolding ascending_def using wf ks am_hash_le [OF wf] by (auto simp: am_wf_def)
  obtain r where r: "ArrayMap_binarySearch cv a key = Some r" "found_at ?ks (am_size a) ?H r"
    using binary_search_whole [OF asc] unfolding ArrayMap_binarySearch_def by blast
  show thesis
  proof (cases "0 \<le> r")
    case False
    let ?p = "nat (- r - 1)"
    have p: "?p \<le> am_size a" "\<And>i. i < ?p \<Longrightarrow> ?h i < ?H" "\<And>i. ?p \<le> i \<Longrightarrow> i < am_size a \<Longrightarrow> ?H < ?h i"
      using r(2) False ks by (auto simp: found_at_def)
    have "fst (am_live a ! i) \<noteq> key" if "i < am_size a" for i
      using p(2,3) [of i] that by (metis not_le order_less_irrefl)
    then have "key \<notin> fst ` set (am_live a)" using len by (intro key_not_in) simp
    moreover have "\<forall>y\<in>set (take ?p (am_live a)). hashCode cv (fst y) \<le> ?H"
      by (rule set_take_nth) (use p(2) in force)
    moreover have "\<forall>y\<in>set (drop ?p (am_live a)). ?H \<le> hashCode cv (fst y)"
      by (rule set_drop_nth) (use p(3) len in force)
    moreover have "ArrayMap_indexOfKey cv a key = Some (- int ?p - 1)"
      using r(1) ne False by (simp add: ArrayMap_indexOfKey_def)
    ultimately show thesis using missing [of ?p] p(1) by simp
  next
    case True
    define i where "i = nat r"
    have i: "r = int i" "i < am_size a" "?h i = ?H" using True r(2) ks by (auto simp: found_at_def i_def)
    have le: "i + 1 \<le> am_size a" using i(2) by simp
    obtain fr e where right: "scan_right cv a key (i + 1) = Some (fr, e)" "i + 1 \<le> e" "e \<le> am_size a"
      "fr \<Longrightarrow> e < am_size a \<and> fst (am_live a ! e) = key"
      "\<not> fr \<Longrightarrow> (\<forall>j. i + 1 \<le> j \<and> j < e \<longrightarrow> ?h j = ?H \<and> fst (am_live a ! j) \<noteq> key) \<and> (e < am_size a \<longrightarrow> ?h e \<noteq> ?H)"
      using scan_right_spec [OF wf le, of key] by blast
    obtain l where left: "scan_left cv a key i = Some l"
      "case l of Some i' \<Rightarrow> i' < i \<and> fst (am_live a ! i') = key
       | None \<Rightarrow> \<exists>m\<le>i. (\<forall>j. m \<le> j \<and> j < i \<longrightarrow> fst (am_live a ! j) \<noteq> key) \<and> (0 < m \<longrightarrow> ?h (m - 1) \<noteq> ?H)"
      using scan_left_spec [OF wf, of i key] i(2) by auto
    have idx: "ArrayMap_indexOfKey cv a key =
        (if key = fst (am_live a ! i) then Some (int i) else if fr then Some (int e)
         else (case l of Some j \<Rightarrow> Some (int j) | None \<Rightarrow> Some (- int e - 1)))"
      using ne r(1) i key_at_live [OF wf i(2)] right(1) left(1) by (auto simp: ArrayMap_indexOfKey_def split: option.split)
    show thesis
    proof (cases "key = fst (am_live a ! i) \<or> fr \<or> l \<noteq> None")
      case True
      then consider "key = fst (am_live a ! i)" | "key \<noteq> fst (am_live a ! i)" "fr"
        | j where "key \<noteq> fst (am_live a ! i)" "\<not> fr" "l = Some j" by blast
      then show thesis
      proof cases
        case 1
        then have "ArrayMap_indexOfKey cv a key = Some (int i)" using idx by simp
        then show thesis using found i(2) 1 by metis
      next
        case 2
        then have "ArrayMap_indexOfKey cv a key = Some (int e)" using idx by simp
        then show thesis using found right(4) 2(2) by metis
      next
        case 3
        then have "ArrayMap_indexOfKey cv a key = Some (int j)" using idx by simp
        moreover have "j < am_size a" "fst (am_live a ! j) = key" using left(2) 3(3) i(2) by auto
        ultimately show thesis using found by metis
      qed
    next
      case False
      then have nf: "key \<noteq> fst (am_live a ! i)" "\<not> fr" "l = None" by auto
      obtain m where m: "m \<le> i" "\<forall>j. m \<le> j \<and> j < i \<longrightarrow> fst (am_live a ! j) \<noteq> key" "0 < m \<longrightarrow> ?h (m - 1) \<noteq> ?H"
        using left(2) nf(3) by auto
      note rt = right(5) [OF nf(2)]
      have below: "?h j < ?H" if "j < m" for j
      proof -
        have "?h j \<le> ?h (m - 1)" "?h (m - 1) \<le> ?h i"
          using that m(1) i(2) by (auto intro!: am_hash_le [OF wf])
        then show ?thesis using m(3) that i(3) by auto
      qed
      have above: "?H < ?h j" if "e \<le> j" "j < am_size a" for j
      proof -
        have "?h e \<le> ?h j" "?h i \<le> ?h e" using that right(2) by (auto intro!: am_hash_le [OF wf])
        then show ?thesis using rt that i(3) by auto
      qed
      have "fst (am_live a ! j) \<noteq> key" if "j < am_size a" for j
      proof -
        consider "j < m" | "m \<le> j" "j < i" | "j = i" | "i + 1 \<le> j" "j < e" | "e \<le> j" by linarith
        then show ?thesis
        proof cases
          case 1 then show ?thesis using below by fastforce
        next
          case 2 then show ?thesis using m(2) by blast
        next
          case 3 then show ?thesis using nf(1) by simp
        next
          case 4 then show ?thesis using rt by blast
        next
          case 5 then show ?thesis using above [of j] that by fastforce
        qed
      qed
      then have "key \<notin> fst ` set (am_live a)" using len by (intro key_not_in) simp
      moreover have "\<forall>y\<in>set (take e (am_live a)). hashCode cv (fst y) \<le> ?H"
      proof (rule set_take_nth)
        fix j assume "j < e" "j < length (am_live a)"
        then consider "j \<le> i" | "i + 1 \<le> j" "j < e" by linarith
        then show "?h j \<le> ?H" using am_hash_le [OF wf, of j i] i rt by cases auto
      qed
      moreover have "\<forall>y\<in>set (drop e (am_live a)). ?H \<le> hashCode cv (fst y)"
        by (rule set_drop_nth) (use above len in force)
      moreover have "ArrayMap_indexOfKey cv a key = Some (- int e - 1)" using idx nf by simp
      ultimately show thesis using missing [of e] right(3) by simp
    qed
  qed
qed

section \<open>The laws\<close>

lemma am_distinct: "am_wf cv a \<Longrightarrow> distinct (map fst (am_live a))"
  by (simp add: am_wf_def)

lemma am_keys_given: "am_wf cv a \<Longrightarrow> i < am_size a \<Longrightarrow> fst (am_entries a ! i) \<noteq> None"
  by (simp add: am_cell)

lemma am_get_law:
  assumes wf: "am_wf cv a"
  shows "ArrayMap_get cv a key = Some (lookup 0 (am_map a) key)"
proof (cases rule: am_index [OF wf, of key, case_names found missing])
  case (found p)
  have "map_of (am_live a) key = Some (snd (am_live a ! p))"
    using map_of_at [OF am_distinct [OF wf], of p] found wf by (simp add: am_live_length)
  then show ?thesis
    using found(1) am_cell [OF wf found(2)] by (simp add: ArrayMap_get_def lookup_def am_map_def)
next
  case (missing p)
  then have "map_of (am_live a) key = None" by (simp add: map_of_eq_None_iff)
  then show ?thesis using missing(1) by (simp add: ArrayMap_get_def lookup_def am_map_def)
qed

text \<open>A block whose first cells are the given entries.\<close>

definition the_cell :: "u8 list option \<times> nat \<Rightarrow> u8 list \<times> nat" where
  "the_cell c = (the (fst c), snd c)"

lemma am_live_cells: "am_live a = map the_cell (take (am_size a) (am_entries a))"
  by (simp add: am_live_def the_cell_def case_prod_unfold)

lemma am_wf_of_cells:
  assumes "am_size a \<le> am_capacity a" "length (am_entries a) = am_capacity a"
    "\<forall>c\<in>set (take (am_size a) (am_entries a)). fst c \<noteq> None" "distinct (map fst (am_live a))"
    "sorted_wrt (\<lambda>x y. hashCode cv (fst x) \<le> hashCode cv (fst y)) (am_live a)"
  shows "am_wf cv a"
proof -
  have "fst (am_entries a ! i) \<noteq> None" if "i < am_size a" for i
  proof -
    have "take (am_size a) (am_entries a) ! i \<in> set (take (am_size a) (am_entries a))"
      using assms(1,2) that by (intro nth_mem) simp
    then show ?thesis using assms(3) that by fastforce
  qed
  then show ?thesis using assms by (simp add: am_wf_def)
qed

lemma am_cells_given: "am_wf cv a \<Longrightarrow> \<forall>c\<in>set (take (am_size a) (am_entries a)). fst c \<noteq> None"
  by (rule set_take_nth) (simp add: am_wf_def)

lemma distinct_insert_at:
  assumes "distinct (map fst xs)" "k \<notin> fst ` set xs"
  shows "distinct (map fst (take p xs @ (k, v) # drop p xs))"
proof -
  have "distinct (map fst (take p xs @ drop p xs))" using assms(1) by simp
  moreover have "set xs = set (take p xs) \<union> set (drop p xs)" by (metis append_take_drop_id set_append)
  ultimately show ?thesis using assms(2) by (auto simp del: append_take_drop_id)
qed

lemma distinct_delete_at:
  assumes "distinct (map fst xs)"
  shows "distinct (map fst (take p xs @ drop (p + 1) xs))"
proof -
  have "distinct (map fst (take p xs @ drop p xs))" using assms by simp
  moreover have "set (drop (p + 1) xs) \<subseteq> set (drop p xs)" by (rule set_drop_subset_set_drop) simp
  moreover have "distinct (map fst (drop (p + 1) xs))" using assms by (simp add: drop_map [symmetric])
  ultimately show ?thesis by (auto simp del: append_take_drop_id)
qed

lemma am_put_law:
  assumes wf: "am_wf cv a" and sz: "am_size a < 2 ^ 30"
  shows "\<exists>a'. ArrayMap_put cv a key v = Some a' \<and> am_wf cv a' \<and> am_map a' = (am_map a)(key \<mapsto> v) \<and>
     am_size a' \<le> am_size a + 1"
proof (cases rule: am_index [OF wf, of key, case_names found missing])
  case (found p)
  note cell = am_cell [OF wf found(2)]
  have p: "p < length (am_live a)" using found(2) wf by (simp add: am_live_length)
  let ?a = "a\<lparr>am_entries := (am_entries a)[p := (Some key, v)]\<rparr>"
  have put: "ArrayMap_put cv a key v = Some ?a"
    using found(1,3) cell by (simp add: ArrayMap_put_def)
  have live: "am_live ?a = (am_live a)[p := (key, v)]"
    by (simp add: am_live_cells take_update_swap map_update the_cell_def)
  have keys: "map fst ((am_live a)[p := (key, v)]) = map fst (am_live a)"
    using p found(3) by (metis fst_conv list_update_id map_update)
  have "sorted_wrt (\<lambda>x y. hashCode cv x \<le> hashCode cv y) (map fst (am_live a))"
    using wf by (simp add: am_wf_def sorted_wrt_map)
  then have "sorted_wrt (\<lambda>x y. hashCode cv x \<le> hashCode cv y) (map fst (am_live ?a))"
    unfolding live keys .
  then have "sorted_wrt (\<lambda>x y. hashCode cv (fst x) \<le> hashCode cv (fst y)) (am_live ?a)"
    unfolding sorted_wrt_map .
  moreover have "\<forall>c\<in>set (take (am_size ?a) (am_entries ?a)). fst c \<noteq> None"
    using am_cells_given [OF wf] by (auto simp: take_update_swap dest!: set_update_subset_insert [THEN subsetD])
  ultimately have "am_wf cv ?a"
    using wf keys by (intro am_wf_of_cells) (simp_all add: am_wf_def live)
  moreover have "am_map ?a = (am_map a)(key \<mapsto> v)"
    using map_of_update_at [OF am_distinct [OF wf] p found(3)] live by (simp add: am_map_def)
  ultimately show ?thesis using put by simp
next
  case (missing p)
  have len: "length (am_entries a) = am_capacity a" using wf by (simp add: am_wf_def)
  show ?thesis
  proof (rule ensure_wide [OF len, where target = "am_size a + 1" and z = "(None, 0)"])
    show "am_size a + 1 \<le> 2 ^ 30" using sz by simp
    fix c b assume e: "ENSURE_ARRAY_CAPACITY 1 True (None, 0) (am_size a + 1) (am_capacity a) (am_entries a) = Some (c, b)"
      "am_size a + 1 \<le> c" "am_capacity a \<le> c" "length b = c" "take (am_capacity a) b = am_entries a"
    let ?cells = "take (am_size a) (am_entries a)"
    have tk: "take (am_size a) b = ?cells"
      using e(5) wf by (metis min.absorb1 am_wf_def take_take)
    have "am_size a < length b" using e(2,4) by simp
    from insert_cells [OF missing(2) this, of "(Some key, v)"] obtain b2 where b2:
      "Option.bind (if p < am_size a then memmove b (p + 1) p (am_size a - p) else Some b) (\<lambda>b1. store b1 p (Some key, v)) = Some b2"
      "length b2 = length b" "take (am_size a + 1) b2 = take p ?cells @ (Some key, v) # drop p ?cells"
      unfolding tk by blast
    let ?a = "a\<lparr>am_capacity := c, am_entries := b2, am_size := am_size a + 1\<rparr>"
    have "ArrayMap_put cv a key v = Some ?a"
      using missing(1) e(1) b2(1) by (auto simp: ArrayMap_put_def bind_eq_Some_conv)
    moreover have live: "am_live ?a = take p (am_live a) @ (key, v) # drop p (am_live a)"
      using b2(3) by (simp add: am_live_cells take_map drop_map the_cell_def)
    moreover have "sorted_wrt (\<lambda>x y. hashCode cv (fst x) \<le> hashCode cv (fst y)) (take p (am_live a) @ (key, v) # drop p (am_live a))"
    proof (rule sorted_wrt_insert_at)
      show "transp (\<lambda>x y :: u8 list \<times> nat. hashCode cv (fst x) \<le> hashCode cv (fst y))" by (auto intro: transpI)
    qed (use wf missing(4,5) in \<open>simp_all add: am_wf_def\<close>)
    moreover have "set (take p ?cells @ (Some key, v) # drop p ?cells) \<subseteq> insert (Some key, v) (set ?cells)"
      unfolding set_append list.set(2) using set_take_subset [of p ?cells] set_drop_subset [of p ?cells] by blast
    then have "\<forall>c\<in>set (take (am_size ?a) (am_entries ?a)). fst c \<noteq> None"
      using am_cells_given [OF wf] b2(3) by auto
    ultimately have "am_wf cv ?a"
      using e(2,4) b2(2) distinct_insert_at [OF am_distinct [OF wf] missing(3)] by (intro am_wf_of_cells) simp_all
    moreover note map_of_insert_at [OF missing(3), of p v]
    ultimately show ?thesis using live \<open>ArrayMap_put cv a key v = Some ?a\<close> by (auto simp: am_map_def)
  qed
qed

lemma am_remove_law:
  assumes wf: "am_wf cv a"
  shows "\<exists>a'. ArrayMap_remove cv a key = Some (lookup 0 (am_map a) key, a') \<and> am_wf cv a' \<and>
     am_map a' = (am_map a)(key := None) \<and> am_size a' \<le> am_size a"
proof (cases rule: am_index [OF wf, of key, case_names found missing])
  case (found p)
  note cell = am_cell [OF wf found(2)]
  have p: "am_size a \<le> length (am_entries a)" "p < length (am_live a)"
    using found(2) wf by (simp add: am_wf_def) (simp add: am_live_length [OF wf] found(2))
  let ?cells = "take (am_size a) (am_entries a)"
  obtain b where b: "Option.bind (memmove (am_entries a) p (p + 1) (am_size a - (p + 1)))
      (\<lambda>b1. store b1 (am_size a - 1) (None, 0)) = Some b" "length b = length (am_entries a)"
    "take (am_size a - 1) b = take p ?cells @ drop (p + 1) ?cells"
    using delete_cells [OF found(2) p(1), of "(None, 0)"] by auto
  let ?a = "a\<lparr>am_size := am_size a - 1, am_entries := b\<rparr>"
  have d: "distinct (map fst (am_live a))" by (rule am_distinct [OF wf])
  have val: "lookup 0 (am_map a) key = snd (am_live a ! p)"
    using map_of_at [OF d p(2)] found(3) by (simp add: lookup_def am_map_def)
  have "ArrayMap_remove cv a key = Some (snd (am_live a ! p), ?a)"
    using found(1,2) cell b(1) by (auto simp: ArrayMap_remove_def ArrayMap_removeAt_def bind_eq_Some_conv)
  moreover have live: "am_live ?a = take p (am_live a) @ drop (p + 1) (am_live a)"
    using b(3) by (simp add: am_live_cells take_map drop_map)
  moreover have "set (take p ?cells @ drop (p + 1) ?cells) \<subseteq> set ?cells"
    unfolding set_append using set_take_subset [of p ?cells] set_drop_subset [of "p + 1" ?cells] by blast
  then have "\<forall>c\<in>set (take (am_size ?a) (am_entries ?a)). fst c \<noteq> None"
    using am_cells_given [OF wf] b(3) by auto
  moreover from this have "am_wf cv ?a"
    using live b(2) wf found(2) distinct_delete_at [OF d, of p] sorted_wrt_delete_at [of _ "am_live a" p]
    by (intro am_wf_of_cells) (auto simp: am_wf_def)
  ultimately show ?thesis
    using val map_of_delete_at [OF d p(2) found(3)] by (simp add: am_map_def)
next
  case (missing p)
  then have "map_of (am_live a) key = None" by (simp add: map_of_eq_None_iff)
  then have "am_map a key = None" "(am_map a)(key := None) = am_map a" by (auto simp: am_map_def)
  then show ?thesis using missing(1) wf by (simp add: ArrayMap_remove_def lookup_def)
qed

interpretation am: keyed_store "ArrayMap_put cv" "ArrayMap_get cv" "ArrayMap_remove cv" 0 "am_wf cv" am_map am_size
  by unfold_locales (rule am_get_law am_put_law am_remove_law, assumption+)+

section \<open>Properties\<close>

text \<open>The array of a \<open>calloc\<close>ed \<open>SparseArray\<close>, \<open>SparseIntArray\<close> or \<open>ArrayMap\<close>.\<close>

definition empty_sparse :: "'v SparseArray" where
  "empty_sparse = \<lparr>sa_size = 0, sa_capacity = 0, sa_entries = []\<rparr>"

definition empty_map :: ArrayMap where
  "empty_map = \<lparr>am_size = 0, am_capacity = 0, am_entries = []\<rparr>"

lemma empty_sparse [simp]: "sa_wf empty_sparse" "sa_map empty_sparse = Map.empty" "sa_size empty_sparse = 0"
  by (simp_all add: empty_sparse_def sa_wf_def sa_live_def sa_map_def)

lemma empty_map [simp]: "am_wf cv empty_map" "am_map empty_map = Map.empty" "am_size empty_map = 0"
  by (simp_all add: empty_map_def am_wf_def am_live_def am_map_def)

text \<open>A \<open>SparseArray\<close> is a finite map. Any sequence of at most $2^{30}$ puts, gets and removals, run on a
  zeroed \<open>SparseArray\<close>, never leaves a block, returns exactly what the same sequence returns on a map (0 for
  a missing key), and leaves an array whose entries are sorted by key and hold that map.\<close>

theorem sparse_array_is_a_map:
  assumes "length ops \<le> 2 ^ 30"
  shows "\<exists>a. run_store SparseArray_put SparseArray_get SparseArray_remove empty_sparse ops
      = Some (fst (run_map 0 Map.empty ops), a) \<and> sa_wf a \<and> sa_map a = snd (run_map 0 Map.empty ops)"
  using sa.run_refines [of empty_sparse ops] assms by simp

lemma sparse_array_is_a_map_witness:
  "\<exists>a. run_store SparseArray_put SparseArray_get SparseArray_remove empty_sparse
      [Put 7 10, Put (- 3) 20, Put 7 30, Get 7, Remove (- 3), Get (- 3)] = Some ([30, 20, 0], a) \<and>
     sa_wf a \<and> sa_map a = [7 \<mapsto> 30]"
  using sparse_array_is_a_map [of "[Put 7 10, Put (- 3) 20, Put 7 30, Get 7, Remove (- 3), Get (- 3)]"]
  by (simp add: lookup_def fun_upd_twist)

text \<open>C22: An \<open>ArrayMap\<close> is a finite map from strings, whatever its hash function does: the cells are sorted by
  the 31-multiplier hash only, several keys may share a hash, and any sequence of at most $2^{30}$ puts, gets and removals
  on a zeroed map still returns what a map returns, never following a NULL key or leaving the block.\<close>

theorem array_map_is_a_map:
  assumes "length ops \<le> 2 ^ 30"
  shows "\<exists>a. run_store (ArrayMap_put cv) (ArrayMap_get cv) (ArrayMap_remove cv) empty_map ops
      = Some (fst (run_map 0 Map.empty ops), a) \<and> am_wf cv a \<and> am_map a = snd (run_map 0 Map.empty ops)"
  using am.run_refines [of cv empty_map ops] assms by simp

text \<open>The keys \<^verbatim>\<open>Aa\<close> and \<^verbatim>\<open>BB\<close> have the same hash.\<close>

lemma array_map_is_a_map_witness:
  "hashCode ucast [65, 97] = hashCode ucast [66, 66] \<and>
   (\<exists>a. run_store (ArrayMap_put ucast) (ArrayMap_get ucast) (ArrayMap_remove ucast) empty_map
      [Put [65, 97] 1, Put [66, 66] 2, Get [65, 97], Remove [66, 66], Get [66, 66]] = Some ([1, 2, 0], a) \<and>
     am_wf ucast a \<and> am_map a = [[65, 97] \<mapsto> 1])"
  using array_map_is_a_map [of "[Put [65, 97] 1, Put [66, 66] 2, Get [65, 97], Remove [66, 66], Get [66, 66]]" ucast]
  by (simp add: lookup_def fun_upd_twist hashCode_def)

end
