(* ===== verification/Deque_Refinement.thy ===== *)
theory Deque_Refinement
  imports Array_Lemmas
begin

text \<open>
  \<open>ArrayDeque\<close> implements a double-ended queue. Its block is a ring of a power of two cells: rotated to
  the head it is the queue followed by NULL cells. The interface \<open>deque\<close> holds the laws of the
  operations and proves once that every sequence of operations returns what a list returns.
\<close>

section \<open>Rings\<close>

lemma and_pred_mod: "(x :: int) AND (2 ^ k - 1) = x mod 2 ^ k"
  by (metis mask_eq_exp_minus_1 take_bit_eq_mask take_bit_eq_mod)

lemma ring_slots_differ:
  assumes "i < j" "j < N"
  shows "(h + i) mod N \<noteq> (h + j) mod (N :: nat)"
proof
  assume "(h + i) mod N = (h + j) mod N"
  then have "N dvd (h + j) - (h + i)" using assms(1) by (intro mod_eq_dvd_iff_nat [THEN iffD1]) simp_all
  then have "N \<le> j - i" using assms(1) by (intro dvd_imp_le) simp_all
  then show False using assms by simp
qed

lemma ring_slot_eq_iff: "i < N \<Longrightarrow> j < N \<Longrightarrow> (h + i) mod N = (h + j) mod N \<longleftrightarrow> i = (j :: nat)"
  by (metis linorder_neqE_nat ring_slots_differ)

lemma rotate_update:
  assumes "i < length b"
  shows "rotate h (b[(h + i) mod length b := v]) = (rotate h b)[i := v]"
proof (rule nth_equalityI)
  fix j assume "j < length (rotate h (b[(h + i) mod length b := v]))"
  then have j: "j < length b" by simp
  have "(h + i) mod length b < length b" using assms by (cases b) simp_all
  then show "rotate h (b[(h + i) mod length b := v]) ! j = (rotate h b)[i := v] ! j"
    using j assms ring_slot_eq_iff [OF j assms, of h] by (auto simp: nth_rotate nth_list_update)
qed simp

lemma rotate_cell: "i < length b \<Longrightarrow> b ! ((h + i) mod length b) = rotate h b ! i"
  by (simp add: nth_rotate)

text \<open>Stepping the head.\<close>

lemma rotate_next: "rotate ((h + 1) mod length b) b = rotate1 (rotate h b)"
  by (metis Suc_eq_plus1 rotate_Suc rotate_conv_mod)

section \<open>The abstraction\<close>

definition ring_cells :: "nat \<Rightarrow> ArrayDeque \<Rightarrow> nat \<Rightarrow> nat list \<Rightarrow> bool" where
  "ring_cells k d h xs \<longleftrightarrow> 3 \<le> k \<and> k \<le> 30 \<and> h < 2 ^ k \<and> length xs \<le> 2 ^ k \<and> ad_size d = 2 ^ k \<and> ad_head d = int h \<and>
     ad_tail d = int ((h + length xs) mod 2 ^ k) \<and> length (ad_elements d) = 2 ^ k \<and>
     rotate h (ad_elements d) = xs @ replicate (2 ^ k - length xs) 0"

text \<open>Between operations the ring is never full.\<close>

definition deque_ring :: "nat \<Rightarrow> ArrayDeque \<Rightarrow> nat \<Rightarrow> nat list \<Rightarrow> bool" where
  "deque_ring k d h xs \<longleftrightarrow> ring_cells k d h xs \<and> length xs < 2 ^ k"

definition deque_rep :: "ArrayDeque \<Rightarrow> nat list \<Rightarrow> bool" where
  "deque_rep d xs \<longleftrightarrow> 0 \<notin> set xs \<and>
     (d = \<lparr>ad_head = 0, ad_tail = 0, ad_size = 0, ad_elements = []\<rparr> \<and> xs = [] \<or> (\<exists>k h. deque_ring k d h xs))"

lemma ensure_ring:
  assumes "deque_rep d xs"
  obtains k h where "deque_ring k (ArrayDeque_ensureCapacity d) h xs"
proof (cases "ad_elements d = []")
  case True
  then have "xs = []" using assms by (auto simp: deque_rep_def deque_ring_def ring_cells_def)
  then have "deque_ring 3 (ArrayDeque_ensureCapacity d) 0 xs"
    using True by (simp add: deque_ring_def ring_cells_def ArrayDeque_ensureCapacity_def)
  then show thesis by (rule that)
next
  case False
  then have "ArrayDeque_ensureCapacity d = d" by (simp add: ArrayDeque_ensureCapacity_def)
  then show thesis using assms False that by (auto simp: deque_rep_def)
qed

lemma ring_rep: "deque_ring k d h xs \<Longrightarrow> 0 \<notin> set xs \<Longrightarrow> deque_rep d xs"
  by (auto simp: deque_rep_def)

lemma ring_index: "(h :: nat) < 2 ^ k \<Longrightarrow> nat ((int h + 1) mod 2 ^ k) = (h + 1) mod 2 ^ k"
  by (metis nat_int of_nat_1 of_nat_add of_nat_mod of_nat_numeral of_nat_power)

section \<open>Growing\<close>

text \<open>A full ring, rotated to its head.\<close>

lemma doubleCapacity_ring:
  assumes "3 \<le> k" "k < 30" "h < 2 ^ k" "length xs = 2 ^ k" "ad_size d = 2 ^ k" "ad_head d = int h"
    "length (ad_elements d) = 2 ^ k" "rotate h (ad_elements d) = xs"
  shows "\<exists>d'. ArrayDeque_doubleCapacity d = Some d' \<and> deque_ring (k + 1) d' 0 xs"
proof -
  let ?b = "ad_elements d"
  have "(2::nat) ^ (k + 1) \<le> 2 ^ 30" using assms(2) by (intro power_increasing) simp_all
  then have lt: "(2::nat) ^ k * 2 \<le> 2 ^ 30" by simp
  have ik: "(2 :: int) ^ k = int (2 ^ k)" by simp
  have cap: "sint (push_bit 1 (word_of_int (2 ^ k) :: u32)) = 2 ^ (k + 1)"
  proof -
    have "(push_bit 1 (word_of_int (2 ^ k) :: u32)) = word_of_int (2 ^ (k + 1))"
      by (simp add: push_bit_eq_mult mult.commute)
    moreover have "(2 :: int) ^ (k + 1) \<le> 2 ^ 30" using assms(2) by (intro power_increasing) simp_all
    then have "sint (word_of_int (2 ^ (k + 1)) :: u32) = 2 ^ (k + 1)"
      unfolding signed_of_int by (subst signed_take_bit_int_eq_self) (auto intro: order_trans [of _ 0])
    ultimately show ?thesis by metis
  qed
  let ?new = "drop h ?b @ take h ?b @ replicate (2 ^ k) 0"
  have rot: "drop h ?b @ take h ?b = xs"
    using assms(3,7,8) by (simp add: rotate_drop_take)
  have diff: "nat (2 ^ k - int h) = 2 ^ k - h" unfolding ik using assms(3) by linarith
  let ?d = "\<lparr>ad_head = 0, ad_tail = 2 ^ k, ad_size = 2 ^ (k + 1), ad_elements = ?new\<rparr>"
  have "ArrayDeque_doubleCapacity d = Some ?d"
    using assms(3,5,6,7) cap diff
    by (simp add: ArrayDeque_doubleCapacity_def Let_def nat_power_eq nat_mult_distrib)
  moreover have "deque_ring (k + 1) ?d 0 xs"
    using assms(1,2,4,7) rot by (simp add: deque_ring_def ring_cells_def)
  ultimately show ?thesis by blast
qed

section \<open>The operations\<close>

lemma ring_slot: "(h :: nat) < 2 ^ k \<Longrightarrow> (h + i) mod 2 ^ k < 2 ^ k"
  by simp

lemma replicate_first: "0 < n \<Longrightarrow> replicate n x = x # replicate (n - 1) x"
  by (cases n) simp_all

lemma replicate_last: "0 < n \<Longrightarrow> replicate n x = replicate (n - 1) x @ [x]"
  by (cases n) (simp_all add: replicate_append_same)

lemma nat_pow: "nat (2 ^ k) = 2 ^ k"
  by (simp add: nat_power_eq)

lemma int_mod_pow: "(int a + 1) mod 2 ^ k = int ((a + 1) mod 2 ^ k)"
  by (simp add: zmod_int add.commute)

lemma int_pred_mod: "(int a - 1) mod 2 ^ k = int ((a + (2 ^ k - 1)) mod 2 ^ k)"
proof -
  have "int (2 ^ k - 1) = 2 ^ k - (1 :: int)" by (subst of_nat_diff) simp_all
  then have "int (a + (2 ^ k - 1)) = (int a - 1) + 2 ^ k" unfolding of_nat_add by linarith
  then show ?thesis by (metis mod_add_self2 of_nat_mod of_nat_numeral of_nat_power)
qed

lemma grown:
  assumes r: "ring_cells k d h xs" and "xs \<noteq> []" "length xs < 2 ^ 30" "0 \<notin> set xs"
  shows "\<exists>d'. (if ad_head d = ad_tail d then ArrayDeque_doubleCapacity d else Some d) = Some d' \<and> deque_rep d' xs"
proof (cases "length xs = 2 ^ k")
  case True
  then have "k < 30" using assms(3) by (metis power_strict_increasing_iff one_less_numeral_iff semiring_norm(76))
  moreover have "ad_head d = ad_tail d" using r True by (simp add: ring_cells_def)
  moreover have "rotate h (ad_elements d) = xs" using r True by (simp add: ring_cells_def)
  ultimately show ?thesis
    using doubleCapacity_ring [of k h xs d] r True ring_rep [OF _ assms(4)] by (auto simp: ring_cells_def)
next
  case False
  then have lt: "length xs < 2 ^ k" using r by (simp add: ring_cells_def)
  have "0 < length xs" using assms(2) by simp
  then have "(h + 0) mod 2 ^ k \<noteq> (h + length xs) mod 2 ^ k" using lt by (rule ring_slots_differ)
  then have "ad_head d \<noteq> ad_tail d" using r by (simp add: ring_cells_def)
  moreover have "deque_ring k d h xs" using r lt by (simp add: deque_ring_def)
  ultimately show ?thesis using ring_rep [OF _ assms(4)] by auto
qed

lemma addLast_effect:
  assumes "deque_rep d xs" "e \<noteq> 0" "length xs + 1 < 2 ^ 30"
  shows "\<exists>d'. ArrayDeque_addLast d e = Some d' \<and> deque_rep d' (xs @ [e])"
proof -
  obtain k h where "deque_ring k (ArrayDeque_ensureCapacity d) h xs" by (rule ensure_ring [OF assms(1)])
  moreover define c where "c = ArrayDeque_ensureCapacity d"
  ultimately have r: "ring_cells k c h xs" "length xs < 2 ^ k" by (simp_all add: deque_ring_def)
  let ?slot = "(h + length xs) mod 2 ^ k" and ?b = "ad_elements c"
  let ?c = "c\<lparr>ad_tail := int ((h + length xs + 1) mod 2 ^ k), ad_elements := ?b[?slot := e]\<rparr>"
  have len: "length ?b = 2 ^ k" using r(1) by (simp add: ring_cells_def)
  have tail: "(ad_tail c + 1) AND (ad_size c - 1) = int ((h + length xs + 1) mod 2 ^ k)" "nat (ad_tail c) = ?slot"
    using r(1) by (simp_all add: ring_cells_def and_pred_mod int_mod_pow mod_Suc_eq)
  have "rotate h (?b[?slot := e]) = (rotate h ?b)[length xs := e]"
    using rotate_update [of "length xs" ?b h e] r(2) len by simp
  also have "\<dots> = (xs @ [e]) @ replicate (2 ^ k - length (xs @ [e])) 0"
    using r by (simp add: ring_cells_def replicate_first [of "2 ^ k - length xs"] list_update_append)
  finally have cells: "ring_cells k ?c h (xs @ [e])"
    using r len by (simp add: ring_cells_def)
  have "store ?b ?slot e = Some (?b[?slot := e])" using len by simp
  then have "ArrayDeque_addLast d e = (if ad_head ?c = ad_tail ?c then ArrayDeque_doubleCapacity ?c else Some ?c)"
    using tail unfolding ArrayDeque_addLast_def Let_def c_def [symmetric] by (simp add: eq_commute)
  then show ?thesis using grown [OF cells] assms by (auto simp: deque_rep_def)
qed

lemma addFirst_effect:
  assumes "deque_rep d xs" "e \<noteq> 0" "length xs + 1 < 2 ^ 30"
  shows "\<exists>d'. ArrayDeque_addFirst d e = Some d' \<and> deque_rep d' (e # xs)"
proof -
  obtain k h where "deque_ring k (ArrayDeque_ensureCapacity d) h xs" by (rule ensure_ring [OF assms(1)])
  moreover define c where "c = ArrayDeque_ensureCapacity d"
  ultimately have r: "ring_cells k c h xs" "length xs < 2 ^ k" by (simp_all add: deque_ring_def)
  define g where "g = (h + (2 ^ k - 1)) mod 2 ^ k"
  let ?b = "ad_elements c"
  let ?c = "c\<lparr>ad_head := int g, ad_elements := ?b[g := e]\<rparr>"
  have len: "length ?b = 2 ^ k" and h: "h < 2 ^ k" using r(1) by (simp_all add: ring_cells_def)
  have g: "g < 2 ^ k" "(g + 1) mod 2 ^ k = h"
  proof -
    have "(g + 1) mod 2 ^ k = (h + (2 ^ k - 1) + 1) mod 2 ^ k" unfolding g_def by (rule mod_add_one_left)
    also have "\<dots> = (h + 2 ^ k) mod 2 ^ k" by simp
    finally show "(g + 1) mod 2 ^ k = h" using h by simp
  qed (simp add: g_def)
  have head: "(ad_head c - 1) AND (ad_size c - 1) = int g"
    using r(1) by (simp add: ring_cells_def and_pred_mod int_pred_mod g_def)
  have "rotate1 (rotate g ?b) = rotate h ?b" using rotate_next [of g ?b] g(2) len by simp
  also have "\<dots> = (xs @ replicate (2 ^ k - length xs - 1) 0) @ [0]"
    using r by (simp add: ring_cells_def replicate_last [of "2 ^ k - length xs"])
  finally have "rotate g ?b = 0 # xs @ replicate (2 ^ k - length xs - 1) 0"
    using len by (cases "rotate g ?b") auto
  moreover have "rotate g (?b[g := e]) = (rotate g ?b)[0 := e]"
    using rotate_update [of 0 ?b g e] g(1) len by simp
  ultimately have "rotate g (?b[g := e]) = (e # xs) @ replicate (2 ^ k - length (e # xs)) 0" by simp
  moreover have "(g + length (e # xs)) mod 2 ^ k = (h + length xs) mod 2 ^ k"
    using g(2) by (metis add.assoc add.commute length_Cons mod_add_left_eq plus_1_eq_Suc)
  ultimately have cells: "ring_cells k ?c g (e # xs)"
    using r len g(1) by (simp add: ring_cells_def)
  have "store ?b (nat (int g)) e = Some (?b[g := e])" using len g(1) by simp
  then have "ArrayDeque_addFirst d e = (if ad_head ?c = ad_tail ?c then ArrayDeque_doubleCapacity ?c else Some ?c)"
    unfolding ArrayDeque_addFirst_def Let_def c_def [symmetric] head by simp
  then show ?thesis using grown [OF cells] assms by (auto simp: deque_rep_def)
qed

lemma removeFirst_effect:
  assumes "deque_rep d xs"
  shows "\<exists>d'. ArrayDeque_removeFirst d = Some (if xs = [] then 0 else hd xs, d') \<and> deque_rep d' (tl xs)"
proof -
  obtain k h where "deque_ring k (ArrayDeque_ensureCapacity d) h xs" by (rule ensure_ring [OF assms(1)])
  moreover define c where "c = ArrayDeque_ensureCapacity d"
  ultimately have ring: "deque_ring k c h xs" and r: "ring_cells k c h xs" "length xs < 2 ^ k" by (simp_all add: deque_ring_def)
  let ?b = "ad_elements c"
  have len: "length ?b = 2 ^ k" and h: "h < 2 ^ k" and head: "ad_head c = int h" using r(1) by (simp_all add: ring_cells_def)
  have first: "load ?b (nat (ad_head c)) = Some (rotate h ?b ! 0)"
    using rotate_cell [of 0 ?b h] len h head by simp
  show ?thesis
  proof (cases xs)
    case Nil
    then have "rotate h ?b ! 0 = 0" using r by (simp add: ring_cells_def)
    then show ?thesis
      using first Nil ring_rep [OF ring] unfolding ArrayDeque_removeFirst_def Let_def c_def [symmetric] by simp
  next
    case (Cons x ys)
    have x: "rotate h ?b ! 0 = x" "x \<noteq> 0" "0 \<notin> set ys"
      using r Cons assms by (auto simp: ring_cells_def deque_rep_def)
    let ?g = "(h + 1) mod 2 ^ k"
    let ?c = "c\<lparr>ad_elements := ?b[h := 0], ad_head := int ?g\<rparr>"
    have "rotate ?g (?b[h := 0]) = rotate1 (rotate h (?b[h := 0]))"
      using rotate_next [of h "?b[h := 0]"] len by simp
    also have "rotate h (?b[h := 0]) = (rotate h ?b)[0 := 0]"
      using rotate_update [of 0 ?b h 0] len h by simp
    finally have "rotate ?g (?b[h := 0]) = ys @ replicate (2 ^ k - length ys) 0"
      using r Cons by (simp add: ring_cells_def replicate_last [of "2 ^ k - length ys"])
    moreover have "(?g + length ys) mod 2 ^ k = (h + length xs) mod 2 ^ k"
      using Cons by (simp add: mod_simps)
    ultimately have "deque_ring k ?c ?g ys"
      using r len Cons by (simp add: ring_cells_def deque_ring_def)
    moreover have "ArrayDeque_removeFirst d = Some (x, ?c)"
      using first x r(1) len unfolding ArrayDeque_removeFirst_def Let_def c_def [symmetric]
      by (simp add: ring_cells_def and_pred_mod int_mod_pow)
    ultimately show ?thesis using Cons ring_rep [OF _ x(3)] by auto
  qed
qed

text \<open>The last cell of the queue, and of the ring when the queue is empty.\<close>

lemma last_slot:
  assumes "ring_cells k c h xs" "length xs < 2 ^ k"
  defines "i \<equiv> if xs = [] then 2 ^ k - 1 else length xs - 1"
  shows "(ad_tail c - 1) AND (ad_size c - 1) = int ((h + i) mod 2 ^ k)" "i < 2 ^ k"
    "rotate h (ad_elements c) ! i = (if xs = [] then 0 else last xs)"
proof -
  show i: "i < 2 ^ k" using assms(2) by (auto simp: i_def)
  have "(ad_tail c - 1) AND (ad_size c - 1) = int (((h + length xs) mod 2 ^ k + (2 ^ k - 1)) mod 2 ^ k)"
    using assms(1) unfolding ring_cells_def by (simp only: and_pred_mod int_pred_mod)
  also have "((h + length xs) mod 2 ^ k + (2 ^ k - 1)) mod 2 ^ k = (h + length xs + (2 ^ k - 1)) mod 2 ^ k"
    by (rule mod_add_left_eq)
  also have "\<dots> = (h + i) mod 2 ^ k"
  proof (cases "xs = []")
    case False
    then have "h + length xs + (2 ^ k - 1) = h + i + 2 ^ k" by (cases xs) (simp_all add: i_def)
    then show ?thesis by simp
  qed (simp add: i_def)
  finally show "(ad_tail c - 1) AND (ad_size c - 1) = int ((h + i) mod 2 ^ k)" .
  show "rotate h (ad_elements c) ! i = (if xs = [] then 0 else last xs)"
    using assms(1,2) i by (auto simp: ring_cells_def i_def nth_append last_conv_nth)
qed

lemma removeLast_effect:
  assumes "deque_rep d xs"
  shows "\<exists>d'. ArrayDeque_removeLast d = Some (if xs = [] then 0 else last xs, d') \<and> deque_rep d' (butlast xs)"
proof -
  obtain k h where "deque_ring k (ArrayDeque_ensureCapacity d) h xs" by (rule ensure_ring [OF assms(1)])
  moreover define c where "c = ArrayDeque_ensureCapacity d"
  ultimately have ring: "deque_ring k c h xs" and r: "ring_cells k c h xs" "length xs < 2 ^ k" by (simp_all add: deque_ring_def)
  let ?b = "ad_elements c"
  define i where "i = (if xs = [] then 2 ^ k - 1 else length xs - 1)"
  note l = last_slot [OF r, folded i_def]
  have len: "length ?b = 2 ^ k" using r(1) by (simp add: ring_cells_def)
  have slot: "load ?b ((h + i) mod 2 ^ k) = Some (if xs = [] then 0 else last xs)"
    using rotate_cell [of i ?b h] l(2,3) len by simp
  show ?thesis
  proof (cases "xs = []")
    case True
    then show ?thesis
      using slot l(1) ring_rep [OF ring] unfolding ArrayDeque_removeLast_def Let_def c_def [symmetric] by simp
  next
    case False
    let ?c = "c\<lparr>ad_elements := ?b[(h + i) mod 2 ^ k := 0], ad_tail := int ((h + i) mod 2 ^ k)\<rparr>"
    have "0 \<notin> set xs" using assms by (simp add: deque_rep_def)
    then have ne: "last xs \<noteq> 0" "0 \<notin> set (butlast xs)"
      using False last_in_set [OF False] by (metis, blast dest: in_set_butlastD)
    have i: "i = length (butlast xs)" "length xs = i + 1" using False by (simp_all add: i_def)
    have "rotate h (?b[(h + i) mod 2 ^ k := 0]) = (rotate h ?b)[i := 0]"
      using rotate_update [of i ?b h 0] l(2) len by simp
    also have "\<dots> = (butlast xs @ [last xs] @ replicate (2 ^ k - length xs) 0)[i := 0]"
    proof -
      have "xs @ replicate (2 ^ k - length xs) 0 = butlast xs @ [last xs] @ replicate (2 ^ k - length xs) 0"
        using append_butlast_last_id [OF False] by (metis append.assoc)
      then show ?thesis using r(1) by (metis ring_cells_def)
    qed
    also have "\<dots> = butlast xs @ replicate (2 ^ k - length (butlast xs)) 0"
    proof -
      have "2 ^ k - length (butlast xs) = Suc (2 ^ k - length xs)" using i(2) r(2) unfolding i(1) by simp
      then show ?thesis unfolding i(1) by (simp add: list_update_append)
    qed
    finally have "rotate h (?b[(h + i) mod 2 ^ k := 0]) = butlast xs @ replicate (2 ^ k - length (butlast xs)) 0" .
    moreover have "length (butlast xs) < 2 ^ k" using r(2) by simp
    ultimately have "deque_ring k ?c h (butlast xs)"
      using r len unfolding i(1) ring_cells_def deque_ring_def by simp
    moreover have "ArrayDeque_removeLast d = Some (last xs, ?c)"
      using slot False ne(1) l(1) len unfolding ArrayDeque_removeLast_def Let_def c_def [symmetric] by simp
    ultimately show ?thesis using False ring_rep [OF _ ne(2)] by auto
  qed
qed

lemma getFirst_effect:
  assumes "deque_rep d xs"
  shows "\<exists>d'. ArrayDeque_getFirst d = Some (if xs = [] then 0 else hd xs, d') \<and> deque_rep d' xs"
proof -
  obtain k h where ring: "deque_ring k (ArrayDeque_ensureCapacity d) h xs" by (rule ensure_ring [OF assms(1)])
  let ?c = "ArrayDeque_ensureCapacity d"
  have r: "ring_cells k ?c h xs" "length xs < 2 ^ k" using ring by (simp_all add: deque_ring_def)
  have len: "length (ad_elements ?c) = 2 ^ k" and h: "h < 2 ^ k" and head: "ad_head ?c = int h"
    using r(1) by (simp_all add: ring_cells_def)
  have "load (ad_elements ?c) (nat (ad_head ?c)) = Some (rotate h (ad_elements ?c) ! 0)"
    using rotate_cell [of 0 "ad_elements ?c" h] len h head by simp
  moreover have "rotate h (ad_elements ?c) ! 0 = (if xs = [] then 0 else hd xs)"
    using r by (cases xs) (simp_all add: ring_cells_def)
  ultimately show ?thesis
    using ring_rep [OF ring] assms by (simp add: ArrayDeque_getFirst_def Let_def deque_rep_def)
qed

lemma getLast_effect:
  assumes "deque_rep d xs"
  shows "\<exists>d'. ArrayDeque_getLast d = Some (if xs = [] then 0 else last xs, d') \<and> deque_rep d' xs"
proof -
  obtain k h where ring: "deque_ring k (ArrayDeque_ensureCapacity d) h xs" by (rule ensure_ring [OF assms(1)])
  let ?c = "ArrayDeque_ensureCapacity d"
  have r: "ring_cells k ?c h xs" "length xs < 2 ^ k" using ring by (simp_all add: deque_ring_def)
  define i where "i = (if xs = [] then 2 ^ k - 1 else length xs - 1)"
  note l = last_slot [OF r, folded i_def]
  have "length (ad_elements ?c) = 2 ^ k" using r(1) by (simp add: ring_cells_def)
  then have "load (ad_elements ?c) ((h + i) mod 2 ^ k) = Some (if xs = [] then 0 else last xs)"
    using rotate_cell [of i "ad_elements ?c" h] l(2,3) by simp
  then show ?thesis
    using ring_rep [OF ring] assms l(1) by (simp add: ArrayDeque_getLast_def Let_def deque_rep_def)
qed

lemma isEmpty_effect:
  assumes "deque_rep d xs"
  shows "ArrayDeque_isEmpty (Some d) \<longleftrightarrow> xs = []"
proof (cases "ad_elements d = []")
  case True
  then show ?thesis using assms by (auto simp: deque_rep_def deque_ring_def ring_cells_def ArrayDeque_isEmpty_def)
next
  case False
  then obtain k h where r: "ring_cells k d h xs" "length xs < 2 ^ k"
    using assms by (auto simp: deque_rep_def deque_ring_def)
  then have "(h + 0) mod 2 ^ k = (h + length xs) mod 2 ^ k \<longleftrightarrow> 0 = length xs"
    by (intro ring_slot_eq_iff) simp_all
  then show ?thesis using r(1) by (auto simp: ring_cells_def ArrayDeque_isEmpty_def)
qed

section \<open>The interface\<close>

datatype deque_op = AddFirst nat | AddLast nat | RemoveFirst | RemoveLast | GetFirst | GetLast | IsEmpty

text \<open>The operations on a list; the value of an empty queue, and of an addition, is 0.\<close>

fun list_step :: "nat list \<Rightarrow> deque_op \<Rightarrow> nat \<times> nat list" where
  "list_step xs (AddFirst e) = (0, e # xs)"
| "list_step xs (AddLast e) = (0, xs @ [e])"
| "list_step xs RemoveFirst = (if xs = [] then 0 else hd xs, tl xs)"
| "list_step xs RemoveLast = (if xs = [] then 0 else last xs, butlast xs)"
| "list_step xs GetFirst = (if xs = [] then 0 else hd xs, xs)"
| "list_step xs GetLast = (if xs = [] then 0 else last xs, xs)"
| "list_step xs IsEmpty = (if xs = [] then 1 else 0, xs)"

fun deque_step :: "ArrayDeque \<Rightarrow> deque_op \<Rightarrow> (nat \<times> ArrayDeque) option" where
  "deque_step d (AddFirst e) = map_option (Pair 0) (ArrayDeque_addFirst d e)"
| "deque_step d (AddLast e) = map_option (Pair 0) (ArrayDeque_addLast d e)"
| "deque_step d RemoveFirst = ArrayDeque_removeFirst d"
| "deque_step d RemoveLast = ArrayDeque_removeLast d"
| "deque_step d GetFirst = ArrayDeque_getFirst d"
| "deque_step d GetLast = ArrayDeque_getLast d"
| "deque_step d IsEmpty = Some (if ArrayDeque_isEmpty (Some d) then 1 else 0, d)"

definition adds_null :: "deque_op \<Rightarrow> bool" where
  "adds_null op \<longleftrightarrow> op = AddFirst 0 \<or> op = AddLast 0"

fun run_list :: "nat list \<Rightarrow> deque_op list \<Rightarrow> nat list \<times> nat list" where
  "run_list xs [] = ([], xs)"
| "run_list xs (op # ops) =
     (case list_step xs op of (r, xs1) \<Rightarrow> case run_list xs1 ops of (rs, ys) \<Rightarrow> (r # rs, ys))"

fun run_steps :: "('s \<Rightarrow> deque_op \<Rightarrow> (nat \<times> 's) option) \<Rightarrow> 's \<Rightarrow> deque_op list \<Rightarrow> (nat list \<times> 's) option" where
  "run_steps step s [] = Some ([], s)"
| "run_steps step s (op # ops) =
     do { (r, s1) \<leftarrow> step s op; (rs, s2) \<leftarrow> run_steps step s1 ops; Some (r # rs, s2) }"

lemma list_step_length: "length (snd (list_step xs op)) \<le> length xs + 1"
  by (cases op) simp_all

locale deque =
  fixes step :: "'s \<Rightarrow> deque_op \<Rightarrow> (nat \<times> 's) option"
    and rep :: "'s \<Rightarrow> nat list \<Rightarrow> bool"
  assumes step_law: "rep s xs \<Longrightarrow> \<not> adds_null op \<Longrightarrow> length xs + 1 < 2 ^ 30 \<Longrightarrow>
    \<exists>s'. step s op = Some (fst (list_step xs op), s') \<and> rep s' (snd (list_step xs op))"
begin

lemma run_refines:
  "rep s xs \<Longrightarrow> list_all (\<lambda>op. \<not> adds_null op) ops \<Longrightarrow> length xs + length ops < 2 ^ 30 \<Longrightarrow>
     \<exists>s'. run_steps step s ops = Some (fst (run_list xs ops), s') \<and> rep s' (snd (run_list xs ops))"
proof (induction ops arbitrary: s xs)
  case Nil
  then show ?case by simp
next
  case (Cons op ops)
  obtain s1 where s1: "step s op = Some (fst (list_step xs op), s1)" "rep s1 (snd (list_step xs op))"
    using step_law [OF Cons.prems(1), of op] Cons.prems(2,3) by auto
  have "length (snd (list_step xs op)) + length ops < 2 ^ 30"
    using list_step_length [of xs op] Cons.prems(3) by simp
  then obtain s2 where "run_steps step s1 ops = Some (fst (run_list (snd (list_step xs op)) ops), s2)"
    "rep s2 (snd (run_list (snd (list_step xs op)) ops))"
    using Cons.IH [OF s1(2)] Cons.prems(2) by auto
  then show ?case using s1(1) by (auto split: prod.split)
qed

end

interpretation ad: deque deque_step deque_rep
proof
  fix d xs op assume r: "deque_rep d xs" and n: "\<not> adds_null op" and b: "length xs + 1 < 2 ^ 30"
  show "\<exists>d'. deque_step d op = Some (fst (list_step xs op), d') \<and> deque_rep d' (snd (list_step xs op))"
  proof (cases op)
    case (AddFirst e)
    then show ?thesis using addFirst_effect [OF r _ b, of e] n by (auto simp: adds_null_def)
  next
    case (AddLast e)
    then show ?thesis using addLast_effect [OF r _ b, of e] n by (auto simp: adds_null_def)
  qed (use removeFirst_effect [OF r] removeLast_effect [OF r] getFirst_effect [OF r] getLast_effect [OF r]
      isEmpty_effect [OF r] r in simp_all)
qed

section \<open>The property\<close>

definition empty_deque :: ArrayDeque where
  "empty_deque = \<lparr>ad_head = 0, ad_tail = 0, ad_size = 0, ad_elements = []\<rparr>"

text \<open>C23: An \<open>ArrayDeque\<close> is a double-ended queue. Any sequence of fewer than $2^{30}$ operations that adds no NULL,
  run on a zeroed deque, returns what the same operations return on a list (NULL for an empty queue), through every
  wrap of the ring indices and every doubling of the ring, and no access leaves the ring.\<close>

theorem array_deque_is_a_deque:
  assumes "list_all (\<lambda>op. \<not> adds_null op) ops" "length ops < 2 ^ 30"
  shows "\<exists>d. run_steps deque_step empty_deque ops = Some (fst (run_list [] ops), d) \<and> deque_rep d (snd (run_list [] ops))"
  using ad.run_refines [of empty_deque "[]" ops] assms by (simp add: deque_rep_def empty_deque_def)

text \<open>Nine additions make the ring of eight cells double after the head has wrapped.\<close>

lemma array_deque_is_a_deque_witness:
  "\<exists>d. run_steps deque_step empty_deque
      (map AddLast [1, 2, 3, 4, 5] @ [AddFirst 6, AddFirst 7, AddFirst 8, AddFirst 9, RemoveFirst, RemoveLast, GetFirst])
    = Some ([0, 0, 0, 0, 0, 0, 0, 0, 0, 9, 5, 8], d) \<and> deque_rep d [8, 7, 6, 1, 2, 3, 4]"
  using array_deque_is_a_deque [of "map AddLast [1, 2, 3, 4, 5] @
      [AddFirst 6, AddFirst 7, AddFirst 8, AddFirst 9, RemoveFirst, RemoveLast, GetFirst]"]
  by (simp add: adds_null_def)

end
