(* ===== verification/Array_Properties.thy ===== *)
theory Array_Properties
  imports Array_Lemmas
begin

text \<open>
  The byte buffer and the array of ints: what is put into an \<open>ArrayBuffer\<close> is read back from it,
  and exactly what the removals of \<open>IntArray\<close> do, the block that becomes too small included.
\<close>

section \<open>Bytes of words\<close>

lemma le_bytes_Suc: "le_bytes (Suc n) w = ucast w # le_bytes n (drop_bit 8 w)"
proof -
  have "[0..<Suc n] = 0 # map Suc [0..<n]" by (simp add: upt_conv_Cons map_Suc_upt del: upt_Suc)
  then show ?thesis unfolding le_bytes_def by (simp add: drop_bit_drop_bit add.commute del: upt_Suc)
qed

lemma of_le_bytes_le_bytes: "of_le_bytes (le_bytes n w) = unat w mod 256 ^ n"
proof (induction n arbitrary: w)
  case 0
  then show ?case by (simp add: le_bytes_def)
next
  case (Suc n)
  have b: "unat (ucast w :: u8) = unat w mod 256" by (simp add: unsigned_ucast_eq take_bit_eq_mod)
  have d: "unat (drop_bit 8 w) = unat w div 256" unfolding unat_drop_bit_eq by (simp add: drop_bit_eq_div)
  have "of_le_bytes (le_bytes (Suc n) w) = unat w mod 256 + 256 * (unat w div 256 mod 256 ^ n)"
    by (simp add: le_bytes_Suc Suc b d)
  then show ?case by (simp add: mod_mult2_eq)
qed

lemma le_bytes_length [simp]: "length (le_bytes n w) = n"
  by (simp add: le_bytes_def)

lemma le_bytes_read:
  "word_of_nat (of_le_bytes (le_bytes 2 (x :: u16))) = x"
  "word_of_nat (of_le_bytes (le_bytes 4 (y :: u32))) = y"
  "word_of_nat (of_le_bytes (le_bytes 8 (z :: u64))) = z"
  using unsigned_less [of x, where ?'a = nat] unsigned_less [of y, where ?'a = nat] unsigned_less [of z, where ?'a = nat] by (simp_all add: of_le_bytes_le_bytes)

section \<open>ArrayBuffer\<close>

definition buffer_ok :: "ArrayBuffer \<Rightarrow> bool" where
  "buffer_ok a \<longleftrightarrow> ab_size a \<le> ab_capacity a \<and> length (ab_buffer a) = ab_capacity a"

definition written :: "ArrayBuffer \<Rightarrow> u8 list" where
  "written a = take (ab_size a) (ab_buffer a)"

lemma ensure_narrow:
  assumes "length b = capacity" "target \<le> INT_LIMIT"
  obtains c b' where "ENSURE_ARRAY_CAPACITY 1 False z target capacity b = Some (c, b')"
    "target \<le> c" "length b' = c" "take capacity b' = b"
proof (cases "capacity < target")
  case False
  then show thesis using that [of capacity b] assms by simp
next
  case True
  then show thesis
    using that [of target "b @ replicate (target - capacity) z"] assms
    by (simp add: ENSURE_ARRAY_CAPACITY_def realloc_def Let_def)
qed

lemma buffer_append_effect:
  assumes "buffer_ok a" "ab_size a + length bytes \<le> INT_LIMIT"
  shows "\<exists>a'. ArrayBuffer_append a bytes = Some a' \<and> buffer_ok a' \<and> written a' = written a @ bytes \<and>
    ab_position a' = ab_position a"
proof -
  have l: "length (ab_buffer a) = ab_capacity a" using assms(1) by (simp add: buffer_ok_def)
  show ?thesis
  proof (rule ensure_narrow [OF l assms(2), of 0])
    fix c b assume e: "ENSURE_ARRAY_CAPACITY 1 False 0 (ab_size a + length bytes) (ab_capacity a) (ab_buffer a) = Some (c, b)"
      "ab_size a + length bytes \<le> c" "length b = c" "take (ab_capacity a) b = ab_buffer a"
    have "take (ab_size a) b = written a"
      using e(4) assms(1) by (metis buffer_ok_def min.absorb1 take_take written_def)
    then show ?thesis using e assms(1) by (auto simp: ArrayBuffer_append_def buffer_ok_def written_def)
  qed
qed

lemma put_is_append: "buffer_ok a \<Longrightarrow> ab_size a + 1 \<le> INT_LIMIT \<Longrightarrow> ArrayBuffer_put a v = ArrayBuffer_append a [v]"
proof -
  assume a: "buffer_ok a" "ab_size a + 1 \<le> INT_LIMIT"
  have l: "length (ab_buffer a) = ab_capacity a" using a(1) by (simp add: buffer_ok_def)
  show ?thesis
  proof (rule ensure_narrow [OF l a(2), of 0])
    fix c b assume e: "ENSURE_ARRAY_CAPACITY 1 False 0 (ab_size a + 1) (ab_capacity a) (ab_buffer a) = Some (c, b)"
      "ab_size a + 1 \<le> c" "length b = c"
    then show ?thesis
      by (simp add: ArrayBuffer_put_def ArrayBuffer_append_def upd_conv_take_nth_drop)
  qed
qed

text \<open>The values a client writes, and reads back in the same order.\<close>

datatype field = FByte u8 | FShort u16 | FInt u32 | FLong u64 | FFloat u32 | FDouble u64

fun put_field :: "ArrayBuffer \<Rightarrow> field \<Rightarrow> ArrayBuffer option" where
  "put_field a (FByte v) = ArrayBuffer_put a v"
| "put_field a (FShort v) = ArrayBuffer_putShort a v"
| "put_field a (FInt v) = ArrayBuffer_putInt a v"
| "put_field a (FLong v) = ArrayBuffer_putLong a v"
| "put_field a (FFloat v) = ArrayBuffer_putFloat a v"
| "put_field a (FDouble v) = ArrayBuffer_putDouble a v"

text \<open>Reading a value of the type of a given one.\<close>

fun get_field :: "ArrayBuffer \<Rightarrow> field \<Rightarrow> (field \<times> ArrayBuffer) option" where
  "get_field a (FByte _) = map_option (map_prod FByte id) (ArrayBuffer_get a)"
| "get_field a (FShort _) = map_option (map_prod FShort id) (ArrayBuffer_getShort a)"
| "get_field a (FInt _) = map_option (map_prod FInt id) (ArrayBuffer_getInt a)"
| "get_field a (FLong _) = map_option (map_prod FLong id) (ArrayBuffer_getLong a)"
| "get_field a (FFloat _) = map_option (map_prod FFloat id) (ArrayBuffer_getFloat a)"
| "get_field a (FDouble _) = map_option (map_prod FDouble id) (ArrayBuffer_getDouble a)"

fun put_fields :: "ArrayBuffer \<Rightarrow> field list \<Rightarrow> ArrayBuffer option" where
  "put_fields a [] = Some a"
| "put_fields a (f # fs) = do { a' \<leftarrow> put_field a f; put_fields a' fs }"

fun get_fields :: "ArrayBuffer \<Rightarrow> field list \<Rightarrow> (field list \<times> ArrayBuffer) option" where
  "get_fields a [] = Some ([], a)"
| "get_fields a (f # fs) = do { (g, a1) \<leftarrow> get_field a f; (gs, a2) \<leftarrow> get_fields a1 fs; Some (g # gs, a2) }"

fun field_bytes :: "field \<Rightarrow> u8 list" where
  "field_bytes (FByte v) = [v]"
| "field_bytes (FShort v) = le_bytes 2 v"
| "field_bytes (FInt v) = le_bytes 4 v"
| "field_bytes (FLong v) = le_bytes 8 v"
| "field_bytes (FFloat v) = le_bytes 4 v"
| "field_bytes (FDouble v) = le_bytes 8 v"

lemma put_field_append:
  "buffer_ok a \<Longrightarrow> ab_size a + length (field_bytes f) \<le> INT_LIMIT \<Longrightarrow>
     put_field a f = ArrayBuffer_append a (field_bytes f)"
  by (cases f) (simp_all add: put_is_append ArrayBuffer_putShort_def ArrayBuffer_putInt_def ArrayBuffer_putLong_def
      ArrayBuffer_putFloat_def ArrayBuffer_putDouble_def)

lemma written_length: "buffer_ok a \<Longrightarrow> length (written a) = ab_size a"
  by (simp add: written_def buffer_ok_def)

lemma put_fields_effect:
  "buffer_ok a \<Longrightarrow> ab_size a + length (concat (map field_bytes fs)) \<le> INT_LIMIT \<Longrightarrow>
     \<exists>a'. put_fields a fs = Some a' \<and> buffer_ok a' \<and> written a' = written a @ concat (map field_bytes fs) \<and>
       ab_position a' = ab_position a"
proof (induction fs arbitrary: a)
  case Nil
  then show ?case by simp
next
  case (Cons f fs)
  have fit: "ab_size a + length (field_bytes f) \<le> INT_LIMIT" using Cons.prems(2) by simp
  obtain a1 where a1: "ArrayBuffer_append a (field_bytes f) = Some a1" "buffer_ok a1"
    "written a1 = written a @ field_bytes f" "ab_position a1 = ab_position a"
    using buffer_append_effect [OF Cons.prems(1) fit] by blast
  have "ab_size a1 = ab_size a + length (field_bytes f)"
    using written_length [OF a1(2)] written_length [OF Cons.prems(1)] a1(3) by simp
  then show ?case
    using Cons.IH [OF a1(2)] Cons.prems a1 put_field_append [OF Cons.prems(1) fit] by fastforce
qed

lemma take_at_position:
  assumes "buffer_ok a" "drop (ab_position a) (written a) = bs @ rest" "ab_position a \<le> ab_size a"
  shows "ArrayBuffer_take a (length bs) = Some (bs, a\<lparr>ab_position := ab_position a + length bs\<rparr>)"
    "ab_position a + length bs \<le> ab_size a"
    "drop (ab_position a + length bs) (written a) = rest"
proof -
  have "ab_size a - ab_position a = length bs + length rest"
    using arg_cong [OF assms(2), of length] written_length [OF assms(1)] by simp
  then show le: "ab_position a + length bs \<le> ab_size a" using assms(3) by linarith
  have "take (length bs) (drop (ab_position a) (ab_buffer a)) = take (length bs) (drop (ab_position a) (written a))"
    using le by (simp add: written_def drop_take)
  then show "ArrayBuffer_take a (length bs) = Some (bs, a\<lparr>ab_position := ab_position a + length bs\<rparr>)"
    using le assms(1,2) by (simp add: ArrayBuffer_take_def buffer_ok_def)
  have "drop (ab_position a + length bs) (written a) = drop (length bs) (drop (ab_position a) (written a))"
    by (simp add: add.commute)
  then show "drop (ab_position a + length bs) (written a) = rest" using assms(2) by simp
qed

lemma get_is_take: "ArrayBuffer_get a = map_option (map_prod hd id) (ArrayBuffer_take a 1)"
  by (simp add: ArrayBuffer_get_def ArrayBuffer_take_def load_def slice_def hd_drop_conv_nth take_Suc Suc_le_eq)

lemma get_field_effect:
  assumes "buffer_ok a" "drop (ab_position a) (written a) = field_bytes f @ rest" "ab_position a \<le> ab_size a"
  shows "get_field a f = Some (f, a\<lparr>ab_position := ab_position a + length (field_bytes f)\<rparr>)"
proof (cases f)
  case (FByte v)
  then show ?thesis using take_at_position(1) [OF assms] by (simp add: get_is_take)
qed (use take_at_position(1) [OF assms] in \<open>simp_all add: ArrayBuffer_getShort_def ArrayBuffer_getInt_def
    ArrayBuffer_getLong_def ArrayBuffer_getFloat_def ArrayBuffer_getDouble_def le_bytes_read\<close>)

lemma get_fields_effect:
  "buffer_ok a \<Longrightarrow> drop (ab_position a) (written a) = concat (map field_bytes fs) \<Longrightarrow> ab_position a \<le> ab_size a \<Longrightarrow>
     \<exists>a'. get_fields a fs = Some (fs, a') \<and> ab_position a' = ab_size a \<and> ab_size a' = ab_size a"
proof (induction fs arbitrary: a)
  case Nil
  then show ?case using written_length [of a] by simp
next
  case (Cons f fs)
  have d: "drop (ab_position a) (written a) = field_bytes f @ concat (map field_bytes fs)" using Cons.prems(2) by simp
  let ?a = "a\<lparr>ab_position := ab_position a + length (field_bytes f)\<rparr>"
  note t = take_at_position [OF Cons.prems(1) d Cons.prems(3)]
  have "\<exists>a'. get_fields ?a fs = Some (fs, a') \<and> ab_position a' = ab_size ?a \<and> ab_size a' = ab_size ?a"
    using Cons.prems(1) t(2,3) by (intro Cons.IH) (simp_all add: buffer_ok_def written_def)
  then show ?case using get_field_effect [OF Cons.prems(1) d Cons.prems(3)] by auto
qed

definition empty_buffer :: ArrayBuffer where
  "empty_buffer = \<lparr>ab_size = 0, ab_position = 0, ab_capacity = 0, ab_buffer = []\<rparr>"

text \<open>C24: What is put into an \<open>ArrayBuffer\<close> comes out of it. Any sequence of typed values of at most
  \<^verbatim>\<open>INT_MAX\<close> bytes, put into a zeroed buffer, grows the buffer without leaving it; it holds the little-endian bytes of
  the values, reading the same types in order returns the same values, and then nothing is left.\<close>

theorem buffer_round_trip:
  assumes "length (concat (map field_bytes fs)) \<le> INT_LIMIT"
  shows "\<exists>a a'. put_fields empty_buffer fs = Some a \<and> written a = concat (map field_bytes fs) \<and>
    get_fields a fs = Some (fs, a') \<and> ArrayBuffer_available a' = 0"
proof -
  obtain a where a: "put_fields empty_buffer fs = Some a" "buffer_ok a" "written a = concat (map field_bytes fs)"
    "ab_position a = 0"
    using put_fields_effect [of empty_buffer fs] assms by (auto simp: empty_buffer_def buffer_ok_def written_def)
  then show ?thesis using get_fields_effect [of a fs] by (auto simp: ArrayBuffer_available_def)
qed

lemma buffer_round_trip_witness:
  "\<exists>a a'. put_fields empty_buffer [FInt 258, FByte 7, FShort 65535] = Some a \<and> written a = [2, 1, 0, 0, 7, 255, 255] \<and>
    get_fields a [FInt 258, FByte 7, FShort 65535] = Some ([FInt 258, FByte 7, FShort 65535], a') \<and> ArrayBuffer_available a' = 0"
proof -
  have b: "concat (map field_bytes [FInt 258, FByte 7, FShort 65535]) = [2, 1, 0, 0, 7, 255, 255]"
    by code_simp
  show ?thesis using buffer_round_trip [of "[FInt 258, FByte 7, FShort 65535]"] unfolding b by (simp add: INT_LIMIT_def)
qed

section \<open>IntArray\<close>

text \<open>The array as additions leave it: the block is the cells the capacity counts.\<close>

definition ints_ok :: "IntArray \<Rightarrow> bool" where
  "ints_ok a \<longleftrightarrow> ia_size a \<le> length (ia_values a) \<and> ia_capacity a = 4 * length (ia_values a)"

definition ints_of :: "IntArray \<Rightarrow> u32 list" where
  "ints_of a = take (ia_size a) (ia_values a)"

lemma ints_add:
  assumes "ints_ok a" "4 * (ia_size a + 1) \<le> INT_LIMIT"
  shows "\<exists>a'. IntArray_add a v = Some a' \<and> ints_ok a' \<and> ints_of a' = ints_of a @ [v]"
proof (cases "ia_size a < length (ia_values a)")
  case True
  then show ?thesis
    using assms by (simp add: IntArray_add_def IntArray_ensure_def ints_ok_def ints_of_def take_Suc_conv_app_nth)
next
  case False
  then have "ia_size a = length (ia_values a)" using assms(1) by (simp add: ints_ok_def)
  then show ?thesis
    using assms
    by (simp add: IntArray_add_def IntArray_ensure_def ENSURE_ARRAY_CAPACITY_def realloc_def Let_def ints_ok_def
        ints_of_def take_Suc_conv_app_nth)
qed

lemma memdel_middle:
  assumes "i + 1 < n" "n \<le> length b"
  shows "memdel b n i 1 = Some (Some (take i (take n b) @ drop (i + 1) (take n b)))"
  using assms by (simp add: memdel_def drop_take)

lemma memdel_end: "n \<le> i + 1 \<Longrightarrow> memdel b n i 1 = Some None"
  by (simp add: memdel_def)

text \<open>\<open>IntArray\<close> appends as a list does, but its removals do not keep it one. On an array as additions leave it,
  with room below \<^verbatim>\<open>INT_MAX\<close> bytes: \<open>add\<close> appends. \<open>removeAt\<close> of a cell that is not the last returns the cell
  and deletes it, but leaves the capacity while the block shrinks to the remaining cells, so that the next \<open>add\<close> writes behind the block.
  \<open>removeAt\<close> of the last of several cells returns it and removes nothing; of the only cell it empties the array.\<close>

theorem int_array_add_and_removeAt:
  assumes "ints_ok a" "4 * (ia_size a + 1) \<le> INT_LIMIT" "i < ia_size a"
  shows "(\<exists>b. IntArray_add a v = Some b \<and> ints_ok b \<and> ints_of b = ints_of a @ [v]) \<and>
    (\<exists>b. IntArray_removeAt a (int i) = Some (ints_of a ! i, b) \<and>
      (if i + 1 < ia_size a
       then ints_of b = take i (ints_of a) @ drop (i + 1) (ints_of a) \<and> ia_values b = ints_of b \<and> IntArray_add b v = None
       else if ia_size a = 1 then ints_of b = [] else b = a))"
proof -
  have sz: "ia_size a \<le> length (ia_values a)" "ia_capacity a = 4 * length (ia_values a)" using assms(1) by (simp_all add: ints_ok_def)
  have old: "load (ia_values a) i = Some (ints_of a ! i)" using sz assms(3) by (simp add: ints_of_def)
  have removed: "\<exists>b. IntArray_removeAt a (int i) = Some (ints_of a ! i, b) \<and>
      (if i + 1 < ia_size a
       then ints_of b = take i (ints_of a) @ drop (i + 1) (ints_of a) \<and> ia_values b = ints_of b \<and> IntArray_add b v = None
       else if ia_size a = 1 then ints_of b = [] else b = a)"
  proof (cases "i + 1 < ia_size a")
    case True
    let ?vs = "take i (ints_of a) @ drop (i + 1) (ints_of a)"
    let ?b = "a\<lparr>ia_size := ia_size a - 1, ia_values := ?vs\<rparr>"
    have len: "length ?vs = ia_size a - 1" using True sz by (simp add: ints_of_def)
    have "IntArray_removeAt a (int i) = Some (ints_of a ! i, ?b)"
      using True old memdel_middle [OF True sz(1)] by (simp add: IntArray_removeAt_def IntArray_remove_def ints_of_def)
    moreover have "ints_of ?b = take (ia_size a - 1) ?vs" by (subst ints_of_def) simp
    moreover from len have "take (ia_size a - 1) ?vs = ?vs" by (intro take_all) simp
    moreover have "4 * ia_size a \<le> ia_capacity a" using sz by simp
    then have "IntArray_add ?b v = None"
      using len True assms(2) by (simp add: IntArray_add_def IntArray_ensure_def store_def mult.commute)
    ultimately show ?thesis using True by (intro exI [of _ ?b]) simp
  next
    case False
    then have e: "ia_size a = i + 1" using assms(3) by simp
    then have "IntArray_removeAt a (int i) = Some (ints_of a ! i, if ia_size a \<le> 1 then IntArray_clear a else a)"
      using old memdel_end [of "ia_size a" i "ia_values a"] by (simp add: IntArray_removeAt_def IntArray_remove_def)
    moreover have "ints_of (IntArray_clear a) = []" using sz e by (auto simp: IntArray_clear_def ints_of_def)
    ultimately show ?thesis using e by auto
  qed
  then show ?thesis using ints_add [OF assms(1,2)] by blast
qed

lemma int_array_add_and_removeAt_witness:
  "(\<exists>b. IntArray_removeAt \<lparr>ia_size = 3, ia_capacity = 12, ia_values = [5, 6, 7]\<rparr> 0 = Some (5, b) \<and>
      ints_of b = [6, 7] \<and> IntArray_add b 8 = None) \<and>
   IntArray_removeAt \<lparr>ia_size = 3, ia_capacity = 12, ia_values = [5, 6, 7]\<rparr> 2 =
     Some (7, \<lparr>ia_size = 3, ia_capacity = 12, ia_values = [5, 6, 7]\<rparr>)"
  using int_array_add_and_removeAt [of "\<lparr>ia_size = 3, ia_capacity = 12, ia_values = [5, 6, 7]\<rparr>" 0 8]
    int_array_add_and_removeAt [of "\<lparr>ia_size = 3, ia_capacity = 12, ia_values = [5, 6, 7]\<rparr>" 2 8]
  by (auto simp: ints_ok_def ints_of_def INT_LIMIT_def)

end
