(* ===== verification/Safe_Lane.thy ===== *)
theory Safe_Lane
  imports Array_Lemmas
begin

text \<open>
  The admission check of SPIR-V modules, \<^verbatim>\<open>vortekrenderer/src/vortek_safe_lane.c\<close>. A module is the list of the words at the
  code pointer; a read behind them is \<^const>\<open>None\<close>. The first walk rejects what would make the later walks of the
  inspector loop or read behind the module; the second relies on it.
\<close>

section \<open>The constants of \<^verbatim>\<open>spirv.h\<close> the check uses\<close>

definition SpvOpName :: u32 where "SpvOpName = 5"
definition SpvOpEntryPoint :: u32 where "SpvOpEntryPoint = 15"
definition SpvOpCapability :: u32 where "SpvOpCapability = 17"
definition SpvOpTypeVoid :: u32 where "SpvOpTypeVoid = 19"
definition SpvOpTypeInt :: u32 where "SpvOpTypeInt = 21"
definition SpvOpTypeFloat :: u32 where "SpvOpTypeFloat = 22"
definition SpvOpTypeVector :: u32 where "SpvOpTypeVector = 23"
definition SpvOpTypePointer :: u32 where "SpvOpTypePointer = 32"
definition SpvOpTypeForwardPointer :: u32 where "SpvOpTypeForwardPointer = 39"
definition SpvOpConstant :: u32 where "SpvOpConstant = 43"
definition SpvOpConstantComposite :: u32 where "SpvOpConstantComposite = 44"
definition SpvOpFunction :: u32 where "SpvOpFunction = 54"
definition SpvOpVariable :: u32 where "SpvOpVariable = 59"
definition SpvOpLoad :: u32 where "SpvOpLoad = 61"
definition SpvOpStore :: u32 where "SpvOpStore = 62"
definition SpvOpDecorate :: u32 where "SpvOpDecorate = 71"
definition SpvOpSelect :: u32 where "SpvOpSelect = 169"
definition SpvDecorationBuiltIn :: u32 where "SpvDecorationBuiltIn = 11"
definition SpvDecorationLocation :: u32 where "SpvDecorationLocation = 30"

named_theorems spirv_defs \<open>SPIR-V constants\<close>

declare SpvOpName_def [spirv_defs] SpvOpEntryPoint_def [spirv_defs] SpvOpCapability_def [spirv_defs]
  SpvOpTypeVoid_def [spirv_defs] SpvOpTypeInt_def [spirv_defs] SpvOpTypeFloat_def [spirv_defs]
  SpvOpTypeVector_def [spirv_defs] SpvOpTypePointer_def [spirv_defs] SpvOpTypeForwardPointer_def [spirv_defs]
  SpvOpConstant_def [spirv_defs] SpvOpConstantComposite_def [spirv_defs] SpvOpFunction_def [spirv_defs]
  SpvOpVariable_def [spirv_defs] SpvOpLoad_def [spirv_defs] SpvOpStore_def [spirv_defs] SpvOpDecorate_def [spirv_defs]
  SpvOpSelect_def [spirv_defs] SpvDecorationBuiltIn_def [spirv_defs] SpvDecorationLocation_def [spirv_defs]

definition VORTEK_SAFE_MAX_SPIRV_SIZE :: nat where
  "VORTEK_SAFE_MAX_SPIRV_SIZE = 16777216"

definition SPIRV_MAGIC :: u32 where "SPIRV_MAGIC = 0x07230203"
definition SPIRV_HEADER_WORDS :: nat where "SPIRV_HEADER_WORDS = 5"
definition SPIRV_WORD_COUNT_SHIFT :: nat where "SPIRV_WORD_COUNT_SHIFT = 16"
definition SPIRV_OPCODE_MASK :: u32 where "SPIRV_OPCODE_MASK = 0xffff"
definition SPIRV_MAX_ID_BOUND :: u32 where "SPIRV_MAX_ID_BOUND = 0x003fffff"

declare VORTEK_SAFE_MAX_SPIRV_SIZE_def [spirv_defs] SPIRV_MAGIC_def [spirv_defs] SPIRV_HEADER_WORDS_def [spirv_defs]
  SPIRV_WORD_COUNT_SHIFT_def [spirv_defs] SPIRV_OPCODE_MASK_def [spirv_defs] SPIRV_MAX_ID_BOUND_def [spirv_defs]

section \<open>The check\<close>

definition minimumInspectedInstructionWords :: "u32 \<Rightarrow> nat" where
  "minimumInspectedInstructionWords opcode =
     (if opcode = SpvOpName then 3
      else if opcode = SpvOpEntryPoint then 4
      else if opcode = SpvOpCapability then 2
      else if opcode = SpvOpDecorate then 3
      else if opcode = SpvOpVariable then 4
      else if opcode = SpvOpTypePointer then 4
      else if opcode = SpvOpTypeVector then 4
      else if opcode = SpvOpTypeFloat then 3
      else if opcode = SpvOpTypeInt then 4
      else if opcode = SpvOpConstant then 4
      else if opcode = SpvOpConstantComposite then 4
      else if opcode = SpvOpStore then 3
      else if opcode = SpvOpLoad then 4
      else if opcode = SpvOpFunction then 5
      else if opcode = SpvOpSelect then 6
      else if SpvOpTypeVoid \<le> opcode \<and> opcode \<le> SpvOpTypeForwardPointer then 2 else 1)"

text \<open>The length and the opcode of the instruction that starts with a word.\<close>

definition instruction_words :: "u32 \<Rightarrow> nat" where
  "instruction_words w = unat (drop_bit SPIRV_WORD_COUNT_SHIFT w)"

definition opcode_of :: "u32 \<Rightarrow> u32" where
  "opcode_of w = w AND SPIRV_OPCODE_MASK"

text \<open>The first walk.\<close>

function envelope_loop :: "u32 list \<Rightarrow> nat \<Rightarrow> nat \<Rightarrow> bool option" where
  "envelope_loop code wordCount cursor =
     (if cursor < wordCount then do {
        w \<leftarrow> load code cursor;
        (let instructionWords = instruction_words w
         in if instructionWords = 0 \<or> wordCount - cursor < instructionWords then Some False
         else let opcode = opcode_of w in do {
           minimumWords \<leftarrow>
             (if opcode = SpvOpDecorate \<and> 3 \<le> instructionWords then do {
                decoration \<leftarrow> load code (cursor + 2);
                Some (if decoration = SpvDecorationLocation \<or> decoration = SpvDecorationBuiltIn then 4
                      else minimumInspectedInstructionWords opcode) }
              else Some (minimumInspectedInstructionWords opcode));
           (if instructionWords < minimumWords then Some False
            else envelope_loop code wordCount (cursor + instructionWords)) }) }
      else Some True)"
  by pat_completeness auto
termination
  by (relation "measure (\<lambda>(code, wordCount, cursor). wordCount - cursor)") (auto simp: not_less)

declare envelope_loop.simps [simp del]

text \<open>\<open>address\<close> is the value of the code pointer.\<close>

definition VortekSafeLane_validateSpirvEnvelope :: "u32 list ptr \<Rightarrow> nat \<Rightarrow> nat \<Rightarrow> bool option" where
  "VortekSafeLane_validateSpirvEnvelope codePtr address codeSize =
     (case codePtr of
        None \<Rightarrow> Some False
      | Some code \<Rightarrow>
          (if codeSize < SPIRV_HEADER_WORDS * 4 \<or> VORTEK_SAFE_MAX_SPIRV_SIZE < codeSize then Some False
           else if codeSize mod 4 \<noteq> 0 \<or> address mod 4 \<noteq> 0 then Some False
           else do {
             magic \<leftarrow> load code 0;
             (if magic \<noteq> SPIRV_MAGIC then Some False
              else do {
                version \<leftarrow> load code 1;
                (let major = drop_bit 16 version AND 0xff; minor = drop_bit 8 version AND 0xff
                 in if version AND 0xff0000ff \<noteq> 0 \<or> major \<noteq> 1 \<or> 6 < minor then Some False
                 else do {
                   bound \<leftarrow> load code 3;
                   schema \<leftarrow> load code 4;
                   (if bound = 0 \<or> SPIRV_MAX_ID_BOUND < bound \<or> schema \<noteq> 0 then Some False
                    else envelope_loop code (codeSize div 4) SPIRV_HEADER_WORDS) }) }) }))"

text \<open>The second walk would not end at an instruction of length 0.\<close>

partial_function (option) inspector_loop ::
  "u32 list \<Rightarrow> nat \<Rightarrow> nat \<Rightarrow> bool \<Rightarrow> bool \<Rightarrow> (bool \<times> bool) option" where
  "inspector_loop code wordCount cursor hasEntryPoint hasFunction =
     (if cursor < wordCount then do {
        w \<leftarrow> load code cursor;
        inspector_loop code wordCount (cursor + instruction_words w)
          (hasEntryPoint \<or> opcode_of w = SpvOpEntryPoint) (hasFunction \<or> opcode_of w = SpvOpFunction) }
      else Some (hasEntryPoint, hasFunction))"

declare inspector_loop.simps [code]

definition VortekSafeLane_validateSpirvForInspector :: "u32 list ptr \<Rightarrow> nat \<Rightarrow> nat \<Rightarrow> bool option" where
  "VortekSafeLane_validateSpirvForInspector codePtr address codeSize = do {
     ok \<leftarrow> VortekSafeLane_validateSpirvEnvelope codePtr address codeSize;
     (if \<not> ok then Some False
      else (case codePtr of
        None \<Rightarrow> None
      | Some code \<Rightarrow> do {
          (e, f) \<leftarrow> inspector_loop code (codeSize div 4) SPIRV_HEADER_WORDS False False;
          Some (e \<and> f) })) }"

section \<open>Well-formed modules\<close>

text \<open>What an instruction must be, said of its words alone.\<close>

definition needed_words :: "u32 list \<Rightarrow> nat" where
  "needed_words i =
     (if opcode_of (hd i) = SpvOpDecorate \<and> 3 \<le> length i \<and> i ! 2 \<in> {SpvDecorationLocation, SpvDecorationBuiltIn}
      then 4 else minimumInspectedInstructionWords (opcode_of (hd i)))"

definition instruction_ok :: "u32 list \<Rightarrow> bool" where
  "instruction_ok i \<longleftrightarrow> i \<noteq> [] \<and> length i = instruction_words (hd i) \<and> needed_words i \<le> length i"

definition header_ok :: "u32 list \<Rightarrow> bool" where
  "header_ok ws \<longleftrightarrow> 5 \<le> length ws \<and> ws ! 0 = SPIRV_MAGIC \<and>
     (\<exists>minor\<le>6. ws ! 1 = word_of_nat (65536 + 256 * minor)) \<and> 0 < ws ! 3 \<and> ws ! 3 \<le> SPIRV_MAX_ID_BOUND \<and> ws ! 4 = 0"

text \<open>A module: the header and whole instructions.\<close>

definition instructions :: "u32 list \<Rightarrow> u32 list list \<Rightarrow> bool" where
  "instructions ws is \<longleftrightarrow> ws = concat is \<and> list_all instruction_ok is"

lemma instructions_Nil: "instructions [] is \<longleftrightarrow> is = []"
  by (cases "is") (auto simp: instructions_def instruction_ok_def)

lemma ex_instructions_Nil: "\<exists>is. instructions [] is"
  by (simp add: instructions_Nil)

lemma instructions_split:
  assumes "ws \<noteq> []"
  shows "(\<exists>is. instructions ws is) \<longleftrightarrow>
    (instruction_words (hd ws) \<le> length ws \<and> instruction_ok (take (instruction_words (hd ws)) ws) \<and>
     (\<exists>is. instructions (drop (instruction_words (hd ws)) ws) is))" (is "_ = (?n \<le> _ \<and> _)")
proof
  assume "\<exists>is. instructions ws is"
  then obtain js where "instructions ws js" by blast
  with assms obtain i "is" where i: "ws = i @ concat is" "instruction_ok i" "list_all instruction_ok is"
    by (cases js) (auto simp: instructions_def)
  then have n: "?n = length i" by (auto simp: instruction_ok_def)
  have "instructions (drop ?n ws) is" unfolding n using i by (simp add: instructions_def)
  moreover have "take ?n ws = i" unfolding n using i(1) by simp
  moreover have "?n \<le> length ws" unfolding n using i(1) by simp
  ultimately show "?n \<le> length ws \<and> instruction_ok (take ?n ws) \<and> (\<exists>is. instructions (drop ?n ws) is)"
    using i(2) by blast
next
  assume r: "?n \<le> length ws \<and> instruction_ok (take ?n ws) \<and> (\<exists>is. instructions (drop ?n ws) is)"
  then obtain "is" where "instructions (drop ?n ws) is" by blast
  with r have "instructions ws (take ?n ws # is)"
    by (simp add: instructions_def) (metis append_take_drop_id)
  then show "\<exists>is. instructions ws is" by blast
qed

lemma envelope_loop_spec:
  assumes "n \<le> length code"
  shows "cursor \<le> n \<Longrightarrow> \<exists>r. envelope_loop code n cursor = Some r \<and> (r \<longleftrightarrow> (\<exists>is. instructions (drop cursor (take n code)) is))"
proof (induction "n - cursor" arbitrary: cursor rule: less_induct)
  case less
  show ?case
  proof (cases "cursor < n")
    case False
    then have "envelope_loop code n cursor = Some True" by (subst envelope_loop.simps) simp
    then show ?thesis using False less.prems ex_instructions_Nil by auto
  next
    case True
    let ?ws = "drop cursor (take n code)" and ?k = "instruction_words (code ! cursor)" and ?op = "opcode_of (code ! cursor)"
    have ld: "load code cursor = Some (code ! cursor)" using True assms by simp
    have ws: "?ws \<noteq> []" "hd ?ws = code ! cursor" "length ?ws = n - cursor"
      using True assms by (simp_all add: hd_drop_conv_nth)
    note split = instructions_split [OF ws(1), unfolded ws(2,3)]
    show ?thesis
    proof (cases "?k = 0 \<or> n - cursor < ?k")
      case True
      then have "\<not> (\<exists>is. instructions ?ws is)" unfolding split by (auto simp: instruction_ok_def)
      moreover have "envelope_loop code n cursor = Some False"
        using True ld \<open>cursor < n\<close> by (subst envelope_loop.simps) auto
      ultimately show ?thesis by simp
    next
      case False
      let ?i = "take ?k ?ws"
      let ?min = "needed_words ?i"
      have i: "length ?i = ?k" "hd ?i = code ! cursor" using False ws by (simp_all add: hd_take)
      have i2: "load code (cursor + 2) = Some (?i ! 2)" if "3 \<le> ?k" using that False assms by simp
      have "envelope_loop code n cursor =
          (if ?k < ?min then Some False else envelope_loop code n (cursor + ?k))"
      proof (cases "?op = SpvOpDecorate \<and> 3 \<le> ?k")
        case True
        then show ?thesis using ld False \<open>cursor < n\<close> i i2
          by (subst envelope_loop.simps) (simp add: needed_words_def Let_def del: nth_take)
      next
        case no: False
        then have "?min = minimumInspectedInstructionWords ?op" using i unfolding needed_words_def by auto
        then show ?thesis using ld False no \<open>cursor < n\<close> by (subst envelope_loop.simps) (auto simp: Let_def)
      qed
      moreover have "instruction_ok ?i \<longleftrightarrow> \<not> ?k < ?min" unfolding instruction_ok_def i using False ws by auto
      moreover have "\<exists>r. envelope_loop code n (cursor + ?k) = Some r \<and>
          (r \<longleftrightarrow> (\<exists>is. instructions (drop (cursor + ?k) (take n code)) is))"
        using False True less.prems by (intro less.hyps) auto
      ultimately show ?thesis unfolding split using False by (auto simp: add.commute)
    qed
  qed
qed

lemma inspector_loop_spec:
  assumes "n \<le> length code"
  shows "instructions (drop cursor (take n code)) is \<Longrightarrow> cursor \<le> n \<Longrightarrow>
    inspector_loop code n cursor e f =
      Some (e \<or> (\<exists>i\<in>set is. opcode_of (hd i) = SpvOpEntryPoint), f \<or> (\<exists>i\<in>set is. opcode_of (hd i) = SpvOpFunction))"
proof (induction "is" arbitrary: cursor e f)
  case Nil
  then show ?case using assms by (subst inspector_loop.simps) (simp add: instructions_def)
next
  case (Cons i "is")
  let ?ws = "drop cursor (take n code)"
  have i: "?ws = i @ concat is" "instruction_ok i" "list_all instruction_ok is"
    using Cons.prems(1) by (simp_all add: instructions_def)
  then have ne: "i \<noteq> []" "?ws \<noteq> []" by (auto simp: instruction_ok_def)
  then have lt: "cursor < n" using Cons.prems(2) by (cases "cursor < n") simp_all
  have hd: "code ! cursor = hd i" using i(1) ne lt assms by (metis drop_take hd_append2 hd_drop_conv_nth length_take min.absorb2 nth_take)
  have k: "instruction_words (hd i) = length i" using i(2) by (simp add: instruction_ok_def)
  have "drop (cursor + length i) (take n code) = drop (length i) ?ws" by (simp add: add.commute)
  then have rest: "instructions (drop (cursor + length i) (take n code)) is"
    using i(1,3) by (simp add: instructions_def)
  have "length i \<le> n - cursor" using arg_cong [OF i(1), of length] assms by simp
  then have "cursor + length i \<le> n" using lt by simp
  from Cons.IH [OF rest this] show ?case
    using lt assms hd k by (subst inspector_loop.simps) auto
qed

section \<open>The header\<close>

lemma unat_and_255: "unat ((w :: u32) AND 255) = unat w mod 256"
proof -
  have "unat (w AND 255) = unat w AND 255" by (simp add: unsigned_and_eq)
  then show ?thesis using and_pow2_mask_nat [of "unat w" 8] by simp
qed

lemma unat_drop_32: "unat (drop_bit k (w :: u32)) = unat w div 2 ^ k"
  unfolding unat_drop_bit_eq by (simp add: drop_bit_eq_div)

lemma version_number:
  assumes "v mod 256 = 0" "v div 2 ^ 24 mod 256 = 0" "v div 2 ^ 16 mod 256 = 1" "v div 2 ^ 8 mod 256 \<le> 6" "v < (2 :: nat) ^ 32"
  shows "\<exists>m\<le>6. v = 65536 + 256 * m"
proof -
  have "v div 2 ^ 24 < 256" using assms(5) by (simp add: div_less_iff_less_mult)
  then have "v div 2 ^ 24 = 0" using assms(2) by simp
  then have "v < 2 ^ 24" by (simp add: div_eq_0_iff)
  then have "v div 2 ^ 16 < 256" by (simp add: div_less_iff_less_mult)
  then have d: "v div 65536 = 1" using assms(3) by simp
  have "v div 256 = 256 + v div 256 mod 256"
  proof -
    have "v div 256 div 256 = 1" using d by (simp add: div_mult2_eq [symmetric])
    then show ?thesis using div_mult_mod_eq [of "v div 256" 256] by simp
  qed
  then have "v = 65536 + 256 * (v div 256 mod 256)" using assms(1) div_mult_mod_eq [of v 256] by linarith
  then show ?thesis using assms(4) by auto
qed

lemma version_ok:
  "version AND 0xff0000ff = 0 \<and> drop_bit 16 version AND 0xff = 1 \<and> drop_bit 8 version AND 0xff \<le> 6 \<longleftrightarrow>
     (\<exists>minor\<le>6. (version :: u32) = word_of_nat (65536 + 256 * minor))"
proof
  assume v: "version AND 0xff0000ff = 0 \<and> drop_bit 16 version AND 0xff = 1 \<and> drop_bit 8 version AND 0xff \<le> 6"
  have "version AND 255 = (version AND 0xff0000ff) AND 255" by (simp add: and.assoc)
  then have "unat version mod 256 = 0" using v unat_and_255 [of version] by simp
  moreover have "drop_bit 24 version AND 255 = drop_bit 24 (version AND 0xff0000ff)" by simp
  then have "unat version div 2 ^ 24 mod 256 = 0"
    using v unat_and_255 [of "drop_bit 24 version"] unat_drop_32 [of 24 version] by simp
  moreover have "unat version div 2 ^ 16 mod 256 = 1"
    using v unat_and_255 [of "drop_bit 16 version"] unat_drop_32 [of 16 version] by simp
  moreover have "unat version div 2 ^ 8 mod 256 \<le> 6"
    using v unat_and_255 [of "drop_bit 8 version"] unat_drop_32 [of 8 version] by (simp add: word_le_nat_alt)
  moreover have "unat version < 2 ^ 32" using unsigned_less [of version, where ?'a = nat] by simp
  ultimately have "\<exists>m\<le>6. unat version = 65536 + 256 * m" by (intro version_number)
  then obtain m where "m \<le> 6" "unat version = 65536 + 256 * m" by blast
  then show "\<exists>minor\<le>6. version = word_of_nat (65536 + 256 * minor)" by (metis of_nat_unat ucast_id)
next
  assume "\<exists>minor\<le>6. version = word_of_nat (65536 + 256 * minor)"
  then obtain m :: nat where m: "m \<le> 6" "version = word_of_nat (65536 + 256 * m)" by blast
  then have "m = 0 \<or> m = 1 \<or> m = 2 \<or> m = 3 \<or> m = 4 \<or> m = 5 \<or> m = 6" by linarith
  then show "version AND 0xff0000ff = 0 \<and> drop_bit 16 version AND 0xff = 1 \<and> drop_bit 8 version AND 0xff \<le> 6"
    unfolding m(2) by (elim disjE) simp_all
qed

section \<open>The property\<close>

lemma opcode_in: "op \<in> (opcode_of \<circ> hd) ` S \<longleftrightarrow> (\<exists>i\<in>S. opcode_of (hd i) = op)"
  by force

lemma envelope_spec:
  assumes "codeSize \<le> 4 * length code"
  shows "\<exists>r. VortekSafeLane_validateSpirvEnvelope (Some code) address codeSize = Some r \<and>
    (r \<longleftrightarrow> 20 \<le> codeSize \<and> codeSize \<le> VORTEK_SAFE_MAX_SPIRV_SIZE \<and> codeSize mod 4 = 0 \<and> address mod 4 = 0 \<and>
       header_ok (take (codeSize div 4) code) \<and> (\<exists>is. instructions (drop 5 (take (codeSize div 4) code)) is))"
proof (cases "20 \<le> codeSize \<and> codeSize \<le> VORTEK_SAFE_MAX_SPIRV_SIZE \<and> codeSize mod 4 = 0 \<and> address mod 4 = 0")
  case False
  then show ?thesis by (auto simp: VortekSafeLane_validateSpirvEnvelope_def SPIRV_HEADER_WORDS_def)
next
  case True
  let ?n = "codeSize div 4"
  have n: "5 \<le> ?n" "?n \<le> length code" using True assms by auto
  then have ld: "load code 0 = Some (code ! 0)" "load code 1 = Some (code ! 1)" "load code 3 = Some (code ! 3)"
    "load code 4 = Some (code ! 4)" by (auto simp: load_def)
  obtain r where r: "envelope_loop code ?n 5 = Some r" "r \<longleftrightarrow> (\<exists>is. instructions (drop 5 (take ?n code)) is)"
    using envelope_loop_spec [OF n(2,1)] by blast
  have hdr: "header_ok (take ?n code) \<longleftrightarrow> code ! 0 = SPIRV_MAGIC \<and>
      (code ! 1 AND 0xff0000ff = 0 \<and> drop_bit 16 (code ! 1) AND 0xff = 1 \<and> drop_bit 8 (code ! 1) AND 0xff \<le> 6) \<and>
      0 < code ! 3 \<and> code ! 3 \<le> SPIRV_MAX_ID_BOUND \<and> code ! 4 = 0"
    unfolding version_ok using n by (simp add: header_ok_def)
  have "VortekSafeLane_validateSpirvEnvelope (Some code) address codeSize = Some (header_ok (take ?n code) \<and> r)"
    unfolding VortekSafeLane_validateSpirvEnvelope_def hdr
    using True ld r(1) by (auto simp: SPIRV_HEADER_WORDS_def Let_def word_gt_0 not_le not_less)
  then show ?thesis using True r(2) by auto
qed

text \<open>The check returns.\<close>

lemma admission_total:
  assumes "codeSize \<le> 4 * length code"
  shows "\<exists>r. VortekSafeLane_validateSpirvForInspector (Some code) address codeSize = Some r"
proof -
  let ?n = "codeSize div 4"
  obtain r where r: "VortekSafeLane_validateSpirvEnvelope (Some code) address codeSize = Some r"
    "r \<Longrightarrow> 20 \<le> codeSize \<and> (\<exists>is. instructions (drop 5 (take ?n code)) is)"
    using envelope_spec [OF assms] by blast
  show ?thesis
  proof (cases r)
    case True
    then obtain "is" where "instructions (drop 5 (take ?n code)) is" "20 \<le> codeSize" using r(2) by blast
    moreover have "?n \<le> length code" using assms by auto
    ultimately show ?thesis using r(1) True inspector_loop_spec [of ?n code 5 "is" False False]
      by (simp add: VortekSafeLane_validateSpirvForInspector_def SPIRV_HEADER_WORDS_def)
  qed (use r(1) in \<open>auto simp: VortekSafeLane_validateSpirvForInspector_def\<close>)
qed

text \<open>What an admitted module is.\<close>

lemma admitted_module:
  assumes "VortekSafeLane_validateSpirvForInspector (Some code) address codeSize = Some True" "codeSize \<le> 4 * length code"
  obtains "is" where "20 \<le> codeSize" "codeSize mod 4 = 0" "header_ok (take (codeSize div 4) code)"
    "instructions (drop 5 (take (codeSize div 4) code)) is"
    "SpvOpEntryPoint \<in> (opcode_of \<circ> hd) ` set is" "SpvOpFunction \<in> (opcode_of \<circ> hd) ` set is"
proof -
  let ?n = "codeSize div 4"
  obtain r where r: "VortekSafeLane_validateSpirvEnvelope (Some code) address codeSize = Some r"
    "r \<longleftrightarrow> 20 \<le> codeSize \<and> codeSize \<le> VORTEK_SAFE_MAX_SPIRV_SIZE \<and> codeSize mod 4 = 0 \<and> address mod 4 = 0 \<and>
       header_ok (take ?n code) \<and> (\<exists>is. instructions (drop 5 (take ?n code)) is)"
    using envelope_spec [OF assms(2)] by blast
  then have "r" using assms(1) by (cases r) (simp_all add: VortekSafeLane_validateSpirvForInspector_def)
  then obtain "is" where i: "instructions (drop 5 (take ?n code)) is" using r(2) by blast
  have n: "?n \<le> length code" "5 \<le> ?n" using assms(2) \<open>r\<close> r(2) by auto
  show thesis
    using that [of "is"] i r \<open>r\<close> assms(1) inspector_loop_spec [OF n(1) i n(2), of False False]
    by (auto simp: VortekSafeLane_validateSpirvForInspector_def SPIRV_HEADER_WORDS_def opcode_in [symmetric])
qed

text \<open>And what is admitted.\<close>

lemma admitted_if:
  assumes "codeSize \<le> 4 * length code" "20 \<le> codeSize" "codeSize \<le> VORTEK_SAFE_MAX_SPIRV_SIZE" "codeSize mod 4 = 0" "address mod 4 = 0"
    and "header_ok (take (codeSize div 4) code)" "instructions (drop 5 (take (codeSize div 4) code)) is"
    and "SpvOpEntryPoint \<in> (opcode_of \<circ> hd) ` set is" "SpvOpFunction \<in> (opcode_of \<circ> hd) ` set is"
  shows "VortekSafeLane_validateSpirvForInspector (Some code) address codeSize = Some True"
proof -
  let ?n = "codeSize div 4"
  have "VortekSafeLane_validateSpirvEnvelope (Some code) address codeSize = Some True"
    using envelope_spec [OF assms(1), of address] assms(2-7) by auto
  moreover have "?n \<le> length code" "5 \<le> ?n" using assms(1,2) by auto
  then have "inspector_loop code ?n 5 False False = Some (True, True)"
    using inspector_loop_spec [of ?n code 5 "is" False False] assms(7) assms(8,9) [unfolded opcode_in] by simp
  ultimately show ?thesis by (simp add: VortekSafeLane_validateSpirvForInspector_def SPIRV_HEADER_WORDS_def)
qed

text \<open>C25: The admission check of a shader module is exact and safe. For every module inside the memory at the
  code pointer it reads no word outside the module and returns, and it accepts precisely the modules with a
  valid header that consist of whole instructions, each at least as long as the inspector needs, at least one of
  them an entry point and at least one a function.\<close>

theorem shader_admission_exact:
  assumes "codeSize \<le> 4 * length code"
  shows "\<exists>r. VortekSafeLane_validateSpirvForInspector (Some code) address codeSize = Some r \<and>
    (r \<longleftrightarrow> 20 \<le> codeSize \<and> codeSize \<le> VORTEK_SAFE_MAX_SPIRV_SIZE \<and> codeSize mod 4 = 0 \<and> address mod 4 = 0 \<and>
       header_ok (take (codeSize div 4) code) \<and>
       (\<exists>is. instructions (drop 5 (take (codeSize div 4) code)) is \<and>
          SpvOpEntryPoint \<in> (opcode_of \<circ> hd) ` set is \<and> SpvOpFunction \<in> (opcode_of \<circ> hd) ` set is))"
proof -
  let ?n = "codeSize div 4" and ?ws = "drop 5 (take (codeSize div 4) code)"
  have n: "?n \<le> length code" using assms by auto
  obtain r where r: "VortekSafeLane_validateSpirvEnvelope (Some code) address codeSize = Some r"
    "r \<longleftrightarrow> 20 \<le> codeSize \<and> codeSize \<le> VORTEK_SAFE_MAX_SPIRV_SIZE \<and> codeSize mod 4 = 0 \<and> address mod 4 = 0 \<and>
       header_ok (take ?n code) \<and> (\<exists>is. instructions ?ws is)"
    using envelope_spec [OF assms] by blast
  show ?thesis
  proof (cases r)
    case False
    then have "VortekSafeLane_validateSpirvForInspector (Some code) address codeSize = Some False"
      using r(1) by (simp add: VortekSafeLane_validateSpirvForInspector_def)
    then show ?thesis using False r(2) by blast
  next
    case True
    then have "5 \<le> ?n" using r(2) by auto
    then have walk: "inspector_loop code ?n 5 False False =
        Some (SpvOpEntryPoint \<in> (opcode_of \<circ> hd) ` set is, SpvOpFunction \<in> (opcode_of \<circ> hd) ` set is)"
      if "instructions ?ws is" for "is"
      unfolding opcode_in using inspector_loop_spec [OF n that, of False False] by simp
    obtain "is" where "is": "instructions ?ws is" using True r(2) by blast
    let ?r = "SpvOpEntryPoint \<in> (opcode_of \<circ> hd) ` set is \<and> SpvOpFunction \<in> (opcode_of \<circ> hd) ` set is"
    have "VortekSafeLane_validateSpirvForInspector (Some code) address codeSize = Some ?r"
      using True r(1) walk [OF "is"] by (simp add: VortekSafeLane_validateSpirvForInspector_def SPIRV_HEADER_WORDS_def)
    moreover have "(\<exists>js. instructions ?ws js \<and> SpvOpEntryPoint \<in> (opcode_of \<circ> hd) ` set js \<and>
        SpvOpFunction \<in> (opcode_of \<circ> hd) ` set js) \<longleftrightarrow> ?r"
    proof
      assume "\<exists>js. instructions ?ws js \<and> SpvOpEntryPoint \<in> (opcode_of \<circ> hd) ` set js \<and> SpvOpFunction \<in> (opcode_of \<circ> hd) ` set js"
      then obtain js where js: "instructions ?ws js" "SpvOpEntryPoint \<in> (opcode_of \<circ> hd) ` set js" "SpvOpFunction \<in> (opcode_of \<circ> hd) ` set js"
        by blast
      from walk [OF js(1)] walk [OF "is"] js(2,3) show ?r by simp
    qed (use "is" in blast)
    ultimately show ?thesis using True r(2) by (intro exI [of _ ?r]) blast
  qed
qed

text \<open>The smallest admitted module: an entry point of four words and a function of five.\<close>

lemma shader_admission_exact_witness:
  "VortekSafeLane_validateSpirvForInspector
     (Some [0x07230203, 0x10000, 0, 8, 0, 0x4000f, 0, 1, 0, 0x50036, 2, 1, 0, 3]) 4096 56 = Some True"
proof -
  let ?code = "[0x07230203, 0x10000, 0, 8, 0, 0x4000f, 0, 1, 0, 0x50036, 2, 1, 0, 3] :: u32 list"
  let ?is = "[[0x4000f, 0, 1, 0], [0x50036, 2, 1, 0, 3]] :: u32 list list"
  have t: "take (56 div 4) ?code = ?code" by simp
  have "header_ok ?code" unfolding header_ok_def by (auto simp: spirv_defs intro!: exI [of _ 0])
  moreover have "instructions (drop 5 ?code) ?is"
    by (simp add: instructions_def instruction_ok_def needed_words_def minimumInspectedInstructionWords_def
        instruction_words_def opcode_of_def spirv_defs)
  moreover have "SpvOpEntryPoint \<in> (opcode_of \<circ> hd) ` set ?is" "SpvOpFunction \<in> (opcode_of \<circ> hd) ` set ?is"
    by (simp_all add: opcode_of_def spirv_defs)
  moreover have "(56 :: nat) \<le> VORTEK_SAFE_MAX_SPIRV_SIZE" by (simp add: spirv_defs)
  ultimately show ?thesis
    using shader_admission_exact [of 56 ?code 4096] unfolding t by auto
qed

end
