(* ===== verification/Swapchain_Transaction.thy ===== *)
theory Swapchain_Transaction
  imports Array_Lemmas "HOL-Library.Multiset"
begin

text \<open>
  The transactional construction of the images of a window swapchain,
  \<^verbatim>\<open>vortekrenderer/include/xwindow_swapchain_transaction.h\<close>. The callbacks are parameters: functions on a state
  \<^typ>\<open>'w\<close> of their own that return their result, what they left in their out parameter (which holds 0 before the
  call) and the next state. A handle or pointer is a \<^typ>\<open>u64\<close>, 0 for none.
\<close>

section \<open>The data\<close>

record VtXWindowTransactionImage =
  tx_image :: u64
  tx_memory :: u64

record 'w VtXWindowTransactionOps =
  beginImage :: "('w \<Rightarrow> nat \<Rightarrow> int \<times> 'w) ptr"
  createImage :: "('w \<Rightarrow> nat \<Rightarrow> int \<times> u64 \<times> 'w) ptr"
  allocateMemory :: "('w \<Rightarrow> nat \<Rightarrow> u64 \<Rightarrow> int \<times> u64 \<times> 'w) ptr"
  bindImageMemory :: "('w \<Rightarrow> nat \<Rightarrow> u64 \<Rightarrow> u64 \<Rightarrow> int \<times> 'w) ptr"
  endImage :: "('w \<Rightarrow> nat \<Rightarrow> 'w) ptr"
  destroyImage :: "('w \<Rightarrow> u64 \<Rightarrow> 'w) ptr"
  freeMemory :: "('w \<Rightarrow> u64 \<Rightarrow> 'w) ptr"
  tx_invalidResult :: int

record 'w VtXWindowHeapOps =
  allocateZeroed :: "('w \<Rightarrow> nat \<Rightarrow> nat \<Rightarrow> u64 \<times> 'w) ptr"
  freeAllocation :: "('w \<Rightarrow> u64 \<Rightarrow> 'w) ptr"
  outOfMemoryResult :: int
  heap_invalidResult :: int

definition INT32_MIN :: int where
  "INT32_MIN = - 2147483648"

section \<open>The operations\<close>

text \<open>The out pointers are given or NULL; the result is the code, what they then hold, and the state.\<close>

definition vt_xwindow_transaction_allocate_heap ::
  "'w VtXWindowHeapOps ptr \<Rightarrow> 'w \<Rightarrow> nat \<Rightarrow> nat \<Rightarrow> nat \<Rightarrow> u64 ptr \<Rightarrow> u64 ptr \<Rightarrow> int \<times> u64 ptr \<times> u64 ptr \<times> 'w" where
  "vt_xwindow_transaction_allocate_heap opsPtr w wrapperSize imageCount imageSize wrapperOut0 imagesOut0 =
     (let wrapperOut = map_option (\<lambda>_. 0) wrapperOut0;
          imagesOut = map_option (\<lambda>_. 0) imagesOut0
      in case opsPtr of
           None \<Rightarrow> (INT32_MIN, wrapperOut, imagesOut, w)
         | Some ops \<Rightarrow>
             (case (allocateZeroed ops, freeAllocation ops) of
                (Some alloc, Some free) \<Rightarrow>
                  (if wrapperOut = None \<or> imagesOut = None \<or> wrapperSize = 0 \<or> imageCount = 0 \<or> imageSize = 0
                   then (heap_invalidResult ops, wrapperOut, imagesOut, w)
                   else if SIZE_MAX div imageSize < imageCount then (outOfMemoryResult ops, wrapperOut, imagesOut, w)
                   else case alloc w 1 wrapperSize of (wrapper, w1) \<Rightarrow>
                     (if wrapper = 0 then (outOfMemoryResult ops, wrapperOut, imagesOut, w1)
                      else case alloc w1 imageCount imageSize of (images, w2) \<Rightarrow>
                        (if images = 0 then (outOfMemoryResult ops, wrapperOut, imagesOut, free w2 wrapper)
                         else (0, Some wrapper, Some images, w2))))
              | _ \<Rightarrow> (heap_invalidResult ops, wrapperOut, imagesOut, w)))"

text \<open>\<open>call_unless_null\<close> is a destroy callback behind its two guards.\<close>

definition call_unless_null :: "('w \<Rightarrow> u64 \<Rightarrow> 'w) ptr \<Rightarrow> u64 \<Rightarrow> 'w \<Rightarrow> 'w" where
  "call_unless_null f x w = (if x \<noteq> 0 then (case f of Some g \<Rightarrow> g w x | None \<Rightarrow> w) else w)"

fun rollback_loop ::
  "'w VtXWindowTransactionOps \<Rightarrow> 'w \<Rightarrow> VtXWindowTransactionImage list \<Rightarrow> nat
     \<Rightarrow> (VtXWindowTransactionImage list \<times> 'w) option" where
  "rollback_loop ops w images 0 = Some (images, w)"
| "rollback_loop ops w images (Suc n) = do {
     img \<leftarrow> load images n;
     images' \<leftarrow> store images n \<lparr>tx_image = 0, tx_memory = 0\<rparr>;
     rollback_loop ops
       (call_unless_null (freeMemory ops) (tx_memory img) (call_unless_null (destroyImage ops) (tx_image img) w))
       images' n }"

definition vt_xwindow_transaction_rollback ::
  "'w VtXWindowTransactionOps ptr \<Rightarrow> 'w \<Rightarrow> VtXWindowTransactionImage list ptr \<Rightarrow> nat
     \<Rightarrow> (VtXWindowTransactionImage list ptr \<times> 'w) option" where
  "vt_xwindow_transaction_rollback opsPtr w imagesPtr n =
     (case (opsPtr, imagesPtr) of
        (Some ops, Some images) \<Rightarrow> map_option (\<lambda>(images', w'). (Some images', w')) (rollback_loop ops w images n)
      | _ \<Rightarrow> Some (imagesPtr, w))"

text \<open>One image between \<open>beginImage\<close> and \<open>endImage\<close>: the result, the image, the memory.\<close>

definition build_image ::
  "('w \<Rightarrow> nat \<Rightarrow> int \<times> 'w) \<Rightarrow> ('w \<Rightarrow> nat \<Rightarrow> int \<times> u64 \<times> 'w) \<Rightarrow> ('w \<Rightarrow> nat \<Rightarrow> u64 \<Rightarrow> int \<times> u64 \<times> 'w)
     \<Rightarrow> ('w \<Rightarrow> nat \<Rightarrow> u64 \<Rightarrow> u64 \<Rightarrow> int \<times> 'w) \<Rightarrow> ('w \<Rightarrow> nat \<Rightarrow> 'w) \<Rightarrow> int \<Rightarrow> 'w \<Rightarrow> nat \<Rightarrow> int \<times> u64 \<times> u64 \<times> 'w" where
  "build_image beginF create allocF bindF endF invalid w index =
     (case beginF w index of (r1, w1) \<Rightarrow>
      case (if r1 = 0 then create w1 index else (r1, 0, w1)) of (r2, img, w2) \<Rightarrow>
      let r3 = (if r2 = 0 \<and> img = 0 then invalid else r2) in
      case (if r3 = 0 then allocF w2 index img else (r3, 0, w2)) of (r4, mem, w3) \<Rightarrow>
      let r5 = (if r4 = 0 \<and> mem = 0 then invalid else r4) in
      case (if r5 = 0 then bindF w3 index img mem else (r5, w3)) of (r6, w4) \<Rightarrow>
      (r6, img, mem, endF w4 index))"

function build_loop ::
  "'w VtXWindowTransactionOps \<Rightarrow> ('w \<Rightarrow> nat \<Rightarrow> int \<times> u64 \<times> u64 \<times> 'w) \<Rightarrow> 'w \<Rightarrow> nat \<Rightarrow> nat
     \<Rightarrow> VtXWindowTransactionImage list \<Rightarrow> (int \<times> VtXWindowTransactionImage list \<times> 'w) option" where
  "build_loop ops child w index n images =
     (if index < n then
        case child w index of (result, img, mem, w1) \<Rightarrow>
          (if result \<noteq> 0 then do {
             (images', w2) \<leftarrow> rollback_loop ops
               (call_unless_null (freeMemory ops) mem (call_unless_null (destroyImage ops) img w1)) images index;
             Some (result, images', w2) }
           else do {
             images' \<leftarrow> store images index \<lparr>tx_image = img, tx_memory = mem\<rparr>;
             build_loop ops child w1 (index + 1) n images' })
      else Some (0, images, w))"
  by pat_completeness auto
termination
  by (relation "measure (\<lambda>(ops, child, w, index, n, images). n - index)") auto

declare build_loop.simps [simp del]

definition vt_xwindow_transaction_build ::
  "'w VtXWindowTransactionOps ptr \<Rightarrow> 'w \<Rightarrow> nat \<Rightarrow> VtXWindowTransactionImage list ptr
     \<Rightarrow> (int \<times> VtXWindowTransactionImage list ptr \<times> 'w) option" where
  "vt_xwindow_transaction_build opsPtr w n imagesPtr =
     (case opsPtr of
        None \<Rightarrow> Some (INT32_MIN, imagesPtr, w)
      | Some ops \<Rightarrow>
          (case (beginImage ops, createImage ops, allocateMemory ops, bindImageMemory ops, endImage ops,
                 destroyImage ops, freeMemory ops, imagesPtr) of
             (Some beginF, Some create, Some allocF, Some bindF, Some endF, Some _, Some _, Some images) \<Rightarrow>
               (if n = 0 then Some (tx_invalidResult ops, imagesPtr, w)
                else map_option (\<lambda>(r, images', w'). (r, Some images', w'))
                  (build_loop ops (build_image beginF create allocF bindF endF (tx_invalidResult ops)) w 0 n images))
           | _ \<Rightarrow> Some (tx_invalidResult ops, imagesPtr, w)))"

section \<open>Recorded callbacks\<close>

text \<open>Callbacks that answer as they like, as functions of everything that happened before, and record it.\<close>

datatype call = Begin nat int | Create nat int u64 | Allocate nat u64 int u64 | Bind nat u64 u64 int | End nat
  | Destroy u64 | Free u64

definition recorded ::
  "(call list \<Rightarrow> nat \<Rightarrow> int) \<Rightarrow> (call list \<Rightarrow> nat \<Rightarrow> int \<times> u64) \<Rightarrow> (call list \<Rightarrow> nat \<Rightarrow> u64 \<Rightarrow> int \<times> u64)
     \<Rightarrow> (call list \<Rightarrow> nat \<Rightarrow> u64 \<Rightarrow> u64 \<Rightarrow> int) \<Rightarrow> int \<Rightarrow> call list VtXWindowTransactionOps" where
  "recorded beg cre allo bin invalid =
     \<lparr>beginImage = Some (\<lambda>h i. (beg h i, h @ [Begin i (beg h i)])),
      createImage = Some (\<lambda>h i. case cre h i of (r, x) \<Rightarrow> (r, x, h @ [Create i r x])),
      allocateMemory = Some (\<lambda>h i x. case allo h i x of (r, m) \<Rightarrow> (r, m, h @ [Allocate i x r m])),
      bindImageMemory = Some (\<lambda>h i x m. (bin h i x m, h @ [Bind i x m (bin h i x m)])),
      endImage = Some (\<lambda>h i. h @ [End i]),
      destroyImage = Some (\<lambda>h x. h @ [Destroy x]),
      freeMemory = Some (\<lambda>h m. h @ [Free m]),
      tx_invalidResult = invalid\<rparr>"

text \<open>What a record says was created, destroyed, begun and ended.\<close>

definition handles :: "(call \<Rightarrow> u64 option) \<Rightarrow> call list \<Rightarrow> u64 list" where
  "handles f h = filter (\<lambda>x. x \<noteq> 0) (List.map_filter f h)"

fun created_image :: "call \<Rightarrow> u64 option" where
  "created_image (Create _ _ x) = Some x"
| "created_image _ = None"

fun created_memory :: "call \<Rightarrow> u64 option" where
  "created_memory (Allocate _ _ _ m) = Some m"
| "created_memory _ = None"

fun destroyed_image :: "call \<Rightarrow> u64 option" where
  "destroyed_image (Destroy x) = Some x"
| "destroyed_image _ = None"

fun freed_memory :: "call \<Rightarrow> u64 option" where
  "freed_memory (Free m) = Some m"
| "freed_memory _ = None"

fun begun :: "call \<Rightarrow> nat option" where
  "begun (Begin i _) = Some i"
| "begun _ = None"

fun ended :: "call \<Rightarrow> nat option" where
  "ended (End i) = Some i"
| "ended _ = None"

lemma handles_append [simp]: "handles f (h @ h') = handles f h @ handles f h'"
  by (simp add: handles_def map_filter_def)

lemma handles_Nil [simp]: "handles f [] = []"
  by (simp add: handles_def)

lemma handles_Cons [simp]:
  "handles f (c # h) = (case f c of None \<Rightarrow> [] | Some x \<Rightarrow> if x = 0 then [] else [x]) @ handles f h"
  by (simp add: handles_def map_filter_def split: option.split)

definition brackets :: "(call \<Rightarrow> nat option) \<Rightarrow> call list \<Rightarrow> nat list" where
  "brackets f h = List.map_filter f h"

lemma brackets_append [simp]: "brackets f (h @ h') = brackets f h @ brackets f h'"
  by (simp add: brackets_def map_filter_def)

lemma brackets_Nil [simp]: "brackets f [] = []"
  by (simp add: brackets_def)

lemma brackets_Cons [simp]: "brackets f (c # h) = (case f c of None \<Rightarrow> [] | Some x \<Rightarrow> [x]) @ brackets f h"
  by (simp add: brackets_def map_filter_def split: option.split)

text \<open>The images and the memory held in the first cells of the array.\<close>

definition held :: "(VtXWindowTransactionImage \<Rightarrow> u64) \<Rightarrow> VtXWindowTransactionImage list \<Rightarrow> nat \<Rightarrow> u64 list" where
  "held f images n = filter (\<lambda>x. x \<noteq> 0) (map f (take n images))"

lemma held_Suc: "n < length images \<Longrightarrow> held f images (Suc n) = held f images n @ (if f (images ! n) = 0 then [] else [f (images ! n)])"
  by (simp add: held_def take_Suc_conv_app_nth)

lemma held_store: "n \<le> i \<Longrightarrow> held f (images[i := x]) n = held f images n"
  by (simp add: held_def)

section \<open>Rolling back\<close>

abbreviation zero_image :: VtXWindowTransactionImage where
  "zero_image \<equiv> \<lparr>tx_image = 0, tx_memory = 0\<rparr>"

text \<open>A record that only destroys.\<close>

definition extends_by :: "call list \<Rightarrow> u64 list \<Rightarrow> u64 list \<Rightarrow> call list \<Rightarrow> bool" where
  "extends_by h xs ms h' \<longleftrightarrow>
     handles destroyed_image h' = handles destroyed_image h @ xs \<and> handles freed_memory h' = handles freed_memory h @ ms \<and>
     handles created_image h' = handles created_image h \<and> handles created_memory h' = handles created_memory h \<and>
     brackets begun h' = brackets begun h \<and> brackets ended h' = brackets ended h"

lemma destroy_recorded:
  "extends_by h (if x = 0 then [] else [x]) (if m = 0 then [] else [m])
     (call_unless_null (freeMemory (recorded beg cre allo bin invalid)) m
       (call_unless_null (destroyImage (recorded beg cre allo bin invalid)) x h))"
  by (simp add: extends_by_def call_unless_null_def recorded_def)

lemma extends_by_trans: "extends_by h xs ms h1 \<Longrightarrow> extends_by h1 ys ns h2 \<Longrightarrow> extends_by h (xs @ ys) (ms @ ns) h2"
  by (simp add: extends_by_def)

lemma rollback_recorded:
  "n \<le> length images \<Longrightarrow> \<exists>h'. rollback_loop (recorded beg cre allo bin invalid) h images n =
       Some (replicate n zero_image @ drop n images, h') \<and>
     extends_by h (rev (held tx_image images n)) (rev (held tx_memory images n)) h'"
proof (induction n arbitrary: h images)
  case 0
  then show ?case by (simp add: extends_by_def held_def)
next
  case (Suc n)
  let ?ops = "recorded beg cre allo bin invalid" and ?img = "images ! n"
  let ?h1 = "call_unless_null (freeMemory ?ops) (tx_memory ?img) (call_unless_null (destroyImage ?ops) (tx_image ?img) h)"
  have n: "n < length images" "n \<le> length (images[n := zero_image])" using Suc.prems by simp_all
  obtain h' where h': "rollback_loop ?ops ?h1 (images[n := zero_image]) n =
      Some (replicate n zero_image @ drop n (images[n := zero_image]), h')"
    "extends_by ?h1 (rev (held tx_image images n)) (rev (held tx_memory images n)) h'"
    using Suc.IH [OF n(2), of ?h1] by (auto simp: held_store)
  have "drop n (images[n := zero_image]) = zero_image # drop (Suc n) images"
    using n(1) by (simp add: drop_update_swap Cons_nth_drop_Suc [symmetric])
  then have "rollback_loop ?ops h images (Suc n) = Some (replicate (Suc n) zero_image @ drop (Suc n) images, h')"
    using n(1) h'(1) by (simp add: replicate_app_Cons_same)
  moreover have "extends_by h (rev (held tx_image images (Suc n))) (rev (held tx_memory images (Suc n))) h'"
    using extends_by_trans [OF destroy_recorded [of h "tx_image ?img" "tx_memory ?img"] h'(2)] held_Suc [OF n(1)]
    by (auto split: if_splits)
  ultimately show ?case by blast
qed

section \<open>Building\<close>

abbreviation recorded_child ::
  "(call list \<Rightarrow> nat \<Rightarrow> int) \<Rightarrow> (call list \<Rightarrow> nat \<Rightarrow> int \<times> u64) \<Rightarrow> (call list \<Rightarrow> nat \<Rightarrow> u64 \<Rightarrow> int \<times> u64)
     \<Rightarrow> (call list \<Rightarrow> nat \<Rightarrow> u64 \<Rightarrow> u64 \<Rightarrow> int) \<Rightarrow> int \<Rightarrow> call list \<Rightarrow> nat \<Rightarrow> int \<times> u64 \<times> u64 \<times> call list" where
  "recorded_child beg cre allo bin invalid \<equiv>
     build_image (the (beginImage (recorded beg cre allo bin invalid))) (the (createImage (recorded beg cre allo bin invalid)))
       (the (allocateMemory (recorded beg cre allo bin invalid))) (the (bindImageMemory (recorded beg cre allo bin invalid)))
       (the (endImage (recorded beg cre allo bin invalid))) invalid"

lemma child_recorded:
  assumes "recorded_child beg cre allo bin invalid h i = (r, img, mem, h')"
  shows "handles created_image h' = handles created_image h @ (if img = 0 then [] else [img])"
    "handles created_memory h' = handles created_memory h @ (if mem = 0 then [] else [mem])"
    "handles destroyed_image h' = handles destroyed_image h" "handles freed_memory h' = handles freed_memory h"
    "brackets begun h' = brackets begun h @ [i]" "brackets ended h' = brackets ended h @ [i]"
    "r = 0 \<Longrightarrow> invalid \<noteq> 0 \<Longrightarrow> img \<noteq> 0 \<and> mem \<noteq> 0"
  using assms unfolding build_image_def recorded_def
  by (auto simp: Let_def split: prod.splits if_splits)

text \<open>What the loop has done when it stands at an index: its images are the ones it created and holds.\<close>

definition present :: "int \<Rightarrow> VtXWindowTransactionImage list \<Rightarrow> nat \<Rightarrow> bool" where
  "present invalid images n \<longleftrightarrow> invalid \<noteq> 0 \<longrightarrow> (\<forall>img\<in>set (take n images). tx_image img \<noteq> 0 \<and> tx_memory img \<noteq> 0)"

definition building :: "int \<Rightarrow> call list \<Rightarrow> VtXWindowTransactionImage list \<Rightarrow> nat \<Rightarrow> bool" where
  "building invalid h images i \<longleftrightarrow> present invalid images i \<and>
     handles created_image h = held tx_image images i \<and> handles created_memory h = held tx_memory images i \<and>
     handles destroyed_image h = [] \<and> handles freed_memory h = [] \<and>
     brackets begun h = [0..<i] \<and> brackets ended h = [0..<i]"

text \<open>The outcome of a build of \<open>n\<close> images: all of them are held and live, or none is.\<close>

definition all_or_nothing ::
  "int \<Rightarrow> nat \<Rightarrow> VtXWindowTransactionImage list \<Rightarrow> int \<Rightarrow> VtXWindowTransactionImage list \<Rightarrow> call list \<Rightarrow> bool" where
  "all_or_nothing invalid n images r images' h \<longleftrightarrow>
     brackets begun h = brackets ended h \<and>
     (if r = 0
      then handles destroyed_image h = [] \<and> handles freed_memory h = [] \<and>
           handles created_image h = held tx_image images' n \<and> handles created_memory h = held tx_memory images' n \<and>
           brackets begun h = [0..<n] \<and> drop n images' = drop n images \<and> present invalid images' n
      else mset (handles destroyed_image h) = mset (handles created_image h) \<and>
           mset (handles freed_memory h) = mset (handles created_memory h) \<and>
           (\<exists>k<n. brackets begun h = [0..<Suc k] \<and> images' = replicate k zero_image @ drop k images))"

lemma build_loop_recorded:
  assumes "building invalid h images i" "i \<le> n" "n \<le> length images" "drop i images = drop i images0"
  shows "\<exists>r images' h'. build_loop (recorded beg cre allo bin invalid) (recorded_child beg cre allo bin invalid) h i n images
      = Some (r, images', h') \<and> all_or_nothing invalid n images0 r images' h'"
  using assms
proof (induction "n - i" arbitrary: h images i rule: less_induct)
  case less
  let ?ops = "recorded beg cre allo bin invalid" and ?child = "recorded_child beg cre allo bin invalid"
  show ?case
  proof (cases "i < n")
    case False
    then have "i = n" using less.prems(2) by simp
    then show ?thesis using less.prems
      by (subst build_loop.simps) (simp add: all_or_nothing_def building_def)
  next
    case True
    obtain r img mem h1 where child: "?child h i = (r, img, mem, h1)" by (metis prod_cases4)
    note c = child_recorded [OF child]
    show ?thesis
    proof (cases "r = 0")
      case ok: True
      let ?images = "images[i := \<lparr>tx_image = img, tx_memory = mem\<rparr>]"
      have len: "i < length images" using True less.prems(3) by simp
      have "building invalid h1 ?images (i + 1)"
        using less.prems(1) c ok len by (auto simp: building_def held_Suc held_store present_def take_Suc_conv_app_nth)
      moreover have "drop (i + 1) ?images = drop (i + 1) images0"
        using less.prems(4) by simp (metis Suc_eq_plus1 add.commute drop_drop plus_1_eq_Suc)
      moreover have "build_loop ?ops ?child h i n images = build_loop ?ops ?child h1 (i + 1) n ?images"
        using True ok child len by (subst build_loop.simps) simp
      ultimately show ?thesis using less.hyps [of "i + 1" h1 ?images] True less.prems(3) by simp
    next
      case failed: False
      let ?h2 = "call_unless_null (freeMemory ?ops) mem (call_unless_null (destroyImage ?ops) img h1)"
      have "i \<le> length images" using less.prems(2,3) by simp
      then obtain h3 where h3: "rollback_loop ?ops ?h2 images i = Some (replicate i zero_image @ drop i images, h3)"
        "extends_by ?h2 (rev (held tx_image images i)) (rev (held tx_memory images i)) h3"
        using rollback_recorded [of i images beg cre allo bin invalid ?h2] by blast
      note e = extends_by_trans [OF destroy_recorded h3(2), unfolded extends_by_def]
      have "all_or_nothing invalid n images0 r (replicate i zero_image @ drop i images) h3"
        using e c(1-6) less.prems(1,4) failed True unfolding all_or_nothing_def building_def by (auto simp: ac_simps)
      moreover have "build_loop ?ops ?child h i n images = Some (r, replicate i zero_image @ drop i images, h3)"
        using True failed child h3(1) by (subst build_loop.simps) simp
      ultimately show ?thesis by blast
    qed
  qed
qed

section \<open>The property\<close>

text \<open>The construction of the images of a swapchain is a transaction. Whatever the callbacks answer (any
  function of all earlier calls), the build stays inside the image array, every \<open>beginImage\<close> is followed by its
  \<open>endImage\<close>, and either the result is 0, nothing was destroyed, and the array holds exactly the images and
  the memory that were created, or every created image was destroyed and every allocation freed exactly once and the
  cells built so far are 0.\<close>

theorem swapchain_build_is_a_transaction:
  assumes "0 < n" "n \<le> length images"
  shows "\<exists>r images' h. vt_xwindow_transaction_build (Some (recorded beg cre allo bin invalid)) [] n (Some images)
      = Some (r, Some images', h) \<and> all_or_nothing invalid n images r images' h"
proof -
  have "building invalid [] images 0" by (simp add: building_def held_def present_def)
  then obtain r images' h where "build_loop (recorded beg cre allo bin invalid) (recorded_child beg cre allo bin invalid) [] 0 n images
      = Some (r, images', h)" "all_or_nothing invalid n images r images' h"
    using build_loop_recorded [of invalid "[]" images 0 n images beg cre allo bin] assms(2) by auto
  then show ?thesis using assms(1) by (simp add: vt_xwindow_transaction_build_def recorded_def)
qed

text \<open>The binding of the third image fails: three images are destroyed, the failed one first.\<close>

definition third_bind_fails :: "call list VtXWindowTransactionOps" where
  "third_bind_fails = recorded (\<lambda>h i. 0) (\<lambda>h i. (0, 10 + word_of_nat i)) (\<lambda>h i x. (0, 20 + word_of_nat i))
     (\<lambda>h i x m. if i = 2 then - 3 else 0) (- 1)"

lemma third_bind_fails_run:
  "(case vt_xwindow_transaction_build (Some third_bind_fails) [] 4 (Some (replicate 4 zero_image)) of
      Some (r, _, h) \<Rightarrow> r = - 3 \<and> handles destroyed_image h = [12, 11, 10] \<and> handles freed_memory h = [22, 21, 20]
    | None \<Rightarrow> False)"
  by code_simp

lemma swapchain_build_is_a_transaction_witness:
  "\<exists>images' h. vt_xwindow_transaction_build (Some third_bind_fails) [] 4 (Some (replicate 4 zero_image)) =
     Some (- 3, Some images', h) \<and> all_or_nothing (- 1) 4 (replicate 4 zero_image) (- 3) images' h"
proof -
  have p: "0 < (4 :: nat)" "4 \<le> length (replicate 4 zero_image)" by simp_all
  obtain r images' h where b: "vt_xwindow_transaction_build (Some third_bind_fails) [] 4 (Some (replicate 4 zero_image)) =
      Some (r, Some images', h)" "all_or_nothing (- 1) 4 (replicate 4 zero_image) r images' h"
    using swapchain_build_is_a_transaction [OF p, of "\<lambda>h i. 0" "\<lambda>h i. (0, 10 + word_of_nat i)"
        "\<lambda>h i x. (0, 20 + word_of_nat i)" "\<lambda>h i x m. if i = 2 then - 3 else 0" "- 1", folded third_bind_fails_def]
    by blast
  moreover have "r = - 3" using third_bind_fails_run unfolding b(1) by simp
  ultimately show ?thesis by blast
qed

end
