(* ===== verification/String_Utils.thy ===== *)
theory String_Utils
  imports Array_Lemmas
begin

text \<open>
  The string and memory helpers of \<^verbatim>\<open>cpp/include/string_utils.h\<close>. A C string is the list of its bytes before the
  NUL; blocks are as in \<open>Arrays\<close>. Character classes are those of the C locale. \<^const>\<open>None\<close> is an access outside the
  string or block, or, where a loop need not end, a call that does not return.
\<close>

section \<open>Characters and comparison\<close>

definition isspace :: "u8 \<Rightarrow> bool" where
  "isspace c \<longleftrightarrow> 9 \<le> c \<and> c \<le> 13 \<or> c = 32"

definition isdigit :: "u8 \<Rightarrow> bool" where
  "isdigit c \<longleftrightarrow> 48 \<le> c \<and> c \<le> 57"

definition isalnum :: "u8 \<Rightarrow> bool" where
  "isalnum c \<longleftrightarrow> isdigit c \<or> 65 \<le> c \<and> c \<le> 90 \<or> 97 \<le> c \<and> c \<le> 122"

fun cstartswith :: "u8 list \<Rightarrow> u8 list \<Rightarrow> bool" where
  "cstartswith [] string = True"
| "cstartswith (p # prefix) [] = False"
| "cstartswith (p # prefix) (c # string) = (p = c \<and> cstartswith prefix string)"

fun wcstartswith :: "u32 list \<Rightarrow> u32 list \<Rightarrow> bool" where
  "wcstartswith [] string = True"
| "wcstartswith (p # prefix) [] = False"
| "wcstartswith (p # prefix) (c # string) = (p = c \<and> wcstartswith prefix string)"

definition mbclen :: "u32 list \<Rightarrow> nat" where
  "mbclen string = length (filter (\<lambda>c. 0x7f < c) string)"

section \<open>Memory\<close>

definition memmerge :: "'a \<Rightarrow> 'a list \<Rightarrow> nat \<Rightarrow> 'a list \<Rightarrow> nat \<Rightarrow> nat \<Rightarrow> 'a list option" where
  "memmerge any src srcSize dst dstSize offset =
     (let dstOffset = (if dstSize < offset then dstSize else offset)
      in do {
        front \<leftarrow> slice dst 0 dstOffset;
        res1 \<leftarrow> blit (replicate (srcSize + dstSize) any) 0 front;
        cells \<leftarrow> slice src 0 srcSize;
        res2 \<leftarrow> blit res1 dstOffset cells;
        after \<leftarrow> slice dst dstOffset (dstSize - dstOffset);
        blit res2 (dstOffset + srcSize) after })"

definition memdup :: "'a list \<Rightarrow> nat \<Rightarrow> 'a list option" where
  "memdup src n = slice src 0 n"

section \<open>Trimming, splitting and joining\<close>

definition ltrim :: "u8 list \<Rightarrow> u8 list" where
  "ltrim s = dropWhile isspace s"

text \<open>The pointer that walks back passes the start of a string without a visible character.\<close>

fun rtrim_loop :: "u8 list \<Rightarrow> nat \<Rightarrow> nat option" where
  "rtrim_loop s 0 = None"
| "rtrim_loop s (Suc back) = (if isspace (s ! back) then rtrim_loop s back else Some back)"

definition rtrim :: "u8 list \<Rightarrow> u8 list option" where
  "rtrim s = map_option (\<lambda>back. take (back + 1) s) (rtrim_loop s (length s))"

definition trim :: "u8 list \<Rightarrow> u8 list option" where
  "trim s = map_option ltrim (rtrim s)"

fun strchr :: "u8 list \<Rightarrow> u8 \<Rightarrow> nat option" where
  "strchr [] c = None"
| "strchr (x # s) c = (if x = c then Some 0 else map_option Suc (strchr s c))"

lemma strchr_less: "strchr s c = Some i \<Longrightarrow> i < length s"
  by (induction s arbitrary: i) (auto split: if_splits)

text \<open>The strings that are added to the output list, in order. The terminator itself, as delimiter, would be stepped over.\<close>

function strsplit_loop :: "u8 list \<Rightarrow> u8 \<Rightarrow> u8 list list" where
  "strsplit_loop input delimiter =
     (case strchr input delimiter of
        Some len \<Rightarrow> take len input # strsplit_loop (drop (len + 1) input) delimiter
      | None \<Rightarrow> if input \<noteq> [] then [input] else [])"
  by pat_completeness auto
termination
  by (relation "measure (\<lambda>(input, delimiter). length input)") (auto dest: strchr_less)

declare strsplit_loop.simps [simp del]

definition strsplit :: "u8 list \<Rightarrow> u8 \<Rightarrow> u8 list list option" where
  "strsplit input delimiter = (if delimiter = 0 then None else Some (strsplit_loop input delimiter))"

text \<open>\<open>strjoin\<close>: the size in a first pass, the copies in a second one.\<close>

fun join_size :: "u8 \<Rightarrow> bool \<Rightarrow> u8 list list \<Rightarrow> nat" where
  "join_size delimiter first [] = 0"
| "join_size delimiter first (s # ss) =
     (if \<not> first \<and> delimiter \<noteq> 0 then 1 else 0) + length s + join_size delimiter False ss"

fun join_loop :: "u8 \<Rightarrow> bool \<Rightarrow> u8 list \<Rightarrow> nat \<Rightarrow> u8 list list \<Rightarrow> u8 list option" where
  "join_loop delimiter first result j [] = Some result"
| "join_loop delimiter first result j (s # ss) = do {
     r1 \<leftarrow> (if \<not> first \<and> delimiter \<noteq> 0 then store result j delimiter else Some result);
     (let j1 = (if \<not> first \<and> delimiter \<noteq> 0 then j + 1 else j)
      in do { r2 \<leftarrow> blit r1 j1 s; join_loop delimiter False r2 (j1 + length s) ss }) }"

text \<open>The block \<open>strjoin\<close> returns, terminator included.\<close>

definition strjoin :: "u8 \<Rightarrow> u8 list list \<Rightarrow> u8 list option" where
  "strjoin delimiter strings =
     (let n = join_size delimiter True strings
      in do { r \<leftarrow> join_loop delimiter True (replicate (n + 1) 0) 0 strings; store r n 0 })"

section \<open>Searching and replacing\<close>

definition c_char :: "u8 list \<Rightarrow> nat \<Rightarrow> u8" where
  "c_char s i = (if i < length s then s ! i else 0)"

definition underscore :: u8 where
  "underscore = 95"

lemma not_word_end: "length s \<le> i \<Longrightarrow> \<not> (isalnum (c_char s i) \<or> c_char s i = underscore)"
  by (simp add: c_char_def isalnum_def isdigit_def underscore_def)

text \<open>\<open>strwrd\<close>: the offsets of the start and the end of the word found.\<close>

function strwrd_loop :: "u8 list \<Rightarrow> u8 list ptr \<Rightarrow> nat \<Rightarrow> nat option \<Rightarrow> (nat \<times> nat) option" where
  "strwrd_loop haystack needle chr start =
     (let c = c_char haystack chr
      in if isalnum c \<or> c = underscore
         then strwrd_loop haystack needle (chr + 1) (case start of None \<Rightarrow> Some chr | Some s \<Rightarrow> Some s)
         else (case start of
            Some s \<Rightarrow>
              (if needle = None \<or> needle = Some (take (chr - s) (drop s haystack)) then Some (s, chr)
               else if length haystack \<le> chr then None
               else strwrd_loop haystack needle (chr + 1) None)
          | None \<Rightarrow> if length haystack \<le> chr then None else strwrd_loop haystack needle (chr + 1) None))"
  by pat_completeness auto
termination
proof (relation "measure (\<lambda>(haystack, needle, chr, start). length haystack - chr)", goal_cases)
  case (2 haystack needle chr start c)
  then have "chr < length haystack" using not_word_end [of haystack chr] by (simp only: not_le [symmetric]) blast
  then show ?case by simp
qed simp_all

declare strwrd_loop.simps [simp del]

definition strwrd :: "u8 list \<Rightarrow> u8 list ptr \<Rightarrow> (nat \<times> nat) option" where
  "strwrd haystack needle = strwrd_loop haystack needle 0 None"

text \<open>The first occurrence.\<close>

fun strstr :: "u8 list \<Rightarrow> u8 list \<Rightarrow> nat option" where
  "strstr [] needle = (if needle = [] then Some 0 else None)"
| "strstr (c # s) needle = (if cstartswith needle (c # s) then Some 0 else map_option Suc (strstr s needle))"

text \<open>The block of the result with its declared size. With an empty search string the loop never ends.\<close>

partial_function (option) str_replace_loop ::
  "u8 list \<Rightarrow> u8 list \<Rightarrow> u8 list \<Rightarrow> nat \<Rightarrow> nat \<Rightarrow> u8 list \<Rightarrow> u8 list option" where
  "str_replace_loop search replacement result strSize offset subject =
     (case strstr subject search of
        None \<Rightarrow> blit result offset (subject @ [0])
      | Some i \<Rightarrow> do {
          r1 \<leftarrow> blit result offset (take i subject);
          (let strSize' = strSize - length search + length replacement
           in if INT_LIMIT < strSize' then None
           else do {
             r2 \<leftarrow> blit (realloc 0 r1 strSize') (offset + i) replacement;
             str_replace_loop search replacement r2 strSize' (offset + i + length replacement)
               (drop (i + length search) subject) }) })"

declare str_replace_loop.simps [code]

definition str_replace :: "u8 list \<Rightarrow> u8 list \<Rightarrow> u8 list \<Rightarrow> u8 list option" where
  "str_replace search replacement subject =
     (let strSize = length subject + 1
      in if INT_LIMIT < strSize then None
         else str_replace_loop search replacement (replicate strSize 0) strSize 0 subject)"

definition substr_replace :: "u8 list \<Rightarrow> nat \<Rightarrow> nat \<Rightarrow> u8 list \<Rightarrow> u8 list option" where
  "substr_replace replacement start end subject = do {
     prefix \<leftarrow> slice subject 0 start;
     suffix \<leftarrow> slice subject end (length subject - end);
     strjoin 0 [prefix, replacement, suffix] }"

partial_function (option) strwrd_replace :: "u8 list \<Rightarrow> u8 list \<Rightarrow> u8 list \<Rightarrow> u8 list option" where
  "strwrd_replace search replacement subject =
     (case strwrd subject (Some search) of
        None \<Rightarrow> Some subject
      | Some (start, end) \<Rightarrow> do {
          block \<leftarrow> substr_replace replacement start end subject;
          strwrd_replace search replacement (takeWhile (\<lambda>c. c \<noteq> 0) block) })"

declare strwrd_replace.simps [code]

text \<open>\<open>substr\<close> copies from the block of the string, terminator included.\<close>

definition substr :: "u8 list \<Rightarrow> nat \<Rightarrow> nat \<Rightarrow> u8 list option" where
  "substr string offset n = do { cells \<leftarrow> slice (string @ [0]) offset n; Some (cells @ [0]) }"

definition substrv :: "u8 list \<Rightarrow> u8 \<Rightarrow> u8 \<Rightarrow> (bool \<times> u8 list) option" where
  "substrv string delimiterStart delimiterEnd =
     (if delimiterStart = 0 then None
      else Some (case strchr string delimiterStart of
             None \<Rightarrow> (False, [])
           | Some i \<Rightarrow> (True, takeWhile (\<lambda>c. c \<noteq> delimiterEnd) (drop (i + 1) string))))"

text \<open>The loop of \<open>strnums\<close> steps to the next character before it looks.\<close>

definition strnums :: "u8 list ptr \<Rightarrow> u8 list" where
  "strnums string = (case string of None \<Rightarrow> [] | Some s \<Rightarrow> filter isdigit (tl s))"

definition is_int :: "u8 list ptr \<Rightarrow> bool" where
  "is_int string =
     (case string of
        None \<Rightarrow> False
      | Some s \<Rightarrow>
          (let digits = (if c_char s 0 = 45 \<or> c_char s 0 = 43 then tl s else s)
           in list_all isdigit digits \<and> digits \<noteq> []))"

section \<open>Hashes\<close>

definition FNV_PRIME_32 :: u32 where
  "FNV_PRIME_32 = 0x1000193"

definition fnv1aHash32 :: "u8 list \<Rightarrow> u32" where
  "fnv1aHash32 bytes = foldl (\<lambda>hash b. (hash XOR ucast b) * FNV_PRIME_32) 0x811c9dc5 bytes"

definition kMul :: u64 where
  "kMul = 0xc6a4a7935bd1e995"

definition kShift :: nat where
  "kShift = 47"

text \<open>A word of eight bytes, least significant first.\<close>

fun le_word :: "u8 list \<Rightarrow> u64" where
  "le_word [] = 0"
| "le_word (b # bs) = ucast b OR push_bit 8 (le_word bs)"

fun murmur_blocks :: "nat \<Rightarrow> u8 list \<Rightarrow> u64 \<Rightarrow> u64" where
  "murmur_blocks 0 key hash = hash"
| "murmur_blocks (Suc n) key hash =
     (let k = le_word (take 8 key) * kMul;
          k' = (k XOR drop_bit kShift k) * kMul
      in murmur_blocks n (drop 8 key) ((hash XOR k') * kMul))"

text \<open>The cases of the \<^verbatim>\<open>switch\<close> fall through from the number of bytes left down to one.\<close>

fun murmur_tail :: "nat \<Rightarrow> u8 list \<Rightarrow> u64 \<Rightarrow> u64" where
  "murmur_tail 0 data hash = hash"
| "murmur_tail (Suc 0) data hash = (hash XOR ucast (data ! 0)) * kMul"
| "murmur_tail (Suc n) data hash = murmur_tail n data (hash XOR push_bit (8 * n) (ucast (data ! n)))"

definition murmurHash64 :: "u8 list \<Rightarrow> u64 \<Rightarrow> u64" where
  "murmurHash64 key seed =
     (let len = length key;
          h0 = seed XOR (word_of_nat len * kMul);
          h1 = murmur_blocks (len div 8) key h0;
          h2 = murmur_tail (len mod 8) (drop (8 * (len div 8)) key) h1;
          h3 = (h2 XOR drop_bit kShift h2) * kMul
      in h3 XOR drop_bit kShift h3)"

end
