(* ===== verification/String_Properties.thy ===== *)
theory String_Properties
  imports String_Utils
begin

text \<open>
  The string helpers: \<open>str_replace\<close> computes the textbook replacement and stays inside the block it resizes;
  \<open>strjoin\<close> fills its block exactly, and \<open>strsplit\<close> takes apart what \<open>strjoin\<close> put together.
\<close>

section \<open>Replacing\<close>

text \<open>The leftmost, non-overlapping replacement.\<close>

function replaced :: "u8 list \<Rightarrow> u8 list \<Rightarrow> u8 list \<Rightarrow> u8 list" where
  "replaced search replacement s =
     (if s = [] then []
      else if search \<noteq> [] \<and> cstartswith search s then replacement @ replaced search replacement (drop (length search) s)
      else hd s # replaced search replacement (tl s))"
  by pat_completeness auto
termination
  by (relation "measure (\<lambda>(search, replacement, s). length s)") (auto simp: neq_Nil_conv)

declare replaced.simps [simp del]

lemma replaced_Nil [simp]: "replaced search replacement [] = []"
  by (simp add: replaced.simps)

lemma cstartswith_length: "cstartswith p s \<Longrightarrow> length p \<le> length s"
  by (induction p s rule: cstartswith.induct) auto

lemma strstr_None: "search \<noteq> [] \<Longrightarrow> strstr s search = None \<Longrightarrow> replaced search replacement s = s"
  by (induction s) (simp_all add: replaced.simps [of search replacement "_ # _"] split: if_splits)

lemma strstr_Some:
  "search \<noteq> [] \<Longrightarrow> strstr s search = Some i \<Longrightarrow>
     replaced search replacement s = take i s @ replacement @ replaced search replacement (drop (i + length search) s) \<and>
     i + length search \<le> length s"
proof (induction s arbitrary: i)
  case Nil
  then show ?case by simp
next
  case (Cons c s)
  show ?case
  proof (cases "cstartswith search (c # s)")
    case True
    then have "i = 0" using Cons.prems(2) by simp
    then show ?thesis using True Cons.prems(1) cstartswith_length [OF True]
      by (simp add: replaced.simps [of search replacement "c # s"])
  next
    case False
    then obtain j where j: "strstr s search = Some j" "i = Suc j" using Cons.prems(2) by auto
    then show ?thesis using Cons.IH [OF Cons.prems(1) j(1)] False
      by (simp add: replaced.simps [of search replacement "c # s"])
  qed
qed

lemma realloc_length: "length (realloc z b n) = n"
  by (simp add: realloc_def)

text \<open>The sizes stay below the bound for the whole string.\<close>

lemma replacement_room:
  fixes i k r m n :: nat
  assumes "i + k \<le> n" "0 < k" "offset + n * (1 + r) + 1 \<le> L" and "m = n - (i + k)"
  shows "offset + i + r + m * (1 + r) + 1 \<le> L" "offset + i + r + m + 1 \<le> L"
proof -
  have "i + 1 + m \<le> n" using assms(1,2,4) by linarith
  then have "(i + 1 + m) * (1 + r) \<le> n * (1 + r)" by (rule mult_le_mono1)
  moreover have "i + r + m * (1 + r) \<le> (i + 1 + m) * (1 + r)" by (simp add: algebra_simps)
  ultimately show "offset + i + r + m * (1 + r) + 1 \<le> L" using assms(3) by linarith
  moreover have "m \<le> m * (1 + r)" by simp
  ultimately show "offset + i + r + m + 1 \<le> L" by linarith
qed

lemma str_replace_loop_effect:
  assumes "search \<noteq> []"
  shows "length result = offset + length subject + 1 \<Longrightarrow> offset + length subject * (1 + length replacement) + 1 \<le> INT_LIMIT \<Longrightarrow>
    str_replace_loop search replacement result (length result) offset subject =
      Some (take offset result @ replaced search replacement subject @ [0])"
proof (induction "length subject" arbitrary: result offset subject rule: less_induct)
  case less
  show ?case
  proof (cases "strstr subject search")
    case None
    then show ?thesis using less.prems(1) strstr_None [OF assms None, of replacement]
      by (subst str_replace_loop.simps) simp
  next
    case (Some i)
    note s = strstr_Some [OF assms Some, of replacement]
    let ?rest = "drop (i + length search) subject"
    let ?size = "offset + i + length replacement + length ?rest + 1"
    let ?r1 = "take offset result @ take i subject @ drop (offset + i) result"
    let ?r2 = "take offset result @ take i subject @ replacement @ replicate (length ?rest + 1) 0"
    have le: "i + length search \<le> length subject" using s by simp
    have k: "0 < length search" using assms by simp
    have shorter: "length ?rest < length subject" using le k unfolding length_drop by linarith
    note room = replacement_room [OF le k less.prems(2), of "length ?rest"]
    have b1: "blit result offset (take i subject) = Some ?r1"
      using le less.prems(1) by simp
    have len1: "length ?r1 = length result" using le less.prems(1) by simp
    have size: "length result - length search + length replacement = ?size"
      using le less.prems(1) by simp
    have tk: "take (offset + i) (realloc 0 ?r1 ?size) = take offset result @ take i subject"
      using le less.prems(1) by (simp add: realloc_def)
    have b2: "\<exists>t. blit (realloc 0 ?r1 ?size) (offset + i) replacement =
        Some (take offset result @ take i subject @ replacement @ t) \<and> length t = length ?rest + 1"
    proof -
      have "length (realloc 0 ?r1 ?size) = ?size" by (rule realloc_length)
      then show ?thesis using tk by (intro exI [of _ "drop (offset + i + length replacement) (realloc 0 ?r1 ?size)"]) simp
    qed
    then obtain t where t: "blit (realloc 0 ?r1 ?size) (offset + i) replacement =
        Some (take offset result @ take i subject @ replacement @ t)" "length t = length ?rest + 1" by blast
    let ?r3 = "take offset result @ take i subject @ replacement @ t"
    have len3: "length ?r3 = ?size" using le less.prems(1) t(2) by simp
    have tk3: "take (offset + i + length replacement) ?r3 = take offset result @ take i subject @ replacement"
      using le less.prems(1) by simp
    have "str_replace_loop search replacement result (length result) offset subject =
        str_replace_loop search replacement ?r3 (length ?r3) (offset + i + length replacement) ?rest"
    proof -
      have "\<not> INT_LIMIT < ?size" using room(2) by simp
      then show ?thesis
        by (subst str_replace_loop.simps)
          (simp only: Some option.case b1 Option.bind.simps Let_def size if_False t(1) len3)
    qed
    also have "\<dots> = Some (take (offset + i + length replacement) ?r3 @ replaced search replacement ?rest @ [0])"
      by (rule less.hyps) (use shorter room(1) len3 in simp_all)
    finally show ?thesis using s unfolding tk3 by simp
  qed
qed

section \<open>Joining and splitting\<close>

text \<open>The strings with the delimiter between them; the NUL character stands for none.\<close>

fun joined :: "u8 \<Rightarrow> bool \<Rightarrow> u8 list list \<Rightarrow> u8 list" where
  "joined d first [] = []"
| "joined d first (s # ss) = (if \<not> first \<and> d \<noteq> 0 then [d] else []) @ s @ joined d False ss"

lemma join_size_joined: "join_size d first ss = length (joined d first ss)"
  by (induction d first ss rule: joined.induct) simp_all

lemma join_loop_effect:
  "j + length (joined d first ss) \<le> length result \<Longrightarrow>
     join_loop d first result j ss = Some (take j result @ joined d first ss @ drop (j + length (joined d first ss)) result)"
proof (induction ss arbitrary: first result j)
  case Nil
  then show ?case by simp
next
  case (Cons s ss)
  let ?sep = "if \<not> first \<and> d \<noteq> 0 then [d] else []"
  let ?j = "j + length ?sep"
  let ?r1 = "take j result @ ?sep @ drop ?j result"
  let ?r2 = "take j result @ ?sep @ s @ drop (?j + length s) result"
  have sep: "(if \<not> first \<and> d \<noteq> 0 then store result j d else Some result) = Some ?r1"
    using Cons.prems by (auto simp: upd_conv_take_nth_drop split: if_splits)
  have fit: "?j + length s + length (joined d False ss) \<le> length result" using Cons.prems by simp
  have b: "blit ?r1 ?j s = Some ?r2" using fit by (simp add: ac_simps)
  have j1: "(if \<not> first \<and> d \<noteq> 0 then j + 1 else j) = ?j" by simp
  have "join_loop d first result j (s # ss) = join_loop d False ?r2 (?j + length s) ss"
    by (simp only: join_loop.simps sep j1 Option.bind.simps Let_def b)
  also have "\<dots> = Some (take (?j + length s) ?r2 @ joined d False ss @ drop (?j + length s + length (joined d False ss)) ?r2)"
    using fit by (intro Cons.IH) simp
  also have "take (?j + length s) ?r2 = take j result @ ?sep @ s" using fit by simp
  also have "drop (?j + length s + length (joined d False ss)) ?r2 = drop (?j + length s + length (joined d False ss)) result"
    using fit by (simp add: ac_simps)
  finally show ?case by (simp only: joined.simps append_assoc length_append add.assoc)
qed

lemma strjoin_effect: "strjoin d ss = Some (joined d True ss @ [0])"
proof -
  let ?n = "length (joined d True ss)"
  have "join_loop d True (replicate (?n + 1) 0) 0 ss = Some (joined d True ss @ [0])"
    using join_loop_effect [of 0 d True ss "replicate (?n + 1) 0"] unfolding drop_replicate by simp
  then show ?thesis by (simp add: strjoin_def Let_def join_size_joined)
qed

lemma strchr_append: "d \<notin> set s \<Longrightarrow> strchr (s @ d # t) d = Some (length s)"
  by (induction s) auto

lemma strchr_None: "strchr s d = None \<longleftrightarrow> d \<notin> set s"
  by (induction s) auto

lemma split_joined:
  assumes "d \<noteq> 0"
  shows "list_all (\<lambda>s. d \<notin> set s) ss \<Longrightarrow> ss \<noteq> [] \<Longrightarrow> last ss \<noteq> [] \<Longrightarrow> strsplit_loop (joined d True ss) d = ss"
proof (induction ss)
  case Nil
  then show ?case by simp
next
  case (Cons s ss)
  show ?case
  proof (cases ss)
    case Nil
    then show ?thesis using Cons.prems strchr_None [of s d] by (subst strsplit_loop.simps) simp
  next
    case (Cons t ts)
    have "joined d True (s # ss) = s @ d # joined d True ss" using Cons assms by simp
    moreover have "strsplit_loop (joined d True ss) d = ss" using Cons.IH Cons.prems Cons by simp
    ultimately show ?thesis using strchr_append [of d s "joined d True ss"] Cons.prems(1)
      by (subst strsplit_loop.simps) simp
  qed
qed

section \<open>Properties\<close>

text \<open>\<open>str_replace\<close> is exact and stays in its block. For a non-empty search string, and strings whose replacement
  fits an \<^verbatim>\<open>int\<close>, the loop ends, no copy leaves the block that is resized before each replacement, and
  the result is the leftmost non-overlapping replacement with its terminator, filling the block to its last byte.\<close>

theorem str_replace_exact:
  assumes "search \<noteq> []" "length subject * (1 + length replacement) + 1 \<le> INT_LIMIT"
  shows "str_replace search replacement subject = Some (replaced search replacement subject @ [0])"
proof -
  have "length subject + 1 \<le> INT_LIMIT" using assms(2) by simp
  moreover have "str_replace_loop search replacement (replicate (length subject + 1) 0)
      (length (replicate (length subject + 1) (0 :: u8))) 0 subject =
    Some (take 0 (replicate (length subject + 1) 0) @ replaced search replacement subject @ [0])"
    by (rule str_replace_loop_effect) (use assms in simp_all)
  ultimately show ?thesis by (simp add: str_replace_def Let_def)
qed

text \<open>Every \<^verbatim>\<open>ab\<close> in \<^verbatim>\<open>abcab\<close> becomes \<^verbatim>\<open>xyz\<close>.\<close>

lemma str_replace_exact_witness:
  "str_replace [97, 98] [120, 121, 122] [97, 98, 99, 97, 98] = Some ([120, 121, 122, 99, 120, 121, 122] @ [0])"
  using str_replace_exact [of "[97, 98]" "[97, 98, 99, 97, 98]" "[120, 121, 122]"]
  by (simp add: INT_LIMIT_def replaced.simps)

text \<open>\<open>strsplit\<close> undoes \<open>strjoin\<close>. \<open>strjoin\<close> fills the block of the size it computed exactly; split at
  the same delimiter, the joined string gives the strings back, for every list whose strings do not hold the delimiter
  and whose last string is not empty (the split drops an empty last string).\<close>

theorem split_undoes_join:
  assumes "d \<noteq> 0" "list_all (\<lambda>s. d \<notin> set s) ss" "ss \<noteq> []" "last ss \<noteq> []"
  shows "\<exists>s. strjoin d ss = Some (s @ [0]) \<and> length s = join_size d True ss \<and> strsplit s d = Some ss"
  using assms split_joined by (auto simp: strjoin_effect join_size_joined strsplit_def)

lemma split_undoes_join_witness:
  "\<exists>s. strjoin 44 [[97, 98], [], [99]] = Some (s @ [0]) \<and> length s = 5 \<and> strsplit s 44 = Some [[97, 98], [], [99]]"
proof -
  have "join_size 44 True [[97, 98], [], [99]] = 5" by code_simp
  then show ?thesis using split_undoes_join [of 44 "[[97, 98], [], [99]]"] by (simp only:) simp
qed

end
