(* ===== verification/X_Streams.thy ===== *)
theory X_Streams
  imports Array_Properties
begin

text \<open>
  The buffered streams of the X connector, \<^verbatim>\<open>cpp/src/xinput_stream.c\<close> and \<^verbatim>\<open>cpp/src/xoutput_stream.c\<close>. The kernel's answers
  are arguments. The active buffer of an input stream aliases the block of its buffer: \<open>activateInputBuffer\<close> copies the
  pointer and \<open>readMoreData\<close> clears it before the block can move, so that the model keeps one block and whether
  the active pointer is set. Copying a range onto an overlapping one with \<^verbatim>\<open>memcpy\<close> is undefined.
\<close>

section \<open>The input stream\<close>

record XInputBuffer =
  xb_data :: "u8 list"
  xb_capacity :: nat
  xb_position :: nat
  xb_limit :: nat

text \<open>The active buffer; its data is set or NULL.\<close>

record XInputActive =
  xa_set :: bool
  xa_capacity :: nat
  xa_position :: nat
  xa_limit :: nat

record XInputStream =
  xi_buffer :: XInputBuffer
  xi_active :: XInputActive
  xi_ancillaryFds :: IntArray

definition growInputBufferIfNecessary :: "XInputBuffer \<Rightarrow> XInputBuffer option" where
  "growInputBufferIfNecessary b =
     (if xb_position b = xb_capacity b then
        let newCapacity = xb_capacity b * 2
        in if INT_LIMIT < newCapacity then None
           else Some (b\<lparr>xb_capacity := newCapacity, xb_limit := newCapacity,
                        xb_data := realloc 0 (xb_data b) newCapacity\<rparr>)
      else Some b)"

definition memcpy_down :: "'a list \<Rightarrow> nat \<Rightarrow> nat \<Rightarrow> 'a list option" where
  "memcpy_down b src n = (if src < n then None else do { cells \<leftarrow> slice b src n; blit b 0 cells })"

definition compactInputBuffer :: "XInputBuffer \<Rightarrow> XInputBuffer option" where
  "compactInputBuffer b =
     (if xb_limit b < xb_position b then None
      else let remaining = xb_limit b - xb_position b
      in do {
        d \<leftarrow> memcpy_down (xb_data b) (xb_position b) remaining;
        Some (b\<lparr>xb_data := d, xb_position := remaining, xb_limit := xb_capacity b\<rparr>) })"

definition activateInputBuffer :: "XInputBuffer \<Rightarrow> XInputActive" where
  "activateInputBuffer b =
     \<lparr>xa_set = True, xa_capacity = xb_position b, xa_position = 0, xa_limit = xb_position b\<rparr>"

definition XInputStream_allocate :: "nat \<Rightarrow> XInputStream" where
  "XInputStream_allocate initialCapacity =
     \<lparr>xi_buffer = \<lparr>xb_data = replicate initialCapacity 0, xb_capacity = initialCapacity, xb_position = 0,
                   xb_limit = initialCapacity\<rparr>,
      xi_active = \<lparr>xa_set = False, xa_capacity = 0, xa_position = 0, xa_limit = 0\<rparr>,
      xi_ancillaryFds = \<lparr>ia_size = 0, ia_capacity = 0, ia_values = []\<rparr>\<rparr>"

text \<open>The answer of the kernel to a call with room for so many bytes: \<^const>\<open>None\<close> for an error or the end of the
  file, else the bytes and, from \<^verbatim>\<open>recvmsg\<close>, the descriptors.\<close>

type_synonym read_syscall = "nat \<Rightarrow> (u8 list \<times> u32 list) option"

definition XInputStream_read :: "read_syscall \<Rightarrow> XInputStream \<Rightarrow> (int \<times> XInputStream) option" where
  "XInputStream_read sys s =
     (let b = xi_buffer s
      in if xb_limit b < xb_position b then None
         else case sys (xb_limit b - xb_position b) of
           None \<Rightarrow> Some (- 1, s)
         | Some (bytes, _) \<Rightarrow> do {
             d \<leftarrow> blit (xb_data b) (xb_position b) bytes;
             Some (int (length bytes),
                   s\<lparr>xi_buffer := b\<lparr>xb_data := d, xb_position := xb_position b + length bytes\<rparr>\<rparr>) })"

fun add_fds :: "IntArray \<Rightarrow> u32 list \<Rightarrow> IntArray option" where
  "add_fds a [] = Some a"
| "add_fds a (fd # fds) = do { a' \<leftarrow> IntArray_add a fd; add_fds a' fds }"

definition XInputStream_recvmsg :: "read_syscall \<Rightarrow> XInputStream \<Rightarrow> (int \<times> XInputStream) option" where
  "XInputStream_recvmsg sys s =
     (let b = xi_buffer s
      in if xb_limit b < xb_position b then None
         else case sys (xb_limit b - xb_position b) of
           None \<Rightarrow> Some (- 1, s)
         | Some (bytes, fds) \<Rightarrow> do {
             d \<leftarrow> blit (xb_data b) (xb_position b) bytes;
             a \<leftarrow> add_fds (xi_ancillaryFds s) fds;
             Some (int (length bytes),
                   s\<lparr>xi_ancillaryFds := a,
                     xi_buffer := b\<lparr>xb_data := d, xb_position := xb_position b + length bytes\<rparr>\<rparr>) })"

text \<open>The buffer after the active buffer has been given up.\<close>

definition reclaimActive :: "XInputStream \<Rightarrow> XInputBuffer option" where
  "reclaimActive s =
     (let b = xi_buffer s; a = xi_active s
      in if xa_set a then
           (if xa_limit a \<le> xa_position a then Some (b\<lparr>xb_position := 0, xb_limit := xb_capacity b\<rparr>)
            else if 0 < xa_position a
            then compactInputBuffer (b\<lparr>xb_position := xa_position a, xb_limit := xb_position b\<rparr>)
            else Some b)
         else Some b)"

definition XInputStream_readMoreData :: "read_syscall \<Rightarrow> bool \<Rightarrow> XInputStream \<Rightarrow> (int \<times> XInputStream) option" where
  "XInputStream_readMoreData sys canReceiveAncillaryMessages s = do {
     b \<leftarrow> reclaimActive s;
     b' \<leftarrow> growInputBufferIfNecessary b;
     (let s1 = s\<lparr>xi_buffer := b', xi_active := (xi_active s)\<lparr>xa_set := False\<rparr>\<rparr>
      in do {
        (bytesRead, s2) \<leftarrow> (if canReceiveAncillaryMessages then XInputStream_recvmsg sys s1 else XInputStream_read sys s1);
        Some (bytesRead,
              if 0 < bytesRead
              then s2\<lparr>xi_active := activateInputBuffer (xi_buffer s2),
                      xi_buffer := (xi_buffer s2)\<lparr>xb_limit := xb_capacity (xi_buffer s2)\<rparr>\<rparr>
              else s2) }) }"

text \<open>The client's reads, through the active pointer.\<close>

definition XInputStream_take :: "nat \<Rightarrow> XInputStream \<Rightarrow> (u8 list \<times> XInputStream) option" where
  "XInputStream_take n s =
     (let a = xi_active s
      in if \<not> xa_set a then None
         else do {
           bytes \<leftarrow> slice (xb_data (xi_buffer s)) (xa_position a) n;
           Some (bytes, s\<lparr>xi_active := a\<lparr>xa_position := xa_position a + n\<rparr>\<rparr>) })"

definition XInputStream_readByte :: "XInputStream \<Rightarrow> (u8 \<times> XInputStream) option" where
  "XInputStream_readByte s = do { (bytes, s') \<leftarrow> XInputStream_take 1 s; Some (of_nat (of_le_bytes bytes), s') }"

definition XInputStream_readShort :: "XInputStream \<Rightarrow> (u16 \<times> XInputStream) option" where
  "XInputStream_readShort s = do { (bytes, s') \<leftarrow> XInputStream_take 2 s; Some (of_nat (of_le_bytes bytes), s') }"

definition XInputStream_readInt :: "XInputStream \<Rightarrow> (u32 \<times> XInputStream) option" where
  "XInputStream_readInt s = do { (bytes, s') \<leftarrow> XInputStream_take 4 s; Some (of_nat (of_le_bytes bytes), s') }"

definition XInputStream_readLong :: "XInputStream \<Rightarrow> (u64 \<times> XInputStream) option" where
  "XInputStream_readLong s = do { (bytes, s') \<leftarrow> XInputStream_take 8 s; Some (of_nat (of_le_bytes bytes), s') }"

definition XInputStream_skip :: "nat \<Rightarrow> XInputStream \<Rightarrow> XInputStream" where
  "XInputStream_skip n s = s\<lparr>xi_active := (xi_active s)\<lparr>xa_position := xa_position (xi_active s) + n\<rparr>\<rparr>"

text \<open>The window of the block the byte buffer shows: its offset and length.\<close>

definition XInputStream_readByteBuffer :: "nat \<Rightarrow> XInputStream \<Rightarrow> (nat \<times> nat) \<times> XInputStream" where
  "XInputStream_readByteBuffer n s =
     ((xa_position (xi_active s), n), s\<lparr>xi_active := (xi_active s)\<lparr>xa_position := xa_position (xi_active s) + n\<rparr>\<rparr>)"

definition XInputStream_available :: "XInputStream \<Rightarrow> int" where
  "XInputStream_available s = int (xa_limit (xi_active s)) - int (xa_position (xi_active s))"

definition XInputStream_getActivePosition :: "XInputStream \<Rightarrow> nat" where
  "XInputStream_getActivePosition s = xa_position (xi_active s)"

definition XInputStream_setActivePosition :: "nat \<Rightarrow> XInputStream \<Rightarrow> XInputStream" where
  "XInputStream_setActivePosition p s = s\<lparr>xi_active := (xi_active s)\<lparr>xa_position := p\<rparr>\<rparr>"

definition XInputStream_getAncillaryFd :: "XInputStream \<Rightarrow> (u32 \<times> XInputStream) option" where
  "XInputStream_getAncillaryFd s =
     (if 0 < ia_size (xi_ancillaryFds s)
      then do { (fd, a) \<leftarrow> IntArray_removeAt (xi_ancillaryFds s) 0; Some (fd, s\<lparr>xi_ancillaryFds := a\<rparr>) }
      else Some (- 1, s))"

section \<open>The output stream\<close>

record XOutputStream =
  xo_ancillaryFd :: int
  xo_data :: "u8 list"
  xo_capacity :: nat
  xo_position :: nat
  xo_limit :: nat

definition ensureSpaceIsAvailable :: "XOutputStream \<Rightarrow> nat \<Rightarrow> XOutputStream option" where
  "ensureSpaceIsAvailable s n =
     (if int n \<le> int (xo_capacity s) - int (xo_position s) then Some s
      else let newCapacity = xo_capacity s + n
      in if INT_LIMIT < newCapacity then None
         else Some (s\<lparr>xo_capacity := newCapacity, xo_limit := newCapacity, xo_data := realloc 0 (xo_data s) newCapacity\<rparr>))"

definition XOutputStream_allocate :: "nat \<Rightarrow> XOutputStream" where
  "XOutputStream_allocate initialCapacity =
     \<lparr>xo_ancillaryFd = 0, xo_data = replicate initialCapacity 0, xo_capacity = initialCapacity, xo_position = 0,
      xo_limit = initialCapacity\<rparr>"

definition XOutputStream_setAncillaryFd :: "int \<Rightarrow> XOutputStream \<Rightarrow> XOutputStream" where
  "XOutputStream_setAncillaryFd fd s = s\<lparr>xo_ancillaryFd := fd\<rparr>"

definition XOutputStream_write :: "u8 list \<Rightarrow> XOutputStream \<Rightarrow> XOutputStream option" where
  "XOutputStream_write bytes s = do {
     s' \<leftarrow> ensureSpaceIsAvailable s (length bytes);
     d \<leftarrow> blit (xo_data s') (xo_position s') bytes;
     Some (s'\<lparr>xo_data := d, xo_position := xo_position s' + length bytes\<rparr>) }"

definition XOutputStream_writeByte :: "u8 \<Rightarrow> XOutputStream \<Rightarrow> XOutputStream option" where
  "XOutputStream_writeByte v = XOutputStream_write (le_bytes 1 v)"

definition XOutputStream_writeShort :: "u16 \<Rightarrow> XOutputStream \<Rightarrow> XOutputStream option" where
  "XOutputStream_writeShort v = XOutputStream_write (le_bytes 2 v)"

definition XOutputStream_writeInt :: "u32 \<Rightarrow> XOutputStream \<Rightarrow> XOutputStream option" where
  "XOutputStream_writeInt v = XOutputStream_write (le_bytes 4 v)"

definition XOutputStream_writeLong :: "u64 \<Rightarrow> XOutputStream \<Rightarrow> XOutputStream option" where
  "XOutputStream_writeLong v = XOutputStream_write (le_bytes 8 v)"

definition XOutputStream_writePad :: "nat \<Rightarrow> XOutputStream \<Rightarrow> XOutputStream option" where
  "XOutputStream_writePad n = XOutputStream_write (replicate n 0)"

definition XOutputStream_writeByteBuffer :: "u8 list \<Rightarrow> nat \<Rightarrow> nat \<Rightarrow> XOutputStream \<Rightarrow> XOutputStream option" where
  "XOutputStream_writeByteBuffer data offset n s = do { bytes \<leftarrow> slice data offset n; XOutputStream_write bytes s }"

text \<open>Overwrites without a look at the capacity.\<close>

definition XOutputStream_writeAt :: "nat \<Rightarrow> u8 list \<Rightarrow> XOutputStream \<Rightarrow> XOutputStream option" where
  "XOutputStream_writeAt position data s = do { d \<leftarrow> blit (xo_data s) position data; Some (s\<lparr>xo_data := d\<rparr>) }"

text \<open>What is handed to the kernel: the descriptor, when one is set, and the bytes. \<open>bytesSent\<close> is its answer.\<close>

definition XOutputStream_send :: "int \<Rightarrow> XOutputStream \<Rightarrow> (bool \<times> (int option \<times> u8 list) option \<times> XOutputStream) option" where
  "XOutputStream_send bytesSent s =
     (if xo_position s = 0 then Some (True, None, s)
      else do {
        bytes \<leftarrow> slice (xo_data s) 0 (xo_position s);
        Some (0 \<le> bytesSent,
              Some (if 0 < xo_ancillaryFd s then Some (xo_ancillaryFd s) else None, bytes),
              s\<lparr>xo_ancillaryFd := (if 0 < xo_ancillaryFd s then 0 else xo_ancillaryFd s),
                xo_position := 0, xo_limit := xo_capacity s\<rparr>) })"

definition XOutputStream_length :: "XOutputStream \<Rightarrow> nat" where
  "XOutputStream_length s = xo_position s"

end
