(* ===== verification/Socket_IO.thy ===== *)
theory Socket_IO
  imports Array_Lemmas
begin

text \<open>
  The transfer loops over sockets and descriptors: \<^verbatim>\<open>cpp/include/socket_utils.h\<close>, and the exact writes of
  \<^verbatim>\<open>vortekrenderer/src/timeline_semaphore.c\<close> and \<^verbatim>\<open>async_pipeline_creator.c\<close>. The kernel is a list of answers, one per
  system call; when the list ends the call blocks for ever and the result is \<^const>\<open>None\<close>. A loop returns its result,
  the bytes that went over the descriptor, and the answers left.
\<close>

section \<open>Reading and writing\<close>

text \<open>The answer to \<^verbatim>\<open>read(fd, ptr, left)\<close>: the result, and the bytes for a positive one. The kernel answers with at most
  \<open>left\<close> bytes and as many as it says; another answer makes the model \<^const>\<open>None\<close>.\<close>

datatype read_answer = Data "u8 list" | End_of_file | Read_error

fun sock_read :: "u8 list \<Rightarrow> nat \<Rightarrow> nat \<Rightarrow> nat \<Rightarrow> read_answer list \<Rightarrow> (int \<times> u8 list \<times> read_answer list) option" where
  "sock_read buffer ptr left sz [] = None"
| "sock_read buffer ptr left sz (End_of_file # as) = Some (0, buffer, as)"
| "sock_read buffer ptr left sz (Read_error # as) = Some (- 1, buffer, as)"
| "sock_read buffer ptr left sz (Data bytes # as) =
     (if bytes = [] \<or> left < length bytes then None
      else do {
        buffer' \<leftarrow> blit buffer ptr bytes;
        (if left = length bytes then Some (int sz, buffer', as)
         else sock_read buffer' (ptr + length bytes) (left - length bytes) sz as) })"

definition sock_read_call :: "u8 list \<Rightarrow> nat \<Rightarrow> read_answer list \<Rightarrow> (int \<times> u8 list \<times> read_answer list) option" where
  "sock_read_call buffer sz as = sock_read buffer 0 sz sz as"

text \<open>The answer to a \<^verbatim>\<open>write\<close> or \<^verbatim>\<open>send\<close>: the number of bytes taken, or an error, interrupted or not.\<close>

datatype write_answer = Taken nat | Interrupted | Write_error

text \<open>\<open>sock_write\<close> goes on after an answer of 0.\<close>

fun sock_write :: "u8 list \<Rightarrow> nat \<Rightarrow> write_answer list \<Rightarrow> (int \<times> u8 list \<times> write_answer list) option" where
  "sock_write bytes sz [] = None"
| "sock_write bytes sz (Interrupted # as) = Some (- 1, [], as)"
| "sock_write bytes sz (Write_error # as) = Some (- 1, [], as)"
| "sock_write bytes sz (Taken n # as) =
     (if length bytes < n then None
      else if length bytes = n then Some (int sz, bytes, as)
      else do {
        (r, rest, as') \<leftarrow> sock_write (drop n bytes) sz as;
        Some (r, take n bytes @ rest, as') })"

text \<open>\<open>writeExact\<close> and \<open>writeSocketExact\<close>: an interrupted call is repeated, an answer of 0 is a failure.\<close>

fun writeExact :: "u8 list \<Rightarrow> write_answer list \<Rightarrow> (bool \<times> u8 list \<times> write_answer list) option" where
  "writeExact [] as = Some (True, [], as)"
| "writeExact (b # bytes) [] = None"
| "writeExact (b # bytes) (Interrupted # as) = writeExact (b # bytes) as"
| "writeExact (b # bytes) (Write_error # as) = Some (False, [], as)"
| "writeExact (b # bytes) (Taken n # as) =
     (if n = 0 then Some (False, [], as)
      else if length (b # bytes) < n then None
      else do {
        (ok, rest, as') \<leftarrow> writeExact (drop n (b # bytes)) as;
        Some (ok, take n (b # bytes) @ rest, as') })"

section \<open>Descriptors with data\<close>

definition MAX_FDS :: nat where
  "MAX_FDS = 32"

text \<open>\<open>send_fds\<close>: what it refuses, or the message it hands to \<^verbatim>\<open>sendmsg\<close>: the bytes and the descriptors of the
  control message. Without data one zero byte is sent.\<close>

definition send_fds :: "int \<Rightarrow> int list ptr \<Rightarrow> int \<Rightarrow> u8 list ptr \<Rightarrow> int \<Rightarrow> (u8 list \<times> int list) option option" where
  "send_fds sockFd fds numFds data sz =
     (if sockFd < 0 \<or> numFds < 0 \<or> int MAX_FDS < numFds \<or> (0 < numFds \<and> fds = None) \<or> sz < 0 \<or> (data = None \<and> 0 < sz)
      then Some None
      else do {
        bytes \<leftarrow> (case data of None \<Rightarrow> Some [0] | Some d \<Rightarrow> slice d 0 (nat sz));
        handed \<leftarrow> (if 0 < numFds then slice (the fds) 0 (nat numFds) else Some []);
        Some (Some (bytes, handed)) })"

text \<open>The control messages that arrived; each holds the descriptors of a rights message, or is of another
  kind. The descriptors of the last one that is not empty are the result, written from the start of the output array.\<close>

datatype control = Rights "int list" | Other_control

fun recv_controls :: "int list \<Rightarrow> nat \<Rightarrow> control list \<Rightarrow> (int list \<times> nat) option" where
  "recv_controls outFds n [] = Some (outFds, n)"
| "recv_controls outFds n (Other_control # cs) = recv_controls outFds n cs"
| "recv_controls outFds n (Rights fds # cs) =
     (if fds = [] then recv_controls outFds n cs
      else do { outFds' \<leftarrow> blit outFds 0 fds; recv_controls outFds' (length fds) cs })"

definition recv_fds :: "int \<Rightarrow> control list \<Rightarrow> int list \<Rightarrow> (int \<times> int list \<times> nat) option" where
  "recv_fds res controls outFds =
     (if 0 < res then do { (out, n) \<leftarrow> recv_controls outFds 0 controls; Some (res, out, n) }
      else Some (res, outFds, 0))"

section \<open>What the loops transfer\<close>

text \<open>The bytes of the answers up to a result.\<close>

fun received :: "read_answer list \<Rightarrow> u8 list" where
  "received (Data bytes # as) = bytes @ received as"
| "received _ = []"

fun taken :: "write_answer list \<Rightarrow> nat" where
  "taken (Taken n # as) = n + taken as"
| "taken (Interrupted # as) = taken as"
| "taken _ = 0"

lemma sock_read_effect:
  "0 < left \<Longrightarrow> ptr + left \<le> length buffer \<Longrightarrow> sock_read buffer ptr left sz as = Some (r, buffer', as') \<Longrightarrow>
     \<exists>got. length got \<le> left \<and> buffer' = take ptr buffer @ got @ drop (ptr + length got) buffer \<and>
       (r = int sz \<and> length got = left \<or> r \<le> 0 \<and> length got < left) \<and>
       (\<exists>rest. received as = got @ rest)"
proof (induction buffer ptr left sz as rule: sock_read.induct)
  case (4 buffer ptr left sz bytes as)
  have b: "bytes \<noteq> []" "length bytes \<le> left" using "4.prems"(3) by (auto split: if_splits)
  let ?b = "take ptr buffer @ bytes @ drop (ptr + length bytes) buffer"
  have bl: "blit buffer ptr bytes = Some ?b" using b "4.prems"(2) by simp
  show ?case
  proof (cases "left = length bytes")
    case True
    then have "r = int sz \<and> buffer' = ?b" using "4.prems"(3) b bl by auto
    then show ?thesis using True by (intro exI [of _ bytes]) simp
  next
    case False
    have step: "sock_read ?b (ptr + length bytes) (left - length bytes) sz as = Some (r, buffer', as')"
      using "4.prems"(3) b bl False by auto
    have "\<exists>got. length got \<le> left - length bytes \<and>
        buffer' = take (ptr + length bytes) ?b @ got @ drop (ptr + length bytes + length got) ?b \<and>
        (r = int sz \<and> length got = left - length bytes \<or> r \<le> 0 \<and> length got < left - length bytes) \<and>
        (\<exists>rest. received as = got @ rest)"
      using b False "4.prems"(2) by (intro "4.IH" [OF _ bl False _ _ step]) auto
    then obtain got rest where g: "length got \<le> left - length bytes"
      "buffer' = take (ptr + length bytes) ?b @ got @ drop (ptr + length bytes + length got) ?b"
      "r = int sz \<and> length got = left - length bytes \<or> r \<le> 0 \<and> length got < left - length bytes"
      "received as = got @ rest" by blast
    have "drop (ptr + length bytes + length got) ?b = drop (ptr + length (bytes @ got)) buffer"
      using "4.prems"(2) b by (simp add: ac_simps)
    moreover have "take (ptr + length bytes) ?b = take ptr buffer @ bytes" using "4.prems"(2) by simp
    ultimately have "buffer' = take ptr buffer @ (bytes @ got) @ drop (ptr + length (bytes @ got)) buffer"
      using g(2) by simp
    then show ?thesis using g(1,3,4) b False by (intro exI [of _ "bytes @ got"]) auto
  qed
qed (auto intro!: exI [of _ "[]"])

lemma sock_write_effect:
  "bytes \<noteq> [] \<Longrightarrow> sock_write bytes sz as = Some (r, out, as') \<Longrightarrow>
     (\<exists>rest. bytes = out @ rest \<and> (r = int sz \<and> rest = [] \<or> r = - 1 \<and> rest \<noteq> []))"
proof (induction bytes sz as arbitrary: r out as' rule: sock_write.induct)
  case (4 bytes sz n as)
  consider "length bytes = n" | "n < length bytes" using "4.prems"(2) by (auto split: if_splits)
  then show ?case
  proof cases
    case 1
    then show ?thesis using "4.prems"(2) by auto
  next
    case 2
    then obtain rest where r: "sock_write (drop n bytes) sz as = Some (r, rest, as')" "out = take n bytes @ rest"
      using "4.prems"(2) by (auto simp: bind_eq_Some_conv split: if_splits)
    have "drop n bytes \<noteq> []" using 2 by simp
    then obtain left where "drop n bytes = rest @ left" "r = int sz \<and> left = [] \<or> r = - 1 \<and> left \<noteq> []"
      using "4.IH" [OF _ _ _ r(1)] 2 by auto
    then show ?thesis using r(2) by (metis append.assoc append_take_drop_id)
  qed
qed auto

end
