(* ===== verification/Async_Requests.thy ===== *)
theory Async_Requests
  imports Socket_IO Array_Properties Decode
begin

text \<open>
  Work of the Vulkan server that outlives its request: the timeline wait of
  \<^verbatim>\<open>vortekrenderer/src/timeline_semaphore.c\<close> and the pipeline creation of \<^verbatim>\<open>async_pipeline_creator.c\<close>. What the driver, the
  context, the handle authority and the kernel answer is an argument; what the code does to them is the list of effects,
  in order. A request owns its lease, its descriptor and its arena.
\<close>

section \<open>Results and effects\<close>

definition VK_SUCCESS :: int where "VK_SUCCESS = 0"
definition VK_TIMEOUT :: int where "VK_TIMEOUT = 2"
definition VK_ERROR_OUT_OF_HOST_MEMORY :: int where "VK_ERROR_OUT_OF_HOST_MEMORY = - 1"
definition VK_ERROR_INITIALIZATION_FAILED :: int where "VK_ERROR_INITIALIZATION_FAILED = - 3"
definition VK_ERROR_DEVICE_LOST :: int where "VK_ERROR_DEVICE_LOST = - 4"
definition VK_ERROR_EXTENSION_NOT_PRESENT :: int where "VK_ERROR_EXTENSION_NOT_PRESENT = - 7"

named_theorems vk_result_defs \<open>Vulkan result codes\<close>

declare VK_SUCCESS_def [vk_result_defs] VK_TIMEOUT_def [vk_result_defs] VK_ERROR_OUT_OF_HOST_MEMORY_def [vk_result_defs]
  VK_ERROR_INITIALIZATION_FAILED_def [vk_result_defs] VK_ERROR_DEVICE_LOST_def [vk_result_defs]
  VK_ERROR_EXTENSION_NOT_PRESENT_def [vk_result_defs]

datatype effect =
    Opened | Sent_descriptor | Sent_setup bool | Submitted bool | Wrote "u8 list" | Stop_requested int
  | Closed | Released_lease | Freed_arena | Freed_request
  | Lock | Unlock | Created "u64 list" | Destroyed u64 | Published "u64 list" | Rolled_back "u64 list"

record async_request =
  rq_notifyFd :: int
  rq_leaseActive :: bool

text \<open>\<open>releaseWaitRequest\<close> and \<open>releasePipelineRequest\<close> are the same function.\<close>

definition releaseRequest :: "async_request \<Rightarrow> effect list" where
  "releaseRequest rq =
     (if 0 \<le> rq_notifyFd rq then [Closed] else []) @ (if rq_leaseActive rq then [Released_lease] else [])
       @ [Freed_arena, Freed_request]"

section \<open>The timeline wait\<close>

definition VORTEK_TIMELINE_WAIT_SLICE_NS :: u64 where
  "VORTEK_TIMELINE_WAIT_SLICE_NS = 50000000"

text \<open>Each turn asks whether the wait is cancelled and, if not, waits for a slice: the two answers. The result
  is the code, and the slices the driver was called with.\<close>

fun wait_slices :: "u64 \<Rightarrow> (bool \<times> int) list \<Rightarrow> (int \<times> u64 list) option" where
  "wait_slices remaining [] = None"
| "wait_slices remaining ((cancelled, answer) # turns) =
     (if cancelled then Some (VK_ERROR_DEVICE_LOST, [])
      else let slice = (if remaining = UINT64_MAX \<or> VORTEK_TIMELINE_WAIT_SLICE_NS < remaining
                        then VORTEK_TIMELINE_WAIT_SLICE_NS else remaining)
           in if answer \<noteq> VK_TIMEOUT then Some (answer, [slice])
              else if remaining \<noteq> UINT64_MAX \<and> remaining \<le> slice then Some (VK_TIMEOUT, [slice])
              else map_option (map_prod id (Cons slice))
                     (wait_slices (if remaining \<noteq> UINT64_MAX then remaining - slice else remaining) turns))"

text \<open>\<open>available\<close>: the driver has the entry point.\<close>

definition waitWithCancellation :: "bool \<Rightarrow> bool \<Rightarrow> u64 \<Rightarrow> int \<Rightarrow> (bool \<times> int) list \<Rightarrow> (int \<times> u64 list) option" where
  "waitWithCancellation available cancelled timeout poll turns =
     (if \<not> available then Some (VK_ERROR_EXTENSION_NOT_PRESENT, [])
      else if cancelled then Some (VK_ERROR_DEVICE_LOST, [])
      else if timeout = 0 then Some (poll, [0])
      else wait_slices timeout turns)"

definition resultToken :: "int \<Rightarrow> u64" where
  "resultToken result = (if result = VK_SUCCESS then 1 else if result = VK_ERROR_DEVICE_LOST then 2 else 3)"

definition notifyWaitResult :: "async_request \<Rightarrow> int \<Rightarrow> write_answer list \<Rightarrow> (bool \<times> effect list) option" where
  "notifyWaitResult rq result answers =
     (if rq_notifyFd rq < 0 then Some (False, [])
      else map_option (\<lambda>(ok, sent, _). (ok, [Wrote sent])) (writeExact (le_bytes 8 (resultToken result)) answers))"

definition notifyAndRelease :: "async_request \<Rightarrow> int \<Rightarrow> write_answer list \<Rightarrow> effect list option" where
  "notifyAndRelease rq result answers = do {
     (ok, es) \<leftarrow> notifyWaitResult rq result answers;
     Some (es @ (if ok then [] else [Stop_requested VK_ERROR_DEVICE_LOST]) @ releaseRequest rq) }"

definition waitSemaphoresThread ::
  "async_request \<Rightarrow> bool \<Rightarrow> bool \<Rightarrow> u64 \<Rightarrow> int \<Rightarrow> (bool \<times> int) list \<Rightarrow> write_answer list \<Rightarrow> effect list option" where
  "waitSemaphoresThread rq available cancelled timeout poll turns answers = do {
     (result, _) \<leftarrow> waitWithCancellation available cancelled timeout poll turns;
     notifyAndRelease rq result answers }"

definition cancelWaitRequest :: "async_request \<Rightarrow> write_answer list \<Rightarrow> effect list option" where
  "cancelWaitRequest rq answers = notifyAndRelease rq VK_ERROR_DEVICE_LOST answers"

text \<open>The answers during \<open>TimelineSemaphore_asyncWait\<close>: whether an argument is missing, the context, the allocation, the lease and whether its device is the
  right one, the decoding, the event descriptor, the number of bytes \<open>send_fds\<close> sent, and whether the pool
  accepted the work (when it did, the request belongs to the worker).\<close>

record wait_answers =
  wa_badArguments :: bool
  wa_closing :: bool
  wa_calloc :: bool
  wa_lease :: bool
  wa_sameDevice :: bool
  wa_decoded :: bool
  wa_eventfd :: int
  wa_sent :: int
  wa_accepted :: bool
  wa_writes :: "write_answer list"

definition TimelineSemaphore_asyncWait :: "wait_answers \<Rightarrow> (bool \<times> effect list) option" where
  "TimelineSemaphore_asyncWait a =
     (if wa_badArguments a \<or> wa_closing a \<or> \<not> wa_calloc a then Some (False, [])
      else let rq = \<lparr>rq_notifyFd = - 1, rq_leaseActive = wa_lease a\<rparr>
      in if \<not> wa_lease a \<or> \<not> wa_sameDevice a \<or> \<not> wa_decoded a then Some (False, releaseRequest rq)
      else let rq1 = rq\<lparr>rq_notifyFd := wa_eventfd a\<rparr>
      in if wa_eventfd a < 0 then Some (False, releaseRequest rq1)
      else if wa_sent a \<noteq> 1
      then Some (False, Opened # releaseRequest rq1 @ [Stop_requested VK_ERROR_DEVICE_LOST])
      else if wa_accepted a then Some (True, [Opened, Sent_descriptor, Submitted True])
      else do {
        es \<leftarrow> cancelWaitRequest rq1 (wa_writes a);
        Some (True, [Opened, Sent_descriptor, Submitted False] @ es) })"

section \<open>Pipeline creation\<close>

definition zero_bytes :: "nat \<Rightarrow> u8 list" where
  "zero_bytes n = replicate n 0"

text \<open>\<open>writePipelineResponse\<close>: the result and the tokens, zeros without tokens.\<close>

definition writePipelineResponse ::
  "async_request \<Rightarrow> nat \<Rightarrow> bool \<Rightarrow> int \<Rightarrow> u64 list option \<Rightarrow> write_answer list \<Rightarrow> (bool \<times> effect list) option" where
  "writePipelineResponse rq pipelineCount calloc_ok result wireTokens answers =
     (if rq_notifyFd rq < 0 \<or> \<not> calloc_ok then Some (False, [])
      else let output = le_bytes 4 (word_of_int result :: u32) @
             (case wireTokens of None \<Rightarrow> zero_bytes (pipelineCount * 8)
              | Some tokens \<Rightarrow> concat (map (le_bytes 8) (take pipelineCount tokens)))
           in map_option (\<lambda>(ok, sent, _). (ok, [Wrote sent])) (writeExact output answers))"

definition destroyPipelines :: "bool \<Rightarrow> u64 list \<Rightarrow> effect list" where
  "destroyPipelines has_destroy pipelines = (if has_destroy then map Destroyed (filter (\<lambda>p. p \<noteq> 0) pipelines) else [])"

text \<open>The answers during \<open>pipelineCreateThread\<close>.\<close>

record pipeline_answers =
  pa_allocations :: "bool \<times> bool \<times> bool"
  pa_closing :: bool
  pa_leaseCancelled :: bool
  pa_poolCancelled :: bool
  pa_hasInspector :: bool
  pa_inspect :: "nat \<Rightarrow> int"
  pa_hasCreate :: bool
  pa_create :: "int \<times> u64 list"
  pa_closingAfter :: bool
  pa_leaseCancelledAfter :: bool
  pa_publish :: "u64 list option"
  pa_hasDestroy :: bool
  pa_responseCalloc :: bool
  pa_writes :: "write_answer list"
  pa_rollbackOk :: bool

fun inspect_loop :: "(nat \<Rightarrow> int) \<Rightarrow> nat \<Rightarrow> nat \<Rightarrow> int" where
  "inspect_loop inspect 0 index = VK_SUCCESS"
| "inspect_loop inspect (Suc left) index =
     (if inspect index \<noteq> VK_SUCCESS then inspect index else inspect_loop inspect left (index + 1))"

definition inspectPipelineShaders :: "pipeline_answers \<Rightarrow> nat \<Rightarrow> int" where
  "inspectPipelineShaders a pipelineCount =
     (if \<not> pa_hasInspector a then VK_ERROR_INITIALIZATION_FAILED else inspect_loop (pa_inspect a) pipelineCount 0)"

text \<open>\<open>pa_inspect\<close> is the inspection of the stages of a pipeline, \<open>pa_hasCreate\<close> whether the driver has the entry
  point for the type of the request. The driver fills the given handles, and leaves those of pipelines it could not make at NULL.\<close>

definition createHostPipelines :: "pipeline_answers \<Rightarrow> nat \<Rightarrow> int \<times> u64 list \<times> effect list" where
  "createHostPipelines a pipelineCount =
     (if \<not> pa_hasCreate a then (VK_ERROR_EXTENSION_NOT_PRESENT, replicate pipelineCount 0, [])
      else case pa_create a of (result, pipelines) \<Rightarrow> (result, pipelines, [Created pipelines]))"

text \<open>The part under the pipeline mutex: the result, the pipelines, and the tokens when they were published.\<close>

definition create_and_publish :: "pipeline_answers \<Rightarrow> nat \<Rightarrow> int \<times> u64 list \<times> u64 list option \<times> effect list" where
  "create_and_publish a pipelineCount =
     (let none = replicate pipelineCount 0;
          (result0, pipelines, es) =
            (if pa_closing a \<or> pa_leaseCancelled a \<or> pa_poolCancelled a then (VK_ERROR_DEVICE_LOST, none, [])
             else let inspected = inspectPipelineShaders a pipelineCount
                  in if inspected = VK_SUCCESS then createHostPipelines a pipelineCount else (inspected, none, []));
          result1 = (if result0 = VK_SUCCESS \<and> 0 \<in> set pipelines then VK_ERROR_INITIALIZATION_FAILED else result0);
          (result2, published, es2) =
            (if result1 = VK_SUCCESS \<and> \<not> pa_closingAfter a \<and> \<not> pa_leaseCancelledAfter a
             then (case pa_publish a of
                     Some tokens \<Rightarrow> (result1, Some tokens, [Published tokens])
                   | None \<Rightarrow> (VK_ERROR_DEVICE_LOST, None, [Stop_requested VK_ERROR_DEVICE_LOST]))
             else if result1 = VK_SUCCESS then (VK_ERROR_DEVICE_LOST, None, []) else (result1, None, []))
      in (result2, pipelines, published,
          [Lock] @ es @ es2 @ (if published = None then destroyPipelines (pa_hasDestroy a) pipelines else []) @ [Unlock]))"

definition pipelineCreateThread :: "async_request \<Rightarrow> nat \<Rightarrow> pipeline_answers \<Rightarrow> effect list option" where
  "pipelineCreateThread rq pipelineCount a =
     (let (result, pipelines, published, es) =
        (if SIZE_MAX div 8 < pipelineCount then (VK_ERROR_OUT_OF_HOST_MEMORY, [], None, [])
         else case pa_allocations a of (a1, a2, a3) \<Rightarrow>
           if \<not> a1 \<or> \<not> a2 \<or> \<not> a3 then (VK_ERROR_OUT_OF_HOST_MEMORY, [], None, [])
           else create_and_publish a pipelineCount)
      in do {
        (ok, es2) \<leftarrow> writePipelineResponse rq pipelineCount (pa_responseCalloc a) result published (pa_writes a);
        Some (es @ es2 @
          (if ok then []
           else (case published of
                   None \<Rightarrow> []
                 | Some tokens \<Rightarrow>
                     (if pa_rollbackOk a then Rolled_back tokens # destroyPipelines (pa_hasDestroy a) pipelines
                      else [Stop_requested VK_ERROR_DEVICE_LOST]))
                @ [Stop_requested VK_ERROR_DEVICE_LOST])
          @ releaseRequest rq) })"

definition cancelPipelineRequest :: "async_request \<Rightarrow> nat \<Rightarrow> bool \<Rightarrow> write_answer list \<Rightarrow> effect list option" where
  "cancelPipelineRequest rq pipelineCount calloc_ok answers = do {
     (ok, es) \<leftarrow> writePipelineResponse rq pipelineCount calloc_ok VK_ERROR_DEVICE_LOST None answers;
     Some (es @ (if ok then [] else [Stop_requested VK_ERROR_DEVICE_LOST]) @ releaseRequest rq) }"

text \<open>The one byte that says whether the set-up worked; its \<^verbatim>\<open>send\<close> is repeated while interrupted.\<close>

fun sendSetupByte :: "bool \<Rightarrow> write_answer list \<Rightarrow> (bool \<times> effect list) option" where
  "sendSetupByte success [] = None"
| "sendSetupByte success (Interrupted # as) = sendSetupByte success as"
| "sendSetupByte success (Write_error # as) = Some (False, [])"
| "sendSetupByte success (Taken n # as) = Some (n = 1, if n = 1 then [Sent_setup success] else [])"

record create_answers =
  ca_badArguments :: bool
  ca_closing :: bool
  ca_calloc :: bool
  ca_lease :: bool
  ca_sameDevice :: bool
  ca_decoded :: bool
  ca_socketpair :: "(int \<times> int) option"
  ca_sent :: int
  ca_accepted :: bool
  ca_responseCalloc :: bool
  ca_writes :: "write_answer list"

definition AsyncPipelineCreator_create :: "nat \<Rightarrow> create_answers \<Rightarrow> (bool \<times> effect list) option" where
  "AsyncPipelineCreator_create pipelineCount a =
     (if ca_badArguments a \<or> ca_closing a \<or> pipelineCount = 0 \<or> unat VT_DECODE_MAX_ELEMENTS < pipelineCount then Some (False, [])
      else if \<not> ca_calloc a then sendSetupByte False (ca_writes a)
      else let rq = \<lparr>rq_notifyFd = - 1, rq_leaseActive = ca_lease a\<rparr>
      in if \<not> ca_lease a \<or> \<not> ca_sameDevice a \<or> \<not> ca_decoded a then Some (False, releaseRequest rq)
      else case ca_socketpair a of
        None \<Rightarrow> map_option (\<lambda>(ok, es). (ok, releaseRequest rq @ es)) (sendSetupByte False (ca_writes a))
      | Some (theirs, ours) \<Rightarrow>
          if ca_sent a \<noteq> 1
          then Some (False, [Opened, Opened, Closed, Closed] @ releaseRequest rq @ [Stop_requested VK_ERROR_DEVICE_LOST])
          else if ca_accepted a then Some (True, [Opened, Opened, Sent_descriptor, Closed, Submitted True])
          else do {
            es \<leftarrow> cancelPipelineRequest (rq\<lparr>rq_notifyFd := ours\<rparr>) pipelineCount (ca_responseCalloc a) (ca_writes a);
            Some (True, [Opened, Opened, Sent_descriptor, Closed, Submitted False] @ es) })"

end
