(* ===== verification/Async_Properties.thy ===== *)
theory Async_Properties
  imports Async_Requests "HOL-Library.Multiset"
begin

text \<open>
  Timeline waits end in time, and asynchronous requests give back what they own exactly once, whatever their
  surroundings answer.
\<close>

section \<open>The timeline wait\<close>

text \<open>The number of slices a timeout is cut into.\<close>

definition slices_of :: "u64 \<Rightarrow> nat" where
  "slices_of timeout = (unat timeout + 49999999) div 50000000"

definition plain_turn :: "bool \<times> int \<Rightarrow> bool" where
  "plain_turn t \<longleftrightarrow> t = (False, VK_TIMEOUT)"

definition plain_turns :: "nat \<Rightarrow> (bool \<times> int) list \<Rightarrow> nat" where
  "plain_turns k turns = length (takeWhile plain_turn (take k turns))"

lemma slice_nat: "unat VORTEK_TIMELINE_WAIT_SLICE_NS = 50000000"
  by (simp add: VORTEK_TIMELINE_WAIT_SLICE_NS_def)

lemma slices_last: "0 < timeout \<Longrightarrow> timeout \<le> VORTEK_TIMELINE_WAIT_SLICE_NS \<Longrightarrow> slices_of timeout = 1"
  unfolding word_less_nat_alt word_le_nat_alt slice_nat slices_of_def by simp

lemma slices_more:
  assumes "VORTEK_TIMELINE_WAIT_SLICE_NS < timeout"
  shows "slices_of timeout = Suc (slices_of (timeout - VORTEK_TIMELINE_WAIT_SLICE_NS))"
    "unat (timeout - VORTEK_TIMELINE_WAIT_SLICE_NS) = unat timeout - 50000000"
proof -
  have lt: "50000000 < unat timeout" using assms unfolding word_less_nat_alt slice_nat .
  show u: "unat (timeout - VORTEK_TIMELINE_WAIT_SLICE_NS) = unat timeout - 50000000"
    using assms slice_nat by (simp add: unat_sub_if_size word_le_nat_alt word_less_nat_alt)
  show "slices_of timeout = Suc (slices_of (timeout - VORTEK_TIMELINE_WAIT_SLICE_NS))"
    unfolding slices_of_def u using lt by simp
qed

lemma plain_turns_Cons:
  "plain_turns (Suc k) (t # turns) = (if plain_turn t then Suc (plain_turns k turns) else 0)"
  by (simp add: plain_turns_def)

definition wait_outcome :: "nat \<Rightarrow> (bool \<times> int) list \<Rightarrow> int" where
  "wait_outcome k turns =
     (let i = plain_turns k turns
      in if i = k then VK_TIMEOUT else if fst (turns ! i) then VK_ERROR_DEVICE_LOST else snd (turns ! i))"

lemma wait_slices_effect:
  "0 < timeout \<Longrightarrow> timeout \<noteq> UINT64_MAX \<Longrightarrow> slices_of timeout \<le> length turns \<Longrightarrow>
     \<exists>slices. wait_slices timeout turns = Some (wait_outcome (slices_of timeout) turns, slices) \<and>
       list_all (\<lambda>s. unat s \<le> 50000000) slices \<and> sum_list (map unat slices) \<le> unat timeout \<and>
       length slices \<le> plain_turns (slices_of timeout) turns + 1 \<and> length slices \<le> slices_of timeout \<and>
       (plain_turns (slices_of timeout) turns = slices_of timeout \<longrightarrow> sum_list (map unat slices) = unat timeout)"
proof (induction turns arbitrary: timeout)
  case Nil
  have "0 < unat timeout" using Nil.prems(1) by (simp add: word_less_nat_alt)
  then have "slices_of timeout \<noteq> 0" by (simp add: slices_of_def div_greater_zero_iff)
  then show ?case using Nil.prems(3) by simp
next
  case (Cons t turns)
  obtain c answer where t: "t = (c, answer)" by (cases t)
  let ?S = VORTEK_TIMELINE_WAIT_SLICE_NS
  show ?case
  proof (cases "timeout \<le> ?S")
    case True
    then have one: "slices_of timeout = Suc 0" using slices_last [OF Cons.prems(1)] by simp
    have le: "unat timeout \<le> 50000000" using True unfolding word_le_nat_alt slice_nat .
    have "plain_turns 0 turns = 0" by (simp add: plain_turns_def)
    then show ?thesis using True le Cons.prems(2)
      by (auto simp: t one plain_turns_Cons plain_turn_def wait_outcome_def Let_def not_less)
  next
    case False
    then have gt: "?S < timeout" by simp
    note more = slices_more [OF gt]
    have lt: "50000000 < unat timeout" using gt unfolding word_less_nat_alt slice_nat .
    have rest: "0 < timeout - ?S" "timeout - ?S \<noteq> UINT64_MAX"
    proof -
      have "0 < unat (timeout - ?S)" using more(2) lt by simp
      then show "0 < timeout - ?S" by (simp add: word_less_nat_alt)
      have "unat (timeout - ?S) < unat timeout" using more(2) lt by simp
      moreover have "unat timeout \<le> unat (- 1 :: u64)" by (simp add: word_le_nat_alt [symmetric])
      ultimately show "timeout - ?S \<noteq> UINT64_MAX" unfolding UINT64_MAX_def by (metis leD)
    qed
    have step: "wait_slices timeout (t # turns) =
        (if c then Some (VK_ERROR_DEVICE_LOST, []) else if answer \<noteq> VK_TIMEOUT then Some (answer, [?S])
         else map_option (map_prod id (Cons ?S)) (wait_slices (timeout - ?S) turns))"
      using gt Cons.prems(2) by (auto simp: t Let_def)
    show ?thesis
    proof (cases "plain_turn t")
      case False
      then show ?thesis using step t lt more(1) slice_nat
        by (auto simp: plain_turns_Cons plain_turn_def wait_outcome_def Let_def)
    next
      case True
      have len: "slices_of (timeout - ?S) \<le> length turns" using Cons.prems(3) more(1) by simp
      obtain slices where s: "wait_slices (timeout - ?S) turns = Some (wait_outcome (slices_of (timeout - ?S)) turns, slices)"
        "list_all (\<lambda>s. unat s \<le> 50000000) slices" "sum_list (map unat slices) \<le> unat (timeout - ?S)"
        "length slices \<le> plain_turns (slices_of (timeout - ?S)) turns + 1" "length slices \<le> slices_of (timeout - ?S)"
        "plain_turns (slices_of (timeout - ?S)) turns = slices_of (timeout - ?S) \<longrightarrow> sum_list (map unat slices) = unat (timeout - ?S)"
        using Cons.IH [OF rest len] by blast
      have "wait_outcome (slices_of timeout) (t # turns) = wait_outcome (slices_of (timeout - ?S)) turns"
        using True by (simp add: wait_outcome_def more(1) plain_turns_Cons Let_def)
      then show ?thesis using s True step t lt slice_nat more
        by (intro exI [of _ "?S # slices"]) (auto simp: plain_turns_Cons plain_turn_def)
    qed
  qed
qed

text \<open>A timeline wait with a timeout ends in time. Cut into slices of at most 50 ms, it calls the driver at
  most once per slice and never asks for more than the timeout in all; the result is that of the first
  turn that is cancelled (the device is lost, and the driver is not called again) or answered with anything but a
  timeout, and a timeout only after the full time.\<close>

theorem timeline_wait_is_bounded:
  assumes "0 < timeout" "timeout \<noteq> UINT64_MAX" "slices_of timeout \<le> length turns"
  shows "\<exists>slices. waitWithCancellation True False timeout poll turns = Some (wait_outcome (slices_of timeout) turns, slices) \<and>
    list_all (\<lambda>s. unat s \<le> 50000000) slices \<and> sum_list (map unat slices) \<le> unat timeout \<and>
    length slices \<le> slices_of timeout \<and>
    (if plain_turns (slices_of timeout) turns = slices_of timeout then sum_list (map unat slices) = unat timeout
     else length slices \<le> plain_turns (slices_of timeout) turns + 1)"
  using wait_slices_effect [OF assms] assms(1) by (auto simp: waitWithCancellation_def)

text \<open>120 ms are waited as 50, 50 and 20; a cancellation before the third slice ends the wait.\<close>

lemma timeline_wait_is_bounded_witness:
  "wait_slices 120000000 [(False, 2), (False, 2), (False, 2)] = Some (2, [50000000, 50000000, 20000000]) \<and>
   (\<exists>slices. waitWithCancellation True False 120000000 0 [(False, 2), (False, 2), (True, 2)] = Some (- 4, slices) \<and>
      length slices \<le> 3)"
proof
  show "wait_slices 120000000 [(False, 2), (False, 2), (False, 2)] = Some (2, [50000000, 50000000, 20000000])"
    by code_simp
  have k: "slices_of 120000000 = 3" by (simp add: slices_of_def)
  have o: "wait_outcome 3 [(False, 2), (False, 2), (True, 2)] = - 4" by code_simp
  from timeline_wait_is_bounded [of 120000000 "[(False, 2), (False, 2), (True, 2)]" 0, unfolded k o]
  show "\<exists>slices. waitWithCancellation True False 120000000 0 [(False, 2), (False, 2), (True, 2)] = Some (- 4, slices) \<and>
      length slices \<le> 3" by (auto simp: UINT64_MAX_def)
qed

section \<open>What a request owns\<close>

definition ownership :: "effect \<Rightarrow> bool" where
  "ownership e \<longleftrightarrow> e \<in> {Closed, Released_lease, Freed_arena, Freed_request}"

lemma ownership_simps [simp]:
  "\<not> ownership Lock" "\<not> ownership Unlock" "\<not> ownership (Created ps)" "\<not> ownership (Destroyed p)"
  "\<not> ownership (Published ts)" "\<not> ownership (Rolled_back ts)" "\<not> ownership (Stop_requested r)" "\<not> ownership (Wrote bs)"
  by (simp_all add: ownership_def)

text \<open>The lease, the descriptor, the arena and the request are given back once, at the end.\<close>

definition releases_once :: "async_request \<Rightarrow> effect list \<Rightarrow> bool" where
  "releases_once rq es \<longleftrightarrow> (\<exists>body. es = body @ releaseRequest rq \<and> list_all (\<lambda>e. \<not> ownership e) body)"

definition destroyed :: "effect list \<Rightarrow> u64 list" where
  "destroyed es = List.map_filter (\<lambda>e. case e of Destroyed p \<Rightarrow> Some p | _ \<Rightarrow> None) es"

definition created :: "effect list \<Rightarrow> u64 list" where
  "created es = filter (\<lambda>p. p \<noteq> 0) (concat (List.map_filter (\<lambda>e. case e of Created ps \<Rightarrow> Some ps | _ \<Rightarrow> None) es))"

definition owned_by_registry :: "effect list \<Rightarrow> bool" where
  "owned_by_registry es \<longleftrightarrow> (\<exists>tokens. Published tokens \<in> set es \<and> Rolled_back tokens \<notin> set es)"

text \<open>A complete answer of the given length, or a request to stop the context.\<close>

definition answered :: "nat \<Rightarrow> effect list \<Rightarrow> bool" where
  "answered n es \<longleftrightarrow> (\<exists>bytes. Wrote bytes \<in> set es \<and> length bytes = n) \<or> Stop_requested VK_ERROR_DEVICE_LOST \<in> set es"

lemma destroyed_simps [simp]:
  "destroyed [] = []" "destroyed (e # es) = (case e of Destroyed p \<Rightarrow> [p] | _ \<Rightarrow> []) @ destroyed es"
  "destroyed (es @ es') = destroyed es @ destroyed es'"
  by (simp_all add: destroyed_def map_filter_def split: effect.split)

lemma created_simps [simp]:
  "created [] = []" "created (e # es) = (case e of Created ps \<Rightarrow> filter (\<lambda>p. p \<noteq> 0) ps | _ \<Rightarrow> []) @ created es"
  "created (es @ es') = created es @ created es'"
  by (simp_all add: created_def map_filter_def split: effect.split)

lemma destroyed_map [simp]: "destroyed (map Destroyed ps) = ps" "created (map Destroyed ps) = []"
  by (induction ps) simp_all

lemma destroyPipelines_simps [simp]:
  "destroyed (destroyPipelines True ps) = filter (\<lambda>p. p \<noteq> 0) ps" "created (destroyPipelines d ps) = []"
  "list_all (\<lambda>e. \<not> ownership e) (destroyPipelines d ps)" "Published t \<notin> set (destroyPipelines d ps)"
  "Rolled_back t \<notin> set (destroyPipelines d ps)"
  by (auto simp: destroyPipelines_def list_all_iff ownership_def)

lemma releaseRequest_simps [simp]:
  "destroyed (releaseRequest rq) = []" "created (releaseRequest rq) = []" "Published t \<notin> set (releaseRequest rq)"
  "Rolled_back t \<notin> set (releaseRequest rq)"
  by (simp_all add: releaseRequest_def)

lemma writeExact_all: "writeExact bytes as = Some (True, sent, rest) \<Longrightarrow> sent = bytes"
proof (induction bytes as arbitrary: sent rest rule: writeExact.induct)
  case (5 b bytes n as)
  then show ?case by (auto simp: bind_eq_Some_conv simp del: take_append drop_append split: if_splits)
qed auto

lemma response_effects:
  assumes "writePipelineResponse rq n calloc_ok result tokens answers = Some (ok, es)" "\<forall>t. tokens = Some t \<longrightarrow> length t = n"
  shows "destroyed es = []" "created es = []" "list_all (\<lambda>e. \<not> ownership e) es" "Published t \<notin> set es" "Rolled_back t \<notin> set es"
    "ok \<longrightarrow> (\<exists>bytes. Wrote bytes \<in> set es \<and> length bytes = 4 + 8 * n)"
proof -
  let ?out = "le_bytes 4 (word_of_int result :: u32) @ (case tokens of None \<Rightarrow> zero_bytes (n * 8)
      | Some tokens \<Rightarrow> concat (map (le_bytes 8) (take n tokens)))"
  have "length (concat (map (le_bytes 8) t)) = 8 * length t" for t :: "u64 list" by (induction t) simp_all
  then have "length ?out = 4 + 8 * n" using assms(2) by (cases tokens) (simp_all add: zero_bytes_def)
  then have l: "sent = ?out \<Longrightarrow> length sent = 4 + 8 * n" for sent by simp
  consider "ok = False" "es = []" | sent rest where "writeExact ?out answers = Some (ok, sent, rest)" "es = [Wrote sent]"
    using assms(1) by (auto simp: writePipelineResponse_def Let_def split: if_splits)
  then show "destroyed es = []" "created es = []" "list_all (\<lambda>e. \<not> ownership e) es" "Published t \<notin> set es" "Rolled_back t \<notin> set es"
    "ok \<longrightarrow> (\<exists>bytes. Wrote bytes \<in> set es \<and> length bytes = 4 + 8 * n)"
    by (cases; use l writeExact_all in \<open>fastforce simp: ownership_def\<close>)+
qed

text \<open>The critical section: either the pipelines are published, or all that were created are destroyed.\<close>

lemma create_and_publish_shape:
  assumes "create_and_publish a n = (result, pipelines, published, es)"
  obtains es0 es2 where "es = [Lock] @ es0 @ es2 @ (if published = None then destroyPipelines (pa_hasDestroy a) pipelines else []) @ [Unlock]"
    "es0 = [] \<and> filter (\<lambda>p. p \<noteq> 0) pipelines = [] \<or> es0 = [Created pipelines]"
    "published = None \<and> (es2 = [] \<or> es2 = [Stop_requested VK_ERROR_DEVICE_LOST]) \<or>
     (\<exists>t. published = Some t \<and> pa_publish a = Some t \<and> es2 = [Published t])"
proof -
  let ?r0 = "if pa_closing a \<or> pa_leaseCancelled a \<or> pa_poolCancelled a then (VK_ERROR_DEVICE_LOST, replicate n 0, [])
     else let inspected = inspectPipelineShaders a n
          in if inspected = VK_SUCCESS then createHostPipelines a n else (inspected, replicate n 0, [])"
  obtain result0 ps es0 where r0: "?r0 = (result0, ps, es0)" by (rule prod_cases3)
  have z: "filter (\<lambda>p. p \<noteq> 0) (replicate n (0 :: u64)) = []" by (induction n) simp_all
  have c0: "es0 = [] \<and> filter (\<lambda>p. p \<noteq> 0) ps = [] \<or> es0 = [Created ps]"
    using r0 z by (auto simp: createHostPipelines_def Let_def split: if_splits prod.splits)
  let ?r1 = "if result0 = VK_SUCCESS \<and> 0 \<in> set ps then VK_ERROR_INITIALIZATION_FAILED else result0"
  let ?r2 = "if ?r1 = VK_SUCCESS \<and> \<not> pa_closingAfter a \<and> \<not> pa_leaseCancelledAfter a
     then (case pa_publish a of Some tokens \<Rightarrow> (?r1, Some tokens, [Published tokens])
             | None \<Rightarrow> (VK_ERROR_DEVICE_LOST, None, [Stop_requested VK_ERROR_DEVICE_LOST]))
     else if ?r1 = VK_SUCCESS then (VK_ERROR_DEVICE_LOST, None, []) else (?r1, None, [])"
  obtain result2 pub es2 where r2: "?r2 = (result2, pub, es2)" by (rule prod_cases3)
  have c2: "pub = None \<and> (es2 = [] \<or> es2 = [Stop_requested VK_ERROR_DEVICE_LOST]) \<or>
      (\<exists>t. pub = Some t \<and> pa_publish a = Some t \<and> es2 = [Published t])"
    using r2 by (auto split: if_splits option.splits)
  have "create_and_publish a n = (result2, ps, pub,
      [Lock] @ es0 @ es2 @ (if pub = None then destroyPipelines (pa_hasDestroy a) ps else []) @ [Unlock])"
    unfolding create_and_publish_def Let_def r0 [unfolded Let_def] prod.case r2 by simp
  then show thesis using that assms c0 c2 by auto
qed

lemma create_and_publish_effects:
  assumes "create_and_publish a n = (result, pipelines, published, es)" "pa_hasDestroy a"
  shows "list_all (\<lambda>e. \<not> ownership e) es" "\<forall>t. Rolled_back t \<notin> set es"
    "published = None \<Longrightarrow> destroyed es = created es \<and> (\<forall>t. Published t \<notin> set es)"
    "published = Some t \<Longrightarrow> destroyed es = [] \<and> created es = filter (\<lambda>p. p \<noteq> 0) pipelines \<and>
       Published t \<in> set es \<and> (\<forall>t'. Published t' \<in> set es \<longrightarrow> t' = t) \<and> pa_publish a = Some t"
proof -
  obtain es0 es2 where es: "es = [Lock] @ es0 @ es2 @ (if published = None then destroyPipelines True pipelines else []) @ [Unlock]"
    and e0: "es0 = [] \<and> filter (\<lambda>p. p \<noteq> 0) pipelines = [] \<or> es0 = [Created pipelines]"
    and e2: "published = None \<and> (es2 = [] \<or> es2 = [Stop_requested VK_ERROR_DEVICE_LOST]) \<or>
     (\<exists>t. published = Some t \<and> pa_publish a = Some t \<and> es2 = [Published t])"
    by (rule create_and_publish_shape [OF assms(1)], rule that) (simp_all add: assms(2))
  have e0': "list_all (\<lambda>e. \<not> ownership e) es0" "\<forall>t. Rolled_back t \<notin> set es0" "\<forall>t. Published t \<notin> set es0"
    "destroyed es0 = []" "created es0 = filter (\<lambda>p. p \<noteq> 0) pipelines"
    using e0 by (auto simp: ownership_def)
  have e2': "list_all (\<lambda>e. \<not> ownership e) es2" "\<forall>t. Rolled_back t \<notin> set es2" "destroyed es2 = []" "created es2 = []"
    using e2 by (auto simp: ownership_def)
  show "list_all (\<lambda>e. \<not> ownership e) es" using e0' e2' by (simp add: es)
  show "\<forall>t. Rolled_back t \<notin> set es" using e0' e2' by (simp add: es)
  show "destroyed es = created es \<and> (\<forall>t. Published t \<notin> set es)" if "published = None"
    using e0' e2 that by (auto simp: es)
  show "destroyed es = [] \<and> created es = filter (\<lambda>p. p \<noteq> 0) pipelines \<and>
       Published t \<in> set es \<and> (\<forall>t'. Published t' \<in> set es \<longrightarrow> t' = t) \<and> pa_publish a = Some t" if "published = Some t"
    using e0' e2 that by (auto simp: es)
qed

text \<open>The failure path after the response: the tokens are withdrawn and the pipelines destroyed, or the registry keeps both.\<close>

lemma releases_once_append:
  "list_all (\<lambda>e. \<not> ownership e) es \<Longrightarrow> releases_once rq (es @ releaseRequest rq)"
  unfolding releases_once_def by blast

definition early_failure :: "(int \<times> u64 list \<times> u64 list option \<times> effect list) \<Rightarrow> bool" where
  "early_failure x \<longleftrightarrow> x = (VK_ERROR_OUT_OF_HOST_MEMORY, [], None, [])"

text \<open>A worker: the creation, the response, and the undoing when the response did not get through.\<close>

lemma pipelineCreateThread_shape:
  assumes "pipelineCreateThread rq n a = Some es" "pa_hasDestroy a"
  obtains result pipelines published es1 ok es2 where
    "early_failure (result, pipelines, published, es1) \<or> create_and_publish a n = (result, pipelines, published, es1)"
    "writePipelineResponse rq n (pa_responseCalloc a) result published (pa_writes a) = Some (ok, es2)"
    "es = es1 @ es2 @ (if ok then [] else (case published of None \<Rightarrow> []
        | Some tokens \<Rightarrow> (if pa_rollbackOk a then Rolled_back tokens # destroyPipelines True pipelines
            else [Stop_requested VK_ERROR_DEVICE_LOST])) @ [Stop_requested VK_ERROR_DEVICE_LOST]) @ releaseRequest rq"
proof -
  define first where "first = (if SIZE_MAX div 8 < n then (VK_ERROR_OUT_OF_HOST_MEMORY, [], None, [])
       else case pa_allocations a of (a1, a2, a3) \<Rightarrow>
         if \<not> a1 \<or> \<not> a2 \<or> \<not> a3 then (VK_ERROR_OUT_OF_HOST_MEMORY, [], None, [])
         else create_and_publish a n)"
  obtain r ps pub es1 where f: "first = (r, ps, pub, es1)" by (metis prod_cases4)
  have cp: "early_failure (r, ps, pub, es1) \<or> create_and_publish a n = (r, ps, pub, es1)"
    using f by (auto simp: first_def early_failure_def split: if_splits prod.splits)
  obtain ok es2 where wr: "writePipelineResponse rq n (pa_responseCalloc a) r pub (pa_writes a) = Some (ok, es2)"
    using assms(1) unfolding pipelineCreateThread_def first_def [symmetric] Let_def f prod.case
    by (cases "writePipelineResponse rq n (pa_responseCalloc a) r pub (pa_writes a)") auto
  show thesis
    by (rule that [OF cp wr])
      (use assms(1) in \<open>simp only: pipelineCreateThread_def first_def [symmetric] Let_def f prod.case wr
         Option.bind.simps option.inject assms(2) append_assoc\<close>)
qed

text \<open>C26: Whatever the driver, the authority, the allocator and the socket answer, a pipeline worker gives back its
  socket, its lease, its arena and itself once and last; every pipeline the driver created is either owned by the
  registry, and then not destroyed, or destroyed exactly once; and the client gets a complete answer of 4 + 8 n bytes or the context is
  stopped.\<close>

theorem pipeline_worker_owns_exactly:
  assumes "pipelineCreateThread rq n a = Some es" "pa_hasDestroy a" "\<forall>t. pa_publish a = Some t \<longrightarrow> length t = n"
  shows "releases_once rq es \<and>
    (if owned_by_registry es then destroyed es = [] else mset (destroyed es) = mset (created es)) \<and>
    answered (4 + 8 * n) es"
proof -
  obtain result pipelines published es1 ok es2 where
    cp: "early_failure (result, pipelines, published, es1) \<or> create_and_publish a n = (result, pipelines, published, es1)"
    and wr: "writePipelineResponse rq n (pa_responseCalloc a) result published (pa_writes a) = Some (ok, es2)"
    and es: "es = es1 @ es2 @ (if ok then [] else (case published of None \<Rightarrow> []
        | Some tokens \<Rightarrow> (if pa_rollbackOk a then Rolled_back tokens # destroyPipelines True pipelines
            else [Stop_requested VK_ERROR_DEVICE_LOST])) @ [Stop_requested VK_ERROR_DEVICE_LOST]) @ releaseRequest rq"
    by (rule pipelineCreateThread_shape [OF assms(1,2)])
  have e1: "list_all (\<lambda>e. \<not> ownership e) es1" "\<forall>t. Rolled_back t \<notin> set es1"
    "published = None \<Longrightarrow> destroyed es1 = created es1 \<and> (\<forall>t. Published t \<notin> set es1)"
    "\<And>t. published = Some t \<Longrightarrow> destroyed es1 = [] \<and> created es1 = filter (\<lambda>p. p \<noteq> 0) pipelines \<and>
       Published t \<in> set es1 \<and> (\<forall>t'. Published t' \<in> set es1 \<longrightarrow> t' = t) \<and> pa_publish a = Some t"
    using cp create_and_publish_effects [OF _ assms(2)] by (auto simp: early_failure_def)
  have len: "\<forall>t. published = Some t \<longrightarrow> length t = n" using e1(4) assms(3) by blast
  note e2 = response_effects [OF wr len]
  show ?thesis
  proof (intro conjI)
    show "releases_once rq es" unfolding es append_assoc [symmetric]
      by (rule releases_once_append) (use e1(1) e2(3) in \<open>auto split: option.split\<close>)
    show "answered (4 + 8 * n) es" using e2(6) unfolding es answered_def by (cases ok) auto
    show "if owned_by_registry es then destroyed es = [] else mset (destroyed es) = mset (created es)"
    proof (cases published)
      case None
      then show ?thesis using e1(3) [OF None] e2(1,2,4) by (simp add: es owned_by_registry_def)
    next
      case (Some t)
      show ?thesis using e1(2) e1(4) [OF Some] e2 Some
        by (cases ok; cases "pa_rollbackOk a") (auto simp: es owned_by_registry_def)
    qed
  qed
qed

text \<open>The client went away: the response fails, the tokens are withdrawn, and both pipelines are destroyed.\<close>

definition hangup :: pipeline_answers where
  "hangup = \<lparr>pa_allocations = (True, True, True), pa_closing = False, pa_leaseCancelled = False, pa_poolCancelled = False,
     pa_hasInspector = True, pa_inspect = (\<lambda>_. 0), pa_hasCreate = True, pa_create = (0, [64, 65]), pa_closingAfter = False,
     pa_leaseCancelledAfter = False, pa_publish = Some [257, 258], pa_hasDestroy = True, pa_responseCalloc = True,
     pa_writes = [Interrupted, Write_error], pa_rollbackOk = True\<rparr>"

lemma hung_up: "bytes \<noteq> [] \<Longrightarrow> writeExact bytes [Interrupted, Write_error] = Some (False, [], [])"
  by (cases bytes) simp_all

lemma hangup_run:
  "pipelineCreateThread \<lparr>rq_notifyFd = 5, rq_leaseActive = True\<rparr> 2 hangup =
   Some [Lock, Created [64, 65], Published [257, 258], Unlock, Wrote [], Rolled_back [257, 258], Destroyed 64, Destroyed 65,
     Stop_requested VK_ERROR_DEVICE_LOST, Closed, Released_lease, Freed_arena, Freed_request]"
proof -
  have "inspectPipelineShaders hangup 2 = 0"
    by (simp add: inspectPipelineShaders_def hangup_def numeral_2_eq_2 VK_SUCCESS_def)
  then have "create_and_publish hangup 2 = (0, [64, 65], Some [257, 258], [Lock, Created [64, 65], Published [257, 258], Unlock])"
    by (simp add: create_and_publish_def createHostPipelines_def hangup_def VK_SUCCESS_def)
  moreover have "writePipelineResponse \<lparr>rq_notifyFd = 5, rq_leaseActive = True\<rparr> 2 True 0 (Some [257, 258]) [Interrupted, Write_error]
      = Some (False, [Wrote []])"
    by (simp add: writePipelineResponse_def hung_up le_bytes_def)
  ultimately show ?thesis
    by (simp add: pipelineCreateThread_def releaseRequest_def destroyPipelines_def SIZE_MAX_def) (simp add: hangup_def destroyPipelines_def)
qed

lemma pipeline_worker_owns_exactly_witness:
  "\<exists>es. pipelineCreateThread \<lparr>rq_notifyFd = 5, rq_leaseActive = True\<rparr> 2 hangup = Some es \<and>
     releases_once \<lparr>rq_notifyFd = 5, rq_leaseActive = True\<rparr> es \<and> mset (destroyed es) = {#64, 65#}"
proof -
  let ?es = "[Lock, Created [64, 65], Published [257, 258], Unlock, Wrote [], Rolled_back [257, 258], Destroyed 64, Destroyed 65,
     Stop_requested VK_ERROR_DEVICE_LOST, Closed, Released_lease, Freed_arena, Freed_request]"
  have "pa_hasDestroy hangup" "\<forall>t. pa_publish hangup = Some t \<longrightarrow> length t = 2" by (simp_all add: hangup_def)
  from pipeline_worker_owns_exactly [OF hangup_run this]
  have "releases_once \<lparr>rq_notifyFd = 5, rq_leaseActive = True\<rparr> ?es" "mset (destroyed ?es) = mset (created ?es)"
    by (simp_all add: owned_by_registry_def)
  then show ?thesis by (intro exI [of _ ?es] conjI hangup_run) simp_all
qed

section \<open>Setting a request up\<close>

text \<open>A set-up is settled when every descriptor it opened is closed, its lease is released and its request is freed, unless the pool took the
  request: then the worker owns one descriptor, the lease and the request.\<close>

definition settled :: "bool \<Rightarrow> bool \<Rightarrow> effect list \<Rightarrow> bool" where
  "settled allocated leased es \<longleftrightarrow>
     (let kept = (if Submitted True \<in> set es then 1 else 0)
      in count_list es Opened = count_list es Closed + kept \<and>
         count_list es Released_lease + (if leased then kept else 0) = (if leased then 1 else 0) \<and>
         count_list es Freed_request + kept = (if allocated then 1 else 0) \<and>
         count_list es Freed_arena = count_list es Freed_request)"

lemma count_list_append_simp: "count_list (es @ es') e = count_list es e + count_list es' e"
  by (induction es) simp_all

lemma cancel_effects:
  "cancelWaitRequest rq answers = Some es \<Longrightarrow> \<exists>body. es = body @ releaseRequest rq \<and> set body \<subseteq> range Wrote \<union> range Stop_requested"
  "cancelPipelineRequest rq n c answers = Some es \<Longrightarrow> \<exists>body. es = body @ releaseRequest rq \<and> set body \<subseteq> range Wrote \<union> range Stop_requested"
  by (auto simp: cancelWaitRequest_def notifyAndRelease_def notifyWaitResult_def cancelPipelineRequest_def writePipelineResponse_def
      Let_def bind_eq_Some_conv split: if_splits)

lemma plain_body:
  assumes "set body \<subseteq> range Wrote \<union> range Stop_requested"
  shows "count_list body Opened = 0" "count_list body Closed = 0" "count_list body Released_lease = 0"
    "count_list body Freed_request = 0" "count_list body Freed_arena = 0" "Submitted True \<notin> set body"
  using assms by (auto simp: count_list_0_iff)

lemma setup_byte_effects: "sendSetupByte success as = Some (ok, es) \<Longrightarrow> es = [] \<or> es = [Sent_setup success]"
  by (induction success as rule: sendSetupByte.induct) (auto split: if_splits)

lemma release_counts [simp]:
  "count_list (releaseRequest rq) Opened = 0" "count_list (releaseRequest rq) Closed = (if 0 \<le> rq_notifyFd rq then 1 else 0)"
  "count_list (releaseRequest rq) Released_lease = (if rq_leaseActive rq then 1 else 0)"
  "count_list (releaseRequest rq) Freed_request = 1" "count_list (releaseRequest rq) Freed_arena = 1"
  "Submitted t \<notin> set (releaseRequest rq)"
  by (simp_all add: releaseRequest_def)

lemma wait_setup_settled:
  assumes "TimelineSemaphore_asyncWait a = Some (ok, es)"
  shows "settled (\<not> wa_badArguments a \<and> \<not> wa_closing a \<and> wa_calloc a)
    (\<not> wa_badArguments a \<and> \<not> wa_closing a \<and> wa_calloc a \<and> wa_lease a) es"
  using assms unfolding TimelineSemaphore_asyncWait_def
  by (auto simp: Let_def bind_eq_Some_conv dest!: cancel_effects split: if_splits)
    (simp_all add: settled_def count_list_append_simp plain_body)

lemma pipeline_setup_settled:
  assumes "AsyncPipelineCreator_create n b = Some (ok, es)" "\<forall>theirs ours. ca_socketpair b = Some (theirs, ours) \<longrightarrow> 0 \<le> ours"
  shows "let entered = \<not> ca_badArguments b \<and> \<not> ca_closing b \<and> n \<noteq> 0 \<and> n \<le> unat VT_DECODE_MAX_ELEMENTS \<and> ca_calloc b
    in settled entered (entered \<and> ca_lease b) es"
  using assms unfolding AsyncPipelineCreator_create_def Let_def
  by (auto simp: bind_eq_Some_conv dest!: cancel_effects setup_byte_effects split: if_splits option.splits)
    (simp_all add: settled_def count_list_append_simp plain_body)

text \<open>C27: Setting up an asynchronous wait or pipeline creation loses nothing on any path: the event descriptor or socket pair,
  the device lease, the arena and the request are given back exactly once, or, when the pool accepted the
  work, one descriptor, the lease and the request belong to the worker.\<close>

theorem async_setup_is_settled:
  assumes "\<forall>theirs ours. ca_socketpair b = Some (theirs, ours) \<longrightarrow> 0 \<le> ours"
  shows "(\<forall>ok es. TimelineSemaphore_asyncWait a = Some (ok, es) \<longrightarrow>
      settled (\<not> wa_badArguments a \<and> \<not> wa_closing a \<and> wa_calloc a)
        (\<not> wa_badArguments a \<and> \<not> wa_closing a \<and> wa_calloc a \<and> wa_lease a) es) \<and>
    (\<forall>ok es. AsyncPipelineCreator_create n b = Some (ok, es) \<longrightarrow>
      (let entered = \<not> ca_badArguments b \<and> \<not> ca_closing b \<and> n \<noteq> 0 \<and> n \<le> unat VT_DECODE_MAX_ELEMENTS \<and> ca_calloc b
       in settled entered (entered \<and> ca_lease b) es))"
  using wait_setup_settled pipeline_setup_settled [OF _ assms] by blast

text \<open>The pool refuses the work and the client does not take the answer: both sockets, the lease and the request are given back.\<close>

definition refused :: create_answers where
  "refused = \<lparr>ca_badArguments = False, ca_closing = False, ca_calloc = True, ca_lease = True, ca_sameDevice = True,
     ca_decoded = True, ca_socketpair = Some (7, 8), ca_sent = 1, ca_accepted = False, ca_responseCalloc = True,
     ca_writes = [Interrupted, Write_error]\<rparr>"

lemma async_setup_is_settled_witness:
  "AsyncPipelineCreator_create 1 refused = Some (True, [Opened, Opened, Sent_descriptor, Closed, Submitted False, Wrote [],
     Stop_requested VK_ERROR_DEVICE_LOST, Closed, Released_lease, Freed_arena, Freed_request]) \<and>
   settled True True [Opened, Opened, Sent_descriptor, Closed, Submitted False, Wrote [],
     Stop_requested VK_ERROR_DEVICE_LOST, Closed, Released_lease, Freed_arena, Freed_request]"
proof -
  have lim: "1 \<le> unat VT_DECODE_MAX_ELEMENTS" "\<not> unat VT_DECODE_MAX_ELEMENTS < 1" by (simp_all add: VT_DECODE_MAX_ELEMENTS_def)
  have run: "AsyncPipelineCreator_create 1 refused = Some (True, [Opened, Opened, Sent_descriptor, Closed, Submitted False, Wrote [],
     Stop_requested VK_ERROR_DEVICE_LOST, Closed, Released_lease, Freed_arena, Freed_request])"
    using lim by (simp add: AsyncPipelineCreator_create_def refused_def cancelPipelineRequest_def writePipelineResponse_def hung_up
        le_bytes_def releaseRequest_def)
  have "\<forall>theirs ours. ca_socketpair refused = Some (theirs, ours) \<longrightarrow> 0 \<le> ours" by (simp add: refused_def)
  from async_setup_is_settled [OF this, of undefined 1, THEN conjunct2, rule_format, OF run]
  show ?thesis using run lim by (simp add: Let_def refused_def)
qed

end
