(* ===== verification/Shader_Code.thy ===== *)
theory Shader_Code
  imports Safe_Lane String_Utils
begin

text \<open>
  The walks and edits of the shader inspector, \<^verbatim>\<open>vortekrenderer/src/shader_inspector.c\<close>, on the words of a SPIR-V module:
  searching instructions, names and variables, merging and removing instructions. A code block is the list of its
  words, an index of $-1$ is \<^const>\<open>None\<close> inside the outer option, and an \<open>IntArray\<close> or \<open>ArrayList\<close> of the inspector the
  list of its cells. A walk over an instruction of length 0 does not end: the result is \<^const>\<open>None\<close>, as for a read
  behind the block.
\<close>

section \<open>Constants\<close>

definition SpvOpNop :: u32 where "SpvOpNop = 0"
definition SpvOpSampledImage :: u32 where "SpvOpSampledImage = 86"
definition SpvOpImageFetch :: u32 where "SpvOpImageFetch = 95"
definition SpvOpConvertSToF :: u32 where "SpvOpConvertSToF = 111"
definition SpvOpConvertUToF :: u32 where "SpvOpConvertUToF = 112"
definition SpvOpMax :: u32 where "SpvOpMax = 0x7fffffff"
definition SpvStorageClassInput :: u32 where "SpvStorageClassInput = 1"
definition SpvStorageClassOutput :: u32 where "SpvStorageClassOutput = 3"
definition SpvStorageClassPrivate :: u32 where "SpvStorageClassPrivate = 6"
definition SpvBuiltInPointSize :: u32 where "SpvBuiltInPointSize = 1"
definition SpvBuiltInClipDistance :: u32 where "SpvBuiltInClipDistance = 3"
definition SpvCapabilityClipDistance :: u32 where "SpvCapabilityClipDistance = 32"
definition SpvExecutionModelVertex :: u32 where "SpvExecutionModelVertex = 0"
definition SpvExecutionModelFragment :: u32 where "SpvExecutionModelFragment = 4"
definition SpvExecutionModelMax :: u32 where "SpvExecutionModelMax = 0x7fffffff"

declare SpvOpNop_def [spirv_defs] SpvOpSampledImage_def [spirv_defs] SpvOpImageFetch_def [spirv_defs]
  SpvOpConvertSToF_def [spirv_defs] SpvOpConvertUToF_def [spirv_defs] SpvOpMax_def [spirv_defs]
  SpvStorageClassInput_def [spirv_defs] SpvStorageClassOutput_def [spirv_defs] SpvStorageClassPrivate_def [spirv_defs]
  SpvBuiltInPointSize_def [spirv_defs] SpvBuiltInClipDistance_def [spirv_defs] SpvCapabilityClipDistance_def [spirv_defs]
  SpvExecutionModelVertex_def [spirv_defs] SpvExecutionModelFragment_def [spirv_defs] SpvExecutionModelMax_def [spirv_defs]

definition CODE_START :: nat where "CODE_START = 5"
definition MAX_ID_BOUND_OFFSET :: nat where "MAX_ID_BOUND_OFFSET = 3"

definition IS_SPV_OP_TYPE :: "u32 \<Rightarrow> bool" where
  "IS_SPV_OP_TYPE op \<longleftrightarrow> SpvOpTypeVoid \<le> op \<and> op \<le> SpvOpTypeForwardPointer"

text \<open>\<open>SPV_INST_OPCODE\<close> and \<open>SPV_INST_LENGTH\<close> are \<^const>\<open>opcode_of\<close> and \<^const>\<open>instruction_words\<close>.\<close>

definition PACK_SPV_INST :: "u32 \<Rightarrow> nat \<Rightarrow> u32" where
  "PACK_SPV_INST opcode instLength = opcode OR push_bit 16 (word_of_nat instLength)"

section \<open>Searching\<close>

text \<open>The loop of the three searches: it tests each instruction and steps over it, up to an end and not past an instruction
  with the stop opcode.\<close>

partial_function (option) spv_walk ::
  "(nat \<Rightarrow> u32 \<Rightarrow> bool option) \<Rightarrow> u32 list \<Rightarrow> nat \<Rightarrow> u32 \<Rightarrow> u32 \<Rightarrow> nat \<Rightarrow> nat option option" where
  "spv_walk test code end_index stopOpcode opcode i =
     (if i < end_index \<and> opcode \<noteq> stopOpcode then do {
        w \<leftarrow> load code i;
        hit \<leftarrow> test i w;
        (if hit then Some (Some i)
         else spv_walk test code end_index stopOpcode (opcode_of w) (i + instruction_words w)) }
      else Some None)"

declare spv_walk.simps [code]

definition stop_opcode :: "bool \<Rightarrow> u32" where
  "stop_opcode stopOnOpFunction = (if stopOnOpFunction then SpvOpFunction else SpvOpMax)"

text \<open>The test of a field, \<^const>\<open>None\<close> for the field $-1$.\<close>

definition field_test :: "u32 list \<Rightarrow> nat option \<Rightarrow> u32 \<Rightarrow> nat \<Rightarrow> u32 \<Rightarrow> bool option" where
  "field_test code field value i w =
     (case field of
        None \<Rightarrow> Some True
      | Some f \<Rightarrow> if f < instruction_words w then do { v \<leftarrow> load code (i + f); Some (v = value) } else Some False)"

definition fetchSpvInstIndex ::
  "u32 list \<Rightarrow> nat \<Rightarrow> nat \<Rightarrow> u32 \<Rightarrow> nat option \<Rightarrow> u32 \<Rightarrow> bool \<Rightarrow> nat option option" where
  "fetchSpvInstIndex code sizeInBytes start targetOpcode field value stopOnOpFunction =
     spv_walk (\<lambda>i w. if opcode_of w = targetOpcode then field_test code field value i w else Some False)
       code (sizeInBytes div 4) (stop_opcode stopOnOpFunction) SpvOpNop start"

text \<open>The fields and values of a filter up to its count, as pairs.\<close>

record SpvInstFilter =
  sf_fields :: "(nat \<times> u32) list"
  sf_endIndex :: nat

fun filter_matches :: "u32 list \<Rightarrow> nat \<Rightarrow> (nat \<times> u32) list \<Rightarrow> bool option" where
  "filter_matches code i [] = Some True"
| "filter_matches code i ((f, v) # fvs) = do {
     x \<leftarrow> load code (i + f);
     (if x = v then filter_matches code i fvs else Some False) }"

definition filter_test :: "u32 list \<Rightarrow> u32 \<Rightarrow> (nat \<times> u32) list \<Rightarrow> nat \<Rightarrow> u32 \<Rightarrow> bool option" where
  "filter_test code targetOpcode fvs i w =
     (if opcode_of w = targetOpcode \<and> length fvs < instruction_words w
      then filter_matches code i fvs else Some False)"

definition fetchSpvInstIndex2 ::
  "u32 list \<Rightarrow> nat \<Rightarrow> nat \<Rightarrow> u32 \<Rightarrow> SpvInstFilter \<Rightarrow> bool \<Rightarrow> nat option option" where
  "fetchSpvInstIndex2 code sizeInBytes start targetOpcode flt stopOnOpFunction =
     (let size = sizeInBytes div 4;
          end_index = (if 0 < sf_endIndex flt \<and> sf_endIndex flt < size then sf_endIndex flt else size)
      in spv_walk (filter_test code targetOpcode (sf_fields flt)) code end_index (stop_opcode stopOnOpFunction) SpvOpNop start)"

definition fetchSpvOpTypeIndex :: "u32 list \<Rightarrow> nat \<Rightarrow> nat \<Rightarrow> nat option \<Rightarrow> u32 \<Rightarrow> nat option option" where
  "fetchSpvOpTypeIndex code sizeInBytes start field value =
     spv_walk (\<lambda>i w. if IS_SPV_OP_TYPE (opcode_of w) then field_test code field value i w else Some False)
       code (sizeInBytes div 4) SpvOpFunction SpvOpNop start"

section \<open>Names and variables\<close>

fun literal_loop :: "u32 list \<Rightarrow> nat \<Rightarrow> nat \<Rightarrow> nat \<Rightarrow> u8 list option" where
  "literal_loop code base outputIndex 0 = Some []"
| "literal_loop code base outputIndex (Suc left) = do {
     w \<leftarrow> load code (base + outputIndex div 4);
     (let c = (ucast (drop_bit (8 * (outputIndex mod 4)) w) :: u8)
      in if c = 0 then Some []
         else do { rest \<leftarrow> literal_loop code base (outputIndex + 1) left; Some (c # rest) }) }"

text \<open>The string that ends up in the output, without its end; a buffer without room is left alone.\<close>

definition getSpvLiteralString :: "u32 list \<Rightarrow> nat \<Rightarrow> int \<Rightarrow> nat \<Rightarrow> u8 list option" where
  "getSpvLiteralString code base instLength outCapacity =
     (if outCapacity = 0 then Some []
      else let byteCount = (if 0 < instLength then nat instLength * 4 else 0)
           in literal_loop code base 0 (min byteCount (outCapacity - 1)))"

definition getSpvVariableName :: "u32 list \<Rightarrow> nat \<Rightarrow> u32 \<Rightarrow> nat \<Rightarrow> u8 list option" where
  "getSpvVariableName code sizeInBytes varId outCapacity =
     (if outCapacity = 0 then Some []
      else do {
        index \<leftarrow> fetchSpvInstIndex code sizeInBytes CODE_START SpvOpName (Some 1) varId True;
        (case index of
           None \<Rightarrow> Some []
         | Some k \<Rightarrow> do {
             w \<leftarrow> load code k;
             getSpvLiteralString code (k + 2) (int (instruction_words w) - 2) outCapacity }) })"

text \<open>\<^verbatim>\<open>snprintf\<close> of an unsigned number into a buffer of eight bytes.\<close>

fun decimal :: "nat \<Rightarrow> u8 list" where
  "decimal n = (if n < 10 then [word_of_nat (48 + n)] else decimal (n div 10) @ [word_of_nat (48 + n mod 10)])"

declare decimal.simps [simp del]

record SpvVariableOffsets =
  vo_decorate :: nat
  vo_variable :: nat
  vo_pointer :: nat
  vo_vector :: nat

record ShaderModule =
  sm_module :: u64
  sm_code :: "u32 list"
  sm_codeSize :: nat

definition location_name :: "u8 list \<Rightarrow> u32 \<Rightarrow> bool" where
  "location_name varname loc \<longleftrightarrow>
     (case varname of [] \<Rightarrow> False | c # rest \<Rightarrow> (c = 111 \<or> c = 118) \<and> rest = take 7 (decimal (unat loc)))"

text \<open>What a location decoration at \<open>i\<close> adds to the variables.\<close>

definition variable_at :: "u32 list \<Rightarrow> nat \<Rightarrow> u32 \<Rightarrow> nat \<Rightarrow> SpvVariableOffsets list option" where
  "variable_at code sizeInBytes storageClass i = do {
     varId \<leftarrow> load code (i + 1);
     var \<leftarrow> fetchSpvInstIndex code sizeInBytes i SpvOpVariable (Some 2) varId True;
     (case var of None \<Rightarrow> Some [] | Some j \<Rightarrow> do {
        class1 \<leftarrow> load code (j + 3);
        (if class1 \<noteq> storageClass then Some []
         else do {
           pointerId \<leftarrow> load code (j + 1);
           pointer \<leftarrow> fetchSpvInstIndex code sizeInBytes i SpvOpTypePointer (Some 1) pointerId True;
           (case pointer of None \<Rightarrow> Some [] | Some k \<Rightarrow> do {
              class2 \<leftarrow> load code (k + 2);
              (if class2 \<noteq> storageClass then Some []
               else do {
                 typeId \<leftarrow> load code (k + 3);
                 vector \<leftarrow> fetchSpvInstIndex code sizeInBytes i SpvOpTypeVector (Some 1) typeId True;
                 scalar \<leftarrow> (if vector = None then fetchSpvInstIndex code sizeInBytes i SpvOpTypeFloat (Some 1) typeId True
                            else Some vector);
                 (case scalar of None \<Rightarrow> Some [] | Some l \<Rightarrow> do {
                    resultId \<leftarrow> load code (j + 2);
                    varname \<leftarrow> getSpvVariableName code sizeInBytes resultId 32;
                    loc \<leftarrow> load code (i + 3);
                    Some (if location_name varname loc
                          then [\<lparr>vo_decorate = i, vo_variable = j, vo_pointer = k, vo_vector = l\<rparr>] else []) }) }) }) }) }) }"

partial_function (option) variables_loop ::
  "u32 list \<Rightarrow> nat \<Rightarrow> u32 \<Rightarrow> u32 \<Rightarrow> nat \<Rightarrow> SpvVariableOffsets list \<Rightarrow> SpvVariableOffsets list option" where
  "variables_loop code sizeInBytes storageClass opcode i result =
     (if i < sizeInBytes div 4 \<and> opcode \<noteq> SpvOpFunction \<and> \<not> IS_SPV_OP_TYPE opcode then do {
        w \<leftarrow> load code i;
        decoration \<leftarrow> (if opcode_of w = SpvOpDecorate then load code (i + 2) else Some 0);
        found \<leftarrow> (if opcode_of w = SpvOpDecorate \<and> decoration = SpvDecorationLocation
                  then variable_at code sizeInBytes storageClass i else Some []);
        variables_loop code sizeInBytes storageClass (opcode_of w) (i + instruction_words w) (result @ found) }
      else Some result)"

declare variables_loop.simps [code]

definition fetchSpvVariableOffsets :: "ShaderModule \<Rightarrow> u32 \<Rightarrow> SpvVariableOffsets list option" where
  "fetchSpvVariableOffsets m storageClass =
     variables_loop (sm_code m) (sm_codeSize m) storageClass SpvOpNop CODE_START []"

end
