(* ===== verification/Shader_Rewrite.thy ===== *)
theory Shader_Rewrite
  imports Shader_Code
begin

text \<open>
  The rewrites of the shader inspector: merging new type instructions into a module, the conversion of scaled vertex
  inputs, the removal of clip distances, point sizes and bounds checks, and the widening of fragment inputs.
\<close>

section \<open>Vertex formats\<close>

definition VK_FORMAT_R8_USCALED :: u32 where "VK_FORMAT_R8_USCALED = 11"
definition VK_FORMAT_R8_SSCALED :: u32 where "VK_FORMAT_R8_SSCALED = 12"
definition VK_FORMAT_R8_UINT :: u32 where "VK_FORMAT_R8_UINT = 13"
definition VK_FORMAT_R8_SINT :: u32 where "VK_FORMAT_R8_SINT = 14"
definition VK_FORMAT_R8G8_USCALED :: u32 where "VK_FORMAT_R8G8_USCALED = 18"
definition VK_FORMAT_R8G8_SSCALED :: u32 where "VK_FORMAT_R8G8_SSCALED = 19"
definition VK_FORMAT_R8G8_UINT :: u32 where "VK_FORMAT_R8G8_UINT = 20"
definition VK_FORMAT_R8G8_SINT :: u32 where "VK_FORMAT_R8G8_SINT = 21"
definition VK_FORMAT_R8G8B8A8_USCALED :: u32 where "VK_FORMAT_R8G8B8A8_USCALED = 39"
definition VK_FORMAT_R8G8B8A8_SSCALED :: u32 where "VK_FORMAT_R8G8B8A8_SSCALED = 40"
definition VK_FORMAT_R8G8B8A8_UINT :: u32 where "VK_FORMAT_R8G8B8A8_UINT = 41"
definition VK_FORMAT_R8G8B8A8_SINT :: u32 where "VK_FORMAT_R8G8B8A8_SINT = 42"
definition VK_FORMAT_R16_USCALED :: u32 where "VK_FORMAT_R16_USCALED = 72"
definition VK_FORMAT_R16_SSCALED :: u32 where "VK_FORMAT_R16_SSCALED = 73"
definition VK_FORMAT_R16_UINT :: u32 where "VK_FORMAT_R16_UINT = 74"
definition VK_FORMAT_R16_SINT :: u32 where "VK_FORMAT_R16_SINT = 75"
definition VK_FORMAT_R16G16_USCALED :: u32 where "VK_FORMAT_R16G16_USCALED = 79"
definition VK_FORMAT_R16G16_SSCALED :: u32 where "VK_FORMAT_R16G16_SSCALED = 80"
definition VK_FORMAT_R16G16_UINT :: u32 where "VK_FORMAT_R16G16_UINT = 81"
definition VK_FORMAT_R16G16_SINT :: u32 where "VK_FORMAT_R16G16_SINT = 82"
definition VK_FORMAT_R16G16B16A16_USCALED :: u32 where "VK_FORMAT_R16G16B16A16_USCALED = 93"
definition VK_FORMAT_R16G16B16A16_SSCALED :: u32 where "VK_FORMAT_R16G16B16A16_SSCALED = 94"
definition VK_FORMAT_R16G16B16A16_UINT :: u32 where "VK_FORMAT_R16G16B16A16_UINT = 95"
definition VK_FORMAT_R16G16B16A16_SINT :: u32 where "VK_FORMAT_R16G16B16A16_SINT = 96"

named_theorems format_defs \<open>Vulkan vertex formats\<close>

declare VK_FORMAT_R8_USCALED_def [format_defs]
  VK_FORMAT_R8_SSCALED_def [format_defs]
  VK_FORMAT_R8_UINT_def [format_defs]
  VK_FORMAT_R8_SINT_def [format_defs]
  VK_FORMAT_R8G8_USCALED_def [format_defs]
  VK_FORMAT_R8G8_SSCALED_def [format_defs]
  VK_FORMAT_R8G8_UINT_def [format_defs]
  VK_FORMAT_R8G8_SINT_def [format_defs]
  VK_FORMAT_R8G8B8A8_USCALED_def [format_defs]
  VK_FORMAT_R8G8B8A8_SSCALED_def [format_defs]
  VK_FORMAT_R8G8B8A8_UINT_def [format_defs]
  VK_FORMAT_R8G8B8A8_SINT_def [format_defs]
  VK_FORMAT_R16_USCALED_def [format_defs]
  VK_FORMAT_R16_SSCALED_def [format_defs]
  VK_FORMAT_R16_UINT_def [format_defs]
  VK_FORMAT_R16_SINT_def [format_defs]
  VK_FORMAT_R16G16_USCALED_def [format_defs]
  VK_FORMAT_R16G16_SSCALED_def [format_defs]
  VK_FORMAT_R16G16_UINT_def [format_defs]
  VK_FORMAT_R16G16_SINT_def [format_defs]
  VK_FORMAT_R16G16B16A16_USCALED_def [format_defs]
  VK_FORMAT_R16G16B16A16_SSCALED_def [format_defs]
  VK_FORMAT_R16G16B16A16_UINT_def [format_defs]
  VK_FORMAT_R16G16B16A16_SINT_def [format_defs]

definition getFallbackFormat :: "u32 \<Rightarrow> u32" where
  "getFallbackFormat format =
     (if format = VK_FORMAT_R8_USCALED then VK_FORMAT_R8_UINT
      else if format = VK_FORMAT_R8_SSCALED then VK_FORMAT_R8_SINT
      else if format = VK_FORMAT_R16_USCALED then VK_FORMAT_R16_UINT
      else if format = VK_FORMAT_R16_SSCALED then VK_FORMAT_R16_SINT
      else if format = VK_FORMAT_R8G8_USCALED then VK_FORMAT_R8G8_UINT
      else if format = VK_FORMAT_R8G8_SSCALED then VK_FORMAT_R8G8_SINT
      else if format = VK_FORMAT_R16G16_USCALED then VK_FORMAT_R16G16_UINT
      else if format = VK_FORMAT_R16G16_SSCALED then VK_FORMAT_R16G16_SINT
      else if format = VK_FORMAT_R16G16B16A16_USCALED then VK_FORMAT_R16G16B16A16_UINT
      else if format = VK_FORMAT_R16G16B16A16_SSCALED then VK_FORMAT_R16G16B16A16_SINT
      else if format = VK_FORMAT_R8G8B8A8_USCALED then VK_FORMAT_R8G8B8A8_UINT
      else if format = VK_FORMAT_R8G8B8A8_SSCALED then VK_FORMAT_R8G8B8A8_SINT
      else format)"

definition isFormatScaled :: "u32 \<Rightarrow> bool" where
  "isFormatScaled format \<longleftrightarrow> format \<in>
     {VK_FORMAT_R8_USCALED, VK_FORMAT_R8_SSCALED,
      VK_FORMAT_R8G8_USCALED, VK_FORMAT_R8G8_SSCALED,
      VK_FORMAT_R8G8B8A8_USCALED, VK_FORMAT_R8G8B8A8_SSCALED,
      VK_FORMAT_R16_USCALED, VK_FORMAT_R16_SSCALED,
      VK_FORMAT_R16G16_USCALED, VK_FORMAT_R16G16_SSCALED,
      VK_FORMAT_R16G16B16A16_USCALED, VK_FORMAT_R16G16B16A16_SSCALED}"

text \<open>The formats \<open>convertInputVariableFormatScaled\<close> makes unsigned.\<close>

definition unsigned_format :: "u32 \<Rightarrow> bool" where
  "unsigned_format format \<longleftrightarrow> format \<in>
     {VK_FORMAT_R8_UINT, VK_FORMAT_R16_UINT, VK_FORMAT_R8G8_UINT,
      VK_FORMAT_R16G16_UINT, VK_FORMAT_R8G8B8A8_UINT, VK_FORMAT_R16G16B16A16_UINT}"

section \<open>Merging instructions\<close>

text \<open>Words to be inserted at an index.\<close>

record MergeCode =
  mc_position :: nat
  mc_code :: "u32 list"

text \<open>The search of \<open>mergeSpvInst\<close> in the words to be inserted: the result and the merge position.\<close>

fun merged_search :: "MergeCode list \<Rightarrow> nat \<Rightarrow> u32 \<Rightarrow> (nat \<times> u32) list \<Rightarrow> (u32 \<times> int) option" where
  "merged_search [] i opcode fvs = Some (0, 0)"
| "merged_search (mc # mcs) i opcode fvs = do {
     index \<leftarrow> fetchSpvInstIndex2 (mc_code mc) (length (mc_code mc) * 4) 0 opcode \<lparr>sf_fields = fvs, sf_endIndex = 0\<rparr> False;
     (case index of
        Some k \<Rightarrow> do { resultId \<leftarrow> load (mc_code mc) (k + 1); Some (resultId, - int (i + 1)) }
      | None \<Rightarrow> merged_search mcs (i + 1) opcode fvs) }"

text \<open>The operands; \<^const>\<open>UINT32_MAX\<close> stands for a fresh id, taken from the bound in the header. The result is the words,
  the code and the last fresh id.\<close>

fun merge_operands :: "u32 list \<Rightarrow> u32 list \<Rightarrow> u32 \<Rightarrow> (u32 list \<times> u32 list \<times> u32) option" where
  "merge_operands code [] resultId = Some ([], code, resultId)"
| "merge_operands code (arg # args) resultId =
     (if arg = UINT32_MAX then do {
        fresh \<leftarrow> load code MAX_ID_BOUND_OFFSET;
        code1 \<leftarrow> store code MAX_ID_BOUND_OFFSET (fresh + 1);
        (ops, code2, r) \<leftarrow> merge_operands code1 args fresh;
        Some (fresh # ops, code2, r) }
      else do {
        (ops, code2, r) \<leftarrow> merge_operands code args resultId;
        Some (arg # ops, code2, r) })"

text \<open>\<open>mergeSpvInst\<close>: the options it reads, then the opcode and the operands. A negative merge position $-k$ names the
  words to be inserted at index $k - 1$. The result is the id, the code, the merge codes and the new merge position.\<close>

definition mergeSpvInst ::
  "u32 list \<Rightarrow> nat \<Rightarrow> MergeCode list \<Rightarrow> int \<Rightarrow> nat \<Rightarrow> SpvInstFilter \<Rightarrow> u32 \<Rightarrow> u32 list
    \<Rightarrow> (u32 \<times> u32 list \<times> MergeCode list \<times> int) option" where
  "mergeSpvInst code codeSize mergeCodes mergePosition fetchStart flt opcode args = do {
     index \<leftarrow> fetchSpvInstIndex2 code codeSize fetchStart opcode flt True;
     (resultId, position) \<leftarrow>
       (case index of
          None \<Rightarrow> merged_search mergeCodes 0 opcode (sf_fields flt)
        | Some k \<Rightarrow> do {
            r \<leftarrow> load code (k + 1);
            w \<leftarrow> load code k;
            Some (r, int (k + instruction_words w)) });
     (if 0 < resultId then Some (resultId, code, mergeCodes, position)
      else do {
        (ops, code', newId) \<leftarrow> merge_operands code args 0;
        (let words = PACK_SPV_INST opcode (length args + 1) # ops
         in if mergePosition < 0 then
              (let idx = nat (- mergePosition - 1) in do {
                 mc \<leftarrow> load mergeCodes idx;
                 mergeCodes' \<leftarrow> store mergeCodes idx (mc\<lparr>mc_code := mc_code mc @ words\<rparr>);
                 Some (newId, code', mergeCodes', - int (idx + 1)) })
            else Some (newId, code', mergeCodes @ [\<lparr>mc_position = nat mergePosition, mc_code = words\<rparr>],
                       - int (length mergeCodes + 1))) }) }"

definition mergeShaderCode :: "ShaderModule \<Rightarrow> u32 list \<Rightarrow> nat \<Rightarrow> ShaderModule option" where
  "mergeShaderCode m mergeCode mergeOffset = do {
     newCode \<leftarrow> memmerge 0 mergeCode (length mergeCode) (sm_code m) (sm_codeSize m div 4) mergeOffset;
     Some (m\<lparr>sm_code := newCode, sm_codeSize := length mergeCode * 4 + sm_codeSize m\<rparr>) }"

text \<open>The index of the first of the highest positions.\<close>

fun highest_position :: "MergeCode list \<Rightarrow> nat \<Rightarrow> nat \<Rightarrow> int \<Rightarrow> nat" where
  "highest_position [] i index maxPosition = index"
| "highest_position (mc # mcs) i index maxPosition =
     (if maxPosition < int (mc_position mc) then highest_position mcs (i + 1) i (int (mc_position mc))
      else highest_position mcs (i + 1) index maxPosition)"

text \<open>Each turn removes one of the \<open>n\<close> merge codes.\<close>

fun merge_sorted_loop :: "nat \<Rightarrow> ShaderModule \<Rightarrow> MergeCode list \<Rightarrow> ShaderModule option" where
  "merge_sorted_loop 0 m mergeCodes = Some m"
| "merge_sorted_loop (Suc n) m mergeCodes =
     (let index = highest_position mergeCodes 0 0 (- INT32_MAX) in do {
        mc \<leftarrow> load mergeCodes index;
        m' \<leftarrow> mergeShaderCode m (mc_code mc) (mc_position mc);
        merge_sorted_loop n m' (take index mergeCodes @ drop (index + 1) mergeCodes) })"

definition mergeCodesSorted :: "ShaderModule \<Rightarrow> MergeCode list \<Rightarrow> ShaderModule option" where
  "mergeCodesSorted m mergeCodes = merge_sorted_loop (length mergeCodes) m mergeCodes"

fun remove_loop :: "ShaderModule \<Rightarrow> nat list \<Rightarrow> ShaderModule option" where
  "remove_loop m [] = Some m"
| "remove_loop m (j # js) = do {
     w \<leftarrow> load (sm_code m) j;
     newCode \<leftarrow> memdel (sm_code m) (sm_codeSize m div 4) j (instruction_words w);
     (case newCode of
        None \<Rightarrow> remove_loop m js
      | Some c \<Rightarrow> remove_loop (m\<lparr>sm_code := c, sm_codeSize := sm_codeSize m - instruction_words w * 4\<rparr>) js) }"

text \<open>From the last index to the first.\<close>

definition removeSpvInstIndices :: "ShaderModule \<Rightarrow> nat list \<Rightarrow> ShaderModule option" where
  "removeSpvInstIndices m instIndices = remove_loop m (rev (sort instIndices))"

end
