(* ===== verification/Shader_Inspector.thy ===== *)
theory Shader_Inspector
  imports Shader_Rewrite
begin

text \<open>
  The inspector itself: what it does to a vertex shader, to a fragment shader and to the modules of a pipeline.
\<close>

section \<open>Scaled vertex inputs\<close>

text \<open>An annotation has a variable once its location was found; \<^const>\<open>None\<close> is the offset $-1$, and the identifiers $-1$
  are all ones.\<close>

record VertexAnnotation =
  va_location :: u32
  va_vecId :: u32
  va_varId :: u32
  va_varOffset :: "nat option"
  va_signedness :: u32
  va_format :: u32

text \<open>The number of components of the variable's type, 4 when it is not a vector.\<close>

definition component_count :: "u32 list \<Rightarrow> nat \<Rightarrow> nat \<Rightarrow> nat \<Rightarrow> u32 option" where
  "component_count code codeSize decorOffset varOffset = do {
     pointerId \<leftarrow> load code (varOffset + 1);
     index \<leftarrow> fetchSpvInstIndex code codeSize decorOffset SpvOpTypePointer (Some 1) pointerId True;
     (case index of
        None \<Rightarrow> Some 4
      | Some k \<Rightarrow> do {
          typeVectorId \<leftarrow> load code (k + 3);
          index2 \<leftarrow> fetchSpvInstIndex code codeSize decorOffset SpvOpTypeVector (Some 1) typeVectorId True;
          (case index2 of None \<Rightarrow> Some 4 | Some l \<Rightarrow> load code (l + 3)) }) }"

definition convertInputVariableFormatScaled ::
  "u32 list \<Rightarrow> nat \<Rightarrow> MergeCode list \<Rightarrow> nat \<Rightarrow> VertexAnnotation
    \<Rightarrow> (u32 list \<times> MergeCode list \<times> VertexAnnotation) option" where
  "convertInputVariableFormatScaled code codeSize mergeCodes decorOffset va = do {
     varOffset \<leftarrow> va_varOffset va;
     componentCount \<leftarrow> component_count code codeSize decorOffset varOffset;
     (let signedness = (if unsigned_format (va_format va) then 0 else 1) in do {
        index \<leftarrow> fetchSpvOpTypeIndex code codeSize decorOffset None 0;
        (case index of
           None \<Rightarrow> Some (code, mergeCodes, va)
         | Some t \<Rightarrow> do {
             (typeIntId, code1, mcs1, p1) \<leftarrow>
               mergeSpvInst code codeSize mergeCodes (int t) t \<lparr>sf_fields = [(3, signedness)], sf_endIndex = varOffset\<rparr>
                 SpvOpTypeInt [UINT32_MAX, 32, signedness];
             (typeVectorId, code2, mcs2, p2) \<leftarrow>
               mergeSpvInst code1 codeSize mcs1 p1 t
                 \<lparr>sf_fields = [(2, typeIntId), (3, componentCount)], sf_endIndex = varOffset\<rparr>
                 SpvOpTypeVector [UINT32_MAX, typeIntId, componentCount];
             (typePointerId, code3, mcs3, p3) \<leftarrow>
               mergeSpvInst code2 codeSize mcs2 p2 t
                 \<lparr>sf_fields = [(2, SpvStorageClassInput), (3, typeVectorId)], sf_endIndex = varOffset\<rparr>
                 SpvOpTypePointer [UINT32_MAX, SpvStorageClassInput, typeVectorId];
             code4 \<leftarrow> store code3 (varOffset + 1) typePointerId;
             Some (code4, mcs3, va\<lparr>va_signedness := signedness, va_vecId := typeVectorId\<rparr>) }) }) }"

section \<open>The export of the point size\<close>

partial_function (option) store_search :: "u32 list \<Rightarrow> nat \<Rightarrow> u32 \<Rightarrow> u32 \<Rightarrow> nat \<Rightarrow> bool option" where
  "store_search code codeSize varId constf32Id position = do {
     index \<leftarrow> fetchSpvInstIndex code codeSize position SpvOpStore (Some 1) varId False;
     (if index = None then Some False
      else do {
        v \<leftarrow> load code (the index + 2);
        (if v = constf32Id then Some True
         else do {
           w \<leftarrow> load code (the index);
           store_search code codeSize varId constf32Id (the index + instruction_words w) }) }) }"

declare store_search.simps [code]

text \<open>The id of the constant 1.0 of type \<^verbatim>\<open>float\<close>.\<close>

definition constant_one :: "u32 list \<Rightarrow> nat \<Rightarrow> nat \<Rightarrow> u32 option option" where
  "constant_one code codeSize decorOffset = do {
     index \<leftarrow> fetchSpvInstIndex code codeSize decorOffset SpvOpTypeFloat (Some 2) 32 True;
     (case index of
        None \<Rightarrow> Some None
      | Some f \<Rightarrow> do {
          typeId \<leftarrow> load code (f + 1);
          index2 \<leftarrow> fetchSpvInstIndex2 code codeSize decorOffset SpvOpConstant
            \<lparr>sf_fields = [(1, typeId), (3, 0x3f800000)], sf_endIndex = 0\<rparr> True;
          (case index2 of None \<Rightarrow> Some None | Some k \<Rightarrow> do { c \<leftarrow> load code (k + 2); Some (Some c) }) }) }"

definition removePointSizeExport ::
  "u32 list \<Rightarrow> nat \<Rightarrow> nat \<Rightarrow> nat list \<Rightarrow> MergeCode list \<Rightarrow> (u32 list \<times> nat list \<times> MergeCode list) option" where
  "removePointSizeExport code codeSize decorOffset removeInsts mergeCodes =
     (let unchanged = Some (code, removeInsts, mergeCodes) in do {
        const \<leftarrow> constant_one code codeSize decorOffset;
        (case const of
           None \<Rightarrow> unchanged
         | Some constf32Id \<Rightarrow> do {
             varId \<leftarrow> load code (decorOffset + 1);
             opStoreFound \<leftarrow> store_search code codeSize varId constf32Id decorOffset;
             (if \<not> opStoreFound then unchanged
              else do {
                var \<leftarrow> fetchSpvInstIndex code codeSize decorOffset SpvOpVariable (Some 2) varId True;
                (case var of
                   None \<Rightarrow> unchanged
                 | Some varOffset \<Rightarrow> do {
                     storageClass \<leftarrow> load code (varOffset + 3);
                     (if storageClass \<noteq> SpvStorageClassOutput then unchanged
                      else do {
                        pointerId \<leftarrow> load code (varOffset + 1);
                        pointer \<leftarrow> fetchSpvInstIndex code codeSize decorOffset SpvOpTypePointer (Some 1) pointerId True;
                        (case pointer of
                           None \<Rightarrow> unchanged
                         | Some pointerOffset \<Rightarrow> do {
                             baseTypeId \<leftarrow> load code (pointerOffset + 3);
                             (typePointerId, code1, mcs1, p1) \<leftarrow>
                               mergeSpvInst code codeSize mergeCodes (int pointerOffset) decorOffset
                                 \<lparr>sf_fields = [(2, SpvStorageClassPrivate), (3, baseTypeId)], sf_endIndex = 0\<rparr>
                                 SpvOpTypePointer [UINT32_MAX, SpvStorageClassPrivate, baseTypeId];
                             code2 \<leftarrow> store code1 (varOffset + 3) SpvStorageClassPrivate;
                             code3 \<leftarrow> store code2 (varOffset + 1) typePointerId;
                             Some (code3, removeInsts @ [decorOffset], mcs1) }) }) }) }) }) })"

section \<open>Vertex shaders\<close>

record ShaderInspector =
  si_passthrough :: bool
  si_checkClipDistance :: bool
  si_convertFormatScaled :: bool
  si_removeImageBoundCheck :: bool
  si_removePointSizeExport :: bool
  si_checkInOutVariablesSize :: bool

text \<open>One turn of the first loop of \<open>inspectVertexShaderCode\<close>, at the instruction with the word \<open>w\<close>.\<close>

definition vertex_step ::
  "ShaderInspector \<Rightarrow> nat \<Rightarrow> nat \<Rightarrow> u32 \<Rightarrow> u32 list \<times> nat list \<times> MergeCode list
    \<Rightarrow> (u32 list \<times> nat list \<times> MergeCode list) option" where
  "vertex_step insp codeSize i w st =
     (case st of (code, removeInsts, mergeCodes) \<Rightarrow>
        (if opcode_of w = SpvOpCapability then
           (if si_checkClipDistance insp then do {
              capability \<leftarrow> load code (i + 1);
              Some (code, if capability = SpvCapabilityClipDistance then removeInsts @ [i] else removeInsts, mergeCodes) }
            else Some st)
         else if opcode_of w = SpvOpDecorate then do {
           decoration \<leftarrow> load code (i + 2);
           (if decoration \<noteq> SpvDecorationBuiltIn then Some st
            else do {
              builtIn \<leftarrow> load code (i + 3);
              (if si_checkClipDistance insp \<and> builtIn = SpvBuiltInClipDistance
               then Some (code, removeInsts @ [i], mergeCodes)
               else if si_removePointSizeExport insp \<and> builtIn = SpvBuiltInPointSize
               then removePointSizeExport code codeSize i removeInsts mergeCodes
               else Some st) }) }
         else Some st))"

partial_function (option) vertex_loop ::
  "ShaderInspector \<Rightarrow> nat \<Rightarrow> u32 \<Rightarrow> nat \<Rightarrow> u32 list \<times> nat list \<times> MergeCode list
    \<Rightarrow> (u32 list \<times> nat list \<times> MergeCode list) option" where
  "vertex_loop insp codeSize opcode i st =
     (if i < codeSize div 4 \<and> opcode \<noteq> SpvOpFunction \<and> \<not> IS_SPV_OP_TYPE opcode then do {
        w \<leftarrow> load (fst st) i;
        st' \<leftarrow> vertex_step insp codeSize i w st;
        vertex_loop insp codeSize (opcode_of w) (i + instruction_words w) st' }
      else Some st)"

declare vertex_loop.simps [code]

text \<open>The first annotation of a location.\<close>

fun annotation_of :: "VertexAnnotation list \<Rightarrow> nat \<Rightarrow> u32 \<Rightarrow> nat option" where
  "annotation_of [] j loc = None"
| "annotation_of (va # vas) j loc = (if va_location va = loc then Some j else annotation_of vas (j + 1) loc)"

text \<open>One turn of the loop over the locations.\<close>

definition scaled_step ::
  "nat \<Rightarrow> nat \<Rightarrow> u32 \<Rightarrow> u32 list \<times> MergeCode list \<times> VertexAnnotation list
    \<Rightarrow> (u32 list \<times> MergeCode list \<times> VertexAnnotation list) option" where
  "scaled_step codeSize i w st =
     (case st of (code, mergeCodes, annotations) \<Rightarrow>
        (if opcode_of w \<noteq> SpvOpDecorate then Some st
         else do {
           decoration \<leftarrow> load code (i + 2);
           (if decoration \<noteq> SpvDecorationLocation then Some st
            else do {
              loc \<leftarrow> load code (i + 3);
              (case annotation_of annotations 0 loc of
                 None \<Rightarrow> Some st
               | Some j \<Rightarrow> do {
                   varId \<leftarrow> load code (i + 1);
                   index \<leftarrow> fetchSpvInstIndex code codeSize i SpvOpVariable (Some 2) varId True;
                   (case index of
                      None \<Rightarrow> Some st
                    | Some k \<Rightarrow> do {
                        storageClass \<leftarrow> load code (k + 3);
                        (if storageClass \<noteq> SpvStorageClassInput then Some st
                         else do {
                           (code', mcs', va') \<leftarrow> convertInputVariableFormatScaled code codeSize mergeCodes i
                             ((annotations ! j)\<lparr>va_varId := varId, va_varOffset := Some k\<rparr>);
                           Some (code', mcs', annotations[j := va']) }) }) }) }) }))"

partial_function (option) scaled_loop ::
  "nat \<Rightarrow> u32 \<Rightarrow> nat \<Rightarrow> u32 list \<times> MergeCode list \<times> VertexAnnotation list
    \<Rightarrow> (u32 list \<times> MergeCode list \<times> VertexAnnotation list) option" where
  "scaled_loop codeSize opcode i st =
     (if i < codeSize div 4 \<and> opcode \<noteq> SpvOpFunction \<and> \<not> IS_SPV_OP_TYPE opcode then do {
        w \<leftarrow> load (fst st) i;
        st' \<leftarrow> scaled_step codeSize i w st;
        scaled_loop codeSize (opcode_of w) (i + instruction_words w) st' }
      else Some st)"

declare scaled_loop.simps [code]

text \<open>A load of the variable from \<open>position\<close> on becomes a load of integers and their conversion.\<close>

definition convert_load :: "ShaderModule \<Rightarrow> VertexAnnotation \<Rightarrow> nat \<Rightarrow> (nat \<times> ShaderModule) option" where
  "convert_load m va j = do {
     oldLoadId \<leftarrow> load (sm_code m) (j + 2);
     newLoadId \<leftarrow> load (sm_code m) MAX_ID_BOUND_OFFSET;
     code1 \<leftarrow> store (sm_code m) MAX_ID_BOUND_OFFSET (newLoadId + 1);
     resultTypeId \<leftarrow> load code1 (j + 1);
     w \<leftarrow> load code1 j;
     code2 \<leftarrow> store code1 (j + 1) (va_vecId va);
     code3 \<leftarrow> store code2 (j + 2) newLoadId;
     (let position = j + instruction_words w;
          opcode = (if va_signedness va \<noteq> 0 then SpvOpConvertSToF else SpvOpConvertUToF) in do {
        m' \<leftarrow> mergeShaderCode (m\<lparr>sm_code := code3\<rparr>) [PACK_SPV_INST opcode 4, resultTypeId, oldLoadId, newLoadId] position;
        Some (position, m') }) }"

partial_function (option) loads_loop :: "VertexAnnotation \<Rightarrow> nat \<Rightarrow> ShaderModule \<Rightarrow> ShaderModule option" where
  "loads_loop va position m = do {
     index \<leftarrow> fetchSpvInstIndex (sm_code m) (sm_codeSize m) position SpvOpLoad (Some 3) (va_varId va) False;
     (if index = None then Some m
      else do {
        r \<leftarrow> convert_load m va (the index);
        loads_loop va (fst r) (snd r) }) }"

declare loads_loop.simps [code]

text \<open>A module without a function would be walked from index $-1$.\<close>

fun convert_annotations :: "nat option \<Rightarrow> VertexAnnotation list \<Rightarrow> ShaderModule \<Rightarrow> ShaderModule option" where
  "convert_annotations functionStart [] m = Some m"
| "convert_annotations functionStart (va # vas) m =
     (if va_varId va = - 1 then convert_annotations functionStart vas m
      else do {
        start \<leftarrow> functionStart;
        m' \<leftarrow> loads_loop va start m;
        convert_annotations functionStart vas m' })"

definition inspectVertexShaderCode ::
  "ShaderInspector \<Rightarrow> ShaderModule \<Rightarrow> VertexAnnotation list \<Rightarrow> (ShaderModule \<times> VertexAnnotation list) option" where
  "inspectVertexShaderCode insp m annotations = do {
     (code1, removeInsts, mergeCodes1) \<leftarrow> vertex_loop insp (sm_codeSize m) SpvOpNop CODE_START (sm_code m, [], []);
     m1 \<leftarrow> removeSpvInstIndices (m\<lparr>sm_code := code1\<rparr>) removeInsts;
     (code2, mergeCodes, annotations2) \<leftarrow>
       (if si_convertFormatScaled insp
        then scaled_loop (sm_codeSize m1) SpvOpNop CODE_START (sm_code m1, mergeCodes1, annotations)
        else Some (sm_code m1, mergeCodes1, annotations));
     (let m2 = m1\<lparr>sm_code := code2\<rparr>
      in if mergeCodes = [] then Some (m2, annotations2)
         else do {
           m3 \<leftarrow> mergeCodesSorted m2 mergeCodes;
           functionStart \<leftarrow> fetchSpvInstIndex (sm_code m3) (sm_codeSize m3) CODE_START SpvOpFunction None 0 False;
           m4 \<leftarrow> convert_annotations functionStart annotations2 m3;
           Some (m4, annotations2) }) }"

end
