(* ===== verification/Shader_Walk.thy ===== *)
theory Shader_Walk
  imports Shader_Inspector "HOL-Library.Sublist"
begin

text \<open>
  Modules laid out as whole instructions. A position is the offset of an instruction; searches from there
  stay inside the module and find the first matching instruction, operand updates and insertions at offsets keep the
  layout.
\<close>

section \<open>Layout\<close>

text \<open>Instructions \<open>is\<close> after \<open>b\<close> words of header, the first \<open>n\<close> words in all.\<close>

definition laid_out :: "nat \<Rightarrow> u32 list \<Rightarrow> nat \<Rightarrow> u32 list list \<Rightarrow> bool" where
  "laid_out b code n is \<longleftrightarrow> b \<le> n \<and> n \<le> length code \<and> instructions (drop b (take n code)) is"

definition offset :: "nat \<Rightarrow> u32 list list \<Rightarrow> nat \<Rightarrow> nat" where
  "offset b is k = b + length (concat (take k is))"

lemma offset_0 [simp]: "offset b is 0 = b"
  by (simp add: offset_def)

lemma offset_Suc: "k < length is \<Longrightarrow> offset b is (Suc k) = offset b is k + length (is ! k)"
  by (simp add: offset_def take_Suc_conv_app_nth)

lemma offset_add: "k \<le> length is \<Longrightarrow> offset b is (k + j) = offset b is k + length (concat (take j (drop k is)))"
  by (simp add: offset_def take_add)

lemma offset_length: "laid_out b code n is \<Longrightarrow> offset b is (length is) = n"
  by (auto simp: laid_out_def offset_def instructions_def dest!: arg_cong [of _ _ length])

lemma offset_mono: "j \<le> k \<Longrightarrow> offset b is j \<le> offset b is k"
  unfolding offset_def by (metis add_le_cancel_left append_take_drop_id concat_append le_add1 length_append min.absorb1 take_take)

lemma offset_le: "laid_out b code n is \<Longrightarrow> offset b is k \<le> n"
  using offset_mono [of k "max k (length is)" b "is"] offset_length [of b code n "is"]
  by (cases "k \<le> length is") (simp_all add: offset_def)

lemma laid_out_ok: "laid_out b code n is \<Longrightarrow> k < length is \<Longrightarrow> instruction_ok (is ! k)"
  by (simp add: laid_out_def instructions_def list_all_length)

lemma instruction_ok_simps:
  assumes "instruction_ok i"
  shows "i \<noteq> []" "0 < length i" "instruction_words (hd i) = length i" "minimumInspectedInstructionWords (opcode_of (hd i)) \<le> length i"
proof -
  have m: "minimumInspectedInstructionWords (opcode_of (hd i)) \<le> needed_words i"
    by (auto simp: needed_words_def minimumInspectedInstructionWords_def spirv_defs)
  show ne: "i \<noteq> []" and "instruction_words (hd i) = length i" "minimumInspectedInstructionWords (opcode_of (hd i)) \<le> length i"
    using assms m by (auto simp: instruction_ok_def)
  show "0 < length i" using ne by simp
qed

lemma offset_strict:
  assumes "list_all instruction_ok is" "j < k" "k \<le> length is"
  shows "offset b is j < offset b is k"
proof -
  have "0 < length (is ! j)" using assms instruction_ok_simps(2) by (simp add: list_all_length)
  then have "offset b is j < offset b is (Suc j)" using assms by (simp add: offset_Suc)
  also have "\<dots> \<le> offset b is k" using assms(2) by (intro offset_mono) simp
  finally show ?thesis .
qed

lemma laid_out_all: "laid_out b code n is \<Longrightarrow> list_all instruction_ok is"
  by (simp add: laid_out_def instructions_def)

lemma laid_out_split:
  assumes "laid_out b code n is" "k \<le> length is"
  shows "take n code = take (offset b is k) code @ concat (drop k is)"
proof -
  have "take n code = take b code @ concat is"
    using assms(1) append_take_drop_id [of b "take n code"] by (simp add: laid_out_def instructions_def min_def)
  also have "\<dots> = (take b code @ concat (take k is)) @ concat (drop k is)"
    by (metis append.assoc append_take_drop_id concat_append)
  finally have e: "take n code = (take b code @ concat (take k is)) @ concat (drop k is)" .
  have "length (take b code @ concat (take k is)) = offset b is k"
    using assms(1) by (simp add: laid_out_def offset_def)
  then have "take (offset b is k) (take n code) = take b code @ concat (take k is)"
    unfolding e by (metis append_eq_conv_conj)
  then have "take (offset b is k) code = take b code @ concat (take k is)"
    using offset_le [OF assms(1), of k] by (simp add: min_def)
  then show ?thesis using e by simp
qed

lemma laid_out_word:
  assumes "laid_out b code n is" "k < length is" "f < length (is ! k)"
  shows "offset b is k + f < n" "code ! (offset b is k + f) = is ! k ! f" "load code (offset b is k + f) = Some (is ! k ! f)"
proof -
  have le: "offset b is (Suc k) \<le> n" by (rule offset_le [OF assms(1)])
  then show lt: "offset b is k + f < n" using assms(2,3) by (simp add: offset_Suc)
  have n: "n \<le> length code" using assms(1) by (simp add: laid_out_def)
  have ol: "offset b is k \<le> length code" using lt n by simp
  have "take n code ! (offset b is k + f) = concat (drop k is) ! f"
    using laid_out_split [OF assms(1), of k] assms(2) ol by (simp add: nth_append)
  also have "drop k is = is ! k # drop (Suc k) is" using assms(2) by (simp add: Cons_nth_drop_Suc)
  finally have "take n code ! (offset b is k + f) = is ! k ! f" using assms(3) by (simp add: nth_append)
  then show e: "code ! (offset b is k + f) = is ! k ! f" using lt by simp
  show "load code (offset b is k + f) = Some (is ! k ! f)" using lt n e by (simp add: load_def)
qed

lemma laid_out_head:
  assumes "laid_out b code n is" "k < length is"
  shows "load code (offset b is k) = Some (hd (is ! k))" "offset b is k < n" "instruction_words (hd (is ! k)) = length (is ! k)"
proof -
  note ok = laid_out_ok [OF assms]
  note w = laid_out_word [OF assms, of 0]
  show "load code (offset b is k) = Some (hd (is ! k))" using w(3) instruction_ok_simps(1,2) [OF ok] by (simp add: hd_conv_nth)
  show "offset b is k < n" using w(1) instruction_ok_simps(2) [OF ok] by simp
  show "instruction_words (hd (is ! k)) = length (is ! k)" using instruction_ok_simps(3) [OF ok] .
qed

section \<open>Searches\<close>

text \<open>The first instruction before \<open>e\<close> that has the property, none past a stopping instruction.\<close>

fun first_match :: "(u32 list \<Rightarrow> bool) \<Rightarrow> (u32 list \<Rightarrow> bool) \<Rightarrow> nat \<Rightarrow> nat \<Rightarrow> u32 list list \<Rightarrow> nat option" where
  "first_match P stop e pos [] = None"
| "first_match P stop e pos (i # is) =
     (if e \<le> pos then None else if P i then Some pos else if stop i then None else first_match P stop e (pos + length i) is)"

lemma first_match_past: "e \<le> pos \<Longrightarrow> first_match P stop e pos is = None"
  by (cases "is") auto

lemma first_match_Some:
  "first_match P stop e (offset b is k) (drop k is) = Some p \<Longrightarrow> k \<le> length is \<Longrightarrow>
     \<exists>j. k \<le> j \<and> j < length is \<and> p = offset b is j \<and> P (is ! j)"
proof (induction "length is - k" arbitrary: k)
  case 0
  then show ?case by simp
next
  case (Suc d)
  then have k: "k < length is" by simp
  have d: "drop k is = is ! k # drop (Suc k) is" using k by (simp add: Cons_nth_drop_Suc)
  show ?case
  proof (cases "P (is ! k)")
    case True
    then show ?thesis using Suc.prems k unfolding d by (auto split: if_splits)
  next
    case False
    then have "first_match P stop e (offset b is (Suc k)) (drop (Suc k) is) = Some p"
      using Suc.prems k unfolding d by (simp add: offset_Suc split: if_splits)
    moreover have "d = length is - Suc k" "Suc k \<le> length is" using Suc.hyps(2) k by auto
    ultimately obtain j where "Suc k \<le> j" "j < length is" "p = offset b is j" "P (is ! j)" using Suc.hyps(1) by blast
    then show ?thesis by (intro exI [of _ j]) simp
  qed
qed

lemma spv_walk_spec:
  assumes "laid_out b code n is" "e \<le> n" "\<And>j. j < length is \<Longrightarrow> test (offset b is j) (hd (is ! j)) = Some (P (is ! j))"
  shows "k \<le> length is \<Longrightarrow> opc \<noteq> stop \<Longrightarrow>
    spv_walk test code e stop opc (offset b is k)
      = Some (first_match P (\<lambda>i. opcode_of (hd i) = stop) e (offset b is k) (drop k is))"
proof (induction "length is - k" arbitrary: k opc)
  case 0
  then have "k = length is" by simp
  then have "e \<le> offset b is k" using offset_length [OF assms(1)] assms(2) by simp
  then show ?case using 0 by (subst spv_walk.simps) simp
next
  case (Suc d)
  then have k: "k < length is" by simp
  have d: "drop k is = is ! k # drop (Suc k) is" using k by (simp add: Cons_nth_drop_Suc)
  note h = laid_out_head [OF assms(1) k]
  show ?case
  proof (cases "offset b is k < e")
    case False
    then show ?thesis by (subst spv_walk.simps) (simp add: first_match_past)
  next
    case True
    have next_step: "spv_walk test code e stop opc (offset b is k) =
        (if P (is ! k) then Some (Some (offset b is k))
         else spv_walk test code e stop (opcode_of (hd (is ! k))) (offset b is (Suc k)))"
      using True Suc.prems h k assms(3) [OF k] by (subst spv_walk.simps) (simp add: offset_Suc)
    show ?thesis
    proof (cases "opcode_of (hd (is ! k)) = stop")
      case stop: True
      have "spv_walk test code e stop stop (offset b is (Suc k)) = Some None"
        by (subst spv_walk.simps) simp
      then show ?thesis using True stop unfolding next_step d by simp
    next
      case False
      have "d = length is - Suc k" "Suc k \<le> length is" using Suc.hyps(2) k by auto
      note ih = Suc.hyps(1) [OF this False]
      show ?thesis using True False unfolding next_step ih d by (simp add: offset_Suc [OF k])
    qed
  qed
qed

definition field_is :: "nat option \<Rightarrow> u32 \<Rightarrow> u32 list \<Rightarrow> bool" where
  "field_is field value i \<longleftrightarrow> (case field of None \<Rightarrow> True | Some f \<Rightarrow> f < length i \<and> i ! f = value)"

lemma field_test_spec:
  assumes "laid_out b code n is" "j < length is"
  shows "field_test code field value (offset b is j) (hd (is ! j)) = Some (field_is field value (is ! j))"
  using laid_out_head(3) [OF assms] laid_out_word(3) [OF assms]
  by (auto simp: field_test_def field_is_def split: option.split)

definition function_stop :: "bool \<Rightarrow> u32 list \<Rightarrow> bool" where
  "function_stop stopOnOpFunction i \<longleftrightarrow> stopOnOpFunction \<and> opcode_of (hd i) = SpvOpFunction"

lemma opcode_not_max: "opcode_of w \<noteq> SpvOpMax"
proof -
  have "unat (opcode_of w) \<le> 65535"
    unfolding opcode_of_def SPIRV_OPCODE_MASK_def unsigned_and_eq
    using and_pow2_mask_nat [of "unat w" 16] by simp
  then show ?thesis by (auto simp: SpvOpMax_def)
qed

lemma stop_opcode_iff: "(\<lambda>i. opcode_of (hd i) = stop_opcode s) = function_stop s"
  by (auto simp: fun_eq_iff stop_opcode_def function_stop_def opcode_not_max)

lemma nop_not_stop: "SpvOpNop \<noteq> stop_opcode s" "SpvOpNop \<noteq> SpvOpFunction"
  by (simp_all add: stop_opcode_def spirv_defs)

lemma fetchSpvInstIndex_spec:
  assumes "laid_out b code n is" "k \<le> length is"
  shows "fetchSpvInstIndex code (n * 4) (offset b is k) opc field value s =
    Some (first_match (\<lambda>i. opcode_of (hd i) = opc \<and> field_is field value i) (function_stop s) n (offset b is k) (drop k is))"
  unfolding fetchSpvInstIndex_def stop_opcode_iff [symmetric]
  by (simp, rule spv_walk_spec [OF assms(1) order_refl _ assms(2) nop_not_stop(1)]) (simp add: field_test_spec [OF assms(1)])

lemma fetchSpvOpTypeIndex_spec:
  assumes "laid_out b code n is" "k \<le> length is"
  shows "fetchSpvOpTypeIndex code (n * 4) (offset b is k) field value =
    Some (first_match (\<lambda>i. IS_SPV_OP_TYPE (opcode_of (hd i)) \<and> field_is field value i) (function_stop True) n (offset b is k) (drop k is))"
  unfolding fetchSpvOpTypeIndex_def stop_opcode_iff [of True, symmetric] stop_opcode_def if_True
  by (simp, rule spv_walk_spec [OF assms(1) order_refl _ assms(2) nop_not_stop(2)]) (simp add: field_test_spec [OF assms(1)])

definition filter_is :: "u32 \<Rightarrow> (nat \<times> u32) list \<Rightarrow> u32 list \<Rightarrow> bool" where
  "filter_is opc fvs i \<longleftrightarrow> opcode_of (hd i) = opc \<and> length fvs < length i \<and> list_all (\<lambda>(f, v). i ! f = v) fvs"

lemma filter_matches_spec:
  assumes "laid_out b code n is" "j < length is"
  shows "list_all (\<lambda>(f, v). f < length (is ! j)) fvs \<Longrightarrow>
    filter_matches code (offset b is j) fvs = Some (list_all (\<lambda>(f, v). is ! j ! f = v) fvs)"
  using laid_out_word(3) [OF assms] by (induction fvs) (auto split: if_splits)

lemma fetchSpvInstIndex2_spec:
  assumes "laid_out b code n is" "k \<le> length is" "list_all (\<lambda>(f, v). f < minimumInspectedInstructionWords opc) (sf_fields flt)"
  shows "fetchSpvInstIndex2 code (n * 4) (offset b is k) opc flt s =
    Some (first_match (filter_is opc (sf_fields flt)) (function_stop s)
      (if 0 < sf_endIndex flt \<and> sf_endIndex flt < n then sf_endIndex flt else n) (offset b is k) (drop k is))"
proof -
  have t: "filter_test code opc (sf_fields flt) (offset b is j) (hd (is ! j)) = Some (filter_is opc (sf_fields flt) (is ! j))"
    if j: "j < length is" for j
  proof (cases "opcode_of (hd (is ! j)) = opc")
    case True
    then have "minimumInspectedInstructionWords opc \<le> length (is ! j)"
      using instruction_ok_simps(4) [OF laid_out_ok [OF assms(1) j]] by simp
    then have "list_all (\<lambda>(f, v). f < length (is ! j)) (sf_fields flt)"
      using assms(3) by (auto simp: list_all_iff)
    then show ?thesis
      using laid_out_head(3) [OF assms(1) j] filter_matches_spec [OF assms(1) j] True
      by (simp add: filter_test_def filter_is_def)
  next
    case False
    then show ?thesis by (simp add: filter_test_def filter_is_def)
  qed
  show ?thesis unfolding fetchSpvInstIndex2_def stop_opcode_iff [symmetric] Let_def
    by (simp only: div_mult_self_is_m zero_less_numeral)
      (rule spv_walk_spec [where P = "filter_is opc (sf_fields flt)", OF assms(1) _ _ assms(2) nop_not_stop(1)], simp_all add: t)
qed

end
