(* ===== verification/Shader_Edits.thy ===== *)
theory Shader_Edits
  imports Shader_Walk
begin

text \<open>
  Edits of a laid-out module: an operand, the bound of identifiers, an insertion and a removal at an offset. The
  instructions no rewrite is about stay, in their order.
\<close>

section \<open>Updates in place\<close>

text \<open>Two instructions of the same length and opcode.\<close>

definition inst_shape :: "u32 list \<Rightarrow> u32 list \<Rightarrow> bool" where
  "inst_shape i j \<longleftrightarrow> length i = length j \<and> opcode_of (hd i) = opcode_of (hd j)"

lemma inst_shape_refl [simp]: "inst_shape i i"
  by (simp add: inst_shape_def)

definition inst_shapes :: "u32 list list \<Rightarrow> u32 list list \<Rightarrow> bool" where
  "inst_shapes is js \<longleftrightarrow> list_all2 inst_shape is js"

lemma inst_shapes_refl [simp]: "inst_shapes is is"
  by (simp add: inst_shapes_def list.rel_refl)

lemma inst_shapes_trans: "inst_shapes is js \<Longrightarrow> inst_shapes js ks \<Longrightarrow> inst_shapes is ks"
  unfolding inst_shapes_def by (erule (1) list_all2_trans [rotated]) (simp add: inst_shape_def)

lemma inst_shapes_length: "inst_shapes is js \<Longrightarrow> length is = length js"
  by (simp add: inst_shapes_def list_all2_lengthD)

lemma inst_shapes_offset: "inst_shapes is js \<Longrightarrow> offset b is k = offset b js k"
  unfolding offset_def inst_shapes_def
  by (induction "is" js arbitrary: k rule: list_all2_induct) (auto simp: inst_shape_def take_Cons split: nat.split)

lemma inst_shapes_nth: "inst_shapes is js \<Longrightarrow> k < length is \<Longrightarrow> inst_shape (is ! k) (js ! k)"
  by (simp add: inst_shapes_def list_all2_nthD)

lemma inst_shapes_update: "inst_shape (is ! k) i \<Longrightarrow> inst_shapes is (is[k := i])"
  by (cases "k < length is") (auto simp: inst_shapes_def list_all2_conv_all_nth nth_list_update)

text \<open>An operand may change unless it is the decoration of a decoration instruction.\<close>

definition free_operand :: "u32 list \<Rightarrow> nat \<Rightarrow> bool" where
  "free_operand i f \<longleftrightarrow> 0 < f \<and> f < length i \<and> \<not> (opcode_of (hd i) = SpvOpDecorate \<and> f = 2)"

lemma hd_update: "0 < f \<Longrightarrow> hd (i[f := v]) = hd i"
  by (cases i; cases f) auto

lemma instruction_ok_update:
  assumes "instruction_ok i" "free_operand i f"
  shows "instruction_ok (i[f := v])" "inst_shape i (i[f := v])"
proof -
  have h: "hd (i[f := v]) = hd i" using assms(2) by (simp add: free_operand_def hd_update)
  then show "inst_shape i (i[f := v])" by (simp add: inst_shape_def)
  have "needed_words (i[f := v]) = needed_words i"
    using assms(2) unfolding needed_words_def h by (auto simp: free_operand_def nth_list_update)
  then show "instruction_ok (i[f := v])" using assms(1) unfolding instruction_ok_def h by simp
qed

lemma concat_update:
  "k < length is \<Longrightarrow> f < length (is ! k) \<Longrightarrow>
     (concat is)[length (concat (take k is)) + f := v] = concat (is[k := (is ! k)[f := v]])"
proof (induction "is" arbitrary: k)
  case (Cons i "is")
  then show ?case by (cases k) (simp_all add: list_update_append)
qed simp

lemma laid_out_update:
  assumes "laid_out b code n is" "k < length is" "free_operand (is ! k) f"
  shows "store code (offset b is k + f) v = Some (code[offset b is k + f := v])"
    "laid_out b (code[offset b is k + f := v]) n (is[k := (is ! k)[f := v]])"
    "inst_shapes is (is[k := (is ! k)[f := v]])"
proof -
  have f: "f < length (is ! k)" using assms(3) by (simp add: free_operand_def)
  note w = laid_out_word [OF assms(1,2) f]
  have n: "n \<le> length code" "b \<le> n" using assms(1) by (simp_all add: laid_out_def)
  show "store code (offset b is k + f) v = Some (code[offset b is k + f := v])" using w n by simp
  note ok = instruction_ok_update [OF laid_out_ok [OF assms(1,2)] assms(3), of v]
  show "inst_shapes is (is[k := (is ! k)[f := v]])" using ok(2) by (rule inst_shapes_update)
  have "drop b (take n (code[offset b is k + f := v])) = (drop b (take n code))[offset b is k - b + f := v]"
    using w(1) n by (simp add: drop_update_swap take_update_swap offset_def)
  also have "\<dots> = (concat is)[length (concat (take k is)) + f := v]"
    using assms(1) by (simp add: laid_out_def instructions_def offset_def)
  also have "\<dots> = concat (is[k := (is ! k)[f := v]])" by (rule concat_update [OF assms(2) f])
  finally have "drop b (take n (code[offset b is k + f := v])) = concat (is[k := (is ! k)[f := v]])" .
  moreover have "list_all instruction_ok (is[k := (is ! k)[f := v]])"
    using laid_out_all [OF assms(1)] ok(1) by (auto simp: list_all_iff dest!: set_update_subset_insert [THEN subsetD])
  ultimately show "laid_out b (code[offset b is k + f := v]) n (is[k := (is ! k)[f := v]])"
    using n by (simp add: laid_out_def instructions_def)
qed

lemma laid_out_header:
  assumes "laid_out 5 code n is" "p < 5"
  shows "store code p v = Some (code[p := v])" "laid_out 5 (code[p := v]) n is"
  using assms by (auto simp: laid_out_def take_update_swap)

section \<open>Insertion and removal\<close>

lemma memmerge_at:
  assumes "p \<le> length code"
  shows "memmerge z ws (length ws) code (length code) p = Some (take p code @ ws @ drop p code)"
  using assms by (simp add: memmerge_def Let_def)

lemma laid_out_insert:
  assumes "laid_out b code n is" "n = length code" "k \<le> length is" "list_all instruction_ok js"
  shows "laid_out b (take (offset b is k) code @ concat js @ drop (offset b is k) code) (n + length (concat js))
    (take k is @ js @ drop k is)"
proof -
  have o: "b \<le> offset b is k" "offset b is k \<le> length code" using offset_le [OF assms(1), of k] assms(2) by (simp_all add: offset_def)
  have s: "code = take (offset b is k) code @ concat (drop k is)"
    using laid_out_split [OF assms(1,3)] assms(2) by simp
  then have d: "drop (offset b is k) code = concat (drop k is)"
    using append_take_drop_id [of "offset b is k" code] by (metis same_append_eq)
  have "drop b code = concat is" using assms(1,2) by (simp add: laid_out_def instructions_def)
  then have t: "drop b (take (offset b is k) code) = concat (take k is)"
    by (simp add: drop_take offset_def) (metis append_eq_conv_conj append_take_drop_id concat_append)
  have "drop b (take (offset b is k) code @ concat js @ drop (offset b is k) code) = concat (take k is @ js @ drop k is)"
    using o t d by simp
  moreover have "list_all instruction_ok (take k is @ js @ drop k is)"
    using laid_out_all [OF assms(1)] assms(4) by (auto simp: list_all_iff dest: in_set_takeD in_set_dropD)
  moreover have "length (take (offset b is k) code @ concat js @ drop (offset b is k) code) = n + length (concat js)"
    using o assms(2) by simp
  ultimately show ?thesis using o assms(1) by (simp add: laid_out_def instructions_def)
qed

lemma laid_out_remove:
  assumes "laid_out b code n is" "n = length code" "k < length is"
  shows "memdel code n (offset b is k) (length (is ! k)) =
      Some (if Suc k = length is then None
            else Some (take (offset b is k) code @ drop (offset b is (Suc k)) code))"
    "laid_out b (take (offset b is k) code @ drop (offset b is (Suc k)) code) (n - length (is ! k)) (take k is @ drop (Suc k) is)"
proof -
  have o: "b \<le> offset b is k" "offset b is (Suc k) \<le> n" "offset b is (Suc k) = offset b is k + length (is ! k)"
  proof -
    show "b \<le> offset b is k" by (simp add: offset_def)
    show "offset b is (Suc k) \<le> n" by (rule offset_le [OF assms(1)])
    show "offset b is (Suc k) = offset b is k + length (is ! k)" by (rule offset_Suc [OF assms(3)])
  qed
  have last: "n = offset b is (Suc k) \<longleftrightarrow> Suc k = length is"
  proof (cases "Suc k < length is")
    case True
    then show ?thesis
      using offset_strict [OF laid_out_all [OF assms(1)] True order_refl, of b] offset_length [OF assms(1)] by simp
  next
    case False
    then have "Suc k = length is" using assms(3) by simp
    then show ?thesis using offset_length [OF assms(1)] by simp
  qed
  show "memdel code n (offset b is k) (length (is ! k)) =
      Some (if Suc k = length is then None else Some (take (offset b is k) code @ drop (offset b is (Suc k)) code))"
    using o assms(2) last by (auto simp: memdel_def)
  have s: "drop (offset b is (Suc k)) code = concat (drop (Suc k) is)"
    using laid_out_split [OF assms(1), of "Suc k"] assms(2,3) append_take_drop_id [of "offset b is (Suc k)" code]
    by (metis Suc_leI order_refl same_append_eq take_all)
  have "drop b code = concat is" using assms(1,2) by (simp add: laid_out_def instructions_def)
  then have t: "drop b (take (offset b is k) code) = concat (take k is)"
    by (simp add: drop_take offset_def) (metis append_eq_conv_conj append_take_drop_id concat_append)
  have "drop b (take (offset b is k) code @ drop (offset b is (Suc k)) code) = concat (take k is @ drop (Suc k) is)"
    using o t s assms(2) by simp
  moreover have "list_all instruction_ok (take k is @ drop (Suc k) is)"
    using laid_out_all [OF assms(1)] by (auto simp: list_all_iff dest: in_set_takeD in_set_dropD)
  moreover have "length (take (offset b is k) code @ drop (offset b is (Suc k)) code) = n - length (is ! k)"
    using o assms(2) by simp
  ultimately show "laid_out b (take (offset b is k) code @ drop (offset b is (Suc k)) code) (n - length (is ! k)) (take k is @ drop (Suc k) is)"
    using o assms(2) unfolding laid_out_def instructions_def by simp
qed

lemma offset_take: "j \<le> k \<Longrightarrow> offset b (take k is @ js) j = offset b is j" if "k \<le> length is" for j
  using that by (simp add: offset_def take_append min_def)

section \<open>What stays\<close>

text \<open>The instructions of one list that are not touched stay in the other, in order.\<close>

definition kept :: "(u32 list \<Rightarrow> bool) \<Rightarrow> u32 list list \<Rightarrow> u32 list list \<Rightarrow> bool" where
  "kept plain is js \<longleftrightarrow> subseq (filter plain is) js"

lemma kept_refl [simp]: "kept plain is is"
  by (simp add: kept_def subseq_filter_left)

lemma kept_trans:
  assumes "kept plain is js" "kept plain js ks"
  shows "kept plain is ks"
proof -
  have "subseq (filter plain (filter plain is)) (filter plain js)"
    using assms(1) unfolding kept_def by (rule subseq_filter)
  then have "subseq (filter plain is) (filter plain js)" by simp
  then show ?thesis using assms(2) unfolding kept_def by (rule subseq_order.trans)
qed

lemma filter_without:
  "k < length is \<Longrightarrow> \<not> plain (is ! k) \<Longrightarrow> filter plain is = filter plain (take k is) @ filter plain (drop (Suc k) is)"
  by (metis append_take_drop_id filter_append Cons_nth_drop_Suc filter.simps(2))

lemma kept_remove: "k < length is \<Longrightarrow> \<not> plain (is ! k) \<Longrightarrow> kept plain is (take k is @ drop (Suc k) is)"
  unfolding kept_def by (subst filter_without) (auto intro: list_emb_append_mono)

lemma kept_update: "\<not> plain (is ! k) \<Longrightarrow> kept plain is (is[k := i])"
proof (cases "k < length is")
  case True
  assume "\<not> plain (is ! k)"
  with True have "subseq (filter plain is) (take k is @ drop (Suc k) is)" using kept_remove by (simp add: kept_def)
  moreover have "subseq (take k is @ drop (Suc k) is) (take k is @ i # drop (Suc k) is)"
    by (intro list_emb_append_mono subseq_order.refl list_emb_Cons)
  ultimately show "kept plain is (is[k := i])"
    unfolding kept_def upd_conv_take_nth_drop [OF True] by (rule subseq_order.trans)
qed (simp add: not_less list_update_beyond)

lemma kept_insert: "kept plain is (take k is @ js @ drop k is)"
proof -
  have "filter plain is = filter plain (take k is) @ filter plain (drop k is)" by (metis append_take_drop_id filter_append)
  moreover have "subseq (filter plain (take k is) @ filter plain (drop k is)) (take k is @ js @ drop k is)"
    by (intro list_emb_append_mono list_emb_append2 subseq_filter_left)
  ultimately show ?thesis by (simp add: kept_def)
qed

end
