(* ===== verification/Shader_Merge.thy ===== *)
theory Shader_Merge
  imports Shader_Edits
begin

text \<open>
  Merging and removing instructions: \<open>mergeSpvInst\<close> collects whole instructions to be inserted at offsets of the
  module, \<open>mergeCodesSorted\<close> inserts them from the highest offset down, and \<open>removeSpvInstIndices\<close> takes whole
  instructions out.
\<close>

definition module_ok :: "ShaderModule \<Rightarrow> u32 list list \<Rightarrow> bool" where
  "module_ok m is \<longleftrightarrow> laid_out 5 (sm_code m) (length (sm_code m)) is \<and> sm_codeSize m = length (sm_code m) * 4"

section \<open>Collecting\<close>

definition merge_ok :: "u32 list list \<Rightarrow> MergeCode \<Rightarrow> bool" where
  "merge_ok is mc \<longleftrightarrow> (\<exists>k\<le>length is. mc_position mc = offset 5 is k) \<and>
     (\<exists>js. laid_out 0 (mc_code mc) (length (mc_code mc)) js)"

definition merge_position_ok :: "u32 list list \<Rightarrow> MergeCode list \<Rightarrow> int \<Rightarrow> bool" where
  "merge_position_ok is mcs p \<longleftrightarrow>
     (if p < 0 then nat (- p - 1) < length mcs else (\<exists>k\<le>length is. p = int (offset 5 is k)))"

lemma merge_ok_shapes: "inst_shapes is js \<Longrightarrow> merge_ok is mc \<longleftrightarrow> merge_ok js mc"
  unfolding merge_ok_def using inst_shapes_offset [of "is" js 5] inst_shapes_length [of "is" js] by simp

lemma merge_position_shapes: "inst_shapes is js \<Longrightarrow> merge_position_ok is mcs p \<longleftrightarrow> merge_position_ok js mcs p"
  unfolding merge_position_ok_def using inst_shapes_offset [of "is" js 5] inst_shapes_length [of "is" js] by simp

text \<open>The instructions the inspector merges have four words.\<close>

definition merge_opcodes :: "u32 set" where
  "merge_opcodes = {SpvOpTypeInt, SpvOpTypeVector, SpvOpTypePointer}"

lemma merge_opcode_words: "opc \<in> merge_opcodes \<Longrightarrow> minimumInspectedInstructionWords opc = 4"
  by (auto simp: merge_opcodes_def minimumInspectedInstructionWords_def spirv_defs)

lemma packed:
  "opcode_of (PACK_SPV_INST SpvOpTypeInt 4) = SpvOpTypeInt" "opcode_of (PACK_SPV_INST SpvOpTypeVector 4) = SpvOpTypeVector"
  "opcode_of (PACK_SPV_INST SpvOpTypePointer 4) = SpvOpTypePointer"
  "opcode_of (PACK_SPV_INST SpvOpConvertSToF 4) = SpvOpConvertSToF" "opcode_of (PACK_SPV_INST SpvOpConvertUToF 4) = SpvOpConvertUToF"
  "instruction_words (PACK_SPV_INST SpvOpTypeInt 4) = 4" "instruction_words (PACK_SPV_INST SpvOpTypeVector 4) = 4"
  "instruction_words (PACK_SPV_INST SpvOpTypePointer 4) = 4" "instruction_words (PACK_SPV_INST SpvOpConvertSToF 4) = 4"
  "instruction_words (PACK_SPV_INST SpvOpConvertUToF 4) = 4"
  by (simp_all add: PACK_SPV_INST_def opcode_of_def instruction_words_def spirv_defs)

lemma packed_merge: "opc \<in> merge_opcodes \<Longrightarrow> opcode_of (PACK_SPV_INST opc 4) = opc \<and> instruction_words (PACK_SPV_INST opc 4) = 4"
  by (auto simp: merge_opcodes_def packed)

lemma merged_instruction_ok:
  assumes "opc \<in> merge_opcodes" "length ops = 3"
  shows "instruction_ok (PACK_SPV_INST opc 4 # ops)"
proof -
  have "opc \<noteq> SpvOpDecorate" using assms(1) by (auto simp: merge_opcodes_def spirv_defs)
  then show ?thesis using assms packed_merge [OF assms(1)] merge_opcode_words [OF assms(1)]
    by (simp add: instruction_ok_def needed_words_def)
qed

lemma laid_out_words: "laid_out 0 ws (length ws) js \<longleftrightarrow> ws = concat js \<and> list_all instruction_ok js"
  by (auto simp: laid_out_def instructions_def)

lemma merged_search_spec:
  assumes "opc \<in> merge_opcodes" "list_all (\<lambda>(f, v). f < 4) fvs"
  shows "list_all (merge_ok is) mcs \<Longrightarrow>
    \<exists>r p. merged_search mcs i opc fvs = Some (r, p) \<and> (0 < r \<longrightarrow> p < 0 \<and> nat (- p - 1) < i + length mcs)"
proof (induction mcs arbitrary: i)
  case (Cons mc mcs)
  obtain js where js: "laid_out 0 (mc_code mc) (length (mc_code mc)) js" using Cons.prems by (auto simp: merge_ok_def)
  have f: "list_all (\<lambda>(f, v). f < minimumInspectedInstructionWords opc) (sf_fields \<lparr>sf_fields = fvs, sf_endIndex = 0\<rparr>)"
    using assms merge_opcode_words by simp
  from fetchSpvInstIndex2_spec [OF js, of 0 opc "\<lparr>sf_fields = fvs, sf_endIndex = 0\<rparr>" False] f
  obtain r where r: "fetchSpvInstIndex2 (mc_code mc) (length (mc_code mc) * 4) 0 opc \<lparr>sf_fields = fvs, sf_endIndex = 0\<rparr> False = Some r"
    "r = first_match (filter_is opc fvs) (function_stop False) (length (mc_code mc)) (offset 0 js 0) (drop 0 js)"
    by simp
  show ?case
  proof (cases r)
    case None
    then show ?thesis using r(1) Cons.IH [of "i + 1"] Cons.prems by auto
  next
    case (Some q)
    then have "first_match (filter_is opc fvs) (function_stop False) (length (mc_code mc)) (offset 0 js 0) (drop 0 js) = Some q"
      using r(2) by simp
    from first_match_Some [OF this] obtain j where j: "j < length js" "q = offset 0 js j" "filter_is opc fvs (js ! j)"
      by blast
    have "4 \<le> length (js ! j)"
      using instruction_ok_simps(4) [OF laid_out_ok [OF js j(1)]] j(3) merge_opcode_words [OF assms(1)] by (simp add: filter_is_def)
    then have "load (mc_code mc) (q + 1) = Some (js ! j ! 1)" using laid_out_word(3) [OF js j(1), of 1] j(2) by simp
    then show ?thesis using r(1) Some by (auto simp: nat_diff_distrib)
  qed
qed simp

lemma merge_operands_spec:
  "laid_out 5 code n is \<Longrightarrow> \<exists>ops code' r'. merge_operands code args r = Some (ops, code', r') \<and> length ops = length args \<and>
     laid_out 5 code' n is \<and> length code' = length code"
proof (induction args arbitrary: code r)
  case (Cons arg args)
  have l: "load code MAX_ID_BOUND_OFFSET = Some (code ! MAX_ID_BOUND_OFFSET)"
    using Cons.prems by (simp add: load_def laid_out_def MAX_ID_BOUND_OFFSET_def)
  have p: "MAX_ID_BOUND_OFFSET < 5" by (simp add: MAX_ID_BOUND_OFFSET_def)
  note h = laid_out_header [OF Cons.prems p]
  show ?case
  proof (cases "arg = UINT32_MAX")
    case True
    then show ?thesis using l h Cons.IH [OF h(2) [of "code ! MAX_ID_BOUND_OFFSET + 1"], of "code ! MAX_ID_BOUND_OFFSET"] by auto
  next
    case False
    then show ?thesis using Cons.IH [OF Cons.prems, of r] by auto
  qed
qed simp

lemma mergeSpvInst_spec:
  assumes laid: "laid_out 5 code n is" and mcs: "list_all (merge_ok is) mcs" and pos: "merge_position_ok is mcs p"
    and k: "k \<le> length is" and opc: "opc \<in> merge_opcodes" and args: "length args = 3" "list_all (\<lambda>(f, v). f < 4) (sf_fields flt)"
  obtains r code' mcs' p' where
    "mergeSpvInst code (n * 4) mcs p (offset 5 is k) flt opc args = Some (r, code', mcs', p')"
    "laid_out 5 code' n is" "length code' = length code" "list_all (merge_ok is) mcs'" "merge_position_ok is mcs' p'"
proof -
  have f: "list_all (\<lambda>(f, v). f < minimumInspectedInstructionWords opc) (sf_fields flt)"
    using args(2) merge_opcode_words [OF opc] by simp
  obtain index where index: "fetchSpvInstIndex2 code (n * 4) (offset 5 is k) opc flt True = Some index"
    and hit: "\<And>q. index = Some q \<Longrightarrow> \<exists>j. j < length is \<and> q = offset 5 is j \<and> opcode_of (hd (is ! j)) = opc"
    using fetchSpvInstIndex2_spec [OF laid k f] first_match_Some [OF _ k] by (fastforce simp: filter_is_def)
  have "\<exists>r q. (case index of None \<Rightarrow> merged_search mcs 0 opc (sf_fields flt)
      | Some k \<Rightarrow> do { r \<leftarrow> load code (k + 1); w \<leftarrow> load code k; Some (r, int (k + instruction_words w)) }) = Some (r, q) \<and>
      (0 < r \<longrightarrow> merge_position_ok is mcs q)"
  proof (cases index)
    case None
    then show ?thesis using merged_search_spec [OF opc args(2) mcs, of 0] by (auto simp: merge_position_ok_def)
  next
    case (Some q)
    obtain j where j: "j < length is" "q = offset 5 is j" "opcode_of (hd (is ! j)) = opc" using hit [OF Some] by blast
    have "4 \<le> length (is ! j)"
      using instruction_ok_simps(4) [OF laid_out_ok [OF laid j(1)]] j(3) merge_opcode_words [OF opc] by simp
    then have "load code (q + 1) = Some (is ! j ! 1)" using laid_out_word(3) [OF laid j(1), of 1] j(2) by simp
    moreover have "q + instruction_words (hd (is ! j)) = offset 5 is (Suc j)"
      using laid_out_head(3) [OF laid j(1)] j by (simp add: offset_Suc)
    ultimately show ?thesis using Some laid_out_head(1) [OF laid j(1)] j(1,2)
      by (auto simp: merge_position_ok_def intro!: exI [of _ "Suc j"])
  qed
  then obtain r q where rq: "(case index of None \<Rightarrow> merged_search mcs 0 opc (sf_fields flt)
      | Some k \<Rightarrow> do { r \<leftarrow> load code (k + 1); w \<leftarrow> load code k; Some (r, int (k + instruction_words w)) }) = Some (r, q)"
    "0 < r \<Longrightarrow> merge_position_ok is mcs q" by blast
  obtain ops code' r' where ops: "merge_operands code args 0 = Some (ops, code', r')" "length ops = 3"
    "laid_out 5 code' n is" "length code' = length code"
    using merge_operands_spec [OF laid, of args 0] args(1) by auto
  let ?w = "PACK_SPV_INST opc 4 # ops"
  have w: "instruction_ok ?w" by (rule merged_instruction_ok [OF opc ops(2)])
  note eq = mergeSpvInst_def [of code "n * 4" mcs p "offset 5 is k" flt opc args, unfolded index Option.bind.simps(2) rq(1) prod.case
      ops(1) args(1)]
  show thesis
  proof (cases "0 < r")
    case True
    then show thesis using that [of r code mcs q] eq laid mcs rq(2) by simp
  next
    case False
    show thesis
    proof (cases "p < 0")
      case neg: True
      let ?idx = "nat (- p - 1)"
      have idx: "?idx < length mcs" using pos neg by (simp add: merge_position_ok_def)
      let ?mc = "(mcs ! ?idx)\<lparr>mc_code := mc_code (mcs ! ?idx) @ ?w\<rparr>"
      have old: "merge_ok is (mcs ! ?idx)" using mcs idx by (simp add: list_all_length)
      then obtain js where "laid_out 0 (mc_code (mcs ! ?idx)) (length (mc_code (mcs ! ?idx))) js" by (auto simp: merge_ok_def)
      then have "laid_out 0 (mc_code ?mc) (length (mc_code ?mc)) (js @ [?w])" using w unfolding laid_out_words by simp
      then have "merge_ok is ?mc" using old unfolding merge_ok_def by auto
      then have "list_all (merge_ok is) (mcs[?idx := ?mc])"
        using mcs by (auto simp: list_all_iff dest!: set_update_subset_insert [THEN subsetD])
      moreover have "merge_position_ok is (mcs[?idx := ?mc]) (- int (?idx + 1))"
        using idx neg unfolding merge_position_ok_def by simp
      ultimately show thesis using that [of r' code' "mcs[?idx := ?mc]" "- int (?idx + 1)"] eq False neg idx ops(3,4)
        by (simp add: Let_def)
    next
      case pos': False
      let ?mc = "\<lparr>mc_position = nat p, mc_code = ?w\<rparr>"
      have "laid_out 0 ?w (length ?w) [?w]" using w unfolding laid_out_words by simp
      moreover have "\<exists>k\<le>length is. nat p = offset 5 is k" using pos pos' by (auto simp: merge_position_ok_def)
      ultimately have "merge_ok is ?mc" unfolding merge_ok_def by auto
      then have "list_all (merge_ok is) (mcs @ [?mc])" using mcs by simp
      moreover have "merge_position_ok is (mcs @ [?mc]) (- int (length mcs + 1))" by (simp add: merge_position_ok_def)
      ultimately show thesis using that [of r' code' "mcs @ [?mc]" "- int (length mcs + 1)"] eq False pos' ops(3,4)
        by (simp add: Let_def)
    qed
  qed
qed

section \<open>Inserting\<close>

lemma highest_position_spec:
  "(highest_position mcs i idx mx = idx \<and> (\<forall>mc\<in>set mcs. int (mc_position mc) \<le> mx)) \<or>
   (\<exists>j<length mcs. highest_position mcs i idx mx = i + j \<and> mx < int (mc_position (mcs ! j)) \<and>
      (\<forall>mc\<in>set mcs. mc_position mc \<le> mc_position (mcs ! j)))"
proof (induction mcs arbitrary: i idx mx)
  case (Cons mc mcs)
  show ?case
  proof (cases "mx < int (mc_position mc)")
    case True
    from Cons.IH [of "i + 1" i "int (mc_position mc)"] show ?thesis
    proof
      assume "highest_position mcs (i + 1) i (int (mc_position mc)) = i \<and> (\<forall>m\<in>set mcs. int (mc_position m) \<le> int (mc_position mc))"
      then show ?thesis using True by (intro disjI2 exI [of _ 0]) auto
    next
      assume "\<exists>j<length mcs. highest_position mcs (i + 1) i (int (mc_position mc)) = i + 1 + j \<and>
          int (mc_position mc) < int (mc_position (mcs ! j)) \<and> (\<forall>m\<in>set mcs. mc_position m \<le> mc_position (mcs ! j))"
      then obtain j where "j < length mcs" "highest_position mcs (i + 1) i (int (mc_position mc)) = i + 1 + j"
        "int (mc_position mc) < int (mc_position (mcs ! j))" "\<forall>m\<in>set mcs. mc_position m \<le> mc_position (mcs ! j)" by blast
      then show ?thesis using True by (intro disjI2 exI [of _ "Suc j"]) auto
    qed
  next
    case False
    from Cons.IH [of "i + 1" idx mx] show ?thesis
    proof
      assume "highest_position mcs (i + 1) idx mx = idx \<and> (\<forall>m\<in>set mcs. int (mc_position m) \<le> mx)"
      then show ?thesis using False by auto
    next
      assume "\<exists>j<length mcs. highest_position mcs (i + 1) idx mx = i + 1 + j \<and> mx < int (mc_position (mcs ! j)) \<and>
          (\<forall>m\<in>set mcs. mc_position m \<le> mc_position (mcs ! j))"
      then obtain j where "j < length mcs" "highest_position mcs (i + 1) idx mx = i + 1 + j" "mx < int (mc_position (mcs ! j))"
        "\<forall>m\<in>set mcs. mc_position m \<le> mc_position (mcs ! j)" by blast
      then show ?thesis using False by (intro disjI2 exI [of _ "Suc j"]) auto
    qed
  qed
qed simp

lemma mergeShaderCode_spec:
  assumes "module_ok m is" "k \<le> length is" "list_all instruction_ok js"
  obtains m' where "mergeShaderCode m (concat js) (offset 5 is k) = Some m'" "module_ok m' (take k is @ js @ drop k is)"
    "sm_module m' = sm_module m"
proof -
  let ?c = "sm_code m" and ?p = "offset 5 is k"
  have l: "laid_out 5 ?c (length ?c) is" "sm_codeSize m = length ?c * 4" using assms(1) by (simp_all add: module_ok_def)
  have p: "?p \<le> length ?c" using offset_le [OF l(1)] .
  let ?m = "m\<lparr>sm_code := take ?p ?c @ concat js @ drop ?p ?c, sm_codeSize := length (concat js) * 4 + sm_codeSize m\<rparr>"
  have "mergeShaderCode m (concat js) ?p = Some ?m"
    using memmerge_at [OF p, of 0 "concat js"] l(2) by (simp add: mergeShaderCode_def)
  moreover have "module_ok ?m (take k is @ js @ drop k is)"
    using laid_out_insert [OF l(1) refl assms(2,3)] l(2) p by (simp add: module_ok_def algebra_simps)
  ultimately show thesis using that by simp
qed

lemma merge_sorted_spec:
  "module_ok m is \<Longrightarrow> list_all (merge_ok is) mcs \<Longrightarrow>
     \<exists>m' is'. merge_sorted_loop (length mcs) m mcs = Some m' \<and> module_ok m' is' \<and> subseq is is' \<and> sm_module m' = sm_module m"
proof (induction "length mcs" arbitrary: m "is" mcs)
  case 0
  then show ?case by auto
next
  case (Suc n)
  let ?i = "highest_position mcs 0 0 (- INT32_MAX)"
  obtain i where i: "i < length mcs" "?i = i" "\<forall>mc\<in>set mcs. mc_position mc \<le> mc_position (mcs ! i)"
    using highest_position_spec [of mcs 0 0 "- INT32_MAX"] Suc.hyps(2) by (cases mcs) (auto simp: INT32_MAX_def)
  let ?mc = "mcs ! i" and ?rest = "take i mcs @ drop (Suc i) mcs"
  have "merge_ok is ?mc" using Suc.prems(2) i(1) by (simp add: list_all_length)
  then obtain k js where k: "k \<le> length is" "mc_position ?mc = offset 5 is k" "mc_code ?mc = concat js" "list_all instruction_ok js"
    unfolding merge_ok_def laid_out_words by blast
  obtain m1 where m1: "mergeShaderCode m (concat js) (offset 5 is k) = Some m1" "module_ok m1 (take k is @ js @ drop k is)"
    "sm_module m1 = sm_module m"
    using mergeShaderCode_spec [OF Suc.prems(1) k(1,4)] .
  have "merge_ok (take k is @ js @ drop k is) mc" if "mc \<in> set ?rest" for mc
  proof -
    have mc: "mc \<in> set mcs" using that by (auto dest: in_set_takeD in_set_dropD)
    then have "merge_ok is mc" using Suc.prems(2) by (simp add: list_all_iff)
    then obtain k' js' where k': "k' \<le> length is" "mc_position mc = offset 5 is k'" "laid_out 0 (mc_code mc) (length (mc_code mc)) js'"
      unfolding merge_ok_def by blast
    have "list_all instruction_ok is" using Suc.prems(1) laid_out_all by (auto simp: module_ok_def)
    then have "k' \<le> k" using offset_strict [of "is" k k' 5] i(3) mc k(2) k' by (metis leD leI)
    then have "offset 5 (take k is @ js @ drop k is) k' = offset 5 is k'" by (rule offset_take [OF k(1)])
    then show ?thesis unfolding merge_ok_def using k' \<open>k' \<le> k\<close> k(1) by (intro conjI exI [of _ k'] exI [of _ js']) auto
  qed
  then have rest: "list_all (merge_ok (take k is @ js @ drop k is)) ?rest" by (simp only: list_all_iff) blast
  have "n = length ?rest" using Suc.hyps(2) i(1) by simp
  from Suc.hyps(1) [OF this m1(2) rest] obtain m' is' where m': "merge_sorted_loop n m1 ?rest = Some m'" "module_ok m' is'"
    "subseq (take k is @ js @ drop k is) is'" "sm_module m' = sm_module m1" using \<open>n = length ?rest\<close> by auto
  have "subseq is (take k is @ js @ drop k is)"
    by (metis append_take_drop_id list_emb_append2 list_emb_append_mono subseq_order.refl)
  then have "subseq is is'" using m'(3) by (rule subseq_order.trans)
  moreover have "merge_sorted_loop (length mcs) m mcs = Some m'"
    using Suc.hyps(2) [symmetric] i k m1(1) m'(1) by simp
  ultimately show ?case using m' m1(3) by auto
qed

section \<open>Removing\<close>

lemma remove_loop_spec:
  "module_ok m is \<Longrightarrow> sorted_wrt (>) ks \<Longrightarrow> list_all (\<lambda>k. k < length is \<and> \<not> plain (is ! k)) ks \<Longrightarrow>
     \<exists>m' is'. remove_loop m (map (offset 5 is) ks) = Some m' \<and> module_ok m' is' \<and> kept plain is is' \<and> sm_module m' = sm_module m"
proof (induction ks arbitrary: m "is")
  case (Cons k ks)
  let ?c = "sm_code m"
  have l: "laid_out 5 ?c (length ?c) is" "sm_codeSize m = length ?c * 4" using Cons.prems(1) by (simp_all add: module_ok_def)
  have k: "k < length is" "\<not> plain (is ! k)" using Cons.prems(3) by simp_all
  note h = laid_out_head [OF l(1) k(1)]
  note rm = laid_out_remove [OF l(1) refl k(1)]
  have ks: "sorted_wrt (>) ks" "\<forall>j\<in>set ks. j < k" using Cons.prems(2) by auto
  show ?case
  proof (cases "Suc k = length is")
    case True
    then show ?thesis using Cons.IH [OF Cons.prems(1) ks(1)] Cons.prems(3) h rm(1) l(2) by auto
  next
    case False
    let ?is = "take k is @ drop (Suc k) is" and ?code = "take (offset 5 is k) ?c @ drop (offset 5 is (Suc k)) ?c"
    let ?m = "m\<lparr>sm_code := ?code, sm_codeSize := sm_codeSize m - length (is ! k) * 4\<rparr>"
    have le: "offset 5 is (Suc k) \<le> length ?c" by (rule offset_le [OF l(1)])
    have len: "length ?code = length ?c - length (is ! k)" using le by (simp add: offset_Suc [OF k(1)])
    have m: "module_ok ?m ?is" using rm(2) len l(2) by (simp add: module_ok_def diff_mult_distrib)
    have o: "offset 5 ?is j = offset 5 is j" if "j \<in> set ks" for j
      by (rule offset_take) (use ks(2) that k(1) in auto)
    have "list_all (\<lambda>j. j < length ?is \<and> \<not> plain (?is ! j)) ks"
      using Cons.prems(3) ks(2) k(1) by (auto simp: list_all_iff nth_append)
    from Cons.IH [OF m ks(1) this] obtain m' is' where m': "remove_loop ?m (map (offset 5 ?is) ks) = Some m'" "module_ok m' is'"
      "kept plain ?is is'" "sm_module m' = sm_module m" by auto
    have mp: "map (offset 5 ?is) ks = map (offset 5 is) ks" using o by (simp cong: map_cong)
    have "remove_loop m (map (offset 5 is) (k # ks)) = Some m'"
      using m'(1) [unfolded mp] h rm(1) False l(2) by simp
    moreover have "kept plain is is'" using kept_trans [of plain "is" ?is is'] kept_remove k m'(3) by blast
    ultimately show ?thesis using m' by blast
  qed
qed auto

lemma removeSpvInstIndices_spec:
  assumes "module_ok m is" "sorted_wrt (<) ks" "list_all (\<lambda>k. k < length is \<and> \<not> plain (is ! k)) ks"
  obtains m' is' where "removeSpvInstIndices m (map (offset 5 is) ks) = Some m'" "module_ok m' is'" "kept plain is is'"
    "sm_module m' = sm_module m"
proof -
  have "sorted (map (offset 5 is) ks)"
    using assms(2) by (auto simp: sorted_wrt_map intro!: sorted_wrt_mono_rel [OF _ assms(2)] offset_mono)
  then have s: "rev (sort (map (offset 5 is) ks)) = map (offset 5 is) (rev ks)"
    by (simp add: sorted_sort_id rev_map)
  have "sorted_wrt (>) (rev ks)" using assms(2) by (simp add: sorted_wrt_rev)
  moreover have "list_all (\<lambda>k. k < length is \<and> \<not> plain (is ! k)) (rev ks)" using assms(3) by simp
  ultimately obtain m' is' where "remove_loop m (map (offset 5 is) (rev ks)) = Some m'" "module_ok m' is'" "kept plain is is'"
    "sm_module m' = sm_module m"
    using remove_loop_spec [OF assms(1), of "rev ks" plain] by blast
  then show thesis using that by (simp add: removeSpvInstIndices_def s)
qed

end
