(* ===== verification/Shader_Vertex.thy ===== *)
theory Shader_Vertex
  imports Shader_Merge
begin

text \<open>
  The rewrite of a vertex shader: on an admitted module it reads and writes nothing outside the module, returns, and leaves a
  module of whole instructions.
\<close>

section \<open>Hits\<close>

lemma fetch_cases:
  assumes "laid_out 5 code n is" "k \<le> length is"
  obtains (missing) "fetchSpvInstIndex code (n * 4) (offset 5 is k) opc field v s = Some None"
  | (hit) j where "fetchSpvInstIndex code (n * 4) (offset 5 is k) opc field v s = Some (Some (offset 5 is j))"
      "k \<le> j" "j < length is" "opcode_of (hd (is ! j)) = opc" "minimumInspectedInstructionWords opc \<le> length (is ! j)"
proof -
  let ?r = "first_match (\<lambda>i. opcode_of (hd i) = opc \<and> field_is field v i) (function_stop s) n (offset 5 is k) (drop k is)"
  note f = fetchSpvInstIndex_spec [OF assms, of opc field v s]
  show thesis
  proof (cases ?r)
    case None
    then show thesis using f missing by simp
  next
    case (Some q)
    obtain j where j: "k \<le> j" "j < length is" "q = offset 5 is j" "opcode_of (hd (is ! j)) = opc"
      using first_match_Some [OF Some assms(2)] by blast
    then show thesis using f Some hit [of j] instruction_ok_simps(4) [OF laid_out_ok [OF assms(1) j(2)]] by simp
  qed
qed

lemma fetch_type_cases:
  assumes "laid_out 5 code n is" "k \<le> length is"
  obtains (missing) "fetchSpvOpTypeIndex code (n * 4) (offset 5 is k) field v = Some None"
  | (hit) j where "fetchSpvOpTypeIndex code (n * 4) (offset 5 is k) field v = Some (Some (offset 5 is j))" "j < length is"
proof -
  let ?r = "first_match (\<lambda>i. IS_SPV_OP_TYPE (opcode_of (hd i)) \<and> field_is field v i) (function_stop True) n (offset 5 is k) (drop k is)"
  note f = fetchSpvOpTypeIndex_spec [OF assms, of field v]
  show thesis
  proof (cases ?r)
    case None
    then show thesis using f missing by simp
  next
    case (Some q)
    then show thesis using f hit first_match_Some [OF Some assms(2)] by auto
  qed
qed

lemma decorated_words:
  assumes "instruction_ok i" "opcode_of (hd i) = SpvOpDecorate"
  shows "3 \<le> length i" "i ! 2 = SpvDecorationLocation \<or> i ! 2 = SpvDecorationBuiltIn \<Longrightarrow> 4 \<le> length i"
proof -
  have "minimumInspectedInstructionWords SpvOpDecorate = 3" by (simp add: minimumInspectedInstructionWords_def spirv_defs)
  then show t: "3 \<le> length i" using instruction_ok_simps(4) [OF assms(1)] assms(2) by simp
  assume "i ! 2 = SpvDecorationLocation \<or> i ! 2 = SpvDecorationBuiltIn"
  then have "needed_words i = 4" using assms(2) t by (simp add: needed_words_def)
  then show "4 \<le> length i" using assms(1) by (simp add: instruction_ok_def)
qed

lemma minimum_words [simp]:
  "minimumInspectedInstructionWords SpvOpVariable = 4" "minimumInspectedInstructionWords SpvOpLoad = 4"
  "minimumInspectedInstructionWords SpvOpTypePointer = 4" "minimumInspectedInstructionWords SpvOpTypeVector = 4"
  "minimumInspectedInstructionWords SpvOpCapability = 2" "minimumInspectedInstructionWords SpvOpConstant = 4"
  "minimumInspectedInstructionWords SpvOpConstantComposite = 4" "minimumInspectedInstructionWords SpvOpSelect = 6"
  "minimumInspectedInstructionWords SpvOpEntryPoint = 4" "minimumInspectedInstructionWords SpvOpTypeFloat = 3"
  "minimumInspectedInstructionWords SpvOpName = 3"
  by (simp_all add: minimumInspectedInstructionWords_def spirv_defs)

section \<open>Clip distances\<close>

text \<open>The instructions the first loop takes out, and those no part of the rewrite touches.\<close>

definition clip_instruction :: "ShaderInspector \<Rightarrow> u32 list \<Rightarrow> bool" where
  "clip_instruction insp i \<longleftrightarrow> si_checkClipDistance insp \<and>
     (opcode_of (hd i) = SpvOpCapability \<and> i ! 1 = SpvCapabilityClipDistance \<or>
      opcode_of (hd i) = SpvOpDecorate \<and> i ! 2 = SpvDecorationBuiltIn \<and> i ! 3 = SpvBuiltInClipDistance)"

definition untouched :: "ShaderInspector \<Rightarrow> u32 list \<Rightarrow> bool" where
  "untouched insp i \<longleftrightarrow> opcode_of (hd i) \<notin> {SpvOpVariable, SpvOpLoad} \<and> \<not> clip_instruction insp i"

lemma vertex_step_spec:
  assumes "laid_out 5 code n is" "k < length is" "\<not> si_removePointSizeExport insp"
  shows "vertex_step insp (n * 4) (offset 5 is k) (hd (is ! k)) (code, rs, mcs) =
    Some (code, if clip_instruction insp (is ! k) then rs @ [offset 5 is k] else rs, mcs)"
proof -
  let ?i = "is ! k"
  note ok = laid_out_ok [OF assms(1,2)]
  note word = laid_out_word(3) [OF assms(1,2)]
  have "SpvOpCapability \<noteq> SpvOpDecorate" by (simp add: spirv_defs)
  moreover have "2 \<le> length ?i" if "opcode_of (hd ?i) = SpvOpCapability"
    using instruction_ok_simps(4) [OF ok] that by simp
  ultimately show ?thesis
    using word [of 1] word [of 2] word [of 3] decorated_words [OF ok] assms(3)
    by (auto simp: vertex_step_def clip_instruction_def)
qed

lemma vertex_loop_spec:
  assumes "laid_out 5 code n is" "\<not> si_removePointSizeExport insp"
  shows "k \<le> length is \<Longrightarrow>
    \<exists>ks. vertex_loop insp (n * 4) opc (offset 5 is k) (code, rs, mcs) = Some (code, rs @ map (offset 5 is) ks, mcs) \<and>
      sorted_wrt (<) ks \<and> list_all (\<lambda>j. k \<le> j \<and> j < length is \<and> clip_instruction insp (is ! j)) ks"
proof (induction "length is - k" arbitrary: k opc rs)
  case 0
  then have "k = length is" by simp
  then show ?case using offset_length [OF assms(1)] by (subst vertex_loop.simps) (auto intro: exI [of _ "[]"])
next
  case (Suc d)
  then have k: "k < length is" by simp
  note h = laid_out_head [OF assms(1) k]
  show ?case
  proof (cases "opc \<noteq> SpvOpFunction \<and> \<not> IS_SPV_OP_TYPE opc")
    case False
    then show ?thesis by (subst vertex_loop.simps) (auto intro: exI [of _ "[]"])
  next
    case True
    let ?c = "clip_instruction insp (is ! k)"
    have step: "vertex_loop insp (n * 4) opc (offset 5 is k) (code, rs, mcs) =
        vertex_loop insp (n * 4) (opcode_of (hd (is ! k))) (offset 5 is (Suc k)) (code, rs @ map (offset 5 is) (if ?c then [k] else []), mcs)"
      using True h vertex_step_spec [OF assms(1) k assms(2), of rs mcs]
      by (subst vertex_loop.simps) (simp add: offset_Suc [OF k])
    have "d = length is - Suc k" "Suc k \<le> length is" using Suc.hyps(2) k by auto
    from Suc.hyps(1) [OF this, of "opcode_of (hd (is ! k))" "rs @ map (offset 5 is) (if ?c then [k] else [])"] obtain ks where
      ks: "vertex_loop insp (n * 4) (opcode_of (hd (is ! k))) (offset 5 is (Suc k)) (code, rs @ map (offset 5 is) (if ?c then [k] else []), mcs)
        = Some (code, (rs @ map (offset 5 is) (if ?c then [k] else [])) @ map (offset 5 is) ks, mcs)"
        "sorted_wrt (<) ks" "list_all (\<lambda>j. Suc k \<le> j \<and> j < length is \<and> clip_instruction insp (is ! j)) ks" by blast
    show ?thesis unfolding step ks(1)
      by (rule exI [of _ "(if ?c then [k] else []) @ ks"]) (use ks(2,3) k in \<open>auto simp: list_all_iff\<close>)
  qed
qed

section \<open>Scaled inputs\<close>

text \<open>The words of a module being rewritten, and what is to be merged into it.\<close>

definition rewriting :: "nat \<Rightarrow> u32 list list \<Rightarrow> u32 list \<Rightarrow> MergeCode list \<Rightarrow> bool" where
  "rewriting n is code mcs \<longleftrightarrow> laid_out 5 code n is \<and> length code = n \<and> list_all (merge_ok is) mcs"

lemma rewriting_update:
  assumes "rewriting n is code mcs" "j < length is" "free_operand (is ! j) f" "\<not> plain (is ! j)"
  obtains is' where "store code (offset 5 is j + f) v = Some (code[offset 5 is j + f := v])"
    "rewriting n is' (code[offset 5 is j + f := v]) mcs" "inst_shapes is is'" "kept plain is is'"
proof -
  have l: "laid_out 5 code n is" using assms(1) by (simp add: rewriting_def)
  let ?is = "is[j := (is ! j)[f := v]]"
  note u = laid_out_update [OF l assms(2,3), of v]
  have "rewriting n ?is (code[offset 5 is j + f := v]) mcs"
    using assms(1) u(2) merge_ok_shapes [OF u(3)] by (simp add: rewriting_def list_all_iff)
  then show thesis using that u(1,3) kept_update [where plain = plain, OF assms(4)] by blast
qed

lemma mergeSpvInst_rewriting:
  assumes "rewriting n is code mcs" "merge_position_ok is mcs p" "k \<le> length is" "opc \<in> merge_opcodes" "length args = 3"
    "list_all (\<lambda>(f, v). f < 4) (sf_fields flt)"
  obtains r code' mcs' p' where
    "mergeSpvInst code (n * 4) mcs p (offset 5 is k) flt opc args = Some (r, code', mcs', p')"
    "rewriting n is code' mcs'" "merge_position_ok is mcs' p'"
proof -
  have r: "laid_out 5 code n is" "length code = n" "list_all (merge_ok is) mcs" using assms(1) by (simp_all add: rewriting_def)
  obtain r' code' mcs' p' where m: "mergeSpvInst code (n * 4) mcs p (offset 5 is k) flt opc args = Some (r', code', mcs', p')"
    "laid_out 5 code' n is" "length code' = length code" "list_all (merge_ok is) mcs'" "merge_position_ok is mcs' p'"
    by (rule mergeSpvInst_spec [OF r(1,3) assms(2-6)])
  then have "rewriting n is code' mcs'" using r(2) by (simp add: rewriting_def)
  then show thesis using that m(1,5) by blast
qed

lemma component_count_spec:
  assumes "laid_out 5 code n is" "k \<le> length is" "j < length is" "opcode_of (hd (is ! j)) = SpvOpVariable"
  shows "\<exists>c. component_count code (n * 4) (offset 5 is k) (offset 5 is j) = Some c"
proof -
  have "4 \<le> length (is ! j)" using instruction_ok_simps(4) [OF laid_out_ok [OF assms(1,3)]] assms(4) by simp
  then have v: "load code (offset 5 is j + 1) = Some (is ! j ! 1)" by (intro laid_out_word(3) [OF assms(1,3)]) simp
  show ?thesis
  proof (rule fetch_cases [OF assms(1,2), of SpvOpTypePointer "Some 1" "is ! j ! 1" True])
    assume "fetchSpvInstIndex code (n * 4) (offset 5 is k) SpvOpTypePointer (Some 1) (is ! j ! 1) True = Some None"
    then show ?thesis using v by (simp add: component_count_def)
  next
    fix p assume p: "fetchSpvInstIndex code (n * 4) (offset 5 is k) SpvOpTypePointer (Some 1) (is ! j ! 1) True = Some (Some (offset 5 is p))"
      "p < length is" "minimumInspectedInstructionWords SpvOpTypePointer \<le> length (is ! p)"
    then have t: "load code (offset 5 is p + 3) = Some (is ! p ! 3)" by (intro laid_out_word(3) [OF assms(1)]) auto
    show ?thesis
    proof (rule fetch_cases [OF assms(1,2), of SpvOpTypeVector "Some 1" "is ! p ! 3" True])
      assume "fetchSpvInstIndex code (n * 4) (offset 5 is k) SpvOpTypeVector (Some 1) (is ! p ! 3) True = Some None"
      then show ?thesis using v p(1) t by (simp add: component_count_def)
    next
      fix l assume l: "fetchSpvInstIndex code (n * 4) (offset 5 is k) SpvOpTypeVector (Some 1) (is ! p ! 3) True = Some (Some (offset 5 is l))"
        "l < length is" "minimumInspectedInstructionWords SpvOpTypeVector \<le> length (is ! l)"
      then have "load code (offset 5 is l + 3) = Some (is ! l ! 3)" by (intro laid_out_word(3) [OF assms(1)]) auto
      then show ?thesis using v p(1) t l(1) by (simp add: component_count_def)
    qed
  qed
qed

lemma convert_input_spec:
  assumes "rewriting n is code mcs" "k \<le> length is" "j < length is" "opcode_of (hd (is ! j)) = SpvOpVariable"
    "va_varOffset va = Some (offset 5 is j)"
  obtains code' mcs' va' is' where
    "convertInputVariableFormatScaled code (n * 4) mcs (offset 5 is k) va = Some (code', mcs', va')"
    "rewriting n is' code' mcs'" "inst_shapes is is'" "kept (untouched insp) is is'"
proof -
  have l: "laid_out 5 code n is" using assms(1) by (simp add: rewriting_def)
  obtain c where c: "component_count code (n * 4) (offset 5 is k) (offset 5 is j) = Some c"
    using component_count_spec [OF l assms(2-4)] by blast
  note conv = convertInputVariableFormatScaled_def [of code "n * 4" mcs "offset 5 is k" va, unfolded assms(5) Option.bind.simps(2) c Let_def]
  show thesis
  proof (rule fetch_type_cases [OF l assms(2), of None 0])
    assume "fetchSpvOpTypeIndex code (n * 4) (offset 5 is k) None 0 = Some None"
    then show thesis using that [of code mcs va "is"] conv assms(1) by simp
  next
    fix t assume t: "fetchSpvOpTypeIndex code (n * 4) (offset 5 is k) None 0 = Some (Some (offset 5 is t))" "t < length is"
    let ?s = "if unsigned_format (va_format va) then 0 else 1 :: u32"
    have ops: "SpvOpTypeInt \<in> merge_opcodes" "SpvOpTypeVector \<in> merge_opcodes" "SpvOpTypePointer \<in> merge_opcodes"
      by (simp_all add: merge_opcodes_def)
    have p0: "merge_position_ok is mcs (int (offset 5 is t))" using less_imp_le [OF t(2)] unfolding merge_position_ok_def by auto
    obtain r1 c1 m1 p1 where s1: "mergeSpvInst code (n * 4) mcs (int (offset 5 is t)) (offset 5 is t)
        \<lparr>sf_fields = [(3, ?s)], sf_endIndex = offset 5 is j\<rparr> SpvOpTypeInt [UINT32_MAX, 32, ?s] = Some (r1, c1, m1, p1)"
      "rewriting n is c1 m1" "merge_position_ok is m1 p1"
      by (rule mergeSpvInst_rewriting [OF assms(1) p0 less_imp_le [OF t(2)] ops(1),
            of "[UINT32_MAX, 32, ?s]" "\<lparr>sf_fields = [(3, ?s)], sf_endIndex = offset 5 is j\<rparr>"]) simp_all
    obtain r2 c2 m2 p2 where s2: "mergeSpvInst c1 (n * 4) m1 p1 (offset 5 is t)
        \<lparr>sf_fields = [(2, r1), (3, c)], sf_endIndex = offset 5 is j\<rparr> SpvOpTypeVector [UINT32_MAX, r1, c] = Some (r2, c2, m2, p2)"
      "rewriting n is c2 m2" "merge_position_ok is m2 p2"
      by (rule mergeSpvInst_rewriting [OF s1(2,3) less_imp_le [OF t(2)] ops(2),
            of "[UINT32_MAX, r1, c]" "\<lparr>sf_fields = [(2, r1), (3, c)], sf_endIndex = offset 5 is j\<rparr>"]) simp_all
    obtain r3 c3 m3 p3 where s3: "mergeSpvInst c2 (n * 4) m2 p2 (offset 5 is t)
        \<lparr>sf_fields = [(2, SpvStorageClassInput), (3, r2)], sf_endIndex = offset 5 is j\<rparr> SpvOpTypePointer
        [UINT32_MAX, SpvStorageClassInput, r2] = Some (r3, c3, m3, p3)"
      "rewriting n is c3 m3" "merge_position_ok is m3 p3"
      by (rule mergeSpvInst_rewriting [OF s2(2,3) less_imp_le [OF t(2)] ops(3),
            of "[UINT32_MAX, SpvStorageClassInput, r2]" "\<lparr>sf_fields = [(2, SpvStorageClassInput), (3, r2)], sf_endIndex = offset 5 is j\<rparr>"])
        simp_all
    have "4 \<le> length (is ! j)" using instruction_ok_simps(4) [OF laid_out_ok [OF l assms(3)]] assms(4) by simp
    then have free: "free_operand (is ! j) 1" by (simp add: free_operand_def)
    have "\<not> untouched insp (is ! j)" using assms(4) by (simp add: untouched_def)
    from rewriting_update [where plain = "untouched insp" and v = r3, OF s3(2) assms(3) free this] obtain is' where is':
      "store c3 (offset 5 is j + 1) r3 = Some (c3[offset 5 is j + 1 := r3])"
      "rewriting n is' (c3[offset 5 is j + 1 := r3]) m3" "inst_shapes is is'" "kept (untouched insp) is is'" by blast
    show thesis
      by (rule that [of "c3[offset 5 is j + 1 := r3]" m3 _ is'])
        (use conv t(1) s1(1) s2(1) s3(1) is' in \<open>simp_all\<close>)
  qed
qed

lemma scaled_step_spec:
  assumes "rewriting n is code mcs" "k < length is"
  obtains code' mcs' vas' is' where
    "scaled_step (n * 4) (offset 5 is k) (hd (is ! k)) (code, mcs, vas) = Some (code', mcs', vas')"
    "rewriting n is' code' mcs'" "inst_shapes is is'" "kept (untouched insp) is is'"
proof -
  have l: "laid_out 5 code n is" using assms(1) by (simp add: rewriting_def)
  let ?i = "is ! k"
  note ok = laid_out_ok [OF l assms(2)]
  note word = laid_out_word(3) [OF l assms(2)]
  note result = that
  have skip: thesis if "scaled_step (n * 4) (offset 5 is k) (hd ?i) (code, mcs, vas) = Some (code, mcs, vas)"
    by (rule result [of code mcs vas "is"]) (use that assms(1) in simp_all)
  show thesis
  proof (cases "opcode_of (hd ?i) = SpvOpDecorate \<and> ?i ! 2 = SpvDecorationLocation")
    case False
    then show thesis using word [of 2] decorated_words [OF ok] by (intro skip) (auto simp: scaled_step_def)
  next
    case True
    then have "4 \<le> length ?i" using decorated_words(2) [OF ok] by simp
    then have w: "load code (offset 5 is k + 1) = Some (?i ! 1)" "load code (offset 5 is k + 2) = Some (?i ! 2)"
      "load code (offset 5 is k + 3) = Some (?i ! 3)" using word [of 1] word [of 2] word [of 3] by simp_all
    show thesis
    proof (cases "annotation_of vas 0 (?i ! 3)")
      case None
      then show thesis using True w by (intro skip) (simp add: scaled_step_def)
    next
      case (Some a)
      show thesis
      proof (rule fetch_cases [OF l less_imp_le [OF assms(2)], of SpvOpVariable "Some 2" "?i ! 1" True])
        assume "fetchSpvInstIndex code (n * 4) (offset 5 is k) SpvOpVariable (Some 2) (?i ! 1) True = Some None"
        then show thesis using True w Some by (intro skip) (simp add: scaled_step_def)
      next
        fix j assume j: "fetchSpvInstIndex code (n * 4) (offset 5 is k) SpvOpVariable (Some 2) (?i ! 1) True = Some (Some (offset 5 is j))"
          "j < length is" "opcode_of (hd (is ! j)) = SpvOpVariable" "minimumInspectedInstructionWords SpvOpVariable \<le> length (is ! j)"
        then have c: "load code (offset 5 is j + 3) = Some (is ! j ! 3)" by (intro laid_out_word(3) [OF l]) auto
        let ?va = "(vas ! a)\<lparr>va_varId := ?i ! 1, va_varOffset := Some (offset 5 is j)\<rparr>"
        have off: "va_varOffset ?va = Some (offset 5 is j)" by simp
        obtain code' mcs' va' is' where conv: "convertInputVariableFormatScaled code (n * 4) mcs (offset 5 is k) ?va = Some (code', mcs', va')"
          "rewriting n is' code' mcs'" "inst_shapes is is'" "kept (untouched insp) is is'"
          by (rule convert_input_spec [OF assms(1) less_imp_le [OF assms(2)] j(2,3) off])
        show thesis
        proof (cases "is ! j ! 3 = SpvStorageClassInput")
          case False
          then show thesis using True w Some j(1) c by (intro skip) (simp add: scaled_step_def)
        next
          case storage: True
          then show thesis using True w Some j(1) c conv that [of code' mcs' "vas[a := va']" is'] by (simp add: scaled_step_def)
        qed
      qed
    qed
  qed
qed

lemma scaled_loop_spec:
  "rewriting n is code mcs \<Longrightarrow> k \<le> length is \<Longrightarrow>
    \<exists>code' mcs' vas' is'. scaled_loop (n * 4) opc (offset 5 is k) (code, mcs, vas) = Some (code', mcs', vas') \<and>
      rewriting n is' code' mcs' \<and> inst_shapes is is' \<and> kept (untouched insp) is is'"
proof (induction "length is - k" arbitrary: k opc "is" code mcs vas)
  case 0
  then have "k = length is" "laid_out 5 code n is" by (simp_all add: rewriting_def)
  then have "\<not> offset 5 is k < n" using offset_length by auto
  then have "scaled_loop (n * 4) opc (offset 5 is k) (code, mcs, vas) = Some (code, mcs, vas)"
    by (subst scaled_loop.simps) simp
  then show ?case using 0 inst_shapes_refl kept_refl by blast
next
  case (Suc d)
  then have k: "k < length is" by simp
  have l: "laid_out 5 code n is" using Suc.prems by (simp add: rewriting_def)
  note h = laid_out_head [OF l k]
  show ?case
  proof (cases "opc \<noteq> SpvOpFunction \<and> \<not> IS_SPV_OP_TYPE opc")
    case False
    then have "scaled_loop (n * 4) opc (offset 5 is k) (code, mcs, vas) = Some (code, mcs, vas)"
      by (subst scaled_loop.simps) auto
    then show ?thesis using Suc.prems inst_shapes_refl kept_refl by blast
  next
    case True
    obtain code1 mcs1 vas1 is1 where s: "scaled_step (n * 4) (offset 5 is k) (hd (is ! k)) (code, mcs, vas) = Some (code1, mcs1, vas1)"
      "rewriting n is1 code1 mcs1" "inst_shapes is is1" "kept (untouched insp) is is1"
      by (rule scaled_step_spec [OF Suc.prems(1) k])
    have len: "length is1 = length is" using inst_shapes_length [OF s(3)] by simp
    have off: "offset 5 is (Suc k) = offset 5 is1 (Suc k)" by (rule inst_shapes_offset [OF s(3)])
    have step: "scaled_loop (n * 4) opc (offset 5 is k) (code, mcs, vas) =
        scaled_loop (n * 4) (opcode_of (hd (is ! k))) (offset 5 is1 (Suc k)) (code1, mcs1, vas1)"
      using True h s(1) offset_Suc [OF k, of 5] off by (subst scaled_loop.simps) simp
    have "d = length is1 - Suc k" "Suc k \<le> length is1" using Suc.hyps(2) k len by auto
    from Suc.hyps(1) [OF this(1) s(2) this(2), of "opcode_of (hd (is ! k))" vas1] obtain code' mcs' vas' is' where
      r: "scaled_loop (n * 4) (opcode_of (hd (is ! k))) (offset 5 is1 (Suc k)) (code1, mcs1, vas1) = Some (code', mcs', vas')"
        "rewriting n is' code' mcs'" "inst_shapes is1 is'" "kept (untouched insp) is1 is'" by blast
    have "inst_shapes is is'" "kept (untouched insp) is is'"
      using inst_shapes_trans [OF s(3) r(3)] kept_trans [OF s(4) r(4)] by simp_all
    then show ?thesis using step r(1,2) by metis
  qed
qed

section \<open>Loads\<close>

definition is_load :: "u32 list \<Rightarrow> bool" where
  "is_load i \<longleftrightarrow> opcode_of (hd i) = SpvOpLoad"

lemma conversion_ok:
  assumes "opc = SpvOpConvertSToF \<or> opc = SpvOpConvertUToF"
  shows "instruction_ok [PACK_SPV_INST opc 4, a, b, c]" "\<not> is_load [PACK_SPV_INST opc 4, a, b, c]"
proof -
  have p: "opcode_of (PACK_SPV_INST opc 4) = opc" "instruction_words (PACK_SPV_INST opc 4) = 4" using assms packed by auto
  have m: "minimumInspectedInstructionWords opc = 1" "opc \<noteq> SpvOpDecorate" "opc \<noteq> SpvOpLoad"
    using assms by (auto simp: minimumInspectedInstructionWords_def spirv_defs)
  show "instruction_ok [PACK_SPV_INST opc 4, a, b, c]" "\<not> is_load [PACK_SPV_INST opc 4, a, b, c]"
    using p m by (simp_all add: instruction_ok_def needed_words_def is_load_def)
qed

text \<open>The load keeps its place and shape, and a conversion follows it.\<close>

lemma convert_load_spec:
  assumes "module_ok m is" "j < length is" "is_load (is ! j)"
  obtains m' i c where "convert_load m va (offset 5 is j) = Some (offset 5 (is[j := i]) (Suc j), m')"
    "module_ok m' (take (Suc j) (is[j := i]) @ [c] @ drop (Suc j) is)" "\<not> is_load c" "sm_module m' = sm_module m"
proof -
  let ?c = "sm_code m" and ?n = "length (sm_code m)" and ?id = "sm_code m ! 3"
  have l: "laid_out 5 ?c ?n is" "sm_codeSize m = ?n * 4" using assms(1) by (simp_all add: module_ok_def)
  have op: "opcode_of (hd (is ! j)) = SpvOpLoad" using assms(3) by (simp add: is_load_def)
  then have len: "4 \<le> length (is ! j)" using instruction_ok_simps(4) [OF laid_out_ok [OF l(1) assms(2)]] by simp
  have ne: "SpvOpLoad \<noteq> SpvOpDecorate" by (simp add: spirv_defs)
  then have free: "free_operand (is ! j) 1" "free_operand ((is ! j)[1 := v]) 2" for v
    using len op by (simp_all add: free_operand_def hd_update)
  note w2 = laid_out_word(3) [OF l(1) assms(2), of 2]
  have id: "load ?c MAX_ID_BOUND_OFFSET = Some ?id" using l(1) by (simp add: load_def laid_out_def MAX_ID_BOUND_OFFSET_def)
  have p: "MAX_ID_BOUND_OFFSET < 5" by (simp add: MAX_ID_BOUND_OFFSET_def)
  note h = laid_out_header [OF l(1) p, of "?id + 1"]
  let ?c1 = "?c[MAX_ID_BOUND_OFFSET := ?id + 1]"
  note w1 = laid_out_word(3) [OF h(2) assms(2), of 1] and w0 = laid_out_head [OF h(2) assms(2)]
  note u1 = laid_out_update [OF h(2) assms(2) free(1), of "va_vecId va"]
  let ?is1 = "is[j := (is ! j)[1 := va_vecId va]]"
  have j1: "j < length ?is1" "?is1 ! j = (is ! j)[1 := va_vecId va]" using assms(2) by simp_all
  have "free_operand (?is1 ! j) 2" unfolding j1(2) by (rule free(2))
  note u2 = laid_out_update [OF u1(2) j1(1) this, of ?id]
  have off1: "offset 5 ?is1 j = offset 5 is j" using inst_shapes_offset [OF u1(3)] by simp
  let ?i = "(is ! j)[1 := va_vecId va, 2 := ?id]"
  have is2: "?is1[j := (?is1 ! j)[2 := ?id]] = is[j := ?i]" unfolding j1(2) by simp
  let ?c3 = "?c1[offset 5 is j + 1 := va_vecId va, offset 5 is j + 2 := ?id]"
  have l3: "laid_out 5 ?c3 ?n (is[j := ?i])" using u2(2) unfolding is2 off1 .
  have s2: "store (?c1[offset 5 is j + 1 := va_vecId va]) (offset 5 is j + 2) ?id = Some ?c3" using u2(1) unfolding off1 .
  have shapes: "inst_shapes is (is[j := ?i])" using inst_shapes_trans [OF u1(3) u2(3)] unfolding is2 .
  have pos: "offset 5 is j + length (is ! j) = offset 5 (is[j := ?i]) (Suc j)"
    using inst_shapes_offset [OF shapes, of 5 "Suc j"] offset_Suc [OF assms(2)] by simp
  let ?op = "if va_signedness va \<noteq> 0 then SpvOpConvertSToF else SpvOpConvertUToF"
  let ?conv = "[PACK_SPV_INST ?op 4, is ! j ! 1, is ! j ! 2, ?id]"
  have conv: "instruction_ok ?conv" "\<not> is_load ?conv"
    by (rule conversion_ok, simp)+
  have m3: "module_ok (m\<lparr>sm_code := ?c3\<rparr>) (is[j := ?i])" using l3 l(2) by (simp add: module_ok_def)
  have cc: "list_all instruction_ok [?conv]" "concat [?conv] = ?conv" using conv(1) by simp_all
  obtain m' where m': "mergeShaderCode (m\<lparr>sm_code := ?c3\<rparr>) ?conv (offset 5 (is[j := ?i]) (Suc j)) = Some m'"
    "module_ok m' (take (Suc j) (is[j := ?i]) @ [?conv] @ drop (Suc j) (is[j := ?i]))" "sm_module m' = sm_module m"
    by (rule mergeShaderCode_spec [OF m3 _ cc(1), of "Suc j"]) (use assms(2) cc(2) in simp_all)
  have w2': "load ?c (offset 5 is j + 2) = Some (is ! j ! 2)" and w1': "load ?c1 (offset 5 is j + 1) = Some (is ! j ! 1)"
    using w2 w1 len by simp_all
  have "convert_load m va (offset 5 is j) = Some (offset 5 (is[j := ?i]) (Suc j), m')"
    unfolding convert_load_def Let_def w2' id Option.bind.simps h(1) w1' w0(1) u1(1) s2 w0(3) pos m'(1) by simp
  then show thesis using that [of ?i m' ?conv] m'(2,3) conv(2) by simp
qed

lemma loads_loop_spec:
  "module_ok m is \<Longrightarrow> k \<le> length is \<Longrightarrow>
    \<exists>m' is'. loads_loop va (offset 5 is k) m = Some m' \<and> module_ok m' is' \<and> kept (untouched insp) is is' \<and>
      take k is' = take k is \<and> k \<le> length is' \<and> sm_module m' = sm_module m"
proof (induction "length (filter is_load (drop k is))" arbitrary: m "is" k rule: less_induct)
  case less
  have l: "laid_out 5 (sm_code m) (length (sm_code m)) is" "sm_codeSize m = length (sm_code m) * 4"
    using less.prems(1) by (simp_all add: module_ok_def)
  show ?case
  proof (rule fetch_cases [OF l(1) less.prems(2), of SpvOpLoad "Some 3" "va_varId va" False])
    assume "fetchSpvInstIndex (sm_code m) (length (sm_code m) * 4) (offset 5 is k) SpvOpLoad (Some 3) (va_varId va) False = Some None"
    then have "loads_loop va (offset 5 is k) m = Some m" using l(2) by (subst loads_loop.simps) simp
    then show ?thesis using less.prems by auto
  next
    fix j assume j: "fetchSpvInstIndex (sm_code m) (length (sm_code m) * 4) (offset 5 is k) SpvOpLoad (Some 3) (va_varId va) False
        = Some (Some (offset 5 is j))" "k \<le> j" "j < length is" "opcode_of (hd (is ! j)) = SpvOpLoad"
    then have load: "is_load (is ! j)" by (simp add: is_load_def)
    obtain m1 i c where m1: "convert_load m va (offset 5 is j) = Some (offset 5 (is[j := i]) (Suc j), m1)"
      "module_ok m1 (take (Suc j) (is[j := i]) @ [c] @ drop (Suc j) is)" "\<not> is_load c" "sm_module m1 = sm_module m"
      by (rule convert_load_spec [OF less.prems(1) j(3) load])
    let ?is = "take (Suc j) (is[j := i]) @ [c] @ drop (Suc j) is"
    have off: "offset 5 ?is (Suc j) = offset 5 (is[j := i]) (Suc j)"
      by (rule offset_take) (use j(3) in simp_all)
    have step: "loads_loop va (offset 5 is k) m = loads_loop va (offset 5 ?is (Suc j)) m1"
      unfolding off using j(1) m1(1) l(2) by (subst loads_loop.simps) simp
    have "drop (Suc j) ?is = c # drop (Suc j) is" using j(3) by simp
    then have "filter is_load (drop (Suc j) ?is) = filter is_load (drop (Suc j) is)" using m1(3) by simp
    moreover have "drop j is = is ! j # drop (Suc j) is" using j(3) by (simp add: Cons_nth_drop_Suc)
    then have "length (filter is_load (drop (Suc j) is)) < length (filter is_load (drop j is))" using load by simp
    moreover have "length (filter is_load (drop j is)) \<le> length (filter is_load (drop k is))"
    proof -
      have "drop k is = take (j - k) (drop k is) @ drop j is" using j(2) by (metis append_take_drop_id drop_drop le_add_diff_inverse2)
      then show ?thesis by (metis filter_append le_add2 length_append)
    qed
    ultimately have "length (filter is_load (drop (Suc j) ?is)) < length (filter is_load (drop k is))" by simp
    moreover have "Suc j \<le> length ?is" using j(3) by simp
    ultimately obtain m' is' where r: "loads_loop va (offset 5 ?is (Suc j)) m1 = Some m'" "module_ok m' is'"
      "kept (untouched insp) ?is is'" "take (Suc j) is' = take (Suc j) ?is" "Suc j \<le> length is'" "sm_module m' = sm_module m1"
      using less.hyps m1(2) by blast
    have "take k is' = take k (take (Suc j) is')" using j(2) by (simp add: min_def)
    also have "\<dots> = take k is" unfolding r(4) using j(2,3) by (simp add: min_def)
    finally have start: "take k is' = take k is" .
    have "\<not> untouched insp (is ! j)" using load by (simp add: untouched_def is_load_def)
    then have "kept (untouched insp) is (is[j := i])" by (rule kept_update)
    moreover have "?is = take (Suc j) (is[j := i]) @ [c] @ drop (Suc j) (is[j := i])" by simp
    then have "kept (untouched insp) (is[j := i]) ?is" using kept_insert by metis
    ultimately have "kept (untouched insp) is is'" using r(3) kept_trans by metis
    then show ?thesis using step r m1(4) start j(2) by (intro exI [of _ m'] exI [of _ is']) simp
  qed
qed

end
