(* ===== verification/Shader_Stages.thy ===== *)
theory Shader_Stages
  imports Shader_Inspector Async_Requests
begin

text \<open>
  Fragment shaders, the bounds check of images, and the entry points of the inspector: its creation, the creation of a shader
  module, and the inspection of the stages of a pipeline.
\<close>

section \<open>Fragment shaders\<close>

definition vector_size :: "u32 list \<Rightarrow> SpvVariableOffsets \<Rightarrow> u32 option" where
  "vector_size code v = do {
     w \<leftarrow> load code (vo_vector v);
     (if opcode_of w = SpvOpTypeVector then load code (vo_vector v + 3) else Some 1) }"

text \<open>The first vertex output of a location with another number of components: that number.\<close>

fun mismatch_of :: "u32 list \<Rightarrow> u32 \<Rightarrow> u32 \<Rightarrow> SpvVariableOffsets list \<Rightarrow> u32 option option" where
  "mismatch_of vsCode fsLocation fsComponentCount [] = Some None"
| "mismatch_of vsCode fsLocation fsComponentCount (v # vs) = do {
     vsLocation \<leftarrow> load vsCode (vo_decorate v + 3);
     vsComponentCount \<leftarrow> vector_size vsCode v;
     (if fsLocation = vsLocation \<and> fsComponentCount \<noteq> vsComponentCount then Some (Some vsComponentCount)
      else mismatch_of vsCode fsLocation fsComponentCount vs) }"

definition widen_input ::
  "u32 list \<Rightarrow> nat \<Rightarrow> MergeCode list \<Rightarrow> SpvVariableOffsets \<Rightarrow> u32 \<Rightarrow> u32 \<Rightarrow> (u32 list \<times> MergeCode list) option" where
  "widen_input code codeSize mergeCodes v fsComponentCount vsComponentCount = do {
     componentType \<leftarrow> load code (if 1 < fsComponentCount then vo_vector v + 2 else vo_vector v + 1);
     typeIndex \<leftarrow> (if 1 < fsComponentCount
                  then fetchSpvOpTypeIndex code codeSize (vo_decorate v) (Some 1) componentType
                  else Some (Some (vo_vector v)));
     (case typeIndex of
        None \<Rightarrow> Some (code, mergeCodes)
      | Some t \<Rightarrow> do {
          w \<leftarrow> load code t;
          (let componentCount = max vsComponentCount fsComponentCount in do {
             (typeVectorId, code1, mcs1, p1) \<leftarrow>
               mergeSpvInst code codeSize mergeCodes (int (t + instruction_words w)) t
                 \<lparr>sf_fields = [(2, componentType), (3, componentCount)], sf_endIndex = vo_variable v\<rparr>
                 SpvOpTypeVector [UINT32_MAX, componentType, componentCount];
             (typePointerId, code2, mcs2, p2) \<leftarrow>
               mergeSpvInst code1 codeSize mcs1 p1 t
                 \<lparr>sf_fields = [(2, SpvStorageClassInput), (3, typeVectorId)], sf_endIndex = vo_variable v\<rparr>
                 SpvOpTypePointer [UINT32_MAX, SpvStorageClassInput, typeVectorId];
             code3 \<leftarrow> store code2 (vo_variable v + 1) typePointerId;
             Some (code3, mcs2) }) }) }"

fun widen_inputs ::
  "u32 list \<Rightarrow> SpvVariableOffsets list \<Rightarrow> nat \<Rightarrow> u32 list \<times> MergeCode list \<Rightarrow> SpvVariableOffsets list
    \<Rightarrow> (u32 list \<times> MergeCode list) option" where
  "widen_inputs vsCode vsVariables codeSize st [] = Some st"
| "widen_inputs vsCode vsVariables codeSize (code, mergeCodes) (v # vs) = do {
     fsLocation \<leftarrow> load code (vo_decorate v + 3);
     fsComponentCount \<leftarrow> vector_size code v;
     mismatch \<leftarrow> mismatch_of vsCode fsLocation fsComponentCount vsVariables;
     st' \<leftarrow> (case mismatch of
               None \<Rightarrow> Some (code, mergeCodes)
             | Some vsComponentCount \<Rightarrow> widen_input code codeSize mergeCodes v fsComponentCount vsComponentCount);
     widen_inputs vsCode vsVariables codeSize st' vs }"

definition inspectFragmentShaderCode :: "ShaderInspector \<Rightarrow> ShaderModule \<Rightarrow> ShaderModule \<Rightarrow> ShaderModule option" where
  "inspectFragmentShaderCode insp vsModule fsModule =
     (if \<not> si_checkInOutVariablesSize insp then Some fsModule
      else do {
        vsVariables \<leftarrow> fetchSpvVariableOffsets vsModule SpvStorageClassOutput;
        fsVariables \<leftarrow> fetchSpvVariableOffsets fsModule SpvStorageClassInput;
        (code, mergeCodes) \<leftarrow> widen_inputs (sm_code vsModule) vsVariables (sm_codeSize fsModule) (sm_code fsModule, []) fsVariables;
        mergeCodesSorted (fsModule\<lparr>sm_code := code\<rparr>) mergeCodes })"

section \<open>The bounds check of images\<close>

text \<open>A selection between an object and a zero constant selects the object in both cases.\<close>

definition select_step :: "u32 list \<Rightarrow> nat \<Rightarrow> nat \<Rightarrow> u32 list option" where
  "select_step code codeSize i = do {
     object2Id \<leftarrow> load code (i + 5);
     composite \<leftarrow> fetchSpvInstIndex code codeSize CODE_START SpvOpConstantComposite (Some 2) object2Id True;
     scalarId \<leftarrow> (case composite of Some k \<Rightarrow> load code (k + 3) | None \<Rightarrow> Some object2Id);
     constant \<leftarrow> fetchSpvInstIndex code codeSize CODE_START SpvOpConstant (Some 2) scalarId True;
     (case constant of
        None \<Rightarrow> Some code
      | Some k \<Rightarrow> do {
          constValue \<leftarrow> load code (k + 3);
          (if constValue = 0 then do { object1Id \<leftarrow> load code (i + 4); store code (i + 5) object1Id }
           else Some code) }) }"

partial_function (option) bound_check_loop :: "nat \<Rightarrow> bool \<Rightarrow> nat \<Rightarrow> u32 list \<Rightarrow> u32 list option" where
  "bound_check_loop codeSize inspectOpSelect i code =
     (if i < codeSize div 4 then do {
        w \<leftarrow> load code i;
        code' \<leftarrow> (if opcode_of w = SpvOpSelect \<and> inspectOpSelect then select_step code codeSize i else Some code);
        bound_check_loop codeSize
          (if opcode_of w = SpvOpSampledImage \<or> opcode_of w = SpvOpImageFetch then True
           else if opcode_of w = SpvOpSelect \<or> opcode_of w = SpvOpStore then False else inspectOpSelect)
          (i + instruction_words w) code' }
      else Some code)"

declare bound_check_loop.simps [code]

definition removeImageBoundCheck :: "u32 list \<Rightarrow> nat \<Rightarrow> u32 list option" where
  "removeImageBoundCheck code codeSize = bound_check_loop codeSize False CODE_START code"

section \<open>Modules\<close>

definition getSpvExecutionModel :: "u32 list \<Rightarrow> nat \<Rightarrow> u32 option" where
  "getSpvExecutionModel code sizeInBytes = do {
     magic \<leftarrow> load code 0;
     (if magic \<noteq> SPIRV_MAGIC then Some SpvExecutionModelMax
      else do {
        index \<leftarrow> fetchSpvInstIndex code sizeInBytes CODE_START SpvOpEntryPoint None 0 True;
        (case index of None \<Rightarrow> Some SpvExecutionModelMax | Some k \<Rightarrow> load code (k + 1)) }) }"

definition VK_ERROR_INVALID_SHADER_NV :: int where "VK_ERROR_INVALID_SHADER_NV = - 1000012000"
definition VK_ERROR_VALIDATION_FAILED_EXT :: int where "VK_ERROR_VALIDATION_FAILED_EXT = - 1000011001"
definition VK_DRIVER_ID_ARM_PROPRIETARY :: u32 where "VK_DRIVER_ID_ARM_PROPRIETARY = 9"
definition VK_FORMAT_FEATURE_VERTEX_BUFFER_BIT :: u32 where "VK_FORMAT_FEATURE_VERTEX_BUFFER_BIT = 0x40"
definition VK_SHADER_STAGE_VERTEX_BIT :: u32 where "VK_SHADER_STAGE_VERTEX_BIT = 1"
definition VK_SHADER_STAGE_FRAGMENT_BIT :: u32 where "VK_SHADER_STAGE_FRAGMENT_BIT = 0x10"

declare VK_ERROR_INVALID_SHADER_NV_def [vk_result_defs] VK_ERROR_VALIDATION_FAILED_EXT_def [vk_result_defs]

definition MAKE_ENGINE_VERSION :: "u32 \<Rightarrow> u32 \<Rightarrow> u32 \<Rightarrow> u32" where
  "MAKE_ENGINE_VERSION x y z = push_bit 22 x OR push_bit 12 y OR z"

text \<open>\<open>bufferFeatures\<close> is the driver's answer for a scaled format; \<^const>\<open>None\<close> is an allocation that failed.\<close>

definition ShaderInspector_create ::
  "bool \<Rightarrow> u32 \<Rightarrow> string option \<Rightarrow> u32 \<Rightarrow> bool \<Rightarrow> u32 \<Rightarrow> ShaderInspector option" where
  "ShaderInspector_create calloc_ok driverID engineName engineVersion shaderClipDistance bufferFeatures =
     (if \<not> calloc_ok then None
      else let isMaliDevice = (driverID = VK_DRIVER_ID_ARM_PROPRIETARY);
               isDXVKEngine = (engineName = Some ''DXVK'');
               newer = (isDXVKEngine \<and> MAKE_ENGINE_VERSION 2 3 1 < engineVersion)
      in Some \<lparr>si_passthrough = False,
               si_checkClipDistance = (\<not> shaderClipDistance),
               si_convertFormatScaled = (if isMaliDevice then bufferFeatures AND VK_FORMAT_FEATURE_VERTEX_BUFFER_BIT = 0 else True),
               si_removeImageBoundCheck = (isMaliDevice \<and> isDXVKEngine),
               si_removePointSizeExport = newer,
               si_checkInOutVariablesSize = newer\<rparr>)"

text \<open>The driver's \<^verbatim>\<open>vkCreateShaderModule\<close>: the result and the handle it stores.\<close>

type_synonym create_shader = "u32 list \<Rightarrow> nat \<Rightarrow> int \<times> u64"

text \<open>The result is the code, the module handed out, and the caller's words, which the bounds check edits in place. A module
  the inspector has nothing to do with is created at once.\<close>

definition create_at_once :: "create_shader \<Rightarrow> nat \<Rightarrow> u32 list \<Rightarrow> (int \<times> ShaderModule ptr \<times> u32 list) option" where
  "create_at_once vkCreateShaderModule codeSize code = do {
     words \<leftarrow> slice code 0 (codeSize div 4);
     (let (result, handle) = vkCreateShaderModule words codeSize
      in Some (if result \<noteq> VK_SUCCESS then (result, None, code)
               else (VK_SUCCESS, Some \<lparr>sm_module = handle, sm_code = [], sm_codeSize = 0\<rparr>, code))) }"

definition create_for_inspection ::
  "ShaderInspector \<Rightarrow> create_shader \<Rightarrow> bool \<Rightarrow> nat \<Rightarrow> u32 list \<Rightarrow> (int \<times> ShaderModule ptr \<times> u32 list) option" where
  "create_for_inspection insp vkCreateShaderModule memdup_ok codeSize code = do {
     executionModel \<leftarrow> getSpvExecutionModel code codeSize;
     (let inspected = (executionModel = SpvExecutionModelVertex \<or> executionModel = SpvExecutionModelFragment) in do {
        code' \<leftarrow> (if si_removeImageBoundCheck insp \<and> inspected then removeImageBoundCheck code codeSize else Some code);
        (if inspected then
           (if \<not> memdup_ok then Some (VK_ERROR_OUT_OF_HOST_MEMORY, None, code')
            else do {
              copy \<leftarrow> memdup code' (codeSize div 4);
              Some (VK_SUCCESS, Some \<lparr>sm_module = 0, sm_code = copy, sm_codeSize = codeSize\<rparr>, code') })
         else create_at_once vkCreateShaderModule codeSize code') }) }"

definition ShaderInspector_createModule ::
  "ShaderInspector ptr \<Rightarrow> u32 list ptr \<Rightarrow> nat \<Rightarrow> nat \<Rightarrow> bool \<Rightarrow> bool \<Rightarrow> bool \<Rightarrow> create_shader
    \<Rightarrow> (int \<times> ShaderModule ptr \<times> u32 list ptr) option" where
  "ShaderInspector_createModule inspector codePtr address codeSize ppModule calloc_ok memdup_ok vkCreateShaderModule = do {
     ok \<leftarrow> (if inspector = None \<or> \<not> ppModule then Some False
            else VortekSafeLane_validateSpirvForInspector codePtr address codeSize);
     (if \<not> ok then Some (VK_ERROR_INVALID_SHADER_NV, None, codePtr)
      else if \<not> calloc_ok then Some (VK_ERROR_OUT_OF_HOST_MEMORY, None, codePtr)
      else do {
        insp \<leftarrow> inspector;
        code \<leftarrow> codePtr;
        map_option (\<lambda>(result, m, code'). (result, m, Some code'))
          (if si_passthrough insp then create_at_once vkCreateShaderModule codeSize code
           else create_for_inspection insp vkCreateShaderModule memdup_ok codeSize code) }) }"

section \<open>The stages of a pipeline\<close>

record VertexAttribute =
  at_location :: u32
  at_format :: u32

text \<open>The scaled formats are replaced; each gives an annotation.\<close>

fun annotate :: "VertexAttribute list \<Rightarrow> VertexAttribute list \<times> VertexAnnotation list" where
  "annotate [] = ([], [])"
| "annotate (a # as) =
     (case annotate as of (as', vas) \<Rightarrow>
        if isFormatScaled (at_format a)
        then (let f = getFallbackFormat (at_format a)
              in (a\<lparr>at_format := f\<rparr> # as',
                  \<lparr>va_location = at_location a, va_vecId = - 1, va_varId = - 1, va_varOffset = None, va_signedness = 0,
                   va_format = f\<rparr> # vas))
        else (a # as', vas))"

text \<open>The module of a stage is a pointer to a \<^typ>\<open>ShaderModule\<close>, 0 for NULL, and in the end the driver's handle.\<close>

record ShaderStage =
  st_stage :: u32
  st_module :: u64

record stages_state =
  ss_modules :: "u64 \<Rightarrow> ShaderModule option"
  ss_attributes :: "VertexAttribute list ptr"
  ss_vertex :: "u64 option"

text \<open>What happens to a module before it is given to the driver; an error ends the call at once.\<close>

definition prepare_stage ::
  "ShaderInspector \<Rightarrow> bool \<Rightarrow> ShaderStage \<Rightarrow> ShaderModule \<Rightarrow> stages_state \<Rightarrow> (int + stages_state) option" where
  "prepare_stage insp calloc_ok s m st =
     (if st_stage s = VK_SHADER_STAGE_VERTEX_BIT then
        (case ss_attributes st of
           None \<Rightarrow> Some (Inr (st\<lparr>ss_vertex := Some (st_module s)\<rparr>))
         | Some attributes \<Rightarrow>
             (if 32 < length attributes then Some (Inl VK_ERROR_VALIDATION_FAILED_EXT)
              else if attributes \<noteq> [] \<and> \<not> calloc_ok then Some (Inl VK_ERROR_OUT_OF_HOST_MEMORY)
              else case annotate attributes of (attributes', annotations) \<Rightarrow> do {
                m' \<leftarrow> (if annotations = [] then Some m
                       else map_option fst (inspectVertexShaderCode insp m annotations));
                Some (Inr (st\<lparr>ss_modules := (ss_modules st)(st_module s \<mapsto> m'), ss_attributes := Some attributes',
                              ss_vertex := Some (st_module s)\<rparr>)) }))
      else if st_stage s = VK_SHADER_STAGE_FRAGMENT_BIT then
        (case ss_vertex st of
           None \<Rightarrow> Some (Inr st)
         | Some v \<Rightarrow> do {
             vsModule \<leftarrow> ss_modules st v;
             m' \<leftarrow> inspectFragmentShaderCode insp vsModule m;
             Some (Inr (st\<lparr>ss_modules := (ss_modules st)(st_module s \<mapsto> m')\<rparr>)) })
      else Some (Inr st))"

text \<open>The first loop: an error that ends the call at once, or the result, with the state.\<close>

fun stages_loop ::
  "ShaderInspector \<Rightarrow> bool \<Rightarrow> (nat \<Rightarrow> create_shader) \<Rightarrow> nat \<Rightarrow> stages_state \<Rightarrow> ShaderStage list
    \<Rightarrow> (int \<times> stages_state + int \<times> stages_state) option"
where
  "stages_loop insp calloc_ok create i st [] = Some (Inr (VK_SUCCESS, st))"
| "stages_loop insp calloc_ok create i st (s # ss) =
     (if st_module s = 0 then stages_loop insp calloc_ok create (i + 1) st ss
      else do {
        m \<leftarrow> ss_modules st (st_module s);
        (if sm_module m \<noteq> 0 then stages_loop insp calloc_ok create (i + 1) st ss
         else do {
           r \<leftarrow> prepare_stage insp calloc_ok s m st;
           (case r of
              Inl e \<Rightarrow> Some (Inl (e, st))
            | Inr st1 \<Rightarrow> do {
                m1 \<leftarrow> ss_modules st1 (st_module s);
                words \<leftarrow> slice (sm_code m1) 0 (sm_codeSize m1 div 4);
                (case create i words (sm_codeSize m1) of (result, handle) \<Rightarrow>
                   (let st2 = st1\<lparr>ss_modules := (ss_modules st1)(st_module s \<mapsto> m1\<lparr>sm_module := handle\<rparr>)\<rparr>
                    in if result \<noteq> VK_SUCCESS then Some (Inr (result, st2))
                       else stages_loop insp calloc_ok create (i + 1) st2 ss)) }) }) })"

text \<open>The last loop frees the words and hands out the handles.\<close>

fun finish_stages :: "(u64 \<Rightarrow> ShaderModule option) \<Rightarrow> ShaderStage list \<Rightarrow> (ShaderStage list \<times> (u64 \<Rightarrow> ShaderModule option)) option" where
  "finish_stages mods [] = Some ([], mods)"
| "finish_stages mods (s # ss) =
     (if st_module s = 0 then do { (ss', mods') \<leftarrow> finish_stages mods ss; Some (s # ss', mods') }
      else do {
        m \<leftarrow> mods (st_module s);
        (ss', mods') \<leftarrow> finish_stages (mods(st_module s \<mapsto> m\<lparr>sm_code := [], sm_codeSize := 0\<rparr>)) ss;
        Some (s\<lparr>st_module := sm_module m\<rparr> # ss', mods') })"

text \<open>Without an inspector of its own a stage only has its module replaced by the handle; the stages before an error keep theirs.\<close>

fun passthrough_stages :: "(u64 \<Rightarrow> ShaderModule option) \<Rightarrow> ShaderStage list \<Rightarrow> (int \<times> ShaderStage list) option" where
  "passthrough_stages mods [] = Some (VK_SUCCESS, [])"
| "passthrough_stages mods (s # ss) =
     (if st_module s = 0 then Some (VK_ERROR_INVALID_SHADER_NV, s # ss)
      else do {
        m \<leftarrow> mods (st_module s);
        (if sm_module m = 0 then Some (VK_ERROR_INVALID_SHADER_NV, s # ss)
         else do { (r, ss') \<leftarrow> passthrough_stages mods ss; Some (r, s\<lparr>st_module := sm_module m\<rparr> # ss') }) })"

definition ShaderInspector_inspectShaderStages ::
  "ShaderInspector ptr \<Rightarrow> ShaderStage list ptr \<Rightarrow> nat \<Rightarrow> VertexAttribute list ptr \<Rightarrow> bool \<Rightarrow> (nat \<Rightarrow> create_shader)
    \<Rightarrow> (u64 \<Rightarrow> ShaderModule option) \<Rightarrow> (int \<times> ShaderStage list ptr \<times> VertexAttribute list ptr \<times> (u64 \<Rightarrow> ShaderModule option)) option" where
  "ShaderInspector_inspectShaderStages inspector stageInfos stageCount vertexInputState calloc_ok create mods =
     (if inspector = None \<or> (0 < stageCount \<and> stageInfos = None)
      then Some (VK_ERROR_VALIDATION_FAILED_EXT, stageInfos, vertexInputState, mods)
      else do {
        insp \<leftarrow> inspector;
        stages \<leftarrow> (case stageInfos of None \<Rightarrow> Some [] | Some ss \<Rightarrow> slice ss 0 stageCount);
        (let put = (\<lambda>ss'. map_option (\<lambda>ss. ss' @ drop stageCount ss) stageInfos)
         in if si_passthrough insp then do {
              (r, stages') \<leftarrow> passthrough_stages mods stages;
              Some (r, put stages', vertexInputState, mods) }
            else do {
              r \<leftarrow> stages_loop insp calloc_ok create 0
                \<lparr>ss_modules = mods, ss_attributes = vertexInputState, ss_vertex = None\<rparr> stages;
              (case r of
                 Inl (e, st) \<Rightarrow> Some (e, stageInfos, ss_attributes st, ss_modules st)
               | Inr (result, st) \<Rightarrow> do {
                   (stages', mods') \<leftarrow> finish_stages (ss_modules st) stages;
                   Some (result, put stages', ss_attributes st, mods') }) }) })"

end
