(* ===== verification/Shader_Fragment.thy ===== *)
theory Shader_Fragment
  imports Shader_Vertex Shader_Stages
begin

text \<open>
  The walks over fragment shaders and over whole modules: the variables of the locations, the widening of inputs, and the
  bounds check of images.
\<close>

section \<open>Names\<close>

lemma literal_loop_total:
  "idx + left \<le> 4 * w \<Longrightarrow> (\<And>q. q < w \<Longrightarrow> load code (base + q) \<noteq> None) \<Longrightarrow> \<exists>s. literal_loop code base idx left = Some s"
proof (induction left arbitrary: idx)
  case (Suc left)
  have "idx div 4 < w" using Suc.prems(1) by (simp add: div_less_iff_less_mult)
  then obtain x where x: "load code (base + idx div 4) = Some x" using Suc.prems(2) by blast
  have "\<exists>s. literal_loop code base (idx + 1) left = Some s" using Suc.IH [of "idx + 1"] Suc.prems by auto
  then show ?case using x by (auto simp: Let_def)
qed simp

lemma variable_name_total:
  assumes "laid_out 5 code n is"
  shows "\<exists>s. getSpvVariableName code (n * 4) varId cap = Some s"
proof (cases "cap = 0")
  case True
  then show ?thesis by (simp add: getSpvVariableName_def)
next
  case False
  show ?thesis
  proof (rule fetch_cases [OF assms, of 0 SpvOpName "Some 1" varId True])
    assume "fetchSpvInstIndex code (n * 4) (offset 5 is 0) SpvOpName (Some 1) varId True = Some None"
    then show ?thesis using False by (simp add: getSpvVariableName_def CODE_START_def)
  next
    fix j assume j: "fetchSpvInstIndex code (n * 4) (offset 5 is 0) SpvOpName (Some 1) varId True = Some (Some (offset 5 is j))"
      "j < length is" "minimumInspectedInstructionWords SpvOpName \<le> length (is ! j)"
    note h = laid_out_head [OF assms j(2)]
    let ?w = "length (is ! j) - 2"
    have cells: "load code (offset 5 is j + 2 + q) \<noteq> None" if "q < ?w" for q
      using laid_out_word(3) [OF assms j(2), of "2 + q"] that by (simp add: add.assoc)
    have "\<exists>s. literal_loop code (offset 5 is j + 2) 0 (min (nat (int (length (is ! j)) - 2) * 4) (cap - 1)) = Some s"
      by (rule literal_loop_total [of _ _ ?w]) (use j(3) cells in auto)
    then show ?thesis using False j h by (auto simp: getSpvVariableName_def getSpvLiteralString_def CODE_START_def)
  qed auto
qed

section \<open>Variables\<close>

text \<open>The offsets of a variable are those of whole instructions of the right kinds.\<close>

definition variable_ok :: "u32 list list \<Rightarrow> SpvVariableOffsets \<Rightarrow> bool" where
  "variable_ok is v \<longleftrightarrow>
     (\<exists>k<length is. vo_decorate v = offset 5 is k \<and> 4 \<le> length (is ! k)) \<and>
     (\<exists>j<length is. vo_variable v = offset 5 is j \<and> 4 \<le> length (is ! j) \<and> opcode_of (hd (is ! j)) = SpvOpVariable) \<and>
     (\<exists>l<length is. vo_vector v = offset 5 is l \<and> 3 \<le> length (is ! l) \<and>
        (opcode_of (hd (is ! l)) = SpvOpTypeVector \<longrightarrow> 4 \<le> length (is ! l)))"

lemma variable_ok_shapes:
  assumes "inst_shapes is js"
  shows "variable_ok is v \<longleftrightarrow> variable_ok js v"
proof -
  have s: "length js = length is" "\<And>k. offset 5 js k = offset 5 is k" "\<And>k. k < length is \<Longrightarrow> length (js ! k) = length (is ! k)"
    "\<And>k. k < length is \<Longrightarrow> opcode_of (hd (js ! k)) = opcode_of (hd (is ! k))"
    using inst_shapes_length [OF assms] inst_shapes_offset [OF assms] inst_shapes_nth [OF assms] by (auto simp: inst_shape_def)
  show ?thesis unfolding variable_ok_def s(1,2) using s(3,4) by (metis (no_types, lifting))
qed

lemma variable_at_spec:
  assumes "laid_out 5 code n is" "k < length is" "4 \<le> length (is ! k)"
  shows "\<exists>vs. variable_at code (n * 4) sc (offset 5 is k) = Some vs \<and> list_all (variable_ok is) vs"
proof -
  note word = laid_out_word(3) [OF assms(1)]
  let ?o = "offset 5 is" and ?f = "\<lambda>opc v. fetchSpvInstIndex code (n * 4) (offset 5 is k) opc"
  have w: "load code (?o k + 1) = Some (is ! k ! 1)" "load code (?o k + 3) = Some (is ! k ! 3)"
    using word [OF assms(2), of 1] word [OF assms(2), of 3] assms(3) by simp_all
  note fetch = fetch_cases [OF assms(1) less_imp_le [OF assms(2)]]
  show ?thesis
  proof (rule fetch [of SpvOpVariable "Some 2" "is ! k ! 1" True])
    assume "fetchSpvInstIndex code (n * 4) (?o k) SpvOpVariable (Some 2) (is ! k ! 1) True = Some None"
    then show ?thesis using w by (simp add: variable_at_def)
  next
    fix j assume j: "fetchSpvInstIndex code (n * 4) (?o k) SpvOpVariable (Some 2) (is ! k ! 1) True = Some (Some (?o j))"
      "j < length is" "opcode_of (hd (is ! j)) = SpvOpVariable" "minimumInspectedInstructionWords SpvOpVariable \<le> length (is ! j)"
    then have wj: "load code (?o j + 1) = Some (is ! j ! 1)" "load code (?o j + 2) = Some (is ! j ! 2)" "load code (?o j + 3) = Some (is ! j ! 3)"
      using word [OF j(2), of 1] word [OF j(2), of 2] word [OF j(2), of 3] by simp_all
    show ?thesis
    proof (rule fetch [of SpvOpTypePointer "Some 1" "is ! j ! 1" True])
      assume "fetchSpvInstIndex code (n * 4) (?o k) SpvOpTypePointer (Some 1) (is ! j ! 1) True = Some None"
      then show ?thesis using w wj j(1) by (simp add: variable_at_def)
    next
      fix p assume p: "fetchSpvInstIndex code (n * 4) (?o k) SpvOpTypePointer (Some 1) (is ! j ! 1) True = Some (Some (?o p))"
        "p < length is" "minimumInspectedInstructionWords SpvOpTypePointer \<le> length (is ! p)"
      then have wp: "load code (?o p + 2) = Some (is ! p ! 2)" "load code (?o p + 3) = Some (is ! p ! 3)"
        using word [OF p(2), of 2] word [OF p(2), of 3] by simp_all
      obtain name where name: "getSpvVariableName code (n * 4) (is ! j ! 2) 32 = Some name"
        using variable_name_total [OF assms(1)] by blast
      let ?vec = "fetchSpvInstIndex code (n * 4) (?o k) SpvOpTypeVector (Some 1) (is ! p ! 3) True"
      let ?scalar = "fetchSpvInstIndex code (n * 4) (?o k) SpvOpTypeFloat (Some 1) (is ! p ! 3) True"
      obtain r where r: "Option.bind ?vec (\<lambda>vector. if vector = None then ?scalar else Some vector) = Some r"
        and ok: "\<And>q. r = Some q \<Longrightarrow> \<exists>l<length is. q = ?o l \<and> 3 \<le> length (is ! l) \<and>
          (opcode_of (hd (is ! l)) = SpvOpTypeVector \<longrightarrow> 4 \<le> length (is ! l))"
      proof (rule fetch [of SpvOpTypeVector "Some 1" "is ! p ! 3" True])
        assume none: "?vec = Some None"
        show thesis
        proof (rule fetch [of SpvOpTypeFloat "Some 1" "is ! p ! 3" True])
          assume "?scalar = Some None"
          then show thesis using that [of None] none by simp
        next
          fix l assume "?scalar = Some (Some (?o l))" "l < length is" "opcode_of (hd (is ! l)) = SpvOpTypeFloat"
            "minimumInspectedInstructionWords SpvOpTypeFloat \<le> length (is ! l)"
          moreover have "SpvOpTypeFloat \<noteq> SpvOpTypeVector" by (simp add: spirv_defs)
          ultimately have "\<exists>l'<length is. ?o l = ?o l' \<and> 3 \<le> length (is ! l') \<and>
              (opcode_of (hd (is ! l')) = SpvOpTypeVector \<longrightarrow> 4 \<le> length (is ! l'))" by (intro exI [of _ l]) simp
          then show thesis using that [of "Some (?o l)"] none \<open>?scalar = Some (Some (?o l))\<close> by simp
        qed
      next
        fix l assume l: "?vec = Some (Some (?o l))" "l < length is" "minimumInspectedInstructionWords SpvOpTypeVector \<le> length (is ! l)"
        then have "\<exists>l'<length is. ?o l = ?o l' \<and> 3 \<le> length (is ! l') \<and>
            (opcode_of (hd (is ! l')) = SpvOpTypeVector \<longrightarrow> 4 \<le> length (is ! l'))" by (intro exI [of _ l]) simp
        then show thesis using that [of "Some (?o l)"] l(1) by simp
      qed
      let ?v = "\<lambda>q. \<lparr>vo_decorate = ?o k, vo_variable = ?o j, vo_pointer = ?o p, vo_vector = q\<rparr>"
      have vok: "variable_ok is (?v q)" if "r = Some q" for q
        using ok [OF that] assms(2,3) j unfolding variable_ok_def by auto
      have bind: "Option.bind ?vec (\<lambda>vector. Option.bind (if vector = None then ?scalar else Some vector) g) = g r" for g :: "nat option \<Rightarrow> SpvVariableOffsets list option"
        using r by (cases ?vec) (auto split: if_splits)
      show ?thesis
        unfolding variable_at_def w Option.bind.simps j(1) option.case wj p(1) wp bind
        by (cases r) (use name vok in auto)
    qed
  qed
qed

lemma variables_loop_spec:
  assumes "laid_out 5 code n is"
  shows "k \<le> length is \<Longrightarrow> list_all (variable_ok is) vs0 \<Longrightarrow>
    \<exists>vs. variables_loop code (n * 4) sc opc (offset 5 is k) vs0 = Some vs \<and> list_all (variable_ok is) vs"
proof (induction "length is - k" arbitrary: k opc vs0)
  case 0
  then have "\<not> offset 5 is k < n" using offset_length [OF assms] by simp
  then show ?case using 0 by (subst variables_loop.simps) simp
next
  case (Suc e)
  then have k: "k < length is" by simp
  note h = laid_out_head [OF assms k]
  note ok = laid_out_ok [OF assms k]
  show ?case
  proof (cases "opc \<noteq> SpvOpFunction \<and> \<not> IS_SPV_OP_TYPE opc")
    case False
    then show ?thesis using Suc.prems by (subst variables_loop.simps) auto
  next
    case True
    let ?dec = "if opcode_of (hd (is ! k)) = SpvOpDecorate then load code (offset 5 is k + 2) else Some 0"
    obtain d found where f: "?dec = Some d" "(if opcode_of (hd (is ! k)) = SpvOpDecorate \<and> d = SpvDecorationLocation
        then variable_at code (n * 4) sc (offset 5 is k) else Some []) = Some found" "list_all (variable_ok is) found"
    proof (cases "opcode_of (hd (is ! k)) = SpvOpDecorate")
      case dec: True
      then have d: "?dec = Some (is ! k ! 2)"
        using laid_out_word(3) [OF assms k, of 2] decorated_words(1) [OF ok] by simp
      show thesis
      proof (cases "is ! k ! 2 = SpvDecorationLocation")
        case loc: True
        then obtain vs where "variable_at code (n * 4) sc (offset 5 is k) = Some vs" "list_all (variable_ok is) vs"
          using variable_at_spec [OF assms k, of sc] decorated_words(2) [OF ok dec] by blast
        then show thesis using that [OF d] dec loc by simp
      next
        case False
        then show thesis using that [OF d] by simp
      qed
    next
      case False
      then show thesis using that by simp
    qed
    have step: "variables_loop code (n * 4) sc opc (offset 5 is k) vs0 =
        variables_loop code (n * 4) sc (opcode_of (hd (is ! k))) (offset 5 is (Suc k)) (vs0 @ found)"
      using True h by (subst variables_loop.simps) (simp add: f(1,2) offset_Suc [OF k] del: load_Some)
    have "d' = length is - Suc k" if "Suc d' = length is - k" for d' using that by simp
    then show ?thesis unfolding step using Suc.hyps(1) [of "Suc k" "vs0 @ found"] Suc.hyps(2) Suc.prems k f(3) by simp
  qed
qed

lemma variable_offsets_spec:
  assumes "module_ok m is"
  shows "\<exists>vs. fetchSpvVariableOffsets m sc = Some vs \<and> list_all (variable_ok is) vs"
  using variables_loop_spec [of "sm_code m" "length (sm_code m)" "is" 0 "[]" sc SpvOpNop] assms
  by (simp add: fetchSpvVariableOffsets_def module_ok_def CODE_START_def)

section \<open>Widening\<close>

lemma vector_size_spec:
  assumes "laid_out 5 code n is" "variable_ok is v"
  obtains c l where "vector_size code v = Some c" "l < length is" "vo_vector v = offset 5 is l" "3 \<le> length (is ! l)"
    "1 < c \<longrightarrow> 4 \<le> length (is ! l)"
proof -
  obtain l where l: "l < length is" "vo_vector v = offset 5 is l" "3 \<le> length (is ! l)"
    "opcode_of (hd (is ! l)) = SpvOpTypeVector \<longrightarrow> 4 \<le> length (is ! l)"
    using assms(2) unfolding variable_ok_def by blast
  note h = laid_out_head [OF assms(1) l(1)]
  show thesis
  proof (cases "opcode_of (hd (is ! l)) = SpvOpTypeVector")
    case True
    then have "load code (offset 5 is l + 3) = Some (is ! l ! 3)" using laid_out_word(3) [OF assms(1) l(1), of 3] l(4) by simp
    then show thesis using that [of "is ! l ! 3" l] l True h by (simp add: vector_size_def)
  next
    case False
    then show thesis using that [of 1 l] l h by (simp add: vector_size_def)
  qed
qed

lemma location_word:
  assumes "laid_out 5 code n is" "variable_ok is v"
  shows "\<exists>w. load code (vo_decorate v + 3) = Some w"
proof -
  obtain k where k: "k < length is" "vo_decorate v = offset 5 is k" "4 \<le> length (is ! k)"
    using assms(2) unfolding variable_ok_def by blast
  then show ?thesis using laid_out_word(3) [OF assms(1) k(1), of 3] by simp
qed

lemma mismatch_spec:
  assumes "laid_out 5 code n is"
  shows "list_all (variable_ok is) vs \<Longrightarrow> \<exists>r. mismatch_of code loc c vs = Some r"
proof (induction vs)
  case (Cons v vs)
  then have v: "variable_ok is v" by simp
  obtain w where w: "load code (vo_decorate v + 3) = Some w" using location_word [OF assms v] by blast
  obtain c' l where c': "vector_size code v = Some c'" by (rule vector_size_spec [OF assms v])
  then show ?case using w Cons by simp
qed simp

lemma widen_input_spec:
  assumes "rewriting n is code mcs" "variable_ok is v" "vector_size code v = Some c"
  obtains code' mcs' is' where "widen_input code (n * 4) mcs v c c' = Some (code', mcs')" "rewriting n is' code' mcs'"
    "inst_shapes is is'" "kept (untouched insp) is is'"
proof -
  have l: "laid_out 5 code n is" using assms(1) by (simp add: rewriting_def)
  note word = laid_out_word(3) [OF l]
  obtain c0 t0 where c0: "vector_size code v = Some c0" and t0': "t0 < length is" "vo_vector v = offset 5 is t0"
    "3 \<le> length (is ! t0)" "1 < c0 \<longrightarrow> 4 \<le> length (is ! t0)"
    by (rule vector_size_spec [OF l assms(2)])
  have t0: "t0 < length is" "vo_vector v = offset 5 is t0" "3 \<le> length (is ! t0)" "1 < c \<longrightarrow> 4 \<le> length (is ! t0)"
    using c0 t0' assms(3) by simp_all
  obtain k where k: "k < length is" "vo_decorate v = offset 5 is k" using assms(2) unfolding variable_ok_def by blast
  obtain j where j: "j < length is" "vo_variable v = offset 5 is j" "4 \<le> length (is ! j)" "opcode_of (hd (is ! j)) = SpvOpVariable"
    using assms(2) unfolding variable_ok_def by blast
  define ty where "ty = (if 1 < c then is ! t0 ! 2 else is ! t0 ! 1)"
  have ct: "load code (if 1 < c then vo_vector v + 2 else vo_vector v + 1) = Some ty"
    using word [OF t0(1), of 2] word [OF t0(1), of 1] t0 by (simp add: ty_def)
  obtain r where r: "(if 1 < c then fetchSpvOpTypeIndex code (n * 4) (vo_decorate v) (Some 1) ty else Some (Some (vo_vector v))) = Some r"
    and hit: "\<And>q. r = Some q \<Longrightarrow> \<exists>t<length is. q = offset 5 is t"
  proof (cases "1 < c")
    case True
    show thesis
    proof (rule fetch_type_cases [OF l less_imp_le [OF k(1)], of "Some 1" ty])
      assume "fetchSpvOpTypeIndex code (n * 4) (offset 5 is k) (Some 1) ty = Some None"
      then show thesis using that [of None] True k(2) by simp
    next
      fix t assume "fetchSpvOpTypeIndex code (n * 4) (offset 5 is k) (Some 1) ty = Some (Some (offset 5 is t))" "t < length is"
      then show thesis using that [of "Some (offset 5 is t)"] True k(2) by auto
    qed
  next
    case False
    then show thesis using that [of "Some (vo_vector v)"] t0 by auto
  qed
  note wd = widen_input_def [of code "n * 4" mcs v c c', unfolded ct Option.bind.simps(2) r]
  show thesis
  proof (cases r)
    case None
    then show thesis using that [of code mcs "is"] wd assms(1) by simp
  next
    case (Some q)
    then obtain t where t: "t < length is" "q = offset 5 is t" using hit by blast
    note h = laid_out_head [OF l t(1)]
    have next_pos: "int (q + instruction_words (hd (is ! t))) = int (offset 5 is (Suc t))" using h(3) t by (simp add: offset_Suc)
    have p0: "merge_position_ok is mcs (int (offset 5 is (Suc t)))"
      using Suc_leI [OF t(1)] unfolding merge_position_ok_def by auto
    have ops: "SpvOpTypeVector \<in> merge_opcodes" "SpvOpTypePointer \<in> merge_opcodes" by (simp_all add: merge_opcodes_def)
    obtain r1 c1 m1 p1 where s1: "mergeSpvInst code (n * 4) mcs (int (offset 5 is (Suc t))) (offset 5 is t)
        \<lparr>sf_fields = [(2, ty), (3, max c' c)], sf_endIndex = vo_variable v\<rparr> SpvOpTypeVector [UINT32_MAX, ty, max c' c]
        = Some (r1, c1, m1, p1)" "rewriting n is c1 m1" "merge_position_ok is m1 p1"
      by (rule mergeSpvInst_rewriting [OF assms(1) p0 less_imp_le [OF t(1)] ops(1),
            of "[UINT32_MAX, ty, max c' c]" "\<lparr>sf_fields = [(2, ty), (3, max c' c)], sf_endIndex = vo_variable v\<rparr>"]) simp_all
    obtain r2 c2 m2 p2 where s2: "mergeSpvInst c1 (n * 4) m1 p1 (offset 5 is t)
        \<lparr>sf_fields = [(2, SpvStorageClassInput), (3, r1)], sf_endIndex = vo_variable v\<rparr> SpvOpTypePointer
        [UINT32_MAX, SpvStorageClassInput, r1] = Some (r2, c2, m2, p2)" "rewriting n is c2 m2" "merge_position_ok is m2 p2"
      by (rule mergeSpvInst_rewriting [OF s1(2,3) less_imp_le [OF t(1)] ops(2),
            of "[UINT32_MAX, SpvStorageClassInput, r1]" "\<lparr>sf_fields = [(2, SpvStorageClassInput), (3, r1)], sf_endIndex = vo_variable v\<rparr>"])
        simp_all
    have free: "free_operand (is ! j) 1" using j(3) by (simp add: free_operand_def)
    have "\<not> untouched insp (is ! j)" using j(4) by (simp add: untouched_def)
    from rewriting_update [where plain = "untouched insp" and v = r2, OF s2(2) j(1) free this] obtain is' where is':
      "store c2 (offset 5 is j + 1) r2 = Some (c2[offset 5 is j + 1 := r2])"
      "rewriting n is' (c2[offset 5 is j + 1 := r2]) m2" "inst_shapes is is'" "kept (untouched insp) is is'" by blast
    show thesis
      by (rule that [of "c2[offset 5 is j + 1 := r2]" m2 is'])
        (use wd Some h(1) t(2) next_pos s1(1) s2(1) is' j(2) in \<open>simp_all add: Let_def\<close>)
  qed
qed

lemma widen_inputs_spec:
  assumes "\<And>loc c. \<exists>r. mismatch_of vsCode loc c vsVariables = Some r"
  shows "rewriting n is code mcs \<Longrightarrow> list_all (variable_ok is) vs \<Longrightarrow>
    \<exists>code' mcs' is'. widen_inputs vsCode vsVariables (n * 4) (code, mcs) vs = Some (code', mcs') \<and>
      rewriting n is' code' mcs' \<and> inst_shapes is is' \<and> kept (untouched insp) is is'"
proof (induction vs arbitrary: code mcs "is")
  case Nil
  then show ?case using inst_shapes_refl kept_refl by auto
next
  case (Cons v vs)
  have l: "laid_out 5 code n is" using Cons.prems(1) by (simp add: rewriting_def)
  have v: "variable_ok is v" "list_all (variable_ok is) vs" using Cons.prems(2) by simp_all
  obtain w where w: "load code (vo_decorate v + 3) = Some w" using location_word [OF l v(1)] by blast
  obtain c l0 where c: "vector_size code v = Some c" by (rule vector_size_spec [OF l v(1)])
  obtain r where r: "mismatch_of vsCode w c vsVariables = Some r" using assms by blast
  obtain code1 mcs1 is1 where s: "(case r of None \<Rightarrow> Some (code, mcs) | Some c' \<Rightarrow> widen_input code (n * 4) mcs v c c') = Some (code1, mcs1)"
    "rewriting n is1 code1 mcs1" "inst_shapes is is1" "kept (untouched insp) is is1"
  proof (cases r)
    case None
    then show thesis using that [of code mcs "is"] Cons.prems(1) by simp
  next
    case (Some c')
    show thesis by (rule widen_input_spec [OF Cons.prems(1) v(1) c, of c']) (rule that, use Some in simp_all)
  qed
  have "list_all (variable_ok is1) vs" using v(2) variable_ok_shapes [OF s(3)] by (simp add: list_all_iff)
  from Cons.IH [OF s(2) this] obtain code' mcs' is' where t: "widen_inputs vsCode vsVariables (n * 4) (code1, mcs1) vs = Some (code', mcs')"
    "rewriting n is' code' mcs'" "inst_shapes is1 is'" "kept (untouched insp) is1 is'" by blast
  have "inst_shapes is is'" "kept (untouched insp) is is'"
    using inst_shapes_trans [OF s(3) t(3)] kept_trans [OF s(4) t(4)] by simp_all
  moreover have "widen_inputs vsCode vsVariables (n * 4) (code, mcs) (v # vs) = Some (code', mcs')"
    using w c r s(1) t(1) by (simp del: load_Some)
  ultimately show ?case using t(2) by blast
qed

lemma merge_all_spec:
  assumes "rewriting n is code mcs" "sm_codeSize m = n * 4"
  obtains m' is' where "mergeCodesSorted (m\<lparr>sm_code := code\<rparr>) mcs = Some m'" "module_ok m' is'" "subseq is is'" "sm_module m' = sm_module m"
proof -
  have "module_ok (m\<lparr>sm_code := code\<rparr>) is" "list_all (merge_ok is) mcs" using assms by (simp_all add: rewriting_def module_ok_def)
  from merge_sorted_spec [OF this] show thesis using that by (auto simp: mergeCodesSorted_def)
qed

lemma kept_subseq: "kept plain is js \<Longrightarrow> subseq js ks \<Longrightarrow> kept plain is ks"
  unfolding kept_def by (rule subseq_order.trans)

lemma fragment_spec:
  assumes "module_ok vs vis \<or> (sm_code vs = [] \<and> sm_codeSize vs = 0)" "module_ok fs is"
  obtains fs' is' where "inspectFragmentShaderCode insp vs fs = Some fs'" "module_ok fs' is'" "kept (untouched insp) is is'"
    "sm_module fs' = sm_module fs"
proof (cases "si_checkInOutVariablesSize insp")
  case False
  then show thesis using that [of fs "is"] assms(2) by (simp add: inspectFragmentShaderCode_def)
next
  case True
  have l: "laid_out 5 (sm_code fs) (length (sm_code fs)) is" "sm_codeSize fs = length (sm_code fs) * 4"
    using assms(2) by (simp_all add: module_ok_def)
  obtain vsv where vsv: "fetchSpvVariableOffsets vs SpvStorageClassOutput = Some vsv"
    "\<And>loc c. \<exists>r. mismatch_of (sm_code vs) loc c vsv = Some r"
    using assms(1)
  proof
    assume ok: "module_ok vs vis"
    then have "laid_out 5 (sm_code vs) (length (sm_code vs)) vis" by (simp add: module_ok_def)
    then show thesis using variable_offsets_spec [OF ok] mismatch_spec that by blast
  next
    assume "sm_code vs = [] \<and> sm_codeSize vs = 0"
    then have "fetchSpvVariableOffsets vs SpvStorageClassOutput = Some []"
      by (simp add: fetchSpvVariableOffsets_def) (subst variables_loop.simps, simp)
    then show thesis using that by simp
  qed
  obtain fsv where fsv: "fetchSpvVariableOffsets fs SpvStorageClassInput = Some fsv" "list_all (variable_ok is) fsv"
    using variable_offsets_spec [OF assms(2)] by blast
  have "rewriting (length (sm_code fs)) is (sm_code fs) []" using l(1) by (simp add: rewriting_def)
  from widen_inputs_spec [OF vsv(2) this fsv(2)] obtain code mcs is1 where
    w: "widen_inputs (sm_code vs) vsv (length (sm_code fs) * 4) (sm_code fs, []) fsv = Some (code, mcs)"
      "rewriting (length (sm_code fs)) is1 code mcs" "kept (untouched insp) is is1" by blast
  obtain m' is' where m': "mergeCodesSorted (fs\<lparr>sm_code := code\<rparr>) mcs = Some m'" "module_ok m' is'" "subseq is1 is'"
    "sm_module m' = sm_module fs" by (rule merge_all_spec [OF w(2) l(2)])
  show thesis
    by (rule that [of m' is'])
      (use True vsv(1) fsv(1) w(1) m' l(2) kept_subseq [OF w(3) m'(3)] in \<open>simp_all add: inspectFragmentShaderCode_def\<close>)
qed

section \<open>The bounds check\<close>

text \<open>At most the second object of a selection changes, to the first.\<close>

definition select_edit :: "u32 list \<Rightarrow> u32 list \<Rightarrow> bool" where
  "select_edit i i' \<longleftrightarrow> i' = i \<or> opcode_of (hd i) = SpvOpSelect \<and> i' = i[5 := i ! 4]"

lemma select_step_spec:
  assumes "laid_out 5 code n is" "k < length is" "opcode_of (hd (is ! k)) = SpvOpSelect"
  obtains code' i where "select_step code (n * 4) (offset 5 is k) = Some code'" "laid_out 5 code' n (is[k := i])" "length code' = length code"
    "select_edit (is ! k) i" "length i = length (is ! k)" "hd i = hd (is ! k)"
proof -
  let ?o = "offset 5 is" and ?i = "is ! k"
  note word = laid_out_word(3) [OF assms(1)]
  have len: "6 \<le> length ?i" using instruction_ok_simps(4) [OF laid_out_ok [OF assms(1,2)]] assms(3) by simp
  then have w: "load code (?o k + 5) = Some (?i ! 5)" "load code (?o k + 4) = Some (?i ! 4)"
    using word [OF assms(2), of 5] word [OF assms(2), of 4] by simp_all
  note result = that
  have skip: thesis if "select_step code (n * 4) (?o k) = Some code"
    by (rule result [of code ?i]) (use that assms(1) in \<open>simp_all add: select_edit_def\<close>)
  obtain scalarId where scalar: "Option.bind (fetchSpvInstIndex code (n * 4) CODE_START SpvOpConstantComposite (Some 2) (?i ! 5) True)
      (\<lambda>composite. case composite of Some k \<Rightarrow> load code (k + 3) | None \<Rightarrow> Some (?i ! 5)) = Some scalarId"
  proof (rule fetch_cases [OF assms(1), of 0 SpvOpConstantComposite "Some 2" "?i ! 5" True])
    assume "fetchSpvInstIndex code (n * 4) (?o 0) SpvOpConstantComposite (Some 2) (?i ! 5) True = Some None"
    then show thesis using that by (simp add: CODE_START_def)
  next
    fix c assume c: "fetchSpvInstIndex code (n * 4) (?o 0) SpvOpConstantComposite (Some 2) (?i ! 5) True = Some (Some (?o c))"
      "c < length is" "minimumInspectedInstructionWords SpvOpConstantComposite \<le> length (is ! c)"
    then have "load code (?o c + 3) = Some (is ! c ! 3)" using word [OF c(2), of 3] by simp
    then show thesis using that c(1) by (simp add: CODE_START_def)
  qed simp
  let ?edit = "\<lambda>constant. case constant of None \<Rightarrow> Some code
      | Some k' \<Rightarrow> do { constValue \<leftarrow> load code (k' + 3);
          (if constValue = 0 then do { object1Id \<leftarrow> load code (?o k + 4); store code (?o k + 5) object1Id } else Some code) }"
  have step: "select_step code (n * 4) (?o k) =
      Option.bind (fetchSpvInstIndex code (n * 4) CODE_START SpvOpConstant (Some 2) scalarId True) ?edit"
    using scalar unfolding select_step_def w(1) Option.bind.simps
    by (cases "fetchSpvInstIndex code (n * 4) CODE_START SpvOpConstantComposite (Some 2) (?i ! 5) True") simp_all
  show thesis
  proof (rule fetch_cases [OF assms(1), of 0 SpvOpConstant "Some 2" scalarId True])
    assume "fetchSpvInstIndex code (n * 4) (?o 0) SpvOpConstant (Some 2) scalarId True = Some None"
    then show thesis by (intro skip) (simp add: step CODE_START_def)
  next
    fix c assume c: "fetchSpvInstIndex code (n * 4) (?o 0) SpvOpConstant (Some 2) scalarId True = Some (Some (?o c))"
      "c < length is" "minimumInspectedInstructionWords SpvOpConstant \<le> length (is ! c)"
    then have wc: "load code (?o c + 3) = Some (is ! c ! 3)" using word [OF c(2), of 3] by simp
    show thesis
    proof (cases "is ! c ! 3 = 0")
      case False
      then show thesis using c(1) wc by (intro skip) (simp add: step CODE_START_def)
    next
      case True
      have "SpvOpSelect \<noteq> SpvOpDecorate" by (simp add: spirv_defs)
      then have free: "free_operand ?i 5" using len assms(3) by (simp add: free_operand_def)
      note u = laid_out_update [OF assms(1,2) free, of "?i ! 4"]
      show thesis
        by (rule result [of "code[?o k + 5 := ?i ! 4]" "?i[5 := ?i ! 4]"])
          (use True c(1) wc w(2) u assms(3) in \<open>simp_all add: step CODE_START_def select_edit_def hd_update\<close>)
    qed
  qed simp_all
qed

lemma bound_check_spec:
  "laid_out 5 code n is \<Longrightarrow> k \<le> length is \<Longrightarrow>
    \<exists>code' is'. bound_check_loop (n * 4) sel (offset 5 is k) code = Some code' \<and> laid_out 5 code' n is' \<and>
      length code' = length code \<and> list_all2 select_edit is is' \<and> inst_shapes is is' \<and> take k is' = take k is"
proof (induction "length is - k" arbitrary: k sel code "is")
  case 0
  then have "\<not> offset 5 is k < n" using offset_length [OF 0(2)] by simp
  then have "bound_check_loop (n * 4) sel (offset 5 is k) code = Some code" by (subst bound_check_loop.simps) simp
  then show ?case using 0 by (intro exI [of _ code] exI [of _ "is"]) (simp add: list.rel_refl select_edit_def)
next
  case (Suc d)
  then have k: "k < length is" by simp
  note h = laid_out_head [OF Suc.prems(1) k]
  let ?w = "hd (is ! k)"
  obtain code1 i where s: "(if opcode_of ?w = SpvOpSelect \<and> sel then select_step code (n * 4) (offset 5 is k) else Some code) = Some code1"
    "laid_out 5 code1 n (is[k := i])" "length code1 = length code" "select_edit (is ! k) i" "length i = length (is ! k)" "hd i = ?w"
  proof (cases "opcode_of ?w = SpvOpSelect \<and> sel")
    case True
    then have op: "opcode_of ?w = SpvOpSelect" by simp
    obtain c i where "select_step code (n * 4) (offset 5 is k) = Some c" "laid_out 5 c n (is[k := i])" "length c = length code"
      "select_edit (is ! k) i" "length i = length (is ! k)" "hd i = ?w" by (rule select_step_spec [OF Suc.prems(1) k op])
    then show thesis using that [of c i] True by simp
  next
    case False
    then have "(if opcode_of ?w = SpvOpSelect \<and> sel then select_step code (n * 4) (offset 5 is k) else Some code) = Some code"
      by (simp only: if_False)
    then show thesis by (rule that) (use Suc.prems(1) in \<open>simp_all add: select_edit_def\<close>)
  qed
  have shape: "inst_shapes is (is[k := i])" using s(5,6) by (intro inst_shapes_update) (simp add: inst_shape_def)
  have off: "offset 5 (is[k := i]) (Suc k) = offset 5 is k + length (is ! k)"
    using inst_shapes_offset [OF shape, of 5 "Suc k"] offset_Suc [OF k] by simp
  have "d = length (is[k := i]) - Suc k" "Suc k \<le> length (is[k := i])" using Suc.hyps(2) k by auto
  from Suc.hyps(1) [OF this(1) s(2) this(2), of "if opcode_of ?w = SpvOpSampledImage \<or> opcode_of ?w = SpvOpImageFetch then True
      else if opcode_of ?w = SpvOpSelect \<or> opcode_of ?w = SpvOpStore then False else sel"] obtain code' is' where
    r: "bound_check_loop (n * 4) (if opcode_of ?w = SpvOpSampledImage \<or> opcode_of ?w = SpvOpImageFetch then True
        else if opcode_of ?w = SpvOpSelect \<or> opcode_of ?w = SpvOpStore then False else sel) (offset 5 (is[k := i]) (Suc k)) code1 = Some code'"
      "laid_out 5 code' n is'" "length code' = length code1" "list_all2 select_edit (is[k := i]) is'" "inst_shapes (is[k := i]) is'"
      "take (Suc k) is' = take (Suc k) (is[k := i])" by blast
  have step: "bound_check_loop (n * 4) sel (offset 5 is k) code = Some code'"
    using h s(1) r(1) unfolding off by (subst bound_check_loop.simps) simp
  have len: "length is' = length is" using list_all2_lengthD [OF r(4)] by simp
  have ik: "is' ! k = i" using r(6) k len by (metis length_list_update lessI nth_list_update_eq nth_take)
  have "select_edit (is ! p) (is' ! p)" if p: "p < length is" for p
    using list_all2_nthD [OF r(4), of p] p s(4) ik by (cases "p = k") simp_all
  then have "list_all2 select_edit is is'" using len by (simp add: list_all2_conv_all_nth)
  moreover have "inst_shapes is is'" using inst_shapes_trans [OF shape r(5)] .
  moreover have "take k is' = take k is"
  proof -
    have "take k is' = take k (take (Suc k) is')" by (simp add: min_def)
    also have "\<dots> = take k is" unfolding r(6) by (simp add: min_def)
    finally show ?thesis .
  qed
  ultimately show ?case using step r(2,3) s(3) by auto
qed

end
