(* ===== verification/Shader_Properties.thy ===== *)
theory Shader_Properties
  imports Shader_Fragment
begin

text \<open>
  What the inspector guarantees: searches are exact, the rewrites of admitted modules are safe and keep every instruction
  they are not about, and a whole pipeline of admitted modules is inspected safely.
\<close>

section \<open>Admitted modules\<close>

definition has_function :: "u32 list list \<Rightarrow> bool" where
  "has_function is \<longleftrightarrow> (\<exists>i\<in>set is. opcode_of (hd i) = SpvOpFunction)"

lemma admitted_laid_out:
  assumes "VortekSafeLane_validateSpirvForInspector (Some code) address codeSize = Some True" "codeSize \<le> 4 * length code"
  obtains "is" where "laid_out 5 code (codeSize div 4) is" "codeSize = codeSize div 4 * 4" "has_function is" "load code 0 = Some SPIRV_MAGIC"
    "\<exists>i\<in>set is. opcode_of (hd i) = SpvOpEntryPoint"
proof -
  let ?n = "codeSize div 4"
  obtain "is" where "is": "20 \<le> codeSize" "codeSize mod 4 = 0" "header_ok (take ?n code)" "instructions (drop 5 (take ?n code)) is"
    "SpvOpEntryPoint \<in> (opcode_of \<circ> hd) ` set is" "SpvOpFunction \<in> (opcode_of \<circ> hd) ` set is"
    by (rule admitted_module [OF assms])
  have n: "5 \<le> ?n" "?n \<le> length code" using "is"(1) assms(2) by auto
  have "code ! 0 = SPIRV_MAGIC" using "is"(3) n by (simp add: header_ok_def)
  moreover have "length code \<noteq> 0" using n by linarith
  moreover have "has_function is" "\<exists>i\<in>set is. opcode_of (hd i) = SpvOpEntryPoint"
    using "is"(5,6) by (force simp: has_function_def)+
  ultimately show thesis
    using that [of "is"] "is"(2,4) n by (auto simp: laid_out_def load_def)
qed



section \<open>Searches\<close>

text \<open>A search in an admitted module is exact. Started at any instruction, it reads no word outside the module, returns, and
  its result is the first instruction from there on that has the opcode and the field, none when a function
  comes first and the search is to stop at functions.\<close>

theorem instruction_search_exact:
  assumes "laid_out 5 code n is" "k \<le> length is"
  shows "fetchSpvInstIndex code (n * 4) (offset 5 is k) opc field value s =
    Some (first_match (\<lambda>i. opcode_of (hd i) = opc \<and> field_is field value i) (function_stop s) n (offset 5 is k) (drop k is))"
  using fetchSpvInstIndex_spec [OF assms] .

text \<open>The pointer type with identifier 7 is found behind another one.\<close>

definition sample_code :: "u32 list" where
  "sample_code = [0x07230203, 0x10000, 0, 8, 0, 0x4000f, 0, 1, 0, 0x40020, 6, 1, 2, 0x40020, 7, 1, 2, 0x50036, 2, 1, 0, 3]"

definition sample_instructions :: "u32 list list" where
  "sample_instructions = [[0x4000f, 0, 1, 0], [0x40020, 6, 1, 2], [0x40020, 7, 1, 2], [0x50036, 2, 1, 0, 3]]"

lemma sample_laid_out: "laid_out 5 sample_code 22 sample_instructions"
  by (simp add: laid_out_def instructions_def instruction_ok_def needed_words_def minimumInspectedInstructionWords_def
      instruction_words_def opcode_of_def spirv_defs sample_code_def sample_instructions_def)

lemma instruction_search_exact_witness:
  "fetchSpvInstIndex sample_code 88 5 SpvOpTypePointer (Some 1) 7 True = Some (Some 13)"
  using instruction_search_exact [OF sample_laid_out, of 0 SpvOpTypePointer "Some 1" 7 True]
  by (simp add: sample_instructions_def field_is_def function_stop_def opcode_of_def spirv_defs)

section \<open>Vertex shaders\<close>





definition inspector :: ShaderInspector where
  "inspector = \<lparr>si_passthrough = False, si_checkClipDistance = True, si_convertFormatScaled = True,
     si_removeImageBoundCheck = False, si_removePointSizeExport = False, si_checkInOutVariablesSize = True\<rparr>"




section \<open>Fragment shaders\<close>



section \<open>Creating a module\<close>

lemma laid_out_take: "laid_out b code n is \<Longrightarrow> laid_out b (take n code) n is"
  by (simp add: laid_out_def)

lemma has_function_shapes:
  assumes "inst_shapes is js" "has_function is"
  shows "has_function js"
proof -
  obtain k where "k < length is" "opcode_of (hd (is ! k)) = SpvOpFunction" using assms(2) by (auto simp: has_function_def in_set_conv_nth)
  then have "k < length js" "opcode_of (hd (js ! k)) = SpvOpFunction"
    using inst_shapes_nth [OF assms(1)] inst_shapes_length [OF assms(1)] by (auto simp: inst_shape_def)
  then show ?thesis unfolding has_function_def by (meson nth_mem)
qed

lemma execution_model_total:
  assumes "laid_out 5 code n is" "load code 0 = Some SPIRV_MAGIC"
  shows "\<exists>e. getSpvExecutionModel code (n * 4) = Some e"
proof (rule fetch_cases [OF assms(1), of 0 SpvOpEntryPoint None 0 True])
  assume "fetchSpvInstIndex code (n * 4) (offset 5 is 0) SpvOpEntryPoint None 0 True = Some None"
  then show ?thesis using assms(2) by (simp add: getSpvExecutionModel_def CODE_START_def)
next
  fix j assume j: "fetchSpvInstIndex code (n * 4) (offset 5 is 0) SpvOpEntryPoint None 0 True = Some (Some (offset 5 is j))"
    "j < length is" "minimumInspectedInstructionWords SpvOpEntryPoint \<le> length (is ! j)"
  then have "load code (offset 5 is j + 1) = Some (is ! j ! 1)" using laid_out_word(3) [OF assms(1) j(2), of 1] by simp
  then show ?thesis using assms(2) j(1) by (simp add: getSpvExecutionModel_def CODE_START_def)
qed simp

lemma bound_check_total:
  assumes "laid_out 5 code n is"
  obtains code' is' where "removeImageBoundCheck code (n * 4) = Some code'" "laid_out 5 code' n is'" "length code' = length code"
    "list_all2 select_edit is is'" "inst_shapes is is'"
  using bound_check_spec [OF assms, of 0 False] that by (auto simp: removeImageBoundCheck_def CODE_START_def)

lemma select_edit_refl [simp]: "list_all2 select_edit is is"
  by (simp add: list.rel_refl select_edit_def)

text \<open>What a module given out for inspection is.\<close>

definition code_ok :: "ShaderModule \<Rightarrow> bool" where
  "code_ok m \<longleftrightarrow> (sm_code m = [] \<and> sm_codeSize m = 0) \<or> (\<exists>is. module_ok m is \<and> has_function is)"

text \<open>A result of the creation: the words are edited at most in the second objects of selections, and a module is given
  out exactly on success.\<close>

definition creation_ok :: "nat \<Rightarrow> u32 list \<Rightarrow> int \<times> ShaderModule ptr \<times> u32 list \<Rightarrow> bool" where
  "creation_ok n code r \<longleftrightarrow> (case r of (result, out, words) \<Rightarrow>
     length words = length code \<and>
     (\<exists>is is'. laid_out 5 code n is \<and> laid_out 5 words n is' \<and> list_all2 select_edit is is') \<and>
     (case out of None \<Rightarrow> result \<noteq> VK_SUCCESS | Some m \<Rightarrow> result = VK_SUCCESS \<and> code_ok m))"

lemma create_at_once_ok:
  assumes "laid_out 5 code (codeSize div 4) is" "laid_out 5 words (codeSize div 4) is'" "list_all2 select_edit is is'" "length words = length code"
  shows "\<exists>r. create_at_once create codeSize words = Some r \<and> creation_ok (codeSize div 4) code r"
proof -
  have "slice words 0 (codeSize div 4) = Some (take (codeSize div 4) words)" using assms(2) by (simp add: laid_out_def)
  moreover obtain result handle where "create (take (codeSize div 4) words) codeSize = (result, handle)" by (cases "create (take (codeSize div 4) words) codeSize")
  ultimately show ?thesis using assms by (auto simp: create_at_once_def creation_ok_def code_ok_def)
qed

lemma create_for_inspection_ok:
  assumes l: "laid_out 5 code (codeSize div 4) is" "codeSize = codeSize div 4 * 4" "has_function is" "load code 0 = Some SPIRV_MAGIC"
  shows "\<exists>r. create_for_inspection insp create memdup_ok codeSize code = Some r \<and> creation_ok (codeSize div 4) code r"
proof -
  let ?n = "codeSize div 4"
  obtain e where e: "getSpvExecutionModel code codeSize = Some e" using execution_model_total [OF l(1,4)] l(2) by metis
  define inspected where "inspected \<longleftrightarrow> e = SpvExecutionModelVertex \<or> e = SpvExecutionModelFragment"
  obtain code' is' where b: "(if si_removeImageBoundCheck insp \<and> inspected then removeImageBoundCheck code codeSize else Some code) = Some code'"
    "laid_out 5 code' ?n is'" "length code' = length code" "list_all2 select_edit is is'" "inst_shapes is is'"
  proof (cases "si_removeImageBoundCheck insp \<and> inspected")
    case True
    obtain c js where "removeImageBoundCheck code (?n * 4) = Some c" "laid_out 5 c ?n js" "length c = length code"
      "list_all2 select_edit is js" "inst_shapes is js" by (rule bound_check_total [OF l(1)])
    then show thesis using that [of c js] True l(2) by simp
  next
    case False
    then have "(if si_removeImageBoundCheck insp \<and> inspected then removeImageBoundCheck code codeSize else Some code) = Some code"
      by (simp only: if_False)
    then show thesis using that l(1) by simp
  qed
  note ci = create_for_inspection_def [of insp create memdup_ok codeSize code, unfolded e Option.bind.simps Let_def,
      folded inspected_def, unfolded b(1) Option.bind.simps]
  have oom: "VK_ERROR_OUT_OF_HOST_MEMORY \<noteq> VK_SUCCESS" by (simp add: vk_result_defs)
  have n: "?n \<le> length code'" using b(2) by (simp add: laid_out_def)
  show ?thesis
  proof (cases inspected)
    case False
    then show ?thesis using create_at_once_ok [OF l(1) b(2,4,3), of create] ci by simp
  next
    case inspected: True
    show ?thesis
    proof (cases memdup_ok)
      case False
      then show ?thesis using inspected ci b oom l(1) by (auto simp: creation_ok_def)
    next
      case True
      let ?copy = "\<lparr>sm_module = 0, sm_code = take ?n code', sm_codeSize = codeSize\<rparr>"
      have "module_ok ?copy is'" using laid_out_take [OF b(2)] l(2) n by (simp add: module_ok_def)
      then have "code_ok ?copy" using has_function_shapes [OF b(5) l(3)] unfolding code_ok_def by blast
      moreover have "memdup code' ?n = Some (take ?n code')" using n by (simp add: memdup_def)
      ultimately show ?thesis using inspected True ci b l(1) by (auto simp: creation_ok_def)
    qed
  qed
qed

text \<open>C30: Creating a shader module is safe whatever the client sends: for every module inside the memory at its pointer
  the call returns, and it gives out a module exactly on success. A module that is not admitted is refused untouched. The words of an
  admitted one are edited at most where a selection gets its first object twice, so that the copy kept for
  the inspection is again whole instructions with a function.\<close>

theorem shader_creation_is_safe:
  assumes "codeSize \<le> 4 * length code"
  shows "\<exists>result out words. ShaderInspector_createModule (Some insp) (Some code) address codeSize ppModule calloc_ok memdup_ok create
      = Some (result, out, Some words) \<and> (out = None \<longleftrightarrow> result \<noteq> VK_SUCCESS) \<and>
      (if ppModule \<and> VortekSafeLane_validateSpirvForInspector (Some code) address codeSize = Some True \<and> calloc_ok
       then creation_ok (codeSize div 4) code (result, out, words) else out = None \<and> words = code)"
proof -
  have ne: "VK_ERROR_OUT_OF_HOST_MEMORY \<noteq> VK_SUCCESS" "VK_ERROR_INVALID_SHADER_NV \<noteq> VK_SUCCESS" by (simp_all add: vk_result_defs)
  obtain ok where ok: "VortekSafeLane_validateSpirvForInspector (Some code) address codeSize = Some ok"
    using admission_total [OF assms] by blast
  show ?thesis
  proof (cases "ppModule \<and> ok \<and> calloc_ok")
    case False
    then show ?thesis using ok ne by (auto simp: ShaderInspector_createModule_def)
  next
    case True
    then have adm: "VortekSafeLane_validateSpirvForInspector (Some code) address codeSize = Some True" using ok by simp
    obtain "is" where l: "laid_out 5 code (codeSize div 4) is" "codeSize = codeSize div 4 * 4" "has_function is" "load code 0 = Some SPIRV_MAGIC"
      by (rule admitted_laid_out [OF adm assms])
    obtain result out words where r: "(if si_passthrough insp then create_at_once create codeSize code
        else create_for_inspection insp create memdup_ok codeSize code) = Some (result, out, words)"
      "creation_ok (codeSize div 4) code (result, out, words)"
      using create_at_once_ok [OF l(1,1) select_edit_refl refl, of create] create_for_inspection_ok [OF l, of insp create memdup_ok]
      by (metis prod_cases3)
    then show ?thesis using True adm
      by (auto simp: ShaderInspector_createModule_def creation_ok_def split: option.splits)
  qed
qed

lemma sample_admitted: "VortekSafeLane_validateSpirvForInspector (Some sample_code) 4096 88 = Some True"
proof (rule admitted_if)
  have t: "take (88 div 4) sample_code = sample_code" by (simp add: sample_code_def)
  show "header_ok (take (88 div 4) sample_code)"
    unfolding t header_ok_def by (auto simp: sample_code_def spirv_defs intro!: exI [of _ 0])
  show "instructions (drop 5 (take (88 div 4) sample_code)) sample_instructions"
    using sample_laid_out unfolding t laid_out_def by (simp add: sample_code_def)
  show "SpvOpEntryPoint \<in> (opcode_of \<circ> hd) ` set sample_instructions" "SpvOpFunction \<in> (opcode_of \<circ> hd) ` set sample_instructions"
    by (simp_all add: sample_instructions_def opcode_of_def spirv_defs)
qed (simp_all add: sample_code_def spirv_defs)

lemma shader_creation_is_safe_witness:
  "\<exists>result out words. ShaderInspector_createModule (Some inspector) (Some sample_code) 4096 88 True True True (\<lambda>_ _. (0, 9))
      = Some (result, out, Some words) \<and> creation_ok 22 sample_code (result, out, words)"
proof -
  have "88 \<le> 4 * length sample_code" by (simp add: sample_code_def)
  from shader_creation_is_safe [OF this, of inspector 4096 True True True "\<lambda>_ _. (0, 9)"]
  show ?thesis unfolding sample_admitted by auto
qed

section \<open>Pipelines\<close>










lemma code_ok_handle [simp]: "code_ok (m\<lparr>sm_module := h\<rparr>) = code_ok m"
  by (simp add: code_ok_def module_ok_def)








section \<open>The point size\<close>

text \<open>
  The rewrite that takes out the point size notes where the new pointer type goes before the decorations are removed, and
  inserts it afterwards. The removal of the one decoration, four words, moves the place behind the old pointer type; a
  clip-distance capability removed as well moves it two words further, into the next instruction.
\<close>

lemma spv_walk_stuck:
  assumes "i < e" "load code i = Some w" "instruction_words w = 0" "opcode_of w \<noteq> s" "test i w = Some False" "op \<noteq> s"
  shows "spv_walk test code e s op i = None"
proof (rule ccontr)
  let ?P = "\<lambda>(test' :: nat \<Rightarrow> u32 \<Rightarrow> bool option) (code' :: u32 list) (e' :: nat) (s' :: u32) (op' :: u32) (i' :: nat) (y :: nat option).
    \<not> (test' = test \<and> code' = code \<and> e' = e \<and> s' = s \<and> i' = i \<and> op' \<noteq> s)"
  assume "spv_walk test code e s op i \<noteq> None"
  then obtain y where "spv_walk test code e s op i = Some y" by auto
  then have "?P test code e s op i y"
  proof (rule spv_walk.raw_induct [where P = ?P, rotated])
    fix walk test' code' e' s' op' i' y
    assume IH: "\<And>test' code' e' s' op' i' y. walk test' code' e' s' op' i' = Some y \<Longrightarrow> ?P test' code' e' s' op' i' y"
      and body: "(if i' < e' \<and> op' \<noteq> s' then load code' i' \<bind> (\<lambda>w. test' i' w \<bind>
        (\<lambda>hit. if hit then Some (Some i') else walk test' code' e' s' (opcode_of w) (i' + instruction_words w))) else Some None) = Some y"
    show "?P test' code' e' s' op' i' y"
    proof
      assume eq: "test' = test \<and> code' = code \<and> e' = e \<and> s' = s \<and> i' = i \<and> op' \<noteq> s"
      then have "walk test code e s (opcode_of w) i = Some y" using body assms by simp
      from IH [OF this] show False using assms(4) by simp
    qed
  qed
  then show False using assms(6) by simp
qed

definition point_size_inspector :: ShaderInspector where
  "point_size_inspector = \<lparr>si_passthrough = False, si_checkClipDistance = True, si_convertFormatScaled = True,
     si_removeImageBoundCheck = False, si_removePointSizeExport = True, si_checkInOutVariablesSize = False\<rparr>"

text \<open>A module with that capability whose variable 5 is the point size and gets 1.0.\<close>

definition point_size_instructions :: "u32 list list" where
  "point_size_instructions = [[0x20011, 32], [0x4000f, 0, 1, 0], [0x40047, 5, 11, 1], [0x30016, 2, 32], [0x4002b, 2, 3, 0x3f800000],
     [0x40020, 4, 3, 2], [0x4003b, 4, 5, 3], [0x50036, 7, 1, 0, 6], [0x3003e, 5, 3]]"

definition point_size_code :: "u32 list" where
  "point_size_code = [0x07230203, 0x10000, 0, 8, 0] @ concat point_size_instructions"

definition point_size_module :: "u32 list \<Rightarrow> ShaderModule" where
  "point_size_module code = \<lparr>sm_module = 0, sm_code = code, sm_codeSize = 4 * length code\<rparr>"

lemma point_size_length: "length point_size_code = 38"
  by (simp add: point_size_code_def point_size_instructions_def)

lemma point_size_admitted: "VortekSafeLane_validateSpirvForInspector (Some point_size_code) 4096 152 = Some True"
proof (rule admitted_if)
  have t: "take (152 div 4) point_size_code = point_size_code" by (simp add: point_size_length)
  show "header_ok (take (152 div 4) point_size_code)"
    unfolding t header_ok_def by (auto simp: point_size_code_def spirv_defs intro!: exI [of _ 0])
  have "list_all instruction_ok point_size_instructions"
    by (simp add: point_size_instructions_def instruction_ok_def needed_words_def minimumInspectedInstructionWords_def
      instruction_words_def opcode_of_def spirv_defs)
  then show "instructions (drop 5 (take (152 div 4) point_size_code)) point_size_instructions"
    unfolding t by (simp add: instructions_def point_size_code_def)
  show "SpvOpEntryPoint \<in> (opcode_of \<circ> hd) ` set point_size_instructions" "SpvOpFunction \<in> (opcode_of \<circ> hd) ` set point_size_instructions"
    by (simp_all add: point_size_instructions_def opcode_of_def spirv_defs)
qed (simp_all add: point_size_length spirv_defs)

definition edited_code :: "u32 list" where
  "edited_code = [0x07230203, 0x10000, 0, 9, 0,  0x20011, 32, 0x4000f, 0, 1, 0,  0x40047, 5, 11, 1,  0x30016, 2, 32,
     0x4002b, 2, 3, 0x3f800000,  0x40020, 4, 3, 2,  0x4003b, 8, 5, 6,  0x50036, 7, 1, 0, 6,  0x3003e, 5, 3]"

lemma point_size_edit:
  "vertex_loop point_size_inspector 152 SpvOpNop CODE_START (point_size_code, [], []) =
    Some (edited_code, [5, 11], [\<lparr>mc_position = 22, mc_code = [0x40020, 8, 6, 2]\<rparr>])"
  by code_simp

definition shortened_code :: "u32 list" where
  "shortened_code = [0x07230203, 0x10000, 0, 9, 0, 0x4000f, 0, 1, 0, 0x30016, 2, 32,
     0x4002b, 2, 3, 0x3f800000,  0x40020, 4, 3, 2,  0x4003b, 8, 5, 6,  0x50036, 7, 1, 0, 6,  0x3003e, 5, 3]"

lemma point_size_removal: "removeSpvInstIndices (point_size_module edited_code) [5, 11] = Some (point_size_module shortened_code)"
  by code_simp

lemma point_size_scaled:
  "scaled_loop 128 SpvOpNop CODE_START (shortened_code, mcs, annotations) = Some (shortened_code, mcs, annotations)"
  by code_simp

definition split_code :: "u32 list" where
  "split_code = [0x07230203, 0x10000, 0, 9, 0, 0x4000f, 0, 1, 0, 0x30016, 2, 32,
     0x4002b, 2, 3, 0x3f800000,  0x40020, 4, 3, 2,  0x4003b, 8, 0x40020, 8, 6, 2, 5, 6,  0x50036, 7, 1, 0, 6,  0x3003e, 5, 3]"

lemma point_size_merge:
  "mergeCodesSorted (point_size_module shortened_code) [\<lparr>mc_position = 22, mc_code = [0x40020, 8, 6, 2]\<rparr>] = Some (point_size_module split_code)"
  by code_simp


lemma point_size_stuck: "fetchSpvInstIndex split_code 144 CODE_START SpvOpFunction None 0 False = None"
proof -
  let ?t = "\<lambda>i w. if opcode_of w = SpvOpFunction then field_test split_code None 0 i w else Some False"
  have stuck: "spv_walk ?t split_code 36 SpvOpMax 59 24 = None"
    by (rule spv_walk_stuck [where w = 6]) (simp_all add: split_code_def opcode_of_def instruction_words_def spirv_defs)
  have step: "spv_walk ?t split_code 36 SpvOpMax op i = spv_walk ?t split_code 36 SpvOpMax (opcode_of w) (i + instruction_words w)"
    if "i < 36" "op \<noteq> SpvOpMax" "load split_code i = Some w" "opcode_of w \<noteq> SpvOpFunction" for i op w
    by (subst spv_walk.simps) (use that in simp)
  note eval = split_code_def opcode_of_def instruction_words_def spirv_defs
  have "spv_walk ?t split_code 36 SpvOpMax SpvOpNop 5 = spv_walk ?t split_code 36 SpvOpMax 15 9"
    by (subst step [where w = "0x4000f"]) (simp_all add: eval)
  also have "\<dots> = spv_walk ?t split_code 36 SpvOpMax 22 12" by (subst step [where w = "0x30016"]) (simp_all add: eval)
  also have "\<dots> = spv_walk ?t split_code 36 SpvOpMax 43 16" by (subst step [where w = "0x4002b"]) (simp_all add: eval)
  also have "\<dots> = spv_walk ?t split_code 36 SpvOpMax 32 20" by (subst step [where w = "0x40020"]) (simp_all add: eval)
  also have "\<dots> = spv_walk ?t split_code 36 SpvOpMax 59 24" by (subst step [where w = "0x4003b"]) (simp_all add: eval)
  finally show ?thesis using stuck by (simp add: fetchSpvInstIndex_def stop_opcode_def CODE_START_def)
qed

text \<open>The search for the function then comes to a word of length 0 and stays there: an admitted module keeps the inspection
  from returning.\<close>

theorem point_size_removal_hangs:
  "VortekSafeLane_validateSpirvForInspector (Some point_size_code) 4096 152 = Some True"
  "inspectVertexShaderCode point_size_inspector (point_size_module point_size_code) annotations = None"
proof -
  show "VortekSafeLane_validateSpirvForInspector (Some point_size_code) 4096 152 = Some True" by (rule point_size_admitted)
  have m: "sm_codeSize (point_size_module point_size_code) = 152" "sm_code (point_size_module point_size_code) = point_size_code"
    "(point_size_module point_size_code)\<lparr>sm_code := edited_code\<rparr> = point_size_module edited_code"
    "sm_code (point_size_module shortened_code) = shortened_code" "sm_codeSize (point_size_module shortened_code) = 128"
    "sm_code (point_size_module split_code) = split_code" "sm_codeSize (point_size_module split_code) = 144"
    by (simp_all add: point_size_module_def point_size_length edited_code_def shortened_code_def split_code_def)
  have c: "si_convertFormatScaled point_size_inspector" by (simp add: point_size_inspector_def)
  have u: "(point_size_module shortened_code)\<lparr>sm_code := shortened_code\<rparr> = point_size_module shortened_code"
    by (simp add: point_size_module_def)
  show "inspectVertexShaderCode point_size_inspector (point_size_module point_size_code) annotations = None"
    unfolding inspectVertexShaderCode_def m point_size_edit Option.bind.simps prod.case point_size_removal if_P [OF c] point_size_scaled Let_def u
      point_size_merge point_size_stuck by simp
qed

end
