(* ===== verification/Vk_Context.thy ===== *)
theory Vk_Context
  imports Async_Requests Registry_Lease Ring_Buffer
begin

text \<open>
  The context of a client, \<^verbatim>\<open>vortekrenderer/src/vk_context.c\<close>: its generation, its end, device leases, and the queue for
  requests too large for the ring. Such a request is announced over the socket, with an id and a length; a thread of the
  connector reads its bytes into a slot, and the request thread, which finds the id in the ring, waits for the slot, uses
  it and frees it. Each function that holds the lifecycle mutex is one step; those that wait or read are split there.
\<close>

section \<open>Generations\<close>

text \<open>The compare-exchange loop, against what each attempt finds in the counter and whether it fails spuriously:
  the generation, 0 when they are used up, and the counter.\<close>

fun allocateContextGeneration :: "(u64 \<times> bool) list \<Rightarrow> u64 \<Rightarrow> (u64 \<times> u64) option" where
  "allocateContextGeneration attempts current =
     (if current = 0 \<or> current = UINT64_MAX then Some (0, current)
      else case attempts of
        [] \<Rightarrow> None
      | (counter, spurious) # rest \<Rightarrow>
          if counter = current \<and> \<not> spurious then Some (current, current + 1)
          else allocateContextGeneration rest counter)"

declare allocateContextGeneration.simps [simp del]

section \<open>The context\<close>

definition VORTEK_EXTRA_DATA_MAX_FRAME_SIZE :: nat where
  "VORTEK_EXTRA_DATA_MAX_FRAME_SIZE = 64 * 1024 * 1024"

definition VORTEK_EXTRA_DATA_MAX_AGGREGATE_SIZE :: nat where
  "VORTEK_EXTRA_DATA_MAX_AGGREGATE_SIZE = 128 * 1024 * 1024"

definition VORTEK_EXTRA_DATA_MAX_PENDING :: nat where
  "VORTEK_EXTRA_DATA_MAX_PENDING = 32"

definition VORTEK_EXTRA_DATA_WAIT_TIMEOUT_MS :: nat where
  "VORTEK_EXTRA_DATA_WAIT_TIMEOUT_MS = 5000"

named_theorems extra_defs \<open>limits of the extra-data queue\<close>

declare VORTEK_EXTRA_DATA_MAX_FRAME_SIZE_def [extra_defs] VORTEK_EXTRA_DATA_MAX_AGGREGATE_SIZE_def [extra_defs]
  VORTEK_EXTRA_DATA_MAX_PENDING_def [extra_defs] VORTEK_EXTRA_DATA_WAIT_TIMEOUT_MS_def [extra_defs]

datatype ExtraDataState = EXTRA_DATA_EMPTY | EXTRA_DATA_READING | EXTRA_DATA_READY

record ExtraDataRequest =
  ed_requestId :: u16
  ed_data :: "u8 list ptr"
  ed_size :: size_t
  ed_state :: ExtraDataState

definition zero_request :: ExtraDataRequest where
  "zero_request = \<lparr>ed_requestId = 0, ed_data = None, ed_size = 0, ed_state = EXTRA_DATA_EMPTY\<rparr>"

record VkContext =
  cx_status :: int
  cx_closing :: bool
  cx_contextGeneration :: u64
  cx_handleAuthority :: "VortekHandleRegistry ptr"
  cx_serverRing :: "RingBuffer ptr"
  cx_clientRing :: "RingBuffer ptr"
  extraDataRequests :: "ExtraDataRequest list"
  pendingExtraDataBytes :: size_t
  pendingExtraDataCount :: nat
  seenExtraDataRequestIds :: "u8 list"

definition VkContext_isClosing :: "VkContext ptr \<Rightarrow> bool" where
  "VkContext_isClosing context = (case context of None \<Rightarrow> True | Some c \<Rightarrow> cx_closing c \<or> cx_status c < 0)"

definition VkContext_requestStop :: "VkContext ptr \<Rightarrow> int \<Rightarrow> VkContext ptr" where
  "VkContext_requestStop context status =
     map_option (\<lambda>c. c\<lparr>cx_status := status, cx_closing := True,
       cx_handleAuthority := VortekHandleRegistry_beginClose (cx_handleAuthority c),
       cx_serverRing := map_option (\<lambda>r. RingBuffer_setStatus r RING_STATUS_EXIT) (cx_serverRing c),
       cx_clientRing := map_option (\<lambda>r. RingBuffer_setStatus r RING_STATUS_EXIT) (cx_clientRing c)\<rparr>) context"

text \<open>\<open>self\<close> is the address of the registry, \<open>next\<close> the counter of its tokens. Nothing is touched without a place for the lease.\<close>

definition VkContext_acquireDeviceLease ::
  "u64 \<Rightarrow> u64 \<Rightarrow> VkContext ptr \<Rightarrow> VortekHandleToken \<Rightarrow> bool \<Rightarrow> bool \<times> VortekDeviceLease option \<times> VkContext ptr" where
  "VkContext_acquireDeviceLease self next context deviceToken leaseOut =
     (case context of
        None \<Rightarrow> (False, None, None)
      | Some c \<Rightarrow>
          if \<not> leaseOut \<or> VkContext_isClosing context \<or> cx_handleAuthority c = None \<or> cx_contextGeneration c = 0
          then (False, None, context)
          else (case VortekHandleRegistry_acquireDeviceLease self (cx_handleAuthority c) next deviceToken
                       (cx_contextGeneration c) leaseOut of
                  (status, lease, authority) \<Rightarrow>
                    (status = VORTEK_HANDLE_OK, lease, Some (c\<lparr>cx_handleAuthority := authority\<rparr>))))"

section \<open>Deadlines\<close>

text \<open>Seconds and nanoseconds.\<close>

definition setDeadlineFromNow :: "int \<times> int \<Rightarrow> nat \<Rightarrow> int \<times> int" where
  "setDeadlineFromNow now timeoutMs =
     (let sec = fst now + int (timeoutMs div 1000);
          nsec = snd now + int (timeoutMs mod 1000) * 1000000
      in if 1000000000 \<le> nsec then (sec + 1, nsec - 1000000000) else (sec, nsec))"

definition monotonicMillis :: "nat \<times> nat \<Rightarrow> nat" where
  "monotonicMillis now = fst now * 1000 + snd now div 1000000"

text \<open>What happens in a turn of \<open>readExactBeforeDeadline\<close>: whether the context is closing, the clock, the answers to \<^verbatim>\<open>poll\<close>
  and to \<^verbatim>\<open>read\<close>, where \<^const>\<open>None\<close> is a call that was interrupted.\<close>

datatype poll_answer = Poll_error | Poll_timeout | Poll_events bool bool

record read_turn =
  rt_closing :: bool
  rt_now :: nat
  rt_polls :: "poll_answer option list"
  rt_reads :: "read_answer option list"

fun uninterrupted :: "'a option list \<Rightarrow> 'a option" where
  "uninterrupted [] = None"
| "uninterrupted (None # as) = uninterrupted as"
| "uninterrupted (Some a # as) = Some a"

text \<open>The result, the block and the timeouts given to \<^verbatim>\<open>poll\<close>. When the answers end the loop has not ended.\<close>

fun read_before_deadline ::
  "u8 list \<Rightarrow> nat \<Rightarrow> nat \<Rightarrow> nat \<Rightarrow> read_turn list \<Rightarrow> (bool \<times> u8 list \<times> nat list) option" where
  "read_before_deadline data current remaining deadline [] = (if remaining = 0 then Some (True, data, []) else None)"
| "read_before_deadline data current remaining deadline (t # ts) =
     (if remaining = 0 then Some (True, data, [])
      else if rt_closing t then Some (False, data, [])
      else if deadline \<le> rt_now t then Some (False, data, [])
      else let remainingMs = deadline - rt_now t;
               pollTimeout = (if 100 < remainingMs then 100 else remainingMs) in do {
        answer \<leftarrow> uninterrupted (rt_polls t);
        (case answer of
           Poll_error \<Rightarrow> Some (False, data, [pollTimeout])
         | Poll_timeout \<Rightarrow>
             map_option (\<lambda>(ok, d, ps). (ok, d, pollTimeout # ps)) (read_before_deadline data current remaining deadline ts)
         | Poll_events pollin hangup \<Rightarrow>
             (if \<not> pollin \<and> hangup then Some (False, data, [pollTimeout])
              else if \<not> pollin
              then map_option (\<lambda>(ok, d, ps). (ok, d, pollTimeout # ps)) (read_before_deadline data current remaining deadline ts)
              else do {
                r \<leftarrow> uninterrupted (rt_reads t);
                (case r of
                   End_of_file \<Rightarrow> Some (False, data, [pollTimeout])
                 | Read_error \<Rightarrow> Some (False, data, [pollTimeout])
                 | Data bytes \<Rightarrow>
                     (if bytes = [] \<or> remaining < length bytes then None
                      else do {
                        data' \<leftarrow> blit data current bytes;
                        map_option (\<lambda>(ok, d, ps). (ok, d, pollTimeout # ps))
                          (read_before_deadline data' (current + length bytes) (remaining - length bytes) deadline ts) })) })) })"

text \<open>\<open>start\<close> is the clock at the call.\<close>

definition readExactBeforeDeadline :: "u8 list \<Rightarrow> nat \<Rightarrow> nat \<Rightarrow> read_turn list \<Rightarrow> (bool \<times> u8 list \<times> nat list) option" where
  "readExactBeforeDeadline data sz start turns =
     read_before_deadline data 0 sz (start + VORTEK_EXTRA_DATA_WAIT_TIMEOUT_MS) turns"

section \<open>The extra-data queue\<close>

fun find_slot :: "(ExtraDataRequest \<Rightarrow> bool) \<Rightarrow> ExtraDataRequest list \<Rightarrow> nat \<Rightarrow> nat option" where
  "find_slot P [] i = None"
| "find_slot P (r # rs) i = (if P r then Some i else find_slot P rs (i + 1))"

definition findExtraDataRequestLocked :: "VkContext \<Rightarrow> u16 \<Rightarrow> ExtraDataState \<Rightarrow> nat option" where
  "findExtraDataRequestLocked c requestId st =
     find_slot (\<lambda>r. ed_state r = st \<and> ed_requestId r = requestId) (extraDataRequests c) 0"

definition findEmptyExtraDataSlotLocked :: "VkContext \<Rightarrow> nat option" where
  "findEmptyExtraDataSlotLocked c = find_slot (\<lambda>r. ed_state r = EXTRA_DATA_EMPTY) (extraDataRequests c) 0"

definition id_byte :: "u16 \<Rightarrow> nat" where
  "id_byte requestId = unat (drop_bit 3 requestId)"

definition id_bit :: "u16 \<Rightarrow> u8" where
  "id_bit requestId = push_bit (unat (requestId AND 7)) 1"

definition requestIdWasSeenLocked :: "VkContext \<Rightarrow> u16 \<Rightarrow> bool option" where
  "requestIdWasSeenLocked c requestId = do {
     b \<leftarrow> load (seenExtraDataRequestIds c) (id_byte requestId);
     Some (b AND id_bit requestId \<noteq> 0) }"

definition markRequestIdSeenLocked :: "VkContext \<Rightarrow> u16 \<Rightarrow> VkContext option" where
  "markRequestIdSeenLocked c requestId = do {
     b \<leftarrow> load (seenExtraDataRequestIds c) (id_byte requestId);
     seen \<leftarrow> store (seenExtraDataRequestIds c) (id_byte requestId) (b OR id_bit requestId);
     Some (c\<lparr>seenExtraDataRequestIds := seen\<rparr>) }"

text \<open>The budget goes down, not below 0.\<close>

definition unpend :: "size_t \<Rightarrow> VkContext \<Rightarrow> VkContext" where
  "unpend sz c = c\<lparr>
     pendingExtraDataBytes := (if sz \<le> pendingExtraDataBytes c then pendingExtraDataBytes c - sz else 0),
     pendingExtraDataCount := (if 0 < pendingExtraDataCount c then pendingExtraDataCount c - 1 else pendingExtraDataCount c)\<rparr>"

text \<open>A turn of the loop of \<open>waitForExtraDataRequest\<close>: it returns a slot, returns NULL, or waits.\<close>

datatype wait_turn = Wait_returns "nat option" | Wait_blocks

definition waitForExtraDataRequest_turn :: "VkContext \<Rightarrow> u16 \<Rightarrow> wait_turn \<times> VkContext" where
  "waitForExtraDataRequest_turn c requestId =
     (if VkContext_isClosing (Some c) then (Wait_returns None, c)
      else (case findExtraDataRequestLocked c requestId EXTRA_DATA_READY of
              Some k \<Rightarrow>
                (let r = extraDataRequests c ! k; c1 = unpend (ed_size r) c
                 in (Wait_returns (Some k),
                     c1\<lparr>extraDataRequests := (extraDataRequests c1)[k := r\<lparr>ed_state := EXTRA_DATA_READING\<rparr>]\<rparr>))
            | None \<Rightarrow> (Wait_blocks, c)))"

text \<open>The wait timed out or failed: it returns NULL.\<close>

definition waitForExtraDataRequest_failed :: "VkContext \<Rightarrow> VkContext" where
  "waitForExtraDataRequest_failed c = c\<lparr>cx_status := VK_ERROR_DEVICE_LOST, cx_closing := True\<rparr>"

definition releaseExtraDataRequest :: "VkContext \<Rightarrow> nat option \<Rightarrow> VkContext" where
  "releaseExtraDataRequest c request =
     (case request of
        None \<Rightarrow> c
      | Some k \<Rightarrow> c\<lparr>extraDataRequests := (extraDataRequests c)[k := zero_request]\<rparr>)"

text \<open>\<open>handleExtraDataRequest\<close> up to the read: the slot, if it was reserved. The subtraction from the budget is that of \<^verbatim>\<open>size_t\<close>.\<close>

definition handleExtraDataRequest_reserve :: "VkContext \<Rightarrow> u16 \<Rightarrow> int \<Rightarrow> (nat option \<times> VkContext) option" where
  "handleExtraDataRequest_reserve c requestId requestLength =
     (if requestLength < 0 \<or> int VORTEK_EXTRA_DATA_MAX_FRAME_SIZE < requestLength then Some (None, c)
      else let dataSize = nat requestLength in
      if VkContext_isClosing (Some c) then Some (None, c)
      else do {
        seen \<leftarrow> requestIdWasSeenLocked c requestId;
        (if seen \<or> VORTEK_EXTRA_DATA_MAX_PENDING \<le> pendingExtraDataCount c \<or>
            (VORTEK_EXTRA_DATA_MAX_AGGREGATE_SIZE + (SIZE_MAX + 1) - pendingExtraDataBytes c) mod (SIZE_MAX + 1) < dataSize
         then Some (None, c)
         else (case findEmptyExtraDataSlotLocked c of
                 None \<Rightarrow> Some (None, c)
               | Some k \<Rightarrow> do {
                   c1 \<leftarrow> markRequestIdSeenLocked c requestId;
                   Some (Some k, c1\<lparr>
                     extraDataRequests := (extraDataRequests c1)[k := (extraDataRequests c1 ! k)
                       \<lparr>ed_requestId := requestId, ed_size := dataSize, ed_state := EXTRA_DATA_READING\<rparr>],
                     pendingExtraDataBytes := (pendingExtraDataBytes c1 + dataSize) mod (SIZE_MAX + 1),
                     pendingExtraDataCount := (pendingExtraDataCount c1 + 1) mod 2 ^ 32\<rparr>) })) })"

text \<open>The read into a new block: whether it succeeded, and the block.\<close>

definition handleExtraDataRequest_read :: "size_t \<Rightarrow> bool \<Rightarrow> nat \<Rightarrow> read_turn list \<Rightarrow> (bool \<times> u8 list ptr) option" where
  "handleExtraDataRequest_read dataSize malloc_ok start turns =
     (if dataSize = 0 then Some (True, None)
      else if \<not> malloc_ok then Some (False, None)
      else map_option (\<lambda>(ok, data, _). (ok, Some data)) (readExactBeforeDeadline (replicate dataSize 0) dataSize start turns))"

text \<open>And after the read.\<close>

definition handleExtraDataRequest_finish :: "VkContext \<Rightarrow> nat \<Rightarrow> size_t \<Rightarrow> bool \<Rightarrow> u8 list ptr \<Rightarrow> bool \<times> VkContext" where
  "handleExtraDataRequest_finish c k dataSize success data =
     (if \<not> success \<or> VkContext_isClosing (Some c)
      then (let c1 = unpend dataSize c in (False, c1\<lparr>extraDataRequests := (extraDataRequests c1)[k := zero_request]\<rparr>))
      else (True, c\<lparr>extraDataRequests := (extraDataRequests c)[k := (extraDataRequests c ! k)
              \<lparr>ed_data := data, ed_state := EXTRA_DATA_READY\<rparr>]\<rparr>))"

end
