(* ===== verification/Extra_Data.thy ===== *)
theory Extra_Data
  imports Vk_Context
begin

text \<open>
  The queue for large requests as a machine: any number of readers reserve, read and finish; the request thread waits for
  ids, owns the slot it gets and frees it; anyone stops the context. Ghost lists record the ids accepted, what was read for
  an id, and what the request thread was handed.
\<close>

section \<open>The set of seen ids\<close>

lemma id_parts: "unat requestId = 8 * id_byte requestId + unat (requestId AND 7)"
proof -
  have "unat (requestId AND 7) = unat requestId AND 7" by (simp add: unsigned_and_eq)
  then have "unat (requestId AND 7) = unat requestId mod 8" using and_pow2_mask_nat [of "unat requestId" 3] by simp
  moreover have "id_byte requestId = unat requestId div 8"
    unfolding id_byte_def unat_drop_bit_eq by (simp add: drop_bit_eq_div)
  ultimately show ?thesis by simp
qed

lemma id_low: "unat (requestId AND (7 :: u16)) < 8"
proof -
  have "unat (requestId AND 7) = unat requestId AND 7" by (simp add: unsigned_and_eq)
  then show ?thesis using and_pow2_mask_nat [of "unat requestId" 3] by simp
qed

lemma id_byte_less: "id_byte requestId < 8192"
  using id_parts [of requestId] unsigned_less [of requestId, where ?'a = nat] by simp

lemma id_eq_iff: "a = b' \<longleftrightarrow> id_byte a = id_byte b' \<and> unat (a AND 7) = unat (b' AND 7)"
  using id_parts [of a] id_parts [of b'] by (metis unsigned_word_eqI)

lemma id_bit_test: "w AND id_bit requestId \<noteq> 0 \<longleftrightarrow> bit w (unat (requestId AND 7))"
  unfolding id_bit_def push_bit_of_1 using and_exp_eq_0_iff_not_bit [of w "unat (requestId AND 7)"] by simp

lemma id_bit_mark: "(w OR id_bit a) AND id_bit b' \<noteq> 0 \<longleftrightarrow> unat (a AND 7) = unat (b' AND 7) \<or> w AND id_bit b' \<noteq> 0"
  unfolding id_bit_test using id_low [of a] id_low [of b']
  by (auto simp: id_bit_def push_bit_of_1 bit_or_iff bit_exp_iff)

definition seen_ids :: "VkContext \<Rightarrow> u16 set" where
  "seen_ids c = {a. requestIdWasSeenLocked c a = Some True}"

lemma was_seen: "length (seenExtraDataRequestIds c) = 8192 \<Longrightarrow> requestIdWasSeenLocked c a = Some (a \<in> seen_ids c)"
  using id_byte_less [of a] by (simp add: seen_ids_def requestIdWasSeenLocked_def load_def)

lemma mark_seen:
  assumes "length (seenExtraDataRequestIds c) = 8192"
  obtains c' seen where "markRequestIdSeenLocked c a = Some c'" "c' = c\<lparr>seenExtraDataRequestIds := seen\<rparr>" "length seen = 8192"
    "seen_ids c' = insert a (seen_ids c)"
proof -
  let ?b = "seenExtraDataRequestIds c ! id_byte a"
  let ?seen = "(seenExtraDataRequestIds c)[id_byte a := ?b OR id_bit a]"
  have m: "markRequestIdSeenLocked c a = Some (c\<lparr>seenExtraDataRequestIds := ?seen\<rparr>)"
    using assms id_byte_less [of a] by (simp add: markRequestIdSeenLocked_def load_def store_def)
  have "b' \<in> seen_ids (c\<lparr>seenExtraDataRequestIds := ?seen\<rparr>) \<longleftrightarrow> b' = a \<or> b' \<in> seen_ids c" for b'
    using assms id_byte_less [of a] id_byte_less [of b'] id_bit_mark [of ?b a b'] id_eq_iff [of b' a]
    by (auto simp: seen_ids_def requestIdWasSeenLocked_def load_def nth_list_update)
  then show thesis using that [OF m refl] assms by auto
qed

lemma seen_ids_cong: "seenExtraDataRequestIds c' = seenExtraDataRequestIds c \<Longrightarrow> seen_ids c' = seen_ids c"
  by (simp add: seen_ids_def requestIdWasSeenLocked_def)

section \<open>Slots\<close>

lemma find_slot_Some: "find_slot P rs i = Some k \<Longrightarrow> i \<le> k \<and> k < i + length rs \<and> P (rs ! (k - i))"
proof (induction rs arbitrary: i)
  case (Cons r rs)
  show ?case
  proof (cases "P r")
    case False
    then have "i + 1 \<le> k \<and> k < (i + 1) + length rs \<and> P (rs ! (k - (i + 1)))" using Cons.IH [of "i + 1"] Cons.prems by simp
    then show ?thesis by (auto simp: nth_Cons')
  qed (use Cons.prems in auto)
qed simp

lemma find_slot_None: "find_slot P rs i = None \<longleftrightarrow> \<not> (\<exists>r\<in>set rs. P r)"
  by (induction rs arbitrary: i) auto

section \<open>The bytes of a read\<close>

lemma read_before_deadline_block:
  "read_before_deadline data current remaining deadline ts = Some (ok, data', ps) \<Longrightarrow> current + remaining = length data \<Longrightarrow>
    length data' = length data"
proof (induction ts arbitrary: data current remaining ps)
  case Nil
  then show ?case by (simp split: if_splits)
next
  case (Cons t ts)
  note IH = Cons.IH [OF _ Cons.prems(2)]
  show ?case
    using Cons.prems
  proof (clarsimp simp: Let_def split: if_splits poll_answer.splits read_answer.splits bind_splits)
  qed (auto dest: IH Cons.IH)
qed

text \<open>A successful read of \<open>sz\<close> bytes leaves a block of that size, NULL for none.\<close>

definition block_of :: "size_t \<Rightarrow> u8 list ptr \<Rightarrow> bool" where
  "block_of sz data \<longleftrightarrow> (if sz = 0 then data = None else \<exists>bytes. data = Some bytes \<and> length bytes = sz)"

lemma read_block:
  "handleExtraDataRequest_read sz malloc_ok start turns = Some (True, data) \<Longrightarrow> block_of sz data"
  unfolding handleExtraDataRequest_read_def readExactBeforeDeadline_def block_of_def
  by (auto split: if_splits dest!: read_before_deadline_block)

section \<open>The machine\<close>

datatype handler_state = Handler_idle | Handler_waits u16 | Handler_owns nat | Handler_stopped

record extra_machine =
  em_ctx :: VkContext
  em_readers :: "nat \<Rightarrow> (nat \<times> u16 \<times> size_t) option"
  em_handler :: handler_state
  em_accepted :: "u16 list"
  em_read :: "(u16 \<times> u8 list ptr) list"
  em_taken :: "(u16 \<times> u8 list ptr) list"

inductive extra_step :: "extra_machine \<Rightarrow> extra_machine \<Rightarrow> bool" where
  reserved: "em_readers s t = None \<Longrightarrow> handleExtraDataRequest_reserve (em_ctx s) a len = Some (Some k, c) \<Longrightarrow>
    extra_step s (s\<lparr>em_ctx := c, em_readers := (em_readers s)(t \<mapsto> (k, a, nat len)), em_accepted := em_accepted s @ [a]\<rparr>)"
| refused: "handleExtraDataRequest_reserve (em_ctx s) a len = Some (None, c) \<Longrightarrow> extra_step s (s\<lparr>em_ctx := c\<rparr>)"
| finished: "em_readers s t = Some (k, a, sz) \<Longrightarrow> handleExtraDataRequest_read sz malloc_ok start turns = Some (ok, data) \<Longrightarrow>
    handleExtraDataRequest_finish (em_ctx s) k sz ok data = (ready, c) \<Longrightarrow>
    extra_step s (s\<lparr>em_ctx := c, em_readers := (em_readers s)(t := None),
      em_read := (if ready then em_read s @ [(a, data)] else em_read s)\<rparr>)"
| waits: "em_handler s = Handler_idle \<Longrightarrow> extra_step s (s\<lparr>em_handler := Handler_waits a\<rparr>)"
| takes: "em_handler s = Handler_waits a \<Longrightarrow> waitForExtraDataRequest_turn (em_ctx s) a = (Wait_returns (Some k), c) \<Longrightarrow>
    extra_step s (s\<lparr>em_ctx := c, em_handler := Handler_owns k,
      em_taken := em_taken s @ [(a, ed_data (extraDataRequests c ! k))]\<rparr>)"
| blocks: "em_handler s = Handler_waits a \<Longrightarrow> waitForExtraDataRequest_turn (em_ctx s) a = (Wait_blocks, c) \<Longrightarrow>
    extra_step s (s\<lparr>em_ctx := c\<rparr>)"
| stops: "em_handler s = Handler_waits a \<Longrightarrow> waitForExtraDataRequest_turn (em_ctx s) a = (Wait_returns None, c) \<Longrightarrow>
    extra_step s (s\<lparr>em_ctx := c, em_handler := Handler_stopped\<rparr>)"
| times_out: "em_handler s = Handler_waits a \<Longrightarrow>
    extra_step s (s\<lparr>em_ctx := waitForExtraDataRequest_failed (em_ctx s), em_handler := Handler_stopped\<rparr>)"
| frees: "em_handler s = Handler_owns k \<Longrightarrow>
    extra_step s (s\<lparr>em_ctx := releaseExtraDataRequest (em_ctx s) (Some k), em_handler := Handler_idle\<rparr>)"
| stopped: "VkContext_requestStop (Some (em_ctx s)) status = Some c \<Longrightarrow> extra_step s (s\<lparr>em_ctx := c\<rparr>)"

text \<open>A new context.\<close>

definition extra_initial :: "extra_machine \<Rightarrow> bool" where
  "extra_initial s \<longleftrightarrow> extraDataRequests (em_ctx s) = replicate VORTEK_EXTRA_DATA_MAX_PENDING zero_request \<and>
     pendingExtraDataBytes (em_ctx s) = 0 \<and> pendingExtraDataCount (em_ctx s) = 0 \<and>
     seenExtraDataRequestIds (em_ctx s) = replicate 8192 0 \<and>
     em_readers s = (\<lambda>_. None) \<and> em_handler s = Handler_idle \<and> em_accepted s = [] \<and> em_read s = [] \<and> em_taken s = []"

inductive extra_reachable :: "extra_machine \<Rightarrow> bool" where
  init: "extra_initial s \<Longrightarrow> extra_reachable s"
| step: "extra_reachable s \<Longrightarrow> extra_step s s' \<Longrightarrow> extra_reachable s'"

section \<open>The invariant\<close>

text \<open>A slot counts against the budget until the request thread owns it.\<close>

definition pends :: "handler_state \<Rightarrow> ExtraDataRequest list \<Rightarrow> nat \<Rightarrow> bool" where
  "pends h slots k \<longleftrightarrow> ed_state (slots ! k) \<noteq> EXTRA_DATA_EMPTY \<and> h \<noteq> Handler_owns k"

definition pending_bytes :: "handler_state \<Rightarrow> ExtraDataRequest list \<Rightarrow> nat" where
  "pending_bytes h slots = (\<Sum>k<length slots. if pends h slots k then ed_size (slots ! k) else 0)"

definition pending_count :: "handler_state \<Rightarrow> ExtraDataRequest list \<Rightarrow> nat" where
  "pending_count h slots = (\<Sum>k<length slots. if pends h slots k then 1 else 0)"

definition ready_slot :: "ExtraDataRequest list \<Rightarrow> nat \<Rightarrow> bool" where
  "ready_slot slots k \<longleftrightarrow> k < length slots \<and> ed_state (slots ! k) = EXTRA_DATA_READY"

definition ready_data :: "ExtraDataRequest list \<Rightarrow> (u16 \<times> u8 list ptr) set" where
  "ready_data slots = (\<lambda>k. (ed_requestId (slots ! k), ed_data (slots ! k))) ` {k. ready_slot slots k}"

text \<open>Who owns the slots.\<close>

definition owners_ok :: "(nat \<Rightarrow> (nat \<times> u16 \<times> size_t) option) \<Rightarrow> handler_state \<Rightarrow> ExtraDataRequest list \<Rightarrow> bool" where
  "owners_ok readers h slots \<longleftrightarrow>
     (\<forall>t k a sz. readers t = Some (k, a, sz) \<longrightarrow> k < length slots \<and> ed_requestId (slots ! k) = a \<and> ed_size (slots ! k) = sz \<and>
        ed_state (slots ! k) = EXTRA_DATA_READING \<and> h \<noteq> Handler_owns k) \<and>
     (\<forall>t t' k a sz a' sz'. readers t = Some (k, a, sz) \<longrightarrow> readers t' = Some (k, a', sz') \<longrightarrow> t = t') \<and>
     (\<forall>k. h = Handler_owns k \<longrightarrow> k < length slots \<and> ed_state (slots ! k) = EXTRA_DATA_READING) \<and>
     (\<forall>k<length slots. ed_state (slots ! k) = EXTRA_DATA_READING \<longrightarrow> h = Handler_owns k \<or> (\<exists>t a sz. readers t = Some (k, a, sz)))"

text \<open>What the ids tell.\<close>

definition slot_id :: "ExtraDataRequest list \<Rightarrow> nat \<Rightarrow> u16" where
  "slot_id slots k = ed_requestId (slots ! k)"

definition pending_slots :: "handler_state \<Rightarrow> ExtraDataRequest list \<Rightarrow> nat set" where
  "pending_slots h slots = {k. k < length slots \<and> pends h slots k}"

definition reading_slots :: "handler_state \<Rightarrow> ExtraDataRequest list \<Rightarrow> nat set" where
  "reading_slots h slots = {k \<in> pending_slots h slots. ed_state (slots ! k) = EXTRA_DATA_READING}"

definition ids_ok :: "handler_state \<Rightarrow> ExtraDataRequest list \<Rightarrow> u16 list \<Rightarrow> (u16 \<times> u8 list ptr) list \<Rightarrow> (u16 \<times> u8 list ptr) list \<Rightarrow> bool" where
  "ids_ok h slots accepted reads given \<longleftrightarrow> distinct accepted \<and>
     slot_id slots ` pending_slots h slots \<subseteq> set accepted - fst ` set given \<and> inj_on (slot_id slots) (pending_slots h slots) \<and>
     slot_id slots ` reading_slots h slots \<inter> fst ` set reads = {} \<and>
     set reads = set given \<union> ready_data slots \<and> fst ` set reads \<subseteq> set accepted \<and>
     distinct (map fst reads) \<and> distinct (map fst given)"

definition extra_ok :: "extra_machine \<Rightarrow> bool" where
  "extra_ok s \<longleftrightarrow> (let c = em_ctx s; slots = extraDataRequests c in
     length slots = VORTEK_EXTRA_DATA_MAX_PENDING \<and> length (seenExtraDataRequestIds c) = 8192 \<and>
     owners_ok (em_readers s) (em_handler s) slots \<and>
     pendingExtraDataBytes c = pending_bytes (em_handler s) slots \<and>
     pending_bytes (em_handler s) slots \<le> VORTEK_EXTRA_DATA_MAX_AGGREGATE_SIZE \<and>
     pendingExtraDataCount c = pending_count (em_handler s) slots \<and>
     seen_ids c = set (em_accepted s) \<and>
     (\<forall>k. ready_slot slots k \<longrightarrow> block_of (ed_size (slots ! k)) (ed_data (slots ! k))) \<and>
     ids_ok (em_handler s) slots (em_accepted s) (em_read s) (em_taken s))"

section \<open>Changing one slot\<close>

lemma pends_update: "k < length slots \<Longrightarrow> pends h (slots[k := r]) j \<longleftrightarrow>
    (if j = k then ed_state r \<noteq> EXTRA_DATA_EMPTY \<and> h \<noteq> Handler_owns k else pends h slots j)"
  by (simp add: pends_def)

lemma sum_change:
  fixes f g :: "nat \<Rightarrow> nat"
  assumes "k < n" "\<And>j. j \<noteq> k \<Longrightarrow> g j = f j"
  shows "(\<Sum>j<n. g j) + f k = (\<Sum>j<n. f j) + g k"
proof -
  have "(\<Sum>j<n. g j) = g k + (\<Sum>j\<in>{..<n} - {k}. g j)" "(\<Sum>j<n. f j) = f k + (\<Sum>j\<in>{..<n} - {k}. f j)"
    using assms(1) by (simp_all add: sum.remove)
  moreover have "(\<Sum>j\<in>{..<n} - {k}. g j) = (\<Sum>j\<in>{..<n} - {k}. f j)" by (rule sum.cong) (simp_all add: assms(2))
  ultimately show ?thesis by simp
qed

lemma pending_change:
  assumes "k < length slots" "\<And>j. j \<noteq> k \<Longrightarrow> h' = Handler_owns j \<longleftrightarrow> h = Handler_owns j"
  shows "pending_bytes h' (slots[k := r]) + (if pends h slots k then ed_size (slots ! k) else 0) =
      pending_bytes h slots + (if pends h' (slots[k := r]) k then ed_size r else 0)"
    and "pending_count h' (slots[k := r]) + (if pends h slots k then 1 else 0) =
      pending_count h slots + (if pends h' (slots[k := r]) k then 1 else 0)"
proof -
  have p: "pends h' (slots[k := r]) j = pends h slots j" if "j \<noteq> k" for j using that assms(2) [OF that] by (simp add: pends_def)
  let ?f = "\<lambda>j. if pends h slots j then ed_size (slots ! j) else 0"
  let ?g = "\<lambda>j. if pends h' (slots[k := r]) j then ed_size (slots[k := r] ! j) else 0"
  have "(\<Sum>j<length slots. ?g j) + ?f k = (\<Sum>j<length slots. ?f j) + ?g k"
    by (rule sum_change [OF assms(1)]) (simp add: p)
  then show "pending_bytes h' (slots[k := r]) + (if pends h slots k then ed_size (slots ! k) else 0) =
      pending_bytes h slots + (if pends h' (slots[k := r]) k then ed_size r else 0)"
    using assms(1) by (simp add: pending_bytes_def)
  let ?c = "\<lambda>j. if pends h slots j then 1 else 0 :: nat"
  let ?d = "\<lambda>j. if pends h' (slots[k := r]) j then 1 else 0 :: nat"
  have "(\<Sum>j<length slots. ?d j) + ?c k = (\<Sum>j<length slots. ?c j) + ?d k"
    by (rule sum_change [OF assms(1)]) (simp add: p)
  then show "pending_count h' (slots[k := r]) + (if pends h slots k then 1 else 0) =
      pending_count h slots + (if pends h' (slots[k := r]) k then 1 else 0)"
    using assms(1) by (simp add: pending_count_def)
qed

lemma pending_count_bound: "pending_count h slots \<le> length slots"
proof -
  have "pending_count h slots \<le> (\<Sum>k<length slots. 1)" unfolding pending_count_def by (rule sum_mono) simp
  then show ?thesis by simp
qed

lemma pending_handler:
  assumes "\<And>k. h' = Handler_owns k \<longleftrightarrow> h = Handler_owns k"
  shows "pends h' = pends h" "pending_bytes h' = pending_bytes h" "pending_count h' = pending_count h"
    "owners_ok readers h' = owners_ok readers h" "ids_ok h' = ids_ok h"
proof -
  show p: "pends h' = pends h" using assms by (auto simp: pends_def fun_eq_iff)
  show "pending_bytes h' = pending_bytes h" "pending_count h' = pending_count h"
    unfolding pending_bytes_def pending_count_def p by simp_all
  show "owners_ok readers h' = owners_ok readers h" using assms by (auto simp: owners_ok_def fun_eq_iff)
  show "ids_ok h' = ids_ok h" unfolding ids_ok_def pending_slots_def reading_slots_def p by simp
qed

section \<open>The steps keep the invariant\<close>

lemma owners_reserve:
  assumes "owners_ok readers h slots" "k < length slots" "ed_state (slots ! k) = EXTRA_DATA_EMPTY" "readers t = None"
  shows "owners_ok (readers(t \<mapsto> (k, a, sz))) h (slots[k := (slots ! k)\<lparr>ed_requestId := a, ed_size := sz, ed_state := EXTRA_DATA_READING\<rparr>])"
proof -
  have r: "\<And>t a sz. readers t \<noteq> Some (k, a, sz)" "h \<noteq> Handler_owns k" using assms(1,3) unfolding owners_ok_def by force+
  show ?thesis using assms r unfolding owners_ok_def
    by (intro conjI allI impI) (auto simp: nth_list_update split: if_splits, metis option.distinct(1))
qed

lemma owners_finish:
  assumes "owners_ok readers h slots" "readers t = Some (k, a, sz)" "ed_state r \<noteq> EXTRA_DATA_READING"
  shows "owners_ok (readers(t := None)) h (slots[k := r])"
proof -
  have k: "k < length slots" "h \<noteq> Handler_owns k" "\<And>t' a' sz'. readers t' = Some (k, a', sz') \<Longrightarrow> t' = t"
    using assms(1,2) unfolding owners_ok_def by (blast+)
  have n: "(slots[k := r]) ! j = (if j = k then r else slots ! j)" for j using k(1) by simp
  have j: "j \<noteq> k" if "(readers(t := None)) t' = Some (j, a', sz')" for t' j a' sz'
    using k(3) [of t' a' sz'] that by (auto split: if_splits)
  show ?thesis
    unfolding owners_ok_def n length_list_update
  proof (intro conjI allI impI)
    fix t' j a' sz'
    assume r: "(readers(t := None)) t' = Some (j, a', sz')"
    then have "readers t' = Some (j, a', sz')" by (simp split: if_splits)
    then have "j < length slots \<and> ed_requestId (slots ! j) = a' \<and> ed_size (slots ! j) = sz' \<and>
        ed_state (slots ! j) = EXTRA_DATA_READING \<and> h \<noteq> Handler_owns j" using assms(1) unfolding owners_ok_def by blast
    then show "j < length slots" "ed_requestId (if j = k then r else slots ! j) = a'" "ed_size (if j = k then r else slots ! j) = sz'"
      "ed_state (if j = k then r else slots ! j) = EXTRA_DATA_READING" "h \<noteq> Handler_owns j"
      using j [OF r] by simp_all
  next
    fix t1 t2 j a1 sz1 a2 sz2
    assume "(readers(t := None)) t1 = Some (j, a1, sz1)" "(readers(t := None)) t2 = Some (j, a2, sz2)"
    then have "readers t1 = Some (j, a1, sz1)" "readers t2 = Some (j, a2, sz2)" by (simp_all split: if_splits)
    then show "t1 = t2" using assms(1) unfolding owners_ok_def by blast
  next
    fix j assume "h = Handler_owns j"
    then show "j < length slots" "ed_state (if j = k then r else slots ! j) = EXTRA_DATA_READING"
      using k(2) assms(1) unfolding owners_ok_def by auto
  next
    fix j assume jr: "j < length slots" "ed_state (if j = k then r else slots ! j) = EXTRA_DATA_READING"
    then have jk: "j \<noteq> k" "ed_state (slots ! j) = EXTRA_DATA_READING" using assms(3) by (auto split: if_splits)
    then consider "h = Handler_owns j" | t' a' sz' where "readers t' = Some (j, a', sz')"
      using assms(1) jr(1) unfolding owners_ok_def by blast
    then show "h = Handler_owns j \<or> (\<exists>t' a' sz'. (readers(t := None)) t' = Some (j, a', sz'))"
    proof cases
      case 2
      then have "t' \<noteq> t" using assms(2) jk(1) by auto
      then show ?thesis using 2 by auto
    qed simp
  qed
qed

lemma owners_take:
  assumes "owners_ok readers (Handler_waits a) slots" "k < length slots" "ed_state (slots ! k) = EXTRA_DATA_READY"
  shows "owners_ok readers (Handler_owns k) (slots[k := (slots ! k)\<lparr>ed_state := EXTRA_DATA_READING\<rparr>])"
proof -
  have r: "\<And>t a sz. readers t \<noteq> Some (k, a, sz)" using assms(1,3) unfolding owners_ok_def by force
  have r': "k' \<noteq> k" if "readers t = Some (k', a, sz)" for t k' a sz using that r by auto
  have "h = Handler_owns j \<or> (\<exists>t a sz. readers t = Some (j, a, sz))" if "j < length slots" "j \<noteq> k" "ed_state (slots ! j) = EXTRA_DATA_READING" for j h
    using assms(1) that unfolding owners_ok_def by auto
  then show ?thesis using assms r' unfolding owners_ok_def
    by (intro conjI allI impI) (auto simp: nth_list_update split: if_splits)
qed

lemma owners_free:
  assumes "owners_ok readers (Handler_owns k) slots"
  shows "owners_ok readers Handler_idle (slots[k := zero_request])"
proof -
  have k: "k < length slots" "\<And>t k' a sz. readers t = Some (k', a, sz) \<Longrightarrow> k' \<noteq> k" using assms unfolding owners_ok_def by auto
  then show ?thesis using assms unfolding owners_ok_def
    by (intro conjI allI impI) (auto simp: nth_list_update zero_request_def split: if_splits)
qed

section \<open>Ids\<close>

lemma ready_data_update:
  assumes "k < length slots"
  shows "ready_data (slots[k := r]) = (if ed_state r = EXTRA_DATA_READY then {(ed_requestId r, ed_data r)} else {}) \<union>
    (\<lambda>j. (ed_requestId (slots ! j), ed_data (slots ! j))) ` {j. ready_slot slots j \<and> j \<noteq> k}"
  using assms by (auto simp: ready_data_def ready_slot_def nth_list_update image_iff split: if_splits)

lemma ready_data_unready: "k < length slots \<Longrightarrow> ed_state (slots ! k) \<noteq> EXTRA_DATA_READY \<Longrightarrow>
    (\<lambda>j. (ed_requestId (slots ! j), ed_data (slots ! j))) ` {j. ready_slot slots j \<and> j \<noteq> k} = ready_data slots"
  by (auto simp: ready_data_def ready_slot_def)

lemma slot_id_update: "k < length slots \<Longrightarrow> slot_id (slots[k := r]) j = (if j = k then ed_requestId r else slot_id slots j)"
  by (simp add: slot_id_def)

lemma slot_id_away: "k < length slots \<Longrightarrow> k \<notin> K \<Longrightarrow> slot_id (slots[k := r]) ` K = slot_id slots ` K"
    "k < length slots \<Longrightarrow> k \<notin> K \<Longrightarrow> inj_on (slot_id (slots[k := r])) K = inj_on (slot_id slots) K"
proof -
  assume a: "k < length slots" "k \<notin> K"
  then have e: "slot_id (slots[k := r]) x = slot_id slots x" if "x \<in> K" for x using that by (auto simp: slot_id_update)
  show "slot_id (slots[k := r]) ` K = slot_id slots ` K" by (rule image_cong [OF refl e])
  show "inj_on (slot_id (slots[k := r])) K = inj_on (slot_id slots) K" by (rule inj_on_cong [OF e])
qed

lemma ids_reserve:
  assumes "ids_ok h slots accepted reads given" "k < length slots" "ed_state (slots ! k) = EXTRA_DATA_EMPTY"
    and "h \<noteq> Handler_owns k" "a \<notin> set accepted"
  shows "ids_ok h (slots[k := (slots ! k)\<lparr>ed_requestId := a, ed_size := sz, ed_state := EXTRA_DATA_READING\<rparr>]) (accepted @ [a]) reads given"
    (is "ids_ok h ?slots _ _ _")
proof -
  have d: "ready_data ?slots = ready_data slots" using assms(2,3) by (simp add: ready_data_update ready_data_unready)
  have k: "k \<notin> pending_slots h slots" "k \<notin> reading_slots h slots" using assms(3) by (simp_all add: pending_slots_def reading_slots_def pends_def)
  have p: "pending_slots h ?slots = insert k (pending_slots h slots)"
    using assms(2,4) by (auto simp: pending_slots_def pends_update)
  have r: "reading_slots h ?slots = insert k (reading_slots h slots)"
    using assms(2,4) k unfolding reading_slots_def p by (auto simp: nth_list_update)
  have ka: "slot_id ?slots k = a" using assms(2) by (simp add: slot_id_update)
  have i: "slot_id slots ` pending_slots h slots \<subseteq> set accepted - fst ` set given" "inj_on (slot_id slots) (pending_slots h slots)"
    "slot_id slots ` reading_slots h slots \<inter> fst ` set reads = {}" "fst ` set reads \<subseteq> set accepted" "set reads = set given \<union> ready_data slots"
    "distinct accepted" "distinct (map fst reads)" "distinct (map fst given)"
    using assms(1) unfolding ids_ok_def by blast+
  have g: "fst ` set given \<subseteq> set accepted" using i(4,5) by blast
  have "slot_id ?slots ` pending_slots h ?slots \<subseteq> set (accepted @ [a]) - fst ` set given"
    unfolding p image_insert ka slot_id_away(1) [OF assms(2) k(1)] using i(1) g assms(5) by auto
  moreover have "inj_on (slot_id ?slots) (pending_slots h ?slots)"
  proof -
    have "a \<notin> slot_id slots ` pending_slots h slots" using i(1) assms(5) by blast
    moreover have e: "pending_slots h slots - {k} = pending_slots h slots" using k(1) by blast
    ultimately show ?thesis using i(2)
      unfolding p inj_on_insert slot_id_away(2) [OF assms(2) k(1)] e ka slot_id_away(1) [OF assms(2) k(1)]
      by simp
  qed
  moreover have "slot_id ?slots ` reading_slots h ?slots \<inter> fst ` set reads = {}"
    unfolding r image_insert ka slot_id_away(1) [OF assms(2) k(2)] using i(3,4) assms(5) by blast
  moreover have "distinct (accepted @ [a])" using i(6) assms(5) by simp
  moreover have "fst ` set reads \<subseteq> set (accepted @ [a])" using i(4) by auto
  ultimately show ?thesis unfolding ids_ok_def d using i(5,7,8) by blast
qed

text \<open>A slot that no longer counts.\<close>

lemma ids_leave:
  assumes "ids_ok h slots accepted reads given" "k < length slots" "pending_slots h' (slots[k := r]) = pending_slots h slots - {k}"
    and "fst ` set given' \<inter> slot_id slots ` (pending_slots h slots - {k}) = {}" "distinct (map fst given')"
    and "set given' \<union> ready_data (slots[k := r]) = set given \<union> ready_data slots"
  shows "ids_ok h' (slots[k := r]) accepted reads given'"
proof -
  let ?slots = "slots[k := r]"
  have k: "k \<notin> pending_slots h slots - {k}" by simp
  have rs: "reading_slots h' ?slots = reading_slots h slots - {k}"
    unfolding reading_slots_def assms(3) using assms(2) by (auto simp: nth_list_update)
  have k2: "k \<notin> reading_slots h slots - {k}" by simp
  have i: "slot_id slots ` pending_slots h slots \<subseteq> set accepted - fst ` set given" "inj_on (slot_id slots) (pending_slots h slots)"
    "slot_id slots ` reading_slots h slots \<inter> fst ` set reads = {}" "fst ` set reads \<subseteq> set accepted" "set reads = set given \<union> ready_data slots"
    "distinct accepted" "distinct (map fst reads)"
    using assms(1) unfolding ids_ok_def by blast+
  show ?thesis
    unfolding ids_ok_def rs assms(3) slot_id_away(1) [OF assms(2) k] slot_id_away(1) [OF assms(2) k2] slot_id_away(2) [OF assms(2) k] assms(6)
  proof (intro conjI)
    show "slot_id slots ` (pending_slots h slots - {k}) \<subseteq> set accepted - fst ` set given'" using i(1) assms(4) by blast
    show "inj_on (slot_id slots) (pending_slots h slots - {k})" using i(2) by (rule inj_on_subset) blast
    show "slot_id slots ` (reading_slots h slots - {k}) \<inter> fst ` set reads = {}" using i(3) by blast
  qed (use i assms(5) in auto)
qed

lemma ids_finish_failed:
  assumes "ids_ok h slots accepted reads given" "k < length slots" "ed_state (slots ! k) = EXTRA_DATA_READING"
  shows "ids_ok h (slots[k := zero_request]) accepted reads given"
proof (rule ids_leave [OF assms(1,2)])
  show "pending_slots h (slots[k := zero_request]) = pending_slots h slots - {k}"
    using assms(2) by (auto simp: pending_slots_def pends_update zero_request_def)
  have "ready_data (slots[k := zero_request]) = ready_data slots"
    using assms(2,3) by (simp add: ready_data_update ready_data_unready zero_request_def)
  then show "set given \<union> ready_data (slots[k := zero_request]) = set given \<union> ready_data slots" by simp
  show "fst ` set given \<inter> slot_id slots ` (pending_slots h slots - {k}) = {}" "distinct (map fst given)"
    using assms(1) unfolding ids_ok_def by blast+
qed

lemma ids_free:
  assumes "ids_ok (Handler_owns k) slots accepted reads given" "k < length slots" "ed_state (slots ! k) = EXTRA_DATA_READING"
  shows "ids_ok Handler_idle (slots[k := zero_request]) accepted reads given"
proof (rule ids_leave [OF assms(1,2)])
  show "pending_slots Handler_idle (slots[k := zero_request]) = pending_slots (Handler_owns k) slots - {k}"
    using assms(2) by (auto simp: pending_slots_def pends_def zero_request_def nth_list_update split: if_splits)
  have "ready_data (slots[k := zero_request]) = ready_data slots"
    using assms(2,3) by (simp add: ready_data_update ready_data_unready zero_request_def)
  then show "set given \<union> ready_data (slots[k := zero_request]) = set given \<union> ready_data slots" by simp
  show "fst ` set given \<inter> slot_id slots ` (pending_slots (Handler_owns k) slots - {k}) = {}" "distinct (map fst given)"
    using assms(1) unfolding ids_ok_def by blast+
qed

lemma ids_take:
  assumes "ids_ok (Handler_waits b) slots accepted reads given" "k < length slots" "ed_state (slots ! k) = EXTRA_DATA_READY"
  shows "ids_ok (Handler_owns k) (slots[k := (slots ! k)\<lparr>ed_state := EXTRA_DATA_READING\<rparr>]) accepted reads
    (given @ [(slot_id slots k, ed_data (slots ! k))])" (is "ids_ok _ ?slots _ _ ?given")
proof (rule ids_leave [OF assms(1,2)])
  have k: "k \<in> pending_slots (Handler_waits b) slots" using assms(2,3) by (simp add: pending_slots_def pends_def)
  have i: "slot_id slots ` pending_slots (Handler_waits b) slots \<subseteq> set accepted - fst ` set given"
    "inj_on (slot_id slots) (pending_slots (Handler_waits b) slots)" "distinct (map fst given)"
    using assms(1) unfolding ids_ok_def by blast+
  show "pending_slots (Handler_owns k) ?slots = pending_slots (Handler_waits b) slots - {k}"
    using assms(2) by (auto simp: pending_slots_def pends_def nth_list_update split: if_splits)
  have "slot_id slots k \<notin> slot_id slots ` (pending_slots (Handler_waits b) slots - {k})" using inj_onD [OF i(2) _ k] by blast
  then show "fst ` set ?given \<inter> slot_id slots ` (pending_slots (Handler_waits b) slots - {k}) = {}" using i(1) by auto
  have "slot_id slots k \<notin> fst ` set given" using i(1) k by blast
  then show "distinct (map fst ?given)" using i(3) by simp
  have "ready_data slots = insert (slot_id slots k, ed_data (slots ! k)) (ready_data ?slots)"
    using assms(2,3) by (auto simp: slot_id_def ready_data_def ready_slot_def nth_list_update image_iff split: if_splits)
  then show "set ?given \<union> ready_data ?slots = set given \<union> ready_data slots" by simp
qed

lemma ids_finish_ready:
  assumes "ids_ok h slots accepted reads given" "k < length slots" "ed_state (slots ! k) = EXTRA_DATA_READING" "h \<noteq> Handler_owns k"
  shows "ids_ok h (slots[k := (slots ! k)\<lparr>ed_data := data, ed_state := EXTRA_DATA_READY\<rparr>]) accepted (reads @ [(slot_id slots k, data)]) given"
    (is "ids_ok h ?slots _ _ _")
proof -
  have k: "k \<in> pending_slots h slots" "k \<in> reading_slots h slots" using assms(2-4) by (simp_all add: pending_slots_def reading_slots_def pends_def)
  have p: "pending_slots h ?slots = pending_slots h slots" using assms(2,3) by (auto simp: pending_slots_def pends_update) (simp_all add: pends_def)
  have r: "reading_slots h ?slots = reading_slots h slots - {k}"
    unfolding reading_slots_def p using assms(2) by (auto simp: nth_list_update)
  have s: "slot_id ?slots = slot_id slots" using assms(2) by (auto simp: fun_eq_iff slot_id_update) (simp add: slot_id_def)
  have d: "ready_data ?slots = insert (slot_id slots k, data) (ready_data slots)"
    using assms(2,3) by (simp add: ready_data_update ready_data_unready slot_id_def)
  have i: "slot_id slots ` pending_slots h slots \<subseteq> set accepted - fst ` set given" "inj_on (slot_id slots) (pending_slots h slots)"
    "slot_id slots ` reading_slots h slots \<inter> fst ` set reads = {}" "fst ` set reads \<subseteq> set accepted" "set reads = set given \<union> ready_data slots"
    "distinct accepted" "distinct (map fst reads)" "distinct (map fst given)"
    using assms(1) unfolding ids_ok_def by blast+
  have sub: "reading_slots h slots \<subseteq> pending_slots h slots" by (auto simp: reading_slots_def)
  have "slot_id slots k \<notin> slot_id slots ` (reading_slots h slots - {k})" using inj_onD [OF i(2) _ k(1)] sub by blast
  then have "slot_id slots ` (reading_slots h slots - {k}) \<inter> fst ` set (reads @ [(slot_id slots k, data)]) = {}" using i(3) by auto
  moreover have "slot_id slots k \<notin> fst ` set reads" using i(3) k(2) by blast
  then have "distinct (map fst (reads @ [(slot_id slots k, data)]))" using i(7) by simp
  moreover have "set (reads @ [(slot_id slots k, data)]) = set given \<union> insert (slot_id slots k, data) (ready_data slots)" using i(5) by simp
  moreover have "fst ` set (reads @ [(slot_id slots k, data)]) \<subseteq> set accepted" using i(1,4) k(1) by auto
  ultimately show ?thesis unfolding ids_ok_def p r s d using i(1,2,6,8) by blast
qed

section \<open>The invariant holds\<close>

lemma unpend_simps [simp]:
  "extraDataRequests (unpend sz c) = extraDataRequests c" "seenExtraDataRequestIds (unpend sz c) = seenExtraDataRequestIds c"
  "pendingExtraDataBytes (unpend sz c) = pendingExtraDataBytes c - sz" "pendingExtraDataCount (unpend sz c) = pendingExtraDataCount c - 1"
  by (auto simp: unpend_def)

lemma extra_ok_parts:
  assumes "extra_ok s"
  shows "length (extraDataRequests (em_ctx s)) = 32" "length (seenExtraDataRequestIds (em_ctx s)) = 8192"
    "owners_ok (em_readers s) (em_handler s) (extraDataRequests (em_ctx s))"
    "pendingExtraDataBytes (em_ctx s) = pending_bytes (em_handler s) (extraDataRequests (em_ctx s))"
    "pending_bytes (em_handler s) (extraDataRequests (em_ctx s)) \<le> VORTEK_EXTRA_DATA_MAX_AGGREGATE_SIZE"
    "pendingExtraDataCount (em_ctx s) = pending_count (em_handler s) (extraDataRequests (em_ctx s))"
    "seen_ids (em_ctx s) = set (em_accepted s)"
    "\<And>k. ready_slot (extraDataRequests (em_ctx s)) k \<Longrightarrow>
      block_of (ed_size (extraDataRequests (em_ctx s) ! k)) (ed_data (extraDataRequests (em_ctx s) ! k))"
    "ids_ok (em_handler s) (extraDataRequests (em_ctx s)) (em_accepted s) (em_read s) (em_taken s)"
  using assms by (simp_all add: extra_ok_def Let_def extra_defs)

lemma extra_okI:
  assumes "length (extraDataRequests (em_ctx s)) = 32" "length (seenExtraDataRequestIds (em_ctx s)) = 8192"
    "owners_ok (em_readers s) (em_handler s) (extraDataRequests (em_ctx s))"
    "pendingExtraDataBytes (em_ctx s) = pending_bytes (em_handler s) (extraDataRequests (em_ctx s))"
    "pending_bytes (em_handler s) (extraDataRequests (em_ctx s)) \<le> VORTEK_EXTRA_DATA_MAX_AGGREGATE_SIZE"
    "pendingExtraDataCount (em_ctx s) = pending_count (em_handler s) (extraDataRequests (em_ctx s))"
    "seen_ids (em_ctx s) = set (em_accepted s)"
    "\<And>k. ready_slot (extraDataRequests (em_ctx s)) k \<Longrightarrow>
      block_of (ed_size (extraDataRequests (em_ctx s) ! k)) (ed_data (extraDataRequests (em_ctx s) ! k))"
    "ids_ok (em_handler s) (extraDataRequests (em_ctx s)) (em_accepted s) (em_read s) (em_taken s)"
  shows "extra_ok s"
  using assms by (simp add: extra_ok_def Let_def extra_defs)

text \<open>Steps that leave the queue alone.\<close>

lemma extra_ok_context:
  assumes "extra_ok s" "extraDataRequests c = extraDataRequests (em_ctx s)" "seenExtraDataRequestIds c = seenExtraDataRequestIds (em_ctx s)"
    "pendingExtraDataBytes c = pendingExtraDataBytes (em_ctx s)" "pendingExtraDataCount c = pendingExtraDataCount (em_ctx s)"
    "\<And>k. h = Handler_owns k \<longleftrightarrow> em_handler s = Handler_owns k"
  shows "extra_ok (s\<lparr>em_ctx := c, em_handler := h\<rparr>)"
  using extra_ok_parts [OF assms(1)] pending_handler [OF assms(6)] assms(2-5) seen_ids_cong [OF assms(3)]
  by (intro extra_okI) simp_all

lemma reserve_effect:
  assumes "handleExtraDataRequest_reserve c a len = Some (Some k, c')"
    and "length (extraDataRequests c) = 32" "length (seenExtraDataRequestIds c) = 8192"
    and "pendingExtraDataBytes c \<le> VORTEK_EXTRA_DATA_MAX_AGGREGATE_SIZE"
  shows "k < 32" "ed_state (extraDataRequests c ! k) = EXTRA_DATA_EMPTY" "a \<notin> seen_ids c" "seen_ids c' = insert a (seen_ids c)"
    "length (seenExtraDataRequestIds c') = 8192"
    "extraDataRequests c' = (extraDataRequests c)[k := (extraDataRequests c ! k)
       \<lparr>ed_requestId := a, ed_size := nat len, ed_state := EXTRA_DATA_READING\<rparr>]"
    "pendingExtraDataBytes c' = pendingExtraDataBytes c + nat len" "pendingExtraDataBytes c' \<le> VORTEK_EXTRA_DATA_MAX_AGGREGATE_SIZE"
    "pendingExtraDataCount c' = pendingExtraDataCount c + 1"
proof -
  obtain c1 seen where m: "markRequestIdSeenLocked c a = Some c1" "c1 = c\<lparr>seenExtraDataRequestIds := seen\<rparr>" "length seen = 8192"
    "seen_ids c1 = insert a (seen_ids c)" by (rule mark_seen [OF assms(3)])
  have budget: "(VORTEK_EXTRA_DATA_MAX_AGGREGATE_SIZE + (SIZE_MAX + 1) - pendingExtraDataBytes c) mod (SIZE_MAX + 1) =
      VORTEK_EXTRA_DATA_MAX_AGGREGATE_SIZE - pendingExtraDataBytes c"
  proof -
    have "VORTEK_EXTRA_DATA_MAX_AGGREGATE_SIZE + (SIZE_MAX + 1) - pendingExtraDataBytes c =
        (VORTEK_EXTRA_DATA_MAX_AGGREGATE_SIZE - pendingExtraDataBytes c) + (SIZE_MAX + 1)" using assms(4) by simp
    moreover have "VORTEK_EXTRA_DATA_MAX_AGGREGATE_SIZE - pendingExtraDataBytes c < SIZE_MAX + 1" by (simp add: extra_defs SIZE_MAX_def)
    ultimately show ?thesis by (simp only: mod_add_self2 mod_less)
  qed
  from assms(1) have g: "a \<notin> seen_ids c" "pendingExtraDataCount c < 32" "nat len \<le> VORTEK_EXTRA_DATA_MAX_AGGREGATE_SIZE - pendingExtraDataBytes c"
    "findEmptyExtraDataSlotLocked c = Some k"
    and c': "c' = c1\<lparr>extraDataRequests := (extraDataRequests c1)[k := (extraDataRequests c1 ! k)
        \<lparr>ed_requestId := a, ed_size := nat len, ed_state := EXTRA_DATA_READING\<rparr>],
      pendingExtraDataBytes := (pendingExtraDataBytes c1 + nat len) mod (SIZE_MAX + 1),
      pendingExtraDataCount := (pendingExtraDataCount c1 + 1) mod 2 ^ 32\<rparr>"
    unfolding handleExtraDataRequest_reserve_def was_seen [OF assms(3)] Option.bind.simps m(1) budget Let_def
    by (auto simp: VORTEK_EXTRA_DATA_MAX_PENDING_def not_le not_less split: if_splits option.splits)
  have k: "k < 32" "ed_state (extraDataRequests c ! k) = EXTRA_DATA_EMPTY"
    using find_slot_Some [OF g(4) [unfolded findEmptyExtraDataSlotLocked_def]] assms(2) by auto
  then show "k < 32" "ed_state (extraDataRequests c ! k) = EXTRA_DATA_EMPTY" by blast+
  have b: "pendingExtraDataBytes c + nat len \<le> VORTEK_EXTRA_DATA_MAX_AGGREGATE_SIZE" using g(3) assms(4) by linarith
  also have "\<dots> < SIZE_MAX + 1" by (simp add: extra_defs SIZE_MAX_def)
  finally have "(pendingExtraDataBytes c + nat len) mod (SIZE_MAX + 1) = pendingExtraDataBytes c + nat len" by simp
  then show "pendingExtraDataBytes c' = pendingExtraDataBytes c + nat len" unfolding c' m(2) by simp
  then show "pendingExtraDataBytes c' \<le> VORTEK_EXTRA_DATA_MAX_AGGREGATE_SIZE" using b by simp
  show "pendingExtraDataCount c' = pendingExtraDataCount c + 1" unfolding c' m(2) using g(2) by simp
  show "a \<notin> seen_ids c" by (rule g(1))
  show "seen_ids c' = insert a (seen_ids c)" unfolding m(4) [symmetric] by (rule seen_ids_cong) (simp add: c')
  show "length (seenExtraDataRequestIds c') = 8192" using m(2,3) by (simp add: c')
  show "extraDataRequests c' = (extraDataRequests c)[k := (extraDataRequests c ! k)
       \<lparr>ed_requestId := a, ed_size := nat len, ed_state := EXTRA_DATA_READING\<rparr>]" using m(2) by (simp add: c')
qed

lemma reserve_refused:
  assumes "handleExtraDataRequest_reserve c a len = Some (None, c')"
  shows "c' = c"
  using assms unfolding handleExtraDataRequest_reserve_def
  by (auto simp: Let_def bind_eq_Some_conv split: if_splits option.splits)

lemma step_reserved:
  assumes "extra_ok s" "em_readers s t = None" "handleExtraDataRequest_reserve (em_ctx s) a len = Some (Some k, c)"
  shows "extra_ok (s\<lparr>em_ctx := c, em_readers := (em_readers s)(t \<mapsto> (k, a, nat len)), em_accepted := em_accepted s @ [a]\<rparr>)"
proof -
  note ok = extra_ok_parts [OF assms(1)]
  let ?slots = "extraDataRequests (em_ctx s)" and ?h = "em_handler s"
  have "pendingExtraDataBytes (em_ctx s) \<le> VORTEK_EXTRA_DATA_MAX_AGGREGATE_SIZE" using ok(4,5) by simp
  note r = reserve_effect [OF assms(3) ok(1,2) this]
  have k: "k < length ?slots" using r(1) ok(1) by simp
  have h: "?h \<noteq> Handler_owns k" using ok(3) r(2) unfolding owners_ok_def by auto
  have np: "\<not> pends ?h ?slots k" using r(2) by (simp add: pends_def)
  have p: "pends ?h (extraDataRequests c) k" unfolding r(6) pends_update [OF k] using h by simp
  note ch = pending_change [OF k, of ?h ?h "(?slots ! k)\<lparr>ed_requestId := a, ed_size := nat len, ed_state := EXTRA_DATA_READING\<rparr>",
      folded r(6), unfolded if_not_P [OF np] if_P [OF p]]
  have b: "pending_bytes ?h (extraDataRequests c) = pending_bytes ?h ?slots + nat len" using ch(1) by simp
  have n: "pending_count ?h (extraDataRequests c) = pending_count ?h ?slots + 1" using ch(2) by simp
  have na: "a \<notin> set (em_accepted s)" using r(3) ok(7) by simp
  have rd: "ready_slot (extraDataRequests c) j \<Longrightarrow> ready_slot ?slots j \<and> extraDataRequests c ! j = ?slots ! j" for j
    unfolding r(6) using k by (auto simp: ready_slot_def nth_list_update split: if_splits)
  have own: "owners_ok ((em_readers s)(t \<mapsto> (k, a, nat len))) ?h (extraDataRequests c)"
    unfolding r(6) by (rule owners_reserve [OF ok(3) k r(2) assms(2)])
  have ids: "ids_ok ?h (extraDataRequests c) (em_accepted s @ [a]) (em_read s) (em_taken s)"
    unfolding r(6) by (rule ids_reserve [OF ok(9) k r(2) h na])
  have blk: "block_of (ed_size (extraDataRequests c ! j)) (ed_data (extraDataRequests c ! j))" if "ready_slot (extraDataRequests c) j" for j
    using rd [OF that] ok(8) [of j] by auto
  have len: "length (extraDataRequests c) = 32" using r(6) ok(1) by simp
  show ?thesis
    by (rule extra_okI) (use own ids blk len r(4,5,7,8) ok(4,6,7) b n r(9) in simp_all)
qed

lemma step_finished:
  assumes "extra_ok s" "em_readers s t = Some (k, a, sz)" "handleExtraDataRequest_read sz malloc_ok start turns = Some (success, data)"
    and "handleExtraDataRequest_finish (em_ctx s) k sz success data = (ready, c)"
  shows "extra_ok (s\<lparr>em_ctx := c, em_readers := (em_readers s)(t := None),
    em_read := (if ready then em_read s @ [(a, data)] else em_read s)\<rparr>)"
proof -
  note ok = extra_ok_parts [OF assms(1)]
  let ?slots = "extraDataRequests (em_ctx s)" and ?h = "em_handler s"
  have k: "k < length ?slots" "slot_id ?slots k = a" "ed_size (?slots ! k) = sz" "ed_state (?slots ! k) = EXTRA_DATA_READING" "?h \<noteq> Handler_owns k"
    using ok(3) assms(2) unfolding owners_ok_def slot_id_def by blast+
  have p: "pends ?h ?slots k" using k(4,5) by (simp add: pends_def)
  show ?thesis
  proof (cases "\<not> success \<or> VkContext_isClosing (Some (em_ctx s))")
    case True
    then have c: "ready = False" "c = (unpend sz (em_ctx s))\<lparr>extraDataRequests := ?slots[k := zero_request]\<rparr>"
      using assms(4) by (simp_all add: handleExtraDataRequest_finish_def Let_def split: if_splits)
    have np: "\<not> pends ?h (?slots[k := zero_request]) k" unfolding pends_update [OF k(1)] by (simp add: zero_request_def)
    note ch = pending_change [OF k(1), of ?h ?h zero_request, unfolded if_not_P [OF np] if_P [OF p] k(3)]
    have rd: "ready_slot (?slots[k := zero_request]) j \<Longrightarrow> ready_slot ?slots j \<and> ?slots[k := zero_request] ! j = ?slots ! j" for j
      using k(1) by (auto simp: ready_slot_def zero_request_def nth_list_update split: if_splits)
    have "extra_ok (s\<lparr>em_ctx := c, em_readers := (em_readers s)(t := None)\<rparr>)"
      by (rule extra_okI)
        (use ok ch c(2) owners_finish [OF ok(3) assms(2), of zero_request] ids_finish_failed [OF ok(9) k(1,4)] seen_ids_cong [of c "em_ctx s"] rd
          in \<open>auto simp: zero_request_def\<close>)
    then show ?thesis using c(1) by simp
  next
    case False
    let ?r = "(?slots ! k)\<lparr>ed_data := data, ed_state := EXTRA_DATA_READY\<rparr>"
    have c: "ready = True" "c = (em_ctx s)\<lparr>extraDataRequests := ?slots[k := ?r]\<rparr>"
      using assms(4) False by (simp_all add: handleExtraDataRequest_finish_def Let_def split: if_splits)
    have p2: "pends ?h (?slots[k := ?r]) k" unfolding pends_update [OF k(1)] using k(5) by simp
    note ch = pending_change [OF k(1), of ?h ?h ?r, unfolded if_P [OF p2] if_P [OF p] k(3)]
    have blk: "block_of sz data" using read_block assms(3) False by auto
    have rd: "block_of (ed_size (?slots[k := ?r] ! j)) (ed_data (?slots[k := ?r] ! j))" if "ready_slot (?slots[k := ?r]) j" for j
      using that blk k(1,3) ok(8) [of j] by (auto simp: ready_slot_def nth_list_update split: if_splits)
    have "extra_ok (s\<lparr>em_ctx := c, em_readers := (em_readers s)(t := None), em_read := em_read s @ [(a, data)]\<rparr>)"
      by (rule extra_okI)
        (use ok ch c(2) owners_finish [OF ok(3) assms(2), of ?r] ids_finish_ready [OF ok(9) k(1,4,5), of data] k(2,3) seen_ids_cong [of c "em_ctx s"] rd
          in auto)
    then show ?thesis using c(1) by simp
  qed
qed

lemma wait_turn_effect:
  assumes "waitForExtraDataRequest_turn c a = (Wait_returns (Some k), c')"
  shows "k < length (extraDataRequests c)" "ed_state (extraDataRequests c ! k) = EXTRA_DATA_READY" "slot_id (extraDataRequests c) k = a"
    "c' = (unpend (ed_size (extraDataRequests c ! k)) c)\<lparr>extraDataRequests :=
      (extraDataRequests c)[k := (extraDataRequests c ! k)\<lparr>ed_state := EXTRA_DATA_READING\<rparr>]\<rparr>"
    "\<not> VkContext_isClosing (Some c)"
proof -
  from assms have f: "findExtraDataRequestLocked c a EXTRA_DATA_READY = Some k"
    and c': "c' = (unpend (ed_size (extraDataRequests c ! k)) c)\<lparr>extraDataRequests :=
      (extraDataRequests c)[k := (extraDataRequests c ! k)\<lparr>ed_state := EXTRA_DATA_READING\<rparr>]\<rparr>"
    and "\<not> VkContext_isClosing (Some c)"
    unfolding waitForExtraDataRequest_turn_def by (auto simp: Let_def split: if_splits option.splits)
  then show "\<not> VkContext_isClosing (Some c)" "c' = (unpend (ed_size (extraDataRequests c ! k)) c)\<lparr>extraDataRequests :=
      (extraDataRequests c)[k := (extraDataRequests c ! k)\<lparr>ed_state := EXTRA_DATA_READING\<rparr>]\<rparr>" by blast+
  show "k < length (extraDataRequests c)" "ed_state (extraDataRequests c ! k) = EXTRA_DATA_READY" "slot_id (extraDataRequests c) k = a"
    using find_slot_Some [OF f [unfolded findExtraDataRequestLocked_def]] by (simp_all add: slot_id_def)
qed

lemma wait_turn_same:
  assumes "waitForExtraDataRequest_turn c a = (r, c')" "\<And>k. r \<noteq> Wait_returns (Some k)"
  shows "c' = c"
  using assms unfolding waitForExtraDataRequest_turn_def by (auto simp: Let_def split: if_splits option.splits)

lemma step_takes:
  assumes "extra_ok s" "em_handler s = Handler_waits a" "waitForExtraDataRequest_turn (em_ctx s) a = (Wait_returns (Some k), c)"
  shows "extra_ok (s\<lparr>em_ctx := c, em_handler := Handler_owns k, em_taken := em_taken s @ [(a, ed_data (extraDataRequests c ! k))]\<rparr>)"
proof -
  note ok = extra_ok_parts [OF assms(1), unfolded assms(2)]
  let ?slots = "extraDataRequests (em_ctx s)"
  note w = wait_turn_effect [OF assms(3)]
  let ?r = "(?slots ! k)\<lparr>ed_state := EXTRA_DATA_READING\<rparr>"
  have c: "extraDataRequests c = ?slots[k := ?r]" using w(4) by simp
  have "pends (Handler_waits a) ?slots k" "\<not> pends (Handler_owns k) (?slots[k := ?r]) k" using w(2) by (simp_all add: pends_def)
  then have ch: "pending_bytes (Handler_owns k) (?slots[k := ?r]) + ed_size (?slots ! k) = pending_bytes (Handler_waits a) ?slots"
    "pending_count (Handler_owns k) (?slots[k := ?r]) + 1 = pending_count (Handler_waits a) ?slots"
    using pending_change [OF w(1), of "Handler_owns k" "Handler_waits a" ?r] by auto
  have own: "owners_ok (em_readers s) (Handler_owns k) (?slots[k := ?r])" by (rule owners_take [OF ok(3) w(1,2)])
  have ids: "ids_ok (Handler_owns k) (?slots[k := ?r]) (em_accepted s) (em_read s) (em_taken s @ [(a, ed_data (?slots ! k))])"
    using ids_take [OF ok(9) w(1,2)] unfolding w(3) .
  have blk: "block_of (ed_size (?slots[k := ?r] ! j)) (ed_data (?slots[k := ?r] ! j))" if "ready_slot (?slots[k := ?r]) j" for j
    using that ok(8) [of j] w(1) by (auto simp: ready_slot_def nth_list_update split: if_splits)
  have d: "ed_data (extraDataRequests c ! k) = ed_data (?slots ! k)" unfolding c using w(1) by simp
  have p: "pendingExtraDataBytes c = pending_bytes (Handler_owns k) (?slots[k := ?r])"
    "pendingExtraDataCount c = pending_count (Handler_owns k) (?slots[k := ?r])"
    using ch ok(4,6) w(4) by simp_all
  have sn: "seen_ids c = seen_ids (em_ctx s)" "seenExtraDataRequestIds c = seenExtraDataRequestIds (em_ctx s)"
    using seen_ids_cong [of c "em_ctx s"] w(4) by simp_all
  show ?thesis
    by (rule extra_okI) (use own ids blk ok(1,2,5,7) c d p ch sn in simp_all)
qed

lemma step_frees:
  assumes "extra_ok s" "em_handler s = Handler_owns k"
  shows "extra_ok (s\<lparr>em_ctx := releaseExtraDataRequest (em_ctx s) (Some k), em_handler := Handler_idle\<rparr>)"
proof -
  note ok = extra_ok_parts [OF assms(1), unfolded assms(2)]
  let ?slots = "extraDataRequests (em_ctx s)"
  have k: "k < length ?slots" "ed_state (?slots ! k) = EXTRA_DATA_READING" using ok(3) unfolding owners_ok_def by blast+
  have "\<not> pends (Handler_owns k) ?slots k" "\<not> pends Handler_idle (?slots[k := zero_request]) k"
    using k(1) by (simp_all add: pends_def zero_request_def)
  then have ch: "pending_bytes Handler_idle (?slots[k := zero_request]) = pending_bytes (Handler_owns k) ?slots"
    "pending_count Handler_idle (?slots[k := zero_request]) = pending_count (Handler_owns k) ?slots"
    using pending_change [OF k(1), of Handler_idle "Handler_owns k" zero_request] by auto
  have blk: "block_of (ed_size (?slots[k := zero_request] ! j)) (ed_data (?slots[k := zero_request] ! j))" if "ready_slot (?slots[k := zero_request]) j" for j
    using that ok(8) [of j] k(1) by (auto simp: ready_slot_def zero_request_def nth_list_update split: if_splits)
  have sn: "seen_ids ((em_ctx s)\<lparr>extraDataRequests := ?slots[k := zero_request]\<rparr>) = seen_ids (em_ctx s)" by (rule seen_ids_cong) simp
  show ?thesis
    by (rule extra_okI)
      (use owners_free [OF ok(3)] ids_free [OF ok(9) k] blk ok(1,2,4-7) ch sn in \<open>simp_all add: releaseExtraDataRequest_def\<close>)
qed

lemma extra_ok_step:
  assumes "extra_step s s'" "extra_ok s"
  shows "extra_ok s'"
  using assms
proof (cases rule: extra_step.cases)
  case (reserved t a len k c)
  then show ?thesis using step_reserved assms(2) by blast
next
  case (refused a len c)
  then show ?thesis using extra_ok_context [OF assms(2), of c "em_handler s"] reserve_refused by auto
next
  case (finished t k a sz malloc_ok start turns success data ready c)
  show ?thesis unfolding finished(1) by (rule step_finished [OF assms(2) finished(2-4)])
next
  case (waits a)
  then show ?thesis using extra_ok_context [OF assms(2), of "em_ctx s" "Handler_waits a"] by simp
next
  case (takes a k c)
  then show ?thesis using step_takes [OF assms(2)] by blast
next
  case (blocks a c)
  then have "c = em_ctx s" by (intro wait_turn_same [OF blocks(3)]) simp
  then show ?thesis using blocks(1) assms(2) by simp
next
  case (stops a c)
  then show ?thesis using extra_ok_context [OF assms(2), of c Handler_stopped] wait_turn_same by auto
next
  case (times_out a)
  then show ?thesis using extra_ok_context [OF assms(2), of "waitForExtraDataRequest_failed (em_ctx s)" Handler_stopped]
    by (simp add: waitForExtraDataRequest_failed_def)
next
  case (frees k)
  then show ?thesis using step_frees [OF assms(2)] by blast
next
  case (stopped status c)
  then show ?thesis using extra_ok_context [OF assms(2), of c "em_handler s"] by (auto simp: VkContext_requestStop_def)
qed

lemma extra_ok_initial:
  assumes "extra_initial s"
  shows "extra_ok s"
proof -
  have slots: "extraDataRequests (em_ctx s) = replicate 32 zero_request" using assms by (simp add: extra_initial_def extra_defs)
  have st: "ed_state (replicate 32 zero_request ! k) = EXTRA_DATA_EMPTY" if "k < 32" for k using that by (simp add: zero_request_def)
  have sums: "pending_bytes Handler_idle (replicate 32 zero_request) = 0" "pending_count Handler_idle (replicate 32 zero_request) = 0"
    unfolding pending_bytes_def pending_count_def by (simp_all add: pends_def zero_request_def)
  have none: "pending_slots Handler_idle (replicate 32 zero_request) = {}" "ready_data (replicate 32 zero_request) = {}"
    using st by (auto simp: pending_slots_def pends_def ready_data_def ready_slot_def)
  have "seen_ids (em_ctx s) = {}"
    using assms id_byte_less by (auto simp: extra_initial_def seen_ids_def requestIdWasSeenLocked_def load_def)
  moreover have "owners_ok (\<lambda>_. None) Handler_idle (replicate 32 zero_request)" unfolding owners_ok_def by (simp add: zero_request_def)
  moreover have "ids_ok Handler_idle (replicate 32 zero_request) [] [] []" unfolding ids_ok_def reading_slots_def none by simp
  moreover have "\<not> ready_slot (replicate 32 zero_request) k" for k using st [of k] by (auto simp: ready_slot_def)
  ultimately show ?thesis using assms sums slots by (intro extra_okI) (simp_all add: extra_initial_def)
qed

lemma extra_reachable_ok: "extra_reachable s \<Longrightarrow> extra_ok s"
  by (induction rule: extra_reachable.induct) (auto intro: extra_ok_initial extra_ok_step)

section \<open>What a read transfers\<close>

text \<open>The bytes a turn takes off the socket.\<close>

definition turn_bytes :: "read_turn \<Rightarrow> u8 list" where
  "turn_bytes t = (case uninterrupted (rt_polls t) of
     Some (Poll_events True _) \<Rightarrow> (case uninterrupted (rt_reads t) of Some (Data bytes) \<Rightarrow> bytes | _ \<Rightarrow> [])
   | _ \<Rightarrow> [])"

lemma read_before_deadline_exact:
  "read_before_deadline data current remaining deadline ts = Some (True, data', ps) \<Longrightarrow> current + remaining = length data \<Longrightarrow>
    \<exists>got rest. concat (map turn_bytes ts) = got @ rest \<and> length got = remaining \<and> data' = take current data @ got \<and>
      list_all (\<lambda>p. 0 < p \<and> p \<le> 100) ps"
proof (induction ts arbitrary: data current remaining ps)
  case Nil
  then show ?case by (simp split: if_splits)
next
  case (Cons t ts)
  show ?case
  proof (cases "remaining = 0")
    case True
    then show ?thesis using Cons.prems by (intro exI [of _ "[]"] exI [of _ "concat (map turn_bytes (t # ts))"]) simp
  next
    case False
    define p where "p = (if 100 < deadline - rt_now t then 100 else deadline - rt_now t)"
    have open_turn: "\<not> rt_closing t" "\<not> deadline \<le> rt_now t" using Cons.prems(1) False by (auto split: if_splits)
    then have p: "0 < p \<and> p \<le> 100" by (auto simp: p_def)
    obtain answer where a: "uninterrupted (rt_polls t) = Some answer"
      using Cons.prems(1) False open_turn by (cases "uninterrupted (rt_polls t)") (simp_all add: Let_def)
    have eq: "read_before_deadline data current remaining deadline (t # ts) = Some (True, data', ps)" by (rule Cons.prems(1))
    consider (again) ps' where "turn_bytes t = []" "ps = p # ps'"
        "read_before_deadline data current remaining deadline ts = Some (True, data', ps')"
      | (got) bytes data1 ps' where "turn_bytes t = bytes" "length bytes \<le> remaining" "blit data current bytes = Some data1" "ps = p # ps'"
        "read_before_deadline data1 (current + length bytes) (remaining - length bytes) deadline ts = Some (True, data', ps')"
    proof (cases answer)
      case Poll_error
      then show ?thesis using eq False open_turn a by (simp add: Let_def)
    next
      case Poll_timeout
      then show ?thesis using that(1) eq False open_turn a by (auto simp: Let_def turn_bytes_def p_def [symmetric])
    next
      case (Poll_events pollin hangup)
      show ?thesis
      proof (cases pollin)
        case no: False
        then show ?thesis using that(1) eq False open_turn a Poll_events
          by (auto simp: Let_def turn_bytes_def p_def [symmetric] split: if_splits)
      next
        case True
        note step = eq [unfolded read_before_deadline.simps Let_def p_def [symmetric] if_not_P [OF False] if_not_P [OF open_turn(1)]
            if_not_P [OF open_turn(2)] a Poll_events Option.bind.simps poll_answer.case]
        show ?thesis
        proof (cases "uninterrupted (rt_reads t)")
          case None
          then show ?thesis using step True by simp
        next
          case (Some r)
          show ?thesis
          proof (cases r)
            case (Data bytes)
            show ?thesis
            proof (cases "bytes = [] \<or> remaining < length bytes")
              case True
              then show ?thesis using step \<open>pollin\<close> Some Data by simp
            next
              case no: False
              then obtain data1 where "blit data current bytes = Some data1"
                "map_option (\<lambda>(ok, d, ps). (ok, d, p # ps)) (read_before_deadline data1 (current + length bytes) (remaining - length bytes) deadline ts)
                  = Some (True, data', ps)"
                using step True Some Data by (cases "blit data current bytes") simp_all
              moreover have "turn_bytes t = bytes" using a Poll_events True Some Data by (simp add: turn_bytes_def)
              ultimately show ?thesis using that(2) [of bytes data1] no by auto
            qed
          qed (use step True Some in simp_all)
        qed
      qed
    qed
    then show ?thesis
    proof cases
      case again
      from Cons.IH [OF again(3) Cons.prems(2)] show ?thesis using again p by auto
    next
      case got
      have d1: "data1 = take current data @ bytes @ drop (current + length bytes) data"
        using got(2,3) Cons.prems(2) by (simp add: blit_def split: if_splits)
      have "length data1 = length data" using d1 got(2) Cons.prems(2) by simp
      then have l: "current + length bytes + (remaining - length bytes) = length data1" using got(2) Cons.prems(2) by simp
      from Cons.IH [OF got(5) l] obtain g rest where g: "concat (map turn_bytes ts) = g @ rest" "length g = remaining - length bytes"
        "data' = take (current + length bytes) data1 @ g" "list_all (\<lambda>p. 0 < p \<and> p \<le> 100) ps'" by blast
      have "take (current + length bytes) data1 = take current data @ bytes" unfolding d1 using Cons.prems(2) got(2) by simp
      then show ?thesis using g got p by (intro exI [of _ "bytes @ g"] exI [of _ rest]) auto
    qed
  qed
qed

section \<open>The properties\<close>

text \<open>C34: The budget of the queue is kept. However readers, request thread and stop interleave, the queue counts exactly the
  bytes and the requests that are being read or wait to be taken, never more than 128 MiB and 32 requests; and
  every slot in use is either ready, or being read by exactly one thread, or owned by the request thread.\<close>

theorem extra_data_is_budgeted:
  assumes "extra_reachable s"
  shows "pendingExtraDataBytes (em_ctx s) = pending_bytes (em_handler s) (extraDataRequests (em_ctx s)) \<and>
    pendingExtraDataBytes (em_ctx s) \<le> 128 * 1024 * 1024 \<and>
    pendingExtraDataCount (em_ctx s) = pending_count (em_handler s) (extraDataRequests (em_ctx s)) \<and>
    pendingExtraDataCount (em_ctx s) \<le> 32 \<and>
    (\<forall>k<32. case ed_state (extraDataRequests (em_ctx s) ! k) of
       EXTRA_DATA_READING \<Rightarrow> (em_handler s = Handler_owns k) \<noteq> (\<exists>!t. \<exists>a sz. em_readers s t = Some (k, a, sz))
     | _ \<Rightarrow> em_handler s \<noteq> Handler_owns k \<and> (\<nexists>t a sz. em_readers s t = Some (k, a, sz)))"
proof -
  note ok = extra_ok_parts [OF extra_reachable_ok [OF assms]]
  let ?slots = "extraDataRequests (em_ctx s)"
  have "pending_count (em_handler s) ?slots \<le> 32" using pending_count_bound [of "em_handler s" ?slots] ok(1) by simp
  moreover have "pending_bytes (em_handler s) ?slots \<le> 128 * 1024 * 1024" using ok(5) by (simp add: extra_defs)
  moreover have "case ed_state (?slots ! k) of
       EXTRA_DATA_READING \<Rightarrow> (em_handler s = Handler_owns k) \<noteq> (\<exists>!t. \<exists>a sz. em_readers s t = Some (k, a, sz))
     | _ \<Rightarrow> em_handler s \<noteq> Handler_owns k \<and> (\<nexists>t a sz. em_readers s t = Some (k, a, sz))" if "k < 32" for k
  proof (cases "ed_state (?slots ! k) = EXTRA_DATA_READING")
    case True
    have "em_handler s = Handler_owns k \<or> (\<exists>t a sz. em_readers s t = Some (k, a, sz))"
      using ok(3) that [folded ok(1)] True unfolding owners_ok_def by blast
    moreover have "\<not> (em_handler s = Handler_owns k \<and> (\<exists>t a sz. em_readers s t = Some (k, a, sz)))"
      using ok(3) unfolding owners_ok_def by blast
    moreover have "em_readers s t = Some (k, a, sz) \<Longrightarrow> em_readers s t' = Some (k, a', sz') \<Longrightarrow> t = t'" for t t' a a' sz sz'
      using ok(3) unfolding owners_ok_def by blast
    ultimately have "(em_handler s = Handler_owns k) \<noteq> (\<exists>!t. \<exists>a sz. em_readers s t = Some (k, a, sz))" by blast
    then show ?thesis unfolding True by simp
  next
    case False
    then have "em_handler s \<noteq> Handler_owns k \<and> (\<nexists>t a sz. em_readers s t = Some (k, a, sz))"
      using ok(3) unfolding owners_ok_def by blast
    then show ?thesis using False by (simp split: ExtraDataState.split)
  qed
  ultimately show ?thesis unfolding ok(4) ok(6) by blast
qed

text \<open>C35: A large request is delivered at most once, and whole. However the threads interleave: an id is accepted at most
  once in the life of a context; what was read completely is exactly what the request thread was given plus what waits in
  the ready slots, one block for an id; and a block that waits has the size that was announced.\<close>

theorem extra_data_delivered_once:
  assumes "extra_reachable s"
  shows "distinct (em_accepted s) \<and> distinct (map fst (em_taken s)) \<and> fst ` set (em_read s) \<subseteq> set (em_accepted s) \<and>
    distinct (map fst (em_read s)) \<and> set (em_read s) = set (em_taken s) \<union> ready_data (extraDataRequests (em_ctx s)) \<and>
    (\<forall>k. ready_slot (extraDataRequests (em_ctx s)) k \<longrightarrow>
       ed_requestId (extraDataRequests (em_ctx s) ! k) \<notin> fst ` set (em_taken s) \<and>
       block_of (ed_size (extraDataRequests (em_ctx s) ! k)) (ed_data (extraDataRequests (em_ctx s) ! k)))"
proof -
  note ok = extra_ok_parts [OF extra_reachable_ok [OF assms]]
  have "k \<in> pending_slots (em_handler s) (extraDataRequests (em_ctx s))" if "ready_slot (extraDataRequests (em_ctx s)) k" for k
  proof -
    have "ed_state (extraDataRequests (em_ctx s) ! k) = EXTRA_DATA_READING" if "em_handler s = Handler_owns k"
      using ok(3) that unfolding owners_ok_def by blast
    then show ?thesis using that by (auto simp: pending_slots_def pends_def ready_slot_def)
  qed
  note pend = this
  have i: "slot_id (extraDataRequests (em_ctx s)) ` pending_slots (em_handler s) (extraDataRequests (em_ctx s))
      \<subseteq> set (em_accepted s) - fst ` set (em_taken s)"
    "distinct (em_accepted s)" "distinct (map fst (em_taken s))" "fst ` set (em_read s) \<subseteq> set (em_accepted s)"
    "distinct (map fst (em_read s))" "set (em_read s) = set (em_taken s) \<union> ready_data (extraDataRequests (em_ctx s))"
    using ok(9) unfolding ids_ok_def by blast+
  have "slot_id (extraDataRequests (em_ctx s)) k \<notin> fst ` set (em_taken s)" if "ready_slot (extraDataRequests (em_ctx s)) k" for k
    using subsetD [OF i(1) imageI [OF pend [OF that]]] by simp
  then show ?thesis using ok(8) i(2-6) unfolding slot_id_def by blast
qed

text \<open>Nothing undoes a stop.\<close>

lemma closing_step:
  assumes "extra_step s s'" "VkContext_isClosing (Some (em_ctx s))"
  shows "VkContext_isClosing (Some (em_ctx s')) \<and> em_accepted s' = em_accepted s \<and> em_taken s' = em_taken s \<and> em_read s' = em_read s"
  using assms
proof (cases rule: extra_step.cases)
  case (reserved t a len k c)
  then show ?thesis using assms(2) by (simp add: handleExtraDataRequest_reserve_def Let_def split: if_splits)
next
  case (refused a len c)
  then show ?thesis using assms(2) reserve_refused by auto
next
  case (finished t k a sz malloc_ok start turns success data ready c)
  then show ?thesis using assms(2) by (auto simp: handleExtraDataRequest_finish_def Let_def VkContext_isClosing_def unpend_def)
next
  case (takes a k c)
  then show ?thesis using assms(2) wait_turn_effect(5) by blast
next
  case (blocks a c)
  then have "c = em_ctx s" by (intro wait_turn_same [OF blocks(3)]) simp
  then show ?thesis using blocks(1) assms(2) by simp
next
  case (stops a c)
  then have "c = em_ctx s" by (intro wait_turn_same [OF stops(3)]) simp
  then show ?thesis using stops(1) assms(2) by simp
next
  case (times_out a)
  then show ?thesis by (simp add: VkContext_isClosing_def waitForExtraDataRequest_failed_def)
next
  case (frees k)
  then show ?thesis using assms(2) by (simp add: VkContext_isClosing_def releaseExtraDataRequest_def)
next
  case (stopped status c)
  then show ?thesis by (auto simp: VkContext_requestStop_def VkContext_isClosing_def)
qed (use assms(2) in simp)

lemma closing_run:
  assumes "extra_step\<^sup>*\<^sup>* s s'" "VkContext_isClosing (Some (em_ctx s))"
  shows "VkContext_isClosing (Some (em_ctx s')) \<and> em_accepted s' = em_accepted s \<and> em_taken s' = em_taken s \<and> em_read s' = em_read s"
  using assms by (induction rule: rtranclp_induct) (use closing_step in \<open>auto\<close>)

text \<open>A stop is final. It leaves the context closing, its rings ended and its registry closed, so that no device lease is
  granted; and from then on, however the threads go on, no request is accepted, none is handed to the request
  thread, a wait returns at once and every read that ends gives its slot back.\<close>

theorem stop_is_final:
  assumes "VkContext_requestStop (Some (em_ctx s)) status = Some c" "extra_step\<^sup>*\<^sup>* (s\<lparr>em_ctx := c\<rparr>) s'"
  shows "VkContext_isClosing (Some (em_ctx s')) \<and> em_accepted s' = em_accepted s \<and> em_taken s' = em_taken s \<and>
    waitForExtraDataRequest_turn (em_ctx s') a = (Wait_returns None, em_ctx s') \<and>
    (k < length (extraDataRequests (em_ctx s')) \<longrightarrow>
       (\<exists>c'. handleExtraDataRequest_finish (em_ctx s') k sz success data = (False, c') \<and> extraDataRequests c' ! k = zero_request)) \<and>
    \<not> fst (VkContext_acquireDeviceLease self next (Some (em_ctx s')) deviceToken leaseOut) \<and>
    (\<forall>r. cx_handleAuthority c = Some r \<longrightarrow> closed r) \<and>
    (\<forall>r. cx_serverRing c = Some r \<or> cx_clientRing c = Some r \<longrightarrow> RingBuffer_hasStatus r RING_STATUS_EXIT)"
proof -
  have c: "c = (em_ctx s)\<lparr>cx_status := status, cx_closing := True,
       cx_handleAuthority := VortekHandleRegistry_beginClose (cx_handleAuthority (em_ctx s)),
       cx_serverRing := map_option (\<lambda>r. RingBuffer_setStatus r RING_STATUS_EXIT) (cx_serverRing (em_ctx s)),
       cx_clientRing := map_option (\<lambda>r. RingBuffer_setStatus r RING_STATUS_EXIT) (cx_clientRing (em_ctx s))\<rparr>"
    using assms(1) by (simp add: VkContext_requestStop_def)
  have "VkContext_isClosing (Some (em_ctx (s\<lparr>em_ctx := c\<rparr>)))" by (simp add: VkContext_isClosing_def c)
  from closing_run [OF assms(2) this] have r: "VkContext_isClosing (Some (em_ctx s'))" "em_accepted s' = em_accepted s" "em_taken s' = em_taken s"
    by simp_all
  have exit: "RingBuffer_hasStatus (RingBuffer_setStatus r RING_STATUS_EXIT) RING_STATUS_EXIT" for r
  proof -
    have "(st OR 2) AND 2 = (2 :: u32)" for st by (rule bit_word_eqI) (auto simp: bit_simps)
    then show ?thesis by (simp add: RingBuffer_hasStatus_def RingBuffer_setStatus_def RING_STATUS_EXIT_def)
  qed
  have rings: "\<forall>r. cx_serverRing c = Some r \<or> cx_clientRing c = Some r \<longrightarrow> RingBuffer_hasStatus r RING_STATUS_EXIT"
    using exit by (auto simp: c)
  have "\<forall>r. cx_handleAuthority c = Some r \<longrightarrow> closed r" by (auto simp: c VortekHandleRegistry_beginClose_def)
  moreover have "waitForExtraDataRequest_turn (em_ctx s') a = (Wait_returns None, em_ctx s')"
    using r(1) by (simp add: waitForExtraDataRequest_turn_def)
  moreover have "k < length (extraDataRequests (em_ctx s')) \<longrightarrow>
       (\<exists>c'. handleExtraDataRequest_finish (em_ctx s') k sz success data = (False, c') \<and> extraDataRequests c' ! k = zero_request)"
    using r(1) by (simp add: handleExtraDataRequest_finish_def Let_def)
  moreover have "\<not> fst (VkContext_acquireDeviceLease self next (Some (em_ctx s')) deviceToken leaseOut)"
    using r(1) by (simp add: VkContext_acquireDeviceLease_def)
  ultimately show ?thesis using r rings by simp
qed

section \<open>A run\<close>

text \<open>Request 7 of one byte is reserved, read, waited for and taken.\<close>

definition new_context :: VkContext where
  "new_context = \<lparr>cx_status = 0, cx_closing = False, cx_contextGeneration = 1, cx_handleAuthority = None, cx_serverRing = None,
     cx_clientRing = None, extraDataRequests = replicate 32 zero_request, pendingExtraDataBytes = 0, pendingExtraDataCount = 0,
     seenExtraDataRequestIds = replicate 8192 0\<rparr>"

definition new_machine :: extra_machine where
  "new_machine = \<lparr>em_ctx = new_context, em_readers = (\<lambda>_. None), em_handler = Handler_idle, em_accepted = [], em_read = [], em_taken = []\<rparr>"

definition context_with :: "ExtraDataRequest \<Rightarrow> nat \<Rightarrow> nat \<Rightarrow> VkContext" where
  "context_with r bytes n = new_context\<lparr>extraDataRequests := r # replicate 31 zero_request, pendingExtraDataBytes := bytes,
     pendingExtraDataCount := n, seenExtraDataRequestIds := (replicate 8192 0)[0 := 128]\<rparr>"

lemma replicate_32: "replicate 32 x = x # replicate 31 x"
  using replicate_Suc [of 31 x] by simp

lemma run_reserve: "handleExtraDataRequest_reserve new_context 7 1 =
    Some (Some 0, context_with \<lparr>ed_requestId = 7, ed_data = None, ed_size = 1, ed_state = EXTRA_DATA_READING\<rparr> 1 1)"
  by (simp add: handleExtraDataRequest_reserve_def new_context_def context_with_def extra_defs VkContext_isClosing_def Let_def
      requestIdWasSeenLocked_def markRequestIdSeenLocked_def load_def store_def id_byte_def id_bit_def replicate_32 [of zero_request]
      findEmptyExtraDataSlotLocked_def SIZE_MAX_def) (simp add: zero_request_def)

definition one_byte :: "read_turn list" where
  "one_byte = [\<lparr>rt_closing = False, rt_now = 0, rt_polls = [None, Some (Poll_events True False)], rt_reads = [Some (Data [42])]\<rparr>]"

lemma run_read: "handleExtraDataRequest_read 1 True 0 one_byte = Some (True, Some [42])"
  by (simp add: handleExtraDataRequest_read_def readExactBeforeDeadline_def one_byte_def extra_defs blit_def)

lemma run_finish: "handleExtraDataRequest_finish (context_with \<lparr>ed_requestId = 7, ed_data = None, ed_size = 1, ed_state = EXTRA_DATA_READING\<rparr> 1 1)
    0 1 True (Some [42]) = (True, context_with \<lparr>ed_requestId = 7, ed_data = Some [42], ed_size = 1, ed_state = EXTRA_DATA_READY\<rparr> 1 1)"
  by (simp add: handleExtraDataRequest_finish_def context_with_def VkContext_isClosing_def new_context_def)

lemma run_turn: "waitForExtraDataRequest_turn (context_with \<lparr>ed_requestId = 7, ed_data = Some [42], ed_size = 1, ed_state = EXTRA_DATA_READY\<rparr> 1 1) 7 =
    (Wait_returns (Some 0), context_with \<lparr>ed_requestId = 7, ed_data = Some [42], ed_size = 1, ed_state = EXTRA_DATA_READING\<rparr> 0 0)"
  by (simp add: waitForExtraDataRequest_turn_def context_with_def VkContext_isClosing_def new_context_def findExtraDataRequestLocked_def
      Let_def unpend_def)

text \<open>The machine along the run.\<close>

definition run_machine :: "VkContext \<Rightarrow> bool \<Rightarrow> handler_state \<Rightarrow> (u16 \<times> u8 list ptr) list \<Rightarrow> (u16 \<times> u8 list ptr) list \<Rightarrow> extra_machine" where
  "run_machine c reading h reads given = \<lparr>em_ctx = c, em_readers = (if reading then [0 \<mapsto> (0, 7, 1)] else (\<lambda>_. None)), em_handler = h,
     em_accepted = [7], em_read = reads, em_taken = given\<rparr>"

definition taken_machine :: extra_machine where
  "taken_machine = run_machine (context_with \<lparr>ed_requestId = 7, ed_data = Some [42], ed_size = 1, ed_state = EXTRA_DATA_READING\<rparr> 0 0)
     False (Handler_owns 0) [(7, Some [42])] [(7, Some [42])]"

lemma run_reachable: "extra_reachable taken_machine"
proof -
  let ?r = "\<lambda>data st. \<lparr>ed_requestId = 7, ed_data = data, ed_size = 1, ed_state = st\<rparr>"
  let ?c1 = "context_with (?r None EXTRA_DATA_READING) 1 1" and ?c2 = "context_with (?r (Some [42]) EXTRA_DATA_READY) 1 1"
  let ?d = "[(7 :: u16, Some [42 :: u8])]"
  have "extra_initial new_machine" by (simp add: extra_initial_def new_machine_def new_context_def extra_defs)
  then have r0: "extra_reachable new_machine" by (rule extra_reachable.init)
  have "extra_step new_machine (run_machine ?c1 True Handler_idle [] [])"
    using extra_step.reserved [of new_machine 0 7 1 0 ?c1] run_reserve by (simp add: new_machine_def run_machine_def)
  note r1 = extra_reachable.step [OF r0 this]
  have "extra_step (run_machine ?c1 True Handler_idle [] []) (run_machine ?c2 False Handler_idle ?d [])"
    using extra_step.finished [OF _ run_read, of "run_machine ?c1 True Handler_idle [] []" 0 0 7 True ?c2] run_finish
    by (simp add: run_machine_def)
  note r2 = extra_reachable.step [OF r1 this]
  have "extra_step (run_machine ?c2 False Handler_idle ?d []) (run_machine ?c2 False (Handler_waits 7) ?d [])"
    using extra_step.waits [of "run_machine ?c2 False Handler_idle ?d []" 7] by (simp add: run_machine_def)
  note r3 = extra_reachable.step [OF r2 this]
  have "extra_step (run_machine ?c2 False (Handler_waits 7) ?d []) taken_machine"
    using extra_step.takes [of "run_machine ?c2 False (Handler_waits 7) ?d []" 7 0] run_turn
    by (simp add: run_machine_def taken_machine_def) (simp add: context_with_def)
  then show ?thesis by (rule extra_reachable.step [OF r3])
qed

lemma extra_data_is_budgeted_witness:
  "pendingExtraDataCount (em_ctx taken_machine) \<le> 32 \<and> pendingExtraDataBytes (em_ctx taken_machine) \<le> 128 * 1024 * 1024"
  using extra_data_is_budgeted [OF run_reachable] by blast

lemma extra_data_delivered_once_witness:
  "em_taken taken_machine = [(7, Some [42])] \<and> distinct (map fst (em_taken taken_machine)) \<and> (7, Some [42]) \<in> set (em_read taken_machine)"
  using extra_data_delivered_once [OF run_reachable] by (simp add: taken_machine_def run_machine_def)

lemma stop_is_final_witness:
  "\<exists>c. VkContext_requestStop (Some (em_ctx taken_machine)) VK_ERROR_DEVICE_LOST = Some c \<and>
     waitForExtraDataRequest_turn c 8 = (Wait_returns None, c)"
proof -
  obtain c where c: "VkContext_requestStop (Some (em_ctx taken_machine)) VK_ERROR_DEVICE_LOST = Some c" by (simp add: VkContext_requestStop_def)
  from stop_is_final [OF c rtranclp.rtrancl_refl, of 8] have "waitForExtraDataRequest_turn c 8 = (Wait_returns None, c)" by simp
  then show ?thesis using c by blast
qed

end
