(* ===== verification/Transport.thy ===== *)
theory Transport
  imports Vk_Context Ring_Properties Containers
begin

text \<open>
  Messages between the two sides, \<^verbatim>\<open>vortekrenderer/include/vortek.h\<close> and \<^verbatim>\<open>vortek_transport_contract.h\<close>: the memory pool a
  received message is put in, sending and receiving over the ring, and the detour of large requests over the socket.
\<close>

section \<open>Sizes\<close>

definition HEADER_SIZE :: nat where "HEADER_SIZE = 8"
definition VT_TRANSPORT_HEADER_SIZE :: nat where "VT_TRANSPORT_HEADER_SIZE = 8"
definition MEMORY_POOL_MAX_SIZE :: int where "MEMORY_POOL_MAX_SIZE = 65536"
definition SERVER_RING_BUFFER_SIZE :: int where "SERVER_RING_BUFFER_SIZE = 4194304"
definition REQUEST_CODE_SEND_EXTRA_DATA :: int where "REQUEST_CODE_SEND_EXTRA_DATA = 2"
definition INT16_MAX :: int where "INT16_MAX = 32767"

named_theorems transport_defs \<open>constants of the transport\<close>

declare HEADER_SIZE_def [transport_defs] VT_TRANSPORT_HEADER_SIZE_def [transport_defs] MEMORY_POOL_MAX_SIZE_def [transport_defs]
  SERVER_RING_BUFFER_SIZE_def [transport_defs] REQUEST_CODE_SEND_EXTRA_DATA_def [transport_defs] INT16_MAX_def [transport_defs]

definition vt_transport_payload_fits :: "int \<Rightarrow> u32 \<Rightarrow> size_t \<Rightarrow> bool" where
  "vt_transport_payload_fits payloadSize ringCapacity payloadLimit =
     (if payloadSize < 0 \<or> unat ringCapacity < VT_TRANSPORT_HEADER_SIZE then False
      else nat payloadSize \<le> payloadLimit \<and> nat payloadSize \<le> unat ringCapacity - VT_TRANSPORT_HEADER_SIZE)"

definition vt_transport_size_fits :: "size_t \<Rightarrow> u32 \<Rightarrow> size_t \<Rightarrow> bool" where
  "vt_transport_size_fits payloadSize ringCapacity payloadLimit \<longleftrightarrow>
     int payloadSize \<le> INT32_MAX \<and> vt_transport_payload_fits (int payloadSize) ringCapacity payloadLimit"

section \<open>The memory pool\<close>

text \<open>The list holds the addresses of separate blocks; its sizes are natural numbers, so the tests for negative ones fall
  away. \<open>realloc_ok\<close>: a reallocation, when it is made, succeeds.\<close>

record MemoryPool =
  mp_data :: "u8 list ptr"
  mp_size :: int
  mp_list :: ArrayList

definition vt_track_pool_allocation :: "bool \<Rightarrow> ArrayList \<Rightarrow> nat \<Rightarrow> (bool \<times> ArrayList) option" where
  "vt_track_pool_allocation realloc_ok a chunk =
     (if chunk = 0 \<or> al_capacity a < al_size a \<or> al_size a = INT_LIMIT then Some (False, a)
      else if al_size a = al_capacity a then
        let newCapacity = (if al_capacity a < DEFAULT_ARRAY_CAPACITY then DEFAULT_ARRAY_CAPACITY
                           else al_capacity a + al_capacity a div 2)
        in if INT_LIMIT < newCapacity then None
           else if newCapacity \<le> al_capacity a \<or> SIZE_MAX div 8 < newCapacity then Some (False, a)
           else if \<not> realloc_ok then Some (False, a)
           else do {
             cells \<leftarrow> store (realloc 0 (take (al_capacity a) (al_elements a)) newCapacity) (al_size a) chunk;
             Some (True, a\<lparr>al_elements := cells, al_capacity := newCapacity, al_size := al_size a + 1\<rparr>) }
      else do {
        cells \<leftarrow> store (al_elements a) (al_size a) chunk;
        Some (True, a\<lparr>al_elements := cells, al_size := al_size a + 1\<rparr>) })"

text \<open>A block inside the pool, at an offset, or one of its own, at an address that \<^verbatim>\<open>malloc\<close> gave.\<close>

datatype pool_place = Pooled nat | Separate nat

definition vt_alloc :: "nat ptr \<Rightarrow> bool \<Rightarrow> MemoryPool \<Rightarrow> int \<Rightarrow> (pool_place option \<times> MemoryPool) option" where
  "vt_alloc malloc_result realloc_ok p sz =
     (if sz \<le> 0 \<or> mp_size p < 0 \<or> MEMORY_POOL_MAX_SIZE < mp_size p then Some (None, p)
      else case (if sz \<le> MEMORY_POOL_MAX_SIZE - mp_size p then mp_data p else None) of
        Some data \<Rightarrow> do {
          zeroed \<leftarrow> blit data (nat (mp_size p)) (replicate (nat sz) 0);
          Some (Some (Pooled (nat (mp_size p))), p\<lparr>mp_data := Some zeroed, mp_size := mp_size p + sz\<rparr>) }
      | None \<Rightarrow>
          (case malloc_result of
             None \<Rightarrow> Some (None, p)
           | Some chunk \<Rightarrow> do {
               (tracked, a) \<leftarrow> vt_track_pool_allocation realloc_ok (mp_list p) chunk;
               Some (if tracked then Some (Separate chunk) else None, p\<lparr>mp_list := a\<rparr>) }))"

text \<open>The loop of \<open>vt_free\<close> from the last element to the first: the addresses given to \<^verbatim>\<open>free\<close>.\<close>

fun vt_free_loop :: "nat \<Rightarrow> ArrayList \<Rightarrow> (nat list \<times> ArrayList) option" where
  "vt_free_loop 0 a = Some ([], a)"
| "vt_free_loop (Suc i) a = do {
     e \<leftarrow> load (al_elements a) i;
     cells \<leftarrow> (if e \<noteq> 0 then store (al_elements a) i 0 else Some (al_elements a));
     (_, a') \<leftarrow> ArrayList_removeAt (a\<lparr>al_elements := cells\<rparr>) (int i);
     (freed, a'') \<leftarrow> vt_free_loop i a';
     Some (if e \<noteq> 0 then e # freed else freed, a'') }"

definition vt_free :: "MemoryPool ptr \<Rightarrow> (nat list \<times> MemoryPool ptr) option" where
  "vt_free pool =
     (case pool of
        None \<Rightarrow> Some ([], None)
      | Some p \<Rightarrow> do {
          (freed, a) \<leftarrow> vt_free_loop (al_size (mp_list p)) (mp_list p);
          Some (freed, Some (p\<lparr>mp_size := 0, mp_list := a\<rparr>)) })"

section \<open>Sending\<close>

definition PACK16 :: "int \<Rightarrow> u16 \<Rightarrow> u32" where
  "PACK16 a b = push_bit 16 (word_of_int a) OR ucast b"

definition message_header :: "u32 \<Rightarrow> int \<Rightarrow> u8 list" where
  "message_header code sz = le_bytes 4 code @ le_bytes 4 (word_of_int sz :: u32)"

text \<open>\<open>server\<close>: compiled for the server, which has no way around the ring. \<open>answers\<close> are those of the socket, \<open>maxClientRequestId\<close>
  the counter of the client's ids. The result is the size or 0, the ring, the bytes sent over the socket, and the counter.\<close>

definition vt_send ::
  "bool \<Rightarrow> (nat \<Rightarrow> RingBuffer) ptr \<Rightarrow> (nat \<Rightarrow> Ring_Buffer.poll_answer) \<Rightarrow> u16 \<Rightarrow> write_answer list \<Rightarrow> int \<Rightarrow> u8 list ptr \<Rightarrow> int
    \<Rightarrow> (int \<times> RingBuffer ptr \<times> u8 list \<times> u16) option" where
  "vt_send server ring polls maxClientRequestId answers requestCode data sz =
     (case ring of
        None \<Rightarrow> Some (0, None, [], maxClientRequestId)
      | Some env \<Rightarrow>
          if sz < 0 \<or> (0 < sz \<and> data = None) then Some (0, Some (env 0), [], maxClientRequestId)
          else if \<not> server \<and> SERVER_RING_BUFFER_SIZE \<le> sz then do {
            bytes \<leftarrow> data;
            (let requestId = maxClientRequestId in do {
              (sent, out, answers1) \<leftarrow>
                sock_write (message_header (PACK16 REQUEST_CODE_SEND_EXTRA_DATA requestId) sz) HEADER_SIZE answers;
              (if sent \<noteq> int HEADER_SIZE then Some (0, Some (env 0), out, maxClientRequestId + 1)
               else do {
                 cells \<leftarrow> slice bytes 0 (nat sz);
                 (sent2, out2, _) \<leftarrow> sock_write cells (nat sz) answers1;
                 (if sent2 \<noteq> sz then Some (0, Some (env 0), out @ out2, maxClientRequestId + 1)
                  else do {
                    (ok, ring') \<leftarrow> RingBuffer_write ring polls (Some (message_header (PACK16 requestCode requestId) 0))
                      (word_of_nat HEADER_SIZE);
                    Some (if ok then sz else 0, ring', out @ out2, maxClientRequestId + 1) }) }) }) }
          else if \<not> vt_transport_payload_fits sz (ring_bufferSize (env 0))
            (nat ((int (unat (ring_bufferSize (env 0))) - int HEADER_SIZE) mod 2 ^ 64))
          then Some (0, Some (env 0), [], maxClientRequestId)
          else do {
            (ok, ring') \<leftarrow> RingBuffer_writeFrame ring polls (Some (message_header (word_of_int requestCode) sz)) (word_of_nat HEADER_SIZE)
              data (word_of_int sz);
            Some (if ok then sz else 0, ring', [], maxClientRequestId) })"

section \<open>Receiving\<close>

text \<open>\<open>later\<close> is what the read of the payload observes, from the ring as the read of the header left it. The result is the request code or
  the error, the payload, its size, the pool and the ring.\<close>

definition vt_recv ::
  "(nat \<Rightarrow> RingBuffer) ptr \<Rightarrow> (nat \<Rightarrow> Ring_Buffer.poll_answer) \<Rightarrow> (RingBuffer \<Rightarrow> nat \<Rightarrow> RingBuffer) \<Rightarrow> (nat \<Rightarrow> Ring_Buffer.poll_answer)
    \<Rightarrow> nat ptr \<Rightarrow> bool \<Rightarrow> MemoryPool ptr
    \<Rightarrow> (int \<times> u8 list ptr \<times> int \<times> MemoryPool ptr \<times> RingBuffer ptr) option" where
  "vt_recv ring polls later polls2 malloc_result realloc_ok pool =
     (case (ring, pool) of
        (Some env, Some p) \<Rightarrow> do {
          (ok, header, ring1) \<leftarrow> RingBuffer_read ring polls True (word_of_nat HEADER_SIZE);
          r1 \<leftarrow> ring1;
          (if \<not> ok then Some (VK_ERROR_DEVICE_LOST, None, 0, pool, ring1)
           else let requestCode = sint (word_of_nat (of_le_bytes (take 4 header)) :: u32);
                    sz = sint (word_of_nat (of_le_bytes (drop 4 header)) :: u32)
           in if \<not> vt_transport_payload_fits sz (ring_bufferSize r1) (nat ((int (unat (ring_bufferSize r1)) - int HEADER_SIZE) mod 2 ^ 64))
           then Some (VK_ERROR_DEVICE_LOST, None, 0, pool, ring1)
           else if sz \<le> 0 then Some (requestCode, None, sz, pool, ring1)
           else do {
             (place, p') \<leftarrow> vt_alloc malloc_result realloc_ok p sz;
             (case place of
                None \<Rightarrow> Some (VK_ERROR_DEVICE_LOST, None, 0, Some p', ring1)
              | Some at \<Rightarrow> do {
                  (ok2, payload, ring2) \<leftarrow> RingBuffer_read (Some (later r1)) polls2 True (word_of_int sz);
                  (if \<not> ok2 then Some (VK_ERROR_DEVICE_LOST, None, 0, Some p', ring2)
                   else Some (requestCode, Some payload, sz, Some p', ring2)) }) }) }
      | _ \<Rightarrow> Some (VK_ERROR_DEVICE_LOST, None, 0, pool, map_option (\<lambda>env. env 0) ring))"

text \<open>What the request thread makes of a code: the request, and the id when its data come over the socket.\<close>

definition request_of_code :: "int \<Rightarrow> int \<times> u16 option" where
  "request_of_code requestCode =
     (if INT16_MAX < requestCode then (drop_bit 16 requestCode, Some (word_of_int requestCode)) else (requestCode, None))"

end
