(* ===== verification/Transport_Properties.thy ===== *)
theory Transport_Properties
  imports Transport
begin

text \<open>
  What the transport guarantees: blocks of the memory pool never overlap and are freed once; a message that is sent is
  received whole, in order, whatever the interleaving of the two sides; a large request is announced under its id.
\<close>

section \<open>The memory pool\<close>

definition pool_ok :: "MemoryPool \<Rightarrow> bool" where
  "pool_ok p \<longleftrightarrow> 0 \<le> mp_size p \<and> mp_size p \<le> MEMORY_POOL_MAX_SIZE \<and> list_inv (mp_list p) \<and>
     (\<forall>data. mp_data p = Some data \<longrightarrow> int (length data) = MEMORY_POOL_MAX_SIZE)"

lemma track_effect:
  assumes "list_inv a" "al_size a < 2 ^ 30" "chunk \<noteq> 0"
  shows "\<exists>ok a'. vt_track_pool_allocation realloc_ok a chunk = Some (ok, a') \<and> (realloc_ok \<longrightarrow> ok) \<and> list_inv a' \<and>
    list_of a' = (if ok then list_of a @ [chunk] else list_of a) \<and> al_size a' = (if ok then al_size a + 1 else al_size a)"
proof -
  have a: "al_size a \<le> al_capacity a" "length (al_elements a) = al_capacity a" using assms(1) by (simp_all add: list_inv_def)
  have g: "\<not> (chunk = 0 \<or> al_capacity a < al_size a \<or> al_size a = INT_LIMIT)" using assms a by (simp add: INT_LIMIT_def)
  show ?thesis
  proof (cases "al_size a = al_capacity a")
    case False
    then have lt: "al_size a < length (al_elements a)" using a by simp
    have "vt_track_pool_allocation realloc_ok a chunk
        = Some (True, a\<lparr>al_elements := (al_elements a)[al_size a := chunk], al_size := al_size a + 1\<rparr>)"
      using g False lt by (simp add: vt_track_pool_allocation_def)
    moreover have "take (al_size a + 1) ((al_elements a)[al_size a := chunk]) = take (al_size a) (al_elements a) @ [chunk]"
      using lt by (simp add: take_Suc_conv_app_nth)
    ultimately show ?thesis using False a by (auto simp: list_inv_def list_of_def)
  next
    case full: True
    let ?c = "if al_capacity a < DEFAULT_ARRAY_CAPACITY then DEFAULT_ARRAY_CAPACITY else al_capacity a + al_capacity a div 2"
    have c: "al_capacity a < ?c" "?c \<le> INT_LIMIT" "?c \<le> SIZE_MAX div 8"
      using full assms(2) by (auto simp: DEFAULT_ARRAY_CAPACITY_def INT_LIMIT_def SIZE_MAX_def)
    show ?thesis
    proof (cases realloc_ok)
      case False
      then have "vt_track_pool_allocation realloc_ok a chunk = Some (False, a)"
        unfolding vt_track_pool_allocation_def if_not_P [OF g] if_P [OF full] Let_def using c by simp
      then show ?thesis using False assms(1) by (intro exI [of _ False] exI [of _ a]) simp
    next
      case True
      let ?b = "realloc 0 (take (al_capacity a) (al_elements a)) ?c"
      have b: "length ?b = ?c" "take (al_size a) ?b = al_elements a" using a full c(1) by (simp_all add: realloc_def)
      have st: "store ?b (al_size a) chunk = Some (?b[al_size a := chunk])" using b(1) c(1) full by simp
      have "vt_track_pool_allocation realloc_ok a chunk
          = Some (True, a\<lparr>al_elements := ?b[al_size a := chunk], al_capacity := ?c, al_size := al_size a + 1\<rparr>)"
        unfolding vt_track_pool_allocation_def if_not_P [OF g] if_P [OF full] Let_def st using c True by simp
      moreover have "take (al_size a + 1) (?b[al_size a := chunk]) = al_elements a @ [chunk]"
        using b c(1) full by (simp add: take_Suc_conv_app_nth)
      moreover have "al_size a + 1 \<le> ?c" using c(1) full by linarith
      ultimately show ?thesis using True b a full by (intro exI [of _ True]) (simp add: list_inv_def list_of_def)
    qed
  qed
qed

text \<open>One allocation: from the pool behind everything it gave before, or a block of its own that the list records.\<close>

lemma alloc_effect:
  assumes "pool_ok p" "al_size (mp_list p) < 2 ^ 30" "\<forall>c. malloc_result = Some c \<longrightarrow> c \<noteq> 0"
  shows "\<exists>place p'. vt_alloc malloc_result realloc_ok p sz = Some (place, p') \<and> pool_ok p' \<and>
    (0 < sz \<and> malloc_result \<noteq> None \<and> realloc_ok \<longrightarrow> place \<noteq> None) \<and>
    al_size (mp_list p') \<le> al_size (mp_list p) + 1 \<and>
    (case place of
       None \<Rightarrow> mp_size p' = mp_size p \<and> list_of (mp_list p') = list_of (mp_list p)
     | Some (Pooled n) \<Rightarrow> 0 < sz \<and> int n = mp_size p \<and> mp_size p' = mp_size p + sz \<and> list_of (mp_list p') = list_of (mp_list p)
     | Some (Separate c) \<Rightarrow> 0 < sz \<and> malloc_result = Some c \<and> mp_size p' = mp_size p \<and>
         list_of (mp_list p') = list_of (mp_list p) @ [c])"
proof (cases "sz \<le> 0 \<or> mp_size p < 0 \<or> MEMORY_POOL_MAX_SIZE < mp_size p")
  case True
  then show ?thesis using assms(1) by (auto simp: vt_alloc_def pool_ok_def)
next
  case pos: False
  let ?from = "if sz \<le> MEMORY_POOL_MAX_SIZE - mp_size p then mp_data p else None"
  show ?thesis
  proof (cases ?from)
    case (Some data)
    then have d: "mp_data p = Some data" "sz \<le> MEMORY_POOL_MAX_SIZE - mp_size p" by (auto split: if_splits)
    have l: "int (length data) = MEMORY_POOL_MAX_SIZE" using assms(1) d(1) by (simp add: pool_ok_def)
    have fit: "nat (mp_size p) + length (replicate (nat sz) (0 :: u8)) \<le> length data"
      using d(2) l pos by (simp add: not_le not_less) linarith
    let ?z = "take (nat (mp_size p)) data @ replicate (nat sz) 0 @ drop (nat (mp_size p) + nat sz) data"
    have "vt_alloc malloc_result realloc_ok p sz
        = Some (Some (Pooled (nat (mp_size p))), p\<lparr>mp_data := Some ?z, mp_size := mp_size p + sz\<rparr>)"
      unfolding vt_alloc_def if_not_P [OF pos] Some using blit_Some [OF fit] by simp
    moreover have "length ?z = length data" using fit by simp
    moreover have "mp_size p + sz \<le> MEMORY_POOL_MAX_SIZE" using d(2) by simp
    ultimately show ?thesis using pos assms(1) l by (simp add: pool_ok_def)
  next
    case None
    show ?thesis
    proof (cases malloc_result)
      case m: None
      then have "vt_alloc malloc_result realloc_ok p sz = Some (None, p)" unfolding vt_alloc_def if_not_P [OF pos] None by simp
      then show ?thesis using assms(1) m by simp
    next
      case m: (Some chunk)
      have li: "list_inv (mp_list p)" using assms(1) by (simp add: pool_ok_def)
      obtain ok a' where t: "vt_track_pool_allocation realloc_ok (mp_list p) chunk = Some (ok, a')" "realloc_ok \<longrightarrow> ok"
          "list_inv a'" "list_of a' = (if ok then list_of (mp_list p) @ [chunk] else list_of (mp_list p))"
          "al_size a' = (if ok then al_size (mp_list p) + 1 else al_size (mp_list p))"
        using track_effect [OF li assms(2), of chunk realloc_ok] assms(3) m by blast
      have "vt_alloc malloc_result realloc_ok p sz = Some (if ok then Some (Separate chunk) else None, p\<lparr>mp_list := a'\<rparr>)"
        unfolding vt_alloc_def if_not_P [OF pos] None by (simp add: m t(1))
      then show ?thesis using t assms(1) pos m by (cases ok) (auto simp: pool_ok_def)
    qed
  qed
qed


text \<open>A run of allocations, each with the answers of \<^verbatim>\<open>malloc\<close> and \<^verbatim>\<open>realloc\<close> it gets: the blocks handed out, and the pool.\<close>

fun pool_run :: "MemoryPool \<Rightarrow> (nat ptr \<times> bool \<times> int) list \<Rightarrow> ((pool_place \<times> int) list \<times> MemoryPool) option" where
  "pool_run p [] = Some ([], p)"
| "pool_run p ((m, r, sz) # requests) = do {
     (place, p') \<leftarrow> vt_alloc m r p sz;
     (blocks, p'') \<leftarrow> pool_run p' requests;
     Some ((case place of None \<Rightarrow> [] | Some at \<Rightarrow> [(at, sz)]) @ blocks, p'') }"

fun pooled_block :: "pool_place \<times> int \<Rightarrow> nat set" where
  "pooled_block (Pooled n, sz) = {n..<n + nat sz}"
| "pooled_block (Separate c, sz) = {}"

fun separate_block :: "pool_place \<times> int \<Rightarrow> nat list" where
  "separate_block (Pooled n, sz) = []"
| "separate_block (Separate c, sz) = [c]"

lemma pool_run_effect:
  assumes "pool_ok p" "al_size (mp_list p) + length requests \<le> 2 ^ 30" "\<forall>(m, r, sz)\<in>set requests. \<forall>c. m = Some c \<longrightarrow> c \<noteq> 0"
  shows "\<exists>blocks p'. pool_run p requests = Some (blocks, p') \<and> pool_ok p' \<and> mp_size p \<le> mp_size p' \<and>
    list_of (mp_list p') = list_of (mp_list p) @ concat (map separate_block blocks) \<and>
    (\<forall>b\<in>set blocks. 0 < snd b \<and> pooled_block b \<subseteq> {nat (mp_size p)..<nat (mp_size p')}) \<and>
    sorted_wrt (\<lambda>b b'. pooled_block b \<inter> pooled_block b' = {}) blocks"
  using assms
proof (induction p requests rule: pool_run.induct)
  case (2 p m r sz requests)
  have len: "al_size (mp_list p) < 2 ^ 30" using "2.prems"(2) by simp
  have m0: "\<forall>c. m = Some c \<longrightarrow> c \<noteq> 0" using "2.prems"(3) by simp
  obtain place p' where a: "vt_alloc m r p sz = Some (place, p')" "pool_ok p'" "al_size (mp_list p') \<le> al_size (mp_list p) + 1"
    "case place of
       None \<Rightarrow> mp_size p' = mp_size p \<and> list_of (mp_list p') = list_of (mp_list p)
     | Some (Pooled n) \<Rightarrow> 0 < sz \<and> int n = mp_size p \<and> mp_size p' = mp_size p + sz \<and> list_of (mp_list p') = list_of (mp_list p)
     | Some (Separate c) \<Rightarrow> 0 < sz \<and> m = Some c \<and> mp_size p' = mp_size p \<and>
         list_of (mp_list p') = list_of (mp_list p) @ [c]"
    using alloc_effect [OF "2.prems"(1) len m0, of r sz] by blast
  have rest: "al_size (mp_list p') + length requests \<le> 2 ^ 30" using a(3) "2.prems"(2) by simp
  obtain blocks p'' where b: "pool_run p' requests = Some (blocks, p'')" "pool_ok p''" "mp_size p' \<le> mp_size p''"
    "list_of (mp_list p'') = list_of (mp_list p') @ concat (map separate_block blocks)"
    "\<forall>b\<in>set blocks. 0 < snd b \<and> pooled_block b \<subseteq> {nat (mp_size p')..<nat (mp_size p'')}"
    "sorted_wrt (\<lambda>b b'. pooled_block b \<inter> pooled_block b' = {}) blocks"
    using "2.IH" [OF a(1) refl a(2) rest] "2.prems"(3) by auto
  let ?new = "case place of None \<Rightarrow> [] | Some at \<Rightarrow> [(at, sz)]"
  have run: "pool_run p ((m, r, sz) # requests) = Some (?new @ blocks, p'')" using a(1) b(1) by simp
  have ge: "mp_size p \<le> mp_size p'" "0 \<le> mp_size p"
    using a(4) "2.prems"(1) by (auto simp: pool_ok_def split: option.splits pool_place.splits)
  have old: "\<forall>b\<in>set blocks. 0 < snd b \<and> pooled_block b \<subseteq> {nat (mp_size p)..<nat (mp_size p'')}"
  proof
    fix x assume "x \<in> set blocks"
    then have "0 < snd x" "pooled_block x \<subseteq> {nat (mp_size p')..<nat (mp_size p'')}" using b(5) by blast+
    moreover have "{nat (mp_size p')..<nat (mp_size p'')} \<subseteq> {nat (mp_size p)..<nat (mp_size p'')}"
      using ge by (intro ivl_subset [THEN iffD2] disjI2 conjI nat_mono) simp_all
    ultimately show "0 < snd x \<and> pooled_block x \<subseteq> {nat (mp_size p)..<nat (mp_size p'')}" by blast
  qed
  consider "place = None" | n where "place = Some (Pooled n)" | c where "place = Some (Separate c)"
    by (metis not_Some_eq pool_place.exhaust)
  then show ?case
  proof cases
    case 1
    then show ?thesis using run a(4) b old ge by auto
  next
    case (2 n)
    then have n: "0 < sz" "int n = mp_size p" "mp_size p' = mp_size p + sz" "list_of (mp_list p') = list_of (mp_list p)"
      using a(4) by simp_all
    have pb: "pooled_block (Pooled n, sz) = {nat (mp_size p)..<nat (mp_size p')}" using n by (simp add: nat_add_distrib flip: n(2))
    have "\<forall>x\<in>set blocks. pooled_block (Pooled n, sz) \<inter> pooled_block x = {}" using b(5) unfolding pb by fastforce
    moreover have "pooled_block (Pooled n, sz) \<subseteq> {nat (mp_size p)..<nat (mp_size p'')}"
      using b(3) ge unfolding pb by auto
    ultimately show ?thesis using run b old ge n 2 by simp
  next
    case (3 c)
    then show ?thesis using run a(4) b old ge by simp
  qed
qed simp

lemma run_separate_nonzero:
  "pool_run p requests = Some (blocks, p') \<Longrightarrow> \<forall>(m, r, sz)\<in>set requests. \<forall>c. m = Some c \<longrightarrow> c \<noteq> 0 \<Longrightarrow>
     0 \<notin> set (concat (map separate_block blocks))"
proof (induction p requests arbitrary: blocks p' rule: pool_run.induct)
  case (2 p m r sz requests)
  obtain place p1 blocks1 where a: "vt_alloc m r p sz = Some (place, p1)" "pool_run p1 requests = Some (blocks1, p')"
      "blocks = (case place of None \<Rightarrow> [] | Some at \<Rightarrow> [(at, sz)]) @ blocks1"
    using "2.prems"(1) by (auto simp: bind_eq_Some_conv)
  have m: "\<forall>c. m = Some c \<longrightarrow> c \<noteq> 0" using "2.prems"(2) by simp
  have "place = Some (Separate c) \<Longrightarrow> m = Some c" for c
    using a(1) by (auto simp: vt_alloc_def bind_eq_Some_conv split: if_splits option.splits)
  then have "place \<noteq> Some (Separate 0)" using m by blast
  moreover have "0 \<notin> set (concat (map separate_block blocks1))" using "2.IH" [OF a(1) refl a(2)] "2.prems"(2) by simp
  ultimately show ?case using a(3) by (cases place; cases "the place") auto
qed simp

lemma vt_free_loop_effect:
  assumes "list_inv a" "al_size a = n" "0 \<notin> set (list_of a)"
  shows "\<exists>a'. vt_free_loop n a = Some (rev (list_of a), a') \<and> list_inv a' \<and> list_of a' = []"
  using assms
proof (induction n arbitrary: a)
  case (Suc i)
  let ?e = "al_elements a ! i"
  have li: "i < length (al_elements a)" "al_size a = Suc i" using Suc.prems by (simp_all add: list_inv_def)
  have lo: "list_of a = take i (al_elements a) @ [?e]" using li by (simp add: list_of_def take_Suc_conv_app_nth)
  then have e: "?e \<noteq> 0" using Suc.prems(3) by (metis in_set_conv_decomp)
  let ?a = "a\<lparr>al_elements := (al_elements a)[i := 0]\<rparr>"
  have inv: "list_inv ?a" "0 \<le> int i" "int i < int (al_size ?a)" using Suc.prems li by (simp_all add: list_inv_def)
  obtain a' where a': "ArrayList_removeAt ?a (int i) = Some (list_of ?a ! nat (int i), a')" "list_inv a'"
      "list_of a' = take (nat (int i)) (list_of ?a) @ drop (nat (int i) + 1) (list_of ?a)"
    using list_removeAt_effect [OF inv] by blast
  have lo': "list_of a' = take i (al_elements a)" using a'(3) li by (simp add: list_of_def)
  have "length (list_of a') = al_size a'" using a'(2) by (simp add: list_of_def list_inv_def)
  then have n: "al_size a' = i" using li by (simp add: lo')
  have "0 \<notin> set (list_of a')" using Suc.prems(3) unfolding lo lo' by simp
  then obtain a'' where r: "vt_free_loop i a' = Some (rev (list_of a'), a'')" "list_inv a''" "list_of a'' = []"
    using Suc.IH [OF a'(2) n] by blast
  have "vt_free_loop (Suc i) a = Some (?e # rev (list_of a'), a'')" using li e a'(1) r(1) by simp
  then show ?case using r lo lo' by simp
qed (auto simp: list_of_def)

definition empty_pool :: "u8 list ptr \<Rightarrow> MemoryPool" where
  "empty_pool data = \<lparr>mp_data = data, mp_size = 0, mp_list = \<lparr>al_size = 0, al_capacity = 0, al_elements = []\<rparr>\<rparr>"

text \<open>C38: For any sequence of allocations from a new memory pool, with or without a block of its own and whatever \<^verbatim>\<open>malloc\<close> and
  \<^verbatim>\<open>realloc\<close> answer, every call returns; blocks inside the pool lie within its 65536 bytes and never overlap; and freeing the
  pool releases exactly the separately allocated blocks, each once, and leaves the pool as new.\<close>

theorem pool_blocks_are_disjoint:
  assumes "data = None \<or> (\<exists>bytes. data = Some bytes \<and> length bytes = 65536)" and "length requests \<le> 2 ^ 30"
    and "\<forall>(m, r, sz)\<in>set requests. \<forall>c. m = Some c \<longrightarrow> c \<noteq> 0"
  shows "\<exists>blocks p p'. pool_run (empty_pool data) requests = Some (blocks, p) \<and>
    (\<forall>b\<in>set blocks. 0 < snd b \<and> pooled_block b \<subseteq> {0..<65536}) \<and>
    sorted_wrt (\<lambda>b b'. pooled_block b \<inter> pooled_block b' = {}) blocks \<and>
    vt_free (Some p) = Some (rev (concat (map separate_block blocks)), Some p') \<and>
    mp_size p' = 0 \<and> list_of (mp_list p') = [] \<and> pool_ok p'"
proof -
  have ok: "pool_ok (empty_pool data)" using assms(1) by (auto simp: pool_ok_def empty_pool_def MEMORY_POOL_MAX_SIZE_def list_inv_def)
  have len: "al_size (mp_list (empty_pool data)) + length requests \<le> 2 ^ 30" using assms(2) by (simp add: empty_pool_def)
  obtain blocks p where p: "pool_run (empty_pool data) requests = Some (blocks, p)" "pool_ok p"
      "list_of (mp_list p) = list_of (mp_list (empty_pool data)) @ concat (map separate_block blocks)"
      "\<forall>b\<in>set blocks. 0 < snd b \<and> pooled_block b \<subseteq> {nat (mp_size (empty_pool data))..<nat (mp_size p)}"
      "sorted_wrt (\<lambda>b b'. pooled_block b \<inter> pooled_block b' = {}) blocks"
    using pool_run_effect [OF ok len assms(3)] by blast
  have lo: "list_of (mp_list p) = concat (map separate_block blocks)" using p(3) by (simp add: empty_pool_def list_of_def)
  have "list_inv (mp_list p)" using p(2) by (simp add: pool_ok_def)
  moreover have "0 \<notin> set (list_of (mp_list p))"
    using run_separate_nonzero [OF p(1) assms(3)] unfolding lo .
  ultimately obtain a' where f: "vt_free_loop (al_size (mp_list p)) (mp_list p) = Some (rev (list_of (mp_list p)), a')"
      "list_inv a'" "list_of a' = []"
    using vt_free_loop_effect by blast
  have fr: "vt_free (Some p) = Some (rev (list_of (mp_list p)), Some (p\<lparr>mp_size := 0, mp_list := a'\<rparr>))"
    using f(1) by (simp add: vt_free_def)
  have "mp_size p \<le> 65536" using p(2) by (simp add: pool_ok_def MEMORY_POOL_MAX_SIZE_def)
  then have "nat (mp_size p) \<le> 65536" by simp
  then have "\<forall>b\<in>set blocks. 0 < snd b \<and> pooled_block b \<subseteq> {0..<65536}" using p(4) by fastforce
  moreover have "pool_ok (p\<lparr>mp_size := 0, mp_list := a'\<rparr>)" using p(2) f(2) by (simp add: pool_ok_def MEMORY_POOL_MAX_SIZE_def)
  ultimately show ?thesis using p(1,5) fr f(3) lo
    by (intro exI [of _ blocks] exI [of _ p] exI [of _ "p\<lparr>mp_size := 0, mp_list := a'\<rparr>"]) simp
qed

theorem pool_blocks_are_disjoint_witness:
  "\<exists>blocks p p'. pool_run (empty_pool (Some (replicate 65536 0))) [(None, True, 10), (Some 7, True, 70000)] = Some (blocks, p) \<and>
     sorted_wrt (\<lambda>b b'. pooled_block b \<inter> pooled_block b' = {}) blocks \<and>
     vt_free (Some p) = Some (rev (concat (map separate_block blocks)), Some p') \<and> mp_size p' = 0"
  using pool_blocks_are_disjoint [of "Some (replicate 65536 0)" "[(None, True, 10), (Some 7, True, 70000)]"] by fastforce

section \<open>What a call leaves as it is\<close>

lemma wait_loop_observes: "ring_wait_loop ready env polls i it = Some result \<Longrightarrow> \<exists>j. snd result = env j \<and> (fst result \<longrightarrow> ready (env j))"
proof (rule ring_wait_loop.raw_induct [where P = "\<lambda>ready env polls i it result. \<exists>j. snd result = env j \<and> (fst result \<longrightarrow> ready (env j))", rotated])
  fix self and ready :: "RingBuffer \<Rightarrow> bool" and env :: "nat \<Rightarrow> RingBuffer" and polls :: "nat \<Rightarrow> Ring_Buffer.poll_answer"
    and i :: nat and it :: u32 and result
  assume hyp: "\<And>ready env polls i it result. self ready env polls i it = Some result \<Longrightarrow> \<exists>j. snd result = env j \<and> (fst result \<longrightarrow> ready (env j))"
    and step: "(if ready (env i) then Some (True, env i)
      else if RingBuffer_hasStatus (env i) RING_STATUS_EXIT then Some (False, env i)
      else let (go, it') = RingBuffer_backoff (ring_peerFd (env i)) (polls i) it
           in if go then self ready env polls (i + 1) it' else Some (False, env i)) = Some result"
  show "\<exists>j. snd result = env j \<and> (fst result \<longrightarrow> ready (env j))" using step hyp by (auto split: if_splits prod.splits)
qed

lemma wait_const: "ring_wait_loop ready (\<lambda>_. r) polls 0 0 = Some (ok, r1) \<Longrightarrow> r1 = r"
  using wait_loop_observes [of ready "\<lambda>_. r" polls 0 0 "(ok, r1)"] by simp

lemma wait_const_ready: "ring_wait_loop ready (\<lambda>_. r) polls 0 0 = Some (True, r1) \<Longrightarrow> ready r"
  using wait_loop_observes [of ready "\<lambda>_. r" polls 0 0 "(True, r1)"] by simp

lemma copyAt_keeps [simp]:
  "ring_status (RingBuffer_copyAt r p bs sz) = ring_status r" "ring_peerFd (RingBuffer_copyAt r p bs sz) = ring_peerFd r"
  by (simp_all add: RingBuffer_copyAt_def ring_copy_in_def Let_def)

lemma writeFrame_keeps:
  assumes "RingBuffer_writeFrame (Some (\<lambda>_. r)) polls h hsz d dsz = Some (ok, Some r')"
  shows "ring_status r' = ring_status r \<and> ring_peerFd r' = ring_peerFd r"
  using assms
  by (auto dest!: wait_const simp: RingBuffer_writeFrame_def RingBuffer_waitForWrite_def Let_def RingBuffer_setTail_def
      split: option.splits if_splits bool.splits)

lemma read_keeps:
  assumes "RingBuffer_read (Some (\<lambda>_. r)) polls b sz = Some (ok, d, Some r')"
  shows "ring_status r' = ring_status r \<and> ring_peerFd r' = ring_peerFd r"
  using assms
  by (auto dest!: wait_const simp: RingBuffer_read_def RingBuffer_waitForRead_def Let_def RingBuffer_setHead_def
      split: option.splits if_splits bool.splits)

lemma read_keeps_tail:
  "RingBuffer_read (Some (\<lambda>_. r)) polls b sz = Some (ok, d, Some r') \<Longrightarrow> ring_tail r' = ring_tail r"
  by (auto dest!: wait_const simp: RingBuffer_read_def RingBuffer_waitForRead_def Let_def RingBuffer_setHead_def
      split: option.splits if_splits bool.splits)

section \<open>Messages\<close>

lemma message_header_length [simp]: "length (message_header code sz) = 8"
  by (simp add: message_header_def)

lemma message_header_read:
  "(word_of_nat (of_le_bytes (take 4 (message_header code sz))) :: u32) = code"
  "(word_of_nat (of_le_bytes (drop 4 (message_header code sz))) :: u32) = word_of_int sz"
  by (simp_all add: message_header_def le_bytes_read)

definition int32 :: "int \<Rightarrow> bool" where
  "int32 x \<longleftrightarrow> - (2 ^ 31) \<le> x \<and> x < 2 ^ 31"

lemma int32_read: "int32 x \<Longrightarrow> sint (word_of_int x :: u32) = x"
  by (simp add: int32_def sint_sbintrunc' signed_take_bit_int_eq_self)

text \<open>A message on the wire.\<close>

definition wire :: "int \<Rightarrow> u8 list \<Rightarrow> u8 list" where
  "wire code payload = message_header (word_of_int code) (int (length payload)) @ payload"

lemma payload_fits:
  assumes "ring_ok k r" "n + 8 \<le> 2 ^ k"
  shows "vt_transport_payload_fits (int n) (ring_bufferSize r) (nat ((int (unat (ring_bufferSize r)) - int HEADER_SIZE) mod 2 ^ 64))"
proof -
  have u: "unat (ring_bufferSize r) = 2 ^ k" by (rule ring_ok_unat [OF assms(1)])
  define cap where "cap = (2 :: nat) ^ k"
  have c: "cap \<le> 2147483648" "n + 8 \<le> cap" using ring_ok_le [OF assms(1)] assms(2) by (simp_all add: cap_def)
  then have m: "(int cap - 8) mod 18446744073709551616 = int cap - 8" by (intro mod_pos_pos_trivial) linarith+
  have "nat (int cap - 8) = cap - 8" using c by linarith
  then show ?thesis using c by (simp add: vt_transport_payload_fits_def transport_defs u [folded cap_def] m)
qed

lemma send_effect:
  assumes q: "queue_ok k r sent gone" and space: "length payload + 8 \<le> unat (RingBuffer_freeSpace r)"
    and small: "server \<or> int (length payload) < SERVER_RING_BUFFER_SIZE"
  shows "\<exists>r'. vt_send server (Some (\<lambda>_. r)) polls requestId answers code (Some payload) (int (length payload))
      = Some (int (length payload), Some r', [], requestId) \<and> queue_ok k r' (sent @ wire code payload) gone \<and>
    ring_status r' = ring_status r \<and> ring_peerFd r' = ring_peerFd r"
proof -
  have ok: "ring_ok k r" using q by (simp add: queue_ok_def)
  have "length gone \<le> length sent" using q by (simp add: queue_ok_def)
  then have cap: "length payload + 8 \<le> 2 ^ k" using space queue_ok_sizes(2) [OF q] by linarith
  then have n: "length payload < 2 ^ 32" using ring_ok_le [OF ok] by simp
  have sz: "unat (word_of_int (int (length payload)) :: u32) = length payload"
    using n by (simp add: unsigned_of_nat take_bit_nat_eq_self)
  let ?h = "message_header (word_of_int code) (int (length payload))"
  have h: "unat (word_of_nat HEADER_SIZE :: u32) = length ?h" "?h \<noteq> []"
    using message_header_length [of "word_of_int code" "int (length payload)"] by (simp_all add: HEADER_SIZE_def flip: length_greater_0_conv)
  have fr: "length ?h + length payload \<le> unat (RingBuffer_freeSpace r)" using space by simp
  obtain r' where w: "RingBuffer_writeFrame (Some (\<lambda>_. r)) polls (Some ?h) (word_of_nat HEADER_SIZE) (Some payload)
      (word_of_int (int (length payload))) = Some (True, Some r')" "queue_ok k r' (sent @ ?h @ payload) gone"
    using frame_round_trip [OF q h(1,2) sz fr] by blast
  have g: "\<not> (int (length payload) < 0 \<or> (0 < int (length payload) \<and> Some payload = None))" by simp
  have c: "\<not> (\<not> server \<and> SERVER_RING_BUFFER_SIZE \<le> int (length payload))" using small by auto
  have f: "\<not> \<not> vt_transport_payload_fits (int (length payload)) (ring_bufferSize r)
      (nat ((int (unat (ring_bufferSize r)) - int HEADER_SIZE) mod 2 ^ 64))"
    using payload_fits [OF ok cap] by simp
  have "vt_send server (Some (\<lambda>_. r)) polls requestId answers code (Some payload) (int (length payload))
      = Some (int (length payload), Some r', [], requestId)"
    unfolding vt_send_def option.case if_not_P [OF g] if_not_P [OF c] if_not_P [OF f] w(1) by simp
  then show ?thesis using w(2) writeFrame_keeps [OF w(1)] by (auto simp: wire_def)
qed

text \<open>What a consumer observes of a byte stream: each observation is the ring with some prefix of the stream written and what it
  took taken, not closed, and the peer is there.\<close>

definition consumer_view :: "nat \<Rightarrow> u8 list \<Rightarrow> u8 list \<Rightarrow> (nat \<Rightarrow> RingBuffer) \<Rightarrow> (nat \<Rightarrow> Ring_Buffer.poll_answer) \<Rightarrow> bool" where
  "consumer_view k stream gone env polls \<longleftrightarrow>
     (\<forall>i. (\<exists>n\<le>length stream. queue_ok k (env i) (take n stream) gone) \<and>
          \<not> RingBuffer_hasStatus (env i) RING_STATUS_EXIT \<and> \<not> peer_gone (env i) (polls i))"

lemma read_effect:
  assumes v: "consumer_view k stream gone env polls" and arrives: "sz \<le> RingBuffer_size (env n)"
    and sz: "sz \<le> ring_bufferSize (env 0)"
  shows "\<exists>r m. RingBuffer_read (Some env) polls True sz = Some (True, take (unat sz) (drop (length gone) stream), Some r) \<and>
    m \<le> length stream \<and> queue_ok k r (take m stream) (gone @ take (unat sz) (drop (length gone) stream))"
proof -
  obtain ok j where j: "ring_wait_loop (\<lambda>r. sz \<le> RingBuffer_size r) env polls 0 0 = Some (ok, env j)" "ok \<longleftrightarrow> sz \<le> RingBuffer_size (env j)"
      "ok \<or> RingBuffer_hasStatus (env j) RING_STATUS_EXIT \<or> peer_gone (env j) (polls j)"
    using wait_loop_returns [of 0 n "\<lambda>r. sz \<le> RingBuffer_size r" env polls 0] arrives by auto
  obtain m where m: "m \<le> length stream" "queue_ok k (env j) (take m stream) gone" "\<not> RingBuffer_hasStatus (env j) RING_STATUS_EXIT"
      "\<not> peer_gone (env j) (polls j)"
    using v unfolding consumer_view_def by blast
  have ok: "ok" "sz \<le> RingBuffer_size (env j)" using j m by auto
  have len: "length gone + unat sz \<le> m" "length gone \<le> m"
    using ok(2) queue_ok_sizes(1) [OF m(2)] m(1,2) by (auto simp: word_le_nat_alt queue_ok_def)
  have c: "consumer_ok (take m stream) (length gone) (Reading sz [])" using len m(1) by simp
  have out: "ring_copy_out (env j) (ring_head (env j)) sz = take (unat sz) (drop (length gone) (take m stream))"
    using read_chunk [OF m(2) c, of sz] by simp
  also have "\<dots> = take (unat sz) (drop (length gone) stream)" using len by (simp add: drop_take min_def)
  finally have out: "ring_copy_out (env j) (ring_head (env j)) sz = take (unat sz) (drop (length gone) stream)" .
  let ?got = "take (unat sz) (drop (length gone) stream)"
  have lg: "length ?got = unat sz" using len m(1) by simp
  have c': "consumer_ok (take m stream) (length gone) (Reading sz ?got)" using len m(1) lg by (simp add: drop_take min_def)
  have "RingBuffer_read (Some env) polls True sz = Some (True, ?got, Some (RingBuffer_setHead (env j) (ring_head (env j) + sz)))"
    using sz j(1) ok(1) out by (simp add: RingBuffer_read_def RingBuffer_waitForRead_def Let_def RingBuffer_getHead_def not_less)
  then show ?thesis using publish_read [OF m(2) c' lg] m(1) by blast
qed

lemma recv_effect:
  assumes v: "consumer_view k stream gone env polls" and next_message: "drop (length gone) stream = wire code payload @ rest"
    and code: "int32 code" and size: "length payload + 8 \<le> 2 ^ k"
    and arrives: "8 \<le> RingBuffer_size (env n)"
    and v2: "\<And>r m header. RingBuffer_read (Some env) polls True (word_of_nat HEADER_SIZE) = Some (True, header, Some r) \<Longrightarrow>
      m \<le> length stream \<Longrightarrow> queue_ok k r (take m stream) (gone @ header) \<Longrightarrow> length header = 8 \<Longrightarrow>
      consumer_view k stream (gone @ header) (later r) polls' \<and> (\<exists>n. length payload \<le> unat (RingBuffer_size (later r n)))"
    and pool: "pool_ok p" "al_size (mp_list p) < 2 ^ 30" "chunk \<noteq> 0"
  shows "\<exists>p' r m. vt_recv (Some env) polls later polls' (Some chunk) True (Some p)
      = Some (code, if payload = [] then None else Some payload, int (length payload), Some p', Some r) \<and>
    m \<le> length stream \<and> queue_ok k r (take m stream) (gone @ wire code payload) \<and>
    pool_ok p' \<and> al_size (mp_list p') \<le> al_size (mp_list p) + 1"
proof -
  have okk: "ring_ok k (env 0)" using v by (auto simp: consumer_view_def queue_ok_def)
  let ?h = "message_header (word_of_int code) (int (length payload))"
  have hs: "unat (word_of_nat HEADER_SIZE :: u32) = 8" by (simp add: HEADER_SIZE_def)
  have h0: "(word_of_nat HEADER_SIZE :: u32) \<le> ring_bufferSize (env 0)" "(word_of_nat HEADER_SIZE :: u32) \<le> RingBuffer_size (env n)"
    using size arrives ring_ok_unat [OF okk] by (simp_all add: word_le_nat_alt HEADER_SIZE_def)
  have hd: "take 8 (drop (length gone) stream) = ?h" unfolding next_message wire_def by simp
  obtain r1 m1 where one: "RingBuffer_read (Some env) polls True (word_of_nat HEADER_SIZE) = Some (True, ?h, Some r1)"
      "queue_ok k r1 (take m1 stream) (gone @ ?h)" "m1 \<le> length stream"
    using read_effect [OF v h0(2,1)] unfolding hs hd by blast
  have ok1: "ring_ok k r1" using one(2) by (simp add: queue_ok_def)
  have n32: "int32 (int (length payload))" using size ring_ok_le [OF ok1] by (simp add: int32_def)
  note rd = message_header_read [of "word_of_int code" "int (length payload)"]
  have f: "\<not> \<not> vt_transport_payload_fits (int (length payload)) (ring_bufferSize r1)
      (nat ((int (unat (ring_bufferSize r1)) - int HEADER_SIZE) mod 2 ^ 64))"
    using payload_fits [OF ok1 size] by simp
  note recv = vt_recv_def [of "Some env" polls later polls' "Some chunk" True "Some p", unfolded option.case prod.case one(1)
      Option.bind.simps Let_def rd int32_read [OF code] int32_read [OF n32] not_True_eq_False if_False if_not_P [OF f]]
  show ?thesis
  proof (cases "payload = []")
    case True
    then have "vt_recv (Some env) polls later polls' (Some chunk) True (Some p) = Some (code, None, 0, Some p, Some r1)"
      unfolding recv by simp
    then show ?thesis using True one(2,3) pool by (intro exI [of _ p] exI [of _ r1] exI [of _ m1]) (simp add: wire_def)
  next
    case False
    then have pos: "\<not> int (length payload) \<le> 0" by simp
    have c0: "\<forall>c. Some chunk = Some c \<longrightarrow> c \<noteq> 0" using pool(3) by simp
    obtain place p' where al: "vt_alloc (Some chunk) True p (int (length payload)) = Some (Some place, p')" "pool_ok p'"
        "al_size (mp_list p') \<le> al_size (mp_list p) + 1"
      using alloc_effect [OF pool(1,2) c0, of True "int (length payload)"] False by auto
    have w: "wire code payload = ?h @ payload" by (simp add: wire_def)
    have v2': "consumer_view k stream (gone @ ?h) (later r1) polls'" "\<exists>n. length payload \<le> unat (RingBuffer_size (later r1 n))"
      using v2 [OF one(1,3,2)] by simp_all
    have sz: "unat (word_of_int (int (length payload)) :: u32) = length payload"
      using size ring_ok_le [OF ok1] by (simp add: unsigned_of_nat take_bit_nat_eq_self)
    have ok2: "ring_ok k (later r1 0)" using v2'(1) by (auto simp: consumer_view_def queue_ok_def)
    obtain n2 where n2: "(word_of_int (int (length payload)) :: u32) \<le> RingBuffer_size (later r1 n2)"
      using v2'(2) sz by (auto simp: word_le_nat_alt)
    have b2: "(word_of_int (int (length payload)) :: u32) \<le> ring_bufferSize (later r1 0)"
      unfolding word_le_nat_alt sz ring_ok_unat [OF ok2] using size by simp
    have "drop (length (gone @ ?h)) stream = drop (length ?h) (drop (length gone) stream)"
      by (simp add: add.commute del: message_header_length)
    then have dr: "drop (length (gone @ ?h)) stream = payload @ rest" unfolding next_message w by simp
    have pl: "take (length payload) (payload @ rest) = payload" by simp
    obtain r2 m2 where two: "RingBuffer_read (Some (later r1)) polls' True (word_of_int (int (length payload)))
        = Some (True, payload, Some r2)" "m2 \<le> length stream" "queue_ok k r2 (take m2 stream) ((gone @ ?h) @ payload)"
      using read_effect [OF v2'(1) n2 b2] unfolding sz dr pl by blast
    have "vt_recv (Some env) polls later polls' (Some chunk) True (Some p)
        = Some (code, Some payload, int (length payload), Some p', Some r2)"
      unfolding recv if_not_P [OF pos] al(1) Option.bind.simps prod.case option.case two(1) by simp
    then show ?thesis using two(2,3) al(2,3) False by (auto simp: w)
  qed
qed

section \<open>A conversation\<close>

text \<open>One side sends messages, then the other receives as many; \<open>chunk\<close> stands for every address \<^verbatim>\<open>malloc\<close> gives.\<close>

fun send_all :: "bool \<Rightarrow> (int \<times> u8 list) list \<Rightarrow> RingBuffer \<Rightarrow> RingBuffer option" where
  "send_all server [] r = Some r"
| "send_all server ((code, payload) # messages) r = do {
     (_, ring, _, _) \<leftarrow> vt_send server (Some (\<lambda>_. r)) (\<lambda>_. Ring_Buffer.PollTimeout) 0 [] code (Some payload) (int (length payload));
     r' \<leftarrow> ring;
     send_all server messages r' }"

fun recv_all :: "nat \<Rightarrow> nat \<Rightarrow> MemoryPool \<Rightarrow> RingBuffer \<Rightarrow> ((int \<times> u8 list ptr) list \<times> MemoryPool ptr \<times> RingBuffer ptr) option" where
  "recv_all chunk 0 p r = Some ([], Some p, Some r)"
| "recv_all chunk (Suc n) p r = do {
     (code, payload, _, pool, ring) \<leftarrow> vt_recv (Some (\<lambda>_. r)) (\<lambda>_. Ring_Buffer.PollTimeout) (\<lambda>r' _. r') (\<lambda>_. Ring_Buffer.PollTimeout)
       (Some chunk) True (Some p);
     p' \<leftarrow> pool;
     r' \<leftarrow> ring;
     (messages, p'', r'') \<leftarrow> recv_all chunk n p' r';
     Some ((code, payload) # messages, p'', r'') }"

definition quiet :: "RingBuffer \<Rightarrow> bool" where
  "quiet r \<longleftrightarrow> \<not> RingBuffer_hasStatus r RING_STATUS_EXIT \<and> ring_peerFd r < 0"

lemma quiet_keeps: "ring_status r' = ring_status r \<and> ring_peerFd r' = ring_peerFd r \<Longrightarrow> quiet r \<Longrightarrow> quiet r'"
  by (simp add: quiet_def RingBuffer_hasStatus_def)

lemma quiet_view: "quiet r \<Longrightarrow> queue_ok k r stream gone \<Longrightarrow> consumer_view k stream gone (\<lambda>_. r) polls"
  by (auto simp: consumer_view_def quiet_def peer_gone_def intro!: exI [of _ "length stream"])

definition wires :: "(int \<times> u8 list) list \<Rightarrow> u8 list" where
  "wires messages = concat (map (\<lambda>(code, payload). wire code payload) messages)"

lemma wires_Cons: "wires ((code, payload) # messages) = wire code payload @ wires messages"
  by (simp add: wires_def)

lemma wire_length [simp]: "length (wire code payload) = 8 + length payload"
  by (simp add: wire_def)

lemma send_all_effect:
  assumes "queue_ok k r sent gone" "quiet r" "length sent + length (wires messages) \<le> length gone + 2 ^ k"
    "server \<or> (\<forall>(code, payload)\<in>set messages. int (length payload) < SERVER_RING_BUFFER_SIZE)"
  shows "\<exists>r'. send_all server messages r = Some r' \<and> queue_ok k r' (sent @ wires messages) gone \<and> quiet r'"
  using assms
proof (induction messages arbitrary: r sent)
  case (Cons a messages)
  obtain code payload where a: "a = (code, payload)" by fastforce
  have space: "length payload + 8 \<le> unat (RingBuffer_freeSpace r)"
    using Cons.prems(3) queue_ok_sizes(2) [OF Cons.prems(1)] by (simp add: wires_def a)
  have small: "server \<or> int (length payload) < SERVER_RING_BUFFER_SIZE" using Cons.prems(4) a by auto
  obtain r1 where one: "vt_send server (Some (\<lambda>_. r)) (\<lambda>_. Ring_Buffer.PollTimeout) 0 [] code (Some payload) (int (length payload))
      = Some (int (length payload), Some r1, [], 0)" "queue_ok k r1 (sent @ wire code payload) gone"
      "ring_status r1 = ring_status r \<and> ring_peerFd r1 = ring_peerFd r"
    using send_effect [OF Cons.prems(1) space small] by blast
  have q: "quiet r1" using quiet_keeps [OF one(3) Cons.prems(2)] .
  have fit: "length (sent @ wire code payload) + length (wires messages) \<le> length gone + 2 ^ k"
    using Cons.prems(3) by (simp add: wires_def a)
  obtain r2 where "send_all server messages r1 = Some r2" "queue_ok k r2 ((sent @ wire code payload) @ wires messages) gone" "quiet r2"
    using Cons.IH [OF one(2) q fit] Cons.prems(4) by auto
  then show ?case using one(1) by (simp add: a wires_def)
qed (simp add: wires_def)

lemma recv_keeps:
  "vt_recv (Some (\<lambda>_. r)) polls (\<lambda>r' _. r') polls2 m ok p = Some (code, payload, n, p', Some r') \<Longrightarrow>
     ring_status r' = ring_status r \<and> ring_peerFd r' = ring_peerFd r"
  by (auto dest!: read_keeps simp: vt_recv_def Let_def bind_eq_Some_conv split: option.splits if_splits)

lemma recv_tail:
  "vt_recv (Some (\<lambda>_. r)) polls (\<lambda>r' _. r') polls2 m ok p = Some (code, payload, n, p', Some r') \<Longrightarrow> ring_tail r' = ring_tail r"
  by (auto dest!: read_keeps_tail simp: vt_recv_def Let_def bind_eq_Some_conv split: option.splits if_splits)

lemma same_position:
  assumes "m \<le> n" "(word_of_nat m :: u32) = word_of_nat n" "n - m < 2 ^ 32"
  shows "m = n"
proof -
  have "(word_of_nat (n - m) :: u32) = 0" using assms(1,2) by (simp add: of_nat_diff)
  then have "2 ^ 32 dvd n - m" by (simp add: word_of_nat_eq_0_iff)
  then show ?thesis using assms(1,3) by (metis diff_is_0_eq dvd_imp_le le_antisym not_le not_gr_zero)
qed

lemma whole_stream:
  assumes "queue_ok k r1 (take m stream) g1" "m \<le> length stream" "queue_ok k r stream g" "ring_tail r1 = ring_tail r"
    "length g \<le> length g1"
  shows "queue_ok k r1 stream g1"
proof -
  have l: "length (take m stream) = m" using assms(2) by simp
  have t: "ring_tail r1 = word_of_nat m" "ring_tail r = word_of_nat (length stream)" "length g1 \<le> m" "length stream \<le> length g + 2 ^ k"
    "ring_ok k r" using assms(1,3) unfolding queue_ok_def l by blast+
  have "length stream - m < 2 ^ 32" using t(3,4) assms(5) ring_ok_le [OF t(5)] by simp
  then have "m = length stream" using same_position [OF assms(2)] t(1,2) assms(4) by simp
  then show ?thesis using assms(1) by simp
qed

lemma recv_all_effect:
  assumes "queue_ok k r (gone @ wires messages) gone" "quiet r" "pool_ok p" "al_size (mp_list p) + length messages \<le> 2 ^ 30"
    "chunk \<noteq> 0" "\<forall>(code, payload)\<in>set messages. int32 code"
  shows "\<exists>p' r'. recv_all chunk (length messages) p r
      = Some (map (\<lambda>(code, payload). (code, if payload = [] then None else Some payload)) messages, Some p', Some r') \<and>
    queue_ok k r' (gone @ wires messages) (gone @ wires messages) \<and> quiet r' \<and> pool_ok p'"
  using assms
proof (induction messages arbitrary: r gone p)
  case (Cons a messages)
  obtain code payload where a: "a = (code, payload)" by fastforce
  let ?stream = "gone @ wires (a # messages)"
  have st: "?stream = (gone @ wire code payload) @ wires messages" by (simp add: wires_def a)
  have v: "consumer_view k ?stream gone (\<lambda>_. r) polls" for polls using quiet_view [OF Cons.prems(2,1)] .
  have dr: "drop (length gone) ?stream = wire code payload @ wires messages" unfolding st by simp
  have i32: "int32 code" using Cons.prems(6) a by simp
  have len: "length payload + 8 \<le> 2 ^ k" using Cons.prems(1) st by (simp add: queue_ok_def)
  have "unat (8 :: u32) \<le> unat (RingBuffer_size r)" using queue_ok_sizes(1) [OF Cons.prems(1)] st by simp
  then have arr: "8 \<le> RingBuffer_size r" by (simp add: word_le_nat_alt)
  have pl: "al_size (mp_list p) < 2 ^ 30" using Cons.prems(4) by simp
  have view2: "consumer_view k ?stream (gone @ header) (\<lambda>_. r1) (\<lambda>_. Ring_Buffer.PollTimeout) \<and>
      (\<exists>n :: nat. length payload \<le> unat (RingBuffer_size r1))"
    if rd: "RingBuffer_read (Some (\<lambda>_. r)) (\<lambda>_. Ring_Buffer.PollTimeout) True (word_of_nat HEADER_SIZE) = Some (True, header, Some r1)"
      "m \<le> length ?stream" "queue_ok k r1 (take m ?stream) (gone @ header)" "length header = 8" for r1 m header
  proof -
    have full: "queue_ok k r1 ?stream (gone @ header)"
      by (rule whole_stream [OF rd(3,2) Cons.prems(1) read_keeps_tail [OF rd(1)]]) simp
    have q1: "quiet r1" by (rule quiet_keeps [OF read_keeps [OF rd(1)] Cons.prems(2)])
    have "length payload \<le> unat (RingBuffer_size r1)" using queue_ok_sizes(1) [OF full] rd(4) unfolding st by simp
    then show ?thesis using quiet_view [OF q1 full] by blast
  qed
  obtain p1 r1 m where one: "vt_recv (Some (\<lambda>_. r)) (\<lambda>_. Ring_Buffer.PollTimeout) (\<lambda>r' _. r') (\<lambda>_. Ring_Buffer.PollTimeout) (Some chunk) True (Some p)
      = Some (code, if payload = [] then None else Some payload, int (length payload), Some p1, Some r1)"
      "m \<le> length ?stream" "queue_ok k r1 (take m ?stream) (gone @ wire code payload)" "pool_ok p1"
      "al_size (mp_list p1) \<le> al_size (mp_list p) + 1"
    using recv_effect [where later = "\<lambda>r' _. r'" and polls = "\<lambda>_. Ring_Buffer.PollTimeout" and polls' = "\<lambda>_. Ring_Buffer.PollTimeout",
        OF v dr i32 len arr _ Cons.prems(3) pl Cons.prems(5)] view2 by blast
  have q1: "quiet r1" by (rule quiet_keeps [OF recv_keeps [OF one(1)] Cons.prems(2)])
  have "queue_ok k r1 ?stream (gone @ wire code payload)"
    by (rule whole_stream [OF one(3,2) Cons.prems(1) recv_tail [OF one(1)]]) simp
  then have full: "queue_ok k r1 ((gone @ wire code payload) @ wires messages) (gone @ wire code payload)" unfolding st .
  have pl1: "al_size (mp_list p1) + length messages \<le> 2 ^ 30" using one(5) Cons.prems(4) by simp
  obtain p2 r2 where "recv_all chunk (length messages) p1 r1
      = Some (map (\<lambda>(code, payload). (code, if payload = [] then None else Some payload)) messages, Some p2, Some r2)"
      "queue_ok k r2 ((gone @ wire code payload) @ wires messages) ((gone @ wire code payload) @ wires messages)" "quiet r2" "pool_ok p2"
    using Cons.IH [OF full q1 one(4) pl1 Cons.prems(5)] Cons.prems(6) by auto
  then show ?case using one(1) unfolding a by (simp add: wires_Cons)
qed (auto simp: wires_def)

text \<open>C36: Messages that together fit into a new ring (each its payload and 8 bytes), sent one after the other, are received in that
  order, each with its code and its payload (no buffer for an empty one), and leave the ring empty; a client's messages must stay
  below the size that takes the other way.\<close>

theorem messages_round_trip:
  assumes "RingBuffer_create calloc_ok mmap_ok fd n = Some r" and "length (wires messages) \<le> unat n"
    and "server \<or> (\<forall>(code, payload)\<in>set messages. int (length payload) < SERVER_RING_BUFFER_SIZE)"
    and "\<forall>(code, payload)\<in>set messages. int32 code" and "length messages \<le> 2 ^ 30" and "chunk \<noteq> 0"
    and "data = None \<or> (\<exists>bytes. data = Some bytes \<and> length bytes = 65536)"
  shows "\<exists>r' p r''. send_all server messages r = Some r' \<and>
    recv_all chunk (length messages) (empty_pool data) r'
      = Some (map (\<lambda>(code, payload). (code, if payload = [] then None else Some payload)) messages, Some p, Some r'') \<and>
    RingBuffer_size r'' = 0"
proof -
  obtain k where k: "ring_inv k (ring_init r)" "n = 2 ^ k" using create_inv [OF assms(1)] .
  have q: "queue_ok k r [] []" using k(1) by (simp add: ring_inv_def ring_init_def)
  have quiet: "quiet r" using assms(1)
    by (auto simp: RingBuffer_create_def quiet_def RingBuffer_setStatus_def RingBuffer_hasStatus_def RING_STATUS_IDLE_def
        RING_STATUS_EXIT_def split: if_splits)
  have "unat n = 2 ^ k" using k(2) q pow_unat [of k] by (simp add: queue_ok_def ring_ok_def)
  then have fit: "length [] + length (wires messages) \<le> length [] + 2 ^ k" using assms(2) by simp
  obtain r' where s: "send_all server messages r = Some r'" "queue_ok k r' ([] @ wires messages) []" "quiet r'"
    using send_all_effect [OF q quiet fit assms(3)] by blast
  have ok: "pool_ok (empty_pool data)" using assms(7) by (auto simp: pool_ok_def empty_pool_def MEMORY_POOL_MAX_SIZE_def list_inv_def)
  have pl: "al_size (mp_list (empty_pool data)) + length messages \<le> 2 ^ 30" using assms(5) by (simp add: empty_pool_def)
  obtain p r'' where "recv_all chunk (length messages) (empty_pool data) r'
      = Some (map (\<lambda>(code, payload). (code, if payload = [] then None else Some payload)) messages, Some p, Some r'')"
      "queue_ok k r'' ([] @ wires messages) ([] @ wires messages)"
    using recv_all_effect [OF s(2,3) ok pl assms(6,4)] by blast
  moreover have "RingBuffer_size r'' = 0" using queue_ok_sizes(1) [OF calculation(2)] by (simp add: unat_eq_0)
  ultimately show ?thesis using s(1) by blast
qed

theorem messages_round_trip_witness:
  "\<exists>r r' p r''. RingBuffer_create True True 0 32 = Some r \<and> send_all True [(5, [1, 2, 3]), (- 4, [])] r = Some r' \<and>
     recv_all 77 2 (empty_pool None) r' = Some ([(5, Some [1, 2, 3]), (- 4, None)], Some p, Some r'') \<and> RingBuffer_size r'' = 0"
proof -
  obtain r where r: "RingBuffer_create True True 0 32 = Some r"
    by (simp add: RingBuffer_create_def UINT32_MAX_def)
  let ?ms = "[(5, [1, 2, 3]), (- 4, [])] :: (int \<times> u8 list) list"
  have "length (wires ?ms) \<le> unat (32 :: u32)" by (simp add: wires_def)
  moreover have "\<forall>(code, payload)\<in>set ?ms. int32 code" by (simp add: int32_def)
  ultimately obtain r' p r'' where m: "send_all True ?ms r = Some r'"
      "recv_all 77 (length ?ms) (empty_pool None) r' = Some (map (\<lambda>(code, payload). (code, if payload = [] then None else Some payload)) ?ms, Some p, Some r'')"
      "RingBuffer_size r'' = 0"
    using messages_round_trip [OF r, of ?ms True 77 None] by auto
  have two: "length ?ms = 2" by simp
  have "map (\<lambda>(code, payload). (code, if payload = [] then None else Some payload)) ?ms = [(5, Some [1, 2, 3]), (- 4, None)]" by simp
  then show ?thesis using r m unfolding two by (intro exI [of _ r] exI [of _ r'] exI [of _ p] exI [of _ r'']) (simp only:)
qed

text \<open>C37: However the sender's writes interleave with the reads of the receiver: once the bytes of the next message arrive, receiving
  returns, and what it returns is that message's code, payload and size; it takes exactly the bytes of the message from the ring.\<close>

theorem recv_returns_next_message:
  assumes "consumer_view k stream gone env polls" and "drop (length gone) stream = wire code payload @ rest"
    and "int32 code" and "length payload + 8 \<le> 2 ^ k" and "8 \<le> RingBuffer_size (env n)"
    and "\<forall>r. consumer_view k stream (gone @ take 8 (wire code payload)) (later r) polls' \<and>
      (\<exists>n. length payload \<le> unat (RingBuffer_size (later r n)))"
    and "pool_ok p" and "al_size (mp_list p) < 2 ^ 30" and "chunk \<noteq> 0"
  shows "\<exists>p' r m. vt_recv (Some env) polls later polls' (Some chunk) True (Some p)
      = Some (code, if payload = [] then None else Some payload, int (length payload), Some p', Some r) \<and>
    m \<le> length stream \<and> queue_ok k r (take m stream) (gone @ wire code payload) \<and> pool_ok p'"
proof -
  have "consumer_view k stream (gone @ header) (later r) polls' \<and> (\<exists>n. length payload \<le> unat (RingBuffer_size (later r n)))"
    if "m \<le> length stream" "queue_ok k r (take m stream) (gone @ header)" "length header = 8" for r m header
  proof -
    have "length (gone @ header) \<le> length (take m stream)" "gone @ header = take (length (gone @ header)) (take m stream)"
      using that(2) unfolding queue_ok_def by blast+
    then have "gone @ header = take (length gone + 8) stream" using that(1,3) by (metis length_append take_take min.absorb1 length_take min.absorb2)
    then have "header = take 8 (drop (length gone) stream)"
      using that(3) by (metis append_eq_conv_conj drop_take add_diff_cancel_left')
    then have "header = take 8 (wire code payload)" unfolding assms(2) by simp
    then show ?thesis using assms(6) by blast
  qed
  then show ?thesis using recv_effect [OF assms(1-5) _ assms(7-9)] by blast
qed

theorem recv_returns_next_message_witness:
  "\<exists>env later p r. env 0 \<noteq> env 1 \<and> vt_recv (Some env) (\<lambda>_. Ring_Buffer.PollTimeout) later (\<lambda>_. Ring_Buffer.PollTimeout) (Some 77) True
     (Some (empty_pool None)) = Some (5, Some [9], 1, Some p, Some r)"
proof -
  obtain r0 where r0: "RingBuffer_create True True 0 16 = Some r0" "quiet r0" "RingBuffer_size r0 = 0"
    by (simp add: RingBuffer_create_def UINT32_MAX_def quiet_def RingBuffer_setStatus_def RingBuffer_hasStatus_def
        RING_STATUS_IDLE_def RING_STATUS_EXIT_def RingBuffer_size_def RingBuffer_getTail_def RingBuffer_getHead_def)
  obtain k where k: "ring_inv k (ring_init r0)" "(16 :: u32) = 2 ^ k" using create_inv [OF r0(1)] .
  have q0: "queue_ok k r0 [] []" using k(1) by (simp add: ring_inv_def ring_init_def)
  have "unat (2 ^ k :: u32) = 2 ^ k" using q0 pow_unat [of k] by (simp add: queue_ok_def ring_ok_def)
  then have cap: "(2 :: nat) ^ k = 16" unfolding k(2) [symmetric] by simp
  have free: "length [9 :: u8] + 8 \<le> unat (RingBuffer_freeSpace r0)" using queue_ok_sizes(2) [OF q0] cap by simp
  obtain r1 where r1: "queue_ok k r1 ([] @ wire 5 [9]) []" "ring_status r1 = ring_status r0 \<and> ring_peerFd r1 = ring_peerFd r0"
    using send_effect [OF q0 free, of True "\<lambda>_. Ring_Buffer.PollTimeout" 0 "[]" 5] by auto
  have q1: "quiet r1" by (rule quiet_keeps [OF r1(2) r0(2)])
  let ?w = "wire 5 [9]"
  let ?r2 = "RingBuffer_setHead r1 (ring_head r1 + 8)"
  have r1': "queue_ok k r1 ?w []" using r1(1) by simp
  have c: "consumer_ok ?w (length ([] :: u8 list)) (Reading 8 (take 8 ?w))" by simp
  have r2: "queue_ok k ?r2 ?w ([] @ take 8 ?w)" by (rule publish_read [OF r1' c]) simp
  have q2: "quiet ?r2" using q1 by (simp add: quiet_def RingBuffer_setHead_def RingBuffer_hasStatus_def)
  let ?env = "\<lambda>i :: nat. if i = 0 then r0 else r1"
  have v: "consumer_view k ?w [] ?env (\<lambda>_. Ring_Buffer.PollTimeout)"
    using quiet_view [OF q1 r1', of "\<lambda>_. Ring_Buffer.PollTimeout"] q0 r0(2) by (auto simp: consumer_view_def quiet_def peer_gone_def)
  have s1: "unat (RingBuffer_size r1) = 9" "unat (RingBuffer_size ?r2) = 1"
    using queue_ok_sizes(1) [OF r1'] queue_ok_sizes(1) [OF r2] by simp_all
  have a: "8 \<le> RingBuffer_size (?env 1)" using s1 by (simp add: word_le_nat_alt)
  have v2: "\<forall>r. consumer_view k ?w ([] @ take 8 ?w) ((\<lambda>_ _. ?r2) r) (\<lambda>_. Ring_Buffer.PollTimeout) \<and>
      (\<exists>n :: nat. length [9 :: u8] \<le> unat (RingBuffer_size ((\<lambda>_ _. ?r2) r n)))"
    using quiet_view [OF q2 r2] s1(2) by simp
  have p: "pool_ok (empty_pool None)" "al_size (mp_list (empty_pool None)) < 2 ^ 30" "(77 :: nat) \<noteq> 0"
    by (simp_all add: pool_ok_def empty_pool_def MEMORY_POOL_MAX_SIZE_def list_inv_def)
  have "r0 \<noteq> r1" using s1(1) r0(3) by auto
  moreover have "\<exists>p r m. vt_recv (Some ?env) (\<lambda>_. Ring_Buffer.PollTimeout) (\<lambda>_ _. ?r2) (\<lambda>_. Ring_Buffer.PollTimeout) (Some 77) True
     (Some (empty_pool None)) = Some (5, if [9 :: u8] = [] then None else Some [9], int (length [9 :: u8]), Some p, Some r) \<and>
     m \<le> length ?w \<and> queue_ok k r (take m ?w) ([] @ ?w) \<and> pool_ok p"
    by (rule recv_returns_next_message [OF v _ _ _ a v2 p, where rest = "[]"]) (simp_all add: int32_def cap)
  ultimately show ?thesis by (intro exI [of _ ?env] exI [of _ "\<lambda>_ _. ?r2"]) auto
qed

section \<open>Request codes and large requests\<close>

lemma pack16_value: "0 \<le> code \<Longrightarrow> code \<le> INT16_MAX \<Longrightarrow> sint (PACK16 code requestId) = code * 2 ^ 16 + int (unat requestId)"
proof -
  assume c: "0 \<le> code" "code \<le> INT16_MAX"
  define m where "m = nat code"
  have m: "code = int m" "m \<le> 32767" using c by (simp_all add: m_def INT16_MAX_def)
  have low: "unat (ucast requestId :: u32) = unat requestId" "unat requestId < 65536"
    using unsigned_less [of requestId, where ?'a = nat] by (simp_all add: unsigned_ucast_eq take_bit_nat_eq_self)
  have hi: "unat (push_bit 16 (word_of_nat m :: u32)) = m * 65536"
  proof -
    have "unat (word_of_nat (m * 65536) :: u32) = m * 65536" using m(2) by (simp only: unsigned_of_nat) (simp add: take_bit_nat_eq_self)
    then show ?thesis by (simp add: push_bit_eq_mult)
  qed
  have "push_bit 16 (word_of_nat m :: u32) AND ucast requestId = 0"
    by (rule bit_word_eqI) (auto simp: bit_and_iff bit_push_bit_iff bit_ucast_iff dest: bit_imp_le_length)
  then have "PACK16 code requestId = push_bit 16 (word_of_nat m) + ucast requestId"
    unfolding PACK16_def m(1) by (simp add: disjunctive_add_eq_or)
  then have u: "unat (PACK16 code requestId) = m * 65536 + unat requestId"
    using m(2) low by (simp add: unat_word_ariths(1) hi)
  have nonneg: "sint w = int (unat w)" if "unat w < 2147483648" for w :: u32
  proof -
    have "int (unat w) < 2147483648" using that by linarith
    then have "int (unat w) < 2 ^ 31" by simp
    moreover have "- (2 ^ 31) \<le> int (unat w)" by (rule order_trans [of _ 0]) simp_all
    ultimately have "int32 (int (unat w))" unfolding int32_def by blast
    from int32_read [OF this] show ?thesis by simp
  qed
  have "sint (PACK16 code requestId) = int (m * 65536 + unat requestId)"
    using nonneg [of "PACK16 code requestId"] m(2) low(2) unfolding u by linarith
  then show ?thesis using m(1) by simp
qed

lemma request_of_pack16:
  assumes "1 \<le> code" "code \<le> INT16_MAX"
  shows "request_of_code (sint (PACK16 code requestId)) = (code, Some requestId)"
proof -
  have v: "sint (PACK16 code requestId) = code * 2 ^ 16 + int (unat requestId)" using pack16_value assms by simp
  have lt: "int (unat requestId) < 65536" using unsigned_less [of requestId, where ?'a = int] by simp
  have big: "INT16_MAX < code * 2 ^ 16 + int (unat requestId)"
  proof -
    have "32767 < code * 65536 + int (unat requestId)" using assms(1) by linarith
    then show ?thesis by (simp add: INT16_MAX_def)
  qed
  have "drop_bit 16 (code * 2 ^ 16 + int (unat requestId)) = code"
    using lt by (simp add: drop_bit_eq_div)
  moreover have "(word_of_int (code * 2 ^ 16 + int (unat requestId)) :: u16) = requestId"
  proof -
    have "(65536 :: u16) = 0" by simp
    note zero = this
    show ?thesis by (simp add: zero)
  qed
  ultimately show ?thesis unfolding request_of_code_def v if_P [OF big] by simp
qed

lemma ring_write_effect:
  assumes q: "queue_ok k r sent gone" and w: "RingBuffer_write (Some (\<lambda>_. r)) polls (Some h) sz = Some (True, Some r')"
    and sz: "unat sz = length h" "h \<noteq> []"
  shows "queue_ok k r' (sent @ h) gone"
proof -
  have nz: "sz \<noteq> 0" using sz by auto
  have sp: "sz \<le> RingBuffer_freeSpace r"
      "r' = RingBuffer_setTail (ring_copy_in r (RingBuffer_getTail r) h sz) (RingBuffer_getTail r + sz)"
    using w by (auto dest: wait_const wait_const_ready simp: RingBuffer_write_def RingBuffer_waitForWrite_def Let_def
        split: option.splits if_splits bool.splits)
  have "length h + length ([] :: u8 list) \<le> length gone + 2 ^ k - length sent"
    using sp(1) queue_ok_sizes(2) [OF q] sz(1) by (simp add: word_le_nat_alt)
  from write_two_chunks [OF q this sz(1), of 0] show ?thesis
    unfolding sp(2) using nz by (simp add: RingBuffer_copyAt_def RingBuffer_getTail_def)
qed

lemma sock_write_all: "sock_write bytes sz as = Some (int sz, out, as') \<Longrightarrow> bytes \<noteq> [] \<Longrightarrow> out = bytes"
  using sock_write_effect [of bytes sz as "int sz" out as'] by auto

text \<open>A client's request of 4 MiB or more that is reported as sent went over the socket whole, behind a header with the code for
  extra data and a fresh id; the ring got a header that the server reads as the request's own code with the same id, and no
  payload. A code that is sent the plain way is read as itself.\<close>

theorem large_request_is_announced:
  assumes "vt_send False (Some (\<lambda>_. r)) polls requestId answers code (Some payload) (int (length payload))
      = Some (int (length payload), Some r', out, requestId')"
    and "SERVER_RING_BUFFER_SIZE \<le> int (length payload)" and "queue_ok k r sent gone" and "1 \<le> code" and "code \<le> INT16_MAX"
  shows "\<exists>announcement. out = message_header (PACK16 REQUEST_CODE_SEND_EXTRA_DATA requestId) (int (length payload)) @ payload \<and>
    requestId' = requestId + 1 \<and> queue_ok k r' (sent @ message_header announcement 0) gone \<and>
    request_of_code (sint announcement) = (code, Some requestId) \<and> request_of_code code = (code, None) \<and>
    request_of_code (sint (PACK16 REQUEST_CODE_SEND_EXTRA_DATA requestId)) = (REQUEST_CODE_SEND_EXTRA_DATA, Some requestId)"
proof -
  have p: "payload \<noteq> []" "int (length payload) \<noteq> 0" using assms(2) by (auto simp: SERVER_RING_BUFFER_SIZE_def)
  have g: "\<not> (int (length payload) < 0 \<or> (0 < int (length payload) \<and> Some payload = None))" by simp
  have c: "\<not> False \<and> SERVER_RING_BUFFER_SIZE \<le> int (length payload)" using assms(2) by simp
  have sl: "slice payload 0 (nat (int (length payload))) = Some payload" by simp
  let ?h = "message_header (PACK16 REQUEST_CODE_SEND_EXTRA_DATA requestId) (int (length payload))"
  let ?a = "message_header (PACK16 code requestId) 0"
  have hne: "?h \<noteq> []" "?a \<noteq> []" "unat (word_of_nat HEADER_SIZE :: u32) = length ?a"
    by (simp_all add: HEADER_SIZE_def flip: length_greater_0_conv)
  obtain out1 rest1 out2 rest2 where s1: "sock_write ?h HEADER_SIZE answers = Some (int HEADER_SIZE, out1, rest1)"
    and s2: "sock_write payload (length payload) rest1 = Some (int (length payload), out2, rest2)"
    and rw: "RingBuffer_write (Some (\<lambda>_. r)) polls (Some ?a) (word_of_nat HEADER_SIZE) = Some (True, Some r')"
    and o: "out = out1 @ out2" "requestId' = requestId + 1"
    using assms(1) p(2) unfolding vt_send_def option.case if_not_P [OF g] if_P [OF c] Option.bind.simps Let_def sl nat_int
    by (auto simp: bind_eq_Some_conv split: if_splits)
  have "out1 = ?h" "out2 = payload" using sock_write_all [OF s1 hne(1)] sock_write_all [OF s2 p(1)] by simp_all
  moreover have "queue_ok k r' (sent @ ?a) gone" using ring_write_effect [OF assms(3) rw hne(3,2)] .
  moreover have "request_of_code code = (code, None)" using assms(5) by (simp add: request_of_code_def)
  moreover have "request_of_code (sint (PACK16 REQUEST_CODE_SEND_EXTRA_DATA requestId)) = (REQUEST_CODE_SEND_EXTRA_DATA, Some requestId)"
    by (rule request_of_pack16) (simp_all add: REQUEST_CODE_SEND_EXTRA_DATA_def INT16_MAX_def)
  ultimately show ?thesis using o request_of_pack16 [OF assms(4,5), of requestId] by (intro exI [of _ "PACK16 code requestId"]) simp
qed

text \<open>What is neither small enough for the ring nor large enough for the socket: with the ring of the client's server side, of
  4 MiB, payloads of 4194297 to 4194303 bytes are always refused.\<close>

lemma sizes_between_are_refused:
  assumes "ring_bufferSize (env 0) = 4194304" "4194304 - 8 < sz" "sz < 4194304"
  shows "vt_send False (Some env) polls requestId answers code (Some payload) sz = Some (0, Some (env 0), [], requestId)"
proof -
  have "\<not> nat sz \<le> 4194296" using assms(2) by linarith
  then show ?thesis using assms by (simp add: vt_send_def vt_transport_payload_fits_def transport_defs)
qed

text \<open>A request without payload: the result is 0, the size asked for, even when nothing was sent, so that the caller's comparison
  of the two never notices.\<close>

lemma lost_empty_request:
  assumes "RingBuffer_hasStatus (env 0) RING_STATUS_EXIT" "ring_bufferSize (env 0) = 4194304" "RingBuffer_freeSpace (env 0) < 8"
  shows "vt_send False (Some env) polls requestId answers code (Some []) 0 = Some (0, Some (env 0), [], requestId)"
  using assms by (simp add: vt_send_def vt_transport_payload_fits_def transport_defs RingBuffer_writeFrame_def
      RingBuffer_waitForWrite_def ring_wait_loop.simps message_header_def not_le [symmetric])

text \<open>A request of exactly 4 MiB.\<close>

definition large_payload :: "u8 list" where
  "large_payload = replicate 4194304 0"

lemma large_payload_length: "length large_payload = 4194304"
  unfolding large_payload_def by (rule length_replicate)

theorem large_request_is_announced_witness:
  "\<exists>r r' announcement. vt_send False (Some (\<lambda>_. r)) (\<lambda>_. Ring_Buffer.PollTimeout) 9 [Taken 8, Taken 4194304] 21 (Some large_payload) 4194304
      = Some (4194304, Some r', message_header (PACK16 REQUEST_CODE_SEND_EXTRA_DATA 9) 4194304 @ large_payload, 10) \<and>
     queue_ok 4 r' (message_header announcement 0) [] \<and> request_of_code (sint announcement) = (21, Some 9)"
proof -
  define r where "r = \<lparr>ring_head = 0, ring_tail = 0, ring_status = 1, ring_buffer = replicate 16 0, ring_bufferSize = 16, ring_peerFd = - 1\<rparr>"
  have q: "queue_ok 4 r [] []" by (simp add: queue_ok_def ring_ok_def r_def)
  let ?h = "message_header (PACK16 REQUEST_CODE_SEND_EXTRA_DATA 9) 4194304"
  have f: "8 \<le> RingBuffer_freeSpace r"
    by (simp add: r_def RingBuffer_freeSpace_def RingBuffer_size_def RingBuffer_getTail_def RingBuffer_getHead_def)
  have b: "\<not> ring_bufferSize r < 8" by (simp add: r_def)
  obtain r' where w: "RingBuffer_write (Some (\<lambda>_. r)) (\<lambda>_. Ring_Buffer.PollTimeout) (Some (message_header (PACK16 21 9) 0)) (word_of_nat HEADER_SIZE)
      = Some (True, Some r')"
    using f b by (simp add: RingBuffer_write_def RingBuffer_waitForWrite_def ring_wait_loop.simps HEADER_SIZE_def Let_def)
  have s1: "sock_write ?h HEADER_SIZE [Taken 8, Taken 4194304] = Some (int HEADER_SIZE, ?h, [Taken 4194304])" by simp
  have s2: "sock_write large_payload 4194304 [Taken 4194304] = Some (4194304, large_payload, [])"
    by (simp add: large_payload_length)
  have sl: "slice large_payload 0 4194304 = Some large_payload" by (simp add: large_payload_length)
  have g: "\<not> ((4194304 :: int) < 0 \<or> (0 < (4194304 :: int) \<and> Some large_payload = None))" by simp
  have c: "\<not> False \<and> SERVER_RING_BUFFER_SIZE \<le> 4194304" by (simp add: SERVER_RING_BUFFER_SIZE_def)
  have v: "vt_send False (Some (\<lambda>_. r)) (\<lambda>_. Ring_Buffer.PollTimeout) 9 [Taken 8, Taken 4194304] 21 (Some large_payload) 4194304
      = Some (4194304, Some r', ?h @ large_payload, 10)"
    unfolding vt_send_def option.case if_not_P [OF g] if_P [OF c] Option.bind.simps Let_def s1 prod.case by (simp add: sl s2 w large_payload_length)
  have v': "vt_send False (Some (\<lambda>_. r)) (\<lambda>_. Ring_Buffer.PollTimeout) 9 [Taken 8, Taken 4194304] 21 (Some large_payload) (int (length large_payload))
      = Some (int (length large_payload), Some r', ?h @ large_payload, 10)" using v by (simp add: large_payload_length)
  obtain announcement where "queue_ok 4 r' ([] @ message_header announcement 0) []" "request_of_code (sint announcement) = (21, Some 9)"
    using large_request_is_announced [OF v' _ q] by (auto simp: large_payload_length SERVER_RING_BUFFER_SIZE_def INT16_MAX_def)
  then show ?thesis using v by (intro exI [of _ r] exI [of _ r'] exI [of _ announcement]) simp
qed

end
