(* ===== verification/Memory_Types.thy ===== *)
theory Memory_Types
  imports Array_Lemmas
begin

text \<open>
  The memory types of the device as \<^verbatim>\<open>vortekrenderer/src/vulkan_helper.c\<close> and \<^verbatim>\<open>xwindow_swapchain.c\<close> read them, and the
  allocation of shareable blocks, \<^verbatim>\<open>cpp/include/dma_utils.h\<close>.
\<close>

section \<open>Memory types\<close>

definition VK_MEMORY_PROPERTY_DEVICE_LOCAL_BIT :: u32 where "VK_MEMORY_PROPERTY_DEVICE_LOCAL_BIT = 1"
definition VK_MEMORY_PROPERTY_HOST_VISIBLE_BIT :: u32 where "VK_MEMORY_PROPERTY_HOST_VISIBLE_BIT = 2"
definition VK_MEMORY_PROPERTY_HOST_COHERENT_BIT :: u32 where "VK_MEMORY_PROPERTY_HOST_COHERENT_BIT = 4"
definition VK_MEMORY_PROPERTY_HOST_CACHED_BIT :: u32 where "VK_MEMORY_PROPERTY_HOST_CACHED_BIT = 8"

named_theorems memory_defs \<open>constants of memory types\<close>

declare VK_MEMORY_PROPERTY_DEVICE_LOCAL_BIT_def [memory_defs] VK_MEMORY_PROPERTY_HOST_VISIBLE_BIT_def [memory_defs]
  VK_MEMORY_PROPERTY_HOST_COHERENT_BIT_def [memory_defs] VK_MEMORY_PROPERTY_HOST_CACHED_BIT_def [memory_defs]

text \<open>The global \<^verbatim>\<open>deviceMemoryInfo\<close>: of a memory type only the property flags are used.\<close>

record DeviceMemoryInfo =
  dm_memoryTypes :: "u32 list"
  dm_memoryTypeCount :: int
  dm_maxAllocationSize :: u64

text \<open>The loop counter is a \<^verbatim>\<open>uint32_t\<close> and the comparison unsigned; the count comes from the driver and is not negative.\<close>

function memory_type_loop :: "DeviceMemoryInfo \<Rightarrow> u32 \<Rightarrow> u32 \<Rightarrow> nat \<Rightarrow> nat option" where
  "memory_type_loop dm typeBits properties i =
     (if int i < dm_memoryTypeCount dm then do {
        flags \<leftarrow> load (dm_memoryTypes dm) i;
        (if typeBits AND 1 \<noteq> 0 \<and> flags AND properties \<noteq> 0 then Some i
         else memory_type_loop dm (drop_bit 1 typeBits) properties (i + 1)) }
      else Some 0)"
  by pat_completeness auto
termination
  by (relation "measure (\<lambda>(dm, typeBits, properties, i). nat (dm_memoryTypeCount dm) - i)") auto

declare memory_type_loop.simps [simp del]

definition getMemoryTypeIndex :: "DeviceMemoryInfo \<Rightarrow> u32 \<Rightarrow> u32 \<Rightarrow> nat option" where
  "getMemoryTypeIndex dm typeBits properties = memory_type_loop dm typeBits properties 0"

definition getMemoryPropertyFlags :: "DeviceMemoryInfo \<Rightarrow> nat \<Rightarrow> u32 option" where
  "getMemoryPropertyFlags dm i =
     (if dm_memoryTypeCount dm = 0 \<or> dm_memoryTypeCount dm \<le> int i then Some 0 else load (dm_memoryTypes dm) i)"

definition isHostVisibleMemory :: "DeviceMemoryInfo \<Rightarrow> nat \<Rightarrow> bool option" where
  "isHostVisibleMemory dm i =
     (if dm_memoryTypeCount dm = 0 \<or> dm_memoryTypeCount dm \<le> int i then Some False
      else do {
        flags \<leftarrow> load (dm_memoryTypes dm) i;
        Some (flags AND (VK_MEMORY_PROPERTY_HOST_VISIBLE_BIT OR VK_MEMORY_PROPERTY_HOST_COHERENT_BIT OR
                VK_MEMORY_PROPERTY_HOST_CACHED_BIT) \<noteq> 0) })"

text \<open>The search of the swapchain, from \<open>index\<close> on: every required flag must be there.\<close>

function find_memory_loop :: "DeviceMemoryInfo \<Rightarrow> u32 \<Rightarrow> u32 \<Rightarrow> nat \<Rightarrow> nat option option" where
  "find_memory_loop dm typeBits required index =
     (if index < 32 then
        (if typeBits AND push_bit index 1 = 0 then find_memory_loop dm typeBits required (index + 1)
         else do {
           available \<leftarrow> getMemoryPropertyFlags dm index;
           (if available AND required = required then Some (Some index)
            else find_memory_loop dm typeBits required (index + 1)) })
      else Some None)"
  by pat_completeness auto
termination
  by (relation "measure (\<lambda>(dm, typeBits, required, index). 32 - index)") auto

declare find_memory_loop.simps [simp del]

definition findMemoryTypeIndex :: "DeviceMemoryInfo \<Rightarrow> u32 \<Rightarrow> u32 \<Rightarrow> nat option option" where
  "findMemoryTypeIndex dm typeBits required = find_memory_loop dm typeBits required 0"

section \<open>Shareable blocks\<close>

text \<open>The answers of \<^verbatim>\<open>ioctl\<close>: the result, and whether \<^verbatim>\<open>errno\<close> asks for another try. When they end the call never returns.\<close>

fun safe_ioctl :: "(int \<times> bool) list \<Rightarrow> int option" where
  "safe_ioctl [] = None"
| "safe_ioctl ((res, again) # answers) = (if res = - 1 \<and> again then safe_ioctl answers else Some res)"

text \<open>What \<^verbatim>\<open>open\<close> and \<^verbatim>\<open>ioctl\<close> answer to one allocation; \<open>no_tty\<close>: the probe for the old interface failed with \<^verbatim>\<open>ENOTTY\<close>.\<close>

record dma_answers =
  open_uncached :: int
  open_system :: int
  open_ion :: int
  heap_alloc :: "(int \<times> bool) list"
  heap_fd :: int
  ion_probe :: "(int \<times> bool) list"
  no_tty :: bool
  ion_alloc :: "(int \<times> bool) list"
  ion_share :: "(int \<times> bool) list"
  share_fd :: int
  ion_free :: "(int \<times> bool) list"
  ion_new_alloc :: "(int \<times> bool) list"
  new_fd :: int

text \<open>The result, and the descriptors opened and closed, \<^const>\<open>True\<close> for opened; an \<^verbatim>\<open>ioctl\<close> that succeeds opens the one it gives.\<close>

definition dmabuf_alloc :: "dma_answers \<Rightarrow> (int \<times> (bool \<times> int) list) option" where
  "dmabuf_alloc a =
     (let dma_fd = (if open_uncached a < 0 then open_system a else open_uncached a)
      in if 0 \<le> dma_fd then do {
           res \<leftarrow> safe_ioctl (heap_alloc a);
           (if res \<noteq> 0 then Some (- 1, [(True, dma_fd), (False, dma_fd)])
            else Some (heap_fd a, [(True, dma_fd), (True, heap_fd a), (False, dma_fd)])) }
         else let ion_fd = open_ion a
           in if ion_fd < 0 then Some (- 1, [])
           else do {
             probe \<leftarrow> safe_ioctl (ion_probe a);
             (if 0 \<le> probe \<or> \<not> no_tty a then do {
                res \<leftarrow> safe_ioctl (ion_alloc a);
                (if res \<noteq> 0 then Some (- 1, [(True, ion_fd), (False, ion_fd)])
                 else do {
                   res \<leftarrow> safe_ioctl (ion_share a);
                   (if res \<noteq> 0 then Some (- 1, [(True, ion_fd), (False, ion_fd)])
                    else do {
                      res \<leftarrow> safe_ioctl (ion_free a);
                      (if res \<noteq> 0 then Some (- 1, [(True, ion_fd), (True, share_fd a), (False, ion_fd)])
                       else Some (share_fd a, [(True, ion_fd), (True, share_fd a), (False, ion_fd)])) }) }) }
              else do {
                res \<leftarrow> safe_ioctl (ion_new_alloc a);
                (if res \<noteq> 0 then Some (- 1, [(True, ion_fd), (False, ion_fd)])
                 else Some (new_fd a, [(True, ion_fd), (True, new_fd a), (False, ion_fd)])) }) })"

end
