(* ===== verification/Resource_Memory.thy ===== *)
theory Resource_Memory
  imports Memory_Types "HOL-Library.Multiset"
begin

text \<open>
  The memory a client maps, \<^verbatim>\<open>vortekrenderer/src/resource_memory.c\<close>: allocated over an exported descriptor, a shareable
  block or a hardware buffer, whatever the device has. What the driver and the system answer is a record; what is acquired
  and released is a list of events.
\<close>

datatype ResourceMemoryType = RESOURCE_MEMORY_TYPE_AUTO | RESOURCE_MEMORY_TYPE_OPAQUE_FD | RESOURCE_MEMORY_TYPE_DMA_BUF
  | RESOURCE_MEMORY_TYPE_AHARDWAREBUFFER

text \<open>Handles and pointers are words, 0 for none.\<close>

record ResourceMemory =
  rm_fd :: int
  rm_hardwareBuffer :: u64
  rm_buffer :: u64
  rm_memory :: u64
  rm_allocationSize :: u64

text \<open>The fields of the context this code uses; \<open>mc_maxDeviceMemory\<close> is a \<^verbatim>\<open>short\<close>.\<close>

record MemoryContext =
  mc_maxDeviceMemory :: "16 word"
  mc_resourceMemoryType :: ResourceMemoryType
  mc_hasExternalMemoryFd :: bool
  mc_hasExternalMemoryDMABuf :: bool
  mc_totalAllocationSize :: u64

record VkMemoryAllocateInfo =
  mi_allocationSize :: u64
  mi_memoryTypeIndex :: nat

text \<open>A call that creates gives its result and what it left in the handle, which was 0.\<close>

record memory_answers =
  create_buffer :: "int \<times> u64"
  required_size :: u64
  allocate_export :: "int \<times> u64"
  get_memory_fd :: "int \<times> int"
  dma :: dma_answers
  dup_fd :: int
  allocate_import :: "int \<times> u64"
  hardware_buffer :: u64
  hardware_fd :: int
  allocate_hardware :: "int \<times> u64"
  allocate_plain :: "int \<times> u64"

text \<open>\<open>Fd_imported\<close>: the driver took the descriptor over.\<close>

datatype memory_event = Buffer_created u64 | Buffer_destroyed u64 | Memory_allocated u64 u64 | Memory_freed u64
  | Fd_opened int | Fd_closed int | Fd_imported int | Hardware_allocated int u64 | Hardware_released u64

definition created :: "(u64 \<Rightarrow> memory_event) \<Rightarrow> int \<times> u64 \<Rightarrow> memory_event list" where
  "created event answer = (if snd answer \<noteq> 0 then [event (snd answer)] else [])"

definition closefd :: "int \<Rightarrow> memory_event list" where
  "closefd fd = (if 0 < fd then [Fd_closed fd] else [])"

definition internalAllocate :: ResourceMemory where
  "internalAllocate = \<lparr>rm_fd = - 1, rm_hardwareBuffer = 0, rm_buffer = 0, rm_memory = 0, rm_allocationSize = 0\<rparr>"

text \<open>The width of the buffer is an \<^verbatim>\<open>int\<close>: the size is cut to 32 bits.\<close>

definition allocateHardwareBuffer :: "memory_answers \<Rightarrow> u64 \<Rightarrow> u64 \<times> memory_event list" where
  "allocateHardwareBuffer a sz =
     (hardware_buffer a, created (Hardware_allocated (sint (ucast sz :: u32))) (0, hardware_buffer a))"

definition ResourceMemory_free :: "MemoryContext \<Rightarrow> ResourceMemory ptr \<Rightarrow> memory_event list \<times> MemoryContext" where
  "ResourceMemory_free c resourceMemory =
     (case resourceMemory of
        None \<Rightarrow> ([], c)
      | Some m \<Rightarrow>
          ((if rm_buffer m \<noteq> 0 then [Buffer_destroyed (rm_buffer m)] else []) @ closefd (rm_fd m) @
           (if rm_memory m \<noteq> 0 then [Memory_freed (rm_memory m)] else []) @
           (if rm_hardwareBuffer m \<noteq> 0 then [Hardware_released (rm_hardwareBuffer m)] else []),
           if rm_memory m \<noteq> 0
           then c\<lparr>mc_totalAllocationSize := (if rm_allocationSize m < mc_totalAllocationSize c
                     then mc_totalAllocationSize c - rm_allocationSize m else 0)\<rparr>
           else c))"

text \<open>A stage of the allocation: \<open>Inr\<close> goes on to the common end, \<open>Inl\<close> jumps to the error label.\<close>

type_synonym stage = "(ResourceMemory + ResourceMemory) \<times> memory_event list \<times> VkMemoryAllocateInfo"

definition allocate_exported :: "memory_answers \<Rightarrow> VkMemoryAllocateInfo \<Rightarrow> ResourceMemory \<Rightarrow> stage" where
  "allocate_exported a info m0 =
     (let m = m0\<lparr>rm_buffer := snd (create_buffer a)\<rparr>; es = created Buffer_created (create_buffer a)
      in if fst (create_buffer a) \<noteq> 0 then (Inl m, es, info)
      else let info = info\<lparr>mi_allocationSize := required_size a\<rparr>;
               m = m\<lparr>rm_memory := snd (allocate_export a)\<rparr>;
               es = es @ created (Memory_allocated (mi_allocationSize info)) (allocate_export a)
      in if fst (allocate_export a) \<noteq> 0 then (Inl m, es, info)
      else let fd = snd (get_memory_fd a); es = es @ (if fst (get_memory_fd a) = 0 \<and> 0 \<le> fd then [Fd_opened fd] else [])
      in if fst (get_memory_fd a) \<noteq> 0 \<or> fd \<le> 0 then (Inl m, es, info)
      else (Inr (m\<lparr>rm_fd := fd\<rparr>), es, info))"

definition dma_events :: "(bool \<times> int) list \<Rightarrow> memory_event list" where
  "dma_events = map (\<lambda>(opened, fd). if opened then Fd_opened fd else Fd_closed fd)"

text \<open>The attempt with a shareable block: whether a hardware buffer has to be used, the memory, the events.\<close>

definition allocate_dma :: "memory_answers \<Rightarrow> VkMemoryAllocateInfo \<Rightarrow> ResourceMemory \<Rightarrow> (bool \<times> ResourceMemory \<times> memory_event list) option" where
  "allocate_dma a info m = do {
     (fd, opened) \<leftarrow> dmabuf_alloc (dma a);
     let es = dma_events opened;
     (if 0 < fd then
        let m = m\<lparr>rm_memory := snd (allocate_import a)\<rparr>;
            es = es @ (if 0 \<le> dup_fd a then [Fd_opened (dup_fd a)] else [])
        in if fst (allocate_import a) = 0
           then Some (False, m\<lparr>rm_fd := fd\<rparr>,
                  es @ created (Memory_allocated (mi_allocationSize info)) (allocate_import a) @
                  (if 0 \<le> dup_fd a then [Fd_imported (dup_fd a)] else []))
           else Some (True, m, es @ created (Memory_allocated (mi_allocationSize info)) (allocate_import a) @
                  closefd fd @ closefd (dup_fd a))
      else Some (True, m, es)) }"

definition allocate_hardware_backed :: "memory_answers \<Rightarrow> VkMemoryAllocateInfo \<Rightarrow> ResourceMemory \<Rightarrow> stage" where
  "allocate_hardware_backed a info m =
     (case allocateHardwareBuffer a (mi_allocationSize info) of (hardwareBuffer, es) \<Rightarrow>
      if hardwareBuffer = 0 then (Inl m, es, info)
      else let m = m\<lparr>rm_hardwareBuffer := hardwareBuffer\<rparr>; fd = hardware_fd a
      in if fd \<le> 0 then (Inl m, es, info)
      else let m = m\<lparr>rm_memory := snd (allocate_hardware a)\<rparr>;
               es = es @ created (Memory_allocated (mi_allocationSize info)) (allocate_hardware a)
      in if fst (allocate_hardware a) \<noteq> 0 then (Inl m, es, info) else (Inr (m\<lparr>rm_fd := fd\<rparr>), es, info))"

definition allocate_shared :: "DeviceMemoryInfo \<Rightarrow> memory_answers \<Rightarrow> bool \<Rightarrow> VkMemoryAllocateInfo \<Rightarrow> ResourceMemory \<Rightarrow> stage option" where
  "allocate_shared dm a hasExternalMemoryDMABuf info m = do {
     flags \<leftarrow> getMemoryPropertyFlags dm (mi_memoryTypeIndex info);
     info \<leftarrow> (if flags AND VK_MEMORY_PROPERTY_HOST_CACHED_BIT \<noteq> 0 then do {
               i \<leftarrow> getMemoryTypeIndex dm 0x7FFFFFFF (VK_MEMORY_PROPERTY_HOST_VISIBLE_BIT OR VK_MEMORY_PROPERTY_HOST_COHERENT_BIT);
               Some (info\<lparr>mi_memoryTypeIndex := i\<rparr>) }
             else Some info);
     (useExternalMemoryAHB, m, es) \<leftarrow> (if hasExternalMemoryDMABuf then allocate_dma a info m else Some (True, m, []));
     (if useExternalMemoryAHB then
        (case allocate_hardware_backed a info m of (outcome, es', info') \<Rightarrow> Some (outcome, es @ es', info'))
      else Some (Inr m, es, info)) }"

definition allocate_unmapped :: "memory_answers \<Rightarrow> VkMemoryAllocateInfo \<Rightarrow> ResourceMemory \<Rightarrow> stage" where
  "allocate_unmapped a info m =
     (let m = m\<lparr>rm_memory := snd (allocate_plain a)\<rparr>; es = created (Memory_allocated (mi_allocationSize info)) (allocate_plain a)
      in if fst (allocate_plain a) \<noteq> 0 then (Inl m, es, info) else (Inr m, es, info))"

definition memory_limit :: "DeviceMemoryInfo \<Rightarrow> MemoryContext \<Rightarrow> u64" where
  "memory_limit dm c =
     (let maxAllocationSize = push_bit 20 (scast (mc_maxDeviceMemory c))
      in if maxAllocationSize = 0 then dm_maxAllocationSize dm else maxAllocationSize)"

definition ResourceMemory_allocate ::
  "DeviceMemoryInfo \<Rightarrow> memory_answers \<Rightarrow> MemoryContext \<Rightarrow> VkMemoryAllocateInfo
     \<Rightarrow> (ResourceMemory ptr \<times> memory_event list \<times> MemoryContext \<times> VkMemoryAllocateInfo) option" where
  "ResourceMemory_allocate dm a c info =
     (if memory_limit dm c \<le> mc_totalAllocationSize c + mi_allocationSize info then Some (None, [], c, info)
      else do {
        visible \<leftarrow> isHostVisibleMemory dm (mi_memoryTypeIndex info);
        (outcome, es, info) \<leftarrow>
          (if visible then
             let (hasExternalMemoryFd, hasExternalMemoryDMABuf) =
               (case mc_resourceMemoryType c of
                  RESOURCE_MEMORY_TYPE_AUTO \<Rightarrow> (mc_hasExternalMemoryFd c, mc_hasExternalMemoryDMABuf c)
                | RESOURCE_MEMORY_TYPE_OPAQUE_FD \<Rightarrow> (True, False)
                | RESOURCE_MEMORY_TYPE_DMA_BUF \<Rightarrow> (False, True)
                | RESOURCE_MEMORY_TYPE_AHARDWAREBUFFER \<Rightarrow> (False, False))
             in if hasExternalMemoryFd then Some (allocate_exported a info internalAllocate)
                else allocate_shared dm a hasExternalMemoryDMABuf info internalAllocate
           else Some (allocate_unmapped a info internalAllocate));
        (case outcome of
           Inl m \<Rightarrow> (case ResourceMemory_free c (Some m) of (es', c') \<Rightarrow> Some (None, es @ es', c', info))
         | Inr m \<Rightarrow> Some (Some (m\<lparr>rm_allocationSize := mi_allocationSize info\<rparr>), es,
                      c\<lparr>mc_totalAllocationSize := mc_totalAllocationSize c + mi_allocationSize info\<rparr>, info)) })"

end
