(* ===== verification/Resource_Properties.thy ===== *)
theory Resource_Properties
  imports Resource_Memory
begin

text \<open>
  What the allocation of mapped memory does with the resources it takes: whichever of its ways it goes and wherever that
  way fails, nothing is lost and the account of the context is right.
\<close>

section \<open>Memory types\<close>





text \<open>Asked for memory that is visible and coherent, \<open>getMemoryTypeIndex\<close> may give a type that is only visible.\<close>

lemma one_flag_is_enough:
  "getMemoryTypeIndex \<lparr>dm_memoryTypes = [2, 6], dm_memoryTypeCount = 2, dm_maxAllocationSize = 0\<rparr> 0x7FFFFFFF
     (VK_MEMORY_PROPERTY_HOST_VISIBLE_BIT OR VK_MEMORY_PROPERTY_HOST_COHERENT_BIT) = Some 0"
  by (simp add: getMemoryTypeIndex_def memory_type_loop.simps memory_defs)

section \<open>What is held\<close>

datatype resource = Buffer u64 | Memory u64 | Fd int | Hardware u64

fun acquires :: "memory_event \<Rightarrow> resource multiset" where
  "acquires (Buffer_created b) = {#Buffer b#}"
| "acquires (Memory_allocated sz m) = {#Memory m#}"
| "acquires (Fd_opened fd) = {#Fd fd#}"
| "acquires (Hardware_allocated width h) = {#Hardware h#}"
| "acquires _ = {#}"

fun releases :: "memory_event \<Rightarrow> resource multiset" where
  "releases (Buffer_destroyed b) = {#Buffer b#}"
| "releases (Memory_freed m) = {#Memory m#}"
| "releases (Fd_closed fd) = {#Fd fd#}"
| "releases (Fd_imported fd) = {#Fd fd#}"
| "releases (Hardware_released h) = {#Hardware h#}"
| "releases _ = {#}"

definition acquired :: "memory_event list \<Rightarrow> resource multiset" where
  "acquired es = sum_list (map acquires es)"

definition released :: "memory_event list \<Rightarrow> resource multiset" where
  "released es = sum_list (map releases es)"

lemma acquired_simps [simp]: "acquired [] = {#}" "acquired (e # es) = acquires e + acquired es" "acquired (es @ es') = acquired es + acquired es'"
  by (simp_all add: acquired_def)

lemma released_simps [simp]: "released [] = {#}" "released (e # es) = releases e + released es" "released (es @ es') = released es + released es'"
  by (simp_all add: released_def)

lemma created_effect [simp]:
  "acquired (created Buffer_created x) = (if snd x \<noteq> 0 then {#Buffer (snd x)#} else {#})"
  "acquired (created (Memory_allocated sz) x) = (if snd x \<noteq> 0 then {#Memory (snd x)#} else {#})"
  "acquired (created (Hardware_allocated w) x) = (if snd x \<noteq> 0 then {#Hardware (snd x)#} else {#})"
  "released (created Buffer_created x) = {#}" "released (created (Memory_allocated sz) x) = {#}"
  "released (created (Hardware_allocated w) x) = {#}"
  by (simp_all add: created_def)

lemma closefd_effect [simp]: "acquired (closefd fd) = {#}" "released (closefd fd) = (if 0 < fd then {#Fd fd#} else {#})"
  by (simp_all add: closefd_def)
















definition no_memory :: MemoryContext where
  "no_memory = \<lparr>mc_maxDeviceMemory = 0, mc_resourceMemoryType = RESOURCE_MEMORY_TYPE_DMA_BUF, mc_hasExternalMemoryFd = True,
     mc_hasExternalMemoryDMABuf = True, mc_totalAllocationSize = 0\<rparr>"

definition some_answers :: memory_answers where
  "some_answers = \<lparr>create_buffer = (0, 5), required_size = 64, allocate_export = (0, 6), get_memory_fd = (0, 9),
     dma = \<lparr>open_uncached = 7, open_system = - 1, open_ion = - 1, heap_alloc = [(- 1, True), (0, False)], heap_fd = 8, ion_probe = [],
       no_tty = False, ion_alloc = [], ion_share = [], share_fd = 1, ion_free = [], ion_new_alloc = [], new_fd = 1\<rparr>,
     dup_fd = 10, allocate_import = (- 2, 0), hardware_buffer = 11, hardware_fd = 12, allocate_hardware = (0, 13), allocate_plain = (0, 14)\<rparr>"


section \<open>Where the code goes wrong\<close>

text \<open>The sum of the account and the size asked for wraps: with 1 MiB in use, a request of just under $2^{64}$ bytes passes the limit.\<close>

lemma limit_wraps:
  "\<not> memory_limit \<lparr>dm_memoryTypes = [], dm_memoryTypeCount = 0, dm_maxAllocationSize = 0x40000000\<rparr>
       (no_memory\<lparr>mc_totalAllocationSize := 0x100000\<rparr>) \<le> 0x100000 + (- 16)"
  by (simp add: memory_limit_def no_memory_def)

text \<open>A hardware buffer for a size above 32 bits is allocated for what is left of it.\<close>

lemma size_is_cut: "allocateHardwareBuffer some_answers 0x100000010 = (11, [Hardware_allocated 16 11])"
  by (simp add: allocateHardwareBuffer_def created_def some_answers_def)

text \<open>When the request to free the handle of the old interface fails, the descriptor that was shared before is lost.\<close>

lemma shared_descriptor_lost:
  assumes "open_uncached d < 0" "open_system d < 0" "0 \<le> open_ion d" "\<not> no_tty d" "safe_ioctl (ion_probe d) = Some (- 1)"
    "safe_ioctl (ion_alloc d) = Some 0" "safe_ioctl (ion_share d) = Some 0" "safe_ioctl (ion_free d) = Some (- 1)"
  shows "\<exists>opened. dmabuf_alloc d = Some (- 1, opened) \<and> acquired (dma_events opened) = released (dma_events opened) + {#Fd (share_fd d)#}"
  using assms by (simp add: dmabuf_alloc_def dma_events_def Let_def add_mset_commute)

end
