(* ===== verification/Window_Swapchain.thy ===== *)
theory Window_Swapchain
  imports Swapchain_Transaction Memory_Types Async_Requests
begin

text \<open>
  The swapchain of a window, \<^verbatim>\<open>vortekrenderer/src/xwindow_swapchain.c\<close>: the callbacks for the transaction that builds its
  images over the hardware buffer of the window, its creation and destruction, acquiring and presenting. The driver, the
  allocator and the Java side answer as functions of everything that happened before; the events are recorded.
\<close>

section \<open>The surroundings\<close>

definition VK_ERROR_SURFACE_LOST_KHR :: int where "VK_ERROR_SURFACE_LOST_KHR = - 1000000000"
definition VK_ERROR_FEATURE_NOT_PRESENT :: int where "VK_ERROR_FEATURE_NOT_PRESENT = - 8"
definition VORTEK_XWINDOW_SWAPCHAIN_MAX_IMAGES :: nat where "VORTEK_XWINDOW_SWAPCHAIN_MAX_IMAGES = 2"
definition VK_FORMAT_R8G8B8A8_UNORM :: u32 where "VK_FORMAT_R8G8B8A8_UNORM = 37"
definition VK_FORMAT_R8G8B8A8_SRGB :: u32 where "VK_FORMAT_R8G8B8A8_SRGB = 43"
definition VK_FORMAT_B8G8R8A8_UNORM :: u32 where "VK_FORMAT_B8G8R8A8_UNORM = 44"
definition VK_FORMAT_B8G8R8A8_SRGB :: u32 where "VK_FORMAT_B8G8R8A8_SRGB = 50"

datatype window_event = Heap_allocated u64 | Heap_freed u64 | Reference_acquired u64 | Reference_released u64
  | Image_created u64 | Image_destroyed u64 | Memory_imported u64 | Memory_returned u64 | Queue_submitted u64 u64

type_synonym window_trace = "window_event list"

text \<open>A call of a Java method answers whether an exception is pending, and its result.\<close>

record window_answers =
  wa_calloc :: "window_trace \<Rightarrow> u64"
  wa_extent :: "window_trace \<Rightarrow> bool \<times> u64"
  wa_buffer :: "window_trace \<Rightarrow> bool \<Rightarrow> bool \<times> u64"
  wa_describe :: "window_trace \<Rightarrow> u32 \<times> u32"
  wa_create_image :: "window_trace \<Rightarrow> int \<times> u64"
  wa_buffer_properties :: "window_trace \<Rightarrow> int \<times> u64 \<times> u32"
  wa_allocate_memory :: "window_trace \<Rightarrow> int \<times> u64"
  wa_bind :: "window_trace \<Rightarrow> int"
  wa_queue :: "window_trace \<Rightarrow> u64"
  wa_submit :: "window_trace \<Rightarrow> int"
  wa_update :: "window_trace \<Rightarrow> bool \<times> bool"

text \<open>Pointers and method ids are words, 0 for NULL.\<close>

record JMethods =
  jm_env :: u64
  jm_obj :: u64
  jm_getWindowExtentAuthority :: u64
  jm_getWindowHardwareBufferAuthority :: u64
  jm_updateWindowContentAuthority :: u64

record VkExtent2D =
  ext_width :: u32
  ext_height :: u32

record XWindowSwapchain_Image =
  xi_image :: u64
  xi_memory :: u64

text \<open>\<open>xs_address\<close> is the block of the structure itself, \<open>xs_images\<close> the pointer and \<open>xs_cells\<close> the array it points to.\<close>

record XWindowSwapchain =
  xs_address :: u64
  xs_contextGeneration :: u64
  xs_instanceToken :: u64
  xs_windowId :: int
  xs_images :: u64
  xs_cells :: "XWindowSwapchain_Image list"
  xs_imageCount :: nat
  xs_imageFormat :: u32
  xs_imageExtent :: VkExtent2D
  xs_imageUsage :: u32
  xs_queue :: u64
  xs_jmethods :: "JMethods ptr"

section \<open>Extent and hardware buffer\<close>

text \<open>\<open>clearJniException\<close> tells whether there was one; without an environment it cannot tell.\<close>

definition clearJniException :: "JMethods ptr \<Rightarrow> bool \<Rightarrow> bool" where
  "clearJniException jmethods pending = (case jmethods of None \<Rightarrow> False | Some j \<Rightarrow> jm_env j \<noteq> 0 \<and> pending)"

definition getWindowExtent :: "window_answers \<Rightarrow> window_trace \<Rightarrow> JMethods ptr \<Rightarrow> u64 \<Rightarrow> u64 \<Rightarrow> int \<Rightarrow> VkExtent2D option" where
  "getWindowExtent a h jmethods contextGeneration instanceToken windowId =
     (case jmethods of
        None \<Rightarrow> None
      | Some j \<Rightarrow>
          if jm_env j = 0 \<or> jm_obj j = 0 \<or> jm_getWindowExtentAuthority j = 0 \<or> contextGeneration = 0 \<or> instanceToken = 0 \<or> windowId \<le> 0
          then None
          else case wa_extent a h of (pending, packed) \<Rightarrow>
            if clearJniException jmethods pending \<or> packed = 0 then None
            else let width = ucast (drop_bit 32 packed); height = ucast packed
            in if width = 0 \<or> height = 0 then None else Some \<lparr>ext_width = width, ext_height = height\<rparr>)"

text \<open>The buffer, which Java acquired a reference of, or 0.\<close>

definition getWindowHardwareBuffer :: "window_answers \<Rightarrow> window_trace \<Rightarrow> JMethods ptr \<Rightarrow> bool \<Rightarrow> u64" where
  "getWindowHardwareBuffer a h jmethods useHALPixelFormatBGRA8888 =
     (case jmethods of
        None \<Rightarrow> 0
      | Some j \<Rightarrow>
          if jm_env j = 0 \<or> jm_obj j = 0 \<or> jm_getWindowHardwareBufferAuthority j = 0 then 0
          else case wa_buffer a h useHALPixelFormatBGRA8888 of (pending, pointer) \<Rightarrow>
            if clearJniException jmethods pending \<or> pointer = 0 then 0 else pointer)"

section \<open>The callbacks\<close>

text \<open>The build context without what does not change, the device and the swapchain; \<open>bc_trace\<close> is what happened.\<close>

record XWindowImageBuildContext =
  bc_hardwareBuffer :: u64
  bc_width :: u32
  bc_height :: u32
  bc_trace :: window_trace

definition emit :: "window_event \<Rightarrow> XWindowImageBuildContext \<Rightarrow> XWindowImageBuildContext" where
  "emit e w = w\<lparr>bc_trace := bc_trace w @ [e]\<rparr>"

definition is_bgra :: "XWindowSwapchain \<Rightarrow> bool" where
  "is_bgra s \<longleftrightarrow> xs_imageFormat s = VK_FORMAT_B8G8R8A8_UNORM \<or> xs_imageFormat s = VK_FORMAT_B8G8R8A8_SRGB"

text \<open>An acquired reference that an exception hides is not recorded: nobody can release it.\<close>

definition window_beginImage ::
  "window_answers \<Rightarrow> XWindowSwapchain \<Rightarrow> XWindowImageBuildContext \<Rightarrow> nat \<Rightarrow> int \<times> XWindowImageBuildContext" where
  "window_beginImage a s w index =
     (if bc_hardwareBuffer w \<noteq> 0 then (VK_ERROR_INITIALIZATION_FAILED, w)
      else let buffer = getWindowHardwareBuffer a (bc_trace w) (xs_jmethods s) (is_bgra s)
      in if buffer = 0 then (VK_ERROR_SURFACE_LOST_KHR, w)
      else let w = emit (Reference_acquired buffer) (w\<lparr>bc_hardwareBuffer := buffer\<rparr>)
      in case wa_describe a (bc_trace w) of (width, height) \<Rightarrow>
         let w = w\<lparr>bc_width := width, bc_height := height\<rparr>
         in if width = 0 \<or> height = 0 \<or> width \<noteq> ext_width (xs_imageExtent s) \<or> height \<noteq> ext_height (xs_imageExtent s)
            then (VK_ERROR_SURFACE_LOST_KHR, w) else (0, w))"

definition window_endImage :: "XWindowImageBuildContext \<Rightarrow> nat \<Rightarrow> XWindowImageBuildContext" where
  "window_endImage w index =
     (let w = (if bc_hardwareBuffer w \<noteq> 0
               then (emit (Reference_released (bc_hardwareBuffer w)) w)\<lparr>bc_hardwareBuffer := 0\<rparr> else w)
      in w\<lparr>bc_width := 0, bc_height := 0\<rparr>)"

definition createTransactionImage ::
  "window_answers \<Rightarrow> XWindowImageBuildContext \<Rightarrow> nat \<Rightarrow> int \<times> u64 \<times> XWindowImageBuildContext" where
  "createTransactionImage a w index =
     (if bc_hardwareBuffer w = 0 then (VK_ERROR_INITIALIZATION_FAILED, 0, w)
      else case wa_create_image a (bc_trace w) of (result, img) \<Rightarrow>
        if result = 0 then (result, img, emit (Image_created img) w) else (result, 0, w))"

text \<open>The search for a memory type is defined as long as the device counts no more types than it has; else it is taken to find none.\<close>

definition allocateTransactionMemory ::
  "DeviceMemoryInfo \<Rightarrow> window_answers \<Rightarrow> u64 \<Rightarrow> XWindowImageBuildContext \<Rightarrow> nat \<Rightarrow> u64 \<Rightarrow> int \<times> u64 \<times> XWindowImageBuildContext" where
  "allocateTransactionMemory dm a device w index imageBits =
     (if device = 0 \<or> bc_hardwareBuffer w = 0 \<or> imageBits = 0 then (VK_ERROR_INITIALIZATION_FAILED, 0, w)
      else case wa_buffer_properties a (bc_trace w) of (result, allocationSize, memoryTypeBits) \<Rightarrow>
        if result \<noteq> 0 then (result, 0, w)
        else if allocationSize = 0 \<or> memoryTypeBits = 0 then (VK_ERROR_INITIALIZATION_FAILED, 0, w)
        else case findMemoryTypeIndex dm memoryTypeBits VK_MEMORY_PROPERTY_DEVICE_LOCAL_BIT of
            Some (Some memoryTypeIndex) \<Rightarrow>
              (case wa_allocate_memory a (bc_trace w) of (result, memory) \<Rightarrow>
                 if result = 0 then (result, memory, emit (Memory_imported memory) w) else (result, 0, w))
          | _ \<Rightarrow> (VK_ERROR_FEATURE_NOT_PRESENT, 0, w))"

definition bindTransactionMemory ::
  "window_answers \<Rightarrow> u64 \<Rightarrow> XWindowImageBuildContext \<Rightarrow> nat \<Rightarrow> u64 \<Rightarrow> u64 \<Rightarrow> int \<times> XWindowImageBuildContext" where
  "bindTransactionMemory a device w index imageBits memoryBits =
     (if device = 0 \<or> imageBits = 0 \<or> memoryBits = 0 then (VK_ERROR_INITIALIZATION_FAILED, w) else (wa_bind a (bc_trace w), w))"

definition destroyTransactionImage :: "u64 \<Rightarrow> XWindowImageBuildContext \<Rightarrow> u64 \<Rightarrow> XWindowImageBuildContext" where
  "destroyTransactionImage device w imageBits = (if device = 0 \<or> imageBits = 0 then w else emit (Image_destroyed imageBits) w)"

definition freeTransactionMemory :: "u64 \<Rightarrow> XWindowImageBuildContext \<Rightarrow> u64 \<Rightarrow> XWindowImageBuildContext" where
  "freeTransactionMemory device w memoryBits = (if device = 0 \<or> memoryBits = 0 then w else emit (Memory_returned memoryBits) w)"

definition imageTransactionOps ::
  "DeviceMemoryInfo \<Rightarrow> window_answers \<Rightarrow> u64 \<Rightarrow> XWindowSwapchain \<Rightarrow> XWindowImageBuildContext VtXWindowTransactionOps" where
  "imageTransactionOps dm a device s =
     \<lparr>beginImage = Some (window_beginImage a s), createImage = Some (createTransactionImage a),
      allocateMemory = Some (allocateTransactionMemory dm a device), bindImageMemory = Some (bindTransactionMemory a device),
      endImage = Some window_endImage, destroyImage = Some (destroyTransactionImage device),
      freeMemory = Some (freeTransactionMemory device), tx_invalidResult = VK_ERROR_INITIALIZATION_FAILED\<rparr>"

definition window_allocateZeroed :: "window_answers \<Rightarrow> window_trace \<Rightarrow> nat \<Rightarrow> nat \<Rightarrow> u64 \<times> window_trace" where
  "window_allocateZeroed a h n sz = (let p = wa_calloc a h in (p, if p \<noteq> 0 then h @ [Heap_allocated p] else h))"

text \<open>\<open>free\<close> of NULL does nothing.\<close>

definition window_freeAllocation :: "window_trace \<Rightarrow> u64 \<Rightarrow> window_trace" where
  "window_freeAllocation h p = (if p = 0 then h else h @ [Heap_freed p])"

definition heapTransactionOps :: "window_answers \<Rightarrow> window_trace VtXWindowHeapOps" where
  "heapTransactionOps a = \<lparr>allocateZeroed = Some (window_allocateZeroed a), freeAllocation = Some window_freeAllocation,
     outOfMemoryResult = VK_ERROR_OUT_OF_HOST_MEMORY, heap_invalidResult = VK_ERROR_INITIALIZATION_FAILED\<rparr>"

section \<open>The swapchain\<close>

definition fresh_context :: "window_trace \<Rightarrow> XWindowImageBuildContext" where
  "fresh_context h = \<lparr>bc_hardwareBuffer = 0, bc_width = 0, bc_height = 0, bc_trace = h\<rparr>"

text \<open>The loop that moves the handles into the local array of two cells, which were 0.\<close>

fun take_images :: "nat \<Rightarrow> nat \<Rightarrow> XWindowSwapchain_Image list \<Rightarrow> VtXWindowTransactionImage list
    \<Rightarrow> (XWindowSwapchain_Image list \<times> VtXWindowTransactionImage list) option" where
  "take_images index 0 cells images = Some (cells, images)"
| "take_images index (Suc left) cells images = do {
     c \<leftarrow> load cells index;
     images' \<leftarrow> store images index \<lparr>tx_image = xi_image c, tx_memory = xi_memory c\<rparr>;
     cells' \<leftarrow> store cells index \<lparr>xi_image = 0, xi_memory = 0\<rparr>;
     take_images (index + 1) left cells' images' }"

definition rollbackSwapchainImages ::
  "DeviceMemoryInfo \<Rightarrow> window_answers \<Rightarrow> u64 \<Rightarrow> XWindowSwapchain \<Rightarrow> window_trace \<Rightarrow> (XWindowSwapchain \<times> window_trace) option" where
  "rollbackSwapchainImages dm a device s h =
     (if device = 0 \<or> xs_images s = 0 then Some (s, h)
      else let n = (if xs_imageCount s \<le> VORTEK_XWINDOW_SWAPCHAIN_MAX_IMAGES then xs_imageCount s else VORTEK_XWINDOW_SWAPCHAIN_MAX_IMAGES)
      in do {
        (cells, images) \<leftarrow> take_images 0 n (xs_cells s) (replicate VORTEK_XWINDOW_SWAPCHAIN_MAX_IMAGES \<lparr>tx_image = 0, tx_memory = 0\<rparr>);
        (_, w) \<leftarrow> vt_xwindow_transaction_rollback (Some (imageTransactionOps dm a device s)) (fresh_context h) (Some images) n;
        Some (s\<lparr>xs_cells := cells\<rparr>, bc_trace w) })"

definition getSurfaceMinImageCount :: int where "getSurfaceMinImageCount = 1"

text \<open>The formats with the colour space, which is 0 for all of them.\<close>

definition getSurfaceFormats :: "(u32 \<times> u32) list" where
  "getSurfaceFormats = [(VK_FORMAT_B8G8R8A8_UNORM, 0), (VK_FORMAT_B8G8R8A8_SRGB, 0), (VK_FORMAT_R8G8B8A8_UNORM, 0), (VK_FORMAT_R8G8B8A8_SRGB, 0)]"

definition XWindowSwapchain_destroy ::
  "DeviceMemoryInfo \<Rightarrow> window_answers \<Rightarrow> u64 \<Rightarrow> XWindowSwapchain ptr \<Rightarrow> window_trace \<Rightarrow> window_trace option" where
  "XWindowSwapchain_destroy dm a device swapchain h =
     (case swapchain of
        None \<Rightarrow> Some h
      | Some s \<Rightarrow> do {
          (s, h) \<leftarrow> rollbackSwapchainImages dm a device s h;
          Some (window_freeAllocation (window_freeAllocation h (xs_images s)) (xs_address s)) })"

record VkSwapchainCreateInfoKHR =
  ci_minImageCount :: nat
  ci_imageFormat :: u32
  ci_imageExtent :: VkExtent2D
  ci_imageUsage :: u32

definition sizeof_XWindowSwapchain :: nat where "sizeof_XWindowSwapchain = 72"
definition sizeof_XWindowSwapchain_Image :: nat where "sizeof_XWindowSwapchain_Image = 16"

text \<open>The loop that stores the built images.\<close>

fun store_images :: "nat \<Rightarrow> nat \<Rightarrow> VtXWindowTransactionImage list \<Rightarrow> XWindowSwapchain_Image list \<Rightarrow> XWindowSwapchain_Image list option" where
  "store_images index 0 images cells = Some cells"
| "store_images index (Suc left) images cells = do {
     i \<leftarrow> load images index;
     cells' \<leftarrow> store cells index \<lparr>xi_image = tx_image i, xi_memory = tx_memory i\<rparr>;
     store_images (index + 1) left images cells' }"

text \<open>The result, the swapchain behind the out pointer, and what happened.\<close>

definition XWindowSwapchain_create ::
  "DeviceMemoryInfo \<Rightarrow> window_answers \<Rightarrow> u64 \<Rightarrow> VkSwapchainCreateInfoKHR ptr \<Rightarrow> JMethods ptr \<Rightarrow> u64 \<Rightarrow> u64 \<Rightarrow> int \<Rightarrow> window_trace
     \<Rightarrow> (int \<times> XWindowSwapchain ptr \<times> window_trace) option" where
  "XWindowSwapchain_create dm a device swapchainInfo jmethods contextGeneration instanceToken windowId h =
     (case swapchainInfo of
        None \<Rightarrow> Some (VK_ERROR_INITIALIZATION_FAILED, None, h)
      | Some info \<Rightarrow>
          if device = 0 \<or> jmethods = None \<or> contextGeneration = 0 \<or> instanceToken = 0 \<or> windowId \<le> 0 \<or> ci_minImageCount info = 0 \<or>
             VORTEK_XWINDOW_SWAPCHAIN_MAX_IMAGES < ci_minImageCount info \<or> ext_width (ci_imageExtent info) = 0 \<or> ext_height (ci_imageExtent info) = 0
          then Some (VK_ERROR_INITIALIZATION_FAILED, None, h)
          else case vt_xwindow_transaction_allocate_heap (Some (heapTransactionOps a)) h sizeof_XWindowSwapchain (ci_minImageCount info)
              sizeof_XWindowSwapchain_Image (Some 0) (Some 0) of (result, wrapper, images, h) \<Rightarrow>
            if result \<noteq> 0 then Some (result, None, h)
            else do {
              address \<leftarrow> wrapper;
              imagesAddress \<leftarrow> images;
              let s = \<lparr>xs_address = address, xs_contextGeneration = contextGeneration, xs_instanceToken = instanceToken, xs_windowId = windowId,
                       xs_images = imagesAddress, xs_cells = replicate (ci_minImageCount info) \<lparr>xi_image = 0, xi_memory = 0\<rparr>,
                       xs_imageCount = ci_minImageCount info, xs_imageFormat = ci_imageFormat info, xs_imageExtent = ci_imageExtent info,
                       xs_imageUsage = ci_imageUsage info, xs_queue = 0, xs_jmethods = jmethods\<rparr>;
              (result, builtImages, w) \<leftarrow> vt_xwindow_transaction_build (Some (imageTransactionOps dm a device s)) (fresh_context h) (xs_imageCount s)
                (Some (replicate VORTEK_XWINDOW_SWAPCHAIN_MAX_IMAGES \<lparr>tx_image = 0, tx_memory = 0\<rparr>));
              built \<leftarrow> builtImages;
              let h = bc_trace w;
              (if result \<noteq> 0 then Some (result, None, window_freeAllocation (window_freeAllocation h (xs_images s)) (xs_address s))
               else do {
                 cells \<leftarrow> store_images 0 (xs_imageCount s) built (xs_cells s);
                 let s = s\<lparr>xs_cells := cells, xs_queue := wa_queue a h\<rparr>;
                 (if xs_queue s = 0 then do {
                    h \<leftarrow> XWindowSwapchain_destroy dm a device (Some s) h;
                    Some (VK_ERROR_INITIALIZATION_FAILED, None, h) }
                  else Some (0, Some s, h)) }) })"

section \<open>Acquiring and presenting\<close>

text \<open>\<open>imageIndex\<close>: the out pointer is given; the result, the index written, and what happened.\<close>

definition XWindowSwapchain_acquireNextImage ::
  "window_answers \<Rightarrow> XWindowSwapchain ptr \<Rightarrow> u64 \<Rightarrow> u64 \<Rightarrow> bool \<Rightarrow> window_trace \<Rightarrow> int \<times> nat option \<times> window_trace" where
  "XWindowSwapchain_acquireNextImage a swapchain signalSemaphore fence imageIndex h =
     (case swapchain of
        None \<Rightarrow> (VK_ERROR_INITIALIZATION_FAILED, None, h)
      | Some s \<Rightarrow>
          if \<not> imageIndex then (VK_ERROR_INITIALIZATION_FAILED, None, h)
          else if getWindowExtent a h (xs_jmethods s) (xs_contextGeneration s) (xs_instanceToken s) (xs_windowId s) \<noteq> Some (xs_imageExtent s)
          then (VK_ERROR_SURFACE_LOST_KHR, None, h)
          else if signalSemaphore \<noteq> 0 \<or> fence \<noteq> 0
          then let result = wa_submit a h; h = h @ [Queue_submitted signalSemaphore fence]
               in if result \<noteq> 0 then (result, None, h) else (0, Some 0, h)
          else (0, Some 0, h))"

definition XWindowSwapchain_presentImage :: "window_answers \<Rightarrow> XWindowSwapchain ptr \<Rightarrow> window_trace \<Rightarrow> bool" where
  "XWindowSwapchain_presentImage a swapchain h =
     (case swapchain of
        None \<Rightarrow> False
      | Some s \<Rightarrow>
          (case xs_jmethods s of
             None \<Rightarrow> False
           | Some j \<Rightarrow>
               if jm_env j = 0 \<or> jm_obj j = 0 \<or> jm_updateWindowContentAuthority j = 0 then False
               else case wa_update a h of (pending, updated) \<Rightarrow> \<not> clearJniException (Some j) pending \<and> updated))"

end
