(* ===== verification/Window_Properties.thy ===== *)
theory Window_Properties
  imports Window_Swapchain
begin

text \<open>
  The transaction over callbacks that hold resources, as an interface, and what follows for the swapchain of a window: blocks,
  references of hardware buffers, images and memory are given back exactly once on every path.
\<close>

section \<open>Callbacks that hold resources\<close>

definition unless_null :: "(u64 \<Rightarrow> 'r) \<Rightarrow> u64 \<Rightarrow> 'r multiset" where
  "unless_null f x = (if x = 0 then {#} else {#f x#})"

text \<open>What the first images of an array stand for.\<close>

definition image_resources :: "(u64 \<Rightarrow> 'r) \<Rightarrow> (u64 \<Rightarrow> 'r) \<Rightarrow> VtXWindowTransactionImage \<Rightarrow> 'r multiset" where
  "image_resources f g i = unless_null f (tx_image i) + unless_null g (tx_memory i)"

definition array_resources :: "(u64 \<Rightarrow> 'r) \<Rightarrow> (u64 \<Rightarrow> 'r) \<Rightarrow> VtXWindowTransactionImage list \<Rightarrow> nat \<Rightarrow> 'r multiset" where
  "array_resources f g images n = sum_list (map (image_resources f g) (take n images))"

lemma array_resources_zero [simp]: "array_resources f g images 0 = {#}"
  by (simp add: array_resources_def)

lemma array_resources_Suc:
  "n < length images \<Longrightarrow> array_resources f g images (Suc n) = array_resources f g images n + image_resources f g (images ! n)"
  by (simp add: array_resources_def take_Suc_conv_app_nth)

lemma array_resources_store [simp]: "n \<le> i \<Longrightarrow> array_resources f g (images[i := x]) n = array_resources f g images n"
  by (simp add: array_resources_def)

text \<open>\<open>holds w a\<close>: in the state \<open>w\<close> exactly the resources \<open>a\<close> are held, and no image is being built.\<close>

locale image_callbacks =
  fixes ops :: "'w VtXWindowTransactionOps"
    and beginF :: "'w \<Rightarrow> nat \<Rightarrow> int \<times> 'w" and create :: "'w \<Rightarrow> nat \<Rightarrow> int \<times> u64 \<times> 'w"
    and allocF :: "'w \<Rightarrow> nat \<Rightarrow> u64 \<Rightarrow> int \<times> u64 \<times> 'w" and bindF :: "'w \<Rightarrow> nat \<Rightarrow> u64 \<Rightarrow> u64 \<Rightarrow> int \<times> 'w"
    and endF :: "'w \<Rightarrow> nat \<Rightarrow> 'w" and destroyF :: "'w \<Rightarrow> u64 \<Rightarrow> 'w" and freeF :: "'w \<Rightarrow> u64 \<Rightarrow> 'w"
    and holds :: "'w \<Rightarrow> 'r multiset \<Rightarrow> bool" and image_of :: "u64 \<Rightarrow> 'r" and memory_of :: "u64 \<Rightarrow> 'r"
  assumes callbacks: "beginImage ops = Some beginF" "createImage ops = Some create" "allocateMemory ops = Some allocF"
      "bindImageMemory ops = Some bindF" "endImage ops = Some endF" "destroyImage ops = Some destroyF" "freeMemory ops = Some freeF"
    and child: "holds w a \<Longrightarrow> build_image beginF create allocF bindF endF (tx_invalidResult ops) w i = (r, img, mem, w') \<Longrightarrow>
      holds w' (a + unless_null image_of img + unless_null memory_of mem)"
    and destroy: "x \<noteq> 0 \<Longrightarrow> holds w (add_mset (image_of x) a) \<Longrightarrow> holds (destroyF w x) a"
    and free: "x \<noteq> 0 \<Longrightarrow> holds w (add_mset (memory_of x) a) \<Longrightarrow> holds (freeF w x) a"
begin

lemma release_image:
  assumes "holds w (a + unless_null image_of img + unless_null memory_of mem)"
  shows "holds (call_unless_null (freeMemory ops) mem (call_unless_null (destroyImage ops) img w)) a"
proof -
  have "holds (call_unless_null (destroyImage ops) img w) (a + unless_null memory_of mem)"
    using assms destroy [of img w "a + unless_null memory_of mem"]
    by (cases "img = 0") (simp_all add: call_unless_null_def callbacks unless_null_def)
  then show ?thesis using free [of mem _ a]
    by (cases "mem = 0") (simp_all add: call_unless_null_def callbacks unless_null_def)
qed

lemma rollback:
  "n \<le> length images \<Longrightarrow> holds w (a + array_resources image_of memory_of images n) \<Longrightarrow>
     \<exists>w'. rollback_loop ops w images n = Some (replicate n zero_image @ drop n images, w') \<and> holds w' a"
proof (induction n arbitrary: w images)
  case (Suc n)
  have n: "n < length images" "n \<le> length (images[n := zero_image])" using Suc.prems(1) by simp_all
  let ?img = "images ! n"
  let ?w = "call_unless_null (freeMemory ops) (tx_memory ?img) (call_unless_null (destroyImage ops) (tx_image ?img) w)"
  have "holds ?w (a + array_resources image_of memory_of images n)"
    using Suc.prems(2) array_resources_Suc [OF n(1), of image_of memory_of]
    by (intro release_image) (simp add: image_resources_def ac_simps)
  then have "holds ?w (a + array_resources image_of memory_of (images[n := zero_image]) n)" by simp
  then obtain w' where w': "rollback_loop ops ?w (images[n := zero_image]) n =
      Some (replicate n zero_image @ drop n (images[n := zero_image]), w')" "holds w' a"
    using Suc.IH [OF n(2)] by blast
  have "drop n (images[n := zero_image]) = zero_image # drop (Suc n) images"
    using n(1) by (simp add: drop_update_swap Cons_nth_drop_Suc [symmetric])
  then have "rollback_loop ops w images (Suc n) = Some (replicate (Suc n) zero_image @ drop (Suc n) images, w')"
    using n(1) w'(1) by (simp add: replicate_app_Cons_same)
  then show ?case using w'(2) by blast
qed simp

lemma build_from:
  assumes "holds w (a + array_resources image_of memory_of images i)" "i \<le> n" "n \<le> length images"
  shows "\<exists>r images' w'. build_loop ops (build_image beginF create allocF bindF endF (tx_invalidResult ops)) w i n images
      = Some (r, images', w') \<and> length images' = length images \<and>
    holds w' (if r = 0 then a + array_resources image_of memory_of images' n else a)"
  using assms
proof (induction "n - i" arbitrary: w images i rule: less_induct)
  case less
  let ?child = "build_image beginF create allocF bindF endF (tx_invalidResult ops)"
  show ?case
  proof (cases "i < n")
    case False
    then have "i = n" using less.prems(2) by simp
    then show ?thesis using less.prems by (subst build_loop.simps) simp
  next
    case True
    obtain r img mem w1 where c: "?child w i = (r, img, mem, w1)" by (metis prod_cases4)
    note h = child [OF less.prems(1) c]
    have len: "i < length images" using True less.prems(3) by simp
    show ?thesis
    proof (cases "r = 0")
      case ok: True
      let ?images = "images[i := \<lparr>tx_image = img, tx_memory = mem\<rparr>]"
      have "array_resources image_of memory_of ?images (i + 1) = array_resources image_of memory_of images i +
          unless_null image_of img + unless_null memory_of mem"
        using array_resources_Suc [of i ?images image_of memory_of] len by (simp add: image_resources_def)
      then have "holds w1 (a + array_resources image_of memory_of ?images (i + 1))" using h by (simp add: ac_simps)
      moreover have "build_loop ops ?child w i n images = build_loop ops ?child w1 (i + 1) n ?images"
        using True ok c len by (subst build_loop.simps) simp
      ultimately show ?thesis using less.hyps [of "i + 1" w1 ?images] True less.prems(3) by simp
    next
      case failed: False
      have "holds (call_unless_null (freeMemory ops) mem (call_unless_null (destroyImage ops) img w1))
          (a + array_resources image_of memory_of images i)" by (rule release_image [OF h])
      then obtain w2 where rb: "rollback_loop ops (call_unless_null (freeMemory ops) mem (call_unless_null (destroyImage ops) img w1)) images i
          = Some (replicate i zero_image @ drop i images, w2)" and w2: "holds w2 a"
        using rollback [of i images] len by fastforce
      have "build_loop ops ?child w i n images = Some (r, replicate i zero_image @ drop i images, w2)"
        using True failed c rb by (subst build_loop.simps) simp
      then show ?thesis using failed len w2 by simp
    qed
  qed
qed

lemma build:
  assumes "holds w a" "0 < n" "n \<le> length images"
  shows "\<exists>r images' w'. vt_xwindow_transaction_build (Some ops) w n (Some images) = Some (r, Some images', w') \<and>
    length images' = length images \<and> holds w' (if r = 0 then a + array_resources image_of memory_of images' n else a)"
proof -
  obtain r images' w' where "build_loop ops (build_image beginF create allocF bindF endF (tx_invalidResult ops)) w 0 n images
      = Some (r, images', w')" "length images' = length images" "holds w' (if r = 0 then a + array_resources image_of memory_of images' n else a)"
    using build_from [of w a images 0 n] assms by auto
  then show ?thesis using assms(2) by (simp add: vt_xwindow_transaction_build_def callbacks)
qed

end

section \<open>The callbacks of the window\<close>

datatype window_resource = Block u64 | Reference u64 | Window_image u64 | Window_memory u64

fun takes :: "window_event \<Rightarrow> window_resource multiset" where
  "takes (Heap_allocated p) = {#Block p#}"
| "takes (Reference_acquired b) = {#Reference b#}"
| "takes (Image_created i) = unless_null Window_image i"
| "takes (Memory_imported m) = unless_null Window_memory m"
| "takes _ = {#}"

fun gives :: "window_event \<Rightarrow> window_resource multiset" where
  "gives (Heap_freed p) = {#Block p#}"
| "gives (Reference_released b) = {#Reference b#}"
| "gives (Image_destroyed i) = {#Window_image i#}"
| "gives (Memory_returned m) = {#Window_memory m#}"
| "gives _ = {#}"

text \<open>\<open>leaves h a\<close>: of what was taken exactly \<open>a\<close> was not given back.\<close>

definition leaves :: "window_trace \<Rightarrow> window_resource multiset \<Rightarrow> bool" where
  "leaves h a \<longleftrightarrow> sum_list (map takes h) = sum_list (map gives h) + a"

lemma leaves_Nil [simp]: "leaves [] {#}"
  by (simp add: leaves_def)

lemma leaves_take: "leaves h a \<Longrightarrow> gives e = {#} \<Longrightarrow> leaves (h @ [e]) (a + takes e)"
  by (simp add: leaves_def ac_simps)

lemma leaves_give: "leaves h (add_mset x a) \<Longrightarrow> gives e = {#x#} \<Longrightarrow> takes e = {#} \<Longrightarrow> leaves (h @ [e]) a"
  by (simp add: leaves_def ac_simps)

text \<open>During the build of an image, with the reference that the context has.\<close>

definition building_image :: "XWindowImageBuildContext \<Rightarrow> window_resource multiset \<Rightarrow> bool" where
  "building_image w a \<longleftrightarrow> leaves (bc_trace w) (a + unless_null Reference (bc_hardwareBuffer w))"

definition window_holds :: "u64 \<Rightarrow> XWindowImageBuildContext \<Rightarrow> window_resource multiset \<Rightarrow> bool" where
  "window_holds device w a \<longleftrightarrow> device \<noteq> 0 \<and> bc_hardwareBuffer w = 0 \<and> leaves (bc_trace w) a"

lemma begin_holds: "building_image w a \<Longrightarrow> window_beginImage answers s w i = (r, w') \<Longrightarrow> building_image w' a"
  using leaves_take [of "bc_trace w" a "Reference_acquired (getWindowHardwareBuffer answers (bc_trace w) (xs_jmethods s) (is_bgra s))"]
  by (auto simp: window_beginImage_def Let_def building_image_def emit_def unless_null_def split: if_splits prod.splits)

lemma create_holds: "building_image w a \<Longrightarrow> createTransactionImage answers w i = (r, img, w') \<Longrightarrow> building_image w' (a + unless_null Window_image img)"
  using leaves_take [of "bc_trace w" "a + unless_null Reference (bc_hardwareBuffer w)" "Image_created img"]
  by (auto simp: createTransactionImage_def building_image_def emit_def unless_null_def ac_simps split: if_splits prod.splits)

lemma allocate_holds:
  "building_image w a \<Longrightarrow> allocateTransactionMemory dm answers device w i img = (r, mem, w') \<Longrightarrow> building_image w' (a + unless_null Window_memory mem)"
  using leaves_take [of "bc_trace w" "a + unless_null Reference (bc_hardwareBuffer w)" "Memory_imported mem"]
  by (auto simp: allocateTransactionMemory_def building_image_def emit_def unless_null_def ac_simps split: if_splits prod.splits option.splits)

lemma bind_holds: "building_image w a \<Longrightarrow> bindTransactionMemory answers device w i img mem = (r, w') \<Longrightarrow> building_image w' a"
  by (auto simp: bindTransactionMemory_def split: if_splits)

lemma end_holds: "device \<noteq> 0 \<Longrightarrow> building_image w a \<Longrightarrow> window_holds device (window_endImage w i) a"
  using leaves_give [of "bc_trace w" "Reference (bc_hardwareBuffer w)" a "Reference_released (bc_hardwareBuffer w)"]
  by (auto simp: window_endImage_def window_holds_def building_image_def emit_def unless_null_def Let_def)

lemma child_holds:
  assumes "window_holds device w a"
    and "build_image (window_beginImage answers s) (createTransactionImage answers) (allocateTransactionMemory dm answers device)
      (bindTransactionMemory answers device) window_endImage invalid w i = (r, img, mem, w')"
  shows "window_holds device w' (a + unless_null Window_image img + unless_null Window_memory mem)"
proof -
  have d: "device \<noteq> 0" and b0: "building_image w a" using assms(1) by (simp_all add: window_holds_def building_image_def unless_null_def)
  obtain r1 w1 where 1: "window_beginImage answers s w i = (r1, w1)" by fastforce
  obtain r2 x w2 where 2: "(if r1 = 0 then createTransactionImage answers w1 i else (r1, 0, w1)) = (r2, x, w2)" by (metis prod_cases3)
  define r3 where "r3 = (if r2 = 0 \<and> x = 0 then invalid else r2)"
  obtain r4 m w3 where 3: "(if r3 = 0 then allocateTransactionMemory dm answers device w2 i x else (r3, 0, w2)) = (r4, m, w3)" by (metis prod_cases3)
  define r5 where "r5 = (if r4 = 0 \<and> m = 0 then invalid else r4)"
  obtain r6 w4 where 4: "(if r5 = 0 then bindTransactionMemory answers device w3 i x m else (r5, w3)) = (r6, w4)" by fastforce
  have out: "img = x" "mem = m" "w' = window_endImage w4 i"
    using assms(2) unfolding build_image_def 1 prod.case 2 r3_def [symmetric] Let_def 3 r5_def [symmetric] 4 by simp_all
  have "building_image w1 a" using begin_holds [OF b0 1] .
  then have "building_image w2 (a + unless_null Window_image x)"
    using 2 create_holds [of w1 a answers i r2 x w2] by (auto simp: unless_null_def split: if_splits)
  then have "building_image w3 (a + unless_null Window_image x + unless_null Window_memory m)"
    using 3 allocate_holds [of w2 "a + unless_null Window_image x" dm answers device i x r4 m w3] by (auto simp: unless_null_def add_mset_commute split: if_splits)
  then have "building_image w4 (a + unless_null Window_image x + unless_null Window_memory m)"
    using 4 bind_holds [of w3 _ answers device i x m r6 w4] by (auto split: if_splits)
  then show ?thesis using end_holds [OF d] unfolding out by blast
qed

interpretation window: image_callbacks "imageTransactionOps dm answers device s" "window_beginImage answers s"
  "createTransactionImage answers" "allocateTransactionMemory dm answers device" "bindTransactionMemory answers device" window_endImage
  "destroyTransactionImage device" "freeTransactionMemory device" "window_holds device" Window_image Window_memory
  for dm answers device s
proof
  show "window_holds device (destroyTransactionImage device w x) a" if "x \<noteq> 0" "window_holds device w (add_mset (Window_image x) a)" for w x a
    using that leaves_give [of "bc_trace w" "Window_image x" a "Image_destroyed x"]
    by (simp add: window_holds_def destroyTransactionImage_def emit_def)
  show "window_holds device (freeTransactionMemory device w x) a" if "x \<noteq> 0" "window_holds device w (add_mset (Window_memory x) a)" for w x a
    using that leaves_give [of "bc_trace w" "Window_memory x" a "Memory_returned x"]
    by (simp add: window_holds_def freeTransactionMemory_def emit_def)
qed (simp_all add: imageTransactionOps_def child_holds)

section \<open>Creation and destruction\<close>

definition cell_resources :: "XWindowSwapchain_Image \<Rightarrow> window_resource multiset" where
  "cell_resources c = unless_null Window_image (xi_image c) + unless_null Window_memory (xi_memory c)"

text \<open>What a swapchain owns: its two blocks, and what its images stand for.\<close>

definition swapchain_owns :: "XWindowSwapchain \<Rightarrow> window_resource multiset" where
  "swapchain_owns s = {#Block (xs_address s), Block (xs_images s)#} + sum_list (map cell_resources (xs_cells s))"

lemma one_or_two: "0 < n \<Longrightarrow> n \<le> VORTEK_XWINDOW_SWAPCHAIN_MAX_IMAGES \<Longrightarrow> n = Suc 0 \<or> n = Suc (Suc 0)"
  by (auto simp: VORTEK_XWINDOW_SWAPCHAIN_MAX_IMAGES_def)

lemma two_images: "length images = VORTEK_XWINDOW_SWAPCHAIN_MAX_IMAGES \<Longrightarrow> \<exists>i j. images = [i, j]"
  by (auto simp: VORTEK_XWINDOW_SWAPCHAIN_MAX_IMAGES_def numeral_2_eq_2 length_Suc_conv)

lemma store_images_effect:
  assumes "0 < n" "n \<le> VORTEK_XWINDOW_SWAPCHAIN_MAX_IMAGES" "length images = VORTEK_XWINDOW_SWAPCHAIN_MAX_IMAGES" "length cells = n"
  shows "\<exists>cells'. store_images 0 n images cells = Some cells' \<and> length cells' = n \<and>
    sum_list (map cell_resources cells') = array_resources Window_image Window_memory images n"
proof -
  obtain i j where i: "images = [i, j]" using two_images [OF assms(3)] by blast
  from one_or_two [OF assms(1,2)] show ?thesis
  proof
    assume n: "n = Suc 0"
    then obtain c where "cells = [c]" using assms(4) by (auto simp: length_Suc_conv)
    then show ?thesis using n i by (simp add: load_def store_def cell_resources_def array_resources_def image_resources_def)
  next
    assume n: "n = Suc (Suc 0)"
    then obtain c d where "cells = [c, d]" using assms(4) by (auto simp: length_Suc_conv)
    then show ?thesis using n i by (simp add: load_def store_def cell_resources_def array_resources_def image_resources_def add.assoc)
  qed
qed

lemma take_images_effect:
  assumes "0 < n" "n \<le> VORTEK_XWINDOW_SWAPCHAIN_MAX_IMAGES" "length images = VORTEK_XWINDOW_SWAPCHAIN_MAX_IMAGES" "length cells = n"
  shows "\<exists>cells' images'. take_images 0 n cells images = Some (cells', images') \<and> length images' = VORTEK_XWINDOW_SWAPCHAIN_MAX_IMAGES \<and>
    array_resources Window_image Window_memory images' n = sum_list (map cell_resources cells)"
proof -
  obtain i j where i: "images = [i, j]" using two_images [OF assms(3)] by blast
  from one_or_two [OF assms(1,2)] show ?thesis
  proof
    assume n: "n = Suc 0"
    then obtain c where "cells = [c]" using assms(4) by (auto simp: length_Suc_conv)
    then show ?thesis using n i
      by (simp add: load_def store_def cell_resources_def array_resources_def image_resources_def VORTEK_XWINDOW_SWAPCHAIN_MAX_IMAGES_def)
  next
    assume n: "n = Suc (Suc 0)"
    then obtain c d where "cells = [c, d]" using assms(4) by (auto simp: length_Suc_conv)
    then show ?thesis using n i
      by (simp add: load_def store_def cell_resources_def array_resources_def image_resources_def VORTEK_XWINDOW_SWAPCHAIN_MAX_IMAGES_def add.assoc)
  qed
qed

definition swapchain_ok :: "XWindowSwapchain \<Rightarrow> bool" where
  "swapchain_ok s \<longleftrightarrow> 0 < xs_imageCount s \<and> xs_imageCount s \<le> VORTEK_XWINDOW_SWAPCHAIN_MAX_IMAGES \<and>
     length (xs_cells s) = xs_imageCount s \<and> xs_address s \<noteq> 0 \<and> xs_images s \<noteq> 0"

lemma free_leaves: "leaves h (add_mset (Block p) a) \<Longrightarrow> p \<noteq> 0 \<Longrightarrow> leaves (window_freeAllocation h p) a"
  using leaves_give [of h "Block p" a "Heap_freed p"] by (simp add: window_freeAllocation_def)

lemma destroy_gives_back:
  assumes "device \<noteq> 0" "swapchain_ok s" "leaves h (a + swapchain_owns s)"
  shows "\<exists>h'. XWindowSwapchain_destroy dm answers device (Some s) h = Some h' \<and> leaves h' a"
proof -
  let ?n = "xs_imageCount s"
  have ok: "0 < ?n" "?n \<le> VORTEK_XWINDOW_SWAPCHAIN_MAX_IMAGES" "length (xs_cells s) = ?n" "xs_address s \<noteq> 0" "xs_images s \<noteq> 0"
    using assms(2) by (simp_all add: swapchain_ok_def)
  obtain cells images where t: "take_images 0 ?n (xs_cells s) (replicate VORTEK_XWINDOW_SWAPCHAIN_MAX_IMAGES zero_image) = Some (cells, images)"
      "length images = VORTEK_XWINDOW_SWAPCHAIN_MAX_IMAGES"
      "array_resources Window_image Window_memory images ?n = sum_list (map cell_resources (xs_cells s))"
    using take_images_effect [OF ok(1,2) _ ok(3), of "replicate VORTEK_XWINDOW_SWAPCHAIN_MAX_IMAGES zero_image"] by auto
  let ?b = "add_mset (Block (xs_images s)) (add_mset (Block (xs_address s)) a)"
  have "window_holds device (fresh_context h) (?b + array_resources Window_image Window_memory images ?n)"
    using assms(1,3) by (simp add: window_holds_def fresh_context_def t(3) swapchain_owns_def add_mset_commute)
  then obtain w where r: "rollback_loop (imageTransactionOps dm answers device s) (fresh_context h) images ?n
      = Some (replicate ?n zero_image @ drop ?n images, w)" "window_holds device w ?b"
    using window.rollback [of ?n images device "fresh_context h" ?b dm answers s] ok(2) t(2) by auto
  have "rollbackSwapchainImages dm answers device s h = Some (s\<lparr>xs_cells := cells\<rparr>, bc_trace w)"
    using assms(1) ok(2,5) t(1) r(1) by (simp add: rollbackSwapchainImages_def vt_xwindow_transaction_rollback_def Let_def)
  moreover have "leaves (bc_trace w) ?b" using r(2) by (simp add: window_holds_def)
  ultimately show ?thesis using free_leaves [OF free_leaves] ok(4,5) by (simp add: XWindowSwapchain_destroy_def)
qed

lemma heap_leaves:
  assumes "vt_xwindow_transaction_allocate_heap (Some (heapTransactionOps answers)) h sizeof_XWindowSwapchain n sizeof_XWindowSwapchain_Image
      (Some 0) (Some 0) = (r, wrapper, images, h')" "leaves h a" "0 < n" "n \<le> VORTEK_XWINDOW_SWAPCHAIN_MAX_IMAGES"
  shows "if r = 0 then \<exists>p q. p \<noteq> 0 \<and> q \<noteq> 0 \<and> wrapper = Some p \<and> images = Some q \<and> leaves h' (a + {#Block p, Block q#}) else leaves h' a"
proof -
  let ?p = "wa_calloc answers h" and ?h1 = "h @ [Heap_allocated (wa_calloc answers h)]"
  have n: "\<not> SIZE_MAX div sizeof_XWindowSwapchain_Image < n" "n \<noteq> 0"
    using assms(3,4) by (simp_all add: SIZE_MAX_def sizeof_XWindowSwapchain_Image_def VORTEK_XWINDOW_SWAPCHAIN_MAX_IMAGES_def)
  have l1: "leaves ?h1 (a + {#Block ?p#})" using leaves_take [OF assms(2), of "Heap_allocated ?p"] by simp
  have l2: "leaves (?h1 @ [Heap_allocated (wa_calloc answers ?h1)]) (a + {#Block ?p#} + {#Block (wa_calloc answers ?h1)#})"
    using leaves_take [OF l1, of "Heap_allocated (wa_calloc answers ?h1)"] by simp
  have l3: "?p \<noteq> 0 \<Longrightarrow> leaves (window_freeAllocation ?h1 ?p) a" using free_leaves [of ?h1 ?p a] l1 by simp
  show ?thesis using assms(1,2) n l2 l3
    by (auto simp: vt_xwindow_transaction_allocate_heap_def heapTransactionOps_def window_allocateZeroed_def Let_def
        sizeof_XWindowSwapchain_def sizeof_XWindowSwapchain_Image_def VK_ERROR_OUT_OF_HOST_MEMORY_def add_mset_commute split: if_splits)
qed

lemma create_refused:
  assumes "device = 0 \<or> jmethods = None \<or> contextGeneration = 0 \<or> instanceToken = 0 \<or> windowId \<le> 0 \<or> ci_minImageCount info = 0 \<or>
     VORTEK_XWINDOW_SWAPCHAIN_MAX_IMAGES < ci_minImageCount info \<or> ext_width (ci_imageExtent info) = 0 \<or> ext_height (ci_imageExtent info) = 0"
  shows "XWindowSwapchain_create dm answers device (Some info) jmethods contextGeneration instanceToken windowId h
    = Some (VK_ERROR_INITIALIZATION_FAILED, None, h)"
  unfolding XWindowSwapchain_create_def option.case if_P [OF assms] ..

text \<open>C40: Creating a swapchain is all or nothing, and destroying it undoes it. Whatever driver, allocator and Java side answer: the call
  returns; when it fails it gives no swapchain, and every block, image, memory and reference of the hardware buffer that it
  took was given back exactly once; when it succeeds, exactly the swapchain with its blocks, images and memory is left, no
  reference of the hardware buffer, and destroying the swapchain gives all of that back.\<close>

theorem swapchain_lifecycle_is_balanced:
  "\<exists>r swapchain h. XWindowSwapchain_create dm answers device swapchainInfo jmethods contextGeneration instanceToken windowId []
      = Some (r, swapchain, h) \<and>
    (case swapchain of
       None \<Rightarrow> r \<noteq> 0 \<and> leaves h {#}
     | Some s \<Rightarrow> r = 0 \<and> swapchain_ok s \<and> leaves h (swapchain_owns s) \<and>
         (\<exists>h'. XWindowSwapchain_destroy dm answers device (Some s) h = Some h' \<and> leaves h' {#}))"
proof (cases swapchainInfo)
  case None
  then show ?thesis by (simp add: XWindowSwapchain_create_def VK_ERROR_INITIALIZATION_FAILED_def)
next
  case info: (Some info)
  let ?bad = "device = 0 \<or> jmethods = None \<or> contextGeneration = 0 \<or> instanceToken = 0 \<or> windowId \<le> 0 \<or> ci_minImageCount info = 0 \<or>
     VORTEK_XWINDOW_SWAPCHAIN_MAX_IMAGES < ci_minImageCount info \<or> ext_width (ci_imageExtent info) = 0 \<or> ext_height (ci_imageExtent info) = 0"
  let ?n = "ci_minImageCount info"
  show ?thesis
  proof (cases ?bad)
    case True
    then show ?thesis unfolding info by (subst create_refused) (simp_all add: VK_ERROR_INITIALIZATION_FAILED_def)
  next
    case good: False
    then have n: "0 < ?n" "?n \<le> VORTEK_XWINDOW_SWAPCHAIN_MAX_IMAGES" and d: "device \<noteq> 0" by simp_all
    obtain r wrapper images h where heap: "vt_xwindow_transaction_allocate_heap (Some (heapTransactionOps answers)) [] sizeof_XWindowSwapchain ?n
        sizeof_XWindowSwapchain_Image (Some 0) (Some 0) = (r, wrapper, images, h)" by (metis prod_cases4)
    note hl = heap_leaves [OF heap leaves_Nil n]
    note def = XWindowSwapchain_create_def [of dm answers device "Some info" jmethods contextGeneration instanceToken windowId "[]",
        unfolded option.case if_not_P [OF good] heap prod.case]
    show ?thesis
    proof (cases "r = 0")
      case False
      then show ?thesis using hl unfolding info def by simp
    next
      case True
      obtain p q where pq: "p \<noteq> 0" "q \<noteq> 0" "wrapper = Some p" "images = Some q" "leaves h {#Block p, Block q#}" using hl True by auto
      let ?s = "\<lparr>xs_address = p, xs_contextGeneration = contextGeneration, xs_instanceToken = instanceToken, xs_windowId = windowId,
         xs_images = q, xs_cells = replicate ?n \<lparr>xi_image = 0, xi_memory = 0\<rparr>, xs_imageCount = ?n, xs_imageFormat = ci_imageFormat info,
         xs_imageExtent = ci_imageExtent info, xs_imageUsage = ci_imageUsage info, xs_queue = 0, xs_jmethods = jmethods\<rparr>"
      have hold: "window_holds device (fresh_context h) {#Block p, Block q#}" using pq(5) d by (simp add: window_holds_def fresh_context_def)
      obtain r2 built w where b: "vt_xwindow_transaction_build (Some (imageTransactionOps dm answers device ?s)) (fresh_context h) ?n
          (Some (replicate VORTEK_XWINDOW_SWAPCHAIN_MAX_IMAGES zero_image)) = Some (r2, Some built, w)"
          "length built = VORTEK_XWINDOW_SWAPCHAIN_MAX_IMAGES"
          "window_holds device w (if r2 = 0 then {#Block p, Block q#} + array_resources Window_image Window_memory built ?n else {#Block p, Block q#})"
        using window.build [OF hold n(1), of "replicate VORTEK_XWINDOW_SWAPCHAIN_MAX_IMAGES zero_image" dm answers ?s] n(2) by auto
      have cnt: "xs_imageCount ?s = ?n" by simp
      note def2 = def [unfolded True pq(3,4) Option.bind.simps Let_def cnt b(1), simplified]
      show ?thesis
      proof (cases "r2 = 0")
        case False
        then have l: "leaves (bc_trace w) (add_mset (Block q) {#Block p#})" using b(3) by (simp add: window_holds_def add_mset_commute)
        have "leaves (window_freeAllocation (window_freeAllocation (bc_trace w) q) p) {#}"
          using free_leaves [OF free_leaves [OF l pq(2)] pq(1)] .
        then show ?thesis using False unfolding info def2 by simp
      next
        case ok: True
        obtain cells where c: "store_images 0 ?n built (replicate ?n \<lparr>xi_image = 0, xi_memory = 0\<rparr>) = Some cells" "length cells = ?n"
            "sum_list (map cell_resources cells) = array_resources Window_image Window_memory built ?n"
          using store_images_effect [OF n b(2), of "replicate ?n \<lparr>xi_image = 0, xi_memory = 0\<rparr>"] by auto
        let ?t = "?s\<lparr>xs_cells := cells, xs_queue := wa_queue answers (bc_trace w)\<rparr>"
        have t: "swapchain_ok ?t" using n pq(1,2) c(2) by (simp add: swapchain_ok_def)
        have lt: "leaves (bc_trace w) ({#} + swapchain_owns ?t)" using b(3) ok c(3) by (simp add: window_holds_def swapchain_owns_def)
        obtain h' where h': "XWindowSwapchain_destroy dm answers device (Some ?t) (bc_trace w) = Some h'" "leaves h' {#}"
          using destroy_gives_back [OF d t lt] by blast
        show ?thesis
        proof (cases "wa_queue answers (bc_trace w) = 0")
          case True
          then have "XWindowSwapchain_create dm answers device (Some info) jmethods contextGeneration instanceToken windowId []
              = Some (VK_ERROR_INITIALIZATION_FAILED, None, h')" using ok c(1) h'(1) unfolding def2 by simp
          then show ?thesis using h'(2) unfolding info by (simp add: VK_ERROR_INITIALIZATION_FAILED_def)
        next
          case False
          then have "XWindowSwapchain_create dm answers device (Some info) jmethods contextGeneration instanceToken windowId []
              = Some (0, Some ?t, bc_trace w)" using ok c(1) unfolding def2 by simp
          then show ?thesis using lt t h' unfolding info by (intro exI [of _ 0] exI [of _ "Some ?t"] exI [of _ "bc_trace w"]) simp
        qed
      qed
    qed
  qed
qed

text \<open>No semaphore or fence is signalled, and no index given, unless the window still has the extent of the swapchain.\<close>

lemma acquire_validates_first:
  assumes "XWindowSwapchain_acquireNextImage answers (Some s) signalSemaphore fence imageIndex h = (r, index, h')"
    and "getWindowExtent answers h (xs_jmethods s) (xs_contextGeneration s) (xs_instanceToken s) (xs_windowId s) \<noteq> Some (xs_imageExtent s)"
  shows "r \<noteq> 0 \<and> index = None \<and> h' = h"
  using assms by (auto simp: XWindowSwapchain_acquireNextImage_def VK_ERROR_INITIALIZATION_FAILED_def VK_ERROR_SURFACE_LOST_KHR_def split: if_splits)

end
