(* ===== verification/Request_Codes.thy ===== *)
theory Request_Codes
  imports Prelude
begin

text \<open>
  The tables that say what a request is: the request codes and their names, \<^verbatim>\<open>vortekrenderer/include/request_codes.h\<close>, the handler
  of each code and the commands that may stand in a batch, \<^verbatim>\<open>vortekrenderer/src/request_handler.c\<close>. A handler is named as in the
  source, without the prefix \<^verbatim>\<open>vt_handle_\<close>, and a code without the prefix \<^verbatim>\<open>REQUEST_CODE_\<close>. The long tables are
  given in parts.
\<close>

section \<open>Codes\<close>

definition REQUEST_CODE_VK_CALL_START :: int where "REQUEST_CODE_VK_CALL_START = 100"
definition REQUEST_CODE_VK_CALL_COUNT :: int where "REQUEST_CODE_VK_CALL_COUNT = 254"

definition request_codes_low :: "(string \<times> int) list" where
  "request_codes_low = [
     (''VK_CREATE_INSTANCE'', 100), (''VK_DESTROY_INSTANCE'', 101), (''VK_ENUMERATE_PHYSICAL_DEVICES'', 102),
     (''VK_GET_PHYSICAL_DEVICE_PROPERTIES'', 103), (''VK_GET_PHYSICAL_DEVICE_QUEUE_FAMILY_PROPERTIES'', 104),
     (''VK_GET_PHYSICAL_DEVICE_MEMORY_PROPERTIES'', 105), (''VK_GET_PHYSICAL_DEVICE_FEATURES'', 106),
     (''VK_GET_PHYSICAL_DEVICE_FORMAT_PROPERTIES'', 107), (''VK_GET_PHYSICAL_DEVICE_IMAGE_FORMAT_PROPERTIES'', 108),
     (''VK_CREATE_DEVICE'', 109), (''VK_DESTROY_DEVICE'', 110), (''VK_ENUMERATE_INSTANCE_VERSION'', 111),
     (''VK_ENUMERATE_INSTANCE_EXTENSION_PROPERTIES'', 112), (''VK_ENUMERATE_DEVICE_EXTENSION_PROPERTIES'', 113),
     (''VK_GET_DEVICE_QUEUE'', 114), (''VK_QUEUE_SUBMIT'', 115), (''VK_QUEUE_WAIT_IDLE'', 116),
     (''VK_DEVICE_WAIT_IDLE'', 117), (''VK_ALLOCATE_MEMORY'', 118), (''VK_FREE_MEMORY'', 119),
     (''VK_MAP_MEMORY'', 120), (''VK_UNMAP_MEMORY'', 121), (''VK_FLUSH_MAPPED_MEMORY_RANGES'', 122),
     (''VK_INVALIDATE_MAPPED_MEMORY_RANGES'', 123), (''VK_GET_DEVICE_MEMORY_COMMITMENT'', 124),
     (''VK_GET_BUFFER_MEMORY_REQUIREMENTS'', 125), (''VK_BIND_BUFFER_MEMORY'', 126),
     (''VK_GET_IMAGE_MEMORY_REQUIREMENTS'', 127), (''VK_BIND_IMAGE_MEMORY'', 128),
     (''VK_GET_IMAGE_SPARSE_MEMORY_REQUIREMENTS'', 129),
     (''VK_GET_PHYSICAL_DEVICE_SPARSE_IMAGE_FORMAT_PROPERTIES'', 130), (''VK_QUEUE_BIND_SPARSE'', 131),
     (''VK_CREATE_FENCE'', 132), (''VK_DESTROY_FENCE'', 133), (''VK_RESET_FENCES'', 134),
     (''VK_GET_FENCE_STATUS'', 135), (''VK_WAIT_FOR_FENCES'', 136), (''VK_CREATE_SEMAPHORE'', 137),
     (''VK_DESTROY_SEMAPHORE'', 138), (''VK_CREATE_EVENT'', 139), (''VK_DESTROY_EVENT'', 140),
     (''VK_GET_EVENT_STATUS'', 141), (''VK_SET_EVENT'', 142), (''VK_RESET_EVENT'', 143),
     (''VK_CREATE_QUERY_POOL'', 144), (''VK_DESTROY_QUERY_POOL'', 145), (''VK_GET_QUERY_POOL_RESULTS'', 146),
     (''VK_RESET_QUERY_POOL'', 147), (''VK_CREATE_BUFFER'', 148), (''VK_DESTROY_BUFFER'', 149),
     (''VK_CREATE_BUFFER_VIEW'', 150), (''VK_DESTROY_BUFFER_VIEW'', 151), (''VK_CREATE_IMAGE'', 152),
     (''VK_DESTROY_IMAGE'', 153), (''VK_GET_IMAGE_SUBRESOURCE_LAYOUT'', 154), (''VK_CREATE_IMAGE_VIEW'', 155),
     (''VK_DESTROY_IMAGE_VIEW'', 156), (''VK_CREATE_SHADER_MODULE'', 157), (''VK_DESTROY_SHADER_MODULE'', 158),
     (''VK_CREATE_PIPELINE_CACHE'', 159), (''VK_DESTROY_PIPELINE_CACHE'', 160),
     (''VK_GET_PIPELINE_CACHE_DATA'', 161), (''VK_MERGE_PIPELINE_CACHES'', 162),
     (''VK_CREATE_GRAPHICS_PIPELINES'', 163), (''VK_CREATE_COMPUTE_PIPELINES'', 164), (''VK_DESTROY_PIPELINE'', 165),
     (''VK_CREATE_PIPELINE_LAYOUT'', 166), (''VK_DESTROY_PIPELINE_LAYOUT'', 167), (''VK_CREATE_SAMPLER'', 168),
     (''VK_DESTROY_SAMPLER'', 169), (''VK_CREATE_DESCRIPTOR_SET_LAYOUT'', 170),
     (''VK_DESTROY_DESCRIPTOR_SET_LAYOUT'', 171), (''VK_CREATE_DESCRIPTOR_POOL'', 172),
     (''VK_DESTROY_DESCRIPTOR_POOL'', 173), (''VK_RESET_DESCRIPTOR_POOL'', 174),
     (''VK_ALLOCATE_DESCRIPTOR_SETS'', 175), (''VK_FREE_DESCRIPTOR_SETS'', 176),
     (''VK_UPDATE_DESCRIPTOR_SETS'', 177), (''VK_CREATE_FRAMEBUFFER'', 178), (''VK_DESTROY_FRAMEBUFFER'', 179),
     (''VK_CREATE_RENDER_PASS'', 180), (''VK_DESTROY_RENDER_PASS'', 181), (''VK_GET_RENDER_AREA_GRANULARITY'', 182),
     (''VK_CREATE_COMMAND_POOL'', 183), (''VK_DESTROY_COMMAND_POOL'', 184), (''VK_RESET_COMMAND_POOL'', 185),
     (''VK_ALLOCATE_COMMAND_BUFFERS'', 186), (''VK_FREE_COMMAND_BUFFERS'', 187), (''VK_BEGIN_COMMAND_BUFFER'', 188),
     (''VK_END_COMMAND_BUFFER'', 189), (''VK_RESET_COMMAND_BUFFER'', 190), (''VK_CMD_BIND_PIPELINE'', 191),
     (''VK_CMD_SET_VIEWPORT'', 192), (''VK_CMD_SET_SCISSOR'', 193), (''VK_CMD_SET_LINE_WIDTH'', 194),
     (''VK_CMD_SET_DEPTH_BIAS'', 195), (''VK_CMD_SET_BLEND_CONSTANTS'', 196), (''VK_CMD_SET_DEPTH_BOUNDS'', 197),
     (''VK_CMD_SET_STENCIL_COMPARE_MASK'', 198), (''VK_CMD_SET_STENCIL_WRITE_MASK'', 199),
     (''VK_CMD_SET_STENCIL_REFERENCE'', 200), (''VK_CMD_BIND_DESCRIPTOR_SETS'', 201),
     (''VK_CMD_BIND_INDEX_BUFFER'', 202), (''VK_CMD_BIND_VERTEX_BUFFERS'', 203), (''VK_CMD_DRAW'', 204),
     (''VK_CMD_DRAW_INDEXED'', 205), (''VK_CMD_DRAW_INDIRECT'', 206), (''VK_CMD_DRAW_INDEXED_INDIRECT'', 207),
     (''VK_CMD_DISPATCH'', 208), (''VK_CMD_DISPATCH_INDIRECT'', 209), (''VK_CMD_COPY_BUFFER'', 210),
     (''VK_CMD_COPY_IMAGE'', 211), (''VK_CMD_BLIT_IMAGE'', 212), (''VK_CMD_COPY_BUFFER_TO_IMAGE'', 213),
     (''VK_CMD_COPY_IMAGE_TO_BUFFER'', 214), (''VK_CMD_UPDATE_BUFFER'', 215), (''VK_CMD_FILL_BUFFER'', 216),
     (''VK_CMD_CLEAR_COLOR_IMAGE'', 217), (''VK_CMD_CLEAR_DEPTH_STENCIL_IMAGE'', 218),
     (''VK_CMD_CLEAR_ATTACHMENTS'', 219), (''VK_CMD_RESOLVE_IMAGE'', 220), (''VK_CMD_SET_EVENT'', 221),
     (''VK_CMD_RESET_EVENT'', 222), (''VK_CMD_WAIT_EVENTS'', 223), (''VK_CMD_PIPELINE_BARRIER'', 224),
     (''VK_CMD_BEGIN_QUERY'', 225), (''VK_CMD_END_QUERY'', 226)]"

definition request_codes_high :: "(string \<times> int) list" where
  "request_codes_high = [
     (''VK_CMD_BEGIN_CONDITIONAL_RENDERING_EXT'', 227), (''VK_CMD_END_CONDITIONAL_RENDERING_EXT'', 228),
     (''VK_CMD_RESET_QUERY_POOL'', 229), (''VK_CMD_WRITE_TIMESTAMP'', 230),
     (''VK_CMD_COPY_QUERY_POOL_RESULTS'', 231), (''VK_CMD_PUSH_CONSTANTS'', 232),
     (''VK_CMD_BEGIN_RENDER_PASS'', 233), (''VK_CMD_NEXT_SUBPASS'', 234), (''VK_CMD_END_RENDER_PASS'', 235),
     (''VK_CMD_EXECUTE_COMMANDS'', 236), (''VK_GET_PHYSICAL_DEVICE_SURFACE_CAPABILITIES_KHR'', 237),
     (''VK_GET_PHYSICAL_DEVICE_SURFACE_FORMATS_KHR'', 238),
     (''VK_GET_PHYSICAL_DEVICE_SURFACE_PRESENT_MODES_KHR'', 239), (''VK_CREATE_SWAPCHAIN_KHR'', 240),
     (''VK_DESTROY_SWAPCHAIN_KHR'', 241), (''VK_GET_SWAPCHAIN_IMAGES_KHR'', 242),
     (''VK_ACQUIRE_NEXT_IMAGE_KHR'', 243), (''VK_QUEUE_PRESENT_KHR'', 244),
     (''VK_GET_PHYSICAL_DEVICE_FEATURES2'', 245), (''VK_GET_PHYSICAL_DEVICE_PROPERTIES2'', 246),
     (''VK_GET_PHYSICAL_DEVICE_FORMAT_PROPERTIES2'', 247),
     (''VK_GET_PHYSICAL_DEVICE_IMAGE_FORMAT_PROPERTIES2'', 248),
     (''VK_GET_PHYSICAL_DEVICE_QUEUE_FAMILY_PROPERTIES2'', 249),
     (''VK_GET_PHYSICAL_DEVICE_MEMORY_PROPERTIES2'', 250),
     (''VK_GET_PHYSICAL_DEVICE_SPARSE_IMAGE_FORMAT_PROPERTIES2'', 251), (''VK_CMD_PUSH_DESCRIPTOR_SET_KHR'', 252),
     (''VK_TRIM_COMMAND_POOL'', 253), (''VK_GET_PHYSICAL_DEVICE_EXTERNAL_BUFFER_PROPERTIES'', 254),
     (''VK_GET_MEMORY_FD_KHR'', 255), (''VK_GET_PHYSICAL_DEVICE_EXTERNAL_SEMAPHORE_PROPERTIES'', 256),
     (''VK_GET_SEMAPHORE_FD_KHR'', 257), (''VK_GET_PHYSICAL_DEVICE_EXTERNAL_FENCE_PROPERTIES'', 258),
     (''VK_GET_FENCE_FD_KHR'', 259), (''VK_ENUMERATE_PHYSICAL_DEVICE_GROUPS'', 260),
     (''VK_GET_DEVICE_GROUP_PEER_MEMORY_FEATURES'', 261), (''VK_BIND_BUFFER_MEMORY2'', 262),
     (''VK_BIND_IMAGE_MEMORY2'', 263), (''VK_CMD_SET_DEVICE_MASK'', 264), (''VK_ACQUIRE_NEXT_IMAGE2_KHR'', 265),
     (''VK_CMD_DISPATCH_BASE'', 266), (''VK_GET_PHYSICAL_DEVICE_PRESENT_RECTANGLES_KHR'', 267),
     (''VK_CMD_SET_SAMPLE_LOCATIONS_EXT'', 268), (''VK_GET_PHYSICAL_DEVICE_MULTISAMPLE_PROPERTIES_EXT'', 269),
     (''VK_GET_BUFFER_MEMORY_REQUIREMENTS2'', 270), (''VK_GET_IMAGE_MEMORY_REQUIREMENTS2'', 271),
     (''VK_GET_IMAGE_SPARSE_MEMORY_REQUIREMENTS2'', 272), (''VK_GET_DEVICE_BUFFER_MEMORY_REQUIREMENTS'', 273),
     (''VK_GET_DEVICE_IMAGE_MEMORY_REQUIREMENTS'', 274), (''VK_GET_DEVICE_IMAGE_SPARSE_MEMORY_REQUIREMENTS'', 275),
     (''VK_CREATE_SAMPLER_YCBCR_CONVERSION'', 276), (''VK_DESTROY_SAMPLER_YCBCR_CONVERSION'', 277),
     (''VK_GET_DEVICE_QUEUE2'', 278), (''VK_GET_DESCRIPTOR_SET_LAYOUT_SUPPORT'', 279),
     (''VK_GET_PHYSICAL_DEVICE_CALIBRATEABLE_TIME_DOMAINS_KHR'', 280), (''VK_GET_CALIBRATED_TIMESTAMPS_KHR'', 281),
     (''VK_CREATE_RENDER_PASS2'', 282), (''VK_CMD_BEGIN_RENDER_PASS2'', 283), (''VK_CMD_NEXT_SUBPASS2'', 284),
     (''VK_CMD_END_RENDER_PASS2'', 285), (''VK_GET_SEMAPHORE_COUNTER_VALUE'', 286), (''VK_WAIT_SEMAPHORES'', 287),
     (''VK_SIGNAL_SEMAPHORE'', 288), (''VK_CMD_DRAW_INDIRECT_COUNT'', 289),
     (''VK_CMD_DRAW_INDEXED_INDIRECT_COUNT'', 290), (''VK_CMD_BIND_TRANSFORM_FEEDBACK_BUFFERS_EXT'', 291),
     (''VK_CMD_BEGIN_TRANSFORM_FEEDBACK_EXT'', 292), (''VK_CMD_END_TRANSFORM_FEEDBACK_EXT'', 293),
     (''VK_CMD_BEGIN_QUERY_INDEXED_EXT'', 294), (''VK_CMD_END_QUERY_INDEXED_EXT'', 295),
     (''VK_CMD_DRAW_INDIRECT_BYTE_COUNT_EXT'', 296), (''VK_GET_BUFFER_OPAQUE_CAPTURE_ADDRESS'', 297),
     (''VK_GET_BUFFER_DEVICE_ADDRESS'', 298), (''VK_GET_DEVICE_MEMORY_OPAQUE_CAPTURE_ADDRESS'', 299),
     (''VK_CMD_SET_LINE_STIPPLE_KHR'', 300), (''VK_CMD_SET_CULL_MODE'', 301), (''VK_CMD_SET_FRONT_FACE'', 302),
     (''VK_CMD_SET_PRIMITIVE_TOPOLOGY'', 303), (''VK_CMD_SET_VIEWPORT_WITH_COUNT'', 304),
     (''VK_CMD_SET_SCISSOR_WITH_COUNT'', 305), (''VK_CMD_BIND_VERTEX_BUFFERS2'', 306),
     (''VK_CMD_SET_DEPTH_TEST_ENABLE'', 307), (''VK_CMD_SET_DEPTH_WRITE_ENABLE'', 308),
     (''VK_CMD_SET_DEPTH_COMPARE_OP'', 309), (''VK_CMD_SET_DEPTH_BOUNDS_TEST_ENABLE'', 310),
     (''VK_CMD_SET_STENCIL_TEST_ENABLE'', 311), (''VK_CMD_SET_STENCIL_OP'', 312),
     (''VK_CMD_SET_RASTERIZER_DISCARD_ENABLE'', 313), (''VK_CMD_SET_DEPTH_BIAS_ENABLE'', 314),
     (''VK_CMD_SET_PRIMITIVE_RESTART_ENABLE'', 315), (''VK_CMD_SET_TESSELLATION_DOMAIN_ORIGIN_EXT'', 316),
     (''VK_CMD_SET_DEPTH_CLAMP_ENABLE_EXT'', 317), (''VK_CMD_SET_POLYGON_MODE_EXT'', 318),
     (''VK_CMD_SET_RASTERIZATION_SAMPLES_EXT'', 319), (''VK_CMD_SET_SAMPLE_MASK_EXT'', 320),
     (''VK_CMD_SET_ALPHA_TO_COVERAGE_ENABLE_EXT'', 321), (''VK_CMD_SET_ALPHA_TO_ONE_ENABLE_EXT'', 322),
     (''VK_CMD_SET_LOGIC_OP_ENABLE_EXT'', 323), (''VK_CMD_SET_COLOR_BLEND_ENABLE_EXT'', 324),
     (''VK_CMD_SET_COLOR_BLEND_EQUATION_EXT'', 325), (''VK_CMD_SET_COLOR_WRITE_MASK_EXT'', 326),
     (''VK_CMD_SET_RASTERIZATION_STREAM_EXT'', 327), (''VK_CMD_SET_CONSERVATIVE_RASTERIZATION_MODE_EXT'', 328),
     (''VK_CMD_SET_EXTRA_PRIMITIVE_OVERESTIMATION_SIZE_EXT'', 329), (''VK_CMD_SET_DEPTH_CLIP_ENABLE_EXT'', 330),
     (''VK_CMD_SET_SAMPLE_LOCATIONS_ENABLE_EXT'', 331), (''VK_CMD_SET_COLOR_BLEND_ADVANCED_EXT'', 332),
     (''VK_CMD_SET_PROVOKING_VERTEX_MODE_EXT'', 333), (''VK_CMD_SET_LINE_RASTERIZATION_MODE_EXT'', 334),
     (''VK_CMD_SET_LINE_STIPPLE_ENABLE_EXT'', 335), (''VK_CMD_SET_DEPTH_CLIP_NEGATIVE_ONE_TO_ONE_EXT'', 336),
     (''VK_CMD_COPY_BUFFER2'', 337), (''VK_CMD_COPY_IMAGE2'', 338), (''VK_CMD_BLIT_IMAGE2'', 339),
     (''VK_CMD_COPY_BUFFER_TO_IMAGE2'', 340), (''VK_CMD_COPY_IMAGE_TO_BUFFER2'', 341),
     (''VK_CMD_RESOLVE_IMAGE2'', 342), (''VK_CMD_SET_COLOR_WRITE_ENABLE_EXT'', 343), (''VK_CMD_SET_EVENT2'', 344),
     (''VK_CMD_RESET_EVENT2'', 345), (''VK_CMD_WAIT_EVENTS2'', 346), (''VK_CMD_PIPELINE_BARRIER2'', 347),
     (''VK_QUEUE_SUBMIT2'', 348), (''VK_CMD_WRITE_TIMESTAMP2'', 349), (''VK_CMD_BEGIN_RENDERING'', 350),
     (''VK_CMD_END_RENDERING'', 351), (''VK_GET_SHADER_MODULE_IDENTIFIER_EXT'', 352),
     (''VK_GET_SHADER_MODULE_CREATE_INFO_IDENTIFIER_EXT'', 353)]"

definition request_codes :: "(string \<times> int) list" where
  "request_codes = request_codes_low @ request_codes_high"

definition requestCodeStrings_low :: "string list" where
  "requestCodeStrings_low = [
     ''vkCreateInstance'', ''vkDestroyInstance'', ''vkEnumeratePhysicalDevices'', ''vkGetPhysicalDeviceProperties'',
     ''vkGetPhysicalDeviceQueueFamilyProperties'', ''vkGetPhysicalDeviceMemoryProperties'',
     ''vkGetPhysicalDeviceFeatures'', ''vkGetPhysicalDeviceFormatProperties'',
     ''vkGetPhysicalDeviceImageFormatProperties'', ''vkCreateDevice'', ''vkDestroyDevice'',
     ''vkEnumerateInstanceVersion'', ''vkEnumerateInstanceExtensionProperties'',
     ''vkEnumerateDeviceExtensionProperties'', ''vkGetDeviceQueue'', ''vkQueueSubmit'', ''vkQueueWaitIdle'',
     ''vkDeviceWaitIdle'', ''vkAllocateMemory'', ''vkFreeMemory'', ''vkMapMemory'', ''vkUnmapMemory'',
     ''vkFlushMappedMemoryRanges'', ''vkInvalidateMappedMemoryRanges'', ''vkGetDeviceMemoryCommitment'',
     ''vkGetBufferMemoryRequirements'', ''vkBindBufferMemory'', ''vkGetImageMemoryRequirements'',
     ''vkBindImageMemory'', ''vkGetImageSparseMemoryRequirements'',
     ''vkGetPhysicalDeviceSparseImageFormatProperties'', ''vkQueueBindSparse'', ''vkCreateFence'',
     ''vkDestroyFence'', ''vkResetFences'', ''vkGetFenceStatus'', ''vkWaitForFences'', ''vkCreateSemaphore'',
     ''vkDestroySemaphore'', ''vkCreateEvent'', ''vkDestroyEvent'', ''vkGetEventStatus'', ''vkSetEvent'',
     ''vkResetEvent'', ''vkCreateQueryPool'', ''vkDestroyQueryPool'', ''vkGetQueryPoolResults'',
     ''vkResetQueryPool'', ''vkCreateBuffer'', ''vkDestroyBuffer'', ''vkCreateBufferView'', ''vkDestroyBufferView'',
     ''vkCreateImage'', ''vkDestroyImage'', ''vkGetImageSubresourceLayout'', ''vkCreateImageView'',
     ''vkDestroyImageView'', ''vkCreateShaderModule'', ''vkDestroyShaderModule'', ''vkCreatePipelineCache'',
     ''vkDestroyPipelineCache'', ''vkGetPipelineCacheData'', ''vkMergePipelineCaches'',
     ''vkCreateGraphicsPipelines'', ''vkCreateComputePipelines'', ''vkDestroyPipeline'', ''vkCreatePipelineLayout'',
     ''vkDestroyPipelineLayout'', ''vkCreateSampler'', ''vkDestroySampler'', ''vkCreateDescriptorSetLayout'',
     ''vkDestroyDescriptorSetLayout'', ''vkCreateDescriptorPool'', ''vkDestroyDescriptorPool'',
     ''vkResetDescriptorPool'', ''vkAllocateDescriptorSets'', ''vkFreeDescriptorSets'', ''vkUpdateDescriptorSets'',
     ''vkCreateFramebuffer'', ''vkDestroyFramebuffer'', ''vkCreateRenderPass'', ''vkDestroyRenderPass'',
     ''vkGetRenderAreaGranularity'', ''vkCreateCommandPool'', ''vkDestroyCommandPool'', ''vkResetCommandPool'',
     ''vkAllocateCommandBuffers'', ''vkFreeCommandBuffers'', ''vkBeginCommandBuffer'', ''vkEndCommandBuffer'',
     ''vkResetCommandBuffer'', ''vkCmdBindPipeline'', ''vkCmdSetViewport'', ''vkCmdSetScissor'',
     ''vkCmdSetLineWidth'', ''vkCmdSetDepthBias'', ''vkCmdSetBlendConstants'', ''vkCmdSetDepthBounds'',
     ''vkCmdSetStencilCompareMask'', ''vkCmdSetStencilWriteMask'', ''vkCmdSetStencilReference'',
     ''vkCmdBindDescriptorSets'', ''vkCmdBindIndexBuffer'', ''vkCmdBindVertexBuffers'', ''vkCmdDraw'',
     ''vkCmdDrawIndexed'', ''vkCmdDrawIndirect'', ''vkCmdDrawIndexedIndirect'', ''vkCmdDispatch'',
     ''vkCmdDispatchIndirect'', ''vkCmdCopyBuffer'', ''vkCmdCopyImage'', ''vkCmdBlitImage'',
     ''vkCmdCopyBufferToImage'', ''vkCmdCopyImageToBuffer'', ''vkCmdUpdateBuffer'', ''vkCmdFillBuffer'',
     ''vkCmdClearColorImage'', ''vkCmdClearDepthStencilImage'', ''vkCmdClearAttachments'', ''vkCmdResolveImage'',
     ''vkCmdSetEvent'', ''vkCmdResetEvent'', ''vkCmdWaitEvents'', ''vkCmdPipelineBarrier'', ''vkCmdBeginQuery'',
     ''vkCmdEndQuery'']"

definition requestCodeStrings_high :: "string list" where
  "requestCodeStrings_high = [
     ''vkCmdBeginConditionalRenderingEXT'', ''vkCmdEndConditionalRenderingEXT'', ''vkCmdResetQueryPool'',
     ''vkCmdWriteTimestamp'', ''vkCmdCopyQueryPoolResults'', ''vkCmdPushConstants'', ''vkCmdBeginRenderPass'',
     ''vkCmdNextSubpass'', ''vkCmdEndRenderPass'', ''vkCmdExecuteCommands'',
     ''vkGetPhysicalDeviceSurfaceCapabilitiesKHR'', ''vkGetPhysicalDeviceSurfaceFormatsKHR'',
     ''vkGetPhysicalDeviceSurfacePresentModesKHR'', ''vkCreateSwapchainKHR'', ''vkDestroySwapchainKHR'',
     ''vkGetSwapchainImagesKHR'', ''vkAcquireNextImageKHR'', ''vkQueuePresentKHR'', ''vkGetPhysicalDeviceFeatures2'',
     ''vkGetPhysicalDeviceProperties2'', ''vkGetPhysicalDeviceFormatProperties2'',
     ''vkGetPhysicalDeviceImageFormatProperties2'', ''vkGetPhysicalDeviceQueueFamilyProperties2'',
     ''vkGetPhysicalDeviceMemoryProperties2'', ''vkGetPhysicalDeviceSparseImageFormatProperties2'',
     ''vkCmdPushDescriptorSetKHR'', ''vkTrimCommandPool'', ''vkGetPhysicalDeviceExternalBufferProperties'',
     ''vkGetMemoryFdKHR'', ''vkGetPhysicalDeviceExternalSemaphoreProperties'', ''vkGetSemaphoreFdKHR'',
     ''vkGetPhysicalDeviceExternalFenceProperties'', ''vkGetFenceFdKHR'', ''vkEnumeratePhysicalDeviceGroups'',
     ''vkGetDeviceGroupPeerMemoryFeatures'', ''vkBindBufferMemory2'', ''vkBindImageMemory2'', ''vkCmdSetDeviceMask'',
     ''vkAcquireNextImage2KHR'', ''vkCmdDispatchBase'', ''vkGetPhysicalDevicePresentRectanglesKHR'',
     ''vkCmdSetSampleLocationsEXT'', ''vkGetPhysicalDeviceMultisamplePropertiesEXT'',
     ''vkGetBufferMemoryRequirements2'', ''vkGetImageMemoryRequirements2'', ''vkGetImageSparseMemoryRequirements2'',
     ''vkGetDeviceBufferMemoryRequirements'', ''vkGetDeviceImageMemoryRequirements'',
     ''vkGetDeviceImageSparseMemoryRequirements'', ''vkCreateSamplerYcbcrConversion'',
     ''vkDestroySamplerYcbcrConversion'', ''vkGetDeviceQueue2'', ''vkGetDescriptorSetLayoutSupport'',
     ''vkGetPhysicalDeviceCalibrateableTimeDomainsKHR'', ''vkGetCalibratedTimestampsKHR'', ''vkCreateRenderPass2'',
     ''vkCmdBeginRenderPass2'', ''vkCmdNextSubpass2'', ''vkCmdEndRenderPass2'', ''vkGetSemaphoreCounterValue'',
     ''vkWaitSemaphores'', ''vkSignalSemaphore'', ''vkCmdDrawIndirectCount'', ''vkCmdDrawIndexedIndirectCount'',
     ''vkCmdBindTransformFeedbackBuffersEXT'', ''vkCmdBeginTransformFeedbackEXT'', ''vkCmdEndTransformFeedbackEXT'',
     ''vkCmdBeginQueryIndexedEXT'', ''vkCmdEndQueryIndexedEXT'', ''vkCmdDrawIndirectByteCountEXT'',
     ''vkGetBufferOpaqueCaptureAddress'', ''vkGetBufferDeviceAddress'', ''vkGetDeviceMemoryOpaqueCaptureAddress'',
     ''vkCmdSetLineStippleKHR'', ''vkCmdSetCullMode'', ''vkCmdSetFrontFace'', ''vkCmdSetPrimitiveTopology'',
     ''vkCmdSetViewportWithCount'', ''vkCmdSetScissorWithCount'', ''vkCmdBindVertexBuffers2'',
     ''vkCmdSetDepthTestEnable'', ''vkCmdSetDepthWriteEnable'', ''vkCmdSetDepthCompareOp'',
     ''vkCmdSetDepthBoundsTestEnable'', ''vkCmdSetStencilTestEnable'', ''vkCmdSetStencilOp'',
     ''vkCmdSetRasterizerDiscardEnable'', ''vkCmdSetDepthBiasEnable'', ''vkCmdSetPrimitiveRestartEnable'',
     ''vkCmdSetTessellationDomainOriginEXT'', ''vkCmdSetDepthClampEnableEXT'', ''vkCmdSetPolygonModeEXT'',
     ''vkCmdSetRasterizationSamplesEXT'', ''vkCmdSetSampleMaskEXT'', ''vkCmdSetAlphaToCoverageEnableEXT'',
     ''vkCmdSetAlphaToOneEnableEXT'', ''vkCmdSetLogicOpEnableEXT'', ''vkCmdSetColorBlendEnableEXT'',
     ''vkCmdSetColorBlendEquationEXT'', ''vkCmdSetColorWriteMaskEXT'', ''vkCmdSetRasterizationStreamEXT'',
     ''vkCmdSetConservativeRasterizationModeEXT'', ''vkCmdSetExtraPrimitiveOverestimationSizeEXT'',
     ''vkCmdSetDepthClipEnableEXT'', ''vkCmdSetSampleLocationsEnableEXT'', ''vkCmdSetColorBlendAdvancedEXT'',
     ''vkCmdSetProvokingVertexModeEXT'', ''vkCmdSetLineRasterizationModeEXT'', ''vkCmdSetLineStippleEnableEXT'',
     ''vkCmdSetDepthClipNegativeOneToOneEXT'', ''vkCmdCopyBuffer2'', ''vkCmdCopyImage2'', ''vkCmdBlitImage2'',
     ''vkCmdCopyBufferToImage2'', ''vkCmdCopyImageToBuffer2'', ''vkCmdResolveImage2'',
     ''vkCmdSetColorWriteEnableEXT'', ''vkCmdSetEvent2'', ''vkCmdResetEvent2'', ''vkCmdWaitEvents2'',
     ''vkCmdPipelineBarrier2'', ''vkQueueSubmit2'', ''vkCmdWriteTimestamp2'', ''vkCmdBeginRendering'',
     ''vkCmdEndRendering'', ''vkGetShaderModuleIdentifierEXT'', ''vkGetShaderModuleCreateInfoIdentifierEXT'']"

definition requestCodeStrings :: "string list" where
  "requestCodeStrings = requestCodeStrings_low @ requestCodeStrings_high"

text \<open>The argument is a \<^verbatim>\<open>short\<close>, the index an \<^verbatim>\<open>int\<close>.\<close>

definition requestCodeToString :: "16 word \<Rightarrow> string" where
  "requestCodeToString requestCode =
     (let index = sint requestCode - REQUEST_CODE_VK_CALL_START
      in if 0 \<le> index \<and> index < REQUEST_CODE_VK_CALL_COUNT then requestCodeStrings ! nat index else ''Unknown'')"

section \<open>Handlers\<close>

definition handleRequestFuncs_low :: "string list" where
  "handleRequestFuncs_low = [
     ''vkCreateInstance'', ''vkDestroyInstance'', ''vkEnumeratePhysicalDevices'', ''vkGetPhysicalDeviceProperties'',
     ''vkGetPhysicalDeviceQueueFamilyProperties'', ''vkGetPhysicalDeviceMemoryProperties'',
     ''vkGetPhysicalDeviceFeatures'', ''vkGetPhysicalDeviceFormatProperties'',
     ''vkGetPhysicalDeviceImageFormatProperties'', ''vkCreateDevice'', ''vkDestroyDevice'',
     ''vkEnumerateInstanceVersion'', ''vkEnumerateInstanceExtensionProperties'',
     ''vkEnumerateDeviceExtensionProperties'', ''vkGetDeviceQueue'', ''vkQueueSubmit'', ''vkQueueWaitIdle'',
     ''vkDeviceWaitIdle'', ''vkAllocateMemory'', ''vkFreeMemory'', ''vkMapMemory'', ''vkUnmapMemory'',
     ''vkFlushMappedMemoryRanges'', ''vkInvalidateMappedMemoryRanges'', ''vkGetDeviceMemoryCommitment'',
     ''vkGetBufferMemoryRequirements'', ''vkBindBufferMemory'', ''vkGetImageMemoryRequirements'',
     ''vkBindImageMemory'', ''vkGetImageSparseMemoryRequirements'',
     ''vkGetPhysicalDeviceSparseImageFormatProperties'', ''vkQueueBindSparse'', ''vkCreateFence'',
     ''vkDestroyFence'', ''vkResetFences'', ''vkGetFenceStatus'', ''vkWaitForFences'', ''vkCreateSemaphore'',
     ''vkDestroySemaphore'', ''vkCreateEvent'', ''vkDestroyEvent'', ''vkGetEventStatus'', ''vkSetEvent'',
     ''vkResetEvent'', ''vkCreateQueryPool'', ''vkDestroyQueryPool'', ''vkGetQueryPoolResults'',
     ''vkResetQueryPool'', ''vkCreateBuffer'', ''vkDestroyBuffer'', ''vkCreateBufferView'', ''vkDestroyBufferView'',
     ''vkCreateImage'', ''vkDestroyImage'', ''vkGetImageSubresourceLayout'', ''vkCreateImageView'',
     ''vkDestroyImageView'', ''vkCreateShaderModule'', ''vkDestroyShaderModule'', ''vkCreatePipelineCache'',
     ''vkDestroyPipelineCache'', ''vkGetPipelineCacheData'', ''vkMergePipelineCaches'',
     ''vkCreateGraphicsPipelines'', ''vkCreateComputePipelines'', ''vkDestroyPipeline'', ''vkCreatePipelineLayout'',
     ''vkDestroyPipelineLayout'', ''vkCreateSampler'', ''vkDestroySampler'', ''vkCreateDescriptorSetLayout'',
     ''vkDestroyDescriptorSetLayout'', ''vkCreateDescriptorPool'', ''vkDestroyDescriptorPool'',
     ''vkResetDescriptorPool'', ''vkAllocateDescriptorSets'', ''vkFreeDescriptorSets'', ''vkUpdateDescriptorSets'',
     ''vkCreateFramebuffer'', ''vkDestroyFramebuffer'', ''vkCreateRenderPass'', ''vkDestroyRenderPass'',
     ''vkGetRenderAreaGranularity'', ''vkCreateCommandPool'', ''vkDestroyCommandPool'', ''vkResetCommandPool'',
     ''vkAllocateCommandBuffers'', ''vkFreeCommandBuffers'', ''vkBeginCommandBuffer'', ''vkEndCommandBuffer'',
     ''vkResetCommandBuffer'', ''vkCmdBindPipeline'', ''vkCmdSetViewport'', ''vkCmdSetScissor'',
     ''vkCmdSetLineWidth'', ''vkCmdSetDepthBias'', ''vkCmdSetBlendConstants'', ''vkCmdSetDepthBounds'',
     ''vkCmdSetStencilCompareMask'', ''vkCmdSetStencilWriteMask'', ''vkCmdSetStencilReference'',
     ''vkCmdBindDescriptorSets'', ''vkCmdBindIndexBuffer'', ''vkCmdBindVertexBuffers'', ''vkCmdDraw'',
     ''vkCmdDrawIndexed'', ''vkCmdDrawIndirect'', ''vkCmdDrawIndexedIndirect'', ''vkCmdDispatch'',
     ''vkCmdDispatchIndirect'', ''vkCmdCopyBuffer'', ''vkCmdCopyImage'', ''vkCmdBlitImage'',
     ''vkCmdCopyBufferToImage'', ''vkCmdCopyImageToBuffer'', ''vkCmdUpdateBuffer'', ''vkCmdFillBuffer'',
     ''vkCmdClearColorImage'', ''vkCmdClearDepthStencilImage'', ''vkCmdClearAttachments'', ''vkCmdResolveImage'',
     ''vkCmdSetEvent'', ''vkCmdResetEvent'', ''vkCmdWaitEvents'', ''vkCmdPipelineBarrier'', ''vkCmdBeginQuery'',
     ''vkCmdEndQuery'']"

definition handleRequestFuncs_high :: "string list" where
  "handleRequestFuncs_high = [
     ''vkCmdBeginConditionalRenderingEXT'', ''vkCmdEndConditionalRenderingEXT'', ''vkCmdResetQueryPool'',
     ''vkCmdWriteTimestamp'', ''vkCmdCopyQueryPoolResults'', ''vkCmdPushConstants'', ''vkCmdBeginRenderPass'',
     ''vkCmdNextSubpass'', ''vkCmdEndRenderPass'', ''vkCmdExecuteCommands'',
     ''vkGetPhysicalDeviceSurfaceCapabilitiesKHR'', ''vkGetPhysicalDeviceSurfaceFormatsKHR'',
     ''vkGetPhysicalDeviceSurfacePresentModesKHR'', ''vkCreateSwapchainKHR'', ''vkDestroySwapchainKHR'',
     ''vkGetSwapchainImagesKHR'', ''vkAcquireNextImageKHR'', ''vkQueuePresentKHR'', ''vkGetPhysicalDeviceFeatures2'',
     ''vkGetPhysicalDeviceProperties2'', ''vkGetPhysicalDeviceFormatProperties2'',
     ''vkGetPhysicalDeviceImageFormatProperties2'', ''vkGetPhysicalDeviceQueueFamilyProperties2'',
     ''vkGetPhysicalDeviceMemoryProperties2'', ''vkGetPhysicalDeviceSparseImageFormatProperties2'',
     ''vkCmdPushDescriptorSetKHR'', ''vkTrimCommandPool'', ''vkGetPhysicalDeviceExternalBufferProperties'',
     ''vkGetMemoryFdKHR'', ''vkGetPhysicalDeviceExternalSemaphoreProperties'', ''vkGetSemaphoreFdKHR'',
     ''vkGetPhysicalDeviceExternalFenceProperties'', ''vkGetFenceFdKHR'', ''vkEnumeratePhysicalDeviceGroups'',
     ''vkGetDeviceGroupPeerMemoryFeatures'', ''vkBindBufferMemory2'', ''vkBindImageMemory2'', ''vkCmdSetDeviceMask'',
     ''vkAcquireNextImage2KHR'', ''vkCmdDispatchBase'', ''vkGetPhysicalDevicePresentRectanglesKHR'',
     ''vkCmdSetSampleLocationsEXT'', ''vkGetPhysicalDeviceMultisamplePropertiesEXT'',
     ''vkGetBufferMemoryRequirements2'', ''vkGetImageMemoryRequirements2'', ''vkGetImageSparseMemoryRequirements2'',
     ''vkGetDeviceBufferMemoryRequirements'', ''vkGetDeviceImageMemoryRequirements'',
     ''vkGetDeviceImageSparseMemoryRequirements'', ''vkCreateSamplerYcbcrConversion'',
     ''vkDestroySamplerYcbcrConversion'', ''vkGetDeviceQueue2'', ''vkGetDescriptorSetLayoutSupport'',
     ''vkGetPhysicalDeviceCalibrateableTimeDomainsKHR'', ''vkGetCalibratedTimestampsKHR'', ''vkCreateRenderPass2'',
     ''vkCmdBeginRenderPass2'', ''vkCmdNextSubpass2'', ''vkCmdEndRenderPass2'', ''vkGetSemaphoreCounterValue'',
     ''vkWaitSemaphores'', ''vkSignalSemaphore'', ''vkCmdDrawIndirectCount'', ''vkCmdDrawIndexedIndirectCount'',
     ''vkCmdBindTransformFeedbackBuffersEXT'', ''vkCmdBeginTransformFeedbackEXT'', ''vkCmdEndTransformFeedbackEXT'',
     ''vkCmdBeginQueryIndexedEXT'', ''vkCmdEndQueryIndexedEXT'', ''vkCmdDrawIndirectByteCountEXT'',
     ''vkGetBufferOpaqueCaptureAddress'', ''vkGetBufferDeviceAddress'', ''vkGetDeviceMemoryOpaqueCaptureAddress'',
     ''vkCmdSetLineStippleKHR'', ''vkCmdSetCullMode'', ''vkCmdSetFrontFace'', ''vkCmdSetPrimitiveTopology'',
     ''vkCmdSetViewportWithCount'', ''vkCmdSetScissorWithCount'', ''vkCmdBindVertexBuffers2'',
     ''vkCmdSetDepthTestEnable'', ''vkCmdSetDepthWriteEnable'', ''vkCmdSetDepthCompareOp'',
     ''vkCmdSetDepthBoundsTestEnable'', ''vkCmdSetStencilTestEnable'', ''vkCmdSetStencilOp'',
     ''vkCmdSetRasterizerDiscardEnable'', ''vkCmdSetDepthBiasEnable'', ''vkCmdSetPrimitiveRestartEnable'',
     ''vkCmdSetTessellationDomainOriginEXT'', ''vkCmdSetDepthClampEnableEXT'', ''vkCmdSetPolygonModeEXT'',
     ''vkCmdSetRasterizationSamplesEXT'', ''vkCmdSetSampleMaskEXT'', ''vkCmdSetAlphaToCoverageEnableEXT'',
     ''vkCmdSetAlphaToOneEnableEXT'', ''vkCmdSetLogicOpEnableEXT'', ''vkCmdSetColorBlendEnableEXT'',
     ''vkCmdSetColorBlendEquationEXT'', ''vkCmdSetColorWriteMaskEXT'', ''vkCmdSetRasterizationStreamEXT'',
     ''vkCmdSetConservativeRasterizationModeEXT'', ''vkCmdSetExtraPrimitiveOverestimationSizeEXT'',
     ''vkCmdSetDepthClipEnableEXT'', ''vkCmdSetSampleLocationsEnableEXT'', ''vkCmdSetColorBlendAdvancedEXT'',
     ''vkCmdSetProvokingVertexModeEXT'', ''vkCmdSetLineRasterizationModeEXT'', ''vkCmdSetLineStippleEnableEXT'',
     ''vkCmdSetDepthClipNegativeOneToOneEXT'', ''vkCmdCopyBuffer2'', ''vkCmdCopyImage2'', ''vkCmdBlitImage2'',
     ''vkCmdCopyBufferToImage2'', ''vkCmdCopyImageToBuffer2'', ''vkCmdResolveImage2'',
     ''vkCmdSetColorWriteEnableEXT'', ''vkCmdSetEvent2'', ''vkCmdResetEvent2'', ''vkCmdWaitEvents2'',
     ''vkCmdPipelineBarrier2'', ''vkQueueSubmit2'', ''vkCmdWriteTimestamp2'', ''vkCmdBeginRendering'',
     ''vkCmdEndRendering'', ''vkGetShaderModuleIdentifierEXT'', ''vkGetShaderModuleCreateInfoIdentifierEXT'']"

definition handleRequestFuncs :: "string list" where
  "handleRequestFuncs = handleRequestFuncs_low @ handleRequestFuncs_high"

text \<open>\<open>authority_complete\<close> is the build option \<^verbatim>\<open>VORTEK_REQUEST_HANDLE_AUTHORITY_COMPLETE\<close>; without it every request stops the
  context (\<open>handle_authority_incomplete\<close>). \<^const>\<open>None\<close> is NULL.\<close>

definition getHandleRequestFunc :: "bool \<Rightarrow> 16 word \<Rightarrow> string option" where
  "getHandleRequestFunc authority_complete requestCode =
     (if \<not> authority_complete then Some ''handle_authority_incomplete''
      else let index = sint requestCode - REQUEST_CODE_VK_CALL_START
           in if 0 \<le> index \<and> index < REQUEST_CODE_VK_CALL_COUNT then Some (handleRequestFuncs ! nat index) else None)"

section \<open>Commands of a batch\<close>

text \<open>The commands \<^verbatim>\<open>vt_request_preflight_command\<close> tells apart, each with the decoder of its own name.\<close>

definition preflight_commands_a :: "string list" where
  "preflight_commands_a = [
     ''vkCmdBeginConditionalRenderingEXT'', ''vkCmdBeginQuery'', ''vkCmdBeginQueryIndexedEXT'',
     ''vkCmdBeginRenderPass'', ''vkCmdBeginRenderPass2'', ''vkCmdBeginRendering'',
     ''vkCmdBeginTransformFeedbackEXT'', ''vkCmdBindDescriptorSets'', ''vkCmdBindIndexBuffer'',
     ''vkCmdBindPipeline'', ''vkCmdBindTransformFeedbackBuffersEXT'', ''vkCmdBindVertexBuffers'',
     ''vkCmdBindVertexBuffers2'', ''vkCmdBlitImage'', ''vkCmdBlitImage2'', ''vkCmdClearAttachments'',
     ''vkCmdClearColorImage'', ''vkCmdClearDepthStencilImage'', ''vkCmdCopyBuffer'', ''vkCmdCopyBuffer2'',
     ''vkCmdCopyBufferToImage'', ''vkCmdCopyBufferToImage2'', ''vkCmdCopyImage'', ''vkCmdCopyImage2'',
     ''vkCmdCopyImageToBuffer'', ''vkCmdCopyImageToBuffer2'', ''vkCmdCopyQueryPoolResults'', ''vkCmdDispatch'']"

definition preflight_commands_b :: "string list" where
  "preflight_commands_b = [
     ''vkCmdDispatchBase'', ''vkCmdDispatchIndirect'', ''vkCmdDraw'', ''vkCmdDrawIndexed'',
     ''vkCmdDrawIndexedIndirect'', ''vkCmdDrawIndexedIndirectCount'', ''vkCmdDrawIndirect'',
     ''vkCmdDrawIndirectByteCountEXT'', ''vkCmdDrawIndirectCount'', ''vkCmdEndConditionalRenderingEXT'',
     ''vkCmdEndQuery'', ''vkCmdEndQueryIndexedEXT'', ''vkCmdEndRenderPass'', ''vkCmdEndRenderPass2'',
     ''vkCmdEndRendering'', ''vkCmdEndTransformFeedbackEXT'', ''vkCmdExecuteCommands'', ''vkCmdFillBuffer'',
     ''vkCmdNextSubpass'', ''vkCmdNextSubpass2'', ''vkCmdPipelineBarrier'', ''vkCmdPipelineBarrier2'',
     ''vkCmdPushConstants'', ''vkCmdPushDescriptorSetKHR'', ''vkCmdResetEvent'', ''vkCmdResetEvent2'',
     ''vkCmdResetQueryPool'', ''vkCmdResolveImage'']"

definition preflight_commands_c :: "string list" where
  "preflight_commands_c = [
     ''vkCmdResolveImage2'', ''vkCmdSetAlphaToCoverageEnableEXT'', ''vkCmdSetAlphaToOneEnableEXT'',
     ''vkCmdSetBlendConstants'', ''vkCmdSetColorBlendAdvancedEXT'', ''vkCmdSetColorBlendEnableEXT'',
     ''vkCmdSetColorBlendEquationEXT'', ''vkCmdSetColorWriteEnableEXT'', ''vkCmdSetColorWriteMaskEXT'',
     ''vkCmdSetConservativeRasterizationModeEXT'', ''vkCmdSetCullMode'', ''vkCmdSetDepthBias'',
     ''vkCmdSetDepthBiasEnable'', ''vkCmdSetDepthBounds'', ''vkCmdSetDepthBoundsTestEnable'',
     ''vkCmdSetDepthClampEnableEXT'', ''vkCmdSetDepthClipEnableEXT'', ''vkCmdSetDepthClipNegativeOneToOneEXT'',
     ''vkCmdSetDepthCompareOp'', ''vkCmdSetDepthTestEnable'', ''vkCmdSetDepthWriteEnable'', ''vkCmdSetDeviceMask'',
     ''vkCmdSetEvent'', ''vkCmdSetEvent2'', ''vkCmdSetExtraPrimitiveOverestimationSizeEXT'', ''vkCmdSetFrontFace'',
     ''vkCmdSetLineRasterizationModeEXT'', ''vkCmdSetLineStippleEnableEXT'']"

definition preflight_commands_d :: "string list" where
  "preflight_commands_d = [
     ''vkCmdSetLineStippleKHR'', ''vkCmdSetLineWidth'', ''vkCmdSetLogicOpEnableEXT'', ''vkCmdSetPolygonModeEXT'',
     ''vkCmdSetPrimitiveRestartEnable'', ''vkCmdSetPrimitiveTopology'', ''vkCmdSetProvokingVertexModeEXT'',
     ''vkCmdSetRasterizationSamplesEXT'', ''vkCmdSetRasterizationStreamEXT'', ''vkCmdSetRasterizerDiscardEnable'',
     ''vkCmdSetSampleLocationsEXT'', ''vkCmdSetSampleLocationsEnableEXT'', ''vkCmdSetSampleMaskEXT'',
     ''vkCmdSetScissor'', ''vkCmdSetScissorWithCount'', ''vkCmdSetStencilCompareMask'', ''vkCmdSetStencilOp'',
     ''vkCmdSetStencilReference'', ''vkCmdSetStencilTestEnable'', ''vkCmdSetStencilWriteMask'',
     ''vkCmdSetTessellationDomainOriginEXT'', ''vkCmdSetViewport'', ''vkCmdSetViewportWithCount'',
     ''vkCmdUpdateBuffer'', ''vkCmdWaitEvents'', ''vkCmdWaitEvents2'', ''vkCmdWriteTimestamp'',
     ''vkCmdWriteTimestamp2'']"

definition preflight_commands :: "string list" where
  "preflight_commands = preflight_commands_a @ preflight_commands_b @ preflight_commands_c @ preflight_commands_d"

end
