(* ===== verification/Request_Tables.thy ===== *)
theory Request_Tables
  imports Request_Codes
begin

text \<open>
  The tables of \<open>Request_Codes\<close> agree with each other: every code has one handler, the one its name says, and the commands
  that may stand in a batch are those whose handlers record a command.
\<close>

section \<open>Names of codes\<close>

text \<open>A code is named after its function: in capitals, with an underscore before each capital that follows another character.\<close>

definition capital :: "char \<Rightarrow> bool" where
  "capital c \<longleftrightarrow> 65 \<le> (of_char c :: nat) \<and> (of_char c :: nat) \<le> 90"

definition upper :: "char \<Rightarrow> char" where
  "upper c = (if 97 \<le> (of_char c :: nat) \<and> (of_char c :: nat) \<le> 122 then char_of ((of_char c :: nat) - 32) else c)"

fun code_name :: "string \<Rightarrow> string" where
  "code_name [] = []"
| "code_name [c] = [upper c]"
| "code_name (c # d # cs) =
     upper c # (if \<not> capital c \<and> capital d then CHR ''_'' # code_name (d # cs) else code_name (d # cs))"

lemmas table_parts = request_codes_def handleRequestFuncs_def requestCodeStrings_def preflight_commands_def
  request_codes_low_def request_codes_high_def handleRequestFuncs_low_def handleRequestFuncs_high_def
  requestCodeStrings_low_def requestCodeStrings_high_def preflight_commands_a_def preflight_commands_b_def
  preflight_commands_c_def preflight_commands_d_def

lemma upper_letters:
  "upper CHR ''a'' = CHR ''A''" "upper CHR ''b'' = CHR ''B''" "upper CHR ''c'' = CHR ''C''"
  "upper CHR ''d'' = CHR ''D''" "upper CHR ''e'' = CHR ''E''" "upper CHR ''f'' = CHR ''F''"
  "upper CHR ''g'' = CHR ''G''" "upper CHR ''h'' = CHR ''H''" "upper CHR ''i'' = CHR ''I''"
  "upper CHR ''j'' = CHR ''J''" "upper CHR ''k'' = CHR ''K''" "upper CHR ''l'' = CHR ''L''"
  "upper CHR ''m'' = CHR ''M''" "upper CHR ''n'' = CHR ''N''" "upper CHR ''o'' = CHR ''O''"
  "upper CHR ''p'' = CHR ''P''" "upper CHR ''q'' = CHR ''Q''" "upper CHR ''r'' = CHR ''R''"
  "upper CHR ''s'' = CHR ''S''" "upper CHR ''t'' = CHR ''T''" "upper CHR ''u'' = CHR ''U''"
  "upper CHR ''v'' = CHR ''V''" "upper CHR ''w'' = CHR ''W''" "upper CHR ''x'' = CHR ''X''"
  "upper CHR ''y'' = CHR ''Y''" "upper CHR ''z'' = CHR ''Z''" "upper CHR ''A'' = CHR ''A''"
  "upper CHR ''B'' = CHR ''B''" "upper CHR ''C'' = CHR ''C''" "upper CHR ''D'' = CHR ''D''"
  "upper CHR ''E'' = CHR ''E''" "upper CHR ''F'' = CHR ''F''" "upper CHR ''G'' = CHR ''G''"
  "upper CHR ''H'' = CHR ''H''" "upper CHR ''I'' = CHR ''I''" "upper CHR ''J'' = CHR ''J''"
  "upper CHR ''K'' = CHR ''K''" "upper CHR ''L'' = CHR ''L''" "upper CHR ''M'' = CHR ''M''"
  "upper CHR ''N'' = CHR ''N''" "upper CHR ''O'' = CHR ''O''" "upper CHR ''P'' = CHR ''P''"
  "upper CHR ''Q'' = CHR ''Q''" "upper CHR ''R'' = CHR ''R''" "upper CHR ''S'' = CHR ''S''"
  "upper CHR ''T'' = CHR ''T''" "upper CHR ''U'' = CHR ''U''" "upper CHR ''V'' = CHR ''V''"
  "upper CHR ''W'' = CHR ''W''" "upper CHR ''X'' = CHR ''X''" "upper CHR ''Y'' = CHR ''Y''"
  "upper CHR ''Z'' = CHR ''Z''" "upper CHR ''2'' = CHR ''2''"
  by (simp_all add: upper_def char_of_eq_iff)

lemma capital_letters:
  "\<not> capital CHR ''a''" "\<not> capital CHR ''b''" "\<not> capital CHR ''c''" "\<not> capital CHR ''d''"
  "\<not> capital CHR ''e''" "\<not> capital CHR ''f''" "\<not> capital CHR ''g''" "\<not> capital CHR ''h''"
  "\<not> capital CHR ''i''" "\<not> capital CHR ''j''" "\<not> capital CHR ''k''" "\<not> capital CHR ''l''"
  "\<not> capital CHR ''m''" "\<not> capital CHR ''n''" "\<not> capital CHR ''o''" "\<not> capital CHR ''p''"
  "\<not> capital CHR ''q''" "\<not> capital CHR ''r''" "\<not> capital CHR ''s''" "\<not> capital CHR ''t''"
  "\<not> capital CHR ''u''" "\<not> capital CHR ''v''" "\<not> capital CHR ''w''" "\<not> capital CHR ''x''"
  "\<not> capital CHR ''y''" "\<not> capital CHR ''z''" "capital CHR ''A''" "capital CHR ''B''" "capital CHR ''C''"
  "capital CHR ''D''" "capital CHR ''E''" "capital CHR ''F''" "capital CHR ''G''" "capital CHR ''H''"
  "capital CHR ''I''" "capital CHR ''J''" "capital CHR ''K''" "capital CHR ''L''" "capital CHR ''M''"
  "capital CHR ''N''" "capital CHR ''O''" "capital CHR ''P''" "capital CHR ''Q''" "capital CHR ''R''"
  "capital CHR ''S''" "capital CHR ''T''" "capital CHR ''U''" "capital CHR ''V''" "capital CHR ''W''"
  "capital CHR ''X''" "capital CHR ''Y''" "capital CHR ''Z''" "\<not> capital CHR ''2''"
  by (simp_all add: capital_def)

lemma names_are_handlers: "requestCodeStrings = handleRequestFuncs"
  by (simp only: table_parts)

lemma codes_low: "request_codes_low = zip (map code_name handleRequestFuncs_low) [100..226]"
  unfolding request_codes_low_def handleRequestFuncs_low_def
  by (simp add: upper_letters capital_letters upto_rec_numeral)

lemma codes_high: "request_codes_high = zip (map code_name handleRequestFuncs_high) [227..353]"
  unfolding request_codes_high_def handleRequestFuncs_high_def
  by (simp add: upper_letters capital_letters upto_rec_numeral)

lemma codes_are_numbered: "request_codes = zip (map code_name handleRequestFuncs) [100..353]"
proof -
  have "[100..353] = [100..226] @ [227..353::int]" using upto_split2 [of 100 226 353] by simp
  moreover have "length (map code_name handleRequestFuncs_low) = length [100..226::int]"
    by (simp add: handleRequestFuncs_low_def del: upto_rec_numeral)
  ultimately show ?thesis
    by (simp only: request_codes_def handleRequestFuncs_def codes_low codes_high map_append zip_append)
qed

text \<open>Where the commands of a batch stand in the table of handlers.\<close>

definition batch_places :: "nat list" where
  "batch_places = [
    127, 125, 194, 133, 183, 250, 192, 101, 102, 91, 191, 103, 206, 112, 239, 119, 117, 118, 110, 237, 113, 240, 111,
    238, 114, 241, 131, 108, 166, 109, 104, 105, 107, 190, 106, 196, 189, 128, 126, 195, 135, 185, 251, 193, 136,
    116, 134, 184, 124, 247, 132, 152, 122, 245, 129, 120, 242, 221, 222, 96, 232, 224, 225, 243, 226, 228, 201, 95,
    214, 97, 210, 217, 230, 236, 209, 207, 208, 164, 121, 244, 229, 202, 234, 235, 200, 94, 223, 218, 215, 203, 233,
    219, 227, 213, 168, 231, 220, 93, 205, 98, 212, 100, 211, 99, 216, 92, 204, 115, 123, 246, 130, 249]"

lemma batch_places_at:
  "map (\<lambda>i. handleRequestFuncs ! i) batch_places = preflight_commands"
  by (simp add: batch_places_def handleRequestFuncs_def handleRequestFuncs_low_def handleRequestFuncs_high_def
      preflight_commands_def preflight_commands_a_def preflight_commands_b_def preflight_commands_c_def
      preflight_commands_d_def)

lemma batch_places_distinct: "distinct batch_places" "list_all (\<lambda>i. i < 254) batch_places" "length batch_places = 112"
  by (simp_all add: batch_places_def)

definition records :: "string \<Rightarrow> bool" where
  "records h \<longleftrightarrow> take 5 h = ''vkCmd''"

lemma recording_handlers:
  "length (filter records handleRequestFuncs_low) = 36" "length (filter records handleRequestFuncs_high) = 76"
  by (simp_all add: records_def handleRequestFuncs_low_def handleRequestFuncs_high_def)

lemma preflight_records: "list_all records preflight_commands"
  by (simp add: records_def preflight_commands_def preflight_commands_a_def preflight_commands_b_def
      preflight_commands_c_def preflight_commands_d_def)

lemma batch_commands_record: "set preflight_commands = {h \<in> set handleRequestFuncs. records h}"
proof -
  let ?xs = handleRequestFuncs and ?A = "{i. i < length handleRequestFuncs \<and> records (handleRequestFuncs ! i)}"
  have len: "length ?xs = 254"
    by (simp add: handleRequestFuncs_def handleRequestFuncs_low_def handleRequestFuncs_high_def)
  have cmds: "preflight_commands = map (\<lambda>i. ?xs ! i) batch_places" using batch_places_at by simp
  have sub: "set batch_places \<subseteq> ?A"
    using preflight_records batch_places_distinct(2) len unfolding cmds by (auto simp: list_all_iff)
  have "card ?A = length (filter records ?xs)" by (rule length_filter_conv_card [symmetric])
  then have "card ?A = 112" using recording_handlers by (simp add: handleRequestFuncs_def)
  moreover have "card (set batch_places) = 112"
    using distinct_card [OF batch_places_distinct(1)] batch_places_distinct(3) by simp
  ultimately have "set batch_places = ?A" using card_subset_eq [OF _ sub] by simp
  then show ?thesis unfolding cmds by (auto simp: in_set_conv_nth)
qed

text \<open>C7: The tables of the dispatch agree. A request code gets the handler its name says, and none outside the table; the
  codes are numbered from 100 in the order of the handlers, each named after its function; and the commands that are checked
  ahead in a batch are exactly those whose handlers record a command.\<close>

theorem dispatch_tables_agree:
  "(\<forall>code. getHandleRequestFunc True code =
      (if 100 \<le> sint code \<and> sint code < 354 then Some (requestCodeToString code) else None)) \<and>
   request_codes = zip (map code_name handleRequestFuncs) [100..353] \<and>
   set preflight_commands = {h \<in> set handleRequestFuncs. records h}"
  by (simp add: getHandleRequestFunc_def requestCodeToString_def REQUEST_CODE_VK_CALL_START_def
      REQUEST_CODE_VK_CALL_COUNT_def names_are_handlers codes_are_numbered batch_commands_record)

end
