(* ===== verification/Vk_Object.thy ===== *)
theory Vk_Object
  imports Authority_Reclaim "HOL-Library.Monad_Syntax"
begin

text \<open>
  Wrapped objects and the handle authority, \<^verbatim>\<open>vortekrenderer/src/vk_object.c\<close>. The first part is the guest's side of the wire:
  an object carries the id the server gave, and the handle an application sees is a block of two words, the second of
  which points back to the object. Physical devices and queues are kept in a list, so that an id gets one object.
  The second part names the operations of the registry the server uses.
\<close>

section \<open>Objects, handles and the cache\<close>

text \<open>The objects and the handles that are allocated, by address; of a handle only the second word is used. The tag is not.\<close>

record VkObject =
  vo_id :: u64
  vo_type :: VkObjectType
  vo_handle :: u64

record object_heap =
  heap_objects :: "u64 \<Rightarrow> VkObject option"
  heap_handles :: "u64 \<Rightarrow> u64 option"
  cachedObjects :: "u64 list"

definition VKOBJECT_NULL_ID :: u64 where "VKOBJECT_NULL_ID = 0"

text \<open>A pointer to an object: the static \<^verbatim>\<open>vkNullObject\<close> or an address.\<close>

datatype object_ref = Null_object | Object u64

definition vkNullObject :: VkObject where
  "vkNullObject = \<lparr>vo_id = VKOBJECT_NULL_ID, vo_type = VK_OBJECT_TYPE_UNKNOWN, vo_handle = 0\<rparr>"

text \<open>\<^const>\<open>None\<close> is an access to an object that is not allocated.\<close>

fun VKOBJECT_IS_NULL :: "object_heap \<Rightarrow> object_ref \<Rightarrow> bool option" where
  "VKOBJECT_IS_NULL h Null_object = Some True"
| "VKOBJECT_IS_NULL h (Object a) =
     (if a = 0 then Some True else map_option (\<lambda>ob. vo_id ob = VKOBJECT_NULL_ID) (heap_objects h a))"

text \<open>\<open>at\<close> is the address the allocation gives.\<close>

definition internalCreate :: "VkObjectType \<Rightarrow> u64 \<Rightarrow> u64 \<Rightarrow> object_heap \<Rightarrow> object_ref \<times> object_heap" where
  "internalCreate type i at h =
     (Object at, h\<lparr>heap_objects := (heap_objects h)(at \<mapsto> \<lparr>vo_id = i, vo_type = type, vo_handle = 0\<rparr>)\<rparr>)"

fun cached_loop :: "object_heap \<Rightarrow> u64 \<Rightarrow> u64 list \<Rightarrow> object_ref option" where
  "cached_loop h i [] = Some Null_object"
| "cached_loop h i (a # as) = do {
     ob \<leftarrow> heap_objects h a;
     (if vo_id ob = i then Some (Object a) else cached_loop h i as) }"

definition getCachedObject :: "object_heap \<Rightarrow> u64 \<Rightarrow> object_ref option" where
  "getCachedObject h i = cached_loop h i (cachedObjects h)"

definition VkObject_create :: "VkObjectType \<Rightarrow> u64 \<Rightarrow> u64 \<Rightarrow> object_heap \<Rightarrow> (object_ref \<times> object_heap) option" where
  "VkObject_create type i at h =
     (if type = VK_OBJECT_TYPE_PHYSICAL_DEVICE \<or> type = VK_OBJECT_TYPE_QUEUE then do {
        found \<leftarrow> getCachedObject h i;
        null \<leftarrow> VKOBJECT_IS_NULL h found;
        (if \<not> null then Some (found, h)
         else let (ob, h') = internalCreate type i at h
              in Some (ob, h'\<lparr>cachedObjects := cachedObjects h' @ [at]\<rparr>)) }
      else Some (internalCreate type i at h))"

definition VkObject_toHandle :: "u64 \<Rightarrow> u64 \<Rightarrow> object_heap \<Rightarrow> (u64 \<times> object_heap) option" where
  "VkObject_toHandle object at h = do {
     ob \<leftarrow> heap_objects h object;
     (if vo_handle ob \<noteq> 0 then Some (vo_handle ob, h)
      else Some (at, h\<lparr>heap_handles := (heap_handles h)(at \<mapsto> object),
                       heap_objects := (heap_objects h)(object \<mapsto> ob\<lparr>vo_handle := at\<rparr>)\<rparr>)) }"

definition VkObject_fromId :: "u64 \<Rightarrow> u64" where
  "VkObject_fromId i = (if i \<noteq> VKOBJECT_NULL_ID then i else 0)"

definition VkObject_fromHandle :: "u64 \<Rightarrow> object_heap \<Rightarrow> object_ref option" where
  "VkObject_fromHandle handle h =
     (if handle \<noteq> 0 then do { p \<leftarrow> heap_handles h handle; Some (if p \<noteq> 0 then Object p else Null_object) }
      else Some Null_object)"

definition VkObject_free :: "object_ref \<Rightarrow> object_heap \<Rightarrow> object_heap option" where
  "VkObject_free object h = do {
     null \<leftarrow> VKOBJECT_IS_NULL h object;
     (if null then Some h
      else case object of
        Null_object \<Rightarrow> Some h
      | Object a \<Rightarrow> do {
          ob \<leftarrow> heap_objects h a;
          Some (h\<lparr>heap_handles := (if vo_handle ob \<noteq> 0 then (heap_handles h)(vo_handle ob := None) else heap_handles h),
                   heap_objects := (heap_objects h)(a := None)\<rparr>) }) }"

section \<open>What the wrapping guarantees\<close>

text \<open>An application that hands a handle back gets the object it was made for, and an object has one handle.\<close>

lemma handle_round_trip:
  assumes "heap_objects h a = Some ob" "vo_handle ob = 0" "at \<noteq> 0" "a \<noteq> 0"
    and "VkObject_toHandle a at h = Some (handle, h')"
  shows "VkObject_fromHandle handle h' = Some (Object a)" "VkObject_toHandle a later h' = Some (handle, h')"
  using assms by (auto simp: VkObject_toHandle_def VkObject_fromHandle_def)

lemma cached_once:
  assumes "VkObject_create type i at h = Some (Object a, h')" "type = VK_OBJECT_TYPE_QUEUE \<or> type = VK_OBJECT_TYPE_PHYSICAL_DEVICE"
    and "at \<notin> set (cachedObjects h)" "at \<noteq> 0" "i \<noteq> 0"
  shows "\<exists>ob. heap_objects h' a = Some ob \<and> vo_id ob = i"
proof -
  have loop: "cached_loop h i as = Some (Object b) \<Longrightarrow> heap_objects h b = Some ob \<Longrightarrow> vo_id ob = i" for h i as b ob
    by (induction as) (auto simp: bind_eq_Some_conv split: if_splits)
  show ?thesis
    using assms
    by (auto simp: VkObject_create_def internalCreate_def getCachedObject_def bind_eq_Some_conv VKOBJECT_NULL_ID_def
        split: if_splits dest: loop)
qed

text \<open>The cache looks at the id alone: a queue with the id of a cached physical device is that device.\<close>

lemma cache_ignores_type:
  fixes i :: u64
  defines "h \<equiv> \<lparr>heap_objects = [16 \<mapsto> \<lparr>vo_id = 5, vo_type = VK_OBJECT_TYPE_PHYSICAL_DEVICE, vo_handle = 0\<rparr>], heap_handles = Map.empty,
    cachedObjects = [16]\<rparr>"
  shows "VkObject_create VK_OBJECT_TYPE_QUEUE 5 32 h = Some (Object 16, h)"
  by (simp add: h_def VkObject_create_def getCachedObject_def VKOBJECT_NULL_ID_def)

text \<open>An object that is freed stays in the cache; the next search reads it.\<close>

lemma freed_object_stays_cached:
  defines "h \<equiv> \<lparr>heap_objects = [16 \<mapsto> \<lparr>vo_id = 5, vo_type = VK_OBJECT_TYPE_QUEUE, vo_handle = 0\<rparr>], heap_handles = Map.empty,
    cachedObjects = [16]\<rparr>"
  shows "\<exists>h'. VkObject_free (Object 16) h = Some h' \<and> VkObject_create VK_OBJECT_TYPE_QUEUE 6 32 h' = None"
  by (simp add: h_def VkObject_free_def VkObject_create_def getCachedObject_def VKOBJECT_NULL_ID_def)

section \<open>The handle authority\<close>

text \<open>Closing and destroying wait; the registry has them in two parts, of which these are the second.\<close>

definition VkObjectAuthority_create where "VkObjectAuthority_create = VortekHandleRegistry_create"
definition VkObjectAuthority_close where "VkObjectAuthority_close = VortekHandleRegistry_close_finish"
definition VkObjectAuthority_beginClose where "VkObjectAuthority_beginClose = VortekHandleRegistry_beginClose"
definition VkObjectAuthority_destroy where "VkObjectAuthority_destroy = VortekHandleRegistry_destroy_finish"
definition VkObjectAuthority_acquireDeviceLease where "VkObjectAuthority_acquireDeviceLease = VortekHandleRegistry_acquireDeviceLease"
definition VkObjectAuthority_releaseDeviceLease where "VkObjectAuthority_releaseDeviceLease = VortekHandleRegistry_releaseDeviceLease"
definition VkObjectAuthority_rollbackBatchWithLease where
  "VkObjectAuthority_rollbackBatchWithLease = VortekHandleRegistry_rollbackBatchWithLease"
definition VkObjectAuthority_drainNext where "VkObjectAuthority_drainNext = VortekHandleRegistry_drainNext"
definition VkObjectAuthority_publishVulkan where "VkObjectAuthority_publishVulkan = VortekHandleRegistry_registerVulkan"
definition VkObjectAuthority_publishVulkanBatch where "VkObjectAuthority_publishVulkanBatch = VortekHandleRegistry_registerVulkanBatch"
definition VkObjectAuthority_setDeviceNullDescriptor where
  "VkObjectAuthority_setDeviceNullDescriptor = VortekHandleRegistry_setDeviceNullDescriptor"
definition VkObjectAuthority_publishWrapper where "VkObjectAuthority_publishWrapper = VortekHandleRegistry_registerWrapper"
definition VkObjectAuthority_resolve where "VkObjectAuthority_resolve = VortekHandleRegistry_lookup"
definition VkObjectAuthority_tombstone where "VkObjectAuthority_tombstone = VortekHandleRegistry_unregister"
definition VkObjectAuthority_tombstoneBatch where "VkObjectAuthority_tombstoneBatch = VortekHandleRegistry_unregisterBatch"
definition VkObjectAuthority_validateBatch where "VkObjectAuthority_validateBatch = VortekHandleRegistry_validateBatch"
definition VkObjectAuthority_tombstoneChildren where
  "VkObjectAuthority_tombstoneChildren = VortekHandleRegistry_unregisterChildren"

lemmas authority_defs = VkObjectAuthority_drainNext_def VkObjectAuthority_publishVulkan_def
  VkObjectAuthority_publishVulkanBatch_def VkObjectAuthority_setDeviceNullDescriptor_def
  VkObjectAuthority_publishWrapper_def VkObjectAuthority_resolve_def VkObjectAuthority_tombstone_def
  VkObjectAuthority_tombstoneBatch_def VkObjectAuthority_validateBatch_def VkObjectAuthority_tombstoneChildren_def

end
