(* ===== verification/Request_Decode.thy ===== *)
theory Request_Decode
  imports Vk_Object Transport
begin

text \<open>
  A request and its handles, the first part of \<^verbatim>\<open>vortekrenderer/src/request_handler.c\<close>. A handler begins a request over the input
  of the context, decodes it in one or more passes that share one decoder state, and turns the tokens in it into host
  handles through the registry. The first handles fix the instance and the device of the request; the later ones must belong to
  them. The pointers that \<^verbatim>\<open>VT_REQUEST_BEGIN\<close> sets are not NULL, so the tests for that fall away.
\<close>

section \<open>The request\<close>

text \<open>An argument of a call: the handle of an object of the host, a number, the bytes of a structure or an array, a structure
  with members that the handler has set, a place for an output, or NULL. An event is what is done to the driver and to the
  client.\<close>

datatype argument =
    Handle u64
  | Value u64
  | Bytes "u8 list"
  | Struct "(string \<times> argument) list" "u8 list"
  | Output
  | Null

datatype host_event =
    Host host_action
  | Freed_descriptor_sets u64 u64 "u64 list"
  | Freed_command_buffers u64 u64 "u64 list"
  | Called string "argument list"
  | Responded int "u8 list"
  | Responded_fds "int list" "u8 list"
  | Closed_fd int

text \<open>What a context has for its requests, beside what \<^const>\<open>VkContext_requestStop\<close> touches: \<open>rc_next\<close> is the token counter of
  the process, \<open>rc_inputAt\<close> where the input stands in the request of a batch (for a command of a batch), \<open>rc_events\<close> the events
  so far, in order.\<close>

record RequestContext =
  rc_context :: VkContext
  rc_next :: u64
  rc_nullDescriptorEnabled :: bool
  rc_inputBuffer :: "u8 list ptr"
  rc_inputAt :: int
  rc_inputBufferSize :: int
  rc_memoryPool :: MemoryPool
  rc_events :: "host_event list"

abbreviation authority :: "RequestContext \<Rightarrow> VortekHandleRegistry ptr" where
  "authority c \<equiv> cx_handleAuthority (rc_context c)"

definition set_authority :: "VortekHandleRegistry ptr \<Rightarrow> RequestContext \<Rightarrow> RequestContext" where
  "set_authority r c = c\<lparr>rc_context := (rc_context c)\<lparr>cx_handleAuthority := r\<rparr>\<rparr>"

datatype VtRequestPublicationCleanup =
    VT_REQUEST_PUBLICATION_NONE
  | VT_REQUEST_PUBLICATION_SINGLE
  | VT_REQUEST_PUBLICATION_DESCRIPTOR_SETS
  | VT_REQUEST_PUBLICATION_COMMAND_BUFFERS

record VtRequestPublication =
  pub_cleanup :: VtRequestPublicationCleanup
  pub_objectType :: VkObjectType
  pub_role :: VortekHandleRole
  pub_owner :: VortekHandleOwner
  pub_hostDeviceValue :: u64
  pub_hostParentValue :: u64
  pub_hostValue :: u64
  pub_wireToken :: u64
  pub_hostValues :: "u64 list"
  pub_wireTokens :: "u64 list"
  pub_count :: size_t
  pub_active :: bool

definition no_publication :: VtRequestPublication where
  "no_publication = \<lparr>pub_cleanup = VT_REQUEST_PUBLICATION_NONE, pub_objectType = VK_OBJECT_TYPE_UNKNOWN, pub_role = ROLE_ZERO,
     pub_owner = zero_owner, pub_hostDeviceValue = 0, pub_hostParentValue = 0, pub_hostValue = 0, pub_wireToken = 0,
     pub_hostValues = [], pub_wireTokens = [], pub_count = 0, pub_active = False\<rparr>"

text \<open>\<open>vr_state\<close> is the state the request decodes with, its own or that of the batch it runs in; \<open>vr_data\<close> is an offset from
  the start of the bytes of that state.\<close>

record VtRequestDecode =
  vr_state :: VtDecodeState
  vr_data :: u64
  vr_size :: u64
  vr_publication :: VtRequestPublication

text \<open>\<open>batch\<close> is \<^verbatim>\<open>vt_active_batch_request\<close>, given by the state it shares. Without a request the structure stays unwritten.\<close>

definition vt_request_decode_begin :: "VtDecodeState ptr \<Rightarrow> RequestContext \<Rightarrow> (bool \<times> VtRequestDecode option) option" where
  "vt_request_decode_begin batch c =
     (if rc_inputBufferSize c < 0 \<or> (rc_inputBuffer c = None \<and> rc_inputBufferSize c \<noteq> 0) then Some (False, None)
      else case batch of
        Some outer \<Rightarrow>
          let request = \<lparr>vr_state = outer, vr_data = word_of_int (rc_inputAt c), vr_size = word_of_int (rc_inputBufferSize c),
                vr_publication = no_publication\<rparr>;
              outerSize = int (length (dec_request outer))
          in if rc_inputAt c < 0 \<or> outerSize < rc_inputAt c \<or> outerSize - rc_inputAt c < rc_inputBufferSize c
             then Some (False, Some request) else Some (True, Some request)
      | None \<Rightarrow> do {
          (ok, _, s) \<leftarrow> vt_decode_cursor_init (rc_inputBuffer c) (word_of_int (rc_inputBufferSize c));
          (let request = \<lparr>vr_state = s, vr_data = 0, vr_size = word_of_int (rc_inputBufferSize c), vr_publication = no_publication\<rparr>
           in if \<not> ok then Some (False, Some request)
              else let s1 = vt_decode_set_handle_resolver s True (cx_contextGeneration (rc_context c));
                       s2 = vt_decode_set_null_descriptor_enabled s1 False
                   in Some (True, Some (request\<lparr>vr_state := s2\<rparr>))) })"

definition vt_request_decode_pass_begin :: "VtRequestDecode \<Rightarrow> VtDecodeCursor option" where
  "vt_request_decode_pass_begin request =
     (if dec_error (vr_state request) \<noteq> VT_DECODE_ERROR_NONE then None
      else Some (zero_cursor\<lparr>cur_base := vr_data request, cur_ptr := vr_data request,
             cur_end := vr_data request + vr_size request,
             cur_request_end := word_of_nat (length (dec_request (vr_state request))),
             cur_expected_pnext_type := - 1\<rparr>))"

text \<open>\<open>pool\<close> is the memory pool as the decoder sees it.\<close>

definition vt_request_decode_alloc ::
  "bool \<Rightarrow> bool \<Rightarrow> VtDecodeMemoryPool ptr \<Rightarrow> VtRequestDecode \<Rightarrow> u64 \<Rightarrow> u64
    \<Rightarrow> VtDecodePlace option \<times> VtDecodeMemoryPool ptr \<times> VtRequestDecode" where
  "vt_request_decode_alloc calloc_ok realloc_ok pool request count elementSize =
     (case vt_request_decode_pass_begin request of
        None \<Rightarrow> (None, pool, request)
      | Some cursor \<Rightarrow>
          (case vt_decode_alloc calloc_ok realloc_ok cursor (vr_state request) pool count elementSize of
             (place, pool', s) \<Rightarrow> (place, pool', request\<lparr>vr_state := s\<rparr>)))"

section \<open>Resolving handles\<close>

definition expect_vulkan_device :: "u64 \<Rightarrow> u64 \<Rightarrow> VortekHandleExpectation" where
  "expect_vulkan_device gen inst = \<lparr>exp_contextGeneration = gen, exp_role = VORTEK_HANDLE_ROLE_VULKAN,
     exp_vulkanType = VK_OBJECT_TYPE_DEVICE, exp_owner = zero_owner\<lparr>own_instance := inst\<rparr>,
     exp_requireInstanceOwner = (inst \<noteq> 0), exp_requireDeviceOwner = False, exp_requireParentOwner = False,
     exp_allowNull = False\<rparr>"

text \<open>The part that fixes the scope of the request with what was found.\<close>

definition establish_scope :: "VkObjectType \<Rightarrow> VortekHandleRole \<Rightarrow> u64 \<Rightarrow> VortekHandleValue \<Rightarrow> VtDecodeState \<Rightarrow> VtDecodeState" where
  "establish_scope objectType role wireToken value s =
     (let instanceOwner =
            (if dec_instance_owner s = 0
             then if objectType = VK_OBJECT_TYPE_INSTANCE \<and> role = VORTEK_HANDLE_ROLE_VULKAN then wireToken
                  else own_instance (val_owner value)
             else dec_instance_owner s);
          deviceOwner =
            (if dec_device_owner s = 0
             then if objectType = VK_OBJECT_TYPE_DEVICE \<and> role = VORTEK_HANDLE_ROLE_VULKAN then wireToken
                  else own_device (val_owner value)
             else dec_device_owner s)
      in vt_decode_set_handle_scope s instanceOwner deviceOwner)"

text \<open>The checks after the lookup: the owners are those of the scope, and the device of the scope still stands; its feature
  decides whether null descriptors are taken.\<close>

definition confine_scope ::
  "RequestContext \<Rightarrow> bool \<Rightarrow> bool \<Rightarrow> VortekHandleValue \<Rightarrow> VtDecodeState \<Rightarrow> bool \<times> VtDecodeState" where
  "confine_scope c requireInstanceOwner requireDeviceOwner value s =
     (if requireInstanceOwner \<and> (dec_instance_owner s = 0 \<or> own_instance (val_owner value) \<noteq> dec_instance_owner s) then (False, s)
      else if requireDeviceOwner \<and> (dec_device_owner s = 0 \<or> own_device (val_owner value) \<noteq> dec_device_owner s) then (False, s)
      else if dec_device_owner s \<noteq> 0
      then (case VkObjectAuthority_resolve (authority c) (rc_next c) (dec_device_owner s)
              (Some (expect_vulkan_device (cx_contextGeneration (rc_context c)) (dec_instance_owner s))) True of
              (VORTEK_HANDLE_OK, Some deviceValue) \<Rightarrow>
                (True, vt_decode_set_null_descriptor_enabled s (val_nullDescriptorEnabled deviceValue))
            | _ \<Rightarrow> (False, s))
      else (True, vt_decode_set_null_descriptor_enabled s False))"

text \<open>The result has what was written to \<^verbatim>\<open>*value\<close>; it may be there also when the answer is false.\<close>

definition vt_request_authority_lookup ::
  "RequestContext \<Rightarrow> VtDecodeState \<Rightarrow> u64 \<Rightarrow> VkObjectType \<Rightarrow> VortekHandleRole \<Rightarrow> bool \<Rightarrow> bool \<Rightarrow> bool \<Rightarrow> bool
    \<Rightarrow> bool \<times> VortekHandleValue option \<times> VtDecodeState" where
  "vt_request_authority_lookup c s wireToken objectType role requireInstanceOwner requireDeviceOwner allowNull establishScope =
     (if authority c = None \<or> cx_contextGeneration (rc_context c) \<noteq> dec_context_generation s then (False, None, s)
      else let missingInstance = (requireInstanceOwner \<and> dec_instance_owner s = 0);
               missingDevice = (requireDeviceOwner \<and> dec_device_owner s = 0);
               expectation = \<lparr>exp_contextGeneration = cx_contextGeneration (rc_context c), exp_role = role, exp_vulkanType = objectType,
                 exp_owner = \<lparr>own_instance = dec_instance_owner s, own_device = dec_device_owner s, own_parent = 0\<rparr>,
                 exp_requireInstanceOwner = (requireInstanceOwner \<and> \<not> missingInstance),
                 exp_requireDeviceOwner = (requireDeviceOwner \<and> \<not> missingDevice), exp_requireParentOwner = False,
                 exp_allowNull = allowNull\<rparr>
      in (case VkObjectAuthority_resolve (authority c) (rc_next c) wireToken (Some expectation) True of
            (VORTEK_HANDLE_OK, Some value) \<Rightarrow>
              if wireToken = 0 then (allowNull, Some value, s)
              else let s1 = (if establishScope then establish_scope objectType role wireToken value s else s);
                       (ok, s2) = confine_scope c requireInstanceOwner requireDeviceOwner value s1
                   in (ok, Some value, s2)
          | (_, value) \<Rightarrow> (False, value, s)))"

text \<open>A number of \<^verbatim>\<open>VkObjectType\<close>.\<close>

definition object_type_of :: "u32 \<Rightarrow> VkObjectType" where
  "object_type_of n =
     (if n = 1000156000 then VK_OBJECT_TYPE_SAMPLER_YCBCR_CONVERSION
      else if unat n < 26 then
        [VK_OBJECT_TYPE_UNKNOWN, VK_OBJECT_TYPE_INSTANCE, VK_OBJECT_TYPE_PHYSICAL_DEVICE, VK_OBJECT_TYPE_DEVICE,
         VK_OBJECT_TYPE_QUEUE, VK_OBJECT_TYPE_SEMAPHORE, VK_OBJECT_TYPE_COMMAND_BUFFER, VK_OBJECT_TYPE_FENCE,
         VK_OBJECT_TYPE_DEVICE_MEMORY, VK_OBJECT_TYPE_BUFFER, VK_OBJECT_TYPE_IMAGE, VK_OBJECT_TYPE_EVENT,
         VK_OBJECT_TYPE_QUERY_POOL, VK_OBJECT_TYPE_BUFFER_VIEW, VK_OBJECT_TYPE_IMAGE_VIEW, VK_OBJECT_TYPE_SHADER_MODULE,
         VK_OBJECT_TYPE_PIPELINE_CACHE, VK_OBJECT_TYPE_PIPELINE_LAYOUT, VK_OBJECT_TYPE_RENDER_PASS, VK_OBJECT_TYPE_PIPELINE,
         VK_OBJECT_TYPE_DESCRIPTOR_SET_LAYOUT, VK_OBJECT_TYPE_SAMPLER, VK_OBJECT_TYPE_DESCRIPTOR_POOL,
         VK_OBJECT_TYPE_DESCRIPTOR_SET, VK_OBJECT_TYPE_FRAMEBUFFER, VK_OBJECT_TYPE_COMMAND_POOL] ! unat n
      else VK_OBJECT_TYPE_OTHER (uint n))"

definition authority_role :: "VtDecodeHandleRole \<Rightarrow> VortekHandleRole" where
  "authority_role role =
     (if role = VT_DECODE_HANDLE_ROLE_RESOURCE_MEMORY_DEVICE_MEMORY then VORTEK_HANDLE_ROLE_RESOURCE_MEMORY
      else if role = VT_DECODE_HANDLE_ROLE_SHADER_MODULE_WRAPPER then VORTEK_HANDLE_ROLE_SHADER_MODULE
      else if role = VT_DECODE_HANDLE_ROLE_XWINDOW_SWAPCHAIN_WRAPPER then VORTEK_HANDLE_ROLE_XWINDOW_SWAPCHAIN
      else VORTEK_HANDLE_ROLE_VULKAN)"

text \<open>The resolver the decoder calls. \<open>windows\<close> is the callback that tells the lifetime of a window, \<open>memory_of\<close> the
  field \<^verbatim>\<open>memory\<close> of the \<^verbatim>\<open>ResourceMemory\<close> at an address. The result is the host value, \<^const>\<open>None\<close> for false.\<close>

definition vt_request_resolve_handle ::
  "(u64 \<Rightarrow> u64 \<Rightarrow> u64 \<Rightarrow> VortekHandleToken \<Rightarrow> u32 \<Rightarrow> u64) \<Rightarrow> (u64 \<Rightarrow> u64) \<Rightarrow> RequestContext \<Rightarrow> VtDecodeHandleRequest \<Rightarrow> VtDecodeState
    \<Rightarrow> u64 option \<times> VtDecodeState \<times> RequestContext" where
  "vt_request_resolve_handle windows memory_of c request s =
     (if req_context_generation request \<noteq> cx_contextGeneration (rc_context c) then (None, s, c)
      else if req_role request = VT_DECODE_HANDLE_ROLE_WINDOW_ID then
        (case VortekHandleRegistry_validateWindowId windows (authority c) (req_wire_token request) (req_context_generation request)
                (req_instance_owner request) (req_nullability request \<noteq> VT_DECODE_NULL_NEVER) True of
           (status, windowId, r) \<Rightarrow>
             (if status \<noteq> VORTEK_HANDLE_OK \<and> status \<noteq> VORTEK_HANDLE_NULL then None
              else Some (case windowId of None \<Rightarrow> 0 | Some w \<Rightarrow> ucast w), s, set_authority r c))
      else (case vt_request_authority_lookup c s (req_wire_token request) (object_type_of (req_object_type request))
                   (authority_role (req_role request)) (req_owner_requirements request AND VT_DECODE_OWNER_INSTANCE \<noteq> 0)
                   (req_owner_requirements request AND VT_DECODE_OWNER_DEVICE \<noteq> 0)
                   (req_nullability request \<noteq> VT_DECODE_NULL_NEVER) True of
              (False, _, s1) \<Rightarrow> (None, s1, c)
            | (True, None, s1) \<Rightarrow> (None, s1, c)
            | (True, Some value, s1) \<Rightarrow>
                (if req_wire_token request = 0 then Some 0
                 else if req_role request = VT_DECODE_HANDLE_ROLE_RESOURCE_MEMORY_DEVICE_MEMORY
                 then (if val_hostValue value = 0 then None else Some (memory_of (val_hostValue value)))
                 else Some (val_hostValue value), s1, c)))"

definition vt_request_seed_handle_scope ::
  "RequestContext \<Rightarrow> VtRequestDecode \<Rightarrow> u64 \<Rightarrow> VkObjectType \<Rightarrow> VortekHandleRole \<Rightarrow> bool \<times> VtRequestDecode" where
  "vt_request_seed_handle_scope c request tokenOffset objectType role =
     (case vt_request_decode_pass_begin request of
        None \<Rightarrow> (False, request)
      | Some cursor \<Rightarrow>
          (case vt_decode_read_at cursor (vr_state request) tokenOffset True 8 of
             (False, _, s) \<Rightarrow> (False, request\<lparr>vr_state := s\<rparr>)
           | (True, bytes, s) \<Rightarrow>
               (case vt_request_authority_lookup c s (word_of_nat (of_le_bytes bytes)) objectType role False False False True of
                  (ok, _, s1) \<Rightarrow> (ok, request\<lparr>vr_state := s1\<rparr>))))"

definition vt_request_resolve_root_handle ::
  "RequestContext \<Rightarrow> VtRequestDecode \<Rightarrow> u64 \<Rightarrow> VkObjectType \<Rightarrow> VortekHandleRole \<Rightarrow> bool \<Rightarrow> bool \<Rightarrow> bool
    \<Rightarrow> u64 option \<times> VtRequestDecode" where
  "vt_request_resolve_root_handle c request wireToken objectType role requireInstanceOwner requireDeviceOwner allowNull =
     (case vt_request_authority_lookup c (vr_state request) wireToken objectType role requireInstanceOwner requireDeviceOwner
             allowNull True of
        (ok, value, s) \<Rightarrow>
          (if ok then map_option val_hostValue value else None, request\<lparr>vr_state := s\<rparr>))"

text \<open>Takes the handle out of the registry; a null token is accepted where it may stand.\<close>

definition vt_request_retire_root_handle ::
  "RequestContext \<Rightarrow> VtRequestDecode \<Rightarrow> u64 \<Rightarrow> VkObjectType \<Rightarrow> VortekHandleRole \<Rightarrow> bool \<Rightarrow> bool \<Rightarrow> bool
    \<Rightarrow> u64 option \<times> RequestContext" where
  "vt_request_retire_root_handle c request wireToken objectType role requireInstanceOwner requireDeviceOwner allowNull =
     (if wireToken = 0 then (if allowNull then Some 0 else None, c)
      else let expectation = \<lparr>exp_contextGeneration = cx_contextGeneration (rc_context c), exp_role = role, exp_vulkanType = objectType,
                 exp_owner = \<lparr>own_instance = dec_instance_owner (vr_state request), own_device = dec_device_owner (vr_state request),
                   own_parent = 0\<rparr>,
                 exp_requireInstanceOwner = requireInstanceOwner, exp_requireDeviceOwner = requireDeviceOwner,
                 exp_requireParentOwner = False, exp_allowNull = False\<rparr>
      in (case VkObjectAuthority_tombstone (authority c) (rc_next c) wireToken (Some expectation) True of
            (status, value, r) \<Rightarrow>
              (if status \<noteq> VORTEK_HANDLE_OK then None else map_option val_hostValue value, set_authority r c)))"

section \<open>Tokens named in a request\<close>

definition vt_request_capture_begin :: "VtRequestDecode \<Rightarrow> u32 \<Rightarrow> u64 list ptr \<Rightarrow> u64 \<Rightarrow> bool \<times> VtRequestDecode" where
  "vt_request_capture_begin request objectType wireTokens cap =
     (if cap \<noteq> 0 \<and> wireTokens = None then (False, request)
      else (True, request\<lparr>vr_state := vt_decode_capture_handle_tokens (vr_state request) objectType wireTokens cap\<rparr>))"

definition vt_request_capture_complete :: "VtRequestDecode \<Rightarrow> u64 \<Rightarrow> bool \<times> VtRequestDecode" where
  "vt_request_capture_complete request expectedCount =
     (vt_decode_captured_handle_count (vr_state request) = expectedCount,
      request\<lparr>vr_state := vt_decode_capture_handle_tokens (vr_state request) 0 None 0\<rparr>)"

definition batch_expectation :: "RequestContext \<Rightarrow> VtRequestDecode \<Rightarrow> VkObjectType \<Rightarrow> u64 \<Rightarrow> VortekHandleExpectation" where
  "batch_expectation c request objectType parentOwner =
     \<lparr>exp_contextGeneration = cx_contextGeneration (rc_context c), exp_role = VORTEK_HANDLE_ROLE_VULKAN, exp_vulkanType = objectType,
      exp_owner = \<lparr>own_instance = dec_instance_owner (vr_state request), own_device = dec_device_owner (vr_state request),
        own_parent = parentOwner\<rparr>,
      exp_requireInstanceOwner = True, exp_requireDeviceOwner = True, exp_requireParentOwner = (parentOwner \<noteq> 0),
      exp_allowNull = False\<rparr>"

definition vt_request_tombstone_batch ::
  "bool \<Rightarrow> RequestContext \<Rightarrow> VtRequestDecode \<Rightarrow> u64 list ptr \<Rightarrow> size_t \<Rightarrow> VkObjectType \<Rightarrow> u64 \<Rightarrow> bool \<times> RequestContext" where
  "vt_request_tombstone_batch malloc_ok c request wireTokens count objectType parentOwner =
     (if authority c = None \<or> (count \<noteq> 0 \<and> wireTokens = None) then (False, c)
      else (case VkObjectAuthority_tombstoneBatch malloc_ok (authority c) (rc_next c) wireTokens count
                   (Some (batch_expectation c request objectType parentOwner)) of
              (status, r) \<Rightarrow> (status = VORTEK_HANDLE_OK, set_authority r c)))"

definition vt_request_validate_batch ::
  "bool \<Rightarrow> RequestContext \<Rightarrow> VtRequestDecode \<Rightarrow> u64 list ptr \<Rightarrow> size_t \<Rightarrow> VkObjectType \<Rightarrow> u64 \<Rightarrow> bool" where
  "vt_request_validate_batch malloc_ok c request wireTokens count objectType parentOwner =
     (if authority c = None \<or> (count \<noteq> 0 \<and> wireTokens = None) then False
      else VkObjectAuthority_validateBatch malloc_ok (authority c) (rc_next c) wireTokens count
             (Some (batch_expectation c request objectType parentOwner)) = VORTEK_HANDLE_OK)"

definition vt_request_tombstone_children :: "RequestContext \<Rightarrow> u64 \<Rightarrow> bool \<times> RequestContext" where
  "vt_request_tombstone_children c parentOwner =
     (if authority c = None then (False, c)
      else (case VkObjectAuthority_tombstoneChildren (authority c) parentOwner of
              (status, r) \<Rightarrow> (status = VORTEK_HANDLE_OK, set_authority r c)))"

definition vt_request_protocol_error :: "RequestContext \<Rightarrow> RequestContext" where
  "vt_request_protocol_error c = c\<lparr>rc_context := the (VkContext_requestStop (Some (rc_context c)) VK_ERROR_DEVICE_LOST)\<rparr>"

section \<open>Counts of queries\<close>

definition vt_request_query_copy_count :: "u32 \<Rightarrow> u32 \<Rightarrow> u32" where
  "vt_request_query_copy_count guestCapacity serverActual = (if guestCapacity < serverActual then guestCapacity else serverActual)"

definition vt_request_query_storage_count_inline :: "u32 \<Rightarrow> u32 \<Rightarrow> u32" where
  "vt_request_query_storage_count_inline guestCapacity serverActual =
     (if guestCapacity = 0 then 0 else if serverActual < guestCapacity then guestCapacity else serverActual)"

definition VK_INCOMPLETE :: int where "VK_INCOMPLETE = 5"

definition vt_request_query_result :: "int \<Rightarrow> bool \<Rightarrow> u32 \<Rightarrow> u32 \<Rightarrow> int" where
  "vt_request_query_result serverResult guestArray guestCapacity serverActual =
     (if serverResult < 0 then serverResult
      else if guestArray \<and> guestCapacity < serverActual then VK_INCOMPLETE else serverResult)"

end
