(* ===== verification/Request_Output.thy ===== *)
theory Request_Output
  imports Request_Decode
begin

text \<open>
  What a request creates and answers, the second part of the framework of \<^verbatim>\<open>vortekrenderer/src/request_handler.c\<close> and the macros of
  \<^verbatim>\<open>include/request_handler.h\<close> and \<^verbatim>\<open>include/vortek.h\<close>. A created object is published in the registry before its token is sent; the
  publication is remembered until the response has gone out. When that fails, the token is retired and the object destroyed.
  A macro that may return from the handler takes the rest of the handler as its last argument.
\<close>

section \<open>State\<close>

text \<open>The request and its context.\<close>

record request =
  rq_request :: VtRequestDecode
  rq_context :: RequestContext

definition on_request :: "(VtRequestDecode \<Rightarrow> VtRequestDecode) \<Rightarrow> request \<Rightarrow> request" where
  "on_request f q = q\<lparr>rq_request := f (rq_request q)\<rparr>"

definition on_context :: "(RequestContext \<Rightarrow> RequestContext) \<Rightarrow> request \<Rightarrow> request" where
  "on_context f q = q\<lparr>rq_context := f (rq_context q)\<rparr>"

definition emitted :: "host_event list \<Rightarrow> request \<Rightarrow> request" where
  "emitted es q = on_context (\<lambda>c. c\<lparr>rc_events := rc_events c @ es\<rparr>) q"

definition set_publication :: "VtRequestPublication \<Rightarrow> VtRequestDecode \<Rightarrow> VtRequestDecode" where
  "set_publication p request = request\<lparr>vr_publication := p\<rparr>"

definition fail_decode :: "VtDecodeError \<Rightarrow> VtRequestDecode \<Rightarrow> VtRequestDecode" where
  "fail_decode e request = request\<lparr>vr_state := vt_decode_fail (vr_state request) e\<rparr>"

section \<open>Room for the output\<close>

definition CLIENT_RING_BUFFER_SIZE :: nat where "CLIENT_RING_BUFFER_SIZE = 262144"

definition ring_size :: "RequestContext \<Rightarrow> u32" where
  "ring_size c = (case cx_clientRing (rc_context c) of None \<Rightarrow> 0 | Some ring \<Rightarrow> ring_bufferSize ring)"

definition vt_request_output_alloc ::
  "nat ptr \<Rightarrow> bool \<Rightarrow> size_t \<Rightarrow> request \<Rightarrow> (pool_place option \<times> request) option" where
  "vt_request_output_alloc malloc_result realloc_ok sz q =
     (if sz = 0 then Some (None, q)
      else if cx_clientRing (rc_context (rq_context q)) = None \<or>
              \<not> vt_transport_size_fits sz (ring_size (rq_context q)) (CLIENT_RING_BUFFER_SIZE - HEADER_SIZE) \<or>
              unat INT_MAX < sz
      then Some (None, on_request (fail_decode VT_DECODE_ERROR_LIMIT) q)
      else do {
        (place, pool) \<leftarrow> vt_alloc malloc_result realloc_ok (rc_memoryPool (rq_context q)) (int sz);
        (let q1 = on_context (\<lambda>c. c\<lparr>rc_memoryPool := pool\<rparr>) q
         in Some (place, if place = None then on_request (fail_decode VT_DECODE_ERROR_OUT_OF_MEMORY) q1 else q1)) })"

section \<open>Publication\<close>

definition vt_request_track_single_publication ::
  "VkObjectType \<Rightarrow> VortekHandleRole \<Rightarrow> VortekHandleOwner \<Rightarrow> u64 \<Rightarrow> u64 \<Rightarrow> u64 \<Rightarrow> request \<Rightarrow> bool \<times> request" where
  "vt_request_track_single_publication objectType role owner hostValue hostDeviceValue wireToken q =
     (if pub_active (vr_publication (rq_request q)) \<or> wireToken = 0 \<or> hostValue = 0 then (False, q)
      else (True, on_request (set_publication (no_publication\<lparr>pub_cleanup := VT_REQUEST_PUBLICATION_SINGLE, pub_objectType := objectType,
              pub_role := role, pub_owner := owner, pub_hostDeviceValue := hostDeviceValue, pub_hostValue := hostValue,
              pub_wireToken := wireToken, pub_active := True\<rparr>)) q))"

definition expect_published :: "RequestContext \<Rightarrow> VkObjectType \<Rightarrow> VortekHandleRole \<Rightarrow> VortekHandleOwner \<Rightarrow> VortekHandleExpectation" where
  "expect_published c objectType role owner =
     \<lparr>exp_contextGeneration = cx_contextGeneration (rc_context c), exp_role = role, exp_vulkanType = objectType, exp_owner = owner,
      exp_requireInstanceOwner = (own_instance owner \<noteq> 0), exp_requireDeviceOwner = (own_device owner \<noteq> 0),
      exp_requireParentOwner = (own_parent owner \<noteq> 0), exp_allowNull = False\<rparr>"

definition tombstone_published :: "u64 \<Rightarrow> VortekHandleExpectation \<Rightarrow> RequestContext \<Rightarrow> bool \<times> RequestContext" where
  "tombstone_published wireToken expectation c =
     (case VkObjectAuthority_tombstone (authority c) (rc_next c) wireToken (Some expectation) False of
        (status, _, r) \<Rightarrow> (status = VORTEK_HANDLE_OK, set_authority r c))"

text \<open>Registration, for a device with its feature: the status, the token and the context.\<close>

definition publish_value ::
  "VkObjectType \<Rightarrow> VortekHandleRole \<Rightarrow> u64 \<Rightarrow> VortekHandleOwner \<Rightarrow> RequestContext \<Rightarrow> VortekHandleStatus \<times> u64 \<times> RequestContext" where
  "publish_value objectType role hostValue owner c =
     (case (if role = VORTEK_HANDLE_ROLE_VULKAN
            then VkObjectAuthority_publishVulkan (authority c) (rc_next c) objectType hostValue owner True
            else VkObjectAuthority_publishWrapper (authority c) (rc_next c) role hostValue owner True) of
        (status, token, r, next) \<Rightarrow>
          (status, case token of None \<Rightarrow> 0 | Some t \<Rightarrow> t, set_authority r (c\<lparr>rc_next := next\<rparr>)))"

definition publish_device_feature :: "u64 \<Rightarrow> u64 \<Rightarrow> bool \<Rightarrow> RequestContext \<Rightarrow> VortekHandleStatus \<times> u64 \<times> RequestContext" where
  "publish_device_feature instanceOwner wireToken nullDescriptorEnabled c =
     (case VkObjectAuthority_setDeviceNullDescriptor (authority c) (rc_next c) wireToken nullDescriptorEnabled of
        (status, r) \<Rightarrow>
          let c1 = set_authority r c in
          if status = VORTEK_HANDLE_OK then (status, wireToken, c1)
          else (status, 0, snd (tombstone_published wireToken
                 (expect_vulkan_device (cx_contextGeneration (rc_context c1)) instanceOwner) c1)))"

text \<open>The result has the token written out.\<close>

definition vt_request_publish_handle ::
  "VkObjectType \<Rightarrow> VortekHandleRole \<Rightarrow> u64 \<Rightarrow> u64 \<Rightarrow> u64 \<Rightarrow> u64 \<Rightarrow> request \<Rightarrow> bool \<times> u64 \<times> request" where
  "vt_request_publish_handle objectType role hostValue instanceOwner deviceOwner hostDeviceValue q =
     (if authority (rq_context q) = None then (False, 0, q)
      else let isDevice = (role = VORTEK_HANDLE_ROLE_VULKAN \<and> objectType = VK_OBJECT_TYPE_DEVICE);
               nullDescriptorEnabled = (isDevice \<and> rc_nullDescriptorEnabled (rq_context q));
               q1 = (if isDevice then on_context (\<lambda>c. c\<lparr>rc_nullDescriptorEnabled := False\<rparr>) q else q)
      in if hostValue = 0 then (False, 0, q1)
      else let owner = \<lparr>own_instance = instanceOwner, own_device = deviceOwner, own_parent = 0\<rparr>;
               (status, wireToken, c) = publish_value objectType role hostValue owner (rq_context q1);
               (status, wireToken, c) =
                  (if status = VORTEK_HANDLE_OK \<and> isDevice
                   then publish_device_feature instanceOwner wireToken nullDescriptorEnabled c else (status, wireToken, c));
               q2 = q1\<lparr>rq_context := c\<rparr>
      in if status \<noteq> VORTEK_HANDLE_OK then (False, wireToken, q2)
      else case vt_request_track_single_publication objectType role owner hostValue hostDeviceValue wireToken q2 of
        (True, q3) \<Rightarrow> (True, wireToken, q3)
      | (False, q3) \<Rightarrow>
          (False, 0, on_context (\<lambda>c. snd (tombstone_published wireToken (expect_published c objectType role owner) c)) q3))"

section \<open>Taking an output back\<close>

text \<open>What is done to the object itself; \<open>ctx\<close> has the images the texture decoder holds.\<close>

definition rollback_events :: "VkContext_env \<Rightarrow> VkObjectType \<Rightarrow> VortekHandleRole \<Rightarrow> u64 \<Rightarrow> u64 \<Rightarrow> host_event list" where
  "rollback_events ctx objectType role hostValue device =
     (if hostValue = 0 then []
      else case role of
        VORTEK_HANDLE_ROLE_VULKAN \<Rightarrow>
          if objectType = VK_OBJECT_TYPE_IMAGE \<and> textureDecoder_images ctx \<noteq> None \<and> the (textureDecoder_images ctx) hostValue
          then [Host (TextureDestroyImage device hostValue)]
          else if objectType \<noteq> VK_OBJECT_TYPE_QUEUE then [Host (DestroyVkObject objectType device hostValue)] else []
      | VORTEK_HANDLE_ROLE_RESOURCE_MEMORY \<Rightarrow> [Host (ResourceMemoryFree device hostValue)]
      | VORTEK_HANDLE_ROLE_SHADER_MODULE \<Rightarrow> [Host (DestroyVkObject VK_OBJECT_TYPE_SHADER_MODULE device hostValue)]
      | VORTEK_HANDLE_ROLE_XWINDOW_SWAPCHAIN \<Rightarrow> [Host (XWindowSwapchainDestroy device hostValue)]
      | _ \<Rightarrow> [])"

definition vt_request_rollback_output ::
  "VkContext_env \<Rightarrow> VkObjectType \<Rightarrow> VortekHandleRole \<Rightarrow> u64 \<Rightarrow> u64 \<Rightarrow> request \<Rightarrow> request" where
  "vt_request_rollback_output ctx objectType role hostValue hostDeviceValue q =
     emitted (rollback_events ctx objectType role hostValue hostDeviceValue)
       (if role = VORTEK_HANDLE_ROLE_VULKAN \<and> objectType = VK_OBJECT_TYPE_DEVICE
        then on_context (\<lambda>c. c\<lparr>rc_nullDescriptorEnabled := False\<rparr>) q else q)"

text \<open>The part that registers the handles and remembers them.\<close>

definition publish_bits ::
  "bool \<Rightarrow> VkObjectType \<Rightarrow> u64 list \<Rightarrow> u64 list \<Rightarrow> size_t \<Rightarrow> VortekHandleOwner \<Rightarrow> VtRequestPublicationCleanup \<Rightarrow> u64 \<Rightarrow> u64
    \<Rightarrow> request \<Rightarrow> bool \<times> u64 list ptr \<times> request" where
  "publish_bits calloc_ok objectType handles bits count owner cleanup hostDeviceValue hostParentValue q =
     (case VkObjectAuthority_publishVulkanBatch calloc_ok (authority (rq_context q)) (rc_next (rq_context q)) objectType
             (Some bits) count owner True of
        (status, tokens, r, next) \<Rightarrow>
          let q1 = on_context (\<lambda>c. set_authority r (c\<lparr>rc_next := next\<rparr>)) q in
          if status \<noteq> VORTEK_HANDLE_OK then (False, Some handles, q1)
          else (True, Some (tokens @ drop count handles),
            on_request (set_publication (no_publication\<lparr>pub_cleanup := cleanup, pub_objectType := objectType,
              pub_role := VORTEK_HANDLE_ROLE_VULKAN, pub_owner := owner, pub_hostDeviceValue := hostDeviceValue,
              pub_hostParentValue := hostParentValue, pub_hostValues := bits, pub_wireTokens := tokens, pub_count := count,
              pub_active := True\<rparr>)) q1))"

text \<open>\<open>hostHandles\<close> is the array of handles, replaced by their tokens on success. The two arrays the code allocates come from
  the answers \<open>mallocs\<close>; \<open>calloc_ok\<close> is the answer inside the registry.\<close>

definition vt_request_publish_vulkan_batch ::
  "nat ptr \<times> nat ptr \<Rightarrow> bool \<Rightarrow> bool \<Rightarrow> VkObjectType \<Rightarrow> u64 list ptr \<Rightarrow> size_t \<Rightarrow> size_t \<Rightarrow> VortekHandleOwner
    \<Rightarrow> VtRequestPublicationCleanup \<Rightarrow> u64 \<Rightarrow> u64 \<Rightarrow> request \<Rightarrow> (bool \<times> u64 list ptr \<times> request) option" where
  "vt_request_publish_vulkan_batch mallocs realloc_ok calloc_ok objectType hostHandles handleSize count owner cleanup
       hostDeviceValue hostParentValue q =
     (if authority (rq_context q) = None \<or> (count \<noteq> 0 \<and> hostHandles = None) \<or> handleSize \<noteq> 8 then Some (False, hostHandles, q)
      else if count = 0 then Some (True, hostHandles, q)
      else if pub_active (vr_publication (rq_request q)) \<or> unat VT_DECODE_MAX_ELEMENTS < count \<or> SIZE_MAX div 8 < count
      then Some (False, hostHandles, q)
      else do {
        (hostBits, q1) \<leftarrow> vt_request_output_alloc (fst mallocs) realloc_ok (count * 8) q;
        (wireTokens, q2) \<leftarrow> vt_request_output_alloc (snd mallocs) realloc_ok (count * 8) q1;
        (if hostBits = None \<or> wireTokens = None then Some (False, hostHandles, q2)
         else do {
           handles \<leftarrow> hostHandles;
           bits \<leftarrow> slice handles 0 count;
           Some (publish_bits calloc_ok objectType handles bits count owner cleanup hostDeviceValue hostParentValue q2) }) })"

section \<open>Responses\<close>

definition vt_request_commit_response :: "request \<Rightarrow> request" where
  "vt_request_commit_response q = on_request (set_publication no_publication) q"

text \<open>What is freed once the tokens are retired.\<close>

definition abort_output :: "VkContext_env \<Rightarrow> VtRequestPublication \<Rightarrow> request \<Rightarrow> request" where
  "abort_output ctx p q =
     (case pub_cleanup p of
        VT_REQUEST_PUBLICATION_SINGLE \<Rightarrow>
          vt_request_rollback_output ctx (pub_objectType p) (pub_role p) (pub_hostValue p) (pub_hostDeviceValue p) q
      | VT_REQUEST_PUBLICATION_DESCRIPTOR_SETS \<Rightarrow>
          emitted [Freed_descriptor_sets (pub_hostDeviceValue p) (pub_hostParentValue p) (pub_hostValues p)] q
      | VT_REQUEST_PUBLICATION_COMMAND_BUFFERS \<Rightarrow>
          emitted [Freed_command_buffers (pub_hostDeviceValue p) (pub_hostParentValue p) (pub_hostValues p)] q
      | VT_REQUEST_PUBLICATION_NONE \<Rightarrow> q)"

text \<open>The retirement of the tokens, when there are any.\<close>

definition retire_output :: "bool \<Rightarrow> VtRequestPublication \<Rightarrow> RequestContext \<Rightarrow> bool \<times> RequestContext" where
  "retire_output malloc_ok p c =
     (let expectation = expect_published c (pub_objectType p) (pub_role p) (pub_owner p)
      in if \<not> pub_active p \<or> authority c = None then (False, c)
         else if pub_cleanup p = VT_REQUEST_PUBLICATION_SINGLE then tombstone_published (pub_wireToken p) expectation c
         else case VkObjectAuthority_tombstoneBatch malloc_ok (authority c) (rc_next c) (Some (pub_wireTokens p)) (pub_count p)
                     (Some expectation) of
                (status, r) \<Rightarrow> (status = VORTEK_HANDLE_OK, set_authority r c))"

definition vt_request_response_abort :: "VkContext_env \<Rightarrow> bool \<Rightarrow> request \<Rightarrow> request" where
  "vt_request_response_abort ctx malloc_ok q =
     (let p = vr_publication (rq_request q);
          q1 = on_request (set_publication no_publication) q;
          (retired, c1) = retire_output malloc_ok p (rq_context q1);
          q2 = q1\<lparr>rq_context := c1\<rparr>;
          q3 = (if retired then abort_output ctx p q2 else q2)
      in on_context vt_request_protocol_error q3)"

text \<open>\<open>ring_env\<close> is how the ring is seen at each look while the write waits, \<open>polls\<close> what its waits answer.\<close>

definition vt_request_send_response ::
  "VkContext_env \<Rightarrow> bool \<Rightarrow> (RingBuffer \<Rightarrow> nat \<Rightarrow> RingBuffer) \<Rightarrow> (nat \<Rightarrow> Ring_Buffer.poll_answer) \<Rightarrow> int \<Rightarrow> u8 list ptr \<Rightarrow> int \<Rightarrow> request
    \<Rightarrow> (bool \<times> request) option" where
  "vt_request_send_response ctx malloc_ok ring_env polls requestCode data sz q =
     (case cx_clientRing (rc_context (rq_context q)) of
        None \<Rightarrow> Some (False, vt_request_response_abort ctx malloc_ok q)
      | Some ring \<Rightarrow>
          if (0 < sz \<and> data = None) \<or> \<not> vt_transport_payload_fits sz (ring_bufferSize ring) (CLIENT_RING_BUFFER_SIZE - HEADER_SIZE)
          then Some (False, vt_request_response_abort ctx malloc_ok q)
          else do {
            (ok, ring') \<leftarrow> RingBuffer_writeFrame (Some (ring_env ring)) polls (Some (message_header (word_of_int requestCode) sz))
              (word_of_nat HEADER_SIZE) data (word_of_int sz);
            (let q1 = on_context (\<lambda>c. c\<lparr>rc_context := (rc_context c)\<lparr>cx_clientRing := ring'\<rparr>\<rparr>) q
             in if \<not> ok then Some (False, vt_request_response_abort ctx malloc_ok q1)
                else Some (True, vt_request_commit_response
                       (emitted [Responded requestCode (case data of None \<Rightarrow> [] | Some bytes \<Rightarrow> take (nat sz) bytes)] q1))) })"

text \<open>\<open>sent\<close> is what \<^verbatim>\<open>sendmsg\<close> answers.\<close>

definition vt_request_send_fds_response ::
  "VkContext_env \<Rightarrow> bool \<Rightarrow> int \<Rightarrow> int \<Rightarrow> int list ptr \<Rightarrow> int \<Rightarrow> u8 list ptr \<Rightarrow> int \<Rightarrow> request \<Rightarrow> (bool \<times> request) option" where
  "vt_request_send_fds_response ctx malloc_ok clientFd sent fds fdCount data sz q =
     (if fdCount < 0 \<or> int MAX_FDS < fdCount \<or> (0 < fdCount \<and> fds = None) \<or> sz < 0 \<or> (0 < sz \<and> data = None)
      then Some (False, vt_request_response_abort ctx malloc_ok q)
      else do {
        message \<leftarrow> send_fds clientFd fds fdCount data sz;
        (let expected = (if 0 < sz then sz else 1);
             result = (case message of None \<Rightarrow> - 1 | Some _ \<Rightarrow> sent)
         in if result \<noteq> expected then Some (False, vt_request_response_abort ctx malloc_ok q)
            else Some (True, vt_request_commit_response
                   (emitted [Responded_fds (case fds of None \<Rightarrow> [] | Some ds \<Rightarrow> take (nat fdCount) ds)
                      (case data of None \<Rightarrow> [] | Some bytes \<Rightarrow> take (nat sz) bytes)] q))) })"

end
