(* ===== verification/Request_Macros.thy ===== *)
theory Request_Macros
  imports Request_Output
begin

text \<open>
  The vocabulary of the handlers: the macros of \<^verbatim>\<open>vortekrenderer/include/request_handler.h\<close> and \<^verbatim>\<open>VT_SERIALIZE_CMD\<close> of
  \<^verbatim>\<open>include/vortek.h\<close>. A macro that may return from the handler takes the rest of the handler as its last argument, a function
  of what the macro declares. The generated serializers, the driver and the allocator are part of an environment.
\<close>

section \<open>Environment\<close>

text \<open>What a generated decoder leaves: its result, the cursor, the state of the decoder, the memory pool, and what it wrote
  to its parameters, by position: numbers (and tokens of handles), and the bytes of structures and arrays.\<close>

record decoded =
  dc_ok :: bool
  dc_cursor :: VtDecodeCursor
  dc_state :: VtDecodeState
  dc_pool :: MemoryPool
  dc_value :: "nat \<Rightarrow> u64"
  dc_bytes :: "nat \<Rightarrow> u8 list"

text \<open>What a call of the driver leaves: its result and what it wrote to its parameters, numbers, structures and arrays of
  handles.\<close>

record driver_answer =
  drv_result :: int
  drv_value :: "nat \<Rightarrow> u64"
  drv_bytes :: "nat \<Rightarrow> u8 list"
  drv_handles :: "nat \<Rightarrow> nat \<Rightarrow> u64"

text \<open>\<open>env_member\<close> reads a member of a structure from its bytes, \<open>env_memory\<close> the memory of the \<^verbatim>\<open>ResourceMemory\<close> at an address,
  \<open>env_module\<close> the module of a \<^verbatim>\<open>ShaderModule\<close>, \<open>env_memory_fd\<close> and \<open>env_swapchain_images\<close> the descriptor and the images of theirs.
  The answers depend on what was asked and on everything that was done before. A decoder gets its parameters as
  \<^const>\<open>Output\<close> and \<^const>\<open>Null\<close>; it resolves the handles in a request with the context it is given. \<open>env_serialize\<close> gives the bytes it
  writes, one by one.\<close>

record request_env =
  env_context :: VkContext_env
  env_member :: "string \<Rightarrow> u8 list \<Rightarrow> u64"
  env_memory :: "u64 \<Rightarrow> u64"
  env_module :: "u64 \<Rightarrow> u64"
  env_memory_fd :: "u64 \<Rightarrow> int"
  env_swapchain_images :: "u64 \<Rightarrow> u64 list"
  env_unserialize :: "string \<Rightarrow> argument list \<Rightarrow> RequestContext \<Rightarrow> VtDecodeCursor \<Rightarrow> VtDecodeState \<Rightarrow> decoded"
  env_sizeof :: "string \<Rightarrow> argument list \<Rightarrow> int"
  env_serialize :: "string \<Rightarrow> argument list \<Rightarrow> nat \<Rightarrow> u8"
  env_driver :: "string \<Rightarrow> argument list \<Rightarrow> host_event list \<Rightarrow> driver_answer"
  env_calloc :: "RequestContext \<Rightarrow> bool"
  env_realloc :: "RequestContext \<Rightarrow> bool"
  env_malloc :: "RequestContext \<Rightarrow> nat ptr"
  env_mallocs :: "RequestContext \<Rightarrow> nat ptr \<times> nat ptr"
  env_ring :: "RequestContext \<Rightarrow> RingBuffer \<Rightarrow> nat \<Rightarrow> RingBuffer"
  env_polls :: "RequestContext \<Rightarrow> nat \<Rightarrow> Ring_Buffer.poll_answer"
  env_clientFd :: int
  env_vkMaxVersion :: u32
  env_sendmsg :: "RequestContext \<Rightarrow> int"

type_synonym step = "request \<Rightarrow> request option"

definition protocol_error :: step where
  "protocol_error q = Some (on_context vt_request_protocol_error q)"

definition set_state :: "VtDecodeState \<Rightarrow> request \<Rightarrow> request" where
  "set_state s q = on_request (\<lambda>request. request\<lparr>vr_state := s\<rparr>) q"

section \<open>Begin and decode\<close>

text \<open>The result of a handler is the state it decoded with, which in a batch is shared, and the context. A request that could
  not be begun may be unwritten when its state is read.\<close>

definition VT_REQUEST_BEGIN :: "VtDecodeState ptr \<Rightarrow> RequestContext \<Rightarrow> step \<Rightarrow> (VtDecodeState \<times> RequestContext) option" where
  "VT_REQUEST_BEGIN batch c k = do {
     (ok, begun) \<leftarrow> vt_request_decode_begin batch c;
     request \<leftarrow> begun;
     q \<leftarrow> (if ok then k else protocol_error) \<lparr>rq_request = request, rq_context = c\<rparr>;
     Some (vr_state (rq_request q), rq_context q) }"

text \<open>When the pass cannot begin, the code reads the error of a cursor that was not written.\<close>

definition VT_REQUEST_DECODE ::
  "request_env \<Rightarrow> string \<Rightarrow> argument list \<Rightarrow> ((nat \<Rightarrow> u64) \<Rightarrow> (nat \<Rightarrow> u8 list) \<Rightarrow> step) \<Rightarrow> step" where
  "VT_REQUEST_DECODE e name args k q = do {
     cursor \<leftarrow> vt_request_decode_pass_begin (rq_request q);
     (let d = env_unserialize e name args (rq_context q) cursor (vr_state (rq_request q));
          q1 = set_state (dc_state d) (on_context (\<lambda>c. c\<lparr>rc_memoryPool := dc_pool d\<rparr>) q)
      in if \<not> dc_ok d then protocol_error q1
         else case vt_decode_finished (dc_cursor d) (dc_state d) of
           (ok, s) \<Rightarrow> if ok then k (dc_value d) (dc_bytes d) (set_state s q1) else protocol_error (set_state s q1)) }"

text \<open>The memory pool as the decoder sees it, and back: the decoder clears what it takes from the pool.\<close>

definition pool_view :: "MemoryPool \<Rightarrow> VtDecodeMemoryPool" where
  "pool_view p = \<lparr>pool_has_data = (mp_data p \<noteq> None), pool_size = word_of_int (mp_size p),
     list_size = word_of_nat (al_size (mp_list p)), list_capacity = word_of_nat (al_capacity (mp_list p)),
     list_elements = map word_of_nat (al_elements (mp_list p))\<rparr>"

definition pool_of_view :: "MemoryPool \<Rightarrow> VtDecodePlace option \<Rightarrow> nat \<Rightarrow> VtDecodeMemoryPool \<Rightarrow> MemoryPool" where
  "pool_of_view p place sz v =
     \<lparr>mp_data = (case place of
          Some (Inline at) \<Rightarrow> (case mp_data p of None \<Rightarrow> None
            | Some bytes \<Rightarrow> Some (take (unat at) bytes @ replicate sz 0 @ drop (unat at + sz) bytes))
        | _ \<Rightarrow> mp_data p),
      mp_size = sint (pool_size v),
      mp_list = \<lparr>al_size = unat (list_size v), al_capacity = unat (list_capacity v), al_elements = map unat (list_elements v)\<rparr>\<rparr>"

text \<open>The rest gets where the array is; \<^const>\<open>None\<close> for NULL, when it has no elements.\<close>

definition VT_REQUEST_ARRAY :: "request_env \<Rightarrow> u64 \<Rightarrow> u64 \<Rightarrow> (VtDecodePlace option \<Rightarrow> step) \<Rightarrow> step" where
  "VT_REQUEST_ARRAY e count elementSize k q =
     (if count = 0 then k None q
      else let c = rq_context q; pool = rc_memoryPool c in
        case vt_request_decode_alloc (env_calloc e c) (env_realloc e c) (Some (pool_view pool)) (rq_request q) count elementSize of
          (place, view, request) \<Rightarrow>
            let pool' = (case view of None \<Rightarrow> pool | Some v \<Rightarrow> pool_of_view pool place (unat (count * elementSize)) v);
                q1 = \<lparr>rq_request = request, rq_context = c\<lparr>rc_memoryPool := pool'\<rparr>\<rparr>
            in if place = None then protocol_error q1 else k place q1)"

text \<open>An array as a parameter of a decoder, and as an argument with the bytes that were decoded into it.\<close>

definition array_output :: "VtDecodePlace option \<Rightarrow> argument" where
  "array_output place = (if place = None then Null else Output)"

definition array_argument :: "VtDecodePlace option \<Rightarrow> u8 list \<Rightarrow> argument" where
  "array_argument place bytes = (if place = None then Null else Bytes bytes)"

section \<open>Handles\<close>

definition VT_REQUEST_SCOPE_AT :: "u64 \<Rightarrow> VkObjectType \<Rightarrow> VortekHandleRole \<Rightarrow> step \<Rightarrow> step" where
  "VT_REQUEST_SCOPE_AT offset objectType role k q =
     (case vt_request_seed_handle_scope (rq_context q) (rq_request q) offset objectType role of
        (ok, request) \<Rightarrow> (if ok then k else protocol_error) (q\<lparr>rq_request := request\<rparr>))"

abbreviation VT_REQUEST_SCOPE_SIMPLE :: "VkObjectType \<Rightarrow> VortekHandleRole \<Rightarrow> step \<Rightarrow> step" where
  "VT_REQUEST_SCOPE_SIMPLE \<equiv> VT_REQUEST_SCOPE_AT 0"

abbreviation VT_REQUEST_SCOPE_COMMAND :: "VkObjectType \<Rightarrow> VortekHandleRole \<Rightarrow> step \<Rightarrow> step" where
  "VT_REQUEST_SCOPE_COMMAND \<equiv> VT_REQUEST_SCOPE_AT 1"

definition VT_REQUEST_HANDLE ::
  "u64 \<Rightarrow> VkObjectType \<Rightarrow> VortekHandleRole \<Rightarrow> bool \<Rightarrow> bool \<Rightarrow> bool \<Rightarrow> (u64 \<Rightarrow> step) \<Rightarrow> step" where
  "VT_REQUEST_HANDLE token objectType role requireInstance requireDevice allowNull k q =
     (case vt_request_resolve_root_handle (rq_context q) (rq_request q) token objectType role requireInstance requireDevice allowNull of
        (host, request) \<Rightarrow>
          (case host of None \<Rightarrow> protocol_error | Some h \<Rightarrow> k h) (q\<lparr>rq_request := request\<rparr>))"

definition VT_REQUEST_RETIRED_HANDLE ::
  "u64 \<Rightarrow> VkObjectType \<Rightarrow> VortekHandleRole \<Rightarrow> bool \<Rightarrow> bool \<Rightarrow> bool \<Rightarrow> (u64 \<Rightarrow> step) \<Rightarrow> step" where
  "VT_REQUEST_RETIRED_HANDLE token objectType role requireInstance requireDevice allowNull k q =
     (case vt_request_retire_root_handle (rq_context q) (rq_request q) token objectType role requireInstance requireDevice allowNull of
        (host, c) \<Rightarrow>
          (case host of None \<Rightarrow> protocol_error | Some h \<Rightarrow> k h) (q\<lparr>rq_context := c\<rparr>))"

definition VT_REQUEST_PUBLISH ::
  "request_env \<Rightarrow> VkObjectType \<Rightarrow> VortekHandleRole \<Rightarrow> u64 \<Rightarrow> u64 \<Rightarrow> u64 \<Rightarrow> u64 \<Rightarrow> (u64 \<Rightarrow> step) \<Rightarrow> step" where
  "VT_REQUEST_PUBLISH e objectType role host inst device hostDevice k q =
     (case vt_request_publish_handle objectType role host inst device hostDevice q of
        (True, token, q1) \<Rightarrow> k token q1
      | (False, _, q1) \<Rightarrow> protocol_error (vt_request_rollback_output (env_context e) objectType role host hostDevice q1))"

text \<open>Without success nothing is published and the token is 0.\<close>

definition VT_REQUEST_PUBLISH_RESULT ::
  "request_env \<Rightarrow> int \<Rightarrow> VkObjectType \<Rightarrow> VortekHandleRole \<Rightarrow> u64 \<Rightarrow> u64 \<Rightarrow> u64 \<Rightarrow> u64 \<Rightarrow> (u64 \<Rightarrow> step) \<Rightarrow> step" where
  "VT_REQUEST_PUBLISH_RESULT e result objectType role host inst device hostDevice k q =
     (if result = VK_SUCCESS then VT_REQUEST_PUBLISH e objectType role host inst device hostDevice k q
      else k 0 (vt_request_rollback_output (env_context e) objectType role 0 hostDevice q))"

section \<open>Calls and answers\<close>

text \<open>A call of the driver.\<close>

definition vulkan :: "request_env \<Rightarrow> string \<Rightarrow> argument list \<Rightarrow> (driver_answer \<Rightarrow> step) \<Rightarrow> step" where
  "vulkan e name args k q =
     k (env_driver e name args (rc_events (rq_context q))) (emitted [Called name args] q)"

text \<open>A call of another part of the server that has a model of its own; here its answer is the environment's.\<close>

definition component :: "request_env \<Rightarrow> string \<Rightarrow> argument list \<Rightarrow> (driver_answer \<Rightarrow> step) \<Rightarrow> step" where
  "component = vulkan"

definition did :: "host_event list \<Rightarrow> step \<Rightarrow> step" where
  "did es k q = k (emitted es q)"

definition with_context :: "(RequestContext \<Rightarrow> step) \<Rightarrow> step" where
  "with_context k q = k (rq_context q) q"

text \<open>The assignment \<^verbatim>\<open>context->status = result\<close>.\<close>

definition set_status :: "int \<Rightarrow> step \<Rightarrow> step" where
  "set_status result k q = k (on_context (\<lambda>c. c\<lparr>rc_context := (rc_context c)\<lparr>cx_status := result\<rparr>\<rparr>) q)"

text \<open>The output buffer has the size the serializer asked for; with size 0 it is NULL.\<close>

definition VT_SERIALIZE_CMD ::
  "request_env \<Rightarrow> string \<Rightarrow> argument list \<Rightarrow> (u8 list ptr \<Rightarrow> int \<Rightarrow> step) \<Rightarrow> step" where
  "VT_SERIALIZE_CMD e name args k q =
     (let bufferSize = env_sizeof e name args; c = rq_context q;
          abort = (\<lambda>q. Some (vt_request_response_abort (env_context e) (env_calloc e c) q))
      in if bufferSize < 0 \<or> \<not> vt_transport_payload_fits bufferSize (ring_size c) (CLIENT_RING_BUFFER_SIZE - HEADER_SIZE) then abort q
         else if bufferSize = 0 then k None 0 q
         else do {
           (place, q1) \<leftarrow> vt_request_output_alloc (env_malloc e c) (env_realloc e c) (nat bufferSize) q;
           (if place = None then abort q1
            else k (Some (map (env_serialize e name args) [0..<nat bufferSize])) bufferSize q1) })"

definition VT_REQUEST_SEND :: "request_env \<Rightarrow> int \<Rightarrow> u8 list ptr \<Rightarrow> int \<Rightarrow> step \<Rightarrow> step" where
  "VT_REQUEST_SEND e code data sz k q =
     (let c = rq_context q in do {
        (ok, q1) \<leftarrow> vt_request_send_response (env_context e) (env_calloc e c) (env_ring e c) (env_polls e c) code data sz q;
        (if ok then k q1 else Some q1) })"

text \<open>The response with descriptors; the rest runs also when it could not be sent.\<close>

definition VT_SEND_FDS :: "request_env \<Rightarrow> int list \<Rightarrow> int \<Rightarrow> int \<Rightarrow> step \<Rightarrow> step" where
  "VT_SEND_FDS e fds count result k q =
     (let c = rq_context q in do {
        (_, q1) \<leftarrow> vt_request_send_fds_response (env_context e) (env_calloc e c) (env_clientFd e) (env_sendmsg e c) (Some fds) count
          (Some (le_bytes 4 (word_of_int result :: u32))) 4 q;
        k q1 })"

definition close_fd :: "int \<Rightarrow> host_event list" where
  "close_fd fd = (if 0 < fd then [Closed_fd fd] else [])"

text \<open>\<open>call\<close> is the operation, on the request, on the registry or on both.\<close>

definition VT_REQUEST_AUTHORITY :: "(request \<Rightarrow> bool \<times> request) \<Rightarrow> step \<Rightarrow> step" where
  "VT_REQUEST_AUTHORITY call k q = (case call q of (ok, q1) \<Rightarrow> (if ok then k else protocol_error) q1)"

definition tombstone_children :: "u64 \<Rightarrow> request \<Rightarrow> bool \<times> request" where
  "tombstone_children parent q =
     (case vt_request_tombstone_children (rq_context q) parent of (ok, c) \<Rightarrow> (ok, q\<lparr>rq_context := c\<rparr>))"

definition tombstone_batch :: "request_env \<Rightarrow> u64 list \<Rightarrow> u64 \<Rightarrow> VkObjectType \<Rightarrow> u64 \<Rightarrow> request \<Rightarrow> bool \<times> request" where
  "tombstone_batch e tokens count objectType parent q =
     (case vt_request_tombstone_batch (env_calloc e (rq_context q)) (rq_context q) (rq_request q)
             (if count = 0 then None else Some tokens) (unat count) objectType parent of
        (ok, c) \<Rightarrow> (ok, q\<lparr>rq_context := c\<rparr>))"

definition validate_batch :: "request_env \<Rightarrow> u64 list \<Rightarrow> u64 \<Rightarrow> VkObjectType \<Rightarrow> u64 \<Rightarrow> request \<Rightarrow> bool \<times> request" where
  "validate_batch e tokens count objectType parent q =
     (vt_request_validate_batch (env_calloc e (rq_context q)) (rq_context q) (rq_request q)
        (if count = 0 then None else Some tokens) (unat count) objectType parent, q)"

text \<open>The tokens that are captured start as zeros; \<open>objectType\<close> is a number of \<^verbatim>\<open>VkObjectType\<close>.\<close>

definition capture_begin :: "u32 \<Rightarrow> u64 \<Rightarrow> request \<Rightarrow> bool \<times> request" where
  "capture_begin objectType cap q =
     (case vt_request_capture_begin (rq_request q) objectType (if cap = 0 then None else Some (replicate (unat cap) 0)) cap of
        (ok, request) \<Rightarrow> (ok, q\<lparr>rq_request := request\<rparr>))"

definition capture_complete :: "u64 \<Rightarrow> request \<Rightarrow> bool \<times> request" where
  "capture_complete expected q =
     (case vt_request_capture_complete (rq_request q) expected of (ok, request) \<Rightarrow> (ok, q\<lparr>rq_request := request\<rparr>))"

text \<open>The tokens as the decoder has filled them in.\<close>

definition captured_tokens :: "(u64 list \<Rightarrow> step) \<Rightarrow> step" where
  "captured_tokens k q = k (case dec_captured_tokens (vr_state (rq_request q)) of None \<Rightarrow> [] | Some tokens \<Rightarrow> tokens) q"

text \<open>A statement that is run in one case only.\<close>

definition only_if :: "bool \<Rightarrow> (step \<Rightarrow> step) \<Rightarrow> step \<Rightarrow> step" where
  "only_if b f k = (if b then f k else k)"

text \<open>Room for what the driver writes, or NULL when nothing is asked for; \<open>output_argument\<close> has what was written.\<close>

definition VT_REQUEST_OUTPUT :: "request_env \<Rightarrow> u64 \<Rightarrow> step \<Rightarrow> step" where
  "VT_REQUEST_OUTPUT e sz k q =
     (if sz = 0 then k q
      else let c = rq_context q in do {
        (place, q1) \<leftarrow> vt_request_output_alloc (env_malloc e c) (env_realloc e c) (unat sz) q;
        (if place = None then Some (vt_request_response_abort (env_context e) (env_calloc e c) q1) else k q1) })"

definition output_place :: "u64 \<Rightarrow> argument" where
  "output_place sz = (if sz = 0 then Null else Output)"

definition output_argument :: "u64 \<Rightarrow> u8 list \<Rightarrow> argument" where
  "output_argument sz bytes = (if sz = 0 then Null else Bytes bytes)"

text \<open>Publication of an array of handles; \<open>failed\<close> is what the handler does when it is refused. The rest gets the array of tokens.\<close>

definition VT_PUBLISH_BATCH ::
  "request_env \<Rightarrow> VkObjectType \<Rightarrow> u64 list ptr \<Rightarrow> nat \<Rightarrow> VortekHandleOwner \<Rightarrow> VtRequestPublicationCleanup \<Rightarrow> u64 \<Rightarrow> u64 \<Rightarrow> step
    \<Rightarrow> (u64 list ptr \<Rightarrow> step) \<Rightarrow> step" where
  "VT_PUBLISH_BATCH e objectType hosts count owner cleanup hostDevice hostParent failed k q =
     (let c = rq_context q in do {
        (ok, handles, q1) \<leftarrow> vt_request_publish_vulkan_batch (env_mallocs e c) (env_realloc e c) (env_calloc e c) objectType hosts 8 count
          owner cleanup hostDevice hostParent q;
        (if ok then k handles q1 else failed q1) })"

definition token_argument :: "u64 list ptr \<Rightarrow> argument" where
  "token_argument tokens = (case tokens of None \<Rightarrow> Null | Some ts \<Rightarrow> Bytes (concat (map (le_bytes 8) ts)))"

text \<open>The owners that the request stands in, \<^verbatim>\<open>_vt_request.state->instance_owner\<close>.\<close>

definition with_instance_owner :: "(u64 \<Rightarrow> step) \<Rightarrow> step" where
  "with_instance_owner k q = k (dec_instance_owner (vr_state (rq_request q))) q"

text \<open>The type of a handler.\<close>

type_synonym request_handler = "request_env \<Rightarrow> VtDecodeState ptr \<Rightarrow> RequestContext \<Rightarrow> (VtDecodeState \<times> RequestContext) option"

end
