(* ===== verification/Request_Rules.thy ===== *)
theory Request_Rules
  imports Request_Macros
begin

text \<open>
  How many responses a handler sends. Each macro has a rule that takes the claim about the rest of the handler; the claim about a
  handler follows by applying the rules along its text.
\<close>

section \<open>Events\<close>

definition responded :: "host_event \<Rightarrow> bool" where
  "responded ev = (case ev of Responded _ _ \<Rightarrow> True | Responded_fds _ _ \<Rightarrow> True | _ \<Rightarrow> False)"

definition called :: "host_event \<Rightarrow> bool" where
  "called ev = (case ev of Called _ _ \<Rightarrow> True | _ \<Rightarrow> False)"

definition responses :: "host_event list \<Rightarrow> nat" where
  "responses es = length (filter responded es)"

abbreviation stopping :: "RequestContext \<Rightarrow> bool" where
  "stopping c \<equiv> VkContext_isClosing (Some (rc_context c))"

abbreviation events :: "request \<Rightarrow> host_event list" where
  "events q \<equiv> rc_events (rq_context q)"

lemma responses_simps [simp]:
  "responses [] = 0" "responses (es @ fs) = responses es + responses fs"
  "responses (x # es) = (if responded x then Suc (responses es) else responses es)"
  by (simp_all add: responses_def)

lemma responded_simps [simp]:
  "responded (Responded c d)" "responded (Responded_fds f d)" "\<not> responded (Called n args)" "\<not> responded (Host h)"
  "\<not> responded (Freed_descriptor_sets a b hs)" "\<not> responded (Freed_command_buffers a b hs)" "\<not> responded (Closed_fd fd)"
  by (simp_all add: responded_def)

lemma called_simps [simp]:
  "\<not> called (Responded c d)" "\<not> called (Responded_fds f d)" "called (Called n args)" "\<not> called (Host h)"
  "\<not> called (Freed_descriptor_sets a b hs)" "\<not> called (Freed_command_buffers a b hs)" "\<not> called (Closed_fd fd)"
  by (simp_all add: called_def)

lemma context_simps [simp]:
  "rq_context (on_request f q) = rq_context q" "rq_context (set_state s q) = rq_context q"
  "events (emitted es q) = events q @ es" "rc_context (rq_context (emitted es q)) = rc_context (rq_context q)"
  "rq_context (on_context g q) = g (rq_context q)" "rc_events (set_authority r c) = rc_events c"
  "rq_request (on_context g q) = rq_request q" "rq_request (emitted es q) = rq_request q"
  by (simp_all add: on_request_def set_state_def emitted_def on_context_def set_authority_def)

lemma protocol_error_stops [simp]:
  "stopping (vt_request_protocol_error c)" "rc_events (vt_request_protocol_error c) = rc_events c"
  by (simp_all add: vt_request_protocol_error_def VkContext_requestStop_def VkContext_isClosing_def)

text \<open>What is done to take an output back are neither responses nor calls of the handler.\<close>

definition cleanup :: "host_event list \<Rightarrow> bool" where
  "cleanup es \<longleftrightarrow> (\<forall>x \<in> set es. \<not> responded x \<and> \<not> called x)"

lemma cleanup_simps [simp]: "cleanup []" "cleanup (es @ fs) \<longleftrightarrow> cleanup es \<and> cleanup fs"
  "cleanup (x # es) \<longleftrightarrow> \<not> responded x \<and> \<not> called x \<and> cleanup es"
  by (auto simp: cleanup_def)

lemma cleanup_responses: "cleanup es \<Longrightarrow> responses es = 0"
  by (auto simp: cleanup_def responses_def filter_empty_conv)

lemma rollback_cleanup [simp]: "cleanup (rollback_events ctx objectType role host device)"
  by (auto simp: rollback_events_def split: VortekHandleRole.split)

lemma rollback_output_events [simp]:
  "events (vt_request_rollback_output ctx objectType role host device q) =
     events q @ rollback_events ctx objectType role host device"
  by (simp add: vt_request_rollback_output_def)

lemma tombstone_published_events [simp]: "rc_events (snd (tombstone_published t x c)) = rc_events c"
  by (simp add: tombstone_published_def split: prod.split)

lemma tombstone_events: "tombstone_published t x c = (ok, c') \<Longrightarrow> rc_events c' = rc_events c"
  using tombstone_published_events [of t x c] by simp

lemma retire_output_events: "retire_output ok p c = (retired, c') \<Longrightarrow> rc_events c' = rc_events c"
  by (auto simp: retire_output_def Let_def split: if_splits prod.splits dest: tombstone_events)

lemma abort_output_events: "\<exists>es. events (abort_output ctx p q) = events q @ es \<and> cleanup es"
  by (simp add: abort_output_def split: VtRequestPublicationCleanup.split)

lemma response_abort_events:
  "stopping (rq_context (vt_request_response_abort ctx ok q)) \<and>
     (\<exists>es. events (vt_request_response_abort ctx ok q) = events q @ es \<and> cleanup es)"
proof -
  obtain retired c1 where r: "retire_output ok (vr_publication (rq_request q)) (rq_context q) = (retired, c1)" by fastforce
  note e = retire_output_events [OF r]
  let ?q = "(on_request (set_publication no_publication) q)\<lparr>rq_context := c1\<rparr>"
  obtain es where "events (abort_output ctx (vr_publication (rq_request q)) ?q) = events ?q @ es" "cleanup es"
    using abort_output_events by blast
  then show ?thesis using r e by (auto simp: vt_request_response_abort_def Let_def)
qed

text \<open>The operations that a handler uses.\<close>

lemma publish_value_events: "publish_value objectType role host owner c = (status, token, c') \<Longrightarrow> rc_events c' = rc_events c"
  by (auto simp: publish_value_def split: prod.splits if_splits)

lemma publish_feature_events: "publish_device_feature i t n c = (status, token, c') \<Longrightarrow> rc_events c' = rc_events c"
  by (auto simp: publish_device_feature_def Let_def split: prod.splits if_splits)

lemma track_events: "vt_request_track_single_publication a b c d e f q = (ok, q') \<Longrightarrow> events q' = events q"
  by (auto simp: vt_request_track_single_publication_def split: if_splits)

lemma publish_events:
  assumes "vt_request_publish_handle objectType role host inst device hostDevice q = (ok, token, q')"
  shows "events q' = events q"
proof -
  let ?isDevice = "role = VORTEK_HANDLE_ROLE_VULKAN \<and> objectType = VK_OBJECT_TYPE_DEVICE"
  let ?owner = "\<lparr>own_instance = inst, own_device = device, own_parent = 0\<rparr>"
  let ?q1 = "if ?isDevice then on_context (\<lambda>c. c\<lparr>rc_nullDescriptorEnabled := False\<rparr>) q else q"
  obtain status t c where p: "publish_value objectType role host ?owner (rq_context ?q1) = (status, t, c)"
    using prod_cases3 by blast
  obtain status' t' c' where f: "(if status = VORTEK_HANDLE_OK \<and> ?isDevice
      then publish_device_feature inst t (?isDevice \<and> rc_nullDescriptorEnabled (rq_context q)) c else (status, t, c)) = (status', t', c')"
    using prod_cases3 by blast
  have e: "rc_events c' = events q"
    using publish_value_events [OF p] f publish_feature_events by (auto split: if_splits)
  show ?thesis
    using assms p f e
    by (auto simp: vt_request_publish_handle_def Let_def split: if_splits prod.splits bool.splits dest!: track_events)
qed

lemma output_alloc_events:
  assumes "vt_request_output_alloc m r sz q = Some (place, q')"
  shows "events q' = events q"
  using assms
  by (auto simp: vt_request_output_alloc_def Let_def bind_eq_Some_conv split: if_splits prod.splits)

lemma publish_bits_events:
  "publish_bits k objectType handles bits count owner cl dv pa q = (ok, tokens, q') \<Longrightarrow> events q' = events q"
  by (auto simp: publish_bits_def Let_def split: prod.splits if_splits)

lemma publish_batch_events:
  assumes "vt_request_publish_vulkan_batch m r k objectType hosts sz count owner cl dv pa q = Some (ok, handles, q')"
  shows "events q' = events q"
  using assms
  by (auto simp: vt_request_publish_vulkan_batch_def bind_eq_Some_conv split: if_splits
      dest!: output_alloc_events publish_bits_events)

text \<open>A response is sent, or the context stops.\<close>

definition answered :: "request \<Rightarrow> request \<Rightarrow> bool \<Rightarrow> bool" where
  "answered q q' ok \<longleftrightarrow>
     (if ok then \<exists>x. events q' = events q @ [x] \<and> responded x \<and> \<not> called x
      else stopping (rq_context q') \<and> (\<exists>es. events q' = events q @ es \<and> cleanup es))"

lemma commit_events [simp]: "events (vt_request_commit_response q) = events q"
  by (simp add: vt_request_commit_response_def)

lemma send_response_answered:
  assumes "vt_request_send_response ctx m env polls code data sz q = Some (ok, q')"
  shows "answered q q' ok"
proof (cases "cx_clientRing (rc_context (rq_context q))")
  case None
  then show ?thesis using assms response_abort_events [of ctx m q] by (auto simp: vt_request_send_response_def answered_def)
next
  case (Some ring)
  show ?thesis
  proof (cases "(0 < sz \<and> data = None) \<or> \<not> vt_transport_payload_fits sz (ring_bufferSize ring) (CLIENT_RING_BUFFER_SIZE - HEADER_SIZE)")
    case True
    then show ?thesis using assms Some response_abort_events [of ctx m q]
      by (auto simp: vt_request_send_response_def answered_def)
  next
    case False
    then obtain sent ring' where w: "RingBuffer_writeFrame (Some (env ring)) polls (Some (message_header (word_of_int code) sz))
        (word_of_nat HEADER_SIZE) data (word_of_int sz) = Some (sent, ring')"
      using assms Some by (auto simp: vt_request_send_response_def Let_def bind_eq_Some_conv split: if_splits)
    let ?q = "on_context (\<lambda>c. c\<lparr>rc_context := (rc_context c)\<lparr>cx_clientRing := ring'\<rparr>\<rparr>) q"
    show ?thesis
      using assms Some False w response_abort_events [of ctx m ?q]
      by (auto simp: vt_request_send_response_def Let_def answered_def split: if_splits)
  qed
qed

lemma send_fds_answered:
  assumes "vt_request_send_fds_response ctx m fd sent fds n data sz q = Some (ok, q')"
  shows "answered q q' ok"
  using assms response_abort_events [of ctx m q]
  by (auto simp: vt_request_send_fds_response_def Let_def bind_eq_Some_conv answered_def split: if_splits)


section \<open>One macro\<close>

text \<open>A macro ends the handler with the context stopped, or it goes on with the rest. Most leave the context as it is but for its memory
  pool.\<close>

definition stops :: "request \<Rightarrow> request \<Rightarrow> bool" where
  "stops q q' \<longleftrightarrow> stopping (rq_context q') \<and> (\<exists>es. events q' = events q @ es \<and> cleanup es)"

definition plain :: "request \<Rightarrow> request \<Rightarrow> bool" where
  "plain q q' \<longleftrightarrow> rc_context (rq_context q') = rc_context (rq_context q) \<and> rc_next (rq_context q') = rc_next (rq_context q) \<and>
     events q' = events q"

lemma plain_simps [simp]:
  "plain q q" "plain q (on_request f q)" "plain q (set_state s q)"
  "plain q (on_context (\<lambda>c. c\<lparr>rc_memoryPool := p\<rparr>) q)" "plain q (q\<lparr>rq_request := r\<rparr>)"
  "plain q (set_state s q1) \<longleftrightarrow> plain q q1" "plain q (q1\<lparr>rq_request := r\<rparr>) \<longleftrightarrow> plain q q1"
  "plain q \<lparr>rq_request = r, rq_context = rq_context q\<lparr>rc_memoryPool := p\<rparr>\<rparr>"
  by (simp_all add: plain_def on_request_def set_state_def on_context_def)

lemma plain_trans: "plain q q1 \<Longrightarrow> plain q1 q2 \<Longrightarrow> plain q q2"
  by (simp add: plain_def)

lemma protocol_error_iff: "protocol_error q = Some q' \<Longrightarrow> plain q0 q \<Longrightarrow> stops q0 q'"
  by (auto simp: protocol_error_def stops_def plain_def)

lemma abort_stops: "plain q0 q \<Longrightarrow> stops q0 (vt_request_response_abort ctx ok q)"
  using response_abort_events [of ctx ok q] by (simp add: stops_def plain_def)

lemma output_alloc_plain: "vt_request_output_alloc m r sz q = Some (place, q') \<Longrightarrow> plain q q'"
  by (auto simp: vt_request_output_alloc_def Let_def bind_eq_Some_conv plain_def split: if_splits prod.splits)

text \<open>The rules for the macros that neither call, answer nor change the registry.\<close>

definition outcome :: "(step \<Rightarrow> bool) \<Rightarrow> request \<Rightarrow> request \<Rightarrow> bool" where
  "outcome K q q' \<longleftrightarrow> stops q q' \<or> (\<exists>k q1. K k \<and> plain q q1 \<and> k q1 = Some q')"

definition continues :: "step \<Rightarrow> (step \<Rightarrow> bool) \<Rightarrow> bool" where
  "continues m K \<longleftrightarrow> (\<forall>q q'. m q = Some q' \<longrightarrow> outcome K q q')"

lemma continuesI: "(\<And>q q'. m q = Some q' \<Longrightarrow> outcome K q q') \<Longrightarrow> continues m K"
  by (simp add: continues_def)

lemma outcome_stop: "protocol_error q1 = Some q' \<Longrightarrow> plain q q1 \<Longrightarrow> outcome K q q'"
  "plain q q1 \<Longrightarrow> outcome K q (vt_request_response_abort ctx ok q1)"
  by (auto simp: outcome_def intro: protocol_error_iff abort_stops)

lemma outcome_go: "k q1 = Some q' \<Longrightarrow> K k \<Longrightarrow> plain q q1 \<Longrightarrow> outcome K q q'"
  by (auto simp: outcome_def)

lemma outcome_go_two: "k a b q1 = Some q' \<Longrightarrow> plain q q1 \<Longrightarrow> outcome (\<lambda>m. \<exists>a b. m = k a b) q q'"
  by (auto simp: outcome_def)

lemma decode_continues: "continues (VT_REQUEST_DECODE e name args k) (\<lambda>m. \<exists>v b. m = k v b)"
proof (rule continuesI)
  fix q q' assume run: "VT_REQUEST_DECODE e name args k q = Some q'"
  then obtain cursor where c: "vt_request_decode_pass_begin (rq_request q) = Some cursor"
    by (auto simp: VT_REQUEST_DECODE_def bind_eq_Some_conv)
  define d where "d = env_unserialize e name args (rq_context q) cursor (vr_state (rq_request q))"
  define q1 where "q1 = set_state (dc_state d) (on_context (\<lambda>c. c\<lparr>rc_memoryPool := dc_pool d\<rparr>) q)"
  have p: "plain q q1" by (simp add: q1_def)
  from run consider "protocol_error q1 = Some q'"
    | s where "protocol_error (set_state s q1) = Some q'" | s where "k (dc_value d) (dc_bytes d) (set_state s q1) = Some q'"
    by (auto simp: VT_REQUEST_DECODE_def c Let_def d_def [symmetric] q1_def [symmetric] split: if_splits prod.splits)
  then show "outcome (\<lambda>m. \<exists>v b. m = k v b) q q'"
    using p by cases (auto intro: outcome_stop outcome_go_two)
qed

lemma array_continues: "continues (VT_REQUEST_ARRAY e count sz k) (\<lambda>m. \<exists>place. m = k place)"
proof (rule continuesI)
  fix q q' assume run: "VT_REQUEST_ARRAY e count sz k q = Some q'"
  let ?c = "rq_context q"
  obtain place view request where a: "vt_request_decode_alloc (env_calloc e ?c) (env_realloc e ?c) (Some (pool_view (rc_memoryPool ?c)))
      (rq_request q) count sz = (place, view, request)" using prod_cases3 by blast
  show "outcome (\<lambda>m. \<exists>place. m = k place) q q'"
  proof (cases "count = 0")
    case True
    then show ?thesis using run by (auto simp: VT_REQUEST_ARRAY_def intro: outcome_go)
  next
    case False
    define q1 where "q1 = \<lparr>rq_request = request, rq_context = ?c\<lparr>rc_memoryPool :=
        (case view of None \<Rightarrow> rc_memoryPool ?c | Some v \<Rightarrow> pool_of_view (rc_memoryPool ?c) place (unat (count * sz)) v)\<rparr>\<rparr>"
    have p: "plain q q1" by (simp add: q1_def)
    from run False consider "protocol_error q1 = Some q'" | "k place q1 = Some q'"
      by (auto simp: VT_REQUEST_ARRAY_def Let_def a q1_def [symmetric] split: if_splits)
    then show ?thesis using p by cases (auto intro: outcome_stop outcome_go)
  qed
qed

lemma scope_continues: "continues (VT_REQUEST_SCOPE_AT offset type role k) (\<lambda>m. m = k)"
  by (rule continuesI)
     (auto simp: VT_REQUEST_SCOPE_AT_def split: prod.splits if_splits intro: outcome_stop outcome_go)

lemma handle_continues: "continues (VT_REQUEST_HANDLE token type role ri rd an k) (\<lambda>m. \<exists>h. m = k h)"
proof (rule continuesI)
  fix q q' assume run: "VT_REQUEST_HANDLE token type role ri rd an k q = Some q'"
  obtain host request where r: "vt_request_resolve_root_handle (rq_context q) (rq_request q) token type role ri rd an = (host, request)"
    by fastforce
  show "outcome (\<lambda>m. \<exists>h. m = k h) q q'"
    using run r by (auto simp: VT_REQUEST_HANDLE_def split: option.splits intro: outcome_stop outcome_go)
qed

lemma output_continues: "continues (VT_REQUEST_OUTPUT e sz k) (\<lambda>m. m = k)"
  by (rule continuesI)
     (auto simp: VT_REQUEST_OUTPUT_def Let_def bind_eq_Some_conv split: if_splits dest!: output_alloc_plain
       intro: outcome_stop outcome_go)

lemma serialize_continues: "continues (VT_SERIALIZE_CMD e name args k) (\<lambda>m. \<exists>b n. m = k b n)"
proof (rule continuesI)
  fix q q' assume run: "VT_SERIALIZE_CMD e name args k q = Some q'"
  let ?n = "env_sizeof e name args"
  show "outcome (\<lambda>m. \<exists>b n. m = k b n) q q'"
  proof (cases "?n < 0 \<or> \<not> vt_transport_payload_fits ?n (ring_size (rq_context q)) (CLIENT_RING_BUFFER_SIZE - HEADER_SIZE) \<or> ?n = 0")
    case True
    then show ?thesis using run
      by (auto simp: VT_SERIALIZE_CMD_def Let_def split: if_splits intro: outcome_stop outcome_go_two)
  next
    case False
    then obtain place q1 where a: "vt_request_output_alloc (env_malloc e (rq_context q)) (env_realloc e (rq_context q)) (nat ?n) q
        = Some (place, q1)"
      using run by (auto simp: VT_SERIALIZE_CMD_def Let_def bind_eq_Some_conv split: if_splits)
    from output_alloc_plain [OF a] show ?thesis using run False a
      by (auto simp: VT_SERIALIZE_CMD_def Let_def split: if_splits intro: outcome_stop outcome_go_two)
  qed
qed

lemma owner_continues: "continues (with_instance_owner k) (\<lambda>m. \<exists>i. m = k i)"
  by (rule continuesI) (auto simp: with_instance_owner_def intro: outcome_go)

lemma context_continues: "continues (with_context k) (\<lambda>m. \<exists>c. m = k c)"
  by (rule continuesI) (auto simp: with_context_def intro: outcome_go)

lemma captured_continues: "continues (captured_tokens k) (\<lambda>m. \<exists>ts. m = k ts)"
  by (rule continuesI) (auto simp: captured_tokens_def intro: outcome_go)

lemmas plain_macros = decode_continues array_continues scope_continues handle_continues output_continues serialize_continues
  owner_continues context_continues captured_continues

end
