(* ===== verification/Handlers_Special.thy ===== *)
theory Handlers_Special
  imports Request_Macros
begin

text \<open>
  The handlers of \<^verbatim>\<open>vortekrenderer/src/request_handler.c\<close> that do more than one call: objects with parts of their own, descriptors
  that are sent, arrays of handles that are published, queries in two calls.
\<close>

section \<open>Parts of handlers\<close>

definition VK_ERROR_OUT_OF_DEVICE_MEMORY :: int where "VK_ERROR_OUT_OF_DEVICE_MEMORY = - 2"
definition VK_ERROR_MEMORY_MAP_FAILED :: int where "VK_ERROR_MEMORY_MAP_FAILED = - 5"
definition DECOMPRESSED_FORMAT :: u64 where "DECOMPRESSED_FORMAT = 44"

text \<open>The block formats of BC, ETC2, EAC and ASTC have consecutive numbers.\<close>

definition isCompressedFormat :: "u64 \<Rightarrow> bool" where
  "isCompressedFormat format \<longleftrightarrow> 131 \<le> format \<and> format \<le> 184"

definition holds_image :: "request_env \<Rightarrow> u64 \<Rightarrow> bool" where
  "holds_image e i = (case textureDecoder_images (env_context e) of None \<Rightarrow> False | Some holds \<Rightarrow> holds i)"

text \<open>An \<^verbatim>\<open>int\<close> from what was written.\<close>

definition int_value :: "u64 \<Rightarrow> int" where
  "int_value w = sint (ucast w :: 32 word)"

definition with_fragment_stage :: "u64 \<Rightarrow> u64" where
  "with_fragment_stage stages = (if stages AND 1 \<noteq> 0 then stages OR 16 else stages)"

definition client_waiting :: "(bool \<Rightarrow> step) \<Rightarrow> step" where
  "client_waiting k q = (case cx_clientRing (rc_context (rq_context q)) of
     None \<Rightarrow> None | Some ring \<Rightarrow> k (RingBuffer_hasStatus ring RING_STATUS_WAIT) q)"

definition client_must_wait :: "step \<Rightarrow> step" where
  "client_must_wait k q = (case cx_clientRing (rc_context (rq_context q)) of
     None \<Rightarrow> None
   | Some ring \<Rightarrow> k (on_context (\<lambda>c. c\<lparr>rc_context := (rc_context c)\<lparr>cx_clientRing := Some (RingBuffer_setStatus ring RING_STATUS_WAIT)\<rparr>\<rparr>) q))"

definition decode_textures :: "request_env \<Rightarrow> step \<Rightarrow> step" where
  "decode_textures e k = component e ''TextureDecoder_decodeAll'' [] (\<lambda>_. k)"

text \<open>A call that is made in one case only; without it there is no answer to look at.\<close>

definition call_if :: "bool \<Rightarrow> ((driver_answer \<Rightarrow> step) \<Rightarrow> step) \<Rightarrow> (driver_answer \<Rightarrow> step) \<Rightarrow> step" where
  "call_if b call k = (if b then call k
     else k \<lparr>drv_result = 0, drv_value = \<lambda>_. 0, drv_bytes = \<lambda>_. [], drv_handles = \<lambda>_ _. 0\<rparr>)"

definition handle_at :: "u8 list \<Rightarrow> nat \<Rightarrow> u64" where
  "handle_at bytes i = word_of_nat (of_le_bytes (take 8 (drop (8 * i) bytes)))"

text \<open>The loop of \<open>vt_handle_vkWaitForFences\<close>: descriptors of the fences until one cannot be had. The structure type and the kind of
  descriptor are numbers of Vulkan.\<close>

fun fence_fds :: "request_env \<Rightarrow> u64 \<Rightarrow> u64 list \<Rightarrow> int list \<Rightarrow> (int \<Rightarrow> int list \<Rightarrow> step) \<Rightarrow> step" where
  "fence_fds e device [] fds k = k VK_SUCCESS fds"
| "fence_fds e device (fence # fences) fds k =
     vulkan e ''vkGetFenceFd'' [Handle device, Struct [(''sType'', Value 1000115001), (''fence'', Value fence), (''handleType'', Value 8)] [],
         Output] (\<lambda>a.
       if drv_result a \<noteq> VK_SUCCESS then k (drv_result a) fds
       else fence_fds e device fences (fds @ [int_value (drv_value a 2)]) k)"

section \<open>Handlers\<close>

definition vt_handle_vkEnumeratePhysicalDevices :: request_handler where
  "vt_handle_vkEnumeratePhysicalDevices e batch c =
     VT_REQUEST_BEGIN batch c (
     VT_REQUEST_SCOPE_COMMAND VK_OBJECT_TYPE_INSTANCE VORTEK_HANDLE_ROLE_VULKAN (
     VT_REQUEST_DECODE e ''vkEnumeratePhysicalDevices'' [Output, Output, Null] (\<lambda>v _. let instanceId = v 0;
       physicalDeviceCount = v 1 in
     VT_REQUEST_HANDLE instanceId VK_OBJECT_TYPE_INSTANCE VORTEK_HANDLE_ROLE_VULKAN False False False (\<lambda>inst.
     let guestCapacity = (ucast physicalDeviceCount :: u32) in
     vulkan e ''vkEnumeratePhysicalDevices'' [Handle inst, Output, Null] (\<lambda>a. let serverActual = (ucast (drv_value a 1) :: u32);
         returnedCount = (if 0 < guestCapacity then vt_request_query_copy_count guestCapacity serverActual else 0) in
     VT_REQUEST_ARRAY e (ucast returnedCount) 8 (\<lambda>devices_at.
     call_if (devices_at \<noteq> None) (vulkan e ''vkEnumeratePhysicalDevices'' [Handle inst, Value (ucast returnedCount),
       Output]) (\<lambda>a2.
     let result = (if devices_at = None then drv_result a else drv_result a2);
         hostCount = (if devices_at = None then returnedCount else ucast (drv_value a2 1));
         count = (if guestCapacity = 0 then serverActual else vt_request_query_copy_count guestCapacity hostCount);
         result = vt_request_query_result result (guestCapacity \<noteq> 0) guestCapacity serverActual;
         physicalDevices = (if devices_at = None then None else Some (map (drv_handles a2 2) [0..<unat returnedCount]));
         publishedCount = (if devices_at = None then 0 else unat count) in
     (\<lambda>k. if result < 0 then k (map_option (\<lambda>hs. map (\<lambda>_. 0) (take (unat count) hs) @ drop (unat count) hs)
       physicalDevices)
       else VT_PUBLISH_BATCH e VK_OBJECT_TYPE_PHYSICAL_DEVICE physicalDevices publishedCount
         \<lparr>own_instance = instanceId, own_device = 0,
       own_parent = 0\<rparr> VT_REQUEST_PUBLICATION_NONE 0 0 protocol_error k) (\<lambda>tokens.
     VT_SERIALIZE_CMD e ''vkEnumeratePhysicalDevices'' [Null, Value (ucast count), token_argument tokens] (\<lambda>outputBuffer bufferSize.
     VT_REQUEST_SEND e result outputBuffer bufferSize Some)))))))))"

definition vt_handle_vkGetPhysicalDeviceQueueFamilyProperties :: request_handler where
  "vt_handle_vkGetPhysicalDeviceQueueFamilyProperties e batch c =
     VT_REQUEST_BEGIN batch c (
     VT_REQUEST_SCOPE_COMMAND VK_OBJECT_TYPE_PHYSICAL_DEVICE VORTEK_HANDLE_ROLE_VULKAN (
     VT_REQUEST_DECODE e ''vkGetPhysicalDeviceQueueFamilyProperties'' [Output, Output, Null] (\<lambda>v _. let physicalDeviceId = v 0;
       queueFamilyPropertyCount = v 1 in
     VT_REQUEST_HANDLE physicalDeviceId VK_OBJECT_TYPE_PHYSICAL_DEVICE VORTEK_HANDLE_ROLE_VULKAN True False False (\<lambda>physicalDevice.
     let guestCapacity = (ucast queueFamilyPropertyCount :: u32) in
     vulkan e ''vkGetPhysicalDeviceQueueFamilyProperties'' [Handle physicalDevice, Output, Null] (\<lambda>a.
       let serverActual = (ucast (drv_value a 1) :: u32) in
     VT_REQUEST_ARRAY e (if 0 < guestCapacity then ucast serverActual else 0) 24 (\<lambda>queueFamilyProperties_at.
     call_if (queueFamilyProperties_at \<noteq> None) (vulkan e ''vkGetPhysicalDeviceQueueFamilyProperties'' [Handle physicalDevice,
       Value (ucast serverActual), Output]) (\<lambda>a2.
     let hostCount = (if queueFamilyProperties_at = None then serverActual else ucast (drv_value a2 1));
         count = (if guestCapacity = 0 then serverActual else vt_request_query_copy_count guestCapacity hostCount) in
     VT_SERIALIZE_CMD e ''vkGetPhysicalDeviceQueueFamilyProperties'' [Null, Value (ucast count),
       array_argument queueFamilyProperties_at (drv_bytes a2 2)] (\<lambda>outputBuffer bufferSize.
     VT_REQUEST_SEND e VK_SUCCESS outputBuffer bufferSize Some))))))))"

definition vt_handle_vkEnumerateInstanceVersion :: request_handler where
  "vt_handle_vkEnumerateInstanceVersion e batch c =
     VT_REQUEST_BEGIN batch c (
     VT_REQUEST_DECODE e ''vkEnumerateInstanceVersion'' [Output] (\<lambda>_ _.
     VT_REQUEST_SEND e VK_SUCCESS (Some (le_bytes 4 (env_vkMaxVersion e))) 4 Some))"

definition vt_handle_vkQueueSubmit :: request_handler where
  "vt_handle_vkQueueSubmit e batch c =
     VT_REQUEST_BEGIN batch c (
     VT_REQUEST_SCOPE_COMMAND VK_OBJECT_TYPE_QUEUE VORTEK_HANDLE_ROLE_VULKAN (
     VT_REQUEST_DECODE e ''vkQueueSubmit'' [Output, Output, Null, Output] (\<lambda>v _. let queueId = v 0; submitCount = v 1;
       fenceId = v 3 in
     VT_REQUEST_HANDLE queueId VK_OBJECT_TYPE_QUEUE VORTEK_HANDLE_ROLE_VULKAN True True False (\<lambda>queue.
     VT_REQUEST_HANDLE fenceId VK_OBJECT_TYPE_FENCE VORTEK_HANDLE_ROLE_VULKAN True True True (\<lambda>fence.
     VT_REQUEST_ARRAY e submitCount 72 (\<lambda>submits_at.
     VT_REQUEST_DECODE e ''vkQueueSubmit'' [Null, Null, array_output submits_at, Null] (\<lambda>_ b.
       let submits = array_argument submits_at (b 2) in
     client_waiting (\<lambda>clientWaiting.
     only_if (textureDecoder_images (env_context e) \<noteq> None) (decode_textures e) (
     vulkan e ''vkQueueSubmit'' [Handle queue, Value submitCount, submits, Handle fence] (\<lambda>a. let result = drv_result a in
     only_if (result = VK_ERROR_DEVICE_LOST) (set_status result) (
     only_if clientWaiting (VT_REQUEST_SEND e result None 0) Some)))))))))))"

definition vt_handle_vkAllocateMemory :: request_handler where
  "vt_handle_vkAllocateMemory e batch c =
     VT_REQUEST_BEGIN batch c (
     VT_REQUEST_SCOPE_COMMAND VK_OBJECT_TYPE_DEVICE VORTEK_HANDLE_ROLE_VULKAN (
     VT_REQUEST_DECODE e ''vkAllocateMemory'' [Output, Output, Null, Null] (\<lambda>v b. let deviceId = v 0; allocateInfo = b 1 in
     VT_REQUEST_HANDLE deviceId VK_OBJECT_TYPE_DEVICE VORTEK_HANDLE_ROLE_VULKAN True False False (\<lambda>device.
     component e ''ResourceMemory_allocate'' [Handle device, Bytes allocateInfo, Output] (\<lambda>a. let resourceMemory = drv_value a 2;
       result = (if resourceMemory \<noteq> 0 then VK_SUCCESS else VK_ERROR_OUT_OF_DEVICE_MEMORY) in
     if result \<noteq> VK_SUCCESS then VT_REQUEST_SEND e result None 0 Some else (
     with_instance_owner (\<lambda>inst.
     VT_REQUEST_PUBLISH_RESULT e result VK_OBJECT_TYPE_UNKNOWN VORTEK_HANDLE_ROLE_RESOURCE_MEMORY resourceMemory inst deviceId device
       (\<lambda>token.
     VT_SERIALIZE_CMD e ''VkDeviceMemory'' [Value token] (\<lambda>outputBuffer bufferSize.
     VT_REQUEST_SEND e result outputBuffer bufferSize Some)))))))))"

definition vt_handle_vkFreeMemory :: request_handler where
  "vt_handle_vkFreeMemory e batch c =
     VT_REQUEST_BEGIN batch c (
     VT_REQUEST_SCOPE_COMMAND VK_OBJECT_TYPE_DEVICE VORTEK_HANDLE_ROLE_VULKAN (
     VT_REQUEST_DECODE e ''vkFreeMemory'' [Output, Output, Null] (\<lambda>v _. let deviceId = v 0; memoryId = v 1 in
     VT_REQUEST_HANDLE deviceId VK_OBJECT_TYPE_DEVICE VORTEK_HANDLE_ROLE_VULKAN True False False (\<lambda>device.
     VT_REQUEST_RETIRED_HANDLE memoryId VK_OBJECT_TYPE_UNKNOWN VORTEK_HANDLE_ROLE_RESOURCE_MEMORY True True True (\<lambda>resourceMemory.
     did [Host (ResourceMemoryFree device resourceMemory)] Some)))))"

definition vt_handle_vkMapMemory :: request_handler where
  "vt_handle_vkMapMemory e batch c =
     VT_REQUEST_BEGIN batch c (
     VT_REQUEST_SCOPE_SIMPLE VK_OBJECT_TYPE_UNKNOWN VORTEK_HANDLE_ROLE_RESOURCE_MEMORY (
     VT_REQUEST_DECODE e ''VkDeviceMemory'' [Output] (\<lambda>v _. let memoryId = v 0 in
     VT_REQUEST_HANDLE memoryId VK_OBJECT_TYPE_UNKNOWN VORTEK_HANDLE_ROLE_RESOURCE_MEMORY True True False (\<lambda>resourceMemory.
     let fd = env_memory_fd e resourceMemory; result = (if fd \<noteq> - 1 then VK_SUCCESS else VK_ERROR_MEMORY_MAP_FAILED) in
     VT_SEND_FDS e [fd] (if result = VK_SUCCESS then 1 else 0) result Some))))"

definition vt_handle_vkBindBufferMemory :: request_handler where
  "vt_handle_vkBindBufferMemory e batch c =
     VT_REQUEST_BEGIN batch c (
     VT_REQUEST_SCOPE_COMMAND VK_OBJECT_TYPE_DEVICE VORTEK_HANDLE_ROLE_VULKAN (
     VT_REQUEST_DECODE e ''vkBindBufferMemory'' [Output, Output, Output, Output] (\<lambda>v _. let deviceId = v 0; bufferId = v 1;
       memoryId = v 2; memoryOffset = v 3 in
     VT_REQUEST_HANDLE deviceId VK_OBJECT_TYPE_DEVICE VORTEK_HANDLE_ROLE_VULKAN True False False (\<lambda>device.
     VT_REQUEST_HANDLE bufferId VK_OBJECT_TYPE_BUFFER VORTEK_HANDLE_ROLE_VULKAN True True False (\<lambda>buffer.
     VT_REQUEST_HANDLE memoryId VK_OBJECT_TYPE_UNKNOWN VORTEK_HANDLE_ROLE_RESOURCE_MEMORY True True False (\<lambda>resourceMemory.
     vulkan e ''vkBindBufferMemory'' [Handle device, Handle buffer, Handle (env_memory e resourceMemory), Value memoryOffset] (\<lambda>a.
     let result = drv_result a in
     only_if (result = VK_SUCCESS \<and> textureDecoder_images (env_context e) \<noteq> None) (\<lambda>k.
       component e ''TextureDecoder_addBoundBuffer'' [Handle resourceMemory, Handle buffer, Value memoryOffset] (\<lambda>_. k)) (
     VT_REQUEST_SEND e result None 0 Some))))))))"

definition vt_handle_vkGetImageSparseMemoryRequirements :: request_handler where
  "vt_handle_vkGetImageSparseMemoryRequirements e batch c =
     VT_REQUEST_BEGIN batch c (
     VT_REQUEST_SCOPE_COMMAND VK_OBJECT_TYPE_DEVICE VORTEK_HANDLE_ROLE_VULKAN (
     VT_REQUEST_DECODE e ''vkGetImageSparseMemoryRequirements'' [Output, Output, Output, Null] (\<lambda>v _. let deviceId = v 0;
       imageId = v 1; requirementCount = v 2 in
     VT_REQUEST_HANDLE deviceId VK_OBJECT_TYPE_DEVICE VORTEK_HANDLE_ROLE_VULKAN True False False (\<lambda>device.
     VT_REQUEST_HANDLE imageId VK_OBJECT_TYPE_IMAGE VORTEK_HANDLE_ROLE_VULKAN True True False (\<lambda>image.
     let guestCapacity = (ucast requirementCount :: u32) in
     vulkan e ''vkGetImageSparseMemoryRequirements'' [Handle device, Handle image, Output, Null] (\<lambda>a.
       let serverActual = (ucast (drv_value a 2) :: u32) in
     VT_REQUEST_ARRAY e (if 0 < guestCapacity then ucast serverActual else 0) 48 (\<lambda>requirements_at.
     call_if (requirements_at \<noteq> None) (vulkan e ''vkGetImageSparseMemoryRequirements'' [Handle device, Handle image,
       Value (ucast serverActual), Output]) (\<lambda>a2.
     let hostCount = (if requirements_at = None then serverActual else ucast (drv_value a2 2));
         count = (if guestCapacity = 0 then serverActual else vt_request_query_copy_count guestCapacity hostCount) in
     VT_SERIALIZE_CMD e ''vkGetImageSparseMemoryRequirements'' [Null, Null, Value (ucast count),
       array_argument requirements_at (drv_bytes a2 3)] (\<lambda>outputBuffer bufferSize.
     VT_REQUEST_SEND e VK_SUCCESS outputBuffer bufferSize Some)))))))))"

definition vt_handle_vkGetPhysicalDeviceSparseImageFormatProperties :: request_handler where
  "vt_handle_vkGetPhysicalDeviceSparseImageFormatProperties e batch c =
     VT_REQUEST_BEGIN batch c (
     VT_REQUEST_SCOPE_COMMAND VK_OBJECT_TYPE_PHYSICAL_DEVICE VORTEK_HANDLE_ROLE_VULKAN (
     VT_REQUEST_DECODE e ''vkGetPhysicalDeviceSparseImageFormatProperties'' [Output, Output, Output, Output, Output, Output, Output,
       Null] (\<lambda>v _. let physicalDeviceId = v 0; format = v 1; type = v 2; samples = v 3; usage = v 4; tiling = v 5;
         propertyCount = v 6 in
     VT_REQUEST_HANDLE physicalDeviceId VK_OBJECT_TYPE_PHYSICAL_DEVICE VORTEK_HANDLE_ROLE_VULKAN True False False (\<lambda>physicalDevice.
     let guestCapacity = (ucast propertyCount :: u32) in
     vulkan e ''vkGetPhysicalDeviceSparseImageFormatProperties'' [Handle physicalDevice, Value format, Value type, Value samples,
       Value usage, Value tiling, Output, Null] (\<lambda>a. let serverActual = (ucast (drv_value a 6) :: u32) in
     VT_REQUEST_ARRAY e (if 0 < guestCapacity then ucast serverActual else 0) 20 (\<lambda>properties_at.
     call_if (properties_at \<noteq> None) (vulkan e ''vkGetPhysicalDeviceSparseImageFormatProperties'' [Handle physicalDevice, Value format,
       Value type, Value samples, Value usage, Value tiling, Value (ucast serverActual), Output]) (\<lambda>a2.
     let hostCount = (if properties_at = None then serverActual else ucast (drv_value a2 6));
         count = (if guestCapacity = 0 then serverActual else vt_request_query_copy_count guestCapacity hostCount) in
     VT_SERIALIZE_CMD e ''vkGetPhysicalDeviceSparseImageFormatProperties'' [Null, Value format, Value type, Value samples, Value usage,
       Value tiling, Value (ucast count), array_argument properties_at (drv_bytes a2 7)] (\<lambda>outputBuffer bufferSize.
     VT_REQUEST_SEND e VK_SUCCESS outputBuffer bufferSize Some))))))))"

definition vt_handle_vkCreateFence :: request_handler where
  "vt_handle_vkCreateFence e batch c =
     VT_REQUEST_BEGIN batch c (
     VT_REQUEST_SCOPE_COMMAND VK_OBJECT_TYPE_DEVICE VORTEK_HANDLE_ROLE_VULKAN (
     VT_REQUEST_DECODE e ''vkCreateFence'' [Output, Output, Null, Null] (\<lambda>v b. let deviceId = v 0; createInfo = b 1 in
     VT_REQUEST_HANDLE deviceId VK_OBJECT_TYPE_DEVICE VORTEK_HANDLE_ROLE_VULKAN True False False (\<lambda>device.
     let exportFenceInfo = Struct [(''sType'', Value 1000113000), (''handleTypes'', Value 8),
           (''pNext'', Value (env_member e ''pNext'' createInfo))] [] in
     vulkan e ''vkCreateFence'' [Handle device, Struct [(''pNext'', exportFenceInfo)] createInfo, Null, Output] (\<lambda>a.
     let result = drv_result a; fence = drv_value a 3 in
     with_instance_owner (\<lambda>inst.
     VT_REQUEST_PUBLISH_RESULT e result VK_OBJECT_TYPE_FENCE VORTEK_HANDLE_ROLE_VULKAN fence inst deviceId device (\<lambda>token.
     VT_SERIALIZE_CMD e ''VkFence'' [Value token] (\<lambda>outputBuffer bufferSize.
     VT_REQUEST_SEND e result outputBuffer bufferSize Some))))))))"

definition vt_handle_vkWaitForFences :: request_handler where
  "vt_handle_vkWaitForFences e batch c =
     VT_REQUEST_BEGIN batch c (
     VT_REQUEST_SCOPE_COMMAND VK_OBJECT_TYPE_DEVICE VORTEK_HANDLE_ROLE_VULKAN (
     VT_REQUEST_DECODE e ''vkWaitForFences'' [Output, Output, Null, Output, Output] (\<lambda>v _. let deviceId = v 0; fenceCount = v 1;
       waitAll = v 3; timeout = v 4 in
     VT_REQUEST_HANDLE deviceId VK_OBJECT_TYPE_DEVICE VORTEK_HANDLE_ROLE_VULKAN True False False (\<lambda>device.
     VT_REQUEST_ARRAY e fenceCount 8 (\<lambda>fences_at.
     VT_REQUEST_DECODE e ''vkWaitForFences'' [Null, Null, array_output fences_at, Null, Null] (\<lambda>_ b. let fences = b 2 in
     if timeout = 0 then vulkan e ''vkWaitForFences'' [Handle device, Value fenceCount, array_argument fences_at fences, Value waitAll,
       Value timeout]
       (\<lambda>a. VT_REQUEST_SEND e (drv_result a) None 0 Some)
     else if of_nat MAX_FDS < fenceCount then protocol_error else (
     VT_REQUEST_ARRAY e fenceCount 4 (\<lambda>fds_at.
     fence_fds e device (map (handle_at fences) [0..<unat fenceCount]) [] (\<lambda>result fds.
     VT_SEND_FDS e fds (if result = VK_SUCCESS then int (length fds) else 0) result (
     did (concat (map close_fd fds)) Some))))))))))"

definition vt_handle_vkDestroyBuffer :: request_handler where
  "vt_handle_vkDestroyBuffer e batch c =
     VT_REQUEST_BEGIN batch c (
     VT_REQUEST_SCOPE_COMMAND VK_OBJECT_TYPE_DEVICE VORTEK_HANDLE_ROLE_VULKAN (
     VT_REQUEST_DECODE e ''vkDestroyBuffer'' [Output, Output, Null] (\<lambda>v _. let deviceId = v 0; bufferId = v 1 in
     VT_REQUEST_HANDLE deviceId VK_OBJECT_TYPE_DEVICE VORTEK_HANDLE_ROLE_VULKAN True False False (\<lambda>device.
     VT_REQUEST_RETIRED_HANDLE bufferId VK_OBJECT_TYPE_BUFFER VORTEK_HANDLE_ROLE_VULKAN True True True (\<lambda>buffer.
     only_if (textureDecoder_images (env_context e) \<noteq> None) (did [Host (RemoveBoundBuffer buffer)]) (
     vulkan e ''vkDestroyBuffer'' [Handle device, Handle buffer, Null] (\<lambda>_. Some)))))))"

definition vt_handle_vkCreateImage :: request_handler where
  "vt_handle_vkCreateImage e batch c =
     VT_REQUEST_BEGIN batch c (
     VT_REQUEST_SCOPE_COMMAND VK_OBJECT_TYPE_DEVICE VORTEK_HANDLE_ROLE_VULKAN (
     VT_REQUEST_DECODE e ''vkCreateImage'' [Output, Output, Null, Null] (\<lambda>v b. let deviceId = v 0; createInfo = b 1 in
     VT_REQUEST_HANDLE deviceId VK_OBJECT_TYPE_DEVICE VORTEK_HANDLE_ROLE_VULKAN True False False (\<lambda>device.
     let decoded = (textureDecoder_images (env_context e) \<noteq> None \<and> isCompressedFormat (env_member e ''format'' createInfo));
         creates = (if decoded then component e ''TextureDecoder_createImage'' [Handle device, Bytes createInfo, Output]
                    else vulkan e ''vkCreateImage'' [Handle device, Bytes createInfo, Null, Output]) in
     creates (\<lambda>a. let result = drv_result a; image = drv_value a (if decoded then 2 else 3) in
     only_if (decoded \<and> result = VK_SUCCESS) client_must_wait (
     with_instance_owner (\<lambda>inst.
     VT_REQUEST_PUBLISH_RESULT e result VK_OBJECT_TYPE_IMAGE VORTEK_HANDLE_ROLE_VULKAN image inst deviceId device (\<lambda>token.
     VT_SERIALIZE_CMD e ''VkImage'' [Value token] (\<lambda>outputBuffer bufferSize.
     VT_REQUEST_SEND e result outputBuffer bufferSize Some)))))))))"

definition vt_handle_vkDestroyImage :: request_handler where
  "vt_handle_vkDestroyImage e batch c =
     VT_REQUEST_BEGIN batch c (
     VT_REQUEST_SCOPE_COMMAND VK_OBJECT_TYPE_DEVICE VORTEK_HANDLE_ROLE_VULKAN (
     VT_REQUEST_DECODE e ''vkDestroyImage'' [Output, Output, Null] (\<lambda>v _. let deviceId = v 0; imageId = v 1 in
     VT_REQUEST_HANDLE deviceId VK_OBJECT_TYPE_DEVICE VORTEK_HANDLE_ROLE_VULKAN True False False (\<lambda>device.
     VT_REQUEST_RETIRED_HANDLE imageId VK_OBJECT_TYPE_IMAGE VORTEK_HANDLE_ROLE_VULKAN True True True (\<lambda>image. if holds_image e image
       then did [Host (TextureDestroyImage device image)] Some
     else vulkan e ''vkDestroyImage'' [Handle device, Handle image, Null] (\<lambda>_. Some))))))"

definition vt_handle_vkCreateImageView :: request_handler where
  "vt_handle_vkCreateImageView e batch c =
     VT_REQUEST_BEGIN batch c (
     VT_REQUEST_SCOPE_COMMAND VK_OBJECT_TYPE_DEVICE VORTEK_HANDLE_ROLE_VULKAN (
     VT_REQUEST_DECODE e ''vkCreateImageView'' [Output, Output, Null, Null] (\<lambda>v b. let deviceId = v 0; createInfo = b 1 in
     VT_REQUEST_HANDLE deviceId VK_OBJECT_TYPE_DEVICE VORTEK_HANDLE_ROLE_VULKAN True False False (\<lambda>device.
     let info = (if textureDecoder_images (env_context e) \<noteq> None \<and> isCompressedFormat (env_member e ''format'' createInfo)
           then Struct [(''format'', Value DECOMPRESSED_FORMAT), (''subresourceRange.levelCount'',
       Value 1)] createInfo else Bytes createInfo) in
     vulkan e ''vkCreateImageView'' [Handle device, info, Null, Output] (\<lambda>a. let result = drv_result a; view = drv_value a 3 in
     with_instance_owner (\<lambda>inst.
     VT_REQUEST_PUBLISH_RESULT e result VK_OBJECT_TYPE_IMAGE_VIEW VORTEK_HANDLE_ROLE_VULKAN view inst deviceId device (\<lambda>token.
     VT_SERIALIZE_CMD e ''VkImageView'' [Value token] (\<lambda>outputBuffer bufferSize.
     VT_REQUEST_SEND e result outputBuffer bufferSize Some))))))))"

definition vt_handle_vkCreateShaderModule :: request_handler where
  "vt_handle_vkCreateShaderModule e batch c =
     VT_REQUEST_BEGIN batch c (
     VT_REQUEST_SCOPE_COMMAND VK_OBJECT_TYPE_DEVICE VORTEK_HANDLE_ROLE_VULKAN (
     VT_REQUEST_DECODE e ''vkCreateShaderModule'' [Output, Output, Null, Null] (\<lambda>v b. let deviceId = v 0; createInfo = b 1 in
     VT_REQUEST_HANDLE deviceId VK_OBJECT_TYPE_DEVICE VORTEK_HANDLE_ROLE_VULKAN True False False (\<lambda>device.
     component e ''ShaderInspector_createModule'' [Handle device, Value (env_member e ''pCode'' createInfo),
       Value (env_member e ''codeSize'' createInfo), Output] (\<lambda>a. let result = drv_result a; shaderModule = drv_value a 3 in
     with_instance_owner (\<lambda>inst.
     VT_REQUEST_PUBLISH_RESULT e result VK_OBJECT_TYPE_UNKNOWN VORTEK_HANDLE_ROLE_SHADER_MODULE shaderModule inst deviceId device
       (\<lambda>token.
     VT_SERIALIZE_CMD e ''VkShaderModule'' [Value token] (\<lambda>outputBuffer bufferSize.
     VT_REQUEST_SEND e result outputBuffer bufferSize Some))))))))"

definition vt_handle_vkDestroyShaderModule :: request_handler where
  "vt_handle_vkDestroyShaderModule e batch c =
     VT_REQUEST_BEGIN batch c (
     VT_REQUEST_SCOPE_COMMAND VK_OBJECT_TYPE_DEVICE VORTEK_HANDLE_ROLE_VULKAN (
     VT_REQUEST_DECODE e ''vkDestroyShaderModule'' [Output, Output, Null] (\<lambda>v _. let deviceId = v 0; shaderModuleId = v 1 in
     VT_REQUEST_HANDLE deviceId VK_OBJECT_TYPE_DEVICE VORTEK_HANDLE_ROLE_VULKAN True False False (\<lambda>device.
     VT_REQUEST_RETIRED_HANDLE shaderModuleId VK_OBJECT_TYPE_UNKNOWN VORTEK_HANDLE_ROLE_SHADER_MODULE True True True (\<lambda>shaderModule.
     did [Host (DestroyVkObject VK_OBJECT_TYPE_SHADER_MODULE device shaderModule)] Some)))))"

definition vt_handle_vkAllocateDescriptorSets :: request_handler where
  "vt_handle_vkAllocateDescriptorSets e batch c =
     VT_REQUEST_BEGIN batch c (
     VT_REQUEST_SCOPE_COMMAND VK_OBJECT_TYPE_DEVICE VORTEK_HANDLE_ROLE_VULKAN (
     VT_REQUEST_AUTHORITY (capture_begin 22 1) (
     VT_REQUEST_DECODE e ''vkAllocateDescriptorSets'' [Output, Output, Null] (\<lambda>v b. let deviceId = v 0; allocateInfo = b 1 in
     captured_tokens (\<lambda>descriptorPoolToken.
     VT_REQUEST_AUTHORITY (capture_complete 1) (
     VT_REQUEST_HANDLE deviceId VK_OBJECT_TYPE_DEVICE VORTEK_HANDLE_ROLE_VULKAN True False False (\<lambda>device.
     let count = env_member e ''descriptorSetCount'' allocateInfo; descriptorPool = env_member e ''descriptorPool'' allocateInfo;
         bufferSize = unat count * 8 in
     VT_REQUEST_ARRAY e count 8 (\<lambda>descriptorSets_at.
     with_context (\<lambda>c1.
     if \<not> vt_transport_size_fits bufferSize (ring_size c1) (CLIENT_RING_BUFFER_SIZE - HEADER_SIZE) then protocol_error else (
     vulkan e ''vkAllocateDescriptorSets'' [Handle device, Bytes allocateInfo, array_output descriptorSets_at] (\<lambda>a.
       let result = drv_result a;
         descriptorSets = (if descriptorSets_at = None then None else Some (map (drv_handles a 2) [0..<unat count])) in
     with_instance_owner (\<lambda>inst.
     (\<lambda>k. if result \<noteq> VK_SUCCESS then k (map_option (\<lambda>hs. map (\<lambda>_. 0) hs) descriptorSets)
       else VT_PUBLISH_BATCH e VK_OBJECT_TYPE_DESCRIPTOR_SET descriptorSets (unat count)
         \<lparr>own_instance = inst, own_device = deviceId,
       own_parent = hd descriptorPoolToken\<rparr> VT_REQUEST_PUBLICATION_DESCRIPTOR_SETS
         device descriptorPool (vulkan e ''vkFreeDescriptorSets'' [Handle device, Value descriptorPool, Value count,
           token_argument descriptorSets] (\<lambda>_. protocol_error)) k) (\<lambda>tokens.
     VT_REQUEST_OUTPUT e (of_nat bufferSize) (
     VT_REQUEST_SEND e result (map_option (\<lambda>ts. concat (map (le_bytes 8) ts)) tokens) (int bufferSize) Some))))))))))))))"

definition vt_handle_vkAllocateCommandBuffers :: request_handler where
  "vt_handle_vkAllocateCommandBuffers e batch c =
     VT_REQUEST_BEGIN batch c (
     VT_REQUEST_SCOPE_COMMAND VK_OBJECT_TYPE_DEVICE VORTEK_HANDLE_ROLE_VULKAN (
     VT_REQUEST_AUTHORITY (capture_begin 25 1) (
     VT_REQUEST_DECODE e ''vkAllocateCommandBuffers'' [Output, Output, Null] (\<lambda>v b. let deviceId = v 0; allocateInfo = b 1 in
     captured_tokens (\<lambda>commandPoolToken.
     VT_REQUEST_AUTHORITY (capture_complete 1) (
     VT_REQUEST_HANDLE deviceId VK_OBJECT_TYPE_DEVICE VORTEK_HANDLE_ROLE_VULKAN True False False (\<lambda>device.
     let count = env_member e ''commandBufferCount'' allocateInfo; commandPool = env_member e ''commandPool'' allocateInfo in
     VT_REQUEST_ARRAY e count 8 (\<lambda>commandBuffers_at.
     vulkan e ''vkAllocateCommandBuffers'' [Handle device, Bytes allocateInfo, array_output commandBuffers_at] (\<lambda>a.
       let result = drv_result a;
         commandBuffers = (if commandBuffers_at = None then None else Some (map (drv_handles a 2) [0..<unat count])) in
     with_instance_owner (\<lambda>inst.
     (\<lambda>k. if result \<noteq> VK_SUCCESS then k (map_option (\<lambda>hs. map (\<lambda>_. 0) hs) commandBuffers)
       else VT_PUBLISH_BATCH e VK_OBJECT_TYPE_COMMAND_BUFFER commandBuffers (unat count)
         \<lparr>own_instance = inst, own_device = deviceId, own_parent = hd commandPoolToken\<rparr> VT_REQUEST_PUBLICATION_COMMAND_BUFFERS
         device commandPool (vulkan e ''vkFreeCommandBuffers'' [Handle device, Value commandPool, Value count,
           token_argument commandBuffers] (\<lambda>_. protocol_error)) k) (\<lambda>tokens.
     VT_SERIALIZE_CMD e ''vkAllocateCommandBuffers'' [Null, Bytes allocateInfo, token_argument tokens] (\<lambda>outputBuffer bufferSize.
     VT_REQUEST_SEND e result outputBuffer bufferSize Some))))))))))))"

definition vt_handle_vkCmdCopyBufferToImage :: request_handler where
  "vt_handle_vkCmdCopyBufferToImage e batch c =
     VT_REQUEST_BEGIN batch c (
     VT_REQUEST_SCOPE_COMMAND VK_OBJECT_TYPE_COMMAND_BUFFER VORTEK_HANDLE_ROLE_VULKAN (
     VT_REQUEST_DECODE e ''vkCmdCopyBufferToImage'' [Output, Output, Output, Output, Output, Null] (\<lambda>v _. let commandBufferId = v 0;
       srcBufferId = v 1; dstImageId = v 2; dstImageLayout = v 3;
         regionCount = v 4 in
     VT_REQUEST_HANDLE commandBufferId VK_OBJECT_TYPE_COMMAND_BUFFER VORTEK_HANDLE_ROLE_VULKAN True True False (\<lambda>commandBuffer.
     VT_REQUEST_HANDLE srcBufferId VK_OBJECT_TYPE_BUFFER VORTEK_HANDLE_ROLE_VULKAN True True False (\<lambda>srcBuffer.
     VT_REQUEST_HANDLE dstImageId VK_OBJECT_TYPE_IMAGE VORTEK_HANDLE_ROLE_VULKAN True True False (\<lambda>dstImage.
     VT_REQUEST_ARRAY e regionCount 56 (\<lambda>regions_at.
     VT_REQUEST_DECODE e ''vkCmdCopyBufferToImage'' [Null, Null, Null, Null, Null, array_output regions_at] (\<lambda>_ b.
       let regions = b 5 in if \<not> holds_image e dstImage then
       vulkan e ''vkCmdCopyBufferToImage'' [Handle commandBuffer, Handle srcBuffer, Handle dstImage, Value dstImageLayout,
         Value regionCount, array_argument regions_at regions] (\<lambda>_. Some)
     else if regions_at = None then (\<lambda>_. None)
     else if 0 < env_member e ''imageSubresource.mipLevel'' (take 56 regions) then Some
     else component e ''TextureDecoder_copyBufferToImage'' [Handle commandBuffer, Handle srcBuffer, Handle dstImage, Value dstImageLayout,
       Value (env_member e ''bufferOffset'' (take 56 regions))] (\<lambda>_. Some)))))))))"

definition vt_handle_vkCmdPushConstants :: request_handler where
  "vt_handle_vkCmdPushConstants e batch c =
     VT_REQUEST_BEGIN batch c (
     VT_REQUEST_SCOPE_COMMAND VK_OBJECT_TYPE_COMMAND_BUFFER VORTEK_HANDLE_ROLE_VULKAN (
     VT_REQUEST_DECODE e ''vkCmdPushConstants'' [Output, Output, Output, Output, Output, Null] (\<lambda>v _. let commandBufferId = v 0;
       layoutId = v 1; stageFlags = v 2; offset = v 3; sz = v 4 in
     VT_REQUEST_HANDLE commandBufferId VK_OBJECT_TYPE_COMMAND_BUFFER VORTEK_HANDLE_ROLE_VULKAN True True False (\<lambda>commandBuffer.
     VT_REQUEST_HANDLE layoutId VK_OBJECT_TYPE_PIPELINE_LAYOUT VORTEK_HANDLE_ROLE_VULKAN True True False (\<lambda>layout.
     VT_REQUEST_ARRAY e sz 1 (\<lambda>values_at.
     VT_REQUEST_DECODE e ''vkCmdPushConstants'' [Null, Null, Null, Null, Null, array_output values_at] (\<lambda>_ b.
       let values = array_argument values_at (b 5);
         stageFlags = with_fragment_stage stageFlags in
     vulkan e ''vkCmdPushConstants'' [Handle commandBuffer, Handle layout, Value stageFlags, Value offset, Value sz,
       values] (\<lambda>_. Some))))))))"

definition vt_handle_vkDestroySwapchainKHR :: request_handler where
  "vt_handle_vkDestroySwapchainKHR e batch c =
     VT_REQUEST_BEGIN batch c (
     VT_REQUEST_SCOPE_COMMAND VK_OBJECT_TYPE_DEVICE VORTEK_HANDLE_ROLE_VULKAN (
     VT_REQUEST_DECODE e ''vkDestroySwapchainKHR'' [Output, Output, Null] (\<lambda>v _. let deviceId = v 0; swapchainId = v 1 in
     VT_REQUEST_HANDLE deviceId VK_OBJECT_TYPE_DEVICE VORTEK_HANDLE_ROLE_VULKAN True False False (\<lambda>device.
     VT_REQUEST_RETIRED_HANDLE swapchainId VK_OBJECT_TYPE_UNKNOWN VORTEK_HANDLE_ROLE_XWINDOW_SWAPCHAIN True True True (\<lambda>swapchain.
     VT_REQUEST_AUTHORITY (tombstone_children swapchainId) (
     did [Host (XWindowSwapchainDestroy device swapchain)] Some))))))"

definition vt_handle_vkGetSwapchainImagesKHR :: request_handler where
  "vt_handle_vkGetSwapchainImagesKHR e batch c =
     VT_REQUEST_BEGIN batch c (
     VT_REQUEST_SCOPE_COMMAND VK_OBJECT_TYPE_DEVICE VORTEK_HANDLE_ROLE_VULKAN (
     VT_REQUEST_DECODE e ''vkGetSwapchainImagesKHR'' [Output, Output, Output, Null] (\<lambda>v _. let deviceId = v 0; swapchainId = v 1;
       swapchainImageCount = v 2 in
     VT_REQUEST_HANDLE deviceId VK_OBJECT_TYPE_DEVICE VORTEK_HANDLE_ROLE_VULKAN True False False (\<lambda>device.
     VT_REQUEST_HANDLE swapchainId VK_OBJECT_TYPE_UNKNOWN VORTEK_HANDLE_ROLE_XWINDOW_SWAPCHAIN True True False (\<lambda>swapchain.
     let guestCapacity = (ucast swapchainImageCount :: u32); images = env_swapchain_images e swapchain;
         serverActual = (of_nat (length images) :: u32);
         returnedCount = (if 0 < guestCapacity then vt_request_query_copy_count guestCapacity serverActual else 0) in
     VT_REQUEST_ARRAY e (ucast returnedCount) 8 (\<lambda>swapchainImages_at.
     let swapchainImages = (if swapchainImages_at = None then None else Some (take (unat returnedCount) images));
         count = (if guestCapacity = 0 then serverActual else vt_request_query_copy_count guestCapacity serverActual);
         result = vt_request_query_result VK_SUCCESS (guestCapacity \<noteq> 0) guestCapacity serverActual in
     with_instance_owner (\<lambda>inst.
     VT_PUBLISH_BATCH e VK_OBJECT_TYPE_IMAGE swapchainImages (unat returnedCount)
         \<lparr>own_instance = inst, own_device = deviceId,
       own_parent = swapchainId\<rparr> VT_REQUEST_PUBLICATION_NONE 0 0 protocol_error (\<lambda>tokens.
     VT_SERIALIZE_CMD e ''vkGetSwapchainImagesKHR'' [Null, Null, Value (ucast count),
       token_argument tokens] (\<lambda>outputBuffer bufferSize.
     VT_REQUEST_SEND e result outputBuffer bufferSize Some)))))))))"

definition vt_handle_vkAcquireNextImageKHR :: request_handler where
  "vt_handle_vkAcquireNextImageKHR e batch c =
     VT_REQUEST_BEGIN batch c (
     VT_REQUEST_SCOPE_COMMAND VK_OBJECT_TYPE_DEVICE VORTEK_HANDLE_ROLE_VULKAN (
     VT_REQUEST_DECODE e ''vkAcquireNextImageKHR'' [Output, Output, Output, Output, Output, Null] (\<lambda>v _. let deviceId = v 0;
       swapchainId = v 1; timeout = v 2; semaphoreId = v 3; fenceId = v 4 in
     VT_REQUEST_HANDLE deviceId VK_OBJECT_TYPE_DEVICE VORTEK_HANDLE_ROLE_VULKAN True False False (\<lambda>device.
     VT_REQUEST_HANDLE swapchainId VK_OBJECT_TYPE_UNKNOWN VORTEK_HANDLE_ROLE_XWINDOW_SWAPCHAIN True True False (\<lambda>swapchain.
     VT_REQUEST_HANDLE semaphoreId VK_OBJECT_TYPE_SEMAPHORE VORTEK_HANDLE_ROLE_VULKAN True True True (\<lambda>semaphore.
     VT_REQUEST_HANDLE fenceId VK_OBJECT_TYPE_FENCE VORTEK_HANDLE_ROLE_VULKAN True True True (\<lambda>fence.
     component e ''XWindowSwapchain_acquireNextImage'' [Handle swapchain, Value timeout, Handle semaphore, Handle fence, Output] (\<lambda>a.
     let result = drv_result a; imageIndex = drv_value a 4 in
     only_if (result = VK_ERROR_DEVICE_LOST) (set_status result) (
     VT_REQUEST_SEND e (if result = VK_SUCCESS then int_value imageIndex else result) None 0 Some)))))))))"

definition vt_handle_vkGetMemoryFdKHR :: request_handler where
  "vt_handle_vkGetMemoryFdKHR e batch c =
     VT_REQUEST_BEGIN batch c (
     VT_REQUEST_SCOPE_SIMPLE VK_OBJECT_TYPE_UNKNOWN VORTEK_HANDLE_ROLE_RESOURCE_MEMORY (
     VT_REQUEST_DECODE e ''VkDeviceMemory'' [Output] (\<lambda>v _. let memoryId = v 0 in
     VT_REQUEST_HANDLE memoryId VK_OBJECT_TYPE_UNKNOWN VORTEK_HANDLE_ROLE_RESOURCE_MEMORY True True False (\<lambda>resourceMemory.
     let fd = env_memory_fd e resourceMemory; result = (if fd \<noteq> - 1 then VK_SUCCESS else VK_ERROR_OUT_OF_HOST_MEMORY) in
     VT_SEND_FDS e [fd] (if result = VK_SUCCESS then 1 else 0) result Some))))"

definition vt_handle_vkGetSemaphoreFdKHR :: request_handler where
  "vt_handle_vkGetSemaphoreFdKHR e batch c =
     VT_REQUEST_BEGIN batch c (
     VT_REQUEST_SCOPE_COMMAND VK_OBJECT_TYPE_DEVICE VORTEK_HANDLE_ROLE_VULKAN (
     VT_REQUEST_DECODE e ''vkGetSemaphoreFdKHR'' [Output, Output, Null] (\<lambda>v b. let deviceId = v 0; getFdInfo = b 1 in
     VT_REQUEST_HANDLE deviceId VK_OBJECT_TYPE_DEVICE VORTEK_HANDLE_ROLE_VULKAN True False False (\<lambda>device.
     vulkan e ''vkGetSemaphoreFd'' [Handle device, Struct [(''handleType'', Value 16)] getFdInfo, Output] (\<lambda>a.
     let result = drv_result a; fd = int_value (drv_value a 2) in
     VT_SEND_FDS e [fd] (if result = VK_SUCCESS then 1 else 0) result (
     did (close_fd fd) Some))))))"

definition vt_handle_vkGetFenceFdKHR :: request_handler where
  "vt_handle_vkGetFenceFdKHR e batch c =
     VT_REQUEST_BEGIN batch c (
     VT_REQUEST_SCOPE_COMMAND VK_OBJECT_TYPE_DEVICE VORTEK_HANDLE_ROLE_VULKAN (
     VT_REQUEST_DECODE e ''vkGetFenceFdKHR'' [Output, Output, Null] (\<lambda>v b. let deviceId = v 0; getFdInfo = b 1 in
     VT_REQUEST_HANDLE deviceId VK_OBJECT_TYPE_DEVICE VORTEK_HANDLE_ROLE_VULKAN True False False (\<lambda>device.
     vulkan e ''vkGetFenceFd'' [Handle device, Struct [(''handleType'', Value 8)] getFdInfo, Output] (\<lambda>a.
     let result = drv_result a; fd = int_value (drv_value a 2) in
     VT_SEND_FDS e [fd] (if result = VK_SUCCESS then 1 else 0) result (
     did (close_fd fd) Some))))))"

definition vt_handle_vkAcquireNextImage2KHR :: request_handler where
  "vt_handle_vkAcquireNextImage2KHR e batch c =
     VT_REQUEST_BEGIN batch c (
     VT_REQUEST_DECODE e ''VkAcquireNextImageInfoKHR'' [Output] (\<lambda>_ b. let acquireInfo = b 0 in
     component e ''XWindowSwapchain_acquireNextImage'' [Value (env_member e ''swapchain'' acquireInfo),
       Value (env_member e ''timeout'' acquireInfo),
       Value (env_member e ''semaphore'' acquireInfo), Value (env_member e ''fence'' acquireInfo), Output] (\<lambda>a.
     let result = drv_result a; imageIndex = drv_value a 4 in
     only_if (result = VK_ERROR_DEVICE_LOST) (set_status result) (
     VT_REQUEST_SEND e (if result = VK_SUCCESS then int_value imageIndex else result) None 0 Some))))"

definition vt_handle_vkGetPhysicalDeviceCalibrateableTimeDomainsKHR :: request_handler where
  "vt_handle_vkGetPhysicalDeviceCalibrateableTimeDomainsKHR e batch c =
     VT_REQUEST_BEGIN batch c (
     VT_REQUEST_SCOPE_COMMAND VK_OBJECT_TYPE_PHYSICAL_DEVICE VORTEK_HANDLE_ROLE_VULKAN (
     VT_REQUEST_DECODE e ''vkGetPhysicalDeviceCalibrateableTimeDomainsKHR'' [Output, Output, Null] (\<lambda>v _. let physicalDeviceId = v 0;
       timeDomainCount = v 1 in
     VT_REQUEST_HANDLE physicalDeviceId VK_OBJECT_TYPE_PHYSICAL_DEVICE VORTEK_HANDLE_ROLE_VULKAN True False False (\<lambda>physicalDevice.
     let guestCapacity = (ucast timeDomainCount :: u32) in
     vulkan e ''vkGetPhysicalDeviceCalibrateableTimeDomains'' [Handle physicalDevice, Output, Null] (\<lambda>a. let result = drv_result a;
       serverActual = (ucast (drv_value a 1) :: u32) in
     VT_REQUEST_ARRAY e (if 0 < guestCapacity then ucast serverActual else 0) 4 (\<lambda>timeDomains_at.
     call_if (timeDomains_at \<noteq> None) (vulkan e ''vkGetPhysicalDeviceCalibrateableTimeDomains'' [Handle physicalDevice,
       Value (ucast serverActual), Output]) (\<lambda>a2.
     let result = (if timeDomains_at = None then result else drv_result a2);
         hostCount = (if timeDomains_at = None then serverActual else ucast (drv_value a2 1));
         count = (if guestCapacity = 0 then serverActual else vt_request_query_copy_count guestCapacity hostCount);
         result = vt_request_query_result result (guestCapacity \<noteq> 0) guestCapacity serverActual in
     VT_SERIALIZE_CMD e ''vkGetPhysicalDeviceCalibrateableTimeDomainsKHR'' [Null, Value (ucast count),
       array_argument timeDomains_at (drv_bytes a2 2)] (\<lambda>outputBuffer bufferSize.
     VT_REQUEST_SEND e result outputBuffer bufferSize Some))))))))"

definition vt_handle_vkCmdCopyBufferToImage2 :: request_handler where
  "vt_handle_vkCmdCopyBufferToImage2 e batch c =
     VT_REQUEST_BEGIN batch c (
     VT_REQUEST_SCOPE_COMMAND VK_OBJECT_TYPE_COMMAND_BUFFER VORTEK_HANDLE_ROLE_VULKAN (
     VT_REQUEST_DECODE e ''vkCmdCopyBufferToImage2'' [Output, Output] (\<lambda>v b. let commandBufferId = v 0; info = b 1 in
     VT_REQUEST_HANDLE commandBufferId VK_OBJECT_TYPE_COMMAND_BUFFER VORTEK_HANDLE_ROLE_VULKAN True True False (\<lambda>commandBuffer. if
       \<not> holds_image e (env_member e ''dstImage'' info) then vulkan e ''vkCmdCopyBufferToImage2'' [Handle commandBuffer,
       Bytes info] (\<lambda>_. Some)
     else if env_member e ''pRegions'' info = 0 then (\<lambda>_. None)
     else if 0 < env_member e ''pRegions[0].imageSubresource.mipLevel'' info then Some
     else component e ''TextureDecoder_copyBufferToImage'' [Handle commandBuffer, Value (env_member e ''srcBuffer'' info),
       Value (env_member e ''dstImage'' info), Value (env_member e ''dstImageLayout'' info),
       Value (env_member e ''pRegions[0].bufferOffset'' info)] (\<lambda>_. Some)))))"

definition vt_handle_vkQueueSubmit2 :: request_handler where
  "vt_handle_vkQueueSubmit2 e batch c =
     VT_REQUEST_BEGIN batch c (
     VT_REQUEST_SCOPE_COMMAND VK_OBJECT_TYPE_QUEUE VORTEK_HANDLE_ROLE_VULKAN (
     VT_REQUEST_DECODE e ''vkQueueSubmit2'' [Output, Output, Null, Output] (\<lambda>v _. let queueId = v 0; submitCount = v 1;
       fenceId = v 3 in
     VT_REQUEST_HANDLE queueId VK_OBJECT_TYPE_QUEUE VORTEK_HANDLE_ROLE_VULKAN True True False (\<lambda>queue.
     VT_REQUEST_HANDLE fenceId VK_OBJECT_TYPE_FENCE VORTEK_HANDLE_ROLE_VULKAN True True True (\<lambda>fence.
     client_waiting (\<lambda>clientWaiting.
     only_if (textureDecoder_images (env_context e) \<noteq> None) (decode_textures e) (
     VT_REQUEST_ARRAY e submitCount 64 (\<lambda>submits_at.
     VT_REQUEST_DECODE e ''vkQueueSubmit2'' [Null, Null, array_output submits_at, Null] (\<lambda>_ b.
       let submits = array_argument submits_at (b 2) in
     vulkan e ''vkQueueSubmit2'' [Handle queue, Value submitCount, submits, Handle fence] (\<lambda>a. let result = drv_result a in
     only_if (result = VK_ERROR_DEVICE_LOST) (set_status result) (
     only_if clientWaiting (VT_REQUEST_SEND e result None 0) Some)))))))))))"

end
