(* ===== verification/Request_Replies.thy ===== *)
theory Request_Replies
  imports Request_Rules Handlers_Special
begin

text \<open>
  The responses of a handler, counted along its text.
\<close>

section \<open>Replies\<close>

text \<open>A part of a handler sends a number of responses in \<open>N\<close>, or it sends none and stops the context.\<close>

definition replied :: "nat set \<Rightarrow> RequestContext \<Rightarrow> RequestContext \<Rightarrow> bool" where
  "replied N c c' \<longleftrightarrow> (\<exists>es. rc_events c' = rc_events c @ es \<and> (responses es \<in> N \<or> stopping c' \<and> responses es = 0))"

definition replies :: "nat set \<Rightarrow> step \<Rightarrow> bool" where
  "replies N k \<longleftrightarrow> (\<forall>q q'. k q = Some q' \<longrightarrow> replied N (rq_context q) (rq_context q'))"

definition handler_replies :: "nat set \<Rightarrow> request_handler \<Rightarrow> bool" where
  "handler_replies N h \<longleftrightarrow> (\<forall>e batch c s c'. h e batch c = Some (s, c') \<longrightarrow> replied N c c')"

lemma repliesI: "(\<And>q q'. k q = Some q' \<Longrightarrow> replied N (rq_context q) (rq_context q')) \<Longrightarrow> replies N k"
  by (simp add: replies_def)

lemma repliesD: "replies N k \<Longrightarrow> k q = Some q' \<Longrightarrow> replied N (rq_context q) (rq_context q')"
  by (simp add: replies_def)

lemma replied_stops: "stops q q' \<Longrightarrow> replied N (rq_context q) (rq_context q')"
  by (auto simp: stops_def replied_def cleanup_responses)

lemma replied_after:
  assumes "replied N c1 c'" "rc_events c1 = rc_events c @ es" "responses es = 0"
  shows "replied N c c'"
  using assms by (auto simp: replied_def)

lemma replied_same: "replied N c1 c' \<Longrightarrow> rc_events c1 = rc_events c \<Longrightarrow> replied N c c'"
  by (simp add: replied_def)

lemma replies_continues: "continues m K \<Longrightarrow> (\<And>k. K k \<Longrightarrow> replies N k) \<Longrightarrow> replies N m"
  unfolding continues_def outcome_def
  by (rule repliesI) (metis plain_def replied_same replied_stops repliesD)

named_theorems reply_rules

lemma replies_Some [reply_rules]: "replies {0} Some" "replies {0, 1} Some" "replies N (\<lambda>_. None)"
  by (auto simp: replies_def replied_def)

lemma replies_protocol_error [reply_rules]: "replies N protocol_error"
  by (rule repliesI) (blast intro: replied_stops protocol_error_iff [OF _ plain_simps(1)])

lemma replies_if [reply_rules]: "replies N k \<Longrightarrow> replies N m \<Longrightarrow> replies N (if b then k else m)"
  by simp

lemma replies_if_applied [reply_rules]: "replies N k \<Longrightarrow> replies N m \<Longrightarrow> replies N (\<lambda>q. if b then k q else m q)"
  by (cases b) simp_all

lemma replies_if_then [reply_rules]: "replies N (f k) \<Longrightarrow> replies N (g k) \<Longrightarrow> replies N ((if b then f else g) k)"
  by simp

lemma replies_plain [reply_rules]:
  "(\<And>v b. replies N (k1 v b)) \<Longrightarrow> replies N (VT_REQUEST_DECODE e name args k1)"
  "(\<And>place. replies N (k2 place)) \<Longrightarrow> replies N (VT_REQUEST_ARRAY e count sz k2)"
  "replies N k3 \<Longrightarrow> replies N (VT_REQUEST_SCOPE_AT offset type role k3)"
  "(\<And>h. replies N (k4 h)) \<Longrightarrow> replies N (VT_REQUEST_HANDLE token type role ri rd an k4)"
  "replies N k3 \<Longrightarrow> replies N (VT_REQUEST_OUTPUT e sz k3)"
  "(\<And>d n. replies N (k5 d n)) \<Longrightarrow> replies N (VT_SERIALIZE_CMD e name args k5)"
  "(\<And>i. replies N (k4 i)) \<Longrightarrow> replies N (with_instance_owner k4)"
  "(\<And>c. replies N (k6 c)) \<Longrightarrow> replies N (with_context k6)"
  "(\<And>ts. replies N (k7 ts)) \<Longrightarrow> replies N (captured_tokens k7)"
  by (rule replies_continues [OF decode_continues] replies_continues [OF array_continues] replies_continues [OF scope_continues]
        replies_continues [OF handle_continues] replies_continues [OF output_continues] replies_continues [OF serialize_continues]
        replies_continues [OF owner_continues] replies_continues [OF context_continues] replies_continues [OF captured_continues];
      auto)+

lemma retire_events: "vt_request_retire_root_handle c r token type role ri rd an = (host, c') \<Longrightarrow> rc_events c' = rc_events c"
  by (auto simp: vt_request_retire_root_handle_def Let_def split: if_splits prod.splits)

lemma replies_retired [reply_rules]:
  assumes "\<And>h. replies N (k h)"
  shows "replies N (VT_REQUEST_RETIRED_HANDLE token type role ri rd an k)"
proof (rule repliesI)
  fix q q' assume run: "VT_REQUEST_RETIRED_HANDLE token type role ri rd an k q = Some q'"
  obtain host c where r: "vt_request_retire_root_handle (rq_context q) (rq_request q) token type role ri rd an = (host, c)" by fastforce
  then show "replied N (rq_context q) (rq_context q')"
    using run retire_events [OF r] repliesD [OF assms] repliesD [OF replies_protocol_error]
    by (auto simp: VT_REQUEST_RETIRED_HANDLE_def split: option.splits) (metis replied_same request.select_convs(2) request.surjective request.update_convs(2))+
qed


text \<open>An operation that does nothing outside, and then the rest.\<close>

lemma replies_then:
  assumes "replies N k" "k q1 = Some q'" "events q1 = events q"
  shows "replied N (rq_context q) (rq_context q')"
  using repliesD [OF assms(1,2)] assms(3) by (rule replied_same)

lemma replies_authority:
  assumes "\<And>q ok q1. call q = (ok, q1) \<Longrightarrow> events q1 = events q" "replies N k"
  shows "replies N (VT_REQUEST_AUTHORITY call k)"
proof (rule repliesI)
  fix q q' assume run: "VT_REQUEST_AUTHORITY call k q = Some q'"
  obtain ok q1 where c: "call q = (ok, q1)" by fastforce
  with run have "(if ok then k else protocol_error) q1 = Some q'" by (simp add: VT_REQUEST_AUTHORITY_def)
  then show "replied N (rq_context q) (rq_context q')"
    using replies_then assms c replies_protocol_error by (cases ok) (simp_all, blast+)
qed

lemma authority_calls_events:
  "tombstone_children p q = (ok, q') \<Longrightarrow> events q' = events q"
  "tombstone_batch e ts n type p q = (ok, q') \<Longrightarrow> events q' = events q"
  "validate_batch e ts n type p q = (ok, q') \<Longrightarrow> events q' = events q"
  "capture_begin t n q = (ok, q') \<Longrightarrow> events q' = events q"
  "capture_complete n q = (ok, q') \<Longrightarrow> events q' = events q"
  by (auto simp: tombstone_children_def tombstone_batch_def validate_batch_def capture_begin_def capture_complete_def
      vt_request_tombstone_children_def vt_request_tombstone_batch_def split: prod.splits if_splits)

lemma replies_calls [reply_rules]:
  assumes "replies N k"
  shows "replies N (VT_REQUEST_AUTHORITY (tombstone_children p) k)" "replies N (VT_REQUEST_AUTHORITY (tombstone_batch e ts n type p) k)"
    "replies N (VT_REQUEST_AUTHORITY (validate_batch e ts n type p) k)" "replies N (VT_REQUEST_AUTHORITY (capture_begin t n') k)"
    "replies N (VT_REQUEST_AUTHORITY (capture_complete n') k)"
  by (rule replies_authority [OF authority_calls_events(1) assms] replies_authority [OF authority_calls_events(2) assms]
        replies_authority [OF authority_calls_events(3) assms] replies_authority [OF authority_calls_events(4) assms]
        replies_authority [OF authority_calls_events(5) assms]; assumption)+

lemma replies_publish [reply_rules]:
  assumes "\<And>t. replies N (k t)"
  shows "replies N (VT_REQUEST_PUBLISH e type role host inst device dv k)"
proof (rule repliesI)
  fix q q' assume run: "VT_REQUEST_PUBLISH e type role host inst device dv k q = Some q'"
  obtain ok t q1 where p: "vt_request_publish_handle type role host inst device dv q = (ok, t, q1)" using prod_cases3 by blast
  note ev = publish_events [OF p]
  show "replied N (rq_context q) (rq_context q')"
  proof (cases ok)
    case True
    then show ?thesis using run p ev replies_then [OF assms] by (simp add: VT_REQUEST_PUBLISH_def)
  next
    case False
    then have "protocol_error (vt_request_rollback_output (env_context e) type role host dv q1) = Some q'"
      using run p by (simp add: VT_REQUEST_PUBLISH_def)
    then show ?thesis using ev
      by (auto simp: protocol_error_def replied_def cleanup_responses)
  qed
qed

lemma replies_publish_result [reply_rules]:
  assumes "\<And>t. replies N (k t)"
  shows "replies N (VT_REQUEST_PUBLISH_RESULT e result type role host inst device dv k)"
proof (rule repliesI)
  fix q q' assume run: "VT_REQUEST_PUBLISH_RESULT e result type role host inst device dv k q = Some q'"
  show "replied N (rq_context q) (rq_context q')"
  proof (cases "result = VK_SUCCESS")
    case True
    then show ?thesis using run repliesD [OF replies_publish [OF assms]] by (simp add: VT_REQUEST_PUBLISH_RESULT_def)
  next
    case False
    then have k: "k 0 (vt_request_rollback_output (env_context e) type role 0 dv q) = Some q'"
      using run by (simp add: VT_REQUEST_PUBLISH_RESULT_def)
    show ?thesis by (rule replies_then [OF assms k]) (simp add: rollback_events_def)
  qed
qed

lemma replies_publish_batch [reply_rules]:
  assumes "replies N failed" "\<And>t. replies N (k t)"
  shows "replies N (VT_PUBLISH_BATCH e type hosts n owner cl dv pa failed k)"
proof (rule repliesI)
  fix q q' assume run: "VT_PUBLISH_BATCH e type hosts n owner cl dv pa failed k q = Some q'"
  then obtain ok handles q1 where p: "vt_request_publish_vulkan_batch (env_mallocs e (rq_context q)) (env_realloc e (rq_context q))
      (env_calloc e (rq_context q)) type hosts 8 n owner cl dv pa q = Some (ok, handles, q1)"
    and k: "(if ok then k handles q1 else failed q1) = Some q'"
    by (auto simp: VT_PUBLISH_BATCH_def Let_def bind_eq_Some_conv)
  show "replied N (rq_context q) (rq_context q')"
    using k replies_then [OF _ _ publish_batch_events [OF p]] assms by (cases ok) auto
qed

section \<open>Calls and responses\<close>

lemma replies_vulkan [reply_rules]:
  assumes "\<And>a. replies N (k a)"
  shows "replies N (vulkan e name args k)"
proof (rule repliesI)
  fix q q' assume "vulkan e name args k q = Some q'"
  then have "replied N (rq_context (emitted [Called name args] q)) (rq_context q')"
    using repliesD [OF assms] by (simp add: vulkan_def)
  then show "replied N (rq_context q) (rq_context q')" by (rule replied_after [where es = "[Called name args]"]) simp_all
qed

lemma replies_component [reply_rules]: "(\<And>a. replies N (k a)) \<Longrightarrow> replies N (component e name args k)"
  by (simp add: component_def replies_vulkan)

lemma cleanup_rules [reply_rules]:
  "cleanup []" "cleanup [Host h]" "cleanup [Freed_descriptor_sets d p hs]" "cleanup [Freed_command_buffers d p hs]"
  by simp_all

lemma replies_did [reply_rules]:
  assumes "cleanup es" "replies N k"
  shows "replies N (did es k)"
proof (rule repliesI)
  fix q q' assume "did es k q = Some q'"
  then have "replied N (rq_context (emitted es q)) (rq_context q')" using repliesD [OF assms(2)] by (simp add: did_def)
  then show "replied N (rq_context q) (rq_context q')" by (rule replied_after [where es = es]) (simp_all add: cleanup_responses assms)
qed

lemma replies_status [reply_rules]: "replies N k \<Longrightarrow> replies N (set_status result k)"
  by (rule repliesI) (auto simp: set_status_def dest: repliesD intro: replied_same)

lemma replies_only_if [reply_rules]: "replies N (f k) \<Longrightarrow> replies N k \<Longrightarrow> replies N (only_if b f k)"
  by (simp add: only_if_def)

lemma send_replies:
  assumes "replies M k" "\<And>n. n \<in> insert 0 M \<Longrightarrow> Suc n \<in> N"
  shows "replies N (VT_REQUEST_SEND e code data sz k)"
proof (rule repliesI)
  fix q q' assume "VT_REQUEST_SEND e code data sz k q = Some q'"
  then obtain ok q1 where s: "vt_request_send_response (env_context e) (env_calloc e (rq_context q)) (env_ring e (rq_context q))
      (env_polls e (rq_context q)) code data sz q = Some (ok, q1)" and k: "(if ok then k q1 else Some q1) = Some q'"
    by (auto simp: VT_REQUEST_SEND_def Let_def bind_eq_Some_conv)
  note a = send_response_answered [OF s]
  show "replied N (rq_context q) (rq_context q')"
  proof (cases ok)
    case True
    then obtain x where x: "events q1 = events q @ [x]" "responded x" using a by (auto simp: answered_def)
    from True k have "replied M (rq_context q1) (rq_context q')" by (simp add: repliesD [OF assms(1)])
    then obtain es where es: "events q' = events q1 @ es" "responses es \<in> M \<or> stopping (rq_context q') \<and> responses es = 0"
      by (auto simp: replied_def)
    then show ?thesis using x assms(2) by (auto simp: replied_def)
  next
    case False
    then show ?thesis using a k by (auto simp: answered_def replied_def cleanup_responses)
  qed
qed


lemma replies_send [reply_rules]: "replies {0} k \<Longrightarrow> replies {1} (VT_REQUEST_SEND e code data sz k)"
  "replies {0} k \<Longrightarrow> replies {0, 1} (VT_REQUEST_SEND e code data sz k)"
  by (auto intro: send_replies)

text \<open>After descriptors were sent the handler only closes them, whatever came of it.\<close>

lemma fds_replies:
  assumes "cleanup es"
  shows "replies {1} (VT_SEND_FDS e fds n result (did es Some))"
proof (rule repliesI)
  fix q q' assume "VT_SEND_FDS e fds n result (did es Some) q = Some q'"
  then obtain ok q1 where s: "vt_request_send_fds_response (env_context e) (env_calloc e (rq_context q)) (env_clientFd e)
      (env_sendmsg e (rq_context q)) (Some fds) n (Some (le_bytes 4 (word_of_int result :: u32))) 4 q = Some (ok, q1)"
    and k: "q' = emitted es q1"
    by (auto simp: VT_SEND_FDS_def Let_def bind_eq_Some_conv did_def)
  show "replied {1} (rq_context q) (rq_context q')"
    using send_fds_answered [OF s] assms by (auto simp: k answered_def replied_def cleanup_responses split: if_splits)
qed

lemma did_nothing: "did [] k = k"
  by (rule ext) (simp add: did_def emitted_def on_context_def)

lemma close_cleanup [simp]: "cleanup (close_fd fd)" "cleanup (concat (map close_fd fds))"
  by (auto simp: close_fd_def cleanup_def)

lemma replies_fds [reply_rules]:
  "replies {1} (VT_SEND_FDS e fds n result Some)"
  "replies {1} (VT_SEND_FDS e fds n result (did (close_fd fd) Some))"
  "replies {1} (VT_SEND_FDS e fds n result (did (concat (map close_fd fs)) Some))"
  using fds_replies [of "[]"] fds_replies by (simp_all add: did_nothing)

lemma replies_waiting [reply_rules]: "(\<And>w. replies N (k w)) \<Longrightarrow> replies N (client_waiting k)"
  by (rule repliesI) (auto simp: client_waiting_def dest: repliesD split: option.splits)

lemma replies_must_wait [reply_rules]: "replies N k \<Longrightarrow> replies N (client_must_wait k)"
  by (rule repliesI) (auto simp: client_must_wait_def dest: repliesD intro: replied_same split: option.splits)

lemma replies_textures [reply_rules]: "replies N k \<Longrightarrow> replies N (decode_textures e k)"
  by (simp add: decode_textures_def replies_component)

lemma replies_call_if [reply_rules]:
  "(\<And>a. replies N (k a)) \<Longrightarrow> (\<And>k. (\<And>a. replies N (k a)) \<Longrightarrow> replies N (call k)) \<Longrightarrow> replies N (call_if b call k)"
  by (simp add: call_if_def)

lemma replies_fence_fds [reply_rules]: "(\<And>r fds. replies N (k r fds)) \<Longrightarrow> replies N (fence_fds e device fences fds k)"
  by (induction e device fences fds k rule: fence_fds.induct) (auto intro: replies_vulkan)

section \<open>Handlers\<close>

lemma begin_replied:
  assumes "replies N k" "VT_REQUEST_BEGIN batch c k = Some (s, c')"
  shows "replied N c c'"
proof -
  from assms(2) obtain ok request q where
    "(if ok then k else protocol_error) \<lparr>rq_request = request, rq_context = c\<rparr> = Some q" "c' = rq_context q"
    by (auto simp: VT_REQUEST_BEGIN_def bind_eq_Some_conv)
  then show ?thesis
    using repliesD [OF assms(1)] repliesD [OF replies_protocol_error] by (cases ok) fastforce+
qed

lemma handlerI: "(\<And>e batch c. \<exists>k. h e batch c = VT_REQUEST_BEGIN batch c k \<and> replies N k) \<Longrightarrow> handler_replies N h"
  unfolding handler_replies_def using begin_replied by metis

lemma replies_beginI: "replies N k \<Longrightarrow> \<exists>k'. VT_REQUEST_BEGIN batch c k = VT_REQUEST_BEGIN batch c k' \<and> replies N k'"
  by blast

end
