(* ===== verification/Handlers_Object.thy ===== *)
theory Handlers_Object
  imports Request_Macros
begin

text \<open>
  The handlers of single calls in \<^verbatim>\<open>vortekrenderer/src/request_handler.c\<close> that create, destroy and query objects, in the order of the
  source. \<open>v\<close> and \<open>b\<close> are the numbers and the structures a decoder has written, \<open>a\<close> is what the driver answers. The sizes of the
  elements of arrays are those of the 64-bit ABI.
\<close>

definition vt_handle_vkGetDeviceQueue :: request_handler where
  "vt_handle_vkGetDeviceQueue e batch c =
     VT_REQUEST_BEGIN batch c (
     VT_REQUEST_SCOPE_COMMAND VK_OBJECT_TYPE_DEVICE VORTEK_HANDLE_ROLE_VULKAN (
     VT_REQUEST_DECODE e ''vkGetDeviceQueue'' [Output, Output, Output, Null] (\<lambda>v _. let deviceId = v 0; queueFamilyIndex = v 1;
       queueIndex = v 2 in
     VT_REQUEST_HANDLE deviceId VK_OBJECT_TYPE_DEVICE VORTEK_HANDLE_ROLE_VULKAN True False False (\<lambda>device.
     vulkan e ''vkGetDeviceQueue'' [Handle device, Value queueFamilyIndex, Value queueIndex, Output] (\<lambda>a. let queue = drv_value a 3 in
     with_instance_owner (\<lambda>inst.
     VT_REQUEST_PUBLISH e VK_OBJECT_TYPE_QUEUE VORTEK_HANDLE_ROLE_VULKAN queue inst deviceId device (\<lambda>token.
     VT_SERIALIZE_CMD e ''VkQueue'' [Value token] (\<lambda>outputBuffer bufferSize.
     VT_REQUEST_SEND e VK_SUCCESS outputBuffer bufferSize Some))))))))"

definition vt_handle_vkQueueWaitIdle :: request_handler where
  "vt_handle_vkQueueWaitIdle e batch c =
     VT_REQUEST_BEGIN batch c (
     VT_REQUEST_SCOPE_SIMPLE VK_OBJECT_TYPE_QUEUE VORTEK_HANDLE_ROLE_VULKAN (
     VT_REQUEST_DECODE e ''VkQueue'' [Output] (\<lambda>v _. let queueId = v 0 in
     VT_REQUEST_HANDLE queueId VK_OBJECT_TYPE_QUEUE VORTEK_HANDLE_ROLE_VULKAN True True False (\<lambda>queue.
     vulkan e ''vkQueueWaitIdle'' [Handle queue] (\<lambda>a. let result = drv_result a in
     VT_REQUEST_SEND e result None 0 Some)))))"

definition vt_handle_vkDeviceWaitIdle :: request_handler where
  "vt_handle_vkDeviceWaitIdle e batch c =
     VT_REQUEST_BEGIN batch c (
     VT_REQUEST_SCOPE_SIMPLE VK_OBJECT_TYPE_DEVICE VORTEK_HANDLE_ROLE_VULKAN (
     VT_REQUEST_DECODE e ''VkDevice'' [Output] (\<lambda>v _. let deviceId = v 0 in
     VT_REQUEST_HANDLE deviceId VK_OBJECT_TYPE_DEVICE VORTEK_HANDLE_ROLE_VULKAN True False False (\<lambda>device.
     vulkan e ''vkDeviceWaitIdle'' [Handle device] (\<lambda>a. let result = drv_result a in
     VT_REQUEST_SEND e result None 0 Some)))))"

definition vt_handle_vkUnmapMemory :: request_handler where
  "vt_handle_vkUnmapMemory e batch c =
     VT_REQUEST_BEGIN batch c (
     VT_REQUEST_SCOPE_COMMAND VK_OBJECT_TYPE_DEVICE VORTEK_HANDLE_ROLE_VULKAN (
     VT_REQUEST_DECODE e ''vkUnmapMemory'' [Output, Output] (\<lambda>v _. let deviceId = v 0; memoryId = v 1 in
     VT_REQUEST_HANDLE deviceId VK_OBJECT_TYPE_DEVICE VORTEK_HANDLE_ROLE_VULKAN True False False (\<lambda>device.
     VT_REQUEST_HANDLE memoryId VK_OBJECT_TYPE_UNKNOWN VORTEK_HANDLE_ROLE_RESOURCE_MEMORY True True False (\<lambda>resourceMemory. Some)))))"

definition vt_handle_vkFlushMappedMemoryRanges :: request_handler where
  "vt_handle_vkFlushMappedMemoryRanges e batch c =
     VT_REQUEST_BEGIN batch c (
     VT_REQUEST_SCOPE_COMMAND VK_OBJECT_TYPE_DEVICE VORTEK_HANDLE_ROLE_VULKAN (
     VT_REQUEST_DECODE e ''vkFlushMappedMemoryRanges'' [Output, Output, Null] (\<lambda>v _. let deviceId = v 0; memoryRangeCount = v 1 in
     VT_REQUEST_HANDLE deviceId VK_OBJECT_TYPE_DEVICE VORTEK_HANDLE_ROLE_VULKAN True False False (\<lambda>device.
     VT_REQUEST_ARRAY e memoryRangeCount 40 (\<lambda>memoryRanges_at.
     VT_REQUEST_DECODE e ''vkFlushMappedMemoryRanges'' [Null, Null, array_output memoryRanges_at] (\<lambda>_ b.
       let memoryRanges = array_argument memoryRanges_at (b 2) in
     vulkan e ''vkFlushMappedMemoryRanges'' [Handle device, Value memoryRangeCount, memoryRanges] (\<lambda>a. let result = drv_result a in
     VT_REQUEST_SEND e result None 0 Some)))))))"

definition vt_handle_vkInvalidateMappedMemoryRanges :: request_handler where
  "vt_handle_vkInvalidateMappedMemoryRanges e batch c =
     VT_REQUEST_BEGIN batch c (
     VT_REQUEST_SCOPE_COMMAND VK_OBJECT_TYPE_DEVICE VORTEK_HANDLE_ROLE_VULKAN (
     VT_REQUEST_DECODE e ''vkInvalidateMappedMemoryRanges'' [Output, Output, Null] (\<lambda>v _. let deviceId = v 0;
       memoryRangeCount = v 1 in
     VT_REQUEST_HANDLE deviceId VK_OBJECT_TYPE_DEVICE VORTEK_HANDLE_ROLE_VULKAN True False False (\<lambda>device.
     VT_REQUEST_ARRAY e memoryRangeCount 40 (\<lambda>memoryRanges_at.
     VT_REQUEST_DECODE e ''vkInvalidateMappedMemoryRanges'' [Null, Null, array_output memoryRanges_at] (\<lambda>_ b.
       let memoryRanges = array_argument memoryRanges_at (b 2) in
     vulkan e ''vkInvalidateMappedMemoryRanges'' [Handle device, Value memoryRangeCount, memoryRanges] (\<lambda>a.
       let result = drv_result a in
     VT_REQUEST_SEND e result None 0 Some)))))))"

definition vt_handle_vkGetDeviceMemoryCommitment :: request_handler where
  "vt_handle_vkGetDeviceMemoryCommitment e batch c =
     VT_REQUEST_BEGIN batch c (
     VT_REQUEST_SCOPE_COMMAND VK_OBJECT_TYPE_DEVICE VORTEK_HANDLE_ROLE_VULKAN (
     VT_REQUEST_DECODE e ''vkGetDeviceMemoryCommitment'' [Output, Output, Null] (\<lambda>v _. let deviceId = v 0; memoryId = v 1 in
     VT_REQUEST_HANDLE deviceId VK_OBJECT_TYPE_DEVICE VORTEK_HANDLE_ROLE_VULKAN True False False (\<lambda>device.
     VT_REQUEST_HANDLE memoryId VK_OBJECT_TYPE_UNKNOWN VORTEK_HANDLE_ROLE_RESOURCE_MEMORY True True False (\<lambda>resourceMemory.
     vulkan e ''vkGetDeviceMemoryCommitment'' [Handle device, Handle (env_memory e resourceMemory), Output] (\<lambda>a.
       let committedMemoryInBytes = drv_value a 2 in
     VT_REQUEST_SEND e VK_SUCCESS (Some (le_bytes 8 committedMemoryInBytes)) 8 Some))))))"

definition vt_handle_vkGetBufferMemoryRequirements :: request_handler where
  "vt_handle_vkGetBufferMemoryRequirements e batch c =
     VT_REQUEST_BEGIN batch c (
     VT_REQUEST_SCOPE_COMMAND VK_OBJECT_TYPE_DEVICE VORTEK_HANDLE_ROLE_VULKAN (
     VT_REQUEST_DECODE e ''vkGetBufferMemoryRequirements'' [Output, Output, Null] (\<lambda>v _. let deviceId = v 0; bufferId = v 1 in
     VT_REQUEST_HANDLE deviceId VK_OBJECT_TYPE_DEVICE VORTEK_HANDLE_ROLE_VULKAN True False False (\<lambda>device.
     VT_REQUEST_HANDLE bufferId VK_OBJECT_TYPE_BUFFER VORTEK_HANDLE_ROLE_VULKAN True True False (\<lambda>buffer.
     vulkan e ''vkGetBufferMemoryRequirements'' [Handle device, Handle buffer, Output] (\<lambda>a. let memoryRequirements = drv_bytes a 2 in
     VT_SERIALIZE_CMD e ''VkMemoryRequirements'' [Bytes memoryRequirements] (\<lambda>outputBuffer bufferSize.
     VT_REQUEST_SEND e VK_SUCCESS outputBuffer bufferSize Some)))))))"

definition vt_handle_vkGetImageMemoryRequirements :: request_handler where
  "vt_handle_vkGetImageMemoryRequirements e batch c =
     VT_REQUEST_BEGIN batch c (
     VT_REQUEST_SCOPE_COMMAND VK_OBJECT_TYPE_DEVICE VORTEK_HANDLE_ROLE_VULKAN (
     VT_REQUEST_DECODE e ''vkGetImageMemoryRequirements'' [Output, Output, Null] (\<lambda>v _. let deviceId = v 0; imageId = v 1 in
     VT_REQUEST_HANDLE deviceId VK_OBJECT_TYPE_DEVICE VORTEK_HANDLE_ROLE_VULKAN True False False (\<lambda>device.
     VT_REQUEST_HANDLE imageId VK_OBJECT_TYPE_IMAGE VORTEK_HANDLE_ROLE_VULKAN True True False (\<lambda>image.
     vulkan e ''vkGetImageMemoryRequirements'' [Handle device, Handle image, Output] (\<lambda>a. let memoryRequirements = drv_bytes a 2 in
     VT_SERIALIZE_CMD e ''VkMemoryRequirements'' [Bytes memoryRequirements] (\<lambda>outputBuffer bufferSize.
     VT_REQUEST_SEND e VK_SUCCESS outputBuffer bufferSize Some)))))))"

definition vt_handle_vkBindImageMemory :: request_handler where
  "vt_handle_vkBindImageMemory e batch c =
     VT_REQUEST_BEGIN batch c (
     VT_REQUEST_SCOPE_COMMAND VK_OBJECT_TYPE_DEVICE VORTEK_HANDLE_ROLE_VULKAN (
     VT_REQUEST_DECODE e ''vkBindImageMemory'' [Output, Output, Output, Output] (\<lambda>v _. let deviceId = v 0; imageId = v 1;
       memoryId = v 2; memoryOffset = v 3 in
     VT_REQUEST_HANDLE deviceId VK_OBJECT_TYPE_DEVICE VORTEK_HANDLE_ROLE_VULKAN True False False (\<lambda>device.
     VT_REQUEST_HANDLE imageId VK_OBJECT_TYPE_IMAGE VORTEK_HANDLE_ROLE_VULKAN True True False (\<lambda>image.
     VT_REQUEST_HANDLE memoryId VK_OBJECT_TYPE_UNKNOWN VORTEK_HANDLE_ROLE_RESOURCE_MEMORY True True False (\<lambda>resourceMemory.
     vulkan e ''vkBindImageMemory'' [Handle device, Handle image, Handle (env_memory e resourceMemory), Value memoryOffset] (\<lambda>a.
       let result = drv_result a in
     VT_REQUEST_SEND e result None 0 Some)))))))"

definition vt_handle_vkQueueBindSparse :: request_handler where
  "vt_handle_vkQueueBindSparse e batch c =
     VT_REQUEST_BEGIN batch c (
     VT_REQUEST_SCOPE_COMMAND VK_OBJECT_TYPE_QUEUE VORTEK_HANDLE_ROLE_VULKAN (
     VT_REQUEST_DECODE e ''vkQueueBindSparse'' [Output, Output, Null, Output] (\<lambda>v _. let queueId = v 0; bindInfoCount = v 1;
       fenceId = v 3 in
     VT_REQUEST_HANDLE queueId VK_OBJECT_TYPE_QUEUE VORTEK_HANDLE_ROLE_VULKAN True True False (\<lambda>queue.
     VT_REQUEST_HANDLE fenceId VK_OBJECT_TYPE_FENCE VORTEK_HANDLE_ROLE_VULKAN True True True (\<lambda>fence.
     VT_REQUEST_ARRAY e bindInfoCount 96 (\<lambda>bindInfo_at.
     VT_REQUEST_DECODE e ''vkQueueBindSparse'' [Null, Null, array_output bindInfo_at, Null] (\<lambda>_ b.
       let bindInfo = array_argument bindInfo_at (b 2) in
     vulkan e ''vkQueueBindSparse'' [Handle queue, Value bindInfoCount, bindInfo, Handle fence] (\<lambda>a. let result = drv_result a in
     VT_REQUEST_SEND e result None 0 Some))))))))"

definition vt_handle_vkDestroyFence :: request_handler where
  "vt_handle_vkDestroyFence e batch c =
     VT_REQUEST_BEGIN batch c (
     VT_REQUEST_SCOPE_COMMAND VK_OBJECT_TYPE_DEVICE VORTEK_HANDLE_ROLE_VULKAN (
     VT_REQUEST_DECODE e ''vkDestroyFence'' [Output, Output, Null] (\<lambda>v _. let deviceId = v 0; fenceId = v 1 in
     VT_REQUEST_HANDLE deviceId VK_OBJECT_TYPE_DEVICE VORTEK_HANDLE_ROLE_VULKAN True False False (\<lambda>device.
     VT_REQUEST_RETIRED_HANDLE fenceId VK_OBJECT_TYPE_FENCE VORTEK_HANDLE_ROLE_VULKAN True True True (\<lambda>fence.
     vulkan e ''vkDestroyFence'' [Handle device, Handle fence, Null] (\<lambda>_. Some))))))"

definition vt_handle_vkResetFences :: request_handler where
  "vt_handle_vkResetFences e batch c =
     VT_REQUEST_BEGIN batch c (
     VT_REQUEST_SCOPE_COMMAND VK_OBJECT_TYPE_DEVICE VORTEK_HANDLE_ROLE_VULKAN (
     VT_REQUEST_DECODE e ''vkResetFences'' [Output, Output, Null] (\<lambda>v _. let deviceId = v 0; fenceCount = v 1 in
     VT_REQUEST_HANDLE deviceId VK_OBJECT_TYPE_DEVICE VORTEK_HANDLE_ROLE_VULKAN True False False (\<lambda>device.
     VT_REQUEST_ARRAY e fenceCount 8 (\<lambda>fences_at.
     VT_REQUEST_DECODE e ''vkResetFences'' [Null, Null, array_output fences_at] (\<lambda>_ b. let fences = array_argument fences_at (b 2) in
     vulkan e ''vkResetFences'' [Handle device, Value fenceCount, fences] (\<lambda>_. Some)))))))"

definition vt_handle_vkGetFenceStatus :: request_handler where
  "vt_handle_vkGetFenceStatus e batch c =
     VT_REQUEST_BEGIN batch c (
     VT_REQUEST_SCOPE_COMMAND VK_OBJECT_TYPE_DEVICE VORTEK_HANDLE_ROLE_VULKAN (
     VT_REQUEST_DECODE e ''vkGetFenceStatus'' [Output, Output] (\<lambda>v _. let deviceId = v 0; fenceId = v 1 in
     VT_REQUEST_HANDLE deviceId VK_OBJECT_TYPE_DEVICE VORTEK_HANDLE_ROLE_VULKAN True False False (\<lambda>device.
     VT_REQUEST_HANDLE fenceId VK_OBJECT_TYPE_FENCE VORTEK_HANDLE_ROLE_VULKAN True True False (\<lambda>fence.
     vulkan e ''vkGetFenceStatus'' [Handle device, Handle fence] (\<lambda>a. let result = drv_result a in
     VT_REQUEST_SEND e result None 0 Some))))))"

definition vt_handle_vkCreateSemaphore :: request_handler where
  "vt_handle_vkCreateSemaphore e batch c =
     VT_REQUEST_BEGIN batch c (
     VT_REQUEST_SCOPE_COMMAND VK_OBJECT_TYPE_DEVICE VORTEK_HANDLE_ROLE_VULKAN (
     VT_REQUEST_DECODE e ''vkCreateSemaphore'' [Output, Output, Null, Null] (\<lambda>v b. let deviceId = v 0; createInfo = b 1 in
     VT_REQUEST_HANDLE deviceId VK_OBJECT_TYPE_DEVICE VORTEK_HANDLE_ROLE_VULKAN True False False (\<lambda>device.
     vulkan e ''vkCreateSemaphore'' [Handle device, Bytes createInfo, Null, Output] (\<lambda>a. let result = drv_result a;
       semaphore = drv_value a 3 in
     with_instance_owner (\<lambda>inst.
     VT_REQUEST_PUBLISH_RESULT e result VK_OBJECT_TYPE_SEMAPHORE VORTEK_HANDLE_ROLE_VULKAN semaphore inst deviceId device (\<lambda>token.
     VT_SERIALIZE_CMD e ''VkSemaphore'' [Value token] (\<lambda>outputBuffer bufferSize.
     VT_REQUEST_SEND e result outputBuffer bufferSize Some))))))))"

definition vt_handle_vkDestroySemaphore :: request_handler where
  "vt_handle_vkDestroySemaphore e batch c =
     VT_REQUEST_BEGIN batch c (
     VT_REQUEST_SCOPE_COMMAND VK_OBJECT_TYPE_DEVICE VORTEK_HANDLE_ROLE_VULKAN (
     VT_REQUEST_DECODE e ''vkDestroySemaphore'' [Output, Output, Null] (\<lambda>v _. let deviceId = v 0; semaphoreId = v 1 in
     VT_REQUEST_HANDLE deviceId VK_OBJECT_TYPE_DEVICE VORTEK_HANDLE_ROLE_VULKAN True False False (\<lambda>device.
     VT_REQUEST_RETIRED_HANDLE semaphoreId VK_OBJECT_TYPE_SEMAPHORE VORTEK_HANDLE_ROLE_VULKAN True True True (\<lambda>semaphore.
     vulkan e ''vkDestroySemaphore'' [Handle device, Handle semaphore, Null] (\<lambda>_. Some))))))"

definition vt_handle_vkCreateEvent :: request_handler where
  "vt_handle_vkCreateEvent e batch c =
     VT_REQUEST_BEGIN batch c (
     VT_REQUEST_SCOPE_COMMAND VK_OBJECT_TYPE_DEVICE VORTEK_HANDLE_ROLE_VULKAN (
     VT_REQUEST_DECODE e ''vkCreateEvent'' [Output, Output, Null, Null] (\<lambda>v b. let deviceId = v 0; createInfo = b 1 in
     VT_REQUEST_HANDLE deviceId VK_OBJECT_TYPE_DEVICE VORTEK_HANDLE_ROLE_VULKAN True False False (\<lambda>device.
     vulkan e ''vkCreateEvent'' [Handle device, Bytes createInfo, Null, Output] (\<lambda>a. let result = drv_result a;
       event = drv_value a 3 in
     with_instance_owner (\<lambda>inst.
     VT_REQUEST_PUBLISH_RESULT e result VK_OBJECT_TYPE_EVENT VORTEK_HANDLE_ROLE_VULKAN event inst deviceId device (\<lambda>token.
     VT_SERIALIZE_CMD e ''VkEvent'' [Value token] (\<lambda>outputBuffer bufferSize.
     VT_REQUEST_SEND e result outputBuffer bufferSize Some))))))))"

definition vt_handle_vkDestroyEvent :: request_handler where
  "vt_handle_vkDestroyEvent e batch c =
     VT_REQUEST_BEGIN batch c (
     VT_REQUEST_SCOPE_COMMAND VK_OBJECT_TYPE_DEVICE VORTEK_HANDLE_ROLE_VULKAN (
     VT_REQUEST_DECODE e ''vkDestroyEvent'' [Output, Output, Null] (\<lambda>v _. let deviceId = v 0; eventId = v 1 in
     VT_REQUEST_HANDLE deviceId VK_OBJECT_TYPE_DEVICE VORTEK_HANDLE_ROLE_VULKAN True False False (\<lambda>device.
     VT_REQUEST_RETIRED_HANDLE eventId VK_OBJECT_TYPE_EVENT VORTEK_HANDLE_ROLE_VULKAN True True True (\<lambda>event.
     vulkan e ''vkDestroyEvent'' [Handle device, Handle event, Null] (\<lambda>_. Some))))))"

definition vt_handle_vkGetEventStatus :: request_handler where
  "vt_handle_vkGetEventStatus e batch c =
     VT_REQUEST_BEGIN batch c (
     VT_REQUEST_SCOPE_COMMAND VK_OBJECT_TYPE_DEVICE VORTEK_HANDLE_ROLE_VULKAN (
     VT_REQUEST_DECODE e ''vkGetEventStatus'' [Output, Output] (\<lambda>v _. let deviceId = v 0; eventId = v 1 in
     VT_REQUEST_HANDLE deviceId VK_OBJECT_TYPE_DEVICE VORTEK_HANDLE_ROLE_VULKAN True False False (\<lambda>device.
     VT_REQUEST_HANDLE eventId VK_OBJECT_TYPE_EVENT VORTEK_HANDLE_ROLE_VULKAN True True False (\<lambda>event.
     vulkan e ''vkGetEventStatus'' [Handle device, Handle event] (\<lambda>a. let result = drv_result a in
     VT_REQUEST_SEND e result None 0 Some))))))"

definition vt_handle_vkSetEvent :: request_handler where
  "vt_handle_vkSetEvent e batch c =
     VT_REQUEST_BEGIN batch c (
     VT_REQUEST_SCOPE_COMMAND VK_OBJECT_TYPE_DEVICE VORTEK_HANDLE_ROLE_VULKAN (
     VT_REQUEST_DECODE e ''vkSetEvent'' [Output, Output] (\<lambda>v _. let deviceId = v 0; eventId = v 1 in
     VT_REQUEST_HANDLE deviceId VK_OBJECT_TYPE_DEVICE VORTEK_HANDLE_ROLE_VULKAN True False False (\<lambda>device.
     VT_REQUEST_HANDLE eventId VK_OBJECT_TYPE_EVENT VORTEK_HANDLE_ROLE_VULKAN True True False (\<lambda>event.
     vulkan e ''vkSetEvent'' [Handle device, Handle event] (\<lambda>a. let result = drv_result a in
     VT_REQUEST_SEND e result None 0 Some))))))"

definition vt_handle_vkResetEvent :: request_handler where
  "vt_handle_vkResetEvent e batch c =
     VT_REQUEST_BEGIN batch c (
     VT_REQUEST_SCOPE_COMMAND VK_OBJECT_TYPE_DEVICE VORTEK_HANDLE_ROLE_VULKAN (
     VT_REQUEST_DECODE e ''vkResetEvent'' [Output, Output] (\<lambda>v _. let deviceId = v 0; eventId = v 1 in
     VT_REQUEST_HANDLE deviceId VK_OBJECT_TYPE_DEVICE VORTEK_HANDLE_ROLE_VULKAN True False False (\<lambda>device.
     VT_REQUEST_HANDLE eventId VK_OBJECT_TYPE_EVENT VORTEK_HANDLE_ROLE_VULKAN True True False (\<lambda>event.
     vulkan e ''vkResetEvent'' [Handle device, Handle event] (\<lambda>a. let result = drv_result a in
     VT_REQUEST_SEND e result None 0 Some))))))"

definition vt_handle_vkCreateQueryPool :: request_handler where
  "vt_handle_vkCreateQueryPool e batch c =
     VT_REQUEST_BEGIN batch c (
     VT_REQUEST_SCOPE_COMMAND VK_OBJECT_TYPE_DEVICE VORTEK_HANDLE_ROLE_VULKAN (
     VT_REQUEST_DECODE e ''vkCreateQueryPool'' [Output, Output, Null, Null] (\<lambda>v b. let deviceId = v 0; createInfo = b 1 in
     VT_REQUEST_HANDLE deviceId VK_OBJECT_TYPE_DEVICE VORTEK_HANDLE_ROLE_VULKAN True False False (\<lambda>device.
     vulkan e ''vkCreateQueryPool'' [Handle device, Bytes createInfo, Null, Output] (\<lambda>a. let result = drv_result a;
       queryPool = drv_value a 3 in
     with_instance_owner (\<lambda>inst.
     VT_REQUEST_PUBLISH_RESULT e result VK_OBJECT_TYPE_QUERY_POOL VORTEK_HANDLE_ROLE_VULKAN queryPool inst deviceId device (\<lambda>token.
     VT_SERIALIZE_CMD e ''VkQueryPool'' [Value token] (\<lambda>outputBuffer bufferSize.
     VT_REQUEST_SEND e result outputBuffer bufferSize Some))))))))"

definition vt_handle_vkDestroyQueryPool :: request_handler where
  "vt_handle_vkDestroyQueryPool e batch c =
     VT_REQUEST_BEGIN batch c (
     VT_REQUEST_SCOPE_COMMAND VK_OBJECT_TYPE_DEVICE VORTEK_HANDLE_ROLE_VULKAN (
     VT_REQUEST_DECODE e ''vkDestroyQueryPool'' [Output, Output, Null] (\<lambda>v _. let deviceId = v 0; queryPoolId = v 1 in
     VT_REQUEST_HANDLE deviceId VK_OBJECT_TYPE_DEVICE VORTEK_HANDLE_ROLE_VULKAN True False False (\<lambda>device.
     VT_REQUEST_RETIRED_HANDLE queryPoolId VK_OBJECT_TYPE_QUERY_POOL VORTEK_HANDLE_ROLE_VULKAN True True True (\<lambda>queryPool.
     vulkan e ''vkDestroyQueryPool'' [Handle device, Handle queryPool, Null] (\<lambda>_. Some))))))"

definition vt_handle_vkGetQueryPoolResults :: request_handler where
  "vt_handle_vkGetQueryPoolResults e batch c =
     VT_REQUEST_BEGIN batch c (
     VT_REQUEST_SCOPE_COMMAND VK_OBJECT_TYPE_DEVICE VORTEK_HANDLE_ROLE_VULKAN (
     VT_REQUEST_DECODE e ''vkGetQueryPoolResults'' [Output, Output, Output, Output, Output, Null, Output, Output] (\<lambda>v _.
       let deviceId = v 0; queryPoolId = v 1; firstQuery = v 2; queryCount = v 3; dataSize = v 4; stride = v 6; flags = v 7 in
     VT_REQUEST_HANDLE deviceId VK_OBJECT_TYPE_DEVICE VORTEK_HANDLE_ROLE_VULKAN True False False (\<lambda>device.
     VT_REQUEST_HANDLE queryPoolId VK_OBJECT_TYPE_QUERY_POOL VORTEK_HANDLE_ROLE_VULKAN True True False (\<lambda>queryPool.
     VT_REQUEST_OUTPUT e dataSize (
     vulkan e ''vkGetQueryPoolResults'' [Handle device, Handle queryPool, Value firstQuery, Value queryCount, Value dataSize,
       output_place dataSize, Value stride, Value flags] (\<lambda>a. let data = output_argument dataSize (drv_bytes a 5);
       result = drv_result a in
     VT_SERIALIZE_CMD e ''vkGetQueryPoolResults'' [Null, Null, Value firstQuery, Value queryCount, Value dataSize, data, Value stride,
       Value flags] (\<lambda>outputBuffer bufferSize.
     VT_REQUEST_SEND e result outputBuffer bufferSize Some))))))))"

definition vt_handle_vkResetQueryPool :: request_handler where
  "vt_handle_vkResetQueryPool e batch c =
     VT_REQUEST_BEGIN batch c (
     VT_REQUEST_SCOPE_COMMAND VK_OBJECT_TYPE_DEVICE VORTEK_HANDLE_ROLE_VULKAN (
     VT_REQUEST_DECODE e ''vkResetQueryPool'' [Output, Output, Output, Output] (\<lambda>v _. let deviceId = v 0; queryPoolId = v 1;
       firstQuery = v 2; queryCount = v 3 in
     VT_REQUEST_HANDLE deviceId VK_OBJECT_TYPE_DEVICE VORTEK_HANDLE_ROLE_VULKAN True False False (\<lambda>device.
     VT_REQUEST_HANDLE queryPoolId VK_OBJECT_TYPE_QUERY_POOL VORTEK_HANDLE_ROLE_VULKAN True True False (\<lambda>queryPool.
     vulkan e ''vkResetQueryPool'' [Handle device, Handle queryPool, Value firstQuery, Value queryCount] (\<lambda>_. Some))))))"

definition vt_handle_vkCreateBuffer :: request_handler where
  "vt_handle_vkCreateBuffer e batch c =
     VT_REQUEST_BEGIN batch c (
     VT_REQUEST_SCOPE_COMMAND VK_OBJECT_TYPE_DEVICE VORTEK_HANDLE_ROLE_VULKAN (
     VT_REQUEST_DECODE e ''vkCreateBuffer'' [Output, Output, Null, Null] (\<lambda>v b. let deviceId = v 0; createInfo = b 1 in
     VT_REQUEST_HANDLE deviceId VK_OBJECT_TYPE_DEVICE VORTEK_HANDLE_ROLE_VULKAN True False False (\<lambda>device.
     vulkan e ''vkCreateBuffer'' [Handle device, Bytes createInfo, Null, Output] (\<lambda>a. let result = drv_result a;
       buffer = drv_value a 3 in
     with_instance_owner (\<lambda>inst.
     VT_REQUEST_PUBLISH_RESULT e result VK_OBJECT_TYPE_BUFFER VORTEK_HANDLE_ROLE_VULKAN buffer inst deviceId device (\<lambda>token.
     VT_SERIALIZE_CMD e ''VkBuffer'' [Value token] (\<lambda>outputBuffer bufferSize.
     VT_REQUEST_SEND e result outputBuffer bufferSize Some))))))))"

definition vt_handle_vkCreateBufferView :: request_handler where
  "vt_handle_vkCreateBufferView e batch c =
     VT_REQUEST_BEGIN batch c (
     VT_REQUEST_SCOPE_COMMAND VK_OBJECT_TYPE_DEVICE VORTEK_HANDLE_ROLE_VULKAN (
     VT_REQUEST_DECODE e ''vkCreateBufferView'' [Output, Output, Null, Null] (\<lambda>v b. let deviceId = v 0; createInfo = b 1 in
     VT_REQUEST_HANDLE deviceId VK_OBJECT_TYPE_DEVICE VORTEK_HANDLE_ROLE_VULKAN True False False (\<lambda>device.
     vulkan e ''vkCreateBufferView'' [Handle device, Bytes createInfo, Null, Output] (\<lambda>a. let result = drv_result a;
       view = drv_value a 3 in
     with_instance_owner (\<lambda>inst.
     VT_REQUEST_PUBLISH_RESULT e result VK_OBJECT_TYPE_BUFFER_VIEW VORTEK_HANDLE_ROLE_VULKAN view inst deviceId device (\<lambda>token.
     VT_SERIALIZE_CMD e ''VkBufferView'' [Value token] (\<lambda>outputBuffer bufferSize.
     VT_REQUEST_SEND e result outputBuffer bufferSize Some))))))))"

definition vt_handle_vkDestroyBufferView :: request_handler where
  "vt_handle_vkDestroyBufferView e batch c =
     VT_REQUEST_BEGIN batch c (
     VT_REQUEST_SCOPE_COMMAND VK_OBJECT_TYPE_DEVICE VORTEK_HANDLE_ROLE_VULKAN (
     VT_REQUEST_DECODE e ''vkDestroyBufferView'' [Output, Output, Null] (\<lambda>v _. let deviceId = v 0; bufferViewId = v 1 in
     VT_REQUEST_HANDLE deviceId VK_OBJECT_TYPE_DEVICE VORTEK_HANDLE_ROLE_VULKAN True False False (\<lambda>device.
     VT_REQUEST_RETIRED_HANDLE bufferViewId VK_OBJECT_TYPE_BUFFER_VIEW VORTEK_HANDLE_ROLE_VULKAN True True True (\<lambda>bufferView.
     vulkan e ''vkDestroyBufferView'' [Handle device, Handle bufferView, Null] (\<lambda>_. Some))))))"

definition vt_handle_vkGetImageSubresourceLayout :: request_handler where
  "vt_handle_vkGetImageSubresourceLayout e batch c =
     VT_REQUEST_BEGIN batch c (
     VT_REQUEST_SCOPE_COMMAND VK_OBJECT_TYPE_DEVICE VORTEK_HANDLE_ROLE_VULKAN (
     VT_REQUEST_DECODE e ''vkGetImageSubresourceLayout'' [Output, Output, Output, Null] (\<lambda>v b. let deviceId = v 0; imageId = v 1;
       subresource = b 2 in
     VT_REQUEST_HANDLE deviceId VK_OBJECT_TYPE_DEVICE VORTEK_HANDLE_ROLE_VULKAN True False False (\<lambda>device.
     VT_REQUEST_HANDLE imageId VK_OBJECT_TYPE_IMAGE VORTEK_HANDLE_ROLE_VULKAN True True False (\<lambda>image.
     vulkan e ''vkGetImageSubresourceLayout'' [Handle device, Handle image, Bytes subresource, Output] (\<lambda>a.
       let layout = drv_bytes a 3 in
     VT_SERIALIZE_CMD e ''VkSubresourceLayout'' [Bytes layout] (\<lambda>outputBuffer bufferSize.
     VT_REQUEST_SEND e VK_SUCCESS outputBuffer bufferSize Some)))))))"

definition vt_handle_vkDestroyImageView :: request_handler where
  "vt_handle_vkDestroyImageView e batch c =
     VT_REQUEST_BEGIN batch c (
     VT_REQUEST_SCOPE_COMMAND VK_OBJECT_TYPE_DEVICE VORTEK_HANDLE_ROLE_VULKAN (
     VT_REQUEST_DECODE e ''vkDestroyImageView'' [Output, Output, Null] (\<lambda>v _. let deviceId = v 0; imageViewId = v 1 in
     VT_REQUEST_HANDLE deviceId VK_OBJECT_TYPE_DEVICE VORTEK_HANDLE_ROLE_VULKAN True False False (\<lambda>device.
     VT_REQUEST_RETIRED_HANDLE imageViewId VK_OBJECT_TYPE_IMAGE_VIEW VORTEK_HANDLE_ROLE_VULKAN True True True (\<lambda>imageView.
     vulkan e ''vkDestroyImageView'' [Handle device, Handle imageView, Null] (\<lambda>_. Some))))))"

definition vt_handle_vkCreatePipelineCache :: request_handler where
  "vt_handle_vkCreatePipelineCache e batch c =
     VT_REQUEST_BEGIN batch c (
     VT_REQUEST_SCOPE_COMMAND VK_OBJECT_TYPE_DEVICE VORTEK_HANDLE_ROLE_VULKAN (
     VT_REQUEST_DECODE e ''vkCreatePipelineCache'' [Output, Output, Null, Null] (\<lambda>v b. let deviceId = v 0; createInfo = b 1 in
     VT_REQUEST_HANDLE deviceId VK_OBJECT_TYPE_DEVICE VORTEK_HANDLE_ROLE_VULKAN True False False (\<lambda>device.
     vulkan e ''vkCreatePipelineCache'' [Handle device, Bytes createInfo, Null, Output] (\<lambda>a. let result = drv_result a;
       pipelineCache = drv_value a 3 in
     with_instance_owner (\<lambda>inst.
     VT_REQUEST_PUBLISH_RESULT e result VK_OBJECT_TYPE_PIPELINE_CACHE VORTEK_HANDLE_ROLE_VULKAN pipelineCache inst deviceId device
       (\<lambda>token.
     VT_SERIALIZE_CMD e ''VkPipelineCache'' [Value token] (\<lambda>outputBuffer bufferSize.
     VT_REQUEST_SEND e result outputBuffer bufferSize Some))))))))"

definition vt_handle_vkDestroyPipelineCache :: request_handler where
  "vt_handle_vkDestroyPipelineCache e batch c =
     VT_REQUEST_BEGIN batch c (
     VT_REQUEST_SCOPE_COMMAND VK_OBJECT_TYPE_DEVICE VORTEK_HANDLE_ROLE_VULKAN (
     VT_REQUEST_DECODE e ''vkDestroyPipelineCache'' [Output, Output, Null] (\<lambda>v _. let deviceId = v 0; pipelineCacheId = v 1 in
     VT_REQUEST_HANDLE deviceId VK_OBJECT_TYPE_DEVICE VORTEK_HANDLE_ROLE_VULKAN True False False (\<lambda>device.
     VT_REQUEST_RETIRED_HANDLE pipelineCacheId VK_OBJECT_TYPE_PIPELINE_CACHE VORTEK_HANDLE_ROLE_VULKAN True True True (\<lambda>pipelineCache.
     vulkan e ''vkDestroyPipelineCache'' [Handle device, Handle pipelineCache, Null] (\<lambda>_. Some))))))"

definition vt_handle_vkGetPipelineCacheData :: request_handler where
  "vt_handle_vkGetPipelineCacheData e batch c =
     VT_REQUEST_BEGIN batch c (
     VT_REQUEST_SCOPE_COMMAND VK_OBJECT_TYPE_DEVICE VORTEK_HANDLE_ROLE_VULKAN (
     VT_REQUEST_DECODE e ''vkGetPipelineCacheData'' [Output, Output, Output, Null] (\<lambda>v _. let deviceId = v 0; pipelineCacheId = v 1;
       dataSize = v 2 in
     VT_REQUEST_HANDLE deviceId VK_OBJECT_TYPE_DEVICE VORTEK_HANDLE_ROLE_VULKAN True False False (\<lambda>device.
     VT_REQUEST_HANDLE pipelineCacheId VK_OBJECT_TYPE_PIPELINE_CACHE VORTEK_HANDLE_ROLE_VULKAN True True False (\<lambda>pipelineCache.
     VT_REQUEST_OUTPUT e dataSize (
     vulkan e ''vkGetPipelineCacheData'' [Handle device, Handle pipelineCache, Value dataSize, output_place dataSize] (\<lambda>a.
       let data = output_argument dataSize (drv_bytes a 3); result = drv_result a; dataSize = drv_value a 2 in
     VT_SERIALIZE_CMD e ''vkGetPipelineCacheData'' [Null, Null, Value dataSize, data] (\<lambda>outputBuffer bufferSize.
     VT_REQUEST_SEND e result outputBuffer bufferSize Some))))))))"

definition vt_handle_vkMergePipelineCaches :: request_handler where
  "vt_handle_vkMergePipelineCaches e batch c =
     VT_REQUEST_BEGIN batch c (
     VT_REQUEST_SCOPE_COMMAND VK_OBJECT_TYPE_DEVICE VORTEK_HANDLE_ROLE_VULKAN (
     VT_REQUEST_DECODE e ''vkMergePipelineCaches'' [Output, Output, Output, Null] (\<lambda>v _. let deviceId = v 0; dstCacheId = v 1;
       srcCacheCount = v 2 in
     VT_REQUEST_HANDLE deviceId VK_OBJECT_TYPE_DEVICE VORTEK_HANDLE_ROLE_VULKAN True False False (\<lambda>device.
     VT_REQUEST_HANDLE dstCacheId VK_OBJECT_TYPE_PIPELINE_CACHE VORTEK_HANDLE_ROLE_VULKAN True True False (\<lambda>dstCache.
     VT_REQUEST_ARRAY e srcCacheCount 8 (\<lambda>srcCaches_at.
     VT_REQUEST_DECODE e ''vkMergePipelineCaches'' [Null, Null, Null, array_output srcCaches_at] (\<lambda>_ b.
       let srcCaches = array_argument srcCaches_at (b 3) in
     vulkan e ''vkMergePipelineCaches'' [Handle device, Handle dstCache, Value srcCacheCount, srcCaches] (\<lambda>a.
       let result = drv_result a in
     VT_REQUEST_SEND e result None 0 Some))))))))"

definition vt_handle_vkDestroyPipeline :: request_handler where
  "vt_handle_vkDestroyPipeline e batch c =
     VT_REQUEST_BEGIN batch c (
     VT_REQUEST_SCOPE_COMMAND VK_OBJECT_TYPE_DEVICE VORTEK_HANDLE_ROLE_VULKAN (
     VT_REQUEST_DECODE e ''vkDestroyPipeline'' [Output, Output, Null] (\<lambda>v _. let deviceId = v 0; pipelineId = v 1 in
     VT_REQUEST_HANDLE deviceId VK_OBJECT_TYPE_DEVICE VORTEK_HANDLE_ROLE_VULKAN True False False (\<lambda>device.
     VT_REQUEST_RETIRED_HANDLE pipelineId VK_OBJECT_TYPE_PIPELINE VORTEK_HANDLE_ROLE_VULKAN True True True (\<lambda>pipeline.
     vulkan e ''vkDestroyPipeline'' [Handle device, Handle pipeline, Null] (\<lambda>_. Some))))))"

definition vt_handle_vkDestroyPipelineLayout :: request_handler where
  "vt_handle_vkDestroyPipelineLayout e batch c =
     VT_REQUEST_BEGIN batch c (
     VT_REQUEST_SCOPE_COMMAND VK_OBJECT_TYPE_DEVICE VORTEK_HANDLE_ROLE_VULKAN (
     VT_REQUEST_DECODE e ''vkDestroyPipelineLayout'' [Output, Output, Null] (\<lambda>v _. let deviceId = v 0; pipelineLayoutId = v 1 in
     VT_REQUEST_HANDLE deviceId VK_OBJECT_TYPE_DEVICE VORTEK_HANDLE_ROLE_VULKAN True False False (\<lambda>device.
     VT_REQUEST_RETIRED_HANDLE pipelineLayoutId VK_OBJECT_TYPE_PIPELINE_LAYOUT VORTEK_HANDLE_ROLE_VULKAN True True True
       (\<lambda>pipelineLayout.
     vulkan e ''vkDestroyPipelineLayout'' [Handle device, Handle pipelineLayout, Null] (\<lambda>_. Some))))))"

definition vt_handle_vkCreateSampler :: request_handler where
  "vt_handle_vkCreateSampler e batch c =
     VT_REQUEST_BEGIN batch c (
     VT_REQUEST_SCOPE_COMMAND VK_OBJECT_TYPE_DEVICE VORTEK_HANDLE_ROLE_VULKAN (
     VT_REQUEST_DECODE e ''vkCreateSampler'' [Output, Output, Null, Null] (\<lambda>v b. let deviceId = v 0; createInfo = b 1 in
     VT_REQUEST_HANDLE deviceId VK_OBJECT_TYPE_DEVICE VORTEK_HANDLE_ROLE_VULKAN True False False (\<lambda>device.
     vulkan e ''vkCreateSampler'' [Handle device, Bytes createInfo, Null, Output] (\<lambda>a. let result = drv_result a;
       sampler = drv_value a 3 in
     with_instance_owner (\<lambda>inst.
     VT_REQUEST_PUBLISH_RESULT e result VK_OBJECT_TYPE_SAMPLER VORTEK_HANDLE_ROLE_VULKAN sampler inst deviceId device (\<lambda>token.
     VT_SERIALIZE_CMD e ''VkSampler'' [Value token] (\<lambda>outputBuffer bufferSize.
     VT_REQUEST_SEND e result outputBuffer bufferSize Some))))))))"

definition vt_handle_vkDestroySampler :: request_handler where
  "vt_handle_vkDestroySampler e batch c =
     VT_REQUEST_BEGIN batch c (
     VT_REQUEST_SCOPE_COMMAND VK_OBJECT_TYPE_DEVICE VORTEK_HANDLE_ROLE_VULKAN (
     VT_REQUEST_DECODE e ''vkDestroySampler'' [Output, Output, Null] (\<lambda>v _. let deviceId = v 0; samplerId = v 1 in
     VT_REQUEST_HANDLE deviceId VK_OBJECT_TYPE_DEVICE VORTEK_HANDLE_ROLE_VULKAN True False False (\<lambda>device.
     VT_REQUEST_RETIRED_HANDLE samplerId VK_OBJECT_TYPE_SAMPLER VORTEK_HANDLE_ROLE_VULKAN True True True (\<lambda>sampler.
     vulkan e ''vkDestroySampler'' [Handle device, Handle sampler, Null] (\<lambda>_. Some))))))"

definition vt_handle_vkCreateDescriptorSetLayout :: request_handler where
  "vt_handle_vkCreateDescriptorSetLayout e batch c =
     VT_REQUEST_BEGIN batch c (
     VT_REQUEST_SCOPE_COMMAND VK_OBJECT_TYPE_DEVICE VORTEK_HANDLE_ROLE_VULKAN (
     VT_REQUEST_DECODE e ''vkCreateDescriptorSetLayout'' [Output, Output, Null, Null] (\<lambda>v b. let deviceId = v 0; createInfo = b 1 in
     VT_REQUEST_HANDLE deviceId VK_OBJECT_TYPE_DEVICE VORTEK_HANDLE_ROLE_VULKAN True False False (\<lambda>device.
     vulkan e ''vkCreateDescriptorSetLayout'' [Handle device, Bytes createInfo, Null, Output] (\<lambda>a. let result = drv_result a;
       setLayout = drv_value a 3 in
     with_instance_owner (\<lambda>inst.
     VT_REQUEST_PUBLISH_RESULT e result VK_OBJECT_TYPE_DESCRIPTOR_SET_LAYOUT VORTEK_HANDLE_ROLE_VULKAN setLayout inst deviceId device
       (\<lambda>token.
     VT_SERIALIZE_CMD e ''VkDescriptorSetLayout'' [Value token] (\<lambda>outputBuffer bufferSize.
     VT_REQUEST_SEND e result outputBuffer bufferSize Some))))))))"

definition vt_handle_vkDestroyDescriptorSetLayout :: request_handler where
  "vt_handle_vkDestroyDescriptorSetLayout e batch c =
     VT_REQUEST_BEGIN batch c (
     VT_REQUEST_SCOPE_COMMAND VK_OBJECT_TYPE_DEVICE VORTEK_HANDLE_ROLE_VULKAN (
     VT_REQUEST_DECODE e ''vkDestroyDescriptorSetLayout'' [Output, Output, Null] (\<lambda>v _. let deviceId = v 0;
       descriptorSetLayoutId = v 1 in
     VT_REQUEST_HANDLE deviceId VK_OBJECT_TYPE_DEVICE VORTEK_HANDLE_ROLE_VULKAN True False False (\<lambda>device.
     VT_REQUEST_RETIRED_HANDLE descriptorSetLayoutId VK_OBJECT_TYPE_DESCRIPTOR_SET_LAYOUT VORTEK_HANDLE_ROLE_VULKAN True True True
       (\<lambda>descriptorSetLayout.
     vulkan e ''vkDestroyDescriptorSetLayout'' [Handle device, Handle descriptorSetLayout, Null] (\<lambda>_. Some))))))"

definition vt_handle_vkCreateDescriptorPool :: request_handler where
  "vt_handle_vkCreateDescriptorPool e batch c =
     VT_REQUEST_BEGIN batch c (
     VT_REQUEST_SCOPE_COMMAND VK_OBJECT_TYPE_DEVICE VORTEK_HANDLE_ROLE_VULKAN (
     VT_REQUEST_DECODE e ''vkCreateDescriptorPool'' [Output, Output, Null, Null] (\<lambda>v b. let deviceId = v 0; createInfo = b 1 in
     VT_REQUEST_HANDLE deviceId VK_OBJECT_TYPE_DEVICE VORTEK_HANDLE_ROLE_VULKAN True False False (\<lambda>device.
     vulkan e ''vkCreateDescriptorPool'' [Handle device, Bytes createInfo, Null, Output] (\<lambda>a. let result = drv_result a;
       descriptorPool = drv_value a 3 in
     with_instance_owner (\<lambda>inst.
     VT_REQUEST_PUBLISH_RESULT e result VK_OBJECT_TYPE_DESCRIPTOR_POOL VORTEK_HANDLE_ROLE_VULKAN descriptorPool inst deviceId device
       (\<lambda>token.
     VT_SERIALIZE_CMD e ''VkDescriptorPool'' [Value token] (\<lambda>outputBuffer bufferSize.
     VT_REQUEST_SEND e result outputBuffer bufferSize Some))))))))"

definition vt_handle_vkDestroyDescriptorPool :: request_handler where
  "vt_handle_vkDestroyDescriptorPool e batch c =
     VT_REQUEST_BEGIN batch c (
     VT_REQUEST_SCOPE_COMMAND VK_OBJECT_TYPE_DEVICE VORTEK_HANDLE_ROLE_VULKAN (
     VT_REQUEST_DECODE e ''vkDestroyDescriptorPool'' [Output, Output, Null] (\<lambda>v _. let deviceId = v 0; descriptorPoolId = v 1 in
     VT_REQUEST_HANDLE deviceId VK_OBJECT_TYPE_DEVICE VORTEK_HANDLE_ROLE_VULKAN True False False (\<lambda>device.
     VT_REQUEST_RETIRED_HANDLE descriptorPoolId VK_OBJECT_TYPE_DESCRIPTOR_POOL VORTEK_HANDLE_ROLE_VULKAN True True True
       (\<lambda>descriptorPool.
     VT_REQUEST_AUTHORITY (tombstone_children descriptorPoolId) (
     vulkan e ''vkDestroyDescriptorPool'' [Handle device, Handle descriptorPool, Null] (\<lambda>_. Some)))))))"

definition vt_handle_vkResetDescriptorPool :: request_handler where
  "vt_handle_vkResetDescriptorPool e batch c =
     VT_REQUEST_BEGIN batch c (
     VT_REQUEST_SCOPE_COMMAND VK_OBJECT_TYPE_DEVICE VORTEK_HANDLE_ROLE_VULKAN (
     VT_REQUEST_DECODE e ''vkResetDescriptorPool'' [Output, Output, Output] (\<lambda>v _. let deviceId = v 0; descriptorPoolId = v 1;
       flags = v 2 in
     VT_REQUEST_HANDLE deviceId VK_OBJECT_TYPE_DEVICE VORTEK_HANDLE_ROLE_VULKAN True False False (\<lambda>device.
     VT_REQUEST_HANDLE descriptorPoolId VK_OBJECT_TYPE_DESCRIPTOR_POOL VORTEK_HANDLE_ROLE_VULKAN True True False (\<lambda>descriptorPool.
     vulkan e ''vkResetDescriptorPool'' [Handle device, Handle descriptorPool, Value flags] (\<lambda>a. let result = drv_result a in
     only_if (result = VK_SUCCESS) (VT_REQUEST_AUTHORITY (tombstone_children descriptorPoolId)) Some))))))"

definition vt_handle_vkFreeDescriptorSets :: request_handler where
  "vt_handle_vkFreeDescriptorSets e batch c =
     VT_REQUEST_BEGIN batch c (
     VT_REQUEST_SCOPE_COMMAND VK_OBJECT_TYPE_DEVICE VORTEK_HANDLE_ROLE_VULKAN (
     VT_REQUEST_DECODE e ''vkFreeDescriptorSets'' [Output, Output, Output, Null] (\<lambda>v _. let deviceId = v 0; descriptorPoolId = v 1;
       descriptorSetCount = v 2 in
     VT_REQUEST_HANDLE deviceId VK_OBJECT_TYPE_DEVICE VORTEK_HANDLE_ROLE_VULKAN True False False (\<lambda>device.
     VT_REQUEST_HANDLE descriptorPoolId VK_OBJECT_TYPE_DESCRIPTOR_POOL VORTEK_HANDLE_ROLE_VULKAN True True False (\<lambda>descriptorPool.
     VT_REQUEST_ARRAY e descriptorSetCount 8 (\<lambda>descriptorSets_at.
     VT_REQUEST_ARRAY e descriptorSetCount 8 (\<lambda>descriptorSetTokens_at.
     VT_REQUEST_AUTHORITY (capture_begin 23 descriptorSetCount) (
     VT_REQUEST_DECODE e ''vkFreeDescriptorSets'' [Null, Null, Null, array_output descriptorSets_at] (\<lambda>_ b.
       let descriptorSets = array_argument descriptorSets_at (b 3) in
     captured_tokens (\<lambda>descriptorSetTokens.
     VT_REQUEST_AUTHORITY (capture_complete descriptorSetCount) (
     VT_REQUEST_AUTHORITY (validate_batch e descriptorSetTokens descriptorSetCount VK_OBJECT_TYPE_DESCRIPTOR_SET descriptorPoolId) (
     vulkan e ''vkFreeDescriptorSets'' [Handle device, Handle descriptorPool, Value descriptorSetCount, descriptorSets] (\<lambda>a.
       let result = drv_result a in
     only_if (result = VK_SUCCESS) (VT_REQUEST_AUTHORITY (tombstone_batch e descriptorSetTokens descriptorSetCount
       VK_OBJECT_TYPE_DESCRIPTOR_SET descriptorPoolId)) Some)))))))))))))"

definition vt_handle_vkUpdateDescriptorSets :: request_handler where
  "vt_handle_vkUpdateDescriptorSets e batch c =
     VT_REQUEST_BEGIN batch c (
     VT_REQUEST_SCOPE_COMMAND VK_OBJECT_TYPE_DEVICE VORTEK_HANDLE_ROLE_VULKAN (
     VT_REQUEST_DECODE e ''vkUpdateDescriptorSets'' [Output, Output, Null, Output, Null] (\<lambda>v _. let deviceId = v 0;
       descriptorWriteCount = v 1; descriptorCopyCount = v 3 in
     VT_REQUEST_HANDLE deviceId VK_OBJECT_TYPE_DEVICE VORTEK_HANDLE_ROLE_VULKAN True False False (\<lambda>device.
     VT_REQUEST_ARRAY e descriptorWriteCount 64 (\<lambda>descriptorWrites_at.
     VT_REQUEST_ARRAY e descriptorCopyCount 56 (\<lambda>descriptorCopies_at.
     VT_REQUEST_DECODE e ''vkUpdateDescriptorSets'' [Null, Null, array_output descriptorWrites_at, Null,
       array_output descriptorCopies_at] (\<lambda>_ b. let descriptorWrites = array_argument descriptorWrites_at (b 2);
       descriptorCopies = array_argument descriptorCopies_at (b 4) in
     vulkan e ''vkUpdateDescriptorSets'' [Handle device, Value descriptorWriteCount, descriptorWrites, Value descriptorCopyCount,
       descriptorCopies] (\<lambda>_. Some))))))))"

definition vt_handle_vkCreateFramebuffer :: request_handler where
  "vt_handle_vkCreateFramebuffer e batch c =
     VT_REQUEST_BEGIN batch c (
     VT_REQUEST_SCOPE_COMMAND VK_OBJECT_TYPE_DEVICE VORTEK_HANDLE_ROLE_VULKAN (
     VT_REQUEST_DECODE e ''vkCreateFramebuffer'' [Output, Output, Null, Null] (\<lambda>v b. let deviceId = v 0; createInfo = b 1 in
     VT_REQUEST_HANDLE deviceId VK_OBJECT_TYPE_DEVICE VORTEK_HANDLE_ROLE_VULKAN True False False (\<lambda>device.
     vulkan e ''vkCreateFramebuffer'' [Handle device, Bytes createInfo, Null, Output] (\<lambda>a. let result = drv_result a;
       framebuffer = drv_value a 3 in
     with_instance_owner (\<lambda>inst.
     VT_REQUEST_PUBLISH_RESULT e result VK_OBJECT_TYPE_FRAMEBUFFER VORTEK_HANDLE_ROLE_VULKAN framebuffer inst deviceId device (\<lambda>token.
     VT_SERIALIZE_CMD e ''VkFramebuffer'' [Value token] (\<lambda>outputBuffer bufferSize.
     VT_REQUEST_SEND e result outputBuffer bufferSize Some))))))))"

definition vt_handle_vkDestroyFramebuffer :: request_handler where
  "vt_handle_vkDestroyFramebuffer e batch c =
     VT_REQUEST_BEGIN batch c (
     VT_REQUEST_SCOPE_COMMAND VK_OBJECT_TYPE_DEVICE VORTEK_HANDLE_ROLE_VULKAN (
     VT_REQUEST_DECODE e ''vkDestroyFramebuffer'' [Output, Output, Null] (\<lambda>v _. let deviceId = v 0; framebufferId = v 1 in
     VT_REQUEST_HANDLE deviceId VK_OBJECT_TYPE_DEVICE VORTEK_HANDLE_ROLE_VULKAN True False False (\<lambda>device.
     VT_REQUEST_RETIRED_HANDLE framebufferId VK_OBJECT_TYPE_FRAMEBUFFER VORTEK_HANDLE_ROLE_VULKAN True True True (\<lambda>framebuffer.
     vulkan e ''vkDestroyFramebuffer'' [Handle device, Handle framebuffer, Null] (\<lambda>_. Some))))))"

definition vt_handle_vkCreateRenderPass :: request_handler where
  "vt_handle_vkCreateRenderPass e batch c =
     VT_REQUEST_BEGIN batch c (
     VT_REQUEST_SCOPE_COMMAND VK_OBJECT_TYPE_DEVICE VORTEK_HANDLE_ROLE_VULKAN (
     VT_REQUEST_DECODE e ''vkCreateRenderPass'' [Output, Output, Null, Null] (\<lambda>v b. let deviceId = v 0; createInfo = b 1 in
     VT_REQUEST_HANDLE deviceId VK_OBJECT_TYPE_DEVICE VORTEK_HANDLE_ROLE_VULKAN True False False (\<lambda>device.
     vulkan e ''vkCreateRenderPass'' [Handle device, Bytes createInfo, Null, Output] (\<lambda>a. let result = drv_result a;
       renderPass = drv_value a 3 in
     with_instance_owner (\<lambda>inst.
     VT_REQUEST_PUBLISH_RESULT e result VK_OBJECT_TYPE_RENDER_PASS VORTEK_HANDLE_ROLE_VULKAN renderPass inst deviceId device (\<lambda>token.
     VT_SERIALIZE_CMD e ''VkRenderPass'' [Value token] (\<lambda>outputBuffer bufferSize.
     VT_REQUEST_SEND e result outputBuffer bufferSize Some))))))))"

definition vt_handle_vkDestroyRenderPass :: request_handler where
  "vt_handle_vkDestroyRenderPass e batch c =
     VT_REQUEST_BEGIN batch c (
     VT_REQUEST_SCOPE_COMMAND VK_OBJECT_TYPE_DEVICE VORTEK_HANDLE_ROLE_VULKAN (
     VT_REQUEST_DECODE e ''vkDestroyRenderPass'' [Output, Output, Null] (\<lambda>v _. let deviceId = v 0; renderPassId = v 1 in
     VT_REQUEST_HANDLE deviceId VK_OBJECT_TYPE_DEVICE VORTEK_HANDLE_ROLE_VULKAN True False False (\<lambda>device.
     VT_REQUEST_RETIRED_HANDLE renderPassId VK_OBJECT_TYPE_RENDER_PASS VORTEK_HANDLE_ROLE_VULKAN True True True (\<lambda>renderPass.
     vulkan e ''vkDestroyRenderPass'' [Handle device, Handle renderPass, Null] (\<lambda>_. Some))))))"

definition vt_handle_vkGetRenderAreaGranularity :: request_handler where
  "vt_handle_vkGetRenderAreaGranularity e batch c =
     VT_REQUEST_BEGIN batch c (
     VT_REQUEST_SCOPE_COMMAND VK_OBJECT_TYPE_DEVICE VORTEK_HANDLE_ROLE_VULKAN (
     VT_REQUEST_DECODE e ''vkGetRenderAreaGranularity'' [Output, Output, Null] (\<lambda>v _. let deviceId = v 0; renderPassId = v 1 in
     VT_REQUEST_HANDLE deviceId VK_OBJECT_TYPE_DEVICE VORTEK_HANDLE_ROLE_VULKAN True False False (\<lambda>device.
     VT_REQUEST_HANDLE renderPassId VK_OBJECT_TYPE_RENDER_PASS VORTEK_HANDLE_ROLE_VULKAN True True False (\<lambda>renderPass.
     vulkan e ''vkGetRenderAreaGranularity'' [Handle device, Handle renderPass, Output] (\<lambda>a. let granularity = drv_bytes a 2 in
     VT_SERIALIZE_CMD e ''VkExtent2D'' [Bytes granularity] (\<lambda>outputBuffer bufferSize.
     VT_REQUEST_SEND e VK_SUCCESS outputBuffer bufferSize Some)))))))"

definition vt_handle_vkCreateCommandPool :: request_handler where
  "vt_handle_vkCreateCommandPool e batch c =
     VT_REQUEST_BEGIN batch c (
     VT_REQUEST_SCOPE_COMMAND VK_OBJECT_TYPE_DEVICE VORTEK_HANDLE_ROLE_VULKAN (
     VT_REQUEST_DECODE e ''vkCreateCommandPool'' [Output, Output, Null, Null] (\<lambda>v b. let deviceId = v 0; createInfo = b 1 in
     VT_REQUEST_HANDLE deviceId VK_OBJECT_TYPE_DEVICE VORTEK_HANDLE_ROLE_VULKAN True False False (\<lambda>device.
     vulkan e ''vkCreateCommandPool'' [Handle device, Bytes createInfo, Null, Output] (\<lambda>a. let result = drv_result a;
       commandPool = drv_value a 3 in
     with_instance_owner (\<lambda>inst.
     VT_REQUEST_PUBLISH_RESULT e result VK_OBJECT_TYPE_COMMAND_POOL VORTEK_HANDLE_ROLE_VULKAN commandPool inst deviceId device
       (\<lambda>token.
     VT_SERIALIZE_CMD e ''VkCommandPool'' [Value token] (\<lambda>outputBuffer bufferSize.
     VT_REQUEST_SEND e result outputBuffer bufferSize Some))))))))"

definition vt_handle_vkDestroyCommandPool :: request_handler where
  "vt_handle_vkDestroyCommandPool e batch c =
     VT_REQUEST_BEGIN batch c (
     VT_REQUEST_SCOPE_COMMAND VK_OBJECT_TYPE_DEVICE VORTEK_HANDLE_ROLE_VULKAN (
     VT_REQUEST_DECODE e ''vkDestroyCommandPool'' [Output, Output, Null] (\<lambda>v _. let deviceId = v 0; commandPoolId = v 1 in
     VT_REQUEST_HANDLE deviceId VK_OBJECT_TYPE_DEVICE VORTEK_HANDLE_ROLE_VULKAN True False False (\<lambda>device.
     VT_REQUEST_RETIRED_HANDLE commandPoolId VK_OBJECT_TYPE_COMMAND_POOL VORTEK_HANDLE_ROLE_VULKAN True True True (\<lambda>commandPool.
     VT_REQUEST_AUTHORITY (tombstone_children commandPoolId) (
     vulkan e ''vkDestroyCommandPool'' [Handle device, Handle commandPool, Null] (\<lambda>_. Some)))))))"

definition vt_handle_vkResetCommandPool :: request_handler where
  "vt_handle_vkResetCommandPool e batch c =
     VT_REQUEST_BEGIN batch c (
     VT_REQUEST_SCOPE_COMMAND VK_OBJECT_TYPE_DEVICE VORTEK_HANDLE_ROLE_VULKAN (
     VT_REQUEST_DECODE e ''vkResetCommandPool'' [Output, Output, Output] (\<lambda>v _. let deviceId = v 0; commandPoolId = v 1;
       flags = v 2 in
     VT_REQUEST_HANDLE deviceId VK_OBJECT_TYPE_DEVICE VORTEK_HANDLE_ROLE_VULKAN True False False (\<lambda>device.
     VT_REQUEST_HANDLE commandPoolId VK_OBJECT_TYPE_COMMAND_POOL VORTEK_HANDLE_ROLE_VULKAN True True False (\<lambda>commandPool.
     vulkan e ''vkResetCommandPool'' [Handle device, Handle commandPool, Value flags] (\<lambda>a. let result = drv_result a in
     only_if (result = VK_SUCCESS) (VT_REQUEST_AUTHORITY (tombstone_children commandPoolId)) Some))))))"

definition vt_handle_vkFreeCommandBuffers :: request_handler where
  "vt_handle_vkFreeCommandBuffers e batch c =
     VT_REQUEST_BEGIN batch c (
     VT_REQUEST_SCOPE_COMMAND VK_OBJECT_TYPE_DEVICE VORTEK_HANDLE_ROLE_VULKAN (
     VT_REQUEST_DECODE e ''vkFreeCommandBuffers'' [Output, Output, Output, Null] (\<lambda>v _. let deviceId = v 0; commandPoolId = v 1;
       commandBufferCount = v 2 in
     VT_REQUEST_HANDLE deviceId VK_OBJECT_TYPE_DEVICE VORTEK_HANDLE_ROLE_VULKAN True False False (\<lambda>device.
     VT_REQUEST_HANDLE commandPoolId VK_OBJECT_TYPE_COMMAND_POOL VORTEK_HANDLE_ROLE_VULKAN True True False (\<lambda>commandPool.
     VT_REQUEST_ARRAY e commandBufferCount 8 (\<lambda>commandBuffers_at.
     VT_REQUEST_ARRAY e commandBufferCount 8 (\<lambda>commandBufferTokens_at.
     VT_REQUEST_AUTHORITY (capture_begin 6 commandBufferCount) (
     VT_REQUEST_DECODE e ''vkFreeCommandBuffers'' [Null, Null, Null, array_output commandBuffers_at] (\<lambda>_ b.
       let commandBuffers = array_argument commandBuffers_at (b 3) in
     captured_tokens (\<lambda>commandBufferTokens.
     VT_REQUEST_AUTHORITY (capture_complete commandBufferCount) (
     VT_REQUEST_AUTHORITY (tombstone_batch e commandBufferTokens commandBufferCount VK_OBJECT_TYPE_COMMAND_BUFFER commandPoolId) (
     vulkan e ''vkFreeCommandBuffers'' [Handle device, Handle commandPool, Value commandBufferCount,
       commandBuffers] (\<lambda>_. Some)))))))))))))"

definition vt_handle_vkBeginCommandBuffer :: request_handler where
  "vt_handle_vkBeginCommandBuffer e batch c =
     VT_REQUEST_BEGIN batch c (
     VT_REQUEST_SCOPE_COMMAND VK_OBJECT_TYPE_COMMAND_BUFFER VORTEK_HANDLE_ROLE_VULKAN (
     VT_REQUEST_DECODE e ''vkBeginCommandBuffer'' [Output, Output] (\<lambda>v b. let commandBufferId = v 0; beginInfo = b 1 in
     VT_REQUEST_HANDLE commandBufferId VK_OBJECT_TYPE_COMMAND_BUFFER VORTEK_HANDLE_ROLE_VULKAN True True False (\<lambda>commandBuffer.
     vulkan e ''vkBeginCommandBuffer'' [Handle commandBuffer, Bytes beginInfo] (\<lambda>_. Some)))))"

definition vt_handle_vkResetCommandBuffer :: request_handler where
  "vt_handle_vkResetCommandBuffer e batch c =
     VT_REQUEST_BEGIN batch c (
     VT_REQUEST_SCOPE_COMMAND VK_OBJECT_TYPE_COMMAND_BUFFER VORTEK_HANDLE_ROLE_VULKAN (
     VT_REQUEST_DECODE e ''vkResetCommandBuffer'' [Output, Output] (\<lambda>v _. let commandBufferId = v 0; flags = v 1 in
     VT_REQUEST_HANDLE commandBufferId VK_OBJECT_TYPE_COMMAND_BUFFER VORTEK_HANDLE_ROLE_VULKAN True True False (\<lambda>commandBuffer.
     vulkan e ''vkResetCommandBuffer'' [Handle commandBuffer, Value flags] (\<lambda>_. Some)))))"

definition vt_handle_vkTrimCommandPool :: request_handler where
  "vt_handle_vkTrimCommandPool e batch c =
     VT_REQUEST_BEGIN batch c (
     VT_REQUEST_SCOPE_COMMAND VK_OBJECT_TYPE_DEVICE VORTEK_HANDLE_ROLE_VULKAN (
     VT_REQUEST_DECODE e ''vkTrimCommandPool'' [Output, Output, Output] (\<lambda>v _. let deviceId = v 0; commandPoolId = v 1; flags = v 2 in
     VT_REQUEST_HANDLE deviceId VK_OBJECT_TYPE_DEVICE VORTEK_HANDLE_ROLE_VULKAN True False False (\<lambda>device.
     VT_REQUEST_HANDLE commandPoolId VK_OBJECT_TYPE_COMMAND_POOL VORTEK_HANDLE_ROLE_VULKAN True True False (\<lambda>commandPool.
     vulkan e ''vkTrimCommandPool'' [Handle device, Handle commandPool, Value flags] (\<lambda>_. Some))))))"

definition vt_handle_vkGetPhysicalDeviceExternalBufferProperties :: request_handler where
  "vt_handle_vkGetPhysicalDeviceExternalBufferProperties e batch c =
     VT_REQUEST_BEGIN batch c (
     VT_REQUEST_SCOPE_COMMAND VK_OBJECT_TYPE_PHYSICAL_DEVICE VORTEK_HANDLE_ROLE_VULKAN (
     VT_REQUEST_DECODE e ''vkGetPhysicalDeviceExternalBufferProperties'' [Output, Output, Null] (\<lambda>v b. let physicalDeviceId = v 0;
       bufferInfo = b 1 in
     VT_REQUEST_HANDLE physicalDeviceId VK_OBJECT_TYPE_PHYSICAL_DEVICE VORTEK_HANDLE_ROLE_VULKAN True False False (\<lambda>physicalDevice.
     vulkan e ''vkGetPhysicalDeviceExternalBufferProperties'' [Handle physicalDevice, Bytes bufferInfo, Output] (\<lambda>a.
       let properties = drv_bytes a 2 in
     VT_SERIALIZE_CMD e ''VkExternalBufferProperties'' [Bytes properties] (\<lambda>outputBuffer bufferSize.
     VT_REQUEST_SEND e VK_SUCCESS outputBuffer bufferSize Some))))))"

definition vt_handle_vkGetPhysicalDeviceExternalSemaphoreProperties :: request_handler where
  "vt_handle_vkGetPhysicalDeviceExternalSemaphoreProperties e batch c =
     VT_REQUEST_BEGIN batch c (
     VT_REQUEST_SCOPE_COMMAND VK_OBJECT_TYPE_PHYSICAL_DEVICE VORTEK_HANDLE_ROLE_VULKAN (
     VT_REQUEST_DECODE e ''vkGetPhysicalDeviceExternalSemaphoreProperties'' [Output, Output, Null] (\<lambda>v b. let physicalDeviceId = v 0;
       semaphoreInfo = b 1 in
     VT_REQUEST_HANDLE physicalDeviceId VK_OBJECT_TYPE_PHYSICAL_DEVICE VORTEK_HANDLE_ROLE_VULKAN True False False (\<lambda>physicalDevice.
     vulkan e ''vkGetPhysicalDeviceExternalSemaphoreProperties'' [Handle physicalDevice, Bytes semaphoreInfo, Output] (\<lambda>a.
       let properties = drv_bytes a 2 in
     VT_SERIALIZE_CMD e ''VkExternalSemaphoreProperties'' [Bytes properties] (\<lambda>outputBuffer bufferSize.
     VT_REQUEST_SEND e VK_SUCCESS outputBuffer bufferSize Some))))))"

definition vt_handle_vkGetPhysicalDeviceExternalFenceProperties :: request_handler where
  "vt_handle_vkGetPhysicalDeviceExternalFenceProperties e batch c =
     VT_REQUEST_BEGIN batch c (
     VT_REQUEST_SCOPE_COMMAND VK_OBJECT_TYPE_PHYSICAL_DEVICE VORTEK_HANDLE_ROLE_VULKAN (
     VT_REQUEST_DECODE e ''vkGetPhysicalDeviceExternalFenceProperties'' [Output, Output, Null] (\<lambda>v b. let physicalDeviceId = v 0;
       fenceInfo = b 1 in
     VT_REQUEST_HANDLE physicalDeviceId VK_OBJECT_TYPE_PHYSICAL_DEVICE VORTEK_HANDLE_ROLE_VULKAN True False False (\<lambda>physicalDevice.
     vulkan e ''vkGetPhysicalDeviceExternalFenceProperties'' [Handle physicalDevice, Bytes fenceInfo, Output] (\<lambda>a.
       let properties = drv_bytes a 2 in
     VT_SERIALIZE_CMD e ''VkExternalFenceProperties'' [Bytes properties] (\<lambda>outputBuffer bufferSize.
     VT_REQUEST_SEND e VK_SUCCESS outputBuffer bufferSize Some))))))"

definition vt_handle_vkGetDeviceGroupPeerMemoryFeatures :: request_handler where
  "vt_handle_vkGetDeviceGroupPeerMemoryFeatures e batch c =
     VT_REQUEST_BEGIN batch c (
     VT_REQUEST_SCOPE_COMMAND VK_OBJECT_TYPE_DEVICE VORTEK_HANDLE_ROLE_VULKAN (
     VT_REQUEST_DECODE e ''vkGetDeviceGroupPeerMemoryFeatures'' [Output, Output, Output, Output, Null] (\<lambda>v _. let deviceId = v 0;
       heapIndex = v 1; localDeviceIndex = v 2; remoteDeviceIndex = v 3 in
     VT_REQUEST_HANDLE deviceId VK_OBJECT_TYPE_DEVICE VORTEK_HANDLE_ROLE_VULKAN True False False (\<lambda>device.
     vulkan e ''vkGetDeviceGroupPeerMemoryFeatures'' [Handle device, Value heapIndex, Value localDeviceIndex, Value remoteDeviceIndex,
       Output] (\<lambda>a. let featureFlags = drv_value a 4 in
     VT_REQUEST_SEND e VK_SUCCESS (Some (le_bytes 4 (ucast featureFlags :: u32))) 4 Some)))))"

definition vt_handle_vkBindImageMemory2 :: request_handler where
  "vt_handle_vkBindImageMemory2 e batch c =
     VT_REQUEST_BEGIN batch c (
     VT_REQUEST_SCOPE_COMMAND VK_OBJECT_TYPE_DEVICE VORTEK_HANDLE_ROLE_VULKAN (
     VT_REQUEST_DECODE e ''vkBindImageMemory2'' [Output, Output, Null] (\<lambda>v _. let deviceId = v 0; bindInfoCount = v 1 in
     VT_REQUEST_HANDLE deviceId VK_OBJECT_TYPE_DEVICE VORTEK_HANDLE_ROLE_VULKAN True False False (\<lambda>device.
     VT_REQUEST_ARRAY e bindInfoCount 40 (\<lambda>bindInfos_at.
     VT_REQUEST_DECODE e ''vkBindImageMemory2'' [Null, Null, array_output bindInfos_at] (\<lambda>_ b.
       let bindInfos = array_argument bindInfos_at (b 2) in
     vulkan e ''vkBindImageMemory2'' [Handle device, Value bindInfoCount, bindInfos] (\<lambda>a. let result = drv_result a in
     VT_REQUEST_SEND e result None 0 Some)))))))"

definition vt_handle_vkGetPhysicalDeviceMultisamplePropertiesEXT :: request_handler where
  "vt_handle_vkGetPhysicalDeviceMultisamplePropertiesEXT e batch c =
     VT_REQUEST_BEGIN batch c (
     VT_REQUEST_SCOPE_COMMAND VK_OBJECT_TYPE_PHYSICAL_DEVICE VORTEK_HANDLE_ROLE_VULKAN (
     VT_REQUEST_DECODE e ''vkGetPhysicalDeviceMultisamplePropertiesEXT'' [Output, Output, Null] (\<lambda>v _. let physicalDeviceId = v 0;
       samples = v 1 in
     VT_REQUEST_HANDLE physicalDeviceId VK_OBJECT_TYPE_PHYSICAL_DEVICE VORTEK_HANDLE_ROLE_VULKAN True False False (\<lambda>physicalDevice.
     vulkan e ''vkGetPhysicalDeviceMultisampleProperties'' [Handle physicalDevice, Value samples, Output] (\<lambda>a.
       let multisampleProperties = drv_bytes a 2 in
     VT_SERIALIZE_CMD e ''VkMultisamplePropertiesEXT'' [Bytes multisampleProperties] (\<lambda>outputBuffer bufferSize.
     VT_REQUEST_SEND e VK_SUCCESS outputBuffer bufferSize Some))))))"

definition vt_handle_vkGetBufferMemoryRequirements2 :: request_handler where
  "vt_handle_vkGetBufferMemoryRequirements2 e batch c =
     VT_REQUEST_BEGIN batch c (
     VT_REQUEST_SCOPE_COMMAND VK_OBJECT_TYPE_DEVICE VORTEK_HANDLE_ROLE_VULKAN (
     VT_REQUEST_DECODE e ''vkGetBufferMemoryRequirements2'' [Output, Output, Output] (\<lambda>v b. let deviceId = v 0;
       requirementsInfo = b 1; memoryRequirements = b 2 in
     VT_REQUEST_HANDLE deviceId VK_OBJECT_TYPE_DEVICE VORTEK_HANDLE_ROLE_VULKAN True False False (\<lambda>device.
     vulkan e ''vkGetBufferMemoryRequirements2'' [Handle device, Bytes requirementsInfo, Bytes memoryRequirements] (\<lambda>a.
       let memoryRequirements = drv_bytes a 2 in
     VT_SERIALIZE_CMD e ''VkMemoryRequirements2'' [Bytes memoryRequirements] (\<lambda>outputBuffer bufferSize.
     VT_REQUEST_SEND e VK_SUCCESS outputBuffer bufferSize Some))))))"

definition vt_handle_vkGetImageMemoryRequirements2 :: request_handler where
  "vt_handle_vkGetImageMemoryRequirements2 e batch c =
     VT_REQUEST_BEGIN batch c (
     VT_REQUEST_SCOPE_COMMAND VK_OBJECT_TYPE_DEVICE VORTEK_HANDLE_ROLE_VULKAN (
     VT_REQUEST_DECODE e ''vkGetImageMemoryRequirements2'' [Output, Output, Output] (\<lambda>v b. let deviceId = v 0;
       requirementsInfo = b 1; memoryRequirements = b 2 in
     VT_REQUEST_HANDLE deviceId VK_OBJECT_TYPE_DEVICE VORTEK_HANDLE_ROLE_VULKAN True False False (\<lambda>device.
     vulkan e ''vkGetImageMemoryRequirements2'' [Handle device, Bytes requirementsInfo, Bytes memoryRequirements] (\<lambda>a.
       let memoryRequirements = drv_bytes a 2 in
     VT_SERIALIZE_CMD e ''VkMemoryRequirements2'' [Bytes memoryRequirements] (\<lambda>outputBuffer bufferSize.
     VT_REQUEST_SEND e VK_SUCCESS outputBuffer bufferSize Some))))))"

definition vt_handle_vkGetDeviceBufferMemoryRequirements :: request_handler where
  "vt_handle_vkGetDeviceBufferMemoryRequirements e batch c =
     VT_REQUEST_BEGIN batch c (
     VT_REQUEST_SCOPE_COMMAND VK_OBJECT_TYPE_DEVICE VORTEK_HANDLE_ROLE_VULKAN (
     VT_REQUEST_DECODE e ''vkGetDeviceBufferMemoryRequirements'' [Output, Output, Output] (\<lambda>v b. let deviceId = v 0;
       requirementsInfo = b 1; memoryRequirements = b 2 in
     VT_REQUEST_HANDLE deviceId VK_OBJECT_TYPE_DEVICE VORTEK_HANDLE_ROLE_VULKAN True False False (\<lambda>device.
     vulkan e ''vkGetDeviceBufferMemoryRequirements'' [Handle device, Bytes requirementsInfo, Bytes memoryRequirements] (\<lambda>a.
       let memoryRequirements = drv_bytes a 2 in
     VT_SERIALIZE_CMD e ''VkMemoryRequirements2'' [Bytes memoryRequirements] (\<lambda>outputBuffer bufferSize.
     VT_REQUEST_SEND e VK_SUCCESS outputBuffer bufferSize Some))))))"

definition vt_handle_vkGetDeviceImageMemoryRequirements :: request_handler where
  "vt_handle_vkGetDeviceImageMemoryRequirements e batch c =
     VT_REQUEST_BEGIN batch c (
     VT_REQUEST_SCOPE_COMMAND VK_OBJECT_TYPE_DEVICE VORTEK_HANDLE_ROLE_VULKAN (
     VT_REQUEST_DECODE e ''vkGetDeviceImageMemoryRequirements'' [Output, Output, Output] (\<lambda>v b. let deviceId = v 0;
       requirementsInfo = b 1; memoryRequirements = b 2 in
     VT_REQUEST_HANDLE deviceId VK_OBJECT_TYPE_DEVICE VORTEK_HANDLE_ROLE_VULKAN True False False (\<lambda>device.
     vulkan e ''vkGetDeviceImageMemoryRequirements'' [Handle device, Bytes requirementsInfo, Bytes memoryRequirements] (\<lambda>a.
       let memoryRequirements = drv_bytes a 2 in
     VT_SERIALIZE_CMD e ''VkMemoryRequirements2'' [Bytes memoryRequirements] (\<lambda>outputBuffer bufferSize.
     VT_REQUEST_SEND e VK_SUCCESS outputBuffer bufferSize Some))))))"

definition vt_handle_vkCreateSamplerYcbcrConversion :: request_handler where
  "vt_handle_vkCreateSamplerYcbcrConversion e batch c =
     VT_REQUEST_BEGIN batch c (
     VT_REQUEST_SCOPE_COMMAND VK_OBJECT_TYPE_DEVICE VORTEK_HANDLE_ROLE_VULKAN (
     VT_REQUEST_DECODE e ''vkCreateSamplerYcbcrConversion'' [Output, Output, Null, Null] (\<lambda>v b. let deviceId = v 0;
       createInfo = b 1 in
     VT_REQUEST_HANDLE deviceId VK_OBJECT_TYPE_DEVICE VORTEK_HANDLE_ROLE_VULKAN True False False (\<lambda>device.
     vulkan e ''vkCreateSamplerYcbcrConversion'' [Handle device, Bytes createInfo, Null, Output] (\<lambda>a. let result = drv_result a;
       ycbcrConversion = drv_value a 3 in
     with_instance_owner (\<lambda>inst.
     VT_REQUEST_PUBLISH_RESULT e result VK_OBJECT_TYPE_SAMPLER_YCBCR_CONVERSION VORTEK_HANDLE_ROLE_VULKAN ycbcrConversion inst deviceId
       device (\<lambda>token.
     VT_SERIALIZE_CMD e ''VkSamplerYcbcrConversion'' [Value token] (\<lambda>outputBuffer bufferSize.
     VT_REQUEST_SEND e result outputBuffer bufferSize Some))))))))"

definition vt_handle_vkDestroySamplerYcbcrConversion :: request_handler where
  "vt_handle_vkDestroySamplerYcbcrConversion e batch c =
     VT_REQUEST_BEGIN batch c (
     VT_REQUEST_SCOPE_COMMAND VK_OBJECT_TYPE_DEVICE VORTEK_HANDLE_ROLE_VULKAN (
     VT_REQUEST_DECODE e ''vkDestroySamplerYcbcrConversion'' [Output, Output, Null] (\<lambda>v _. let deviceId = v 0;
       ycbcrConversionId = v 1 in
     VT_REQUEST_HANDLE deviceId VK_OBJECT_TYPE_DEVICE VORTEK_HANDLE_ROLE_VULKAN True False False (\<lambda>device.
     VT_REQUEST_RETIRED_HANDLE ycbcrConversionId VK_OBJECT_TYPE_SAMPLER_YCBCR_CONVERSION VORTEK_HANDLE_ROLE_VULKAN True True True
       (\<lambda>ycbcrConversion.
     vulkan e ''vkDestroySamplerYcbcrConversion'' [Handle device, Handle ycbcrConversion, Null] (\<lambda>_. Some))))))"

definition vt_handle_vkGetDeviceQueue2 :: request_handler where
  "vt_handle_vkGetDeviceQueue2 e batch c =
     VT_REQUEST_BEGIN batch c (
     VT_REQUEST_SCOPE_COMMAND VK_OBJECT_TYPE_DEVICE VORTEK_HANDLE_ROLE_VULKAN (
     VT_REQUEST_DECODE e ''vkGetDeviceQueue2'' [Output, Output, Null] (\<lambda>v b. let deviceId = v 0; queueInfo = b 1 in
     VT_REQUEST_HANDLE deviceId VK_OBJECT_TYPE_DEVICE VORTEK_HANDLE_ROLE_VULKAN True False False (\<lambda>device.
     vulkan e ''vkGetDeviceQueue2'' [Handle device, Bytes queueInfo, Output] (\<lambda>a. let queue = drv_value a 2 in
     with_instance_owner (\<lambda>inst.
     VT_REQUEST_PUBLISH e VK_OBJECT_TYPE_QUEUE VORTEK_HANDLE_ROLE_VULKAN queue inst deviceId device (\<lambda>token.
     VT_SERIALIZE_CMD e ''VkQueue'' [Value token] (\<lambda>outputBuffer bufferSize.
     VT_REQUEST_SEND e VK_SUCCESS outputBuffer bufferSize Some))))))))"

definition vt_handle_vkGetDescriptorSetLayoutSupport :: request_handler where
  "vt_handle_vkGetDescriptorSetLayoutSupport e batch c =
     VT_REQUEST_BEGIN batch c (
     VT_REQUEST_SCOPE_COMMAND VK_OBJECT_TYPE_DEVICE VORTEK_HANDLE_ROLE_VULKAN (
     VT_REQUEST_DECODE e ''vkGetDescriptorSetLayoutSupport'' [Output, Output, Null] (\<lambda>v b. let deviceId = v 0; createInfo = b 1 in
     VT_REQUEST_HANDLE deviceId VK_OBJECT_TYPE_DEVICE VORTEK_HANDLE_ROLE_VULKAN True False False (\<lambda>device.
     vulkan e ''vkGetDescriptorSetLayoutSupport'' [Handle device, Bytes createInfo, Output] (\<lambda>a. let support = drv_bytes a 2 in
     VT_SERIALIZE_CMD e ''VkDescriptorSetLayoutSupport'' [Bytes support] (\<lambda>outputBuffer bufferSize.
     VT_REQUEST_SEND e VK_SUCCESS outputBuffer bufferSize Some))))))"

definition vt_handle_vkGetCalibratedTimestampsKHR :: request_handler where
  "vt_handle_vkGetCalibratedTimestampsKHR e batch c =
     VT_REQUEST_BEGIN batch c (
     VT_REQUEST_SCOPE_COMMAND VK_OBJECT_TYPE_DEVICE VORTEK_HANDLE_ROLE_VULKAN (
     VT_REQUEST_DECODE e ''vkGetCalibratedTimestampsKHR'' [Output, Output, Null, Null, Null] (\<lambda>v _. let deviceId = v 0;
       timestampCount = v 1 in
     VT_REQUEST_HANDLE deviceId VK_OBJECT_TYPE_DEVICE VORTEK_HANDLE_ROLE_VULKAN True False False (\<lambda>device.
     VT_REQUEST_ARRAY e timestampCount 24 (\<lambda>timestampInfos_at.
     VT_REQUEST_DECODE e ''vkGetCalibratedTimestampsKHR'' [Null, Null, array_output timestampInfos_at, Null, Null] (\<lambda>_ b.
       let timestampInfos = array_argument timestampInfos_at (b 2) in
     VT_REQUEST_ARRAY e timestampCount 8 (\<lambda>timestamps_at.
     vulkan e ''vkGetCalibratedTimestamps'' [Handle device, Value timestampCount, timestampInfos, array_output timestamps_at,
       Output] (\<lambda>a. let result = drv_result a; timestamps = array_argument timestamps_at (drv_bytes a 3);
       maxDeviation = drv_value a 4 in
     VT_SERIALIZE_CMD e ''vkGetCalibratedTimestampsKHR'' [Null, Value timestampCount, Null, timestamps,
       Value maxDeviation] (\<lambda>outputBuffer bufferSize.
     VT_REQUEST_SEND e VK_SUCCESS outputBuffer bufferSize Some)))))))))"

definition vt_handle_vkCreateRenderPass2 :: request_handler where
  "vt_handle_vkCreateRenderPass2 e batch c =
     VT_REQUEST_BEGIN batch c (
     VT_REQUEST_SCOPE_COMMAND VK_OBJECT_TYPE_DEVICE VORTEK_HANDLE_ROLE_VULKAN (
     VT_REQUEST_DECODE e ''vkCreateRenderPass2'' [Output, Output, Null, Null] (\<lambda>v b. let deviceId = v 0; createInfo = b 1 in
     VT_REQUEST_HANDLE deviceId VK_OBJECT_TYPE_DEVICE VORTEK_HANDLE_ROLE_VULKAN True False False (\<lambda>device.
     vulkan e ''vkCreateRenderPass2'' [Handle device, Bytes createInfo, Null, Output] (\<lambda>a. let result = drv_result a;
       renderPass = drv_value a 3 in
     with_instance_owner (\<lambda>inst.
     VT_REQUEST_PUBLISH_RESULT e result VK_OBJECT_TYPE_RENDER_PASS VORTEK_HANDLE_ROLE_VULKAN renderPass inst deviceId device (\<lambda>token.
     VT_SERIALIZE_CMD e ''VkRenderPass'' [Value token] (\<lambda>outputBuffer bufferSize.
     VT_REQUEST_SEND e result outputBuffer bufferSize Some))))))))"

definition vt_handle_vkGetSemaphoreCounterValue :: request_handler where
  "vt_handle_vkGetSemaphoreCounterValue e batch c =
     VT_REQUEST_BEGIN batch c (
     VT_REQUEST_SCOPE_COMMAND VK_OBJECT_TYPE_DEVICE VORTEK_HANDLE_ROLE_VULKAN (
     VT_REQUEST_DECODE e ''vkGetSemaphoreCounterValue'' [Output, Output, Null] (\<lambda>v _. let deviceId = v 0; semaphoreId = v 1 in
     VT_REQUEST_HANDLE deviceId VK_OBJECT_TYPE_DEVICE VORTEK_HANDLE_ROLE_VULKAN True False False (\<lambda>device.
     VT_REQUEST_HANDLE semaphoreId VK_OBJECT_TYPE_SEMAPHORE VORTEK_HANDLE_ROLE_VULKAN True True False (\<lambda>semaphore.
     vulkan e ''vkGetSemaphoreCounterValue'' [Handle device, Handle semaphore, Output] (\<lambda>a. let result = drv_result a;
       value = drv_value a 2 in
     VT_REQUEST_SEND e result (Some (le_bytes 8 value)) 8 Some))))))"

definition vt_handle_vkSignalSemaphore :: request_handler where
  "vt_handle_vkSignalSemaphore e batch c =
     VT_REQUEST_BEGIN batch c (
     VT_REQUEST_SCOPE_COMMAND VK_OBJECT_TYPE_DEVICE VORTEK_HANDLE_ROLE_VULKAN (
     VT_REQUEST_DECODE e ''vkSignalSemaphore'' [Output, Output] (\<lambda>v b. let deviceId = v 0; signalInfo = b 1 in
     VT_REQUEST_HANDLE deviceId VK_OBJECT_TYPE_DEVICE VORTEK_HANDLE_ROLE_VULKAN True False False (\<lambda>device.
     vulkan e ''vkSignalSemaphore'' [Handle device, Bytes signalInfo] (\<lambda>a. let result = drv_result a in
     VT_REQUEST_SEND e result None 0 Some)))))"

definition vt_handle_vkGetBufferOpaqueCaptureAddress :: request_handler where
  "vt_handle_vkGetBufferOpaqueCaptureAddress e batch c =
     VT_REQUEST_BEGIN batch c (
     VT_REQUEST_SCOPE_COMMAND VK_OBJECT_TYPE_DEVICE VORTEK_HANDLE_ROLE_VULKAN (
     VT_REQUEST_DECODE e ''vkGetBufferOpaqueCaptureAddress'' [Output, Output] (\<lambda>v b. let deviceId = v 0; info = b 1 in
     VT_REQUEST_HANDLE deviceId VK_OBJECT_TYPE_DEVICE VORTEK_HANDLE_ROLE_VULKAN True False False (\<lambda>device.
     vulkan e ''vkGetBufferOpaqueCaptureAddress'' [Handle device, Bytes info] (\<lambda>a. let value = (word_of_int (drv_result a) :: u64) in
     VT_REQUEST_SEND e VK_SUCCESS (Some (le_bytes 8 value)) 8 Some)))))"

definition vt_handle_vkGetBufferDeviceAddress :: request_handler where
  "vt_handle_vkGetBufferDeviceAddress e batch c =
     VT_REQUEST_BEGIN batch c (
     VT_REQUEST_SCOPE_COMMAND VK_OBJECT_TYPE_DEVICE VORTEK_HANDLE_ROLE_VULKAN (
     VT_REQUEST_DECODE e ''vkGetBufferDeviceAddress'' [Output, Output] (\<lambda>v b. let deviceId = v 0; info = b 1 in
     VT_REQUEST_HANDLE deviceId VK_OBJECT_TYPE_DEVICE VORTEK_HANDLE_ROLE_VULKAN True False False (\<lambda>device.
     vulkan e ''vkGetBufferDeviceAddress'' [Handle device, Bytes info] (\<lambda>a. let value = (word_of_int (drv_result a) :: u64) in
     VT_REQUEST_SEND e VK_SUCCESS (Some (le_bytes 8 value)) 8 Some)))))"

definition vt_handle_vkGetDeviceMemoryOpaqueCaptureAddress :: request_handler where
  "vt_handle_vkGetDeviceMemoryOpaqueCaptureAddress e batch c =
     VT_REQUEST_BEGIN batch c (
     VT_REQUEST_SCOPE_COMMAND VK_OBJECT_TYPE_DEVICE VORTEK_HANDLE_ROLE_VULKAN (
     VT_REQUEST_DECODE e ''vkGetDeviceMemoryOpaqueCaptureAddress'' [Output, Output] (\<lambda>v b. let deviceId = v 0; info = b 1 in
     VT_REQUEST_HANDLE deviceId VK_OBJECT_TYPE_DEVICE VORTEK_HANDLE_ROLE_VULKAN True False False (\<lambda>device.
     vulkan e ''vkGetDeviceMemoryOpaqueCaptureAddress'' [Handle device, Bytes info] (\<lambda>a. let value = (word_of_int (drv_result a) :: u64) in
     VT_REQUEST_SEND e VK_SUCCESS (Some (le_bytes 8 value)) 8 Some)))))"

definition vt_handle_vkGetShaderModuleIdentifierEXT :: request_handler where
  "vt_handle_vkGetShaderModuleIdentifierEXT e batch c =
     VT_REQUEST_BEGIN batch c (
     VT_REQUEST_SCOPE_COMMAND VK_OBJECT_TYPE_DEVICE VORTEK_HANDLE_ROLE_VULKAN (
     VT_REQUEST_DECODE e ''vkGetShaderModuleIdentifierEXT'' [Output, Output, Output] (\<lambda>v b. let deviceId = v 0; shaderModuleId = v 1;
       identifier = b 2 in
     VT_REQUEST_HANDLE deviceId VK_OBJECT_TYPE_DEVICE VORTEK_HANDLE_ROLE_VULKAN True False False (\<lambda>device.
     VT_REQUEST_HANDLE shaderModuleId VK_OBJECT_TYPE_UNKNOWN VORTEK_HANDLE_ROLE_SHADER_MODULE True True False (\<lambda>shaderModule.
     vulkan e ''vkGetShaderModuleIdentifier'' [Handle device, Handle (env_module e shaderModule), Bytes identifier] (\<lambda>a.
       let identifier = drv_bytes a 2 in
     VT_SERIALIZE_CMD e ''VkShaderModuleIdentifierEXT'' [Bytes identifier] (\<lambda>outputBuffer bufferSize.
     VT_REQUEST_SEND e VK_SUCCESS outputBuffer bufferSize Some)))))))"

definition vt_handle_vkGetShaderModuleCreateInfoIdentifierEXT :: request_handler where
  "vt_handle_vkGetShaderModuleCreateInfoIdentifierEXT e batch c =
     VT_REQUEST_BEGIN batch c (
     VT_REQUEST_SCOPE_COMMAND VK_OBJECT_TYPE_DEVICE VORTEK_HANDLE_ROLE_VULKAN (
     VT_REQUEST_DECODE e ''vkGetShaderModuleCreateInfoIdentifierEXT'' [Output, Output, Output] (\<lambda>v b. let deviceId = v 0;
       createInfo = b 1; identifier = b 2 in
     VT_REQUEST_HANDLE deviceId VK_OBJECT_TYPE_DEVICE VORTEK_HANDLE_ROLE_VULKAN True False False (\<lambda>device.
     vulkan e ''vkGetShaderModuleCreateInfoIdentifier'' [Handle device, Bytes createInfo, Bytes identifier] (\<lambda>a.
       let identifier = drv_bytes a 2 in
     VT_SERIALIZE_CMD e ''VkShaderModuleIdentifierEXT'' [Bytes identifier] (\<lambda>outputBuffer bufferSize.
     VT_REQUEST_SEND e VK_SUCCESS outputBuffer bufferSize Some))))))"

end
