(* ===== verification/Handlers_Command.thy ===== *)
theory Handlers_Command
  imports Request_Macros
begin

text \<open>
  The handlers of recorded commands in \<^verbatim>\<open>vortekrenderer/src/request_handler.c\<close>, in the order of the source: the first half.
\<close>

definition vt_handle_vkCmdBindPipeline :: request_handler where
  "vt_handle_vkCmdBindPipeline e batch c =
     VT_REQUEST_BEGIN batch c (
     VT_REQUEST_SCOPE_COMMAND VK_OBJECT_TYPE_COMMAND_BUFFER VORTEK_HANDLE_ROLE_VULKAN (
     VT_REQUEST_DECODE e ''vkCmdBindPipeline'' [Output, Output, Output] (\<lambda>v _. let commandBufferId = v 0; pipelineBindPoint = v 1;
       pipelineId = v 2 in
     VT_REQUEST_HANDLE commandBufferId VK_OBJECT_TYPE_COMMAND_BUFFER VORTEK_HANDLE_ROLE_VULKAN True True False (\<lambda>commandBuffer.
     VT_REQUEST_HANDLE pipelineId VK_OBJECT_TYPE_PIPELINE VORTEK_HANDLE_ROLE_VULKAN True True False (\<lambda>pipeline.
     vulkan e ''vkCmdBindPipeline'' [Handle commandBuffer, Value pipelineBindPoint, Handle pipeline] (\<lambda>_. Some))))))"

definition vt_handle_vkCmdSetViewport :: request_handler where
  "vt_handle_vkCmdSetViewport e batch c =
     VT_REQUEST_BEGIN batch c (
     VT_REQUEST_SCOPE_COMMAND VK_OBJECT_TYPE_COMMAND_BUFFER VORTEK_HANDLE_ROLE_VULKAN (
     VT_REQUEST_DECODE e ''vkCmdSetViewport'' [Output, Output, Output, Null] (\<lambda>v _. let commandBufferId = v 0; firstViewport = v 1;
       viewportCount = v 2 in
     VT_REQUEST_HANDLE commandBufferId VK_OBJECT_TYPE_COMMAND_BUFFER VORTEK_HANDLE_ROLE_VULKAN True True False (\<lambda>commandBuffer.
     VT_REQUEST_ARRAY e viewportCount 24 (\<lambda>viewports_at.
     VT_REQUEST_DECODE e ''vkCmdSetViewport'' [Null, Null, Null, array_output viewports_at] (\<lambda>_ b.
       let viewports = array_argument viewports_at (b 3) in
     vulkan e ''vkCmdSetViewport'' [Handle commandBuffer, Value firstViewport, Value viewportCount, viewports] (\<lambda>_. Some)))))))"

definition vt_handle_vkCmdSetScissor :: request_handler where
  "vt_handle_vkCmdSetScissor e batch c =
     VT_REQUEST_BEGIN batch c (
     VT_REQUEST_SCOPE_COMMAND VK_OBJECT_TYPE_COMMAND_BUFFER VORTEK_HANDLE_ROLE_VULKAN (
     VT_REQUEST_DECODE e ''vkCmdSetScissor'' [Output, Output, Output, Null] (\<lambda>v _. let commandBufferId = v 0; firstScissor = v 1;
       scissorCount = v 2 in
     VT_REQUEST_HANDLE commandBufferId VK_OBJECT_TYPE_COMMAND_BUFFER VORTEK_HANDLE_ROLE_VULKAN True True False (\<lambda>commandBuffer.
     VT_REQUEST_ARRAY e scissorCount 16 (\<lambda>scissors_at.
     VT_REQUEST_DECODE e ''vkCmdSetScissor'' [Null, Null, Null, array_output scissors_at] (\<lambda>_ b.
       let scissors = array_argument scissors_at (b 3) in
     vulkan e ''vkCmdSetScissor'' [Handle commandBuffer, Value firstScissor, Value scissorCount, scissors] (\<lambda>_. Some)))))))"

definition vt_handle_vkCmdSetLineWidth :: request_handler where
  "vt_handle_vkCmdSetLineWidth e batch c =
     VT_REQUEST_BEGIN batch c (
     VT_REQUEST_SCOPE_COMMAND VK_OBJECT_TYPE_COMMAND_BUFFER VORTEK_HANDLE_ROLE_VULKAN (
     VT_REQUEST_DECODE e ''vkCmdSetLineWidth'' [Output, Output] (\<lambda>v _. let commandBufferId = v 0; lineWidth = v 1 in
     VT_REQUEST_HANDLE commandBufferId VK_OBJECT_TYPE_COMMAND_BUFFER VORTEK_HANDLE_ROLE_VULKAN True True False (\<lambda>commandBuffer.
     vulkan e ''vkCmdSetLineWidth'' [Handle commandBuffer, Value lineWidth] (\<lambda>_. Some)))))"

definition vt_handle_vkCmdSetDepthBias :: request_handler where
  "vt_handle_vkCmdSetDepthBias e batch c =
     VT_REQUEST_BEGIN batch c (
     VT_REQUEST_SCOPE_COMMAND VK_OBJECT_TYPE_COMMAND_BUFFER VORTEK_HANDLE_ROLE_VULKAN (
     VT_REQUEST_DECODE e ''vkCmdSetDepthBias'' [Output, Output, Output, Output] (\<lambda>v _. let commandBufferId = v 0;
       depthBiasConstantFactor = v 1; depthBiasClamp = v 2; depthBiasSlopeFactor = v 3 in
     VT_REQUEST_HANDLE commandBufferId VK_OBJECT_TYPE_COMMAND_BUFFER VORTEK_HANDLE_ROLE_VULKAN True True False (\<lambda>commandBuffer.
     vulkan e ''vkCmdSetDepthBias'' [Handle commandBuffer, Value depthBiasConstantFactor, Value depthBiasClamp,
       Value depthBiasSlopeFactor] (\<lambda>_. Some)))))"

definition vt_handle_vkCmdSetBlendConstants :: request_handler where
  "vt_handle_vkCmdSetBlendConstants e batch c =
     VT_REQUEST_BEGIN batch c (
     VT_REQUEST_SCOPE_COMMAND VK_OBJECT_TYPE_COMMAND_BUFFER VORTEK_HANDLE_ROLE_VULKAN (
     VT_REQUEST_DECODE e ''vkCmdSetBlendConstants'' [Output, Null] (\<lambda>v _. let commandBufferId = v 0 in
     VT_REQUEST_HANDLE commandBufferId VK_OBJECT_TYPE_COMMAND_BUFFER VORTEK_HANDLE_ROLE_VULKAN True True False (\<lambda>commandBuffer.
     VT_REQUEST_DECODE e ''vkCmdSetBlendConstants'' [Null, Output] (\<lambda>_ b. let blendConstants = Bytes (b 1) in
     vulkan e ''vkCmdSetBlendConstants'' [Handle commandBuffer, blendConstants] (\<lambda>_. Some))))))"

definition vt_handle_vkCmdSetDepthBounds :: request_handler where
  "vt_handle_vkCmdSetDepthBounds e batch c =
     VT_REQUEST_BEGIN batch c (
     VT_REQUEST_SCOPE_COMMAND VK_OBJECT_TYPE_COMMAND_BUFFER VORTEK_HANDLE_ROLE_VULKAN (
     VT_REQUEST_DECODE e ''vkCmdSetDepthBounds'' [Output, Output, Output] (\<lambda>v _. let commandBufferId = v 0; minDepthBounds = v 1;
       maxDepthBounds = v 2 in
     VT_REQUEST_HANDLE commandBufferId VK_OBJECT_TYPE_COMMAND_BUFFER VORTEK_HANDLE_ROLE_VULKAN True True False (\<lambda>commandBuffer.
     vulkan e ''vkCmdSetDepthBounds'' [Handle commandBuffer, Value minDepthBounds, Value maxDepthBounds] (\<lambda>_. Some)))))"

definition vt_handle_vkCmdSetStencilCompareMask :: request_handler where
  "vt_handle_vkCmdSetStencilCompareMask e batch c =
     VT_REQUEST_BEGIN batch c (
     VT_REQUEST_SCOPE_COMMAND VK_OBJECT_TYPE_COMMAND_BUFFER VORTEK_HANDLE_ROLE_VULKAN (
     VT_REQUEST_DECODE e ''vkCmdSetStencilCompareMask'' [Output, Output, Output] (\<lambda>v _. let commandBufferId = v 0; faceMask = v 1;
       compareMask = v 2 in
     VT_REQUEST_HANDLE commandBufferId VK_OBJECT_TYPE_COMMAND_BUFFER VORTEK_HANDLE_ROLE_VULKAN True True False (\<lambda>commandBuffer.
     vulkan e ''vkCmdSetStencilCompareMask'' [Handle commandBuffer, Value faceMask, Value compareMask] (\<lambda>_. Some)))))"

definition vt_handle_vkCmdSetStencilWriteMask :: request_handler where
  "vt_handle_vkCmdSetStencilWriteMask e batch c =
     VT_REQUEST_BEGIN batch c (
     VT_REQUEST_SCOPE_COMMAND VK_OBJECT_TYPE_COMMAND_BUFFER VORTEK_HANDLE_ROLE_VULKAN (
     VT_REQUEST_DECODE e ''vkCmdSetStencilWriteMask'' [Output, Output, Output] (\<lambda>v _. let commandBufferId = v 0; faceMask = v 1;
       writeMask = v 2 in
     VT_REQUEST_HANDLE commandBufferId VK_OBJECT_TYPE_COMMAND_BUFFER VORTEK_HANDLE_ROLE_VULKAN True True False (\<lambda>commandBuffer.
     vulkan e ''vkCmdSetStencilWriteMask'' [Handle commandBuffer, Value faceMask, Value writeMask] (\<lambda>_. Some)))))"

definition vt_handle_vkCmdSetStencilReference :: request_handler where
  "vt_handle_vkCmdSetStencilReference e batch c =
     VT_REQUEST_BEGIN batch c (
     VT_REQUEST_SCOPE_COMMAND VK_OBJECT_TYPE_COMMAND_BUFFER VORTEK_HANDLE_ROLE_VULKAN (
     VT_REQUEST_DECODE e ''vkCmdSetStencilReference'' [Output, Output, Output] (\<lambda>v _. let commandBufferId = v 0; faceMask = v 1;
       reference = v 2 in
     VT_REQUEST_HANDLE commandBufferId VK_OBJECT_TYPE_COMMAND_BUFFER VORTEK_HANDLE_ROLE_VULKAN True True False (\<lambda>commandBuffer.
     vulkan e ''vkCmdSetStencilReference'' [Handle commandBuffer, Value faceMask, Value reference] (\<lambda>_. Some)))))"

definition vt_handle_vkCmdBindDescriptorSets :: request_handler where
  "vt_handle_vkCmdBindDescriptorSets e batch c =
     VT_REQUEST_BEGIN batch c (
     VT_REQUEST_SCOPE_COMMAND VK_OBJECT_TYPE_COMMAND_BUFFER VORTEK_HANDLE_ROLE_VULKAN (
     VT_REQUEST_DECODE e ''vkCmdBindDescriptorSets'' [Output, Output, Output, Output, Output, Null, Output, Null] (\<lambda>v _.
       let commandBufferId = v 0; pipelineBindPoint = v 1; layoutId = v 2; firstSet = v 3; descriptorSetCount = v 4;
       dynamicOffsetCount = v 6 in
     VT_REQUEST_HANDLE commandBufferId VK_OBJECT_TYPE_COMMAND_BUFFER VORTEK_HANDLE_ROLE_VULKAN True True False (\<lambda>commandBuffer.
     VT_REQUEST_HANDLE layoutId VK_OBJECT_TYPE_PIPELINE_LAYOUT VORTEK_HANDLE_ROLE_VULKAN True True False (\<lambda>layout.
     VT_REQUEST_ARRAY e descriptorSetCount 8 (\<lambda>descriptorSets_at.
     VT_REQUEST_ARRAY e dynamicOffsetCount 4 (\<lambda>dynamicOffsets_at.
     VT_REQUEST_DECODE e ''vkCmdBindDescriptorSets'' [Null, Null, Null, Null, Null, array_output descriptorSets_at, Null,
       array_output dynamicOffsets_at] (\<lambda>_ b. let descriptorSets = array_argument descriptorSets_at (b 5);
       dynamicOffsets = array_argument dynamicOffsets_at (b 7) in
     vulkan e ''vkCmdBindDescriptorSets'' [Handle commandBuffer, Value pipelineBindPoint, Handle layout, Value firstSet,
       Value descriptorSetCount, descriptorSets, Value dynamicOffsetCount, dynamicOffsets] (\<lambda>_. Some)))))))))"

definition vt_handle_vkCmdBindIndexBuffer :: request_handler where
  "vt_handle_vkCmdBindIndexBuffer e batch c =
     VT_REQUEST_BEGIN batch c (
     VT_REQUEST_SCOPE_COMMAND VK_OBJECT_TYPE_COMMAND_BUFFER VORTEK_HANDLE_ROLE_VULKAN (
     VT_REQUEST_DECODE e ''vkCmdBindIndexBuffer'' [Output, Output, Output, Output] (\<lambda>v _. let commandBufferId = v 0; bufferId = v 1;
       offset = v 2; indexType = v 3 in
     VT_REQUEST_HANDLE commandBufferId VK_OBJECT_TYPE_COMMAND_BUFFER VORTEK_HANDLE_ROLE_VULKAN True True False (\<lambda>commandBuffer.
     VT_REQUEST_HANDLE bufferId VK_OBJECT_TYPE_BUFFER VORTEK_HANDLE_ROLE_VULKAN True True False (\<lambda>buffer.
     vulkan e ''vkCmdBindIndexBuffer'' [Handle commandBuffer, Handle buffer, Value offset, Value indexType] (\<lambda>_. Some))))))"

definition vt_handle_vkCmdBindVertexBuffers :: request_handler where
  "vt_handle_vkCmdBindVertexBuffers e batch c =
     VT_REQUEST_BEGIN batch c (
     VT_REQUEST_SCOPE_COMMAND VK_OBJECT_TYPE_COMMAND_BUFFER VORTEK_HANDLE_ROLE_VULKAN (
     VT_REQUEST_DECODE e ''vkCmdBindVertexBuffers'' [Output, Output, Output, Null, Null] (\<lambda>v _. let commandBufferId = v 0;
       firstBinding = v 1; bindingCount = v 2 in
     VT_REQUEST_HANDLE commandBufferId VK_OBJECT_TYPE_COMMAND_BUFFER VORTEK_HANDLE_ROLE_VULKAN True True False (\<lambda>commandBuffer.
     VT_REQUEST_ARRAY e bindingCount 8 (\<lambda>buffers_at.
     VT_REQUEST_ARRAY e bindingCount 8 (\<lambda>offsets_at.
     VT_REQUEST_DECODE e ''vkCmdBindVertexBuffers'' [Null, Null, Null, array_output buffers_at, array_output offsets_at] (\<lambda>_ b.
       let buffers = array_argument buffers_at (b 3); offsets = array_argument offsets_at (b 4) in
     vulkan e ''vkCmdBindVertexBuffers'' [Handle commandBuffer, Value firstBinding, Value bindingCount, buffers,
       offsets] (\<lambda>_. Some))))))))"

definition vt_handle_vkCmdDraw :: request_handler where
  "vt_handle_vkCmdDraw e batch c =
     VT_REQUEST_BEGIN batch c (
     VT_REQUEST_SCOPE_COMMAND VK_OBJECT_TYPE_COMMAND_BUFFER VORTEK_HANDLE_ROLE_VULKAN (
     VT_REQUEST_DECODE e ''vkCmdDraw'' [Output, Output, Output, Output, Output] (\<lambda>v _. let commandBufferId = v 0; vertexCount = v 1;
       instanceCount = v 2; firstVertex = v 3; firstInstance = v 4 in
     VT_REQUEST_HANDLE commandBufferId VK_OBJECT_TYPE_COMMAND_BUFFER VORTEK_HANDLE_ROLE_VULKAN True True False (\<lambda>commandBuffer.
     vulkan e ''vkCmdDraw'' [Handle commandBuffer, Value vertexCount, Value instanceCount, Value firstVertex,
       Value firstInstance] (\<lambda>_. Some)))))"

definition vt_handle_vkCmdDrawIndexed :: request_handler where
  "vt_handle_vkCmdDrawIndexed e batch c =
     VT_REQUEST_BEGIN batch c (
     VT_REQUEST_SCOPE_COMMAND VK_OBJECT_TYPE_COMMAND_BUFFER VORTEK_HANDLE_ROLE_VULKAN (
     VT_REQUEST_DECODE e ''vkCmdDrawIndexed'' [Output, Output, Output, Output, Output, Output] (\<lambda>v _. let commandBufferId = v 0;
       indexCount = v 1; instanceCount = v 2; firstIndex = v 3; vertexOffset = v 4; firstInstance = v 5 in
     VT_REQUEST_HANDLE commandBufferId VK_OBJECT_TYPE_COMMAND_BUFFER VORTEK_HANDLE_ROLE_VULKAN True True False (\<lambda>commandBuffer.
     vulkan e ''vkCmdDrawIndexed'' [Handle commandBuffer, Value indexCount, Value instanceCount, Value firstIndex, Value vertexOffset,
       Value firstInstance] (\<lambda>_. Some)))))"

definition vt_handle_vkCmdDrawIndirect :: request_handler where
  "vt_handle_vkCmdDrawIndirect e batch c =
     VT_REQUEST_BEGIN batch c (
     VT_REQUEST_SCOPE_COMMAND VK_OBJECT_TYPE_COMMAND_BUFFER VORTEK_HANDLE_ROLE_VULKAN (
     VT_REQUEST_DECODE e ''vkCmdDrawIndirect'' [Output, Output, Output, Output, Output] (\<lambda>v _. let commandBufferId = v 0;
       bufferId = v 1; offset = v 2; drawCount = v 3; stride = v 4 in
     VT_REQUEST_HANDLE commandBufferId VK_OBJECT_TYPE_COMMAND_BUFFER VORTEK_HANDLE_ROLE_VULKAN True True False (\<lambda>commandBuffer.
     VT_REQUEST_HANDLE bufferId VK_OBJECT_TYPE_BUFFER VORTEK_HANDLE_ROLE_VULKAN True True False (\<lambda>buffer.
     vulkan e ''vkCmdDrawIndirect'' [Handle commandBuffer, Handle buffer, Value offset, Value drawCount,
       Value stride] (\<lambda>_. Some))))))"

definition vt_handle_vkCmdDrawIndexedIndirect :: request_handler where
  "vt_handle_vkCmdDrawIndexedIndirect e batch c =
     VT_REQUEST_BEGIN batch c (
     VT_REQUEST_SCOPE_COMMAND VK_OBJECT_TYPE_COMMAND_BUFFER VORTEK_HANDLE_ROLE_VULKAN (
     VT_REQUEST_DECODE e ''vkCmdDrawIndexedIndirect'' [Output, Output, Output, Output, Output] (\<lambda>v _. let commandBufferId = v 0;
       bufferId = v 1; offset = v 2; drawCount = v 3; stride = v 4 in
     VT_REQUEST_HANDLE commandBufferId VK_OBJECT_TYPE_COMMAND_BUFFER VORTEK_HANDLE_ROLE_VULKAN True True False (\<lambda>commandBuffer.
     VT_REQUEST_HANDLE bufferId VK_OBJECT_TYPE_BUFFER VORTEK_HANDLE_ROLE_VULKAN True True False (\<lambda>buffer.
     vulkan e ''vkCmdDrawIndexedIndirect'' [Handle commandBuffer, Handle buffer, Value offset, Value drawCount,
       Value stride] (\<lambda>_. Some))))))"

definition vt_handle_vkCmdDispatch :: request_handler where
  "vt_handle_vkCmdDispatch e batch c =
     VT_REQUEST_BEGIN batch c (
     VT_REQUEST_SCOPE_COMMAND VK_OBJECT_TYPE_COMMAND_BUFFER VORTEK_HANDLE_ROLE_VULKAN (
     VT_REQUEST_DECODE e ''vkCmdDispatch'' [Output, Output, Output, Output] (\<lambda>v _. let commandBufferId = v 0; groupCountX = v 1;
       groupCountY = v 2; groupCountZ = v 3 in
     VT_REQUEST_HANDLE commandBufferId VK_OBJECT_TYPE_COMMAND_BUFFER VORTEK_HANDLE_ROLE_VULKAN True True False (\<lambda>commandBuffer.
     vulkan e ''vkCmdDispatch'' [Handle commandBuffer, Value groupCountX, Value groupCountY, Value groupCountZ] (\<lambda>_. Some)))))"

definition vt_handle_vkCmdDispatchIndirect :: request_handler where
  "vt_handle_vkCmdDispatchIndirect e batch c =
     VT_REQUEST_BEGIN batch c (
     VT_REQUEST_SCOPE_COMMAND VK_OBJECT_TYPE_COMMAND_BUFFER VORTEK_HANDLE_ROLE_VULKAN (
     VT_REQUEST_DECODE e ''vkCmdDispatchIndirect'' [Output, Output, Output] (\<lambda>v _. let commandBufferId = v 0; bufferId = v 1;
       offset = v 2 in
     VT_REQUEST_HANDLE commandBufferId VK_OBJECT_TYPE_COMMAND_BUFFER VORTEK_HANDLE_ROLE_VULKAN True True False (\<lambda>commandBuffer.
     VT_REQUEST_HANDLE bufferId VK_OBJECT_TYPE_BUFFER VORTEK_HANDLE_ROLE_VULKAN True True False (\<lambda>buffer.
     vulkan e ''vkCmdDispatchIndirect'' [Handle commandBuffer, Handle buffer, Value offset] (\<lambda>_. Some))))))"

definition vt_handle_vkCmdCopyBuffer :: request_handler where
  "vt_handle_vkCmdCopyBuffer e batch c =
     VT_REQUEST_BEGIN batch c (
     VT_REQUEST_SCOPE_COMMAND VK_OBJECT_TYPE_COMMAND_BUFFER VORTEK_HANDLE_ROLE_VULKAN (
     VT_REQUEST_DECODE e ''vkCmdCopyBuffer'' [Output, Output, Output, Output, Null] (\<lambda>v _. let commandBufferId = v 0;
       srcBufferId = v 1; dstBufferId = v 2; regionCount = v 3 in
     VT_REQUEST_HANDLE commandBufferId VK_OBJECT_TYPE_COMMAND_BUFFER VORTEK_HANDLE_ROLE_VULKAN True True False (\<lambda>commandBuffer.
     VT_REQUEST_HANDLE srcBufferId VK_OBJECT_TYPE_BUFFER VORTEK_HANDLE_ROLE_VULKAN True True False (\<lambda>srcBuffer.
     VT_REQUEST_HANDLE dstBufferId VK_OBJECT_TYPE_BUFFER VORTEK_HANDLE_ROLE_VULKAN True True False (\<lambda>dstBuffer.
     VT_REQUEST_ARRAY e regionCount 24 (\<lambda>regions_at.
     VT_REQUEST_DECODE e ''vkCmdCopyBuffer'' [Null, Null, Null, Null, array_output regions_at] (\<lambda>_ b.
       let regions = array_argument regions_at (b 4) in
     vulkan e ''vkCmdCopyBuffer'' [Handle commandBuffer, Handle srcBuffer, Handle dstBuffer, Value regionCount,
       regions] (\<lambda>_. Some)))))))))"

definition vt_handle_vkCmdCopyImage :: request_handler where
  "vt_handle_vkCmdCopyImage e batch c =
     VT_REQUEST_BEGIN batch c (
     VT_REQUEST_SCOPE_COMMAND VK_OBJECT_TYPE_COMMAND_BUFFER VORTEK_HANDLE_ROLE_VULKAN (
     VT_REQUEST_DECODE e ''vkCmdCopyImage'' [Output, Output, Output, Output, Output, Output, Null] (\<lambda>v _. let commandBufferId = v 0;
       srcImageId = v 1; srcImageLayout = v 2; dstImageId = v 3; dstImageLayout = v 4; regionCount = v 5 in
     VT_REQUEST_HANDLE commandBufferId VK_OBJECT_TYPE_COMMAND_BUFFER VORTEK_HANDLE_ROLE_VULKAN True True False (\<lambda>commandBuffer.
     VT_REQUEST_HANDLE srcImageId VK_OBJECT_TYPE_IMAGE VORTEK_HANDLE_ROLE_VULKAN True True False (\<lambda>srcImage.
     VT_REQUEST_HANDLE dstImageId VK_OBJECT_TYPE_IMAGE VORTEK_HANDLE_ROLE_VULKAN True True False (\<lambda>dstImage.
     VT_REQUEST_ARRAY e regionCount 68 (\<lambda>regions_at.
     VT_REQUEST_DECODE e ''vkCmdCopyImage'' [Null, Null, Null, Null, Null, Null, array_output regions_at] (\<lambda>_ b.
       let regions = array_argument regions_at (b 6) in
     vulkan e ''vkCmdCopyImage'' [Handle commandBuffer, Handle srcImage, Value srcImageLayout, Handle dstImage, Value dstImageLayout,
       Value regionCount, regions] (\<lambda>_. Some)))))))))"

definition vt_handle_vkCmdBlitImage :: request_handler where
  "vt_handle_vkCmdBlitImage e batch c =
     VT_REQUEST_BEGIN batch c (
     VT_REQUEST_SCOPE_COMMAND VK_OBJECT_TYPE_COMMAND_BUFFER VORTEK_HANDLE_ROLE_VULKAN (
     VT_REQUEST_DECODE e ''vkCmdBlitImage'' [Output, Output, Output, Output, Output, Output, Null, Output] (\<lambda>v _.
       let commandBufferId = v 0; srcImageId = v 1; srcImageLayout = v 2; dstImageId = v 3; dstImageLayout = v 4; regionCount = v 5;
       filter = v 7 in
     VT_REQUEST_HANDLE commandBufferId VK_OBJECT_TYPE_COMMAND_BUFFER VORTEK_HANDLE_ROLE_VULKAN True True False (\<lambda>commandBuffer.
     VT_REQUEST_HANDLE srcImageId VK_OBJECT_TYPE_IMAGE VORTEK_HANDLE_ROLE_VULKAN True True False (\<lambda>srcImage.
     VT_REQUEST_HANDLE dstImageId VK_OBJECT_TYPE_IMAGE VORTEK_HANDLE_ROLE_VULKAN True True False (\<lambda>dstImage.
     VT_REQUEST_ARRAY e regionCount 80 (\<lambda>regions_at.
     VT_REQUEST_DECODE e ''vkCmdBlitImage'' [Null, Null, Null, Null, Null, Null, array_output regions_at, Null] (\<lambda>_ b.
       let regions = array_argument regions_at (b 6) in
     vulkan e ''vkCmdBlitImage'' [Handle commandBuffer, Handle srcImage, Value srcImageLayout, Handle dstImage, Value dstImageLayout,
       Value regionCount, regions, Value filter] (\<lambda>_. Some)))))))))"

definition vt_handle_vkCmdCopyImageToBuffer :: request_handler where
  "vt_handle_vkCmdCopyImageToBuffer e batch c =
     VT_REQUEST_BEGIN batch c (
     VT_REQUEST_SCOPE_COMMAND VK_OBJECT_TYPE_COMMAND_BUFFER VORTEK_HANDLE_ROLE_VULKAN (
     VT_REQUEST_DECODE e ''vkCmdCopyImageToBuffer'' [Output, Output, Output, Output, Output, Null] (\<lambda>v _. let commandBufferId = v 0;
       srcImageId = v 1; srcImageLayout = v 2; dstBufferId = v 3; regionCount = v 4 in
     VT_REQUEST_HANDLE commandBufferId VK_OBJECT_TYPE_COMMAND_BUFFER VORTEK_HANDLE_ROLE_VULKAN True True False (\<lambda>commandBuffer.
     VT_REQUEST_HANDLE srcImageId VK_OBJECT_TYPE_IMAGE VORTEK_HANDLE_ROLE_VULKAN True True False (\<lambda>srcImage.
     VT_REQUEST_HANDLE dstBufferId VK_OBJECT_TYPE_BUFFER VORTEK_HANDLE_ROLE_VULKAN True True False (\<lambda>dstBuffer.
     VT_REQUEST_ARRAY e regionCount 56 (\<lambda>regions_at.
     VT_REQUEST_DECODE e ''vkCmdCopyImageToBuffer'' [Null, Null, Null, Null, Null, array_output regions_at] (\<lambda>_ b.
       let regions = array_argument regions_at (b 5) in
     vulkan e ''vkCmdCopyImageToBuffer'' [Handle commandBuffer, Handle srcImage, Value srcImageLayout, Handle dstBuffer, Value regionCount,
       regions] (\<lambda>_. Some)))))))))"

definition vt_handle_vkCmdUpdateBuffer :: request_handler where
  "vt_handle_vkCmdUpdateBuffer e batch c =
     VT_REQUEST_BEGIN batch c (
     VT_REQUEST_SCOPE_COMMAND VK_OBJECT_TYPE_COMMAND_BUFFER VORTEK_HANDLE_ROLE_VULKAN (
     VT_REQUEST_DECODE e ''vkCmdUpdateBuffer'' [Output, Output, Output, Output, Null] (\<lambda>v _. let commandBufferId = v 0;
       dstBufferId = v 1; dstOffset = v 2; dataSize = v 3 in
     VT_REQUEST_HANDLE commandBufferId VK_OBJECT_TYPE_COMMAND_BUFFER VORTEK_HANDLE_ROLE_VULKAN True True False (\<lambda>commandBuffer.
     VT_REQUEST_HANDLE dstBufferId VK_OBJECT_TYPE_BUFFER VORTEK_HANDLE_ROLE_VULKAN True True False (\<lambda>dstBuffer.
     VT_REQUEST_ARRAY e dataSize 1 (\<lambda>data_at.
     VT_REQUEST_DECODE e ''vkCmdUpdateBuffer'' [Null, Null, Null, Null, array_output data_at] (\<lambda>_ b.
       let data = array_argument data_at (b 4) in
     vulkan e ''vkCmdUpdateBuffer'' [Handle commandBuffer, Handle dstBuffer, Value dstOffset, Value dataSize, data] (\<lambda>_. Some))))))))"

definition vt_handle_vkCmdFillBuffer :: request_handler where
  "vt_handle_vkCmdFillBuffer e batch c =
     VT_REQUEST_BEGIN batch c (
     VT_REQUEST_SCOPE_COMMAND VK_OBJECT_TYPE_COMMAND_BUFFER VORTEK_HANDLE_ROLE_VULKAN (
     VT_REQUEST_DECODE e ''vkCmdFillBuffer'' [Output, Output, Output, Output, Output] (\<lambda>v _. let commandBufferId = v 0;
       dstBufferId = v 1; dstOffset = v 2; sz = v 3; data = v 4 in
     VT_REQUEST_HANDLE commandBufferId VK_OBJECT_TYPE_COMMAND_BUFFER VORTEK_HANDLE_ROLE_VULKAN True True False (\<lambda>commandBuffer.
     VT_REQUEST_HANDLE dstBufferId VK_OBJECT_TYPE_BUFFER VORTEK_HANDLE_ROLE_VULKAN True True False (\<lambda>dstBuffer.
     vulkan e ''vkCmdFillBuffer'' [Handle commandBuffer, Handle dstBuffer, Value dstOffset, Value sz, Value data] (\<lambda>_. Some))))))"

definition vt_handle_vkCmdClearColorImage :: request_handler where
  "vt_handle_vkCmdClearColorImage e batch c =
     VT_REQUEST_BEGIN batch c (
     VT_REQUEST_SCOPE_COMMAND VK_OBJECT_TYPE_COMMAND_BUFFER VORTEK_HANDLE_ROLE_VULKAN (
     VT_REQUEST_DECODE e ''vkCmdClearColorImage'' [Output, Output, Output, Output, Output, Null] (\<lambda>v b. let commandBufferId = v 0;
       imageId = v 1; imageLayout = v 2; color = b 3; rangeCount = v 4 in
     VT_REQUEST_HANDLE commandBufferId VK_OBJECT_TYPE_COMMAND_BUFFER VORTEK_HANDLE_ROLE_VULKAN True True False (\<lambda>commandBuffer.
     VT_REQUEST_HANDLE imageId VK_OBJECT_TYPE_IMAGE VORTEK_HANDLE_ROLE_VULKAN True True False (\<lambda>image.
     VT_REQUEST_ARRAY e rangeCount 20 (\<lambda>ranges_at.
     VT_REQUEST_DECODE e ''vkCmdClearColorImage'' [Null, Null, Null, Null, Null, array_output ranges_at] (\<lambda>_ b.
       let ranges = array_argument ranges_at (b 5) in
     vulkan e ''vkCmdClearColorImage'' [Handle commandBuffer, Handle image, Value imageLayout, Bytes color, Value rangeCount,
       ranges] (\<lambda>_. Some))))))))"

definition vt_handle_vkCmdClearDepthStencilImage :: request_handler where
  "vt_handle_vkCmdClearDepthStencilImage e batch c =
     VT_REQUEST_BEGIN batch c (
     VT_REQUEST_SCOPE_COMMAND VK_OBJECT_TYPE_COMMAND_BUFFER VORTEK_HANDLE_ROLE_VULKAN (
     VT_REQUEST_DECODE e ''vkCmdClearDepthStencilImage'' [Output, Output, Output, Output, Output, Null] (\<lambda>v b.
       let commandBufferId = v 0; imageId = v 1; imageLayout = v 2; depthStencil = b 3; rangeCount = v 4 in
     VT_REQUEST_HANDLE commandBufferId VK_OBJECT_TYPE_COMMAND_BUFFER VORTEK_HANDLE_ROLE_VULKAN True True False (\<lambda>commandBuffer.
     VT_REQUEST_HANDLE imageId VK_OBJECT_TYPE_IMAGE VORTEK_HANDLE_ROLE_VULKAN True True False (\<lambda>image.
     VT_REQUEST_ARRAY e rangeCount 20 (\<lambda>ranges_at.
     VT_REQUEST_DECODE e ''vkCmdClearDepthStencilImage'' [Null, Null, Null, Null, Null, array_output ranges_at] (\<lambda>_ b.
       let ranges = array_argument ranges_at (b 5) in
     vulkan e ''vkCmdClearDepthStencilImage'' [Handle commandBuffer, Handle image, Value imageLayout, Bytes depthStencil, Value rangeCount,
       ranges] (\<lambda>_. Some))))))))"

definition vt_handle_vkCmdClearAttachments :: request_handler where
  "vt_handle_vkCmdClearAttachments e batch c =
     VT_REQUEST_BEGIN batch c (
     VT_REQUEST_SCOPE_COMMAND VK_OBJECT_TYPE_COMMAND_BUFFER VORTEK_HANDLE_ROLE_VULKAN (
     VT_REQUEST_DECODE e ''vkCmdClearAttachments'' [Output, Output, Null, Output, Null] (\<lambda>v _. let commandBufferId = v 0;
       attachmentCount = v 1; rectCount = v 3 in
     VT_REQUEST_HANDLE commandBufferId VK_OBJECT_TYPE_COMMAND_BUFFER VORTEK_HANDLE_ROLE_VULKAN True True False (\<lambda>commandBuffer.
     VT_REQUEST_ARRAY e attachmentCount 24 (\<lambda>attachments_at.
     VT_REQUEST_ARRAY e rectCount 24 (\<lambda>rects_at.
     VT_REQUEST_DECODE e ''vkCmdClearAttachments'' [Null, Null, array_output attachments_at, Null, array_output rects_at] (\<lambda>_ b.
       let attachments = array_argument attachments_at (b 2); rects = array_argument rects_at (b 4) in
     vulkan e ''vkCmdClearAttachments'' [Handle commandBuffer, Value attachmentCount, attachments, Value rectCount,
       rects] (\<lambda>_. Some))))))))"

definition vt_handle_vkCmdResolveImage :: request_handler where
  "vt_handle_vkCmdResolveImage e batch c =
     VT_REQUEST_BEGIN batch c (
     VT_REQUEST_SCOPE_COMMAND VK_OBJECT_TYPE_COMMAND_BUFFER VORTEK_HANDLE_ROLE_VULKAN (
     VT_REQUEST_DECODE e ''vkCmdResolveImage'' [Output, Output, Output, Output, Output, Output, Null] (\<lambda>v _.
       let commandBufferId = v 0; srcImageId = v 1; srcImageLayout = v 2; dstImageId = v 3; dstImageLayout = v 4; regionCount = v 5 in
     VT_REQUEST_HANDLE commandBufferId VK_OBJECT_TYPE_COMMAND_BUFFER VORTEK_HANDLE_ROLE_VULKAN True True False (\<lambda>commandBuffer.
     VT_REQUEST_HANDLE srcImageId VK_OBJECT_TYPE_IMAGE VORTEK_HANDLE_ROLE_VULKAN True True False (\<lambda>srcImage.
     VT_REQUEST_HANDLE dstImageId VK_OBJECT_TYPE_IMAGE VORTEK_HANDLE_ROLE_VULKAN True True False (\<lambda>dstImage.
     VT_REQUEST_ARRAY e regionCount 68 (\<lambda>regions_at.
     VT_REQUEST_DECODE e ''vkCmdResolveImage'' [Null, Null, Null, Null, Null, Null, array_output regions_at] (\<lambda>_ b.
       let regions = array_argument regions_at (b 6) in
     vulkan e ''vkCmdResolveImage'' [Handle commandBuffer, Handle srcImage, Value srcImageLayout, Handle dstImage, Value dstImageLayout,
       Value regionCount, regions] (\<lambda>_. Some)))))))))"

definition vt_handle_vkCmdSetEvent :: request_handler where
  "vt_handle_vkCmdSetEvent e batch c =
     VT_REQUEST_BEGIN batch c (
     VT_REQUEST_SCOPE_COMMAND VK_OBJECT_TYPE_COMMAND_BUFFER VORTEK_HANDLE_ROLE_VULKAN (
     VT_REQUEST_DECODE e ''vkCmdSetEvent'' [Output, Output, Output] (\<lambda>v _. let commandBufferId = v 0; eventId = v 1;
       stageMask = v 2 in
     VT_REQUEST_HANDLE commandBufferId VK_OBJECT_TYPE_COMMAND_BUFFER VORTEK_HANDLE_ROLE_VULKAN True True False (\<lambda>commandBuffer.
     VT_REQUEST_HANDLE eventId VK_OBJECT_TYPE_EVENT VORTEK_HANDLE_ROLE_VULKAN True True False (\<lambda>event.
     vulkan e ''vkCmdSetEvent'' [Handle commandBuffer, Handle event, Value stageMask] (\<lambda>_. Some))))))"

definition vt_handle_vkCmdResetEvent :: request_handler where
  "vt_handle_vkCmdResetEvent e batch c =
     VT_REQUEST_BEGIN batch c (
     VT_REQUEST_SCOPE_COMMAND VK_OBJECT_TYPE_COMMAND_BUFFER VORTEK_HANDLE_ROLE_VULKAN (
     VT_REQUEST_DECODE e ''vkCmdResetEvent'' [Output, Output, Output] (\<lambda>v _. let commandBufferId = v 0; eventId = v 1;
       stageMask = v 2 in
     VT_REQUEST_HANDLE commandBufferId VK_OBJECT_TYPE_COMMAND_BUFFER VORTEK_HANDLE_ROLE_VULKAN True True False (\<lambda>commandBuffer.
     VT_REQUEST_HANDLE eventId VK_OBJECT_TYPE_EVENT VORTEK_HANDLE_ROLE_VULKAN True True False (\<lambda>event.
     vulkan e ''vkCmdResetEvent'' [Handle commandBuffer, Handle event, Value stageMask] (\<lambda>_. Some))))))"

definition vt_handle_vkCmdWaitEvents :: request_handler where
  "vt_handle_vkCmdWaitEvents e batch c =
     VT_REQUEST_BEGIN batch c (
     VT_REQUEST_SCOPE_COMMAND VK_OBJECT_TYPE_COMMAND_BUFFER VORTEK_HANDLE_ROLE_VULKAN (
     VT_REQUEST_DECODE e ''vkCmdWaitEvents'' [Output, Output, Null, Output, Output, Output, Null, Output, Null, Output,
       Null] (\<lambda>v _. let commandBufferId = v 0; eventCount = v 1; srcStageMask = v 3; dstStageMask = v 4; memoryBarrierCount = v 5;
       bufferMemoryBarrierCount = v 7; imageMemoryBarrierCount = v 9 in
     VT_REQUEST_HANDLE commandBufferId VK_OBJECT_TYPE_COMMAND_BUFFER VORTEK_HANDLE_ROLE_VULKAN True True False (\<lambda>commandBuffer.
     VT_REQUEST_ARRAY e eventCount 8 (\<lambda>events_at.
     VT_REQUEST_ARRAY e memoryBarrierCount 24 (\<lambda>memoryBarriers_at.
     VT_REQUEST_ARRAY e bufferMemoryBarrierCount 56 (\<lambda>bufferMemoryBarriers_at.
     VT_REQUEST_ARRAY e imageMemoryBarrierCount 72 (\<lambda>imageMemoryBarriers_at.
     VT_REQUEST_DECODE e ''vkCmdWaitEvents'' [Null, Null, array_output events_at, Null, Null, Null, array_output memoryBarriers_at, Null,
       array_output bufferMemoryBarriers_at, Null, array_output imageMemoryBarriers_at] (\<lambda>_ b.
       let events = array_argument events_at (b 2); memoryBarriers = array_argument memoryBarriers_at (b 6);
       bufferMemoryBarriers = array_argument bufferMemoryBarriers_at (b 8);
       imageMemoryBarriers = array_argument imageMemoryBarriers_at (b 10) in
     vulkan e ''vkCmdWaitEvents'' [Handle commandBuffer, Value eventCount, events, Value srcStageMask, Value dstStageMask,
       Value memoryBarrierCount, memoryBarriers, Value bufferMemoryBarrierCount, bufferMemoryBarriers, Value imageMemoryBarrierCount,
       imageMemoryBarriers] (\<lambda>_. Some))))))))))"

definition vt_handle_vkCmdPipelineBarrier :: request_handler where
  "vt_handle_vkCmdPipelineBarrier e batch c =
     VT_REQUEST_BEGIN batch c (
     VT_REQUEST_SCOPE_COMMAND VK_OBJECT_TYPE_COMMAND_BUFFER VORTEK_HANDLE_ROLE_VULKAN (
     VT_REQUEST_DECODE e ''vkCmdPipelineBarrier'' [Output, Output, Output, Output, Output, Null, Output, Null, Output,
       Null] (\<lambda>v _. let commandBufferId = v 0; srcStageMask = v 1; dstStageMask = v 2; dependencyFlags = v 3;
       memoryBarrierCount = v 4; bufferMemoryBarrierCount = v 6; imageMemoryBarrierCount = v 8 in
     VT_REQUEST_HANDLE commandBufferId VK_OBJECT_TYPE_COMMAND_BUFFER VORTEK_HANDLE_ROLE_VULKAN True True False (\<lambda>commandBuffer.
     VT_REQUEST_ARRAY e memoryBarrierCount 24 (\<lambda>memoryBarriers_at.
     VT_REQUEST_ARRAY e bufferMemoryBarrierCount 56 (\<lambda>bufferMemoryBarriers_at.
     VT_REQUEST_ARRAY e imageMemoryBarrierCount 72 (\<lambda>imageMemoryBarriers_at.
     VT_REQUEST_DECODE e ''vkCmdPipelineBarrier'' [Null, Null, Null, Null, Null, array_output memoryBarriers_at, Null,
       array_output bufferMemoryBarriers_at, Null, array_output imageMemoryBarriers_at] (\<lambda>_ b.
       let memoryBarriers = array_argument memoryBarriers_at (b 5); bufferMemoryBarriers = array_argument bufferMemoryBarriers_at (b 7);
       imageMemoryBarriers = array_argument imageMemoryBarriers_at (b 9) in
     vulkan e ''vkCmdPipelineBarrier'' [Handle commandBuffer, Value srcStageMask, Value dstStageMask, Value dependencyFlags,
       Value memoryBarrierCount, memoryBarriers, Value bufferMemoryBarrierCount, bufferMemoryBarriers, Value imageMemoryBarrierCount,
       imageMemoryBarriers] (\<lambda>_. Some)))))))))"

definition vt_handle_vkCmdBeginQuery :: request_handler where
  "vt_handle_vkCmdBeginQuery e batch c =
     VT_REQUEST_BEGIN batch c (
     VT_REQUEST_SCOPE_COMMAND VK_OBJECT_TYPE_COMMAND_BUFFER VORTEK_HANDLE_ROLE_VULKAN (
     VT_REQUEST_DECODE e ''vkCmdBeginQuery'' [Output, Output, Output, Output] (\<lambda>v _. let commandBufferId = v 0; queryPoolId = v 1;
       query = v 2; flags = v 3 in
     VT_REQUEST_HANDLE commandBufferId VK_OBJECT_TYPE_COMMAND_BUFFER VORTEK_HANDLE_ROLE_VULKAN True True False (\<lambda>commandBuffer.
     VT_REQUEST_HANDLE queryPoolId VK_OBJECT_TYPE_QUERY_POOL VORTEK_HANDLE_ROLE_VULKAN True True False (\<lambda>queryPool.
     vulkan e ''vkCmdBeginQuery'' [Handle commandBuffer, Handle queryPool, Value query, Value flags] (\<lambda>_. Some))))))"

definition vt_handle_vkCmdEndQuery :: request_handler where
  "vt_handle_vkCmdEndQuery e batch c =
     VT_REQUEST_BEGIN batch c (
     VT_REQUEST_SCOPE_COMMAND VK_OBJECT_TYPE_COMMAND_BUFFER VORTEK_HANDLE_ROLE_VULKAN (
     VT_REQUEST_DECODE e ''vkCmdEndQuery'' [Output, Output, Output] (\<lambda>v _. let commandBufferId = v 0; queryPoolId = v 1;
       query = v 2 in
     VT_REQUEST_HANDLE commandBufferId VK_OBJECT_TYPE_COMMAND_BUFFER VORTEK_HANDLE_ROLE_VULKAN True True False (\<lambda>commandBuffer.
     VT_REQUEST_HANDLE queryPoolId VK_OBJECT_TYPE_QUERY_POOL VORTEK_HANDLE_ROLE_VULKAN True True False (\<lambda>queryPool.
     vulkan e ''vkCmdEndQuery'' [Handle commandBuffer, Handle queryPool, Value query] (\<lambda>_. Some))))))"

definition vt_handle_vkCmdBeginConditionalRenderingEXT :: request_handler where
  "vt_handle_vkCmdBeginConditionalRenderingEXT e batch c =
     VT_REQUEST_BEGIN batch c (
     VT_REQUEST_SCOPE_COMMAND VK_OBJECT_TYPE_COMMAND_BUFFER VORTEK_HANDLE_ROLE_VULKAN (
     VT_REQUEST_DECODE e ''vkCmdBeginConditionalRenderingEXT'' [Output, Output] (\<lambda>v b. let commandBufferId = v 0;
       conditionalRenderingBegin = b 1 in
     VT_REQUEST_HANDLE commandBufferId VK_OBJECT_TYPE_COMMAND_BUFFER VORTEK_HANDLE_ROLE_VULKAN True True False (\<lambda>commandBuffer.
     vulkan e ''vkCmdBeginConditionalRendering'' [Handle commandBuffer, Bytes conditionalRenderingBegin] (\<lambda>_. Some)))))"

definition vt_handle_vkCmdEndConditionalRenderingEXT :: request_handler where
  "vt_handle_vkCmdEndConditionalRenderingEXT e batch c =
     VT_REQUEST_BEGIN batch c (
     VT_REQUEST_SCOPE_SIMPLE VK_OBJECT_TYPE_COMMAND_BUFFER VORTEK_HANDLE_ROLE_VULKAN (
     VT_REQUEST_DECODE e ''VkCommandBuffer'' [Output] (\<lambda>v _. let commandBufferId = v 0 in
     VT_REQUEST_HANDLE commandBufferId VK_OBJECT_TYPE_COMMAND_BUFFER VORTEK_HANDLE_ROLE_VULKAN True True False (\<lambda>commandBuffer.
     vulkan e ''vkCmdEndConditionalRendering'' [Handle commandBuffer] (\<lambda>_. Some)))))"

definition vt_handle_vkCmdResetQueryPool :: request_handler where
  "vt_handle_vkCmdResetQueryPool e batch c =
     VT_REQUEST_BEGIN batch c (
     VT_REQUEST_SCOPE_COMMAND VK_OBJECT_TYPE_COMMAND_BUFFER VORTEK_HANDLE_ROLE_VULKAN (
     VT_REQUEST_DECODE e ''vkCmdResetQueryPool'' [Output, Output, Output, Output] (\<lambda>v _. let commandBufferId = v 0;
       queryPoolId = v 1; firstQuery = v 2; queryCount = v 3 in
     VT_REQUEST_HANDLE commandBufferId VK_OBJECT_TYPE_COMMAND_BUFFER VORTEK_HANDLE_ROLE_VULKAN True True False (\<lambda>commandBuffer.
     VT_REQUEST_HANDLE queryPoolId VK_OBJECT_TYPE_QUERY_POOL VORTEK_HANDLE_ROLE_VULKAN True True False (\<lambda>queryPool.
     vulkan e ''vkCmdResetQueryPool'' [Handle commandBuffer, Handle queryPool, Value firstQuery, Value queryCount] (\<lambda>_. Some))))))"

definition vt_handle_vkCmdWriteTimestamp :: request_handler where
  "vt_handle_vkCmdWriteTimestamp e batch c =
     VT_REQUEST_BEGIN batch c (
     VT_REQUEST_SCOPE_COMMAND VK_OBJECT_TYPE_COMMAND_BUFFER VORTEK_HANDLE_ROLE_VULKAN (
     VT_REQUEST_DECODE e ''vkCmdWriteTimestamp'' [Output, Output, Output, Output] (\<lambda>v _. let commandBufferId = v 0;
       pipelineStage = v 1; queryPoolId = v 2; query = v 3 in
     VT_REQUEST_HANDLE commandBufferId VK_OBJECT_TYPE_COMMAND_BUFFER VORTEK_HANDLE_ROLE_VULKAN True True False (\<lambda>commandBuffer.
     VT_REQUEST_HANDLE queryPoolId VK_OBJECT_TYPE_QUERY_POOL VORTEK_HANDLE_ROLE_VULKAN True True False (\<lambda>queryPool.
     vulkan e ''vkCmdWriteTimestamp'' [Handle commandBuffer, Value pipelineStage, Handle queryPool, Value query] (\<lambda>_. Some))))))"

definition vt_handle_vkCmdCopyQueryPoolResults :: request_handler where
  "vt_handle_vkCmdCopyQueryPoolResults e batch c =
     VT_REQUEST_BEGIN batch c (
     VT_REQUEST_SCOPE_COMMAND VK_OBJECT_TYPE_COMMAND_BUFFER VORTEK_HANDLE_ROLE_VULKAN (
     VT_REQUEST_DECODE e ''vkCmdCopyQueryPoolResults'' [Output, Output, Output, Output, Output, Output, Output, Output] (\<lambda>v _.
       let commandBufferId = v 0; queryPoolId = v 1; firstQuery = v 2; queryCount = v 3; dstBufferId = v 4; dstOffset = v 5; stride = v 6;
       flags = v 7 in
     VT_REQUEST_HANDLE commandBufferId VK_OBJECT_TYPE_COMMAND_BUFFER VORTEK_HANDLE_ROLE_VULKAN True True False (\<lambda>commandBuffer.
     VT_REQUEST_HANDLE queryPoolId VK_OBJECT_TYPE_QUERY_POOL VORTEK_HANDLE_ROLE_VULKAN True True False (\<lambda>queryPool.
     VT_REQUEST_HANDLE dstBufferId VK_OBJECT_TYPE_BUFFER VORTEK_HANDLE_ROLE_VULKAN True True False (\<lambda>dstBuffer.
     vulkan e ''vkCmdCopyQueryPoolResults'' [Handle commandBuffer, Handle queryPool, Value firstQuery, Value queryCount, Handle dstBuffer,
       Value dstOffset, Value stride, Value flags] (\<lambda>_. Some)))))))"

definition vt_handle_vkCmdBeginRenderPass :: request_handler where
  "vt_handle_vkCmdBeginRenderPass e batch c =
     VT_REQUEST_BEGIN batch c (
     VT_REQUEST_SCOPE_COMMAND VK_OBJECT_TYPE_COMMAND_BUFFER VORTEK_HANDLE_ROLE_VULKAN (
     VT_REQUEST_DECODE e ''vkCmdBeginRenderPass'' [Output, Output, Output] (\<lambda>v b. let commandBufferId = v 0; renderPassBegin = b 1;
       contents = v 2 in
     VT_REQUEST_HANDLE commandBufferId VK_OBJECT_TYPE_COMMAND_BUFFER VORTEK_HANDLE_ROLE_VULKAN True True False (\<lambda>commandBuffer.
     vulkan e ''vkCmdBeginRenderPass'' [Handle commandBuffer, Bytes renderPassBegin, Value contents] (\<lambda>_. Some)))))"

definition vt_handle_vkCmdNextSubpass :: request_handler where
  "vt_handle_vkCmdNextSubpass e batch c =
     VT_REQUEST_BEGIN batch c (
     VT_REQUEST_SCOPE_COMMAND VK_OBJECT_TYPE_COMMAND_BUFFER VORTEK_HANDLE_ROLE_VULKAN (
     VT_REQUEST_DECODE e ''vkCmdNextSubpass'' [Output, Output] (\<lambda>v _. let commandBufferId = v 0; contents = v 1 in
     VT_REQUEST_HANDLE commandBufferId VK_OBJECT_TYPE_COMMAND_BUFFER VORTEK_HANDLE_ROLE_VULKAN True True False (\<lambda>commandBuffer.
     vulkan e ''vkCmdNextSubpass'' [Handle commandBuffer, Value contents] (\<lambda>_. Some)))))"

definition vt_handle_vkCmdEndRenderPass :: request_handler where
  "vt_handle_vkCmdEndRenderPass e batch c =
     VT_REQUEST_BEGIN batch c (
     VT_REQUEST_SCOPE_SIMPLE VK_OBJECT_TYPE_COMMAND_BUFFER VORTEK_HANDLE_ROLE_VULKAN (
     VT_REQUEST_DECODE e ''VkCommandBuffer'' [Output] (\<lambda>v _. let commandBufferId = v 0 in
     VT_REQUEST_HANDLE commandBufferId VK_OBJECT_TYPE_COMMAND_BUFFER VORTEK_HANDLE_ROLE_VULKAN True True False (\<lambda>commandBuffer.
     vulkan e ''vkCmdEndRenderPass'' [Handle commandBuffer] (\<lambda>_. Some)))))"

definition vt_handle_vkCmdExecuteCommands :: request_handler where
  "vt_handle_vkCmdExecuteCommands e batch c =
     VT_REQUEST_BEGIN batch c (
     VT_REQUEST_SCOPE_COMMAND VK_OBJECT_TYPE_COMMAND_BUFFER VORTEK_HANDLE_ROLE_VULKAN (
     VT_REQUEST_DECODE e ''vkCmdExecuteCommands'' [Output, Output, Null] (\<lambda>v _. let commandBufferId = v 0; commandBufferCount = v 1 in
     VT_REQUEST_HANDLE commandBufferId VK_OBJECT_TYPE_COMMAND_BUFFER VORTEK_HANDLE_ROLE_VULKAN True True False (\<lambda>commandBuffer.
     VT_REQUEST_ARRAY e commandBufferCount 8 (\<lambda>commandBuffers_at.
     VT_REQUEST_DECODE e ''vkCmdExecuteCommands'' [Null, Null, array_output commandBuffers_at] (\<lambda>_ b.
       let commandBuffers = array_argument commandBuffers_at (b 2) in
     vulkan e ''vkCmdExecuteCommands'' [Handle commandBuffer, Value commandBufferCount, commandBuffers] (\<lambda>_. Some)))))))"

definition vt_handle_vkCmdPushDescriptorSetKHR :: request_handler where
  "vt_handle_vkCmdPushDescriptorSetKHR e batch c =
     VT_REQUEST_BEGIN batch c (
     VT_REQUEST_SCOPE_COMMAND VK_OBJECT_TYPE_COMMAND_BUFFER VORTEK_HANDLE_ROLE_VULKAN (
     VT_REQUEST_DECODE e ''vkCmdPushDescriptorSetKHR'' [Output, Output, Output, Output, Output, Null] (\<lambda>v _.
       let commandBufferId = v 0; pipelineBindPoint = v 1; layoutId = v 2; set = v 3; descriptorWriteCount = v 4 in
     VT_REQUEST_HANDLE commandBufferId VK_OBJECT_TYPE_COMMAND_BUFFER VORTEK_HANDLE_ROLE_VULKAN True True False (\<lambda>commandBuffer.
     VT_REQUEST_HANDLE layoutId VK_OBJECT_TYPE_PIPELINE_LAYOUT VORTEK_HANDLE_ROLE_VULKAN True True False (\<lambda>layout.
     VT_REQUEST_ARRAY e descriptorWriteCount 64 (\<lambda>descriptorWrites_at.
     VT_REQUEST_DECODE e ''vkCmdPushDescriptorSetKHR'' [Null, Null, Null, Null, Null, array_output descriptorWrites_at] (\<lambda>_ b.
       let descriptorWrites = array_argument descriptorWrites_at (b 5) in
     vulkan e ''vkCmdPushDescriptorSet'' [Handle commandBuffer, Value pipelineBindPoint, Handle layout, Value set,
       Value descriptorWriteCount, descriptorWrites] (\<lambda>_. Some))))))))"

definition vt_handle_vkCmdSetDeviceMask :: request_handler where
  "vt_handle_vkCmdSetDeviceMask e batch c =
     VT_REQUEST_BEGIN batch c (
     VT_REQUEST_SCOPE_COMMAND VK_OBJECT_TYPE_COMMAND_BUFFER VORTEK_HANDLE_ROLE_VULKAN (
     VT_REQUEST_DECODE e ''vkCmdSetDeviceMask'' [Output, Output] (\<lambda>v _. let commandBufferId = v 0; deviceMask = v 1 in
     VT_REQUEST_HANDLE commandBufferId VK_OBJECT_TYPE_COMMAND_BUFFER VORTEK_HANDLE_ROLE_VULKAN True True False (\<lambda>commandBuffer.
     vulkan e ''vkCmdSetDeviceMask'' [Handle commandBuffer, Value deviceMask] (\<lambda>_. Some)))))"

definition vt_handle_vkCmdDispatchBase :: request_handler where
  "vt_handle_vkCmdDispatchBase e batch c =
     VT_REQUEST_BEGIN batch c (
     VT_REQUEST_SCOPE_COMMAND VK_OBJECT_TYPE_COMMAND_BUFFER VORTEK_HANDLE_ROLE_VULKAN (
     VT_REQUEST_DECODE e ''vkCmdDispatchBase'' [Output, Output, Output, Output, Output, Output, Output] (\<lambda>v _.
       let commandBufferId = v 0; baseGroupX = v 1; baseGroupY = v 2; baseGroupZ = v 3; groupCountX = v 4; groupCountY = v 5;
       groupCountZ = v 6 in
     VT_REQUEST_HANDLE commandBufferId VK_OBJECT_TYPE_COMMAND_BUFFER VORTEK_HANDLE_ROLE_VULKAN True True False (\<lambda>commandBuffer.
     vulkan e ''vkCmdDispatchBase'' [Handle commandBuffer, Value baseGroupX, Value baseGroupY, Value baseGroupZ, Value groupCountX,
       Value groupCountY, Value groupCountZ] (\<lambda>_. Some)))))"

definition vt_handle_vkCmdSetSampleLocationsEXT :: request_handler where
  "vt_handle_vkCmdSetSampleLocationsEXT e batch c =
     VT_REQUEST_BEGIN batch c (
     VT_REQUEST_SCOPE_COMMAND VK_OBJECT_TYPE_COMMAND_BUFFER VORTEK_HANDLE_ROLE_VULKAN (
     VT_REQUEST_DECODE e ''vkCmdSetSampleLocationsEXT'' [Output, Output] (\<lambda>v b. let commandBufferId = v 0;
       sampleLocationsInfo = b 1 in
     VT_REQUEST_HANDLE commandBufferId VK_OBJECT_TYPE_COMMAND_BUFFER VORTEK_HANDLE_ROLE_VULKAN True True False (\<lambda>commandBuffer.
     vulkan e ''vkCmdSetSampleLocations'' [Handle commandBuffer, Bytes sampleLocationsInfo] (\<lambda>_. Some)))))"

definition vt_handle_vkCmdBeginRenderPass2 :: request_handler where
  "vt_handle_vkCmdBeginRenderPass2 e batch c =
     VT_REQUEST_BEGIN batch c (
     VT_REQUEST_SCOPE_COMMAND VK_OBJECT_TYPE_COMMAND_BUFFER VORTEK_HANDLE_ROLE_VULKAN (
     VT_REQUEST_DECODE e ''vkCmdBeginRenderPass2'' [Output, Output, Output] (\<lambda>v b. let commandBufferId = v 0; renderPassBegin = b 1;
       subpassBeginInfo = b 2 in
     VT_REQUEST_HANDLE commandBufferId VK_OBJECT_TYPE_COMMAND_BUFFER VORTEK_HANDLE_ROLE_VULKAN True True False (\<lambda>commandBuffer.
     vulkan e ''vkCmdBeginRenderPass2'' [Handle commandBuffer, Bytes renderPassBegin, Bytes subpassBeginInfo] (\<lambda>_. Some)))))"

definition vt_handle_vkCmdNextSubpass2 :: request_handler where
  "vt_handle_vkCmdNextSubpass2 e batch c =
     VT_REQUEST_BEGIN batch c (
     VT_REQUEST_SCOPE_COMMAND VK_OBJECT_TYPE_COMMAND_BUFFER VORTEK_HANDLE_ROLE_VULKAN (
     VT_REQUEST_DECODE e ''vkCmdNextSubpass2'' [Output, Output, Output] (\<lambda>v b. let commandBufferId = v 0; subpassBeginInfo = b 1;
       subpassEndInfo = b 2 in
     VT_REQUEST_HANDLE commandBufferId VK_OBJECT_TYPE_COMMAND_BUFFER VORTEK_HANDLE_ROLE_VULKAN True True False (\<lambda>commandBuffer.
     vulkan e ''vkCmdNextSubpass2'' [Handle commandBuffer, Bytes subpassBeginInfo, Bytes subpassEndInfo] (\<lambda>_. Some)))))"

definition vt_handle_vkCmdEndRenderPass2 :: request_handler where
  "vt_handle_vkCmdEndRenderPass2 e batch c =
     VT_REQUEST_BEGIN batch c (
     VT_REQUEST_SCOPE_COMMAND VK_OBJECT_TYPE_COMMAND_BUFFER VORTEK_HANDLE_ROLE_VULKAN (
     VT_REQUEST_DECODE e ''vkCmdEndRenderPass2'' [Output, Output] (\<lambda>v b. let commandBufferId = v 0; subpassEndInfo = b 1 in
     VT_REQUEST_HANDLE commandBufferId VK_OBJECT_TYPE_COMMAND_BUFFER VORTEK_HANDLE_ROLE_VULKAN True True False (\<lambda>commandBuffer.
     vulkan e ''vkCmdEndRenderPass2'' [Handle commandBuffer, Bytes subpassEndInfo] (\<lambda>_. Some)))))"

definition vt_handle_vkCmdDrawIndirectCount :: request_handler where
  "vt_handle_vkCmdDrawIndirectCount e batch c =
     VT_REQUEST_BEGIN batch c (
     VT_REQUEST_SCOPE_COMMAND VK_OBJECT_TYPE_COMMAND_BUFFER VORTEK_HANDLE_ROLE_VULKAN (
     VT_REQUEST_DECODE e ''vkCmdDrawIndirectCount'' [Output, Output, Output, Output, Output, Output, Output] (\<lambda>v _.
       let commandBufferId = v 0; bufferId = v 1; offset = v 2; countBufferId = v 3; countBufferOffset = v 4; maxDrawCount = v 5;
       stride = v 6 in
     VT_REQUEST_HANDLE commandBufferId VK_OBJECT_TYPE_COMMAND_BUFFER VORTEK_HANDLE_ROLE_VULKAN True True False (\<lambda>commandBuffer.
     VT_REQUEST_HANDLE bufferId VK_OBJECT_TYPE_BUFFER VORTEK_HANDLE_ROLE_VULKAN True True False (\<lambda>buffer.
     VT_REQUEST_HANDLE countBufferId VK_OBJECT_TYPE_BUFFER VORTEK_HANDLE_ROLE_VULKAN True True False (\<lambda>countBuffer.
     vulkan e ''vkCmdDrawIndirectCount'' [Handle commandBuffer, Handle buffer, Value offset, Handle countBuffer, Value countBufferOffset,
       Value maxDrawCount, Value stride] (\<lambda>_. Some)))))))"

definition vt_handle_vkCmdDrawIndexedIndirectCount :: request_handler where
  "vt_handle_vkCmdDrawIndexedIndirectCount e batch c =
     VT_REQUEST_BEGIN batch c (
     VT_REQUEST_SCOPE_COMMAND VK_OBJECT_TYPE_COMMAND_BUFFER VORTEK_HANDLE_ROLE_VULKAN (
     VT_REQUEST_DECODE e ''vkCmdDrawIndexedIndirectCount'' [Output, Output, Output, Output, Output, Output, Output] (\<lambda>v _.
       let commandBufferId = v 0; bufferId = v 1; offset = v 2; countBufferId = v 3; countBufferOffset = v 4; maxDrawCount = v 5;
       stride = v 6 in
     VT_REQUEST_HANDLE commandBufferId VK_OBJECT_TYPE_COMMAND_BUFFER VORTEK_HANDLE_ROLE_VULKAN True True False (\<lambda>commandBuffer.
     VT_REQUEST_HANDLE bufferId VK_OBJECT_TYPE_BUFFER VORTEK_HANDLE_ROLE_VULKAN True True False (\<lambda>buffer.
     VT_REQUEST_HANDLE countBufferId VK_OBJECT_TYPE_BUFFER VORTEK_HANDLE_ROLE_VULKAN True True False (\<lambda>countBuffer.
     vulkan e ''vkCmdDrawIndexedIndirectCount'' [Handle commandBuffer, Handle buffer, Value offset, Handle countBuffer,
       Value countBufferOffset, Value maxDrawCount, Value stride] (\<lambda>_. Some)))))))"

definition vt_handle_vkCmdBindTransformFeedbackBuffersEXT :: request_handler where
  "vt_handle_vkCmdBindTransformFeedbackBuffersEXT e batch c =
     VT_REQUEST_BEGIN batch c (
     VT_REQUEST_SCOPE_COMMAND VK_OBJECT_TYPE_COMMAND_BUFFER VORTEK_HANDLE_ROLE_VULKAN (
     VT_REQUEST_DECODE e ''vkCmdBindTransformFeedbackBuffersEXT'' [Output, Output, Output, Null, Null, Null] (\<lambda>v _.
       let commandBufferId = v 0; firstBinding = v 1; bindingCount = v 2 in
     VT_REQUEST_HANDLE commandBufferId VK_OBJECT_TYPE_COMMAND_BUFFER VORTEK_HANDLE_ROLE_VULKAN True True False (\<lambda>commandBuffer.
     VT_REQUEST_ARRAY e bindingCount 8 (\<lambda>buffers_at.
     VT_REQUEST_ARRAY e bindingCount 8 (\<lambda>offsets_at.
     VT_REQUEST_ARRAY e bindingCount 8 (\<lambda>sizes_at.
     VT_REQUEST_DECODE e ''vkCmdBindTransformFeedbackBuffersEXT'' [Null, Null, Null, array_output buffers_at, array_output offsets_at,
       array_output sizes_at] (\<lambda>_ b. let buffers = array_argument buffers_at (b 3); offsets = array_argument offsets_at (b 4);
       sizes = array_argument sizes_at (b 5) in
     vulkan e ''vkCmdBindTransformFeedbackBuffers'' [Handle commandBuffer, Value firstBinding, Value bindingCount, buffers, offsets,
       sizes] (\<lambda>_. Some)))))))))"

end
