(* ===== verification/Handlers_Command_More.thy ===== *)
theory Handlers_Command_More
  imports Request_Macros
begin

text \<open>
  The handlers of recorded commands in \<^verbatim>\<open>vortekrenderer/src/request_handler.c\<close>, in the order of the source: the second half.
\<close>

definition vt_handle_vkCmdBeginTransformFeedbackEXT :: request_handler where
  "vt_handle_vkCmdBeginTransformFeedbackEXT e batch c =
     VT_REQUEST_BEGIN batch c (
     VT_REQUEST_SCOPE_COMMAND VK_OBJECT_TYPE_COMMAND_BUFFER VORTEK_HANDLE_ROLE_VULKAN (
     VT_REQUEST_DECODE e ''vkCmdBeginTransformFeedbackEXT'' [Output, Output, Output, Null, Null] (\<lambda>v _. let commandBufferId = v 0;
       firstCounterBuffer = v 1; counterBufferCount = v 2 in
     VT_REQUEST_HANDLE commandBufferId VK_OBJECT_TYPE_COMMAND_BUFFER VORTEK_HANDLE_ROLE_VULKAN True True False (\<lambda>commandBuffer.
     VT_REQUEST_ARRAY e counterBufferCount 8 (\<lambda>counterBuffers_at.
     VT_REQUEST_ARRAY e counterBufferCount 8 (\<lambda>counterBufferOffsets_at.
     VT_REQUEST_DECODE e ''vkCmdBeginTransformFeedbackEXT'' [Null, Null, Null, array_output counterBuffers_at,
       array_output counterBufferOffsets_at] (\<lambda>_ b. let counterBuffers = array_argument counterBuffers_at (b 3);
       counterBufferOffsets = array_argument counterBufferOffsets_at (b 4) in
     vulkan e ''vkCmdBeginTransformFeedback'' [Handle commandBuffer, Value firstCounterBuffer, Value counterBufferCount, counterBuffers,
       counterBufferOffsets] (\<lambda>_. Some))))))))"

definition vt_handle_vkCmdEndTransformFeedbackEXT :: request_handler where
  "vt_handle_vkCmdEndTransformFeedbackEXT e batch c =
     VT_REQUEST_BEGIN batch c (
     VT_REQUEST_SCOPE_COMMAND VK_OBJECT_TYPE_COMMAND_BUFFER VORTEK_HANDLE_ROLE_VULKAN (
     VT_REQUEST_DECODE e ''vkCmdEndTransformFeedbackEXT'' [Output, Output, Output, Null, Null] (\<lambda>v _. let commandBufferId = v 0;
       firstCounterBuffer = v 1; counterBufferCount = v 2 in
     VT_REQUEST_HANDLE commandBufferId VK_OBJECT_TYPE_COMMAND_BUFFER VORTEK_HANDLE_ROLE_VULKAN True True False (\<lambda>commandBuffer.
     VT_REQUEST_ARRAY e counterBufferCount 8 (\<lambda>counterBuffers_at.
     VT_REQUEST_ARRAY e counterBufferCount 8 (\<lambda>counterBufferOffsets_at.
     VT_REQUEST_DECODE e ''vkCmdEndTransformFeedbackEXT'' [Null, Null, Null, array_output counterBuffers_at,
       array_output counterBufferOffsets_at] (\<lambda>_ b. let counterBuffers = array_argument counterBuffers_at (b 3);
       counterBufferOffsets = array_argument counterBufferOffsets_at (b 4) in
     vulkan e ''vkCmdEndTransformFeedback'' [Handle commandBuffer, Value firstCounterBuffer, Value counterBufferCount, counterBuffers,
       counterBufferOffsets] (\<lambda>_. Some))))))))"

definition vt_handle_vkCmdBeginQueryIndexedEXT :: request_handler where
  "vt_handle_vkCmdBeginQueryIndexedEXT e batch c =
     VT_REQUEST_BEGIN batch c (
     VT_REQUEST_SCOPE_COMMAND VK_OBJECT_TYPE_COMMAND_BUFFER VORTEK_HANDLE_ROLE_VULKAN (
     VT_REQUEST_DECODE e ''vkCmdBeginQueryIndexedEXT'' [Output, Output, Output, Output, Output] (\<lambda>v _. let commandBufferId = v 0;
       queryPoolId = v 1; query = v 2; flags = v 3; index = v 4 in
     VT_REQUEST_HANDLE commandBufferId VK_OBJECT_TYPE_COMMAND_BUFFER VORTEK_HANDLE_ROLE_VULKAN True True False (\<lambda>commandBuffer.
     VT_REQUEST_HANDLE queryPoolId VK_OBJECT_TYPE_QUERY_POOL VORTEK_HANDLE_ROLE_VULKAN True True False (\<lambda>queryPool.
     vulkan e ''vkCmdBeginQueryIndexed'' [Handle commandBuffer, Handle queryPool, Value query, Value flags,
       Value index] (\<lambda>_. Some))))))"

definition vt_handle_vkCmdEndQueryIndexedEXT :: request_handler where
  "vt_handle_vkCmdEndQueryIndexedEXT e batch c =
     VT_REQUEST_BEGIN batch c (
     VT_REQUEST_SCOPE_COMMAND VK_OBJECT_TYPE_COMMAND_BUFFER VORTEK_HANDLE_ROLE_VULKAN (
     VT_REQUEST_DECODE e ''vkCmdEndQueryIndexedEXT'' [Output, Output, Output, Output] (\<lambda>v _. let commandBufferId = v 0;
       queryPoolId = v 1; query = v 2; index = v 3 in
     VT_REQUEST_HANDLE commandBufferId VK_OBJECT_TYPE_COMMAND_BUFFER VORTEK_HANDLE_ROLE_VULKAN True True False (\<lambda>commandBuffer.
     VT_REQUEST_HANDLE queryPoolId VK_OBJECT_TYPE_QUERY_POOL VORTEK_HANDLE_ROLE_VULKAN True True False (\<lambda>queryPool.
     vulkan e ''vkCmdEndQueryIndexed'' [Handle commandBuffer, Handle queryPool, Value query, Value index] (\<lambda>_. Some))))))"

definition vt_handle_vkCmdDrawIndirectByteCountEXT :: request_handler where
  "vt_handle_vkCmdDrawIndirectByteCountEXT e batch c =
     VT_REQUEST_BEGIN batch c (
     VT_REQUEST_SCOPE_COMMAND VK_OBJECT_TYPE_COMMAND_BUFFER VORTEK_HANDLE_ROLE_VULKAN (
     VT_REQUEST_DECODE e ''vkCmdDrawIndirectByteCountEXT'' [Output, Output, Output, Output, Output, Output, Output] (\<lambda>v _.
       let commandBufferId = v 0; instanceCount = v 1; firstInstance = v 2; counterBufferId = v 3; counterBufferOffset = v 4;
       counterOffset = v 5; vertexStride = v 6 in
     VT_REQUEST_HANDLE commandBufferId VK_OBJECT_TYPE_COMMAND_BUFFER VORTEK_HANDLE_ROLE_VULKAN True True False (\<lambda>commandBuffer.
     VT_REQUEST_HANDLE counterBufferId VK_OBJECT_TYPE_BUFFER VORTEK_HANDLE_ROLE_VULKAN True True False (\<lambda>counterBuffer.
     vulkan e ''vkCmdDrawIndirectByteCount'' [Handle commandBuffer, Value instanceCount, Value firstInstance, Handle counterBuffer,
       Value counterBufferOffset, Value counterOffset, Value vertexStride] (\<lambda>_. Some))))))"

definition vt_handle_vkCmdSetLineStippleKHR :: request_handler where
  "vt_handle_vkCmdSetLineStippleKHR e batch c =
     VT_REQUEST_BEGIN batch c (
     VT_REQUEST_SCOPE_COMMAND VK_OBJECT_TYPE_COMMAND_BUFFER VORTEK_HANDLE_ROLE_VULKAN (
     VT_REQUEST_DECODE e ''vkCmdSetLineStippleKHR'' [Output, Output, Output] (\<lambda>v _. let commandBufferId = v 0;
       lineStippleFactor = v 1; lineStipplePattern = v 2 in
     VT_REQUEST_HANDLE commandBufferId VK_OBJECT_TYPE_COMMAND_BUFFER VORTEK_HANDLE_ROLE_VULKAN True True False (\<lambda>commandBuffer.
     vulkan e ''vkCmdSetLineStipple'' [Handle commandBuffer, Value lineStippleFactor, Value lineStipplePattern] (\<lambda>_. Some)))))"

definition vt_handle_vkCmdSetCullMode :: request_handler where
  "vt_handle_vkCmdSetCullMode e batch c =
     VT_REQUEST_BEGIN batch c (
     VT_REQUEST_SCOPE_COMMAND VK_OBJECT_TYPE_COMMAND_BUFFER VORTEK_HANDLE_ROLE_VULKAN (
     VT_REQUEST_DECODE e ''vkCmdSetCullMode'' [Output, Output] (\<lambda>v _. let commandBufferId = v 0; cullMode = v 1 in
     VT_REQUEST_HANDLE commandBufferId VK_OBJECT_TYPE_COMMAND_BUFFER VORTEK_HANDLE_ROLE_VULKAN True True False (\<lambda>commandBuffer.
     vulkan e ''vkCmdSetCullMode'' [Handle commandBuffer, Value cullMode] (\<lambda>_. Some)))))"

definition vt_handle_vkCmdSetFrontFace :: request_handler where
  "vt_handle_vkCmdSetFrontFace e batch c =
     VT_REQUEST_BEGIN batch c (
     VT_REQUEST_SCOPE_COMMAND VK_OBJECT_TYPE_COMMAND_BUFFER VORTEK_HANDLE_ROLE_VULKAN (
     VT_REQUEST_DECODE e ''vkCmdSetFrontFace'' [Output, Output] (\<lambda>v _. let commandBufferId = v 0; frontFace = v 1 in
     VT_REQUEST_HANDLE commandBufferId VK_OBJECT_TYPE_COMMAND_BUFFER VORTEK_HANDLE_ROLE_VULKAN True True False (\<lambda>commandBuffer.
     vulkan e ''vkCmdSetFrontFace'' [Handle commandBuffer, Value frontFace] (\<lambda>_. Some)))))"

definition vt_handle_vkCmdSetPrimitiveTopology :: request_handler where
  "vt_handle_vkCmdSetPrimitiveTopology e batch c =
     VT_REQUEST_BEGIN batch c (
     VT_REQUEST_SCOPE_COMMAND VK_OBJECT_TYPE_COMMAND_BUFFER VORTEK_HANDLE_ROLE_VULKAN (
     VT_REQUEST_DECODE e ''vkCmdSetPrimitiveTopology'' [Output, Output] (\<lambda>v _. let commandBufferId = v 0; primitiveTopology = v 1 in
     VT_REQUEST_HANDLE commandBufferId VK_OBJECT_TYPE_COMMAND_BUFFER VORTEK_HANDLE_ROLE_VULKAN True True False (\<lambda>commandBuffer.
     vulkan e ''vkCmdSetPrimitiveTopology'' [Handle commandBuffer, Value primitiveTopology] (\<lambda>_. Some)))))"

definition vt_handle_vkCmdSetViewportWithCount :: request_handler where
  "vt_handle_vkCmdSetViewportWithCount e batch c =
     VT_REQUEST_BEGIN batch c (
     VT_REQUEST_SCOPE_COMMAND VK_OBJECT_TYPE_COMMAND_BUFFER VORTEK_HANDLE_ROLE_VULKAN (
     VT_REQUEST_DECODE e ''vkCmdSetViewportWithCount'' [Output, Output, Null] (\<lambda>v _. let commandBufferId = v 0; viewportCount = v 1 in
     VT_REQUEST_HANDLE commandBufferId VK_OBJECT_TYPE_COMMAND_BUFFER VORTEK_HANDLE_ROLE_VULKAN True True False (\<lambda>commandBuffer.
     VT_REQUEST_ARRAY e viewportCount 24 (\<lambda>viewports_at.
     VT_REQUEST_DECODE e ''vkCmdSetViewportWithCount'' [Null, Null, array_output viewports_at] (\<lambda>_ b.
       let viewports = array_argument viewports_at (b 2) in
     vulkan e ''vkCmdSetViewportWithCount'' [Handle commandBuffer, Value viewportCount, viewports] (\<lambda>_. Some)))))))"

definition vt_handle_vkCmdSetScissorWithCount :: request_handler where
  "vt_handle_vkCmdSetScissorWithCount e batch c =
     VT_REQUEST_BEGIN batch c (
     VT_REQUEST_SCOPE_COMMAND VK_OBJECT_TYPE_COMMAND_BUFFER VORTEK_HANDLE_ROLE_VULKAN (
     VT_REQUEST_DECODE e ''vkCmdSetScissorWithCount'' [Output, Output, Null] (\<lambda>v _. let commandBufferId = v 0; scissorCount = v 1 in
     VT_REQUEST_HANDLE commandBufferId VK_OBJECT_TYPE_COMMAND_BUFFER VORTEK_HANDLE_ROLE_VULKAN True True False (\<lambda>commandBuffer.
     VT_REQUEST_ARRAY e scissorCount 16 (\<lambda>scissors_at.
     VT_REQUEST_DECODE e ''vkCmdSetScissorWithCount'' [Null, Null, array_output scissors_at] (\<lambda>_ b.
       let scissors = array_argument scissors_at (b 2) in
     vulkan e ''vkCmdSetScissorWithCount'' [Handle commandBuffer, Value scissorCount, scissors] (\<lambda>_. Some)))))))"

definition vt_handle_vkCmdBindVertexBuffers2 :: request_handler where
  "vt_handle_vkCmdBindVertexBuffers2 e batch c =
     VT_REQUEST_BEGIN batch c (
     VT_REQUEST_SCOPE_COMMAND VK_OBJECT_TYPE_COMMAND_BUFFER VORTEK_HANDLE_ROLE_VULKAN (
     VT_REQUEST_DECODE e ''vkCmdBindVertexBuffers2'' [Output, Output, Output, Null, Null, Null, Null] (\<lambda>v _.
       let commandBufferId = v 0; firstBinding = v 1; bindingCount = v 2 in
     VT_REQUEST_HANDLE commandBufferId VK_OBJECT_TYPE_COMMAND_BUFFER VORTEK_HANDLE_ROLE_VULKAN True True False (\<lambda>commandBuffer.
     VT_REQUEST_ARRAY e bindingCount 8 (\<lambda>buffers_at.
     VT_REQUEST_ARRAY e bindingCount 8 (\<lambda>offsets_at.
     VT_REQUEST_ARRAY e bindingCount 8 (\<lambda>sizes_at.
     VT_REQUEST_ARRAY e bindingCount 8 (\<lambda>strides_at.
     VT_REQUEST_DECODE e ''vkCmdBindVertexBuffers2'' [Null, Null, Null, array_output buffers_at, array_output offsets_at,
       array_output sizes_at, array_output strides_at] (\<lambda>_ b. let buffers = array_argument buffers_at (b 3);
       offsets = array_argument offsets_at (b 4); sizes = array_argument sizes_at (b 5); strides = array_argument strides_at (b 6) in
     vulkan e ''vkCmdBindVertexBuffers2'' [Handle commandBuffer, Value firstBinding, Value bindingCount, buffers, offsets, sizes,
       strides] (\<lambda>_. Some))))))))))"

definition vt_handle_vkCmdSetDepthTestEnable :: request_handler where
  "vt_handle_vkCmdSetDepthTestEnable e batch c =
     VT_REQUEST_BEGIN batch c (
     VT_REQUEST_SCOPE_COMMAND VK_OBJECT_TYPE_COMMAND_BUFFER VORTEK_HANDLE_ROLE_VULKAN (
     VT_REQUEST_DECODE e ''vkCmdSetDepthTestEnable'' [Output, Output] (\<lambda>v _. let commandBufferId = v 0; depthTestEnable = v 1 in
     VT_REQUEST_HANDLE commandBufferId VK_OBJECT_TYPE_COMMAND_BUFFER VORTEK_HANDLE_ROLE_VULKAN True True False (\<lambda>commandBuffer.
     vulkan e ''vkCmdSetDepthTestEnable'' [Handle commandBuffer, Value depthTestEnable] (\<lambda>_. Some)))))"

definition vt_handle_vkCmdSetDepthWriteEnable :: request_handler where
  "vt_handle_vkCmdSetDepthWriteEnable e batch c =
     VT_REQUEST_BEGIN batch c (
     VT_REQUEST_SCOPE_COMMAND VK_OBJECT_TYPE_COMMAND_BUFFER VORTEK_HANDLE_ROLE_VULKAN (
     VT_REQUEST_DECODE e ''vkCmdSetDepthWriteEnable'' [Output, Output] (\<lambda>v _. let commandBufferId = v 0; depthWriteEnable = v 1 in
     VT_REQUEST_HANDLE commandBufferId VK_OBJECT_TYPE_COMMAND_BUFFER VORTEK_HANDLE_ROLE_VULKAN True True False (\<lambda>commandBuffer.
     vulkan e ''vkCmdSetDepthWriteEnable'' [Handle commandBuffer, Value depthWriteEnable] (\<lambda>_. Some)))))"

definition vt_handle_vkCmdSetDepthCompareOp :: request_handler where
  "vt_handle_vkCmdSetDepthCompareOp e batch c =
     VT_REQUEST_BEGIN batch c (
     VT_REQUEST_SCOPE_COMMAND VK_OBJECT_TYPE_COMMAND_BUFFER VORTEK_HANDLE_ROLE_VULKAN (
     VT_REQUEST_DECODE e ''vkCmdSetDepthCompareOp'' [Output, Output] (\<lambda>v _. let commandBufferId = v 0; depthCompareOp = v 1 in
     VT_REQUEST_HANDLE commandBufferId VK_OBJECT_TYPE_COMMAND_BUFFER VORTEK_HANDLE_ROLE_VULKAN True True False (\<lambda>commandBuffer.
     vulkan e ''vkCmdSetDepthCompareOp'' [Handle commandBuffer, Value depthCompareOp] (\<lambda>_. Some)))))"

definition vt_handle_vkCmdSetDepthBoundsTestEnable :: request_handler where
  "vt_handle_vkCmdSetDepthBoundsTestEnable e batch c =
     VT_REQUEST_BEGIN batch c (
     VT_REQUEST_SCOPE_COMMAND VK_OBJECT_TYPE_COMMAND_BUFFER VORTEK_HANDLE_ROLE_VULKAN (
     VT_REQUEST_DECODE e ''vkCmdSetDepthBoundsTestEnable'' [Output, Output] (\<lambda>v _. let commandBufferId = v 0;
       depthBoundsTestEnable = v 1 in
     VT_REQUEST_HANDLE commandBufferId VK_OBJECT_TYPE_COMMAND_BUFFER VORTEK_HANDLE_ROLE_VULKAN True True False (\<lambda>commandBuffer.
     vulkan e ''vkCmdSetDepthBoundsTestEnable'' [Handle commandBuffer, Value depthBoundsTestEnable] (\<lambda>_. Some)))))"

definition vt_handle_vkCmdSetStencilTestEnable :: request_handler where
  "vt_handle_vkCmdSetStencilTestEnable e batch c =
     VT_REQUEST_BEGIN batch c (
     VT_REQUEST_SCOPE_COMMAND VK_OBJECT_TYPE_COMMAND_BUFFER VORTEK_HANDLE_ROLE_VULKAN (
     VT_REQUEST_DECODE e ''vkCmdSetStencilTestEnable'' [Output, Output] (\<lambda>v _. let commandBufferId = v 0; stencilTestEnable = v 1 in
     VT_REQUEST_HANDLE commandBufferId VK_OBJECT_TYPE_COMMAND_BUFFER VORTEK_HANDLE_ROLE_VULKAN True True False (\<lambda>commandBuffer.
     vulkan e ''vkCmdSetStencilTestEnable'' [Handle commandBuffer, Value stencilTestEnable] (\<lambda>_. Some)))))"

definition vt_handle_vkCmdSetStencilOp :: request_handler where
  "vt_handle_vkCmdSetStencilOp e batch c =
     VT_REQUEST_BEGIN batch c (
     VT_REQUEST_SCOPE_COMMAND VK_OBJECT_TYPE_COMMAND_BUFFER VORTEK_HANDLE_ROLE_VULKAN (
     VT_REQUEST_DECODE e ''vkCmdSetStencilOp'' [Output, Output, Output, Output, Output, Output] (\<lambda>v _. let commandBufferId = v 0;
       faceMask = v 1; failOp = v 2; passOp = v 3; depthFailOp = v 4; compareOp = v 5 in
     VT_REQUEST_HANDLE commandBufferId VK_OBJECT_TYPE_COMMAND_BUFFER VORTEK_HANDLE_ROLE_VULKAN True True False (\<lambda>commandBuffer.
     vulkan e ''vkCmdSetStencilOp'' [Handle commandBuffer, Value faceMask, Value failOp, Value passOp, Value depthFailOp,
       Value compareOp] (\<lambda>_. Some)))))"

definition vt_handle_vkCmdSetRasterizerDiscardEnable :: request_handler where
  "vt_handle_vkCmdSetRasterizerDiscardEnable e batch c =
     VT_REQUEST_BEGIN batch c (
     VT_REQUEST_SCOPE_COMMAND VK_OBJECT_TYPE_COMMAND_BUFFER VORTEK_HANDLE_ROLE_VULKAN (
     VT_REQUEST_DECODE e ''vkCmdSetRasterizerDiscardEnable'' [Output, Output] (\<lambda>v _. let commandBufferId = v 0;
       rasterizerDiscardEnable = v 1 in
     VT_REQUEST_HANDLE commandBufferId VK_OBJECT_TYPE_COMMAND_BUFFER VORTEK_HANDLE_ROLE_VULKAN True True False (\<lambda>commandBuffer.
     vulkan e ''vkCmdSetRasterizerDiscardEnable'' [Handle commandBuffer, Value rasterizerDiscardEnable] (\<lambda>_. Some)))))"

definition vt_handle_vkCmdSetDepthBiasEnable :: request_handler where
  "vt_handle_vkCmdSetDepthBiasEnable e batch c =
     VT_REQUEST_BEGIN batch c (
     VT_REQUEST_SCOPE_COMMAND VK_OBJECT_TYPE_COMMAND_BUFFER VORTEK_HANDLE_ROLE_VULKAN (
     VT_REQUEST_DECODE e ''vkCmdSetDepthBiasEnable'' [Output, Output] (\<lambda>v _. let commandBufferId = v 0; depthBiasEnable = v 1 in
     VT_REQUEST_HANDLE commandBufferId VK_OBJECT_TYPE_COMMAND_BUFFER VORTEK_HANDLE_ROLE_VULKAN True True False (\<lambda>commandBuffer.
     vulkan e ''vkCmdSetDepthBiasEnable'' [Handle commandBuffer, Value depthBiasEnable] (\<lambda>_. Some)))))"

definition vt_handle_vkCmdSetPrimitiveRestartEnable :: request_handler where
  "vt_handle_vkCmdSetPrimitiveRestartEnable e batch c =
     VT_REQUEST_BEGIN batch c (
     VT_REQUEST_SCOPE_COMMAND VK_OBJECT_TYPE_COMMAND_BUFFER VORTEK_HANDLE_ROLE_VULKAN (
     VT_REQUEST_DECODE e ''vkCmdSetPrimitiveRestartEnable'' [Output, Output] (\<lambda>v _. let commandBufferId = v 0;
       primitiveRestartEnable = v 1 in
     VT_REQUEST_HANDLE commandBufferId VK_OBJECT_TYPE_COMMAND_BUFFER VORTEK_HANDLE_ROLE_VULKAN True True False (\<lambda>commandBuffer.
     vulkan e ''vkCmdSetPrimitiveRestartEnable'' [Handle commandBuffer, Value primitiveRestartEnable] (\<lambda>_. Some)))))"

definition vt_handle_vkCmdSetTessellationDomainOriginEXT :: request_handler where
  "vt_handle_vkCmdSetTessellationDomainOriginEXT e batch c =
     VT_REQUEST_BEGIN batch c (
     VT_REQUEST_SCOPE_COMMAND VK_OBJECT_TYPE_COMMAND_BUFFER VORTEK_HANDLE_ROLE_VULKAN (
     VT_REQUEST_DECODE e ''vkCmdSetTessellationDomainOriginEXT'' [Output, Output] (\<lambda>v _. let commandBufferId = v 0;
       domainOrigin = v 1 in
     VT_REQUEST_HANDLE commandBufferId VK_OBJECT_TYPE_COMMAND_BUFFER VORTEK_HANDLE_ROLE_VULKAN True True False (\<lambda>commandBuffer.
     vulkan e ''vkCmdSetTessellationDomainOrigin'' [Handle commandBuffer, Value domainOrigin] (\<lambda>_. Some)))))"

definition vt_handle_vkCmdSetDepthClampEnableEXT :: request_handler where
  "vt_handle_vkCmdSetDepthClampEnableEXT e batch c =
     VT_REQUEST_BEGIN batch c (
     VT_REQUEST_SCOPE_COMMAND VK_OBJECT_TYPE_COMMAND_BUFFER VORTEK_HANDLE_ROLE_VULKAN (
     VT_REQUEST_DECODE e ''vkCmdSetDepthClampEnableEXT'' [Output, Output] (\<lambda>v _. let commandBufferId = v 0; depthClampEnable = v 1 in
     VT_REQUEST_HANDLE commandBufferId VK_OBJECT_TYPE_COMMAND_BUFFER VORTEK_HANDLE_ROLE_VULKAN True True False (\<lambda>commandBuffer.
     vulkan e ''vkCmdSetDepthClampEnable'' [Handle commandBuffer, Value depthClampEnable] (\<lambda>_. Some)))))"

definition vt_handle_vkCmdSetPolygonModeEXT :: request_handler where
  "vt_handle_vkCmdSetPolygonModeEXT e batch c =
     VT_REQUEST_BEGIN batch c (
     VT_REQUEST_SCOPE_COMMAND VK_OBJECT_TYPE_COMMAND_BUFFER VORTEK_HANDLE_ROLE_VULKAN (
     VT_REQUEST_DECODE e ''vkCmdSetPolygonModeEXT'' [Output, Output] (\<lambda>v _. let commandBufferId = v 0; polygonMode = v 1 in
     VT_REQUEST_HANDLE commandBufferId VK_OBJECT_TYPE_COMMAND_BUFFER VORTEK_HANDLE_ROLE_VULKAN True True False (\<lambda>commandBuffer.
     vulkan e ''vkCmdSetPolygonMode'' [Handle commandBuffer, Value polygonMode] (\<lambda>_. Some)))))"

definition vt_handle_vkCmdSetRasterizationSamplesEXT :: request_handler where
  "vt_handle_vkCmdSetRasterizationSamplesEXT e batch c =
     VT_REQUEST_BEGIN batch c (
     VT_REQUEST_SCOPE_COMMAND VK_OBJECT_TYPE_COMMAND_BUFFER VORTEK_HANDLE_ROLE_VULKAN (
     VT_REQUEST_DECODE e ''vkCmdSetRasterizationSamplesEXT'' [Output, Output] (\<lambda>v _. let commandBufferId = v 0;
       rasterizationSamples = v 1 in
     VT_REQUEST_HANDLE commandBufferId VK_OBJECT_TYPE_COMMAND_BUFFER VORTEK_HANDLE_ROLE_VULKAN True True False (\<lambda>commandBuffer.
     vulkan e ''vkCmdSetRasterizationSamples'' [Handle commandBuffer, Value rasterizationSamples] (\<lambda>_. Some)))))"

definition vt_handle_vkCmdSetSampleMaskEXT :: request_handler where
  "vt_handle_vkCmdSetSampleMaskEXT e batch c =
     VT_REQUEST_BEGIN batch c (
     VT_REQUEST_SCOPE_COMMAND VK_OBJECT_TYPE_COMMAND_BUFFER VORTEK_HANDLE_ROLE_VULKAN (
     VT_REQUEST_DECODE e ''vkCmdSetSampleMaskEXT'' [Output, Output, Null] (\<lambda>v _. let commandBufferId = v 0; samples = v 1 in
     VT_REQUEST_HANDLE commandBufferId VK_OBJECT_TYPE_COMMAND_BUFFER VORTEK_HANDLE_ROLE_VULKAN True True False (\<lambda>commandBuffer.
     VT_REQUEST_ARRAY e (ucast ((ucast samples + 31 :: u32) div 32)) 4 (\<lambda>sampleMask_at.
     VT_REQUEST_DECODE e ''vkCmdSetSampleMaskEXT'' [Null, Null, array_output sampleMask_at] (\<lambda>_ b.
       let sampleMask = array_argument sampleMask_at (b 2) in
     vulkan e ''vkCmdSetSampleMask'' [Handle commandBuffer, Value samples, sampleMask] (\<lambda>_. Some)))))))"

definition vt_handle_vkCmdSetAlphaToCoverageEnableEXT :: request_handler where
  "vt_handle_vkCmdSetAlphaToCoverageEnableEXT e batch c =
     VT_REQUEST_BEGIN batch c (
     VT_REQUEST_SCOPE_COMMAND VK_OBJECT_TYPE_COMMAND_BUFFER VORTEK_HANDLE_ROLE_VULKAN (
     VT_REQUEST_DECODE e ''vkCmdSetAlphaToCoverageEnableEXT'' [Output, Output] (\<lambda>v _. let commandBufferId = v 0;
       alphaToCoverageEnable = v 1 in
     VT_REQUEST_HANDLE commandBufferId VK_OBJECT_TYPE_COMMAND_BUFFER VORTEK_HANDLE_ROLE_VULKAN True True False (\<lambda>commandBuffer.
     vulkan e ''vkCmdSetAlphaToCoverageEnable'' [Handle commandBuffer, Value alphaToCoverageEnable] (\<lambda>_. Some)))))"

definition vt_handle_vkCmdSetAlphaToOneEnableEXT :: request_handler where
  "vt_handle_vkCmdSetAlphaToOneEnableEXT e batch c =
     VT_REQUEST_BEGIN batch c (
     VT_REQUEST_SCOPE_COMMAND VK_OBJECT_TYPE_COMMAND_BUFFER VORTEK_HANDLE_ROLE_VULKAN (
     VT_REQUEST_DECODE e ''vkCmdSetAlphaToOneEnableEXT'' [Output, Output] (\<lambda>v _. let commandBufferId = v 0; alphaToOneEnable = v 1 in
     VT_REQUEST_HANDLE commandBufferId VK_OBJECT_TYPE_COMMAND_BUFFER VORTEK_HANDLE_ROLE_VULKAN True True False (\<lambda>commandBuffer.
     vulkan e ''vkCmdSetAlphaToOneEnable'' [Handle commandBuffer, Value alphaToOneEnable] (\<lambda>_. Some)))))"

definition vt_handle_vkCmdSetLogicOpEnableEXT :: request_handler where
  "vt_handle_vkCmdSetLogicOpEnableEXT e batch c =
     VT_REQUEST_BEGIN batch c (
     VT_REQUEST_SCOPE_COMMAND VK_OBJECT_TYPE_COMMAND_BUFFER VORTEK_HANDLE_ROLE_VULKAN (
     VT_REQUEST_DECODE e ''vkCmdSetLogicOpEnableEXT'' [Output, Output] (\<lambda>v _. let commandBufferId = v 0; logicOpEnable = v 1 in
     VT_REQUEST_HANDLE commandBufferId VK_OBJECT_TYPE_COMMAND_BUFFER VORTEK_HANDLE_ROLE_VULKAN True True False (\<lambda>commandBuffer.
     vulkan e ''vkCmdSetLogicOpEnable'' [Handle commandBuffer, Value logicOpEnable] (\<lambda>_. Some)))))"

definition vt_handle_vkCmdSetColorBlendEnableEXT :: request_handler where
  "vt_handle_vkCmdSetColorBlendEnableEXT e batch c =
     VT_REQUEST_BEGIN batch c (
     VT_REQUEST_SCOPE_COMMAND VK_OBJECT_TYPE_COMMAND_BUFFER VORTEK_HANDLE_ROLE_VULKAN (
     VT_REQUEST_DECODE e ''vkCmdSetColorBlendEnableEXT'' [Output, Output, Output, Null] (\<lambda>v _. let commandBufferId = v 0;
       firstAttachment = v 1; attachmentCount = v 2 in
     VT_REQUEST_HANDLE commandBufferId VK_OBJECT_TYPE_COMMAND_BUFFER VORTEK_HANDLE_ROLE_VULKAN True True False (\<lambda>commandBuffer.
     VT_REQUEST_ARRAY e attachmentCount 4 (\<lambda>colorBlendEnables_at.
     VT_REQUEST_DECODE e ''vkCmdSetColorBlendEnableEXT'' [Null, Null, Null, array_output colorBlendEnables_at] (\<lambda>_ b.
       let colorBlendEnables = array_argument colorBlendEnables_at (b 3) in
     vulkan e ''vkCmdSetColorBlendEnable'' [Handle commandBuffer, Value firstAttachment, Value attachmentCount,
       colorBlendEnables] (\<lambda>_. Some)))))))"

definition vt_handle_vkCmdSetColorBlendEquationEXT :: request_handler where
  "vt_handle_vkCmdSetColorBlendEquationEXT e batch c =
     VT_REQUEST_BEGIN batch c (
     VT_REQUEST_SCOPE_COMMAND VK_OBJECT_TYPE_COMMAND_BUFFER VORTEK_HANDLE_ROLE_VULKAN (
     VT_REQUEST_DECODE e ''vkCmdSetColorBlendEquationEXT'' [Output, Output, Output, Null] (\<lambda>v _. let commandBufferId = v 0;
       firstAttachment = v 1; attachmentCount = v 2 in
     VT_REQUEST_HANDLE commandBufferId VK_OBJECT_TYPE_COMMAND_BUFFER VORTEK_HANDLE_ROLE_VULKAN True True False (\<lambda>commandBuffer.
     VT_REQUEST_ARRAY e attachmentCount 24 (\<lambda>colorBlendEquations_at.
     VT_REQUEST_DECODE e ''vkCmdSetColorBlendEquationEXT'' [Null, Null, Null, array_output colorBlendEquations_at] (\<lambda>_ b.
       let colorBlendEquations = array_argument colorBlendEquations_at (b 3) in
     vulkan e ''vkCmdSetColorBlendEquation'' [Handle commandBuffer, Value firstAttachment, Value attachmentCount,
       colorBlendEquations] (\<lambda>_. Some)))))))"

definition vt_handle_vkCmdSetColorWriteMaskEXT :: request_handler where
  "vt_handle_vkCmdSetColorWriteMaskEXT e batch c =
     VT_REQUEST_BEGIN batch c (
     VT_REQUEST_SCOPE_COMMAND VK_OBJECT_TYPE_COMMAND_BUFFER VORTEK_HANDLE_ROLE_VULKAN (
     VT_REQUEST_DECODE e ''vkCmdSetColorWriteMaskEXT'' [Output, Output, Output, Null] (\<lambda>v _. let commandBufferId = v 0;
       firstAttachment = v 1; attachmentCount = v 2 in
     VT_REQUEST_HANDLE commandBufferId VK_OBJECT_TYPE_COMMAND_BUFFER VORTEK_HANDLE_ROLE_VULKAN True True False (\<lambda>commandBuffer.
     VT_REQUEST_ARRAY e attachmentCount 4 (\<lambda>colorWriteMasks_at.
     VT_REQUEST_DECODE e ''vkCmdSetColorWriteMaskEXT'' [Null, Null, Null, array_output colorWriteMasks_at] (\<lambda>_ b.
       let colorWriteMasks = array_argument colorWriteMasks_at (b 3) in
     vulkan e ''vkCmdSetColorWriteMask'' [Handle commandBuffer, Value firstAttachment, Value attachmentCount,
       colorWriteMasks] (\<lambda>_. Some)))))))"

definition vt_handle_vkCmdSetRasterizationStreamEXT :: request_handler where
  "vt_handle_vkCmdSetRasterizationStreamEXT e batch c =
     VT_REQUEST_BEGIN batch c (
     VT_REQUEST_SCOPE_COMMAND VK_OBJECT_TYPE_COMMAND_BUFFER VORTEK_HANDLE_ROLE_VULKAN (
     VT_REQUEST_DECODE e ''vkCmdSetRasterizationStreamEXT'' [Output, Output] (\<lambda>v _. let commandBufferId = v 0;
       rasterizationStream = v 1 in
     VT_REQUEST_HANDLE commandBufferId VK_OBJECT_TYPE_COMMAND_BUFFER VORTEK_HANDLE_ROLE_VULKAN True True False (\<lambda>commandBuffer.
     vulkan e ''vkCmdSetRasterizationStream'' [Handle commandBuffer, Value rasterizationStream] (\<lambda>_. Some)))))"

definition vt_handle_vkCmdSetConservativeRasterizationModeEXT :: request_handler where
  "vt_handle_vkCmdSetConservativeRasterizationModeEXT e batch c =
     VT_REQUEST_BEGIN batch c (
     VT_REQUEST_SCOPE_COMMAND VK_OBJECT_TYPE_COMMAND_BUFFER VORTEK_HANDLE_ROLE_VULKAN (
     VT_REQUEST_DECODE e ''vkCmdSetConservativeRasterizationModeEXT'' [Output, Output] (\<lambda>v _. let commandBufferId = v 0;
       conservativeRasterizationMode = v 1 in
     VT_REQUEST_HANDLE commandBufferId VK_OBJECT_TYPE_COMMAND_BUFFER VORTEK_HANDLE_ROLE_VULKAN True True False (\<lambda>commandBuffer.
     vulkan e ''vkCmdSetConservativeRasterizationMode'' [Handle commandBuffer, Value conservativeRasterizationMode] (\<lambda>_. Some)))))"

definition vt_handle_vkCmdSetExtraPrimitiveOverestimationSizeEXT :: request_handler where
  "vt_handle_vkCmdSetExtraPrimitiveOverestimationSizeEXT e batch c =
     VT_REQUEST_BEGIN batch c (
     VT_REQUEST_SCOPE_COMMAND VK_OBJECT_TYPE_COMMAND_BUFFER VORTEK_HANDLE_ROLE_VULKAN (
     VT_REQUEST_DECODE e ''vkCmdSetExtraPrimitiveOverestimationSizeEXT'' [Output, Output] (\<lambda>v _. let commandBufferId = v 0;
       extraPrimitiveOverestimationSize = v 1 in
     VT_REQUEST_HANDLE commandBufferId VK_OBJECT_TYPE_COMMAND_BUFFER VORTEK_HANDLE_ROLE_VULKAN True True False (\<lambda>commandBuffer.
     vulkan e ''vkCmdSetExtraPrimitiveOverestimationSize'' [Handle commandBuffer,
       Value extraPrimitiveOverestimationSize] (\<lambda>_. Some)))))"

definition vt_handle_vkCmdSetDepthClipEnableEXT :: request_handler where
  "vt_handle_vkCmdSetDepthClipEnableEXT e batch c =
     VT_REQUEST_BEGIN batch c (
     VT_REQUEST_SCOPE_COMMAND VK_OBJECT_TYPE_COMMAND_BUFFER VORTEK_HANDLE_ROLE_VULKAN (
     VT_REQUEST_DECODE e ''vkCmdSetDepthClipEnableEXT'' [Output, Output] (\<lambda>v _. let commandBufferId = v 0; depthClipEnable = v 1 in
     VT_REQUEST_HANDLE commandBufferId VK_OBJECT_TYPE_COMMAND_BUFFER VORTEK_HANDLE_ROLE_VULKAN True True False (\<lambda>commandBuffer.
     vulkan e ''vkCmdSetDepthClipEnable'' [Handle commandBuffer, Value depthClipEnable] (\<lambda>_. Some)))))"

definition vt_handle_vkCmdSetSampleLocationsEnableEXT :: request_handler where
  "vt_handle_vkCmdSetSampleLocationsEnableEXT e batch c =
     VT_REQUEST_BEGIN batch c (
     VT_REQUEST_SCOPE_COMMAND VK_OBJECT_TYPE_COMMAND_BUFFER VORTEK_HANDLE_ROLE_VULKAN (
     VT_REQUEST_DECODE e ''vkCmdSetSampleLocationsEnableEXT'' [Output, Output] (\<lambda>v _. let commandBufferId = v 0;
       sampleLocationsEnable = v 1 in
     VT_REQUEST_HANDLE commandBufferId VK_OBJECT_TYPE_COMMAND_BUFFER VORTEK_HANDLE_ROLE_VULKAN True True False (\<lambda>commandBuffer.
     vulkan e ''vkCmdSetSampleLocationsEnable'' [Handle commandBuffer, Value sampleLocationsEnable] (\<lambda>_. Some)))))"

definition vt_handle_vkCmdSetColorBlendAdvancedEXT :: request_handler where
  "vt_handle_vkCmdSetColorBlendAdvancedEXT e batch c =
     VT_REQUEST_BEGIN batch c (
     VT_REQUEST_SCOPE_COMMAND VK_OBJECT_TYPE_COMMAND_BUFFER VORTEK_HANDLE_ROLE_VULKAN (
     VT_REQUEST_DECODE e ''vkCmdSetColorBlendAdvancedEXT'' [Output, Output, Output, Null] (\<lambda>v _. let commandBufferId = v 0;
       firstAttachment = v 1; attachmentCount = v 2 in
     VT_REQUEST_HANDLE commandBufferId VK_OBJECT_TYPE_COMMAND_BUFFER VORTEK_HANDLE_ROLE_VULKAN True True False (\<lambda>commandBuffer.
     VT_REQUEST_ARRAY e attachmentCount 20 (\<lambda>colorBlendAdvanced_at.
     VT_REQUEST_DECODE e ''vkCmdSetColorBlendAdvancedEXT'' [Null, Null, Null, array_output colorBlendAdvanced_at] (\<lambda>_ b.
       let colorBlendAdvanced = array_argument colorBlendAdvanced_at (b 3) in
     vulkan e ''vkCmdSetColorBlendAdvanced'' [Handle commandBuffer, Value firstAttachment, Value attachmentCount,
       colorBlendAdvanced] (\<lambda>_. Some)))))))"

definition vt_handle_vkCmdSetProvokingVertexModeEXT :: request_handler where
  "vt_handle_vkCmdSetProvokingVertexModeEXT e batch c =
     VT_REQUEST_BEGIN batch c (
     VT_REQUEST_SCOPE_COMMAND VK_OBJECT_TYPE_COMMAND_BUFFER VORTEK_HANDLE_ROLE_VULKAN (
     VT_REQUEST_DECODE e ''vkCmdSetProvokingVertexModeEXT'' [Output, Output] (\<lambda>v _. let commandBufferId = v 0;
       provokingVertexMode = v 1 in
     VT_REQUEST_HANDLE commandBufferId VK_OBJECT_TYPE_COMMAND_BUFFER VORTEK_HANDLE_ROLE_VULKAN True True False (\<lambda>commandBuffer.
     vulkan e ''vkCmdSetProvokingVertexMode'' [Handle commandBuffer, Value provokingVertexMode] (\<lambda>_. Some)))))"

definition vt_handle_vkCmdSetLineRasterizationModeEXT :: request_handler where
  "vt_handle_vkCmdSetLineRasterizationModeEXT e batch c =
     VT_REQUEST_BEGIN batch c (
     VT_REQUEST_SCOPE_COMMAND VK_OBJECT_TYPE_COMMAND_BUFFER VORTEK_HANDLE_ROLE_VULKAN (
     VT_REQUEST_DECODE e ''vkCmdSetLineRasterizationModeEXT'' [Output, Output] (\<lambda>v _. let commandBufferId = v 0;
       lineRasterizationMode = v 1 in
     VT_REQUEST_HANDLE commandBufferId VK_OBJECT_TYPE_COMMAND_BUFFER VORTEK_HANDLE_ROLE_VULKAN True True False (\<lambda>commandBuffer.
     vulkan e ''vkCmdSetLineRasterizationMode'' [Handle commandBuffer, Value lineRasterizationMode] (\<lambda>_. Some)))))"

definition vt_handle_vkCmdSetLineStippleEnableEXT :: request_handler where
  "vt_handle_vkCmdSetLineStippleEnableEXT e batch c =
     VT_REQUEST_BEGIN batch c (
     VT_REQUEST_SCOPE_COMMAND VK_OBJECT_TYPE_COMMAND_BUFFER VORTEK_HANDLE_ROLE_VULKAN (
     VT_REQUEST_DECODE e ''vkCmdSetLineStippleEnableEXT'' [Output, Output] (\<lambda>v _. let commandBufferId = v 0;
       stippledLineEnable = v 1 in
     VT_REQUEST_HANDLE commandBufferId VK_OBJECT_TYPE_COMMAND_BUFFER VORTEK_HANDLE_ROLE_VULKAN True True False (\<lambda>commandBuffer.
     vulkan e ''vkCmdSetLineStippleEnable'' [Handle commandBuffer, Value stippledLineEnable] (\<lambda>_. Some)))))"

definition vt_handle_vkCmdSetDepthClipNegativeOneToOneEXT :: request_handler where
  "vt_handle_vkCmdSetDepthClipNegativeOneToOneEXT e batch c =
     VT_REQUEST_BEGIN batch c (
     VT_REQUEST_SCOPE_COMMAND VK_OBJECT_TYPE_COMMAND_BUFFER VORTEK_HANDLE_ROLE_VULKAN (
     VT_REQUEST_DECODE e ''vkCmdSetDepthClipNegativeOneToOneEXT'' [Output, Output] (\<lambda>v _. let commandBufferId = v 0;
       negativeOneToOne = v 1 in
     VT_REQUEST_HANDLE commandBufferId VK_OBJECT_TYPE_COMMAND_BUFFER VORTEK_HANDLE_ROLE_VULKAN True True False (\<lambda>commandBuffer.
     vulkan e ''vkCmdSetDepthClipNegativeOneToOne'' [Handle commandBuffer, Value negativeOneToOne] (\<lambda>_. Some)))))"

definition vt_handle_vkCmdCopyBuffer2 :: request_handler where
  "vt_handle_vkCmdCopyBuffer2 e batch c =
     VT_REQUEST_BEGIN batch c (
     VT_REQUEST_SCOPE_COMMAND VK_OBJECT_TYPE_COMMAND_BUFFER VORTEK_HANDLE_ROLE_VULKAN (
     VT_REQUEST_DECODE e ''vkCmdCopyBuffer2'' [Output, Output] (\<lambda>v b. let commandBufferId = v 0; copyBufferInfo = b 1 in
     VT_REQUEST_HANDLE commandBufferId VK_OBJECT_TYPE_COMMAND_BUFFER VORTEK_HANDLE_ROLE_VULKAN True True False (\<lambda>commandBuffer.
     vulkan e ''vkCmdCopyBuffer2'' [Handle commandBuffer, Bytes copyBufferInfo] (\<lambda>_. Some)))))"

definition vt_handle_vkCmdCopyImage2 :: request_handler where
  "vt_handle_vkCmdCopyImage2 e batch c =
     VT_REQUEST_BEGIN batch c (
     VT_REQUEST_SCOPE_COMMAND VK_OBJECT_TYPE_COMMAND_BUFFER VORTEK_HANDLE_ROLE_VULKAN (
     VT_REQUEST_DECODE e ''vkCmdCopyImage2'' [Output, Output] (\<lambda>v b. let commandBufferId = v 0; copyImageInfo = b 1 in
     VT_REQUEST_HANDLE commandBufferId VK_OBJECT_TYPE_COMMAND_BUFFER VORTEK_HANDLE_ROLE_VULKAN True True False (\<lambda>commandBuffer.
     vulkan e ''vkCmdCopyImage2'' [Handle commandBuffer, Bytes copyImageInfo] (\<lambda>_. Some)))))"

definition vt_handle_vkCmdBlitImage2 :: request_handler where
  "vt_handle_vkCmdBlitImage2 e batch c =
     VT_REQUEST_BEGIN batch c (
     VT_REQUEST_SCOPE_COMMAND VK_OBJECT_TYPE_COMMAND_BUFFER VORTEK_HANDLE_ROLE_VULKAN (
     VT_REQUEST_DECODE e ''vkCmdBlitImage2'' [Output, Output] (\<lambda>v b. let commandBufferId = v 0; blitImageInfo = b 1 in
     VT_REQUEST_HANDLE commandBufferId VK_OBJECT_TYPE_COMMAND_BUFFER VORTEK_HANDLE_ROLE_VULKAN True True False (\<lambda>commandBuffer.
     vulkan e ''vkCmdBlitImage2'' [Handle commandBuffer, Bytes blitImageInfo] (\<lambda>_. Some)))))"

definition vt_handle_vkCmdCopyImageToBuffer2 :: request_handler where
  "vt_handle_vkCmdCopyImageToBuffer2 e batch c =
     VT_REQUEST_BEGIN batch c (
     VT_REQUEST_SCOPE_COMMAND VK_OBJECT_TYPE_COMMAND_BUFFER VORTEK_HANDLE_ROLE_VULKAN (
     VT_REQUEST_DECODE e ''vkCmdCopyImageToBuffer2'' [Output, Output] (\<lambda>v b. let commandBufferId = v 0; copyImageToBufferInfo = b 1 in
     VT_REQUEST_HANDLE commandBufferId VK_OBJECT_TYPE_COMMAND_BUFFER VORTEK_HANDLE_ROLE_VULKAN True True False (\<lambda>commandBuffer.
     vulkan e ''vkCmdCopyImageToBuffer2'' [Handle commandBuffer, Bytes copyImageToBufferInfo] (\<lambda>_. Some)))))"

definition vt_handle_vkCmdResolveImage2 :: request_handler where
  "vt_handle_vkCmdResolveImage2 e batch c =
     VT_REQUEST_BEGIN batch c (
     VT_REQUEST_SCOPE_COMMAND VK_OBJECT_TYPE_COMMAND_BUFFER VORTEK_HANDLE_ROLE_VULKAN (
     VT_REQUEST_DECODE e ''vkCmdResolveImage2'' [Output, Output] (\<lambda>v b. let commandBufferId = v 0; resolveImageInfo = b 1 in
     VT_REQUEST_HANDLE commandBufferId VK_OBJECT_TYPE_COMMAND_BUFFER VORTEK_HANDLE_ROLE_VULKAN True True False (\<lambda>commandBuffer.
     vulkan e ''vkCmdResolveImage2'' [Handle commandBuffer, Bytes resolveImageInfo] (\<lambda>_. Some)))))"

definition vt_handle_vkCmdSetColorWriteEnableEXT :: request_handler where
  "vt_handle_vkCmdSetColorWriteEnableEXT e batch c =
     VT_REQUEST_BEGIN batch c (
     VT_REQUEST_SCOPE_COMMAND VK_OBJECT_TYPE_COMMAND_BUFFER VORTEK_HANDLE_ROLE_VULKAN (
     VT_REQUEST_DECODE e ''vkCmdSetColorWriteEnableEXT'' [Output, Output, Null] (\<lambda>v _. let commandBufferId = v 0;
       attachmentCount = v 1 in
     VT_REQUEST_HANDLE commandBufferId VK_OBJECT_TYPE_COMMAND_BUFFER VORTEK_HANDLE_ROLE_VULKAN True True False (\<lambda>commandBuffer.
     VT_REQUEST_ARRAY e attachmentCount 4 (\<lambda>colorWriteEnables_at.
     VT_REQUEST_DECODE e ''vkCmdSetColorWriteEnableEXT'' [Null, Null, array_output colorWriteEnables_at] (\<lambda>_ b.
       let colorWriteEnables = array_argument colorWriteEnables_at (b 2) in
     vulkan e ''vkCmdSetColorWriteEnable'' [Handle commandBuffer, Value attachmentCount, colorWriteEnables] (\<lambda>_. Some)))))))"

definition vt_handle_vkCmdSetEvent2 :: request_handler where
  "vt_handle_vkCmdSetEvent2 e batch c =
     VT_REQUEST_BEGIN batch c (
     VT_REQUEST_SCOPE_COMMAND VK_OBJECT_TYPE_COMMAND_BUFFER VORTEK_HANDLE_ROLE_VULKAN (
     VT_REQUEST_DECODE e ''vkCmdSetEvent2'' [Output, Output, Output] (\<lambda>v b. let commandBufferId = v 0; eventId = v 1;
       dependencyInfo = b 2 in
     VT_REQUEST_HANDLE commandBufferId VK_OBJECT_TYPE_COMMAND_BUFFER VORTEK_HANDLE_ROLE_VULKAN True True False (\<lambda>commandBuffer.
     VT_REQUEST_HANDLE eventId VK_OBJECT_TYPE_EVENT VORTEK_HANDLE_ROLE_VULKAN True True False (\<lambda>event.
     vulkan e ''vkCmdSetEvent2'' [Handle commandBuffer, Handle event, Bytes dependencyInfo] (\<lambda>_. Some))))))"

definition vt_handle_vkCmdResetEvent2 :: request_handler where
  "vt_handle_vkCmdResetEvent2 e batch c =
     VT_REQUEST_BEGIN batch c (
     VT_REQUEST_SCOPE_COMMAND VK_OBJECT_TYPE_COMMAND_BUFFER VORTEK_HANDLE_ROLE_VULKAN (
     VT_REQUEST_DECODE e ''vkCmdResetEvent2'' [Output, Output, Output] (\<lambda>v _. let commandBufferId = v 0; eventId = v 1;
       stageMask = v 2 in
     VT_REQUEST_HANDLE commandBufferId VK_OBJECT_TYPE_COMMAND_BUFFER VORTEK_HANDLE_ROLE_VULKAN True True False (\<lambda>commandBuffer.
     VT_REQUEST_HANDLE eventId VK_OBJECT_TYPE_EVENT VORTEK_HANDLE_ROLE_VULKAN True True False (\<lambda>event.
     vulkan e ''vkCmdResetEvent2'' [Handle commandBuffer, Handle event, Value stageMask] (\<lambda>_. Some))))))"

definition vt_handle_vkCmdWaitEvents2 :: request_handler where
  "vt_handle_vkCmdWaitEvents2 e batch c =
     VT_REQUEST_BEGIN batch c (
     VT_REQUEST_SCOPE_COMMAND VK_OBJECT_TYPE_COMMAND_BUFFER VORTEK_HANDLE_ROLE_VULKAN (
     VT_REQUEST_DECODE e ''vkCmdWaitEvents2'' [Output, Output, Null, Null] (\<lambda>v _. let commandBufferId = v 0; eventCount = v 1 in
     VT_REQUEST_HANDLE commandBufferId VK_OBJECT_TYPE_COMMAND_BUFFER VORTEK_HANDLE_ROLE_VULKAN True True False (\<lambda>commandBuffer.
     VT_REQUEST_ARRAY e eventCount 8 (\<lambda>events_at.
     VT_REQUEST_ARRAY e eventCount 64 (\<lambda>dependencyInfos_at.
     VT_REQUEST_DECODE e ''vkCmdWaitEvents2'' [Null, Null, array_output events_at, array_output dependencyInfos_at] (\<lambda>_ b.
       let events = array_argument events_at (b 2); dependencyInfos = array_argument dependencyInfos_at (b 3) in
     vulkan e ''vkCmdWaitEvents2'' [Handle commandBuffer, Value eventCount, events, dependencyInfos] (\<lambda>_. Some))))))))"

definition vt_handle_vkCmdPipelineBarrier2 :: request_handler where
  "vt_handle_vkCmdPipelineBarrier2 e batch c =
     VT_REQUEST_BEGIN batch c (
     VT_REQUEST_SCOPE_COMMAND VK_OBJECT_TYPE_COMMAND_BUFFER VORTEK_HANDLE_ROLE_VULKAN (
     VT_REQUEST_DECODE e ''vkCmdPipelineBarrier2'' [Output, Output] (\<lambda>v b. let commandBufferId = v 0; dependencyInfo = b 1 in
     VT_REQUEST_HANDLE commandBufferId VK_OBJECT_TYPE_COMMAND_BUFFER VORTEK_HANDLE_ROLE_VULKAN True True False (\<lambda>commandBuffer.
     vulkan e ''vkCmdPipelineBarrier2'' [Handle commandBuffer, Bytes dependencyInfo] (\<lambda>_. Some)))))"

definition vt_handle_vkCmdWriteTimestamp2 :: request_handler where
  "vt_handle_vkCmdWriteTimestamp2 e batch c =
     VT_REQUEST_BEGIN batch c (
     VT_REQUEST_SCOPE_COMMAND VK_OBJECT_TYPE_COMMAND_BUFFER VORTEK_HANDLE_ROLE_VULKAN (
     VT_REQUEST_DECODE e ''vkCmdWriteTimestamp2'' [Output, Output, Output, Output] (\<lambda>v _. let commandBufferId = v 0; stage = v 1;
       queryPoolId = v 2; query = v 3 in
     VT_REQUEST_HANDLE commandBufferId VK_OBJECT_TYPE_COMMAND_BUFFER VORTEK_HANDLE_ROLE_VULKAN True True False (\<lambda>commandBuffer.
     VT_REQUEST_HANDLE queryPoolId VK_OBJECT_TYPE_QUERY_POOL VORTEK_HANDLE_ROLE_VULKAN True True False (\<lambda>queryPool.
     vulkan e ''vkCmdWriteTimestamp2'' [Handle commandBuffer, Value stage, Handle queryPool, Value query] (\<lambda>_. Some))))))"

definition vt_handle_vkCmdBeginRendering :: request_handler where
  "vt_handle_vkCmdBeginRendering e batch c =
     VT_REQUEST_BEGIN batch c (
     VT_REQUEST_SCOPE_COMMAND VK_OBJECT_TYPE_COMMAND_BUFFER VORTEK_HANDLE_ROLE_VULKAN (
     VT_REQUEST_DECODE e ''vkCmdBeginRendering'' [Output, Output] (\<lambda>v b. let commandBufferId = v 0; renderingInfo = b 1 in
     VT_REQUEST_HANDLE commandBufferId VK_OBJECT_TYPE_COMMAND_BUFFER VORTEK_HANDLE_ROLE_VULKAN True True False (\<lambda>commandBuffer.
     vulkan e ''vkCmdBeginRendering'' [Handle commandBuffer, Bytes renderingInfo] (\<lambda>_. Some)))))"

definition vt_handle_vkCmdEndRendering :: request_handler where
  "vt_handle_vkCmdEndRendering e batch c =
     VT_REQUEST_BEGIN batch c (
     VT_REQUEST_SCOPE_SIMPLE VK_OBJECT_TYPE_COMMAND_BUFFER VORTEK_HANDLE_ROLE_VULKAN (
     VT_REQUEST_DECODE e ''VkCommandBuffer'' [Output] (\<lambda>v _. let commandBufferId = v 0 in
     VT_REQUEST_HANDLE commandBufferId VK_OBJECT_TYPE_COMMAND_BUFFER VORTEK_HANDLE_ROLE_VULKAN True True False (\<lambda>commandBuffer.
     vulkan e ''vkCmdEndRendering'' [Handle commandBuffer] (\<lambda>_. Some)))))"

end
