(* ===== verification/Handler_Tables.thy ===== *)
theory Handler_Tables
  imports Handlers_Object Handlers_Command Handlers_Command_More Handlers_Special
begin

text \<open>
  The handlers by their names, in four groups: those that record a command, the others that send no response, those that send one, and
  those that send one when the client waits for it. The groups are given in parts, each with the definitions of its handlers.
\<close>

section \<open>Recording handlers\<close>

definition recording_handlers_a :: "(string \<times> request_handler) list" where
  "recording_handlers_a = [
     (''vkCmdBindPipeline'', vt_handle_vkCmdBindPipeline), (''vkCmdSetViewport'', vt_handle_vkCmdSetViewport),
     (''vkCmdSetScissor'', vt_handle_vkCmdSetScissor), (''vkCmdSetLineWidth'', vt_handle_vkCmdSetLineWidth),
     (''vkCmdSetDepthBias'', vt_handle_vkCmdSetDepthBias), (''vkCmdSetBlendConstants'', vt_handle_vkCmdSetBlendConstants),
     (''vkCmdSetDepthBounds'', vt_handle_vkCmdSetDepthBounds), (''vkCmdSetStencilCompareMask'', vt_handle_vkCmdSetStencilCompareMask),
     (''vkCmdSetStencilWriteMask'', vt_handle_vkCmdSetStencilWriteMask),
     (''vkCmdSetStencilReference'', vt_handle_vkCmdSetStencilReference), (''vkCmdBindDescriptorSets'', vt_handle_vkCmdBindDescriptorSets),
     (''vkCmdBindIndexBuffer'', vt_handle_vkCmdBindIndexBuffer), (''vkCmdBindVertexBuffers'', vt_handle_vkCmdBindVertexBuffers),
     (''vkCmdDraw'', vt_handle_vkCmdDraw), (''vkCmdDrawIndexed'', vt_handle_vkCmdDrawIndexed),
     (''vkCmdDrawIndirect'', vt_handle_vkCmdDrawIndirect), (''vkCmdDrawIndexedIndirect'', vt_handle_vkCmdDrawIndexedIndirect),
     (''vkCmdDispatch'', vt_handle_vkCmdDispatch), (''vkCmdDispatchIndirect'', vt_handle_vkCmdDispatchIndirect),
     (''vkCmdCopyBuffer'', vt_handle_vkCmdCopyBuffer), (''vkCmdCopyImage'', vt_handle_vkCmdCopyImage),
     (''vkCmdBlitImage'', vt_handle_vkCmdBlitImage), (''vkCmdCopyImageToBuffer'', vt_handle_vkCmdCopyImageToBuffer),
     (''vkCmdUpdateBuffer'', vt_handle_vkCmdUpdateBuffer), (''vkCmdFillBuffer'', vt_handle_vkCmdFillBuffer),
     (''vkCmdClearColorImage'', vt_handle_vkCmdClearColorImage), (''vkCmdClearDepthStencilImage'', vt_handle_vkCmdClearDepthStencilImage),
     (''vkCmdClearAttachments'', vt_handle_vkCmdClearAttachments), (''vkCmdResolveImage'', vt_handle_vkCmdResolveImage),
     (''vkCmdSetEvent'', vt_handle_vkCmdSetEvent), (''vkCmdResetEvent'', vt_handle_vkCmdResetEvent),
     (''vkCmdWaitEvents'', vt_handle_vkCmdWaitEvents), (''vkCmdPipelineBarrier'', vt_handle_vkCmdPipelineBarrier),
     (''vkCmdBeginQuery'', vt_handle_vkCmdBeginQuery), (''vkCmdEndQuery'', vt_handle_vkCmdEndQuery),
     (''vkCmdBeginConditionalRenderingEXT'', vt_handle_vkCmdBeginConditionalRenderingEXT),
     (''vkCmdEndConditionalRenderingEXT'', vt_handle_vkCmdEndConditionalRenderingEXT),
     (''vkCmdResetQueryPool'', vt_handle_vkCmdResetQueryPool), (''vkCmdWriteTimestamp'', vt_handle_vkCmdWriteTimestamp),
     (''vkCmdCopyQueryPoolResults'', vt_handle_vkCmdCopyQueryPoolResults)]"

lemmas recording_handlers_a_text =
  vt_handle_vkCmdBindPipeline_def vt_handle_vkCmdSetViewport_def vt_handle_vkCmdSetScissor_def vt_handle_vkCmdSetLineWidth_def
  vt_handle_vkCmdSetDepthBias_def vt_handle_vkCmdSetBlendConstants_def vt_handle_vkCmdSetDepthBounds_def
  vt_handle_vkCmdSetStencilCompareMask_def vt_handle_vkCmdSetStencilWriteMask_def vt_handle_vkCmdSetStencilReference_def
  vt_handle_vkCmdBindDescriptorSets_def vt_handle_vkCmdBindIndexBuffer_def vt_handle_vkCmdBindVertexBuffers_def vt_handle_vkCmdDraw_def
  vt_handle_vkCmdDrawIndexed_def vt_handle_vkCmdDrawIndirect_def vt_handle_vkCmdDrawIndexedIndirect_def vt_handle_vkCmdDispatch_def
  vt_handle_vkCmdDispatchIndirect_def vt_handle_vkCmdCopyBuffer_def vt_handle_vkCmdCopyImage_def vt_handle_vkCmdBlitImage_def
  vt_handle_vkCmdCopyImageToBuffer_def vt_handle_vkCmdUpdateBuffer_def vt_handle_vkCmdFillBuffer_def vt_handle_vkCmdClearColorImage_def
  vt_handle_vkCmdClearDepthStencilImage_def vt_handle_vkCmdClearAttachments_def vt_handle_vkCmdResolveImage_def vt_handle_vkCmdSetEvent_def
  vt_handle_vkCmdResetEvent_def vt_handle_vkCmdWaitEvents_def vt_handle_vkCmdPipelineBarrier_def vt_handle_vkCmdBeginQuery_def
  vt_handle_vkCmdEndQuery_def vt_handle_vkCmdBeginConditionalRenderingEXT_def vt_handle_vkCmdEndConditionalRenderingEXT_def
  vt_handle_vkCmdResetQueryPool_def vt_handle_vkCmdWriteTimestamp_def vt_handle_vkCmdCopyQueryPoolResults_def

definition recording_handlers_b :: "(string \<times> request_handler) list" where
  "recording_handlers_b = [
     (''vkCmdBeginRenderPass'', vt_handle_vkCmdBeginRenderPass), (''vkCmdNextSubpass'', vt_handle_vkCmdNextSubpass),
     (''vkCmdEndRenderPass'', vt_handle_vkCmdEndRenderPass), (''vkCmdExecuteCommands'', vt_handle_vkCmdExecuteCommands),
     (''vkCmdPushDescriptorSetKHR'', vt_handle_vkCmdPushDescriptorSetKHR), (''vkCmdSetDeviceMask'', vt_handle_vkCmdSetDeviceMask),
     (''vkCmdDispatchBase'', vt_handle_vkCmdDispatchBase), (''vkCmdSetSampleLocationsEXT'', vt_handle_vkCmdSetSampleLocationsEXT),
     (''vkCmdBeginRenderPass2'', vt_handle_vkCmdBeginRenderPass2), (''vkCmdNextSubpass2'', vt_handle_vkCmdNextSubpass2),
     (''vkCmdEndRenderPass2'', vt_handle_vkCmdEndRenderPass2), (''vkCmdDrawIndirectCount'', vt_handle_vkCmdDrawIndirectCount),
     (''vkCmdDrawIndexedIndirectCount'', vt_handle_vkCmdDrawIndexedIndirectCount),
     (''vkCmdBindTransformFeedbackBuffersEXT'', vt_handle_vkCmdBindTransformFeedbackBuffersEXT),
     (''vkCmdBeginTransformFeedbackEXT'', vt_handle_vkCmdBeginTransformFeedbackEXT),
     (''vkCmdEndTransformFeedbackEXT'', vt_handle_vkCmdEndTransformFeedbackEXT),
     (''vkCmdBeginQueryIndexedEXT'', vt_handle_vkCmdBeginQueryIndexedEXT),
     (''vkCmdEndQueryIndexedEXT'', vt_handle_vkCmdEndQueryIndexedEXT),
     (''vkCmdDrawIndirectByteCountEXT'', vt_handle_vkCmdDrawIndirectByteCountEXT),
     (''vkCmdSetLineStippleKHR'', vt_handle_vkCmdSetLineStippleKHR), (''vkCmdSetCullMode'', vt_handle_vkCmdSetCullMode),
     (''vkCmdSetFrontFace'', vt_handle_vkCmdSetFrontFace), (''vkCmdSetPrimitiveTopology'', vt_handle_vkCmdSetPrimitiveTopology),
     (''vkCmdSetViewportWithCount'', vt_handle_vkCmdSetViewportWithCount),
     (''vkCmdSetScissorWithCount'', vt_handle_vkCmdSetScissorWithCount), (''vkCmdBindVertexBuffers2'', vt_handle_vkCmdBindVertexBuffers2),
     (''vkCmdSetDepthTestEnable'', vt_handle_vkCmdSetDepthTestEnable), (''vkCmdSetDepthWriteEnable'', vt_handle_vkCmdSetDepthWriteEnable),
     (''vkCmdSetDepthCompareOp'', vt_handle_vkCmdSetDepthCompareOp),
     (''vkCmdSetDepthBoundsTestEnable'', vt_handle_vkCmdSetDepthBoundsTestEnable),
     (''vkCmdSetStencilTestEnable'', vt_handle_vkCmdSetStencilTestEnable), (''vkCmdSetStencilOp'', vt_handle_vkCmdSetStencilOp),
     (''vkCmdSetRasterizerDiscardEnable'', vt_handle_vkCmdSetRasterizerDiscardEnable),
     (''vkCmdSetDepthBiasEnable'', vt_handle_vkCmdSetDepthBiasEnable),
     (''vkCmdSetPrimitiveRestartEnable'', vt_handle_vkCmdSetPrimitiveRestartEnable),
     (''vkCmdSetTessellationDomainOriginEXT'', vt_handle_vkCmdSetTessellationDomainOriginEXT),
     (''vkCmdSetDepthClampEnableEXT'', vt_handle_vkCmdSetDepthClampEnableEXT),
     (''vkCmdSetPolygonModeEXT'', vt_handle_vkCmdSetPolygonModeEXT),
     (''vkCmdSetRasterizationSamplesEXT'', vt_handle_vkCmdSetRasterizationSamplesEXT),
     (''vkCmdSetSampleMaskEXT'', vt_handle_vkCmdSetSampleMaskEXT)]"

lemmas recording_handlers_b_text =
  vt_handle_vkCmdBeginRenderPass_def vt_handle_vkCmdNextSubpass_def vt_handle_vkCmdEndRenderPass_def vt_handle_vkCmdExecuteCommands_def
  vt_handle_vkCmdPushDescriptorSetKHR_def vt_handle_vkCmdSetDeviceMask_def vt_handle_vkCmdDispatchBase_def
  vt_handle_vkCmdSetSampleLocationsEXT_def vt_handle_vkCmdBeginRenderPass2_def vt_handle_vkCmdNextSubpass2_def
  vt_handle_vkCmdEndRenderPass2_def vt_handle_vkCmdDrawIndirectCount_def vt_handle_vkCmdDrawIndexedIndirectCount_def
  vt_handle_vkCmdBindTransformFeedbackBuffersEXT_def vt_handle_vkCmdBeginTransformFeedbackEXT_def
  vt_handle_vkCmdEndTransformFeedbackEXT_def vt_handle_vkCmdBeginQueryIndexedEXT_def vt_handle_vkCmdEndQueryIndexedEXT_def
  vt_handle_vkCmdDrawIndirectByteCountEXT_def vt_handle_vkCmdSetLineStippleKHR_def vt_handle_vkCmdSetCullMode_def
  vt_handle_vkCmdSetFrontFace_def vt_handle_vkCmdSetPrimitiveTopology_def vt_handle_vkCmdSetViewportWithCount_def
  vt_handle_vkCmdSetScissorWithCount_def vt_handle_vkCmdBindVertexBuffers2_def vt_handle_vkCmdSetDepthTestEnable_def
  vt_handle_vkCmdSetDepthWriteEnable_def vt_handle_vkCmdSetDepthCompareOp_def vt_handle_vkCmdSetDepthBoundsTestEnable_def
  vt_handle_vkCmdSetStencilTestEnable_def vt_handle_vkCmdSetStencilOp_def vt_handle_vkCmdSetRasterizerDiscardEnable_def
  vt_handle_vkCmdSetDepthBiasEnable_def vt_handle_vkCmdSetPrimitiveRestartEnable_def vt_handle_vkCmdSetTessellationDomainOriginEXT_def
  vt_handle_vkCmdSetDepthClampEnableEXT_def vt_handle_vkCmdSetPolygonModeEXT_def vt_handle_vkCmdSetRasterizationSamplesEXT_def
  vt_handle_vkCmdSetSampleMaskEXT_def

definition recording_handlers_c :: "(string \<times> request_handler) list" where
  "recording_handlers_c = [
     (''vkCmdSetAlphaToCoverageEnableEXT'', vt_handle_vkCmdSetAlphaToCoverageEnableEXT),
     (''vkCmdSetAlphaToOneEnableEXT'', vt_handle_vkCmdSetAlphaToOneEnableEXT),
     (''vkCmdSetLogicOpEnableEXT'', vt_handle_vkCmdSetLogicOpEnableEXT),
     (''vkCmdSetColorBlendEnableEXT'', vt_handle_vkCmdSetColorBlendEnableEXT),
     (''vkCmdSetColorBlendEquationEXT'', vt_handle_vkCmdSetColorBlendEquationEXT),
     (''vkCmdSetColorWriteMaskEXT'', vt_handle_vkCmdSetColorWriteMaskEXT),
     (''vkCmdSetRasterizationStreamEXT'', vt_handle_vkCmdSetRasterizationStreamEXT),
     (''vkCmdSetConservativeRasterizationModeEXT'', vt_handle_vkCmdSetConservativeRasterizationModeEXT),
     (''vkCmdSetExtraPrimitiveOverestimationSizeEXT'', vt_handle_vkCmdSetExtraPrimitiveOverestimationSizeEXT),
     (''vkCmdSetDepthClipEnableEXT'', vt_handle_vkCmdSetDepthClipEnableEXT),
     (''vkCmdSetSampleLocationsEnableEXT'', vt_handle_vkCmdSetSampleLocationsEnableEXT),
     (''vkCmdSetColorBlendAdvancedEXT'', vt_handle_vkCmdSetColorBlendAdvancedEXT),
     (''vkCmdSetProvokingVertexModeEXT'', vt_handle_vkCmdSetProvokingVertexModeEXT),
     (''vkCmdSetLineRasterizationModeEXT'', vt_handle_vkCmdSetLineRasterizationModeEXT),
     (''vkCmdSetLineStippleEnableEXT'', vt_handle_vkCmdSetLineStippleEnableEXT),
     (''vkCmdSetDepthClipNegativeOneToOneEXT'', vt_handle_vkCmdSetDepthClipNegativeOneToOneEXT),
     (''vkCmdCopyBuffer2'', vt_handle_vkCmdCopyBuffer2), (''vkCmdCopyImage2'', vt_handle_vkCmdCopyImage2),
     (''vkCmdBlitImage2'', vt_handle_vkCmdBlitImage2), (''vkCmdCopyImageToBuffer2'', vt_handle_vkCmdCopyImageToBuffer2),
     (''vkCmdResolveImage2'', vt_handle_vkCmdResolveImage2), (''vkCmdSetColorWriteEnableEXT'', vt_handle_vkCmdSetColorWriteEnableEXT),
     (''vkCmdSetEvent2'', vt_handle_vkCmdSetEvent2), (''vkCmdResetEvent2'', vt_handle_vkCmdResetEvent2),
     (''vkCmdWaitEvents2'', vt_handle_vkCmdWaitEvents2), (''vkCmdPipelineBarrier2'', vt_handle_vkCmdPipelineBarrier2),
     (''vkCmdWriteTimestamp2'', vt_handle_vkCmdWriteTimestamp2), (''vkCmdBeginRendering'', vt_handle_vkCmdBeginRendering),
     (''vkCmdEndRendering'', vt_handle_vkCmdEndRendering), (''vkCmdCopyBufferToImage'', vt_handle_vkCmdCopyBufferToImage),
     (''vkCmdPushConstants'', vt_handle_vkCmdPushConstants), (''vkCmdCopyBufferToImage2'', vt_handle_vkCmdCopyBufferToImage2)]"

lemmas recording_handlers_c_text =
  vt_handle_vkCmdSetAlphaToCoverageEnableEXT_def vt_handle_vkCmdSetAlphaToOneEnableEXT_def vt_handle_vkCmdSetLogicOpEnableEXT_def
  vt_handle_vkCmdSetColorBlendEnableEXT_def vt_handle_vkCmdSetColorBlendEquationEXT_def vt_handle_vkCmdSetColorWriteMaskEXT_def
  vt_handle_vkCmdSetRasterizationStreamEXT_def vt_handle_vkCmdSetConservativeRasterizationModeEXT_def
  vt_handle_vkCmdSetExtraPrimitiveOverestimationSizeEXT_def vt_handle_vkCmdSetDepthClipEnableEXT_def
  vt_handle_vkCmdSetSampleLocationsEnableEXT_def vt_handle_vkCmdSetColorBlendAdvancedEXT_def vt_handle_vkCmdSetProvokingVertexModeEXT_def
  vt_handle_vkCmdSetLineRasterizationModeEXT_def vt_handle_vkCmdSetLineStippleEnableEXT_def
  vt_handle_vkCmdSetDepthClipNegativeOneToOneEXT_def vt_handle_vkCmdCopyBuffer2_def vt_handle_vkCmdCopyImage2_def
  vt_handle_vkCmdBlitImage2_def vt_handle_vkCmdCopyImageToBuffer2_def vt_handle_vkCmdResolveImage2_def
  vt_handle_vkCmdSetColorWriteEnableEXT_def vt_handle_vkCmdSetEvent2_def vt_handle_vkCmdResetEvent2_def vt_handle_vkCmdWaitEvents2_def
  vt_handle_vkCmdPipelineBarrier2_def vt_handle_vkCmdWriteTimestamp2_def vt_handle_vkCmdBeginRendering_def vt_handle_vkCmdEndRendering_def
  vt_handle_vkCmdCopyBufferToImage_def vt_handle_vkCmdPushConstants_def vt_handle_vkCmdCopyBufferToImage2_def

definition recording_handlers :: "(string \<times> request_handler) list" where
  "recording_handlers = recording_handlers_a @ recording_handlers_b @ recording_handlers_c"

section \<open>Silent handlers\<close>

definition silent_handlers :: "(string \<times> request_handler) list" where
  "silent_handlers = [
     (''vkUnmapMemory'', vt_handle_vkUnmapMemory), (''vkDestroyFence'', vt_handle_vkDestroyFence),
     (''vkResetFences'', vt_handle_vkResetFences), (''vkDestroySemaphore'', vt_handle_vkDestroySemaphore),
     (''vkDestroyEvent'', vt_handle_vkDestroyEvent), (''vkDestroyQueryPool'', vt_handle_vkDestroyQueryPool),
     (''vkResetQueryPool'', vt_handle_vkResetQueryPool), (''vkDestroyBufferView'', vt_handle_vkDestroyBufferView),
     (''vkDestroyImageView'', vt_handle_vkDestroyImageView), (''vkDestroyPipelineCache'', vt_handle_vkDestroyPipelineCache),
     (''vkDestroyPipeline'', vt_handle_vkDestroyPipeline), (''vkDestroyPipelineLayout'', vt_handle_vkDestroyPipelineLayout),
     (''vkDestroySampler'', vt_handle_vkDestroySampler), (''vkDestroyDescriptorSetLayout'', vt_handle_vkDestroyDescriptorSetLayout),
     (''vkDestroyDescriptorPool'', vt_handle_vkDestroyDescriptorPool), (''vkResetDescriptorPool'', vt_handle_vkResetDescriptorPool),
     (''vkFreeDescriptorSets'', vt_handle_vkFreeDescriptorSets), (''vkUpdateDescriptorSets'', vt_handle_vkUpdateDescriptorSets),
     (''vkDestroyFramebuffer'', vt_handle_vkDestroyFramebuffer), (''vkDestroyRenderPass'', vt_handle_vkDestroyRenderPass),
     (''vkDestroyCommandPool'', vt_handle_vkDestroyCommandPool), (''vkResetCommandPool'', vt_handle_vkResetCommandPool),
     (''vkFreeCommandBuffers'', vt_handle_vkFreeCommandBuffers), (''vkBeginCommandBuffer'', vt_handle_vkBeginCommandBuffer),
     (''vkResetCommandBuffer'', vt_handle_vkResetCommandBuffer), (''vkTrimCommandPool'', vt_handle_vkTrimCommandPool),
     (''vkDestroySamplerYcbcrConversion'', vt_handle_vkDestroySamplerYcbcrConversion), (''vkFreeMemory'', vt_handle_vkFreeMemory),
     (''vkDestroyBuffer'', vt_handle_vkDestroyBuffer), (''vkDestroyImage'', vt_handle_vkDestroyImage),
     (''vkDestroyShaderModule'', vt_handle_vkDestroyShaderModule), (''vkDestroySwapchainKHR'', vt_handle_vkDestroySwapchainKHR)]"

lemmas silent_handlers_text =
  vt_handle_vkUnmapMemory_def vt_handle_vkDestroyFence_def vt_handle_vkResetFences_def vt_handle_vkDestroySemaphore_def
  vt_handle_vkDestroyEvent_def vt_handle_vkDestroyQueryPool_def vt_handle_vkResetQueryPool_def vt_handle_vkDestroyBufferView_def
  vt_handle_vkDestroyImageView_def vt_handle_vkDestroyPipelineCache_def vt_handle_vkDestroyPipeline_def
  vt_handle_vkDestroyPipelineLayout_def vt_handle_vkDestroySampler_def vt_handle_vkDestroyDescriptorSetLayout_def
  vt_handle_vkDestroyDescriptorPool_def vt_handle_vkResetDescriptorPool_def vt_handle_vkFreeDescriptorSets_def
  vt_handle_vkUpdateDescriptorSets_def vt_handle_vkDestroyFramebuffer_def vt_handle_vkDestroyRenderPass_def
  vt_handle_vkDestroyCommandPool_def vt_handle_vkResetCommandPool_def vt_handle_vkFreeCommandBuffers_def vt_handle_vkBeginCommandBuffer_def
  vt_handle_vkResetCommandBuffer_def vt_handle_vkTrimCommandPool_def vt_handle_vkDestroySamplerYcbcrConversion_def
  vt_handle_vkFreeMemory_def vt_handle_vkDestroyBuffer_def vt_handle_vkDestroyImage_def vt_handle_vkDestroyShaderModule_def
  vt_handle_vkDestroySwapchainKHR_def

section \<open>Answering handlers\<close>

definition answering_handlers_a :: "(string \<times> request_handler) list" where
  "answering_handlers_a = [
     (''vkGetDeviceQueue'', vt_handle_vkGetDeviceQueue), (''vkQueueWaitIdle'', vt_handle_vkQueueWaitIdle),
     (''vkDeviceWaitIdle'', vt_handle_vkDeviceWaitIdle), (''vkFlushMappedMemoryRanges'', vt_handle_vkFlushMappedMemoryRanges),
     (''vkInvalidateMappedMemoryRanges'', vt_handle_vkInvalidateMappedMemoryRanges),
     (''vkGetDeviceMemoryCommitment'', vt_handle_vkGetDeviceMemoryCommitment),
     (''vkGetBufferMemoryRequirements'', vt_handle_vkGetBufferMemoryRequirements),
     (''vkGetImageMemoryRequirements'', vt_handle_vkGetImageMemoryRequirements), (''vkBindImageMemory'', vt_handle_vkBindImageMemory),
     (''vkQueueBindSparse'', vt_handle_vkQueueBindSparse), (''vkGetFenceStatus'', vt_handle_vkGetFenceStatus),
     (''vkCreateSemaphore'', vt_handle_vkCreateSemaphore), (''vkCreateEvent'', vt_handle_vkCreateEvent),
     (''vkGetEventStatus'', vt_handle_vkGetEventStatus), (''vkSetEvent'', vt_handle_vkSetEvent),
     (''vkResetEvent'', vt_handle_vkResetEvent), (''vkCreateQueryPool'', vt_handle_vkCreateQueryPool),
     (''vkGetQueryPoolResults'', vt_handle_vkGetQueryPoolResults), (''vkCreateBuffer'', vt_handle_vkCreateBuffer),
     (''vkCreateBufferView'', vt_handle_vkCreateBufferView), (''vkGetImageSubresourceLayout'', vt_handle_vkGetImageSubresourceLayout),
     (''vkCreatePipelineCache'', vt_handle_vkCreatePipelineCache), (''vkGetPipelineCacheData'', vt_handle_vkGetPipelineCacheData),
     (''vkMergePipelineCaches'', vt_handle_vkMergePipelineCaches), (''vkCreateSampler'', vt_handle_vkCreateSampler),
     (''vkCreateDescriptorSetLayout'', vt_handle_vkCreateDescriptorSetLayout),
     (''vkCreateDescriptorPool'', vt_handle_vkCreateDescriptorPool), (''vkCreateFramebuffer'', vt_handle_vkCreateFramebuffer),
     (''vkCreateRenderPass'', vt_handle_vkCreateRenderPass), (''vkGetRenderAreaGranularity'', vt_handle_vkGetRenderAreaGranularity),
     (''vkCreateCommandPool'', vt_handle_vkCreateCommandPool),
     (''vkGetPhysicalDeviceExternalBufferProperties'', vt_handle_vkGetPhysicalDeviceExternalBufferProperties),
     (''vkGetPhysicalDeviceExternalSemaphoreProperties'', vt_handle_vkGetPhysicalDeviceExternalSemaphoreProperties),
     (''vkGetPhysicalDeviceExternalFenceProperties'', vt_handle_vkGetPhysicalDeviceExternalFenceProperties),
     (''vkGetDeviceGroupPeerMemoryFeatures'', vt_handle_vkGetDeviceGroupPeerMemoryFeatures),
     (''vkBindImageMemory2'', vt_handle_vkBindImageMemory2),
     (''vkGetPhysicalDeviceMultisamplePropertiesEXT'', vt_handle_vkGetPhysicalDeviceMultisamplePropertiesEXT),
     (''vkGetBufferMemoryRequirements2'', vt_handle_vkGetBufferMemoryRequirements2),
     (''vkGetImageMemoryRequirements2'', vt_handle_vkGetImageMemoryRequirements2),
     (''vkGetDeviceBufferMemoryRequirements'', vt_handle_vkGetDeviceBufferMemoryRequirements)]"

lemmas answering_handlers_a_text =
  vt_handle_vkGetDeviceQueue_def vt_handle_vkQueueWaitIdle_def vt_handle_vkDeviceWaitIdle_def vt_handle_vkFlushMappedMemoryRanges_def
  vt_handle_vkInvalidateMappedMemoryRanges_def vt_handle_vkGetDeviceMemoryCommitment_def vt_handle_vkGetBufferMemoryRequirements_def
  vt_handle_vkGetImageMemoryRequirements_def vt_handle_vkBindImageMemory_def vt_handle_vkQueueBindSparse_def vt_handle_vkGetFenceStatus_def
  vt_handle_vkCreateSemaphore_def vt_handle_vkCreateEvent_def vt_handle_vkGetEventStatus_def vt_handle_vkSetEvent_def
  vt_handle_vkResetEvent_def vt_handle_vkCreateQueryPool_def vt_handle_vkGetQueryPoolResults_def vt_handle_vkCreateBuffer_def
  vt_handle_vkCreateBufferView_def vt_handle_vkGetImageSubresourceLayout_def vt_handle_vkCreatePipelineCache_def
  vt_handle_vkGetPipelineCacheData_def vt_handle_vkMergePipelineCaches_def vt_handle_vkCreateSampler_def
  vt_handle_vkCreateDescriptorSetLayout_def vt_handle_vkCreateDescriptorPool_def vt_handle_vkCreateFramebuffer_def
  vt_handle_vkCreateRenderPass_def vt_handle_vkGetRenderAreaGranularity_def vt_handle_vkCreateCommandPool_def
  vt_handle_vkGetPhysicalDeviceExternalBufferProperties_def vt_handle_vkGetPhysicalDeviceExternalSemaphoreProperties_def
  vt_handle_vkGetPhysicalDeviceExternalFenceProperties_def vt_handle_vkGetDeviceGroupPeerMemoryFeatures_def
  vt_handle_vkBindImageMemory2_def vt_handle_vkGetPhysicalDeviceMultisamplePropertiesEXT_def vt_handle_vkGetBufferMemoryRequirements2_def
  vt_handle_vkGetImageMemoryRequirements2_def vt_handle_vkGetDeviceBufferMemoryRequirements_def

definition answering_handlers_b :: "(string \<times> request_handler) list" where
  "answering_handlers_b = [
     (''vkGetDeviceImageMemoryRequirements'', vt_handle_vkGetDeviceImageMemoryRequirements),
     (''vkCreateSamplerYcbcrConversion'', vt_handle_vkCreateSamplerYcbcrConversion), (''vkGetDeviceQueue2'', vt_handle_vkGetDeviceQueue2),
     (''vkGetDescriptorSetLayoutSupport'', vt_handle_vkGetDescriptorSetLayoutSupport),
     (''vkGetCalibratedTimestampsKHR'', vt_handle_vkGetCalibratedTimestampsKHR), (''vkCreateRenderPass2'', vt_handle_vkCreateRenderPass2),
     (''vkGetSemaphoreCounterValue'', vt_handle_vkGetSemaphoreCounterValue), (''vkSignalSemaphore'', vt_handle_vkSignalSemaphore),
     (''vkGetBufferOpaqueCaptureAddress'', vt_handle_vkGetBufferOpaqueCaptureAddress),
     (''vkGetBufferDeviceAddress'', vt_handle_vkGetBufferDeviceAddress),
     (''vkGetDeviceMemoryOpaqueCaptureAddress'', vt_handle_vkGetDeviceMemoryOpaqueCaptureAddress),
     (''vkGetShaderModuleIdentifierEXT'', vt_handle_vkGetShaderModuleIdentifierEXT),
     (''vkGetShaderModuleCreateInfoIdentifierEXT'', vt_handle_vkGetShaderModuleCreateInfoIdentifierEXT),
     (''vkEnumeratePhysicalDevices'', vt_handle_vkEnumeratePhysicalDevices),
     (''vkGetPhysicalDeviceQueueFamilyProperties'', vt_handle_vkGetPhysicalDeviceQueueFamilyProperties),
     (''vkEnumerateInstanceVersion'', vt_handle_vkEnumerateInstanceVersion), (''vkAllocateMemory'', vt_handle_vkAllocateMemory),
     (''vkMapMemory'', vt_handle_vkMapMemory), (''vkBindBufferMemory'', vt_handle_vkBindBufferMemory),
     (''vkGetImageSparseMemoryRequirements'', vt_handle_vkGetImageSparseMemoryRequirements),
     (''vkGetPhysicalDeviceSparseImageFormatProperties'', vt_handle_vkGetPhysicalDeviceSparseImageFormatProperties),
     (''vkCreateFence'', vt_handle_vkCreateFence), (''vkWaitForFences'', vt_handle_vkWaitForFences),
     (''vkCreateImage'', vt_handle_vkCreateImage), (''vkCreateImageView'', vt_handle_vkCreateImageView),
     (''vkCreateShaderModule'', vt_handle_vkCreateShaderModule), (''vkAllocateDescriptorSets'', vt_handle_vkAllocateDescriptorSets),
     (''vkAllocateCommandBuffers'', vt_handle_vkAllocateCommandBuffers), (''vkGetSwapchainImagesKHR'', vt_handle_vkGetSwapchainImagesKHR),
     (''vkAcquireNextImageKHR'', vt_handle_vkAcquireNextImageKHR), (''vkGetMemoryFdKHR'', vt_handle_vkGetMemoryFdKHR),
     (''vkGetSemaphoreFdKHR'', vt_handle_vkGetSemaphoreFdKHR), (''vkGetFenceFdKHR'', vt_handle_vkGetFenceFdKHR),
     (''vkAcquireNextImage2KHR'', vt_handle_vkAcquireNextImage2KHR),
     (''vkGetPhysicalDeviceCalibrateableTimeDomainsKHR'', vt_handle_vkGetPhysicalDeviceCalibrateableTimeDomainsKHR)]"

lemmas answering_handlers_b_text =
  vt_handle_vkGetDeviceImageMemoryRequirements_def vt_handle_vkCreateSamplerYcbcrConversion_def vt_handle_vkGetDeviceQueue2_def
  vt_handle_vkGetDescriptorSetLayoutSupport_def vt_handle_vkGetCalibratedTimestampsKHR_def vt_handle_vkCreateRenderPass2_def
  vt_handle_vkGetSemaphoreCounterValue_def vt_handle_vkSignalSemaphore_def vt_handle_vkGetBufferOpaqueCaptureAddress_def
  vt_handle_vkGetBufferDeviceAddress_def vt_handle_vkGetDeviceMemoryOpaqueCaptureAddress_def vt_handle_vkGetShaderModuleIdentifierEXT_def
  vt_handle_vkGetShaderModuleCreateInfoIdentifierEXT_def vt_handle_vkEnumeratePhysicalDevices_def
  vt_handle_vkGetPhysicalDeviceQueueFamilyProperties_def vt_handle_vkEnumerateInstanceVersion_def vt_handle_vkAllocateMemory_def
  vt_handle_vkMapMemory_def vt_handle_vkBindBufferMemory_def vt_handle_vkGetImageSparseMemoryRequirements_def
  vt_handle_vkGetPhysicalDeviceSparseImageFormatProperties_def vt_handle_vkCreateFence_def vt_handle_vkWaitForFences_def
  vt_handle_vkCreateImage_def vt_handle_vkCreateImageView_def vt_handle_vkCreateShaderModule_def vt_handle_vkAllocateDescriptorSets_def
  vt_handle_vkAllocateCommandBuffers_def vt_handle_vkGetSwapchainImagesKHR_def vt_handle_vkAcquireNextImageKHR_def
  vt_handle_vkGetMemoryFdKHR_def vt_handle_vkGetSemaphoreFdKHR_def vt_handle_vkGetFenceFdKHR_def vt_handle_vkAcquireNextImage2KHR_def
  vt_handle_vkGetPhysicalDeviceCalibrateableTimeDomainsKHR_def

definition answering_handlers :: "(string \<times> request_handler) list" where
  "answering_handlers = answering_handlers_a @ answering_handlers_b"

section \<open>Waiting handlers\<close>

definition waiting_handlers :: "(string \<times> request_handler) list" where
  "waiting_handlers = [
     (''vkQueueSubmit'', vt_handle_vkQueueSubmit), (''vkQueueSubmit2'', vt_handle_vkQueueSubmit2)]"

lemmas waiting_handlers_text =
  vt_handle_vkQueueSubmit_def vt_handle_vkQueueSubmit2_def

end
