(* ===== verification/Handler_Replies.thy ===== *)
theory Handler_Replies
  imports Request_Replies Handler_Tables
begin

text \<open>
  How often the handlers of each group answer: the rules of \<open>Request_Replies\<close>, applied along the text of every handler.
\<close>

lemma recording_handlers_a_reply: "\<forall>(name, h) \<in> set recording_handlers_a. handler_replies {0} h"
  unfolding recording_handlers_a_def list.set ball_simps split_conv
  by (intro conjI TrueI; rule handlerI, unfold recording_handlers_a_text Let_def, rule replies_beginI, (rule reply_rules)+)

lemma recording_handlers_b_reply: "\<forall>(name, h) \<in> set recording_handlers_b. handler_replies {0} h"
  unfolding recording_handlers_b_def list.set ball_simps split_conv
  by (intro conjI TrueI; rule handlerI, unfold recording_handlers_b_text Let_def, rule replies_beginI, (rule reply_rules)+)

lemma recording_handlers_c_reply: "\<forall>(name, h) \<in> set recording_handlers_c. handler_replies {0} h"
  unfolding recording_handlers_c_def list.set ball_simps split_conv
  by (intro conjI TrueI; rule handlerI, unfold recording_handlers_c_text Let_def, rule replies_beginI, (rule reply_rules)+)

lemma recording_handlers_reply: "\<forall>(name, h) \<in> set recording_handlers. handler_replies {0} h"
  using recording_handlers_a_reply recording_handlers_b_reply recording_handlers_c_reply by (auto simp: recording_handlers_def)

lemma silent_handlers_reply: "\<forall>(name, h) \<in> set silent_handlers. handler_replies {0} h"
  unfolding silent_handlers_def list.set ball_simps split_conv
  by (intro conjI TrueI; rule handlerI, unfold silent_handlers_text Let_def, rule replies_beginI, (rule reply_rules)+)

lemma answering_handlers_a_reply: "\<forall>(name, h) \<in> set answering_handlers_a. handler_replies {1} h"
  unfolding answering_handlers_a_def list.set ball_simps split_conv
  by (intro conjI TrueI; rule handlerI, unfold answering_handlers_a_text Let_def, rule replies_beginI, (rule reply_rules)+)

lemma answering_handlers_b_reply: "\<forall>(name, h) \<in> set answering_handlers_b. handler_replies {1} h"
  unfolding answering_handlers_b_def list.set ball_simps split_conv
  by (intro conjI TrueI; rule handlerI, unfold answering_handlers_b_text Let_def, rule replies_beginI, (rule reply_rules)+)

lemma answering_handlers_reply: "\<forall>(name, h) \<in> set answering_handlers. handler_replies {1} h"
  using answering_handlers_a_reply answering_handlers_b_reply by (auto simp: answering_handlers_def)

lemma waiting_handlers_reply: "\<forall>(name, h) \<in> set waiting_handlers. handler_replies {0, 1} h"
  unfolding waiting_handlers_def list.set ball_simps split_conv
  by (intro conjI TrueI; rule handlerI, unfold waiting_handlers_text Let_def, rule replies_beginI, (rule reply_rules)+)

end
