(* ===== verification/Request_Scope.thy ===== *)
theory Request_Scope
  imports Request_Decode
begin

text \<open>
  A request stays in its scope: the lookups of a request, each against the registry as it is at that time, give objects of one
  instance and one device, whatever tokens the guest names and whatever other threads do to the registry in between.
\<close>

section \<open>One lookup\<close>

lemma lookup_OK:
  assumes wf: "reg_wf r" and t: "t \<noteq> 0"
    and "VortekHandleRegistry_lookup (Some r) n t (Some x) True = (VORTEK_HANDLE_OK, Some v)"
  obtains e where "reg_map r t = Some e" "entry_satisfies e x" "owners_alive r (ent_owner e)"
    "v = value_of_entry (generation r) e" "exp_contextGeneration x = generation r" "\<not> closed r"
proof -
  have "fst (validateExpectationLockedEx r n t (Some x) False) = VORTEK_HANDLE_OK"
    using assms(3) by (auto simp: VortekHandleRegistry_lookup_def validated_Locked split: prod.splits if_splits)
  then obtain i where i: "validateExpectationLockedEx r n t (Some x) False = (VORTEK_HANDLE_OK, Some i)"
    using validateExpectation_OK_Some [OF t] by metis
  note v = i [unfolded validateExpectation_map [OF wf t]]
  have "reg_map r t = Some (entries r ! i)" using v by (simp add: reg_map_def)
  then show thesis
    using that [of "entries r ! i"] v i assms(3) t by (auto simp: VortekHandleRegistry_lookup_def validated_Locked)
qed

lemma lookup_complete:
  assumes wf: "reg_wf r" and t: "t \<noteq> 0" and e: "reg_map r t = Some e"
    and "entry_satisfies e x" "owners_alive r (ent_owner e)" "exp_contextGeneration x = generation r" "\<not> closed r"
  shows "VortekHandleRegistry_lookup (Some r) n t (Some x) True = (VORTEK_HANDLE_OK, Some (value_of_entry (generation r) e))"
proof -
  obtain i where i: "findLiveLocked r t = Some i" "e = entries r ! i" using e by (auto simp: reg_map_def)
  then have "validateExpectationLockedEx r n t (Some x) False = (VORTEK_HANDLE_OK, Some i)"
    unfolding validateExpectation_map [OF wf t] using assms by simp
  with i t show ?thesis by (simp add: VortekHandleRegistry_lookup_def validated_Locked)
qed

text \<open>What a lookup may change of the decoder's state: the scope where there is none, and the flag.\<close>

definition scope_kept :: "VtDecodeState \<Rightarrow> VtDecodeState \<Rightarrow> bool" where
  "scope_kept s s' \<longleftrightarrow> (dec_instance_owner s \<noteq> 0 \<longrightarrow> dec_instance_owner s' = dec_instance_owner s) \<and>
     (dec_device_owner s \<noteq> 0 \<longrightarrow> dec_device_owner s' = dec_device_owner s)"

lemma scope_kept_refl [simp]: "scope_kept s s"
  by (simp add: scope_kept_def)

lemma scope_kept_trans: "scope_kept a b \<Longrightarrow> scope_kept b c \<Longrightarrow> scope_kept a c"
  by (auto simp: scope_kept_def)

lemma scope_kept_flag [simp]: "scope_kept s (vt_decode_set_null_descriptor_enabled s f)"
  by (simp add: scope_kept_def vt_decode_set_null_descriptor_enabled_def)

lemma establish_kept: "scope_kept s (establish_scope type role t v s)"
  by (simp add: scope_kept_def establish_scope_def vt_decode_set_handle_scope_def Let_def)

lemma confine_kept: "scope_kept s (snd (confine_scope c ri rd v s))"
  by (auto simp: confine_scope_def split: VortekHandleStatus.split option.split prod.split)

lemma lookup_kept: "scope_kept s (snd (snd (vt_request_authority_lookup c s t type role ri rd an es)))"
  using establish_kept confine_kept scope_kept_trans
  by (auto simp: vt_request_authority_lookup_def Let_def split: prod.split option.split VortekHandleStatus.split)
     (metis snd_conv)+

text \<open>What a successful lookup of a token found: a live entry of the kind asked for, owned by the scope where that was
  asked for, and the device of the scope live in the same registry.\<close>

definition found_in_scope ::
  "VortekHandleRegistry \<Rightarrow> u64 \<Rightarrow> VkObjectType \<Rightarrow> VortekHandleRole \<Rightarrow> bool \<Rightarrow> bool \<Rightarrow> VortekHandleValue \<Rightarrow> VtDecodeState \<Rightarrow> bool" where
  "found_in_scope r t type role ri rd v s \<longleftrightarrow>
     (\<exists>e. reg_map r t = Some e \<and> v = value_of_entry (generation r) e \<and> ent_role e = role \<and>
        (role = VORTEK_HANDLE_ROLE_VULKAN \<longrightarrow> ent_vulkanType e = type)) \<and>
     (ri \<longrightarrow> own_instance (val_owner v) = dec_instance_owner s \<and> dec_instance_owner s \<noteq> 0) \<and>
     (rd \<longrightarrow> own_device (val_owner v) = dec_device_owner s \<and> dec_device_owner s \<noteq> 0) \<and>
     (dec_device_owner s \<noteq> 0 \<longrightarrow> (\<exists>d. reg_map r (dec_device_owner s) = Some d \<and> entry_is d VK_OBJECT_TYPE_DEVICE \<and>
        dec_null_descriptor_enabled s = ent_nullDescriptorEnabled d))"

lemma confine_found:
  assumes "authority c = Some r" "reg_wf r" "confine_scope c ri rd v s = (True, s')"
  shows "dec_instance_owner s' = dec_instance_owner s" "dec_device_owner s' = dec_device_owner s"
    "ri \<longrightarrow> own_instance (val_owner v) = dec_instance_owner s \<and> dec_instance_owner s \<noteq> 0"
    "rd \<longrightarrow> own_device (val_owner v) = dec_device_owner s \<and> dec_device_owner s \<noteq> 0"
    "dec_device_owner s \<noteq> 0 \<longrightarrow> (\<exists>d. reg_map r (dec_device_owner s) = Some d \<and> entry_is d VK_OBJECT_TYPE_DEVICE \<and>
        dec_null_descriptor_enabled s' = ent_nullDescriptorEnabled d)"
proof -
  let ?x = "expect_vulkan_device (cx_contextGeneration (rc_context c)) (dec_instance_owner s)"
  show "ri \<longrightarrow> own_instance (val_owner v) = dec_instance_owner s \<and> dec_instance_owner s \<noteq> 0"
    "rd \<longrightarrow> own_device (val_owner v) = dec_device_owner s \<and> dec_device_owner s \<noteq> 0"
    using assms(3) by (auto simp: confine_scope_def split: if_splits)
  have rest: "(dec_device_owner s \<noteq> 0 \<and> (\<exists>dv. VortekHandleRegistry_lookup (Some r) (rc_next c) (dec_device_owner s) (Some ?x) True =
        (VORTEK_HANDLE_OK, Some dv) \<and> s' = vt_decode_set_null_descriptor_enabled s (val_nullDescriptorEnabled dv))) \<or>
      (dec_device_owner s = 0 \<and> s' = vt_decode_set_null_descriptor_enabled s False)"
    using assms(1,3)
    by (auto simp: confine_scope_def authority_defs split: if_splits prod.splits VortekHandleStatus.splits option.splits)
  then show "dec_instance_owner s' = dec_instance_owner s" "dec_device_owner s' = dec_device_owner s"
    by (auto simp: vt_decode_set_null_descriptor_enabled_def)
  show "dec_device_owner s \<noteq> 0 \<longrightarrow> (\<exists>d. reg_map r (dec_device_owner s) = Some d \<and> entry_is d VK_OBJECT_TYPE_DEVICE \<and>
        dec_null_descriptor_enabled s' = ent_nullDescriptorEnabled d)"
  proof
    assume nz: "dec_device_owner s \<noteq> 0"
    with rest obtain dv where dv: "VortekHandleRegistry_lookup (Some r) (rc_next c) (dec_device_owner s) (Some ?x) True =
        (VORTEK_HANDLE_OK, Some dv)" "s' = vt_decode_set_null_descriptor_enabled s (val_nullDescriptorEnabled dv)" by auto
    from lookup_OK [OF assms(2) nz dv(1)] obtain d where
      "reg_map r (dec_device_owner s) = Some d" "entry_satisfies d ?x" "dv = value_of_entry (generation r) d" by metis
    then show "\<exists>d. reg_map r (dec_device_owner s) = Some d \<and> entry_is d VK_OBJECT_TYPE_DEVICE \<and>
        dec_null_descriptor_enabled s' = ent_nullDescriptorEnabled d"
      using dv(2) by (auto simp: entry_satisfies_def expect_vulkan_device_def entry_is_def
          vt_decode_set_null_descriptor_enabled_def value_of_entry_def)
  qed
qed

lemma lookup_found:
  assumes r: "authority c = Some r" and wf: "reg_wf r" and t: "t \<noteq> 0"
    and eq: "vt_request_authority_lookup c s t type role ri rd an es = (True, v, s')"
  shows "\<exists>w. v = Some w \<and> found_in_scope r t type role ri rd w s'"
proof -
  obtain x w s1 where look: "VortekHandleRegistry_lookup (Some r) (rc_next c) t (Some x) True = (VORTEK_HANDLE_OK, Some w)"
    and x: "exp_role x = role" "exp_vulkanType x = type" and v: "v = Some w"
    and conf: "confine_scope c ri rd w s1 = (True, s')"
    using eq r t
    by (auto simp: vt_request_authority_lookup_def authority_defs Let_def
        split: if_splits prod.splits VortekHandleStatus.splits option.splits)
  from lookup_OK [OF wf t look] obtain e where e: "reg_map r t = Some e" "entry_satisfies e x"
    "w = value_of_entry (generation r) e" by metis
  note c = confine_found [OF r wf conf]
  have "found_in_scope r t type role ri rd w s'"
    unfolding found_in_scope_def c(1,2) using c(3-5) e x by (auto simp: entry_satisfies_def)
  with v show ?thesis by blast
qed

section \<open>The lookups of a request\<close>

text \<open>A lookup with the context, and so the registry, as it is when it is made.\<close>

record lookup_call =
  lk_context :: RequestContext
  lk_token :: u64
  lk_type :: VkObjectType
  lk_role :: VortekHandleRole
  lk_instance :: bool
  lk_device :: bool
  lk_null :: bool

definition lookup_once :: "lookup_call \<Rightarrow> VtDecodeState \<Rightarrow> bool \<times> VortekHandleValue option \<times> VtDecodeState" where
  "lookup_once l s = vt_request_authority_lookup (lk_context l) s (lk_token l) (lk_type l) (lk_role l) (lk_instance l)
     (lk_device l) (lk_null l) True"

fun request_lookups :: "lookup_call list \<Rightarrow> VtDecodeState \<Rightarrow> (bool \<times> VortekHandleValue option) list \<times> VtDecodeState" where
  "request_lookups [] s = ([], s)"
| "request_lookups (l # ls) s =
     (case lookup_once l s of (ok, v, s1) \<Rightarrow> (case request_lookups ls s1 of (rs, s2) \<Rightarrow> ((ok, v) # rs, s2)))"

lemma request_lookups_kept: "request_lookups ls s = (rs, s') \<Longrightarrow> scope_kept s s' \<and> length rs = length ls"
proof (induction ls arbitrary: s rs s')
  case (Cons l ls)
  obtain ok v s1 where o: "lookup_once l s = (ok, v, s1)" by (metis prod_cases3)
  obtain rs1 s2 where w: "request_lookups ls s1 = (rs1, s2)" by (metis prod.exhaust)
  have "scope_kept s s1" using lookup_kept o by (metis lookup_once_def snd_conv)
  then show ?case using Cons.IH [OF w] Cons.prems o w scope_kept_trans by auto
qed simp

definition lookup_good :: "lookup_call \<Rightarrow> bool" where
  "lookup_good l \<longleftrightarrow> (\<exists>r. authority (lk_context l) = Some r \<and> reg_wf r)"

lemma request_lookups_at:
  assumes "request_lookups ls s = (rs, s')" "i < length ls" "\<And>l. l \<in> set ls \<Longrightarrow> lookup_good l"
    "rs ! i = (True, Some v)" "lk_token (ls ! i) \<noteq> 0" "authority (lk_context (ls ! i)) = Some r"
  shows "\<exists>s1. scope_kept s s1 \<and> scope_kept s1 s' \<and>
    found_in_scope r (lk_token (ls ! i)) (lk_type (ls ! i)) (lk_role (ls ! i)) (lk_instance (ls ! i)) (lk_device (ls ! i)) v s1"
  using assms
proof (induction ls arbitrary: s rs i)
  case (Cons l ls)
  obtain ok w s1 where o: "lookup_once l s = (ok, w, s1)" by (metis prod_cases3)
  obtain rs1 where rw: "request_lookups ls s1 = (rs1, s')" "rs = (ok, w) # rs1"
    using Cons.prems(1) o by (auto split: prod.splits)
  have k: "scope_kept s s1" using lookup_kept o by (metis lookup_once_def snd_conv)
  show ?case
  proof (cases i)
    case 0
    have wf: "reg_wf r" using Cons.prems(3,6) 0 by (fastforce simp: lookup_good_def)
    have "ok" "w = Some v" using Cons.prems(4) rw 0 by auto
    with lookup_found [OF _ wf, of "lk_context l"] o Cons.prems(5,6) 0
    have "found_in_scope r (lk_token l) (lk_type l) (lk_role l) (lk_instance l) (lk_device l) v s1"
      unfolding lookup_once_def by fastforce
    then show ?thesis using k request_lookups_kept [OF rw(1)] 0 by auto
  next
    case (Suc j)
    have j: "j < length ls" "rs1 ! j = (True, Some v)" "lk_token (ls ! j) \<noteq> 0" "authority (lk_context (ls ! j)) = Some r"
      using Cons.prems(2,4-6) rw(2) Suc by auto
    have good: "\<And>l. l \<in> set ls \<Longrightarrow> lookup_good l" using Cons.prems(3) by simp
    obtain s2 where s2: "scope_kept s1 s2" "scope_kept s2 s'" "found_in_scope r (lk_token (ls ! j)) (lk_type (ls ! j))
        (lk_role (ls ! j)) (lk_instance (ls ! j)) (lk_device (ls ! j)) v s2"
      using Cons.IH [OF rw(1) j(1) good j(2-4)] by blast
    show ?thesis
      by (intro exI [of _ s2] conjI) (use s2 scope_kept_trans [OF k s2(1)] Suc in simp_all)
  qed
qed simp

lemma found_kept:
  assumes f: "found_in_scope r t type role ri rd v s1" and k: "scope_kept s1 s'"
  shows "(rd \<longrightarrow> own_device (val_owner v) = dec_device_owner s' \<and> live_as r (own_device (val_owner v)) VK_OBJECT_TYPE_DEVICE) \<and>
    (ri \<longrightarrow> own_instance (val_owner v) = dec_instance_owner s' \<and> dec_instance_owner s' \<noteq> 0)"
proof (intro conjI impI)
  assume rd
  then have o: "own_device (val_owner v) = dec_device_owner s1" "dec_device_owner s1 \<noteq> 0"
    and d: "\<exists>d. reg_map r (dec_device_owner s1) = Some d \<and> entry_is d VK_OBJECT_TYPE_DEVICE"
    using f unfolding found_in_scope_def by blast+
  show "own_device (val_owner v) = dec_device_owner s'" using o k by (simp add: scope_kept_def)
  show "live_as r (own_device (val_owner v)) VK_OBJECT_TYPE_DEVICE" using o d by (auto simp: live_as_def)
next
  assume ri
  then have o: "own_instance (val_owner v) = dec_instance_owner s1" "dec_instance_owner s1 \<noteq> 0"
    using f unfolding found_in_scope_def by blast+
  show "own_instance (val_owner v) = dec_instance_owner s'" "dec_instance_owner s' \<noteq> 0"
    using o k by (simp_all add: scope_kept_def)
qed

text \<open>C6: A request stays in its scope. Of all handles that were looked up in a request with a required owner, any two have the
  same device, and that device is live when the second is found; the same holds for the instance. The registry may change between
  the lookups in any way that keeps it well-formed.\<close>

theorem request_stays_in_scope:
  assumes "request_lookups ls s = (results, s')" "\<And>l. l \<in> set ls \<Longrightarrow> lookup_good l"
    and "i < j" "j < length ls" "results ! i = (True, Some vi)" "results ! j = (True, Some vj)"
    and "lk_token (ls ! i) \<noteq> 0" "lk_token (ls ! j) \<noteq> 0" "authority (lk_context (ls ! j)) = Some rj"
  shows "(lk_device (ls ! i) \<and> lk_device (ls ! j) \<longrightarrow>
      own_device (val_owner vi) = own_device (val_owner vj) \<and>
      live_as rj (own_device (val_owner vj)) VK_OBJECT_TYPE_DEVICE) \<and>
    (lk_instance (ls ! i) \<and> lk_instance (ls ! j) \<longrightarrow>
      own_instance (val_owner vi) = own_instance (val_owner vj) \<and> own_instance (val_owner vj) \<noteq> 0)"
proof -
  have "ls ! i \<in> set ls" using assms(3,4) by simp
  then obtain ri where ri: "authority (lk_context (ls ! i)) = Some ri" using assms(2) lookup_good_def by blast
  obtain si where si: "scope_kept si s'" "found_in_scope ri (lk_token (ls ! i)) (lk_type (ls ! i)) (lk_role (ls ! i))
      (lk_instance (ls ! i)) (lk_device (ls ! i)) vi si"
    using request_lookups_at [OF assms(1) _ assms(2,5,7) ri] assms(3,4) by auto
  obtain sj where sj: "scope_kept sj s'" "found_in_scope rj (lk_token (ls ! j)) (lk_type (ls ! j)) (lk_role (ls ! j))
      (lk_instance (ls ! j)) (lk_device (ls ! j)) vj sj"
    using request_lookups_at [OF assms(1,4,2,6,8,9)] by auto
  show ?thesis
    using found_kept [OF si(2,1)] found_kept [OF sj(2,1)] by (intro conjI impI; elim conjE; simp)
qed

text \<open>The small system with a buffer of its device, looked up twice.\<close>

definition with_buffer :: VortekHandleRegistry where
  "with_buffer = sys_reg (with_vulkan VK_OBJECT_TYPE_BUFFER 48 (owner_of 1 2 0) small)"

lemma small_buffer_owner: "owners_alive (sys_reg small) (owner_of 1 2 0)"
  by (simp add: owners_alive_def owner_of_def live_as_def small_facts vk_entry_def entry_is_def)

lemmas with_buffer_facts = with_vulkan_new [of small VK_OBJECT_TYPE_BUFFER 48 "owner_of 1 2 0",
  folded with_buffer_def, OF reach_sane [OF small_reach] _ _ _ _ small_buffer_owner,
  simplified small_facts owner_of_def reuseIdentity_def UINT64_MAX_def, simplified]

lemma with_buffer_wf: "reg_wf with_buffer"
  unfolding with_buffer_def by (rule reach_wf [OF with_vulkan_reach [OF small_reach]])

definition small_context :: RequestContext where
  "small_context = \<lparr>rc_context = \<lparr>cx_status = 0, cx_closing = False, cx_contextGeneration = 7, cx_handleAuthority = Some with_buffer,
       cx_serverRing = None, cx_clientRing = None, extraDataRequests = [], pendingExtraDataBytes = 0, pendingExtraDataCount = 0,
       seenExtraDataRequestIds = []\<rparr>, rc_next = 4, rc_nullDescriptorEnabled = False, rc_inputBuffer = None, rc_inputAt = 0,
     rc_inputBufferSize = 0, rc_memoryPool = \<lparr>mp_data = None, mp_size = 0, mp_list = \<lparr>al_size = 0, al_capacity = 0, al_elements = []\<rparr>\<rparr>, rc_events = []\<rparr>"

definition buffer_lookup :: lookup_call where
  "buffer_lookup = \<lparr>lk_context = small_context, lk_token = 3, lk_type = VK_OBJECT_TYPE_BUFFER, lk_role = VORTEK_HANDLE_ROLE_VULKAN,
     lk_instance = True, lk_device = True, lk_null = False\<rparr>"

lemma buffer_owners: "owners_alive with_buffer \<lparr>own_instance = 1, own_device = 2, own_parent = 0\<rparr>"
  "owners_alive with_buffer \<lparr>own_instance = 1, own_device = 0, own_parent = 0\<rparr>"
  by (simp_all add: owners_alive_def live_as_def with_buffer_facts vk_entry_def entry_is_def)

lemma buffer_found:
  assumes "dec_instance_owner s \<in> {0, 1}" "dec_device_owner s \<in> {0, 2}" "dec_context_generation s = 7"
  shows "\<exists>v s'. lookup_once buffer_lookup s = (True, Some v, s') \<and> own_device (val_owner v) = 2 \<and>
    dec_instance_owner s' = 1 \<and> dec_device_owner s' = 2 \<and> dec_context_generation s' = 7"
proof -
  let ?e = "vk_entry 3 VK_OBJECT_TYPE_BUFFER 48 \<lparr>own_instance = 1, own_device = 2, own_parent = 0\<rparr>"
  let ?d = "vk_entry 2 VK_OBJECT_TYPE_DEVICE 32 \<lparr>own_instance = 1, own_device = 0, own_parent = 0\<rparr>"
  have e: "VortekHandleRegistry_lookup (Some with_buffer) 4 3 (Some x) True = (VORTEK_HANDLE_OK, Some (value_of_entry 7 ?e))"
    if "entry_satisfies ?e x" "exp_contextGeneration x = 7" for x
    using lookup_complete [OF with_buffer_wf, of 3 ?e x 4] that buffer_owners
    by (simp add: with_buffer_facts vk_entry_def zero_entry_def)
  have d: "VortekHandleRegistry_lookup (Some with_buffer) 4 2 (Some x) True = (VORTEK_HANDLE_OK, Some (value_of_entry 7 ?d))"
    if "entry_satisfies ?d x" "exp_contextGeneration x = 7" for x
    using lookup_complete [OF with_buffer_wf, of 2 ?d x 4] that buffer_owners
    by (simp add: with_buffer_facts vk_entry_def zero_entry_def)
  show ?thesis
    using assms
    by (auto simp: lookup_once_def buffer_lookup_def vt_request_authority_lookup_def small_context_def authority_defs e d
        establish_scope_def confine_scope_def entry_satisfies_def vk_entry_def zero_entry_def expect_vulkan_device_def zero_owner_def
        value_of_entry_def vt_decode_set_handle_scope_def vt_decode_set_null_descriptor_enabled_def)
qed

theorem request_stays_in_scope_witness:
  "\<exists>vi vj s'. request_lookups [buffer_lookup, buffer_lookup] (zero_state\<lparr>dec_context_generation := 7\<rparr>)
      = ([(True, Some vi), (True, Some vj)], s') \<and>
    own_device (val_owner vi) = own_device (val_owner vj) \<and> live_as with_buffer (own_device (val_owner vj)) VK_OBJECT_TYPE_DEVICE"
proof -
  let ?s = "zero_state\<lparr>dec_context_generation := 7\<rparr>"
  obtain vi s1 where o1: "lookup_once buffer_lookup ?s = (True, Some vi, s1)" "dec_instance_owner s1 = 1" "dec_device_owner s1 = 2"
    "dec_context_generation s1 = 7"
    using buffer_found [of ?s] by (auto simp: zero_state_def)
  obtain vj s2 where o2: "lookup_once buffer_lookup s1 = (True, Some vj, s2)" using buffer_found [of s1] o1 by auto
  have run: "request_lookups [buffer_lookup, buffer_lookup] ?s = ([(True, Some vi), (True, Some vj)], s2)" by (simp add: o1 o2)
  have "lookup_good buffer_lookup"
    by (simp add: lookup_good_def buffer_lookup_def small_context_def with_buffer_wf)
  then show ?thesis
    using request_stays_in_scope [OF run, of 0 1 vi vj with_buffer] run
    by (auto simp: buffer_lookup_def small_context_def)
qed

end
