(* ===== verification/Request_Uses.thy ===== *)
theory Request_Uses
  imports Request_Replies Request_Scope
begin

text \<open>
  The handles that a handler passes on: the rules follow the text of a handler, like those for its responses, and collect what was
  looked up in the registry before.
\<close>

section \<open>Registered handles\<close>

text \<open>A host handle that a live token of the context stands for, of this type and role; or the null handle.\<close>

definition registered :: "RequestContext \<Rightarrow> VkObjectType \<Rightarrow> VortekHandleRole \<Rightarrow> u64 \<Rightarrow> bool" where
  "registered c type role h \<longleftrightarrow> h = 0 \<or> (\<exists>r t e. authority c = Some r \<and> reg_map r t = Some e \<and> ent_hostValue e = h \<and>
     ent_role e = role \<and> (role = VORTEK_HANDLE_ROLE_VULKAN \<longrightarrow> ent_vulkanType e = type))"

text \<open>What stands in the arguments of a call: registered handles, the memory of a registered \<^verbatim>\<open>ResourceMemory\<close> and the module of a
  registered \<^verbatim>\<open>ShaderModule\<close>.\<close>

definition usable :: "request_env \<Rightarrow> RequestContext \<Rightarrow> u64 \<Rightarrow> bool" where
  "usable e c h \<longleftrightarrow> (\<exists>type role. registered c type role h) \<or>
     (\<exists>m. registered c VK_OBJECT_TYPE_UNKNOWN VORTEK_HANDLE_ROLE_RESOURCE_MEMORY m \<and> h = env_memory e m) \<or>
     (\<exists>m. registered c VK_OBJECT_TYPE_UNKNOWN VORTEK_HANDLE_ROLE_SHADER_MODULE m \<and> h = env_module e m)"

definition uses_registered :: "request_env \<Rightarrow> RequestContext \<Rightarrow> string \<Rightarrow> argument list \<Rightarrow> bool" where
  "uses_registered e c name args \<longleftrightarrow> (\<forall>h. Handle h \<in> set args \<longrightarrow> usable e c h)"

text \<open>A command is recorded into a command buffer.\<close>

definition records_registered :: "request_env \<Rightarrow> RequestContext \<Rightarrow> string \<Rightarrow> argument list \<Rightarrow> bool" where
  "records_registered e c name args \<longleftrightarrow> uses_registered e c name args \<and>
     (\<exists>b rest. args = Handle b # rest \<and> registered c VK_OBJECT_TYPE_COMMAND_BUFFER VORTEK_HANDLE_ROLE_VULKAN b)"

lemma registered_entry:
  "authority c = Some r \<Longrightarrow> reg_map r t = Some e \<Longrightarrow> ent_role e = role \<Longrightarrow>
     role = VORTEK_HANDLE_ROLE_VULKAN \<longrightarrow> ent_vulkanType e = type \<Longrightarrow> registered c type role (ent_hostValue e)"
  by (auto simp: registered_def)

lemma usable_registered:
  "registered c type role h \<Longrightarrow> usable e c h"
  "registered c VK_OBJECT_TYPE_UNKNOWN VORTEK_HANDLE_ROLE_RESOURCE_MEMORY m \<Longrightarrow> usable e c (env_memory e m)"
  "registered c VK_OBJECT_TYPE_UNKNOWN VORTEK_HANDLE_ROLE_SHADER_MODULE m \<Longrightarrow> usable e c (env_module e m)"
  by (auto simp: usable_def)

text \<open>A request whose context is well-formed. \<open>b\<close> says whether the registry still is what it was at the start.\<close>

definition at_start :: "bool \<Rightarrow> RequestContext \<Rightarrow> request \<Rightarrow> bool" where
  "at_start b c q \<longleftrightarrow> (\<forall>r. authority c = Some r \<longrightarrow> sane r (rc_next c)) \<and>
     (b \<longrightarrow> rc_context (rq_context q) = rc_context c \<and> rc_next (rq_context q) = rc_next c)"

definition acts :: "(string \<Rightarrow> argument list \<Rightarrow> bool) \<Rightarrow> bool \<Rightarrow> RequestContext \<Rightarrow> step \<Rightarrow> bool" where
  "acts P b c k \<longleftrightarrow> (\<forall>q q'. at_start b c q \<longrightarrow> k q = Some q' \<longrightarrow>
     (\<exists>es. events q' = events q @ es \<and> (\<forall>name args. Called name args \<in> set es \<longrightarrow> P name args)))"

lemma at_start_plain: "at_start b c q \<Longrightarrow> plain q q1 \<Longrightarrow> at_start b c q1"
  by (simp add: at_start_def plain_def)

lemma at_start_later: "at_start b c q \<Longrightarrow> at_start False c q1"
  by (simp add: at_start_def)

lemma actsI:
  "(\<And>q q'. at_start b c q \<Longrightarrow> k q = Some q' \<Longrightarrow>
      \<exists>es. events q' = events q @ es \<and> (\<forall>name args. Called name args \<in> set es \<longrightarrow> P name args)) \<Longrightarrow> acts P b c k"
  by (simp add: acts_def)

lemma actsD:
  "acts P b c k \<Longrightarrow> at_start b c q \<Longrightarrow> k q = Some q' \<Longrightarrow>
     \<exists>es. events q' = events q @ es \<and> (\<forall>name args. Called name args \<in> set es \<longrightarrow> P name args)"
  by (simp add: acts_def)

lemma cleanup_calls: "cleanup es \<Longrightarrow> Called name args \<notin> set es"
  by (auto simp: cleanup_def)

lemma stops_acts: "stops q q' \<Longrightarrow> \<exists>es. events q' = events q @ es \<and> (\<forall>name args. Called name args \<in> set es \<longrightarrow> P name args)"
  unfolding stops_def using cleanup_calls by blast

text \<open>Something without a call, then the rest.\<close>

lemma acts_then:
  assumes "acts P b c k" "at_start b c q1" "k q1 = Some q'" "events q1 = events q @ es" "cleanup es"
  shows "\<exists>es. events q' = events q @ es \<and> (\<forall>name args. Called name args \<in> set es \<longrightarrow> P name args)"
proof -
  obtain fs where "events q' = events q1 @ fs" "\<forall>name args. Called name args \<in> set fs \<longrightarrow> P name args"
    using actsD [OF assms(1-3)] by blast
  then show ?thesis using assms(4) cleanup_calls [OF assms(5)] by (intro exI [of _ "es @ fs"]) auto
qed

lemma acts_continues:
  assumes "continues m K" "\<And>k. K k \<Longrightarrow> acts P b c k"
  shows "acts P b c m"
proof (rule actsI)
  fix q q' assume at: "at_start b c q" and run: "m q = Some q'"
  from assms(1) run consider "stops q q'" | k q1 where "K k" "plain q q1" "k q1 = Some q'"
    unfolding continues_def outcome_def by blast
  then show "\<exists>es. events q' = events q @ es \<and> (\<forall>name args. Called name args \<in> set es \<longrightarrow> P name args)"
  proof cases
    case 2
    show ?thesis
      by (rule acts_then [OF assms(2) [OF 2(1)] at_start_plain [OF at 2(2)] 2(3), of q "[]"]) (use 2(2) in \<open>simp_all add: plain_def\<close>)
  qed (rule stops_acts)
qed

section \<open>Rules\<close>

named_theorems use_rules

lemma acts_ends [use_rules]: "acts P b c Some" "acts P b c (\<lambda>_. None)" "acts P b c protocol_error"
  by (auto simp: acts_def protocol_error_def intro!: exI [of _ "[]"])

lemma acts_if [use_rules]: "acts P b c k \<Longrightarrow> acts P b c m \<Longrightarrow> acts P b c (if x then k else m)"
  "acts P b c k \<Longrightarrow> acts P b c m \<Longrightarrow> acts P b c (\<lambda>q. if x then k q else m q)"
  "acts P b c (f y) \<Longrightarrow> acts P b c (g y) \<Longrightarrow> acts P b c ((if x then f else g) y)"
  by (cases x; simp)+

lemma acts_plain [use_rules]:
  "(\<And>v s. acts P b c (k1 v s)) \<Longrightarrow> acts P b c (VT_REQUEST_DECODE e name args k1)"
  "(\<And>place. acts P b c (k2 place)) \<Longrightarrow> acts P b c (VT_REQUEST_ARRAY e count sz k2)"
  "acts P b c k3 \<Longrightarrow> acts P b c (VT_REQUEST_SCOPE_AT offset type role k3)"
  "acts P b c k3 \<Longrightarrow> acts P b c (VT_REQUEST_OUTPUT e sz k3)"
  "(\<And>d n. acts P b c (k5 d n)) \<Longrightarrow> acts P b c (VT_SERIALIZE_CMD e name args k5)"
  "(\<And>i. acts P b c (k4 i)) \<Longrightarrow> acts P b c (with_instance_owner k4)"
  "(\<And>c'. acts P b c (k6 c')) \<Longrightarrow> acts P b c (with_context k6)"
  "(\<And>ts. acts P b c (k7 ts)) \<Longrightarrow> acts P b c (captured_tokens k7)"
  by (rule acts_continues [OF decode_continues] acts_continues [OF array_continues] acts_continues [OF scope_continues]
        acts_continues [OF output_continues] acts_continues [OF serialize_continues]
        acts_continues [OF owner_continues] acts_continues [OF context_continues] acts_continues [OF captured_continues];
      auto)+

lemma resolved_registered:
  assumes "\<forall>r. authority c = Some r \<longrightarrow> sane r (rc_next c)" "authority c1 = authority c"
    and "vt_request_resolve_root_handle c1 request t type role ri rd an = (Some h, request')"
  shows "registered c type role h"
proof -
  obtain v s' where look: "vt_request_authority_lookup c1 (vr_state request) t type role ri rd an True = (True, v, s')" "map_option val_hostValue v = Some h"
    using assms(3) by (auto simp: vt_request_resolve_root_handle_def split: prod.splits if_splits)
  obtain r where r: "authority c1 = Some r"
    using look by (cases "authority c1") (auto simp: vt_request_authority_lookup_def)
  show ?thesis
  proof (cases "t = 0")
    case True
    then have "h = 0" using look r
      by (auto simp: vt_request_authority_lookup_def authority_defs Let_def VortekHandleRegistry_lookup_def zero_value_def
          split: if_splits prod.splits VortekHandleStatus.splits option.splits)
    then show ?thesis by (simp add: registered_def)
  next
    case False
    have "reg_wf r" using assms(1,2) r by (auto simp: sane_def)
    from lookup_found [OF r this False look(1)] obtain w where w: "v = Some w" "found_in_scope r t type role ri rd w s'" by blast
    then obtain e where e: "reg_map r t = Some e" "w = value_of_entry (generation r) e" "ent_role e = role"
      "role = VORTEK_HANDLE_ROLE_VULKAN \<longrightarrow> ent_vulkanType e = type"
      by (auto simp: found_in_scope_def)
    have "authority c = Some r" using r assms(2) by simp
    then show ?thesis using registered_entry [OF _ e(1,3,4)] look(2) w(1) e(2) by (simp add: value_of_entry_def)
  qed
qed

lemma acts_handle [use_rules]:
  assumes "\<And>h. registered c type role h \<Longrightarrow> acts P True c (k h)"
  shows "acts P True c (VT_REQUEST_HANDLE token type role ri rd an k)"
proof (rule actsI)
  fix q q' assume at: "at_start True c q" and run: "VT_REQUEST_HANDLE token type role ri rd an k q = Some q'"
  obtain host request where r: "vt_request_resolve_root_handle (rq_context q) (rq_request q) token type role ri rd an = (host, request)"
    by fastforce
  show "\<exists>es. events q' = events q @ es \<and> (\<forall>name args. Called name args \<in> set es \<longrightarrow> P name args)"
  proof (cases host)
    case None
    then have "protocol_error (q\<lparr>rq_request := request\<rparr>) = Some q'" using run r by (simp add: VT_REQUEST_HANDLE_def)
    then show ?thesis by (auto simp: protocol_error_def intro!: exI [of _ "[]"])
  next
    case (Some h)
    have "registered c type role h"
      by (rule resolved_registered [OF _ _ r [unfolded Some]]) (use at in \<open>simp_all add: at_start_def\<close>)
    from acts_then [OF assms [OF this], of "q\<lparr>rq_request := request\<rparr>" q' q "[]"] show ?thesis
      using run r Some at by (simp add: VT_REQUEST_HANDLE_def at_start_def)
  qed
qed

text \<open>What is retired was registered until then; with this the registry has changed.\<close>

lemma unregister_keeps_registry:
  "VortekHandleRegistry_unregister (Some r) n t x out = (st, v, r') \<Longrightarrow> \<exists>r1. r' = Some r1"
  by (cases x) (auto simp: VortekHandleRegistry_unregister_def Let_def
      split: prod.splits option.splits VortekHandleStatus.splits if_splits)

lemma retired_registered:
  assumes "\<forall>r. authority c = Some r \<longrightarrow> sane r (rc_next c)" "rc_context c1 = rc_context c" "rc_next c1 = rc_next c"
    and "vt_request_retire_root_handle c1 request t type role ri rd an = (Some h, c')"
  shows "registered c type role h"
proof (cases "t = 0")
  case True
  then show ?thesis using assms(4) by (auto simp: vt_request_retire_root_handle_def registered_def split: if_splits)
next
  case False
  then obtain x v where u: "VkObjectAuthority_tombstone (authority c1) (rc_next c1) t (Some x) True = (VORTEK_HANDLE_OK, v, authority c')"
    and h: "map_option val_hostValue v = Some h" and x: "exp_role x = role" "exp_vulkanType x = type"
    using assms(4)
    by (auto simp: vt_request_retire_root_handle_def Let_def set_authority_def split: prod.splits if_splits)
  obtain r where r: "authority c = Some r"
    using u assms(2) by (cases "authority c") (auto simp: authority_defs VortekHandleRegistry_unregister_def)
  then have s: "sane r (rc_next c)" using assms(1) by blast
  obtain r' where r': "authority c' = Some r'"
    using unregister_keeps_registry u assms(2) r unfolding authority_defs by metis
  have "VortekHandleRegistry_unregister (Some r) (rc_next c) t (Some x) True = (VORTEK_HANDLE_OK, v, Some r')"
    using u r' r assms(2,3) by (simp add: authority_defs)
  from unregister_effect [OF s False this] obtain e where e: "reg_map r t = Some e" "v = Some (value_of_entry (generation r) e)"
    "fst (validateExpectationLockedEx r (rc_next c) t (Some x) False) = VORTEK_HANDLE_OK" by auto
  have "entry_satisfies e x"
  proof -
    obtain i where i: "validateExpectationLockedEx r (rc_next c) t (Some x) False = (VORTEK_HANDLE_OK, Some i)"
      using validateExpectation_OK_Some [OF False e(3)] by metis
    then show ?thesis using e(1) unfolding validateExpectation_map [OF sane_wf [OF s] False] by (auto simp: reg_map_def)
  qed
  then show ?thesis using registered_entry [OF r e(1)] h x e(2) by (auto simp: entry_satisfies_def value_of_entry_def)
qed

lemma acts_retired [use_rules]:
  assumes "\<And>h. registered c type role h \<Longrightarrow> acts P False c (k h)"
  shows "acts P True c (VT_REQUEST_RETIRED_HANDLE token type role ri rd an k)"
proof (rule actsI)
  fix q q' assume at: "at_start True c q" and run: "VT_REQUEST_RETIRED_HANDLE token type role ri rd an k q = Some q'"
  obtain host c1 where r: "vt_request_retire_root_handle (rq_context q) (rq_request q) token type role ri rd an = (host, c1)"
    by fastforce
  note ev = retire_events [OF r]
  show "\<exists>es. events q' = events q @ es \<and> (\<forall>name args. Called name args \<in> set es \<longrightarrow> P name args)"
  proof (cases host)
    case None
    then have "protocol_error (q\<lparr>rq_context := c1\<rparr>) = Some q'" using run r by (simp add: VT_REQUEST_RETIRED_HANDLE_def)
    then show ?thesis using ev by (auto simp: protocol_error_def intro!: exI [of _ "[]"])
  next
    case (Some h)
    have "registered c type role h"
      by (rule retired_registered [OF _ _ _ r [unfolded Some]]) (use at in \<open>simp_all add: at_start_def\<close>)
    from acts_then [OF assms [OF this] at_start_later [OF at], of "q\<lparr>rq_context := c1\<rparr>" q' q "[]"] show ?thesis
      using run r Some ev by (simp add: VT_REQUEST_RETIRED_HANDLE_def)
  qed
qed

lemma acts_vulkan [use_rules]:
  assumes "P name args" "\<And>a. acts P b c (k a)"
  shows "acts P b c (vulkan e name args k)"
proof (rule actsI)
  fix q q' assume at: "at_start b c q" and "vulkan e name args k q = Some q'"
  then have k: "k (env_driver e name args (rc_events (rq_context q))) (emitted [Called name args] q) = Some q'" by (simp add: vulkan_def)
  have "at_start b c (emitted [Called name args] q)" using at by (simp add: at_start_def emitted_def on_context_def)
  from actsD [OF assms(2) this k] obtain es where "events q' = events q @ Called name args # es"
    "\<forall>name args. Called name args \<in> set es \<longrightarrow> P name args" by auto
  then show "\<exists>es. events q' = events q @ es \<and> (\<forall>name args. Called name args \<in> set es \<longrightarrow> P name args)"
    using assms(1) by (intro exI [of _ "Called name args # es"]) auto
qed

lemma acts_component [use_rules]: "P name args \<Longrightarrow> (\<And>a. acts P b c (k a)) \<Longrightarrow> acts P b c (component e name args k)"
  by (simp add: component_def acts_vulkan)

lemma acts_authority:
  assumes "\<And>q ok q1. call q = (ok, q1) \<Longrightarrow> events q1 = events q \<and> (at_start b c q \<longrightarrow> at_start b' c q1)" "acts P b' c k"
  shows "acts P b c (VT_REQUEST_AUTHORITY call k)"
proof (rule actsI)
  fix q q' assume at: "at_start b c q" and run: "VT_REQUEST_AUTHORITY call k q = Some q'"
  obtain ok q1 where c: "call q = (ok, q1)" by fastforce
  note e = assms(1) [OF c]
  have "(if ok then k else protocol_error) q1 = Some q'" using run c by (simp add: VT_REQUEST_AUTHORITY_def)
  then show "\<exists>es. events q' = events q @ es \<and> (\<forall>name args. Called name args \<in> set es \<longrightarrow> P name args)"
    using acts_then [OF acts_if(1) [OF assms(2) acts_ends(3)]] e at by (metis append_Nil2 cleanup_simps(1))
qed

lemma acts_calls [use_rules]:
  "acts P False c k \<Longrightarrow> acts P b c (VT_REQUEST_AUTHORITY (tombstone_children p) k)"
  "acts P False c k \<Longrightarrow> acts P b c (VT_REQUEST_AUTHORITY (tombstone_batch e ts n type p) k)"
  "acts P b c k \<Longrightarrow> acts P b c (VT_REQUEST_AUTHORITY (validate_batch e ts n type p) k)"
  "acts P b c k \<Longrightarrow> acts P b c (VT_REQUEST_AUTHORITY (capture_begin t n') k)"
  "acts P b c k \<Longrightarrow> acts P b c (VT_REQUEST_AUTHORITY (capture_complete n') k)"
proof -
  have later: "at_start b c q \<longrightarrow> at_start False c q1" for q q1 by (simp add: at_start_def)
  show "acts P b c (VT_REQUEST_AUTHORITY (tombstone_children p) k)" if "acts P False c k"
    by (rule acts_authority [OF _ that]) (use later authority_calls_events(1) in blast)
  show "acts P b c (VT_REQUEST_AUTHORITY (tombstone_batch e ts n type p) k)" if "acts P False c k"
    by (rule acts_authority [OF _ that]) (use later authority_calls_events(2) in blast)
  show "acts P b c (VT_REQUEST_AUTHORITY (validate_batch e ts n type p) k)" if "acts P b c k"
    by (rule acts_authority [OF _ that]) (simp add: validate_batch_def)
  show "acts P b c (VT_REQUEST_AUTHORITY (capture_begin t n') k)" if "acts P b c k"
    by (rule acts_authority [OF _ that]) (auto simp: capture_begin_def at_start_def split: prod.splits)
  show "acts P b c (VT_REQUEST_AUTHORITY (capture_complete n') k)" if "acts P b c k"
    by (rule acts_authority [OF _ that]) (auto simp: capture_complete_def at_start_def split: prod.splits)
qed

lemma acts_publish [use_rules]:
  assumes "\<And>t. acts P False c (k t)"
  shows "acts P b c (VT_REQUEST_PUBLISH e type role host inst device dv k)"
proof (rule actsI)
  fix q q' assume at: "at_start b c q" and run: "VT_REQUEST_PUBLISH e type role host inst device dv k q = Some q'"
  obtain ok t q1 where p: "vt_request_publish_handle type role host inst device dv q = (ok, t, q1)" using prod_cases3 by blast
  note ev = publish_events [OF p]
  show "\<exists>es. events q' = events q @ es \<and> (\<forall>name args. Called name args \<in> set es \<longrightarrow> P name args)"
  proof (cases ok)
    case True
    then show ?thesis using run p ev acts_then [OF assms at_start_later [OF at], of t q1 q' q "[]"] by (simp add: VT_REQUEST_PUBLISH_def)
  next
    case False
    then have "protocol_error (vt_request_rollback_output (env_context e) type role host dv q1) = Some q'"
      using run p by (simp add: VT_REQUEST_PUBLISH_def)
    then show ?thesis using ev cleanup_calls [OF rollback_cleanup] by (auto simp: protocol_error_def)
  qed
qed

lemma acts_publish_result [use_rules]:
  assumes "\<And>t. acts P False c (k t)"
  shows "acts P b c (VT_REQUEST_PUBLISH_RESULT e result type role host inst device dv k)"
proof (rule actsI)
  fix q q' assume at: "at_start b c q" and run: "VT_REQUEST_PUBLISH_RESULT e result type role host inst device dv k q = Some q'"
  show "\<exists>es. events q' = events q @ es \<and> (\<forall>name args. Called name args \<in> set es \<longrightarrow> P name args)"
  proof (cases "result = VK_SUCCESS")
    case True
    then show ?thesis using run actsD [OF acts_publish [OF assms] at] by (simp add: VT_REQUEST_PUBLISH_RESULT_def)
  next
    case False
    then have k: "k 0 (vt_request_rollback_output (env_context e) type role 0 dv q) = Some q'"
      using run by (simp add: VT_REQUEST_PUBLISH_RESULT_def)
    show ?thesis
      by (rule acts_then [OF assms at_start_later [OF at] k rollback_output_events]) simp
  qed
qed

lemma acts_publish_batch [use_rules]:
  assumes "acts P False c failed" "\<And>t. acts P False c (k t)"
  shows "acts P b c (VT_PUBLISH_BATCH e type hosts n owner cl dv pa failed k)"
proof (rule actsI)
  fix q q' assume at: "at_start b c q" and run: "VT_PUBLISH_BATCH e type hosts n owner cl dv pa failed k q = Some q'"
  then obtain ok handles q1 where p: "vt_request_publish_vulkan_batch (env_mallocs e (rq_context q)) (env_realloc e (rq_context q))
      (env_calloc e (rq_context q)) type hosts 8 n owner cl dv pa q = Some (ok, handles, q1)"
    and k: "(if ok then k handles q1 else failed q1) = Some q'"
    by (auto simp: VT_PUBLISH_BATCH_def Let_def bind_eq_Some_conv)
  have k': "(if ok then k handles else failed) q1 = Some q'" using k by (simp split: if_splits)
  have "acts P False c (if ok then k handles else failed)" using assms by simp
  from acts_then [OF this at_start_later [OF at] k', of q "[]"]
  show "\<exists>es. events q' = events q @ es \<and> (\<forall>name args. Called name args \<in> set es \<longrightarrow> P name args)"
    using publish_batch_events [OF p] by simp
qed

lemma acts_did [use_rules]:
  assumes "cleanup es" "acts P False c k"
  shows "acts P b c (did es k)"
proof (rule actsI)
  fix q q' assume at: "at_start b c q" and run: "did es k q = Some q'"
  from run have k: "k (emitted es q) = Some q'" by (simp add: did_def)
  show "\<exists>es. events q' = events q @ es \<and> (\<forall>name args. Called name args \<in> set es \<longrightarrow> P name args)"
    by (rule acts_then [OF assms(2) at_start_later [OF at] k context_simps(3) assms(1)])
qed

lemma acts_status [use_rules]:
  assumes "acts P False c k"
  shows "acts P b c (set_status result k)"
proof (rule actsI)
  fix q q' assume at: "at_start b c q" and run: "set_status result k q = Some q'"
  from run obtain q1 where "k q1 = Some q'" "events q1 = events q" by (auto simp: set_status_def)
  then show "\<exists>es. events q' = events q @ es \<and> (\<forall>name args. Called name args \<in> set es \<longrightarrow> P name args)"
    using acts_then [OF assms at_start_later [OF at], of q1 q' q "[]"] by simp
qed

lemma acts_send [use_rules]:
  assumes "acts P False c k"
  shows "acts P b c (VT_REQUEST_SEND e code data sz k)"
proof (rule actsI)
  fix q q' assume at: "at_start b c q" and "VT_REQUEST_SEND e code data sz k q = Some q'"
  then obtain ok q1 where s: "vt_request_send_response (env_context e) (env_calloc e (rq_context q)) (env_ring e (rq_context q))
      (env_polls e (rq_context q)) code data sz q = Some (ok, q1)" and k: "(if ok then k q1 else Some q1) = Some q'"
    by (auto simp: VT_REQUEST_SEND_def Let_def bind_eq_Some_conv)
  from send_response_answered [OF s] obtain es where es: "events q1 = events q @ es" "\<forall>x \<in> set es. \<not> called x"
    by (cases ok) (auto simp: answered_def cleanup_def)
  have k': "(if ok then k else Some) q1 = Some q'" using k by (simp split: if_splits)
  have "acts P False c (if ok then k else Some)" using assms acts_ends(1) by simp
  from actsD [OF this at_start_later [OF at] k'] obtain fs where "events q' = events q1 @ fs"
    "\<forall>name args. Called name args \<in> set fs \<longrightarrow> P name args" by blast
  then show "\<exists>es. events q' = events q @ es \<and> (\<forall>name args. Called name args \<in> set es \<longrightarrow> P name args)"
    using es by (intro exI [of _ "es @ fs"]) auto
qed

lemma acts_fds [use_rules]:
  assumes "acts P False c k"
  shows "acts P b c (VT_SEND_FDS e fds n result k)"
proof (rule actsI)
  fix q q' assume at: "at_start b c q" and "VT_SEND_FDS e fds n result k q = Some q'"
  then obtain ok q1 where s: "vt_request_send_fds_response (env_context e) (env_calloc e (rq_context q)) (env_clientFd e)
      (env_sendmsg e (rq_context q)) (Some fds) n (Some (le_bytes 4 (word_of_int result :: u32))) 4 q = Some (ok, q1)"
    and k: "k q1 = Some q'"
    by (auto simp: VT_SEND_FDS_def Let_def bind_eq_Some_conv)
  from send_fds_answered [OF s] obtain es where es: "events q1 = events q @ es" "\<forall>x \<in> set es. \<not> called x"
    by (cases ok) (auto simp: answered_def cleanup_def)
  from actsD [OF assms at_start_later [OF at] k] obtain fs where "events q' = events q1 @ fs"
    "\<forall>name args. Called name args \<in> set fs \<longrightarrow> P name args" by blast
  then show "\<exists>es. events q' = events q @ es \<and> (\<forall>name args. Called name args \<in> set es \<longrightarrow> P name args)"
    using es by (intro exI [of _ "es @ fs"]) auto
qed

lemma acts_only_if [use_rules]: "acts P b c (f k) \<Longrightarrow> acts P b c k \<Longrightarrow> acts P b c (only_if x f k)"
  by (simp add: only_if_def)

lemma acts_waiting [use_rules]: "(\<And>w. acts P b c (k w)) \<Longrightarrow> acts P b c (client_waiting k)"
  by (rule actsI) (auto simp: client_waiting_def dest: actsD split: option.splits)

lemma acts_must_wait [use_rules]:
  assumes "acts P False c k"
  shows "acts P b c (client_must_wait k)"
proof (rule actsI)
  fix q q' assume at: "at_start b c q" and run: "client_must_wait k q = Some q'"
  then obtain q1 where "k q1 = Some q'" "events q1 = events q" by (auto simp: client_must_wait_def split: option.splits)
  then show "\<exists>es. events q' = events q @ es \<and> (\<forall>name args. Called name args \<in> set es \<longrightarrow> P name args)"
    using acts_then [OF assms at_start_later [OF at], of q1 q' q "[]"] by simp
qed

lemma acts_textures [use_rules]: "P ''TextureDecoder_decodeAll'' [] \<Longrightarrow> acts P b c k \<Longrightarrow> acts P b c (decode_textures e k)"
  by (simp add: decode_textures_def acts_component)

lemma acts_call_if [use_rules]:
  "(\<And>a. acts P b c (k a)) \<Longrightarrow> (\<And>k. (\<And>a. acts P b c (k a)) \<Longrightarrow> acts P b c (call k)) \<Longrightarrow> acts P b c (call_if x call k)"
  by (simp add: call_if_def)

lemma acts_fence_fds [use_rules]:
  "(\<And>s. P ''vkGetFenceFd'' [Handle device, Struct s [], Output]) \<Longrightarrow> (\<And>r fds. acts P b c (k r fds)) \<Longrightarrow> acts P b c (fence_fds e device fences fds k)"
  by (induction e device fences fds k rule: fence_fds.induct) (auto intro!: acts_vulkan)

section \<open>Handlers\<close>

text \<open>A handler that is run with a well-formed registry makes calls with \<open>P\<close> only, where \<open>P\<close> may depend on the environment and the
  context that it starts with.\<close>

definition handler_acts :: "(request_env \<Rightarrow> RequestContext \<Rightarrow> string \<Rightarrow> argument list \<Rightarrow> bool) \<Rightarrow> request_handler \<Rightarrow> bool" where
  "handler_acts P h \<longleftrightarrow> (\<forall>e batch c s c'. (\<forall>r. authority c = Some r \<longrightarrow> sane r (rc_next c)) \<longrightarrow> h e batch c = Some (s, c') \<longrightarrow>
     (\<exists>es. rc_events c' = rc_events c @ es \<and> (\<forall>name args. Called name args \<in> set es \<longrightarrow> P e c name args)))"

lemma handler_actsI:
  assumes "\<And>e batch c. \<exists>k. h e batch c = VT_REQUEST_BEGIN batch c k \<and> acts (P e c) True c k"
  shows "handler_acts P h"
  unfolding handler_acts_def
proof (intro allI impI)
  fix e batch c s c' assume s: "\<forall>r. authority c = Some r \<longrightarrow> sane r (rc_next c)" and run: "h e batch c = Some (s, c')"
  from assms obtain k where k: "h e batch c = VT_REQUEST_BEGIN batch c k" "acts (P e c) True c k" by blast
  from run k(1) obtain ok request q where q:
    "(if ok then k else protocol_error) \<lparr>rq_request = request, rq_context = c\<rparr> = Some q" "c' = rq_context q"
    by (auto simp: VT_REQUEST_BEGIN_def bind_eq_Some_conv)
  have "acts (P e c) True c (if ok then k else protocol_error)" using k(2) acts_ends(3) by simp
  from actsD [OF this _ q(1)] show "\<exists>es. rc_events c' = rc_events c @ es \<and> (\<forall>name args. Called name args \<in> set es \<longrightarrow> P e c name args)"
    using s q(2) by (simp add: at_start_def)
qed

lemma acts_beginI: "acts P b c k \<Longrightarrow> \<exists>k'. VT_REQUEST_BEGIN batch c k = VT_REQUEST_BEGIN batch c k' \<and> acts P b c k'"
  by blast

text \<open>The arguments of a call, one after the other.\<close>

lemma uses_rules [use_rules]:
  "uses_registered e c name []"
  "usable e c h \<Longrightarrow> uses_registered e c name args \<Longrightarrow> uses_registered e c name (Handle h # args)"
  "uses_registered e c name args \<Longrightarrow> uses_registered e c name (Value v # args)"
  "uses_registered e c name args \<Longrightarrow> uses_registered e c name (Bytes bs # args)"
  "uses_registered e c name args \<Longrightarrow> uses_registered e c name (Struct fs bs # args)"
  "uses_registered e c name args \<Longrightarrow> uses_registered e c name (Output # args)"
  "uses_registered e c name args \<Longrightarrow> uses_registered e c name (Null # args)"
  "uses_registered e c name args \<Longrightarrow> uses_registered e c name (array_output place # args)"
  "uses_registered e c name args \<Longrightarrow> uses_registered e c name (array_argument place bs # args)"
  "uses_registered e c name args \<Longrightarrow> uses_registered e c name (output_place sz # args)"
  "uses_registered e c name args \<Longrightarrow> uses_registered e c name (output_argument sz bs # args)"
  "uses_registered e c name args \<Longrightarrow> uses_registered e c name (token_argument ts # args)"
  by (auto simp: uses_registered_def array_output_def array_argument_def output_place_def output_argument_def token_argument_def
      split: option.splits)

lemma uses_if [use_rules]:
  "uses_registered e c name (a # args) \<Longrightarrow> uses_registered e c name (b # args) \<Longrightarrow> uses_registered e c name ((if x then a else b) # args)"
  by simp

lemma records_rule [use_rules]:
  "registered c VK_OBJECT_TYPE_COMMAND_BUFFER VORTEK_HANDLE_ROLE_VULKAN b \<Longrightarrow> uses_registered e c name args \<Longrightarrow>
     records_registered e c name (Handle b # args)"
  using uses_rules(2) usable_registered(1) by (auto simp: records_registered_def)

declare cleanup_rules [use_rules] close_cleanup [use_rules] usable_registered(2,3) [use_rules]

end
