(* ===== verification/Handler_Uses.thy ===== *)
theory Handler_Uses
  imports Request_Uses Handler_Tables
begin

text \<open>
  What the handlers of each group hand to the driver: the rules of \<open>Request_Uses\<close>, applied along the text of every handler.
\<close>

lemma recording_handlers_a_use: "\<forall>(name, h) \<in> set recording_handlers_a. handler_acts records_registered h"
  unfolding recording_handlers_a_def list.set ball_simps split_conv
  by (intro conjI TrueI; rule handler_actsI, unfold recording_handlers_a_text Let_def, rule acts_beginI, (rule use_rules | assumption | rule usable_registered(1), assumption)+)

lemma recording_handlers_b_use: "\<forall>(name, h) \<in> set recording_handlers_b. handler_acts records_registered h"
  unfolding recording_handlers_b_def list.set ball_simps split_conv
  by (intro conjI TrueI; rule handler_actsI, unfold recording_handlers_b_text Let_def, rule acts_beginI, (rule use_rules | assumption | rule usable_registered(1), assumption)+)

lemma recording_handlers_c_use: "\<forall>(name, h) \<in> set recording_handlers_c. handler_acts records_registered h"
  unfolding recording_handlers_c_def list.set ball_simps split_conv
  by (intro conjI TrueI; rule handler_actsI, unfold recording_handlers_c_text Let_def, rule acts_beginI, (rule use_rules | assumption | rule usable_registered(1), assumption)+)

lemma recording_handlers_use: "\<forall>(name, h) \<in> set recording_handlers. handler_acts records_registered h"
  using recording_handlers_a_use recording_handlers_b_use recording_handlers_c_use by (auto simp: recording_handlers_def)

lemma silent_handlers_use: "\<forall>(name, h) \<in> set silent_handlers. handler_acts uses_registered h"
  unfolding silent_handlers_def list.set ball_simps split_conv
  by (intro conjI TrueI; rule handler_actsI, unfold silent_handlers_text Let_def, rule acts_beginI, (rule use_rules | assumption | rule usable_registered(1), assumption)+)

lemma answering_handlers_a_use: "\<forall>(name, h) \<in> set answering_handlers_a. handler_acts uses_registered h"
  unfolding answering_handlers_a_def list.set ball_simps split_conv
  by (intro conjI TrueI; rule handler_actsI, unfold answering_handlers_a_text Let_def, rule acts_beginI, (rule use_rules | assumption | rule usable_registered(1), assumption)+)

lemma answering_handlers_b_use: "\<forall>(name, h) \<in> set answering_handlers_b. handler_acts uses_registered h"
  unfolding answering_handlers_b_def list.set ball_simps split_conv
  by (intro conjI TrueI; rule handler_actsI, unfold answering_handlers_b_text Let_def, rule acts_beginI, (rule use_rules | assumption | rule usable_registered(1), assumption)+)

lemma answering_handlers_use: "\<forall>(name, h) \<in> set answering_handlers. handler_acts uses_registered h"
  using answering_handlers_a_use answering_handlers_b_use by (auto simp: answering_handlers_def)

lemma waiting_handlers_use: "\<forall>(name, h) \<in> set waiting_handlers. handler_acts uses_registered h"
  unfolding waiting_handlers_def list.set ball_simps split_conv
  by (intro conjI TrueI; rule handler_actsI, unfold waiting_handlers_text Let_def, rule acts_beginI, (rule use_rules | assumption | rule usable_registered(1), assumption)+)

end
