(* ===== verification/Request_Batch.thy ===== *)
theory Request_Batch
  imports Request_Decode Request_Codes
begin

text \<open>
  The batch of recorded commands, which \<^verbatim>\<open>vt_handle_vkEndCommandBuffer\<close> of \<^verbatim>\<open>vortekrenderer/src/request_handler.c\<close> takes apart with
  \<^verbatim>\<open>vt_request_batch_next\<close> of \<^verbatim>\<open>include/request_handler.h\<close>: a first pass checks every command, a second one runs them. What the
  generated decoders make of a command, and what its handler does, are arguments.
\<close>

section \<open>Chunks\<close>

datatype VtRequestBatchStep = VT_REQUEST_BATCH_ERROR | VT_REQUEST_BATCH_DONE | VT_REQUEST_BATCH_CHUNK

text \<open>The data is an offset into the input.\<close>

record VtRequestBatchChunk =
  chunk_requestCode :: u32
  chunk_data :: size_t
  chunk_size :: size_t

text \<open>The step, the position and, with a chunk, the chunk; what an error leaves in it is not used.\<close>

definition vt_request_batch_next ::
  "u8 list ptr \<Rightarrow> size_t \<Rightarrow> size_t \<Rightarrow> (VtRequestBatchStep \<times> size_t \<times> VtRequestBatchChunk option) option" where
  "vt_request_batch_next data sz position =
     (case data of
        None \<Rightarrow> Some (VT_REQUEST_BATCH_ERROR, position, None)
      | Some bytes \<Rightarrow>
          let headerSize = 8 in
          if sz < position then Some (VT_REQUEST_BATCH_ERROR, position, None)
          else if position = sz then Some (VT_REQUEST_BATCH_DONE, position, None)
          else if sz - position < headerSize then Some (VT_REQUEST_BATCH_ERROR, position, None)
          else do {
            code \<leftarrow> slice bytes position 4;
            payload \<leftarrow> slice bytes (position + 4) 4;
            (let payloadSize = sint (word_of_nat (of_le_bytes payload) :: u32) in
             if payloadSize < 0 \<or> sz - position - headerSize < nat payloadSize
             then Some (VT_REQUEST_BATCH_ERROR, position, None)
             else Some (VT_REQUEST_BATCH_CHUNK, position + (headerSize + nat payloadSize),
                    Some \<lparr>chunk_requestCode = word_of_nat (of_le_bytes code), chunk_data = position + headerSize, chunk_size = nat payloadSize\<rparr>)) })"

lemma batch_next_advances:
  assumes "vt_request_batch_next data sz position = Some (VT_REQUEST_BATCH_CHUNK, position', chunk)"
  shows "position < position' \<and> position' \<le> sz"
  using assms by (auto simp: vt_request_batch_next_def Let_def bind_eq_Some_conv split: option.splits if_splits)

section \<open>The first pass\<close>

text \<open>\<open>unserialize\<close> is the generated decoder of a command.\<close>

type_synonym unserializer = "string \<Rightarrow> VtDecodeCursor \<Rightarrow> VtDecodeState \<Rightarrow> bool \<times> VtDecodeCursor \<times> VtDecodeState"

definition vt_request_preflight_command :: "unserializer \<Rightarrow> string \<Rightarrow> VtRequestDecode \<Rightarrow> bool \<times> VtDecodeState" where
  "vt_request_preflight_command unserialize handler request =
     (case vt_request_decode_pass_begin request of
        None \<Rightarrow> (False, vr_state request)
      | Some cursor \<Rightarrow>
          if handler \<in> set preflight_commands
          then (case unserialize handler cursor (vr_state request) of
                  (False, _, s) \<Rightarrow> (False, s)
                | (True, cursor', s) \<Rightarrow> vt_decode_finished cursor' s)
          else (False, vr_state request))"

text \<open>The request of a chunk is the outer one with its data and its size; they share the state.\<close>

definition chunk_request :: "VtRequestDecode \<Rightarrow> VtRequestBatchChunk \<Rightarrow> VtRequestDecode" where
  "chunk_request request chunk =
     request\<lparr>vr_data := vr_data request + word_of_nat (chunk_data chunk), vr_size := word_of_nat (chunk_size chunk)\<rparr>"

text \<open>The result: whether every frame and every command is good, and the state of the decoder.\<close>

function batch_check ::
  "unserializer \<Rightarrow> bool \<Rightarrow> u8 list ptr \<Rightarrow> size_t \<Rightarrow> VtRequestDecode \<Rightarrow> size_t \<Rightarrow> (bool \<times> VtRequestDecode) option" where
  "batch_check unserialize complete data sz request position =
     (case vt_request_batch_next data sz position of
        None \<Rightarrow> None
      | Some (VT_REQUEST_BATCH_CHUNK, position', Some chunk) \<Rightarrow>
          (case getHandleRequestFunc complete (ucast (chunk_requestCode chunk)) of
             None \<Rightarrow> Some (False, request)
           | Some handler \<Rightarrow>
               (case vt_request_preflight_command unserialize handler (chunk_request request chunk) of
                  (False, s) \<Rightarrow> Some (False, request\<lparr>vr_state := s\<rparr>)
                | (True, s) \<Rightarrow> batch_check unserialize complete data sz (request\<lparr>vr_state := s\<rparr>) position'))
      | Some (step, _, _) \<Rightarrow> Some (step = VT_REQUEST_BATCH_DONE, request))"
  by pat_completeness auto
termination
  by (relation "measure (\<lambda>(unserialize, complete, data, sz, request, position). sz - position)")
     (auto dest: batch_next_advances)

declare batch_check.simps [simp del]

section \<open>The second pass\<close>

text \<open>\<open>run\<close> is a handler: it gets the state of the batch, which its requests share, and the context. The position is a \<^verbatim>\<open>size_t\<close>
  and wraps; NULL for a handler is called, which is undefined.\<close>

type_synonym handler = "string \<Rightarrow> VtDecodeState \<Rightarrow> RequestContext \<Rightarrow> (VtDecodeState \<times> RequestContext) option"

partial_function (option) batch_run ::
  "handler \<Rightarrow> bool \<Rightarrow> u8 list \<Rightarrow> size_t \<Rightarrow> size_t \<Rightarrow> VtDecodeState \<Rightarrow> RequestContext \<Rightarrow> (VtDecodeState \<times> RequestContext) option" where
  "batch_run run complete bytes sz position s c =
     (if position < sz \<and> \<not> VkContext_isClosing (Some (rc_context c)) then do {
        code \<leftarrow> slice bytes position 4;
        payload \<leftarrow> slice bytes (position + 4) 4;
        handler \<leftarrow> getHandleRequestFunc complete (ucast (word_of_nat (of_le_bytes code) :: u32));
        (s', c') \<leftarrow> run handler s (c\<lparr>rc_inputBuffer := Some (drop (position + HEADER_SIZE) bytes),
          rc_inputAt := int (position + HEADER_SIZE), rc_inputBufferSize := sint (word_of_nat (of_le_bytes payload) :: u32)\<rparr>);
        batch_run run complete bytes sz ((position + HEADER_SIZE + nat (sint (word_of_nat (of_le_bytes payload) :: u32) mod 2 ^ 64)) mod 2 ^ 64) s' c' }
      else Some (s, c))"

declare batch_run.simps [code]

text \<open>Both passes. The result says whether the handler goes on; otherwise it has returned.\<close>

definition VK_HANDLE_BYTE_COUNT :: size_t where "VK_HANDLE_BYTE_COUNT = 8"

definition record_batch ::
  "unserializer \<Rightarrow> handler \<Rightarrow> bool \<Rightarrow> VtRequestDecode \<Rightarrow> RequestContext \<Rightarrow> (bool \<times> VtRequestDecode \<times> RequestContext) option" where
  "record_batch unserialize run complete request c =
     (let inputSize = nat (rc_inputBufferSize c mod 2 ^ 64) in
      if inputSize < VK_HANDLE_BYTE_COUNT then Some (False, request, vt_request_protocol_error c)
      else do {
        (ok, request1) \<leftarrow> batch_check unserialize complete (rc_inputBuffer c) inputSize request VK_HANDLE_BYTE_COUNT;
        (if \<not> ok then Some (False, request1, vt_request_protocol_error c)
         else do {
           bytes \<leftarrow> rc_inputBuffer c;
           (s, c1) \<leftarrow> batch_run run complete bytes inputSize VK_HANDLE_BYTE_COUNT (vr_state request1) c;
           (let c2 = c1\<lparr>rc_inputBuffer := rc_inputBuffer c, rc_inputAt := rc_inputAt c, rc_inputBufferSize := rc_inputBufferSize c\<rparr>
            in Some (\<not> VkContext_isClosing (Some (rc_context c2)), request1\<lparr>vr_state := s\<rparr>, c2)) }) })"

text \<open>The whole handler, with the token of the command buffer at the start of the input; its result has the host's command buffer
  that is ended, when it comes to that. The handler is not part of a batch itself.\<close>

definition vt_handle_vkEndCommandBuffer ::
  "unserializer \<Rightarrow> handler \<Rightarrow> bool \<Rightarrow> RequestContext \<Rightarrow> (u64 option \<times> RequestContext) option" where
  "vt_handle_vkEndCommandBuffer unserialize run complete c = do {
     (ok, begun) \<leftarrow> vt_request_decode_begin None c;
     request \<leftarrow> begun;
     (if \<not> ok then Some (None, vt_request_protocol_error c)
      else case vt_request_seed_handle_scope c request 0 VK_OBJECT_TYPE_COMMAND_BUFFER VORTEK_HANDLE_ROLE_VULKAN of
        (False, _) \<Rightarrow> Some (None, vt_request_protocol_error c)
      | (True, request1) \<Rightarrow> do {
          (ok, request2, c1) \<leftarrow> record_batch unserialize run complete request1 c;
          (if \<not> ok then Some (None, c1)
           else do {
             bytes \<leftarrow> rc_inputBuffer c1;
             token \<leftarrow> slice bytes 0 8;
             (case vt_request_resolve_root_handle c1 request2 (word_of_nat (of_le_bytes token)) VK_OBJECT_TYPE_COMMAND_BUFFER
                     VORTEK_HANDLE_ROLE_VULKAN True True False of
                (None, _) \<Rightarrow> Some (None, vt_request_protocol_error c1)
              | (Some commandBuffer, _) \<Rightarrow> Some (Some commandBuffer, c1)) }) }) }"

end
