(* ===== verification/Batch_Properties.thy ===== *)
theory Batch_Properties
  imports Request_Batch Transport_Properties
begin

text \<open>
  A batch of commands runs only when every one of its commands is known to be good, and then in order. The specification sees the
  input as the list of commands the guest framed.
\<close>

section \<open>Framed commands\<close>

text \<open>A command is its code and its payload.\<close>

type_synonym command = "u32 \<times> u8 list"

definition frame :: "command \<Rightarrow> u8 list" where
  "frame cmd = message_header (fst cmd) (int (length (snd cmd))) @ snd cmd"

definition batch_bytes :: "command list \<Rightarrow> u8 list" where
  "batch_bytes cmds = concat (map frame cmds)"

definition payloads_fit :: "command list \<Rightarrow> bool" where
  "payloads_fit cmds \<longleftrightarrow> list_all (\<lambda>cmd. length (snd cmd) < 2 ^ 31) cmds"

lemma of_le_bytes_inject: "length xs = length ys \<Longrightarrow> of_le_bytes xs = of_le_bytes ys \<Longrightarrow> xs = ys"
proof (induction xs ys rule: list_induct2)
  case (Cons x xs y ys)
  have key: "a = b \<and> m = n" if "a < 256" "b < 256" "a + 256 * m = b + 256 * n" for a b m n :: nat
  proof -
    have "a = (a + 256 * m) mod 256" using that(1) by simp
    also have "\<dots> = b" unfolding that(3) using that(2) by simp
    finally show ?thesis using that(3) by simp
  qed
  have "unat x < 256" "unat y < 256" using unsigned_less [of x] unsigned_less [of y] by simp_all
  moreover have "unat x + 256 * of_le_bytes xs = unat y + 256 * of_le_bytes ys" using Cons.prems by simp
  ultimately have "unat x = unat y" "of_le_bytes xs = of_le_bytes ys" using key by blast+
  with Cons.IH show ?case by (simp add: word_unat_eq_iff)
qed simp

lemma of_le_bytes_bound: "of_le_bytes xs < 256 ^ length xs"
proof (induction xs)
  case (Cons x xs)
  have "unat x < 256" using unsigned_less [of x] by simp
  with Cons show ?case by simp
qed simp

lemma le_bytes_of_four: "length xs = 4 \<Longrightarrow> le_bytes 4 (word_of_nat (of_le_bytes xs) :: u32) = xs"
  using of_le_bytes_bound [of xs]
  by (intro of_le_bytes_inject) (simp_all add: of_le_bytes_le_bytes unsigned_of_nat take_bit_nat_eq_self)

lemma header_of_eight:
  assumes "length xs = 8" "0 \<le> sint (word_of_nat (of_le_bytes (drop 4 xs)) :: u32)"
  shows "message_header (word_of_nat (of_le_bytes (take 4 xs))) (sint (word_of_nat (of_le_bytes (drop 4 xs)) :: u32)) = xs"
  using assms by (simp add: message_header_def le_bytes_of_four)

section \<open>Walking over the frames\<close>

lemma rest_length: "sz \<le> length bytes \<Longrightarrow> length (drop position (take sz bytes)) = sz - position"
  by simp

lemma slice_rest:
  assumes "sz \<le> length bytes" "drop position (take sz bytes) = front @ rest" "off + k \<le> length front" "front \<noteq> []"
  shows "slice bytes (position + off) k = Some (take k (drop off front))"
proof -
  have len: "length front + length rest = sz - position" using arg_cong [OF assms(2), of length] assms(1) by simp
  then have pos: "position + length front \<le> sz" using assms(4) by (cases "position \<le> sz") auto
  have "take (length front) (drop position bytes) = take (length front) (drop position (take sz bytes))"
    using pos by (simp add: drop_take min_def)
  also have "\<dots> = front" using assms(2) by simp
  finally have f: "take (length front) (drop position bytes) = front" .
  have "take k (drop (position + off) bytes) = take k (drop off (take (length front) (drop position bytes)))"
    using assms(3) by (simp add: drop_take min_def add.commute)
  then show ?thesis using f pos assms(1,3) by (simp add: slice_def)
qed

lemma next_on_frame:
  assumes "sz \<le> length bytes" "drop position (take sz bytes) = frame (code, p) @ rest" "length p < 2 ^ 31"
  shows "vt_request_batch_next (Some bytes) sz position = Some (VT_REQUEST_BATCH_CHUNK, position + 8 + length p,
      Some \<lparr>chunk_requestCode = code, chunk_data = position + 8, chunk_size = length p\<rparr>)"
    "drop (position + 8 + length p) (take sz bytes) = rest" "position + 8 + length p \<le> sz"
    "slice bytes position 4 = Some (take 4 (message_header code (int (length p))))"
    "slice bytes (position + 4) 4 = Some (drop 4 (message_header code (int (length p))))"
proof -
  let ?h = "message_header code (int (length p))"
  have fl: "length (frame (code, p)) = 8 + length p" by (simp add: frame_def)
  have ne: "frame (code, p) \<noteq> []" using fl by (metis add_is_0 list.size(3) numeral_eq_iff semiring_norm(83) zero_neq_numeral)
  have len: "8 + length p + length rest = sz - position"
    using arg_cong [OF assms(2), of length] fl assms(1) by simp
  then show pos: "position + 8 + length p \<le> sz" by (cases "position \<le> sz") auto
  show "drop (position + 8 + length p) (take sz bytes) = rest"
    using arg_cong [OF assms(2), of "drop (8 + length p)"] fl by (simp add: ac_simps)
  have t4: "take 4 (frame (code, p)) = take 4 ?h" by (simp add: frame_def)
  have d4: "take 4 (drop 4 (frame (code, p))) = drop 4 ?h" by (simp add: frame_def)
  show s1: "slice bytes position 4 = Some (take 4 ?h)"
    using slice_rest [OF assms(1,2), of 0 4] fl ne t4 by simp
  show s2: "slice bytes (position + 4) 4 = Some (drop 4 ?h)"
    using slice_rest [OF assms(1,2), of 4 4] fl ne d4 by simp
  have "int32 (int (length p))" using assms(3) by (simp add: int32_def)
  from int32_read [OF this] have n: "sint (word_of_nat (length p) :: u32) = int (length p)" by simp
  note rd = message_header_read [of code "int (length p)"] n
  have guards: "\<not> sz < position" "position \<noteq> sz" "\<not> sz - position < 8" "\<not> sz - (position + 8) < length p" using pos by linarith+
  show "vt_request_batch_next (Some bytes) sz position = Some (VT_REQUEST_BATCH_CHUNK, position + 8 + length p,
      Some \<lparr>chunk_requestCode = code, chunk_data = position + 8, chunk_size = length p\<rparr>)"
    using guards by (simp add: vt_request_batch_next_def Let_def s1 s2 rd)
qed

lemma next_done: "vt_request_batch_next (Some bytes) sz sz = Some (VT_REQUEST_BATCH_DONE, sz, None)"
  by (simp add: vt_request_batch_next_def Let_def)

text \<open>Conversely, a step that gives a chunk found a frame.\<close>

lemma next_chunk_frame:
  assumes "sz \<le> length bytes" "vt_request_batch_next (Some bytes) sz position = Some (VT_REQUEST_BATCH_CHUNK, position', Some ch)"
  obtains p rest where "drop position (take sz bytes) = frame (chunk_requestCode ch, p) @ rest" "length p < 2 ^ 31"
    "position' = position + 8 + length p"
proof -
  obtain hs ls where s: "slice bytes position 4 = Some hs" "slice bytes (position + 4) 4 = Some ls"
    and n: "0 \<le> sint (word_of_nat (of_le_bytes ls) :: u32)" "nat (sint (word_of_nat (of_le_bytes ls) :: u32)) \<le> sz - position - 8"
    and ps: "8 \<le> sz - position" "position < sz"
    and ch: "ch = \<lparr>chunk_requestCode = word_of_nat (of_le_bytes hs), chunk_data = position + 8,
      chunk_size = nat (sint (word_of_nat (of_le_bytes ls) :: u32))\<rparr>"
      "position' = position + (8 + nat (sint (word_of_nat (of_le_bytes ls) :: u32)))"
    using assms(2)
    by (auto simp: vt_request_batch_next_def Let_def bind_eq_Some_conv not_less split: if_splits)
  define k where "k = nat (sint (word_of_nat (of_le_bytes ls) :: u32))"
  define r where "r = drop position (take sz bytes)"
  have lr: "length r = sz - position" using assms(1) by (simp add: r_def)
  have hs: "hs = take 4 r" "ls = take 4 (drop 4 r)" "length hs = 4" "length ls = 4"
    using s ps by (auto simp: slice_def r_def drop_take min_def add.commute split: if_splits)
  have h8: "take 8 r = hs @ ls" unfolding hs(1,2) by (metis add_numeral_left numeral_Bit0 take_add)
  have "sint (word_of_nat (of_le_bytes ls) :: u32) < 2 ^ 31"
    using sint_lt [of "word_of_nat (of_le_bytes ls) :: u32"] by simp
  then have k31: "k < 2 ^ 31" by (simp add: k_def nat_less_iff n(1))
  have lk: "length (take k (drop 8 r)) = k" using n(2) lr ps by (simp add: k_def)
  have hd: "message_header (word_of_nat (of_le_bytes hs)) (int k) = hs @ ls"
    using header_of_eight [of "hs @ ls"] hs(3,4) n(1) by (simp add: k_def)
  have code: "chunk_requestCode ch = word_of_nat (of_le_bytes hs)" by (simp add: ch(1))
  have "r = take 8 r @ take k (drop 8 r) @ drop k (drop 8 r)" by (simp only: append_take_drop_id)
  then have "r = frame (word_of_nat (of_le_bytes hs), take k (drop 8 r)) @ drop k (drop 8 r)"
    unfolding h8 frame_def fst_conv snd_conv lk hd append_assoc .
  then have fr: "drop position (take sz bytes) = frame (chunk_requestCode ch, take k (drop 8 r)) @ drop k (drop 8 r)"
    unfolding code r_def [symmetric] .
  show thesis
  proof (rule that [OF fr])
    show "length (take k (drop 8 r)) < 2 ^ 31" using lk k31 by simp
    show "position' = position + 8 + length (take k (drop 8 r))" using lk ch(2) by (simp add: k_def)
  qed
qed

section \<open>What the passes do\<close>

text \<open>The specification of the two passes over the commands, the first of which stands at \<open>position\<close>.\<close>

fun preflight_all :: "unserializer \<Rightarrow> bool \<Rightarrow> VtRequestDecode \<Rightarrow> size_t \<Rightarrow> command list \<Rightarrow> bool \<times> VtRequestDecode" where
  "preflight_all unserialize complete request position [] = (True, request)"
| "preflight_all unserialize complete request position ((code, p) # cmds) =
     (case getHandleRequestFunc complete (ucast code) of
        None \<Rightarrow> (False, request)
      | Some handler \<Rightarrow>
          (case vt_request_preflight_command unserialize handler (chunk_request request
                  \<lparr>chunk_requestCode = code, chunk_data = position + 8, chunk_size = length p\<rparr>) of
             (False, s) \<Rightarrow> (False, request\<lparr>vr_state := s\<rparr>)
           | (True, s) \<Rightarrow> preflight_all unserialize complete (request\<lparr>vr_state := s\<rparr>) (position + 8 + length p) cmds))"

text \<open>Running: in order, each command with its own payload, until the context is closing.\<close>

fun run_all ::
  "handler \<Rightarrow> bool \<Rightarrow> u8 list \<Rightarrow> size_t \<Rightarrow> command list \<Rightarrow> VtDecodeState \<Rightarrow> RequestContext \<Rightarrow> (VtDecodeState \<times> RequestContext) option" where
  "run_all run complete bytes position [] s c = Some (s, c)"
| "run_all run complete bytes position ((code, p) # cmds) s c =
     (if VkContext_isClosing (Some (rc_context c)) then Some (s, c)
      else do {
        handler \<leftarrow> getHandleRequestFunc complete (ucast code);
        (s', c') \<leftarrow> run handler s (c\<lparr>rc_inputBuffer := Some (drop (position + 8) bytes), rc_inputAt := int (position + 8),
          rc_inputBufferSize := int (length p)\<rparr>);
        run_all run complete bytes (position + 8 + length p) cmds s' c' })"

lemma batch_bytes_Cons [simp]: "batch_bytes (cmd # cmds) = frame cmd @ batch_bytes cmds"
  by (simp add: batch_bytes_def)

lemma batch_bytes_Nil [simp]: "batch_bytes [] = []"
  by (simp add: batch_bytes_def)

lemma payloads_fit_Cons [simp]: "payloads_fit ((code, p) # cmds) \<longleftrightarrow> length p < 2 ^ 31 \<and> payloads_fit cmds"
  by (simp add: payloads_fit_def)

lemma check_framed:
  assumes "sz \<le> length bytes" "drop position (take sz bytes) = batch_bytes cmds" "payloads_fit cmds" "position \<le> sz"
  shows "batch_check unserialize complete (Some bytes) sz request position =
    Some (preflight_all unserialize complete request position cmds)"
  using assms
proof (induction cmds arbitrary: position request)
  case Nil
  then have "position = sz" by simp
  then show ?case by (simp add: batch_check.simps next_done)
next
  case (Cons cmd cmds)
  obtain code p where cmd: "cmd = (code, p)" by (cases cmd)
  have f: "drop position (take sz bytes) = frame (code, p) @ batch_bytes cmds" "length p < 2 ^ 31" "payloads_fit cmds"
    using Cons.prems(2,3) cmd by simp_all
  note n = next_on_frame [OF assms(1) f(1,2)]
  show ?case
    using Cons.IH [OF assms(1) n(2) f(3) n(3)]
    by (subst batch_check.simps) (simp add: n(1) cmd split: option.split prod.split bool.split)
qed

text \<open>What the first pass accepts is framed.\<close>

lemma check_accepts_framed:
  assumes "sz \<le> length bytes" "batch_check unserialize complete (Some bytes) sz request position = Some (True, request')"
  shows "\<exists>cmds. drop position (take sz bytes) = batch_bytes cmds \<and> payloads_fit cmds \<and> position \<le> sz"
  using assms(2)
proof (induction "sz - position" arbitrary: position request rule: less_induct)
  case less
  obtain step position' ch where n: "vt_request_batch_next (Some bytes) sz position = Some (step, position', ch)"
    using less.prems by (subst (asm) batch_check.simps) (auto split: option.splits)
  show ?case
  proof (cases "step = VT_REQUEST_BATCH_CHUNK \<and> ch \<noteq> None")
    case True
    then obtain chunk where c: "step = VT_REQUEST_BATCH_CHUNK" "ch = Some chunk" by auto
    obtain s where rest: "batch_check unserialize complete (Some bytes) sz (request\<lparr>vr_state := s\<rparr>) position' = Some (True, request')"
      using less.prems n c
      by (subst (asm) batch_check.simps) (auto split: option.splits prod.splits bool.splits)
    obtain p r where f: "drop position (take sz bytes) = frame (chunk_requestCode chunk, p) @ r" "length p < 2 ^ 31"
      "position' = position + 8 + length p" using next_chunk_frame [OF assms(1)] n c by metis
    note g = next_on_frame [OF assms(1) f(1,2)]
    have "sz - position' < sz - position" using batch_next_advances n c by (metis diff_less_mono2 less_le_trans)
    from less.hyps [OF this rest] obtain cmds where cs: "drop position' (take sz bytes) = batch_bytes cmds" "payloads_fit cmds" by blast
    have "drop position (take sz bytes) = batch_bytes ((chunk_requestCode chunk, p) # cmds)"
      using f(1,3) g(2) cs(1) by simp
    moreover have "payloads_fit ((chunk_requestCode chunk, p) # cmds)" using f(2) cs(2) by simp
    moreover have "position \<le> sz" using g(3) by simp
    ultimately show ?thesis by blast
  next
    case False
    then have "step = VT_REQUEST_BATCH_DONE"
      using less.prems n by (subst (asm) batch_check.simps) (auto split: VtRequestBatchStep.splits option.splits)
    then have "position = sz"
      using n by (auto simp: vt_request_batch_next_def Let_def bind_eq_Some_conv split: if_splits)
    then show ?thesis by (intro exI [of _ "[]"]) (simp add: payloads_fit_def)
  qed
qed

lemma check_returns:
  assumes "sz \<le> length bytes"
  shows "batch_check unserialize complete (Some bytes) sz request position \<noteq> None"
proof (induction "sz - position" arbitrary: position request rule: less_induct)
  case less
  have sl: "slice bytes position 4 \<noteq> None" "slice bytes (position + 4) 4 \<noteq> None" if "position \<le> sz" "8 \<le> sz - position"
    using that assms by (auto simp: slice_def)
  have "vt_request_batch_next (Some bytes) sz position \<noteq> None"
    using sl by (auto simp: vt_request_batch_next_def Let_def not_less bind_eq_None_conv)
  then obtain step position' ch where n: "vt_request_batch_next (Some bytes) sz position = Some (step, position', ch)" by auto
  have "step = VT_REQUEST_BATCH_CHUNK \<Longrightarrow> sz - position' < sz - position"
    using batch_next_advances n by (metis diff_less_mono2 less_le_trans)
  then show ?case
    using less.hyps n by (subst batch_check.simps) (auto split: option.split prod.split bool.split VtRequestBatchStep.split)
qed

lemma run_framed:
  assumes "sz \<le> length bytes" "drop position (take sz bytes) = batch_bytes cmds" "payloads_fit cmds" "position \<le> sz" "sz < 2 ^ 64"
  shows "batch_run run complete bytes sz position s c = run_all run complete bytes position cmds s c"
  using assms
proof (induction cmds arbitrary: position s c)
  case Nil
  then have "position = sz" by simp
  then show ?case by (subst batch_run.simps) simp
next
  case (Cons cmd cmds)
  obtain code p where cmd: "cmd = (code, p)" by (cases cmd)
  have f: "drop position (take sz bytes) = frame (code, p) @ batch_bytes cmds" "length p < 2 ^ 31" "payloads_fit cmds"
    using Cons.prems(2,3) cmd by simp_all
  note n = next_on_frame [OF assms(1) f(1,2)]
  have "int32 (int (length p))" using f(2) by (simp add: int32_def)
  from int32_read [OF this] have l: "sint (word_of_nat (length p) :: u32) = int (length p)" by simp
  note rd = message_header_read [of code "int (length p)"]
  have lt: "position < sz" using n(3) by simp
  have m: "nat (int (length p) mod 18446744073709551616) = length p" using f(2) by (simp add: nat_mod_as_int)
  have pos': "(position + 8 + length p) mod 18446744073709551616 = position + 8 + length p" using n(3) assms(5) by simp
  show ?case
    using Cons.IH [OF assms(1) n(2) f(3) n(3) assms(5)] lt
    by (subst batch_run.simps) (simp add: cmd n(4,5) rd l m pos' HEADER_SIZE_def split: Option.bind_split prod.split)
qed

lemma run_all_returns:
  assumes "fst (preflight_all unserialize complete request position cmds)" "\<And>h s c. run h s c \<noteq> None"
  shows "run_all run complete bytes position cmds s c \<noteq> None"
  using assms(1)
proof (induction cmds arbitrary: request position s c)
  case (Cons cmd cmds)
  obtain code p where cmd: "cmd = (code, p)" by (cases cmd)
  obtain handler where h: "getHandleRequestFunc complete (ucast code) = Some handler"
    using Cons.prems cmd by (auto split: option.splits)
  obtain st where pre: "fst (preflight_all unserialize complete (request\<lparr>vr_state := st\<rparr>) (position + 8 + length p) cmds)"
    using Cons.prems cmd by (auto split: option.splits prod.splits bool.splits)
  have "Option.bind (run handler s d) (\<lambda>(s', c'). run_all run complete bytes (position + 8 + length p) cmds s' c') \<noteq> None" for d
    using assms(2) [of handler s d] Cons.IH [OF pre] by auto
  then show ?case using cmd h by simp
qed simp

section \<open>The batch\<close>

text \<open>C4: A batch of commands runs only when all of it is good. Either the input is, after the token, a sequence of framed
  commands each of which its decoder accepts exactly: then the commands run in order, each on its own payload, until the
  context closes; or no command runs and the context is stopped. Both passes return.\<close>

theorem batch_runs_only_validated:
  assumes "rc_inputBuffer c = Some bytes" "0 \<le> rc_inputBufferSize c" "rc_inputBufferSize c < 2 ^ 31"
    and "nat (rc_inputBufferSize c) \<le> length bytes" "\<And>h s c. run h s c \<noteq> None"
  shows "(\<exists>cmds request1 s c1. 8 \<le> rc_inputBufferSize c \<and>
      drop 8 (take (nat (rc_inputBufferSize c)) bytes) = batch_bytes cmds \<and> payloads_fit cmds \<and>
      preflight_all unserialize complete request 8 cmds = (True, request1) \<and>
      run_all run complete bytes 8 cmds (vr_state request1) c = Some (s, c1) \<and>
      record_batch unserialize run complete request c = Some (\<not> VkContext_isClosing (Some (rc_context c1)), request1\<lparr>vr_state := s\<rparr>,
        c1\<lparr>rc_inputBuffer := rc_inputBuffer c, rc_inputAt := rc_inputAt c, rc_inputBufferSize := rc_inputBufferSize c\<rparr>)) \<or>
    (\<exists>request1. record_batch unserialize run complete request c = Some (False, request1, vt_request_protocol_error c) \<and>
      (rc_inputBufferSize c < 8 \<or>
       (\<forall>cmds. drop 8 (take (nat (rc_inputBufferSize c)) bytes) = batch_bytes cmds \<and> payloads_fit cmds \<longrightarrow>
          \<not> fst (preflight_all unserialize complete request 8 cmds))))"
proof -
  define sz where "sz = nat (rc_inputBufferSize c)"
  have m: "nat (rc_inputBufferSize c mod 2 ^ 64) = sz" using assms(2,3) by (simp add: sz_def)
  have len: "sz \<le> length bytes" "sz < 2 ^ 64" using assms(3,4) by (simp_all add: sz_def)
  note rb = record_batch_def [of unserialize run complete request c, unfolded m VK_HANDLE_BYTE_COUNT_def Let_def]
  show ?thesis
  proof (cases "sz < 8")
    case True
    then have "rc_inputBufferSize c < 8" using assms(2) by (simp add: sz_def)
    then show ?thesis using True rb by simp
  next
    case False
    then have eight: "8 \<le> sz" "8 \<le> rc_inputBufferSize c" by (simp_all add: sz_def)
    obtain ok request1 where chk: "batch_check unserialize complete (Some bytes) sz request 8 = Some (ok, request1)"
      using check_returns [OF len(1), of unserialize complete request 8] by auto
    show ?thesis
    proof (cases ok)
      case True
      obtain cmds where f: "drop 8 (take sz bytes) = batch_bytes cmds" "payloads_fit cmds"
        using check_accepts_framed [OF len(1), of unserialize complete request 8 request1] chk True by auto
      have pre: "preflight_all unserialize complete request 8 cmds = (True, request1)"
        using check_framed [OF len(1) f eight(1), of unserialize complete request] chk True by simp
      have "run_all run complete bytes 8 cmds (vr_state request1) c \<noteq> None"
        by (rule run_all_returns [where request = request and unserialize = unserialize, OF _ assms(5)]) (simp add: pre)
      then obtain s c1 where run: "run_all run complete bytes 8 cmds (vr_state request1) c = Some (s, c1)" by auto
      have "batch_run run complete bytes sz 8 (vr_state request1) c = Some (s, c1)"
        unfolding run_framed [OF len(1) f eight(1) len(2)] by (rule run)
      then have "record_batch unserialize run complete request c = Some (\<not> VkContext_isClosing (Some (rc_context c1)),
          request1\<lparr>vr_state := s\<rparr>,
          c1\<lparr>rc_inputBuffer := rc_inputBuffer c, rc_inputAt := rc_inputAt c, rc_inputBufferSize := rc_inputBufferSize c\<rparr>)"
        using rb chk True False assms(1) by simp
      then show ?thesis using f pre run eight unfolding sz_def by blast
    next
      case bad: False
      then have "record_batch unserialize run complete request c = Some (False, request1, vt_request_protocol_error c)"
        using rb chk False assms(1) by simp
      moreover have "\<not> fst (preflight_all unserialize complete request 8 cmds)"
        if "drop 8 (take sz bytes) = batch_bytes cmds \<and> payloads_fit cmds" for cmds
        using check_framed [OF len(1) _ _ eight(1), of cmds unserialize complete request] that chk bad
        by (metis fst_conv option.inject)
      ultimately show ?thesis unfolding sz_def by blast
    qed
  qed
qed

text \<open>A batch of one command, \<^verbatim>\<open>vkCmdEndRenderPass\<close>, without payload.\<close>

definition one_command :: "u8 list" where
  "one_command = replicate 8 0 @ message_header 235 0"

definition batch_context :: RequestContext where
  "batch_context = \<lparr>rc_context = \<lparr>cx_status = 0, cx_closing = False, cx_contextGeneration = 7, cx_handleAuthority = None,
       cx_serverRing = None, cx_clientRing = None, extraDataRequests = [], pendingExtraDataBytes = 0, pendingExtraDataCount = 0,
       seenExtraDataRequestIds = []\<rparr>, rc_next = 4, rc_nullDescriptorEnabled = False, rc_inputBuffer = Some one_command, rc_inputAt = 0,
     rc_inputBufferSize = 16, rc_memoryPool = \<lparr>mp_data = None, mp_size = 0, mp_list = \<lparr>al_size = 0, al_capacity = 0, al_elements = []\<rparr>\<rparr>, rc_events = []\<rparr>"

definition batch_request :: VtRequestDecode where
  "batch_request = \<lparr>vr_state = zero_state\<lparr>dec_request := one_command\<rparr>, vr_data = 0, vr_size = 16, vr_publication = no_publication\<rparr>"

theorem batch_runs_only_validated_witness:
  "\<exists>r c. record_batch (\<lambda>_ cursor s. (True, cursor, s)) (\<lambda>_ s c. Some (s, c)) True batch_request batch_context = Some (True, r, c)"
proof -
  let ?u = "\<lambda>_ cursor s. (True, cursor, s)" and ?run = "\<lambda>_ s c. Some (s, c)"
  have handler: "getHandleRequestFunc True 235 = Some ''vkCmdEndRenderPass''"
    by (simp add: getHandleRequestFunc_def REQUEST_CODE_VK_CALL_START_def REQUEST_CODE_VK_CALL_COUNT_def
        handleRequestFuncs_def handleRequestFuncs_low_def handleRequestFuncs_high_def)
  have listed: "''vkCmdEndRenderPass'' \<in> set preflight_commands"
    by (simp add: preflight_commands_def preflight_commands_b_def)
  have pre: "preflight_all ?u True batch_request 8 [(235, [])] = (True, batch_request)"
    by (simp add: handler listed vt_request_preflight_command_def vt_request_decode_pass_begin_def batch_request_def zero_state_def
        chunk_request_def vt_decode_finished_def vt_decode_ok_def zero_cursor_def neg32_def)
  have input: "drop 8 (take (nat (rc_inputBufferSize batch_context)) one_command) = batch_bytes [(235, [])]" "payloads_fit [(235, [])]"
    by (simp_all add: batch_context_def one_command_def frame_def payloads_fit_def)
  have hyps: "rc_inputBuffer batch_context = Some one_command" "0 \<le> rc_inputBufferSize batch_context"
    "rc_inputBufferSize batch_context < 2 ^ 31" "nat (rc_inputBufferSize batch_context) \<le> length one_command"
    by (simp_all add: batch_context_def one_command_def)
  have keep: "run_all ?run True one_command position cmds s c = Some (s', c') \<Longrightarrow> rc_context c' = rc_context c"
    for position cmds s c s' c'
    by (induction cmds arbitrary: position s c) (auto simp: bind_eq_Some_conv split: if_splits)
  from batch_runs_only_validated [OF hyps, of ?run ?u True batch_request]
  consider cmds request1 s c1 d where
      "run_all ?run True one_command 8 cmds (vr_state request1) batch_context = Some (s, c1)"
      "record_batch ?u ?run True batch_request batch_context =
         Some (\<not> VkContext_isClosing (Some (rc_context c1)), request1\<lparr>vr_state := s\<rparr>, d)"
    | "rc_inputBufferSize batch_context < 8"
    | "\<not> fst (preflight_all ?u True batch_request 8 [(235, [])])"
    using input by blast
  then show ?thesis
  proof cases
    case 1
    have "\<not> VkContext_isClosing (Some (rc_context c1))"
      unfolding keep [OF 1(1)] by (simp add: batch_context_def VkContext_isClosing_def)
    then show ?thesis using 1(2) by auto
  next
    case 2
    then show ?thesis by (simp add: batch_context_def)
  next
    case 3
    then show ?thesis unfolding pre by simp
  qed
qed

end
