(* ===== verification/Batch_Handlers.thy ===== *)
theory Batch_Handlers
  imports Handler_Replies Handler_Uses Batch_Properties
begin

text \<open>
  The batch of \<open>Request_Batch\<close> with the handlers of \<open>Handlers_Command\<close>: what a command leaves for the next one, and what a whole
  batch does.
\<close>

section \<open>Between the commands\<close>

text \<open>A command leaves the registry as it was, or the context stopped.\<close>

definition keeps :: "step \<Rightarrow> bool" where
  "keeps k \<longleftrightarrow> (\<forall>q q'. k q = Some q' \<longrightarrow> stopping (rq_context q') \<or>
     authority (rq_context q') = authority (rq_context q) \<and> rc_next (rq_context q') = rc_next (rq_context q))"

definition handler_keeps :: "request_handler \<Rightarrow> bool" where
  "handler_keeps h \<longleftrightarrow> (\<forall>e batch c s c'. h e batch c = Some (s, c') \<longrightarrow>
     stopping c' \<or> authority c' = authority c \<and> rc_next c' = rc_next c)"

named_theorems keep_rules

lemma keeps_ends [keep_rules]: "keeps Some" "keeps (\<lambda>_. None)" "keeps protocol_error"
  by (auto simp: keeps_def protocol_error_def)

lemma keeps_if [keep_rules]: "keeps k \<Longrightarrow> keeps m \<Longrightarrow> keeps (if x then k else m)"
  "keeps k \<Longrightarrow> keeps m \<Longrightarrow> keeps (\<lambda>q. if x then k q else m q)"
  by (cases x; simp)+

lemma keeps_continues:
  assumes "continues m K" "\<And>k. K k \<Longrightarrow> keeps k"
  shows "keeps m"
  using assms unfolding keeps_def continues_def outcome_def stops_def plain_def by metis

lemma keeps_plain [keep_rules]:
  "(\<And>v s. keeps (k1 v s)) \<Longrightarrow> keeps (VT_REQUEST_DECODE e name args k1)"
  "(\<And>place. keeps (k2 place)) \<Longrightarrow> keeps (VT_REQUEST_ARRAY e count sz k2)"
  "keeps k3 \<Longrightarrow> keeps (VT_REQUEST_SCOPE_AT offset type role k3)"
  "(\<And>h. keeps (k4 h)) \<Longrightarrow> keeps (VT_REQUEST_HANDLE token type role ri rd an k4)"
  by (rule keeps_continues [OF decode_continues] keeps_continues [OF array_continues] keeps_continues [OF scope_continues]
        keeps_continues [OF handle_continues]; auto)+

lemma keeps_vulkan [keep_rules]:
  assumes "\<And>a. keeps (k a)"
  shows "keeps (vulkan e name args k)" "keeps (component e name args k)"
proof -
  have "stopping (rq_context q') \<or> authority (rq_context q') = authority (rq_context q) \<and> rc_next (rq_context q') = rc_next (rq_context q)"
    if run: "vulkan e name args k q = Some q'" for q q'
  proof -
    have "k (env_driver e name args (events q)) (emitted [Called name args] q) = Some q'" using run by (simp add: vulkan_def)
    then have "stopping (rq_context q') \<or> authority (rq_context q') = authority (rq_context (emitted [Called name args] q)) \<and>
        rc_next (rq_context q') = rc_next (rq_context (emitted [Called name args] q))"
      using assms unfolding keeps_def by blast
    then show ?thesis by (simp add: emitted_def on_context_def)
  qed
  then show "keeps (vulkan e name args k)" by (simp add: keeps_def)
  then show "keeps (component e name args k)" by (simp add: component_def)
qed

lemma handler_keepsI:
  assumes "\<And>e batch c. \<exists>k. h e batch c = VT_REQUEST_BEGIN batch c k \<and> keeps k"
  shows "handler_keeps h"
  unfolding handler_keeps_def
proof (intro allI impI)
  fix e batch c s c' assume run: "h e batch c = Some (s, c')"
  from assms obtain k where k: "h e batch c = VT_REQUEST_BEGIN batch c k" "keeps k" by blast
  from run k(1) obtain ok request q where q:
    "(if ok then k else protocol_error) \<lparr>rq_request = request, rq_context = c\<rparr> = Some q" "c' = rq_context q"
    by (auto simp: VT_REQUEST_BEGIN_def bind_eq_Some_conv)
  have "keeps (if ok then k else protocol_error)" using k(2) keeps_ends(3) by simp
  from this [unfolded keeps_def, rule_format, OF q(1)] show "stopping c' \<or> authority c' = authority c \<and> rc_next c' = rc_next c"
    using q(2) by simp
qed

lemma keeps_beginI: "keeps k \<Longrightarrow> \<exists>k'. VT_REQUEST_BEGIN batch c k = VT_REQUEST_BEGIN batch c k' \<and> keeps k'"
  by blast

lemma recording_handlers_a_keep: "\<forall>(name, h) \<in> set recording_handlers_a. handler_keeps h"
  unfolding recording_handlers_a_def list.set ball_simps split_conv
  by (intro conjI TrueI; rule handler_keepsI, unfold recording_handlers_a_text Let_def, rule keeps_beginI, (rule keep_rules)+)

lemma recording_handlers_b_keep: "\<forall>(name, h) \<in> set recording_handlers_b. handler_keeps h"
  unfolding recording_handlers_b_def list.set ball_simps split_conv
  by (intro conjI TrueI; rule handler_keepsI, unfold recording_handlers_b_text Let_def, rule keeps_beginI, (rule keep_rules)+)

lemma recording_handlers_c_keep: "\<forall>(name, h) \<in> set recording_handlers_c. handler_keeps h"
  unfolding recording_handlers_c_def list.set ball_simps split_conv
  by (intro conjI TrueI; rule handler_keepsI, unfold recording_handlers_c_text Let_def, rule keeps_beginI, (rule keep_rules)+)

lemma recording_handlers_keep: "\<forall>(name, h) \<in> set recording_handlers. handler_keeps h"
  using recording_handlers_a_keep recording_handlers_b_keep recording_handlers_c_keep by (auto simp: recording_handlers_def)

section \<open>A command\<close>

text \<open>The handlers that a batch runs.\<close>

definition command_handler :: "request_env \<Rightarrow> handler" where
  "command_handler e name s c = (case map_of recording_handlers name of None \<Rightarrow> None | Some h \<Rightarrow> h e (Some s) c)"

text \<open>What a part of the batch does from a context with this registry on: commands on registered handles, and no response.\<close>

definition recorded :: "request_env \<Rightarrow> RequestContext \<Rightarrow> RequestContext \<Rightarrow> RequestContext \<Rightarrow> bool" where
  "recorded e c0 c c' \<longleftrightarrow> (\<exists>es. rc_events c' = rc_events c @ es \<and> responses es = 0 \<and>
     (\<forall>name args. Called name args \<in> set es \<longrightarrow> records_registered e c0 name args))"

definition same_registry :: "RequestContext \<Rightarrow> RequestContext \<Rightarrow> bool" where
  "same_registry c c' \<longleftrightarrow> authority c' = authority c \<and> rc_next c' = rc_next c"

lemma recorded_refl: "rc_events c' = rc_events c \<Longrightarrow> recorded e c0 c c'"
  by (simp add: recorded_def)

lemma recorded_trans: "recorded e c0 c c1 \<Longrightarrow> recorded e c0 c1 c2 \<Longrightarrow> recorded e c0 c c2"
  unfolding recorded_def by (elim exE conjE) (auto intro!: exI)

lemma records_same: "authority c' = authority c \<Longrightarrow> records_registered e c' = records_registered e c"
  by (simp add: records_registered_def uses_registered_def usable_def registered_def fun_eq_iff)

lemma handler_of_name: "map_of hs name = Some h \<Longrightarrow> \<forall>(name, h) \<in> set hs. P h \<Longrightarrow> P h"
  by (auto dest: map_of_SomeD)

lemma command_recorded:
  assumes "command_handler e name s c = Some (s', c')" "same_registry c0 c" "\<forall>r. authority c0 = Some r \<longrightarrow> sane r (rc_next c0)"
  shows "recorded e c0 c c' \<and> (stopping c' \<or> same_registry c0 c')"
proof -
  obtain h where h: "map_of recording_handlers name = Some h" "h e (Some s) c = Some (s', c')"
    using assms(1) by (auto simp: command_handler_def split: option.splits)
  have u: "handler_acts records_registered h" by (rule handler_of_name [OF h(1) recording_handlers_use])
  have r: "handler_replies {0} h" by (rule handler_of_name [OF h(1) recording_handlers_reply])
  have k: "handler_keeps h" by (rule handler_of_name [OF h(1) recording_handlers_keep])
  have s: "\<forall>r. authority c = Some r \<longrightarrow> sane r (rc_next c)" using assms(2,3) by (simp add: same_registry_def)
  obtain es where es: "rc_events c' = rc_events c @ es" "\<And>name args. Called name args \<in> set es \<Longrightarrow> records_registered e c name args"
    using u [unfolded handler_acts_def, rule_format, OF s [rule_format] h(2)] by blast
  obtain fs where fs: "rc_events c' = rc_events c @ fs" "responses fs = 0"
    using r h(2) unfolding handler_replies_def replied_def by blast
  have "records_registered e c = records_registered e c0" using assms(2) by (intro records_same) (simp add: same_registry_def)
  then have "recorded e c0 c c'" unfolding recorded_def using es fs by (intro exI [of _ es]) auto
  moreover have "stopping c' \<or> same_registry c0 c'"
    using k h(2) assms(2) unfolding handler_keeps_def same_registry_def by metis
  ultimately show ?thesis ..
qed

section \<open>The batch\<close>

lemma batch_recorded:
  assumes "batch_run (command_handler e) complete bytes sz position s c = Some (s', c')"
    and "same_registry c0 c" "\<forall>r. authority c0 = Some r \<longrightarrow> sane r (rc_next c0)"
  shows "recorded e c0 c c' \<and> (stopping c' \<or> same_registry c0 c')"
proof -
  let ?P = "\<lambda>run complete bytes sz position s c result. run = command_handler e \<longrightarrow> same_registry c0 c \<or> stopping c \<longrightarrow>
      recorded e c0 c (snd result) \<and> (stopping (snd result) \<or> same_registry c0 (snd result))"
  have "?P run complete bytes sz position s c result" if "batch_run run complete bytes sz position s c = Some result"
    for run complete bytes sz position s c result
    using that
  proof (rule batch_run.raw_induct [where P = ?P, rotated])
    fix self run complete and bytes :: "u8 list" and sz position :: nat and s c result
    assume hyp: "\<And>run complete bytes sz position s c result. self run complete bytes sz position s c = Some result \<Longrightarrow>
        ?P run complete bytes sz position s c result"
      and step: "(if position < sz \<and> \<not> stopping c then do {
        code \<leftarrow> slice bytes position 4;
        payload \<leftarrow> slice bytes (position + 4) 4;
        handler \<leftarrow> getHandleRequestFunc complete (ucast (word_of_nat (of_le_bytes code) :: u32));
        (s', c') \<leftarrow> run handler s (c\<lparr>rc_inputBuffer := Some (drop (position + HEADER_SIZE) bytes),
          rc_inputAt := int (position + HEADER_SIZE), rc_inputBufferSize := sint (word_of_nat (of_le_bytes payload) :: u32)\<rparr>);
        self run complete bytes sz ((position + HEADER_SIZE + nat (sint (word_of_nat (of_le_bytes payload) :: u32) mod 2 ^ 64)) mod 2 ^ 64) s' c' }
        else Some (s, c)) = Some result"
    show "?P run complete bytes sz position s c result"
    proof (intro impI)
      assume run: "run = command_handler e" and start: "same_registry c0 c \<or> stopping c"
      show "recorded e c0 c (snd result) \<and> (stopping (snd result) \<or> same_registry c0 (snd result))"
      proof (cases "position < sz \<and> \<not> stopping c")
        case True
        then obtain handler c2 s1 c1 at where h: "command_handler e handler s c2 = Some (s1, c1)"
          and c2: "authority c2 = authority c" "rc_next c2 = rc_next c" "rc_events c2 = rc_events c"
          and rest: "self run complete bytes sz at s1 c1 = Some result"
          using step unfolding run by (auto simp: bind_eq_Some_conv)
        have "same_registry c0 c2" using start True c2(1,2) by (simp add: same_registry_def)
        from command_recorded [OF h this assms(3)] have "recorded e c0 c2 c1" "same_registry c0 c1 \<or> stopping c1" by auto
        moreover have "recorded e c0 c1 (snd result) \<and> (stopping (snd result) \<or> same_registry c0 (snd result))"
          using hyp [OF rest] run calculation(2) by blast
        moreover have "recorded e c0 c c2" using c2(3) by (rule recorded_refl)
        ultimately show ?thesis using recorded_trans by blast
      next
        case False
        then show ?thesis using step start by (auto simp: recorded_refl)
      qed
    qed
  qed
  then show ?thesis using assms(1,2) by fastforce
qed

lemma record_batch_recorded:
  assumes "record_batch unserialize (command_handler e) complete request c = Some (ok, request', c')"
    and "\<forall>r. authority c = Some r \<longrightarrow> sane r (rc_next c)"
  shows "recorded e c c c' \<and> (ok \<longrightarrow> same_registry c c')"
proof -
  let ?sz = "nat (rc_inputBufferSize c mod 2 ^ 64)"
  have same: "same_registry c c" by (simp add: same_registry_def)
  have start: "recorded e c c (vt_request_protocol_error c)" by (simp add: recorded_refl)
  show ?thesis
  proof (cases "?sz < VK_HANDLE_BYTE_COUNT")
    case True
    then show ?thesis using assms(1) start by (auto simp: record_batch_def)
  next
    case False
    note run = assms(1) [unfolded record_batch_def Let_def if_not_P [OF False]]
    then obtain checked request1 where chk: "batch_check unserialize complete (rc_inputBuffer c) ?sz request VK_HANDLE_BYTE_COUNT =
        Some (checked, request1)"
      by (auto simp: bind_eq_Some_conv)
    show ?thesis
    proof (cases checked)
      case True
      obtain bytes s1 c1 where b: "batch_run (command_handler e) complete bytes ?sz VK_HANDLE_BYTE_COUNT (vr_state request1) c = Some (s1, c1)"
        and c': "c' = c1\<lparr>rc_inputBuffer := rc_inputBuffer c, rc_inputAt := rc_inputAt c, rc_inputBufferSize := rc_inputBufferSize c\<rparr>"
        and ok: "ok = (\<not> stopping c1)"
        using run unfolding chk by (auto simp: True bind_eq_Some_conv)
      from batch_recorded [OF b same assms(2)] show ?thesis
        unfolding c' ok by (auto simp: recorded_def same_registry_def)
    next
      case False
      then show ?thesis using run start unfolding chk by auto
    qed
  qed
qed

end
