(* ===== verification/Handler_Properties.thy ===== *)
theory Handler_Properties
  imports Batch_Handlers
begin

text \<open>
  What all handlers do: how often they answer, which handles they hand to the driver, and both for a batch of commands.
\<close>

section \<open>Answers\<close>

text \<open>Every handler with the numbers of responses it may send.\<close>

definition modelled_handlers :: "(string \<times> nat set \<times> request_handler) list" where
  "modelled_handlers =
     map (\<lambda>(name, h). (name, {0}, h)) (recording_handlers @ silent_handlers) @
     map (\<lambda>(name, h). (name, {1}, h)) answering_handlers @
     map (\<lambda>(name, h). (name, {0, 1}, h)) waiting_handlers"

text \<open>C3: A handler answers as its request expects. The handler of a call with a result sends exactly one response, on every path on
  which the context goes on; a handler that records a command or destroys an object sends none, and that of a submission one or none.
  Where it does not answer so, it has stopped the context and sent nothing.\<close>

theorem handlers_answer:
  assumes "(name, N, h) \<in> set modelled_handlers" "h e batch c = Some (s, c')"
  shows "\<exists>es. rc_events c' = rc_events c @ es \<and> (responses es \<in> N \<or> stopping c' \<and> responses es = 0)"
proof -
  have "handler_replies N h"
    using assms(1) recording_handlers_reply silent_handlers_reply answering_handlers_reply waiting_handlers_reply
    by (auto simp: modelled_handlers_def)
  then show ?thesis using assms(2) unfolding handler_replies_def replied_def by blast
qed

section \<open>Handles\<close>


section \<open>Batches\<close>


section \<open>Witnesses\<close>

definition with_commands :: VortekHandleRegistry where
  "with_commands = sys_reg (with_vulkan VK_OBJECT_TYPE_COMMAND_BUFFER 48 (owner_of 1 2 0) small)"



definition play_env :: request_env where
  "play_env = \<lparr>env_context = \<lparr>has_vkDeviceWaitIdle = True, textureDecoder_images = None\<rparr>, env_member = \<lambda>_ _. 0, env_memory = id,
     env_module = id, env_memory_fd = \<lambda>_. - 1, env_swapchain_images = \<lambda>_. [],
     env_unserialize = \<lambda>name args c cursor s. \<lparr>dc_ok = True, dc_cursor = cursor\<lparr>cur_ptr := cur_end cursor\<rparr>, dc_state = s,
       dc_pool = rc_memoryPool c, dc_value = \<lambda>_. 3, dc_bytes = \<lambda>_. []\<rparr>,
     env_sizeof = \<lambda>_ _. 0, env_serialize = \<lambda>_ _ _. 0,
     env_driver = \<lambda>_ _ _. \<lparr>drv_result = 0, drv_value = \<lambda>_. 0, drv_bytes = \<lambda>_. [], drv_handles = \<lambda>_ _. 0\<rparr>,
     env_calloc = \<lambda>_. True, env_realloc = \<lambda>_. True, env_malloc = \<lambda>_. None, env_mallocs = \<lambda>_. (None, None), env_ring = \<lambda>_ r _. r,
     env_polls = \<lambda>_ _. Ring_Buffer.PollTimeout, env_clientFd = 5, env_vkMaxVersion = 4206592, env_sendmsg = \<lambda>_. 4\<rparr>"

definition play_context :: "u8 list \<Rightarrow> RequestContext" where
  "play_context input = \<lparr>rc_context = \<lparr>cx_status = 0, cx_closing = False, cx_contextGeneration = 7,
       cx_handleAuthority = Some with_commands, cx_serverRing = None,
       cx_clientRing = Some \<lparr>ring_head = 0, ring_tail = 0, ring_status = 1, ring_buffer = replicate 16 0, ring_bufferSize = 16, ring_peerFd = - 1\<rparr>,
       extraDataRequests = [], pendingExtraDataBytes = 0, pendingExtraDataCount = 0, seenExtraDataRequestIds = []\<rparr>,
     rc_next = 4, rc_nullDescriptorEnabled = False, rc_inputBuffer = Some input, rc_inputAt = 0,
     rc_inputBufferSize = int (length input), rc_memoryPool = \<lparr>mp_data = None, mp_size = 0, mp_list = \<lparr>al_size = 0, al_capacity = 0, al_elements = []\<rparr>\<rparr>, rc_events = []\<rparr>"

lemma begin_play:
  "length input < 1024 \<Longrightarrow> vt_request_decode_begin None (play_context input) =
     Some (True, Some \<lparr>vr_state = zero_state\<lparr>dec_request := input, dec_fail_allocation_after := - 1, dec_has_resolver := True,
         dec_context_generation := 7\<rparr>,
       vr_data = 0, vr_size = word_of_nat (length input), vr_publication = no_publication\<rparr>)"
  by (simp add: vt_request_decode_begin_def play_context_def vt_decode_cursor_init_def VT_DECODE_MAX_REQUEST_BYTES_def
      vt_decode_set_handle_resolver_def vt_decode_set_null_descriptor_enabled_def zero_state_def Let_def unat_of_nat word_less_nat_alt)

lemmas begin_empty = begin_play [of "[]", simplified]

lemmas decode_play_defs = zero_cursor_def set_state_def on_request_def on_context_def emitted_def vt_decode_finished_def vt_decode_ok_def
  neg32_def

text \<open>A query of the version.\<close>

theorem handlers_answer_witness:
  "\<exists>s c'. vt_handle_vkEnumerateInstanceVersion play_env None (play_context []) = Some (s, c') \<and> responses (rc_events c') = 1"
proof -
  have listed: "(''vkEnumerateInstanceVersion'', {1}, vt_handle_vkEnumerateInstanceVersion) \<in> set modelled_handlers"
    by (simp add: modelled_handlers_def answering_handlers_def answering_handlers_b_def)
  have "\<exists>s c'. vt_handle_vkEnumerateInstanceVersion play_env None (play_context []) = Some (s, c') \<and> \<not> stopping c'"
    unfolding vt_handle_vkEnumerateInstanceVersion_def VT_REQUEST_BEGIN_def begin_empty
    by (simp add: VT_REQUEST_DECODE_def
        vt_request_decode_pass_begin_def play_env_def zero_state_def decode_play_defs VT_REQUEST_SEND_def vt_request_send_response_def
        play_context_def Let_def vt_transport_payload_fits_def CLIENT_RING_BUFFER_SIZE_def HEADER_SIZE_def VT_TRANSPORT_HEADER_SIZE_def
        RingBuffer_writeFrame_def RingBuffer_waitForWrite_def ring_wait_loop.simps RingBuffer_freeSpace_def RingBuffer_size_def
        RingBuffer_getTail_def RingBuffer_getHead_def vt_request_commit_response_def VkContext_isClosing_def le_bytes_def)
  then obtain s c' where run: "vt_handle_vkEnumerateInstanceVersion play_env None (play_context []) = Some (s, c')" "\<not> stopping c'" by blast
  then show ?thesis using handlers_answer [OF listed run(1)] by (auto simp: play_context_def)
qed






end
