(* ===== verification/Spec2Isabelle.thy ===== *)
theory Spec2Isabelle
  imports Authority_Reclaim Registry_Guarantees Window_Bindings Decode_Properties Ring_Properties Pool_Machine
    ArrayMap_Refinement Deque_Refinement Array_Properties Safe_Lane Swapchain_Transaction String_Properties
    X_Stream_Properties Async_Properties Shader_Properties Extra_Data Transport_Properties
    Resource_Properties Window_Properties Request_Tables Handler_Properties
begin

text \<open>
  \<^bold>\<open>The native core of Pocket Realm: a model and its proofs.\<close>

  \<^bold>\<open>The program.\<close> Pocket Realm runs a Windows game on Android. The guest talks X11 to a display server and Vulkan to a
  server that owns the real driver. Both servers are C under \<^verbatim>\<open>src/native/xserver-winlator/cpp\<close>; the Vulkan server is
  its directory \<^verbatim>\<open>vortekrenderer\<close>. A guest writes a request into a ring in shared memory; a thread of the server's context
  reads it, decodes it, replaces the handles in it through a registry, and calls the driver. Long calls move to a thread pool
  and answer over descriptors of their own. The guest is not trusted: what it sends is checked by the decoder, the
  handles it names by the registry, its shaders by the admission check; the shader inspector then rewrites them for what the
  device lacks.

  \<^bold>\<open>The parts and their theories.\<close>

  \<^item> \<^bold>\<open>Handle registry\<close> (\<^verbatim>\<open>src/handle_registry.c\<close>): \<open>Handle_Types\<close> has its data, \<open>Token_Index\<close> the open-addressing index,
    \<open>Handle_Registry\<close> the critical sections all operations share, \<open>Registry_Api\<close> registration, lookup, retirement and
    batches, \<open>Registry_Lease\<close> leases, retirement of devices and instances, window bindings and the drain.
    \<open>Registry_Invariant\<close>, \<open>Registry_Effects\<close> and \<open>Registry_Machine\<close> hold the invariant, what an operation does to the
    table, and the step relation in which any client calls any operation. \<open>Registry_View\<close> is the abstract registry, a map from
    tokens to objects. The properties are in \<open>Registry_Properties\<close>, \<open>Registry_Guarantees\<close>, \<open>Window_Bindings\<close> and, for the
    loop of \<^verbatim>\<open>vk_context.c\<close> that drains the registry into the driver, \<open>Authority_Reclaim\<close>.
  \<^item> \<^bold>\<open>Wire decoder\<close> (\<^verbatim>\<open>src/vortek_decode.c\<close>): \<open>Decode\<close> has its operations, \<open>Decode_Machine\<close> what they keep, and
    \<open>Decode_Properties\<close> runs any sequence of calls on nested cursors, the way the generated serializers use it.
  \<^item> \<^bold>\<open>Shared ring\<close> (\<^verbatim>\<open>src/ring_buffer.c\<close>): \<open>Ring_Buffer\<close>, with the interleaving of the two sides in \<open>Ring_Machine\<close>, and
    \<open>Ring_Properties\<close>.
  \<^item> \<^bold>\<open>Thread pool\<close> (\<^verbatim>\<open>include/thread_pool.h\<close>): \<open>Thread_Pool\<close>, and in \<open>Pool_Machine\<close> any interleaving of submitters,
    workers and the destruction.
  \<^item> \<^bold>\<open>Containers\<close> (\<^verbatim>\<open>src/arrays.c\<close>): \<open>Arrays\<close> and \<open>Containers\<close> over checked blocks, \<open>Array_Lemmas\<close>, and the refinements
    \<open>Map_Refinement\<close>, \<open>ArrayMap_Refinement\<close>, \<open>Deque_Refinement\<close> and \<open>Array_Properties\<close>.
  \<^item> \<^bold>\<open>Strings and memory\<close> (\<^verbatim>\<open>include/string_utils.h\<close>): \<open>String_Utils\<close>, \<open>String_Properties\<close>.
  \<^item> \<^bold>\<open>Shader admission\<close> (\<^verbatim>\<open>src/vortek_safe_lane.c\<close>): \<open>Safe_Lane\<close>.
  \<^item> \<^bold>\<open>Shader inspector\<close> (\<^verbatim>\<open>src/shader_inspector.c\<close>): \<open>Shader_Code\<close> has the constants and the searches, \<open>Shader_Rewrite\<close> the
    formats, insertion and removal of words, \<open>Shader_Inspector\<close> the rewrite of vertex shaders, \<open>Shader_Stages\<close> that of fragment
    shaders, the creation of modules and the stages of a pipeline. The lemmas treat a module as a list of whole
    instructions: \<open>Shader_Walk\<close> (searches), \<open>Shader_Edits\<close> (edits in place), \<open>Shader_Merge\<close> (insertion), \<open>Shader_Vertex\<close>,
    \<open>Shader_Fragment\<close>. The properties are in \<open>Shader_Properties\<close>; they exclude the rewrite of the point size, which a module
    there makes hang.
  \<^item> \<^bold>\<open>Swapchain transaction\<close> (\<^verbatim>\<open>include/xwindow_swapchain_transaction.h\<close>): \<open>Swapchain_Transaction\<close>.
  \<^item> \<^bold>\<open>Sockets and X streams\<close> (\<^verbatim>\<open>include/socket_utils.h\<close>, \<^verbatim>\<open>src/xinput_stream.c\<close>, \<^verbatim>\<open>src/xoutput_stream.c\<close>):
    \<open>Socket_IO\<close>, \<open>X_Streams\<close>, \<open>X_Stream_Properties\<close>.
  \<^item> \<^bold>\<open>Asynchronous requests\<close> (\<^verbatim>\<open>src/timeline_semaphore.c\<close>, \<^verbatim>\<open>src/async_pipeline_creator.c\<close>): \<open>Async_Requests\<close>,
    \<open>Async_Properties\<close>.
  \<^item> \<^bold>\<open>Context and large requests\<close> (\<^verbatim>\<open>src/vk_context.c\<close>): \<open>Vk_Context\<close> has the generations, the stop, the leases and the
    queue of requests whose data come over the socket, \<open>Extra_Data\<close> any interleaving of readers, request thread and stop.
  \<^item> \<^bold>\<open>Transport\<close> (\<^verbatim>\<open>include/vortek.h\<close>, \<^verbatim>\<open>include/vortek_transport_contract.h\<close>): \<open>Transport\<close> has the memory pool and the
    sending and receiving of messages over the ring, \<open>Transport_Properties\<close> what they guarantee.
  \<^item> \<^bold>\<open>Mapped memory\<close> (\<^verbatim>\<open>src/resource_memory.c\<close>, \<^verbatim>\<open>include/dma_utils.h\<close>): \<open>Memory_Types\<close> searches the memory types of the
    device and allocates shareable blocks, \<open>Resource_Memory\<close> allocates and frees mapped memory, with the events of driver
    and kernel as a trace, and \<open>Resource_Properties\<close> accounts for them.
  \<^item> \<^bold>\<open>Window swapchain\<close> (\<^verbatim>\<open>src/xwindow_swapchain.c\<close>): \<open>Window_Swapchain\<close> gives the transaction its callbacks,
    \<open>Window_Properties\<close> interprets the laws of the callbacks and accounts for images, memory, references and blocks.

  \<^item> \<^bold>\<open>Wrapped objects\<close> (\<^verbatim>\<open>src/vk_object.c\<close>): \<open>Vk_Object\<close> has the objects behind ids with their cache, and the
    operations of the handle authority, which are those of the registry.
  \<^item> \<^bold>\<open>Requests\<close> (\<^verbatim>\<open>src/request_handler.c\<close>, \<^verbatim>\<open>include/request_handler.h\<close>, \<^verbatim>\<open>include/request_codes.h\<close>): \<open>Request_Codes\<close> has the
    tables of codes, handlers and batch commands, \<open>Request_Decode\<close> the beginning of a request and the resolving and retiring of
    its handles, \<open>Request_Output\<close> publication and responses, \<open>Request_Batch\<close> the two passes over recorded commands,
    \<open>Request_Macros\<close> the macros the handlers are written in. \<open>Handlers_Object\<close>, \<open>Handlers_Command\<close>, \<open>Handlers_Command_More\<close> and
    \<open>Handlers_Special\<close> are the handlers of 221 calls, \<open>Handler_Tables\<close> lists them by how they answer. The properties are in
    \<open>Request_Tables\<close>, \<open>Request_Scope\<close>, \<open>Batch_Properties\<close> and \<open>Handler_Properties\<close>.

  \<^bold>\<open>How the parts meet.\<close> A request goes through the transport into the input buffer of its context; its code picks a handler.
  The handler decodes with the operations of the wire decoder, resolves and publishes handles with those of the registry, calls the
  driver and answers over the ring or the socket. \<open>Request_Decode\<close> and \<open>Request_Output\<close> use the models of decoder, registry, ring
  and socket as they are, so the properties of the handlers speak of the registry that the other theories are about:
  \<open>Handler_Properties\<close> assumes of it only \<open>sane\<close>, which \<open>Registry_Machine\<close> proves of every reachable registry.

  \<^bold>\<open>Handlers as text.\<close> A macro of the handlers may return from the function it stands in. Its definition takes the rest of the
  handler as its last argument, a function of the variables it declares, so a definition of a handler has the lines of its source in
  their order. The generated serializers, the driver and the parts with models of their own (texture decoder, swapchains) are fields of
  an environment; what a handler does outside is a trace of events in its context. A claim about all handlers has one rule per macro
  (\<open>Request_Rules\<close>, \<open>Request_Replies\<close>, \<open>Request_Uses\<close>, and for batches \<open>Batch_Handlers\<close>), and its proof for a handler applies them
  along the text (\<open>Handler_Replies\<close>, \<open>Handler_Uses\<close>).

  \<^bold>\<open>How code becomes definitions.\<close> A structure is a record, an enumeration a datatype, and a definition has the name of the
  C function it translates; a loop has a name of its own next to its function. State is passed explicitly, and what the
  surroundings answer (the driver, the kernel, the allocator, the clock) is an argument: a function, a record of answers, or a
  list with one entry per call. Integers whose overflow matters are words of their width; sizes that only index are natural numbers. \<^const>\<open>None\<close> as
  the outer result is undefined behaviour of the C program (an access outside a block, an overlapping \<^verbatim>\<open>memcpy\<close>, signed
  overflow of a size) or a call that does not return; a theorem that an operation returns \<^const>\<open>Some\<close> therefore says
  that it is safe and ends. Where the code allocates without a test, allocation succeeds in the model; where it tests, failure is an answer.
  A function that holds a mutex is one step of its machine; one that waits is split where it waits. \<open>hashCode\<close> is taken to wrap.

  \<^bold>\<open>What the lemmas show.\<close> For each component with a state: an invariant that every operation keeps, the exact
  result of the operations on every branch, and, for the containers, the ring and the token counter, the refinement of an
  abstract object, stated through locales that the model's own definitions interpret (the store interface of the
  batches, the finite-map and deque interfaces). Machines quantify over every interleaving of their
  steps. Termination is proved with the result, never assumed.

  \<^bold>\<open>Bounds.\<close> The open-addressing probe has at most as many turns as the index has slots; the reclaim loop has a fuel that is
  proved to be enough from the number of live entries; the wait loops take a list of observations and return once it is
  long enough, and the bounds are stated. Containers are treated up to $2^{30}$ cells, below the range of \<^verbatim>\<open>int\<close>.

  \<^bold>\<open>Not modelled.\<close> The generated serializers, which are code over the wire decoder; 32 handlers, most of which filter what the
  driver reports, bind windows through JNI or write through pointers of decoded structures; the loop that reads requests and
  the creation of contexts; drawing, images, JNI glue, epoll and epoll threads; the OpenGL renderer; the vendored virglrenderer and the
  upstream copy of the Vulkan server; the launchers; the C++ and Kotlin parts. The manifest lists each with its reason.
\<close>

end
